(* ===== verification/Js_Prelude.thy ===== *)
theory Js_Prelude
  imports Complex_Main "HOL-Library.Code_Target_Numeral" "HOL-Library.Multiset"
begin

text \<open>
  Shared ground of the development: JavaScript strings and the list lemmas the
  components use.

  A JavaScript string is a sequence of UTF-16 code units, so a string is modelled as
  a list of naturals (\<open>jsstr\<close>); \<open>lit\<close> turns an ASCII literal into such a list. Every
  operation here (\<open>trim\<close>, \<open>split\<close>, \<open>join\<close>, \<open>includes\<close>, \<open>startsWith\<close>, \<open>slice\<close>,
  \<open>toLowerCase\<close>) is the String method of the same name on that representation. The
  Unicode case table is carried for ASCII and Latin-1 and for the two letter-like
  signs whose lower case is Latin-1 (U+212A, U+212B); other code units are left alone.

  Thrown exceptions are values of \<open>jserr\<close>, and a computation that can throw has a type
  \<open>'a res\<close>, with \<open>Inl\<close> for the exception.
\<close>

section \<open>Strings\<close>

type_synonym jsstr = "nat list"

definition lit :: "string \<Rightarrow> jsstr" where
  "lit s = map of_char s"

named_theorems lit_simps \<open>unfolds string literals to their code units\<close>

lemma lit_Nil [simp, lit_simps]: "lit [] = []"
  by (simp add: lit_def)

lemma lit_Cons [lit_simps]: "lit (c # cs) = of_char c # lit cs"
  by (simp add: lit_def)

lemma lit_eq_iff [simp]: "lit a = lit b \<longleftrightarrow> a = b"
  unfolding lit_def by (simp add: inj_on_def)

lemma lit_eq_Nil_iff [simp]: "lit a = [] \<longleftrightarrow> a = []"
  by (simp add: lit_def)

lemma lit_append: "lit (a @ b) = lit a @ lit b"
  by (simp add: lit_def)

subsection \<open>Characters\<close>

definition is_digit :: "nat \<Rightarrow> bool" where
  "is_digit c \<longleftrightarrow> 48 \<le> c \<and> c \<le> 57"

text \<open>WhiteSpace and LineTerminator of ECMAScript, what \<open>String.prototype.trim\<close> strips
  and what the class \<open>\s\<close> matches.\<close>

definition is_ws :: "nat \<Rightarrow> bool" where
  "is_ws c \<longleftrightarrow> (9 \<le> c \<and> c \<le> 13) \<or> c = 32 \<or> c = 160 \<or> c = 5760 \<or>
     (8192 \<le> c \<and> c \<le> 8202) \<or> c = 8232 \<or> c = 8233 \<or> c = 8239 \<or> c = 8287 \<or>
     c = 12288 \<or> c = 65279"

text \<open>LineTerminator, what the class \<open>.\<close> does not match without the \<open>s\<close> flag.\<close>

definition is_line_term :: "nat \<Rightarrow> bool" where
  "is_line_term c \<longleftrightarrow> c = 10 \<or> c = 13 \<or> c = 8232 \<or> c = 8233"

definition lower_unit :: "nat \<Rightarrow> nat" where
  "lower_unit c =
     (if (65 \<le> c \<and> c \<le> 90) \<or> (192 \<le> c \<and> c \<le> 222 \<and> c \<noteq> 215) then c + 32
      else if c = 8490 then 107 else if c = 8491 then 229 else c)"

definition to_lower :: "jsstr \<Rightarrow> jsstr" where
  "to_lower = map lower_unit"

subsection \<open>Trimming\<close>

definition trim_start :: "jsstr \<Rightarrow> jsstr" where
  "trim_start = dropWhile is_ws"

definition trim :: "jsstr \<Rightarrow> jsstr" where
  "trim s = rev (dropWhile is_ws (rev (dropWhile is_ws s)))"

definition trimmed :: "jsstr \<Rightarrow> bool" where
  "trimmed s \<longleftrightarrow> s = [] \<or> (\<not> is_ws (hd s) \<and> \<not> is_ws (last s))"

lemma trim_Nil [simp]: "trim [] = []"
  by (simp add: trim_def)

lemma trim_id: "trimmed s \<Longrightarrow> trim s = s"
  unfolding trimmed_def trim_def
  by (metis dropWhile_eq_self_iff hd_rev rev.simps(1) rev_rev_ident)

lemma trimmed_Nil [simp]: "trimmed []"
  by (simp add: trimmed_def)

lemma trimmed_trim [simp]: "trimmed (trim s)"
proof (cases "trim s = []")
  case False
  define a where "a = dropWhile is_ws s"
  define b where "b = dropWhile is_ws (rev a)"
  have b: "trim s = rev b" "b \<noteq> []"
    using False by (simp_all add: trim_def a_def b_def)
  have hb: "\<not> is_ws (hd b)"
    using b(2) unfolding b_def by (rule hd_dropWhile)
  obtain c where c: "rev a = c @ b"
    unfolding b_def by (metis takeWhile_dropWhile_id)
  have "a = rev b @ rev c"
    by (metis c rev_append rev_rev_ident)
  then have "hd a = hd (rev b)" "a \<noteq> []"
    using b(2) by auto
  moreover have "a \<noteq> [] \<Longrightarrow> \<not> is_ws (hd a)"
    unfolding a_def by (rule hd_dropWhile)
  ultimately show ?thesis
    using b hb by (simp add: trimmed_def last_rev)
qed simp

lemma trim_idem [simp]: "trim (trim s) = trim s"
  by (rule trim_id) simp

lemma trimmed_append:
  "trimmed a \<Longrightarrow> trimmed b \<Longrightarrow> a \<noteq> [] \<Longrightarrow> b \<noteq> [] \<Longrightarrow> trimmed (a @ m @ b)"
  by (auto simp: trimmed_def)

lemma trim_Cons_ws: "is_ws c \<Longrightarrow> trim (c # s) = trim s"
  by (simp add: trim_def)

lemma trim_set_subset: "set (trim s) \<subseteq> set s"
  unfolding trim_def by (metis set_dropWhileD set_rev subsetI)

subsection \<open>Prefixes, suffixes, substrings\<close>

text \<open>\<open>strip_prefix p s\<close> is what is left of \<open>s\<close> after the prefix \<open>p\<close>, if \<open>s\<close> starts
  with it.\<close>

fun strip_prefix :: "jsstr \<Rightarrow> jsstr \<Rightarrow> jsstr option" where
  "strip_prefix [] s = Some s"
| "strip_prefix (p # ps) [] = None"
| "strip_prefix (p # ps) (c # cs) = (if p = c then strip_prefix ps cs else None)"

lemma strip_prefix_append [simp]: "strip_prefix p (p @ s) = Some s"
  by (induction p) auto

lemma strip_prefix_self [simp]: "strip_prefix p p = Some []"
  using strip_prefix_append [of p "[]"] by simp

lemma strip_prefix_Some_iff: "strip_prefix p s = Some r \<longleftrightarrow> s = p @ r"
  by (induction p s rule: strip_prefix.induct) auto

definition strip_suffix :: "jsstr \<Rightarrow> jsstr \<Rightarrow> jsstr option" where
  "strip_suffix p s = map_option rev (strip_prefix (rev p) (rev s))"

lemma strip_suffix_append [simp]: "strip_suffix p (s @ p) = Some s"
  by (simp add: strip_suffix_def)

lemma strip_suffix_Some_iff: "strip_suffix p s = Some r \<longleftrightarrow> s = r @ p"
  by (auto simp: strip_suffix_def strip_prefix_Some_iff) (metis rev_append rev_rev_ident)

definition starts_with :: "jsstr \<Rightarrow> jsstr \<Rightarrow> bool" where
  "starts_with s p \<longleftrightarrow> strip_prefix p s \<noteq> None"

definition ends_with :: "jsstr \<Rightarrow> jsstr \<Rightarrow> bool" where
  "ends_with s p \<longleftrightarrow> strip_suffix p s \<noteq> None"

lemma starts_with_iff: "starts_with s p \<longleftrightarrow> (\<exists>r. s = p @ r)"
  by (auto simp: starts_with_def strip_prefix_Some_iff)

lemma ends_with_iff: "ends_with s p \<longleftrightarrow> (\<exists>r. s = r @ p)"
  by (auto simp: ends_with_def strip_suffix_Some_iff)

text \<open>\<open>s.includes(sub)\<close>\<close>

fun str_includes :: "jsstr \<Rightarrow> jsstr \<Rightarrow> bool" where
  "str_includes [] sub = (sub = [])"
| "str_includes (c # cs) sub = (starts_with (c # cs) sub \<or> str_includes cs sub)"

lemma str_includes_iff: "str_includes s sub \<longleftrightarrow> (\<exists>a b. s = a @ sub @ b)"
proof (induction s)
  case (Cons c cs)
  note IH = Cons.IH
  show ?case
  proof
    assume "str_includes (c # cs) sub"
    then consider r where "c # cs = sub @ r" | a b where "cs = a @ sub @ b"
      using IH by (auto simp: starts_with_iff)
    then show "\<exists>a b. c # cs = a @ sub @ b"
    proof cases
      case 1
      then show ?thesis by (intro exI [of _ "[]"] exI [of _ r]) simp
    next
      case 2
      then show ?thesis by (intro exI [of _ "c # a"] exI [of _ b]) simp
    qed
  next
    assume "\<exists>a b. c # cs = a @ sub @ b"
    then obtain a b where ab: "c # cs = a @ sub @ b" by blast
    show "str_includes (c # cs) sub"
    proof (cases a)
      case Nil
      with ab have "starts_with (c # cs) sub" by (auto simp: starts_with_iff)
      then show ?thesis by simp
    next
      case (Cons x xs)
      with ab have "cs = xs @ sub @ b" by simp
      then show ?thesis using IH by auto
    qed
  qed
qed auto

subsection \<open>Splitting and joining\<close>

text \<open>\<open>s.split(c)\<close> for a one-unit separator.\<close>

fun split_char :: "nat \<Rightarrow> jsstr \<Rightarrow> jsstr list" where
  "split_char d [] = [[]]"
| "split_char d (c # cs) =
     (if c = d then [] # split_char d cs
      else case split_char d cs of [] \<Rightarrow> [[c]] | p # ps \<Rightarrow> (c # p) # ps)"

text \<open>\<open>parts.join(sep)\<close>\<close>

fun join :: "jsstr \<Rightarrow> jsstr list \<Rightarrow> jsstr" where
  "join sep [] = []"
| "join sep [p] = p"
| "join sep (p # q # ps) = p @ sep @ join sep (q # ps)"

lemma split_char_not_Nil [simp]: "split_char d s \<noteq> []"
  by (induction s) (auto split: list.splits)

lemma split_char_no_sep: "d \<notin> set s \<Longrightarrow> split_char d s = [s]"
  by (induction s) auto

lemma split_char_append_sep:
  "d \<notin> set p \<Longrightarrow> split_char d (p @ d # s) = p # split_char d s"
  by (induction p) auto

lemma join_Cons_ne: "ps \<noteq> [] \<Longrightarrow> join sep (p # ps) = p @ sep @ join sep ps"
  by (cases ps) auto

lemma split_char_join:
  "(\<And>p. p \<in> set ps \<Longrightarrow> d \<notin> set p) \<Longrightarrow> ps \<noteq> [] \<Longrightarrow> split_char d (join [d] ps) = ps"
proof (induction ps)
  case (Cons p ps)
  then show ?case
    by (cases ps) (auto simp: split_char_no_sep split_char_append_sep)
qed simp

lemma join_split_char [simp]: "join [d] (split_char d s) = s"
proof (induction s)
  case (Cons c cs)
  then show ?case
    by (cases "split_char d cs"; cases "tl (split_char d cs)")
      (auto simp: neq_Nil_conv split: list.splits)
qed simp

lemma split_char_parts: "p \<in> set (split_char d s) \<Longrightarrow> d \<notin> set p"
  by (induction s arbitrary: p) (force split: list.splits if_splits)+

subsection \<open>Decimal digits of a natural number\<close>

fun nat_digits :: "nat \<Rightarrow> jsstr" where
  "nat_digits n = (if n < 10 then [48 + n] else nat_digits (n div 10) @ [48 + n mod 10])"

declare nat_digits.simps [simp del]

definition digits_val :: "jsstr \<Rightarrow> nat" where
  "digits_val = foldl (\<lambda>v c. 10 * v + (c - 48)) 0"

lemma digits_val_snoc: "digits_val (s @ [c]) = 10 * digits_val s + (c - 48)"
  by (simp add: digits_val_def)

lemma digits_val_nat_digits [simp]: "digits_val (nat_digits n) = n"
proof (induction n rule: nat_digits.induct)
  case (1 n)
  then show ?case
    by (subst nat_digits.simps) (simp add: digits_val_snoc, simp add: digits_val_def)
qed

lemma nat_digits_not_Nil [simp]: "nat_digits n \<noteq> []"
  by (subst nat_digits.simps) simp

lemma nat_digits_digit: "c \<in> set (nat_digits n) \<Longrightarrow> is_digit c"
proof (induction n arbitrary: c rule: nat_digits.induct)
  case (1 n)
  then show ?case
    by (subst (asm) (2) nat_digits.simps) (auto simp: is_digit_def split: if_splits)
qed

lemma nat_digits_inj: "nat_digits a = nat_digits b \<longleftrightarrow> a = b"
  by (metis digits_val_nat_digits)

section \<open>Exceptions\<close>

text \<open>The exceptions the modelled code can raise: those of the language, and \<open>new Error(m)\<close>
  with its message.\<close>

datatype jserr = SyntaxError | TypeError | RangeError | JsError jsstr

type_synonym 'a res = "jserr + 'a"

section \<open>Lists\<close>

text \<open>\<open>Array.from(new Set(xs))\<close>: the distinct elements, each at its first position.\<close>

fun uniq :: "'a list \<Rightarrow> 'a list" where
  "uniq [] = []"
| "uniq (x # xs) = x # filter (\<lambda>y. y \<noteq> x) (uniq xs)"

lemma set_uniq [simp]: "set (uniq xs) = set xs"
  by (induction xs) auto

lemma distinct_uniq [simp]: "distinct (uniq xs)"
  by (induction xs) auto

lemma uniq_id: "distinct xs \<Longrightarrow> uniq xs = xs"
  by (induction xs) (auto intro: filter_True)

lemma uniq_idem [simp]: "uniq (uniq xs) = uniq xs"
  by (rule uniq_id) simp

text \<open>\<open>xs.find(p)\<close> is \<^const>\<open>find\<close>; the element it returns is the first one that satisfies
  the predicate.\<close>

lemma find_SomeD: "find P xs = Some x \<Longrightarrow> x \<in> set xs \<and> P x"
  by (auto simp: find_Some_iff in_set_conv_nth)

section \<open>Interfaces shared by the components\<close>

text \<open>A normaliser of representations: it keeps what a representation denotes, its results
  are canonical, and canonical representations of the same thing are equal. The clients'
  facts, that normalising is idempotent and decides equality of denotations, follow.\<close>

locale normal_form =
  fixes valid :: "'r \<Rightarrow> bool" and nf :: "'r \<Rightarrow> 'r" and den :: "'r \<Rightarrow> 'd" and canonical :: "'r \<Rightarrow> bool"
  assumes nf_den: "valid x \<Longrightarrow> den (nf x) = den x"
    and nf_valid: "valid x \<Longrightarrow> valid (nf x)"
    and nf_canonical: "valid x \<Longrightarrow> canonical (nf x)"
    and canonical_unique: "valid x \<Longrightarrow> valid y \<Longrightarrow> canonical x \<Longrightarrow> canonical y \<Longrightarrow> den x = den y \<Longrightarrow> x = y"
begin

lemma nf_eq_iff: "valid x \<Longrightarrow> valid y \<Longrightarrow> nf x = nf y \<longleftrightarrow> den x = den y"
  by (metis nf_den nf_valid nf_canonical canonical_unique)

lemma nf_canonical_id: "valid x \<Longrightarrow> canonical x \<Longrightarrow> nf x = x"
  by (metis nf_den nf_valid nf_canonical canonical_unique)

lemma nf_idem: "valid x \<Longrightarrow> nf (nf x) = nf x"
  by (metis nf_canonical nf_valid nf_canonical_id)

end

text \<open>A printer with its parser: what is printed is read back.\<close>

locale codec =
  fixes valid :: "'a \<Rightarrow> bool" and enc :: "'a \<Rightarrow> 'b" and dec :: "'b \<Rightarrow> 'a option"
  assumes dec_enc: "valid x \<Longrightarrow> dec (enc x) = Some x"
begin

lemma enc_eq_iff: "valid x \<Longrightarrow> valid y \<Longrightarrow> enc x = enc y \<longleftrightarrow> x = y"
  by (metis dec_enc option.inject)

lemma inj_on_enc: "inj_on enc {x. valid x}"
  by (rule inj_onI) (simp add: enc_eq_iff)

lemma dec_total_on_image: "valid x \<Longrightarrow> dec (enc x) \<noteq> None"
  by (simp add: dec_enc)

end

text \<open>A component that implements an abstract one: as long as its invariant holds, each event does to
  the abstraction of its state what the abstract component does. The same then holds for every
  sequence of events.\<close>

locale functional_refinement =
  fixes inv :: "'s \<Rightarrow> bool" and absf :: "'s \<Rightarrow> 'a" and step :: "'s \<Rightarrow> 'e \<Rightarrow> 's" and astep :: "'a \<Rightarrow> 'e \<Rightarrow> 'a"
  assumes inv_step: "inv s \<Longrightarrow> inv (step s e)"
    and abs_step: "inv s \<Longrightarrow> absf (step s e) = astep (absf s) e"
begin

lemma inv_run: "inv s \<Longrightarrow> inv (foldl step s es)"
  by (induction es arbitrary: s) (simp_all add: inv_step)

lemma abs_run: "inv s \<Longrightarrow> absf (foldl step s es) = foldl astep (absf s) es"
  by (induction es arbitrary: s) (simp_all add: inv_step abs_step)

end

section \<open>Sorting with a comparison function\<close>

text \<open>\<open>xs.sort(cmp)\<close> with \<open>lt a b\<close> for \<open>cmp(a, b) < 0\<close>: stable insertion, which every stable sort
  agrees with when the comparison is a weak order.\<close>

fun insert_by :: "('a \<Rightarrow> 'a \<Rightarrow> bool) \<Rightarrow> 'a \<Rightarrow> 'a list \<Rightarrow> 'a list" where
  "insert_by lt x [] = [x]"
| "insert_by lt x (y # ys) = (if lt y x then y # insert_by lt x ys else x # y # ys)"

definition sort_by :: "('a \<Rightarrow> 'a \<Rightarrow> bool) \<Rightarrow> 'a list \<Rightarrow> 'a list" where
  "sort_by lt xs = foldr (insert_by lt) xs []"

lemma mset_insert_by [simp]: "mset (insert_by lt x ys) = add_mset x (mset ys)"
  by (induction ys) auto

lemma mset_sort_by [simp]: "mset (sort_by lt xs) = mset xs"
  by (induction xs) (auto simp: sort_by_def)

lemma set_sort_by [simp]: "set (sort_by lt xs) = set xs"
  by (metis mset_sort_by set_mset_mset)

lemma sort_by_simps [simp]: "sort_by lt [] = []" "sort_by lt (x # xs) = insert_by lt x (sort_by lt xs)"
  by (simp_all add: sort_by_def)

lemma length_sort_by [simp]: "length (sort_by lt xs) = length xs"
  by (metis mset_sort_by size_mset)

lemma insert_by_map:
  "(\<And>a b. a \<in> insert x (set ys) \<Longrightarrow> b \<in> insert x (set ys) \<Longrightarrow> lt (g a) (g b) = lt a b) \<Longrightarrow>
   insert_by lt (g x) (map g ys) = map g (insert_by lt x ys)"
  by (induction ys) auto

lemma sort_by_map:
  "(\<And>a b. a \<in> set xs \<Longrightarrow> b \<in> set xs \<Longrightarrow> lt (g a) (g b) = lt a b) \<Longrightarrow>
   sort_by lt (map g xs) = map g (sort_by lt xs)"
  by (induction xs) (auto intro!: insert_by_map)

lemma set_insert_by [simp]: "set (insert_by lt x ys) = insert x (set ys)"
  by (induction ys) auto

lemma insert_by_desc:
  fixes key :: "'a \<Rightarrow> 'b :: linorder"
  assumes "\<And>a b. a \<in> insert x (set ys) \<Longrightarrow> b \<in> insert x (set ys) \<Longrightarrow> lt a b \<longleftrightarrow> key b < key a"
    "sorted_wrt (\<lambda>a b. key b \<le> key a) ys"
  shows "sorted_wrt (\<lambda>a b. key b \<le> key a) (insert_by lt x ys)"
  using assms
proof (induction ys)
  case (Cons y ys)
  have "lt y x \<longleftrightarrow> key x < key y" using Cons.prems(1) by simp
  moreover have "sorted_wrt (\<lambda>a b. key b \<le> key a) (insert_by lt x ys)"
    using Cons.prems by (intro Cons.IH) auto
  ultimately show ?case using Cons.prems(2) by (force simp: not_less intro: order_trans)
qed simp

lemma sort_by_desc:
  fixes key :: "'a \<Rightarrow> 'b :: linorder"
  assumes "\<And>a b. a \<in> set xs \<Longrightarrow> b \<in> set xs \<Longrightarrow> lt a b \<longleftrightarrow> key b < key a"
  shows "sorted_wrt (\<lambda>a b. key b \<le> key a) (sort_by lt xs)"
  using assms by (induction xs) (auto intro!: insert_by_desc)

lemma distinct_sort_by [simp]: "distinct (sort_by lt xs) = distinct xs"
  by (metis mset_sort_by mset_eq_imp_distinct_iff)

text \<open>Adding to a \<open>Set\<close>, and \<open>sort()\<close> without a comparison: by code units.\<close>

definition set_add :: "'a list \<Rightarrow> 'a \<Rightarrow> 'a list" where
  "set_add xs x = (if x \<in> set xs then xs else xs @ [x])"

fun units_less :: "jsstr \<Rightarrow> jsstr \<Rightarrow> bool" where
  "units_less s [] = False"
| "units_less [] (b # bs) = True"
| "units_less (a # as) (b # bs) = (a < b \<or> (a = b \<and> units_less as bs))"

lemma foldl_set_add: "distinct (foldl set_add a xs) = distinct a" "set (foldl set_add a xs) = set a \<union> set xs"
  by (induction xs arbitrary: a) (auto simp: set_add_def)

end
