(* ===== verification/Js_Number.thy ===== *)
theory Js_Number
  imports Js_Prelude
begin

text \<open>
  JavaScript numbers. A Number is an IEEE 754 binary64 value: a NaN, an infinity or a
  finite dyadic rational. Arithmetic is exact rational arithmetic followed by \<open>rnd\<close>,
  round-to-nearest-even into binary64 with overflow to infinity. The two zeros are one
  value here: \<open>String\<close>, \<open>JSON.stringify\<close>, comparisons and \<open>Number.isFinite\<close> do not tell
  them apart, and a quotient by either is infinite or NaN.

  The conversions the sources use are here too: \<open>Number(s)\<close>, \<open>parseFloat\<close>,
  \<open>parseInt(s, 10)\<close>, \<open>String(x)\<close> (the shortest decimal that reads back as the same value),
  \<open>x.toFixed(n)\<close>, \<open>Math.round\<close>, \<open>Math.floor\<close>, \<open>Math.abs\<close>, \<open>Math.sign\<close>.
\<close>

section \<open>Values and rounding\<close>

datatype jsnum = NaN | PInf | NInf | Fin rat

function bit_len :: "int \<Rightarrow> int" where
  "bit_len n = (if n \<le> 0 then 0 else 1 + bit_len (n div 2))"
  by pat_completeness auto
termination
  by (relation "measure nat") auto

declare bit_len.simps [simp del]

definition pow2 :: "int \<Rightarrow> rat" where
  "pow2 e = (if e \<ge> 0 then 2 ^ nat e else 1 / 2 ^ nat (- e))"

definition pow10 :: "int \<Rightarrow> rat" where
  "pow10 e = (if e \<ge> 0 then 10 ^ nat e else 1 / 10 ^ nat (- e))"

text \<open>\<open>ilog2 q\<close> is the exponent of the leading bit of a positive rational.\<close>

definition ilog2 :: "rat \<Rightarrow> int" where
  "ilog2 q = (case quotient_of q of (a, b) \<Rightarrow>
     let k = bit_len a - bit_len b in if pow2 k \<le> q then k else k - 1)"

definition round_even :: "rat \<Rightarrow> int" where
  "round_even x = (let f = \<lfloor>x\<rfloor>; d = x - of_int f in
     if d < 1 / 2 then f else if 1 / 2 < d then f + 1 else if even f then f else f + 1)"

text \<open>The result \<open>m \<sqdot> 2\<^sup>e\<close> overflows when its leading bit has exponent 1024 or more.\<close>

definition rnd :: "rat \<Rightarrow> jsnum" where
  "rnd q = (if q = 0 then Fin 0 else
     let e = max (ilog2 \<bar>q\<bar> - 52) (- 1074);
         m = round_even (q / pow2 e)
     in if 1024 < bit_len \<bar>m\<bar> + e then (if 0 < m then PInf else NInf)
        else Fin (of_int m * pow2 e))"

section \<open>Arithmetic and comparison\<close>

fun num_neg :: "jsnum \<Rightarrow> jsnum" where
  "num_neg NaN = NaN" | "num_neg PInf = NInf" | "num_neg NInf = PInf"
| "num_neg (Fin a) = Fin (- a)"

fun num_add :: "jsnum \<Rightarrow> jsnum \<Rightarrow> jsnum" where
  "num_add NaN _ = NaN" | "num_add _ NaN = NaN"
| "num_add PInf NInf = NaN" | "num_add NInf PInf = NaN"
| "num_add PInf _ = PInf" | "num_add _ PInf = PInf"
| "num_add NInf _ = NInf" | "num_add _ NInf = NInf"
| "num_add (Fin a) (Fin b) = rnd (a + b)"

definition num_sub :: "jsnum \<Rightarrow> jsnum \<Rightarrow> jsnum" where
  "num_sub a b = num_add a (num_neg b)"

definition signed_inf :: "rat \<Rightarrow> jsnum" where
  "signed_inf s = (if 0 < s then PInf else if s < 0 then NInf else NaN)"

fun num_mul :: "jsnum \<Rightarrow> jsnum \<Rightarrow> jsnum" where
  "num_mul NaN _ = NaN" | "num_mul _ NaN = NaN"
| "num_mul (Fin a) (Fin b) = rnd (a * b)"
| "num_mul PInf (Fin b) = signed_inf b" | "num_mul (Fin a) PInf = signed_inf a"
| "num_mul NInf (Fin b) = signed_inf (- b)" | "num_mul (Fin a) NInf = signed_inf (- a)"
| "num_mul PInf PInf = PInf" | "num_mul NInf NInf = PInf"
| "num_mul PInf NInf = NInf" | "num_mul NInf PInf = NInf"

fun num_div :: "jsnum \<Rightarrow> jsnum \<Rightarrow> jsnum" where
  "num_div NaN _ = NaN" | "num_div _ NaN = NaN"
| "num_div (Fin a) (Fin b) = (if b = 0 then signed_inf a else rnd (a / b))"
| "num_div (Fin a) _ = Fin 0"
| "num_div PInf (Fin b) = (if 0 \<le> b then PInf else NInf)"
| "num_div NInf (Fin b) = (if 0 \<le> b then NInf else PInf)"
| "num_div _ _ = NaN"

fun num_lt :: "jsnum \<Rightarrow> jsnum \<Rightarrow> bool" where
  "num_lt (Fin a) (Fin b) = (a < b)"
| "num_lt (Fin a) PInf = True" | "num_lt NInf (Fin b) = True" | "num_lt NInf PInf = True"
| "num_lt _ _ = False"

definition num_eq :: "jsnum \<Rightarrow> jsnum \<Rightarrow> bool" where
  "num_eq a b \<longleftrightarrow> a = b \<and> a \<noteq> NaN"

definition num_le :: "jsnum \<Rightarrow> jsnum \<Rightarrow> bool" where
  "num_le a b \<longleftrightarrow> num_lt a b \<or> num_eq a b"

fun is_finite :: "jsnum \<Rightarrow> bool" where
  "is_finite (Fin a) = True"
| "is_finite _ = False"

definition is_integer :: "jsnum \<Rightarrow> bool" where
  "is_integer x = (case x of Fin a \<Rightarrow> of_int \<lfloor>a\<rfloor> = a | _ \<Rightarrow> False)"

abbreviation num_of_int :: "int \<Rightarrow> jsnum" where
  "num_of_int i \<equiv> Fin (of_int i)"

abbreviation num_of_nat :: "nat \<Rightarrow> jsnum" where
  "num_of_nat n \<equiv> Fin (of_nat n)"

text \<open>\<open>Math.round\<close>, \<open>Math.floor\<close>, \<open>Math.abs\<close>, \<open>Math.sign\<close>, two-argument \<open>Math.max\<close> and
  \<open>Math.min\<close>.\<close>

fun math_round :: "jsnum \<Rightarrow> jsnum" where
  "math_round (Fin a) = Fin (of_int \<lfloor>a + 1 / 2\<rfloor>)"
| "math_round x = x"

fun math_floor :: "jsnum \<Rightarrow> jsnum" where
  "math_floor (Fin a) = Fin (of_int \<lfloor>a\<rfloor>)"
| "math_floor x = x"

fun math_abs :: "jsnum \<Rightarrow> jsnum" where
  "math_abs (Fin a) = Fin \<bar>a\<bar>"
| "math_abs NInf = PInf"
| "math_abs x = x"

fun math_sign :: "jsnum \<Rightarrow> jsnum" where
  "math_sign NaN = NaN" | "math_sign PInf = Fin 1" | "math_sign NInf = Fin (- 1)"
| "math_sign (Fin a) = Fin (sgn a)"

definition math_max :: "jsnum \<Rightarrow> jsnum \<Rightarrow> jsnum" where
  "math_max a b = (if a = NaN \<or> b = NaN then NaN else if num_lt a b then b else a)"

definition math_min :: "jsnum \<Rightarrow> jsnum \<Rightarrow> jsnum" where
  "math_min a b = (if a = NaN \<or> b = NaN then NaN else if num_lt b a then b else a)"

section \<open>Reading numbers\<close>

text \<open>The longest prefix that is a StrUnsignedDecimalLiteral, with what follows it:
  digits with an optional fraction, or a fraction alone, and an optional exponent.\<close>

definition scan_exp :: "jsstr \<Rightarrow> int \<times> jsstr" where
  "scan_exp s = (case s of
     [] \<Rightarrow> (0, s)
   | c # r \<Rightarrow>
       if c \<noteq> 101 \<and> c \<noteq> 69 then (0, s)
       else let (sg, r') = (case r of [] \<Rightarrow> (1, r)
                | d # q \<Rightarrow> if d = 43 then (1, q) else if d = 45 then (- 1, q) else (1, r))
            in if takeWhile is_digit r' = [] then (0, s)
               else (sg * int (digits_val (takeWhile is_digit r')), dropWhile is_digit r'))"

definition scan_unsigned :: "jsstr \<Rightarrow> (rat \<times> jsstr) option" where
  "scan_unsigned s =
     (let ip = takeWhile is_digit s; r1 = dropWhile is_digit s;
          fp = (case r1 of [] \<Rightarrow> [] | c # r \<Rightarrow> if c = 46 then takeWhile is_digit r else []);
          r2 = (case r1 of [] \<Rightarrow> r1 | c # r \<Rightarrow> if c = 46 then dropWhile is_digit r else r1)
      in if ip = [] \<and> fp = [] then None
         else case scan_exp r2 of (e, r3) \<Rightarrow>
           Some (of_nat (digits_val (ip @ fp)) * pow10 (e - int (length fp)), r3))"

definition scan_sign :: "jsstr \<Rightarrow> rat \<times> jsstr" where
  "scan_sign s = (case s of [] \<Rightarrow> (1, s)
     | c # r \<Rightarrow> if c = 45 then (- 1, r) else if c = 43 then (1, r) else (1, s))"

text \<open>\<open>parseFloat(s)\<close>: the longest numeric prefix after leading white space.\<close>

definition parse_float :: "jsstr \<Rightarrow> jsnum" where
  "parse_float s = (case scan_sign (trim_start s) of (sg, r) \<Rightarrow>
     if starts_with r (lit ''Infinity'') then (if sg = 1 then PInf else NInf)
     else (case scan_unsigned r of None \<Rightarrow> NaN | Some (q, _) \<Rightarrow> rnd (sg * q)))"

text \<open>\<open>parseInt(s, 10)\<close>: the digits after leading white space and an optional sign.\<close>

definition parse_int10 :: "jsstr \<Rightarrow> jsnum" where
  "parse_int10 s = (case scan_sign (trim_start s) of (sg, r) \<Rightarrow>
     if takeWhile is_digit r = [] then NaN
     else rnd (sg * of_nat (digits_val (takeWhile is_digit r))))"

definition hex_val :: "nat \<Rightarrow> nat option" where
  "hex_val c = (if 48 \<le> c \<and> c \<le> 57 then Some (c - 48)
     else if 97 \<le> c \<and> c \<le> 102 then Some (c - 87)
     else if 65 \<le> c \<and> c \<le> 70 then Some (c - 55) else None)"

fun radix_digits :: "nat \<Rightarrow> nat \<Rightarrow> jsstr \<Rightarrow> nat option" where
  "radix_digits b acc [] = Some acc"
| "radix_digits b acc (c # cs) = (case hex_val c of None \<Rightarrow> None
     | Some d \<Rightarrow> if d < b then radix_digits b (b * acc + d) cs else None)"

text \<open>\<open>Number(s)\<close> for a string: white space is trimmed, the empty string is 0, the whole rest
  must be a number.\<close>

definition radix_prefix :: "jsstr \<Rightarrow> (nat \<times> jsstr) option" where
  "radix_prefix t = (case t of
      a # b # r \<Rightarrow> if a \<noteq> 48 \<or> r = [] then None
        else if b = 120 \<or> b = 88 then Some (16, r)
        else if b = 111 \<or> b = 79 then Some (8, r)
        else if b = 98 \<or> b = 66 then Some (2, r) else None
    | _ \<Rightarrow> None)"

definition str_to_num :: "jsstr \<Rightarrow> jsnum" where
  "str_to_num s = (let t = trim s in
     if t = [] then Fin 0
     else (case radix_prefix t of
       Some (b, r) \<Rightarrow> (case radix_digits b 0 r of None \<Rightarrow> NaN | Some n \<Rightarrow> rnd (of_nat n))
     | None \<Rightarrow> (case scan_sign t of (sg, r) \<Rightarrow>
         if r = lit ''Infinity'' then (if sg = 1 then PInf else NInf)
         else (case scan_unsigned r of
           Some (q, []) \<Rightarrow> rnd (sg * q)
         | _ \<Rightarrow> NaN))))"

section \<open>Printing numbers\<close>

fun int_digits :: "int \<Rightarrow> jsstr" where
  "int_digits i = (if i < 0 then 45 # nat_digits (nat (- i)) else nat_digits (nat i))"

text \<open>\<open>dec_exp x\<close> is the \<open>n\<close> with \<open>10\<^sup>n\<^sup>-\<^sup>1 \<le> x < 10\<^sup>n\<close> of a positive rational.\<close>

definition dec_exp :: "rat \<Rightarrow> int" where
  "dec_exp x = (case quotient_of x of (a, b) \<Rightarrow>
     let k = int (length (int_digits a)) - int (length (int_digits b))
     in if pow10 k \<le> x then k + 1 else k)"

text \<open>The decimals \<open>m \<sqdot> 10\<^sup>e\<close> with at most \<open>k\<close> digits next to \<open>x\<close>, the closer first.\<close>

definition dec_candidates :: "rat \<Rightarrow> int \<Rightarrow> (int \<times> int) list" where
  "dec_candidates x k =
     (let e = dec_exp x - k; lo = \<lfloor>x / pow10 e\<rfloor>;
          dl = x - of_int lo * pow10 e; dh = of_int (lo + 1) * pow10 e - x
      in if dl < dh \<or> (dl = dh \<and> even lo) then [(lo, e), (lo + 1, e)]
         else [(lo + 1, e), (lo, e)])"

primrec search_decimal :: "rat \<Rightarrow> nat \<Rightarrow> int \<Rightarrow> int \<times> int" where
  "search_decimal x 0 k = hd (dec_candidates x k)"
| "search_decimal x (Suc n) k =
     (case find (\<lambda>(m, e). rnd (of_int m * pow10 e) = Fin x) (dec_candidates x k) of
        Some d \<Rightarrow> d
      | None \<Rightarrow> search_decimal x n (k + 1))"

text \<open>Seventeen digits always suffice for a binary64 value.\<close>

definition shortest_decimal :: "rat \<Rightarrow> int \<times> int" where
  "shortest_decimal x = search_decimal x 16 1"

function strip_zeros :: "int \<Rightarrow> int \<Rightarrow> int \<times> int" where
  "strip_zeros m e = (if 0 < m \<and> m mod 10 = 0 then strip_zeros (m div 10) (e + 1) else (m, e))"
  by pat_completeness auto
termination
  by (relation "measure (\<lambda>(m, e). nat m)") auto

declare strip_zeros.simps [simp del]

definition zeros :: "int \<Rightarrow> jsstr" where
  "zeros n = replicate (nat n) 48"

definition decimal_layout :: "jsstr \<Rightarrow> int \<Rightarrow> jsstr" where
  "decimal_layout ds n = (let k = int (length ds) in
     if k \<le> n \<and> n \<le> 21 then ds @ zeros (n - k)
     else if 0 < n \<and> n \<le> 21 then take (nat n) ds @ [46] @ drop (nat n) ds
     else if - 6 < n \<and> n \<le> 0 then lit ''0.'' @ zeros (- n) @ ds
     else take 1 ds @ (if k = 1 then [] else 46 # drop 1 ds) @ lit ''e'' @
       (if 0 \<le> n - 1 then lit ''+'' else []) @ int_digits (n - 1))"

definition pos_to_str :: "rat \<Rightarrow> jsstr" where
  "pos_to_str x = (case shortest_decimal x of (m0, e0) \<Rightarrow>
     case strip_zeros m0 e0 of (m, e) \<Rightarrow>
       let ds = int_digits m in decimal_layout ds (e + int (length ds)))"

text \<open>\<open>String(x)\<close> for a Number.\<close>

fun num_to_str :: "jsnum \<Rightarrow> jsstr" where
  "num_to_str NaN = lit ''NaN''"
| "num_to_str PInf = lit ''Infinity''"
| "num_to_str NInf = lit ''-Infinity''"
| "num_to_str (Fin x) =
     (if x = 0 then lit ''0'' else if x < 0 then 45 # pos_to_str (- x) else pos_to_str x)"

text \<open>\<open>x.toFixed(f)\<close>: the decimal with \<open>f\<close> fraction digits closest to \<open>x\<close>, the larger one
  of two equally close; \<open>String(x)\<close> from \<open>10\<^sup>2\<^sup>1\<close> on.\<close>

definition fixed_digits :: "nat \<Rightarrow> rat \<Rightarrow> jsstr" where
  "fixed_digits f x =
     (let n = \<lfloor>x * 10 ^ f + 1 / 2\<rfloor>; ds = int_digits n;
          ps = replicate (Suc f - length ds) 48 @ ds
      in if f = 0 then ps
         else take (length ps - f) ps @ [46] @ drop (length ps - f) ps)"

fun to_fixed :: "nat \<Rightarrow> jsnum \<Rightarrow> jsstr" where
  "to_fixed f (Fin x) =
     (if pow10 21 \<le> \<bar>x\<bar> then num_to_str (Fin x)
      else if x < 0 then 45 # fixed_digits f (- x) else fixed_digits f x)"
| "to_fixed f x = num_to_str x"

section \<open>Facts\<close>

lemma num_lt_irrefl [simp]: "\<not> num_lt a a"
  by (cases a) auto

lemma num_lt_finite_pos: "is_finite a \<Longrightarrow> num_lt (Fin 0) a \<longleftrightarrow> (\<exists>q. a = Fin q \<and> 0 < q)"
  by (cases a) auto

lemma is_finite_iff: "is_finite a \<longleftrightarrow> (\<exists>q. a = Fin q)"
  by (cases a) auto

section \<open>Exact integers\<close>

lemma bit_len_bounds: "0 < n \<Longrightarrow> 0 < bit_len n \<and> 2 ^ nat (bit_len n - 1) \<le> n \<and> n < 2 ^ nat (bit_len n)"
proof (induction n rule: bit_len.induct)
  case (1 n)
  show ?case
  proof (cases "n = 1")
    case False
    define k where "k = nat (bit_len (n div 2))"
    have IH: "0 < bit_len (n div 2)" "2 ^ nat (bit_len (n div 2) - 1) \<le> n div 2" "n div 2 < 2 ^ k"
      using 1 False by (auto simp: k_def)
    have b: "bit_len n = 1 + bit_len (n div 2)" using 1(2) by (subst bit_len.simps) simp
    have k: "nat (bit_len n) = Suc k" "nat (bit_len n - 1) = k" "k = Suc (nat (bit_len (n div 2) - 1))" using IH(1) by (simp_all add: b k_def)
    have "2 ^ k \<le> n" using IH(2) k(3) by simp
    moreover have "n < 2 ^ Suc k" using IH(3) by simp
    ultimately show ?thesis unfolding k(1,2) using IH(1) b by simp
  qed (simp add: bit_len.simps)
qed

lemma bit_len_le: "0 < n \<Longrightarrow> n < 2 ^ k \<Longrightarrow> bit_len n \<le> int k"
proof -
  assume n: "0 < n" "n < 2 ^ k"
  then have "(2::int) ^ nat (bit_len n - 1) < 2 ^ k" using bit_len_bounds [OF n(1)] by linarith
  then have "nat (bit_len n - 1) < k" by simp
  then show ?thesis by linarith
qed

lemma round_even_int [simp]: "round_even (of_int m) = m"
  by (simp add: round_even_def)

lemma ilog2_int: "0 < a \<Longrightarrow> ilog2 (of_int a) = bit_len a - 1"
  using bit_len_bounds [of a] by (auto simp: ilog2_def Let_def bit_len.simps [of 1] bit_len.simps [of 0] pow2_def of_int_power [symmetric] simp del: of_int_power)

text \<open>Integers below \<open>2\<^sup>5\<^sup>3\<close> are not rounded.\<close>

lemma rnd_int:
  assumes "\<bar>i\<bar> < 2 ^ 53"
  shows "rnd (of_int i) = Fin (of_int i)"
proof (cases "i = 0")
  case False
  define L where "L = bit_len \<bar>i\<bar>"
  define j where "j = nat (53 - L)"
  define m where "m = i * 2 ^ j"
  have L: "0 < L" "L \<le> 53" "\<bar>i\<bar> < 2 ^ nat L" using bit_len_bounds [of "\<bar>i\<bar>"] bit_len_le [of "\<bar>i\<bar>" 53] False assms by (simp_all add: L_def)
  have e: "max (ilog2 \<bar>of_int i\<bar> - 52) (- 1074) = L - 53" using ilog2_int [of "\<bar>i\<bar>"] False L by (simp add: L_def)
  have p: "pow2 (L - 53) = 1 / 2 ^ j" using L by (auto simp: pow2_def j_def)
  have q: "of_int i / pow2 (L - 53) = (of_int m :: rat)" by (simp add: p m_def)
  have "\<bar>m\<bar> < 2 ^ nat L * 2 ^ j" using L(3) by (simp add: m_def abs_mult)
  also have "2 ^ nat L * 2 ^ j = (2::int) ^ 53" using L by (simp add: j_def flip: power_add nat_add_distrib)
  finally have "bit_len \<bar>m\<bar> \<le> 53" using bit_len_le [of "\<bar>m\<bar>" 53] False by (simp add: m_def)
  then have "\<not> 1024 < bit_len \<bar>m\<bar> + (L - 53)" using L by linarith
  moreover have "of_int m * pow2 (L - 53) = (of_int i :: rat)" by (simp add: p m_def)
  ultimately show ?thesis using False by (simp add: rnd_def Let_def e q)
qed (simp add: rnd_def)

lemma rnd_numeral:
  "numeral k < (2 ^ 53 :: int) \<Longrightarrow> rnd (numeral k) = Fin (numeral k)" "numeral k < (2 ^ 53 :: int) \<Longrightarrow> rnd (- numeral k) = Fin (- numeral k)"
  "rnd 0 = Fin 0" "rnd 1 = Fin 1" "rnd (- 1) = Fin (- 1)"
  using rnd_int [of "numeral k"] rnd_int [of "- numeral k"] rnd_int [of 0] rnd_int [of 1] rnd_int [of "- 1"] by simp_all

lemma num_add_int: "\<bar>a + b\<bar> < 2 ^ 53 \<Longrightarrow> num_add (Fin (of_int a)) (Fin (of_int b)) = Fin (of_int (a + b))"
  using rnd_int [of "a + b"] by simp

lemma round_even_bounds: "of_int m \<le> x \<Longrightarrow> m \<le> round_even x" "x \<le> of_int m \<Longrightarrow> round_even x \<le> m"
proof -
  have f: "of_int \<lfloor>x\<rfloor> \<le> x" "x < of_int \<lfloor>x\<rfloor> + 1" by linarith+
  show "of_int m \<le> x \<Longrightarrow> m \<le> round_even x"
  proof -
    assume "of_int m \<le> x"
    then have "m \<le> \<lfloor>x\<rfloor>" by linarith
    then show ?thesis by (auto simp: round_even_def Let_def)
  qed
  show "x \<le> of_int m \<Longrightarrow> round_even x \<le> m"
  proof -
    assume x: "x \<le> of_int m"
    show ?thesis
    proof (cases "x = of_int \<lfloor>x\<rfloor>")
      case True
      then have "round_even x = \<lfloor>x\<rfloor>" by (metis round_even_int)
      then show ?thesis using x True by linarith
    next
      case False
      then have "\<lfloor>x\<rfloor> + 1 \<le> m" using x f by linarith
      then show ?thesis by (auto simp: round_even_def Let_def)
    qed
  qed
qed

lemma pow2_pos [simp]: "0 < pow2 e"
  by (simp add: pow2_def)

lemma pow2_diff: "0 \<le> a \<Longrightarrow> 0 \<le> b \<Longrightarrow> pow2 (a - b) = 2 ^ nat a / 2 ^ nat b"
proof -
  assume ab: "0 \<le> a" "0 \<le> b"
  show ?thesis
  proof (cases "b \<le> a")
    case True
    then have "nat a = nat (a - b) + nat b" using ab by linarith
    then show ?thesis using True by (simp add: pow2_def power_add)
  next
    case False
    then have "nat b = nat (b - a) + nat a" using ab by linarith
    then show ?thesis using False by (simp add: pow2_def power_add)
  qed
qed

lemma pow2_mono: "a \<le> b \<Longrightarrow> pow2 a \<le> pow2 b"
proof -
  assume ab: "a \<le> b"
  define c where "c = max 0 (- a)"
  have "pow2 a = 2 ^ nat (a + c) / 2 ^ nat c" "pow2 b = 2 ^ nat (b + c) / 2 ^ nat c"
    using pow2_diff [of "a + c" c] pow2_diff [of "b + c" c] ab by (auto simp: c_def)
  moreover have "(2::rat) ^ nat (a + c) \<le> 2 ^ nat (b + c)" using ab by (intro power_increasing) auto
  ultimately show ?thesis by (simp add: divide_right_mono)
qed

lemma ilog2_le: "0 < q \<Longrightarrow> pow2 (ilog2 q) \<le> q"
proof -
  assume q: "0 < q"
  obtain a b where ab: "quotient_of q = (a, b)" by (cases "quotient_of q")
  have b: "0 < b" using quotient_of_denom_pos ab by blast
  have qab: "q = of_int a / of_int b" using quotient_of_div ab by blast
  have a: "0 < a" using q b by (simp add: qab zero_less_divide_iff)
  have "(2::int) ^ nat (bit_len a - 1) \<le> a" "b < 2 ^ nat (bit_len b)" "0 < bit_len a" "0 < bit_len b" using bit_len_bounds a b by auto
  then have "(2::rat) ^ nat (bit_len a - 1) \<le> of_int a" "of_int b \<le> (2::rat) ^ nat (bit_len b)"
    by (metis of_int_le_iff of_int_numeral of_int_power) (metis \<open>b < 2 ^ nat (bit_len b)\<close> less_imp_le of_int_le_iff of_int_numeral of_int_power)
  then have "2 ^ nat (bit_len a - 1) / 2 ^ nat (bit_len b) \<le> q" unfolding qab using a b by (intro frac_le) auto
  moreover have "pow2 (bit_len a - bit_len b - 1) = 2 ^ nat (bit_len a - 1) / 2 ^ nat (bit_len b)"
    using pow2_diff [of "bit_len a - 1" "bit_len b"] \<open>0 < bit_len a\<close> \<open>0 < bit_len b\<close> by (simp add: algebra_simps)
  ultimately show ?thesis by (simp add: ilog2_def ab Let_def)
qed

text \<open>Rounding does not leave an interval between two integers below \<open>2\<^sup>5\<^sup>3\<close>.\<close>

lemma rnd_between:
  assumes "0 \<le> i" "of_int i \<le> q" "q \<le> of_int j" "j < 2 ^ 53"
  shows "\<exists>r. rnd q = Fin r \<and> of_int i \<le> r \<and> r \<le> of_int j"
proof (cases "q = 0")
  case True
  then show ?thesis using assms by (simp add: rnd_def)
next
  case False
  have q: "0 < q" using assms(1,2) False by (metis dual_order.trans of_int_0_le_iff order_less_le)
  have j: "0 < j" using q assms(3) by (metis less_le_trans of_int_0_less_iff)
  define e where "e = max (ilog2 q - 52) (- 1074)"
  have "ilog2 q < 53"
  proof (rule ccontr)
    assume "\<not> ilog2 q < 53"
    then have "pow2 53 \<le> q" using pow2_mono [of 53 "ilog2 q"] ilog2_le [OF q] by linarith
    moreover have "of_int j < (2 ^ 53 :: rat)" using assms(4) by (metis of_int_less_iff of_int_numeral of_int_power)
    ultimately show False using assms(3) by (simp add: pow2_def)
  qed
  then have e: "e \<le> 0" by (simp add: e_def)
  define d where "d = nat (- e)"
  have p: "pow2 e = 1 / 2 ^ d" using e by (auto simp: pow2_def d_def)
  define m where "m = round_even (q / pow2 e)"
  have "of_int (i * 2 ^ d) \<le> q / pow2 e" "q / pow2 e \<le> of_int (j * 2 ^ d)" using assms(2,3) by (simp_all add: p)
  then have m: "i * 2 ^ d \<le> m" "m \<le> j * 2 ^ d" unfolding m_def by (auto intro: round_even_bounds)
  have "(of_int (i * 2 ^ d) :: rat) \<le> of_int m" "(of_int m :: rat) \<le> of_int (j * 2 ^ d)" using m by (simp_all only: of_int_le_iff)
  then have v: "of_int i \<le> of_int m * pow2 e" "of_int m * pow2 e \<le> of_int j" by (simp_all add: p pos_divide_le_eq pos_le_divide_eq)
  have "bit_len \<bar>m\<bar> \<le> int (53 + d)"
  proof (cases "m = 0")
    case False
    have "m < 2 ^ (53 + d)" using m(2) assms(4) by (simp add: power_add) (meson less_le_trans mult_strict_right_mono not_le zero_less_numeral zero_less_power le_less_trans)
    moreover have "0 \<le> m" using m(1) assms(1) by (meson mult_nonneg_nonneg order_trans zero_le_numeral zero_le_power)
    ultimately show ?thesis using bit_len_le [of "\<bar>m\<bar>" "53 + d"] False by simp
  qed (simp add: bit_len.simps)
  then have "\<not> 1024 < bit_len \<bar>m\<bar> + e" using e by (simp add: d_def)
  then show ?thesis using False q v by (auto simp: rnd_def Let_def e_def [symmetric] m_def [symmetric])
qed

section \<open>Rounding again\<close>

lemma pow2_add: "pow2 (a + b) = pow2 a * pow2 b"
proof -
  define c where "c = max 0 (- a)"
  define d where "d = max 0 (- b)"
  have "pow2 a = 2 ^ nat (a + c) / 2 ^ nat c" "pow2 b = 2 ^ nat (b + d) / 2 ^ nat d" "pow2 (a + b) = 2 ^ nat (a + c + (b + d)) / 2 ^ nat (c + d)"
    using pow2_diff [of "a + c" c] pow2_diff [of "b + d" d] pow2_diff [of "a + c + (b + d)" "c + d"] by (auto simp: c_def d_def algebra_simps)
  then show ?thesis by (simp add: nat_add_distrib power_add c_def d_def)
qed

lemma pow2_nat: "0 \<le> k \<Longrightarrow> pow2 k = of_int (2 ^ nat k)"
  by (simp add: pow2_def)

lemma ilog2_less: "0 < q \<Longrightarrow> q < pow2 (ilog2 q + 1)"
proof -
  assume q: "0 < q"
  obtain a b where ab: "quotient_of q = (a, b)" by (cases "quotient_of q")
  have b: "0 < b" using quotient_of_denom_pos ab by blast
  have qab: "q = of_int a / of_int b" using quotient_of_div ab by blast
  have a: "0 < a" using q b by (simp add: qab zero_less_divide_iff)
  have "a < 2 ^ nat (bit_len a)" "(2::int) ^ nat (bit_len b - 1) \<le> b" and pos: "0 < bit_len a" "0 < bit_len b" using bit_len_bounds a b by auto
  then have "of_int a < (2::rat) ^ nat (bit_len a)" "(2::rat) ^ nat (bit_len b - 1) \<le> of_int b"
    by (metis of_int_less_iff of_int_numeral of_int_power) (metis \<open>2 ^ nat (bit_len b - 1) \<le> b\<close> of_int_le_iff of_int_numeral of_int_power)
  then have "q < 2 ^ nat (bit_len a) / 2 ^ nat (bit_len b - 1)" unfolding qab using a b by (intro frac_less) auto
  also have "\<dots> = pow2 (bit_len a - bit_len b + 1)" using pow2_diff [of "bit_len a" "bit_len b - 1"] pos by (simp add: algebra_simps)
  finally show ?thesis by (auto simp: ilog2_def ab Let_def)
qed

lemma ilog2_unique:
  assumes "pow2 L \<le> q" "q < pow2 (L + 1)"
  shows "ilog2 q = L"
proof -
  have q: "0 < q" using assms(1) pow2_pos [of L] by linarith
  have "pow2 (ilog2 q) < pow2 (L + 1)" "pow2 L < pow2 (ilog2 q + 1)"
    using ilog2_le [OF q] ilog2_less [OF q] assms by linarith+
  then have "\<not> L + 1 \<le> ilog2 q" "\<not> ilog2 q + 1 \<le> L" using pow2_mono leD by blast+
  then show ?thesis by linarith
qed

lemma bit_len_eq: "0 < a \<Longrightarrow> 2 ^ nat (B - 1) \<le> a \<Longrightarrow> a < 2 ^ nat B \<Longrightarrow> 0 < B \<Longrightarrow> bit_len a = B"
proof -
  assume a: "0 < a" "2 ^ nat (B - 1) \<le> a" "a < 2 ^ nat B" "0 < B"
  have b: "0 < bit_len a" "2 ^ nat (bit_len a - 1) \<le> a" "a < 2 ^ nat (bit_len a)" using bit_len_bounds a(1) by auto
  have "(2::int) ^ nat (B - 1) < 2 ^ nat (bit_len a)" "(2::int) ^ nat (bit_len a - 1) < 2 ^ nat B" using a b by linarith+
  then have "nat (B - 1) < nat (bit_len a)" "nat (bit_len a - 1) < nat B" by simp_all
  then show ?thesis using a(4) b(1) by linarith
qed

lemma bit_len_shift: "0 < a \<Longrightarrow> bit_len (a * 2 ^ k) = bit_len a + int k"
proof -
  assume a: "0 < a"
  have b: "0 < bit_len a" "2 ^ nat (bit_len a - 1) \<le> a" "a < 2 ^ nat (bit_len a)" using bit_len_bounds a by auto
  have e: "nat (bit_len a + int k - 1) = nat (bit_len a - 1) + k" "nat (bit_len a + int k) = nat (bit_len a) + k" using b(1) by linarith+
  show ?thesis by (rule bit_len_eq) (use a b e in \<open>auto simp: power_add\<close>)
qed

text \<open>A number with at most 53 bits and an exponent in range is its own rounding.\<close>

lemma rnd_exact:
  assumes "bit_len \<bar>m\<bar> \<le> 53" "- 1074 \<le> e" "bit_len \<bar>m\<bar> + e \<le> 1024"
  shows "rnd (of_int m * pow2 e) = Fin (of_int m * pow2 e)"
proof (cases "m = 0")
  case False
  let ?q = "of_int m * pow2 e"
  define B where "B = bit_len \<bar>m\<bar>"
  have B: "0 < B" "2 ^ nat (B - 1) \<le> \<bar>m\<bar>" "\<bar>m\<bar> < 2 ^ nat B" using bit_len_bounds [of "\<bar>m\<bar>"] False by (auto simp: B_def)
  then have "pow2 (B - 1) \<le> of_int \<bar>m\<bar>" "of_int \<bar>m\<bar> < pow2 B"
    using pow2_nat [of "B - 1"] pow2_nat [of B] by (simp_all only: of_int_le_iff of_int_less_iff)
  then have "pow2 (B - 1 + e) \<le> \<bar>?q\<bar>" "\<bar>?q\<bar> < pow2 (B - 1 + e + 1)"
    using abs_mult [of "of_int m" "pow2 e"] pow2_pos [of e] pow2_add [of "B - 1" e] pow2_add [of B e]
    by (simp_all add: mult_right_mono mult_strict_right_mono)
  then have log: "ilog2 \<bar>?q\<bar> = B - 1 + e" by (rule ilog2_unique)
  define e' where "e' = max (ilog2 \<bar>?q\<bar> - 52) (- 1074)"
  have e': "e' \<le> e" using assms by (simp add: e'_def log B_def)
  define j where "j = nat (e - e')"
  have p: "pow2 e = 2 ^ j * pow2 e'" using pow2_add [of "e - e'" e'] e' by (simp add: pow2_def j_def)
  have nz: "pow2 e' \<noteq> 0" using pow2_pos [of e'] by linarith
  have div: "?q / pow2 e' = of_int (m * 2 ^ j)" using nz by (simp add: p)
  have "bit_len \<bar>m * 2 ^ j\<bar> + e' = B + e" using bit_len_shift [of "\<bar>m\<bar>" j] False e' by (simp add: abs_mult B_def j_def)
  then have "\<not> 1024 < bit_len \<bar>m * 2 ^ j\<bar> + e'" using assms(3) by (simp add: B_def)
  moreover have "round_even (?q / pow2 e') = m * 2 ^ j" unfolding div by (rule round_even_int)
  moreover have "of_int (m * 2 ^ j) * pow2 e' = ?q" by (simp add: p)
  moreover have "?q \<noteq> 0" using False pow2_pos [of e] by (simp add: less_imp_neq [symmetric])
  ultimately show ?thesis unfolding rnd_def Let_def e'_def [symmetric] by (simp only: if_False)
qed (simp add: rnd_def)

text \<open>Rounding a rounded number changes nothing.\<close>

lemma rnd_rnd:
  assumes "rnd q = Fin r"
  shows "rnd r = Fin r"
proof (cases "q = 0")
  case False
  define e where "e = max (ilog2 \<bar>q\<bar> - 52) (- 1074)"
  define m where "m = round_even (q / pow2 e)"
  have r: "r = of_int m * pow2 e" "bit_len \<bar>m\<bar> + e \<le> 1024"
    using assms False by (auto simp: rnd_def Let_def e_def [symmetric] m_def [symmetric] split: if_split_asm)
  have "\<bar>q\<bar> < pow2 (ilog2 \<bar>q\<bar> + 1)" using ilog2_less [of "\<bar>q\<bar>"] False by simp
  also have "\<dots> \<le> pow2 (53 + e)" by (rule pow2_mono) (simp add: e_def)
  also have "\<dots> = 2 ^ 53 * pow2 e" unfolding pow2_add by (simp add: pow2_def)
  finally have "\<bar>q / pow2 e\<bar> < 2 ^ 53" by (simp add: divide_less_eq)
  then have "- (2 ^ 53) \<le> q / pow2 e" "q / pow2 e \<le> 2 ^ 53" by linarith+
  then have "- (2 ^ 53) \<le> m" "m \<le> 2 ^ 53" unfolding m_def
    using round_even_bounds(1) [of "- (2 ^ 53)" "q / pow2 e"] round_even_bounds(2) [of "q / pow2 e" "2 ^ 53"] by simp_all
  then consider "\<bar>m\<bar> < 2 ^ 53" | "m = 2 * 2 ^ 52" | "m = 2 * - (2 ^ 52)" by fastforce
  then show ?thesis
  proof cases
    case 1
    then have "bit_len \<bar>m\<bar> \<le> 53" using bit_len_le [of "\<bar>m\<bar>" 53] by (cases "m = 0") (simp_all add: bit_len.simps [of 0])
    then show ?thesis using rnd_exact [of m e] r by (simp add: e_def)
  next
    case 2
    have "bit_len (2 ^ 53) = 54" "bit_len (2 ^ 52) = 53" by code_simp+
    then show ?thesis using rnd_exact [of "2 ^ 52" "e + 1"] r 2 pow2_add [of e 1] by (simp add: e_def pow2_def [of 1])
  next
    case 3
    have "bit_len (2 ^ 53) = 54" "bit_len (2 ^ 52) = 53" by code_simp+
    then show ?thesis using rnd_exact [of "- (2 ^ 52)" "e + 1"] r 3 pow2_add [of e 1] by (simp add: e_def pow2_def [of 1])
  qed
qed (use assms in \<open>simp add: rnd_def\<close>)

text \<open>Numbers that are their own rounding: every result of arithmetic is one, and adding zero to one changes nothing.\<close>

definition rounded :: "jsnum \<Rightarrow> bool" where
  "rounded x \<longleftrightarrow> (case x of Fin q \<Rightarrow> rnd q = Fin q | _ \<Rightarrow> True)"

lemma rounded_rnd [simp]: "rounded (rnd q)"
  using rnd_rnd [of q] by (cases "rnd q") (simp_all add: rounded_def)

lemma rounded_simps [simp]: "rounded NaN" "rounded PInf" "rounded NInf" "rounded (Fin 0)" "rounded (signed_inf s)"
  by (simp_all add: rounded_def signed_inf_def rnd_def)

lemma rounded_arith [simp]: "rounded (num_add a b)" "rounded (num_mul a b)" "rounded (num_div a b)"
  by (cases a; cases b; simp)+

lemma num_add_zero: "rounded x \<Longrightarrow> num_add x (Fin 0) = x" "rounded x \<Longrightarrow> num_add (Fin 0) x = x"
  by (cases x; simp add: rounded_def)+

end
