(* ===== verification/Js_Value.thy ===== *)
theory Js_Value
  imports Js_Number "HOL-Library.Multiset"
begin

text \<open>
  JavaScript values as the sources see them: the primitives, arrays and plain objects.
  An object is its list of own enumerable properties in the order \<open>Object.entries\<close> gives
  them (array-index keys ascending first, then the other keys in insertion order);
  \<open>obj_put\<close> is the property assignment \<open>o[k] = v\<close>. Inherited properties of
  \<open>Object.prototype\<close> are not part of a value.

  The operators the code relies on have one definition each: truthiness, \<open>a || b\<close>,
  \<open>a ?? b\<close>, \<open>a?.k\<close>, \<open>a.k\<close> (which throws on null and undefined), \<open>===\<close> against a
  primitive, \<open>{...a, ...b}\<close>, \<open>String(v)\<close> and \<open>Number(v)\<close>.
\<close>

datatype jsval = Undefined | Null | Bool bool | Num jsnum | Str jsstr
  | Arr "jsval list" | Obj "(jsstr \<times> jsval) list"

type_synonym jsobj = "(jsstr \<times> jsval) list"

section \<open>Truthiness and the short-circuit operators\<close>

fun truthy :: "jsval \<Rightarrow> bool" where
  "truthy Undefined = False"
| "truthy Null = False"
| "truthy (Bool b) = b"
| "truthy (Num x) = (x \<noteq> NaN \<and> x \<noteq> Fin 0)"
| "truthy (Str s) = (s \<noteq> [])"
| "truthy (Arr xs) = True"
| "truthy (Obj kvs) = True"

definition js_or :: "jsval \<Rightarrow> jsval \<Rightarrow> jsval" where
  "js_or a b = (if truthy a then a else b)"

definition js_and :: "jsval \<Rightarrow> jsval \<Rightarrow> jsval" where
  "js_and a b = (if truthy a then b else a)"

definition nullish :: "jsval \<Rightarrow> bool" where
  "nullish v \<longleftrightarrow> v = Undefined \<or> v = Null"

definition js_coalesce :: "jsval \<Rightarrow> jsval \<Rightarrow> jsval" where
  "js_coalesce a b = (if nullish a then b else a)"

section \<open>Types\<close>

fun is_str :: "jsval \<Rightarrow> bool" where
  "is_str (Str s) = True" | "is_str _ = False"

fun is_num :: "jsval \<Rightarrow> bool" where
  "is_num (Num x) = True" | "is_num _ = False"

fun is_bool :: "jsval \<Rightarrow> bool" where
  "is_bool (Bool b) = True" | "is_bool _ = False"

fun is_arr :: "jsval \<Rightarrow> bool" where
  "is_arr (Arr xs) = True" | "is_arr _ = False"

text \<open>\<open>typeof v === 'object'\<close>, true of null too.\<close>

fun typeof_object :: "jsval \<Rightarrow> bool" where
  "typeof_object Null = True" | "typeof_object (Arr xs) = True"
| "typeof_object (Obj kvs) = True" | "typeof_object _ = False"

text \<open>\<open>a === b\<close> where one side is a primitive; no object is equal to a primitive.\<close>

fun is_prim :: "jsval \<Rightarrow> bool" where
  "is_prim (Arr xs) = False" | "is_prim (Obj kvs) = False" | "is_prim _ = True"

definition js_eq :: "jsval \<Rightarrow> jsval \<Rightarrow> bool" where
  "js_eq a b \<longleftrightarrow> a = b \<and> is_prim a \<and> a \<noteq> Num NaN"

section \<open>Objects\<close>

text \<open>Array-index keys: the canonical decimals below \<open>2\<^sup>3\<^sup>2 - 1\<close>, which come first and in
  ascending order among the properties of an object.\<close>

definition is_index :: "jsstr \<Rightarrow> bool" where
  "is_index k \<longleftrightarrow> k \<noteq> [] \<and> list_all is_digit k \<and> (hd k \<noteq> 48 \<or> k = [48]) \<and>
     digits_val k < 4294967295"

definition index_before :: "jsstr \<Rightarrow> jsstr \<times> jsval \<Rightarrow> bool" where
  "index_before k p \<longleftrightarrow> is_index (fst p) \<and> digits_val (fst p) < digits_val k"

definition obj_put :: "jsobj \<Rightarrow> jsstr \<Rightarrow> jsval \<Rightarrow> jsobj" where
  "obj_put kvs k v =
     (if k \<in> fst ` set kvs then map (\<lambda>p. if fst p = k then (k, v) else p) kvs
      else if is_index k
      then takeWhile (index_before k) kvs @ (k, v) # dropWhile (index_before k) kvs
      else kvs @ [(k, v)])"

definition obj_del :: "jsobj \<Rightarrow> jsstr \<Rightarrow> jsobj" where
  "obj_del kvs k = filter (\<lambda>p. fst p \<noteq> k) kvs"

definition obj_get :: "jsobj \<Rightarrow> jsstr \<Rightarrow> jsval" where
  "obj_get kvs k = (case map_of kvs k of None \<Rightarrow> Undefined | Some v \<Rightarrow> v)"

definition obj_has :: "jsobj \<Rightarrow> jsstr \<Rightarrow> bool" where
  "obj_has kvs k \<longleftrightarrow> k \<in> fst ` set kvs"

text \<open>\<open>{...a, ...b}\<close>\<close>

definition obj_merge :: "jsobj \<Rightarrow> jsobj \<Rightarrow> jsobj" where
  "obj_merge a b = foldl (\<lambda>acc p. obj_put acc (fst p) (snd p)) a b"

text \<open>The own enumerable properties of any value, what a spread copies and what
  \<open>Object.entries\<close> lists.\<close>

definition index_entries :: "jsval list \<Rightarrow> jsobj" where
  "index_entries vs = map (\<lambda>(i, v). (nat_digits i, v)) (List.enumerate 0 vs)"

fun own_entries :: "jsval \<Rightarrow> jsobj" where
  "own_entries (Obj kvs) = kvs"
| "own_entries (Arr xs) = index_entries xs"
| "own_entries (Str s) = index_entries (map (\<lambda>c. Str [c]) s)"
| "own_entries _ = []"

text \<open>\<open>v?.k\<close>\<close>

fun opt_prop :: "jsval \<Rightarrow> jsstr \<Rightarrow> jsval" where
  "opt_prop (Obj kvs) k = obj_get kvs k"
| "opt_prop (Arr xs) k =
     (if k = lit ''length'' then Num (num_of_nat (length xs)) else obj_get (index_entries xs) k)"
| "opt_prop (Str s) k =
     (if k = lit ''length'' then Num (num_of_nat (length s))
      else obj_get (index_entries (map (\<lambda>c. Str [c]) s)) k)"
| "opt_prop _ k = Undefined"

text \<open>\<open>v.k\<close>\<close>

definition get_prop :: "jsval \<Rightarrow> jsstr \<Rightarrow> jsval res" where
  "get_prop v k = (if nullish v then Inl TypeError else Inr (opt_prop v k))"

section \<open>Conversions\<close>

fun to_str :: "jsval \<Rightarrow> jsstr" where
  "to_str Undefined = lit ''undefined''"
| "to_str Null = lit ''null''"
| "to_str (Bool b) = (if b then lit ''true'' else lit ''false'')"
| "to_str (Num x) = num_to_str x"
| "to_str (Str s) = s"
| "to_str (Arr xs) = join (lit '','') (map (\<lambda>x. if nullish x then [] else to_str x) xs)"
| "to_str (Obj kvs) = lit ''[object Object]''"

fun to_num :: "jsval \<Rightarrow> jsnum" where
  "to_num Undefined = NaN"
| "to_num Null = Fin 0"
| "to_num (Bool b) = (if b then Fin 1 else Fin 0)"
| "to_num (Num x) = x"
| "to_num (Str s) = str_to_num s"
| "to_num (Arr xs) = str_to_num (to_str (Arr xs))"
| "to_num (Obj kvs) = NaN"

section \<open>Laws of objects\<close>

lemma obj_get_Nil [simp]: "obj_get [] k = Undefined"
  by (simp add: obj_get_def)

lemma obj_get_Cons [simp]:
  "obj_get ((k, v) # kvs) k' = (if k' = k then v else obj_get kvs k')"
  by (simp add: obj_get_def)

lemma obj_has_Nil [simp]: "\<not> obj_has [] k"
  by (simp add: obj_has_def)

lemma obj_has_Cons [simp]: "obj_has ((k, v) # kvs) k' \<longleftrightarrow> k' = k \<or> obj_has kvs k'"
  by (auto simp: obj_has_def)

lemma map_of_replace:
  "k \<in> fst ` set kvs \<Longrightarrow>
   map_of (map (\<lambda>p. if fst p = k then (k, v) else p) kvs) = (map_of kvs)(k \<mapsto> v)"
proof (induction kvs)
  case (Cons p kvs)
  show ?case
  proof (cases "k \<in> fst ` set kvs")
    case True
    with Cons.IH show ?thesis by (cases p) auto
  next
    case False
    then have "map (\<lambda>p. if fst p = k then (k, v) else p) kvs = kvs"
      by (induction kvs) auto
    with False Cons.prems show ?thesis by (cases p) auto
  qed
qed simp

lemma map_of_insert:
  "k \<notin> fst ` set (xs @ ys) \<Longrightarrow> map_of (xs @ (k, v) # ys) = (map_of (xs @ ys))(k \<mapsto> v)"
  by (induction xs) auto

lemma map_of_obj_put [simp]: "map_of (obj_put kvs k v) = (map_of kvs)(k \<mapsto> v)"
proof (cases "k \<in> fst ` set kvs")
  case True
  then show ?thesis by (simp add: obj_put_def map_of_replace)
next
  case False
  have "map_of (takeWhile (index_before k) kvs @ (k, v) # dropWhile (index_before k) kvs) =
      (map_of kvs)(k \<mapsto> v)"
    using map_of_insert [of k "takeWhile (index_before k) kvs" "dropWhile (index_before k) kvs" v]
      False by simp
  with False map_of_insert [of k kvs "[]" v] show ?thesis
    by (simp add: obj_put_def)
qed

lemma obj_get_put: "obj_get (obj_put kvs k v) k' = (if k' = k then v else obj_get kvs k')"
  by (simp add: obj_get_def)

lemma obj_get_put_same [simp]: "obj_get (obj_put kvs k v) k = v"
  by (simp add: obj_get_put)

lemma obj_has_iff: "obj_has kvs k \<longleftrightarrow> map_of kvs k \<noteq> None"
  by (simp add: obj_has_def map_of_eq_None_iff)

lemma obj_has_put [simp]: "obj_has (obj_put kvs k v) k' \<longleftrightarrow> k' = k \<or> obj_has kvs k'"
  by (simp add: obj_has_iff)

lemma obj_get_del: "obj_get (obj_del kvs k) k' = (if k' = k then Undefined else obj_get kvs k')"
  by (induction kvs) (auto simp: obj_del_def)

lemma keys_replace: "map fst (map (\<lambda>p. if fst p = k then (k, v) else p) kvs) = map fst kvs"
  by (induction kvs) auto

lemma distinct_obj_put: "distinct (map fst kvs) \<Longrightarrow> distinct (map fst (obj_put kvs k v))"
proof (cases "k \<in> fst ` set kvs")
  case True
  then show "distinct (map fst kvs) \<Longrightarrow> ?thesis"
    by (simp add: obj_put_def keys_replace del: map_map)
next
  case False
  assume d: "distinct (map fst kvs)"
  have "distinct (map fst (takeWhile P kvs @ (k, v) # dropWhile P kvs))" for P
  proof -
    have "mset (map fst (takeWhile P kvs @ (k, v) # dropWhile P kvs)) = mset (k # map fst kvs)"
      by (metis (no_types, opaque_lifting) fst_conv list.simps(9) map_append mset.simps(2)
          mset_append takeWhile_dropWhile_id union_mset_add_mset_right)
    then show ?thesis
      using d False by (metis distinct.simps(2) image_set mset_eq_imp_distinct_iff)
  qed
  with False d show ?thesis by (simp add: obj_put_def)
qed

lemma map_of_obj_merge:
  "map_of (obj_merge a b) k = (case map_of (rev b) k of None \<Rightarrow> map_of a k | Some v \<Rightarrow> Some v)"
  unfolding obj_merge_def
  by (induction b arbitrary: a) (auto simp: map_add_def split: option.splits)

lemma obj_get_merge:
  assumes "distinct (map fst b)"
  shows "obj_get (obj_merge a b) k = (if obj_has b k then obj_get b k else obj_get a k)"
proof -
  have "map_of (rev b) = map_of b"
    using assms by (metis map_of_eqI set_rev distinct_rev rev_map map_of_inject_set)
  then show ?thesis
    by (auto simp: obj_get_def map_of_obj_merge obj_has_iff split: option.splits)
qed

lemma nullish_simps [simp]:
  "nullish Undefined" "nullish Null" "\<not> nullish (Bool b)" "\<not> nullish (Num x)"
  "\<not> nullish (Str s)" "\<not> nullish (Arr xs)" "\<not> nullish (Obj kvs)"
  by (simp_all add: nullish_def)

lemma js_or_Str [simp]: "js_or (Str s) v = (if s = [] then v else Str s)"
  by (simp add: js_or_def)

lemma js_or_Undefined [simp]: "js_or Undefined v = v"
  by (simp add: js_or_def)

section \<open>Building objects in a loop\<close>

lemma foldl_put_get:
  assumes "distinct (map fst xs)"
  shows "map_of (foldl (\<lambda>acc kv. if P kv then obj_put acc (fst kv) (f kv) else acc) a xs) k =
    (case map_of xs k of Some v \<Rightarrow> if P (k, v) then Some (f (k, v)) else map_of a k
     | None \<Rightarrow> map_of a k)"
  using assms
proof (induction xs arbitrary: a)
  case (Cons x xs)
  then show ?case
    by (cases x) (auto simp: map_of_eq_None_iff [THEN iffD2] split: option.splits)
qed simp

lemma distinct_foldl_put:
  "distinct (map fst a) \<Longrightarrow>
   distinct (map fst (foldl (\<lambda>acc kv. if P kv then obj_put acc (fst kv) (f kv) else acc) a xs))"
  by (induction xs arbitrary: a) (auto simp: distinct_obj_put)

lemma distinct_obj_merge: "distinct (map fst a) \<Longrightarrow> distinct (map fst (obj_merge a b))"
  using distinct_foldl_put [of a "\<lambda>_. True" snd b] by (simp add: obj_merge_def)

end
