(* ===== verification/Js_Json.thy ===== *)
theory Js_Json
  imports Js_Value
begin

text \<open>
  \<open>JSON.parse\<close> and \<open>JSON.stringify\<close>. The parser is a recursive descent over the text;
  each call spends one unit of fuel and \<open>json_parse\<close> starts with \<open>2 \<sqdot> length + 2\<close>, which
  \<open>json_parse_fuel\<close> shows is enough: more fuel never changes a result, so running out of fuel
  is never mistaken for a syntax error.
\<close>

section \<open>Strings\<close>

definition hex_digit :: "nat \<Rightarrow> nat" where
  "hex_digit d = (if d < 10 then 48 + d else 87 + d)"

definition unicode_escape :: "nat \<Rightarrow> jsstr" where
  "unicode_escape c = lit [CHR 0x5C, CHR ''u''] @
     [hex_digit (c div 4096 mod 16), hex_digit (c div 256 mod 16),
      hex_digit (c div 16 mod 16), hex_digit (c mod 16)]"

definition is_lead :: "nat \<Rightarrow> bool" where
  "is_lead c \<longleftrightarrow> 55296 \<le> c \<and> c \<le> 56319"

definition is_trail :: "nat \<Rightarrow> bool" where
  "is_trail c \<longleftrightarrow> 56320 \<le> c \<and> c \<le> 57343"

definition quote_unit :: "nat \<Rightarrow> jsstr" where
  "quote_unit c =
     (if c = 8 then [92, 98] else if c = 9 then [92, 116] else if c = 10 then [92, 110]
      else if c = 12 then [92, 102] else if c = 13 then [92, 114]
      else if c = 34 then [92, 34] else if c = 92 then [92, 92]
      else if c < 32 \<or> is_lead c \<or> is_trail c then unicode_escape c else [c])"

text \<open>A lone surrogate is escaped, a surrogate pair is kept.\<close>

fun quote_units :: "jsstr \<Rightarrow> jsstr" where
  "quote_units [] = []"
| "quote_units [c] = quote_unit c"
| "quote_units (c # d # cs) =
     (if is_lead c \<and> is_trail d then c # d # quote_units cs
      else quote_unit c @ quote_units (d # cs))"

definition json_quote :: "jsstr \<Rightarrow> jsstr" where
  "json_quote s = [34] @ quote_units s @ [34]"

definition hex4 :: "jsstr \<Rightarrow> (nat \<times> jsstr) option" where
  "hex4 s = (case s of
     a # b # c # d # r \<Rightarrow>
       (case (hex_val a, hex_val b, hex_val c, hex_val d) of
          (Some w, Some x, Some y, Some z) \<Rightarrow> Some (4096 * w + 256 * x + 16 * y + z, r)
        | _ \<Rightarrow> None)
   | _ \<Rightarrow> None)"

definition simple_escape :: "nat \<Rightarrow> nat option" where
  "simple_escape e =
     (if e = 34 \<or> e = 92 \<or> e = 47 then Some e else if e = 98 then Some 8
      else if e = 102 then Some 12 else if e = 110 then Some 10
      else if e = 114 then Some 13 else if e = 116 then Some 9 else None)"

lemma hex4_length: "hex4 s = Some (n, r) \<Longrightarrow> length r < length s"
  by (auto simp: hex4_def split: list.splits option.splits)

text \<open>The characters of a JSON string up to its closing quote, which the caller's opening
  quote precedes.\<close>

function parse_chars :: "jsstr \<Rightarrow> (jsstr \<times> jsstr) option" where
  "parse_chars [] = None"
| "parse_chars (c # r) =
     (if c = 34 then Some ([], r)
      else if c < 32 then None
      else if c = 92 then
        (case r of [] \<Rightarrow> None
         | e # r' \<Rightarrow>
             (if e = 117 then
                (case hex4 r' of None \<Rightarrow> None
                 | Some (u, r'') \<Rightarrow>
                     (case parse_chars r'' of None \<Rightarrow> None | Some (s, q) \<Rightarrow> Some (u # s, q)))
              else (case simple_escape e of None \<Rightarrow> None
                 | Some u \<Rightarrow>
                     (case parse_chars r' of None \<Rightarrow> None | Some (s, q) \<Rightarrow> Some (u # s, q)))))
      else (case parse_chars r of None \<Rightarrow> None | Some (s, q) \<Rightarrow> Some (c # s, q)))"
  by pat_completeness auto
termination
  by (relation "measure length") (auto dest: hex4_length)

lemma parse_chars_length: "parse_chars s = Some (t, r) \<Longrightarrow> length r < length s"
proof (induction s arbitrary: t r rule: parse_chars.induct)
  case (2 c s)
  then show ?case
    by (auto split: if_splits option.splits list.splits prod.splits dest!: hex4_length) fastforce+
qed simp

lemma hex_val_hex_digit [simp]: "d < 16 \<Longrightarrow> hex_val (hex_digit d) = Some d"
  by (auto simp: hex_val_def hex_digit_def)

lemma hex4_unicode_escape:
  "c < 65536 \<Longrightarrow>
   hex4 (hex_digit (c div 4096 mod 16) # hex_digit (c div 256 mod 16) #
     hex_digit (c div 16 mod 16) # hex_digit (c mod 16) # r) = Some (c, r)"
proof -
  assume c: "c < 65536"
  have "4096 * (c div 4096 mod 16) + 256 * (c div 256 mod 16) + 16 * (c div 16 mod 16) + c mod 16 = c"
  proof -
    have "c div 4096 < 16" using c by simp
    then have "c div 4096 mod 16 = c div 4096" by simp
    moreover have "16 * (c div 16) + c mod 16 = c"
      by simp
    moreover have "16 * (c div 256) + c div 16 mod 16 = c div 16"
      using mult_div_mod_eq [of 16 "c div 16"] by (simp add: div_mult2_eq [symmetric])
    moreover have "16 * (c div 4096) + c div 256 mod 16 = c div 256"
      using mult_div_mod_eq [of 16 "c div 256"] by (simp add: div_mult2_eq [symmetric])
    ultimately show ?thesis by linarith
  qed
  then show ?thesis
    unfolding hex4_def by (simp del: mod_less)
qed

lemma parse_chars_quote_unit:
  assumes "c < 65536"
  shows "parse_chars (quote_unit c @ r) =
    (case parse_chars r of None \<Rightarrow> None | Some (s, q) \<Rightarrow> Some (c # s, q))"
proof -
  consider "c \<in> {8, 9, 10, 12, 13, 34, 92}"
    | "c \<notin> {8, 9, 10, 12, 13, 34, 92}" "c < 32 \<or> is_lead c \<or> is_trail c"
    | "c \<notin> {8, 9, 10, 12, 13, 34, 92}" "\<not> (c < 32 \<or> is_lead c \<or> is_trail c)"
    by blast
  then show ?thesis
  proof cases
    case 1
    then show ?thesis by (elim insertE emptyE)
      (simp_all add: quote_unit_def simple_escape_def split: option.splits)
  next
    case 2
    then have "quote_unit c = unicode_escape c" by (auto simp: quote_unit_def)
    then show ?thesis
      using hex4_unicode_escape [OF assms, of r] by (simp add: unicode_escape_def lit_simps del: mod_less)
  next
    case 3
    then have "quote_unit c = [c]" "\<not> c < 32" "c \<noteq> 34" "c \<noteq> 92" by (auto simp: quote_unit_def)
    then show ?thesis by simp
  qed
qed

lemma parse_chars_quote_units:
  "\<forall>c \<in> set s. c < 65536 \<Longrightarrow> parse_chars (quote_units s @ 34 # r) = Some (s, r)"
proof (induction s rule: quote_units.induct)
  case (3 c d cs)
  then show ?case
    by (auto simp: parse_chars_quote_unit is_lead_def is_trail_def)
qed (auto simp: parse_chars_quote_unit)

section \<open>Numbers\<close>

text \<open>The JSON number at the start of a text: no leading zeros, no leading plus, digits on
  both sides of a point.\<close>

definition parse_number :: "jsstr \<Rightarrow> (jsnum \<times> jsstr) option" where
  "parse_number s =
     (let (sg, r) = (case s of [] \<Rightarrow> (1, s) | c # q \<Rightarrow> if c = 45 then (- 1, q) else (1, s));
          ip = (if r \<noteq> [] \<and> hd r = 48 then [48] else takeWhile is_digit r);
          r1 = drop (length ip) r;
          frac = (r1 \<noteq> [] \<and> hd r1 = 46);
          fp = (if frac then takeWhile is_digit (tl r1) else []);
          r2 = (if frac then dropWhile is_digit (tl r1) else r1)
      in if ip = [] \<or> (frac \<and> fp = []) then None
         else case scan_exp r2 of (e, r3) \<Rightarrow>
           Some (rnd (sg * of_nat (digits_val (ip @ fp)) * pow10 (e - int (length fp))), r3))"

section \<open>Values\<close>

definition is_json_ws :: "nat \<Rightarrow> bool" where
  "is_json_ws c \<longleftrightarrow> c = 9 \<or> c = 10 \<or> c = 13 \<or> c = 32"

definition skip_ws :: "jsstr \<Rightarrow> jsstr" where
  "skip_ws = dropWhile is_json_ws"

definition parse_literal :: "jsstr \<Rightarrow> (jsval \<times> jsstr) option" where
  "parse_literal s =
     (case strip_prefix (lit ''true'') s of Some r \<Rightarrow> Some (Bool True, r)
      | None \<Rightarrow> (case strip_prefix (lit ''false'') s of Some r \<Rightarrow> Some (Bool False, r)
      | None \<Rightarrow> (case strip_prefix (lit ''null'') s of Some r \<Rightarrow> Some (Null, r)
      | None \<Rightarrow> map_option (\<lambda>(x, r). (Num x, r)) (parse_number s))))"

fun pval :: "nat \<Rightarrow> jsstr \<Rightarrow> (jsval \<times> jsstr) option"
  and pelems :: "nat \<Rightarrow> jsstr \<Rightarrow> (jsval list \<times> jsstr) option"
  and pmembers :: "nat \<Rightarrow> jsobj \<Rightarrow> jsstr \<Rightarrow> (jsobj \<times> jsstr) option"
where
  "pval 0 s = None"
| "pval (Suc n) s =
     (case skip_ws s of [] \<Rightarrow> None
      | c # r \<Rightarrow>
          (if c = 34 then map_option (\<lambda>(t, q). (Str t, q)) (parse_chars r)
           else if c = 91 then
             (case skip_ws r of
                d # q \<Rightarrow> if d = 93 then Some (Arr [], q)
                  else map_option (\<lambda>(xs, q). (Arr xs, q)) (pelems n (d # q))
              | [] \<Rightarrow> None)
           else if c = 123 then
             (case skip_ws r of
                d # q \<Rightarrow> if d = 125 then Some (Obj [], q)
                  else map_option (\<lambda>(kvs, q). (Obj kvs, q)) (pmembers n [] (d # q))
              | [] \<Rightarrow> None)
           else parse_literal (c # r)))"
| "pelems 0 s = None"
| "pelems (Suc n) s =
     (case pval n s of None \<Rightarrow> None
      | Some (v, r) \<Rightarrow>
          (case skip_ws r of [] \<Rightarrow> None
           | c # q \<Rightarrow>
               (if c = 93 then Some ([v], q)
                else if c = 44 then map_option (\<lambda>(vs, t). (v # vs, t)) (pelems n q)
                else None)))"
| "pmembers 0 acc s = None"
| "pmembers (Suc n) acc s =
     (case skip_ws s of [] \<Rightarrow> None
      | c # r \<Rightarrow>
          (if c \<noteq> 34 then None
           else case parse_chars r of None \<Rightarrow> None
             | Some (k, r1) \<Rightarrow>
                 (case skip_ws r1 of [] \<Rightarrow> None
                  | d # r2 \<Rightarrow>
                      (if d \<noteq> 58 then None
                       else case pval n r2 of None \<Rightarrow> None
                         | Some (v, r3) \<Rightarrow>
                             (case skip_ws r3 of [] \<Rightarrow> None
                              | e # r4 \<Rightarrow>
                                  (if e = 125 then Some (obj_put acc k v, r4)
                                   else if e = 44 then pmembers n (obj_put acc k v) r4
                                   else None))))))"

definition json_parse :: "jsstr \<Rightarrow> jsval res" where
  "json_parse s = (case pval (2 * length s + 2) s of
     None \<Rightarrow> Inl SyntaxError
   | Some (v, r) \<Rightarrow> if skip_ws r = [] then Inr v else Inl SyntaxError)"

section \<open>Printing\<close>

text \<open>\<open>JSON.stringify(v)\<close> on a value that has a representation: undefined properties are left
  out, undefined elements and non-finite numbers print as null. \<open>JSON.stringify(undefined)\<close> is
  undefined, hence the option.\<close>

fun json_text :: "jsval \<Rightarrow> jsstr option" where
  "json_text Undefined = None"
| "json_text Null = Some (lit ''null'')"
| "json_text (Bool b) = Some (if b then lit ''true'' else lit ''false'')"
| "json_text (Num x) = Some (if is_finite x then num_to_str x else lit ''null'')"
| "json_text (Str s) = Some (json_quote s)"
| "json_text (Arr xs) = Some (lit ''['' @ join (lit '','')
     (map (\<lambda>x. case json_text x of None \<Rightarrow> lit ''null'' | Some t \<Rightarrow> t) xs) @ lit '']'')"
| "json_text (Obj kvs) = Some (lit ''{'' @ join (lit '','')
     (concat (map (\<lambda>kv. case json_text (snd kv) of None \<Rightarrow> []
        | Some t \<Rightarrow> [json_quote (fst kv) @ lit '':'' @ t]) kvs)) @ lit ''}'')"

text \<open>\<open>JSON.stringify(v)\<close> where a text is expected.\<close>

definition json_str :: "jsval \<Rightarrow> jsstr" where
  "json_str v = (case json_text v of None \<Rightarrow> lit ''undefined'' | Some s \<Rightarrow> s)"

text \<open>\<open>JSON.stringify(v, null, 2)\<close>: one line per element and property, indented by two spaces
  a level; \<open>d\<close> is the current indentation.\<close>

definition json_block :: "nat \<Rightarrow> jsstr \<Rightarrow> jsstr \<Rightarrow> jsstr list \<Rightarrow> jsstr" where
  "json_block d l r items =
     (if items = [] then l @ r
      else l @ [10] @ join [44, 10] (map (\<lambda>x. replicate (d + 2) 32 @ x) items) @ [10] @
        replicate d 32 @ r)"

fun json_pretty :: "nat \<Rightarrow> jsval \<Rightarrow> jsstr option" where
  "json_pretty d (Arr xs) = Some (json_block d (lit ''['') (lit '']'')
     (map (\<lambda>x. case json_pretty (d + 2) x of None \<Rightarrow> lit ''null'' | Some t \<Rightarrow> t) xs))"
| "json_pretty d (Obj kvs) = Some (json_block d (lit ''{'') (lit ''}'')
     (concat (map (\<lambda>kv. case json_pretty (d + 2) (snd kv) of None \<Rightarrow> []
        | Some t \<Rightarrow> [json_quote (fst kv) @ lit '': '' @ t]) kvs)))"
| "json_pretty d v = json_text v"

definition stringify2 :: "jsval \<Rightarrow> jsval" where
  "stringify2 v = (case json_pretty 0 v of None \<Rightarrow> Undefined | Some s \<Rightarrow> Str s)"

section \<open>The parser consumes its input and never runs out of fuel\<close>

lemma length_skip_ws: "length (skip_ws s) \<le> length s"
  unfolding skip_ws_def by (rule length_dropWhile_le)

lemma skip_ws_Cons_length: "skip_ws s = c # r \<Longrightarrow> length r < length s"
  by (metis length_skip_ws length_Cons Suc_le_eq)

lemma scan_exp_length: "scan_exp s = (e, r) \<Longrightarrow> length r \<le> length s"
proof -
  assume "scan_exp s = (e, r)"
  moreover have "length (dropWhile is_digit xs) \<le> length xs" for xs
    by (rule length_dropWhile_le)
  ultimately show ?thesis
    by (auto simp: scan_exp_def Let_def le_Suc_eq split: list.splits if_splits prod.splits
        intro: le_SucI le_trans)
qed

lemma parse_number_length: "parse_number s = Some (x, r) \<Longrightarrow> length r < length s"
proof -
  assume p: "parse_number s = Some (x, r)"
  define q where "q = snd (case s of [] \<Rightarrow> (1 :: rat, s) | c # t \<Rightarrow> if c = 45 then (- 1, t) else (1, s))"
  define ip where "ip = (if q \<noteq> [] \<and> hd q = 48 then [48] else takeWhile is_digit q)"
  define r1 where "r1 = drop (length ip) q"
  define r2 where "r2 = (if r1 \<noteq> [] \<and> hd r1 = 46 then dropWhile is_digit (tl r1) else r1)"
  have "ip \<noteq> []" and r: "\<exists>e. scan_exp r2 = (e, r)"
    using p unfolding parse_number_def Let_def ip_def q_def r1_def r2_def
    by (auto split: prod.splits if_splits)
  moreover have "length q \<le> length s" by (auto simp: q_def split: list.splits)
  moreover have "ip \<noteq> [] \<Longrightarrow> q \<noteq> []" by (auto simp: ip_def)
  ultimately have "length r1 < length s" by (cases ip; cases q) (auto simp: r1_def)
  moreover have "length (dropWhile is_digit (tl r1)) \<le> length (tl r1)"
    by (rule length_dropWhile_le)
  then have "length r2 \<le> length r1" by (auto simp: r2_def)
  ultimately show ?thesis using r scan_exp_length by fastforce
qed

lemma strip_prefix_length: "strip_prefix p s = Some r \<Longrightarrow> length s = length p + length r"
  by (auto simp: strip_prefix_Some_iff)

lemma parse_literal_length: "parse_literal s = Some (v, r) \<Longrightarrow> length r < length s"
  by (auto simp: parse_literal_def lit_def split: option.splits
      dest!: strip_prefix_length parse_number_length)

lemma parser_lengths:
  shows pval_length: "pval n s = Some (v, r) \<Longrightarrow> length r < length s"
    and pelems_length: "pelems n s = Some (vs, r) \<Longrightarrow> length r < length s"
    and pmembers_length: "pmembers n acc s = Some (kvs, r) \<Longrightarrow> length r < length s"
proof (induction n s and n s and n acc s arbitrary: v r and vs r and kvs r
    rule: pval_pelems_pmembers.induct)
  case (2 n s)
  show ?case
  proof (cases "skip_ws s")
    case (Cons c t)
    note ct = Cons skip_ws_Cons_length [OF Cons]
    show ?thesis
    proof (cases "skip_ws t")
      case Nil
      with "2.prems" ct show ?thesis
        by (auto split: if_splits dest!: parse_chars_length parse_literal_length)
    next
      case (Cons d q)
      note dq = skip_ws_Cons_length [OF Cons]
      have "length (d # q) \<le> length t" using Cons length_skip_ws [of t] by simp
      with "2.prems" "2.IH" ct Cons dq show ?thesis
        by (force split: if_splits dest!: parse_chars_length parse_literal_length)
    qed
  qed (use "2.prems" in simp)
next
  case (4 n s)
  then show ?case
    by (auto split: option.splits list.splits if_splits dest!: skip_ws_Cons_length) fastforce+
next
  case (6 n acc s)
  then show ?case
    by (auto split: option.splits list.splits if_splits
        dest!: skip_ws_Cons_length parse_chars_length) fastforce+
qed simp_all


text \<open>Two amounts of fuel that are both at least twice the length of the text give the same
  result.\<close>

lemma pval_fuel_aux:
  "(2 * length s < n \<longrightarrow> 2 * length s < m \<longrightarrow> pval n s = pval m s) \<and>
   (2 * length s + 1 < n \<longrightarrow> 2 * length s + 1 < m \<longrightarrow> pelems n s = pelems m s) \<and>
   (2 * length s + 1 < n \<longrightarrow> 2 * length s + 1 < m \<longrightarrow> pmembers n acc s = pmembers m acc s)"
proof (induction n arbitrary: m s acc)
  case (Suc n)
  show ?case
  proof (cases m)
    case m: (Suc m')
    note IH = Suc.IH [of _ m']
    have val: "pval (Suc n) s = pval (Suc m') s" if "2 * length s < Suc n" "2 * length s < Suc m'"
    proof (cases "skip_ws s")
      case (Cons c t)
      note ct = Cons skip_ws_Cons_length [OF Cons]
      show ?thesis
      proof (cases "skip_ws t")
        case (Cons d q)
        have "length (d # q) \<le> length t" using Cons length_skip_ws [of t] by simp
        then have "2 * length (d # q) + 1 < n" "2 * length (d # q) + 1 < m'"
          using ct that by auto
        then have "pelems n (d # q) = pelems m' (d # q)" "pmembers n [] (d # q) = pmembers m' [] (d # q)"
          using IH [of "d # q"] by blast+
        with ct Cons show ?thesis by simp
      qed (use ct in simp)
    qed simp
    have elems: "pelems (Suc n) s = pelems (Suc m') s"
      if "2 * length s + 1 < Suc n" "2 * length s + 1 < Suc m'"
    proof -
      have v: "pval n s = pval m' s" using IH [of s] that by simp
      have "pelems n q = pelems m' q" if "pval n s = Some (u, r)" "skip_ws r = c # q" for u r c q
      proof -
        have "length q < length s"
          using pval_length [OF that(1)] skip_ws_Cons_length [OF that(2)] by simp
        then show ?thesis using IH [of q] \<open>2 * length s + 1 < Suc n\<close> \<open>2 * length s + 1 < Suc m'\<close> by simp
      qed
      then show ?thesis by (auto simp: v [symmetric] split: option.splits list.splits)
    qed
    have mems: "pmembers (Suc n) acc s = pmembers (Suc m') acc s"
      if "2 * length s + 1 < Suc n" "2 * length s + 1 < Suc m'"
    proof -
      have sub: "pval n t = pval m' t" "pmembers n acc' t = pmembers m' acc' t"
        if "length t < length s" for t acc'
        using IH [of t acc'] that \<open>2 * length s + 1 < Suc n\<close> \<open>2 * length s + 1 < Suc m'\<close> by simp_all
      have *: "pval n r2 = pval m' r2"
        if "skip_ws s = c # r" "parse_chars r = Some (k, r1)" "skip_ws r1 = d # r2" for c r k r1 d r2
        using that by (intro sub) (auto dest!: skip_ws_Cons_length parse_chars_length)
      have "pmembers n acc' r4 = pmembers m' acc' r4"
        if "skip_ws s = c # r" "parse_chars r = Some (k, r1)" "skip_ws r1 = d # r2"
          "pval n r2 = Some (v, r3)" "skip_ws r3 = e # r4" for c r k r1 d r2 v r3 e r4 acc'
        using that by (intro sub) (auto dest!: skip_ws_Cons_length parse_chars_length pval_length)
      then show ?thesis by (auto simp: * [symmetric] split: option.splits list.splits)
    qed
    from val elems mems show ?thesis unfolding m by blast
  qed simp
qed simp

lemma pval_fuel:
  "2 * length s < n \<Longrightarrow> 2 * length s < m \<Longrightarrow> pval n s = pval m s"
  using pval_fuel_aux by blast

lemma json_parse_fuel:
  "2 * length s < n \<Longrightarrow> json_parse s = (case pval n s of
     None \<Rightarrow> Inl SyntaxError
   | Some (v, r) \<Rightarrow> if skip_ws r = [] then Inr v else Inl SyntaxError)"
  unfolding json_parse_def using pval_fuel [of s n "2 * length s + 2"] by simp

end
