(* ===== verification/Request_Rule_Expr.thy ===== *)
theory Request_Rule_Expr
  imports Js_Json
begin

text \<open>
  The request-rule expressions of tiered billing, from
  \<open>web/src/pages/Setting/Ratio/components/requestRuleExpr.js\<close>: rule groups edited in the
  admin UI are printed into a billing expression (\<open>buildRequestRuleExpr\<close>,
  \<open>combineBillingExpr\<close>) and read back from it (\<open>splitBillingExprAndRequestRules\<close>,
  \<open>tryParseRequestRuleExpr\<close>).

  A condition object is the record of the properties the code reads, each a JavaScript
  value with \<open>Undefined\<close> for an absent property; since the code reads them with \<open>cond?.x\<close>
  only, the record with every field undefined also stands for a missing condition. Each
  regular expression of the source is a matcher on code units; all of them are
  deterministic, because every capture is delimited by a unit it cannot contain.
\<close>

section \<open>Constants\<close>

definition SOURCE_PARAM :: jsstr where "SOURCE_PARAM = lit ''param''"
definition SOURCE_HEADER :: jsstr where "SOURCE_HEADER = lit ''header''"
definition SOURCE_TIME :: jsstr where "SOURCE_TIME = lit ''time''"
definition MATCH_EQ :: jsstr where "MATCH_EQ = lit ''eq''"
definition MATCH_CONTAINS :: jsstr where "MATCH_CONTAINS = lit ''contains''"
definition MATCH_GT :: jsstr where "MATCH_GT = lit ''gt''"
definition MATCH_GTE :: jsstr where "MATCH_GTE = lit ''gte''"
definition MATCH_LT :: jsstr where "MATCH_LT = lit ''lt''"
definition MATCH_LTE :: jsstr where "MATCH_LTE = lit ''lte''"
definition MATCH_EXISTS :: jsstr where "MATCH_EXISTS = lit ''exists''"
definition MATCH_RANGE :: jsstr where "MATCH_RANGE = lit ''range''"

lemmas source_defs = SOURCE_PARAM_def SOURCE_HEADER_def SOURCE_TIME_def
lemmas match_defs = MATCH_EQ_def MATCH_CONTAINS_def MATCH_GT_def MATCH_GTE_def MATCH_LT_def
  MATCH_LTE_def MATCH_EXISTS_def MATCH_RANGE_def

lemma source_distinct [simp]:
  "SOURCE_PARAM \<noteq> SOURCE_HEADER" "SOURCE_HEADER \<noteq> SOURCE_PARAM" "SOURCE_PARAM \<noteq> SOURCE_TIME"
  "SOURCE_TIME \<noteq> SOURCE_PARAM" "SOURCE_HEADER \<noteq> SOURCE_TIME" "SOURCE_TIME \<noteq> SOURCE_HEADER"
  by (simp_all add: source_defs)

lemma match_distinct [simp]:
  "MATCH_EQ \<noteq> MATCH_CONTAINS" "MATCH_EQ \<noteq> MATCH_GT" "MATCH_EQ \<noteq> MATCH_GTE"
  "MATCH_EQ \<noteq> MATCH_LT" "MATCH_EQ \<noteq> MATCH_LTE" "MATCH_EQ \<noteq> MATCH_EXISTS"
  "MATCH_EQ \<noteq> MATCH_RANGE" "MATCH_CONTAINS \<noteq> MATCH_EQ" "MATCH_CONTAINS \<noteq> MATCH_GT"
  "MATCH_CONTAINS \<noteq> MATCH_GTE" "MATCH_CONTAINS \<noteq> MATCH_LT" "MATCH_CONTAINS \<noteq> MATCH_LTE"
  "MATCH_CONTAINS \<noteq> MATCH_EXISTS" "MATCH_CONTAINS \<noteq> MATCH_RANGE" "MATCH_GT \<noteq> MATCH_EQ"
  "MATCH_GT \<noteq> MATCH_CONTAINS" "MATCH_GT \<noteq> MATCH_GTE" "MATCH_GT \<noteq> MATCH_LT"
  "MATCH_GT \<noteq> MATCH_LTE" "MATCH_GT \<noteq> MATCH_EXISTS" "MATCH_GT \<noteq> MATCH_RANGE"
  "MATCH_GTE \<noteq> MATCH_EQ" "MATCH_GTE \<noteq> MATCH_CONTAINS" "MATCH_GTE \<noteq> MATCH_GT"
  "MATCH_GTE \<noteq> MATCH_LT" "MATCH_GTE \<noteq> MATCH_LTE" "MATCH_GTE \<noteq> MATCH_EXISTS"
  "MATCH_GTE \<noteq> MATCH_RANGE" "MATCH_LT \<noteq> MATCH_EQ" "MATCH_LT \<noteq> MATCH_CONTAINS"
  "MATCH_LT \<noteq> MATCH_GT" "MATCH_LT \<noteq> MATCH_GTE" "MATCH_LT \<noteq> MATCH_LTE"
  "MATCH_LT \<noteq> MATCH_EXISTS" "MATCH_LT \<noteq> MATCH_RANGE" "MATCH_LTE \<noteq> MATCH_EQ"
  "MATCH_LTE \<noteq> MATCH_CONTAINS" "MATCH_LTE \<noteq> MATCH_GT" "MATCH_LTE \<noteq> MATCH_GTE"
  "MATCH_LTE \<noteq> MATCH_LT" "MATCH_LTE \<noteq> MATCH_EXISTS" "MATCH_LTE \<noteq> MATCH_RANGE"
  "MATCH_EXISTS \<noteq> MATCH_EQ" "MATCH_EXISTS \<noteq> MATCH_CONTAINS" "MATCH_EXISTS \<noteq> MATCH_GT"
  "MATCH_EXISTS \<noteq> MATCH_GTE" "MATCH_EXISTS \<noteq> MATCH_LT" "MATCH_EXISTS \<noteq> MATCH_LTE"
  "MATCH_EXISTS \<noteq> MATCH_RANGE" "MATCH_RANGE \<noteq> MATCH_EQ" "MATCH_RANGE \<noteq> MATCH_CONTAINS"
  "MATCH_RANGE \<noteq> MATCH_GT" "MATCH_RANGE \<noteq> MATCH_GTE" "MATCH_RANGE \<noteq> MATCH_LT"
  "MATCH_RANGE \<noteq> MATCH_LTE" "MATCH_RANGE \<noteq> MATCH_EXISTS"
  by (simp_all add: match_defs)

definition TIME_FUNCS :: "jsstr list" where
  "TIME_FUNCS = [lit ''hour'', lit ''minute'', lit ''weekday'', lit ''month'', lit ''day'']"

text \<open>\<open>NUMERIC_LITERAL_REGEX\<close>: an optional minus, digits with an optional point and fraction
  or a fraction alone, and an optional exponent.\<close>

definition exponent_part :: "jsstr \<Rightarrow> bool" where
  "exponent_part s = (case s of [] \<Rightarrow> True
     | c # r \<Rightarrow> (c = 101 \<or> c = 69) \<and>
         (let ds = (case r of [] \<Rightarrow> r | d # q \<Rightarrow> if d = 43 \<or> d = 45 then q else r)
          in ds \<noteq> [] \<and> list_all is_digit ds))"

definition NUMERIC_LITERAL_REGEX :: "jsstr \<Rightarrow> bool" where
  "NUMERIC_LITERAL_REGEX s =
     (let r = (case s of [] \<Rightarrow> s | c # q \<Rightarrow> if c = 45 then q else s);
          ip = takeWhile is_digit r; r1 = dropWhile is_digit r
      in case r1 of
           c # q \<Rightarrow>
             if c = 46 then (ip \<noteq> [] \<or> takeWhile is_digit q \<noteq> []) \<and> exponent_part (dropWhile is_digit q)
             else ip \<noteq> [] \<and> exponent_part r1
         | [] \<Rightarrow> ip \<noteq> [])"

text \<open>The class \<open>[\d.eE+-]\<close> of the parser's regular expressions.\<close>

definition is_numchar :: "nat \<Rightarrow> bool" where
  "is_numchar c \<longleftrightarrow> is_digit c \<or> c = 46 \<or> c = 101 \<or> c = 69 \<or> c = 43 \<or> c = 45"

section \<open>Conditions and groups\<close>

record rule_cond =
  c_source :: jsval
  c_path :: jsval
  c_mode :: jsval
  c_value :: jsval
  c_timeFunc :: jsval
  c_timezone :: jsval
  c_rangeStart :: jsval
  c_rangeEnd :: jsval

definition no_cond :: rule_cond where
  "no_cond = \<lparr>c_source = Undefined, c_path = Undefined, c_mode = Undefined, c_value = Undefined,
     c_timeFunc = Undefined, c_timezone = Undefined, c_rangeStart = Undefined, c_rangeEnd = Undefined\<rparr>"

text \<open>A group: \<open>None\<close> stands for a missing \<open>conditions\<close> array.\<close>

record rule_group =
  g_conditions :: "rule_cond list option"
  g_multiplier :: jsval

definition createEmptyCondition :: rule_cond where
  "createEmptyCondition = no_cond\<lparr>c_source := Str SOURCE_PARAM, c_path := Str [],
     c_mode := Str MATCH_EQ, c_value := Str []\<rparr>"

definition createEmptyTimeCondition :: rule_cond where
  "createEmptyTimeCondition = no_cond\<lparr>c_source := Str SOURCE_TIME, c_timeFunc := Str (lit ''hour''),
     c_timezone := Str (lit ''Asia/Shanghai''), c_mode := Str MATCH_GTE, c_value := Str [],
     c_rangeStart := Str [], c_rangeEnd := Str []\<rparr>"

definition createEmptyRuleGroup :: rule_group where
  "createEmptyRuleGroup = \<lparr>g_conditions = Some [createEmptyCondition], g_multiplier = Str []\<rparr>"

definition createEmptyTimeRuleGroup :: rule_group where
  "createEmptyTimeRuleGroup =
     \<lparr>g_conditions = Some [createEmptyTimeCondition], g_multiplier = Str []\<rparr>"

text \<open>Options are pairs of \<open>value\<close> and \<open>label\<close>; the translation function \<open>t\<close> is a
  parameter, and the Chinese keys it is applied to are given by their code units.\<close>

definition getRequestRuleMatchOptions :: "jsstr \<Rightarrow> (jsstr \<Rightarrow> jsstr) \<Rightarrow> (jsstr \<times> jsstr) list" where
  "getRequestRuleMatchOptions source t =
     (if source = SOURCE_TIME then
        [(MATCH_EQ, t [31561, 20110]), (MATCH_GTE, t [22823, 20110, 31561, 20110]),
         (MATCH_LT, t [23567, 20110]), (MATCH_RANGE, t [36328, 22812, 33539, 22260])]
      else let base = [(MATCH_EQ, t [31561, 20110]), (MATCH_CONTAINS, t [21253, 21547]),
                       (MATCH_EXISTS, t [23384, 22312])] in
        if source = SOURCE_HEADER then base
        else base @ [(MATCH_GT, t [22823, 20110]), (MATCH_GTE, t [22823, 20110, 31561, 20110]),
                     (MATCH_LT, t [23567, 20110]), (MATCH_LTE, t [23567, 20110, 31561, 20110])])"

definition str_or_empty :: "jsval \<Rightarrow> jsval" where
  "str_or_empty v = (if nullish v then Str [] else Str (to_str v))"

definition normalizeCondition :: "rule_cond \<Rightarrow> rule_cond" where
  "normalizeCondition cond =
     (let source = (if c_source cond = Str SOURCE_TIME then SOURCE_TIME
                    else if c_source cond = Str SOURCE_HEADER then SOURCE_HEADER else SOURCE_PARAM);
          allowed = (\<lambda>dflt. if list_ex (\<lambda>item. Str (fst item) = c_mode cond) (getRequestRuleMatchOptions source (\<lambda>v. v))
                           then c_mode cond else Str dflt)
      in if source = SOURCE_TIME then
           no_cond\<lparr>c_source := Str SOURCE_TIME,
             c_timeFunc := (if c_timeFunc cond \<in> Str ` set TIME_FUNCS then c_timeFunc cond
                            else Str (lit ''hour'')),
             c_timezone := js_or (c_timezone cond) (Str (lit ''Asia/Shanghai'')),
             c_mode := allowed MATCH_GTE,
             c_value := str_or_empty (c_value cond),
             c_rangeStart := str_or_empty (c_rangeStart cond),
             c_rangeEnd := str_or_empty (c_rangeEnd cond)\<rparr>
         else
           no_cond\<lparr>c_source := Str source,
             c_path := js_or (c_path cond) (Str []),
             c_mode := allowed MATCH_EQ,
             c_value := str_or_empty (c_value cond)\<rparr>)"

text \<open>The flat rules of the older preset format: a condition with its own multiplier.\<close>

record flat_rule = rule_cond +
  r_multiplier :: jsval

definition createEmptyRequestRule :: flat_rule where
  "createEmptyRequestRule = rule_cond.extend createEmptyCondition \<lparr>r_multiplier = Str []\<rparr>"

definition createEmptyTimeRule :: flat_rule where
  "createEmptyTimeRule = rule_cond.extend createEmptyTimeCondition \<lparr>r_multiplier = Str []\<rparr>"

definition normalizeRequestRule :: "flat_rule \<Rightarrow> flat_rule" where
  "normalizeRequestRule rule = rule_cond.extend (normalizeCondition (rule_cond.truncate rule))
     \<lparr>r_multiplier = str_or_empty (r_multiplier rule)\<rparr>"

section \<open>Splitting at the top level\<close>

text \<open>The scan of \<open>splitTopLevelMultiply\<close> and \<open>splitTopLevelAnd\<close>: \<open>acc\<close> is the slice from
  \<open>start\<close> to the current index, \<open>depth\<close> the parenthesis depth, which may go negative.\<close>

definition depth_step :: "int \<Rightarrow> nat \<Rightarrow> int" where
  "depth_step d c = (if c = 40 then d + 1 else if c = 41 then d - 1 else d)"

function split_scan :: "jsstr \<Rightarrow> int \<Rightarrow> jsstr \<Rightarrow> jsstr \<Rightarrow> jsstr list" where
  "split_scan sep depth acc [] = [trim acc]"
| "split_scan sep depth acc (c # cs) =
     (let depth' = depth_step depth c in
      if depth' = 0 \<and> starts_with (c # cs) sep
      then trim acc # split_scan sep depth' [] (drop (length sep - 1) cs)
      else split_scan sep depth' (acc @ [c]) cs)"
  by pat_completeness auto
termination
  by (relation "measure (\<lambda>(sep, depth, acc, s). length s)") auto

definition splitTopLevelMultiply :: "jsstr \<Rightarrow> jsstr list" where
  "splitTopLevelMultiply expr = filter (\<lambda>p. p \<noteq> []) (split_scan (lit '' * '') 0 [] expr)"

definition splitTopLevelAnd :: "jsstr \<Rightarrow> jsstr list" where
  "splitTopLevelAnd expr = filter (\<lambda>p. p \<noteq> []) (split_scan (lit '' && '') 0 [] expr)"

section \<open>Literals\<close>

definition is_bool_text :: "jsstr \<Rightarrow> bool" where
  "is_bool_text s \<longleftrightarrow> s = lit ''true'' \<or> s = lit ''false''"

definition parseExprLiteral :: "jsstr \<Rightarrow> jsval" where
  "parseExprLiteral raw = (let text = trim raw in
     if is_bool_text text then Str text
     else if NUMERIC_LITERAL_REGEX text then Str text
     else (case json_parse text of Inl e \<Rightarrow> Null | Inr v \<Rightarrow> v))"

definition buildExprLiteral :: "jsval \<Rightarrow> jsval \<Rightarrow> jsstr" where
  "buildExprLiteral mode v = (let text = trim (to_str (js_or v (Str []))) in
     if mode = Str MATCH_CONTAINS then json_quote text
     else if is_bool_text text then text
     else if NUMERIC_LITERAL_REGEX text then text
     else json_quote text)"

section \<open>Printing conditions and groups\<close>

text \<open>\<open>v.trim()\<close> of a value that need not be a string.\<close>

fun trim_val :: "jsval \<Rightarrow> jsstr res" where
  "trim_val (Str s) = Inr (trim s)"
| "trim_val _ = Inl TypeError"

text \<open>\<open>JSON.stringify(v)\<close> inside a template.\<close>

definition json_template :: "jsval \<Rightarrow> jsstr" where
  "json_template v = (case json_text v of None \<Rightarrow> lit ''undefined'' | Some t \<Rightarrow> t)"

definition call_expr :: "jsstr \<Rightarrow> jsstr \<Rightarrow> jsstr" where
  "call_expr fn arg = fn @ lit ''('' @ arg @ lit '')''"

definition time_op :: "jsval \<Rightarrow> jsstr" where
  "time_op mode = (if mode = Str MATCH_EQ then lit ''=='' else if mode = Str MATCH_GTE then lit ''>=''
     else if mode = Str MATCH_LT then lit ''<'' else lit ''=='')"

definition buildTimeConditionExpr :: "rule_cond \<Rightarrow> jsstr" where
  "buildTimeConditionExpr cond =
     (let normalized = normalizeCondition cond;
          fn = call_expr (to_str (c_timeFunc normalized)) (json_template (c_timezone normalized))
      in if c_mode normalized = Str MATCH_RANGE then
           let s = trim (to_str (c_rangeStart normalized));
               e = trim (to_str (c_rangeEnd normalized))
           in if \<not> NUMERIC_LITERAL_REGEX s \<or> \<not> NUMERIC_LITERAL_REGEX e then []
              else fn @ lit '' >= '' @ s @ lit '' || '' @ fn @ lit '' < '' @ e
         else
           let v = trim (to_str (c_value normalized))
           in if \<not> NUMERIC_LITERAL_REGEX v then []
              else fn @ lit '' '' @ time_op (c_mode normalized) @ lit '' '' @ v)"

definition param_op :: "jsval \<Rightarrow> jsstr" where
  "param_op mode = (if mode = Str MATCH_GT then lit ''>'' else if mode = Str MATCH_GTE then lit ''>=''
     else if mode = Str MATCH_LT then lit ''<'' else lit ''<='')"

definition buildRequestConditionExpr :: "rule_cond \<Rightarrow> jsstr res" where
  "buildRequestConditionExpr cond =
     (if c_source cond = Str SOURCE_TIME then Inr (buildTimeConditionExpr cond)
      else let normalized = normalizeCondition cond; mode = c_mode normalized;
               header = (c_source normalized = Str SOURCE_HEADER)
        in case trim_val (c_path normalized) of
          Inl e \<Rightarrow> Inl e
        | Inr path \<Rightarrow> Inr (
            if path = [] then []
            else let sourceExpr = call_expr (if header then lit ''header'' else lit ''param'') (json_quote path)
              in if mode = Str MATCH_EXISTS then
                   (if header then sourceExpr @ lit '' != '' @ [34, 34] else sourceExpr @ lit '' != nil'')
                 else if mode = Str MATCH_CONTAINS then
                   (let has = call_expr (lit ''has'')
                        (sourceExpr @ lit '', '' @ buildExprLiteral mode (c_value normalized))
                    in if header then has else sourceExpr @ lit '' != nil && '' @ has)
                 else if mode \<in> {Str MATCH_GT, Str MATCH_GTE, Str MATCH_LT, Str MATCH_LTE} then
                   (let v = trim (to_str (c_value normalized))
                    in if \<not> NUMERIC_LITERAL_REGEX v then []
                       else sourceExpr @ lit '' != nil && '' @ sourceExpr @ lit '' '' @ param_op mode @ lit '' '' @ v)
                 else sourceExpr @ lit '' == '' @ buildExprLiteral mode (c_value normalized)))"

text \<open>\<open>xs.map(f)\<close> where \<open>f\<close> can throw: the first exception wins.\<close>

fun map_res :: "('a \<Rightarrow> 'b res) \<Rightarrow> 'a list \<Rightarrow> 'b list res" where
  "map_res f [] = Inr []"
| "map_res f (x # xs) = (case f x of Inl e \<Rightarrow> Inl e
     | Inr y \<Rightarrow> (case map_res f xs of Inl e \<Rightarrow> Inl e | Inr ys \<Rightarrow> Inr (y # ys)))"

definition combine_conditions :: "jsstr list \<Rightarrow> jsstr" where
  "combine_conditions condExprs =
     (if length condExprs = 1 then hd condExprs
      else join (lit '' && '')
        (map (\<lambda>e. if str_includes e (lit '' || '') then lit ''('' @ e @ lit '')'' else e) condExprs))"

definition buildRuleGroupFactor :: "rule_group \<Rightarrow> jsstr res" where
  "buildRuleGroupFactor grp =
     (case trim_val (js_or (g_multiplier grp) (Str [])) of
        Inl e \<Rightarrow> Inl e
      | Inr multiplier \<Rightarrow>
          if \<not> NUMERIC_LITERAL_REGEX multiplier then Inr []
          else (case map_res buildRequestConditionExpr
                  (case g_conditions grp of None \<Rightarrow> [] | Some cs \<Rightarrow> cs) of
                  Inl e \<Rightarrow> Inl e
                | Inr exprs \<Rightarrow>
                    (let condExprs = filter (\<lambda>e. e \<noteq> []) exprs
                     in if condExprs = [] then Inr []
                        else Inr (lit ''('' @ combine_conditions condExprs @ lit '' ? '' @ multiplier @
                               lit '' : 1)''))))"

definition buildRequestRuleExpr :: "rule_group list option \<Rightarrow> jsstr res" where
  "buildRequestRuleExpr groups =
     (case map_res buildRuleGroupFactor (case groups of None \<Rightarrow> [] | Some gs \<Rightarrow> gs) of
        Inl e \<Rightarrow> Inl e
      | Inr fs \<Rightarrow> Inr (join (lit '' * '') (filter (\<lambda>f. f \<noteq> []) fs)))"

section \<open>Parsing conditions\<close>

text \<open>\<open>fn\("([^"]+)"\)\<close>: the argument and the rest.\<close>

definition match_call :: "jsstr \<Rightarrow> jsstr \<Rightarrow> (jsstr \<times> jsstr) option" where
  "match_call fn s =
     (case strip_prefix (fn @ [40, 34]) s of None \<Rightarrow> None
      | Some r \<Rightarrow> (let arg = takeWhile (\<lambda>c. c \<noteq> 34) r in
          if arg = [] then None
          else (case strip_prefix [34, 41] (dropWhile (\<lambda>c. c \<noteq> 34) r) of None \<Rightarrow> None
                | Some q \<Rightarrow> Some (arg, q))))"

text \<open>\<open>(hour|minute|weekday|month|day)\("([^"]+)"\)\<close>\<close>

fun match_any_call :: "jsstr list \<Rightarrow> jsstr \<Rightarrow> (jsstr \<times> jsstr \<times> jsstr) option" where
  "match_any_call [] s = None"
| "match_any_call (fn # fns) s =
     (case match_call fn s of Some (arg, q) \<Rightarrow> Some (fn, arg, q) | None \<Rightarrow> match_any_call fns s)"

text \<open>\<open>([\d.eE+-]+)\<close>; what follows it in the regular expressions is not in the class.\<close>

definition match_num :: "jsstr \<Rightarrow> (jsstr \<times> jsstr) option" where
  "match_num s = (let n = takeWhile is_numchar s in
     if n = [] then None else Some (n, dropWhile is_numchar s))"

definition match_num_end :: "jsstr \<Rightarrow> jsstr option" where
  "match_num_end s = (if s \<noteq> [] \<and> list_all is_numchar s then Some s else None)"

definition time_cond :: "jsstr \<Rightarrow> jsstr \<Rightarrow> jsstr \<Rightarrow> jsstr \<Rightarrow> jsstr \<Rightarrow> jsstr \<Rightarrow> rule_cond" where
  "time_cond fn tz mode v s e = no_cond\<lparr>c_source := Str SOURCE_TIME, c_timeFunc := Str fn,
     c_timezone := Str tz, c_mode := Str mode, c_value := Str v, c_rangeStart := Str s,
     c_rangeEnd := Str e\<rparr>"

definition req_cond :: "jsstr \<Rightarrow> jsstr \<Rightarrow> jsstr \<Rightarrow> jsval \<Rightarrow> rule_cond" where
  "req_cond source path mode v = no_cond\<lparr>c_source := Str source, c_path := Str path,
     c_mode := Str mode, c_value := v\<rparr>"

text \<open>The range expression of \<open>tryParseTimeCondition\<close>, whose back references require the
  second call to repeat the first, with the rest of the text.\<close>

definition match_range :: "jsstr \<Rightarrow> (rule_cond \<times> jsstr) option" where
  "match_range s =
     (case match_any_call TIME_FUNCS s of None \<Rightarrow> None
      | Some (fn, tz, r1) \<Rightarrow>
          (case strip_prefix (lit '' >= '') r1 of None \<Rightarrow> None
           | Some r2 \<Rightarrow>
               (case match_num r2 of None \<Rightarrow> None
                | Some (a, r3) \<Rightarrow>
                    (case strip_prefix (lit '' || '' @ fn @ [40, 34] @ tz @ [34, 41] @ lit '' < '') r3 of
                       None \<Rightarrow> None
                     | Some r4 \<Rightarrow>
                         (case match_num r4 of None \<Rightarrow> None
                          | Some (b, r5) \<Rightarrow> Some (time_cond fn tz MATCH_RANGE [] a b, r5))))))"

text \<open>An operator of a list, each followed by a space.\<close>

fun match_op :: "(jsstr \<times> jsstr) list \<Rightarrow> jsstr \<Rightarrow> (jsstr \<times> jsstr) option" where
  "match_op [] s = None"
| "match_op ((tok, mode) # ops) s =
     (case strip_prefix (lit '' '' @ tok @ lit '' '') s of
        Some r \<Rightarrow> Some (mode, r) | None \<Rightarrow> match_op ops s)"

definition time_ops :: "(jsstr \<times> jsstr) list" where
  "time_ops = [(lit ''=='', MATCH_EQ), (lit ''>='', MATCH_GTE), (lit ''<'', MATCH_LT)]"

definition param_ops :: "(jsstr \<times> jsstr) list" where
  "param_ops = [(lit ''>'', MATCH_GT), (lit ''>='', MATCH_GTE), (lit ''<'', MATCH_LT),
     (lit ''<='', MATCH_LTE)]"

definition match_time_simple :: "jsstr \<Rightarrow> rule_cond option" where
  "match_time_simple s =
     (case match_any_call TIME_FUNCS s of None \<Rightarrow> None
      | Some (fn, tz, r1) \<Rightarrow>
          (case match_op time_ops r1 of None \<Rightarrow> None
           | Some (mode, r2) \<Rightarrow>
               (case match_num_end r2 of None \<Rightarrow> None
                | Some v \<Rightarrow> Some (time_cond fn tz mode v [] []))))"

definition match_range_plain :: "jsstr \<Rightarrow> rule_cond option" where
  "match_range_plain s = (case match_range s of Some (c, r) \<Rightarrow> if r = [] then Some c else None
     | None \<Rightarrow> None)"

definition match_range_wrapped :: "jsstr \<Rightarrow> rule_cond option" where
  "match_range_wrapped s = (case strip_prefix [40] s of None \<Rightarrow> None
     | Some q \<Rightarrow> (case match_range q of Some (c, r) \<Rightarrow> if r = [41] then Some c else None
        | None \<Rightarrow> None))"

definition tryParseTimeCondition :: "jsstr \<Rightarrow> rule_cond option" where
  "tryParseTimeCondition expr =
     (case match_range_plain expr of Some c \<Rightarrow> Some c
      | None \<Rightarrow> (case match_range_wrapped expr of Some c \<Rightarrow> Some c
      | None \<Rightarrow> match_time_simple expr))"

text \<open>\<open>"(?:[^"\\]|\\.)*"\<close> after its opening quote: the units up to the closing quote, and the
  rest. A backslash takes one more unit with it, which is not a line terminator.\<close>

fun scan_quoted :: "jsstr \<Rightarrow> (jsstr \<times> jsstr) option" where
  "scan_quoted [] = None"
| "scan_quoted (c # r) =
     (if c = 34 then Some ([], r)
      else if c = 92 then
        (case r of [] \<Rightarrow> None
         | e # q \<Rightarrow> if is_line_term e then None
             else map_option (\<lambda>(s, z). (c # e # s, z)) (scan_quoted q))
      else map_option (\<lambda>(s, z). (c # s, z)) (scan_quoted r))"

definition match_quoted :: "jsstr \<Rightarrow> (jsstr \<times> jsstr) option" where
  "match_quoted s = (case strip_prefix [34] s of None \<Rightarrow> None
     | Some r \<Rightarrow> (case scan_quoted r of None \<Rightarrow> None | Some (b, q) \<Rightarrow> Some ([34] @ b @ [34], q)))"

text \<open>\<open>has\(src\("([^"]+)"\), ("...")\)$\<close>: the path and the quoted literal.\<close>

definition match_has :: "jsstr \<Rightarrow> jsstr \<Rightarrow> (jsstr \<times> jsstr) option" where
  "match_has src s =
     (case strip_prefix (lit ''has('') s of None \<Rightarrow> None
      | Some r1 \<Rightarrow>
          (case match_call src r1 of None \<Rightarrow> None
           | Some (path, r2) \<Rightarrow>
               (case strip_prefix (lit '', '') r2 of None \<Rightarrow> None
                | Some r3 \<Rightarrow>
                    (case match_quoted r3 of None \<Rightarrow> None
                     | Some (q, r4) \<Rightarrow> if r4 = [41] then Some (path, q) else None))))"

definition match_exists :: "jsstr \<Rightarrow> jsstr \<Rightarrow> jsstr \<Rightarrow> jsstr option" where
  "match_exists src suffix s = (case match_call src s of None \<Rightarrow> None
     | Some (path, r) \<Rightarrow> if r = suffix then Some path else None)"

text \<open>\<open>param\("([^"]+)"\) != nil &&\<close> in front of a further test on the same path.\<close>

definition match_guarded :: "jsstr \<Rightarrow> (jsstr \<times> jsstr) option" where
  "match_guarded s = (case match_call (lit ''param'') s of None \<Rightarrow> None
     | Some (path, r) \<Rightarrow> (case strip_prefix (lit '' != nil && '') r of None \<Rightarrow> None
        | Some q \<Rightarrow> Some (path, q)))"

definition match_param_has :: "jsstr \<Rightarrow> (jsstr \<times> jsstr) option" where
  "match_param_has s = (case match_guarded s of None \<Rightarrow> None
     | Some (path, q) \<Rightarrow> (case match_has (lit ''param'') q of None \<Rightarrow> None
        | Some (path', v) \<Rightarrow> if path = path' then Some (path, v) else None))"

definition match_param_cmp :: "jsstr \<Rightarrow> rule_cond option" where
  "match_param_cmp s = (case match_guarded s of None \<Rightarrow> None
     | Some (path, q) \<Rightarrow> (case match_call (lit ''param'') q of None \<Rightarrow> None
        | Some (path', r1) \<Rightarrow>
            (case match_op param_ops r1 of None \<Rightarrow> None
             | Some (mode, r2) \<Rightarrow>
                 (case match_num_end r2 of None \<Rightarrow> None
                  | Some v \<Rightarrow> if path = path' then Some (req_cond SOURCE_PARAM path mode (Str v))
                             else None))))"

text \<open>\<open>^(param|header)\("([^"]+)"\) == (.+)$\<close>\<close>

definition match_eq :: "jsstr \<Rightarrow> (jsstr \<times> jsstr \<times> jsstr) option" where
  "match_eq s = (case match_any_call [SOURCE_PARAM, SOURCE_HEADER] s of None \<Rightarrow> None
     | Some (src, path, r) \<Rightarrow>
         (case strip_prefix (lit '' == '') r of None \<Rightarrow> None
          | Some raw \<Rightarrow> if raw \<noteq> [] \<and> \<not> list_ex is_line_term raw then Some (src, path, raw) else None))"

definition has_cond :: "jsstr \<Rightarrow> jsstr \<Rightarrow> jsstr \<Rightarrow> rule_cond option res" where
  "has_cond source path q = (case json_parse q of Inl e \<Rightarrow> Inl e
     | Inr v \<Rightarrow> Inr (Some (req_cond source path MATCH_CONTAINS v)))"

definition tryParseRequestCondition :: "jsstr \<Rightarrow> rule_cond option res" where
  "tryParseRequestCondition expr =
     (case tryParseTimeCondition expr of Some tc \<Rightarrow> Inr (Some tc)
      | None \<Rightarrow> (case match_exists (lit ''header'') (lit '' != '' @ [34, 34]) expr of
            Some path \<Rightarrow> Inr (Some (req_cond SOURCE_HEADER path MATCH_EXISTS (Str [])))
      | None \<Rightarrow> (case match_exists (lit ''param'') (lit '' != nil'') expr of
            Some path \<Rightarrow> Inr (Some (req_cond SOURCE_PARAM path MATCH_EXISTS (Str [])))
      | None \<Rightarrow> (case match_has (lit ''header'') expr of
            Some (path, q) \<Rightarrow> has_cond SOURCE_HEADER path q
      | None \<Rightarrow> (case match_param_has expr of
            Some (path, q) \<Rightarrow> has_cond SOURCE_PARAM path q
      | None \<Rightarrow> (case match_param_cmp expr of
            Some c \<Rightarrow> Inr (Some c)
      | None \<Rightarrow> (case match_eq expr of
            Some (src, path, raw) \<Rightarrow>
              (let parsedValue = parseExprLiteral raw in
               if parsedValue = Null then Inr None
               else Inr (Some (req_cond src path MATCH_EQ (Str (to_str parsedValue)))))
      | None \<Rightarrow> Inr None)))))))"

section \<open>Parsing groups\<close>

text \<open>\<open>^\((.+) \? ([\d.eE+-]+) : 1\)$\<close>, with the \<open>s\<close> flag: the multiplier is the longest run of
  the class before the suffix, since the unit before it is a space.\<close>

definition match_factor :: "jsstr \<Rightarrow> (jsstr \<times> jsstr) option" where
  "match_factor part =
     (case strip_prefix [40] part of None \<Rightarrow> None
      | Some r \<Rightarrow>
          (case strip_suffix (lit '' : 1)'') r of None \<Rightarrow> None
           | Some q \<Rightarrow>
               (let multiplier = rev (takeWhile is_numchar (rev q));
                    front = rev (dropWhile is_numchar (rev q))
                in if multiplier = [] then None
                   else (case strip_suffix (lit '' ? '') front of None \<Rightarrow> None
                         | Some c \<Rightarrow> if c = [] then None else Some (c, multiplier)))))"

text \<open>The loop over the conjuncts: a conjunct that does not parse ends it with \<open>null\<close>.\<close>

fun parse_conjuncts :: "jsstr list \<Rightarrow> rule_cond list option res" where
  "parse_conjuncts [] = Inr (Some [])"
| "parse_conjuncts (ap # aps) =
     (case tryParseRequestCondition (trim ap) of
        Inl e \<Rightarrow> Inl e
      | Inr None \<Rightarrow> Inr None
      | Inr (Some cond) \<Rightarrow>
          (case parse_conjuncts aps of
             Inl e \<Rightarrow> Inl e
           | Inr None \<Rightarrow> Inr None
           | Inr (Some conds) \<Rightarrow> Inr (Some (normalizeCondition cond # conds))))"

definition tryParseRuleGroupFactor :: "jsstr \<Rightarrow> rule_group option res" where
  "tryParseRuleGroupFactor part =
     (case match_factor part of None \<Rightarrow> Inr None
      | Some (conditionStr, multiplier) \<Rightarrow>
          (case parse_conjuncts (splitTopLevelAnd conditionStr) of
             Inl e \<Rightarrow> Inl e
           | Inr None \<Rightarrow> Inr None
           | Inr (Some conditions) \<Rightarrow>
               if conditions = [] then Inr None
               else Inr (Some \<lparr>g_conditions = Some conditions, g_multiplier = Str multiplier\<rparr>)))"

fun parse_factors :: "jsstr list \<Rightarrow> rule_group list option res" where
  "parse_factors [] = Inr (Some [])"
| "parse_factors (part # parts) =
     (case tryParseRuleGroupFactor part of
        Inl e \<Rightarrow> Inl e
      | Inr None \<Rightarrow> Inr None
      | Inr (Some g) \<Rightarrow>
          (case parse_factors parts of
             Inl e \<Rightarrow> Inl e
           | Inr None \<Rightarrow> Inr None
           | Inr (Some gs) \<Rightarrow> Inr (Some (g # gs))))"

text \<open>A missing \<open>expr\<close> is the empty text.\<close>

definition tryParseRequestRuleExpr :: "jsstr \<Rightarrow> rule_group list option res" where
  "tryParseRequestRuleExpr expr = (let trimmed = trim expr in
     if trimmed = [] then Inr (Some []) else parse_factors (splitTopLevelMultiply trimmed))"

section \<open>Billing expressions\<close>

text \<open>The scan of \<open>hasFullOuterParens\<close>: the depth must not return to zero before the last
  unit.\<close>

fun outer_scan :: "int \<Rightarrow> jsstr \<Rightarrow> bool" where
  "outer_scan depth [] = (depth = 0)"
| "outer_scan depth (c # cs) =
     (let depth' = depth_step depth c in
      if depth' = 0 \<and> cs \<noteq> [] then False else outer_scan depth' cs)"

definition hasFullOuterParens :: "jsstr \<Rightarrow> bool" where
  "hasFullOuterParens expr =
     (if \<not> starts_with expr (lit ''('') \<or> \<not> ends_with expr (lit '')'') then False
      else outer_scan 0 expr)"

text \<open>\<open>current.slice(1, -1)\<close>\<close>

definition slice_inner :: "jsstr \<Rightarrow> jsstr" where
  "slice_inner s = butlast (tl s)"

lemma length_trim_le: "length (trim s) \<le> length s"
  unfolding trim_def by (metis length_dropWhile_le length_rev order.trans)

function unwrap_loop :: "jsstr \<Rightarrow> jsstr" where
  "unwrap_loop current =
     (if hasFullOuterParens current then unwrap_loop (trim (slice_inner current)) else current)"
  by pat_completeness auto
termination
proof (relation "measure length")
  fix s assume "hasFullOuterParens s"
  then have "s \<noteq> []" by (auto simp: hasFullOuterParens_def starts_with_def lit_simps)
  then have "length (slice_inner s) < length s" by (cases s) (auto simp: slice_inner_def)
  then show "(trim (slice_inner s), s) \<in> measure length"
    using length_trim_le [of "slice_inner s"] by simp
qed simp

declare unwrap_loop.simps [simp del]

definition unwrapOuterParens :: "jsstr \<Rightarrow> jsstr" where
  "unwrapOuterParens expr = unwrap_loop (trim expr)"

definition combineBillingExpr :: "jsstr \<Rightarrow> jsstr \<Rightarrow> jsstr" where
  "combineBillingExpr baseExpr requestRuleExpr =
     (let base = trim baseExpr; rules = trim requestRuleExpr in
      if base = [] then [] else if rules = [] then base
      else lit ''('' @ base @ lit '') * '' @ rules)"

definition is_rule_part :: "jsstr \<Rightarrow> bool res" where
  "is_rule_part part = (case tryParseRequestRuleExpr part of Inl e \<Rightarrow> Inl e
     | Inr None \<Rightarrow> Inr False | Inr (Some gs) \<Rightarrow> Inr (gs \<noteq> []))"

record billing_split =
  billingExpr :: jsstr
  requestRuleExpr :: jsstr

definition splitBillingExprAndRequestRules :: "jsstr \<Rightarrow> billing_split res" where
  "splitBillingExprAndRequestRules expr = (let trimmed = trim expr in
     if trimmed = [] then Inr \<lparr>billingExpr = [], requestRuleExpr = []\<rparr>
     else let parts = splitTopLevelMultiply trimmed in
       if length parts \<le> 1 then Inr \<lparr>billingExpr = trimmed, requestRuleExpr = []\<rparr>
       else (case map_res is_rule_part parts of
           Inl e \<Rightarrow> Inl e
         | Inr flags \<Rightarrow>
             (let ruleParts = map fst (filter snd (zip parts flags));
                  baseParts = map fst (filter (\<lambda>pf. \<not> snd pf) (zip parts flags))
              in if ruleParts = [] \<or> length baseParts \<noteq> 1
                 then Inr \<lparr>billingExpr = trimmed, requestRuleExpr = []\<rparr>
                 else Inr \<lparr>billingExpr = unwrapOuterParens (hd baseParts),
                           requestRuleExpr = join (lit '' * '') ruleParts\<rparr>)))"

section \<open>Descriptions\<close>

text \<open>The labels are translated by \<open>t\<close>, which here may be applied to any value; a template
  converts what it embeds with \<open>String\<close>.\<close>

definition RULE_TIME_FUNC_LABELS :: "(jsstr \<times> jsstr) list" where
  "RULE_TIME_FUNC_LABELS = [(lit ''hour'', [23567, 26102]), (lit ''minute'', [20998, 38047]),
     (lit ''weekday'', [26143, 26399]), (lit ''month'', [26376, 20221]), (lit ''day'', [26085, 26399])]"

definition describe_op :: "(jsstr \<times> jsstr) list \<Rightarrow> jsval \<Rightarrow> jsstr" where
  "describe_op opMap mode = (case map_of opMap (to_str mode) of None \<Rightarrow> lit ''='' | Some v \<Rightarrow> v)"

definition describeRuleCondition :: "rule_cond \<Rightarrow> (jsval \<Rightarrow> jsstr) \<Rightarrow> jsstr" where
  "describeRuleCondition cond t =
     (if c_source cond = Str SOURCE_TIME then
        (let fn = t (case map_of RULE_TIME_FUNC_LABELS (to_str (c_timeFunc cond)) of
                       Some l \<Rightarrow> Str l | None \<Rightarrow> c_timeFunc cond);
             tz = to_str (js_or (c_timezone cond) (Str (lit ''UTC'')))
         in if c_mode cond = Str MATCH_RANGE
            then fn @ lit '' '' @ to_str (c_rangeStart cond) @ lit '':00~'' @
                 to_str (c_rangeEnd cond) @ lit '':00 ('' @ tz @ lit '')''
            else fn @ lit '' '' @
                 describe_op [(MATCH_EQ, lit ''=''), (MATCH_GTE, [8805]), (MATCH_LT, lit ''<'')] (c_mode cond) @
                 lit '' '' @ to_str (c_value cond) @ lit '' ('' @ tz @ lit '')'')
      else
        (let src = (if c_source cond = Str (lit ''header'') then t (Str [35831, 27714, 22836])
                    else t (Str [35831, 27714, 21442, 25968]));
             path = to_str (js_or (c_path cond) (Str []))
         in if c_mode cond = Str MATCH_EXISTS
            then src @ lit '' '' @ path @ lit '' '' @ t (Str [23384, 22312])
            else if c_mode cond = Str MATCH_CONTAINS
            then src @ lit '' '' @ path @ lit '' '' @ t (Str [21253, 21547]) @ lit '' '' @ [34] @
                 to_str (c_value cond) @ [34]
            else src @ lit '' '' @ path @ lit '' '' @
                 describe_op [(lit ''eq'', lit ''=''), (lit ''gt'', lit ''>''), (lit ''gte'', [8805]),
                   (lit ''lt'', lit ''<''), (lit ''lte'', [8804])] (c_mode cond) @
                 lit '' '' @ to_str (c_value cond)))"

definition describeRuleGroup :: "rule_group \<Rightarrow> (jsval \<Rightarrow> jsstr) \<Rightarrow> jsstr" where
  "describeRuleGroup grp t = join (lit '' && '')
     (map (\<lambda>c. describeRuleCondition c t) (case g_conditions grp of None \<Rightarrow> [] | Some cs \<Rightarrow> cs))"

end
