(* ===== verification/Request_Rule_Thms.thy ===== *)
theory Request_Rule_Thms
  imports Request_Rule_Expr
begin

text \<open>
  Properties of the request-rule expressions: the top-level splitters cut exactly at the
  separators between well-bracketed parts, printing a rule group and parsing it back is the
  identity on the conditions the group parser supports, and combining a base expression with
  its rules is undone by \<open>splitBillingExprAndRequestRules\<close>.
\<close>

section \<open>Scanning well-bracketed text\<close>

definition depth_after :: "int \<Rightarrow> jsstr \<Rightarrow> int" where
  "depth_after d s = foldl depth_step d s"

lemma depth_after_simps [simp]:
  "depth_after d [] = d"
  "depth_after d (c # s) = depth_after (depth_step d c) s"
  "depth_after d (s @ t) = depth_after (depth_after d s) t"
  by (simp_all add: depth_after_def)

definition no_paren :: "jsstr \<Rightarrow> bool" where
  "no_paren s \<longleftrightarrow> 40 \<notin> set s \<and> 41 \<notin> set s"

lemma no_paren_simps [simp]:
  "no_paren []" "no_paren (c # s) \<longleftrightarrow> c \<noteq> 40 \<and> c \<noteq> 41 \<and> no_paren s"
  "no_paren (s @ t) \<longleftrightarrow> no_paren s \<and> no_paren t"
  by (auto simp: no_paren_def)

lemma depth_after_no_paren [simp]: "no_paren s \<Longrightarrow> depth_after d s = d"
  by (induction s) (auto simp: depth_step_def)

text \<open>No separator is met at depth zero while \<open>s\<close> is scanned with \<open>t\<close> after it.\<close>

fun clean :: "jsstr \<Rightarrow> int \<Rightarrow> jsstr \<Rightarrow> jsstr \<Rightarrow> bool" where
  "clean sep d [] t = True"
| "clean sep d (c # s) t \<longleftrightarrow>
     \<not> (depth_step d c = 0 \<and> starts_with (c # s @ t) sep) \<and> clean sep (depth_step d c) s t"

lemma clean_append [simp]:
  "clean sep d (a @ b) t \<longleftrightarrow> clean sep d a (b @ t) \<and> clean sep (depth_after d a) b t"
  by (induction a arbitrary: d) auto

lemma split_scan_clean:
  "clean sep d p t \<Longrightarrow> split_scan sep d acc (p @ t) = split_scan sep (depth_after d p) (acc @ p) t"
  by (induction p arbitrary: d acc) (auto simp: Let_def)

lemma split_scan_sep:
  assumes "clean sep 0 p (sep @ t)" "depth_after 0 p = 0" "sep = sh # st" "sh \<noteq> 40" "sh \<noteq> 41"
  shows "split_scan sep 0 [] (p @ sep @ t) = trim p # split_scan sep 0 [] t"
  using assms(3,4,5) split_scan_clean [OF assms(1), of "[]"]
  by (simp add: assms(2) Let_def depth_step_def starts_with_def)

lemma split_scan_last:
  "clean sep 0 p [] \<Longrightarrow> split_scan sep 0 [] p = [trim p]"
  using split_scan_clean [of sep 0 p "[]" "[]"] by simp

text \<open>The splitter undoes \<^const>\<open>join\<close> on parts that are clean whatever follows them.\<close>

definition sep_part :: "jsstr \<Rightarrow> jsstr \<Rightarrow> bool" where
  "sep_part sep p \<longleftrightarrow> depth_after 0 p = 0 \<and> clean sep 0 p [] \<and> (\<forall>t. clean sep 0 p (sep @ t)) \<and>
     trimmed p \<and> p \<noteq> []"

lemma split_scan_join:
  assumes "sep = sh # st" "sh \<noteq> 40" "sh \<noteq> 41" "list_all (sep_part sep) ps" "ps \<noteq> []"
  shows "split_scan sep 0 [] (join sep ps) = ps"
  using assms(4,5)
proof (induction ps)
  case (Cons p ps)
  show ?case
  proof (cases ps)
    case Nil
    with Cons.prems show ?thesis by (simp add: split_scan_last trim_id sep_part_def)
  next
    case (Cons q qs)
    with Cons.prems Cons.IH show ?thesis
      using split_scan_sep [of sep p "join sep ps", OF _ _ assms(1-3)]
      by (simp add: sep_part_def trim_id)
  qed
qed simp

lemma filter_sep_parts: "list_all (sep_part sep) ps \<Longrightarrow> filter (\<lambda>p. p \<noteq> []) ps = ps"
  by (induction ps) (auto simp: sep_part_def)

lemma splitTopLevelAnd_join:
  "list_all (sep_part (lit '' && '')) ps \<Longrightarrow> ps \<noteq> [] \<Longrightarrow> splitTopLevelAnd (join (lit '' && '') ps) = ps"
  unfolding splitTopLevelAnd_def
  by (subst split_scan_join [where sh = 32 and st = "lit ''&& ''"])
    (auto simp: lit_simps filter_sep_parts)

lemma splitTopLevelMultiply_join:
  "list_all (sep_part (lit '' * '')) ps \<Longrightarrow> ps \<noteq> [] \<Longrightarrow>
   splitTopLevelMultiply (join (lit '' * '') ps) = ps"
  unfolding splitTopLevelMultiply_def
  by (subst split_scan_join [where sh = 32 and st = "lit ''* ''"])
    (auto simp: lit_simps filter_sep_parts)

text \<open>Inside brackets nothing separates.\<close>

fun keeps :: "int \<Rightarrow> jsstr \<Rightarrow> bool" where
  "keeps d [] = True"
| "keeps d (c # s) \<longleftrightarrow> 0 < depth_step d c \<and> keeps (depth_step d c) s"

lemma keeps_append [simp]: "keeps d (a @ b) \<longleftrightarrow> keeps d a \<and> keeps (depth_after d a) b"
  by (induction a arbitrary: d) auto

lemma keeps_clean: "keeps d s \<Longrightarrow> clean sep d s t"
  by (induction s arbitrary: d) auto

lemma keeps_no_paren [simp]: "no_paren s \<Longrightarrow> 0 < d \<Longrightarrow> keeps d s"
  by (induction s arbitrary: d) (auto simp: depth_step_def)

lemma bracketed_sep_part:
  assumes "keeps 1 s" "depth_after 1 s = 1" "sep = sh # st" "sh \<noteq> 40" "sh \<noteq> 41"
  shows "sep_part sep (40 # s @ [41])"
  using assms keeps_clean [OF assms(1), of sep]
  by (auto simp: sep_part_def depth_step_def starts_with_def trimmed_def is_ws_def)

text \<open>A separator starting with a space is not met in text without spaces, and not in text
  that does not contain it and ends with a unit outside it.\<close>

lemma clean_no_space: "no_paren s \<Longrightarrow> 32 \<notin> set s \<Longrightarrow> clean (32 # sep) d s t"
  by (induction s arbitrary: d) (auto simp: starts_with_def depth_step_def)

lemma clean_no_sep:
  assumes "\<not> str_includes s sep" "no_paren s" "s = [] \<or> last s \<notin> set sep"
  shows "clean sep d s t"
  using assms
proof (induction s arbitrary: d)
  case (Cons c s)
  have "\<not> starts_with (c # s @ t) sep"
  proof
    assume "starts_with (c # s @ t) sep"
    then obtain r where r: "(c # s) @ t = sep @ r" by (auto simp: starts_with_iff)
    then consider u where "c # s = sep @ u" | u where "(c # s) @ u = sep"
      by (metis append_eq_append_conv2)
    then show False
    proof cases
      case 1
      with Cons.prems(1) show ?thesis by (metis append_Nil str_includes_iff)
    next
      case 2
      then have "last (c # s) \<in> set sep"
        by (metis Un_iff last_in_set list.distinct(1) set_append)
      with Cons.prems(3) show ?thesis by simp
    qed
  qed
  with Cons show ?case by (auto simp: depth_step_def split: if_splits)
qed simp

section \<open>The conditions the group parser supports\<close>

text \<open>Arguments that \<open>JSON.stringify\<close> leaves as they are, without brackets.\<close>

definition plain_arg :: "jsstr \<Rightarrow> bool" where
  "plain_arg s \<longleftrightarrow> s \<noteq> [] \<and> list_all (\<lambda>c. 32 \<le> c \<and> c < 65536 \<and> c \<noteq> 34 \<and> c \<noteq> 92 \<and>
     c \<noteq> 40 \<and> c \<noteq> 41 \<and> \<not> is_lead c \<and> \<not> is_trail c) s"

text \<open>Values of equality tests: no brackets, no separator of conjuncts and no Unicode line
  separator in the printed literal.\<close>

definition plain_value :: "jsstr \<Rightarrow> bool" where
  "plain_value v \<longleftrightarrow> trimmed v \<and> list_all (\<lambda>c. c < 65536) v \<and> no_paren v \<and>
     (let l = buildExprLiteral (Str MATCH_EQ) (Str v)
      in \<not> list_ex is_line_term l \<and> \<not> str_includes l (lit '' && ''))"

inductive supported_cond :: "rule_cond \<Rightarrow> bool" where
  range: "fn \<in> set TIME_FUNCS \<Longrightarrow> plain_arg tz \<Longrightarrow> NUMERIC_LITERAL_REGEX a \<Longrightarrow>
    NUMERIC_LITERAL_REGEX b \<Longrightarrow> supported_cond (time_cond fn tz MATCH_RANGE [] a b)"
| time: "fn \<in> set TIME_FUNCS \<Longrightarrow> plain_arg tz \<Longrightarrow> mode \<in> {MATCH_EQ, MATCH_GTE, MATCH_LT} \<Longrightarrow>
    NUMERIC_LITERAL_REGEX v \<Longrightarrow> supported_cond (time_cond fn tz mode v [] [])"
| exists: "source \<in> {SOURCE_PARAM, SOURCE_HEADER} \<Longrightarrow> plain_arg p \<Longrightarrow> trimmed p \<Longrightarrow>
    supported_cond (req_cond source p MATCH_EXISTS (Str []))"
| has: "plain_arg p \<Longrightarrow> trimmed p \<Longrightarrow> trimmed v \<Longrightarrow> list_all (\<lambda>c. c < 65536) v \<Longrightarrow> no_paren v \<Longrightarrow>
    supported_cond (req_cond SOURCE_HEADER p MATCH_CONTAINS (Str v))"
| eq: "source \<in> {SOURCE_PARAM, SOURCE_HEADER} \<Longrightarrow> plain_arg p \<Longrightarrow> trimmed p \<Longrightarrow> plain_value v \<Longrightarrow>
    supported_cond (req_cond source p MATCH_EQ (Str v))"

lemma TIME_FUNCS_ident: "fn \<in> set TIME_FUNCS \<Longrightarrow> 40 \<notin> set fn \<and> 41 \<notin> set fn \<and> 32 \<notin> set fn \<and> fn \<noteq> []
    \<and> trimmed fn \<and> 38 \<notin> set fn"
  by (auto simp: TIME_FUNCS_def lit_simps trimmed_def is_ws_def)

lemma no_paren_TIME_FUNCS: "fn \<in> set TIME_FUNCS \<Longrightarrow> no_paren fn"
  using TIME_FUNCS_ident by (auto simp: no_paren_def)

lemma normalize_time_cond:
  assumes "fn \<in> set TIME_FUNCS" "tz \<noteq> []" "mode \<in> {MATCH_EQ, MATCH_GTE, MATCH_LT, MATCH_RANGE}"
  shows "normalizeCondition (time_cond fn tz mode v a b) = time_cond fn tz mode v a b"
  using assms
  by (auto simp: normalizeCondition_def time_cond_def no_cond_def str_or_empty_def Let_def
      getRequestRuleMatchOptions_def)

lemma normalize_req_cond:
  assumes "source \<in> {SOURCE_PARAM, SOURCE_HEADER}"
    "mode \<in> {MATCH_EQ, MATCH_CONTAINS, MATCH_EXISTS} \<or>
     source = SOURCE_PARAM \<and> mode \<in> {MATCH_GT, MATCH_GTE, MATCH_LT, MATCH_LTE}"
  shows "normalizeCondition (req_cond source p mode (Str v)) = req_cond source p mode (Str v)"
  using assms
  by (auto simp: normalizeCondition_def req_cond_def no_cond_def str_or_empty_def Let_def
      getRequestRuleMatchOptions_def)

lemma normalize_supported: "supported_cond c \<Longrightarrow> normalizeCondition c = c"
  by (induction rule: supported_cond.induct)
    (auto simp: plain_arg_def intro!: normalize_time_cond normalize_req_cond)

subsection \<open>Literals\<close>

lemma quote_units_plain: "list_all (\<lambda>c. 32 \<le> c \<and> c \<noteq> 34 \<and> c \<noteq> 92 \<and> \<not> is_lead c \<and> \<not> is_trail c) s \<Longrightarrow>
   quote_units s = s"
  by (induction s rule: quote_units.induct) (auto simp: quote_unit_def)

lemma json_quote_plain: "plain_arg s \<Longrightarrow> json_quote s = 34 # s @ [34]"
  unfolding json_quote_def plain_arg_def
  by (subst quote_units_plain) (auto simp: list_all_iff)

lemma plain_arg_facts:
  assumes "plain_arg s" shows "s \<noteq> []" "34 \<notin> set s" "no_paren s"
  using assms by (auto simp: plain_arg_def list_all_iff no_paren_def)

lemma numchar_facts: "is_numchar c \<Longrightarrow> c \<noteq> 32 \<and> c \<noteq> 34 \<and> c \<noteq> 40 \<and> c \<noteq> 41 \<and> \<not> is_ws c \<and> c \<noteq> 38 \<and> c \<noteq> 124
   \<and> \<not> is_line_term c"
  by (auto simp: is_numchar_def is_digit_def is_ws_def is_line_term_def)

lemma in_takeWhile_or_dropWhile:
  "x \<in> set xs \<Longrightarrow> x \<in> set (takeWhile P xs) \<or> x \<in> set (dropWhile P xs)"
  by (induction xs) auto

lemma digit_numchar: "is_digit c \<Longrightarrow> is_numchar c"
  by (simp add: is_numchar_def)

lemma exponent_part_numchar: "exponent_part s \<Longrightarrow> c \<in> set s \<Longrightarrow> is_numchar c"
  by (auto simp: exponent_part_def is_numchar_def list_all_iff Let_def split: list.splits if_splits)

lemma numeric_numchar: "NUMERIC_LITERAL_REGEX s \<Longrightarrow> list_all is_numchar s \<and> s \<noteq> []"
proof -
  assume n: "NUMERIC_LITERAL_REGEX s"
  define r where "r = (case s of [] \<Rightarrow> s | c # q \<Rightarrow> if c = 45 then q else s)"
  have s: "s = r \<or> s = 45 # r" by (auto simp: r_def split: list.splits)
  have "is_numchar c" if "c \<in> set r" for c
  proof -
    consider "c \<in> set (takeWhile is_digit r)" | "c \<in> set (dropWhile is_digit r)"
      using in_takeWhile_or_dropWhile [of c r is_digit] \<open>c \<in> set r\<close> by blast
    then show ?thesis
    proof cases
      case 1
      then show ?thesis by (auto dest: set_takeWhileD simp: is_numchar_def)
    next
      case 2
      then obtain d q where dq: "dropWhile is_digit r = d # q" "c = d \<or> c \<in> set q"
        by (cases "dropWhile is_digit r") auto
      show ?thesis
      proof (cases "d = 46")
        case True
        then have "exponent_part (dropWhile is_digit q)"
          using n dq(1) by (simp add: NUMERIC_LITERAL_REGEX_def Let_def r_def [symmetric])
        then show ?thesis using dq(2) True in_takeWhile_or_dropWhile [of c q is_digit]
          by (elim disjE) (auto dest: set_takeWhileD exponent_part_numchar intro: digit_numchar
              simp: is_numchar_def [of 46])
      next
        case False
        then have "exponent_part (dropWhile is_digit r)"
          using n dq(1) by (simp add: NUMERIC_LITERAL_REGEX_def Let_def r_def [symmetric])
        then show ?thesis using 2 exponent_part_numchar by blast
      qed
    qed
  qed
  moreover have "s \<noteq> []" using n by (auto simp: NUMERIC_LITERAL_REGEX_def)
  moreover have "is_numchar 45" by (simp add: is_numchar_def)
  ultimately show ?thesis using s by (auto simp: list_all_iff)
qed

lemma numeric_facts:
  assumes "NUMERIC_LITERAL_REGEX s"
  shows "s \<noteq> []" "list_all is_numchar s" "no_paren s" "trimmed s" "32 \<notin> set s" "34 \<notin> set s"
    "38 \<notin> set s"
  using numeric_numchar [OF assms] numchar_facts
  by (auto simp: list_all_iff no_paren_def trimmed_def)

lemma json_quote_ends: "hd (json_quote s) = 34" "last (json_quote s) = 34" "json_quote s \<noteq> []"
  by (auto simp: json_quote_def)

lemma json_quote_not_numeric: "\<not> NUMERIC_LITERAL_REGEX (json_quote s)" "\<not> is_bool_text (json_quote s)"
  using numeric_facts(6) [of "json_quote s"]
  by (auto simp: json_quote_def is_bool_text_def lit_simps)

lemma pval_quote: "\<forall>c \<in> set s. c < 65536 \<Longrightarrow> pval (Suc n) (json_quote s @ r) = Some (Str s, r)"
  by (simp add: json_quote_def skip_ws_def is_json_ws_def parse_chars_quote_units)

lemma json_parse_quote: "\<forall>c \<in> set s. c < 65536 \<Longrightarrow> json_parse (json_quote s) = Inr (Str s)"
  using pval_quote [of s _ "[]"]
  by (simp add: json_parse_def skip_ws_def del: pval.simps)

lemma hex_digit_ge: "48 \<le> hex_digit d"
  by (simp add: hex_digit_def)

lemma hex_digit_no_paren [simp]: "hex_digit d \<noteq> 40" "hex_digit d \<noteq> 41"
  using hex_digit_ge [of d] by auto

lemma no_paren_quote_unit: "c \<noteq> 40 \<Longrightarrow> c \<noteq> 41 \<Longrightarrow> no_paren (quote_unit c)"
  by (simp add: quote_unit_def unicode_escape_def lit_simps)

lemma no_paren_quote_units: "no_paren s \<Longrightarrow> no_paren (quote_units s)"
  by (induction s rule: quote_units.induct) (auto simp: no_paren_quote_unit)

lemma no_paren_quote: "no_paren s \<Longrightarrow> no_paren (json_quote s)"
  by (simp add: json_quote_def no_paren_quote_units)

subsection \<open>Calls\<close>

definition qcall :: "jsstr \<Rightarrow> jsstr \<Rightarrow> jsstr" where
  "qcall fn arg = fn @ [40, 34] @ arg @ [34, 41]"

lemma call_expr_plain: "plain_arg arg \<Longrightarrow> call_expr fn (json_quote arg) = qcall fn arg"
  by (simp add: call_expr_def qcall_def json_quote_plain lit_simps)

lemma match_call_qcall [simp]: "plain_arg arg \<Longrightarrow> match_call fn (qcall fn arg @ r) = Some (arg, r)"
proof -
  assume "plain_arg arg"
  note f = plain_arg_facts [OF this]
  have "strip_prefix (fn @ [40, 34]) (qcall fn arg @ r) = Some (arg @ [34, 41] @ r)"
    using strip_prefix_append [of "fn @ [40, 34]" "arg @ [34, 41] @ r"] by (simp add: qcall_def)
  moreover have "takeWhile (\<lambda>c. c \<noteq> 34) (arg @ 34 # t) = arg" for t
    using f by (subst takeWhile_append2) auto
  moreover have "dropWhile (\<lambda>c. c \<noteq> 34) (arg @ 34 # t) = 34 # t" for t
    using f by (subst dropWhile_append2) auto
  ultimately show ?thesis using f(1) by (simp add: match_call_def)
qed

lemma strip_call_prefix_diff:
  assumes "40 \<notin> set fn" "40 \<notin> set gn" "fn \<noteq> gn"
  shows "strip_prefix (gn @ 40 # p) (fn @ 40 # s) = None"
proof (rule ccontr)
  assume "strip_prefix (gn @ 40 # p) (fn @ 40 # s) \<noteq> None"
  then obtain r where e: "fn @ 40 # s = gn @ 40 # p @ r"
    by (auto simp: strip_prefix_Some_iff)
  have "takeWhile (\<lambda>c. c \<noteq> 40) (fn @ 40 # s) = fn" using assms(1) by (subst takeWhile_append2) auto
  moreover have "takeWhile (\<lambda>c. c \<noteq> 40) (gn @ 40 # p @ r) = gn"
    using assms(2) by (subst takeWhile_append2) auto
  ultimately show False using e assms(3) by simp
qed

lemma match_call_diff:
  "40 \<notin> set fn \<Longrightarrow> 40 \<notin> set gn \<Longrightarrow> fn \<noteq> gn \<Longrightarrow> match_call gn (qcall fn arg @ r) = None"
  using strip_call_prefix_diff [of fn gn "[34]" "34 # arg @ 34 # 41 # r"]
  by (simp add: match_call_def qcall_def)

lemma match_any_call_qcall:
  "plain_arg arg \<Longrightarrow> fn \<in> set fns \<Longrightarrow> \<forall>gn \<in> set fns. 40 \<notin> set gn \<Longrightarrow>
   match_any_call fns (qcall fn arg @ r) = Some (fn, arg, r)"
proof (induction fns)
  case (Cons gn fns)
  then show ?case by (cases "gn = fn") (auto simp: match_call_diff)
qed simp

lemma match_any_call_diff:
  "fn \<notin> set fns \<Longrightarrow> \<forall>gn \<in> set fns. 40 \<notin> set gn \<Longrightarrow> 40 \<notin> set fn \<Longrightarrow>
   match_any_call fns (qcall fn arg @ r) = None"
  by (induction fns) (auto simp: match_call_diff)

lemma match_time_call [simp]:
  "plain_arg tz \<Longrightarrow> fn \<in> set TIME_FUNCS \<Longrightarrow> match_any_call TIME_FUNCS (qcall fn tz @ r) = Some (fn, tz, r)"
  by (rule match_any_call_qcall) (auto dest: TIME_FUNCS_ident)

lemma takeWhile_numchar:
  "list_all is_numchar s \<Longrightarrow> (r = [] \<or> \<not> is_numchar (hd r)) \<Longrightarrow>
   takeWhile is_numchar (s @ r) = s \<and> dropWhile is_numchar (s @ r) = r"
  by (induction s) (cases r; auto)+

lemma match_num_space [simp]:
  "NUMERIC_LITERAL_REGEX s \<Longrightarrow> (r = [] \<or> \<not> is_numchar (hd r)) \<Longrightarrow> match_num (s @ r) = Some (s, r)"
  using takeWhile_numchar [of s r] numeric_facts [of s] by (simp add: match_num_def)

lemma match_num_end_numeric [simp]: "NUMERIC_LITERAL_REGEX s \<Longrightarrow> match_num_end s = Some s"
  using numeric_facts [of s] by (simp add: match_num_end_def)

lemma not_numchar [simp]: "\<not> is_numchar 32" "\<not> is_numchar 41"
  by (simp_all add: is_numchar_def is_digit_def)

subsection \<open>Printed conditions and their parse\<close>

text \<open>The text printed for each supported condition.\<close>

definition range_text :: "jsstr \<Rightarrow> jsstr \<Rightarrow> jsstr \<Rightarrow> jsstr \<Rightarrow> jsstr" where
  "range_text fn tz a b = qcall fn tz @ lit '' >= '' @ a @ lit '' || '' @ qcall fn tz @ lit '' < '' @ b"

lemma build_range:
  assumes "fn \<in> set TIME_FUNCS" "plain_arg tz" "NUMERIC_LITERAL_REGEX a" "NUMERIC_LITERAL_REGEX b"
  shows "buildRequestConditionExpr (time_cond fn tz MATCH_RANGE [] a b) = Inr (range_text fn tz a b)"
proof -
  have "normalizeCondition (time_cond fn tz MATCH_RANGE [] a b) = time_cond fn tz MATCH_RANGE [] a b"
    using assms plain_arg_facts by (intro normalize_time_cond) auto
  then show ?thesis
    using assms numeric_facts [OF assms(3)] numeric_facts [OF assms(4)]
    by (simp add: buildRequestConditionExpr_def buildTimeConditionExpr_def range_text_def Let_def
        time_cond_def trim_id json_template_def call_expr_plain)
qed

lemma build_time:
  assumes "fn \<in> set TIME_FUNCS" "plain_arg tz" "NUMERIC_LITERAL_REGEX v"
    "mode \<in> {MATCH_EQ, MATCH_GTE, MATCH_LT}"
  shows "buildRequestConditionExpr (time_cond fn tz mode v [] []) =
    Inr (qcall fn tz @ lit '' '' @ time_op (Str mode) @ lit '' '' @ v)"
proof -
  have "normalizeCondition (time_cond fn tz mode v [] []) = time_cond fn tz mode v [] []"
    using assms plain_arg_facts by (intro normalize_time_cond) auto
  then show ?thesis
    using assms numeric_facts [OF assms(3)]
    by (auto simp add: buildRequestConditionExpr_def buildTimeConditionExpr_def Let_def
        time_cond_def trim_id json_template_def call_expr_plain)
qed

lemma build_exists:
  assumes "source \<in> {SOURCE_PARAM, SOURCE_HEADER}" "plain_arg p" "trimmed p"
  shows "buildRequestConditionExpr (req_cond source p MATCH_EXISTS (Str [])) =
    Inr (qcall source p @ (if source = SOURCE_HEADER then lit '' != '' @ [34, 34] else lit '' != nil''))"
proof -
  have "normalizeCondition (req_cond source p MATCH_EXISTS (Str [])) = req_cond source p MATCH_EXISTS (Str [])"
    using assms by (intro normalize_req_cond) auto
  moreover have "source \<noteq> SOURCE_TIME" using assms(1) by auto
  ultimately show ?thesis
    using assms plain_arg_facts(1) [OF assms(2)]
    by (auto simp add: buildRequestConditionExpr_def Let_def req_cond_def trim_id call_expr_plain source_defs)
qed

lemma build_has:
  assumes "plain_arg p" "trimmed p" "trimmed v"
  shows "buildRequestConditionExpr (req_cond SOURCE_HEADER p MATCH_CONTAINS (Str v)) =
    Inr (lit ''has('' @ qcall SOURCE_HEADER p @ lit '', '' @ json_quote v @ lit '')'')"
proof -
  have "normalizeCondition (req_cond SOURCE_HEADER p MATCH_CONTAINS (Str v)) =
      req_cond SOURCE_HEADER p MATCH_CONTAINS (Str v)"
    by (intro normalize_req_cond) auto
  then show ?thesis
    using assms plain_arg_facts(1) [OF assms(1)]
    by (auto simp add: buildRequestConditionExpr_def Let_def req_cond_def trim_id call_expr_plain
        buildExprLiteral_def source_defs) (simp_all add: call_expr_def lit_simps)
qed

lemma build_eq:
  assumes "source \<in> {SOURCE_PARAM, SOURCE_HEADER}" "plain_arg p" "trimmed p"
  shows "buildRequestConditionExpr (req_cond source p MATCH_EQ (Str v)) =
    Inr (qcall source p @ lit '' == '' @ buildExprLiteral (Str MATCH_EQ) (Str v))"
proof -
  have "normalizeCondition (req_cond source p MATCH_EQ (Str v)) = req_cond source p MATCH_EQ (Str v)"
    using assms by (intro normalize_req_cond) auto
  moreover have "source \<noteq> SOURCE_TIME" using assms(1) by auto
  ultimately show ?thesis
    using assms plain_arg_facts(1) [OF assms(2)]
    by (auto simp add: buildRequestConditionExpr_def Let_def req_cond_def trim_id call_expr_plain source_defs)
qed

lemma strip_prefix_append_both [simp]: "strip_prefix (p @ q) (p @ s) = strip_prefix q s"
  by (induction p) auto

lemma match_range_range:
  assumes "fn \<in> set TIME_FUNCS" "plain_arg tz" "NUMERIC_LITERAL_REGEX a" "NUMERIC_LITERAL_REGEX b"
    "r = [] \<or> \<not> is_numchar (hd r)"
  shows "match_range (range_text fn tz a b @ r) = Some (time_cond fn tz MATCH_RANGE [] a b, r)"
proof -
  have "match_num (a @ lit '' || '' @ s) = Some (a, lit '' || '' @ s)" for s
    using assms(3) by (intro match_num_space) (auto simp: lit_simps)
  moreover have "strip_prefix (lit '' || '' @ fn @ [40, 34] @ tz @ [34, 41] @ lit '' < '')
      (lit '' || '' @ qcall fn tz @ lit '' < '' @ s) = Some s" for s
    using strip_prefix_append [of "lit '' || '' @ fn @ [40, 34] @ tz @ [34, 41] @ lit '' < ''" s]
    by (simp add: qcall_def)
  ultimately show ?thesis using assms
    by (simp add: match_range_def range_text_def)
qed

lemma parse_range:
  assumes "fn \<in> set TIME_FUNCS" "plain_arg tz" "NUMERIC_LITERAL_REGEX a" "NUMERIC_LITERAL_REGEX b"
  shows "tryParseRequestCondition (range_text fn tz a b) = Inr (Some (time_cond fn tz MATCH_RANGE [] a b))"
  using match_range_range [OF assms, of "[]"]
  by (simp add: tryParseRequestCondition_def tryParseTimeCondition_def match_range_plain_def)

lemma qcall_head:
  "40 \<notin> set fn \<Longrightarrow> fn \<noteq> [] \<Longrightarrow> strip_prefix (40 # p) (qcall fn arg @ r) = None"
  by (cases fn) (auto simp: qcall_def)

lemma parse_range_wrapped:
  assumes "fn \<in> set TIME_FUNCS" "plain_arg tz" "NUMERIC_LITERAL_REGEX a" "NUMERIC_LITERAL_REGEX b"
  shows "tryParseRequestCondition (40 # range_text fn tz a b @ [41]) =
    Inr (Some (time_cond fn tz MATCH_RANGE [] a b))"
proof -
  have "match_call gn (40 # s) = None" if "gn \<in> set TIME_FUNCS" for gn s
    using TIME_FUNCS_ident [OF that] by (cases gn) (auto simp: match_call_def)
  then have "match_any_call gns (40 # s) = None" if "set gns \<subseteq> set TIME_FUNCS" for gns s
    using that by (induction gns) auto
  then have "match_range (40 # s) = None" for s by (simp add: match_range_def)
  then show ?thesis using match_range_range [OF assms, of "[41]"]
    by (simp add: tryParseRequestCondition_def tryParseTimeCondition_def match_range_plain_def
        match_range_wrapped_def)
qed

lemma match_op_time:
  "mode \<in> {MATCH_EQ, MATCH_GTE, MATCH_LT} \<Longrightarrow>
   match_op time_ops (lit '' '' @ time_op (Str mode) @ lit '' '' @ v) = Some (mode, v)"
  by (auto simp: time_ops_def time_op_def lit_simps)

lemma parse_time:
  assumes "fn \<in> set TIME_FUNCS" "plain_arg tz" "NUMERIC_LITERAL_REGEX v"
    "mode \<in> {MATCH_EQ, MATCH_GTE, MATCH_LT}"
  shows "tryParseRequestCondition (qcall fn tz @ lit '' '' @ time_op (Str mode) @ lit '' '' @ v) =
    Inr (Some (time_cond fn tz mode v [] []))" (is "tryParseRequestCondition ?s = _")
proof -
  have "match_num v = Some (v, [])" using match_num_space [OF assms(3), of "[]"] by simp
  then have "match_range_plain ?s = None"
    using assms by (auto simp: match_range_plain_def match_range_def time_op_def lit_simps)
  moreover have "match_range_wrapped ?s = None"
    using TIME_FUNCS_ident [OF assms(1)] qcall_head [of fn]
    by (simp add: match_range_wrapped_def)
  moreover have "match_time_simple ?s = Some (time_cond fn tz mode v [] [])"
    using assms match_op_time [OF assms(4), of v] by (simp add: match_time_simple_def)
  ultimately show ?thesis by (simp add: tryParseRequestCondition_def tryParseTimeCondition_def)
qed

text \<open>A call that is not a time function is not a time condition.\<close>

lemma SOURCE_ident:
  "source \<in> {SOURCE_PARAM, SOURCE_HEADER} \<Longrightarrow> 40 \<notin> set source \<and> source \<notin> set TIME_FUNCS \<and> source \<noteq> []
     \<and> no_paren source \<and> 32 \<notin> set source \<and> trimmed source"
  by (auto simp: source_defs lit_simps TIME_FUNCS_def no_paren_def trimmed_def is_ws_def)

lemma not_time_call:
  assumes "match_any_call TIME_FUNCS s = None" "strip_prefix [40] s = None"
  shows "tryParseTimeCondition s = None"
  using assms by (simp add: tryParseTimeCondition_def match_range_plain_def match_range_def
      match_range_wrapped_def match_time_simple_def)

lemma not_time_source:
  assumes "source \<in> {SOURCE_PARAM, SOURCE_HEADER}"
  shows "tryParseTimeCondition (qcall source p @ r) = None"
  using SOURCE_ident [OF assms] TIME_FUNCS_ident
  by (intro not_time_call match_any_call_diff qcall_head) auto

lemma source_lit: "lit ''param'' = SOURCE_PARAM" "lit ''header'' = SOURCE_HEADER"
  by (simp_all add: source_defs)

lemma match_source_diff [simp]:
  "match_call SOURCE_PARAM (qcall SOURCE_HEADER p @ r) = None"
  "match_call SOURCE_HEADER (qcall SOURCE_PARAM p @ r) = None"
  by (rule match_call_diff; use SOURCE_ident in auto)+

lemma parse_exists:
  assumes "source \<in> {SOURCE_PARAM, SOURCE_HEADER}" "plain_arg p"
  shows "tryParseRequestCondition (qcall source p @
      (if source = SOURCE_HEADER then lit '' != '' @ [34, 34] else lit '' != nil'')) =
    Inr (Some (req_cond source p MATCH_EXISTS (Str [])))"
  using assms by (auto simp: tryParseRequestCondition_def not_time_source source_lit match_exists_def)

lemma scan_quoted_quote_unit:
  "c < 65536 \<Longrightarrow> scan_quoted (quote_unit c @ r) =
     map_option (\<lambda>(s, z). (quote_unit c @ s, z)) (scan_quoted r)"
proof -
  have [simp]: "hex_digit d \<noteq> 34" "hex_digit d \<noteq> 92" for d
    by (auto simp: hex_digit_def)
  show ?thesis
    by (cases "scan_quoted r") (auto simp: quote_unit_def unicode_escape_def lit_simps is_line_term_def)
qed

lemma scan_quoted_quote_units:
  "\<forall>c \<in> set s. c < 65536 \<Longrightarrow> scan_quoted (quote_units s @ 34 # r) = Some (quote_units s, r)"
proof (induction s rule: quote_units.induct)
  case (3 c d cs)
  then show ?case by (auto simp: scan_quoted_quote_unit is_lead_def is_trail_def)
qed (auto simp: scan_quoted_quote_unit)

lemma match_quoted_quote:
  "\<forall>c \<in> set s. c < 65536 \<Longrightarrow> match_quoted (json_quote s @ r) = Some (json_quote s, r)"
  using scan_quoted_quote_units [of s r] by (simp add: match_quoted_def json_quote_def)

lemma parse_has:
  assumes "plain_arg p" "\<forall>c \<in> set v. c < 65536"
  shows "tryParseRequestCondition (lit ''has('' @ qcall SOURCE_HEADER p @ lit '', '' @ json_quote v @ lit '')'') =
    Inr (Some (req_cond SOURCE_HEADER p MATCH_CONTAINS (Str v)))" (is "tryParseRequestCondition ?s = _")
proof -
  have "match_call gn ?s = None" if "gn \<in> set TIME_FUNCS \<union> {SOURCE_PARAM, SOURCE_HEADER}" for gn
    using that by (auto simp: match_call_def TIME_FUNCS_def lit_simps source_defs)
  then have any: "match_any_call gns ?s = None" if "set gns \<subseteq> set TIME_FUNCS \<union> {SOURCE_PARAM, SOURCE_HEADER}" for gns
    using that by (induction gns) auto
  then have "tryParseTimeCondition ?s = None"
    by (intro not_time_call) (auto simp: lit_simps)
  moreover have "match_call SOURCE_HEADER ?s = None" "match_call SOURCE_PARAM ?s = None"
    using any [of "[SOURCE_HEADER]"] any [of "[SOURCE_PARAM]"] by (auto split: option.splits)
  moreover have "match_has SOURCE_HEADER ?s = Some (p, json_quote v)"
    using assms match_quoted_quote [OF assms(2), of "[41]"]
    by (simp add: match_has_def lit_simps)
  ultimately show ?thesis using json_parse_quote [OF assms(2)]
    by (simp add: tryParseRequestCondition_def source_lit match_exists_def has_cond_def)
qed

lemma parse_literal_build:
  assumes "plain_value v"
  shows "parseExprLiteral (buildExprLiteral (Str MATCH_EQ) (Str v)) = Str v"
proof -
  have t: "trim v = v" "\<forall>c \<in> set v. c < 65536"
    using assms by (auto simp: plain_value_def trim_id list_all_iff)
  have q: "trim (json_quote v) = json_quote v"
    by (rule trim_id) (simp add: trimmed_def json_quote_ends is_ws_def)
  show ?thesis using t q json_parse_quote [OF t(2)]
    by (cases "v = []") (simp_all add: parseExprLiteral_def buildExprLiteral_def Let_def json_quote_not_numeric)
qed

lemma build_literal_not_Nil: "buildExprLiteral m v \<noteq> []"
  using numeric_facts(1) by (auto simp: buildExprLiteral_def Let_def json_quote_ends is_bool_text_def)

lemma parse_eq:
  assumes "source \<in> {SOURCE_PARAM, SOURCE_HEADER}" "plain_arg p" "plain_value v"
  shows "tryParseRequestCondition (qcall source p @ lit '' == '' @ buildExprLiteral (Str MATCH_EQ) (Str v)) =
    Inr (Some (req_cond source p MATCH_EQ (Str v)))" (is "tryParseRequestCondition ?s = _")
proof -
  have "match_any_call [SOURCE_PARAM, SOURCE_HEADER] (qcall source p @ r) = Some (source, p, r)" for r
    using assms SOURCE_ident by (intro match_any_call_qcall) auto
  then have "match_eq ?s = Some (source, p, buildExprLiteral (Str MATCH_EQ) (Str v))"
    using assms(3) build_literal_not_Nil by (simp add: match_eq_def plain_value_def Let_def)
  moreover have "match_has gn ?s = None" for gn
    using assms(1) by (auto simp: match_has_def qcall_def source_defs lit_simps)
  moreover have "match_guarded ?s = None" "match_exists SOURCE_PARAM (lit '' != nil'') ?s = None"
     "match_exists SOURCE_HEADER (lit '' != '' @ [34, 34]) ?s = None"
    unfolding match_guarded_def match_exists_def source_lit using assms by (auto simp: lit_simps)
  ultimately show ?thesis
    using assms parse_literal_build [OF assms(3)]
    by (simp add: tryParseRequestCondition_def not_time_source source_lit match_param_has_def match_param_cmp_def)
qed

subsection \<open>Printed conditions are well bracketed and separator-free\<close>

lemma and_sep: "lit '' && '' = 32 # lit ''&& ''"
  by (simp add: lit_simps)

lemma strip_amp [simp]:
  "s \<noteq> [] \<Longrightarrow> 38 \<notin> set s \<Longrightarrow> strip_prefix (38 # p) (s @ t) = None"
  "fn \<noteq> [] \<Longrightarrow> 38 \<notin> set fn \<Longrightarrow> strip_prefix (38 # p) (qcall fn arg @ t) = None"
  by (cases s; cases fn; auto simp: qcall_def)+

lemma depth_qcall [simp]: "no_paren fn \<Longrightarrow> no_paren arg \<Longrightarrow> depth_after d (qcall fn arg) = d"
  by (simp add: qcall_def depth_step_def)

lemma keeps_qcall [simp]: "no_paren fn \<Longrightarrow> no_paren arg \<Longrightarrow> 0 < d \<Longrightarrow> keeps d (qcall fn arg)"
  by (simp add: qcall_def depth_step_def)

lemma clean_qcall:
  "no_paren fn \<Longrightarrow> 32 \<notin> set fn \<Longrightarrow> no_paren arg \<Longrightarrow> clean (32 # sep) 0 (qcall fn arg) t"
  by (simp add: qcall_def depth_step_def clean_no_space keeps_clean starts_with_def)

text \<open>What a printed conjunct needs: it is a part for the \<open>&&\<close> splitter and nests at any
  positive depth.\<close>

definition conjunct_text :: "jsstr \<Rightarrow> bool" where
  "conjunct_text e \<longleftrightarrow> sep_part (lit '' && '') e \<and> (\<forall>d. depth_after d e = d) \<and> (\<forall>d > 0. keeps d e)"

lemma conjunct_textI:
  assumes "\<And>d. depth_after d e = d" "\<And>d. 0 < d \<Longrightarrow> keeps d e" "\<And>t. clean (lit '' && '') 0 e t"
    "trimmed e" "e \<noteq> []"
  shows "conjunct_text e"
  using assms by (simp add: conjunct_text_def sep_part_def)

lemma conjunct_bracket: "conjunct_text e \<Longrightarrow> conjunct_text (40 # e @ [41])"
proof -
  assume c: "conjunct_text e"
  then have "sep_part (lit '' && '') (40 # e @ [41])"
    by (intro bracketed_sep_part [where sh = 32 and st = "lit ''&& ''"])
      (auto simp: conjunct_text_def and_sep)
  with c show ?thesis by (auto simp: conjunct_text_def depth_step_def)
qed

lemma trimmed_qcall: "fn \<noteq> [] \<Longrightarrow> trimmed fn \<Longrightarrow> trimmed (qcall fn p) \<and> qcall fn p \<noteq> []"
  by (auto simp: qcall_def trimmed_def is_ws_def)

lemma conjunct_range:
  assumes "fn \<in> set TIME_FUNCS" "plain_arg tz" "NUMERIC_LITERAL_REGEX a" "NUMERIC_LITERAL_REGEX b"
  shows "conjunct_text (range_text fn tz a b)"
proof (rule conjunct_textI)
  note f = TIME_FUNCS_ident [OF assms(1)] no_paren_TIME_FUNCS [OF assms(1)]
    plain_arg_facts [OF assms(2)] numeric_facts [OF assms(3)] numeric_facts [OF assms(4)]
  show "depth_after d (range_text fn tz a b) = d" for d
    using f by (simp add: range_text_def lit_simps depth_step_def)
  show "keeps d (range_text fn tz a b)" if "0 < d" for d
    using f that by (simp add: range_text_def lit_simps depth_step_def)
  show "clean (lit '' && '') 0 (range_text fn tz a b) t" for t
    using f by (simp add: range_text_def clean_qcall clean_no_space depth_step_def starts_with_def lit_simps)
  have "trimmed (qcall fn tz @ (lit '' >= '' @ a @ lit '' || '' @ qcall fn tz @ lit '' < '') @ b)"
    using f trimmed_qcall by (intro trimmed_append) auto
  then show "trimmed (range_text fn tz a b)" by (simp add: range_text_def)
  show "range_text fn tz a b \<noteq> []" using f by (simp add: range_text_def)
qed

lemma conjunct_call_tail:
  assumes "fn \<noteq> []" "trimmed fn" "no_paren fn" "32 \<notin> set fn" "no_paren p"
    "no_paren m" "no_paren l" "trimmed l" "l \<noteq> []"
    "\<And>d t. clean (lit '' && '') 0 m (l @ t)" "\<And>t. clean (lit '' && '') 0 l t"
  shows "conjunct_text (qcall fn p @ m @ l)"
proof (rule conjunct_textI)
  show "trimmed (qcall fn p @ m @ l)"
    using assms trimmed_qcall by (intro trimmed_append) auto
qed (use assms in \<open>auto simp: and_sep clean_qcall\<close>)

lemma conjunct_time:
  assumes "fn \<in> set TIME_FUNCS" "plain_arg tz" "NUMERIC_LITERAL_REGEX v"
    "mode \<in> {MATCH_EQ, MATCH_GTE, MATCH_LT}"
  shows "conjunct_text (qcall fn tz @ lit '' '' @ time_op (Str mode) @ lit '' '' @ v)"
proof -
  note f = TIME_FUNCS_ident [OF assms(1)] no_paren_TIME_FUNCS [OF assms(1)]
    plain_arg_facts [OF assms(2)] numeric_facts [OF assms(3)]
  have "conjunct_text (qcall fn tz @ (lit '' '' @ time_op (Str mode) @ lit '' '') @ v)"
  proof (rule conjunct_call_tail)
    have "time_op (Str mode) \<in> {lit ''=='', lit ''>='', lit ''<''}"
      using assms(4) by (auto simp: time_op_def)
    then show "no_paren (lit '' '' @ time_op (Str mode) @ lit '' '')"
      and "clean (lit '' && '') 0 (lit '' '' @ time_op (Str mode) @ lit '' '') (v @ t)" for t
      using f by (elim insertE emptyE; simp add: lit_simps starts_with_def depth_step_def)+
    show "clean (lit '' && '') 0 v t" for t
      unfolding and_sep using f by (intro clean_no_space) auto
  qed (use f in auto)
  then show ?thesis by simp
qed

lemma SOURCE_amp: "source \<in> {SOURCE_PARAM, SOURCE_HEADER} \<Longrightarrow> 38 \<notin> set source"
  by (auto simp: source_defs lit_simps)

lemma conjunct_exists:
  assumes "source \<in> {SOURCE_PARAM, SOURCE_HEADER}" "plain_arg p"
  shows "conjunct_text (qcall source p @
      (if source = SOURCE_HEADER then lit '' != '' @ [34, 34] else lit '' != nil''))"
proof -
  note f = SOURCE_ident [OF assms(1)] plain_arg_facts [OF assms(2)]
  have "conjunct_text (qcall source p @ lit '' != '' @
      (if source = SOURCE_HEADER then [34, 34] else lit ''nil''))"
    by (rule conjunct_call_tail)
      (use f in \<open>auto simp: lit_simps starts_with_def depth_step_def trimmed_def is_ws_def split: if_splits\<close>)
  then show ?thesis by (simp add: lit_simps split: if_splits)
qed

lemma no_paren_literal: "no_paren v \<Longrightarrow> trimmed v \<Longrightarrow> no_paren (buildExprLiteral (Str m) (Str v))"
  by (cases "v = []") (auto simp: buildExprLiteral_def Let_def trim_id no_paren_quote)

lemma literal_ends:
  "trimmed v \<Longrightarrow> trimmed (buildExprLiteral (Str m) (Str v)) \<and>
   last (buildExprLiteral (Str m) (Str v)) \<notin> set (lit '' && '')"
proof -
  assume v: "trimmed v"
  have "last s \<noteq> 32 \<and> last s \<noteq> 38" if "NUMERIC_LITERAL_REGEX s" for s
    using numeric_facts [OF that] by (metis last_in_set)
  moreover have "is_bool_text s \<Longrightarrow> last s = 101 \<and> trimmed s" for s
    by (auto simp: is_bool_text_def lit_simps trimmed_def is_ws_def)
  moreover have "trimmed (json_quote s) \<and> last (json_quote s) = 34" for s
    by (simp add: trimmed_def json_quote_ends is_ws_def)
  ultimately show ?thesis using v
    by (cases "v = []") (auto simp: buildExprLiteral_def Let_def trim_id lit_simps)
qed

lemma conjunct_eq:
  assumes "source \<in> {SOURCE_PARAM, SOURCE_HEADER}" "plain_arg p" "plain_value v"
  shows "conjunct_text (qcall source p @ lit '' == '' @ buildExprLiteral (Str MATCH_EQ) (Str v))"
proof (rule conjunct_call_tail)
  note f = SOURCE_ident [OF assms(1)] plain_arg_facts [OF assms(2)]
  let ?l = "buildExprLiteral (Str MATCH_EQ) (Str v)"
  have v: "trimmed v" "no_paren v" "\<not> str_includes ?l (lit '' && '')"
    using assms(3) by (auto simp: plain_value_def Let_def)
  show np: "no_paren ?l" using v no_paren_literal by blast
  show cl: "clean (lit '' && '') 0 ?l t" for t
    using v literal_ends np by (intro clean_no_sep) auto
  show "?l \<noteq> []" by (rule build_literal_not_Nil)
  show "trimmed ?l" using v literal_ends by blast
  have "hd ?l \<noteq> 38"
  proof -
    have "hd s \<noteq> 38" if "NUMERIC_LITERAL_REGEX s" for s
      using numeric_facts [OF that] by (metis hd_in_set)
    then show ?thesis using json_quote_ends(1)
      by (auto simp: buildExprLiteral_def Let_def is_bool_text_def lit_simps)
  qed
  then show "clean (lit '' && '') 0 (lit '' == '') (?l @ t)" for t
    using \<open>?l \<noteq> []\<close> by (cases ?l) (auto simp: lit_simps starts_with_def depth_step_def)
  show "no_paren (lit '' == '')" by (simp add: lit_simps)
qed (use SOURCE_ident [OF assms(1)] plain_arg_facts [OF assms(2)] in auto)

lemma conjunct_has:
  assumes "plain_arg p" "no_paren v"
  shows "conjunct_text (lit ''has('' @ qcall SOURCE_HEADER p @ lit '', '' @ json_quote v @ lit '')'')"
proof (rule conjunct_textI)
  note f = plain_arg_facts [OF assms(1)] no_paren_quote [OF assms(2)] SOURCE_ident [of SOURCE_HEADER]
  let ?s = "lit ''has('' @ qcall SOURCE_HEADER p @ lit '', '' @ json_quote v @ lit '')''"
  have k: "keeps 1 (qcall SOURCE_HEADER p @ lit '', '' @ json_quote v)"
    using f by (simp add: lit_simps depth_step_def)
  then have "clean (lit '' && '') 1 (qcall SOURCE_HEADER p @ lit '', '' @ json_quote v) t" for t
    by (rule keeps_clean)
  then show "clean (lit '' && '') 0 ?s t" for t
    using f by (simp add: lit_simps depth_step_def starts_with_def)
  show "depth_after d ?s = d" for d
    using f by (simp add: lit_simps depth_step_def)
  show "keeps d ?s" if "0 < d" for d
    using f that by (simp add: lit_simps depth_step_def)
  show "trimmed ?s" by (simp add: lit_simps trimmed_def is_ws_def)
  show "?s \<noteq> []" by (simp add: lit_simps)
qed

subsection \<open>Round trip of one condition\<close>

text \<open>The three facts the group proofs need of each condition.\<close>

lemma supported_cond_round_trip:
  "supported_cond c \<Longrightarrow>
   \<exists>e. buildRequestConditionExpr c = Inr e \<and> conjunct_text e \<and> tryParseRequestCondition e = Inr (Some c) \<and>
     (c_mode c = Str MATCH_RANGE \<longrightarrow> tryParseRequestCondition (40 # e @ [41]) = Inr (Some c) \<and>
        str_includes e (lit '' || ''))"
proof (induction rule: supported_cond.induct)
  case (range fn tz a b)
  have "str_includes (range_text fn tz a b) (lit '' || '')"
    unfolding range_text_def str_includes_iff by (metis append.assoc)
  then show ?case
    using build_range [OF range] conjunct_range [OF range] parse_range [OF range]
      parse_range_wrapped [OF range] by simp
next
  case (time fn tz mode v)
  then have "c_mode (time_cond fn tz mode v [] []) \<noteq> Str MATCH_RANGE" by (auto simp: time_cond_def)
  then show ?case using build_time [OF time(1,2,4,3)] conjunct_time [OF time(1,2,4,3)]
      parse_time [OF time(1,2,4,3)] by simp
next
  case (exists source p)
  then have "c_mode (req_cond source p MATCH_EXISTS (Str [])) \<noteq> Str MATCH_RANGE"
    by (simp add: req_cond_def)
  then show ?case using build_exists [OF exists] conjunct_exists [OF exists(1,2)]
      parse_exists [OF exists(1,2)] by simp
next
  case (has p v)
  then have v: "\<forall>c \<in> set v. c < 65536" by (simp add: list_all_iff)
  have "c_mode (req_cond SOURCE_HEADER p MATCH_CONTAINS (Str v)) \<noteq> Str MATCH_RANGE"
    by (simp add: req_cond_def)
  then show ?case using build_has [OF has(1,2,3)] conjunct_has [OF has(1,5)] parse_has [OF has(1) v]
    by simp
next
  case (eq source p v)
  have "c_mode (req_cond source p MATCH_EQ (Str v)) \<noteq> Str MATCH_RANGE"
    by (simp add: req_cond_def)
  then show ?case using build_eq [OF eq(1,2,3)] conjunct_eq [OF eq(1,2,4)] parse_eq [OF eq(1,2,4)]
    by simp
qed

section \<open>Round trip of groups\<close>

text \<open>A group the parser supports: at least one condition, all supported, a numeric
  multiplier, and no \<open>||\<close> in the text of a condition other than a range when there are several
  (such a text would be put into brackets that only the range parser accepts).\<close>

definition or_free :: "rule_cond \<Rightarrow> bool" where
  "or_free c \<longleftrightarrow> c_mode c = Str MATCH_RANGE \<or>
     (case buildRequestConditionExpr c of Inl _ \<Rightarrow> False | Inr e \<Rightarrow> \<not> str_includes e (lit '' || ''))"

definition supported_group :: "rule_group \<Rightarrow> bool" where
  "supported_group g \<longleftrightarrow>
     (case (g_conditions g, g_multiplier g) of
        (Some cs, Str m) \<Rightarrow> cs \<noteq> [] \<and> list_all supported_cond cs \<and> NUMERIC_LITERAL_REGEX m \<and>
          (length cs = 1 \<or> list_all or_free cs)
      | _ \<Rightarrow> False)"

definition wrap_or :: "jsstr \<Rightarrow> jsstr" where
  "wrap_or e = (if str_includes e (lit '' || '') then lit ''('' @ e @ lit '')'' else e)"

lemma supported_conjunct:
  assumes "supported_cond c" "buildRequestConditionExpr c = Inr e"
  shows "conjunct_text e" "tryParseRequestCondition e = Inr (Some c)"
    "or_free c \<Longrightarrow> conjunct_text (wrap_or e)"
    "or_free c \<Longrightarrow> tryParseRequestCondition (wrap_or e) = Inr (Some c)"
  using supported_cond_round_trip [OF assms(1)] assms(2) conjunct_bracket [of e]
  by (auto simp: wrap_or_def or_free_def lit_simps)

lemma map_res_supported:
  "list_all supported_cond cs \<Longrightarrow> \<exists>es. map_res buildRequestConditionExpr cs = Inr es \<and>
     list_all2 (\<lambda>c e. buildRequestConditionExpr c = Inr e) cs es"
proof (induction cs)
  case (Cons c cs)
  then obtain e where "buildRequestConditionExpr c = Inr e"
    using supported_cond_round_trip by fastforce
  with Cons show ?case by auto
qed simp

lemma conjunct_text_facts: "conjunct_text e \<Longrightarrow> e \<noteq> [] \<and> trim e = e"
  by (auto simp: conjunct_text_def sep_part_def trim_id)

lemma parse_conjuncts_texts:
  "list_all2 (\<lambda>c e. supported_cond c \<and> conjunct_text e \<and> tryParseRequestCondition e = Inr (Some c)) cs es \<Longrightarrow>
   parse_conjuncts es = Inr (Some cs)"
  by (induction rule: list_all2_induct) (auto simp: conjunct_text_facts normalize_supported)

text \<open>The text between the brackets of a factor.\<close>

lemma combine_conditions_parts:
  assumes "cs \<noteq> []" "list_all supported_cond cs" "length cs = 1 \<or> list_all or_free cs"
    "list_all2 (\<lambda>c e. buildRequestConditionExpr c = Inr e) cs es"
  shows "\<exists>ps. combine_conditions es = join (lit '' && '') ps \<and>
    list_all2 (\<lambda>c p. supported_cond c \<and> conjunct_text p \<and> tryParseRequestCondition p = Inr (Some c)) cs ps"
proof (cases "length cs = 1")
  case True
  then obtain c e where "cs = [c]" "es = [e]"
    using assms(4) by (auto simp: length_Suc_conv list_all2_Cons1)
  then show ?thesis using assms supported_conjunct
    by (intro exI [of _ "[e]"]) (auto simp: combine_conditions_def)
next
  case False
  then have l: "length es \<noteq> 1" "list_all or_free cs" using assms by (auto dest: list_all2_lengthD)
  have "list_all2 (\<lambda>c p. supported_cond c \<and> conjunct_text p \<and> tryParseRequestCondition p = Inr (Some c))
      cs (map wrap_or es)"
    using assms(4,2) l(2)
    by (induction rule: list_all2_induct) (auto simp: supported_conjunct)
  moreover have "combine_conditions es = join (lit '' && '') (map wrap_or es)"
    using l(1) unfolding wrap_or_def [abs_def] by (simp add: combine_conditions_def)
  ultimately show ?thesis by blast
qed

lemma texts_not_Nil:
  "list_all2 (\<lambda>c e. buildRequestConditionExpr c = Inr e) cs es \<Longrightarrow> list_all supported_cond cs \<Longrightarrow>
   filter (\<lambda>e. e \<noteq> []) es = es"
  by (induction rule: list_all2_induct) (auto dest!: supported_conjunct(1) dest: conjunct_text_facts)

lemma join_keeps:
  "list_all conjunct_text ps \<Longrightarrow> 0 < d \<Longrightarrow>
   keeps d (join (lit '' && '') ps) \<and> depth_after d (join (lit '' && '') ps) = d"
  by (induction "lit '' && ''" ps rule: join.induct)
    (auto simp: conjunct_text_def lit_simps depth_step_def)

lemma match_factor_text:
  assumes "NUMERIC_LITERAL_REGEX m" "c \<noteq> []"
  shows "match_factor (lit ''('' @ c @ lit '' ? '' @ m @ lit '' : 1)'') = Some (c, m)"
proof -
  have m: "list_all is_numchar (rev m)" "m \<noteq> []" using numeric_facts [OF assms(1)] by auto
  have "strip_suffix (lit '' : 1)'') (c @ lit '' ? '' @ m @ lit '' : 1)'') = Some (c @ lit '' ? '' @ m)"
    using strip_suffix_append [of "lit '' : 1)''" "c @ lit '' ? '' @ m"] by simp
  moreover have "takeWhile is_numchar (rev m @ rev (lit '' ? '') @ rev c) = rev m"
    "dropWhile is_numchar (rev m @ rev (lit '' ? '') @ rev c) = rev (lit '' ? '') @ rev c"
    using takeWhile_numchar [OF m(1), of "rev (lit '' ? '') @ rev c"] by (auto simp: lit_simps)
  moreover have "strip_prefix [40] (lit ''('' @ s) = Some s" for s by (simp add: lit_simps)
  ultimately show ?thesis using m assms(2) by (simp add: match_factor_def Let_def)
qed

lemma factor_sep_part:
  assumes "list_all conjunct_text ps" "NUMERIC_LITERAL_REGEX m"
  shows "sep_part (lit '' * '') (lit ''('' @ join (lit '' && '') ps @ lit '' ? '' @ m @ lit '' : 1)'')"
proof -
  let ?b = "join (lit '' && '') ps @ lit '' ? '' @ m @ lit '' : 1''"
  have "keeps 1 ?b" "depth_after 1 ?b = 1"
    using join_keeps [OF assms(1), of 1] numeric_facts [OF assms(2)]
    by (simp_all add: lit_simps depth_step_def)
  then have "sep_part (lit '' * '') (40 # ?b @ [41])"
    by (rule bracketed_sep_part [where sh = 32 and st = "lit ''* ''"]) (auto simp: lit_simps)
  then show ?thesis by (simp add: lit_simps)
qed

text \<open>One factor prints to a bracketed text that parses back to its group.\<close>

lemma supported_group_round_trip:
  assumes "supported_group g"
  shows "\<exists>s. buildRuleGroupFactor g = Inr s \<and> sep_part (lit '' * '') s \<and>
    tryParseRuleGroupFactor s = Inr (Some g)"
proof -
  obtain cs m where g: "g_conditions g = Some cs" "g_multiplier g = Str m" and cs: "cs \<noteq> []"
      "list_all supported_cond cs" "length cs = 1 \<or> list_all or_free cs" and m: "NUMERIC_LITERAL_REGEX m"
    using assms by (auto simp: supported_group_def split: option.splits jsval.splits)
  obtain es where es: "map_res buildRequestConditionExpr cs = Inr es"
      "list_all2 (\<lambda>c e. buildRequestConditionExpr c = Inr e) cs es"
    using map_res_supported [OF cs(2)] by blast
  obtain ps where ps: "combine_conditions es = join (lit '' && '') ps"
      "list_all2 (\<lambda>c p. supported_cond c \<and> conjunct_text p \<and> tryParseRequestCondition p = Inr (Some c)) cs ps"
    using combine_conditions_parts [OF cs(1,2,3) es(2)] by blast
  let ?c = "join (lit '' && '') ps"
  let ?s = "lit ''('' @ ?c @ lit '' ? '' @ m @ lit '' : 1)''"
  have ct: "list_all conjunct_text ps" "ps \<noteq> []" "es \<noteq> []"
    using ps(2) cs(1) es(2) by (auto simp: list_all2_conv_all_nth list_all_length)
  have "buildRuleGroupFactor g = Inr ?s"
    using g m numeric_facts [OF m] es(1) ct ps(1) texts_not_Nil [OF es(2) cs(2)]
    by (simp add: buildRuleGroupFactor_def trim_id Let_def)
  moreover have "sep_part (lit '' * '') ?s" using ct(1) m by (rule factor_sep_part)
  moreover have "tryParseRuleGroupFactor ?s = Inr (Some g)"
  proof -
    have "list_all (sep_part (lit '' && '')) ps" using ct(1) by (auto simp: conjunct_text_def list_all_iff)
    then have "splitTopLevelAnd ?c = ps" using ct(2) by (rule splitTopLevelAnd_join)
    moreover have "?c \<noteq> []" using ct(1,2) conjunct_text_facts by (cases ps; cases "tl ps") auto
    ultimately show ?thesis
      using match_factor_text [OF m, of ?c] parse_conjuncts_texts [OF ps(2)] cs(1) g
      by (simp add: tryParseRuleGroupFactor_def)
  qed
  ultimately show ?thesis by blast
qed

lemma map_res_groups:
  "list_all supported_group gs \<Longrightarrow> \<exists>ss. map_res buildRuleGroupFactor gs = Inr ss \<and>
     list_all (sep_part (lit '' * '')) ss \<and> parse_factors ss = Inr (Some gs)"
proof (induction gs)
  case (Cons g gs)
  then show ?case using supported_group_round_trip [of g] by fastforce
qed simp

lemma sep_part_join_trimmed:
  "list_all (sep_part sep) ps \<Longrightarrow> trim (join sep ps) = join sep ps"
proof (rule trim_id, induction sep ps rule: join.induct)
  case (3 sep p q ps)
  then have "join sep (q # ps) \<noteq> []" by (cases ps) (auto simp: sep_part_def)
  with 3 show ?case by (auto simp: sep_part_def intro!: trimmed_append)
qed (auto simp: sep_part_def)

lemma build_groups:
  assumes "list_all supported_group gs"
  shows "\<exists>ss. buildRequestRuleExpr (Some gs) = Inr (join (lit '' * '') ss) \<and>
    list_all (sep_part (lit '' * '')) ss \<and> parse_factors ss = Inr (Some gs)"
  using map_res_groups [OF assms] by (fastforce simp: buildRequestRuleExpr_def filter_sep_parts)

lemma join_sep_parts_Nil: "list_all (sep_part sep) ps \<Longrightarrow> join sep ps = [] \<longleftrightarrow> ps = []"
  by (cases ps; cases "tl ps") (auto simp: sep_part_def)

lemma parse_joined:
  assumes "list_all (sep_part (lit '' * '')) ss" "parse_factors ss = Inr (Some gs)"
  shows "tryParseRequestRuleExpr (join (lit '' * '') ss) = Inr (Some gs)"
proof (cases "ss = []")
  case False
  then show ?thesis
    using assms splitTopLevelMultiply_join [OF assms(1) False] join_sep_parts_Nil [OF assms(1)]
    by (simp add: tryParseRequestRuleExpr_def sep_part_join_trimmed Let_def)
qed (use assms in \<open>simp add: tryParseRequestRuleExpr_def\<close>)

section \<open>Combining and splitting\<close>

lemma parse_single:
  assumes "sep_part (lit '' * '') s" "tryParseRuleGroupFactor s = Inr (Some g)"
  shows "is_rule_part s = Inr True"
proof -
  have "tryParseRequestRuleExpr (join (lit '' * '') [s]) = Inr (Some [g])"
    using assms by (intro parse_joined) auto
  then show ?thesis by (simp add: is_rule_part_def)
qed

lemma rule_parts:
  "list_all (sep_part (lit '' * '')) ss \<Longrightarrow> parse_factors ss = Inr (Some gs) \<Longrightarrow>
   map_res is_rule_part ss = Inr (replicate (length ss) True)"
  by (induction ss arbitrary: gs)
    (auto simp: parse_single split: sum.splits option.splits)

lemma outer_scan_bracket:
  "keeps d s \<Longrightarrow> depth_after d s = 1 \<Longrightarrow> outer_scan d (s @ [41])"
  by (induction s arbitrary: d) (auto simp: depth_step_def Let_def)

lemma unwrap_bracket:
  assumes "keeps 1 base" "depth_after 1 base = 1" "trimmed base" "\<not> hasFullOuterParens base"
  shows "unwrapOuterParens (40 # base @ [41]) = base"
proof -
  have t: "trim (40 # base @ [41]) = 40 # base @ [41]"
    by (rule trim_id) (simp add: trimmed_def is_ws_def)
  have "ends_with (40 # base @ [41]) [41]" by (simp add: ends_with_iff)
  then have h: "hasFullOuterParens (40 # base @ [41])"
    using outer_scan_bracket [OF assms(1,2)]
    by (simp add: hasFullOuterParens_def starts_with_def lit_simps depth_step_def)
  then show ?thesis using assms(3,4)
    by (simp add: unwrapOuterParens_def t unwrap_loop.simps [of "40 # base @ [41]"]
        unwrap_loop.simps [of base] slice_inner_def trim_id)
qed

lemma zip_flags:
  "map fst (filter snd (zip (p # ss) (False # replicate (length ss) True))) = ss"
  "map fst (filter (\<lambda>pf. \<not> snd pf) (zip (p # ss) (False # replicate (length ss) True))) = [p]"
  by (induction ss) auto

lemma split_combined:
  assumes "list_all supported_group gs" "gs \<noteq> []" "buildRequestRuleExpr (Some gs) = Inr rules"
    "base \<noteq> []" "trimmed base" "keeps 1 base" "depth_after 1 base = 1"
    "\<not> hasFullOuterParens base" "tryParseRequestRuleExpr (lit ''('' @ base @ lit '')'') = Inr None"
  shows "splitBillingExprAndRequestRules (combineBillingExpr base rules) =
    Inr \<lparr>billingExpr = base, requestRuleExpr = rules\<rparr>"
proof -
  obtain ss where ss: "rules = join (lit '' * '') ss" "list_all (sep_part (lit '' * '')) ss"
      "parse_factors ss = Inr (Some gs)"
    using build_groups [OF assms(1)] assms(3) by auto
  have ne: "ss \<noteq> []" using ss(3) assms(2) by auto
  let ?b = "40 # base @ [41]"
  have b: "sep_part (lit '' * '') ?b"
    using assms(6,7) by (rule bracketed_sep_part [where sh = 32 and st = "lit ''* ''"]) (auto simp: lit_simps)
  then have all: "list_all (sep_part (lit '' * '')) (?b # ss)" using ss(2) by simp
  have c: "combineBillingExpr base rules = join (lit '' * '') (?b # ss)"
    using assms(4,5) ne ss sep_part_join_trimmed [OF ss(2)] join_sep_parts_Nil [OF ss(2)]
    by (simp add: combineBillingExpr_def trim_id Let_def join_Cons_ne lit_simps)
  have "is_rule_part ?b = Inr False" using assms(9) by (simp add: is_rule_part_def lit_simps)
  then have "map_res is_rule_part (?b # ss) = Inr (False # replicate (length ss) True)"
    using rule_parts [OF ss(2,3)] by simp
  moreover have "unwrapOuterParens ?b = base" using assms(5-8) by (intro unwrap_bracket) auto
  moreover have "splitTopLevelMultiply (join (lit '' * '') (?b # ss)) = ?b # ss"
    using all by (rule splitTopLevelMultiply_join) simp
  moreover have "join (lit '' * '') (?b # ss) \<noteq> []" using join_sep_parts_Nil [OF all] by simp
  ultimately show ?thesis
    unfolding c splitBillingExprAndRequestRules_def sep_part_join_trimmed [OF all]
    using ne ss(1) zip_flags [of ?b ss]
    by (simp add: Let_def del: map_res.simps zip_Cons_Cons)
qed

section \<open>Properties\<close>

text \<open>C1: printing rule groups and parsing the expression gives the groups back, for every
  list of groups whose conditions the group parser supports: time conditions (ranges over
  midnight included), header and parameter existence, header containment, and equality.\<close>

theorem request_rules_round_trip:
  assumes "list_all supported_group gs"
  shows "\<exists>e. buildRequestRuleExpr (Some gs) = Inr e \<and> tryParseRequestRuleExpr e = Inr (Some gs)"
  using build_groups [OF assms] parse_joined by blast

text \<open>Splitting undoes combining: a well-bracketed base expression that is not itself a
  rule factor and the printed rules come back unchanged from
  \<open>splitBillingExprAndRequestRules\<close>.\<close>

theorem split_combine_billing:
  assumes "list_all supported_group gs" "gs \<noteq> []" "buildRequestRuleExpr (Some gs) = Inr rules"
    "base \<noteq> []" "trimmed base" "keeps 1 base" "depth_after 1 base = 1"
    "\<not> hasFullOuterParens base" "tryParseRequestRuleExpr (lit ''('' @ base @ lit '')'') = Inr None"
  shows "splitBillingExprAndRequestRules (combineBillingExpr base rules) =
    Inr \<lparr>billingExpr = base, requestRuleExpr = rules\<rparr>"
  by (rule split_combined [OF assms])

definition sample_groups :: "rule_group list" where
  "sample_groups =
     [\<lparr>g_conditions = Some [time_cond (lit ''hour'') (lit ''Asia/Shanghai'') MATCH_RANGE [] (lit ''21'') (lit ''6''),
         req_cond SOURCE_HEADER (lit ''x-tier'') MATCH_EQ (Str (lit ''gold''))],
       g_multiplier = Str (lit ''0.5'')\<rparr>,
      \<lparr>g_conditions = Some [req_cond SOURCE_HEADER (lit ''beta'') MATCH_CONTAINS (Str (lit ''1m''))],
       g_multiplier = Str (lit ''2'')\<rparr>]"

lemma sample_groups_supported: "list_all supported_group sample_groups"
proof -
  have r: "supported_cond (time_cond (lit ''hour'') (lit ''Asia/Shanghai'') MATCH_RANGE [] (lit ''21'') (lit ''6''))"
    by (rule supported_cond.range; code_simp)
  have e: "supported_cond (req_cond SOURCE_HEADER (lit ''x-tier'') MATCH_EQ (Str (lit ''gold'')))"
    by (rule supported_cond.eq; code_simp)
  have h: "supported_cond (req_cond SOURCE_HEADER (lit ''beta'') MATCH_CONTAINS (Str (lit ''1m'')))"
    by (rule supported_cond.has; code_simp)
  have n: "NUMERIC_LITERAL_REGEX (lit ''0.5'')" "NUMERIC_LITERAL_REGEX (lit ''2'')" by code_simp+
  have o: "or_free (req_cond SOURCE_HEADER (lit ''x-tier'') MATCH_EQ (Str (lit ''gold'')))" by code_simp
  have "or_free (time_cond (lit ''hour'') (lit ''Asia/Shanghai'') MATCH_RANGE [] (lit ''21'') (lit ''6''))"
    by (simp add: or_free_def time_cond_def)
  with r e h n o show ?thesis by (simp add: sample_groups_def supported_group_def)
qed

lemma request_rules_round_trip_witness:
  "\<exists>e. buildRequestRuleExpr (Some sample_groups) = Inr e \<and> tryParseRequestRuleExpr e = Inr (Some sample_groups)"
  using request_rules_round_trip [OF sample_groups_supported] .

definition sample_rules :: jsstr where
  "sample_rules = (case buildRequestRuleExpr (Some sample_groups) of Inl _ \<Rightarrow> [] | Inr e \<Rightarrow> e)"

definition sample_base :: jsstr where "sample_base = lit ''tier(base, p * 2.5 + c * 15)''"

lemma split_combine_billing_witness:
  "splitBillingExprAndRequestRules (combineBillingExpr sample_base sample_rules) =
    Inr \<lparr>billingExpr = sample_base, requestRuleExpr = sample_rules\<rparr>"
proof (rule split_combine_billing [OF sample_groups_supported])
  show "buildRequestRuleExpr (Some sample_groups) = Inr sample_rules"
    using build_groups [OF sample_groups_supported] by (auto simp: sample_rules_def)
qed code_simp+

text \<open>\<open>normalizeCondition\<close> is idempotent on every condition object, whatever values its
  properties hold.\<close>

theorem normalizeCondition_idem: "normalizeCondition (normalizeCondition c) = normalizeCondition c"
  by (auto simp: normalizeCondition_def Let_def no_cond_def str_or_empty_def js_or_def)

text \<open>\<open>unwrapOuterParens\<close> removes every pair of full outer brackets, and removing them
  again changes nothing.\<close>

theorem unwrapOuterParens_done:
  "\<not> hasFullOuterParens (unwrapOuterParens e) \<and> unwrapOuterParens (unwrapOuterParens e) = unwrapOuterParens e"
proof -
  have u: "trimmed s \<Longrightarrow> \<not> hasFullOuterParens (unwrap_loop s) \<and> trimmed (unwrap_loop s)" for s
  proof (induction s rule: unwrap_loop.induct)
    case (1 s)
    then show ?case by (cases "hasFullOuterParens s") (simp_all add: unwrap_loop.simps [of s])
  qed
  have "trimmed (trim e)" by simp
  note this [THEN u]
  then show ?thesis
    by (simp add: unwrapOuterParens_def trim_id unwrap_loop.simps [of "unwrap_loop (trim e)"])
qed

subsection \<open>Conditions that do not survive\<close>

lemma conjunct_compare:
  assumes "plain_arg p" "NUMERIC_LITERAL_REGEX v"
  shows "conjunct_text (qcall SOURCE_PARAM p @ lit '' '' @ param_op mode @ lit '' '' @ v)"
proof -
  note f = SOURCE_ident [of SOURCE_PARAM] plain_arg_facts [OF assms(1)] numeric_facts [OF assms(2)]
  have "conjunct_text (qcall SOURCE_PARAM p @ (lit '' '' @ param_op mode @ lit '' '') @ v)"
  proof (rule conjunct_call_tail)
    have "param_op mode \<in> {lit ''>'', lit ''>='', lit ''<'', lit ''<=''}" by (simp add: param_op_def)
    then show "no_paren (lit '' '' @ param_op mode @ lit '' '')"
      and "clean (lit '' && '') 0 (lit '' '' @ param_op mode @ lit '' '') (v @ t)" for t
      using f by (elim insertE emptyE; simp add: lit_simps starts_with_def depth_step_def)+
    show "clean (lit '' && '') 0 v t" for t
      unfolding and_sep using f by (intro clean_no_space) auto
  qed (use f in auto)
  then show ?thesis by simp
qed

lemma parse_bare_compare:
  assumes "plain_arg p"
  shows "tryParseRequestCondition (qcall SOURCE_PARAM p @ lit '' '' @ param_op mode @ lit '' '' @ v) = Inr None"
    (is "tryParseRequestCondition ?s = _")
proof -
  have op: "param_op mode \<in> {lit ''>'', lit ''>='', lit ''<'', lit ''<=''}" by (simp add: param_op_def)
  have "match_any_call [SOURCE_PARAM, SOURCE_HEADER] (qcall SOURCE_PARAM p @ r) = Some (SOURCE_PARAM, p, r)" for r
    using assms SOURCE_ident by (intro match_any_call_qcall) auto
  then have "match_eq ?s = None" using op by (auto simp: match_eq_def lit_simps)
  moreover have "match_has gn ?s = None" for gn
    by (simp add: match_has_def qcall_def source_defs lit_simps)
  moreover have "match_guarded ?s = None" "match_exists SOURCE_PARAM (lit '' != nil'') ?s = None"
     "match_exists SOURCE_HEADER (lit '' != '' @ [34, 34]) ?s = None"
    unfolding match_guarded_def match_exists_def source_lit using assms op by (auto simp: lit_simps)
  moreover have "tryParseTimeCondition ?s = None" by (rule not_time_source) simp
  ultimately show ?thesis
    by (simp add: tryParseRequestCondition_def source_lit match_param_has_def match_param_cmp_def)
qed

lemma build_compare:
  assumes "plain_arg p" "trimmed p" "NUMERIC_LITERAL_REGEX v" "mode \<in> {MATCH_GT, MATCH_GTE, MATCH_LT, MATCH_LTE}"
  shows "buildRequestConditionExpr (req_cond SOURCE_PARAM p mode (Str v)) =
    Inr (qcall SOURCE_PARAM p @ lit '' != nil && '' @ qcall SOURCE_PARAM p @ lit '' '' @ param_op (Str mode) @ lit '' '' @ v)"
proof -
  have "normalizeCondition (req_cond SOURCE_PARAM p mode (Str v)) = req_cond SOURCE_PARAM p mode (Str v)"
    using assms(4) by (intro normalize_req_cond) auto
  then show ?thesis
    using assms plain_arg_facts(1) [OF assms(1)] numeric_facts [OF assms(3)]
    by (auto simp add: buildRequestConditionExpr_def Let_def req_cond_def trim_id call_expr_plain source_lit)
qed

text \<open>C5: a numeric comparison on a request parameter is printed but does not parse back: the
  group parser cuts the printed text at the \<open>&&\<close> of its own \<open>nil\<close> guard and rejects the second
  half, so \<open>tryParseRequestRuleExpr\<close> answers \<open>null\<close> for an expression the editor itself
  built.\<close>

theorem param_compare_does_not_reparse:
  assumes "plain_arg p" "trimmed p" "NUMERIC_LITERAL_REGEX v" "NUMERIC_LITERAL_REGEX m"
    "mode \<in> {MATCH_GT, MATCH_GTE, MATCH_LT, MATCH_LTE}"
  shows "\<exists>e. buildRequestRuleExpr (Some [\<lparr>g_conditions = Some [req_cond SOURCE_PARAM p mode (Str v)],
      g_multiplier = Str m\<rparr>]) = Inr e \<and> e \<noteq> [] \<and> tryParseRequestRuleExpr e = Inr None"
proof -
  let ?x = "qcall SOURCE_PARAM p @ lit '' != nil''"
  let ?y = "qcall SOURCE_PARAM p @ lit '' '' @ param_op (Str mode) @ lit '' '' @ v"
  let ?s = "lit ''('' @ join (lit '' && '') [?x, ?y] @ lit '' ? '' @ m @ lit '' : 1)''"
  have c: "conjunct_text ?x" "conjunct_text ?y"
    using conjunct_exists [of SOURCE_PARAM p] conjunct_compare assms(1,3) by simp_all
  have b: "buildRequestConditionExpr (req_cond SOURCE_PARAM p mode (Str v)) = Inr (join (lit '' && '') [?x, ?y])"
    using build_compare [OF assms(1-3,5)] by (simp add: lit_simps)
  have sp: "sep_part (lit '' * '') ?s" using c assms(4) by (intro factor_sep_part) auto
  have f: "tryParseRuleGroupFactor ?s = Inr None"
  proof -
    have "join (lit '' && '') [?x, ?y] \<noteq> []" by (simp add: lit_simps)
    then have "match_factor ?s = Some (join (lit '' && '') [?x, ?y], m)"
      by (rule match_factor_text [OF assms(4)])
    moreover have "splitTopLevelAnd (join (lit '' && '') [?x, ?y]) = [?x, ?y]"
      using c by (intro splitTopLevelAnd_join) (auto simp: conjunct_text_def)
    moreover have "tryParseRequestCondition ?x = Inr (Some (req_cond SOURCE_PARAM p MATCH_EXISTS (Str [])))"
      using parse_exists [of SOURCE_PARAM p] assms(1) by simp
    ultimately show ?thesis
      using parse_bare_compare [OF assms(1), of "Str mode" v] conjunct_text_facts [OF c(1)]
        conjunct_text_facts [OF c(2)]
      by (simp add: tryParseRuleGroupFactor_def)
  qed
  have "buildRequestRuleExpr (Some [\<lparr>g_conditions = Some [req_cond SOURCE_PARAM p mode (Str v)],
      g_multiplier = Str m\<rparr>]) = Inr ?s"
    using b assms(4) numeric_facts [OF assms(4)]
    by (simp add: buildRequestRuleExpr_def buildRuleGroupFactor_def trim_id combine_conditions_def lit_simps)
  moreover have "tryParseRequestRuleExpr ?s = Inr None"
    using f sp splitTopLevelMultiply_join [of "[?s]"] sep_part_join_trimmed [of "lit '' * ''" "[?s]"]
    by (simp add: tryParseRequestRuleExpr_def Let_def sep_part_def)
  ultimately show ?thesis by (auto simp: lit_simps)
qed

lemma param_compare_does_not_reparse_witness:
  "\<exists>e. buildRequestRuleExpr (Some [\<lparr>g_conditions = Some [req_cond SOURCE_PARAM (lit ''max_tokens'') MATCH_GT
      (Str (lit ''1024''))], g_multiplier = Str (lit ''1.5'')\<rparr>]) = Inr e \<and> e \<noteq> [] \<and>
    tryParseRequestRuleExpr e = Inr None"
  by (rule param_compare_does_not_reparse) code_simp+

end
