(* ===== verification/Status_Code_Rules.thy ===== *)
theory Status_Code_Rules
  imports Js_Json "HOL-Library.Product_Lexorder" "HOL-Library.List_Lexorder"
begin

text \<open>
  HTTP status-code rules: \<open>web/src/helpers/statusCodeRules.js\<close> parses a comma separated list
  of codes and ranges, merges it and prints the normal form; and
  \<open>web/src/components/table/channels/modals/statusCodeRiskGuard.js\<close> finds the entries of a
  status-code mapping (a JSON object) that are invalid or redirect a code that must not be
  redirected. Codes are natural numbers: \<open>isNumber\<close> admits digits only, and a number of at
  least 600 is rejected whether or not \<open>parseInt\<close> rounds it.
\<close>

section \<open>Ranges\<close>

record code_range =
  rstart :: nat
  rend :: nat

record parsed_rules =
  ok :: bool
  ranges :: "code_range list"
  tokens :: "jsstr list"
  normalized :: jsstr
  invalidTokens :: "jsstr list"

definition isNumber :: "jsstr \<Rightarrow> bool" where
  "isNumber s \<longleftrightarrow> s \<noteq> [] \<and> list_all is_digit s"

definition parseToken :: "jsstr \<Rightarrow> code_range option" where
  "parseToken token =
     (let cleaned = filter (\<lambda>c. c \<noteq> 32) (trim token) in
      if cleaned = [] then None
      else if 45 \<in> set cleaned then
        (case split_char 45 cleaned of
           [a, b] \<Rightarrow>
             (if \<not> isNumber a \<or> \<not> isNumber b then None
              else let s = digits_val a; e = digits_val b in
                if s > e then None
                else if s < 100 \<or> e > 599 then None
                else Some \<lparr>rstart = s, rend = e\<rparr>)
         | _ \<Rightarrow> None)
      else if \<not> isNumber cleaned then None
      else let code = digits_val cleaned in
        if code < 100 \<or> code > 599 then None else Some \<lparr>rstart = code, rend = code\<rparr>)"

text \<open>The loop of \<open>mergeRanges\<close>: \<open>l\<close> is the last merged range, still open to extension.\<close>

fun merge_loop :: "code_range \<Rightarrow> code_range list \<Rightarrow> code_range list" where
  "merge_loop l [] = [l]"
| "merge_loop l (c # cs) =
     (if rstart c \<le> rend l + 1 then merge_loop (l\<lparr>rend := max (rend l) (rend c)\<rparr>) cs
      else l # merge_loop c cs)"

definition mergeRanges :: "code_range list \<Rightarrow> code_range list" where
  "mergeRanges rs =
     (case sort_key (\<lambda>r. (rstart r, rend r)) rs of [] \<Rightarrow> [] | r # rest \<Rightarrow> merge_loop r rest)"

definition range_token :: "code_range \<Rightarrow> jsstr" where
  "range_token r = (if rstart r = rend r then nat_digits (rstart r)
     else nat_digits (rstart r) @ [45] @ nat_digits (rend r))"

text \<open>The segments that are not blank, trimmed.\<close>

definition rule_segments :: "jsstr \<Rightarrow> jsstr list" where
  "rule_segments raw = filter (\<lambda>s. s \<noteq> [])
     (map trim (split_char 44 (map (\<lambda>c. if c = 65292 then 44 else c) raw)))"

definition parseHttpStatusCodeRules :: "jsval \<Rightarrow> parsed_rules" where
  "parseHttpStatusCodeRules input =
     (let raw = trim (to_str (js_coalesce input (Str []))) in
      if raw = [] then \<lparr>ok = True, ranges = [], tokens = [], normalized = [], invalidTokens = []\<rparr>
      else
        let segments = rule_segments raw;
            invalid = filter (\<lambda>s. parseToken s = None) segments
        in if invalid \<noteq> [] then
             \<lparr>ok = False, ranges = [], tokens = [], normalized = raw, invalidTokens = invalid\<rparr>
           else
             let merged = mergeRanges (List.map_filter parseToken segments);
                 toks = map range_token merged
             in \<lparr>ok = True, ranges = merged, tokens = toks, normalized = join [44] toks,
                 invalidTokens = []\<rparr>)"

section \<open>Status-code mappings\<close>

definition NON_REDIRECTABLE_STATUS_CODES :: "nat list" where
  "NON_REDIRECTABLE_STATUS_CODES = [504, 524]"

text \<open>\<open>/^[1-5]\d{2}$/\<close>\<close>

definition is_code_text :: "jsstr \<Rightarrow> bool" where
  "is_code_text s = (case s of [a, b, c] \<Rightarrow> 49 \<le> a \<and> a \<le> 53 \<and> is_digit b \<and> is_digit c | _ \<Rightarrow> False)"

definition parseStatusCodeKey :: "jsstr \<Rightarrow> nat option" where
  "parseStatusCodeKey rawKey = (let normalized = trim rawKey in
     if \<not> is_code_text normalized then None else Some (digits_val normalized))"

definition parseStatusCodeMappingTarget :: "jsval \<Rightarrow> nat option" where
  "parseStatusCodeMappingTarget rawValue =
     (case rawValue of
        Num x \<Rightarrow> (case x of
            Fin q \<Rightarrow> if is_integer x \<and> 100 \<le> q \<and> q \<le> 599 then Some (nat \<lfloor>q\<rfloor>) else None
          | _ \<Rightarrow> None)
      | Str s \<Rightarrow> (let normalized = trim s in
          if \<not> is_code_text normalized then None
          else let code = digits_val normalized in
            if 100 \<le> code \<and> code \<le> 599 then Some code else None)
      | _ \<Rightarrow> None)"

text \<open>The entries of the mapping; a text that is blank, does not parse, or is not an object has
  none.\<close>

definition mapping_entries :: "jsval \<Rightarrow> (jsstr \<times> jsval) list" where
  "mapping_entries v =
     (case v of Str s \<Rightarrow>
        (if trim s = [] then []
         else (case json_parse s of Inr (Obj kvs) \<Rightarrow> own_entries (Obj kvs) | _ \<Rightarrow> []))
      | _ \<Rightarrow> [])"

definition collectInvalidStatusCodeEntries :: "jsval \<Rightarrow> jsstr list" where
  "collectInvalidStatusCodeEntries statusCodeMappingStr =
     map (\<lambda>(rawKey, rawValue). rawKey @ [32, 8594, 32] @ to_str rawValue)
       (filter (\<lambda>(rawKey, rawValue). parseStatusCodeKey rawKey = None \<or>
            parseStatusCodeMappingTarget rawValue = None)
          (mapping_entries statusCodeMappingStr))"

definition redirect_text :: "nat \<Rightarrow> nat \<Rightarrow> jsstr" where
  "redirect_text f t = nat_digits f @ lit '' -> '' @ nat_digits t"

definition risky_entry :: "jsstr \<times> jsval \<Rightarrow> jsstr option" where
  "risky_entry = (\<lambda>(rawFrom, rawTo).
     (case (parseStatusCodeKey rawFrom, parseStatusCodeMappingTarget rawTo) of
        (Some f, Some t) \<Rightarrow>
          if f \<notin> set NON_REDIRECTABLE_STATUS_CODES then None
          else if f = t then None else Some (redirect_text f t)
      | _ \<Rightarrow> None))"

definition collectDisallowedStatusCodeRedirects :: "jsval \<Rightarrow> jsstr list" where
  "collectDisallowedStatusCodeRedirects statusCodeMappingStr =
     sort (uniq (List.map_filter risky_entry (mapping_entries statusCodeMappingStr)))"

definition collectNewDisallowedStatusCodeRedirects :: "jsval \<Rightarrow> jsval \<Rightarrow> jsstr list" where
  "collectNewDisallowedStatusCodeRedirects original current =
     (let currentRisky = collectDisallowedStatusCodeRedirects current in
      if currentRisky = [] then []
      else let originalRisky = collectDisallowedStatusCodeRedirects original in
        filter (\<lambda>m. m \<notin> set originalRisky) currentRisky)"

section \<open>What ranges denote\<close>

definition codes :: "code_range list \<Rightarrow> nat set" where
  "codes rs = (\<Union>r \<in> set rs. {rstart r .. rend r})"

definition good_range :: "code_range \<Rightarrow> bool" where
  "good_range r \<longleftrightarrow> 100 \<le> rstart r \<and> rstart r \<le> rend r \<and> rend r \<le> 599"

text \<open>Ascending, with a gap of at least one code between neighbours.\<close>

fun separated :: "code_range list \<Rightarrow> bool" where
  "separated (r # q # rs) \<longleftrightarrow> rend r + 1 < rstart q \<and> separated (q # rs)"
| "separated _ = True"

lemma codes_simps [simp]: "codes [] = {}" "codes (r # rs) = {rstart r .. rend r} \<union> codes rs"
  by (auto simp: codes_def)

lemma codes_sort [simp]: "codes (sort_key f rs) = codes rs"
  by (simp add: codes_def)

lemma parseToken_good: "parseToken t = Some r \<Longrightarrow> good_range r"
  unfolding parseToken_def Let_def
  by (auto simp: good_range_def split: if_split_asm list.split_asm)

lemma merge_loop_codes:
  "\<forall>r \<in> set (l # cs). rstart r \<le> rend r \<Longrightarrow> sorted (map rstart (l # cs)) \<Longrightarrow>
   codes (merge_loop l cs) = codes (l # cs)"
proof (induction l cs rule: merge_loop.induct)
  case (2 l c cs)
  show ?case
  proof (cases "rstart c \<le> rend l + 1")
    case True
    let ?l = "l\<lparr>rend := max (rend l) (rend c)\<rparr>"
    have "codes (merge_loop ?l cs) = codes (?l # cs)"
      using "2.prems" by (intro "2.IH"(1) [OF True]) auto
    moreover have "{rstart l .. max (rend l) (rend c)} = {rstart l .. rend l} \<union> {rstart c .. rend c}"
      using True "2.prems" by auto
    ultimately show ?thesis using True by auto
  next
    case False
    then show ?thesis using 2 by auto
  qed
qed simp

lemma merge_loop_separated:
  "sorted (map rstart (l # cs)) \<Longrightarrow> \<exists>e rest. merge_loop l cs = l\<lparr>rend := e\<rparr> # rest \<and> separated (merge_loop l cs)"
proof (induction l cs rule: merge_loop.induct)
  case (1 l)
  show ?case by (rule exI [of _ "rend l"]) simp
next
  case (2 l c cs)
  show ?case
  proof (cases "rstart c \<le> rend l + 1")
    case True
    then show ?thesis using "2.IH"(1) "2.prems" by fastforce
  next
    case False
    then have "\<exists>e rest. merge_loop c cs = c\<lparr>rend := e\<rparr> # rest \<and> separated (merge_loop c cs)"
      using "2.IH"(2) "2.prems" by simp
    then show ?thesis using False by (auto intro!: exI [of _ "rend l"])
  qed
qed

lemma merge_loop_good:
  "\<forall>r \<in> set (l # cs). good_range r \<Longrightarrow> \<forall>r \<in> set (merge_loop l cs). good_range r"
  by (induction l cs rule: merge_loop.induct) (auto simp: good_range_def)

lemma sorted_start_sort: "sorted (map rstart (sort_key (\<lambda>r. (rstart r, rend r)) rs))"
  using sorted_sort_key [of "\<lambda>r. (rstart r, rend r)" rs]
  by (auto simp: sorted_iff_nth_mono less_eq_prod_def intro: less_imp_le)

lemma mergeRanges_cases:
  obtains "rs = []" "mergeRanges rs = []"
  | l cs where "sort_key (\<lambda>r. (rstart r, rend r)) rs = l # cs" "mergeRanges rs = merge_loop l cs"
      "set (l # cs) = set rs" "sorted (map rstart (l # cs))"
proof (cases "sort_key (\<lambda>r. (rstart r, rend r)) rs")
  case Nil
  then have "set rs = {}" by (metis list.set(1) set_sort)
  then show ?thesis using that(1) Nil by (simp add: mergeRanges_def)
next
  case (Cons l cs)
  then show ?thesis
    using that(2) [of l cs] sorted_start_sort [of rs] set_sort [of "\<lambda>r. (rstart r, rend r)" rs]
    by (simp add: mergeRanges_def)
qed

lemma mergeRanges_codes: "\<forall>r \<in> set rs. good_range r \<Longrightarrow> codes (mergeRanges rs) = codes rs"
proof (cases rs rule: mergeRanges_cases)
  case (2 l cs)
  assume "\<forall>r \<in> set rs. good_range r"
  then have "\<forall>r \<in> set (l # cs). rstart r \<le> rend r" using 2(3) by (auto simp: good_range_def)
  then have "codes (mergeRanges rs) = codes (l # cs)" using 2 merge_loop_codes by simp
  then show ?thesis using 2(1) codes_sort [of "\<lambda>r. (rstart r, rend r)" rs] by simp
qed simp

lemma mergeRanges_separated: "separated (mergeRanges rs)"
proof (cases rs rule: mergeRanges_cases)
  case (2 l cs)
  then show ?thesis using merge_loop_separated [of l cs] by auto
qed simp

lemma mergeRanges_good: "\<forall>r \<in> set rs. good_range r \<Longrightarrow> \<forall>r \<in> set (mergeRanges rs). good_range r"
proof (cases rs rule: mergeRanges_cases)
  case (2 l cs)
  assume "\<forall>r \<in> set rs. good_range r"
  then have "\<forall>r \<in> set (l # cs). good_range r" unfolding 2(3) .
  then show ?thesis unfolding 2(2) by (rule merge_loop_good)
qed simp

text \<open>Separated lists of ranges are equal when they denote the same codes.\<close>

lemma separated_above:
  "separated (r # rs) \<Longrightarrow> \<forall>q \<in> set (r # rs). rstart q \<le> rend q \<Longrightarrow> c \<in> codes rs \<Longrightarrow> rend r + 1 < c"
proof (induction rs arbitrary: r)
  case (Cons q rs)
  then show ?case by (cases "c \<in> codes rs") (fastforce dest: Cons.IH [of q])+
qed simp

lemma separated_tl: "separated (r # rs) \<Longrightarrow> separated rs"
  by (cases rs) auto

lemma separated_head:
  assumes "separated (r # rs)" "\<forall>x \<in> set (r # rs). rstart x \<le> rend x"
  shows "rstart r \<in> codes (r # rs)" "rend r + 1 \<notin> codes (r # rs)" "c \<in> codes (r # rs) \<Longrightarrow> rstart r \<le> c"
    "codes rs = codes (r # rs) - {..rend r}"
  using assms separated_above [OF assms] by fastforce+

lemma separated_unique:
  "separated rs \<Longrightarrow> separated qs \<Longrightarrow> \<forall>x \<in> set rs. rstart x \<le> rend x \<Longrightarrow> \<forall>x \<in> set qs. rstart x \<le> rend x \<Longrightarrow>
   codes rs = codes qs \<Longrightarrow> rs = qs"
proof (induction rs arbitrary: qs)
  case Nil
  then show ?case by (cases qs) auto
next
  case (Cons r rs)
  obtain q qs' where qs: "qs = q # qs'" using Cons.prems by (cases qs) auto
  note r = separated_head [OF Cons.prems(1,3)] and q = separated_head [OF Cons.prems(2,4) [unfolded qs]]
  have c: "codes (r # rs) = codes (q # qs')" using Cons.prems(5) qs by simp
  have s: "rstart r = rstart q"
    using r(3) [of "rstart q"] q(1) q(3) [of "rstart r"] r(1) unfolding c by (intro antisym)
  have "\<not> rend r < rend q"
  proof
    assume "rend r < rend q"
    then have "rend r + 1 \<in> codes (q # qs')" using s Cons.prems(3) by auto
    then show False using r(2) unfolding c by (rule notE [rotated])
  qed
  moreover have "\<not> rend q < rend r"
  proof
    assume "rend q < rend r"
    then have "rend q + 1 \<in> codes (r # rs)" using s Cons.prems(4) by (auto simp: qs)
    then show False using q(2) unfolding c by (rule notE [rotated])
  qed
  ultimately have e: "rend r = rend q" by simp
  then have "codes rs = codes qs'" using r(4) q(4) Cons.prems(5) qs by simp
  then have "rs = qs'"
    using Cons.prems by (intro Cons.IH) (auto simp: qs dest: separated_tl)
  then show ?case using s e by (simp add: qs)
qed

interpretation ranges: normal_form "list_all good_range" mergeRanges codes separated
proof
  show "list_all good_range x \<Longrightarrow> codes (mergeRanges x) = codes x" for x
    by (simp add: mergeRanges_codes list_all_iff)
  show "list_all good_range x \<Longrightarrow> list_all good_range (mergeRanges x)" for x
    using mergeRanges_good by (simp add: list_all_iff)
  show "separated (mergeRanges x)" for x
    by (rule mergeRanges_separated)
  show "list_all good_range x \<Longrightarrow> list_all good_range y \<Longrightarrow> separated x \<Longrightarrow> separated y \<Longrightarrow>
      codes x = codes y \<Longrightarrow> x = y" for x y
    by (rule separated_unique) (auto simp: list_all_iff good_range_def)
qed

section \<open>Printing and parsing back\<close>

lemma digits_no: "c \<in> set (nat_digits n) \<Longrightarrow> c \<noteq> 32 \<and> c \<noteq> 44 \<and> c \<noteq> 45 \<and> c \<noteq> 65292 \<and> \<not> is_ws c"
  using nat_digits_digit [of c n] by (auto simp: is_digit_def is_ws_def)

lemma isNumber_nat_digits [simp]: "isNumber (nat_digits n)"
  using nat_digits_digit by (auto simp: isNumber_def list_all_iff)

lemma range_token_units: "c \<in> set (range_token r) \<Longrightarrow> c \<noteq> 32 \<and> c \<noteq> 44 \<and> c \<noteq> 65292 \<and> \<not> is_ws c"
  using digits_no [of c "rstart r"] digits_no [of c "rend r"]
  by (auto simp: range_token_def is_ws_def split: if_splits)

lemma range_token_trimmed: "trimmed (range_token r)" "range_token r \<noteq> []"
proof -
  show "range_token r \<noteq> []" by (simp add: range_token_def)
  then show "trimmed (range_token r)"
    using range_token_units hd_in_set last_in_set by (metis trimmed_def)
qed

lemma parseToken_range_token: "good_range r \<Longrightarrow> parseToken (range_token r) = Some r"
proof -
  assume g: "good_range r"
  have f: "filter (\<lambda>c. c \<noteq> 32) (trim (range_token r)) = range_token r"
    using range_token_units range_token_trimmed by (auto simp: trim_id filter_id_conv)
  have n: "45 \<notin> set (nat_digits k)" for k using digits_no by blast
  have "split_char 45 (nat_digits (rstart r) @ 45 # nat_digits (rend r)) =
      [nat_digits (rstart r), nat_digits (rend r)]"
    using n by (simp add: split_char_append_sep split_char_no_sep)
  then show ?thesis using g n unfolding parseToken_def f Let_def
    by (cases "rstart r = rend r") (simp_all add: range_token_def good_range_def Let_def)
qed

interpretation token: codec good_range range_token parseToken
  by unfold_locales (rule parseToken_range_token)

lemma rule_segments_tokens:
  assumes "rs \<noteq> []" shows "rule_segments (join [44] (map range_token rs)) = map range_token rs"
proof -
  have u: "c \<noteq> 65292" if "c \<in> set (join [44] (map range_token rs))" for c
    using that
  proof (induction rs)
    case (Cons r rs)
    then show ?case using range_token_units [of c r]
      by (cases "map range_token rs") auto
  qed simp
  have "map (\<lambda>c. if c = 65292 then 44 else c) (join [44] (map range_token rs)) = join [44] (map range_token rs)"
    using u by (simp add: map_idI)
  moreover have "split_char 44 (join [44] (map range_token rs)) = map range_token rs"
    using assms range_token_units by (intro split_char_join) auto
  moreover have "map trim (map range_token rs) = map range_token rs"
    using range_token_trimmed trim_id by (simp add: o_def)
  ultimately show ?thesis using range_token_trimmed by (simp add: rule_segments_def filter_id_conv)
qed

lemma join_tokens_trimmed: "trim (join [44] (map range_token rs)) = join [44] (map range_token rs)"
proof (rule trim_id, induction rs)
  case (Cons r rs)
  show ?case
  proof (cases rs)
    case (Cons q qs)
    have "join [44] (map range_token rs) \<noteq> []"
      using range_token_trimmed(2) Cons by (cases qs) auto
    then have "trimmed (range_token r @ [44] @ join [44] (map range_token rs))"
      using Cons.IH range_token_trimmed [of r] by (intro trimmed_append) auto
    then show ?thesis using Cons by simp
  qed (use range_token_trimmed in simp)
qed simp

lemma map_filter_tokens:
  "list_all good_range rs \<Longrightarrow> List.map_filter parseToken (map range_token rs) = rs"
  by (induction rs) (auto simp: map_filter_simps parseToken_range_token)

lemma parse_printed:
  assumes "list_all good_range rs" "separated rs"
  shows "parseHttpStatusCodeRules (Str (join [44] (map range_token rs))) =
    \<lparr>ok = True, ranges = rs, tokens = map range_token rs, normalized = join [44] (map range_token rs),
     invalidTokens = []\<rparr>"
proof (cases "rs = []")
  case False
  then have "join [44] (map range_token rs) \<noteq> []"
    using range_token_trimmed(2) by (cases rs; cases "tl rs") auto
  moreover have "filter (\<lambda>s. parseToken s = None) (map range_token rs) = []"
    using assms(1) by (auto simp: filter_empty_conv list_all_iff parseToken_range_token)
  moreover have "mergeRanges rs = rs" using assms by (rule ranges.nf_canonical_id)
  ultimately show ?thesis using assms False
    by (simp add: parseHttpStatusCodeRules_def join_tokens_trimmed rule_segments_tokens
        map_filter_tokens js_coalesce_def Let_def)
qed (simp add: parseHttpStatusCodeRules_def js_coalesce_def)

section \<open>Properties\<close>

text \<open>What a text of rules denotes: the union of its valid tokens.\<close>

definition input_text :: "jsval \<Rightarrow> jsstr" where
  "input_text input = trim (to_str (js_coalesce input (Str [])))"

definition denoted :: "jsval \<Rightarrow> nat set" where
  "denoted input = codes (List.map_filter parseToken (rule_segments (input_text input)))"

lemma set_map_filter_good: "list_all good_range (List.map_filter parseToken ts)"
  using parseToken_good by (induction ts) (auto split: option.splits)

lemma rule_segments_Nil [simp]: "rule_segments [] = []"
  by (simp add: rule_segments_def)

lemma parse_ok:
  assumes "ok (parseHttpStatusCodeRules input)"
  shows "ranges (parseHttpStatusCodeRules input) =
      mergeRanges (List.map_filter parseToken (rule_segments (input_text input)))"
    "tokens (parseHttpStatusCodeRules input) = map range_token (ranges (parseHttpStatusCodeRules input))"
    "normalized (parseHttpStatusCodeRules input) = join [44] (tokens (parseHttpStatusCodeRules input))"
    "invalidTokens (parseHttpStatusCodeRules input) = []"
  using assms
  by (auto simp: parseHttpStatusCodeRules_def input_text_def Let_def mergeRanges_def split: if_splits)

lemma parse_ranges_good:
  "list_all good_range (ranges (parseHttpStatusCodeRules input)) \<and> separated (ranges (parseHttpStatusCodeRules input))"
proof (cases "ok (parseHttpStatusCodeRules input)")
  case True
  then show ?thesis
    by (simp add: parse_ok(1) ranges.nf_valid set_map_filter_good mergeRanges_separated)
qed (auto simp: parseHttpStatusCodeRules_def Let_def split: if_splits)

text \<open>C6: accepted rules denote exactly the codes of their tokens, as ascending ranges with
  gaps between them, all within 100 to 599.\<close>

theorem status_rules_denotation:
  assumes "ok (parseHttpStatusCodeRules input)"
  shows "codes (ranges (parseHttpStatusCodeRules input)) = denoted input \<and>
    separated (ranges (parseHttpStatusCodeRules input)) \<and>
    list_all good_range (ranges (parseHttpStatusCodeRules input))"
  using parse_ranges_good [of input] set_map_filter_good
  by (simp add: parse_ok(1) [OF assms] denoted_def ranges.nf_den)

lemma status_rules_denotation_witness:
  "codes (ranges (parseHttpStatusCodeRules (Str (lit ''500-503, 502-504 ,429'')))) =
     denoted (Str (lit ''500-503, 502-504 ,429'')) \<and>
   ranges (parseHttpStatusCodeRules (Str (lit ''500-503, 502-504 ,429''))) =
     [\<lparr>rstart = 429, rend = 429\<rparr>, \<lparr>rstart = 500, rend = 504\<rparr>]"
proof (intro conjI)
  have "ok (parseHttpStatusCodeRules (Str (lit ''500-503, 502-504 ,429'')))" by code_simp
  from status_rules_denotation [OF this]
  show "codes (ranges (parseHttpStatusCodeRules (Str (lit ''500-503, 502-504 ,429'')))) =
     denoted (Str (lit ''500-503, 502-504 ,429''))" by blast
qed code_simp

text \<open>The normalised text is a normal form: parsing it again succeeds with the same
  ranges, tokens and text.\<close>

theorem status_rules_normalized_fixpoint:
  assumes "ok (parseHttpStatusCodeRules input)"
  shows "parseHttpStatusCodeRules (Str (normalized (parseHttpStatusCodeRules input))) =
    parseHttpStatusCodeRules input"
  using parse_printed [of "ranges (parseHttpStatusCodeRules input)"] parse_ranges_good [of input] assms
  by (simp add: parse_ok)

lemma status_rules_normalized_fixpoint_witness:
  "ok (parseHttpStatusCodeRules (Num (Fin 404))) \<and>
   parseHttpStatusCodeRules (Str (normalized (parseHttpStatusCodeRules (Str (lit '' 404,405''))))) =
    parseHttpStatusCodeRules (Str (lit '' 404,405''))"
proof (intro conjI)
  show "parseHttpStatusCodeRules (Str (normalized (parseHttpStatusCodeRules (Str (lit '' 404,405''))))) =
    parseHttpStatusCodeRules (Str (lit '' 404,405''))"
    by (rule status_rules_normalized_fixpoint) code_simp
qed code_simp

text \<open>C8: two accepted texts have the same normalised text exactly when they denote the same
  set of codes.\<close>

theorem status_rules_normalized_iff:
  assumes "ok (parseHttpStatusCodeRules a)" "ok (parseHttpStatusCodeRules b)"
  shows "normalized (parseHttpStatusCodeRules a) = normalized (parseHttpStatusCodeRules b) \<longleftrightarrow>
    denoted a = denoted b"
proof -
  have "normalized (parseHttpStatusCodeRules a) = normalized (parseHttpStatusCodeRules b) \<longleftrightarrow>
      ranges (parseHttpStatusCodeRules a) = ranges (parseHttpStatusCodeRules b)"
    using parse_printed parse_ranges_good assms by (metis parse_ok(2,3) parsed_rules.select_convs(2))
  also have "\<dots> \<longleftrightarrow> denoted a = denoted b"
    unfolding parse_ok(1) [OF assms(1)] parse_ok(1) [OF assms(2)] denoted_def
    using set_map_filter_good by (intro ranges.nf_eq_iff)
  finally show ?thesis .
qed

lemma status_rules_normalized_iff_witness:
  "denoted (Str (lit ''400-401,402'')) = denoted (Str (lit ''401, 402,400''))"
proof -
  have o: "ok (parseHttpStatusCodeRules (Str (lit ''400-401,402'')))"
    "ok (parseHttpStatusCodeRules (Str (lit ''401, 402,400'')))" by code_simp+
  have "normalized (parseHttpStatusCodeRules (Str (lit ''400-401,402''))) =
    normalized (parseHttpStatusCodeRules (Str (lit ''401, 402,400'')))" by code_simp
  then show ?thesis using status_rules_normalized_iff [OF o] by blast
qed

section \<open>Mappings\<close>

lemma in_map_filter: "y \<in> set (List.map_filter f xs) \<longleftrightarrow> (\<exists>x \<in> set xs. f x = Some y)"
  by (induction xs) (auto split: option.splits)

lemma sorted_sort_uniq: "sorted (sort (uniq xs)) \<and> distinct (sort (uniq xs)) \<and> set (sort (uniq xs)) = set xs"
  for xs :: "jsstr list"
  by simp

text \<open>The risky redirects are listed once each in ascending order, and are exactly the
  entries whose key is 504 or 524, whose target is another valid code.\<close>

theorem disallowed_redirects_spec:
  "sorted (collectDisallowedStatusCodeRedirects m) \<and> distinct (collectDisallowedStatusCodeRedirects m) \<and>
   (r \<in> set (collectDisallowedStatusCodeRedirects m) \<longleftrightarrow>
     (\<exists>k v f t. (k, v) \<in> set (mapping_entries m) \<and> parseStatusCodeKey k = Some f \<and>
        parseStatusCodeMappingTarget v = Some t \<and> (f = 504 \<or> f = 524) \<and> f \<noteq> t \<and> r = redirect_text f t))"
  unfolding collectDisallowedStatusCodeRedirects_def
  using sorted_sort_uniq [of "List.map_filter risky_entry (mapping_entries m)"]
  by (fastforce simp: in_map_filter risky_entry_def NON_REDIRECTABLE_STATUS_CODES_def
      split: option.splits if_splits)

text \<open>What an edit newly redirects is what the edited mapping redirects and the original
  did not; in particular an unchanged mapping asks for no confirmation.\<close>

theorem new_disallowed_redirects_spec:
  "set (collectNewDisallowedStatusCodeRedirects m m') =
     set (collectDisallowedStatusCodeRedirects m') - set (collectDisallowedStatusCodeRedirects m) \<and>
   collectNewDisallowedStatusCodeRedirects m m = []"
  by (auto simp: collectNewDisallowedStatusCodeRedirects_def Let_def filter_empty_conv)

end
