(* ===== verification/Playground_Db.thy ===== *)
theory Playground_Db
  imports Js_Json "HOL-Library.List_Lexorder"
begin

text \<open>
  The IndexedDB layer of the playground, \<open>web/src/utils/playgroundDb.js\<close>. An object store with
  a key path is a list of key and row sorted by key, the order in which \<open>getAll\<close> returns the
  rows; keys are strings, which is what \<open>genSessionId\<close> makes, and a row is filed under the key
  its own key path holds. Each operation runs in one transaction and gets the environment of
  that transaction: the clock and, if opening the database or the transaction fails, the error
  it fails with. A failed transaction changes nothing. The operations refine updates of two
  maps, from session ids to the properties of the session and to its messages.
\<close>

section \<open>A store with keys\<close>

type_synonym 'v store = "(jsstr \<times> 'v) list"

definition store_get :: "'v store \<Rightarrow> jsstr \<Rightarrow> 'v option" where
  "store_get s k = map_of s k"

fun store_put :: "'v store \<Rightarrow> jsstr \<Rightarrow> 'v \<Rightarrow> 'v store" where
  "store_put [] k v = [(k, v)]"
| "store_put ((k', v') # s) k v =
     (if k = k' then (k, v) # s else if k < k' then (k, v) # (k', v') # s
      else (k', v') # store_put s k v)"

definition store_delete :: "'v store \<Rightarrow> jsstr \<Rightarrow> 'v store" where
  "store_delete s k = filter (\<lambda>p. fst p \<noteq> k) s"

definition store_getAll :: "'v store \<Rightarrow> 'v list" where
  "store_getAll s = map snd s"

definition store_wf :: "'v store \<Rightarrow> bool" where
  "store_wf s \<longleftrightarrow> sorted_wrt (<) (map fst s)"

text \<open>The interface the operations below rely on: what a lookup returns after an update.\<close>

locale kv_store =
  fixes wf :: "'s \<Rightarrow> bool" and get :: "'s \<Rightarrow> 'k \<Rightarrow> 'v option"
    and put :: "'s \<Rightarrow> 'k \<Rightarrow> 'v \<Rightarrow> 's" and del :: "'s \<Rightarrow> 'k \<Rightarrow> 's"
  assumes wf_put: "wf s \<Longrightarrow> wf (put s k v)"
    and wf_del: "wf s \<Longrightarrow> wf (del s k)"
    and get_put: "wf s \<Longrightarrow> get (put s k v) k' = (if k' = k then Some v else get s k')"
    and get_del: "wf s \<Longrightarrow> get (del s k) k' = (if k' = k then None else get s k')"
begin

text \<open>Read, modify, write in one transaction, as \<open>patchSession\<close> does it.\<close>

definition update :: "'s \<Rightarrow> 'k \<Rightarrow> ('v \<Rightarrow> 'v) \<Rightarrow> 's" where
  "update s k f = (case get s k of None \<Rightarrow> s | Some v \<Rightarrow> put s k (f v))"

lemma wf_update: "wf s \<Longrightarrow> wf (update s k f)"
  by (auto simp: update_def wf_put split: option.splits)

lemma get_update: "wf s \<Longrightarrow> get (update s k f) k' = (if k' = k then map_option f (get s k') else get s k')"
  by (auto simp: update_def get_put split: option.splits)

lemma update_update:
  "wf s \<Longrightarrow> get (update (update s k f) k g) k' = get (update s k (g \<circ> f)) k'"
  by (simp add: get_update wf_update option.map_comp)

lemma updates_commute:
  "wf s \<Longrightarrow> (\<And>v. g (f v) = f (g v)) \<Longrightarrow>
   get (update (update s k f) k' g) k'' = get (update (update s k' g) k f) k''"
  by (cases "get s k''") (auto simp: get_update wf_update)

lemma get_put_del: "wf s \<Longrightarrow> get (put (del s k) k v) k' = get (put s k v) k'"
  by (simp add: get_put get_del wf_del)

end

lemma store_wf_Cons: "store_wf ((k, v) # s) \<longleftrightarrow> (\<forall>k' \<in> fst ` set s. k < k') \<and> store_wf s"
  by (auto simp: store_wf_def)

lemma set_store_put: "fst ` set (store_put s k v) = insert k (fst ` set s)"
  by (induction s k v rule: store_put.induct) auto

lemma store_wf_put: "store_wf s \<Longrightarrow> store_wf (store_put s k v)"
proof (induction s k v rule: store_put.induct)
  case (2 k' v' s k v)
  then show ?case
    by (auto simp: store_wf_Cons set_store_put intro: less_trans)
qed (simp add: store_wf_def)

lemma store_get_put:
  "store_wf s \<Longrightarrow> store_get (store_put s k v) k' = (if k' = k then Some v else store_get s k')"
  by (induction s k v rule: store_put.induct) (auto simp: store_get_def store_wf_Cons)

interpretation store: kv_store store_wf store_get store_put store_delete
proof
  show "store_wf s \<Longrightarrow> store_wf (store_put s k v)" for s :: "'v store" and k v
    by (rule store_wf_put)
  show "store_wf s \<Longrightarrow> store_get (store_put s k v) k' = (if k' = k then Some v else store_get s k')"
    for s :: "'v store" and k k' v
    by (rule store_get_put)
  show "store_wf s \<Longrightarrow> store_wf (store_delete s k)" for s :: "'v store" and k
    unfolding store_wf_def store_delete_def
    by (induction s) auto
  show "store_wf s \<Longrightarrow> store_get (store_delete s k) k' = (if k' = k then None else store_get s k')"
    for s :: "'v store" and k k'
    by (induction s) (auto simp: store_get_def store_delete_def store_wf_Cons)
qed

section \<open>The database\<close>

record idb =
  sessions_store :: "jsobj store"
  messages_store :: "jsobj store"

record idb_env =
  e_now :: nat
  e_fault :: "jserr option"

definition date_now :: "idb_env \<Rightarrow> jsval" where
  "date_now e = Num (num_of_nat (e_now e))"

abbreviation K_id :: jsstr where "K_id \<equiv> lit ''id''"
abbreviation K_created_at :: jsstr where "K_created_at \<equiv> lit ''created_at''"
abbreviation K_updated_at :: jsstr where "K_updated_at \<equiv> lit ''updated_at''"

text \<open>\<open>store.put(row)\<close>: the key is what the row has under the store's key path; a row with no
  valid key there is a \<open>DataError\<close>.\<close>

definition put_row :: "jsstr \<Rightarrow> jsobj store \<Rightarrow> jsobj \<Rightarrow> jsobj store option" where
  "put_row keyPath s row = (case obj_get row keyPath of Str k \<Rightarrow> Some (store_put s k row) | _ \<Rightarrow> None)"

abbreviation K_session_id :: jsstr where "K_session_id \<equiv> lit ''session_id''"

text \<open>\<open>b.updated_at || 0\<close> as a number; the sign of a difference of two numbers is their
  comparison, and no difference with NaN is negative.\<close>

definition updated_num :: "jsobj \<Rightarrow> jsnum" where
  "updated_num r = to_num (js_or (obj_get r K_updated_at) (Num (Fin 0)))"

definition more_recent :: "jsobj \<Rightarrow> jsobj \<Rightarrow> bool" where
  "more_recent a b \<longleftrightarrow> num_lt (updated_num b) (updated_num a)"

definition listSessions :: "idb_env \<Rightarrow> idb \<Rightarrow> jsobj list" where
  "listSessions e d = (case e_fault e of Some _ \<Rightarrow> []
     | None \<Rightarrow> sort_by more_recent (store_getAll (sessions_store d)))"

text \<open>The row, \<open>undefined\<close> when there is none, \<open>null\<close> for no id and on failure.\<close>

definition getSession :: "idb_env \<Rightarrow> idb \<Rightarrow> jsstr \<Rightarrow> jsval" where
  "getSession e d i =
     (if i = [] then Null
      else case e_fault e of Some _ \<Rightarrow> Null
        | None \<Rightarrow> (case store_get (sessions_store d) i of None \<Rightarrow> Undefined | Some r \<Rightarrow> Obj r))"

definition putSession :: "idb_env \<Rightarrow> idb \<Rightarrow> jsobj \<Rightarrow> jsobj res \<times> idb" where
  "putSession e d session =
     (if \<not> truthy (obj_get session K_id) then (Inl (JsError (lit ''session.id required'')), d)
      else let rec = obj_merge [(K_created_at, date_now e), (K_updated_at, date_now e)] session in
        case e_fault e of Some x \<Rightarrow> (Inl x, d)
        | None \<Rightarrow> (case put_row K_id (sessions_store d) rec of
              Some s \<Rightarrow> (Inr rec, d\<lparr>sessions_store := s\<rparr>)
            | None \<Rightarrow> (Inl (JsError (lit ''DataError'')), d)))"

definition patched :: "idb_env \<Rightarrow> jsstr \<Rightarrow> jsobj \<Rightarrow> bool \<Rightarrow> jsobj \<Rightarrow> jsobj" where
  "patched e i patch touch current =
     obj_merge (obj_put (obj_merge current patch) K_id (Str i))
       (if touch then [(K_updated_at, date_now e)] else [])"

definition patchSession :: "idb_env \<Rightarrow> idb \<Rightarrow> jsstr \<Rightarrow> jsobj \<Rightarrow> bool \<Rightarrow> jsval res \<times> idb" where
  "patchSession e d i patch touch =
     (if i = [] then (Inr Null, d)
      else case e_fault e of Some x \<Rightarrow> (Inl x, d)
        | None \<Rightarrow> (case store_get (sessions_store d) i of
              None \<Rightarrow> (Inr Null, d)
            | Some current \<Rightarrow>
                (let merged = patched e i patch touch current in
                 case put_row K_id (sessions_store d) merged of
                   Some s \<Rightarrow> (Inr (Obj merged), d\<lparr>sessions_store := s\<rparr>)
                 | None \<Rightarrow> (Inl (JsError (lit ''AbortError'')), d))))"

definition touchSession :: "idb_env \<Rightarrow> idb \<Rightarrow> jsstr \<Rightarrow> jsval res \<times> idb" where
  "touchSession e d i = patchSession e d i [] True"

definition deleteSession :: "idb_env \<Rightarrow> idb \<Rightarrow> jsstr \<Rightarrow> unit res \<times> idb" where
  "deleteSession e d i =
     (if i = [] then (Inr (), d)
      else case e_fault e of Some x \<Rightarrow> (Inl x, d)
        | None \<Rightarrow> (Inr (), d\<lparr>sessions_store := store_delete (sessions_store d) i,
                             messages_store := store_delete (messages_store d) i\<rparr>))"

definition getMessages :: "idb_env \<Rightarrow> idb \<Rightarrow> jsstr \<Rightarrow> jsval" where
  "getMessages e d sessionId =
     (if sessionId = [] then Null
      else case e_fault e of Some _ \<Rightarrow> Null
        | None \<Rightarrow> (case store_get (messages_store d) sessionId of None \<Rightarrow> Null
            | Some row \<Rightarrow> js_or (obj_get row (lit ''messages'')) Null))"

definition putMessages :: "idb_env \<Rightarrow> idb \<Rightarrow> jsstr \<Rightarrow> jsval \<Rightarrow> unit res \<times> idb" where
  "putMessages e d sessionId messages =
     (if sessionId = [] then (Inl (JsError (lit ''sessionId required'')), d)
      else case e_fault e of Some x \<Rightarrow> (Inl x, d)
        | None \<Rightarrow> (case put_row K_session_id (messages_store d)
              [(K_session_id, Str sessionId), (lit ''messages'', js_or messages (Arr [])),
               (K_updated_at, date_now e)] of
              Some s \<Rightarrow> (Inr (), d\<lparr>messages_store := s\<rparr>)
            | None \<Rightarrow> (Inl (JsError (lit ''DataError'')), d)))"

definition clearMessages :: "idb_env \<Rightarrow> idb \<Rightarrow> jsstr \<Rightarrow> idb" where
  "clearMessages e d sessionId =
     (if sessionId = [] then d
      else case e_fault e of Some _ \<Rightarrow> d
        | None \<Rightarrow> d\<lparr>messages_store := store_delete (messages_store d) sessionId\<rparr>)"

text \<open>\<open>n.toString(36)\<close>, and the fresh id made of the clock and \<open>Math.random().toString(36)\<close>,
  whose text is the argument \<open>rand\<close>.\<close>

fun base36 :: "nat \<Rightarrow> jsstr" where
  "base36 n = (let d = n mod 36; u = (if d < 10 then 48 + d else 87 + d) in
     if n < 36 then [u] else base36 (n div 36) @ [u])"

declare base36.simps [simp del]

definition genSessionId :: "nat \<Rightarrow> jsstr \<Rightarrow> jsstr" where
  "genSessionId now rand = lit ''sess_'' @ base36 now @ lit ''_'' @ take 8 (drop 2 rand)"

section \<open>The invariant of the database\<close>

text \<open>Rows are filed under their id; timestamps are finite numbers.\<close>

definition row_ok :: "jsstr \<Rightarrow> jsobj \<Rightarrow> bool" where
  "row_ok k r \<longleftrightarrow> obj_get r K_id = Str k"

definition idb_wf :: "idb \<Rightarrow> bool" where
  "idb_wf d \<longleftrightarrow> store_wf (sessions_store d) \<and> store_wf (messages_store d) \<and>
     list_all (\<lambda>(k, r). row_ok k r) (sessions_store d)"

definition timestamped :: "idb \<Rightarrow> bool" where
  "timestamped d \<longleftrightarrow> list_all (\<lambda>(k, r). \<exists>q. updated_num r = Fin q) (sessions_store d)"

lemma list_all_store_put: "list_all P s \<Longrightarrow> P (k, v) \<Longrightarrow> list_all P (store_put s k v)"
  by (induction s k v rule: store_put.induct) auto

lemma list_all_store_delete: "list_all P s \<Longrightarrow> list_all P (store_delete s k)"
  by (simp add: store_delete_def list_all_iff)

lemma obj_get_merge_fresh: "\<not> obj_has b k \<Longrightarrow> obj_get (obj_merge a b) k = obj_get a k"
proof -
  assume "\<not> obj_has b k"
  then have "map_of (rev b) k = None" by (simp add: obj_has_def map_of_eq_None_iff image_iff)
  then show ?thesis by (simp add: obj_get_def map_of_obj_merge)
qed

lemma obj_get_merge_Nil [simp]: "obj_merge a [] = a" "obj_get (obj_merge a [(k', v)]) k = (if k = k' then v else obj_get a k)"
  by (simp_all add: obj_merge_def obj_get_put)

lemma patched_id: "obj_get (patched e i patch touch current) K_id = Str i"
  by (simp add: patched_def)

lemma put_row_Str: "obj_get row keyPath = Str k \<Longrightarrow> put_row keyPath s row = Some (store_put s k row)"
  by (simp add: put_row_def)

lemma put_row_patched [simp]:
  "put_row K_id s (patched e i patch touch current) = Some (store_put s i (patched e i patch touch current))"
  by (simp add: put_row_Str patched_id)

lemma put_row_messages [simp]:
  "put_row K_session_id s ((K_session_id, Str i) # row) = Some (store_put s i ((K_session_id, Str i) # row))"
  by (simp add: put_row_Str)

lemma idb_wf_patch: "idb_wf d \<Longrightarrow> idb_wf (snd (patchSession e d i patch touch))"
  unfolding patchSession_def idb_wf_def
  by (auto simp: Let_def store.wf_put row_ok_def patched_id list_all_store_put split: option.splits)

lemma idb_wf_put: "idb_wf d \<Longrightarrow> idb_wf (snd (putSession e d session))"
  unfolding putSession_def idb_wf_def
  by (auto simp: Let_def put_row_def store.wf_put row_ok_def list_all_store_put split: option.splits jsval.splits)

lemma idb_wf_delete: "idb_wf d \<Longrightarrow> idb_wf (snd (deleteSession e d i))"
  unfolding deleteSession_def idb_wf_def
  by (auto simp: store.wf_del list_all_store_delete split: option.splits)

lemma idb_wf_messages:
  "idb_wf d \<Longrightarrow> idb_wf (snd (putMessages e d i ms))" "idb_wf d \<Longrightarrow> idb_wf (clearMessages e d i)"
  unfolding putMessages_def clearMessages_def idb_wf_def
  by (auto simp: store.wf_del store.wf_put split: option.splits)

lemmas idb_wf_ops = idb_wf_patch idb_wf_put idb_wf_delete idb_wf_messages

definition empty_idb :: idb where
  "empty_idb = \<lparr>sessions_store = [], messages_store = []\<rparr>"

section \<open>The database as two maps\<close>

text \<open>A call of one of the writing operations.\<close>

datatype db_op =
    PutSession jsobj
  | PatchSession jsstr jsobj bool
  | TouchSession jsstr
  | DeleteSession jsstr
  | PutMessages jsstr jsval
  | ClearMessages jsstr

fun run_op :: "idb_env \<times> db_op \<Rightarrow> idb \<Rightarrow> idb" where
  "run_op (e, PutSession session) d = snd (putSession e d session)"
| "run_op (e, PatchSession i patch touch) d = snd (patchSession e d i patch touch)"
| "run_op (e, TouchSession i) d = snd (touchSession e d i)"
| "run_op (e, DeleteSession i) d = snd (deleteSession e d i)"
| "run_op (e, PutMessages i ms) d = snd (putMessages e d i ms)"
| "run_op (e, ClearMessages i) d = clearMessages e d i"

text \<open>What the operations promise, on a map from session ids to the properties of the session
  and a map from session ids to the messages.\<close>

type_synonym db_maps = "(jsstr \<rightharpoonup> (jsstr \<Rightarrow> jsval)) \<times> (jsstr \<rightharpoonup> jsval)"

fun overlay :: "jsobj \<Rightarrow> (jsstr \<Rightarrow> jsval) \<Rightarrow> jsstr \<Rightarrow> jsval" where
  "overlay patch f p = (if obj_has patch p then obj_get patch p else f p)"

definition patch_map :: "idb_env \<Rightarrow> jsstr \<Rightarrow> jsobj \<Rightarrow> bool \<Rightarrow> db_maps \<Rightarrow> db_maps" where
  "patch_map e i patch touch m =
     ((fst m)(i := map_option (\<lambda>f p. if touch \<and> p = K_updated_at then date_now e
        else if p = K_id then Str i else overlay patch f p) (fst m i)), snd m)"

fun spec_op :: "idb_env \<times> db_op \<Rightarrow> db_maps \<Rightarrow> db_maps" where
  "spec_op (e, PutSession session) m =
     (case obj_get session K_id of
        Str k \<Rightarrow> if k = [] then m
          else ((fst m)(k \<mapsto> overlay session (\<lambda>p. if p = K_created_at \<or> p = K_updated_at then date_now e
                  else Undefined)), snd m)
      | _ \<Rightarrow> m)"
| "spec_op (e, PatchSession i patch touch) m = (if i = [] then m else patch_map e i patch touch m)"
| "spec_op (e, TouchSession i) m = (if i = [] then m else patch_map e i [] True m)"
| "spec_op (e, DeleteSession i) m = (if i = [] then m else ((fst m)(i := None), (snd m)(i := None)))"
| "spec_op (e, PutMessages i ms) m =
     (if i = [] then m else (fst m, (snd m)(i \<mapsto> (if truthy ms then ms else Arr []))))"
| "spec_op (e, ClearMessages i) m = (if i = [] then m else (fst m, (snd m)(i := None)))"

text \<open>A call whose transaction fails promises nothing and changes nothing.\<close>

definition spec_call :: "idb_env \<times> db_op \<Rightarrow> db_maps \<Rightarrow> db_maps" where
  "spec_call c m = (if e_fault (fst c) = None then spec_op c m else m)"

text \<open>The abstraction, and the argument objects of the operations: JavaScript objects, which have each
  property once.\<close>

definition maps_of :: "idb \<Rightarrow> db_maps" where
  "maps_of d = (\<lambda>i. map_option obj_get (store_get (sessions_store d) i),
     \<lambda>i. map_option (\<lambda>r. obj_get r (lit ''messages'')) (store_get (messages_store d) i))"

fun op_object :: "db_op \<Rightarrow> jsobj" where
  "op_object (PutSession session) = session"
| "op_object (PatchSession i patch touch) = patch"
| "op_object _ = []"

abbreviation op_ok :: "db_op \<Rightarrow> bool" where "op_ok op \<equiv> distinct (map fst (op_object op))"

lemma run_op_wf: "idb_wf d \<Longrightarrow> idb_wf (run_op c d)"
  by (cases "(c, d)" rule: run_op.cases) (auto simp: touchSession_def intro: idb_wf_ops)

lemma obj_get_patched:
  assumes "distinct (map fst patch)"
  shows "obj_get (patched e i patch touch r) p =
    (if touch \<and> p = K_updated_at then date_now e else if p = K_id then Str i else overlay patch (obj_get r) p)"
  using assms by (simp add: patched_def obj_get_put obj_get_merge)

lemma maps_patch:
  assumes "idb_wf d" "e_fault e = None" "i \<noteq> []" "distinct (map fst patch)"
  shows "maps_of (snd (patchSession e d i patch touch)) = patch_map e i patch touch (maps_of d)"
  using assms store.get_put [of "sessions_store d"]
  by (auto simp: maps_of_def patch_map_def patchSession_def idb_wf_def Let_def obj_get_patched fun_eq_iff
      split: option.splits)

lemma maps_put:
  assumes "idb_wf d" "e_fault e = None" "distinct (map fst session)"
  shows "maps_of (snd (putSession e d session)) = spec_op (e, PutSession session) (maps_of d)"
proof -
  let ?r = "obj_merge [(K_created_at, date_now e), (K_updated_at, date_now e)] session"
  have g: "obj_get ?r p = overlay session (\<lambda>p. if p = K_created_at \<or> p = K_updated_at then date_now e else Undefined) p"
    for p using assms(3) by (simp add: obj_get_merge)
  have i: "obj_get ?r K_id = obj_get session K_id"
    unfolding g by (auto simp: obj_has_iff obj_get_def)
  show ?thesis
  proof (cases "obj_get session K_id")
    case (Str k)
    then have "put_row K_id s ?r = Some (store_put s k ?r)" for s
      using i by (simp add: put_row_Str)
    then show ?thesis
      using Str assms store.get_put [of "sessions_store d"] g
      by (auto simp: putSession_def maps_of_def idb_wf_def Let_def fun_eq_iff)
  qed (use i assms(2) in \<open>simp_all add: putSession_def put_row_def Let_def\<close>)
qed

text \<open>Each operation refines its abstract one.\<close>

lemma maps_run_op:
  assumes "idb_wf d" "op_ok (snd c)"
  shows "maps_of (run_op c d) = spec_call c (maps_of d)"
proof (cases "e_fault (fst c)")
  case (Some x)
  then show ?thesis
    by (cases "(c, d)" rule: run_op.cases)
      (auto simp: spec_call_def putSession_def patchSession_def touchSession_def deleteSession_def putMessages_def
        clearMessages_def Let_def)
next
  case None
  note laws = store.get_put [of "messages_store d"] store.get_del [of "messages_store d"] store.get_del [of "sessions_store d"]
  show ?thesis
  proof (cases "(c, d)" rule: run_op.cases)
    case (1 e session d)
    then show ?thesis using maps_put [of d e session] None assms by (simp add: spec_call_def)
  next
    case (2 e i patch touch d)
    then show ?thesis using maps_patch [of d e i patch touch] None assms
      by (cases "i = []") (simp_all add: spec_call_def patchSession_def)
  next
    case (3 e i d)
    then show ?thesis using maps_patch [of d e i "[]" True] None assms
      by (cases "i = []") (simp_all add: spec_call_def touchSession_def patchSession_def)
  qed (use None assms laws in \<open>auto simp: spec_call_def maps_of_def deleteSession_def putMessages_def
      clearMessages_def idb_wf_def js_or_def fun_eq_iff\<close>)
qed

section \<open>The list of sessions\<close>

lemma store_key_unique: "store_wf s \<Longrightarrow> (k, v) \<in> set s \<Longrightarrow> store_get s k = Some v"
  by (induction s) (force simp: store_get_def store_wf_Cons)+

lemma store_put_existing:
  "store_wf s \<Longrightarrow> store_get s k = Some v \<Longrightarrow>
   store_put s k v' = map (\<lambda>p. if fst p = k then (k, v') else p) s"
proof (induction s)
  case (Cons p s)
  obtain k' u where p: "p = (k', u)" by (cases p)
  show ?case
  proof (cases "k = k'")
    case True
    then have "\<forall>q \<in> set s. fst q \<noteq> k" using Cons.prems(1) p by (auto simp: store_wf_Cons)
    then have "map (\<lambda>p. if fst p = k then (k, v') else p) s = s" by (simp add: map_idI)
    then show ?thesis using True p by simp
  next
    case False
    then have s: "store_get s k = Some v" using Cons.prems(2) p by (simp add: store_get_def)
    then have "k \<in> fst ` set s" by (force simp: store_get_def dest: map_of_SomeD)
    then have "k' < k" using Cons.prems(1) p by (auto simp: store_wf_Cons)
    then show ?thesis using Cons.IH s Cons.prems(1) p by (auto simp: store_wf_Cons)
  qed
qed (simp add: store_get_def)

lemma idb_rows:
  assumes "idb_wf d" "r \<in> set (store_getAll (sessions_store d))"
  obtains k where "obj_get r K_id = Str k" "store_get (sessions_store d) k = Some r"
proof -
  obtain k where "(k, r) \<in> set (sessions_store d)" using assms(2) by (auto simp: store_getAll_def)
  then show ?thesis
    using that assms(1) store_key_unique by (fastforce simp: idb_wf_def list_all_iff row_ok_def)
qed

lemma getAll_put_existing:
  assumes "idb_wf d" "store_get (sessions_store d) i = Some current"
  shows "store_getAll (store_put (sessions_store d) i m) =
    map (\<lambda>r. if obj_get r K_id = Str i then m else r) (store_getAll (sessions_store d))"
proof -
  have "\<forall>p \<in> set (sessions_store d). obj_get (snd p) K_id = Str (fst p)"
    using assms(1) by (auto simp: idb_wf_def list_all_iff row_ok_def)
  then show ?thesis
    using store_put_existing [of "sessions_store d" i current m] assms
    by (simp add: store_getAll_def idb_wf_def)
qed

lemma updated_num_patched:
  "\<not> touch \<Longrightarrow> \<not> obj_has patch K_updated_at \<Longrightarrow> updated_num (patched e i patch touch r) = updated_num r"
  by (simp add: updated_num_def patched_def obj_get_put obj_get_merge_fresh)

lemma more_recent_iff:
  "updated_num a = Fin p \<Longrightarrow> updated_num b = Fin q \<Longrightarrow> more_recent a b \<longleftrightarrow> q < p"
  by (simp add: more_recent_def)

definition updated_rat :: "jsobj \<Rightarrow> rat" where
  "updated_rat r = (case updated_num r of Fin q \<Rightarrow> q | _ \<Rightarrow> 0)"

lemma timestamped_rows:
  assumes "timestamped d" "a \<in> set (store_getAll (sessions_store d))"
  shows "updated_num a = Fin (updated_rat a)"
  using assms by (auto simp: timestamped_def list_all_iff store_getAll_def updated_rat_def)

section \<open>Properties\<close>

text \<open>C11: after any sequence of calls, committed or failed, the database holds what two maps hold that are
  updated with the same calls: a patched session keeps every property the patch does not name, a deleted
  session takes its messages with it, a failed call changes nothing; \<open>getSession\<close> and \<open>getMessages\<close>, when they
  do not fail themselves, answer from these maps. (The objects given have each property once, as every object has.)\<close>

theorem database_refines_maps:
  assumes "\<forall>c \<in> set calls. op_ok (snd c)" "fold spec_call calls (Map.empty, Map.empty) = m"
    "fold run_op calls empty_idb = d" "e_fault e = None" "i \<noteq> []"
  shows "maps_of d = m \<and> idb_wf d \<and>
    (case fst m i of None \<Rightarrow> getSession e d i = Undefined
     | Some f \<Rightarrow> \<exists>r. getSession e d i = Obj r \<and> obj_get r = f) \<and>
    getMessages e d i = (case snd m i of None \<Rightarrow> Null | Some ms \<Rightarrow> ms)"
proof -
  have run: "maps_of (fold run_op cs d) = fold spec_call cs (maps_of d) \<and> idb_wf (fold run_op cs d)"
    if "idb_wf d" "\<forall>c \<in> set cs. op_ok (snd c)" for cs d
    using that by (induction cs arbitrary: d) (simp_all add: maps_run_op run_op_wf)
  have msgs: "list_all (\<lambda>(k, r). truthy (obj_get r (lit ''messages''))) (messages_store (fold run_op cs d))"
    if "list_all (\<lambda>(k, r). truthy (obj_get r (lit ''messages''))) (messages_store d)" for cs d
    using that
  proof (induction cs arbitrary: d)
    case (Cons c cs)
    have "list_all (\<lambda>(k, r). truthy (obj_get r (lit ''messages''))) (messages_store (run_op c d))"
      using Cons.prems
      by (cases "(c, d)" rule: run_op.cases)
        (auto simp: putSession_def patchSession_def touchSession_def deleteSession_def putMessages_def clearMessages_def
          Let_def js_or_def list_all_store_put list_all_store_delete split: option.splits)
    then show ?case using Cons.IH by simp
  qed simp
  have m: "maps_of d = m" and w: "idb_wf d"
    using run [of empty_idb calls] assms(1-3)
    by (auto simp: empty_idb_def maps_of_def idb_wf_def store_wf_def store_get_def)
  have "case fst m i of None \<Rightarrow> getSession e d i = Undefined | Some f \<Rightarrow> \<exists>r. getSession e d i = Obj r \<and> obj_get r = f"
    using assms(4,5) by (auto simp: m [symmetric] maps_of_def getSession_def split: option.splits)
  moreover have "truthy (obj_get r (lit ''messages''))" if "store_get (messages_store d) i = Some r" for r
    using msgs [of empty_idb calls] assms(3) that
    by (fastforce simp: empty_idb_def list_all_iff store_get_def dest: map_of_SomeD)
  then have "getMessages e d i = (case snd m i of None \<Rightarrow> Null | Some ms \<Rightarrow> ms)"
    using assms(4,5) by (auto simp: m [symmetric] maps_of_def getMessages_def js_or_def split: option.splits)
  ultimately show ?thesis using m w by blast
qed

definition sample_session :: jsobj where
  "sample_session = [(K_id, Str (lit ''sess_a'')), (lit ''title'', Str (lit ''one''))]"

definition sample_env :: "nat \<Rightarrow> idb_env" where
  "sample_env n = \<lparr>e_now = n, e_fault = None\<rparr>"

definition sample_idb :: idb where
  "sample_idb = snd (putSession (sample_env 7)
     (snd (putSession (sample_env 5) empty_idb sample_session)) [(K_id, Str (lit ''sess_b''))])"

text \<open>Two sessions; the first gets messages and another title, the second is deleted.\<close>

definition sample_calls :: "(idb_env \<times> db_op) list" where
  "sample_calls =
     [(sample_env 1, PutSession sample_session), (sample_env 2, PutSession [(K_id, Str (lit ''sess_b''))]),
      (sample_env 3, PutMessages (lit ''sess_a'') (Arr [Null])),
      (sample_env 4, PatchSession (lit ''sess_a'') [(lit ''title'', Str (lit ''two''))] False),
      (sample_env 5, DeleteSession (lit ''sess_b''))]"

lemma database_refines_maps_witness:
  "getMessages (sample_env 9) (fold run_op sample_calls empty_idb) (lit ''sess_a'') = Arr [Null] \<and>
   (\<exists>r. getSession (sample_env 9) (fold run_op sample_calls empty_idb) (lit ''sess_a'') = Obj r \<and>
      obj_get r (lit ''title'') = Str (lit ''two'') \<and> obj_get r K_created_at = Num (Fin 1))"
proof -
  define m where "m = fold spec_call sample_calls (Map.empty, Map.empty)"
  define d where "d = fold run_op sample_calls empty_idb"
  have e: "e_fault (sample_env n) = None" "date_now (sample_env n) = Num (Fin (of_nat n))" for n
    by (simp_all add: sample_env_def date_now_def)
  have ops: "\<forall>c \<in> set sample_calls. op_ok (snd c)" by code_simp
  obtain f where f: "fst m (lit ''sess_a'') = Some f" "f (lit ''title'') = Str (lit ''two'')"
      "f K_created_at = Num (Fin 1)" "snd m (lit ''sess_a'') = Some (Arr [Null])"
    by (simp add: m_def sample_calls_def spec_call_def e patch_map_def sample_session_def)
  note t = database_refines_maps [OF ops m_def [symmetric] d_def [symmetric] e(1) [of 9], of "lit ''sess_a''"]
  from t f show ?thesis unfolding d_def [symmetric] by auto
qed

lemma sample_idb_wf: "idb_wf sample_idb" by code_simp

text \<open>Without a failure \<open>listSessions\<close> returns every session exactly once, most recently
  updated first.\<close>

theorem listSessions_spec:
  assumes "e_fault e = None" "timestamped d"
  shows "mset (listSessions e d) = mset (store_getAll (sessions_store d)) \<and>
    sorted_wrt (\<lambda>a b. updated_rat b \<le> updated_rat a) (listSessions e d)"
proof -
  have "sorted_wrt (\<lambda>a b. updated_rat b \<le> updated_rat a) (sort_by more_recent (store_getAll (sessions_store d)))"
    using timestamped_rows [OF assms(2)] more_recent_iff by (intro sort_by_desc) blast
  then show ?thesis using assms(1) by (simp add: listSessions_def)
qed

lemma sample_timestamped: "timestamped sample_idb"
proof -
  have "list_all (\<lambda>(k, r). is_finite (updated_num r)) (sessions_store sample_idb)" by code_simp
  moreover have "is_finite x \<Longrightarrow> \<exists>q. x = Fin q" for x by (cases x) auto
  ultimately show ?thesis by (fastforce simp: timestamped_def list_all_iff)
qed

lemma listSessions_spec_witness:
  "mset (listSessions (sample_env 9) sample_idb) = mset (store_getAll (sessions_store sample_idb)) \<and>
   map (\<lambda>r. obj_get r K_id) (listSessions (sample_env 9) sample_idb) = [Str (lit ''sess_b''), Str (lit ''sess_a'')]"
proof (intro conjI)
  have "e_fault (sample_env 9) = None" by (simp add: sample_env_def)
  from listSessions_spec [OF this sample_timestamped]
  show "mset (listSessions (sample_env 9) sample_idb) = mset (store_getAll (sessions_store sample_idb))" by blast
qed code_simp

text \<open>A change of metadata (renaming, switching model or modality) keeps the order of the
  list: the patched session stays where it is.\<close>

theorem patch_keeps_order:
  assumes "idb_wf d" "\<not> obj_has patch K_updated_at" "e_fault e' = None"
  shows "map (\<lambda>r. obj_get r K_id) (listSessions e' (snd (patchSession e d i patch False))) =
    map (\<lambda>r. obj_get r K_id) (listSessions e' d)"
proof (cases "i \<noteq> [] \<and> e_fault e = None \<and> store_get (sessions_store d) i \<noteq> None")
  case True
  then obtain current where c: "store_get (sessions_store d) i = Some current" by auto
  let ?m = "patched e i patch False current"
  let ?g = "\<lambda>r. if obj_get r K_id = Str i then ?m else r"
  have u: "updated_num (?g r) = updated_num r" if "r \<in> set (store_getAll (sessions_store d))" for r
    using idb_rows [OF assms(1) that] c updated_num_patched [OF _ assms(2)] by fastforce
  have "sort_by more_recent (map ?g (store_getAll (sessions_store d))) =
      map ?g (sort_by more_recent (store_getAll (sessions_store d)))"
    by (rule sort_by_map) (simp add: more_recent_def u)
  moreover have "obj_get (?g r) K_id = obj_get r K_id" for r by (simp add: patched_id)
  ultimately show ?thesis
    using True c assms(3) getAll_put_existing [OF assms(1) c]
    by (simp add: patchSession_def listSessions_def Let_def comp_def)
qed (auto simp: patchSession_def split: option.splits)

lemma patch_keeps_order_witness:
  "map (\<lambda>r. obj_get r K_id) (listSessions (sample_env 9)
      (snd (patchSession (sample_env 8) sample_idb (lit ''sess_a'') [(lit ''title'', Str (lit ''two''))] False))) =
    map (\<lambda>r. obj_get r K_id) (listSessions (sample_env 9) sample_idb)"
  by (rule patch_keeps_order [OF sample_idb_wf]) (simp_all add: sample_env_def)

lemma patched_get:
  assumes "distinct (map fst patch)" "k \<noteq> K_id"
  shows "obj_get (patched e i patch touch r) k =
    (if touch \<and> k = K_updated_at then date_now e else if obj_has patch k then obj_get patch k else obj_get r k)"
  using assms by (simp add: patched_def obj_get_put obj_get_merge)

lemma get_patchSession:
  assumes "idb_wf d" "e_fault e = None" "i \<noteq> []"
  shows "store_get (sessions_store (snd (patchSession e d i patch touch))) j =
    (if j = i then map_option (patched e i patch touch) (store_get (sessions_store d) i)
     else store_get (sessions_store d) j)"
  using assms store.get_put [of "sessions_store d"]
  by (auto simp: patchSession_def idb_wf_def Let_def split: option.splits)

lemma sort_head:
  assumes "sorted_wrt (\<lambda>a b. key b \<le> key a) xs" "t \<in> set xs"
    "\<And>x. x \<in> set xs \<Longrightarrow> x = t \<or> P x \<or> key x < (key t :: 'b :: linorder)"
  shows "hd xs = t \<or> P (hd xs)"
  using assms by (cases xs) (auto simp: not_less [symmetric])

text \<open>Sending a message touches the session, and a touched session is first in the list
  when its clock is later than every other session's.\<close>

theorem touch_moves_to_top:
  assumes "idb_wf d" "timestamped d" "e_fault e = None" "e_fault e' = None" "i \<noteq> []"
    "store_get (sessions_store d) i \<noteq> None"
    "\<forall>(k, r) \<in> set (sessions_store d). k \<noteq> i \<longrightarrow> updated_rat r < of_nat (e_now e)"
  shows "obj_get (hd (listSessions e' (snd (touchSession e d i)))) K_id = Str i"
proof -
  obtain current where c: "store_get (sessions_store d) i = Some current" using assms(6) by auto
  define m where "m = patched e i [] True current"
  define d' where "d' = snd (touchSession e d i)"
  have d': "d' = d\<lparr>sessions_store := store_put (sessions_store d) i m\<rparr>"
    using assms(3,5) c by (simp add: d'_def touchSession_def patchSession_def m_def Let_def)
  have um: "updated_num m = Fin (of_nat (e_now e))"
    by (simp add: m_def patched_def updated_num_def date_now_def js_or_def)
  have rows: "store_getAll (sessions_store d') =
      map (\<lambda>r. if obj_get r K_id = Str i then m else r) (store_getAll (sessions_store d))"
    using getAll_put_existing [OF assms(1) c] d' by simp
  have r: "r = m \<or> (updated_num r = Fin (updated_rat r) \<and> updated_rat r < updated_rat m)"
    if rin: "r \<in> set (store_getAll (sessions_store d'))" for r
  proof -
    obtain q where q: "q \<in> set (store_getAll (sessions_store d))" "r = (if obj_get q K_id = Str i then m else q)"
      using rin unfolding rows by auto
    then obtain k where k: "(k, q) \<in> set (sessions_store d)" "obj_get q K_id = Str k"
      using assms(1) by (auto simp: store_getAll_def idb_wf_def list_all_iff row_ok_def)
    show ?thesis
    proof (cases "k = i")
      case False
      then have "updated_rat q < of_nat (e_now e)" using assms(7) k(1) by auto
      moreover have "updated_rat m = of_nat (e_now e)" using um by (simp add: updated_rat_def)
      moreover have "r = q" using q(2) k(2) False by simp
      ultimately show ?thesis using timestamped_rows [OF assms(2) q(1)] by metis
    qed (use q k in simp)
  qed
  have "current \<in> set (store_getAll (sessions_store d))"
    using c by (force simp: store_get_def store_getAll_def dest: map_of_SomeD)
  moreover have "obj_get current K_id = Str i"
    using c assms(1) by (auto simp: idb_wf_def list_all_iff row_ok_def store_get_def dest!: map_of_SomeD)
  ultimately have "m \<in> set (store_getAll (sessions_store d'))" unfolding rows by force
  moreover have "sorted_wrt (\<lambda>a b. updated_rat b \<le> updated_rat a) (sort_by more_recent (store_getAll (sessions_store d')))"
  proof (rule sort_by_desc)
    have "updated_num m = Fin (updated_rat m)" using um by (simp add: updated_rat_def)
    then show "more_recent a b \<longleftrightarrow> updated_rat b < updated_rat a"
      if "a \<in> set (store_getAll (sessions_store d'))" "b \<in> set (store_getAll (sessions_store d'))" for a b
      using r [OF that(1)] r [OF that(2)] more_recent_iff by metis
  qed
  ultimately have "hd (sort_by more_recent (store_getAll (sessions_store d'))) = m"
    using sort_head [of updated_rat _ m "\<lambda>_. False"] r by fastforce
  then show ?thesis
    using assms(4) by (simp add: listSessions_def d'_def [symmetric] m_def patched_id)
qed

lemma touch_moves_to_top_witness:
  "obj_get (hd (listSessions (sample_env 9) (snd (touchSession (sample_env 8) sample_idb (lit ''sess_a''))))) K_id =
    Str (lit ''sess_a'')"
proof (rule touch_moves_to_top [OF sample_idb_wf sample_timestamped])
  show "\<forall>(k, r) \<in> set (sessions_store sample_idb). k \<noteq> lit ''sess_a'' \<longrightarrow> updated_rat r < of_nat (e_now (sample_env 8))"
    by code_simp
  show "store_get (sessions_store sample_idb) (lit ''sess_a'') \<noteq> None" by code_simp
qed (simp_all add: sample_env_def)

text \<open>C15: a rename and a touch of the same session do not overwrite each other, in whichever
  order their transactions commit: the row ends with the new title, the new time stamp and
  every other property as it was.\<close>

theorem rename_touch_no_lost_update:
  assumes "idb_wf d" "e_fault e = None" "e_fault f = None" "i \<noteq> []"
    "store_get (sessions_store d) i = Some current"
    "d' = snd (touchSession f (snd (patchSession e d i [(lit ''title'', v)] False)) i) \<or>
     d' = snd (patchSession e (snd (touchSession f d i)) i [(lit ''title'', v)] False)"
  shows "\<exists>r. store_get (sessions_store d') i = Some r \<and> obj_get r (lit ''title'') = v \<and>
    obj_get r K_updated_at = date_now f \<and>
    (\<forall>k. k \<noteq> lit ''title'' \<and> k \<noteq> K_updated_at \<and> k \<noteq> K_id \<longrightarrow> obj_get r k = obj_get current k)"
proof -
  have w: "idb_wf (snd (patchSession e d i [(lit ''title'', v)] False))" "idb_wf (snd (touchSession f d i))"
    using assms(1) idb_wf_patch by (auto simp: touchSession_def)
  show ?thesis using assms(6)
  proof
    assume "d' = snd (touchSession f (snd (patchSession e d i [(lit ''title'', v)] False)) i)"
    then have "store_get (sessions_store d') i =
        Some (patched f i [] True (patched e i [(lit ''title'', v)] False current))"
      using get_patchSession [OF w(1) assms(3,4)] get_patchSession [OF assms(1,2,4)] assms(5)
      by (simp add: touchSession_def)
    then show ?thesis by (simp add: patched_get)
  next
    assume "d' = snd (patchSession e (snd (touchSession f d i)) i [(lit ''title'', v)] False)"
    then have "store_get (sessions_store d') i =
        Some (patched e i [(lit ''title'', v)] False (patched f i [] True current))"
      using get_patchSession [OF w(2) assms(2,4)] get_patchSession [OF assms(1,3,4)] assms(5)
      by (simp add: touchSession_def)
    then show ?thesis by (simp add: patched_get)
  qed
qed

lemma rename_touch_no_lost_update_witness:
  "\<exists>r. store_get (sessions_store (snd (patchSession (sample_env 8) (snd (touchSession (sample_env 9) sample_idb
       (lit ''sess_a''))) (lit ''sess_a'') [(lit ''title'', Str (lit ''two''))] False))) (lit ''sess_a'') = Some r \<and>
     obj_get r (lit ''title'') = Str (lit ''two'') \<and> obj_get r K_updated_at = Num (Fin 9)"
proof -
  obtain current where c: "store_get (sessions_store sample_idb) (lit ''sess_a'') = Some current"
    by (cases "store_get (sessions_store sample_idb) (lit ''sess_a'')") (code_simp, simp)
  have "e_fault (sample_env n) = None" "date_now (sample_env n) = Num (Fin (of_nat n))" for n
    by (simp_all add: sample_env_def date_now_def)
  then show ?thesis
    using rename_touch_no_lost_update [OF sample_idb_wf _ _ _ c, of "sample_env 8" "sample_env 9"]
    by (metis lit_eq_Nil_iff list.distinct(1) of_nat_numeral)
qed

text \<open>Deleting a session removes its row and its messages and nothing else.\<close>

theorem deleteSession_spec:
  assumes "idb_wf d" "e_fault e = None" "i \<noteq> []"
  shows "store_get (sessions_store (snd (deleteSession e d i))) j = (if j = i then None else store_get (sessions_store d) j) \<and>
    store_get (messages_store (snd (deleteSession e d i))) j = (if j = i then None else store_get (messages_store d) j) \<and>
    getMessages e' (snd (deleteSession e d i)) i = Null"
  using assms store.get_del [of "sessions_store d"] store.get_del [of "messages_store d"]
  by (simp add: deleteSession_def idb_wf_def getMessages_def split: option.splits)

lemma deleteSession_spec_witness:
  "store_get (sessions_store (snd (deleteSession (sample_env 9) sample_idb (lit ''sess_b'')))) (lit ''sess_b'') = None \<and>
   getMessages (sample_env 9) (snd (deleteSession (sample_env 9) sample_idb (lit ''sess_b''))) (lit ''sess_b'') = Null"
proof -
  have "e_fault (sample_env 9) = None" by (simp add: sample_env_def)
  then show ?thesis using deleteSession_spec [OF sample_idb_wf, of "sample_env 9" "lit ''sess_b''"] by simp
qed

end
