(* ===== verification/Playground_Config.thy ===== *)
theory Playground_Config
  imports Playground_Db
begin

text \<open>
  Playground settings and messages, \<open>web/src/components/playground/configStorage.js\<close> with the
  defaults of \<open>web/src/constants/playground.constants.js\<close>. Settings live in \<open>localStorage\<close>, a
  map from strings to strings that may refuse access; messages live in IndexedDB. The state of
  the page's storage is the record \<open>storage\<close>; the environment of an operation adds to that of
  a transaction whether \<open>localStorage\<close> is accessible and the ISO text of the clock.
\<close>

record storage =
  idb :: idb
  local :: "jsstr \<rightharpoonup> jsstr"

record page_env = idb_env +
  e_local_ok :: bool
  e_iso :: jsstr

section \<open>Constants\<close>

definition ACTIVE_SESSION_KEY :: jsstr where "ACTIVE_SESSION_KEY = lit ''playground_active_session_id''"
definition STORAGE_KEYS_CONFIG :: jsstr where "STORAGE_KEYS_CONFIG = lit ''playground_config''"
definition STORAGE_KEYS_MESSAGES :: jsstr where "STORAGE_KEYS_MESSAGES = lit ''playground_messages''"

lemmas storage_key_defs = ACTIVE_SESSION_KEY_def STORAGE_KEYS_CONFIG_def STORAGE_KEYS_MESSAGES_def

definition default_inputs :: jsobj where
  "default_inputs =
     [(lit ''model'', Str (lit ''gpt-4o'')), (lit ''group'', Str []),
      (lit ''temperature'', Num (rnd (7 / 10))), (lit ''top_p'', Num (Fin 1)),
      (lit ''max_tokens'', Num (Fin 4096)), (lit ''frequency_penalty'', Num (Fin 0)),
      (lit ''presence_penalty'', Num (Fin 0)), (lit ''seed'', Null), (lit ''stream'', Bool True),
      (lit ''imageEnabled'', Bool False), (lit ''imageUrls'', Arr [Str []])]"

definition default_parameterEnabled :: jsobj where
  "default_parameterEnabled =
     [(lit ''temperature'', Bool True), (lit ''top_p'', Bool True), (lit ''max_tokens'', Bool False),
      (lit ''frequency_penalty'', Bool True), (lit ''presence_penalty'', Bool True),
      (lit ''seed'', Bool False)]"

definition DEFAULT_CONFIG :: jsobj where
  "DEFAULT_CONFIG =
     [(lit ''inputs'', Obj default_inputs), (lit ''parameterEnabled'', Obj default_parameterEnabled),
      (lit ''systemPrompt'', Str []), (lit ''showDebugPanel'', Bool False),
      (lit ''customRequestMode'', Bool False), (lit ''customRequestBody'', Str [])]"

section \<open>Local storage\<close>

definition getItem :: "page_env \<Rightarrow> storage \<Rightarrow> jsstr \<Rightarrow> jsstr option res" where
  "getItem e st k = (if e_local_ok e then Inr (local st k) else Inl (JsError (lit ''SecurityError'')))"

definition setItem :: "page_env \<Rightarrow> storage \<Rightarrow> jsstr \<Rightarrow> jsstr \<Rightarrow> storage" where
  "setItem e st k v = (if e_local_ok e then st\<lparr>local := (local st)(k \<mapsto> v)\<rparr> else st)"

definition removeItem :: "page_env \<Rightarrow> storage \<Rightarrow> jsstr \<Rightarrow> storage" where
  "removeItem e st k = (if e_local_ok e then st\<lparr>local := (local st)(k := None)\<rparr> else st)"

text \<open>\<open>getItem(k) || null\<close>: the empty string is no value.\<close>

definition stored_text :: "page_env \<Rightarrow> storage \<Rightarrow> jsstr \<Rightarrow> jsstr option" where
  "stored_text e st k = (case getItem e st k of Inr (Some v) \<Rightarrow> if v = [] then None else Some v | _ \<Rightarrow> None)"

definition getActiveSessionId :: "page_env \<Rightarrow> storage \<Rightarrow> jsstr option" where
  "getActiveSessionId e st = stored_text e st ACTIVE_SESSION_KEY"

definition setActiveSessionId :: "page_env \<Rightarrow> storage \<Rightarrow> jsstr \<Rightarrow> storage" where
  "setActiveSessionId e st i =
     (if i \<noteq> [] then setItem e st ACTIVE_SESSION_KEY i else removeItem e st ACTIVE_SESSION_KEY)"

text \<open>\<open>sessionId || getActiveSessionId()\<close>\<close>

definition session_or_active :: "page_env \<Rightarrow> storage \<Rightarrow> jsstr \<Rightarrow> jsstr" where
  "session_or_active e st sessionId =
     (if sessionId \<noteq> [] then sessionId
      else case getActiveSessionId e st of None \<Rightarrow> [] | Some i \<Rightarrow> i)"

section \<open>Operations\<close>

definition saveConfig :: "page_env \<Rightarrow> storage \<Rightarrow> jsobj \<Rightarrow> storage" where
  "saveConfig e st config =
     (case json_text (Obj (obj_put config (lit ''timestamp'') (Str (e_iso e)))) of
        None \<Rightarrow> st | Some t \<Rightarrow> setItem e st STORAGE_KEYS_CONFIG t)"

text \<open>The transaction of a page operation sees the clock and the fault of its environment.\<close>

abbreviation db_env :: "page_env \<Rightarrow> idb_env" where
  "db_env e \<equiv> idb_env.truncate e"

definition saveMessages :: "page_env \<Rightarrow> storage \<Rightarrow> jsval \<Rightarrow> jsstr \<Rightarrow> storage" where
  "saveMessages e st messages sessionId =
     (let sid = session_or_active e st sessionId in
      if sid = [] then st
      else st\<lparr>idb := snd (putMessages (db_env e) (idb st) sid (js_or messages (Arr [])))\<rparr>)"

definition merged_config :: "jsval \<Rightarrow> jsobj res" where
  "merged_config parsedConfig =
     (let parsedMaxTokens =
            parse_int10 (to_str (opt_prop (opt_prop parsedConfig (lit ''inputs'')) (lit ''max_tokens'')))
      in case get_prop parsedConfig (lit ''inputs'') of
           Inl x \<Rightarrow> Inl x
         | Inr inputs \<Rightarrow> Inr
             [(lit ''inputs'', Obj (obj_put (obj_merge default_inputs (own_entries inputs)) (lit ''max_tokens'')
                  (if parsedMaxTokens = NaN then opt_prop inputs (lit ''max_tokens'') else Num parsedMaxTokens))),
              (lit ''parameterEnabled'', Obj (obj_merge default_parameterEnabled
                  (own_entries (opt_prop parsedConfig (lit ''parameterEnabled''))))),
              (lit ''showDebugPanel'', js_or (opt_prop parsedConfig (lit ''showDebugPanel'')) (Bool False)),
              (lit ''customRequestMode'', js_or (opt_prop parsedConfig (lit ''customRequestMode'')) (Bool False)),
              (lit ''customRequestBody'', js_or (opt_prop parsedConfig (lit ''customRequestBody'')) (Str []))])"

definition loadConfig :: "page_env \<Rightarrow> storage \<Rightarrow> jsobj" where
  "loadConfig e st =
     (case stored_text e st STORAGE_KEYS_CONFIG of None \<Rightarrow> DEFAULT_CONFIG
      | Some savedConfig \<Rightarrow>
          (case json_parse savedConfig of Inl _ \<Rightarrow> DEFAULT_CONFIG
           | Inr parsedConfig \<Rightarrow>
               (case merged_config parsedConfig of Inl _ \<Rightarrow> DEFAULT_CONFIG | Inr c \<Rightarrow> c)))"

definition loadMessages :: "page_env \<Rightarrow> storage \<Rightarrow> jsstr \<Rightarrow> jsval" where
  "loadMessages e st sessionId =
     (let sid = session_or_active e st sessionId in
      if sid = [] then Null else getMessages (db_env e) (idb st) sid)"

text \<open>The one-time migration of the old message key. A failed \<open>JSON.parse\<close> or write leaves the
  old key in place.\<close>

definition migrateLegacyMessagesIfAny :: "page_env \<Rightarrow> storage \<Rightarrow> jsstr \<Rightarrow> jsstr option \<times> storage" where
  "migrateLegacyMessagesIfAny e st newSessionId =
     (case stored_text e st STORAGE_KEYS_MESSAGES of None \<Rightarrow> (None, st)
      | Some raw \<Rightarrow>
          (case json_parse raw of Inl _ \<Rightarrow> (None, st)
           | Inr parsed \<Rightarrow>
               (let msgs = opt_prop parsed (lit ''messages'') in
                case (if is_arr msgs \<and> msgs \<noteq> Arr [] \<and> newSessionId \<noteq> []
                      then putMessages (db_env e) (idb st) newSessionId msgs else (Inr (), idb st)) of
                  (Inl _, _) \<Rightarrow> (None, st)
                | (Inr _, d) \<Rightarrow> (Some newSessionId, removeItem e (st\<lparr>idb := d\<rparr>) STORAGE_KEYS_MESSAGES))))"

definition clearConfig :: "page_env \<Rightarrow> storage \<Rightarrow> storage" where
  "clearConfig e st = removeItem e (removeItem e st STORAGE_KEYS_CONFIG) STORAGE_KEYS_MESSAGES"

definition clearSessionMessages :: "page_env \<Rightarrow> storage \<Rightarrow> jsstr \<Rightarrow> storage" where
  "clearSessionMessages e st sessionId =
     (let sid = session_or_active e st sessionId in
      if sid = [] then st else st\<lparr>idb := clearMessages (db_env e) (idb st) sid\<rparr>)"

definition hasStoredConfig :: "page_env \<Rightarrow> storage \<Rightarrow> bool" where
  "hasStoredConfig e st = (case getItem e st STORAGE_KEYS_CONFIG of Inr (Some _) \<Rightarrow> True | _ \<Rightarrow> False)"

definition getConfigTimestamp :: "page_env \<Rightarrow> storage \<Rightarrow> jsval" where
  "getConfigTimestamp e st =
     (case stored_text e st STORAGE_KEYS_CONFIG of None \<Rightarrow> Null
      | Some savedConfig \<Rightarrow>
          (case json_parse savedConfig of Inl _ \<Rightarrow> Null
           | Inr parsedConfig \<Rightarrow>
               (case get_prop parsedConfig (lit ''timestamp'') of Inl _ \<Rightarrow> Null | Inr v \<Rightarrow> js_or v Null)))"

text \<open>The object \<open>exportConfig\<close> writes into the downloaded file.\<close>

definition configToExport :: "page_env \<Rightarrow> jsobj \<Rightarrow> jsval \<Rightarrow> jsobj" where
  "configToExport e config messages =
     obj_merge config [(lit ''messages'', js_or messages (Arr [])), (lit ''exportTime'', Str (e_iso e)),
       (lit ''version'', Str (lit ''1.0''))]"

text \<open>\<open>importConfig\<close> on the text of the file: an accepted configuration that carries a message
  array replaces the messages of the active session. The parse error's own message, appended
  to the text of the error, is the engine's and left out.\<close>

definition importConfig :: "page_env \<Rightarrow> storage \<Rightarrow> jsstr \<Rightarrow> jsval res \<times> storage" where
  "importConfig e st txt =
     (case json_parse txt of
        Inl _ \<Rightarrow> (Inl (JsError [35299, 26512, 37197, 32622, 25991, 20214, 22833, 36133, 58, 32]), st)
      | Inr importedConfig \<Rightarrow>
          (if nullish importedConfig
           then (Inl (JsError [35299, 26512, 37197, 32622, 25991, 20214, 22833, 36133, 58, 32]), st)
           else if truthy (opt_prop importedConfig (lit ''inputs'')) \<and>
              truthy (opt_prop importedConfig (lit ''parameterEnabled''))
           then (Inr importedConfig,
                 if is_arr (opt_prop importedConfig (lit ''messages''))
                 then saveMessages e st (opt_prop importedConfig (lit ''messages'')) [] else st)
           else (Inl (JsError [37197, 32622, 25991, 20214, 26684, 24335, 26080, 25928]), st)))"

section \<open>Laws of the storage\<close>

interpretation local_map: kv_store "\<lambda>_. True" "\<lambda>m k. m k" "\<lambda>m k v. m(k \<mapsto> v)" "\<lambda>m k. m(k := None)"
  by unfold_locales auto

definition page_ok :: "page_env \<Rightarrow> bool" where
  "page_ok e \<longleftrightarrow> e_fault e = None \<and> e_local_ok e"

lemma db_env_simps [simp]: "e_fault (db_env e) = e_fault e" "e_now (db_env e) = e_now e"
  by (simp_all add: idb_env.truncate_def)

lemma stored_text_ok: "e_local_ok e \<Longrightarrow> local st k = Some v \<Longrightarrow> v \<noteq> [] \<Longrightarrow> stored_text e st k = Some v"
  by (simp add: stored_text_def getItem_def)

lemma get_setActive:
  "e_local_ok e \<Longrightarrow> e_local_ok e' \<Longrightarrow> i \<noteq> [] \<Longrightarrow> getActiveSessionId e' (setActiveSessionId e st i) = Some i"
  by (simp add: getActiveSessionId_def setActiveSessionId_def setItem_def stored_text_def getItem_def)

lemma idb_setActive [simp]: "idb (setActiveSessionId e st i) = idb st"
  by (simp add: setActiveSessionId_def setItem_def removeItem_def)

lemma obj_has_merge: "obj_has a k \<Longrightarrow> obj_has (obj_merge a b) k"
  by (auto simp: obj_has_iff map_of_obj_merge split: option.splits)

lemma parse_int10_undefined: "parse_int10 (lit ''undefined'') = NaN"
  by code_simp

lemma merged_config_has:
  "merged_config v = Inr c \<Longrightarrow> \<exists>inputs enabled. obj_get c (lit ''inputs'') = Obj inputs \<and>
     obj_get c (lit ''parameterEnabled'') = Obj enabled \<and>
     (\<forall>k. obj_has default_inputs k \<longrightarrow> obj_has inputs k) \<and>
     (\<forall>k. obj_has default_parameterEnabled k \<longrightarrow> obj_has enabled k)"
  by (auto simp: merged_config_def Let_def obj_has_merge split: sum.splits)

section \<open>Properties\<close>

text \<open>Whatever \<open>localStorage\<close> holds, \<open>loadConfig\<close> answers with an \<open>inputs\<close> and a
  \<open>parameterEnabled\<close> object that have every property of the defaults.\<close>

theorem loadConfig_has_defaults:
  "\<exists>inputs enabled. obj_get (loadConfig e st) (lit ''inputs'') = Obj inputs \<and>
     obj_get (loadConfig e st) (lit ''parameterEnabled'') = Obj enabled \<and>
     (\<forall>k. obj_has default_inputs k \<longrightarrow> obj_has inputs k) \<and>
     (\<forall>k. obj_has default_parameterEnabled k \<longrightarrow> obj_has enabled k)"
proof -
  have d: "obj_get DEFAULT_CONFIG (lit ''inputs'') = Obj default_inputs"
    "obj_get DEFAULT_CONFIG (lit ''parameterEnabled'') = Obj default_parameterEnabled"
    by (simp_all add: DEFAULT_CONFIG_def)
  show ?thesis
  proof (cases "loadConfig e st = DEFAULT_CONFIG")
    case False
    then obtain v c where "loadConfig e st = c" "merged_config v = Inr c"
      by (auto simp: loadConfig_def split: option.splits sum.splits)
    then show ?thesis using merged_config_has by simp
  qed (simp add: d)
qed

lemma loadConfig_has_defaults_witness:
  "\<exists>inputs. obj_get (loadConfig \<lparr>e_now = 1, e_fault = None, e_local_ok = True, e_iso = []\<rparr>
     \<lparr>idb = empty_idb, local = [STORAGE_KEYS_CONFIG \<mapsto> lit ''[1]'']\<rparr>) (lit ''inputs'') = Obj inputs \<and>
     obj_has inputs (lit ''temperature'')"
proof -
  have "obj_has default_inputs (lit ''temperature'')" by (simp add: default_inputs_def)
  then show ?thesis
    using loadConfig_has_defaults [of "\<lparr>e_now = 1, e_fault = None, e_local_ok = True, e_iso = []\<rparr>"
      "\<lparr>idb = empty_idb, local = [STORAGE_KEYS_CONFIG \<mapsto> lit ''[1]'']\<rparr>"] by blast
qed

text \<open>A stored configuration that does not set \<open>max_tokens\<close> loses the default of 4096:
  the property is there, but its value is \<open>undefined\<close>.\<close>

theorem loadConfig_drops_default_max_tokens:
  assumes "e_local_ok e" "local st STORAGE_KEYS_CONFIG = Some saved" "saved \<noteq> []"
    "json_parse saved = Inr config" "\<not> nullish config"
    "opt_prop (opt_prop config (lit ''inputs'')) (lit ''max_tokens'') = Undefined"
  shows "\<exists>inputs. obj_get (loadConfig e st) (lit ''inputs'') = Obj inputs \<and>
    obj_get inputs (lit ''max_tokens'') = Undefined \<and> obj_get default_inputs (lit ''max_tokens'') = Num (Fin 4096)"
  using assms stored_text_ok [OF assms(1-3)] parse_int10_undefined
  by (simp add: loadConfig_def merged_config_def get_prop_def Let_def default_inputs_def)

lemma loadConfig_drops_default_max_tokens_witness:
  "\<exists>inputs. obj_get (loadConfig \<lparr>e_now = 1, e_fault = None, e_local_ok = True, e_iso = []\<rparr>
     \<lparr>idb = empty_idb, local = [STORAGE_KEYS_CONFIG \<mapsto> lit ''{}'']\<rparr>) (lit ''inputs'') = Obj inputs \<and>
     obj_get inputs (lit ''max_tokens'') = Undefined"
proof -
  have p: "json_parse (lit ''{}'') = Inr (Obj [])" by code_simp
  show ?thesis
    using loadConfig_drops_default_max_tokens [OF _ _ _ p, of
      "\<lparr>e_now = 1, e_fault = None, e_local_ok = True, e_iso = []\<rparr>"
      "\<lparr>idb = empty_idb, local = [STORAGE_KEYS_CONFIG \<mapsto> lit ''{}'']\<rparr>"] by auto
qed

text \<open>The migration of the legacy messages either stores them under the new session and
  removes the old key, or, when the write fails, leaves the old key untouched: no message is
  lost.\<close>

theorem migration_loses_nothing:
  assumes "idb_wf (idb st)" "e_local_ok e" "local st STORAGE_KEYS_MESSAGES = Some raw" "raw \<noteq> []"
    "json_parse raw = Inr parsed" "opt_prop parsed (lit ''messages'') = Arr (m # ms)" "i \<noteq> []"
    "migrateLegacyMessagesIfAny e st i = (r, st')" "page_ok e'"
  shows "if e_fault e = None then r = Some i \<and> local st' STORAGE_KEYS_MESSAGES = None \<and>
      loadMessages e' st' i = Arr (m # ms) else r = None \<and> st' = st"
proof (cases "e_fault e")
  case None
  have "store_get (messages_store (snd (putMessages (db_env e) (idb st) i (Arr (m # ms))))) i =
      Some [(lit ''session_id'', Str i), (lit ''messages'', Arr (m # ms)), (K_updated_at, date_now (db_env e))]"
    using assms(1,7) None store.get_put [of "messages_store (idb st)"]
    by (simp add: putMessages_def idb_wf_def js_or_def)
  then show ?thesis
    using assms None stored_text_ok [OF assms(2-4)]
    by (auto simp: migrateLegacyMessagesIfAny_def Let_def putMessages_def removeItem_def loadMessages_def
        session_or_active_def getMessages_def page_ok_def js_or_def)
next
  case (Some x)
  then show ?thesis
    using assms stored_text_ok [OF assms(2-4)]
    by (auto simp: migrateLegacyMessagesIfAny_def Let_def putMessages_def)
qed

lemma migration_loses_nothing_witness:
  "\<exists>r st'. migrateLegacyMessagesIfAny \<lparr>e_now = 1, e_fault = None, e_local_ok = True, e_iso = []\<rparr>
     \<lparr>idb = empty_idb, local = [STORAGE_KEYS_MESSAGES \<mapsto> [123, 34] @ lit ''messages'' @ [34, 58, 91, 49, 93, 125]]\<rparr>
     (lit ''sess_a'') = (r, st') \<and> r = Some (lit ''sess_a'') \<and>
     loadMessages \<lparr>e_now = 2, e_fault = None, e_local_ok = True, e_iso = []\<rparr> st' (lit ''sess_a'') = Arr [Num (Fin 1)]"
proof -
  let ?e = "\<lparr>e_now = 1, e_fault = None, e_local_ok = True, e_iso = []\<rparr>"
  let ?raw = "[123, 34] @ lit ''messages'' @ [34, 58, 91, 49, 93, 125]"
  let ?st = "\<lparr>idb = empty_idb, local = [STORAGE_KEYS_MESSAGES \<mapsto> ?raw]\<rparr>"
  obtain r st' where m: "migrateLegacyMessagesIfAny ?e ?st (lit ''sess_a'') = (r, st')" by fastforce
  have p: "json_parse ?raw = Inr (Obj [(lit ''messages'', Arr [Num (Fin 1)])])" by code_simp
  have w: "idb_wf (idb ?st)" by (simp add: empty_idb_def idb_wf_def store_wf_def)
  have "opt_prop (Obj [(lit ''messages'', Arr [Num (Fin 1)])]) (lit ''messages'') = Arr [Num (Fin 1)]" by simp
  note migration_loses_nothing [OF w _ _ _ p this _ m, of "?e\<lparr>e_now := 2\<rparr>"]
  then show ?thesis using m by (simp add: page_ok_def)
qed

text \<open>Messages saved for a session are what is loaded for it, and the messages of the
  other sessions are untouched.\<close>

theorem save_load_messages:
  assumes "idb_wf (idb st)" "page_ok e" "page_ok e'" "i \<noteq> []" "j \<noteq> []"
  shows "loadMessages e' (saveMessages e st (Arr ms) i) j =
    (if j = i then Arr ms else loadMessages e' st j)"
  using assms store.get_put [of "messages_store (idb st)"]
  by (simp add: loadMessages_def saveMessages_def session_or_active_def Let_def page_ok_def putMessages_def
      getMessages_def idb_wf_def js_or_def)

lemma save_load_messages_witness:
  "loadMessages \<lparr>e_now = 2, e_fault = None, e_local_ok = True, e_iso = []\<rparr>
     (saveMessages \<lparr>e_now = 1, e_fault = None, e_local_ok = True, e_iso = []\<rparr>
        \<lparr>idb = sample_idb, local = Map.empty\<rparr> (Arr [Null]) (lit ''sess_a'')) (lit ''sess_a'') = Arr [Null]"
  using save_load_messages [of "\<lparr>idb = sample_idb, local = Map.empty\<rparr>"
      "\<lparr>e_now = 1, e_fault = None, e_local_ok = True, e_iso = []\<rparr>"
      "\<lparr>e_now = 2, e_fault = None, e_local_ok = True, e_iso = []\<rparr>" "lit ''sess_a''" "lit ''sess_a''" "[Null]"]
    sample_idb_wf by (simp add: page_ok_def)

end
