(* ===== verification/Playground_Sessions.thy ===== *)
theory Playground_Sessions
  imports Playground_Config
begin

text \<open>
  The session hook of the playground, \<open>web/src/hooks/playground/useSessions.js\<close>. Its state is
  the page's storage with the React state of the hook. Every asynchronous operation awaits its
  transactions one after the other; each gets its own environment, in the order the code
  awaits them. An operation returns the exception it rejects with, if any. The operations are
  also given split at their awaits, with other operations and the user in between; run
  without interruption, the parts are the whole operation.
\<close>

definition DEFAULT_TITLE :: jsstr where
  "DEFAULT_TITLE = [26410, 21629, 21517, 20250, 35805]"

record hook_state =
  store :: storage
  sessions :: "jsobj list"
  activeId :: "jsstr option"
  initialized :: bool

text \<open>The state before the first effect.\<close>

definition useSessions_initial :: "page_env \<Rightarrow> storage \<Rightarrow> hook_state" where
  "useSessions_initial e st =
     \<lparr>store = st, sessions = [], activeId = getActiveSessionId e st, initialized = False\<rparr>"

definition refresh :: "page_env \<Rightarrow> hook_state \<Rightarrow> hook_state" where
  "refresh e h = h\<lparr>sessions := listSessions (db_env e) (idb (store h))\<rparr>"

definition switchSession :: "page_env \<Rightarrow> hook_state \<Rightarrow> jsstr \<Rightarrow> hook_state" where
  "switchSession e h i =
     (if i = [] then h else h\<lparr>activeId := Some i, store := setActiveSessionId e (store h) i\<rparr>)"

definition session_record :: "jsstr \<Rightarrow> jsval \<Rightarrow> jsval \<Rightarrow> jsval \<Rightarrow> jsval \<Rightarrow> jsval \<Rightarrow> jsobj" where
  "session_record i title modality model grp now =
     [(K_id, Str i), (lit ''title'', title), (lit ''modality'', modality), (lit ''model'', model),
      (lit ''group'', grp), (K_created_at, now), (K_updated_at, now)]"

definition session_id :: "jsobj \<Rightarrow> jsstr" where
  "session_id r = (case obj_get r K_id of Str k \<Rightarrow> k | _ \<Rightarrow> [])"

text \<open>The mount effect: \<open>e1\<close> for listing, \<open>e2\<close> for creating the default session, \<open>e3\<close> for the
  migration and the end; \<open>rand\<close> is the random text of \<open>genSessionId\<close>.\<close>

definition mount :: "page_env \<Rightarrow> page_env \<Rightarrow> page_env \<Rightarrow> jsstr \<Rightarrow> hook_state \<Rightarrow> hook_state" where
  "mount e1 e2 e3 rand h =
     (let lst = listSessions (db_env e1) (idb (store h)) in
      if lst = [] then
        (let i = genSessionId (e_now e2) rand;
             newSession = session_record i (Str DEFAULT_TITLE) (Str (lit ''text'')) (Str []) (Str [])
               (date_now (db_env e2))
         in case putSession (db_env e2) (idb (store h)) newSession of
              (Inl _, d) \<Rightarrow> h
            | (Inr _, d) \<Rightarrow>
                (let st = snd (migrateLegacyMessagesIfAny e3 ((store h)\<lparr>idb := d\<rparr>) i) in
                 h\<lparr>sessions := [newSession], activeId := Some i, store := setActiveSessionId e3 st i,
                   initialized := True\<rparr>))
      else
        (let saved = getActiveSessionId e1 (store h);
             next = (case saved of Some s \<Rightarrow> if list_ex (\<lambda>r. obj_get r K_id = Str s) lst then s
                                             else session_id (hd lst)
                     | None \<Rightarrow> session_id (hd lst))
         in h\<lparr>sessions := lst, activeId := Some next, store := setActiveSessionId e1 (store h) next,
              initialized := True\<rparr>))"

definition new_record :: "page_env \<Rightarrow> jsstr \<Rightarrow> jsobj \<Rightarrow> jsobj" where
  "new_record e rand opts =
     session_record (genSessionId (e_now e) rand) (js_or (obj_get opts (lit ''title'')) (Str DEFAULT_TITLE))
       (js_or (obj_get opts (lit ''modality'')) (Str (lit ''text'')))
       (js_or (obj_get opts (lit ''model'')) (Str [])) (js_or (obj_get opts (lit ''group'')) (Str []))
       (date_now (db_env e))"

definition createSession ::
  "page_env \<Rightarrow> page_env \<Rightarrow> jsstr \<Rightarrow> hook_state \<Rightarrow> jsobj \<Rightarrow> jsobj res \<times> hook_state" where
  "createSession e1 e2 rand h opts =
     (let rec = new_record e1 rand opts in
      case putSession (db_env e1) (idb (store h)) rec of
           (Inl x, d) \<Rightarrow> (Inl x, h)
         | (Inr _, d) \<Rightarrow>
             (Inr rec, switchSession e2 (refresh e2 (h\<lparr>store := (store h)\<lparr>idb := d\<rparr>\<rparr>)) (session_id rec)))"

definition updateSessionMeta ::
  "page_env \<Rightarrow> page_env \<Rightarrow> hook_state \<Rightarrow> jsstr \<Rightarrow> jsobj \<Rightarrow> unit res \<times> hook_state" where
  "updateSessionMeta e1 e2 h i patch =
     (case patchSession (db_env e1) (idb (store h)) i patch False of
        (Inl x, d) \<Rightarrow> (Inl x, h)
      | (Inr _, d) \<Rightarrow> (Inr (), refresh e2 (h\<lparr>store := (store h)\<lparr>idb := d\<rparr>\<rparr>)))"

definition renameSession ::
  "page_env \<Rightarrow> page_env \<Rightarrow> hook_state \<Rightarrow> jsstr \<Rightarrow> jsval \<Rightarrow> unit res \<times> hook_state" where
  "renameSession e1 e2 h i title = updateSessionMeta e1 e2 h i [(lit ''title'', title)]"

definition touchSessionHook :: "page_env \<Rightarrow> page_env \<Rightarrow> hook_state \<Rightarrow> jsstr \<Rightarrow> unit res \<times> hook_state" where
  "touchSessionHook e1 e2 h i =
     (if i = [] then (Inr (), h)
      else case touchSession (db_env e1) (idb (store h)) i of
        (Inl x, d) \<Rightarrow> (Inl x, h)
      | (Inr _, d) \<Rightarrow> (Inr (), refresh e2 (h\<lparr>store := (store h)\<lparr>idb := d\<rparr>\<rparr>)))"

text \<open>\<open>e1\<close> for the deletion, \<open>e2\<close> for listing, \<open>e3\<close> and \<open>e4\<close> for the session created when the
  last one was deleted.\<close>

definition deleteSessionHook ::
  "page_env \<Rightarrow> page_env \<Rightarrow> page_env \<Rightarrow> page_env \<Rightarrow> jsstr \<Rightarrow> hook_state \<Rightarrow> jsstr \<Rightarrow> unit res \<times> hook_state" where
  "deleteSessionHook e1 e2 e3 e4 rand h i =
     (case deleteSession (db_env e1) (idb (store h)) i of
        (Inl x, d) \<Rightarrow> (Inl x, h)
      | (Inr _, d) \<Rightarrow>
          (let lst = listSessions (db_env e2) d;
               h' = h\<lparr>store := (store h)\<lparr>idb := d\<rparr>, sessions := lst\<rparr>
           in if Some i = activeId h then
                (if lst \<noteq> [] then (Inr (), switchSession e2 h' (session_id (hd lst)))
                 else (case createSession e3 e4 rand h' [] of
                         (Inl x, h'') \<Rightarrow> (Inl x, h'') | (Inr _, h'') \<Rightarrow> (Inr (), h'')))
              else (Inr (), h')))"

section \<open>Operations between their awaits\<close>

text \<open>The operations are asynchronous: the user can act, and other operations can go on, while one awaits
  a transaction. A job is what is left of a started operation: its next transaction and, in the same task
  as the report that it completed, the code up to the next \<open>await\<close>. The flag of the jobs of
  \<open>createSession\<close> says that \<open>deleteSession\<close> called it; the jobs of \<open>deleteSession\<close> have the active session
  of the render that started it.\<close>

datatype job =
    CreatePut jsobj bool
  | CreateRefresh jsstr bool
  | PatchPut jsstr jsobj bool
  | RefreshList
  | DeleteTx jsstr "jsstr option"
  | DeleteList jsstr "jsstr option"

fun run_job :: "page_env \<Rightarrow> jsstr \<Rightarrow> job \<Rightarrow> hook_state \<Rightarrow> hook_state \<times> job list" where
  "run_job e rand (CreatePut rec nested) h =
     (case putSession (db_env e) (idb (store h)) rec of
        (Inl x, d) \<Rightarrow> (h, [])
      | (Inr _, d) \<Rightarrow> (h\<lparr>store := (store h)\<lparr>idb := d\<rparr>\<rparr>, [CreateRefresh (session_id rec) nested]))"
| "run_job e rand (CreateRefresh i nested) h = (switchSession e (refresh e h) i, [])"
| "run_job e rand (PatchPut i patch touch) h =
     (case patchSession (db_env e) (idb (store h)) i patch touch of
        (Inl x, d) \<Rightarrow> (h, [])
      | (Inr _, d) \<Rightarrow> (h\<lparr>store := (store h)\<lparr>idb := d\<rparr>\<rparr>, [RefreshList]))"
| "run_job e rand RefreshList h = (refresh e h, [])"
| "run_job e rand (DeleteTx i act) h =
     (case deleteSession (db_env e) (idb (store h)) i of
        (Inl x, d) \<Rightarrow> (h, [])
      | (Inr _, d) \<Rightarrow> (h\<lparr>store := (store h)\<lparr>idb := d\<rparr>\<rparr>, [DeleteList i act]))"
| "run_job e rand (DeleteList i act) h =
     (let lst = listSessions (db_env e) (idb (store h)); h' = h\<lparr>sessions := lst\<rparr> in
      if Some i = act then
        (if lst \<noteq> [] then (switchSession e h' (session_id (hd lst)), [])
         else (h', [CreatePut (new_record e rand []) True]))
      else (h', []))"

record sessions_page =
  hook :: hook_state
  jobs :: "job list"

text \<open>What can happen next: the user switches, creates, changes or deletes a session, or a job goes on.\<close>

datatype act =
    Switch jsstr
  | StartCreate jsobj
  | StartMeta jsstr jsobj
  | StartTouch jsstr
  | StartDelete jsstr
  | RunJob nat

fun act_step :: "page_env \<Rightarrow> jsstr \<Rightarrow> act \<Rightarrow> sessions_page \<Rightarrow> sessions_page" where
  "act_step e rand (Switch i) p = p\<lparr>hook := switchSession e (hook p) i\<rparr>"
| "act_step e rand (StartCreate opts) p = p\<lparr>jobs := jobs p @ [CreatePut (new_record e rand opts) False]\<rparr>"
| "act_step e rand (StartMeta i patch) p = p\<lparr>jobs := jobs p @ [PatchPut i patch False]\<rparr>"
| "act_step e rand (StartTouch i) p = (if i = [] then p else p\<lparr>jobs := jobs p @ [PatchPut i [] True]\<rparr>)"
| "act_step e rand (StartDelete i) p = p\<lparr>jobs := jobs p @ [DeleteTx i (activeId (hook p))]\<rparr>"
| "act_step e rand (RunJob n) p =
     (if n < length (jobs p) then
        (case run_job e rand (jobs p ! n) (hook p) of (h, js) \<Rightarrow>
          p\<lparr>hook := h, jobs := take n (jobs p) @ js @ drop (Suc n) (jobs p)\<rparr>)
      else p)"

text \<open>An operation whose jobs run with nothing in between is the operation of the previous section.\<close>

definition run_all :: "(page_env \<times> jsstr) list \<Rightarrow> act \<Rightarrow> hook_state \<Rightarrow> hook_state" where
  "run_all envs a h = hook (fold (\<lambda>(e, rand). act_step e rand (RunJob 0)) (tl envs)
     (act_step (fst (hd envs)) (snd (hd envs)) a \<lparr>hook = h, jobs = []\<rparr>))"

lemma run_all_create:
  "run_all [(e1, rand), (e1, rand), (e2, rand)] (StartCreate opts) h = snd (createSession e1 e2 rand h opts)"
  by (simp add: run_all_def createSession_def Let_def split: prod.splits sum.splits)

lemma run_all_meta:
  "run_all [(e1, rand), (e1, rand), (e2, rand)] (StartMeta i patch) h = snd (updateSessionMeta e1 e2 h i patch)"
  by (simp add: run_all_def updateSessionMeta_def split: prod.splits sum.splits)

lemma run_all_touch:
  "run_all [(e1, rand), (e1, rand), (e2, rand)] (StartTouch i) h = snd (touchSessionHook e1 e2 h i)"
  by (simp add: run_all_def touchSessionHook_def touchSession_def split: prod.splits sum.splits)

lemma run_all_delete:
  "run_all [(e1, rand), (e1, rand), (e2, rand), (e2, rand), (e3, rand)] (StartDelete i) h =
     snd (deleteSessionHook e1 e2 e2 e3 rand h i)"
  by (simp add: run_all_def deleteSessionHook_def createSession_def Let_def split: prod.splits sum.splits)

section \<open>The invariant\<close>

text \<open>Once initialised, there is an active session, it is stored in the database and
  remembered in \<open>localStorage\<close>, and the displayed list is the database's.\<close>

definition hook_inv :: "hook_state \<Rightarrow> bool" where
  "hook_inv h \<longleftrightarrow> idb_wf (idb (store h)) \<and> store_get (sessions_store (idb (store h))) [] = None \<and>
     mset (map session_id (sessions h)) = mset (map fst (sessions_store (idb (store h)))) \<and>
     (\<exists>i. i \<noteq> [] \<and> activeId h = Some i \<and> store_get (sessions_store (idb (store h))) i \<noteq> None \<and>
        local (store h) ACTIVE_SESSION_KEY = Some i)"

lemma base36_not_Nil [simp]: "base36 n \<noteq> []"
  by (subst base36.simps) (simp add: Let_def)

lemma genSessionId_not_Nil [simp]: "genSessionId n rand \<noteq> []"
  by (simp add: genSessionId_def)

definition ids :: "idb \<Rightarrow> jsstr set" where
  "ids d = {k. store_get (sessions_store d) k \<noteq> None}"

lemma ids_keys: "ids d = set (map fst (sessions_store d))"
  by (simp add: ids_def store_get_def dom_map_of_conv_image_fst [symmetric] dom_def)

lemma map_session_id_getAll: "idb_wf d \<Longrightarrow> map session_id (store_getAll (sessions_store d)) = map fst (sessions_store d)"
  by (auto simp: idb_wf_def list_all_iff row_ok_def store_getAll_def session_id_def)

lemma mset_listSessions:
  assumes "page_ok e" "idb_wf d"
  shows "mset (map session_id (listSessions (db_env e) d)) = mset (map fst (sessions_store d))"
proof -
  have "mset (map session_id (listSessions (db_env e) d)) = mset (map session_id (store_getAll (sessions_store d)))"
    using assms(1) by (simp add: listSessions_def page_ok_def)
  then show ?thesis using map_session_id_getAll [OF assms(2)] by simp
qed

lemma row_of_list:
  assumes "mset (map session_id rs) = mset (map fst (sessions_store d))" "r \<in> set rs"
  shows "session_id r \<in> ids d"
  using assms by (metis ids_keys image_eqI image_set set_mset_mset)

text \<open>What each database operation leaves for the hook: a well-formed database whose set of
  session ids is known.\<close>

lemma put_record:
  assumes "e_fault e = None" "i \<noteq> []" "idb_wf d"
  shows "\<exists>rec d'. putSession e d (session_record i a b c g n) = (Inr rec, d') \<and> idb_wf d' \<and>
    ids d' = insert i (ids d) \<and> sessions_store d' = store_put (sessions_store d) i rec"
proof -
  let ?s = "session_record i a b c g n"
  let ?r = "obj_merge [(K_created_at, date_now e), (K_updated_at, date_now e)] ?s"
  have "obj_get ?s K_id = Str i" "obj_has ?s K_id" "distinct (map fst ?s)"
    by (simp_all add: session_record_def)
  then have g: "obj_get ?s K_id = Str i" "obj_get ?r K_id = Str i" by (simp_all add: obj_get_merge)
  then have p: "putSession e d ?s = (Inr ?r, d\<lparr>sessions_store := store_put (sessions_store d) i ?r\<rparr>)"
    using assms by (simp add: putSession_def put_row_Str Let_def)
  have "idb_wf (snd (putSession e d ?s))" using assms(3) by (rule idb_wf_put)
  then show ?thesis
    using p assms(3) store.get_put [of "sessions_store d"] by (auto simp: ids_def idb_wf_def)
qed

lemma ids_patch: "idb_wf d \<Longrightarrow> ids (snd (patchSession e d i patch touch)) = ids d"
  using store.get_put [of "sessions_store d"]
  by (auto simp: patchSession_def ids_def idb_wf_def Let_def split: option.splits if_splits)

lemma ids_delete: "idb_wf d \<Longrightarrow> e_fault e = None \<Longrightarrow> ids (snd (deleteSession e d i)) = (if i = [] then ids d else ids d - {i})"
  using store.get_del [of "sessions_store d"]
  by (auto simp: deleteSession_def ids_def idb_wf_def split: option.splits if_splits)

lemma hook_invD: "hook_inv h \<Longrightarrow> idb_wf (idb (store h))" "hook_inv h \<Longrightarrow> [] \<notin> ids (idb (store h))"
  by (auto simp: hook_inv_def ids_def)

lemma hook_inv_iff:
  "hook_inv h \<longleftrightarrow> idb_wf (idb (store h)) \<and> [] \<notin> ids (idb (store h)) \<and>
     mset (map session_id (sessions h)) = mset (map fst (sessions_store (idb (store h)))) \<and>
     (\<exists>i. activeId h = Some i \<and> i \<in> ids (idb (store h)) \<and> local (store h) ACTIVE_SESSION_KEY = Some i)"
  by (auto simp: hook_inv_def ids_def)

lemma local_setActive:
  "page_ok e \<Longrightarrow> i \<noteq> [] \<Longrightarrow> local (setActiveSessionId e st i) ACTIVE_SESSION_KEY = Some i"
  by (simp add: setActiveSessionId_def setItem_def page_ok_def)

section \<open>The invariant between awaits\<close>

text \<open>The jobs of a deletion, the ids it is about, and the ids of the sessions being created.\<close>

fun of_delete :: "job \<Rightarrow> bool" where
  "of_delete (CreatePut rec nested) = nested"
| "of_delete (CreateRefresh i nested) = nested"
| "of_delete (DeleteTx i act) = True"
| "of_delete (DeleteList i act) = True"
| "of_delete _ = False"

fun deleted_id :: "job \<Rightarrow> jsstr option" where
  "deleted_id (DeleteTx i act) = Some i"
| "deleted_id (DeleteList i act) = Some i"
| "deleted_id _ = None"

fun created_id :: "job \<Rightarrow> jsstr option" where
  "created_id (CreatePut rec nested) = Some (session_id rec)"
| "created_id (CreateRefresh i nested) = Some i"
| "created_id _ = None"

fun reads_list :: "job \<Rightarrow> bool" where
  "reads_list (CreateRefresh i nested) = True"
| "reads_list RefreshList = True"
| "reads_list (DeleteList i act) = True"
| "reads_list _ = False"

text \<open>When an act is orderly. The user switches only to sessions of the list, and not to one whose deletion is
  under way; one session is deleted at a time, and no session while it is being created. Reading the list,
  and creating the session that replaces the last one, do not fail; any other write may.\<close>

fun may_fail :: "job \<Rightarrow> bool" where
  "may_fail (CreatePut rec nested) = (\<not> nested)"
| "may_fail (PatchPut i patch touch) = True"
| "may_fail (DeleteTx i act) = True"
| "may_fail _ = False"

fun orderly :: "page_env \<Rightarrow> jsstr \<Rightarrow> act \<Rightarrow> sessions_page \<Rightarrow> bool" where
  "orderly e rand (Switch i) p =
     (e_local_ok e \<and> i \<in> session_id ` set (sessions (hook p)) \<and> Some i \<notin> deleted_id ` set (jobs p))"
| "orderly e rand (StartCreate opts) p = (Some (genSessionId (e_now e) rand) \<notin> deleted_id ` set (jobs p))"
| "orderly e rand (StartDelete i) p =
     (\<not> list_ex of_delete (jobs p) \<and> Some i \<notin> created_id ` set (jobs p))"
| "orderly e rand (RunJob n) p = (n < length (jobs p) \<longrightarrow> page_ok e \<or> may_fail (jobs p ! n))"
| "orderly e rand _ p = True"

inductive orderly_step :: "sessions_page \<Rightarrow> sessions_page \<Rightarrow> bool" where
  "orderly e rand a p \<Longrightarrow> orderly_step p (act_step e rand a p)"

inductive_cases orderly_stepE: "orderly_step p p'"

definition made_record :: "jsobj \<Rightarrow> bool" where
  "made_record rec \<longleftrightarrow> (\<exists>i a b c g n. rec = session_record i a b c g n \<and> i \<noteq> [])"

fun job_ok :: "hook_state \<Rightarrow> job set \<Rightarrow> job \<Rightarrow> bool" where
  "job_ok h J (CreatePut rec nested) =
     (made_record rec \<and> Some (session_id rec) \<notin> deleted_id ` J)"
| "job_ok h J (CreateRefresh i nested) = (i \<in> ids (idb (store h)) \<and> Some i \<notin> deleted_id ` J)"
| "job_ok h J (DeleteTx i act) = (activeId h = Some i \<longrightarrow> act = Some i)"
| "job_ok h J (DeleteList i act) = (activeId h = Some i \<longrightarrow> act = Some i)"
| "job_ok h J _ = True"

definition list_current :: "hook_state \<Rightarrow> bool" where
  "list_current h \<longleftrightarrow> mset (map session_id (sessions h)) = mset (map fst (sessions_store (idb (store h))))"

definition shown_exist :: "hook_state \<Rightarrow> job set \<Rightarrow> bool" where
  "shown_exist h J \<longleftrightarrow> (\<forall>r \<in> set (sessions h). session_id r \<in> ids (idb (store h)) \<or>
     (\<exists>act. DeleteList (session_id r) act \<in> J))"

text \<open>The active session exists, or the deletion that removed it has still to switch to another one.\<close>

definition active_ok :: "hook_state \<Rightarrow> job set \<Rightarrow> bool" where
  "active_ok h J \<longleftrightarrow> (\<exists>a. activeId h = Some a \<and> a \<noteq> [] \<and> local (store h) ACTIVE_SESSION_KEY = Some a \<and>
     (a \<in> ids (idb (store h)) \<or> DeleteList a (Some a) \<in> J \<or>
      (\<exists>rec. CreatePut rec True \<in> J) \<or> (\<exists>i. CreateRefresh i True \<in> J)))"

definition jobs_inv :: "hook_state \<Rightarrow> job set \<Rightarrow> bool" where
  "jobs_inv h J \<longleftrightarrow> idb_wf (idb (store h)) \<and> [] \<notin> ids (idb (store h)) \<and> active_ok h J \<and> shown_exist h J \<and>
     (list_current h \<or> (\<exists>j \<in> J. reads_list j)) \<and> (\<forall>j \<in> J. job_ok h J j)"

lemmas jobs_inv_defs = jobs_inv_def active_ok_def shown_exist_def

lemma list_current_shown: "list_current h \<Longrightarrow> shown_exist h J"
  using row_of_list by (fastforce simp: list_current_def shown_exist_def)

lemma list_current_read: "page_ok e \<Longrightarrow> idb_wf (idb (store h)) \<Longrightarrow> list_current (h\<lparr>sessions := listSessions (db_env e) (idb (store h))\<rparr>)"
  using mset_listSessions by (simp add: list_current_def)

lemma session_id_record [simp]: "session_id (session_record i a b c g n) = i"
  by (simp add: session_id_def session_record_def)

text \<open>An operation that ends without a trace, because its transaction failed.\<close>

lemma jobs_inv_fail:
  assumes "jobs_inv h (insert j J)" "may_fail j"
  shows "jobs_inv h J"
proof -
  have "job_ok h J k" if "job_ok h (insert j J) k" for k using that by (cases k) auto
  moreover have "\<not> reads_list j" "active_ok h (insert j J) \<Longrightarrow> active_ok h J" "shown_exist h (insert j J) \<Longrightarrow> shown_exist h J"
    using assms(2) by (cases j; auto simp: active_ok_def shown_exist_def)+
  ultimately show ?thesis using assms(1) by (auto simp: jobs_inv_def)
qed

lemma job_ok_ids:
  assumes "job_ok h J j" "ids (idb (store h)) \<subseteq> ids (idb (store h'))" "activeId h' = activeId h"
    "deleted_id ` J' \<subseteq> deleted_id ` J"
  shows "job_ok h' J' j"
  using assms by (cases j) auto

lemma run_put:
  assumes "jobs_inv h (insert (CreatePut rec nested) J)" "e_fault e = None"
    "run_job e rand (CreatePut rec nested) h = (h', js)"
  shows "jobs_inv h' (set js \<union> J)"
proof -
  obtain i a b c g n where r: "rec = session_record i a b c g n" "i \<noteq> []" "Some i \<notin> deleted_id ` J"
    using assms(1) by (auto simp: jobs_inv_def made_record_def)
  obtain x d where d: "putSession (db_env e) (idb (store h)) rec = (Inr x, d)" "idb_wf d" "ids d = insert i (ids (idb (store h)))"
    using put_record [of "db_env e" i "idb (store h)" a b c g n] assms(1,2) r(1,2) by (auto simp: jobs_inv_def)
  have h': "h' = h\<lparr>store := (store h)\<lparr>idb := d\<rparr>\<rparr>" "js = [CreateRefresh i nested]"
    using assms(3) d(1) r(1) by simp_all
  have "job_ok h' (set js \<union> J) j" if "j \<in> J" for j
    using job_ok_ids [of h "insert (CreatePut rec nested) J" j h' "set js \<union> J"] assms(1) that d(3) by (auto simp: jobs_inv_def h')
  then show ?thesis using assms(1) d r by (auto simp: jobs_inv_defs h')
qed

lemma run_patch:
  assumes "jobs_inv h (insert (PatchPut i patch touch) J)" "run_job e rand (PatchPut i patch touch) h = (h', js)"
  shows "jobs_inv h' (set js \<union> J)"
proof -
  obtain r d where p: "patchSession (db_env e) (idb (store h)) i patch touch = (r, d)" by fastforce
  then have d: "idb_wf d" "ids d = ids (idb (store h))"
    using assms(1) idb_wf_patch [of "idb (store h)" "db_env e" i patch touch]
      ids_patch [of "idb (store h)" "db_env e" i patch touch] by (auto simp: jobs_inv_def)
  show ?thesis
  proof (cases r)
    case (Inl x)
    then show ?thesis using assms p jobs_inv_fail by fastforce
  next
    case (Inr x)
    then have h': "h' = h\<lparr>store := (store h)\<lparr>idb := d\<rparr>\<rparr>" "js = [RefreshList]" using assms(2) p by simp_all
    have "job_ok h' (set js \<union> J) j" if "j \<in> J" for j
      using job_ok_ids [of h "insert (PatchPut i patch touch) J" j h'] assms(1) that d(2) by (auto simp: jobs_inv_def h')
    then show ?thesis using assms(1) d by (auto simp: jobs_inv_defs h')
  qed
qed

lemma run_refresh:
  assumes "jobs_inv h (insert RefreshList J)" "page_ok e" "run_job e rand RefreshList h = (h', js)"
  shows "jobs_inv h' (set js \<union> J)"
proof -
  have h': "h' = h\<lparr>sessions := listSessions (db_env e) (idb (store h))\<rparr>" "js = []"
    using assms(3) by (simp_all add: refresh_def)
  have c: "list_current h'" using list_current_read [OF assms(2)] assms(1) by (simp add: jobs_inv_def h')
  have "job_ok h' J j" if "j \<in> J" for j
    using job_ok_ids [of h "insert RefreshList J" j h'] assms(1) that by (auto simp: jobs_inv_def h')
  then show ?thesis using assms(1) c list_current_shown [OF c] by (auto simp: jobs_inv_def active_ok_def h')
qed

text \<open>Switching to an existing session that nobody deletes.\<close>

lemma jobs_inv_switch:
  assumes "idb_wf (idb (store h))" "[] \<notin> ids (idb (store h))" "shown_exist h J" "list_current h \<or> (\<exists>j \<in> J. reads_list j)"
    "\<And>j. j \<in> J \<Longrightarrow> deleted_id j = None \<Longrightarrow> job_ok h J j" "e_local_ok e" "i \<in> ids (idb (store h))" "Some i \<notin> deleted_id ` J"
  shows "jobs_inv (switchSession e h i) J"
proof -
  have i: "i \<noteq> []" using assms(2,7) by auto
  have s: "switchSession e h i = h\<lparr>activeId := Some i, store := setActiveSessionId e (store h) i\<rparr>"
    using i by (simp add: switchSession_def)
  have "local (setActiveSessionId e (store h) i) ACTIVE_SESSION_KEY = Some i"
    using i assms(6) by (simp add: setActiveSessionId_def setItem_def)
  moreover have "job_ok (switchSession e h i) J j" if "j \<in> J" for j
    using assms(5) [OF that] assms(8) that by (cases j) (auto simp: s image_iff)
  ultimately show ?thesis
    using assms i by (auto simp: jobs_inv_defs list_current_def s)
qed

lemma run_create_refresh:
  assumes "jobs_inv h (insert (CreateRefresh i nested) J)" "page_ok e" "run_job e rand (CreateRefresh i nested) h = (h', js)"
  shows "jobs_inv h' (set js \<union> J)"
proof -
  let ?h = "refresh e h"
  have c: "list_current ?h" using list_current_read [OF assms(2)] assms(1) by (simp add: jobs_inv_def refresh_def)
  have "job_ok ?h J j" if "j \<in> J" for j
    using job_ok_ids [of h "insert (CreateRefresh i nested) J" j ?h J] assms(1) that by (auto simp: jobs_inv_def refresh_def)
  then have "jobs_inv (switchSession e ?h i) J"
    using assms(1,2) c list_current_shown [OF c]
    by (intro jobs_inv_switch) (auto simp: jobs_inv_def page_ok_def refresh_def)
  then show ?thesis using assms(3) by simp
qed

lemma run_delete:
  assumes "jobs_inv h (insert (DeleteTx i act) J)" "run_job e rand (DeleteTx i act) h = (h', js)"
  shows "jobs_inv h' (set js \<union> J)"
proof (cases "e_fault e")
  case (Some x)
  then have "h' = h \<and> js = [] \<or> h' = h \<and> js = [DeleteList i act] \<and> i = []"
    using assms(2) by (cases "i = []") (auto simp: deleteSession_def)
  moreover have "jobs_inv h J" using jobs_inv_fail [OF assms(1)] by simp
  moreover have "job_ok h (insert (DeleteList i act) J) j" if "j \<in> J" for j
    using job_ok_ids [of h "insert (DeleteTx i act) J" j h] assms(1) that by (auto simp: jobs_inv_def)
  ultimately show ?thesis using assms(1) by (auto simp: jobs_inv_defs)
next
  case None
  obtain d where d: "deleteSession (db_env e) (idb (store h)) i = (Inr (), d)" "idb_wf d"
      "ids d = (if i = [] then ids (idb (store h)) else ids (idb (store h)) - {i})"
  proof
    show "deleteSession (db_env e) (idb (store h)) i = (Inr (), snd (deleteSession (db_env e) (idb (store h)) i))"
      using None by (simp add: deleteSession_def)
  qed (use idb_wf_delete [of "idb (store h)" "db_env e" i] ids_delete [of "idb (store h)" "db_env e" i] assms(1) None in
      \<open>simp_all add: jobs_inv_def\<close>)
  have h': "h' = h\<lparr>store := (store h)\<lparr>idb := d\<rparr>\<rparr>" "js = [DeleteList i act]" using assms(2) d(1) by simp_all
  have "job_ok h' (set js \<union> J) j" if "j \<in> J" for j
  proof -
    have "job_ok h (insert (DeleteTx i act) J) j" using assms(1) that by (simp add: jobs_inv_def)
    then show ?thesis using d(3) by (cases j) (simp_all add: h')
  qed
  moreover have "job_ok h' (set js \<union> J) (DeleteList i act)" using assms(1) by (simp add: jobs_inv_def h')
  moreover have "active_ok h' (set js \<union> J)" using assms(1) d(3) by (auto simp: jobs_inv_def active_ok_def h' split: if_splits)
  moreover have "shown_exist h' (set js \<union> J)" using assms(1) d(3) by (auto simp: jobs_inv_def shown_exist_def h' split: if_splits)
  moreover have "[] \<notin> ids d" using assms(1) d(3) by (simp add: jobs_inv_def)
  ultimately show ?thesis using d(2) by (simp add: jobs_inv_def h')
qed

lemma new_record_ok [simp]: "made_record (new_record e rand opts)" "session_id (new_record e rand opts) = genSessionId (e_now e) rand"
  unfolding made_record_def by (intro exI conjI, rule new_record_def) (simp_all add: new_record_def)

lemma run_delete_list:
  assumes "jobs_inv h (insert (DeleteList i act) J)" "\<forall>j \<in> J. \<not> of_delete j" "page_ok e"
    "run_job e rand (DeleteList i act) h = (h', js)"
  shows "jobs_inv h' (set js \<union> J)"
proof -
  define lst where "lst = listSessions (db_env e) (idb (store h))"
  let ?h = "h\<lparr>sessions := lst\<rparr>"
  have nodel: "deleted_id j = None" if "j \<in> J" for j using assms(2) that by (cases j) auto
  have none: "Some k \<notin> deleted_id ` J" for k using nodel by (auto simp: image_iff)
  have c: "list_current ?h" using list_current_read [OF assms(3)] assms(1) by (simp add: jobs_inv_def lst_def)
  have ok: "job_ok ?h J' j" if "j \<in> J" "deleted_id ` J' \<subseteq> deleted_id ` J" for j J'
    using job_ok_ids [of h "insert (DeleteList i act) J" j ?h J'] assms(1) that by (auto simp: jobs_inv_def)
  show ?thesis
  proof (cases "Some i = act")
    case False
    then have "h' = ?h" "js = []" using assms(4) by (simp_all add: lst_def Let_def)
    moreover have "active_ok ?h J" using assms(1,2) False by (fastforce simp: jobs_inv_def active_ok_def)
    ultimately show ?thesis using assms(1) c list_current_shown [OF c] ok by (auto simp: jobs_inv_def)
  next
    case act: True
    show ?thesis
    proof (cases lst)
      case Nil
      then have h': "h' = ?h" "js = [CreatePut (new_record e rand []) True]" using assms(4) act by (simp_all add: lst_def Let_def)
      have "active_ok ?h (set js \<union> J)" using assms(1) h' by (auto simp: jobs_inv_def active_ok_def)
      moreover have "job_ok ?h (set js \<union> J) (CreatePut (new_record e rand []) True)"
        using none h' by (simp add: image_iff)
      moreover have "job_ok ?h (set js \<union> J) j" if "j \<in> J" for j using ok [OF that, of "set js \<union> J"] h' nodel that by (auto simp: image_iff)
      ultimately show ?thesis using assms(1) c list_current_shown [OF c] h' by (auto simp: jobs_inv_def)
    next
      case (Cons r rs)
      then have "session_id r \<in> ids (idb (store ?h))" using c row_of_list [of lst "idb (store h)" r] by (simp add: list_current_def)
      then have "jobs_inv (switchSession e ?h (session_id r)) J"
        using assms(1,3) c list_current_shown [OF c] ok none
        by (intro jobs_inv_switch) (auto simp: jobs_inv_def page_ok_def)
      then show ?thesis using assms(4) act Cons by (simp add: lst_def [symmetric] Let_def)
    qed
  qed
qed

lemma run_job_inv:
  assumes "jobs_inv h (insert j J)" "of_delete j \<longrightarrow> (\<forall>k \<in> J. \<not> of_delete k)" "page_ok e \<or> may_fail j"
    "run_job e rand j h = (h', js)"
  shows "jobs_inv h' (set js \<union> J)"
proof (cases j)
  case (CreatePut rec nested)
  show ?thesis
  proof (cases "e_fault e")
    case None
    then show ?thesis using run_put [of h rec nested J e rand h' js] assms(1,4) CreatePut by simp
  next
    case (Some x)
    then have "h' = h" "js = []" using assms(4) CreatePut by (auto simp: putSession_def Let_def split: if_splits)
    moreover have "may_fail j" using assms(3) Some by (simp add: page_ok_def)
    ultimately show ?thesis using jobs_inv_fail assms(1) by simp
  qed
next
  case (CreateRefresh i nested)
  then show ?thesis using run_create_refresh [of h i nested J e rand h' js] assms by simp
next
  case (PatchPut i patch touch)
  then show ?thesis using run_patch [of h i patch touch J e rand h' js] assms(1,4) by simp
next
  case RefreshList
  then show ?thesis using run_refresh [of h J e rand h' js] assms by simp
next
  case (DeleteTx i act)
  then show ?thesis using run_delete [of h i act J e rand h' js] assms(1,4) by simp
next
  case (DeleteList i act)
  then show ?thesis using run_delete_list [of h i act J e rand h' js] assms by simp
qed

lemma run_job_delete: "run_job e rand j h = (h', js) \<Longrightarrow> length (filter of_delete js) \<le> (if of_delete j then 1 else 0)"
  by (cases j) (auto simp: Let_def split: prod.splits sum.splits if_splits)

definition page_inv :: "sessions_page \<Rightarrow> bool" where
  "page_inv p \<longleftrightarrow> jobs_inv (hook p) (set (jobs p)) \<and> length (filter of_delete (jobs p)) \<le> 1"

lemma page_inv_run:
  assumes "page_inv p" "n < length (jobs p)" "page_ok e \<or> may_fail (jobs p ! n)"
  shows "page_inv (act_step e rand (RunJob n) p)"
proof -
  obtain h' js where r: "run_job e rand (jobs p ! n) (hook p) = (h', js)" by fastforce
  define xs ys where "xs = take n (jobs p)" and "ys = drop (Suc n) (jobs p)"
  have j: "jobs p = xs @ jobs p ! n # ys" using assms(2) by (simp add: xs_def ys_def id_take_nth_drop)
  have "set (jobs p) = insert (jobs p ! n) (set xs \<union> set ys)" by (subst j) auto
  moreover have len: "length (filter of_delete xs) + (if of_delete (jobs p ! n) then 1 else 0) + length (filter of_delete ys) \<le> 1"
    using assms(1) arg_cong [OF j, of "\<lambda>l. length (filter of_delete l)"] by (simp add: page_inv_def split: if_splits)
  moreover from this have "of_delete (jobs p ! n) \<longrightarrow> (\<forall>k \<in> set xs \<union> set ys. \<not> of_delete k)"
    by (auto simp: filter_empty_conv)
  ultimately have "jobs_inv h' (set js \<union> (set xs \<union> set ys))"
    using run_job_inv [OF _ _ assms(3) r] assms(1) by (simp add: page_inv_def)
  moreover have "set js \<union> (set xs \<union> set ys) = set (xs @ js @ ys)" by auto
  ultimately show ?thesis
    using len run_job_delete [OF r] assms(2) r by (simp add: page_inv_def xs_def [symmetric] ys_def [symmetric])
qed

lemma jobs_inv_start:
  assumes "jobs_inv h J" "deleted_id j = None" "job_ok h J j"
  shows "jobs_inv h (insert j J)"
proof -
  have "job_ok h (insert j J) k" if "job_ok h J k" for k using that assms(2) by (cases k) auto
  then show ?thesis using assms by (auto simp: jobs_inv_defs)
qed

lemma jobs_inv_start_delete:
  assumes "jobs_inv h J" "Some i \<notin> created_id ` J"
  shows "jobs_inv h (insert (DeleteTx i (activeId h)) J)"
proof -
  have "job_ok h (insert (DeleteTx i (activeId h)) J) k" if "job_ok h J k" "k \<in> J" for k
    using that assms(2) by (cases k) (auto simp: image_iff)
  then show ?thesis using assms by (auto simp: jobs_inv_defs)
qed

lemma orderly_inv: "orderly e rand a p \<Longrightarrow> page_inv p \<Longrightarrow> page_inv (act_step e rand a p)"
proof (induction e rand a p rule: act_step.induct)
  case (1 e rand i p)
  then obtain r where r: "r \<in> set (sessions (hook p))" "i = session_id r" by auto
  have "i \<in> ids (idb (store (hook p)))"
    using 1 r by (force simp: page_inv_def jobs_inv_def shown_exist_def image_iff)
  then have "jobs_inv (switchSession e (hook p) i) (set (jobs p))"
    using 1 by (intro jobs_inv_switch) (auto simp: page_inv_def jobs_inv_def)
  then show ?case using 1 by (simp add: page_inv_def)
next
  case (2 e rand opts p)
  then have "job_ok (hook p) (set (jobs p)) (CreatePut (new_record e rand opts) False)" by simp
  then show ?case using 2 jobs_inv_start [of "hook p" "set (jobs p)"] by (simp add: page_inv_def)
next
  case (5 e rand i p)
  then show ?case using jobs_inv_start_delete [of "hook p" "set (jobs p)" i]
    by (simp add: page_inv_def list_ex_iff filter_empty_conv)
next
  case (6 e rand n p)
  then show ?case using page_inv_run [of p n e rand] by (cases "n < length (jobs p)") simp_all
qed (simp_all add: page_inv_def jobs_inv_start)

lemma hook_inv_idle: "jobs_inv h {} \<longleftrightarrow> hook_inv h"
  using row_of_list [of "sessions h" "idb (store h)"]
  by (auto simp: jobs_inv_defs list_current_def hook_inv_iff)

subsection \<open>Mounting\<close>

lemma migrate_sessions:
  "sessions_store (idb (snd (migrateLegacyMessagesIfAny e st i))) = sessions_store (idb st)"
  by (auto simp: migrateLegacyMessagesIfAny_def putMessages_def removeItem_def Let_def
      split: option.splits sum.splits prod.splits if_splits)

lemma migrate_wf: "idb_wf (idb st) \<Longrightarrow> idb_wf (idb (snd (migrateLegacyMessagesIfAny e st i)))"
  using idb_wf_messages(1) [of "idb st" "db_env e" i]
  by (auto simp: migrateLegacyMessagesIfAny_def putMessages_def removeItem_def Let_def idb_wf_def
      split: option.splits sum.splits prod.splits if_splits)

lemma mount_empty:
  assumes "page_ok e2" "page_ok e3" "idb_wf (idb (store h))" "sessions_store (idb (store h)) = []"
    "listSessions (db_env e1) (idb (store h)) = []"
  shows "hook_inv (mount e1 e2 e3 rand h) \<and> initialized (mount e1 e2 e3 rand h)"
proof -
  let ?i = "genSessionId (e_now e2) rand"
  let ?s = "session_record ?i (Str DEFAULT_TITLE) (Str (lit ''text'')) (Str []) (Str []) (date_now (db_env e2))"
  obtain rec d where p: "putSession (db_env e2) (idb (store h)) ?s = (Inr rec, d)" "idb_wf d"
      "ids d = insert ?i (ids (idb (store h)))" "sessions_store d = store_put (sessions_store (idb (store h))) ?i rec"
    using put_record [OF _ genSessionId_not_Nil assms(3), of "db_env e2"] assms(1)
    unfolding page_ok_def db_env_simps by blast
  let ?st = "snd (migrateLegacyMessagesIfAny e3 ((store h)\<lparr>idb := d\<rparr>) ?i)"
  have st: "idb_wf (idb ?st)" "sessions_store (idb ?st) = sessions_store d"
    using migrate_wf p(2) migrate_sessions by simp_all
  have one: "ids d = {?i}" using p(3) assms(4) by (simp add: ids_keys)
  have "map fst (sessions_store d) = [?i]" using p(4) assms(4) by simp
  moreover have "session_id ?s = ?i" by (simp add: session_id_def session_record_def)
  ultimately show ?thesis
    using st one p(1) assms(5) local_setActive [OF assms(2) genSessionId_not_Nil] genSessionId_not_Nil [THEN not_sym]
    by (simp add: mount_def Let_def hook_inv_iff ids_keys)
qed

section \<open>Properties\<close>

text \<open>Mounting the hook over any well-formed database establishes the invariant: there is
  an active session, it exists, it is remembered, and the list shows the database's sessions.
  An empty database gets a default session; a remembered session that still exists stays
  active.\<close>

theorem mount_establishes_invariant:
  assumes "page_ok e1" "page_ok e2" "page_ok e3" "idb_wf (idb (store h))"
    "store_get (sessions_store (idb (store h))) [] = None"
  shows "hook_inv (mount e1 e2 e3 rand h) \<and> initialized (mount e1 e2 e3 rand h) \<and>
    (\<forall>i. local (store h) ACTIVE_SESSION_KEY = Some i \<and> store_get (sessions_store (idb (store h))) i \<noteq> None \<longrightarrow>
       activeId (mount e1 e2 e3 rand h) = Some i)"
proof (cases "sessions_store (idb (store h)) = []")
  case True
  then have "listSessions (db_env e1) (idb (store h)) = []"
    by (simp add: listSessions_def store_getAll_def split: option.splits)
  then show ?thesis
    using mount_empty [OF assms(2,3,4) True] True by (simp add: store_get_def)
next
  case False
  let ?l = "listSessions (db_env e1) (idb (store h))"
  have ms: "mset (map session_id ?l) = mset (map fst (sessions_store (idb (store h))))"
    using assms(1,4) by (rule mset_listSessions)
  then obtain r rs where l: "?l = r # rs" using False by (cases ?l) auto
  have ne: "[] \<notin> ids (idb (store h))" using assms(5) by (simp add: ids_def)
  have rid: "obj_get x K_id = Str (session_id x)" if "x \<in> set ?l" for x
  proof -
    have "x \<in> set (store_getAll (sessions_store (idb (store h))))"
      using that assms(1) by (simp add: listSessions_def page_ok_def)
    then show ?thesis by (rule idb_rows [OF assms(4)]) (simp add: session_id_def)
  qed
  define saved where "saved = getActiveSessionId e1 (store h)"
  define nxt where "nxt = (case saved of Some s \<Rightarrow> if list_ex (\<lambda>r. obj_get r K_id = Str s) ?l then s
      else session_id (hd ?l) | None \<Rightarrow> session_id (hd ?l))"
  have "list_ex (\<lambda>r. obj_get r K_id = Str s) ?l \<longleftrightarrow> s \<in> ids (idb (store h))" for s
  proof -
    have "list_ex (\<lambda>r. obj_get r K_id = Str s) ?l \<longleftrightarrow> s \<in> set (map session_id ?l)"
      using rid by (auto simp: list_ex_iff)
    then show ?thesis using ms unfolding ids_keys by (metis set_mset_mset)
  qed
  then have n: "nxt \<in> ids (idb (store h))" "\<And>s. saved = Some s \<Longrightarrow> s \<in> ids (idb (store h)) \<Longrightarrow> nxt = s"
    using row_of_list [OF ms] l by (auto simp: nxt_def split: option.splits)
  then have "nxt \<noteq> []" using ne by auto
  have m: "mount e1 e2 e3 rand h = h\<lparr>sessions := ?l, activeId := Some nxt,
      store := setActiveSessionId e1 (store h) nxt, initialized := True\<rparr>"
    unfolding mount_def Let_def nxt_def saved_def using l by simp
  have "hook_inv (mount e1 e2 e3 rand h) \<and> initialized (mount e1 e2 e3 rand h)"
      "activeId (mount e1 e2 e3 rand h) = Some nxt"
    using ms n(1) ne assms(4) local_setActive [OF assms(1) \<open>nxt \<noteq> []\<close>]
    unfolding m hook_inv_iff by simp_all
  moreover have "nxt = i" if "local (store h) ACTIVE_SESSION_KEY = Some i" "i \<in> ids (idb (store h))" for i
  proof -
    have "i \<noteq> []" using ne that(2) by auto
    then have "saved = Some i"
      using assms(1) that(1) stored_text_ok by (simp add: saved_def getActiveSessionId_def page_ok_def)
    then show ?thesis using n(2) that(2) by blast
  qed
  ultimately show ?thesis by (simp add: ids_def)
qed

definition sample_page :: "nat \<Rightarrow> page_env" where
  "sample_page n = \<lparr>e_now = n, e_fault = None, e_local_ok = True, e_iso = []\<rparr>"

lemma sample_page_ok [simp]: "page_ok (sample_page n)"
  by (simp add: sample_page_def page_ok_def)

definition sample_hook :: hook_state where
  "sample_hook = useSessions_initial (sample_page 1)
     \<lparr>idb = sample_idb, local = [ACTIVE_SESSION_KEY \<mapsto> lit ''sess_a'']\<rparr>"

lemma mount_establishes_invariant_witness:
  "hook_inv (mount (sample_page 1) (sample_page 2) (sample_page 3) (lit ''0.k3v9x'') sample_hook) \<and>
   activeId (mount (sample_page 1) (sample_page 2) (sample_page 3) (lit ''0.k3v9x'') sample_hook) = Some (lit ''sess_a'')"
proof -
  have h: "idb (store sample_hook) = sample_idb" "local (store sample_hook) ACTIVE_SESSION_KEY = Some (lit ''sess_a'')"
    by (simp_all add: sample_hook_def useSessions_initial_def)
  have n: "store_get (sessions_store sample_idb) [] = None" "store_get (sessions_store sample_idb) (lit ''sess_a'') \<noteq> None"
    by code_simp+
  show ?thesis
    using mount_establishes_invariant [of "sample_page 1" "sample_page 2" "sample_page 3" sample_hook "lit ''0.k3v9x''"]
      h n sample_idb_wf by simp
qed

text \<open>C22: from a mounted page, the session operations of the user start, wait for their transactions and go on in
  any order, and writes may fail. As long as the user does not switch to a session whose deletion is under way,
  deletes one session at a time and none that is still being created, and the list can be read, there is
  always an active session, it is remembered, and it exists unless a deletion under way has still to
  replace it; whenever nothing is under way, it exists and the list shows exactly the stored sessions.\<close>

theorem active_session_always_exists:
  assumes "orderly_step\<^sup>*\<^sup>* \<lparr>hook = h, jobs = []\<rparr> p" "hook_inv h"
  shows "(\<exists>a. activeId (hook p) = Some a \<and> a \<noteq> [] \<and> local (store (hook p)) ACTIVE_SESSION_KEY = Some a \<and>
      (\<not> list_ex of_delete (jobs p) \<longrightarrow> store_get (sessions_store (idb (store (hook p)))) a \<noteq> None)) \<and>
    (jobs p = [] \<longrightarrow> hook_inv (hook p))"
proof -
  have "page_inv p" using assms
  proof (induction rule: rtranclp_induct)
    case base
    then show ?case by (simp add: page_inv_def hook_inv_idle)
  next
    case (step p p')
    then show ?case by (auto elim!: orderly_stepE intro: orderly_inv)
  qed
  moreover from this have "jobs p = [] \<Longrightarrow> hook_inv (hook p)" by (simp add: page_inv_def hook_inv_idle)
  ultimately show ?thesis
    by (fastforce simp: page_inv_def jobs_inv_def active_ok_def list_ex_iff ids_def)
qed

definition fresh_hook :: hook_state where
  "fresh_hook = mount (sample_page 1) (sample_page 2) (sample_page 3) (lit ''0.k3v9x'')
     (useSessions_initial (sample_page 1) \<lparr>idb = empty_idb, local = Map.empty\<rparr>)"

lemma fresh_hook_inv: "hook_inv fresh_hook"
proof -
  let ?h = "useSessions_initial (sample_page 1) \<lparr>idb = empty_idb, local = Map.empty\<rparr>"
  have "idb_wf (idb (store ?h))" "sessions_store (idb (store ?h)) = []"
    by (simp_all add: useSessions_initial_def empty_idb_def idb_wf_def store_wf_def)
  moreover from this have "listSessions (db_env (sample_page 1)) (idb (store ?h)) = []"
    by (simp add: listSessions_def store_getAll_def split: option.splits)
  ultimately show ?thesis unfolding fresh_hook_def by (intro conjunct1 [OF mount_empty]) auto
qed

definition acts :: "act list \<Rightarrow> sessions_page \<Rightarrow> sessions_page" where
  "acts as p = fold (act_step (sample_page 4) (lit ''0.q7'')) as p"

fun orderly_acts :: "act list \<Rightarrow> sessions_page \<Rightarrow> bool" where
  "orderly_acts [] p = True"
| "orderly_acts (a # as) p = (orderly (sample_page 4) (lit ''0.q7'') a p \<and>
     orderly_acts as (act_step (sample_page 4) (lit ''0.q7'') a p))"

lemma orderly_acts_steps: "orderly_acts as p \<Longrightarrow> orderly_step\<^sup>*\<^sup>* p (acts as p)"
  by (induction as arbitrary: p) (auto simp: acts_def intro: converse_rtranclp_into_rtranclp orderly_step.intros)

text \<open>The only session is deleted and touched at the same time: another one is created, which is then active.\<close>

definition delete_acts :: "act list" where
  "delete_acts = [StartDelete (the (activeId fresh_hook)), StartTouch (the (activeId fresh_hook)), RunJob 0, RunJob 1,
     RunJob 0, RunJob 1, RunJob 0, RunJob 0]"

lemma active_session_always_exists_witness:
  "hook_inv (hook (acts delete_acts \<lparr>hook = fresh_hook, jobs = []\<rparr>)) \<and>
   activeId (hook (acts delete_acts \<lparr>hook = fresh_hook, jobs = []\<rparr>)) \<noteq> activeId fresh_hook"
proof -
  let ?p = "acts delete_acts \<lparr>hook = fresh_hook, jobs = []\<rparr>"
  have "orderly_acts delete_acts \<lparr>hook = fresh_hook, jobs = []\<rparr>" by code_simp
  from orderly_acts_steps [OF this] have s: "orderly_step\<^sup>*\<^sup>* \<lparr>hook = fresh_hook, jobs = []\<rparr> ?p" .
  have "jobs ?p = []" "activeId (hook ?p) \<noteq> activeId fresh_hook" by code_simp+
  then show ?thesis using active_session_always_exists [OF s fresh_hook_inv] by simp
qed

text \<open>What the conditions exclude can happen: a session switched to while its deletion waits stays active after it
  is gone, and so does the second of two sessions deleted at the same time.\<close>

definition two_sessions :: hook_state where
  "two_sessions = mount (sample_page 1) (sample_page 2) (sample_page 3) (lit ''0.k3v9x'') sample_hook"

abbreviation dangling :: "sessions_page \<Rightarrow> bool" where
  "dangling p \<equiv> jobs p = [] \<and> (case activeId (hook p) of None \<Rightarrow> False
     | Some a \<Rightarrow> store_get (sessions_store (idb (store (hook p)))) a = None)"

lemma switch_during_delete:
  "activeId two_sessions = Some (lit ''sess_a'') \<and>
   dangling (acts [StartDelete (lit ''sess_b''), Switch (lit ''sess_b''), RunJob 0, RunJob 0] \<lparr>hook = two_sessions, jobs = []\<rparr>)"
  by code_simp

lemma overlapping_deletes:
  "dangling (acts [StartDelete (lit ''sess_a''), StartDelete (lit ''sess_b''), RunJob 0, RunJob 0, RunJob 0, RunJob 0]
     \<lparr>hook = two_sessions, jobs = []\<rparr>)"
  by code_simp

end
