(* ===== verification/Js_Regex.thy ===== *)
theory Js_Regex
  imports Js_Value
begin

text \<open>
  Regular expressions with the backtracking semantics of ECMAScript. \<open>rmatch\<close> lists every way a
  pattern matches at a position, in the order the matcher tries them, so the first element is the
  match the language reports. A position is the text before it, reversed, and the text after it.
  Captures are a list of group number and text, the latest first. \<open>re_search\<close> is the search for
  the leftmost position, \<open>re_all\<close> the loop over \<open>exec\<close> of a global pattern.

  An iteration of a repetition that consumes nothing is abandoned, as the language prescribes. No
  pattern of the sources captures inside a repetition, so captures are not reset there.
\<close>

section \<open>Patterns\<close>

datatype re = Eps | Cls "nat \<Rightarrow> bool" | Seq re re | Alt re re | Star re | LazyStar re | Cap nat re
  | AtStart | AtEnd | WordB

type_synonym rpos = "jsstr \<times> jsstr"
type_synonym caps = "(nat \<times> jsstr) list"

definition word_unit :: "nat \<Rightarrow> bool" where
  "word_unit c \<longleftrightarrow> is_digit c \<or> (65 \<le> c \<and> c \<le> 90) \<or> (97 \<le> c \<and> c \<le> 122) \<or> c = 95"

definition word_boundary :: "rpos \<Rightarrow> bool" where
  "word_boundary st \<longleftrightarrow>
     (fst st \<noteq> [] \<and> word_unit (hd (fst st))) \<noteq> (snd st \<noteq> [] \<and> word_unit (hd (snd st)))"

function rmatch :: "re \<Rightarrow> rpos \<Rightarrow> caps \<Rightarrow> (rpos \<times> caps) list" where
  "rmatch Eps st c = [(st, c)]"
| "rmatch (Cls P) st c = (case snd st of [] \<Rightarrow> [] | x # xs \<Rightarrow> if P x then [((x # fst st, xs), c)] else [])"
| "rmatch (Seq a b) st c = concat (map (\<lambda>m. rmatch b (fst m) (snd m)) (rmatch a st c))"
| "rmatch (Alt a b) st c = rmatch a st c @ rmatch b st c"
| "rmatch (Star a) st c =
     concat (map (\<lambda>m. if length (snd (fst m)) < length (snd st) then rmatch (Star a) (fst m) (snd m) else [])
       (rmatch a st c)) @ [(st, c)]"
| "rmatch (LazyStar a) st c = (st, c) #
     concat (map (\<lambda>m. if length (snd (fst m)) < length (snd st) then rmatch (LazyStar a) (fst m) (snd m) else [])
       (rmatch a st c))"
| "rmatch (Cap n a) st c =
     map (\<lambda>m. (fst m, (n, take (length (snd st) - length (snd (fst m))) (snd st)) # snd m)) (rmatch a st c)"
| "rmatch AtStart st c = (if fst st = [] then [(st, c)] else [])"
| "rmatch AtEnd st c = (if snd st = [] then [(st, c)] else [])"
| "rmatch WordB st c = (if word_boundary st then [(st, c)] else [])"
  by pat_completeness auto
termination
  by (relation "measures [\<lambda>(r, st, c). size r, \<lambda>(r, st, c). length (snd st)]") auto

declare rmatch.simps(5,6) [simp del]

text \<open>Derived forms: \<open>r+\<close>, \<open>r?\<close>, literal text, white space.\<close>

definition Plus :: "re \<Rightarrow> re" where
  "Plus a = Seq a (Star a)"

definition Opt :: "re \<Rightarrow> re" where
  "Opt a = Alt a Eps"

primrec Lit :: "jsstr \<Rightarrow> re" where
  "Lit [] = Eps"
| "Lit (x # xs) = Seq (Cls (\<lambda>c. c = x)) (Lit xs)"

abbreviation Ws :: re where
  "Ws \<equiv> Star (Cls is_ws)"

primrec Seqs :: "re list \<Rightarrow> re" where
  "Seqs [] = Eps"
| "Seqs (r # rs) = Seq r (Seqs rs)"

section \<open>Searching\<close>

record re_match =
  m_from :: rpos
  m_to :: rpos
  m_caps :: caps

fun re_search_from :: "re \<Rightarrow> jsstr \<Rightarrow> jsstr \<Rightarrow> re_match option" where
  "re_search_from r pre post = (case rmatch r (pre, post) [] of
     (st, c) # _ \<Rightarrow> Some \<lparr>m_from = (pre, post), m_to = st, m_caps = c\<rparr>
   | [] \<Rightarrow> (case post of [] \<Rightarrow> None | x # xs \<Rightarrow> re_search_from r (x # pre) xs))"

declare re_search_from.simps [simp del]

definition re_search :: "re \<Rightarrow> jsstr \<Rightarrow> re_match option" where
  "re_search r s = re_search_from r [] s"

definition re_test :: "re \<Rightarrow> jsstr \<Rightarrow> bool" where
  "re_test r s \<longleftrightarrow> re_search r s \<noteq> None"

text \<open>A group that took no part in the match is undefined.\<close>

definition cap :: "re_match \<Rightarrow> nat \<Rightarrow> jsstr option" where
  "cap m n = map_of (m_caps m) n"

definition matched_text :: "re_match \<Rightarrow> jsstr" where
  "matched_text m = take (length (snd (m_from m)) - length (snd (m_to m))) (snd (m_from m))"

text \<open>Every match of a global pattern from a position on. A pattern that matches the empty text
  would make the loops of the sources run forever; the list then ends with that match.\<close>

function re_all_from :: "re \<Rightarrow> rpos \<Rightarrow> re_match list" where
  "re_all_from r st = (case re_search_from r (fst st) (snd st) of
     None \<Rightarrow> []
   | Some m \<Rightarrow> m # (if length (snd (m_to m)) < length (snd st) then re_all_from r (m_to m) else []))"
  by pat_completeness auto
termination
  by (relation "measure (\<lambda>(r, st). length (snd st))") auto

declare re_all_from.simps [simp del]

definition re_all :: "re \<Rightarrow> jsstr \<Rightarrow> re_match list" where
  "re_all r s = re_all_from r ([], s)"

text \<open>\<open>s.replace(/r/g, '')\<close>, used for white space only.\<close>

definition strip_ws :: "jsstr \<Rightarrow> jsstr" where
  "strip_ws = filter (\<lambda>c. \<not> is_ws c)"

section \<open>The first match\<close>

definition re_first :: "re \<Rightarrow> rpos \<Rightarrow> caps \<Rightarrow> (rpos \<times> caps) option" where
  "re_first r st c = (case rmatch r st c of [] \<Rightarrow> None | m # _ \<Rightarrow> Some m)"

lemma re_first_None: "re_first r st c = None \<longleftrightarrow> rmatch r st c = []"
  by (simp add: re_first_def split: list.splits)

lemma re_first_SomeE:
  assumes "re_first r st c = Some m"
  obtains ms where "rmatch r st c = m # ms"
  using assms by (auto simp: re_first_def split: list.splits)

lemma re_first_Eps [simp]: "re_first Eps st c = Some (st, c)"
  by (simp add: re_first_def)

lemma re_first_Seq:
  "re_first a st c = Some m \<Longrightarrow> re_first b (fst m) (snd m) = Some m' \<Longrightarrow> re_first (Seq a b) st c = Some m'"
  by (auto simp: re_first_def split: list.splits)

lemma re_first_Seq_None: "rmatch a st c = [] \<Longrightarrow> rmatch (Seq a b) st c = []"
  by simp

text \<open>A deterministic first part: the sequence does whatever the second part does.\<close>

lemma rmatch_Seq_single: "rmatch a st c = [m] \<Longrightarrow> rmatch (Seq a b) st c = rmatch b (fst m) (snd m)"
  by simp

lemma re_first_Alt_left: "re_first a st c = Some m \<Longrightarrow> re_first (Alt a b) st c = Some m"
  by (auto simp: re_first_def split: list.splits)

lemma re_first_Alt_right: "rmatch a st c = [] \<Longrightarrow> re_first (Alt a b) st c = re_first b st c"
  by (simp add: re_first_def)

lemma re_first_Opt: "re_first (Opt a) st c = Some (case re_first a st c of None \<Rightarrow> (st, c) | Some m \<Rightarrow> m)"
  by (auto simp: Opt_def re_first_def split: list.splits)

lemma re_first_Cap:
  "re_first a st c = Some (st', c') \<Longrightarrow>
   re_first (Cap n a) st c = Some (st', (n, take (length (snd st) - length (snd st')) (snd st)) # c')"
  by (auto simp: re_first_def split: list.splits)

lemma rmatch_Lit: "rmatch (Lit w) (pre, w @ post) c = [((rev w @ pre, post), c)]"
  by (induction w arbitrary: pre) auto

lemma re_first_Lit: "re_first (Lit w) (pre, w @ post) c = Some ((rev w @ pre, post), c)"
  by (simp add: re_first_def rmatch_Lit)

lemma rmatch_Lit_mismatch:
  "\<not> starts_with post w \<Longrightarrow> rmatch (Lit w) (pre, post) c = []"
proof (induction w arbitrary: pre post)
  case Nil
  then show ?case by (simp add: starts_with_def)
next
  case (Cons x w)
  then show ?case by (cases post) (auto simp: starts_with_def)
qed

text \<open>A greedy repetition of a class takes the longest run.\<close>

lemma re_first_Star_Cls:
  assumes "list_all P w" "post = [] \<or> \<not> P (hd post)"
  shows "re_first (Star (Cls P)) (pre, w @ post) c = Some ((rev w @ pre, post), c)"
  using assms
proof (induction w arbitrary: pre)
  case Nil
  then show ?case by (cases post) (auto simp: re_first_def rmatch.simps(5))
next
  case (Cons x w)
  obtain ms where "rmatch (Star (Cls P)) (x # pre, w @ post) c = ((rev w @ x # pre, post), c) # ms"
    using Cons by (auto elim!: re_first_SomeE)
  then show ?case using Cons.prems by (simp add: re_first_def rmatch.simps(5))
qed

lemma re_first_Plus_Cls:
  assumes "list_all P w" "w \<noteq> []" "post = [] \<or> \<not> P (hd post)"
  shows "re_first (Plus (Cls P)) (pre, w @ post) c = Some ((rev w @ pre, post), c)"
proof -
  obtain x v where w: "w = x # v" using assms(2) by (cases w) auto
  then have "re_first (Cls P) (pre, w @ post) c = Some ((x # pre, v @ post), c)"
    using assms(1) by (simp add: re_first_def)
  moreover have "re_first (Star (Cls P)) (x # pre, v @ post) c = Some ((rev v @ x # pre, post), c)"
    using assms w by (intro re_first_Star_Cls) auto
  ultimately show ?thesis unfolding Plus_def w by (auto intro: re_first_Seq)
qed

lemma rmatch_Ws_none: "post = [] \<or> \<not> is_ws (hd post) \<Longrightarrow> rmatch Ws (pre, post) c = [((pre, post), c)]"
  by (cases post) (auto simp: rmatch.simps(5))

lemma rmatch_Ws_one:
  "is_ws x \<Longrightarrow> post = [] \<or> \<not> is_ws (hd post) \<Longrightarrow>
   rmatch Ws (pre, x # post) c = [((x # pre, post), c), ((pre, x # post), c)]"
  by (simp add: rmatch.simps(5) [of "Cls is_ws" "(pre, x # post)"] rmatch_Ws_none)

section \<open>Every match consumes a suffix\<close>

text \<open>A result position is reached by moving forward over the text.\<close>

lemma rmatch_moves:
  "m \<in> set (rmatch r st c) \<Longrightarrow> \<exists>w. snd st = w @ snd (fst m) \<and> fst (fst m) = rev w @ fst st"
proof (induction r st c arbitrary: m rule: rmatch.induct)
  case (3 a b st c)
  then obtain m1 where m1: "m1 \<in> set (rmatch a st c)" "m \<in> set (rmatch b (fst m1) (snd m1))" by auto
  obtain w where "snd st = w @ snd (fst m1)" "fst (fst m1) = rev w @ fst st" using "3.IH"(1) [OF m1(1)] by blast
  moreover obtain v where "snd (fst m1) = v @ snd (fst m)" "fst (fst m) = rev v @ fst (fst m1)"
    using "3.IH"(2) [OF m1] by blast
  ultimately show ?case by (intro exI [of _ "w @ v"]) simp
next
  case (5 a st c)
  consider "m = (st, c)" | m1 where "m1 \<in> set (rmatch a st c)" "length (snd (fst m1)) < length (snd st)"
      "m \<in> set (rmatch (Star a) (fst m1) (snd m1))"
    using "5.prems" by (auto simp: rmatch.simps(5) [of a st c] split: if_splits)
  then show ?case
  proof cases
    case 2
    obtain w where "snd st = w @ snd (fst m1)" "fst (fst m1) = rev w @ fst st" using "5.IH"(1) [OF 2(1)] by blast
    moreover obtain v where "snd (fst m1) = v @ snd (fst m)" "fst (fst m) = rev v @ fst (fst m1)"
      using "5.IH"(2) [OF 2] by blast
    ultimately show ?thesis by (intro exI [of _ "w @ v"]) simp
  qed auto
next
  case (6 a st c)
  consider "m = (st, c)" | m1 where "m1 \<in> set (rmatch a st c)" "length (snd (fst m1)) < length (snd st)"
      "m \<in> set (rmatch (LazyStar a) (fst m1) (snd m1))"
    using "6.prems" by (auto simp: rmatch.simps(6) [of a st c] split: if_splits)
  then show ?case
  proof cases
    case 2
    obtain w where "snd st = w @ snd (fst m1)" "fst (fst m1) = rev w @ fst st" using "6.IH"(1) [OF 2(1)] by blast
    moreover obtain v where "snd (fst m1) = v @ snd (fst m)" "fst (fst m) = rev v @ fst (fst m1)"
      using "6.IH"(2) [OF 2] by blast
    ultimately show ?thesis by (intro exI [of _ "w @ v"]) simp
  qed auto
next
  case (2 P st c)
  then show ?case by (cases "snd st") (auto split: if_splits)
qed (force split: if_splits)+

section \<open>A calculus of first matches\<close>

text \<open>\<open>takes r w post c c'\<close>: in front of \<open>post\<close> the first match of \<open>r\<close> is \<open>w\<close>, wherever the text stands,
  and turns the captures \<open>c\<close> into \<open>c'\<close>. \<open>fails r post\<close>: \<open>r\<close> has no match in front of \<open>post\<close>.\<close>

definition takes :: "re \<Rightarrow> jsstr \<Rightarrow> jsstr \<Rightarrow> caps \<Rightarrow> caps \<Rightarrow> bool" where
  "takes r w post c c' \<longleftrightarrow> (\<forall>pre. re_first r (pre, w @ post) c = Some ((rev w @ pre, post), c'))"

definition fails :: "re \<Rightarrow> jsstr \<Rightarrow> bool" where
  "fails r post \<longleftrightarrow> (\<forall>pre c. rmatch r (pre, post) c = [])"

lemma takes_Eps: "takes Eps [] post c c"
  by (simp add: takes_def)

lemma takes_Seq:
  assumes "takes a w (w' @ post) c c1" "takes b w' post c1 c2"
  shows "takes (Seq a b) (w @ w') post c c2"
  unfolding takes_def
proof
  fix pre
  have "re_first a (pre, w @ w' @ post) c = Some ((rev w @ pre, w' @ post), c1)"
      "re_first b (rev w @ pre, w' @ post) c1 = Some ((rev w' @ rev w @ pre, post), c2)"
    using assms unfolding takes_def by blast+
  then show "re_first (Seq a b) (pre, (w @ w') @ post) c = Some ((rev (w @ w') @ pre, post), c2)"
    using re_first_Seq [of a "(pre, w @ w' @ post)" c _ b] by simp
qed

lemma takes_Lit: "takes (Lit w) w post c c"
  by (simp add: takes_def re_first_Lit)

lemma takes_Star_Cls: "list_all P w \<Longrightarrow> post = [] \<or> \<not> P (hd post) \<Longrightarrow> takes (Star (Cls P)) w post c c"
  by (simp add: takes_def re_first_Star_Cls)

lemma takes_Plus_Cls:
  "list_all P w \<Longrightarrow> w \<noteq> [] \<Longrightarrow> post = [] \<or> \<not> P (hd post) \<Longrightarrow> takes (Plus (Cls P)) w post c c"
  by (simp add: takes_def re_first_Plus_Cls)

lemma takes_Ws: "list_all is_ws w \<Longrightarrow> post = [] \<or> \<not> is_ws (hd post) \<Longrightarrow> takes Ws w post c c"
  by (rule takes_Star_Cls)

lemma takes_Cap: "takes r w post c c' \<Longrightarrow> takes (Cap n r) w post c ((n, w) # c')"
  by (auto simp: takes_def intro: re_first_Cap [THEN trans])

lemma takes_Alt_left: "takes a w post c c' \<Longrightarrow> takes (Alt a b) w post c c'"
  by (auto simp: takes_def intro: re_first_Alt_left)

lemma takes_Alt_right: "fails a (w @ post) \<Longrightarrow> takes b w post c c' \<Longrightarrow> takes (Alt a b) w post c c'"
  by (auto simp: takes_def fails_def re_first_Alt_right)

lemma takes_Opt: "takes r w post c c' \<Longrightarrow> takes (Opt r) w post c c'"
  unfolding Opt_def by (rule takes_Alt_left)

lemma takes_Opt_none: "fails r post \<Longrightarrow> takes (Opt r) [] post c c"
  unfolding Opt_def by (rule takes_Alt_right) (simp_all add: takes_Eps)

lemma takes_Star_end: "fails r post \<Longrightarrow> takes (Star r) [] post c c"
  by (simp add: takes_def fails_def re_first_def rmatch.simps(5))

lemma takes_Star_step:
  assumes "takes r w (w' @ post) c c1" "w \<noteq> []" "takes (Star r) w' post c1 c2"
  shows "takes (Star r) (w @ w') post c c2"
  unfolding takes_def
proof
  fix pre
  obtain ms where "rmatch r (pre, w @ w' @ post) c = ((rev w @ pre, w' @ post), c1) # ms"
    using assms(1) unfolding takes_def by (meson re_first_SomeE)
  moreover obtain ms' where
    "rmatch (Star r) (rev w @ pre, w' @ post) c1 = ((rev w' @ rev w @ pre, post), c2) # ms'"
    using assms(3) unfolding takes_def by (meson re_first_SomeE)
  ultimately show "re_first (Star r) (pre, (w @ w') @ post) c = Some ((rev (w @ w') @ pre, post), c2)"
    using assms(2) by (simp add: re_first_def rmatch.simps(5) [of r "(pre, w @ w' @ post)"])
qed

text \<open>Backtracking into an alternative: a choice in front of a continuation is the choice of the two
  whole sequences.\<close>

lemma takes_Seq_Alt: "takes (Seq (Alt a b) x) w post c c' \<longleftrightarrow> takes (Alt (Seq a x) (Seq b x)) w post c c'"
  by (simp add: takes_def re_first_def)

lemma takes_Seq_Cap_Alt:
  "takes (Seq (Cap n (Alt a b)) x) w post c c' \<longleftrightarrow> takes (Alt (Seq (Cap n a) x) (Seq (Cap n b) x)) w post c c'"
  by (simp add: takes_def re_first_def)

lemma fails_Lit: "\<not> starts_with post w \<Longrightarrow> fails (Lit w) post"
  by (simp add: fails_def rmatch_Lit_mismatch)

lemma fails_Cls: "post = [] \<or> \<not> P (hd post) \<Longrightarrow> fails (Cls P) post"
  by (cases post) (auto simp: fails_def)

lemma fails_Seq: "fails a post \<Longrightarrow> fails (Seq a b) post"
  by (simp add: fails_def)

lemma fails_Plus: "fails a post \<Longrightarrow> fails (Plus a) post"
  unfolding Plus_def by (rule fails_Seq)

lemma fails_Cap: "fails r post \<Longrightarrow> fails (Cap n r) post"
  by (simp add: fails_def)

lemma fails_Alt: "fails a post \<Longrightarrow> fails b post \<Longrightarrow> fails (Alt a b) post"
  by (simp add: fails_def)

lemma fails_Seq_Lit: "fails b post \<Longrightarrow> fails (Seq (Lit w) b) (w @ post)"
  by (simp add: fails_def rmatch_Lit)

lemma fails_Seq_Opt: "fails (Seq a b) post \<Longrightarrow> fails b post \<Longrightarrow> fails (Seq (Opt a) b) post"
  by (simp add: fails_def Opt_def)

lemma fails_Seq_Ws0: "post = [] \<or> \<not> is_ws (hd post) \<Longrightarrow> fails b post \<Longrightarrow> fails (Seq Ws b) post"
  by (simp add: fails_def rmatch_Ws_none)

lemma fails_Seq_Ws1:
  "is_ws x \<Longrightarrow> post = [] \<or> \<not> is_ws (hd post) \<Longrightarrow> fails b post \<Longrightarrow> fails b (x # post) \<Longrightarrow> fails (Seq Ws b) (x # post)"
  by (simp add: fails_def rmatch_Ws_one)

lemma fails_Eps [simp]: "\<not> fails Eps post"
  by (simp add: fails_def)

section \<open>Searching with the calculus\<close>

lemma takes_rmatch:
  "takes r w post c c' \<Longrightarrow> \<exists>ms. rmatch r (pre, w @ post) c = ((rev w @ pre, post), c') # ms"
  unfolding takes_def by (meson re_first_SomeE)

lemma re_search_takes:
  assumes "takes r w post [] c"
  shows "re_search_from r pre (w @ post) = Some \<lparr>m_from = (pre, w @ post), m_to = (rev w @ pre, post), m_caps = c\<rparr>"
  using takes_rmatch [OF assms, of pre] by (auto simp: re_search_from.simps)

lemma re_search_skip: "fails r (x # xs) \<Longrightarrow> re_search_from r pre (x # xs) = re_search_from r (x # pre) xs"
  by (simp add: fails_def re_search_from.simps [of r pre "x # xs"])

lemma re_search_end: "fails r [] \<Longrightarrow> re_search_from r pre [] = None"
  by (simp add: fails_def re_search_from.simps)

text \<open>The positions inside \<open>u\<close>, in front of \<open>rest\<close>, where a search moves on.\<close>

primrec fails_along :: "re \<Rightarrow> jsstr \<Rightarrow> jsstr \<Rightarrow> bool" where
  "fails_along r [] rest = True"
| "fails_along r (x # u) rest = (fails r (x # u @ rest) \<and> fails_along r u rest)"

lemma re_search_along:
  "fails_along r u rest \<Longrightarrow> re_search_from r pre (u @ rest) = re_search_from r (rev u @ pre) rest"
  by (induction u arbitrary: pre) (auto simp: re_search_skip)

lemma re_all_takes:
  assumes "fails_along r u (w @ post)" "takes r w post [] c" "w \<noteq> []"
  shows "re_all_from r (pre, u @ w @ post) =
    \<lparr>m_from = (rev u @ pre, w @ post), m_to = (rev w @ rev u @ pre, post), m_caps = c\<rparr> #
    re_all_from r (rev w @ rev u @ pre, post)"
  using assms(3) re_search_takes [OF assms(2), of "rev u @ pre"] re_search_along [OF assms(1), of pre]
  by (simp add: re_all_from.simps [of r "(pre, u @ w @ post)"])

lemma re_all_end: "fails_along r u [] \<Longrightarrow> fails r [] \<Longrightarrow> re_all_from r (pre, u) = []"
  using re_search_along [of r u "[]" pre] by (simp add: re_all_from.simps re_search_end)

declare Lit.simps [simp del]

end
