(* ===== verification/Playground_Chat.thy ===== *)
theory Playground_Chat
  imports Js_Regex Js_Json
begin

text \<open>
  The conversation of the playground: message helpers of \<open>helpers/utils.jsx\<close>, the request payload of
  \<open>helpers/api.js\<close>, the streaming and plain requests of \<open>hooks/playground/useApiRequest.jsx\<close>, the
  actions of \<open>useMessageActions.jsx\<close> and the editing of \<open>useMessageEdit.jsx\<close>.

  A message is a JavaScript object. \<open>setMessage\<close> with an updater is a function on the list of
  messages; a save scheduled with \<open>setTimeout\<close> is appended to a list. The clock, random ids, the
  texts of exceptions and stacks, and the translation function are arguments.
\<close>

section \<open>Message helpers\<close>

abbreviation mget :: "jsobj \<Rightarrow> string \<Rightarrow> jsval" where
  "mget m k \<equiv> obj_get m (lit k)"

abbreviation mput :: "jsobj \<Rightarrow> string \<Rightarrow> jsval \<Rightarrow> jsobj" where
  "mput m k v \<equiv> obj_put m (lit k) v"

text \<open>\<open>generateMessageId\<close> from the three parts in base 36: the time, the counter and four random
  characters. The counter goes up by one with each call.\<close>

definition generateMessageId :: "jsstr \<Rightarrow> jsstr \<Rightarrow> jsstr \<Rightarrow> jsstr" where
  "generateMessageId ts sq rn = lit ''msg_'' @ ts @ sq @ rn"

definition getTextContent :: "jsobj option \<Rightarrow> jsval" where
  "getTextContent message = (case message of
     None \<Rightarrow> Str []
   | Some m \<Rightarrow>
       (case mget m ''content'' of
          Arr items \<Rightarrow>
            (case find (\<lambda>it. opt_prop it (lit ''type'') = Str (lit ''text'')) items of
               None \<Rightarrow> Str [] | Some it \<Rightarrow> js_or (opt_prop it (lit ''text'')) (Str []))
        | Str s \<Rightarrow> Str s
        | _ \<Rightarrow> Str []))"

subsection \<open>Think tags\<close>

definition think_open :: jsstr where "think_open = lit ''<think>''"
definition think_close :: jsstr where "think_close = lit ''</think>''"

text \<open>\<open>/<think>([\s\S]*?)<\/think>/g\<close>\<close>

definition THINK_TAG_REGEX :: re where
  "THINK_TAG_REGEX = Seqs [Lit think_open, Cap 1 (LazyStar (Cls (\<lambda>_. True))), Lit think_close]"

definition thought_sep :: jsstr where
  "thought_sep = [10, 10] @ lit ''---'' @ [10, 10]"

text \<open>The texts between the matches: each runs from the end of the match before it.\<close>

fun reply_parts :: "jsstr \<Rightarrow> nat \<Rightarrow> re_match list \<Rightarrow> jsstr list" where
  "reply_parts s i [] = [drop i s]"
| "reply_parts s i (m # ms) =
     take (length (fst (m_from m)) - i) (drop i s) # reply_parts s (length (fst (m_to m))) ms"

text \<open>\<open>replace(/<\/?think>/g, '')\<close>\<close>

fun drop_tags :: "nat \<Rightarrow> jsstr \<Rightarrow> jsstr" where
  "drop_tags 0 s = s"
| "drop_tags (Suc n) [] = []"
| "drop_tags (Suc n) (c # cs) =
     (case strip_prefix think_open (c # cs) of
        Some r \<Rightarrow> drop_tags n r
      | None \<Rightarrow> (case strip_prefix think_close (c # cs) of
          Some r \<Rightarrow> drop_tags n r
        | None \<Rightarrow> c # drop_tags n cs))"

definition strip_tags :: "jsstr \<Rightarrow> jsstr" where
  "strip_tags s = drop_tags (length s) s"

definition with_thought :: "jsstr \<Rightarrow> jsstr \<Rightarrow> jsstr" where
  "with_thought reasoning thought =
     (if reasoning \<noteq> [] \<and> thought \<noteq> [] then reasoning @ thought_sep @ thought
      else if reasoning \<noteq> [] then reasoning else thought)"

text \<open>Both functions return the content and the reasoning.\<close>

definition processThinkTags :: "jsstr \<Rightarrow> jsstr \<Rightarrow> jsstr \<times> jsstr" where
  "processThinkTags content reasoning =
     (if content = [] \<or> \<not> str_includes content think_open then (content, reasoning)
      else (let ms = re_all THINK_TAG_REGEX content;
                thoughts = map (\<lambda>m. case cap m 1 of None \<Rightarrow> [] | Some w \<Rightarrow> w) ms
        in (trim (strip_tags (concat (reply_parts content 0 ms))), with_thought reasoning (join thought_sep thoughts))))"

text \<open>\<open>s.lastIndexOf(sub)\<close> as the text before and the text from there on.\<close>

fun split_last :: "jsstr \<Rightarrow> jsstr \<Rightarrow> (jsstr \<times> jsstr) option" where
  "split_last sub [] = (if sub = [] then Some ([], []) else None)"
| "split_last sub (c # cs) = (case split_last sub cs of
     Some (a, b) \<Rightarrow> Some (c # a, b)
   | None \<Rightarrow> if starts_with (c # cs) sub then Some ([], c # cs) else None)"

definition processIncompleteThinkTags :: "jsstr \<Rightarrow> jsstr \<Rightarrow> jsstr \<times> jsstr" where
  "processIncompleteThinkTags content reasoning =
     (if content = [] then ([], reasoning)
      else case split_last think_open content of
        None \<Rightarrow> processThinkTags content reasoning
      | Some (before, fragment) \<Rightarrow>
          if \<not> str_includes fragment think_close
          then processThinkTags before (with_thought reasoning (trim (drop (length think_open) fragment)))
          else processThinkTags content reasoning)"

subsection \<open>Building messages\<close>

text \<open>Image addresses are texts.\<close>

definition buildMessageContent :: "jsstr \<Rightarrow> jsstr list \<Rightarrow> bool \<Rightarrow> jsval" where
  "buildMessageContent text imageUrls imageEnabled =
     (if text = [] \<and> imageUrls = [] then Str []
      else (let valid = filter (\<lambda>u. u \<noteq> [] \<and> trim u \<noteq> []) imageUrls
        in if imageEnabled \<and> valid \<noteq> []
           then Arr (Obj [(lit ''type'', Str (lit ''text'')), (lit ''text'', Str text)] #
             map (\<lambda>u. Obj [(lit ''type'', Str (lit ''image_url'')), (lit ''image_url'', Obj [(lit ''url'', Str (trim u))])]) valid)
           else Str text))"

definition createMessage :: "jsnum \<Rightarrow> jsstr \<Rightarrow> jsstr \<Rightarrow> jsval \<Rightarrow> jsobj \<Rightarrow> jsobj" where
  "createMessage now mid role content options =
     obj_merge [(lit ''role'', Str role), (lit ''content'', content), (lit ''createAt'', Num now), (lit ''id'', Str mid)] options"

definition createLoadingAssistantMessage :: "jsnum \<Rightarrow> jsstr \<Rightarrow> jsobj" where
  "createLoadingAssistantMessage now mid = createMessage now mid (lit ''assistant'') (Str [])
     [(lit ''reasoningContent'', Str []), (lit ''isReasoningExpanded'', Bool True), (lit ''isThinkingComplete'', Bool False),
      (lit ''hasAutoCollapsed'', Bool False), (lit ''status'', Str (lit ''loading''))]"

definition hasImageContent :: "jsobj \<Rightarrow> bool" where
  "hasImageContent m = (case mget m ''content'' of
     Arr items \<Rightarrow> list_ex (\<lambda>it. opt_prop it (lit ''type'') = Str (lit ''image_url'')) items | _ \<Rightarrow> False)"

definition formatMessageForAPI :: "jsobj \<Rightarrow> jsobj" where
  "formatMessageForAPI m = [(lit ''role'', mget m ''role''), (lit ''content'', mget m ''content'')]"

definition isValidMessage :: "jsobj \<Rightarrow> bool" where
  "isValidMessage m \<longleftrightarrow> truthy (mget m ''role'') \<and> (truthy (mget m ''content'') \<or> mget m ''content'' = Str [])"

definition getLastUserMessage :: "jsobj list \<Rightarrow> jsobj option" where
  "getLastUserMessage ms = find (\<lambda>m. mget m ''role'' = Str (lit ''user'')) (rev ms)"

definition getLastAssistantMessage :: "jsobj list \<Rightarrow> jsobj option" where
  "getLastAssistantMessage ms = find (\<lambda>m. mget m ''role'' = Str (lit ''assistant'')) (rev ms)"

section \<open>The request\<close>

definition parameterMappings :: "string list" where
  "parameterMappings = [''temperature'', ''top_p'', ''max_tokens'', ''frequency_penalty'', ''presence_penalty'', ''seed'']"

definition add_parameter :: "jsobj \<Rightarrow> jsobj \<Rightarrow> jsobj \<Rightarrow> string \<Rightarrow> jsobj" where
  "add_parameter inputs parameterEnabled payload k =
     (let v = mget inputs k
      in if \<not> truthy (mget parameterEnabled k) then payload
         else if k = ''max_tokens'' then (if is_num v then mput payload k v else payload)
         else if \<not> nullish v then mput payload k v else payload)"

definition buildApiPayload :: "jsobj list \<Rightarrow> jsstr \<Rightarrow> jsobj \<Rightarrow> jsobj \<Rightarrow> jsstr \<Rightarrow> jsobj" where
  "buildApiPayload ms systemPrompt inputs parameterEnabled modality =
     (let processed = map (\<lambda>m. Obj (formatMessageForAPI m)) (filter isValidMessage ms);
          all = (if systemPrompt \<noteq> [] \<and> trim systemPrompt \<noteq> []
                 then Obj [(lit ''role'', Str (lit ''system'')), (lit ''content'', Str (trim systemPrompt))] # processed
                 else processed);
          payload = [(lit ''model'', mget inputs ''model''), (lit ''group'', mget inputs ''group''),
                     (lit ''messages'', Arr all), (lit ''stream'', mget inputs ''stream'')]
      in if modality = [] \<or> modality = lit ''text'' \<or> modality = lit ''multimodal''
         then foldl (add_parameter inputs parameterEnabled) payload parameterMappings
         else payload)"

text \<open>An exception with its message and stack; \<open>response\<close> is the status and status text.\<close>

record js_exn =
  ex_message :: jsstr
  ex_stack :: jsval

definition handleApiError :: "jsstr \<Rightarrow> js_exn \<Rightarrow> (jsnum \<times> jsstr) option \<Rightarrow> jsobj" where
  "handleApiError now ex response =
     (let info = [(lit ''error'', Str (if ex_message ex = [] then [26410, 30693, 38169, 35823] else ex_message ex)),
            (lit ''timestamp'', Str now), (lit ''stack'', ex_stack ex)];
          info1 = (case response of None \<Rightarrow> info
             | Some (st, tx) \<Rightarrow> info @ [(lit ''status'', Num st), (lit ''statusText'', Str tx)])
      in if str_includes (ex_message ex) (lit ''HTTP error'') then info1 @ [(lit ''details'', Str ([26381, 21153, 22120, 36820, 22238, 20102, 38169, 35823, 29366, 24577, 30721]))]
         else if str_includes (ex_message ex) (lit ''Failed to fetch'')
         then info1 @ [(lit ''details'', Str ([32593, 32476, 36830, 25509, 22833, 36133, 25110, 26381, 21153, 22120, 26080, 21709, 24212]))]
         else info1)"

section \<open>Updates of the last message\<close>

abbreviation "LOADING \<equiv> Str (lit ''loading'')"
abbreviation "INCOMPLETE \<equiv> Str (lit ''incomplete'')"
abbreviation "COMPLETE \<equiv> Str (lit ''complete'')"
abbreviation "ERROR \<equiv> Str (lit ''error'')"

text \<open>The three properties of \<open>applyAutoCollapseLogic\<close>; the default of its second argument applies to
  an undefined one.\<close>

definition applyAutoCollapseLogic :: "jsobj \<Rightarrow> jsval \<Rightarrow> jsobj" where
  "applyAutoCollapseLogic m complete0 =
     (let complete = (if complete0 = Undefined then Bool True else complete0);
          collapse = (truthy complete \<and> \<not> truthy (mget m ''hasAutoCollapsed''))
      in [(lit ''isThinkingComplete'', complete),
          (lit ''hasAutoCollapsed'', if collapse then Bool True else mget m ''hasAutoCollapsed''),
          (lit ''isReasoningExpanded'', if collapse then Bool False else mget m ''isReasoningExpanded'')])"

datatype chunk_type = Reasoning | Content

definition occurrences :: "jsstr \<Rightarrow> jsstr \<Rightarrow> nat" where
  "occurrences w s = length (re_all (Lit w) s)"

definition text_or_empty :: "jsval \<Rightarrow> jsstr" where
  "text_or_empty v = to_str (js_or v (Str []))"

definition stream_reasoning :: "jsstr \<Rightarrow> jsobj \<Rightarrow> jsobj" where
  "stream_reasoning chunk m = obj_merge m
     [(lit ''reasoningContent'', Str (text_or_empty (mget m ''reasoningContent'') @ chunk)),
      (lit ''status'', INCOMPLETE), (lit ''isThinkingComplete'', Bool False)]"

definition stream_content :: "jsstr \<Rightarrow> jsobj \<Rightarrow> jsobj" where
  "stream_content chunk m =
     (let newContent = text_or_empty (mget m ''content'') @ chunk;
          opens = occurrences think_open newContent; closes = occurrences think_close newContent;
          fromTags = (if truthy (mget m ''isReasoningExpanded'') \<and> str_includes newContent think_close \<and>
              opens \<noteq> 0 \<and> closes \<noteq> 0 \<and> opens \<le> closes
            then Bool True else mget m ''isThinkingComplete'');
          complete = (if truthy (mget m ''reasoningContent'') \<and> \<not> truthy (mget m ''isThinkingComplete'')
            then Bool True else fromTags)
      in obj_merge (obj_merge m [(lit ''content'', Str newContent), (lit ''status'', INCOMPLETE)])
           (applyAutoCollapseLogic m complete))"

definition streamMessageUpdate :: "jsstr \<Rightarrow> chunk_type \<Rightarrow> jsobj list \<Rightarrow> jsobj list" where
  "streamMessageUpdate chunk ty ms =
     (if ms = [] then ms
      else (let m = last ms
        in if mget m ''role'' \<noteq> Str (lit ''assistant'') then ms
           else if mget m ''status'' = LOADING \<or> mget m ''status'' = INCOMPLETE
           then butlast ms @ [case ty of Reasoning \<Rightarrow> stream_reasoning chunk m | Content \<Rightarrow> stream_content chunk m]
           else ms))"

text \<open>The new list, and whether it is saved. Reading the status of a missing message throws.\<close>

definition completeMessage :: "jsval \<Rightarrow> jsobj list \<Rightarrow> (jsobj list \<times> bool) res" where
  "completeMessage status ms =
     (if ms = [] then Inl TypeError
      else (let m = last ms
        in if mget m ''status'' = COMPLETE \<or> mget m ''status'' = ERROR then Inr (ms, False)
           else Inr (butlast ms @ [obj_merge (mput m ''status'' status) (applyAutoCollapseLogic m (Bool True))],
             status = COMPLETE \<or> status = ERROR)))"

section \<open>Requests\<close>

text \<open>A stream is the object made by \<open>new SSE(...)\<close> with the variables its listeners share; streams are
  numbered in the order they are opened.\<close>

record stream =
  sm_open :: bool
  sm_complete :: bool
  sm_first :: bool
  sm_data :: jsstr

record debug =
  d_request :: jsval
  d_timestamp :: jsstr
  d_response :: jsval
  d_sse :: "jsstr list option"
  d_streaming :: bool
  d_tab :: jsstr

record chat =
  ch_messages :: "jsobj list"
  ch_saves :: "jsobj list list"
  ch_source :: "nat option"
  ch_streams :: "stream list"
  ch_debug :: debug

abbreviation "TAB_REQUEST \<equiv> lit ''request''"
abbreviation "TAB_RESPONSE \<equiv> lit ''response''"

definition set_messages :: "jsobj list \<times> bool \<Rightarrow> chat \<Rightarrow> chat" where
  "set_messages r ch = ch\<lparr>ch_messages := fst r, ch_saves := ch_saves ch @ (if snd r then [fst r] else [])\<rparr>"

definition stream_update :: "jsstr \<Rightarrow> chunk_type \<Rightarrow> chat \<Rightarrow> chat" where
  "stream_update chunk ty ch = ch\<lparr>ch_messages := streamMessageUpdate chunk ty (ch_messages ch)\<rparr>"

definition complete_chat :: "jsval \<Rightarrow> chat \<Rightarrow> chat res" where
  "complete_chat status ch = map_sum id (\<lambda>r. set_messages r ch) (completeMessage status (ch_messages ch))"

definition upd_stream :: "nat \<Rightarrow> (stream \<Rightarrow> stream) \<Rightarrow> chat \<Rightarrow> chat" where
  "upd_stream i f ch = ch\<lparr>ch_streams := (ch_streams ch)[i := f (ch_streams ch ! i)]\<rparr>"

definition upd_debug :: "(debug \<Rightarrow> debug) \<Rightarrow> chat \<Rightarrow> chat" where
  "upd_debug f ch = ch\<lparr>ch_debug := f (ch_debug ch)\<rparr>"

definition add_sse :: "jsstr \<Rightarrow> debug \<Rightarrow> debug" where
  "add_sse x d = d\<lparr>d_sse := Some ((case d_sse d of None \<Rightarrow> [] | Some xs \<Rightarrow> xs) @ [x])\<rparr>"

definition respond :: "jsstr \<Rightarrow> debug \<Rightarrow> debug" where
  "respond r d = d\<lparr>d_response := Str r, d_tab := TAB_RESPONSE\<rparr>"

text \<open>Opening a stream; \<open>start\<close> is the exception of \<open>source.stream()\<close>, if it throws.\<close>

definition handleSSE :: "(jsstr \<Rightarrow> jsstr) \<Rightarrow> jsstr \<Rightarrow> jsval \<Rightarrow> js_exn option \<Rightarrow> chat \<Rightarrow> chat res" where
  "handleSSE t now payload start ch =
     (let ch1 = ch\<lparr>ch_debug := \<lparr>d_request = payload, d_timestamp = now, d_response = Null, d_sse = Some [],
                     d_streaming = True, d_tab = TAB_REQUEST\<rparr>,
                   ch_source := Some (length (ch_streams ch)),
                   ch_streams := ch_streams ch @ [\<lparr>sm_open = True, sm_complete = False, sm_first = False, sm_data = []\<rparr>]\<rparr>
      in case start of
           None \<Rightarrow> Inr ch1
         | Some ex \<Rightarrow>
             complete_chat ERROR (stream_update (t ([24314, 31435, 36830, 25509, 26102, 21457, 29983, 38169, 35823])) Content
               (upd_debug (respond ([83, 116, 114, 101, 97, 109, 21551, 21160, 22833, 36133, 58] @ [10] @ to_str (stringify2 (Obj (handleApiError now ex None))))) ch1)))"

definition apply_delta :: "jsval \<Rightarrow> chat \<Rightarrow> chat" where
  "apply_delta delta ch =
     (let r = opt_prop delta (lit ''reasoning_content''); r2 = opt_prop delta (lit ''reasoning''); c = opt_prop delta (lit ''content'');
          ch1 = (if truthy r then stream_update (to_str r) Reasoning ch else ch);
          ch2 = (if truthy r2 then stream_update (to_str r2) Reasoning ch1 else ch1)
      in if truthy c then stream_update (to_str c) Content ch2 else ch2)"

text \<open>The \<open>message\<close> listener of stream \<open>i\<close>. \<open>errText\<close> is the text of a caught exception.\<close>

definition sse_failed :: "(jsstr \<Rightarrow> jsstr) \<Rightarrow> (jserr \<Rightarrow> jsstr) \<Rightarrow> nat \<Rightarrow> jsstr \<Rightarrow> jserr \<Rightarrow> chat \<Rightarrow> chat res" where
  "sse_failed t errText i data e ch =
     complete_chat ERROR (stream_update (t ([35299, 26512, 21709, 24212, 25968, 25454, 26102, 21457, 29983, 38169, 35823])) Content
       (upd_debug (\<lambda>d. (add_sse data (respond (sm_data (ch_streams ch ! i) @ [10, 10] @ [69, 114, 114, 111, 114, 58, 32, 35299, 26512, 38169, 35823, 58, 32] @ errText e) d))
          \<lparr>d_streaming := False\<rparr>) ch))"

definition on_message :: "(jsstr \<Rightarrow> jsstr) \<Rightarrow> (jserr \<Rightarrow> jsstr) \<Rightarrow> nat \<Rightarrow> jsstr \<Rightarrow> chat \<Rightarrow> chat res" where
  "on_message t errText i data ch =
     (if data = lit ''[DONE]'' then
        complete_chat COMPLETE
          (upd_debug (\<lambda>d. (add_sse data d)\<lparr>d_response := Str (sm_data (ch_streams ch ! i)), d_streaming := False\<rparr>)
             (upd_stream i (\<lambda>sm. sm\<lparr>sm_complete := True, sm_open := False\<rparr>) (ch\<lparr>ch_source := None\<rparr>)))
      else case json_parse data of
        Inl e \<Rightarrow> sse_failed t errText i data e ch
      | Inr payload \<Rightarrow>
          (let first = sm_first (ch_streams ch ! i);
               ch1 = upd_stream i (\<lambda>sm. sm\<lparr>sm_data := sm_data sm @ data @ [10], sm_first := True\<rparr>) ch;
               ch2 = upd_debug (\<lambda>d. add_sse data (if first then d else d\<lparr>d_tab := TAB_RESPONSE\<rparr>)) ch1
           in if nullish payload then sse_failed t errText i data TypeError ch2
              else (let delta = opt_prop (opt_prop (opt_prop payload (lit ''choices'')) (lit ''0'')) (lit ''delta'')
                in Inr (if truthy delta then apply_delta delta ch2 else ch2))))"

text \<open>The \<open>error\<close> listener: \<open>readyState\<close> is that of the source, \<open>data\<close> the data of the event.\<close>

definition error_text :: "(jsstr \<Rightarrow> jsstr) \<Rightarrow> jsval \<Rightarrow> jsval \<times> jsval" where
  "error_text t data =
     (let msg = js_or data (Str (t ([35831, 27714, 21457, 29983, 38169, 35823])))
      in case data of
           Str s \<Rightarrow>
             if s = [] then (msg, Null)
             else (case json_parse s of
               Inl e \<Rightarrow> (msg, Null)
             | Inr j \<Rightarrow>
                 (let er = opt_prop j (lit ''error'')
                  in if truthy er then (js_or (opt_prop er (lit ''message'')) msg, js_or (opt_prop er (lit ''code'')) Null)
                     else (msg, Null)))
         | _ \<Rightarrow> (msg, Null))"

definition fail_last :: "jsval \<Rightarrow> jsval \<Rightarrow> jsobj list \<Rightarrow> jsobj list" where
  "fail_last msg code ms =
     (if ms \<noteq> [] \<and> mget (last ms) ''status'' \<noteq> COMPLETE \<and> mget (last ms) ''status'' \<noteq> ERROR
      then butlast ms @ [obj_merge (last ms) [(lit ''content'', Str (text_or_empty (mget (last ms) ''content'') @ to_str msg)),
             (lit ''errorCode'', code), (lit ''status'', ERROR)]]
      else ms)"

definition on_error :: "(jsstr \<Rightarrow> jsstr) \<Rightarrow> jsstr \<Rightarrow> jsval \<Rightarrow> nat \<Rightarrow> jsval \<Rightarrow> nat \<Rightarrow> chat \<Rightarrow> chat" where
  "on_error t now stack i data readyState ch =
     (if sm_complete (ch_streams ch ! i) \<or> readyState = 2 then ch
      else (case error_text t data of (msg, code) \<Rightarrow>
        (let info = handleApiError now \<lparr>ex_message = to_str msg, ex_stack = stack\<rparr> None @
               [(lit ''readyState'', Num (num_of_nat readyState))]
         in upd_stream i (\<lambda>sm. sm\<lparr>sm_open := False\<rparr>)
              (upd_debug (respond (sm_data (ch_streams ch ! i) @ [10, 10] @ lit ''SSE Error:'' @ [10] @ to_str (stringify2 (Obj info))))
                (ch\<lparr>ch_messages := fail_last msg code (ch_messages ch), ch_source := None\<rparr>)))))"

text \<open>The \<open>readystatechange\<close> listener: \<open>readyState\<close> is that of the event, which is the one the source has
  just taken, \<open>status\<close> the HTTP status.\<close>

definition on_readystate :: "(jsstr \<Rightarrow> jsstr) \<Rightarrow> jsstr \<Rightarrow> jsval \<Rightarrow> nat \<Rightarrow> nat \<Rightarrow> nat option \<Rightarrow> chat \<Rightarrow> chat res" where
  "on_readystate t now stack i readyState status ch =
     (if 2 \<le> readyState \<and> status \<noteq> None \<and> status \<noteq> Some 200 \<and> \<not> sm_complete (ch_streams ch ! i)
      then (let info = obj_put (obj_put (handleApiError now \<lparr>ex_message = [72, 84, 84, 80, 29366, 24577, 38169, 35823], ex_stack = stack\<rparr> None)
                (lit ''status'') (Num (num_of_nat (the status)))) (lit ''readyState'') (Num (num_of_nat readyState))
        in complete_chat ERROR (stream_update (t ([36830, 25509, 24050, 26029, 24320])) Content
             (upd_stream i (\<lambda>sm. sm\<lparr>sm_open := False\<rparr>)
               (upd_debug (respond (sm_data (ch_streams ch ! i) @ [10, 10] @ lit ''HTTP Error:'' @ [10] @ to_str (stringify2 (Obj info)))) ch))))
      else Inr ch)"

definition stop_last :: "jsobj list \<Rightarrow> jsobj list \<times> bool" where
  "stop_last ms =
     (if ms \<noteq> [] \<and> (mget (last ms) ''status'' = LOADING \<or> mget (last ms) ''status'' = INCOMPLETE)
      then (case processIncompleteThinkTags (text_or_empty (mget (last ms) ''content'')) (text_or_empty (mget (last ms) ''reasoningContent'')) of
        (content, reasoning) \<Rightarrow>
          (butlast ms @ [obj_merge (obj_merge (last ms)
             [(lit ''status'', COMPLETE), (lit ''reasoningContent'', if reasoning = [] then Null else Str reasoning),
              (lit ''content'', Str content)]) (applyAutoCollapseLogic (last ms) (Bool True))], True))
      else (ms, False))"

definition onStopGenerator :: "chat \<Rightarrow> chat" where
  "onStopGenerator ch =
     (let ch1 = (case ch_source ch of None \<Rightarrow> ch
            | Some i \<Rightarrow> (upd_stream i (\<lambda>sm. sm\<lparr>sm_open := False\<rparr>) ch)\<lparr>ch_source := None\<rparr>)
      in set_messages (stop_last (ch_messages ch1)) ch1)"

subsection \<open>Plain requests\<close>

text \<open>How the request can end: no answer, an error status with the text of its body if that could be
  read, a body that is not JSON, or data.\<close>

datatype plain_outcome = FetchFailed js_exn | HttpError jsnum jsstr "jsstr option" | BadBody js_exn | Answer jsval

definition plain_start :: "jsstr \<Rightarrow> jsval \<Rightarrow> chat \<Rightarrow> chat" where
  "plain_start now payload ch = ch\<lparr>ch_debug := \<lparr>d_request = payload, d_timestamp = now, d_response = Null, d_sse = None,
     d_streaming = False, d_tab = TAB_REQUEST\<rparr>\<rparr>"

definition settle_last :: "jsobj \<Rightarrow> jsobj list \<Rightarrow> jsobj list" where
  "settle_last patch ms =
     (if ms \<noteq> [] \<and> mget (last ms) ''status'' = LOADING
      then butlast ms @ [obj_merge (obj_merge (last ms) patch) (applyAutoCollapseLogic (last ms) (Bool True))] else ms)"

definition plain_failed :: "(jsstr \<Rightarrow> jsstr) \<Rightarrow> jsstr \<Rightarrow> js_exn \<Rightarrow> jsval \<Rightarrow> chat \<Rightarrow> chat" where
  "plain_failed t now ex code ch =
     (let ch1 = upd_debug (respond (to_str (stringify2 (Obj (handleApiError now ex None))))) ch
      in ch1\<lparr>ch_messages := settle_last [(lit ''content'', Str (t ([35831, 27714, 21457, 29983, 38169, 35823, 58, 32]) @ ex_message ex)),
           (lit ''errorCode'', code), (lit ''status'', ERROR)] (ch_messages ch1)\<rparr>)"

text \<open>The error thrown for an error status: the message and code of a JSON body, if it has them.\<close>

definition http_error :: "jsval \<Rightarrow> jsnum \<Rightarrow> jsstr option \<Rightarrow> jsstr \<times> js_exn \<times> jsval" where
  "http_error stack status body =
     (let parsed = (case body of None \<Rightarrow> Null
            | Some b \<Rightarrow> (case json_parse b of Inl e \<Rightarrow> Null
                | Inr j \<Rightarrow> (let er = opt_prop j (lit ''error'') in if truthy er then er else Null)));
          errorBody = (case body of None \<Rightarrow> [26080, 27861, 35835, 21462, 38169, 35823, 21709, 24212, 20307] | Some b \<Rightarrow>
             if b = [] then [26080, 27861, 35835, 21462, 38169, 35823, 21709, 24212, 20307] else b);
          text = lit ''HTTP error! status: '' @ num_to_str status @ lit '', body: '' @ errorBody
      in (text, \<lparr>ex_message = to_str (js_or (opt_prop parsed (lit ''message'')) (Str text)), ex_stack = stack\<rparr>,
          js_or (opt_prop parsed (lit ''code'')) Null))"

text \<open>The content of an answer is a text.\<close>

definition plain_answer :: "jsval \<Rightarrow> jsobj list \<Rightarrow> jsobj list" where
  "plain_answer data ms =
     (let choice = opt_prop (opt_prop data (lit ''choices'')) (lit ''0''); msg = opt_prop choice (lit ''message'')
      in if \<not> truthy choice then ms
         else (case processThinkTags (to_str (js_or (opt_prop msg (lit ''content'')) (Str [])))
             (to_str (js_or (js_or (opt_prop msg (lit ''reasoning_content'')) (opt_prop msg (lit ''reasoning''))) (Str []))) of
           (content, reasoning) \<Rightarrow> settle_last [(lit ''content'', Str content), (lit ''reasoningContent'', Str reasoning),
             (lit ''status'', COMPLETE)] ms))"

definition plain_finish :: "(jsstr \<Rightarrow> jsstr) \<Rightarrow> jsstr \<Rightarrow> jsval \<Rightarrow> js_exn \<Rightarrow> plain_outcome \<Rightarrow> chat \<Rightarrow> chat" where
  "plain_finish t now stack nullExn outcome ch = (case outcome of
     FetchFailed ex \<Rightarrow> plain_failed t now ex Null ch
   | BadBody ex \<Rightarrow> plain_failed t now ex Null ch
   | HttpError status statusText body \<Rightarrow>
       (case http_error stack status body of (text, ex, code) \<Rightarrow>
         plain_failed t now ex code
           (upd_debug (respond (to_str (stringify2 (Obj (handleApiError now \<lparr>ex_message = text, ex_stack = stack\<rparr> (Some (status, statusText))))))) ch))
   | Answer data \<Rightarrow>
       (let ch1 = upd_debug (respond (to_str (stringify2 data))) ch
        in if nullish data then plain_failed t now nullExn Null ch1
           else ch1\<lparr>ch_messages := plain_answer data (ch_messages ch1)\<rparr>))"

section \<open>Actions on messages\<close>

text \<open>The index of a message: that of the same object, \<open>ref\<close>, if it is in the list, else the first with
  the same id.\<close>

definition find_index :: "('a \<Rightarrow> bool) \<Rightarrow> 'a list \<Rightarrow> nat option" where
  "find_index P xs = map_option fst (find (\<lambda>(i, x). P x) (List.enumerate 0 xs))"

definition message_index :: "nat option \<Rightarrow> jsval \<Rightarrow> jsobj list \<Rightarrow> nat option" where
  "message_index ref mid ms = (case ref of Some i \<Rightarrow> Some i | None \<Rightarrow> find_index (\<lambda>m. mget m ''id'' = mid) ms)"

fun user_before :: "jsobj list \<Rightarrow> nat \<Rightarrow> nat option" where
  "user_before ms 0 = None"
| "user_before ms (Suc i) = (if mget (ms ! i) ''role'' = Str (lit ''user'') then Some i else user_before ms i)"

text \<open>Regenerating: the messages that stay, and the user message with the assistant message that
  are sent again.\<close>

definition handleMessageReset :: "nat option \<Rightarrow> jsobj \<Rightarrow> jsobj list \<Rightarrow> jsobj list \<times> (jsobj \<times> jsobj option) option" where
  "handleMessageReset ref target ms = (case message_index ref (mget target ''id'') ms of
     None \<Rightarrow> (ms, None)
   | Some i \<Rightarrow>
       if mget target ''role'' = Str (lit ''user'') then
         (take i ms, Some (target,
            if Suc i < length ms \<and> mget (ms ! Suc i) ''role'' = Str (lit ''assistant'') then Some (ms ! Suc i) else None))
       else if mget target ''role'' = Str (lit ''assistant'') \<or> mget target ''role'' = Str (lit ''system'') then
         (case user_before ms i of
            Some u \<Rightarrow> (take u ms, Some (ms ! u, Some target))
          | None \<Rightarrow> (ms, None))
       else (ms, None))"

definition handleMessageDelete :: "nat option \<Rightarrow> jsobj \<Rightarrow> jsobj list \<Rightarrow> jsobj list \<times> bool" where
  "handleMessageDelete ref target ms = (case message_index ref (mget target ''id'') ms of
     None \<Rightarrow> (ms, False)
   | Some i \<Rightarrow>
       if mget target ''role'' = Str (lit ''user'') \<and> Suc i < length ms \<and> mget (ms ! Suc i) ''role'' = Str (lit ''assistant'')
       then (take i ms @ drop (Suc (Suc i)) ms, True)
       else (filter (\<lambda>m. mget m ''id'' \<noteq> mget target ''id'') ms, True))"

definition handleRoleToggle :: "jsobj \<Rightarrow> jsobj list \<Rightarrow> jsobj list \<times> bool" where
  "handleRoleToggle target ms =
     (let role = mget target ''role'';
          swap = (\<lambda>m. mget m ''id'' = mget target ''id'' \<and>
            (mget m ''role'' = Str (lit ''assistant'') \<or> mget m ''role'' = Str (lit ''system'')));
          newRole = (if role = Str (lit ''assistant'') then lit ''system'' else lit ''assistant'')
      in if role = Str (lit ''assistant'') \<or> role = Str (lit ''system'')
         then (map (\<lambda>m. if swap m then mput m ''role'' (Str newRole) else m) ms, True)
         else (ms, False))"

subsection \<open>Editing\<close>

definition edited_content :: "jsstr \<Rightarrow> jsobj \<Rightarrow> jsval" where
  "edited_content editValue target = (case mget target ''content'' of
     Arr items \<Rightarrow> Arr (map (\<lambda>it. case it of
         Obj o1 \<Rightarrow> if obj_get o1 (lit ''type'') = Str (lit ''text'') then Obj (obj_put o1 (lit ''text'') (Str (trim editValue))) else it
       | _ \<Rightarrow> it) items)
   | _ \<Rightarrow> Str (trim editValue))"

text \<open>What saving an edit does: nothing, an update that is saved, or a question whether to regenerate,
  with the messages of each answer. A message that is no longer in the list throws.\<close>

datatype edit_result = EditIgnored | EditSaved "jsobj list" | EditAsk "jsobj list" "jsobj list"

definition handleEditSave :: "nat option \<Rightarrow> jsval \<Rightarrow> jsstr \<Rightarrow> jsobj list \<Rightarrow> edit_result res" where
  "handleEditSave ref editingId editValue ms =
     (if \<not> truthy editingId \<or> trim editValue = [] then Inr EditIgnored
      else case message_index ref editingId ms of
        None \<Rightarrow> Inl TypeError
      | Some i \<Rightarrow>
          (let target = ms ! i;
               updated = map (\<lambda>m. if mget m ''id'' = editingId then mput m ''content'' (edited_content editValue target) else m) ms
           in if mget target ''role'' = Str (lit ''user'') \<and> Suc i < length ms \<and>
                 mget (ms ! Suc i) ''role'' = Str (lit ''assistant'')
              then Inr (EditAsk (take (Suc i) updated) updated)
              else Inr (EditSaved updated)))"

end
