(* ===== verification/Playground_Chat_Thms.thy ===== *)
theory Playground_Chat_Thms
  imports Playground_Chat
begin

text \<open>
  The conversation of the playground: what a stream delivers is what the reply shows, a finished
  reply stays as it is, every way a stream ends finishes the reply, and how think tags are taken
  apart.
\<close>

section \<open>The last message\<close>

definition msg_status :: "jsobj list \<Rightarrow> jsval" where
  "msg_status ms = (if ms = [] then Undefined else mget (last ms) ''status'')"

definition terminal :: "jsobj list \<Rightarrow> bool" where
  "terminal ms \<longleftrightarrow> msg_status ms = COMPLETE \<or> msg_status ms = ERROR"

text \<open>A reply that is being generated.\<close>

definition live :: "jsobj list \<Rightarrow> bool" where
  "live ms \<longleftrightarrow> ms \<noteq> [] \<and> mget (last ms) ''role'' = Str (lit ''assistant'') \<and>
     (msg_status ms = LOADING \<or> msg_status ms = INCOMPLETE)"

lemma terminal_facts: "terminal ms \<Longrightarrow> ms \<noteq> [] \<and> (mget (last ms) ''status'' = COMPLETE \<or> mget (last ms) ''status'' = ERROR)"
  by (cases "ms = []") (auto simp: terminal_def msg_status_def)

lemma live_not_terminal: "live ms \<Longrightarrow> \<not> terminal ms"
  by (auto simp: live_def terminal_def)

lemma get_collapse:
  assumes "k \<notin> {lit ''isThinkingComplete'', lit ''hasAutoCollapsed'', lit ''isReasoningExpanded''}"
  shows "obj_get (obj_merge m (applyAutoCollapseLogic n c)) k = obj_get m k"
  using assms by (subst obj_get_merge) (auto simp: applyAutoCollapseLogic_def Let_def)

lemma get_merge_list:
  "distinct (map fst b) \<Longrightarrow> obj_get (obj_merge a b) k = (case map_of b k of Some v \<Rightarrow> v | None \<Rightarrow> obj_get a k)"
  by (cases "map_of b k") (simp_all add: obj_get_merge obj_has_iff obj_get_def [of b] del: map_of_eq_Some_iff)

lemmas merge_simps = get_collapse get_merge_list obj_get_put

lemma get_stream_reasoning:
  "mget (stream_reasoning c m) ''role'' = mget m ''role''" "mget (stream_reasoning c m) ''status'' = INCOMPLETE"
  "mget (stream_reasoning c m) ''content'' = mget m ''content''"
  "mget (stream_reasoning c m) ''reasoningContent'' = Str (text_or_empty (mget m ''reasoningContent'') @ c)"
  by (simp_all add: stream_reasoning_def merge_simps)

lemma get_stream_content:
  "mget (stream_content c m) ''role'' = mget m ''role''" "mget (stream_content c m) ''status'' = INCOMPLETE"
  "mget (stream_content c m) ''content'' = Str (text_or_empty (mget m ''content'') @ c)"
  "mget (stream_content c m) ''reasoningContent'' = mget m ''reasoningContent''"
  by (simp_all add: stream_content_def Let_def merge_simps)

lemma text_or_empty_Str [simp]: "text_or_empty (Str s) = s"
  by (simp add: text_or_empty_def)

section \<open>Streaming refines appending\<close>

text \<open>The abstract reply: the text and the reasoning received so far.\<close>

type_synonym reply = "jsstr \<times> jsstr"

definition reply_of :: "jsobj list \<Rightarrow> reply" where
  "reply_of ms = (text_or_empty (mget (last ms) ''content''), text_or_empty (mget (last ms) ''reasoningContent''))"

fun append_chunk :: "reply \<Rightarrow> chunk_type \<times> jsstr \<Rightarrow> reply" where
  "append_chunk (c, r) (Content, x) = (c @ x, r)"
| "append_chunk (c, r) (Reasoning, x) = (c, r @ x)"

definition stream_chunk :: "jsobj list \<Rightarrow> chunk_type \<times> jsstr \<Rightarrow> jsobj list" where
  "stream_chunk ms e = streamMessageUpdate (snd e) (fst e) ms"

lemma stream_chunk_live:
  "live ms \<Longrightarrow> stream_chunk ms e =
    butlast ms @ [case fst e of Reasoning \<Rightarrow> stream_reasoning (snd e) (last ms) | Content \<Rightarrow> stream_content (snd e) (last ms)]"
  by (auto simp: stream_chunk_def streamMessageUpdate_def live_def msg_status_def Let_def)

interpretation reply_stream: functional_refinement live reply_of stream_chunk append_chunk
proof unfold_locales
  fix ms and e :: "chunk_type \<times> jsstr"
  assume live: "live ms"
  obtain ty x where e: "e = (ty, x)" by fastforce
  show "live (stream_chunk ms e)"
    unfolding stream_chunk_live [OF live] using live
    by (cases ty) (simp_all add: e live_def msg_status_def get_stream_reasoning get_stream_content)
  show "reply_of (stream_chunk ms e) = append_chunk (reply_of ms) e"
    unfolding stream_chunk_live [OF live]
    by (cases ty) (simp_all add: e reply_of_def get_stream_reasoning get_stream_content)
qed

lemma stream_keeps_others: "live ms \<Longrightarrow> butlast (foldl stream_chunk ms es) = butlast ms"
proof (induction es arbitrary: ms)
  case (Cons e es)
  then show ?case using reply_stream.inv_step [OF Cons.prems, of e] by (simp add: stream_chunk_live)
qed simp

lemma append_chunks:
  "foldl append_chunk (c, r) es =
    (c @ concat (map snd (filter (\<lambda>e. fst e = Content) es)), r @ concat (map snd (filter (\<lambda>e. fst e = Reasoning) es)))"
proof (induction es arbitrary: c r)
  case (Cons e es)
  then show ?case by (cases e; cases "fst e") auto
qed simp

section \<open>Think tags\<close>

lemma rmatch_LazyStar_any:
  "rmatch (LazyStar (Cls (\<lambda>_. True))) (pre, s) c = map (\<lambda>i. ((rev (take i s) @ pre, drop i s), c)) [0..<Suc (length s)]"
proof (induction s arbitrary: pre)
  case (Cons x s)
  have "[0..<Suc (length (x # s))] = 0 # map Suc [0..<Suc (length s)]"
    by (metis length_Cons map_Suc_upt upt_conv_Cons zero_less_Suc)
  then show ?case
    by (simp add: rmatch.simps(6) [of _ "(pre, x # s)"] Cons comp_def del: upt_Suc)
qed (simp add: rmatch.simps(6))

lemma rmatch_Cap_lazy:
  "rmatch (Cap n (LazyStar (Cls (\<lambda>_. True)))) (pre, s) c =
    map (\<lambda>i. ((rev (take i s) @ pre, drop i s), (n, take i s) # c)) [0..<Suc (length s)]"
  by (simp add: rmatch_LazyStar_any del: upt_Suc)

text \<open>A tag has its angle bracket at the start only, so it does not begin inside a text without it and end in
  another tag.\<close>

lemma tag_parts:
  "think_open = 60 # tl think_open" "60 \<notin> set (tl think_open)" "think_close = 60 # tl think_close" "60 \<notin> set (tl think_close)"
  by (simp_all add: think_open_def think_close_def lit_simps)

lemma no_tag_across:
  assumes "tag = 60 # tl tag" "60 \<notin> set (tl tag)" "\<not> str_includes u tag" "u \<noteq> []" "r = [] \<or> hd r = 60"
  shows "\<not> starts_with (u @ r) tag"
proof
  assume "starts_with (u @ r) tag"
  then obtain q where q: "u @ r = tag @ q" by (auto simp: starts_with_iff)
  then consider us where "u = tag @ us" | us where "tag = u @ us" "us \<noteq> []" "r = us @ q"
    by (metis append_Nil2 append_eq_append_conv2)
  then show False
  proof cases
    case 1
    then show False using assms(3) by (auto simp: str_includes_iff)
  next
    case 2
    then have "hd us = 60" using assms(5) by (cases us) auto
    then have "60 \<in> set (tl tag)" using 2 assms(4) by (cases u; cases us) auto
    then show False using assms(2) by simp
  qed
qed

lemma includes_drop: "str_includes (drop i t) w \<Longrightarrow> str_includes t w"
  by (metis append.assoc append_take_drop_id str_includes_iff)

lemma takes_thought:
  assumes "\<not> str_includes t think_close"
  shows "takes (Seq (Cap 1 (LazyStar (Cls (\<lambda>_. True)))) (Lit think_close)) (t @ think_close) post c ((1, t) # c)"
  unfolding takes_def
proof
  fix pre
  define s where "s = t @ think_close @ post"
  define f where "f i = rmatch (Lit think_close) (rev (take i s) @ pre, drop i s) ((1, take i s) # c)" for i
  have upt: "[0..<Suc (length s)] = [0..<length t] @ length t # [Suc (length t)..<Suc (length s)]"
    using upt_add_eq_append [of 0 "length t" "Suc (length (think_close @ post))"] by (simp add: s_def upt_conv_Cons del: upt_Suc)
  have none: "f i = []" if "i < length t" for i
  proof -
    have "\<not> starts_with (drop i t @ think_close @ post) think_close"
      using that assms includes_drop [of i t think_close]
      by (intro no_tag_across [OF tag_parts(3,4)]) (auto simp: think_close_def lit_simps)
    then have "\<not> starts_with (drop i s) think_close" using that by (simp add: s_def)
    then show ?thesis unfolding f_def by (rule rmatch_Lit_mismatch)
  qed
  have hit: "f (length t) = [((rev think_close @ rev t @ pre, post), (1, t) # c)]" by (simp add: f_def s_def rmatch_Lit)
  have "rmatch (Seq (Cap 1 (LazyStar (Cls (\<lambda>_. True)))) (Lit think_close)) (pre, s) c = concat (map f [0..<Suc (length s)])"
    by (simp add: rmatch_Cap_lazy comp_def f_def [abs_def] del: upt_Suc rmatch.simps(7))
  moreover have "concat (map f [0..<length t]) = []" using none by simp
  ultimately have "\<exists>ms. rmatch (Seq (Cap 1 (LazyStar (Cls (\<lambda>_. True)))) (Lit think_close)) (pre, s) c =
      ((rev think_close @ rev t @ pre, post), (1, t) # c) # ms"
    unfolding upt by (simp add: hit del: upt_Suc)
  then show "re_first (Seq (Cap 1 (LazyStar (Cls (\<lambda>_. True)))) (Lit think_close)) (pre, (t @ think_close) @ post) c =
      Some ((rev (t @ think_close) @ pre, post), (1, t) # c)"
    unfolding re_first_def s_def by auto
qed

text \<open>A text made of replies and thoughts in tags: no reply contains an opening tag, no thought a closing one.\<close>

definition tagged :: "(jsstr \<times> jsstr) list \<Rightarrow> jsstr \<Rightarrow> jsstr" where
  "tagged segs b = concat (map (\<lambda>(a, t). a @ think_open @ t @ think_close) segs) @ b"

definition segments :: "(jsstr \<times> jsstr) list \<Rightarrow> jsstr \<Rightarrow> bool" where
  "segments segs b \<longleftrightarrow> list_all (\<lambda>(a, t). \<not> str_includes a think_open \<and> \<not> str_includes t think_close) segs \<and>
     \<not> str_includes b think_open"

lemma tagged_simps: "tagged [] b = b" "tagged ((a, t) # segs) b = a @ (think_open @ t @ think_close) @ tagged segs b"
  by (simp_all add: tagged_def)

lemma takes_think: "\<not> str_includes t think_close \<Longrightarrow> takes THINK_TAG_REGEX (think_open @ t @ think_close) post c ((1, t) # c)"
proof -
  assume "\<not> str_includes t think_close"
  from takes_thought [OF this]
  have "takes (Seq (Cap 1 (LazyStar (Cls (\<lambda>_. True)))) (Lit think_close)) (t @ think_close) ([] @ post) c ((1, t) # c)" by simp
  from takes_Seq [OF this takes_Eps]
  have "takes (Seq (Seq (Cap 1 (LazyStar (Cls (\<lambda>_. True)))) (Lit think_close)) Eps) (t @ think_close) post c ((1, t) # c)" by simp
  then have "takes (Seq (Cap 1 (LazyStar (Cls (\<lambda>_. True)))) (Seq (Lit think_close) Eps)) (t @ think_close) post c ((1, t) # c)"
    by (simp add: takes_def re_first_def)
  from takes_Seq [OF takes_Lit this] show ?thesis by (simp add: THINK_TAG_REGEX_def)
qed

lemma fails_think: "\<not> starts_with s think_open \<Longrightarrow> fails THINK_TAG_REGEX s" "fails THINK_TAG_REGEX []"
  unfolding THINK_TAG_REGEX_def Seqs.simps
  by (intro fails_Seq fails_Lit, assumption) (intro fails_Seq fails_Lit, simp add: starts_with_iff think_open_def lit_simps)

lemma fails_along_think:
  "\<not> str_includes u think_open \<Longrightarrow> r = [] \<or> hd r = 60 \<Longrightarrow> fails_along THINK_TAG_REGEX u r"
proof (induction u)
  case (Cons x u)
  have "\<not> starts_with ((x # u) @ r) think_open" using Cons.prems by (intro no_tag_across [OF tag_parts(1,2)]) auto
  moreover have "\<not> str_includes u think_open" using Cons.prems(1) includes_drop [of 1 "x # u"] by auto
  ultimately show ?case using Cons by (auto intro: fails_think)
qed simp

lemma re_all_tagged:
  assumes "segments segs b"
  shows "reply_parts (p @ tagged segs b) (length p) (re_all_from THINK_TAG_REGEX (rev p, tagged segs b)) = map fst segs @ [b] \<and>
    map (\<lambda>m. case cap m 1 of None \<Rightarrow> [] | Some w \<Rightarrow> w) (re_all_from THINK_TAG_REGEX (rev p, tagged segs b)) = map snd segs"
  using assms
proof (induction segs arbitrary: p)
  case Nil
  then have "re_all_from THINK_TAG_REGEX (rev p, b) = []"
    by (intro re_all_end fails_along_think fails_think) (simp_all add: segments_def)
  then show ?case by (simp add: tagged_simps)
next
  case (Cons seg segs)
  obtain a t where seg: "seg = (a, t)" by fastforce
  let ?w = "think_open @ t @ think_close" and ?r = "tagged segs b"
  have no: "\<not> str_includes a think_open" "\<not> str_includes t think_close" "segments segs b" using Cons.prems by (simp_all add: seg segments_def)
  have w: "?w \<noteq> []" "?w @ ?r = [] \<or> hd (?w @ ?r) = 60" by (simp_all add: think_open_def lit_simps)
  from re_all_takes [OF fails_along_think [OF no(1) w(2)] takes_think [OF no(2)] w(1), of "rev p"]
  have ms: "re_all_from THINK_TAG_REGEX (rev p, tagged (seg # segs) b) =
      \<lparr>m_from = (rev (p @ a), ?w @ ?r), m_to = (rev (p @ a @ ?w), ?r), m_caps = [(1, t)]\<rparr> #
      re_all_from THINK_TAG_REGEX (rev (p @ a @ ?w), ?r)"
    by (simp add: seg tagged_simps)
  show ?case
    using Cons.IH [OF no(3), of "p @ a @ ?w"] unfolding ms
    by (simp add: seg tagged_simps cap_def add.commute add.left_commute)
qed

lemma drop_tags_plain: "\<not> str_includes s think_open \<Longrightarrow> \<not> str_includes s think_close \<Longrightarrow> drop_tags n s = s"
proof (induction n s rule: drop_tags.induct)
  case (3 n c cs)
  then have "\<not> starts_with (c # cs) think_open" "\<not> starts_with (c # cs) think_close"
    by (auto simp: starts_with_iff str_includes_iff) (metis append_Nil)+
  then have "strip_prefix think_open (c # cs) = None" "strip_prefix think_close (c # cs) = None"
    by (cases "strip_prefix think_open (c # cs)"; cases "strip_prefix think_close (c # cs)";
        auto simp: starts_with_iff strip_prefix_Some_iff)+
  with 3 includes_drop [of 1 "c # cs"] show ?case by auto
qed simp_all

lemma includes_tagged: "segs \<noteq> [] \<Longrightarrow> str_includes (tagged segs b) think_open"
  by (cases segs; cases "hd segs") (auto simp: str_includes_iff tagged_simps)

section \<open>Unclosed thoughts\<close>

lemma split_last_append:
  assumes "60 \<notin> set t"
  shows "split_last think_open (a @ think_open @ t) = Some (a, think_open @ t)"
proof (induction a)
  case Nil
  have none: "split_last think_open r = None" if "60 \<notin> set r" for r
    using that by (induction r) (auto simp: think_open_def lit_simps starts_with_def)
  have "split_last think_open (tl think_open @ t) = None"
    using assms by (intro none) (simp add: think_open_def lit_simps)
  moreover have open_eq: "think_open @ t = 60 # tl think_open @ t" by (simp add: think_open_def lit_simps)
  moreover have "starts_with (think_open @ t) think_open" by (auto simp: starts_with_iff)
  ultimately have "split_last think_open (60 # tl think_open @ t) = Some ([], 60 # tl think_open @ t)"
    by (simp only: split_last.simps(2) open_eq option.case if_True)
  then show ?case by (simp only: append_Nil open_eq)
qed simp

section \<open>Completing\<close>

lemma completeMessage_live:
  assumes "ms \<noteq> []" "\<not> terminal ms"
  shows "\<exists>m. completeMessage status ms = Inr (butlast ms @ [m], status = COMPLETE \<or> status = ERROR) \<and>
    mget m ''status'' = status \<and> mget m ''content'' = mget (last ms) ''content'' \<and>
    mget m ''reasoningContent'' = mget (last ms) ''reasoningContent''"
  using assms by (auto simp: completeMessage_def terminal_def msg_status_def Let_def merge_simps)

lemma completeMessage_terminal: "terminal ms \<Longrightarrow> completeMessage status ms = Inr (ms, False)"
  by (auto dest!: terminal_facts simp: completeMessage_def)

lemma stream_terminal: "terminal ms \<Longrightarrow> streamMessageUpdate c ty ms = ms"
  by (auto dest!: terminal_facts simp: streamMessageUpdate_def Let_def)

lemma fail_terminal: "terminal ms \<Longrightarrow> fail_last msg code ms = ms"
  by (auto dest!: terminal_facts simp: fail_last_def)

lemma chat_frames [simp]:
  "ch_messages (upd_debug f ch) = ch_messages ch" "ch_messages (upd_stream i g ch) = ch_messages ch"
  "ch_saves (upd_debug f ch) = ch_saves ch" "ch_saves (upd_stream i g ch) = ch_saves ch"
  "ch_streams (upd_debug f ch) = ch_streams ch"
  "ch_messages (stream_update c ty ch) = streamMessageUpdate c ty (ch_messages ch)"
  "ch_saves (stream_update c ty ch) = ch_saves ch" "ch_streams (stream_update c ty ch) = ch_streams ch"
  by (simp_all add: upd_debug_def upd_stream_def stream_update_def)

lemma complete_chat_terminal:
  "terminal (ch_messages ch) \<Longrightarrow> \<exists>ch'. complete_chat st ch = Inr ch' \<and> ch_messages ch' = ch_messages ch \<and> ch_saves ch' = ch_saves ch"
  by (simp add: complete_chat_def completeMessage_terminal set_messages_def)

lemma complete_chat_live:
  assumes "ch_messages ch \<noteq> []" "\<not> terminal (ch_messages ch)" "st = COMPLETE \<or> st = ERROR"
  shows "\<exists>ch'. complete_chat st ch = Inr ch' \<and> terminal (ch_messages ch') \<and> ch_saves ch' = ch_saves ch @ [ch_messages ch'] \<and>
    reply_of (ch_messages ch') = reply_of (ch_messages ch) \<and> ch_streams ch' = ch_streams ch"
proof -
  obtain m where m: "completeMessage st (ch_messages ch) = Inr (butlast (ch_messages ch) @ [m], True)"
      "mget m ''status'' = st" "mget m ''content'' = mget (last (ch_messages ch)) ''content''"
      "mget m ''reasoningContent'' = mget (last (ch_messages ch)) ''reasoningContent''"
    using completeMessage_live [OF assms(1,2), of st] assms(3) by auto
  then have "complete_chat st ch = Inr (set_messages (butlast (ch_messages ch) @ [m], True) ch)"
    by (simp add: complete_chat_def)
  then show ?thesis using m assms(3) by (auto simp: set_messages_def terminal_def msg_status_def reply_of_def)
qed

lemma apply_delta_terminal:
  "terminal (ch_messages ch) \<Longrightarrow> ch_messages (apply_delta d ch) = ch_messages ch \<and> ch_saves (apply_delta d ch) = ch_saves ch"
  by (simp add: apply_delta_def Let_def stream_terminal)

lemma sse_failed_eq:
  "\<exists>u tx. sse_failed t et i data e ch = complete_chat ERROR u \<and>
    ch_messages u = streamMessageUpdate tx Content (ch_messages ch) \<and> ch_saves u = ch_saves ch \<and> ch_streams u = ch_streams ch"
  unfolding sse_failed_def by (intro exI conjI, rule refl) simp_all

lemma sse_failed_terminal:
  assumes "terminal (ch_messages ch)"
  shows "\<exists>ch'. sse_failed t et i data e ch = Inr ch' \<and> ch_messages ch' = ch_messages ch \<and> ch_saves ch' = ch_saves ch"
proof -
  obtain u tx where u: "sse_failed t et i data e ch = complete_chat ERROR u"
      "ch_messages u = streamMessageUpdate tx Content (ch_messages ch)" "ch_saves u = ch_saves ch"
    using sse_failed_eq by blast
  then show ?thesis using complete_chat_terminal [of u ERROR] assms by (simp add: stream_terminal)
qed

lemma stream_live: "live ms \<Longrightarrow> live (streamMessageUpdate c ty ms)"
  "live ms \<Longrightarrow> reply_of (streamMessageUpdate c ty ms) = append_chunk (reply_of ms) (ty, c)"
  using reply_stream.inv_step [of ms "(ty, c)"] reply_stream.abs_step [of ms "(ty, c)"] by (simp_all add: stream_chunk_def)

lemma sse_failed_live:
  assumes "live (ch_messages ch)"
  shows "\<exists>ch'. sse_failed t et i data e ch = Inr ch' \<and> terminal (ch_messages ch') \<and>
    (\<exists>x. fst (reply_of (ch_messages ch')) = fst (reply_of (ch_messages ch)) @ x) \<and> ch_streams ch' = ch_streams ch"
proof -
  obtain u tx where u: "sse_failed t et i data e ch = complete_chat ERROR u"
      "ch_messages u = streamMessageUpdate tx Content (ch_messages ch)" "ch_streams u = ch_streams ch"
    using sse_failed_eq by blast
  have "live (ch_messages u)" using stream_live(1) [OF assms] u(2) by simp
  then have "ch_messages u \<noteq> []" "\<not> terminal (ch_messages u)" by (auto simp: live_def terminal_def)
  from complete_chat_live [OF this, of ERROR] stream_live(2) [OF assms] u
  show ?thesis by (cases "reply_of (ch_messages ch)") auto
qed

text \<open>Nothing that happens on a stream changes a conversation whose last message is finished.\<close>

lemma finished_events:
  assumes "terminal (ch_messages ch)"
  shows "(\<exists>ch'. on_message t et i data ch = Inr ch' \<and> ch_messages ch' = ch_messages ch \<and> ch_saves ch' = ch_saves ch) \<and>
    ch_messages (on_error t now stack i edata rs ch) = ch_messages ch \<and> ch_saves (on_error t now stack i edata rs ch) = ch_saves ch \<and>
    (\<exists>ch'. on_readystate t now stack i rs status ch = Inr ch' \<and> ch_messages ch' = ch_messages ch \<and> ch_saves ch' = ch_saves ch)"
proof -
  have 1: "\<exists>ch'. complete_chat st c = Inr ch' \<and> ch_messages ch' = ch_messages ch \<and> ch_saves ch' = ch_saves ch"
    if "ch_messages c = ch_messages ch" "ch_saves c = ch_saves ch" for c st
    using complete_chat_terminal [of c st] assms that by simp
  have 2: "\<exists>ch'. sse_failed t et i data e c = Inr ch' \<and> ch_messages ch' = ch_messages ch \<and> ch_saves ch' = ch_saves ch"
    if "ch_messages c = ch_messages ch" "ch_saves c = ch_saves ch" for c e
    using sse_failed_terminal [of c] assms that by simp
  have "\<exists>ch'. on_message t et i data ch = Inr ch' \<and> ch_messages ch' = ch_messages ch \<and> ch_saves ch' = ch_saves ch"
    using 1 2 apply_delta_terminal assms by (auto simp: on_message_def Let_def split: sum.splits)
  moreover have "\<exists>ch'. on_readystate t now stack i rs status ch = Inr ch' \<and> ch_messages ch' = ch_messages ch \<and> ch_saves ch' = ch_saves ch"
    using assms unfolding on_readystate_def Let_def by (auto intro!: 1 simp: stream_terminal)
  ultimately show ?thesis using assms by (auto simp: on_error_def fail_terminal Let_def split: prod.splits)
qed

section \<open>Unsaved and misplaced replies\<close>

text \<open>A plain request never schedules a save, whatever its outcome: the stored conversation keeps the
  loading message that was saved when the request was sent.\<close>

lemma plain_finish_not_saved: "ch_saves (plain_finish t now stack nullExn outcome ch) = ch_saves ch"
  by (auto simp: plain_finish_def plain_failed_def Let_def split: plain_outcome.splits prod.splits)

text \<open>Nor does the error event of a stream; it also leaves the debug panel in its streaming state.\<close>

lemma on_error_not_saved:
  "ch_saves (on_error t now stack i data rs ch) = ch_saves ch \<and>
   d_streaming (ch_debug (on_error t now stack i data rs ch)) = d_streaming (ch_debug ch)"
  by (auto simp: on_error_def upd_stream_def upd_debug_def respond_def Let_def split: prod.splits)

text \<open>Data without choices leaves the reply loading.\<close>

lemma answer_without_choices_stays:
  assumes "\<not> nullish data" "\<not> truthy (opt_prop (opt_prop data (lit ''choices'')) (lit ''0''))"
  shows "ch_messages (plain_finish t now stack nullExn (Answer data) ch) = ch_messages ch"
  using assms by (simp add: plain_finish_def plain_answer_def Let_def)

text \<open>The end mark of a stream whose conversation has been cleared throws.\<close>

lemma done_after_clear_throws: "ch_messages ch = [] \<Longrightarrow> on_message t et i (lit ''[DONE]'') ch = Inl TypeError"
  by (simp add: on_message_def complete_chat_def completeMessage_def)

text \<open>Data that cannot be parsed fails the reply but leaves the stream open and current.\<close>

lemma complete_chat_source: "complete_chat st ch = Inr ch' \<Longrightarrow> ch_source ch' = ch_source ch \<and> ch_streams ch' = ch_streams ch"
  by (auto simp: complete_chat_def set_messages_def map_sum_def split: sum.splits)

lemma broken_chunk_keeps_stream:
  assumes "on_message t et i data ch = Inr ch'" "json_parse data = Inl e" "data \<noteq> lit ''[DONE]''"
  shows "ch_source ch' = ch_source ch \<and> ch_streams ch' = ch_streams ch"
  using assms complete_chat_source
  by (fastforce simp: on_message_def sse_failed_def stream_update_def upd_debug_def)

section \<open>Deleting, switching roles and editing go by the id\<close>

lemma delete_removes_all_with_id:
  assumes "message_index ref (mget target ''id'') ms = Some i" "mget target ''role'' \<noteq> Str (lit ''user'')"
  shows "handleMessageDelete ref target ms = (filter (\<lambda>m. mget m ''id'' \<noteq> mget target ''id'') ms, True)"
  using assms by (simp add: handleMessageDelete_def)

lemma find_index_SomeD: "find_index P xs = Some i \<Longrightarrow> i < length xs \<and> P (xs ! i)"
  by (auto simp: find_index_def find_Some_iff nth_enumerate_eq)

lemma find_index_None: "find_index P xs = None \<longleftrightarrow> (\<forall>x\<in>set xs. \<not> P x)"
proof -
  have "find_index P xs = None \<longleftrightarrow> (\<forall>x\<in>set (map snd (List.enumerate 0 xs)). \<not> P x)"
    unfolding find_index_def set_map by (auto simp: find_None_iff)
  then show ?thesis by simp
qed

lemma edit_of_missing_message_throws:
  assumes "truthy mid" "trim v \<noteq> []" "\<forall>m\<in>set ms. mget m ''id'' \<noteq> mid"
  shows "handleEditSave None mid v ms = Inl TypeError"
proof -
  have "find_index (\<lambda>m. mget m ''id'' = mid) ms = None" using assms(3) by (simp only: find_index_None simp_thms)
  then show ?thesis using assms(1,2) by (simp add: handleEditSave_def message_index_def)
qed

lemma user_before_Some: "user_before ms i = Some u \<Longrightarrow> u < i \<and> mget (ms ! u) ''role'' = Str (lit ''user'')"
  by (induction ms i rule: user_before.induct) (auto split: if_splits)

lemma reset_keeps_prefix:
  "\<exists>n. fst (handleMessageReset ref target ms) = take n ms"
proof -
  have "\<exists>n. ms = take n ms" by (rule exI [of _ "length ms"]) simp
  then show ?thesis by (auto simp: handleMessageReset_def split: option.splits)
qed

section \<open>Properties\<close>

text \<open>C12: streaming refines appending: after any sequence of chunks, the reply that is being generated
  has the content chunks appended to its content and the reasoning chunks to its reasoning, in the
  order they came, it is still being generated, and no other message has changed.\<close>

theorem streamed_reply_is_concatenation:
  assumes "live ms" "ms' = foldl (\<lambda>ms e. streamMessageUpdate (snd e) (fst e) ms) ms es"
  shows "text_or_empty (mget (last ms') ''content'') =
      text_or_empty (mget (last ms) ''content'') @ concat (map snd (filter (\<lambda>e. fst e = Content) es)) \<and>
    text_or_empty (mget (last ms') ''reasoningContent'') =
      text_or_empty (mget (last ms) ''reasoningContent'') @ concat (map snd (filter (\<lambda>e. fst e = Reasoning) es)) \<and>
    live ms' \<and> butlast ms' = butlast ms"
proof -
  have ms': "ms' = foldl stream_chunk ms es" unfolding assms(2) stream_chunk_def by (rule refl)
  have "reply_of ms' = foldl append_chunk (reply_of ms) es" unfolding ms' by (rule reply_stream.abs_run [OF assms(1)])
  then show ?thesis
    using reply_stream.inv_run [OF assms(1), of es] stream_keeps_others [OF assms(1), of es]
    by (simp add: ms' reply_of_def append_chunks)
qed

text \<open>C24: a finished reply is final: once the last message is complete or failed, no event of any
  stream, in any order, changes the messages or schedules a save, and none throws.\<close>

theorem finished_reply_is_final:
  assumes "terminal (ch_messages ch)"
  shows "(\<exists>ch'. on_message t et i data ch = Inr ch' \<and> ch_messages ch' = ch_messages ch \<and> ch_saves ch' = ch_saves ch) \<and>
    ch_messages (on_error t now stack i edata rs ch) = ch_messages ch \<and> ch_saves (on_error t now stack i edata rs ch) = ch_saves ch \<and>
    (\<exists>ch'. on_readystate t now stack i rs status ch = Inr ch' \<and> ch_messages ch' = ch_messages ch \<and> ch_saves ch' = ch_saves ch)"
  by (rule finished_events [OF assms])

text \<open>C37: every way a stream ends finishes the reply: the end mark, data that is not JSON, an error
  event and an HTTP error status all leave the reply complete or failed, with what had been
  received at its beginning.\<close>

theorem stream_end_finishes_reply:
  assumes "live (ch_messages ch)" "\<not> sm_complete (ch_streams ch ! i)"
  shows "(data = lit ''[DONE]'' \<or> (\<exists>e. json_parse data = Inl e) \<longrightarrow> (\<exists>ch'. on_message t et i data ch = Inr ch' \<and>
      terminal (ch_messages ch') \<and> (\<exists>x. fst (reply_of (ch_messages ch')) = fst (reply_of (ch_messages ch)) @ x))) \<and>
    (rs \<noteq> 2 \<longrightarrow> terminal (ch_messages (on_error t now stack i edata rs ch)) \<and>
      (\<exists>x. fst (reply_of (ch_messages (on_error t now stack i edata rs ch))) = fst (reply_of (ch_messages ch)) @ x)) \<and>
    (2 \<le> rs \<and> status \<noteq> 200 \<longrightarrow> (\<exists>ch'. on_readystate t now stack i rs (Some status) ch = Inr ch' \<and>
      terminal (ch_messages ch') \<and> (\<exists>x. fst (reply_of (ch_messages ch')) = fst (reply_of (ch_messages ch)) @ x)))"
proof (intro conjI impI)
  have ne: "ch_messages ch \<noteq> []" "\<not> terminal (ch_messages ch)" using assms(1) by (auto simp: live_def terminal_def)
  show "\<exists>ch'. on_message t et i data ch = Inr ch' \<and> terminal (ch_messages ch') \<and>
      (\<exists>x. fst (reply_of (ch_messages ch')) = fst (reply_of (ch_messages ch)) @ x)"
    if fin: "data = lit ''[DONE]'' \<or> (\<exists>e. json_parse data = Inl e)"
  proof (cases "data = lit ''[DONE]''")
    case True
    then obtain u where "on_message t et i data ch = complete_chat COMPLETE u" "ch_messages u = ch_messages ch"
      by (simp add: on_message_def)
    then show ?thesis using complete_chat_live [of u COMPLETE] ne by auto
  next
    case False
    with fin obtain e where "json_parse data = Inl e" by blast
    then show ?thesis using sse_failed_live [OF assms(1), of t et i data e] False by (auto simp: on_message_def)
  qed
  show "terminal (ch_messages (on_error t now stack i edata rs ch))" if "rs \<noteq> 2"
    using assms that ne by (auto simp: on_error_def Let_def fail_last_def terminal_def msg_status_def merge_simps split: prod.splits)
  show "\<exists>x. fst (reply_of (ch_messages (on_error t now stack i edata rs ch))) = fst (reply_of (ch_messages ch)) @ x" if "rs \<noteq> 2"
    using assms that ne by (auto simp: on_error_def Let_def fail_last_def terminal_def msg_status_def merge_simps reply_of_def split: prod.splits)
  show "\<exists>ch'. on_readystate t now stack i rs (Some status) ch = Inr ch' \<and> terminal (ch_messages ch') \<and>
      (\<exists>x. fst (reply_of (ch_messages ch')) = fst (reply_of (ch_messages ch)) @ x)" if hs: "2 \<le> rs \<and> status \<noteq> 200"
  proof -
    obtain c where "on_readystate t now stack i rs (Some status) ch = complete_chat ERROR c"
        and c: "ch_messages c = streamMessageUpdate (t ([36830, 25509, 24050, 26029, 24320])) Content (ch_messages ch)"
      using hs assms(2) by (simp add: on_readystate_def Let_def)
    moreover have "live (ch_messages c)" using stream_live(1) [OF assms(1)] c by simp
    ultimately show ?thesis
      using complete_chat_live [of c ERROR] stream_live(2) [OF assms(1)] c
      by (cases "reply_of (ch_messages ch)") (auto simp: live_def terminal_def)
  qed
qed

text \<open>C34: think tags are taken apart: of a text made of replies and thoughts in tags, where no reply contains an
  opening tag and no thought a closing one (other angle brackets may be anywhere), the replies together, trimmed and
  without stray tags, become the content, and the thoughts, separated, are added to the reasoning. Replies that
  together contain no tag become the content as they are, trimmed.\<close>

theorem think_tags_apart:
  assumes "segments segs b" "segs \<noteq> []"
  shows "processThinkTags (tagged segs b) reasoning =
      (trim (strip_tags (concat (map fst segs) @ b)), with_thought reasoning (join thought_sep (map snd segs))) \<and>
    (\<not> str_includes (concat (map fst segs) @ b) think_open \<and> \<not> str_includes (concat (map fst segs) @ b) think_close \<longrightarrow>
      strip_tags (concat (map fst segs) @ b) = concat (map fst segs) @ b)"
proof -
  have ne: "tagged segs b \<noteq> []" using assms(2) by (cases segs; cases "hd segs") (simp_all add: tagged_simps think_open_def)
  have parts: "reply_parts (tagged segs b) 0 (re_all THINK_TAG_REGEX (tagged segs b)) = map fst segs @ [b]"
    "map (\<lambda>m. case cap m 1 of None \<Rightarrow> [] | Some w \<Rightarrow> w) (re_all THINK_TAG_REGEX (tagged segs b)) = map snd segs"
    using re_all_tagged [OF assms(1), of "[]"] by (simp_all add: re_all_def)
  show ?thesis
    using ne includes_tagged [OF assms(2), of b]
    by (simp add: processThinkTags_def Let_def parts strip_tags_def drop_tags_plain del: One_nat_def)
qed

text \<open>A thought that is not closed is taken off too when generating is stopped.\<close>

lemma unclosed_thought_apart:
  assumes "60 \<notin> set a" "60 \<notin> set th"
  shows "processIncompleteThinkTags (a @ think_open @ th) reasoning = (a, with_thought reasoning (trim th))"
proof -
  have "\<not> str_includes a think_open"
    using assms(1) by (auto simp: str_includes_iff think_open_def lit_simps)
  moreover have "\<not> str_includes (think_open @ th) think_close"
  proof
    assume "str_includes (think_open @ th) think_close"
    then obtain p q where eq: "think_open @ th = p @ think_close @ q" by (auto simp: str_includes_iff)
    from assms(2) have "count_list (think_open @ th) 60 = 1" by (simp add: think_open_def lit_simps)
    with eq have "count_list p 60 = 0" by (simp add: think_close_def lit_simps)
    then have "60 \<notin> set p" by (simp add: count_list_0_iff)
    with eq show False by (cases p) (auto simp: think_open_def think_close_def lit_simps)
  qed
  moreover have "think_open \<noteq> []" by (simp add: think_open_def)
  ultimately show ?thesis
    by (simp add: processIncompleteThinkTags_def split_last_append [OF assms(2)] processThinkTags_def)
qed

section \<open>Witnesses\<close>

definition sample_reply :: jsobj where
  "sample_reply = createLoadingAssistantMessage (num_of_nat 7) (lit ''m1'')"

lemma live_sample: "live [sample_reply]"
  by (simp add: live_def msg_status_def sample_reply_def createLoadingAssistantMessage_def createMessage_def merge_simps)

definition sample_chat :: "jsobj list \<Rightarrow> chat" where
  "sample_chat ms = \<lparr>ch_messages = ms, ch_saves = [], ch_source = Some 0,
     ch_streams = [\<lparr>sm_open = True, sm_complete = False, sm_first = False, sm_data = []\<rparr>],
     ch_debug = \<lparr>d_request = Null, d_timestamp = [], d_response = Null, d_sse = Some [], d_streaming = True, d_tab = []\<rparr>\<rparr>"

theorem streamed_reply_is_concatenation_witness:
  "text_or_empty (mget (last (streamMessageUpdate (lit ''you'') Content (streamMessageUpdate (lit ''why'') Reasoning
      (streamMessageUpdate (lit ''Hi '') Content [sample_reply])))) ''content'') = lit ''Hi you''"
proof -
  have "text_or_empty (mget sample_reply ''content'') = []"
    by (simp add: sample_reply_def createLoadingAssistantMessage_def createMessage_def merge_simps)
  then show ?thesis
    using streamed_reply_is_concatenation [OF live_sample refl, of "[(Content, lit ''Hi ''), (Reasoning, lit ''why''), (Content, lit ''you'')]"]
    by (simp add: lit_simps)
qed

theorem finished_reply_is_final_witness:
  "\<exists>ch'. on_message id (\<lambda>_. []) 0 (lit ''?!'') (sample_chat [[(lit ''status'', COMPLETE)]]) = Inr ch' \<and>
     ch_messages ch' = [[(lit ''status'', COMPLETE)]]"
proof -
  have "terminal (ch_messages (sample_chat [[(lit ''status'', COMPLETE)]]))"
    by (simp add: terminal_def msg_status_def sample_chat_def obj_get_def)
  note this [THEN finished_reply_is_final, THEN conjunct1, of id "\<lambda>_. []" 0 "lit ''?!''"]
  then show ?thesis by (auto simp: sample_chat_def)
qed

theorem stream_end_finishes_reply_witness:
  "\<exists>ch'. on_message id (\<lambda>_. []) 0 (lit ''[DONE]'') (sample_chat [sample_reply]) = Inr ch' \<and> terminal (ch_messages ch')"
proof -
  have "live (ch_messages (sample_chat [sample_reply]))" "\<not> sm_complete (ch_streams (sample_chat [sample_reply]) ! 0)"
    using live_sample by (simp_all add: sample_chat_def)
  note stream_end_finishes_reply [OF this, of "lit ''[DONE]''" id "\<lambda>_. []", THEN conjunct1]
  then show ?thesis by auto
qed

theorem think_tags_apart_witness:
  "processThinkTags (lit ''a<b<think>if x<1</think>, <think>ok</think>sir '') (lit ''so'') =
    (lit ''a<b, sir'', lit ''so'' @ thought_sep @ lit ''if x<1'' @ thought_sep @ lit ''ok'')"
proof -
  have "segments [(lit ''a<b'', lit ''if x<1''), (lit '', '', lit ''ok'')] (lit ''sir '')" by code_simp
  moreover have "\<not> str_includes (lit ''a<b, sir '') think_open" "\<not> str_includes (lit ''a<b, sir '') think_close" by code_simp+
  ultimately show ?thesis
    using think_tags_apart [of "[(lit ''a<b'', lit ''if x<1''), (lit '', '', lit ''ok'')]" "lit ''sir ''" "lit ''so''"]
    by (simp add: tagged_def think_open_def think_close_def lit_simps trim_def is_ws_def with_thought_def)
qed

end
