(* ===== verification/Api_Client.thy ===== *)
theory Api_Client
  imports Js_Json "HOL-Library.Multiset"
begin

text \<open>
  The HTTP client of the web interface, \<open>helpers/api.js\<close>: the axios instance with its interceptors, the
  sharing of GET requests in flight, the start of an OAuth login, the models of channels, and the
  lists of models and groups of the playground; with the classification of verification errors of
  \<open>helpers/secureApiCall.js\<close>.

  axios itself is not modelled: a request is numbered in the order it is sent, its number stands for
  the promise, and how it ends is an event or an argument.
\<close>

section \<open>Sharing GET requests\<close>

text \<open>\<open>genKey(url, config)\<close>; the configuration is an object or undefined.\<close>

definition genKey :: "jsstr \<Rightarrow> jsobj \<Rightarrow> jsstr" where
  "genKey url config =
     url @ lit ''?'' @ (if truthy (obj_get config (lit ''params''))
       then json_str (obj_get config (lit ''params'')) else lit ''{}'')"

text \<open>The instance: the requests sent, each with the key it was registered under if it was, those that
  have settled, and \<open>inFlightGetRequests\<close>.\<close>

record api_instance =
  sent :: "(jsstr \<times> jsobj \<times> jsstr option) list"
  settled :: "nat set"
  inFlight :: "(jsstr \<times> nat) list"
  acceptLanguage :: bool
  errorToast :: bool

definition send_request :: "jsstr \<Rightarrow> jsobj \<Rightarrow> jsstr option \<Rightarrow> api_instance \<Rightarrow> nat \<times> api_instance" where
  "send_request url config key a = (length (sent a), a\<lparr>sent := sent a @ [(url, config, key)]\<rparr>)"

text \<open>\<open>instance.get\<close> of \<open>patchAPIInstance\<close>: the request whose promise is returned.\<close>

definition api_get :: "jsstr \<Rightarrow> jsobj \<Rightarrow> api_instance \<Rightarrow> nat \<times> api_instance" where
  "api_get url config a =
     (if truthy (obj_get config (lit ''disableDuplicate'')) then send_request url config None a
      else (let key = genKey url config
        in case map_of (inFlight a) key of
             Some i \<Rightarrow> (i, a)
           | None \<Rightarrow> (case send_request url config (Some key) a of
               (i, a1) \<Rightarrow> (i, a1\<lparr>inFlight := inFlight a1 @ [(key, i)]\<rparr>))))"

text \<open>A request ends, well or not: the \<open>finally\<close> callback of a registered one deletes its key.\<close>

definition api_settle :: "nat \<Rightarrow> api_instance \<Rightarrow> api_instance" where
  "api_settle i a =
     (if i < length (sent a) \<and> i \<notin> settled a
      then (let a1 = a\<lparr>settled := insert i (settled a)\<rparr>
        in case snd (snd (sent a ! i)) of
             None \<Rightarrow> a1
           | Some key \<Rightarrow> a1\<lparr>inFlight := filter (\<lambda>e. fst e \<noteq> key) (inFlight a1)\<rparr>)
      else a)"

section \<open>The instance and its interceptors\<close>

text \<open>\<open>axios.create\<close> followed by \<open>attachAcceptLanguage\<close> and \<open>patchAPIInstance\<close>, as \<open>updateAPI\<close> does it; the
  module also registers the response interceptor, once, on the first instance.\<close>

definition updateAPI :: api_instance where
  "updateAPI = \<lparr>sent = [], settled = {}, inFlight = [], acceptLanguage = True, errorToast = False\<rparr>"

definition initialAPI :: api_instance where
  "initialAPI = updateAPI\<lparr>errorToast := True\<rparr>"

text \<open>The response interceptor: whether a failed request shows the error; it is rejected in any case.\<close>

definition failure_shown :: "api_instance \<Rightarrow> jsobj option \<Rightarrow> bool" where
  "failure_shown a config \<longleftrightarrow> errorToast a \<and>
     \<not> (case config of None \<Rightarrow> False | Some c \<Rightarrow> truthy (obj_get c (lit ''skipErrorHandler'')))"

section \<open>OAuth\<close>

text \<open>The path of the request for a state; \<open>aff\<close> is the invitation code in localStorage.\<close>

definition oauth_state_path :: "jsstr option \<Rightarrow> jsstr" where
  "oauth_state_path aff = lit ''/api/oauth/state'' @
     (case aff of None \<Rightarrow> [] | Some code \<Rightarrow> if code \<noteq> [] then lit ''?aff='' @ code else [])"

text \<open>The state from the answer, and the message shown when there is none.\<close>

definition getOAuthState :: "jsval \<Rightarrow> (jsval \<times> jsval option) res" where
  "getOAuthState resData =
     (if nullish resData then Inl TypeError
      else if truthy (opt_prop resData (lit ''success'')) then Inr (opt_prop resData (lit ''data''), None)
      else Inr (Str [], Some (opt_prop resData (lit ''message''))))"

text \<open>Logging out first: the logout request goes out on the old instance; whatever its answer, the stored
  user is removed and the instance replaced, and the state is asked for with the new one.\<close>

definition prepareOAuthState :: "bool \<Rightarrow> jsstr option \<Rightarrow> (jsstr \<times> jsstr) list \<Rightarrow> api_instance \<Rightarrow>
    nat \<times> (jsstr \<times> jsstr) list \<times> api_instance" where
  "prepareOAuthState shouldLogout aff localStore a =
     (let (localStore1, a1) =
        (if shouldLogout
         then (filter (\<lambda>e. fst e \<noteq> lit ''user'') localStore, updateAPI)
         else (localStore, a))
      in case api_get (oauth_state_path aff) [] a1 of (i, a2) \<Rightarrow> (i, localStore1, a2))"

text \<open>The address a login goes to, if there is a state.\<close>

definition onDiscordOAuthClicked :: "jsstr \<Rightarrow> jsstr \<Rightarrow> jsval \<Rightarrow> jsstr option" where
  "onDiscordOAuthClicked origin client_id state =
     (if truthy state
      then Some (lit ''https://discord.com/oauth2/authorize?client_id='' @ client_id @ lit ''&redirect_uri='' @ origin @
        lit ''/oauth/discord&response_type=code&scope=identify+openid&state='' @ to_str state)
      else None)"

definition onGitHubOAuthClicked :: "jsstr \<Rightarrow> jsval \<Rightarrow> jsstr option" where
  "onGitHubOAuthClicked github_client_id state =
     (if truthy state
      then Some (lit ''https://github.com/login/oauth/authorize?client_id='' @ github_client_id @ lit ''&state='' @ to_str state @
        lit ''&scope=user:email'')
      else None)"

definition onLinuxDOOAuthClicked :: "jsstr \<Rightarrow> jsval \<Rightarrow> jsstr option" where
  "onLinuxDOOAuthClicked linuxdo_client_id state =
     (if truthy state
      then Some (lit ''https://connect.linux.do/oauth2/authorize?response_type=code&client_id='' @ linuxdo_client_id @
        lit ''&state='' @ to_str state)
      else None)"

section \<open>The models of channels\<close>

text \<open>The variable \<open>channelModels\<close> and the entry of localStorage.\<close>

record channel_cache =
  channelModels :: jsval
  stored_models :: "jsstr option"

definition loadChannelModels :: "jsval \<Rightarrow> channel_cache \<Rightarrow> channel_cache res" where
  "loadChannelModels resData c =
     (if nullish resData then Inl TypeError
      else if \<not> truthy (opt_prop resData (lit ''success'')) then Inr c
      else (let data = opt_prop resData (lit ''data'')
        in Inr \<lparr>channelModels = data,
             stored_models = Some (json_str data)\<rparr>))"

text \<open>\<open>type in o\<close>, for a value that came from JSON.\<close>

definition js_in :: "jsstr \<Rightarrow> jsval \<Rightarrow> bool res" where
  "js_in k v = (case v of
     Obj fs \<Rightarrow> Inr (obj_has fs k)
   | Arr xs \<Rightarrow> Inr (k \<in> fst ` set (index_entries xs))
   | _ \<Rightarrow> Inl TypeError)"

definition getChannelModels :: "jsstr \<Rightarrow> channel_cache \<Rightarrow> (jsval \<times> channel_cache) res" where
  "getChannelModels type c =
     (case (if channelModels c \<noteq> Undefined then js_in type (channelModels c) else Inr False) of
        Inl e \<Rightarrow> Inl e
      | Inr True \<Rightarrow>
          (let v = opt_prop (channelModels c) type in Inr (if truthy v then v else Arr [], c))
      | Inr False \<Rightarrow>
          (case stored_models c of
             None \<Rightarrow> Inr (Arr [], c)
           | Some s \<Rightarrow>
               if s = [] then Inr (Arr [], c)
               else (case json_parse s of
                 Inl e \<Rightarrow> Inl e
               | Inr v \<Rightarrow>
                   (case js_in type v of
                      Inl e \<Rightarrow> Inl e
                    | Inr True \<Rightarrow> Inr (opt_prop v type, c\<lparr>channelModels := v\<rparr>)
                    | Inr False \<Rightarrow> Inr (Arr [], c\<lparr>channelModels := v\<rparr>)))))"

section \<open>Models and groups of the playground\<close>

record model_option =
  mo_label :: jsval
  mo_value :: jsval
  mo_modality :: jsval

definition model_option_of :: "jsval \<Rightarrow> model_option option" where
  "model_option_of item =
     (if is_str item then Some \<lparr>mo_label = item, mo_value = item, mo_modality = Undefined\<rparr>
      else if truthy (opt_prop item (lit ''name''))
      then (let n = opt_prop item (lit ''name'')
        in Some \<lparr>mo_label = n, mo_value = n, mo_modality = opt_prop item (lit ''modality'')\<rparr>)
      else None)"

definition modality_entry :: "jsval \<Rightarrow> jsobj" where
  "modality_entry item =
     [(lit ''modality'', js_or (opt_prop item (lit ''modality'')) (Str (lit ''text''))),
      (lit ''param_schema'', js_or (opt_prop item (lit ''param_schema'')) (Str []))]"

text \<open>An item is a text or an object; the result is the options, the selected model and the modalities
  by name, the last item of a name winning.\<close>

definition processModelsData :: "jsval \<Rightarrow> jsval \<Rightarrow> model_option list \<times> jsval \<times> jsobj" where
  "processModelsData data currentModel =
     (let items = (case data of Arr xs \<Rightarrow> xs | _ \<Rightarrow> []);
          options = List.map_filter model_option_of items;
          modalityMap = foldl (\<lambda>mm item. if \<not> is_str item \<and> truthy (opt_prop item (lit ''name''))
            then obj_put mm (to_str (opt_prop item (lit ''name''))) (Obj (modality_entry item)) else mm) [] items;
          selected = (if list_ex (\<lambda>op. mo_value op = currentModel) options then currentModel
            else case options of [] \<Rightarrow> Undefined | op # _ \<Rightarrow> mo_value op)
      in (options, selected, modalityMap))"

record group_option =
  go_label :: jsval
  go_value :: jsstr
  go_ratio :: jsval
  go_fullLabel :: jsval

text \<open>A description is a text; reading the length of a missing one throws.\<close>

definition group_option_of :: "jsstr \<times> jsval \<Rightarrow> group_option res" where
  "group_option_of e = (case e of (g, info) \<Rightarrow>
     if nullish info \<or> nullish (opt_prop info (lit ''desc'')) then Inl TypeError
     else (let desc = opt_prop info (lit ''desc'');
               label = (case desc of Str s \<Rightarrow> Str (if length s > 20 then take 20 s @ lit ''...'' else s) | v \<Rightarrow> v)
       in Inr \<lparr>go_label = label, go_value = g, go_ratio = opt_prop info (lit ''ratio''), go_fullLabel = desc\<rparr>))"

fun group_options :: "jsobj \<Rightarrow> group_option list res" where
  "group_options [] = Inr []"
| "group_options (e # es) = (case group_option_of e of
     Inl x \<Rightarrow> Inl x
   | Inr g \<Rightarrow> (case group_options es of Inl x \<Rightarrow> Inl x | Inr gs \<Rightarrow> Inr (g # gs)))"

fun to_front :: "('a \<Rightarrow> bool) \<Rightarrow> 'a list \<Rightarrow> 'a list" where
  "to_front P xs = (case find P xs of None \<Rightarrow> xs | Some x \<Rightarrow> x # takeWhile (\<lambda>y. \<not> P y) xs @ tl (dropWhile (\<lambda>y. \<not> P y) xs))"

definition processGroupsData :: "jsobj \<Rightarrow> jsval \<Rightarrow> group_option list res" where
  "processGroupsData data userGroup = (case group_options data of
     Inl e \<Rightarrow> Inl e
   | Inr gs \<Rightarrow> Inr (
       if gs = [] then [\<lparr>go_label = Str ([29992, 25143, 20998, 32452]), go_value = [], go_ratio = Num (Fin 1), go_fullLabel = Undefined\<rparr>]
       else if truthy userGroup then to_front (\<lambda>g. Str (go_value g) = userGroup) gs
       else gs))"

section \<open>Verification errors\<close>

text \<open>The status and data of \<open>error.response\<close>, if there is one.\<close>

definition isVerificationRequiredError :: "(jsnum \<times> jsval) option \<Rightarrow> bool" where
  "isVerificationRequiredError response = (case response of
     None \<Rightarrow> False
   | Some (status, data) \<Rightarrow> status = Fin 403 \<and> truthy data \<and>
       opt_prop data (lit ''code'') \<in> Str ` lit ` {''VERIFICATION_REQUIRED'', ''VERIFICATION_EXPIRED'', ''VERIFICATION_INVALID''})"

definition extractVerificationInfo :: "(jsnum \<times> jsval) option \<Rightarrow> jsval \<times> jsval" where
  "extractVerificationInfo response =
     (let data = (case response of None \<Rightarrow> Obj [] | Some (_, d) \<Rightarrow> js_or d (Obj []))
      in (opt_prop data (lit ''code''), js_or (opt_prop data (lit ''message'')) (Str ([38656, 35201, 23433, 20840, 39564, 35777]))))"

section \<open>Sharing refines a search for an open request\<close>

text \<open>The specification: a list of the requests, each with its key and whether it is open. There is no
  table of requests in flight; a call looks for an open request with its key.\<close>

type_synonym requests = "(jsstr option \<times> bool) list"

definition request_key :: "api_instance \<Rightarrow> nat \<Rightarrow> jsstr option" where
  "request_key a i = snd (snd (sent a ! i))"

definition requests_of :: "api_instance \<Rightarrow> requests" where
  "requests_of a = map (\<lambda>i. (request_key a i, i \<notin> settled a)) [0..<length (sent a)]"

definition open_with :: "jsstr \<Rightarrow> requests \<Rightarrow> nat option" where
  "open_with k rs = find (\<lambda>i. rs ! i = (Some k, True)) [0..<length rs]"

datatype api_event = Get jsstr jsobj | Settle nat

fun api_step :: "api_instance \<Rightarrow> api_event \<Rightarrow> api_instance" where
  "api_step a (Get url config) = snd (api_get url config a)"
| "api_step a (Settle i) = api_settle i a"

fun spec_step :: "requests \<Rightarrow> api_event \<Rightarrow> requests" where
  "spec_step rs (Get url config) =
     (if truthy (obj_get config (lit ''disableDuplicate'')) then rs @ [(None, True)]
      else if open_with (genKey url config) rs = None then rs @ [(Some (genKey url config), True)] else rs)"
| "spec_step rs (Settle i) = (if i < length rs then rs[i := (fst (rs ! i), False)] else rs)"

definition api_wf :: "api_instance \<Rightarrow> bool" where
  "api_wf a \<longleftrightarrow> distinct (map fst (inFlight a)) \<and>
     (\<forall>k i. (k, i) \<in> set (inFlight a) \<longleftrightarrow> i < length (sent a) \<and> i \<notin> settled a \<and> request_key a i = Some k) \<and>
     (\<forall>i\<in>settled a. i < length (sent a))"

lemma requests_of_facts [simp]:
  "length (requests_of a) = length (sent a)"
  "i < length (sent a) \<Longrightarrow> requests_of a ! i = (request_key a i, i \<notin> settled a)"
  by (simp_all add: requests_of_def)

lemma request_key_send:
  "request_key (a\<lparr>sent := sent a @ [r]\<rparr>) i = (if i < length (sent a) then request_key a i else if i = length (sent a) then snd (snd r) else request_key (a\<lparr>sent := sent a @ [r]\<rparr>) i)"
  by (simp add: request_key_def nth_append)

lemma open_with_Some:
  "open_with k rs = Some i \<Longrightarrow> i < length rs \<and> rs ! i = (Some k, True)"
  by (auto simp: open_with_def find_Some_iff)

lemma open_with_None: "open_with k rs = None \<longleftrightarrow> (\<forall>i<length rs. rs ! i \<noteq> (Some k, True))"
  by (auto simp: open_with_def find_None_iff)

lemma in_flight_lookup:
  assumes "api_wf a"
  shows "map_of (inFlight a) k = open_with k (requests_of a)"
proof (cases "open_with k (requests_of a)")
  case None
  then have "(k, i) \<notin> set (inFlight a)" for i using assms by (auto simp: open_with_None api_wf_def)
  then show ?thesis using None by (auto simp: map_of_eq_None_iff)
next
  case (Some i)
  then have "(k, i) \<in> set (inFlight a)" using open_with_Some [OF Some] assms by (auto simp: api_wf_def)
  then show ?thesis using Some assms by (simp add: api_wf_def del: map_of_eq_Some_iff)
qed

lemma open_unique:
  assumes "api_wf a" "requests_of a ! i = (Some k, True)" "requests_of a ! j = (Some k, True)" "i < length (sent a)" "j < length (sent a)"
  shows "i = j"
proof -
  have "(k, i) \<in> set (inFlight a)" "(k, j) \<in> set (inFlight a)" "distinct (map fst (inFlight a))"
    using assms by (auto simp: api_wf_def)
  then show ?thesis by (metis map_of_is_SomeI option.inject)
qed

lemma api_wf_unregistered:
  assumes "api_wf a"
  shows "api_wf (a\<lparr>sent := sent a @ [(url, config, None)]\<rparr>)"
  using assms by (auto simp: api_wf_def request_key_def nth_append less_Suc_eq)

lemma api_wf_registered:
  assumes "api_wf a" "map_of (inFlight a) k = None"
  shows "api_wf (a\<lparr>sent := sent a @ [(url, config, Some k)], inFlight := inFlight a @ [(k, length (sent a))]\<rparr>)"
proof -
  have new: "k \<notin> fst ` set (inFlight a)" using assms(2) by (simp add: map_of_eq_None_iff)
  have "length (sent a) \<notin> settled a" using assms(1) by (auto simp: api_wf_def)
  then show ?thesis using assms(1) new by (auto simp: api_wf_def request_key_def nth_append less_Suc_eq)
qed

lemma api_wf_settle:
  assumes "api_wf a"
  shows "api_wf (api_settle i a)"
proof (cases "i < length (sent a) \<and> i \<notin> settled a")
  case True
  show ?thesis
  proof (cases "request_key a i")
    case None
    then have "api_settle i a = a\<lparr>settled := insert i (settled a)\<rparr>" using True by (simp add: api_settle_def request_key_def)
    then show ?thesis using assms True None by (auto simp: api_wf_def request_key_def)
  next
    case (Some k)
    have eq: "api_settle i a = a\<lparr>settled := insert i (settled a), inFlight := filter (\<lambda>e. fst e \<noteq> k) (inFlight a)\<rparr>"
      using True Some by (simp add: api_settle_def request_key_def Let_def)
    have only: "j = i" if "j < length (sent a)" "j \<notin> settled a" "request_key a j = Some k" for j
      using open_unique [OF assms, of j k i] that True Some by simp
    have "distinct (map fst (filter (\<lambda>e. fst e \<noteq> k) (inFlight a)))"
      using assms by (simp add: api_wf_def distinct_map_filter)
    moreover have "(k', j) \<in> set (inFlight a) \<and> k' \<noteq> k \<longleftrightarrow> j < length (sent a) \<and> j \<notin> insert i (settled a) \<and> request_key a j = Some k'" for k' j
      using assms only [of j] Some by (auto simp: api_wf_def)
    moreover have "\<forall>j\<in>insert i (settled a). j < length (sent a)" using assms True by (simp add: api_wf_def)
    ultimately show ?thesis unfolding eq by (simp add: api_wf_def request_key_def)
  qed
qed (use assms in \<open>auto simp: api_settle_def\<close>)

lemma requests_of_send:
  assumes "api_wf a"
  shows "requests_of (a\<lparr>sent := sent a @ [(url, config, k)], inFlight := fl\<rparr>) = requests_of a @ [(k, True)]"
    "requests_of (a\<lparr>sent := sent a @ [(url, config, k)]\<rparr>) = requests_of a @ [(k, True)]"
proof -
  have "length (sent a) \<notin> settled a" using assms by (auto simp: api_wf_def)
  then show "requests_of (a\<lparr>sent := sent a @ [(url, config, k)], inFlight := fl\<rparr>) = requests_of a @ [(k, True)]"
    "requests_of (a\<lparr>sent := sent a @ [(url, config, k)]\<rparr>) = requests_of a @ [(k, True)]"
    by (auto intro!: nth_equalityI simp: requests_of_def request_key_def nth_append)
qed

lemma requests_of_settle: "requests_of (api_settle i a) = spec_step (requests_of a) (Settle i)"
  by (auto intro!: nth_equalityI simp: api_settle_def Let_def requests_of_def request_key_def nth_list_update split: option.splits)

lemma api_get_cases:
  assumes "api_wf a"
  shows "api_wf (snd (api_get url config a)) \<and> requests_of (snd (api_get url config a)) = spec_step (requests_of a) (Get url config)"
proof (cases "truthy (obj_get config (lit ''disableDuplicate''))")
  case True
  then show ?thesis using assms by (simp add: api_get_def send_request_def api_wf_unregistered requests_of_send)
next
  case False
  note lookup = in_flight_lookup [OF assms, of "genKey url config"]
  show ?thesis
  proof (cases "open_with (genKey url config) (requests_of a)")
    case None
    then show ?thesis using False assms lookup
      by (simp add: api_get_def send_request_def api_wf_registered requests_of_send Let_def)
  next
    case (Some i)
    then show ?thesis using False assms lookup by (simp add: api_get_def Let_def del: map_of_eq_Some_iff)
  qed
qed

interpretation shared_get: functional_refinement api_wf requests_of api_step spec_step
proof unfold_locales
  show "api_wf (api_step a e)" if "api_wf a" for a e
    using that by (cases e) (simp_all add: api_get_cases api_wf_settle)
  show "requests_of (api_step a e) = spec_step (requests_of a) e" if "api_wf a" for a e
    using that by (cases e) (simp_all add: api_get_cases requests_of_settle del: spec_step.simps)
qed

lemma api_wf_update: "api_wf updateAPI" "requests_of updateAPI = []"
  by (simp_all add: api_wf_def updateAPI_def requests_of_def)

text \<open>C33: the table of requests in flight implements a search for an open request: after any sequence
  of calls and endings, the requests are those of the specification, no two open ones share a key, and
  a call that does not opt out gets the open request with its key if there is one and otherwise
  sends one.\<close>

theorem get_shares_open_request:
  assumes "a = foldl api_step updateAPI es" "rs = foldl spec_step [] es"
  shows "requests_of a = rs \<and>
    (\<forall>i j k. i < length rs \<and> j < length rs \<and> rs ! i = (Some k, True) \<and> rs ! j = (Some k, True) \<longrightarrow> i = j) \<and>
    (\<not> truthy (obj_get config (lit ''disableDuplicate'')) \<longrightarrow>
      fst (api_get url config a) = (case open_with (genKey url config) rs of Some i \<Rightarrow> i | None \<Rightarrow> length rs))"
proof -
  have wf: "api_wf a" unfolding assms(1) by (rule shared_get.inv_run [OF api_wf_update(1)])
  have rs: "requests_of a = rs"
    using shared_get.abs_run [OF api_wf_update(1), of es] by (simp add: assms api_wf_update(2))
  have "length rs = length (sent a)" by (simp add: rs [symmetric])
  then show ?thesis
    using open_unique [OF wf] in_flight_lookup [OF wf, of "genKey url config"] rs
    by (auto simp: api_get_def send_request_def Let_def split: option.splits simp del: map_of_eq_Some_iff)
qed

theorem get_shares_open_request_witness:
  "fst (api_get (lit ''/api/models'') [] (foldl api_step updateAPI [Get (lit ''/api/models'') [], Get (lit ''/x'') []])) = 0"
proof -
  have "foldl spec_step [] [Get (lit ''/api/models'') [], Get (lit ''/x'') []] =
      [(Some (genKey (lit ''/api/models'') []), True), (Some (genKey (lit ''/x'') []), True)]"
    by (simp add: open_with_def genKey_def lit_simps)
  from get_shares_open_request [OF refl this [symmetric], of "[]" "lit ''/api/models''"] show ?thesis
    by (simp add: open_with_def upt_rec)
qed

text \<open>Keys of different addresses or parameters differ, when the addresses have no query.\<close>

lemma genKey_inject:
  assumes "genKey u c = genKey u' c'" "63 \<notin> set u" "63 \<notin> set u'"
  shows "u = u'"
proof -
  have q: "lit ''?'' = [63]" by (simp add: lit_simps)
  from assms(1) obtain x y where "u @ 63 # x = u' @ 63 # y" unfolding genKey_def q append_Cons append_Nil by blast
  moreover have "takeWhile ((\<noteq>) 63) (w @ 63 # z) = w" if "63 \<notin> set w" for w z :: jsstr
    using that by (induction w) auto
  ultimately show ?thesis using assms(2,3) by metis
qed

section \<open>After a login no error is shown\<close>

text \<open>\<open>updateAPI\<close>, which every login calls, replaces the instance without registering the response
  interceptor again.\<close>

lemma updated_client_shows_no_error: "failure_shown updateAPI config \<longleftrightarrow> False" "failure_shown initialAPI None"
  by (simp_all add: failure_shown_def updateAPI_def initialAPI_def)

section \<open>Lists\<close>

lemma selected_model_available:
  assumes "processModelsData data cur = (options, sel, mm)" "options \<noteq> []"
  shows "sel \<in> mo_value ` set options \<and> (cur \<in> mo_value ` set options \<longrightarrow> sel = cur)"
  using assms by (cases options) (auto simp: processModelsData_def Let_def list_ex_iff split: if_splits)

lemma to_front_spec:
  "mset (to_front P xs) = mset xs \<and> (\<forall>x. find P xs = Some x \<longrightarrow> hd (to_front P xs) = x)"
proof -
  have "mset xs = add_mset x (mset (takeWhile (\<lambda>y. \<not> P y) xs) + mset (tl (dropWhile (\<lambda>y. \<not> P y) xs)))"
    if "find P xs = Some x" for x
    using that by (induction xs) (auto split: if_splits)
  then show ?thesis by (auto split: option.splits)
qed

end
