(* ===== verification/Playground_State.thy ===== *)
theory Playground_State
  imports Playground_Sessions Playground_Chat_Thms Api_Client
begin

text \<open>
  The state of the playground page: \<open>hooks/playground/usePlaygroundState.js\<close> over the session hook, the
  loading of models and groups of \<open>useDataLoader.js\<close>, the modality of messages
  (\<open>components/playground/messageModality.js\<close>), and sending a chat message (\<open>handleChatSend\<close> of
  \<open>pages/Playground/index.jsx\<close>), composed with the conversation and the database.

  The functions a request is given keep the session that was active when it was sent; \<open>pg_owner\<close> records
  it for each stream. A save scheduled with \<open>setTimeout\<close> runs right after the event that scheduled it.
  Stored messages are lists of objects.
\<close>

section \<open>Models and groups\<close>

record model_info =
  mi_name :: jsval
  mi_modality :: jsval
  mi_schema :: jsval

record model_entry =
  en_model :: jsval
  en_group :: jsstr
  en_groupLabel :: jsval
  en_ratio :: jsval
  en_modality :: jsval
  en_paramSchema :: jsval

definition model_info_of :: "jsval \<Rightarrow> model_info option" where
  "model_info_of it =
     (if is_str it then Some \<lparr>mi_name = it, mi_modality = Str (lit ''text''), mi_schema = Str []\<rparr>
      else if truthy (opt_prop it (lit ''name''))
      then Some \<lparr>mi_name = opt_prop it (lit ''name''), mi_modality = js_or (opt_prop it (lit ''modality'')) (Str (lit ''text'')),
                 mi_schema = js_or (opt_prop it (lit ''param_schema'')) (Str [])\<rparr>
      else None)"

text \<open>The models of one group, from \<open>res.data\<close>.\<close>

definition fetchModelsForGroup :: "jsval \<Rightarrow> model_info list" where
  "fetchModelsForGroup resData =
     (let d = js_or resData (Obj [])
      in if \<not> truthy (opt_prop d (lit ''success'')) then []
         else case opt_prop d (lit ''data'') of Arr items \<Rightarrow> List.map_filter model_info_of items | _ \<Rightarrow> [])"

definition entry_of :: "group_option \<Rightarrow> model_info \<Rightarrow> model_entry" where
  "entry_of g m = \<lparr>en_model = mi_name m, en_group = go_value g,
     en_groupLabel = js_or (js_or (go_fullLabel g) (go_label g)) (Str (go_value g)), en_ratio = go_ratio g,
     en_modality = js_or (mi_modality m) (Str (lit ''text'')), en_paramSchema = js_or (mi_schema m) (Str [])\<rparr>"

definition buildAggregated :: "group_option list \<Rightarrow> (jsstr \<Rightarrow> model_info list) \<Rightarrow> model_entry list \<times> jsobj" where
  "buildAggregated groupOptions perGroupModels =
     (let entries = concat (map (\<lambda>g. map (entry_of g) (perGroupModels (go_value g))) groupOptions)
      in (entries, foldl (\<lambda>mm e. if truthy (obj_get mm (to_str (en_model e))) then mm
            else obj_put mm (to_str (en_model e)) (Obj [(lit ''modality'', en_modality e), (lit ''param_schema'', en_paramSchema e)]))
          [] entries))"

text \<open>The group of the user: from the user state, else from localStorage.\<close>

definition user_group :: "jsval \<Rightarrow> jsstr option \<Rightarrow> jsval res" where
  "user_group stateGroup storedUser =
     (if truthy stateGroup then Inr stateGroup
      else map_sum id (\<lambda>v. opt_prop v (lit ''group''))
        (json_parse (case storedUser of None \<Rightarrow> lit ''{}'' | Some s \<Rightarrow> if s = [] then lit ''{}'' else s)))"

definition real_groups :: "group_option list \<Rightarrow> group_option list" where
  "real_groups gs = filter (\<lambda>g. go_value g \<noteq> [] \<and> go_value g \<noteq> lit ''auto'') gs"

definition has_entry :: "model_entry list \<Rightarrow> jsval \<Rightarrow> jsval \<Rightarrow> bool" where
  "has_entry es m g \<longleftrightarrow> list_ex (\<lambda>e. en_model e = m \<and> Str (en_group e) = g) es"

text \<open>The entry chosen when the selection is not among the entries.\<close>

definition fallback_entry :: "model_entry list \<Rightarrow> jsval \<Rightarrow> jsval \<Rightarrow> model_entry" where
  "fallback_entry es model userGroup = (case find (\<lambda>e. en_model e = model) es of
     Some e \<Rightarrow> e
   | None \<Rightarrow> (case find (\<lambda>e. Str (en_group e) = userGroup) es of Some e \<Rightarrow> e | None \<Rightarrow> hd es))"

definition select_fallback :: "model_entry list \<Rightarrow> jsval \<Rightarrow> jsobj \<Rightarrow> jsobj" where
  "select_fallback es userGroup inputs =
     (if has_entry es (mget inputs ''model'') (mget inputs ''group'') \<or> es = [] then inputs
      else (let e = fallback_entry es (mget inputs ''model'') userGroup;
                inputs1 = (if en_model e \<noteq> mget inputs ''model'' then mput inputs ''model'' (en_model e) else inputs)
        in if Str (en_group e) \<noteq> mget inputs ''group'' then mput inputs1 ''group'' (Str (en_group e)) else inputs1))"

record loader =
  ld_groups :: "group_option list"
  ld_entries :: "model_entry list"
  ld_modalities :: jsobj
  ld_inputs :: jsobj
  ld_errors :: "jsval list"

text \<open>Loading: the answer to the request for the groups and, for each group, to the one for its models,
  \<open>None\<close> if the request failed. What was set before a failure stays.\<close>

definition load_failed :: "(jsval \<Rightarrow> jsval) \<Rightarrow> loader \<Rightarrow> loader" where
  "load_failed t l = l\<lparr>ld_errors := ld_errors l @ [t (Str ([21152, 36733, 27169, 22411, 22833, 36133]))]\<rparr>"

definition loadAll :: "(jsval \<Rightarrow> jsval) \<Rightarrow> jsval option \<Rightarrow> jsval \<Rightarrow> jsstr option \<Rightarrow> (jsstr \<Rightarrow> jsval option) \<Rightarrow> loader \<Rightarrow> loader" where
  "loadAll t groupsRes stateGroup storedUser modelsRes l = (case groupsRes of
     None \<Rightarrow> load_failed t l
   | Some resData \<Rightarrow>
       (let d = js_or resData (Obj []); data = opt_prop d (lit ''data'')
        in if \<not> truthy (opt_prop d (lit ''success''))
           then l\<lparr>ld_errors := ld_errors l @ [t (js_or (opt_prop d (lit ''message'')) (Str ([21152, 36733, 20998, 32452, 22833, 36133])))]\<rparr>
           else case user_group stateGroup storedUser of
             Inl e \<Rightarrow> load_failed t l
           | Inr userGroup \<Rightarrow>
               if nullish data then load_failed t l
               else (case processGroupsData (own_entries data) userGroup of
                 Inl e \<Rightarrow> load_failed t l
               | Inr groupOptions \<Rightarrow>
                   (let groups = real_groups groupOptions; l1 = l\<lparr>ld_groups := groups\<rparr>
                    in if list_ex (\<lambda>g. modelsRes (go_value g) = None) groups then load_failed t l1
                       else (case buildAggregated groups (\<lambda>g. fetchModelsForGroup (the (modelsRes g))) of
                         (entries, modalityMap) \<Rightarrow>
                           l1\<lparr>ld_entries := entries, ld_modalities := modalityMap,
                              ld_inputs := select_fallback entries userGroup (ld_inputs l1)\<rparr>)))))"

section \<open>The modality of a message\<close>

definition part_with :: "string \<Rightarrow> jsval \<Rightarrow> bool" where
  "part_with k p \<longleftrightarrow> opt_prop p (lit ''type'') = Str (lit k) \<and> truthy (opt_prop (opt_prop p (lit k)) (lit ''url''))"

definition text_part :: "jsval \<Rightarrow> bool" where
  "text_part p \<longleftrightarrow> opt_prop p (lit ''type'') = Str (lit ''text'') \<and>
     (case opt_prop p (lit ''text'') of Str s \<Rightarrow> trim s \<noteq> [] | _ \<Rightarrow> False)"

definition inferMessageModality :: "jsobj \<Rightarrow> jsval" where
  "inferMessageModality m =
     (if truthy (mget m ''modality'') then mget m ''modality''
      else case mget m ''content'' of
        Arr parts \<Rightarrow>
          if list_ex (part_with ''video_url'') parts then Str (lit ''video'')
          else if list_ex (part_with ''audio_url'') parts then Str (lit ''audio'')
          else if list_ex (part_with ''image_url'') parts
          then (if \<not> list_ex text_part parts \<and> mget m ''role'' = Str (lit ''assistant'') then Str (lit ''image'')
                else Str (lit ''multimodal''))
          else Str (lit ''text'')
      | _ \<Rightarrow> Str (lit ''text''))"

section \<open>The page\<close>

record page_state =
  pg_hook :: hook_state
  pg_chat :: chat
  pg_owner :: "jsstr option list"
  pg_loaded :: bool
  pg_loading :: "jsstr option"
  pg_inputs :: jsobj
  pg_enabled :: jsobj
  pg_showDebugPanel :: jsval
  pg_customMode :: jsval
  pg_customBody :: jsval
  pg_entries :: "model_entry list"
  pg_modalities :: jsobj
  pg_timer :: "jsobj option"

abbreviation pg_messages :: "page_state \<Rightarrow> jsobj list" where
  "pg_messages p \<equiv> ch_messages (pg_chat p)"

abbreviation pg_store :: "page_state \<Rightarrow> storage" where
  "pg_store p \<equiv> store (pg_hook p)"

definition set_pg_messages :: "jsobj list \<Rightarrow> page_state \<Rightarrow> page_state" where
  "set_pg_messages ms p = p\<lparr>pg_chat := (pg_chat p)\<lparr>ch_messages := ms\<rparr>\<rparr>"

subsection \<open>Saving and loading messages\<close>

text \<open>\<open>saveMessagesImmediately\<close> as it was created while \<open>sid\<close> was the active session.\<close>

definition saveMessagesImmediately :: "page_env \<Rightarrow> jsstr option \<Rightarrow> jsobj list \<Rightarrow> page_state \<Rightarrow> page_state" where
  "saveMessagesImmediately e sid ms p = (case sid of
     None \<Rightarrow> p
   | Some i \<Rightarrow>
       if i = [] \<or> \<not> pg_loaded p then p
       else p\<lparr>pg_hook := (pg_hook p)\<lparr>store := saveMessages e (pg_store p) (Arr (map Obj ms)) i\<rparr>\<rparr>)"

text \<open>The effect of a change of the active session, and its end unless another has started.\<close>

definition begin_load :: "page_state \<Rightarrow> page_state" where
  "begin_load p = (case activeId (pg_hook p) of
     Some i \<Rightarrow> if initialized (pg_hook p) \<and> i \<noteq> [] then p\<lparr>pg_loaded := False, pg_loading := Some i\<rparr> else p
   | None \<Rightarrow> p)"

definition message_list :: "jsval \<Rightarrow> jsobj list" where
  "message_list v = (case v of Arr ms \<Rightarrow> map (\<lambda>m. case m of Obj fs \<Rightarrow> fs | _ \<Rightarrow> []) ms | _ \<Rightarrow> [])"

text \<open>The last message of a conversation that was being generated when the page was left.\<close>

definition recover_last :: "jsobj list \<Rightarrow> jsobj list option" where
  "recover_last ms =
     (if ms = [] then None
      else (let m = last ms
        in if (mget m ''status'' \<noteq> LOADING \<and> mget m ''status'' \<noteq> INCOMPLETE) \<or>
              mget m ''modality'' = Str (lit ''image'') \<or> mget m ''modality'' = Str (lit ''video'') then None
           else (case processIncompleteThinkTags (text_or_empty (mget m ''content'')) (text_or_empty (mget m ''reasoningContent'')) of
             (content, reasoning) \<Rightarrow>
               Some (butlast ms @ [obj_merge m [(lit ''status'', COMPLETE), (lit ''content'', Str content),
                 (lit ''reasoningContent'', if reasoning = [] then Null else Str reasoning), (lit ''isThinkingComplete'', Bool True)]]))))"

definition finish_load :: "page_env \<Rightarrow> page_env \<Rightarrow> page_state \<Rightarrow> page_state" where
  "finish_load e1 e2 p = (case pg_loading p of
     None \<Rightarrow> p
   | Some i \<Rightarrow>
       (let p1 = (set_pg_messages (message_list (loadMessages e1 (pg_store p) i)) p)\<lparr>pg_loaded := True, pg_loading := None\<rparr>
        in case recover_last (pg_messages p1) of
             None \<Rightarrow> p1
           | Some ms \<Rightarrow> saveMessagesImmediately e2 (activeId (pg_hook p1)) ms (set_pg_messages ms p1)))"

definition switch_page :: "page_env \<Rightarrow> jsstr \<Rightarrow> page_state \<Rightarrow> page_state" where
  "switch_page e i p = begin_load (p\<lparr>pg_hook := switchSession e (pg_hook p) i\<rparr>)"

subsection \<open>Configuration\<close>

definition initial_page :: "page_env \<Rightarrow> storage \<Rightarrow> chat \<Rightarrow> page_state" where
  "initial_page e st ch =
     (let c = loadConfig e st; get = (\<lambda>k. js_or (obj_get c (lit k)) (obj_get DEFAULT_CONFIG (lit k)))
      in \<lparr>pg_hook = useSessions_initial e st, pg_chat = ch\<lparr>ch_messages := []\<rparr>, pg_owner = [], pg_loaded = False, pg_loading = None,
          pg_inputs = own_entries (get ''inputs''), pg_enabled = own_entries (get ''parameterEnabled''),
          pg_showDebugPanel = get ''showDebugPanel'', pg_customMode = get ''customRequestMode'',
          pg_customBody = get ''customRequestBody'', pg_entries = [], pg_modalities = [], pg_timer = None\<rparr>)"

definition handleInputChange :: "jsstr \<Rightarrow> jsval \<Rightarrow> page_state \<Rightarrow> page_state" where
  "handleInputChange name v p = p\<lparr>pg_inputs := obj_put (pg_inputs p) name v\<rparr>"

definition handleParameterToggle :: "jsstr \<Rightarrow> page_state \<Rightarrow> page_state" where
  "handleParameterToggle k p = p\<lparr>pg_enabled := obj_put (pg_enabled p) k (Bool (\<not> truthy (obj_get (pg_enabled p) k)))\<rparr>"

definition find_entry :: "model_entry list \<Rightarrow> jsval \<Rightarrow> jsval \<Rightarrow> model_entry option" where
  "find_entry es m g = find (\<lambda>e. en_model e = m \<and> Str (en_group e) = g) es"

definition modality_of :: "jsobj \<Rightarrow> jsval \<Rightarrow> jsval" where
  "modality_of mm m = opt_prop (obj_get mm (to_str m)) (lit ''modality'')"

definition handleModelGroupChange :: "page_env \<Rightarrow> page_env \<Rightarrow> jsval \<Rightarrow> jsval \<Rightarrow> page_state \<Rightarrow> page_state" where
  "handleModelGroupChange e1 e2 model grp p =
     (let modality = js_or (js_or (case find_entry (pg_entries p) model grp of None \<Rightarrow> Undefined | Some en \<Rightarrow> en_modality en)
            (modality_of (pg_modalities p) model)) (Str (lit ''text''));
          p1 = p\<lparr>pg_inputs := obj_merge (pg_inputs p) [(lit ''model'', model), (lit ''group'', grp)]\<rparr>
      in case activeId (pg_hook p1) of
           None \<Rightarrow> p1
         | Some i \<Rightarrow>
             if i = [] then p1
             else p1\<lparr>pg_hook := snd (updateSessionMeta e1 e2 (pg_hook p1) i
                    [(lit ''model'', model), (lit ''group'', grp), (lit ''modality'', modality)])\<rparr>)"

text \<open>The effect that restores the model of a session.\<close>

definition restore_inputs :: "page_state \<Rightarrow> page_state" where
  "restore_inputs p = (case find (\<lambda>r. Some (session_id r) = activeId (pg_hook p)) (sessions (pg_hook p)) of
     None \<Rightarrow> p
   | Some sess \<Rightarrow>
       if \<not> initialized (pg_hook p) then p
       else (let sm = mget sess ''model''; sg = mget sess ''group'';
                 put = (\<lambda>m g. p\<lparr>pg_inputs := (let i1 = (if m \<noteq> mget (pg_inputs p) ''model'' then mput (pg_inputs p) ''model'' m else pg_inputs p)
                   in if g \<noteq> mget (pg_inputs p) ''group'' then mput i1 ''group'' g else i1)\<rparr>);
                 found = (if pg_entries p \<noteq> [] \<and> truthy sm
                   then (case find_entry (pg_entries p) sm sg of Some e \<Rightarrow> Some e
                     | None \<Rightarrow> find (\<lambda>e. en_model e = sm) (pg_entries p)) else None)
             in case found of
                  Some e \<Rightarrow> put (en_model e) (Str (en_group e))
                | None \<Rightarrow> put (if truthy sm then sm else mget (pg_inputs p) ''model'')
                              (if truthy sg then sg else mget (pg_inputs p) ''group'')))"

definition config_to_save :: "page_state \<Rightarrow> jsobj" where
  "config_to_save p = [(lit ''inputs'', Obj (pg_inputs p)), (lit ''parameterEnabled'', Obj (pg_enabled p)),
     (lit ''showDebugPanel'', pg_showDebugPanel p), (lit ''customRequestMode'', pg_customMode p),
     (lit ''customRequestBody'', pg_customBody p)]"

text \<open>The timer holds the configuration of the call that set it; a new call replaces it, unmounting
  clears it.\<close>

definition debouncedSaveConfig :: "page_state \<Rightarrow> page_state" where
  "debouncedSaveConfig p = p\<lparr>pg_timer := Some (config_to_save p)\<rparr>"

definition timer_fires :: "page_env \<Rightarrow> page_state \<Rightarrow> page_state" where
  "timer_fires e p = (case pg_timer p of
     None \<Rightarrow> p
   | Some c \<Rightarrow> p\<lparr>pg_timer := None, pg_hook := (pg_hook p)\<lparr>store := saveConfig e (pg_store p) c\<rparr>\<rparr>)"

definition clear_timer :: "page_state \<Rightarrow> page_state" where
  "clear_timer p = p\<lparr>pg_timer := None\<rparr>"

definition handleConfigImport :: "jsval \<Rightarrow> page_state \<Rightarrow> page_state" where
  "handleConfigImport c p =
     (let ins = opt_prop c (lit ''inputs''); mt = opt_prop ins (lit ''max_tokens''); parsed = parse_int10 (to_str mt);
          p1 = (if truthy ins
            then p\<lparr>pg_inputs := obj_put (obj_merge (pg_inputs p) (own_entries ins)) (lit ''max_tokens'') (if parsed = NaN then mt else Num parsed)\<rparr>
            else p);
          en = opt_prop c (lit ''parameterEnabled'');
          p2 = (if truthy en then p1\<lparr>pg_enabled := obj_merge (pg_enabled p1) (own_entries en)\<rparr> else p1);
          dbg = opt_prop c (lit ''showDebugPanel'');
          p3 = (if is_bool dbg then p2\<lparr>pg_showDebugPanel := dbg\<rparr> else p2);
          p4 = (if truthy (opt_prop c (lit ''customRequestMode'')) then p3\<lparr>pg_customMode := opt_prop c (lit ''customRequestMode'')\<rparr> else p3);
          p5 = (if truthy (opt_prop c (lit ''customRequestBody'')) then p4\<lparr>pg_customBody := opt_prop c (lit ''customRequestBody'')\<rparr> else p4)
      in case opt_prop c (lit ''messages'') of Arr ms \<Rightarrow> set_pg_messages (message_list (Arr ms)) p5 | _ \<Rightarrow> p5)"

definition handleConfigReset :: "bool \<Rightarrow> page_state \<Rightarrow> page_state" where
  "handleConfigReset resetMessages p =
     (let get = (\<lambda>k. obj_get DEFAULT_CONFIG (lit k));
          p1 = p\<lparr>pg_inputs := own_entries (get ''inputs''), pg_enabled := own_entries (get ''parameterEnabled''),
            pg_showDebugPanel := get ''showDebugPanel'', pg_customMode := get ''customRequestMode'',
            pg_customBody := get ''customRequestBody''\<rparr>
      in if resetMessages then set_pg_messages [] p1 else p1)"

text \<open>A new session, with the model and group of a deep link if it has them; a failed transaction
  rejects and leaves the inputs.\<close>

definition handleNewChat :: "page_env \<Rightarrow> page_env \<Rightarrow> jsstr \<Rightarrow> jsval \<Rightarrow> page_state \<Rightarrow> unit res \<times> page_state" where
  "handleNewChat e1 e2 rand overrides p =
     (let om = opt_prop overrides (lit ''model''); og = opt_prop overrides (lit ''group'');
          model = js_coalesce om (mget (pg_inputs p) ''model''); grp = js_coalesce og (mget (pg_inputs p) ''group'');
          modality = js_or (modality_of (pg_modalities p) model) (Str (lit ''text''))
      in case createSession e1 e2 rand (pg_hook p) [(lit ''title'', Str []), (lit ''modality'', modality),
             (lit ''model'', js_or model (Str [])), (lit ''group'', js_or grp (Str []))] of
           (Inl x, h) \<Rightarrow> (Inl x, p\<lparr>pg_hook := h\<rparr>)
         | (Inr _, h) \<Rightarrow>
             (Inr (), begin_load (p\<lparr>pg_hook := h, pg_inputs := obj_merge (pg_inputs p)
                ((if truthy om then [(lit ''model'', om)] else []) @ (if truthy og then [(lit ''group'', og)] else []))\<rparr>)))"

definition currentModelEntry :: "page_state \<Rightarrow> model_entry option" where
  "currentModelEntry p = find_entry (pg_entries p) (mget (pg_inputs p) ''model'') (mget (pg_inputs p) ''group'')"

subsection \<open>Sending a chat message\<close>

definition chat_history :: "jsobj list \<Rightarrow> jsobj list" where
  "chat_history ms = filter (\<lambda>m. mget m ''taskKind'' \<noteq> Str (lit ''stt'') \<and>
     (inferMessageModality m = Str (lit ''text'') \<or> inferMessageModality m = Str (lit ''multimodal''))) ms"

text \<open>The fields that \<open>handleChatSend\<close> adds to a message.\<close>

definition with_meta :: "jsobj \<Rightarrow> jsstr \<Rightarrow> jsobj \<Rightarrow> jsobj" where
  "with_meta inputs modality m = obj_merge m [(lit ''modality'', Str modality),
     (lit ''meta'', Obj [(lit ''model'', mget inputs ''model''), (lit ''group'', mget inputs ''group'')])]"

definition image_urls :: "jsobj \<Rightarrow> jsstr list" where
  "image_urls inputs = (case mget inputs ''imageUrls'' of Arr us \<Rightarrow> filter (\<lambda>u. trim u \<noteq> []) (map to_str us) | _ \<Rightarrow> [])"

text \<open>The saves that an event has scheduled, with the function of session \<open>sid\<close>.\<close>

definition run_saves :: "page_env \<Rightarrow> jsstr option \<Rightarrow> chat \<Rightarrow> page_state \<Rightarrow> page_state" where
  "run_saves e sid ch p =
     foldl (\<lambda>q ms. saveMessagesImmediately e sid ms q) (p\<lparr>pg_chat := ch\<rparr>) (drop (length (ch_saves (pg_chat p))) (ch_saves ch))"

text \<open>\<open>sendRequest\<close>: a stream keeps the active session.\<close>

definition sendRequest ::
    "page_env \<Rightarrow> (jsstr \<Rightarrow> jsstr) \<Rightarrow> jsstr \<Rightarrow> jsval \<Rightarrow> bool \<Rightarrow> js_exn option \<Rightarrow> page_state \<Rightarrow> page_state res" where
  "sendRequest e t now payload isStream start p =
     (if isStream
      then map_sum id (\<lambda>ch. (run_saves e (activeId (pg_hook p)) ch p)\<lparr>pg_owner := pg_owner p @ [activeId (pg_hook p)]\<rparr>)
        (handleSSE t now payload start (pg_chat p))
      else Inr (p\<lparr>pg_chat := plain_start now payload (pg_chat p)\<rparr>))"

text \<open>\<open>handleChatSend\<close>; \<open>m1\<close> and \<open>m2\<close> are the ids of the two messages, \<open>tm\<close> the time. The request goes out
  while the new list of messages is computed; what it does to the messages is queued behind that. A
  custom body that is not JSON only shows an error.\<close>

definition handleChatSend :: "(jsstr \<Rightarrow> jsstr) \<Rightarrow> page_env \<Rightarrow> jsstr \<Rightarrow> jsnum \<Rightarrow> jsstr \<Rightarrow> jsstr \<Rightarrow> jsstr \<Rightarrow> js_exn option \<Rightarrow>
    jsstr \<Rightarrow> page_state \<Rightarrow> page_state res" where
  "handleChatSend t e now tm m1 m2 currentModality start content p =
     (let inputs = pg_inputs p; enabled = truthy (mget inputs ''imageEnabled'');
          multi = (currentModality = lit ''multimodal'');
          loading = with_meta inputs (if multi then lit ''multimodal'' else lit ''text'') (createLoadingAssistantMessage tm m2);
          shown = (\<lambda>ms. saveMessagesImmediately e (activeId (pg_hook p)) ms (set_pg_messages ms p))
      in if truthy (pg_customMode p) \<and> truthy (pg_customBody p)
         then (case json_parse (to_str (pg_customBody p)) of
             Inl x \<Rightarrow> Inr p
           | Inr payload \<Rightarrow>
               if nullish payload then Inl TypeError
               else (let user = with_meta inputs (if multi \<or> enabled then lit ''multimodal'' else lit ''text'')
                       (createMessage tm m1 (lit ''user'') (Str content) [])
                 in sendRequest e t now payload (opt_prop payload (lit ''stream'') \<noteq> Bool False) start
                      (shown (pg_messages p @ [user, loading]))))
         else (let user = with_meta inputs (if enabled then lit ''multimodal'' else lit ''text'')
                     (createMessage tm m1 (lit ''user'') (buildMessageContent content (image_urls inputs) enabled) []);
                   payload = Obj (buildApiPayload (chat_history (pg_messages p @ [user])) [] inputs (pg_enabled p) currentModality)
           in sendRequest e t now payload (truthy (mget inputs ''stream'')) start (shown (pg_messages p @ [user, loading]))))"

subsection \<open>The events of streams\<close>

datatype sse_event = SseMessage jsstr | SseError jsval nat | SseState nat "nat option"

definition run_sse :: "(jsstr \<Rightarrow> jsstr) \<Rightarrow> (jserr \<Rightarrow> jsstr) \<Rightarrow> jsstr \<Rightarrow> jsval \<Rightarrow> nat \<Rightarrow> sse_event \<Rightarrow> chat \<Rightarrow> chat res" where
  "run_sse t errText now stack i ev ch = (case ev of
     SseMessage data \<Rightarrow> on_message t errText i data ch
   | SseError data rs \<Rightarrow> Inr (on_error t now stack i data rs ch)
   | SseState rs status \<Rightarrow> on_readystate t now stack i rs status ch)"

definition page_sse :: "page_env \<Rightarrow> (jsstr \<Rightarrow> jsstr) \<Rightarrow> (jserr \<Rightarrow> jsstr) \<Rightarrow> jsstr \<Rightarrow> jsval \<Rightarrow> nat \<times> sse_event \<Rightarrow> page_state \<Rightarrow> page_state res" where
  "page_sse e t errText now stack iev p = (case run_sse t errText now stack (fst iev) (snd iev) (pg_chat p) of
     Inl x \<Rightarrow> Inl x
   | Inr ch \<Rightarrow> Inr (run_saves e (pg_owner p ! fst iev) ch p))"

fun page_events :: "page_env \<Rightarrow> (jsstr \<Rightarrow> jsstr) \<Rightarrow> (jserr \<Rightarrow> jsstr) \<Rightarrow> jsstr \<Rightarrow> jsval \<Rightarrow> (nat \<times> sse_event) list \<Rightarrow> page_state \<Rightarrow> page_state res" where
  "page_events e t errText now stack [] p = Inr p"
| "page_events e t errText now stack (ev # evs) p = (case page_sse e t errText now stack ev p of
     Inl x \<Rightarrow> Inl x
   | Inr q \<Rightarrow> page_events e t errText now stack evs q)"

end
