(* ===== verification/Playground_State_Thms.thy ===== *)
theory Playground_State_Thms
  imports Playground_State
begin

text \<open>
  The playground page: what loading selects, what sending, streaming, saving and switching sessions
  do to the stored conversations.
\<close>

section \<open>The selection\<close>

lemma fallback_in: "es \<noteq> [] \<Longrightarrow> fallback_entry es m g \<in> set es"
  by (auto simp: fallback_entry_def find_Some_iff split: option.splits)

lemma select_fallback_gets:
  "mget (select_fallback es ug inputs) ''model'' = (if has_entry es (mget inputs ''model'') (mget inputs ''group'') \<or> es = []
     then mget inputs ''model'' else en_model (fallback_entry es (mget inputs ''model'') ug))"
  "mget (select_fallback es ug inputs) ''group'' = (if has_entry es (mget inputs ''model'') (mget inputs ''group'') \<or> es = []
     then mget inputs ''group'' else Str (en_group (fallback_entry es (mget inputs ''model'') ug)))"
  by (simp_all add: select_fallback_def Let_def obj_get_put)

lemma fallback_keeps_model: "e \<in> set es \<Longrightarrow> en_model e = m \<Longrightarrow> en_model (fallback_entry es m g) = m"
  by (auto simp: fallback_entry_def find_None_iff find_Some_iff split: option.splits)

lemma has_entryI: "e \<in> set es \<Longrightarrow> has_entry es (en_model e) (Str (en_group e))"
  by (auto simp: has_entry_def list_ex_iff)

lemma has_entryD: "has_entry es m g \<Longrightarrow> \<exists>e\<in>set es. en_model e = m \<and> Str (en_group e) = g"
  by (auto simp: has_entry_def list_ex_iff)

lemma loadAll_success:
  assumes "ld_errors (loadAll t gr sg su mr l) = ld_errors l"
  shows "\<exists>ug. ld_inputs (loadAll t gr sg su mr l) = select_fallback (ld_entries (loadAll t gr sg su mr l)) ug (ld_inputs l)"
  using assms
  by (auto simp: loadAll_def load_failed_def Let_def split: option.splits sum.splits if_splits prod.splits)

section \<open>Saves\<close>

lemma save_immediately_frames [simp]:
  "pg_chat (saveMessagesImmediately e sid ms p) = pg_chat p" "pg_owner (saveMessagesImmediately e sid ms p) = pg_owner p"
  "pg_loaded (saveMessagesImmediately e sid ms p) = pg_loaded p" "activeId (pg_hook (saveMessagesImmediately e sid ms p)) = activeId (pg_hook p)"
  "initialized (pg_hook (saveMessagesImmediately e sid ms p)) = initialized (pg_hook p)"
  by (simp_all add: saveMessagesImmediately_def split: option.splits)

lemma run_saves_none:
  "ch_saves ch = ch_saves (pg_chat p) \<Longrightarrow> run_saves e sid ch p = p\<lparr>pg_chat := ch\<rparr>"
  by (simp add: run_saves_def)

lemma run_saves_one:
  "ch_saves ch = ch_saves (pg_chat p) @ [ms] \<Longrightarrow> run_saves e sid ch p = saveMessagesImmediately e sid ms (p\<lparr>pg_chat := ch\<rparr>)"
  by (simp add: run_saves_def)

lemma messages_wf: "idb_wf (idb st) \<Longrightarrow> idb_wf (idb (saveMessages e st v i))"
  by (simp add: saveMessages_def Let_def idb_wf_messages)

lemma message_list_map [simp]: "message_list (Arr (map Obj ms)) = ms"
  by (simp add: message_list_def comp_def)

lemma load_switched: "page_ok e' \<Longrightarrow> j \<noteq> [] \<Longrightarrow> loadMessages e' (setActiveSessionId e st i) j = loadMessages e' st j"
  by (simp add: loadMessages_def session_or_active_def getMessages_def page_ok_def)

section \<open>Streams of a session that was left\<close>

lemma page_sse_finished:
  assumes "terminal (pg_messages p)"
  shows "\<exists>q. page_sse e t et now stack iev p = Inr q \<and> pg_messages q = pg_messages p \<and> pg_hook q = pg_hook p"
proof -
  have "\<exists>ch. run_sse t et now stack (fst iev) (snd iev) (pg_chat p) = Inr ch \<and> ch_messages ch = pg_messages p \<and>
      ch_saves ch = ch_saves (pg_chat p)"
    using finished_events [OF assms] by (cases "snd iev") (simp_all add: run_sse_def)
  then show ?thesis by (auto simp: page_sse_def run_saves_none)
qed

text \<open>C18: a conversation whose last message is finished is left alone by every stream still open, such
  as the one of a session that was left: no event, in any order, changes the conversation or the
  database or throws. The rest of the reply of the session that was left is not stored anywhere.\<close>

theorem left_stream_changes_nothing:
  assumes "terminal (pg_messages p)"
  shows "\<exists>q. page_events e t et now stack evs p = Inr q \<and> pg_messages q = pg_messages p \<and> pg_store q = pg_store p \<and>
    activeId (pg_hook q) = activeId (pg_hook p)"
  using assms
proof (induction evs arbitrary: p)
  case (Cons ev evs)
  obtain q where q: "page_sse e t et now stack ev p = Inr q" "pg_messages q = pg_messages p" "pg_hook q = pg_hook p"
    using page_sse_finished [OF Cons.prems] by blast
  then show ?case using Cons.IH [of q] Cons.prems by simp
qed simp

text \<open>A conversation that does not end with a finished message, as after the last reply was deleted, is
  marked complete by the end of the stream of another session, and is stored as the messages of that
  session.\<close>

lemma done_saves:
  assumes "pg_messages p \<noteq> []" "\<not> terminal (pg_messages p)"
  shows "\<exists>ch. on_message t et i (lit ''[DONE]'') (pg_chat p) = Inr ch \<and> terminal (ch_messages ch) \<and>
    ch_saves ch = ch_saves (pg_chat p) @ [ch_messages ch] \<and> reply_of (ch_messages ch) = reply_of (pg_messages p) \<and>
    butlast (ch_messages ch) = butlast (pg_messages p)"
proof -
  obtain u where u: "on_message t et i (lit ''[DONE]'') (pg_chat p) = complete_chat COMPLETE u"
      "ch_messages u = pg_messages p" "ch_saves u = ch_saves (pg_chat p)"
    by (simp add: on_message_def)
  obtain ch where ch: "complete_chat COMPLETE u = Inr ch" "terminal (ch_messages ch)" "ch_saves ch = ch_saves u @ [ch_messages ch]"
      "reply_of (ch_messages ch) = reply_of (ch_messages u)"
    using complete_chat_live [of u COMPLETE] assms u(2) by auto
  moreover have "butlast (ch_messages ch) = butlast (ch_messages u)"
    using ch(1) completeMessage_live [of "ch_messages u" COMPLETE] assms u(2) by (auto simp: complete_chat_def set_messages_def)
  ultimately show ?thesis using u by auto
qed

lemma stale_end_overwrites_session:
  assumes "pg_messages p \<noteq> []" "\<not> terminal (pg_messages p)" "pg_loaded p" "pg_owner p ! i = Some a" "a \<noteq> []"
    "idb_wf (idb (pg_store p))" "page_ok e" "page_ok e'"
  shows "\<exists>q. page_sse e t et now stack (i, SseMessage (lit ''[DONE]'')) p = Inr q \<and>
    loadMessages e' (pg_store q) a = Arr (map Obj (pg_messages q)) \<and> butlast (pg_messages q) = butlast (pg_messages p) \<and>
    terminal (pg_messages q) \<and> reply_of (pg_messages q) = reply_of (pg_messages p) \<and>
    activeId (pg_hook q) = activeId (pg_hook p) \<and> initialized (pg_hook q) = initialized (pg_hook p) \<and>
    idb_wf (idb (pg_store q)) \<and> pg_loaded q"
proof -
  obtain ch where ch: "on_message t et i (lit ''[DONE]'') (pg_chat p) = Inr ch" "terminal (ch_messages ch)"
      "ch_saves ch = ch_saves (pg_chat p) @ [ch_messages ch]" "reply_of (ch_messages ch) = reply_of (pg_messages p)"
      "butlast (ch_messages ch) = butlast (pg_messages p)"
    using done_saves [OF assms(1,2)] by blast
  define q where "q = saveMessagesImmediately e (Some a) (ch_messages ch) (p\<lparr>pg_chat := ch\<rparr>)"
  have "page_sse e t et now stack (i, SseMessage (lit ''[DONE]'')) p = Inr q"
    using ch(1,3) assms(4) by (simp add: page_sse_def run_sse_def run_saves_one q_def)
  moreover have store: "pg_store q = saveMessages e (pg_store p) (Arr (map Obj (ch_messages ch))) a"
    using assms(3,5) by (simp add: q_def saveMessagesImmediately_def)
  moreover have "loadMessages e' (pg_store q) a = Arr (map Obj (ch_messages ch))"
    unfolding store using save_load_messages [OF assms(6,7,8,5,5)] by simp
  ultimately show ?thesis using ch assms(3,6) messages_wf by (auto simp: q_def)
qed

section \<open>Switching sessions\<close>

lemma recover_finished: "terminal ms \<Longrightarrow> recover_last ms = None"
  by (auto dest!: terminal_facts simp: recover_last_def)

lemma recover_makes_finished: "recover_last ms = Some ms' \<Longrightarrow> terminal ms'"
  by (auto simp: recover_last_def Let_def terminal_def msg_status_def merge_simps split: if_splits prod.splits)

lemma switch_page_state:
  assumes "i \<noteq> []" "initialized (pg_hook p)"
  shows "switch_page e i p = p\<lparr>pg_hook := (pg_hook p)\<lparr>activeId := Some i, store := setActiveSessionId e (pg_store p) i\<rparr>,
    pg_loaded := False, pg_loading := Some i\<rparr>"
  using assms by (simp add: switch_page_def begin_load_def switchSession_def)

text \<open>Opening a session keeps the stored messages of every other one, and shows its own.\<close>

lemma open_session:
  assumes "i \<noteq> []" "j \<noteq> []" "i \<noteq> j" "initialized (pg_hook p)" "idb_wf (idb (pg_store p))" "page_ok e1" "page_ok e2" "page_ok e3" "page_ok e4"
  shows "loadMessages e4 (pg_store (finish_load e2 e3 (switch_page e1 i p))) j = loadMessages e4 (pg_store p) j \<and>
    initialized (pg_hook (finish_load e2 e3 (switch_page e1 i p))) \<and> idb_wf (idb (pg_store (finish_load e2 e3 (switch_page e1 i p))))"
proof -
  define st where "st = setActiveSessionId e1 (pg_store p) i"
  have wf: "idb_wf (idb st)" using assms(5) by (simp add: st_def)
  have other: "loadMessages e4 st j = loadMessages e4 (pg_store p) j" using assms by (simp add: st_def load_switched)
  have saved: "loadMessages e4 (saveMessages e3 st (Arr ms) i) j = loadMessages e4 st j" for ms
    using save_load_messages [OF wf assms(8,9,1,2), of ms] assms(3) by simp
  show ?thesis
    using wf messages_wf [OF wf] assms(1,4) saved other
    by (auto simp: switch_page_state [OF assms(1,4)] finish_load_def Let_def set_pg_messages_def saveMessagesImmediately_def st_def
        split: option.splits)
qed

lemma reopen_session:
  assumes "i \<noteq> []" "initialized (pg_hook p)" "page_ok e1" "page_ok e2" "loadMessages e2 (pg_store p) i = Arr (map Obj ms)" "terminal ms"
  shows "pg_messages (finish_load e2 e3 (switch_page e1 i p)) = ms"
  using assms recover_finished [OF assms(6)]
  by (simp add: switch_page_state finish_load_def Let_def set_pg_messages_def load_switched)

text \<open>C20: a conversation survives: when the stream of the active session ends, the conversation, with
  everything received in the reply, is stored, and is shown again, unchanged, after switching to
  another session and back.\<close>

theorem conversation_survives_switch:
  assumes "live (pg_messages p)" "pg_loaded p" "initialized (pg_hook p)" "pg_owner p ! k = Some a" "a \<noteq> []" "b \<noteq> []" "a \<noteq> b"
    "idb_wf (idb (pg_store p))" "page_ok e1" "page_ok e2" "page_ok e3" "page_ok e4" "page_ok e5" "page_ok e6"
  shows "\<exists>q. page_sse e1 t et now stack (k, SseMessage (lit ''[DONE]'')) p = Inr q \<and>
    terminal (pg_messages q) \<and> reply_of (pg_messages q) = reply_of (pg_messages p) \<and> butlast (pg_messages q) = butlast (pg_messages p) \<and>
    pg_messages (finish_load e6 e7 (switch_page e5 a (finish_load e3 e4 (switch_page e2 b q)))) = pg_messages q"
proof -
  have "pg_messages p \<noteq> []" "\<not> terminal (pg_messages p)" using assms(1) by (auto simp: live_def terminal_def)
  from stale_end_overwrites_session [OF this assms(2,4,5,8,9,14)]
  obtain q where q: "page_sse e1 t et now stack (k, SseMessage (lit ''[DONE]'')) p = Inr q"
      "loadMessages e6 (pg_store q) a = Arr (map Obj (pg_messages q))" "butlast (pg_messages q) = butlast (pg_messages p)"
      "terminal (pg_messages q)" "reply_of (pg_messages q) = reply_of (pg_messages p)" "initialized (pg_hook q) = initialized (pg_hook p)"
      "idb_wf (idb (pg_store q))"
    by metis
  let ?r = "finish_load e3 e4 (switch_page e2 b q)"
  have r: "loadMessages e6 (pg_store ?r) a = Arr (map Obj (pg_messages q))" "initialized (pg_hook ?r)"
    using open_session [of b a q e2 e3 e4 e6] assms q by simp_all
  have "pg_messages (finish_load e6 e7 (switch_page e5 a ?r)) = pg_messages q"
    by (rule reopen_session [OF assms(5) r(2) assms(13,14) r(1) q(4)])
  with q show ?thesis by blast
qed

text \<open>When loading succeeds and there is any model, the selected model and group are one of the
  entries; a selection that is one of them is kept, and so is a model that some group offers.\<close>

theorem loaded_selection_valid:
  assumes "l' = loadAll t groupsRes stateGroup storedUser modelsRes l" "ld_errors l' = ld_errors l" "ld_entries l' \<noteq> []"
  shows "has_entry (ld_entries l') (mget (ld_inputs l') ''model'') (mget (ld_inputs l') ''group'') \<and>
    (has_entry (ld_entries l') (mget (ld_inputs l) ''model'') (mget (ld_inputs l) ''group'') \<longrightarrow> ld_inputs l' = ld_inputs l) \<and>
    ((\<exists>e\<in>set (ld_entries l'). en_model e = mget (ld_inputs l) ''model'') \<longrightarrow> mget (ld_inputs l') ''model'' = mget (ld_inputs l) ''model'')"
proof -
  obtain ug where ug: "ld_inputs l' = select_fallback (ld_entries l') ug (ld_inputs l)"
    using loadAll_success assms(1,2) by blast
  show ?thesis
    unfolding ug select_fallback_gets using assms(3) fallback_in [OF assms(3)]
    by (auto simp: has_entryI fallback_keeps_model select_fallback_def)
qed

text \<open>The history sent to a chat model has texts and images only.\<close>

lemma history_modalities:
  "m \<in> set (chat_history ms) \<Longrightarrow> inferMessageModality m \<in> {Str (lit ''text''), Str (lit ''multimodal'')} \<and> m \<in> set ms"
  by (auto simp: chat_history_def)

section \<open>Witnesses\<close>

definition sample_env_ok :: page_env where
  "sample_env_ok = \<lparr>e_now = 1, e_fault = None, e_local_ok = True, e_iso = []\<rparr>"

definition playing :: "jsobj list \<Rightarrow> page_state" where
  "playing ms = \<lparr>pg_hook = \<lparr>store = \<lparr>idb = empty_idb, local = Map.empty\<rparr>, sessions = [], activeId = Some (lit ''s1''), initialized = True\<rparr>,
     pg_chat = sample_chat ms, pg_owner = [Some (lit ''s1'')], pg_loaded = True, pg_loading = None, pg_inputs = [], pg_enabled = [],
     pg_showDebugPanel = Bool False, pg_customMode = Bool False, pg_customBody = Str [], pg_entries = [], pg_modalities = [], pg_timer = None\<rparr>"

lemma playing_facts:
  "pg_messages (playing ms) = ms" "pg_loaded (playing ms)" "initialized (pg_hook (playing ms))" "pg_owner (playing ms) ! 0 = Some (lit ''s1'')"
  "idb_wf (idb (pg_store (playing ms)))" "page_ok sample_env_ok"
  by (simp_all add: playing_def sample_chat_def page_ok_def sample_env_ok_def idb_wf_def empty_idb_def store_wf_def)

theorem left_stream_changes_nothing_witness:
  "\<exists>q. page_events sample_env_ok id (\<lambda>_. []) [] Null [(0, SseMessage (lit ''{'')), (0, SseMessage (lit ''[DONE]''))]
     (playing [[(lit ''status'', COMPLETE)]]) = Inr q \<and> pg_messages q = [[(lit ''status'', COMPLETE)]]"
proof -
  have "terminal (pg_messages (playing [[(lit ''status'', COMPLETE)]]))"
    by (simp add: playing_facts terminal_def msg_status_def)
  from left_stream_changes_nothing [OF this, of sample_env_ok id "\<lambda>_. []" "[]" Null
      "[(0, SseMessage (lit ''{'')), (0, SseMessage (lit ''[DONE]''))]"]
  show ?thesis by (auto simp: playing_facts)
qed

theorem conversation_survives_switch_witness:
  "\<exists>q. page_sse sample_env_ok id (\<lambda>_. []) [] Null (0, SseMessage (lit ''[DONE]'')) (playing [sample_reply]) = Inr q \<and>
     pg_messages (finish_load sample_env_ok sample_env_ok (switch_page sample_env_ok (lit ''s1'')
       (finish_load sample_env_ok sample_env_ok (switch_page sample_env_ok (lit ''s2'') q)))) = pg_messages q"
proof -
  have "live (pg_messages (playing [sample_reply]))" by (simp only: playing_facts live_sample)
  moreover have "lit ''s1'' \<noteq> []" "lit ''s2'' \<noteq> []" "lit ''s1'' \<noteq> lit ''s2''" by (simp_all add: lit_simps)
  ultimately show ?thesis
    using conversation_survives_switch [of "playing [sample_reply]" 0 "lit ''s1''" "lit ''s2''" sample_env_ok sample_env_ok
        sample_env_ok sample_env_ok sample_env_ok sample_env_ok id "\<lambda>_. []" "[]" Null sample_env_ok] playing_facts by blast
qed

definition sample_loader :: loader where
  "sample_loader = \<lparr>ld_groups = [], ld_entries = [], ld_modalities = [], ld_inputs = [], ld_errors = []\<rparr>"

definition sample_loaded :: loader where
  "sample_loaded = loadAll id (Some (Obj [(lit ''success'', Bool True),
      (lit ''data'', Obj [(lit ''vip'', Obj [(lit ''desc'', Str []), (lit ''ratio'', Num (Fin 1))])])])) (Str (lit ''vip'')) None
      (\<lambda>_. Some (Obj [(lit ''success'', Bool True), (lit ''data'', Arr [Str (lit ''gpt'')])])) sample_loader"

theorem loaded_selection_valid_witness: "mget (ld_inputs sample_loaded) ''model'' = Str (lit ''gpt'')"
proof -
  have l: "ld_errors sample_loaded = ld_errors sample_loader" "map en_model (ld_entries sample_loaded) = [Str (lit ''gpt'')]"
    by (simp_all add: sample_loaded_def loadAll_def Let_def js_or_def user_group_def processGroupsData_def group_option_of_def nullish_def
        real_groups_def fetchModelsForGroup_def buildAggregated_def model_info_of_def entry_of_def sample_loader_def
        List.map_filter_simps find_None_iff lit_simps split: prod.splits)
  then have "ld_entries sample_loaded \<noteq> []" by auto
  from loaded_selection_valid [OF sample_loaded_def l(1) this, THEN conjunct1, THEN has_entryD]
  obtain e where "e \<in> set (ld_entries sample_loaded)" "en_model e = mget (ld_inputs sample_loaded) ''model''" by blast
  moreover from this(1) have "en_model e \<in> set (map en_model (ld_entries sample_loaded))" by simp
  ultimately show ?thesis unfolding l(2) by simp
qed

end
