(* ===== verification/Body_Sync.thy ===== *)
theory Body_Sync
  imports Playground_Chat
begin

text \<open>
  The synchronisation of the messages with the custom request body,
  \<open>hooks/playground/useSyncMessageAndCustomBody.js\<close>, and the two effects of the playground page that run
  it. An effect runs after a commit when one of its dependencies has changed; both effects of a
  commit see the body and the messages of that commit, what they set shows in the next one, and
  the two hashes are refs, which the second effect sees as the first one left them. The flags that
  guard each function against the other are reset before it returns and are never seen set.
\<close>

section \<open>The hook\<close>

record sync_state =
  sy_mode :: bool
  sy_body :: jsstr
  sy_msgs :: "jsobj list"
  lastMessageHash :: jsstr
  lastCustomBodyHash :: jsstr
  msgs_changed :: bool
  body_changed :: bool
  sy_saves :: nat

definition getMessageHash :: "jsobj list \<Rightarrow> jsstr" where
  "getMessageHash ms = json_str (Arr (map (\<lambda>m.
     Obj [(lit ''id'', mget m ''id''), (lit ''role'', mget m ''role''), (lit ''content'', mget m ''content'')]) ms))"

definition getCustomBodyHash :: "jsstr \<Rightarrow> jsstr" where
  "getCustomBodyHash body = (case json_parse body of
     Inl e \<Rightarrow> []
   | Inr parsed \<Rightarrow>
       if nullish parsed then []
       else json_str (js_or (opt_prop parsed (lit ''messages'')) (Arr [])))"

definition body_or_braces :: "jsstr \<Rightarrow> jsstr" where
  "body_or_braces body = (if body = [] then lit ''{}'' else body)"

text \<open>The payload the messages are put in; \<open>inputs\<close> are those of the page.\<close>

definition base_payload :: "jsobj \<Rightarrow> jsstr \<Rightarrow> jsval" where
  "base_payload inputs body = (case json_parse (body_or_braces body) of
     Inr v \<Rightarrow> v
   | Inl e \<Rightarrow> Obj [(lit ''model'', js_or (mget inputs ''model'') (Str (lit ''gpt-4o''))), (lit ''messages'', Arr []),
       (lit ''temperature'', js_or (mget inputs ''temperature'') (Num (rnd (7 / 10)))),
       (lit ''stream'', Bool (mget inputs ''stream'' \<noteq> Bool False))])"

text \<open>Setting a property throws on anything but an object or an array; an array is printed without it.\<close>

definition put_messages :: "jsobj list \<Rightarrow> jsval \<Rightarrow> jsval res" where
  "put_messages ms payload = (case payload of
     Obj fs \<Rightarrow> Inr (Obj (mput fs ''messages'' (Arr (map (\<lambda>m. Obj [(lit ''role'', mget m ''role''), (lit ''content'', mget m ''content'')]) ms))))
   | Arr xs \<Rightarrow> Inr (Arr xs)
   | _ \<Rightarrow> Inl TypeError)"

text \<open>\<open>syncMessageToCustomBody\<close> on the body and the messages of a commit.\<close>

definition syncMessageToCustomBody :: "jsobj \<Rightarrow> jsstr \<Rightarrow> jsobj list \<Rightarrow> sync_state \<Rightarrow> sync_state res" where
  "syncMessageToCustomBody inputs body ms s =
     (if \<not> sy_mode s \<or> getMessageHash ms = lastMessageHash s then Inr s
      else case put_messages ms (base_payload inputs body) of
        Inl e \<Rightarrow> Inl e
      | Inr payload \<Rightarrow>
          (let newBody = to_str (stringify2 payload)
           in Inr (s\<lparr>sy_body := newBody, lastMessageHash := getMessageHash ms,
                lastCustomBodyHash := getCustomBodyHash newBody, sy_saves := sy_saves s + 1\<rparr>)))"

definition message_of_body :: "jsnum \<Rightarrow> nat \<Rightarrow> jsval \<Rightarrow> jsobj res" where
  "message_of_body now i m =
     (if nullish m then Inl TypeError
      else Inr ([(lit ''id'', js_or (opt_prop m (lit ''id'')) (Str (nat_digits (Suc i)))),
         (lit ''role'', js_or (opt_prop m (lit ''role'')) (Str (lit ''user''))),
         (lit ''content'', js_or (opt_prop m (lit ''content'')) (Str [])), (lit ''createAt'', Num now)] @
        (if opt_prop m (lit ''role'') = Str (lit ''assistant'')
         then [(lit ''reasoningContent'', js_or (opt_prop m (lit ''reasoningContent'')) (Str [])),
               (lit ''isReasoningExpanded'', Bool False)] else [])))"

fun messages_of_body :: "jsnum \<Rightarrow> nat \<Rightarrow> jsval list \<Rightarrow> jsobj list res" where
  "messages_of_body now i [] = Inr []"
| "messages_of_body now i (m # ms) = (case message_of_body now i m of
     Inl e \<Rightarrow> Inl e
   | Inr x \<Rightarrow> (case messages_of_body now (Suc i) ms of Inl e \<Rightarrow> Inl e | Inr xs \<Rightarrow> Inr (x # xs)))"

text \<open>The messages of a body, if it has an array of them; an exception is caught.\<close>

definition body_messages :: "jsnum \<Rightarrow> jsstr \<Rightarrow> jsobj list option" where
  "body_messages now body = (case json_parse (body_or_braces body) of
     Inl e \<Rightarrow> None
   | Inr v \<Rightarrow> (case opt_prop v (lit ''messages'') of
       Arr ms \<Rightarrow> (case messages_of_body now 0 ms of Inl e \<Rightarrow> None | Inr xs \<Rightarrow> Some xs)
     | _ \<Rightarrow> None))"

definition syncCustomBodyToMessage :: "jsnum \<Rightarrow> jsstr \<Rightarrow> sync_state \<Rightarrow> sync_state" where
  "syncCustomBodyToMessage now body s =
     (if \<not> sy_mode s \<or> getCustomBodyHash body = lastCustomBodyHash s then s
      else case body_messages now body of
        None \<Rightarrow> s
      | Some newMessages \<Rightarrow> s\<lparr>sy_msgs := newMessages, lastCustomBodyHash := getCustomBodyHash body,
          lastMessageHash := getMessageHash newMessages, msgs_changed := True\<rparr>)"

section \<open>The effects of the page\<close>

text \<open>The effects after one commit. A body that is set to an equal text is no change; a list of messages
  that is set is always a new one.\<close>

definition commit :: "jsobj \<Rightarrow> jsnum \<Rightarrow> sync_state \<Rightarrow> sync_state res" where
  "commit inputs now s =
     (let body = sy_body s; ms = sy_msgs s; cleared = s\<lparr>msgs_changed := False, body_changed := False\<rparr>
      in case (if msgs_changed s \<or> body_changed s then syncMessageToCustomBody inputs body ms cleared else Inr cleared) of
           Inl e \<Rightarrow> Inl e
         | Inr s1 \<Rightarrow>
             (let s2 = (if body_changed s then syncCustomBodyToMessage now body s1 else s1)
              in Inr (s2\<lparr>body_changed := sy_body s2 \<noteq> body\<rparr>)))"

fun commits :: "jsobj \<Rightarrow> jsnum list \<Rightarrow> sync_state \<Rightarrow> sync_state res" where
  "commits inputs [] s = Inr s"
| "commits inputs (now # nows) s = (case commit inputs now s of Inl e \<Rightarrow> Inl e | Inr s' \<Rightarrow> commits inputs nows s')"

definition quiet :: "sync_state \<Rightarrow> bool" where
  "quiet s \<longleftrightarrow> \<not> msgs_changed s \<and> \<not> body_changed s"

section \<open>The effects settle\<close>

text \<open>The hash of the messages is the one that was last synchronised: the first effect has nothing
  to do.\<close>

definition msgs_in_sync :: "sync_state \<Rightarrow> bool" where
  "msgs_in_sync s \<longleftrightarrow> getMessageHash (sy_msgs s) = lastMessageHash s"

definition body_in_sync :: "sync_state \<Rightarrow> bool" where
  "body_in_sync s \<longleftrightarrow> getCustomBodyHash (sy_body s) = lastCustomBodyHash s"

lemma commit_quiet: "quiet s \<Longrightarrow> commit inputs now s = Inr s"
  by (simp add: commit_def quiet_def Let_def)

lemma commit_in_sync:
  assumes "msgs_in_sync s" "body_changed s \<longrightarrow> body_in_sync s"
  shows "\<exists>s'. commit inputs now s = Inr s' \<and> quiet s'"
  using assms by (simp add: commit_def syncMessageToCustomBody_def syncCustomBodyToMessage_def msgs_in_sync_def body_in_sync_def quiet_def Let_def)

lemma commit_msgs_in_sync:
  assumes "msgs_in_sync s"
  shows "\<exists>s'. commit inputs now s = Inr s' \<and> msgs_in_sync s' \<and> \<not> body_changed s'"
  using assms
  by (auto simp: commit_def syncMessageToCustomBody_def syncCustomBodyToMessage_def msgs_in_sync_def Let_def split: option.splits)

text \<open>A body that neither throws when the messages are put in: one that is not JSON, an object or an
  array.\<close>

definition body_takes_messages :: "jsstr \<Rightarrow> bool" where
  "body_takes_messages body = (case json_parse (body_or_braces body) of
     Inl e \<Rightarrow> True | Inr (Obj _) \<Rightarrow> True | Inr (Arr _) \<Rightarrow> True | Inr _ \<Rightarrow> False)"

lemma put_messages_total: "body_takes_messages body \<Longrightarrow> \<exists>v. put_messages ms (base_payload inputs body) = Inr v"
  by (auto simp: body_takes_messages_def put_messages_def base_payload_def split: sum.splits jsval.splits)

lemma first_commit:
  assumes "sy_mode s" "body_takes_messages (sy_body s)"
  shows "\<exists>s'. commit inputs now s = Inr s' \<and> (quiet s' \<or> msgs_in_sync s')"
proof (cases "msgs_in_sync s")
  case True
  then show ?thesis using commit_msgs_in_sync by blast
next
  case False
  obtain v where v: "put_messages (sy_msgs s) (base_payload inputs (sy_body s)) = Inr v"
    using put_messages_total [OF assms(2)] by blast
  show ?thesis
    using False assms(1) v
    by (auto simp: commit_def syncMessageToCustomBody_def syncCustomBodyToMessage_def msgs_in_sync_def quiet_def Let_def
        split: option.splits)
qed

text \<open>Whatever has changed, the messages, the body or both, three commits of the page later nothing is set any more.\<close>

lemma sync_settles:
  assumes "sy_mode s" "body_takes_messages (sy_body s)"
  shows "\<exists>s'. commits inputs [t1, t2, t3] s = Inr s' \<and> quiet s' \<and> (\<forall>t. commit inputs t s' = Inr s')"
proof -
  obtain s1 where s1: "commit inputs t1 s = Inr s1" "quiet s1 \<or> msgs_in_sync s1" using first_commit [OF assms] by blast
  obtain s2 where s2: "commit inputs t2 s1 = Inr s2" "quiet s2 \<or> msgs_in_sync s2 \<and> \<not> body_changed s2"
    using s1(2) commit_quiet [of s1] commit_msgs_in_sync [of s1] by blast
  obtain s3 where s3: "commit inputs t3 s2 = Inr s3" "quiet s3"
    using s2(2) commit_quiet [of s2] commit_in_sync [of s2] by blast
  then show ?thesis using s1(1) s2(1) commit_quiet by auto
qed

text \<open>The state after the messages have changed alone, and after the body has.\<close>

definition body_written :: "jsobj \<Rightarrow> sync_state \<Rightarrow> jsval \<Rightarrow> sync_state" where
  "body_written inputs s payload = s\<lparr>sy_body := to_str (stringify2 payload), lastMessageHash := getMessageHash (sy_msgs s),
     lastCustomBodyHash := getCustomBodyHash (to_str (stringify2 payload)), sy_saves := sy_saves s + 1,
     msgs_changed := False, body_changed := False\<rparr>"

definition messages_read :: "sync_state \<Rightarrow> jsobj list \<Rightarrow> sync_state" where
  "messages_read s ms = s\<lparr>sy_msgs := ms, lastCustomBodyHash := getCustomBodyHash (sy_body s),
     lastMessageHash := getMessageHash ms, msgs_changed := False, body_changed := False\<rparr>"

definition settled :: "sync_state \<Rightarrow> sync_state" where
  "settled s = s\<lparr>msgs_changed := False, body_changed := False\<rparr>"

lemma settled_quiet [simp]: "quiet (settled s)" "quiet (body_written inputs s v)" "quiet (messages_read s ms)"
  by (simp_all add: quiet_def settled_def body_written_def messages_read_def)

text \<open>C30: in custom request mode the two directions do not feed each other. When the messages have changed and the
  body takes them, the body is written once, with those messages, and the messages stay as they are; when the
  body has changed and the messages were in step, they become those of the body, if its message part changed and
  has any, and the body stays as it is. Two commits later nothing is set any more, and a later change of the
  body outside its messages leaves the messages alone.\<close>

theorem sync_no_echo:
  assumes "sy_mode s" "body_takes_messages (sy_body s)" "body_changed s \<longrightarrow> msgs_in_sync s"
  shows "\<exists>s'. commits inputs [t1, t2] s = Inr s' \<and> quiet s' \<and> (\<forall>t. commit inputs t s' = Inr s') \<and>
    s' = (if msgs_changed s \<and> \<not> msgs_in_sync s
            then body_written inputs s (projr (put_messages (sy_msgs s) (base_payload inputs (sy_body s))))
          else if body_changed s \<and> \<not> body_in_sync s
            then (case body_messages t1 (sy_body s) of None \<Rightarrow> settled s | Some ms \<Rightarrow> messages_read s ms)
          else settled s) \<and>
    (\<forall>b t. body_in_sync s' \<and> msgs_in_sync s' \<and> getCustomBodyHash b = getCustomBodyHash (sy_body s') \<longrightarrow>
       commit inputs t (s'\<lparr>sy_body := b, body_changed := True\<rparr>) = Inr (s'\<lparr>sy_body := b\<rparr>))"
proof -
  obtain v where v: "put_messages (sy_msgs s) (base_payload inputs (sy_body s)) = Inr v"
    using put_messages_total [OF assms(2)] by blast
  note defs = commit_def syncMessageToCustomBody_def syncCustomBodyToMessage_def msgs_in_sync_def body_in_sync_def Let_def
    settled_def body_written_def messages_read_def
  have later: "commit inputs t (s'\<lparr>sy_body := b, body_changed := True\<rparr>) = Inr (s'\<lparr>sy_body := b\<rparr>)"
    if "quiet s'" "body_in_sync s'" "msgs_in_sync s'" "getCustomBodyHash b = getCustomBodyHash (sy_body s')" for s' b t
    using that by (simp add: defs quiet_def)
  define s' where "s' = (if msgs_changed s \<and> \<not> msgs_in_sync s then body_written inputs s v
      else if body_changed s \<and> \<not> body_in_sync s
        then (case body_messages t1 (sy_body s) of None \<Rightarrow> settled s | Some ms \<Rightarrow> messages_read s ms)
      else settled s)"
  have "quiet s'" by (auto simp: s'_def split: option.splits)
  moreover have "commits inputs [t1, t2] s = Inr s'"
    using assms(1,3) v by (auto simp: s'_def defs split: option.splits)
  moreover have "s' = (if msgs_changed s \<and> \<not> msgs_in_sync s
            then body_written inputs s (projr (put_messages (sy_msgs s) (base_payload inputs (sy_body s))))
          else if body_changed s \<and> \<not> body_in_sync s
            then (case body_messages t1 (sy_body s) of None \<Rightarrow> settled s | Some ms \<Rightarrow> messages_read s ms)
          else settled s)" by (simp add: s'_def v)
  ultimately show ?thesis using commit_quiet later by blast
qed

definition sample_sync :: sync_state where
  "sample_sync = \<lparr>sy_mode = True, sy_body = [], sy_msgs = [], lastMessageHash = [], lastCustomBodyHash = [], msgs_changed = True,
     body_changed = True, sy_saves = 0\<rparr>"

theorem sync_no_echo_witness:
  "commits [] [Fin 0, Fin 1] (sample_sync\<lparr>sy_msgs := [[(lit ''id'', Str (lit ''7'')), (lit ''role'', Str (lit ''user'')),
     (lit ''content'', Str (lit ''hi''))]], body_changed := False\<rparr>) =
   Inr (sample_sync\<lparr>sy_msgs := [[(lit ''id'', Str (lit ''7'')), (lit ''role'', Str (lit ''user'')), (lit ''content'', Str (lit ''hi''))]],
     sy_body := to_str (stringify2 (Obj [(lit ''messages'', Arr [Obj [(lit ''role'', Str (lit ''user'')), (lit ''content'', Str (lit ''hi''))]])])),
     lastMessageHash := json_str (Arr [Obj [(lit ''id'', Str (lit ''7'')), (lit ''role'', Str (lit ''user'')), (lit ''content'', Str (lit ''hi''))]]),
     lastCustomBodyHash := json_str (Arr [Obj [(lit ''role'', Str (lit ''user'')), (lit ''content'', Str (lit ''hi''))]]),
     sy_saves := 1, msgs_changed := False, body_changed := False\<rparr>)"
proof -
  let ?m = "[(lit ''id'', Str (lit ''7'')), (lit ''role'', Str (lit ''user'')), (lit ''content'', Str (lit ''hi''))]"
  let ?v = "Obj [(lit ''messages'', Arr [Obj [(lit ''role'', Str (lit ''user'')), (lit ''content'', Str (lit ''hi''))]])]"
  let ?s = "sample_sync\<lparr>sy_msgs := [?m], body_changed := False\<rparr>"
  have "body_takes_messages (sy_body ?s)" by code_simp
  then obtain s' where s': "commits [] [Fin 0, Fin 1] ?s = Inr s'"
      "s' = (if msgs_changed ?s \<and> \<not> msgs_in_sync ?s
         then body_written [] ?s (projr (put_messages (sy_msgs ?s) (base_payload [] (sy_body ?s)))) else settled ?s)"
    using sync_no_echo [of ?s "[]" "Fin 0" "Fin 1"] by (auto simp: sample_sync_def)
  have "\<not> msgs_in_sync ?s" by code_simp
  moreover have "put_messages (sy_msgs ?s) (base_payload [] (sy_body ?s)) = Inr ?v" by code_simp
  moreover have "getCustomBodyHash (to_str (stringify2 ?v)) = json_str (Arr [Obj [(lit ''role'', Str (lit ''user'')), (lit ''content'', Str (lit ''hi''))]])"
    by code_simp
  moreover have "getMessageHash [?m] = json_str (Arr [Obj ?m])" by (simp add: getMessageHash_def)
  ultimately show ?thesis using s' by (simp add: body_written_def sample_sync_def)
qed

section \<open>What the synchronisation loses\<close>

text \<open>A body that is JSON but neither an object nor an array makes the first effect throw at the next
  change of the messages.\<close>

lemma scalar_body_throws:
  assumes "sy_mode s" "msgs_changed s" "\<not> msgs_in_sync s" "\<not> body_takes_messages (sy_body s)"
  shows "commit inputs now s = Inl TypeError"
  using assms
  by (auto simp: commit_def syncMessageToCustomBody_def msgs_in_sync_def body_takes_messages_def put_messages_def base_payload_def Let_def
      split: sum.splits jsval.splits)

text \<open>The messages rebuilt from a body have no status, and consecutive ids in place of theirs when the
  body has none, as the bodies written by the first effect do.\<close>

lemma rebuilt_message:
  assumes "messages_of_body now i ms = Inr xs" "j < length xs"
  shows "mget (xs ! j) ''status'' = Undefined \<and>
    mget (xs ! j) ''id'' = js_or (opt_prop (ms ! j) (lit ''id'')) (Str (nat_digits (Suc (i + j))))"
  using assms
proof (induction ms arbitrary: i j xs)
  case (Cons m ms)
  then obtain x ys where xs: "message_of_body now i m = Inr x" "messages_of_body now (Suc i) ms = Inr ys" "xs = x # ys"
    by (auto split: sum.splits)
  show ?case
  proof (cases j)
    case 0
    then show ?thesis using xs(1,3) by (auto simp: message_of_body_def obj_get_def split: if_splits)
  next
    case (Suc k)
    then show ?thesis using Cons.IH [OF xs(2), of k] Cons.prems(2) xs(3) by simp
  qed
qed simp

end
