(* ===== verification/Video_Pricing.thy ===== *)
theory Video_Pricing
  imports Js_Json
begin

text \<open>
  Pricing of video models, \<open>web/src/helpers/videoPricing.js\<close>: the specification (\<open>spec\<close>), the
  object stored by the backend; the editor's state, whose resolution tiers are rows with ids;
  the two conversions between them; the cost estimate; and the texts shown in the price list.
  The translation function \<open>t\<close> and the currency formatter \<open>displayPrice\<close> are parameters.
\<close>

section \<open>Editor state\<close>

record vrow =
  vrow_id :: jsstr
  resolution :: jsstr
  price :: jsval

record video_state =
  vs_unit :: jsval
  defaultResolution :: jsval
  outputRows :: "vrow list"
  outputWithVideoRows :: "vrow list"
  maxOutputSeconds :: jsval
  imagePerImage :: jsval
  imageFreeCount :: jsval
  audioPerSecond :: jsval
  videoRows :: "vrow list"

text \<open>The module counter is the last id handed out.\<close>

definition nextVideoRowId :: "nat \<Rightarrow> jsstr \<times> nat" where
  "nextVideoRowId videoRowSeq = (lit ''vrow_'' @ nat_digits (videoRowSeq + 1), videoRowSeq + 1)"

definition price_tiers :: jsobj where
  "price_tiers = [(lit ''768P'', Num (rnd (8 / 100))), (lit ''2K'', Num (rnd (13 / 100)))]"

definition DEFAULT_VIDEO_MODEL_SPEC :: jsobj where
  "DEFAULT_VIDEO_MODEL_SPEC =
     [(lit ''unit'', Str (lit ''second'')), (lit ''default_resolution'', Str (lit ''2K'')), (lit ''output'', Obj price_tiers),
      (lit ''input'', Obj
        [(lit ''image'', Obj [(lit ''per_image'', Num (rnd (4 / 100))), (lit ''free_count'', Num (Fin 0))]),
         (lit ''audio'', Obj [(lit ''per_second'', Num (Fin 0))]),
         (lit ''video'', Obj [(lit ''per_second_by_output_resolution'', Obj price_tiers)])])]"

definition toNumber :: "jsval \<Rightarrow> jsnum" where
  "toNumber v = (let n = to_num v in if is_finite n then n else Fin 0)"

text \<open>\<open>mapToRows\<close> takes the counter and returns it advanced.\<close>

fun entries_to_rows :: "jsobj \<Rightarrow> nat \<Rightarrow> vrow list \<times> nat" where
  "entries_to_rows [] n = ([], n)"
| "entries_to_rows ((r, p) # es) n =
     (case nextVideoRowId n of (i, n1) \<Rightarrow>
        (case entries_to_rows es n1 of (rows, n2) \<Rightarrow>
           (\<lparr>vrow_id = i, resolution = r, price = Num (toNumber p)\<rparr> # rows, n2)))"

definition mapToRows :: "jsval \<Rightarrow> nat \<Rightarrow> vrow list \<times> nat" where
  "mapToRows m n = entries_to_rows (own_entries (js_or m (Obj []))) n"

text \<open>\<open>(row.resolution || '').trim()\<close>; the editor holds the resolution as a string.\<close>

definition row_key :: "vrow \<Rightarrow> jsstr" where
  "row_key row = trim (resolution row)"

definition rowsToMap :: "vrow list \<Rightarrow> jsobj" where
  "rowsToMap rows = foldl (\<lambda>m row. let key = row_key row in
     if key = [] then m else obj_put m key (Num (toNumber (price row)))) [] rows"

section \<open>Conversions\<close>

definition spec_input :: "jsval \<Rightarrow> jsstr \<Rightarrow> jsstr \<Rightarrow> jsval" where
  "spec_input source part field = opt_prop (opt_prop (opt_prop source (lit ''input'')) part) field"

definition specToVideoEditorState :: "jsval \<Rightarrow> nat \<Rightarrow> video_state \<times> nat" where
  "specToVideoEditorState spec n =
     (let source = js_or spec (Obj DEFAULT_VIDEO_MODEL_SPEC);
          (orows, n1) = mapToRows (opt_prop source (lit ''output'')) n;
          (wrows, n2) = mapToRows (opt_prop source (lit ''output_with_video_input'')) n1;
          (vrows, n3) = mapToRows (spec_input source (lit ''video'') (lit ''per_second_by_output_resolution'')) n2
      in (\<lparr>vs_unit = js_or (opt_prop source (lit ''unit'')) (Str (lit ''second'')),
           defaultResolution = js_or (opt_prop source (lit ''default_resolution'')) (Str []),
           outputRows = orows, outputWithVideoRows = wrows,
           maxOutputSeconds = Num (toNumber (opt_prop source (lit ''max_output_seconds''))),
           imagePerImage = Num (toNumber (spec_input source (lit ''image'') (lit ''per_image''))),
           imageFreeCount = Num (toNumber (spec_input source (lit ''image'') (lit ''free_count''))),
           audioPerSecond = Num (toNumber (spec_input source (lit ''audio'') (lit ''per_second''))),
           videoRows = vrows\<rparr>, n3))"

definition videoEditorStateToSpec :: "video_state option \<Rightarrow> jsobj option" where
  "videoEditorStateToSpec state =
     (case state of None \<Rightarrow> None
      | Some s \<Rightarrow>
          (let videoMap = rowsToMap (videoRows s);
               input0 = [(lit ''image'', Obj [(lit ''per_image'', Num (toNumber (imagePerImage s))),
                                        (lit ''free_count'', Num (toNumber (imageFreeCount s)))]),
                        (lit ''audio'', Obj [(lit ''per_second'', Num (toNumber (audioPerSecond s)))])];
               input = (if videoMap \<noteq> []
                        then input0 @ [(lit ''video'', Obj [(lit ''per_second_by_output_resolution'', Obj videoMap)])]
                        else input0);
               spec0 = [(lit ''unit'', js_or (vs_unit s) (Str (lit ''second''))),
                        (lit ''default_resolution'', js_or (defaultResolution s) (Str [])),
                        (lit ''output'', Obj (rowsToMap (outputRows s))), (lit ''input'', Obj input)];
               outputWithVideo = rowsToMap (outputWithVideoRows s);
               spec1 = (if outputWithVideo \<noteq> [] then spec0 @ [(lit ''output_with_video_input'', Obj outputWithVideo)]
                        else spec0);
               maxSeconds = toNumber (maxOutputSeconds s)
           in Some (if num_lt (Fin 0) maxSeconds then spec1 @ [(lit ''max_output_seconds'', Num maxSeconds)]
                    else spec1)))"

definition isVideoPricingConfigured :: "video_state option \<Rightarrow> bool" where
  "isVideoPricingConfigured state =
     (rowsToMap (case state of None \<Rightarrow> [] | Some s \<Rightarrow> outputRows s) \<noteq> [])"

section \<open>Cost estimate\<close>

text \<open>\<open>(resolution || '').trim()\<close> throws on a value that is truthy and not a string.\<close>

definition resolveResolution :: "jsval \<Rightarrow> jsval \<Rightarrow> jsval \<Rightarrow> jsstr res" where
  "resolveResolution outputMap res dflt =
     (let keys = map fst (own_entries (js_or outputMap (Obj [])));
          fallback = (case dflt of Str d \<Rightarrow> if d \<noteq> [] \<and> d \<in> set keys then d else [] | _ \<Rightarrow> [])
      in case js_or res (Str []) of
           Str r \<Rightarrow>
             (let target = trim r in
              Inr (if target = [] then fallback
                   else if target \<in> set keys then target
                   else case find (\<lambda>k. to_lower k = to_lower target) keys of
                          Some k \<Rightarrow> if k \<noteq> [] then k else fallback
                        | None \<Rightarrow> fallback))
         | _ \<Rightarrow> Inl TypeError)"

record video_cost =
  vc_output :: jsnum
  vc_image :: jsnum
  vc_audio :: jsnum
  vc_video :: jsnum
  vc_total :: jsnum
  vc_resolution :: "jsstr option"
  vc_error :: "jsstr option"

definition no_cost :: video_cost where
  "no_cost = \<lparr>vc_output = Fin 0, vc_image = Fin 0, vc_audio = Fin 0, vc_video = Fin 0, vc_total = Fin 0,
     vc_resolution = None, vc_error = None\<rparr>"

abbreviation positive :: "jsnum \<Rightarrow> bool" where
  "positive x \<equiv> num_lt (Fin 0) x"

text \<open>\<open>VideoPricing.OutputRate\<close>: the reduced tier when a reference video is given and the tier
  has one.\<close>

definition output_rate :: "jsval \<Rightarrow> jsstr \<Rightarrow> bool \<Rightarrow> jsnum" where
  "output_rate spec r hasVideoInput =
     (let tieredRate = opt_prop (opt_prop spec (lit ''output_with_video_input'')) r in
      if hasVideoInput \<and> tieredRate \<noteq> Undefined then toNumber tieredRate
      else toNumber (opt_prop (opt_prop spec (lit ''output'')) r))"

definition image_cost :: "jsval \<Rightarrow> jsval \<Rightarrow> jsnum" where
  "image_cost spec usage =
     (let image = opt_prop (opt_prop spec (lit ''input'')) (lit ''image'') in
      if truthy image then
        (let billable = num_sub (toNumber (opt_prop usage (lit ''imageCount''))) (toNumber (opt_prop image (lit ''free_count'')))
         in if positive billable then num_mul billable (toNumber (opt_prop image (lit ''per_image''))) else Fin 0)
      else Fin 0)"

definition computeVideoCost :: "jsval \<Rightarrow> jsval \<Rightarrow> video_cost res" where
  "computeVideoCost spec usage =
     (if \<not> truthy spec then Inr (no_cost\<lparr>vc_error := Some (lit ''pricing not configured'')\<rparr>)
      else case resolveResolution (opt_prop spec (lit ''output'')) (opt_prop usage (lit ''resolution''))
                 (opt_prop spec (lit ''default_resolution'')) of
        Inl e \<Rightarrow> Inl e
      | Inr r \<Rightarrow>
          (if r = [] then Inr (no_cost\<lparr>vc_error := Some (lit ''no output tier for resolution '' @ [34] @
              to_str (js_or (opt_prop usage (lit ''resolution'')) (Str [])) @ [34])\<rparr>)
           else
             let videoSeconds = toNumber (opt_prop usage (lit ''videoSeconds''));
                 hasVideoInput = (positive videoSeconds \<or> truthy (opt_prop usage (lit ''hasVideoInput'')));
                 outputSeconds = toNumber (opt_prop usage (lit ''outputSeconds''));
                 output = (if positive outputSeconds
                           then num_mul (output_rate spec r hasVideoInput) outputSeconds else Fin 0);
                 image = image_cost spec usage;
                 audioSeconds = toNumber (opt_prop usage (lit ''audioSeconds''));
                 audioSpec = opt_prop (opt_prop spec (lit ''input'')) (lit ''audio'');
                 audio = (if truthy audioSpec \<and> positive audioSeconds
                          then num_mul (toNumber (opt_prop audioSpec (lit ''per_second''))) audioSeconds else Fin 0);
                 videoRates = spec_input spec (lit ''video'') (lit ''per_second_by_output_resolution'');
                 video = (if truthy videoRates \<and> positive videoSeconds \<and> opt_prop videoRates r \<noteq> Undefined
                          then num_mul (toNumber (opt_prop videoRates r)) videoSeconds else Fin 0)
             in Inr \<lparr>vc_output = output, vc_image = image, vc_audio = audio, vc_video = video,
                     vc_total = num_add (num_add (num_add output image) audio) video,
                     vc_resolution = Some r, vc_error = None\<rparr>))"

definition spec_value :: "jsobj option \<Rightarrow> jsval" where
  "spec_value s = (case s of None \<Rightarrow> Null | Some kvs \<Rightarrow> Obj kvs)"

definition computeVideoCostFromEditorState :: "video_state option \<Rightarrow> jsval \<Rightarrow> video_cost res" where
  "computeVideoCostFromEditorState state usage =
     computeVideoCost (spec_value (videoEditorStateToSpec state)) usage"

section \<open>Price texts\<close>

definition group_ratio :: "jsval \<Rightarrow> jsnum" where
  "group_ratio groupRatio = (if is_finite (to_num groupRatio) then to_num groupRatio else Fin 1)"

definition price_format :: "(jsnum \<Rightarrow> jsstr) option \<Rightarrow> jsnum \<Rightarrow> jsstr" where
  "price_format displayPrice usd = (case displayPrice of Some f \<Rightarrow> f usd | None \<Rightarrow> lit ''$'' @ to_fixed 4 usd)"

definition tier_entries :: "jsval \<Rightarrow> jsstr \<Rightarrow> jsobj" where
  "tier_entries spec k = own_entries (js_or (opt_prop spec k) (Obj []))"

definition formatVideoOutputPrices ::
  "jsval \<Rightarrow> jsval \<Rightarrow> (jsnum \<Rightarrow> jsstr) option \<Rightarrow> (jsstr \<times> jsstr) list" where
  "formatVideoOutputPrices spec groupRatio displayPrice =
     map (\<lambda>(r, p). (r, price_format displayPrice (num_mul (toNumber p) (group_ratio groupRatio))))
       (tier_entries spec (lit ''output''))"

record price_item =
  pi_key :: jsstr
  pi_label :: jsstr
  pi_value :: jsstr
  pi_suffix :: jsstr

text \<open>\<open>t\<close> is applied to a key, and once to a key with a \<open>count\<close> (\<open>tc\<close>).\<close>

definition getVideoPriceItems ::
  "jsval \<Rightarrow> jsval \<Rightarrow> (jsnum \<Rightarrow> jsstr) option \<Rightarrow> (jsstr \<Rightarrow> jsstr) \<Rightarrow> (jsstr \<Rightarrow> jsnum \<Rightarrow> jsstr) \<Rightarrow> price_item list" where
  "getVideoPriceItems spec groupRatio displayPrice t tc =
     (let money = (\<lambda>v. price_format displayPrice (num_mul (toNumber v) (group_ratio groupRatio)));
          second = lit '' / '' @ t [31186];
          item = (\<lambda>pre lbl (r, p). \<lparr>pi_key = pre @ r, pi_label = r @ lit '' '' @ lbl, pi_value = money p, pi_suffix = second\<rparr>);
          image = opt_prop (opt_prop spec (lit ''input'')) (lit ''image'');
          audio = opt_prop (opt_prop spec (lit ''input'')) (lit ''audio'');
          freeCount = toNumber (opt_prop image (lit ''free_count''))
      in map (item (lit ''output-'') (t [36755, 20986])) (tier_entries spec (lit ''output''))
       @ map (item (lit ''output-with-video-'') (t [36755, 20986] @ t [65288, 21547, 21442, 32771, 35270, 39057, 65289])) (tier_entries spec (lit ''output_with_video_input''))
       @ (let videoRates = spec_input spec (lit ''video'') (lit ''per_second_by_output_resolution'') in
          if truthy videoRates then map (item (lit ''input-video-'') (t [36755, 20837, 35270, 39057])) (own_entries videoRates) else [])
       @ (if truthy image \<and> positive (toNumber (opt_prop image (lit ''per_image'')))
          then [\<lparr>pi_key = lit ''input-image'', pi_label = t [36755, 20837, 22270, 29255], pi_value = money (opt_prop image (lit ''per_image'')),
                 pi_suffix = (if positive freeCount
                   then lit '' / '' @ t [24352] @ tc [65288, 21069, 32, 123, 123, 99, 111, 117, 110, 116, 125, 125, 32, 24352, 20813, 36153, 65289] freeCount else lit '' / '' @ t [24352])\<rparr>]
          else [])
       @ (if truthy audio \<and> positive (toNumber (opt_prop audio (lit ''per_second'')))
          then [\<lparr>pi_key = lit ''input-audio'', pi_label = t [36755, 20837, 38899, 39057], pi_value = money (opt_prop audio (lit ''per_second'')),
                 pi_suffix = second\<rparr>]
          else []))"

definition summarizeVideoPricing :: "video_state option \<Rightarrow> (jsstr \<Rightarrow> jsstr) \<Rightarrow> jsstr" where
  "summarizeVideoPricing state t =
     (let parts = map (\<lambda>r. resolution r @ lit '' $'' @ num_to_str (toNumber (price r)) @ lit ''/'' @ t [31186])
            (filter (\<lambda>r. resolution r \<noteq> []) (case state of None \<Rightarrow> [] | Some s \<Rightarrow> outputRows s));
          imagePrice = (case state of None \<Rightarrow> Fin 0 | Some s \<Rightarrow> toNumber (imagePerImage s))
      in if parts = [] then t [26410, 37197, 32622, 36755, 20986, 23450, 20215]
         else join [32, 183, 32] (if positive imagePrice
                then parts @ [t [22270, 29255] @ lit '' $'' @ num_to_str imagePrice @ lit ''/'' @ t [24352]] else parts))"

section \<open>Maps and rows\<close>

text \<open>A stored table of tiers, if there is one: an object whose keys are not empty and have no white space around them.
  Its properties are in the order of a JavaScript object, each with a value.\<close>

definition tier_rows :: "jsobj \<Rightarrow> bool" where
  "tier_rows m \<longleftrightarrow> obj_merge [] m = m \<and> list_all (\<lambda>(k, v). k \<noteq> [] \<and> trimmed k \<and> v \<noteq> Undefined) m"

definition tier_table :: "jsval \<Rightarrow> bool" where
  "tier_table v = (case v of Undefined \<Rightarrow> True | Null \<Rightarrow> True | Obj m \<Rightarrow> tier_rows m | _ \<Rightarrow> False)"

definition priced :: "jsobj \<Rightarrow> jsobj" where
  "priced m = map (\<lambda>(k, v). (k, Num (toNumber v))) m"

lemma entries_to_rows_fst:
  "fst (entries_to_rows es n) =
     map (\<lambda>(i, r, p). \<lparr>vrow_id = lit ''vrow_'' @ nat_digits i, resolution = r, price = Num (toNumber p)\<rparr>)
       (List.enumerate (n + 1) es)"
  by (induction es n rule: entries_to_rows.induct) (auto simp: nextVideoRowId_def split: prod.splits)

lemma toNumber_Num [simp]: "is_finite x \<Longrightarrow> toNumber (Num x) = x" "toNumber (Num (toNumber v)) = toNumber v"
  by (auto simp: toNumber_def Let_def)

lemma is_finite_toNumber [simp]: "is_finite (toNumber v)"
  by (auto simp: toNumber_def Let_def)

lemma rowsToMap_entries:
  "list_all (\<lambda>(k, v). k \<noteq> [] \<and> trimmed k \<and> v \<noteq> Undefined) es \<Longrightarrow>
   foldl (\<lambda>m row. let key = row_key row in if key = [] then m else obj_put m key (Num (toNumber (price row)))) acc
     (fst (entries_to_rows es n)) = obj_merge acc (priced es)"
proof (induction es n arbitrary: acc rule: entries_to_rows.induct)
  case (2 r p es n)
  let ?v = "Num (toNumber p)"
  obtain rows n2 where e: "entries_to_rows es (n + 1) = (rows, n2)" by fastforce
  have "row_key \<lparr>vrow_id = i, resolution = r, price = q\<rparr> = r" for i q
    using "2.prems" by (simp add: row_key_def trim_id)
  moreover have "foldl (\<lambda>m row. let key = row_key row in if key = [] then m else obj_put m key (Num (toNumber (price row))))
      (obj_put acc r ?v) rows = obj_merge (obj_put acc r ?v) (priced es)"
    using "2.IH" [of "lit ''vrow_'' @ nat_digits (n + 1)" "n + 1" "obj_put acc r ?v"] "2.prems" e
    by (simp add: nextVideoRowId_def)
  ultimately show ?case
    using "2.prems" e by (simp add: nextVideoRowId_def Let_def obj_merge_def priced_def)
qed (simp add: obj_merge_def priced_def)

lemma priced_Nil [simp]: "priced m = [] \<longleftrightarrow> m = []" "priced [] = []"
  by (simp_all add: priced_def)

lemma fst_priced [simp]: "map fst (priced m) = map fst m" "fst ` set (priced m) = fst ` set m"
  by (force simp: priced_def)+

lemma obj_put_priced: "obj_put (priced m) k (Num (toNumber v)) = priced (obj_put m k v)"
proof -
  let ?f = "\<lambda>(k, v). (k, Num (toNumber v))"
  have "index_before k \<circ> ?f = index_before k" by (auto simp: index_before_def fun_eq_iff)
  then have "takeWhile (index_before k) (map ?f m) = map ?f (takeWhile (index_before k) m)"
      "dropWhile (index_before k) (map ?f m) = map ?f (dropWhile (index_before k) m)"
    by (simp_all add: takeWhile_map dropWhile_map)
  moreover have "fst ` set (map ?f m) = fst ` set m" using fst_priced(2) by (simp add: priced_def)
  ultimately show ?thesis by (auto simp: priced_def obj_put_def)
qed

lemma obj_merge_priced: "obj_merge (priced a) (priced b) = priced (obj_merge a b)"
proof (induction b arbitrary: a)
  case (Cons p b)
  then show ?case using obj_put_priced [of a "fst p" "snd p"] by (simp add: obj_merge_def priced_def case_prod_unfold)
qed (simp add: obj_merge_def priced_def)

text \<open>What is saved for a stored table: the same tiers in the same order, with their prices as numbers.\<close>

definition table_of :: "jsval \<Rightarrow> jsobj" where
  "table_of v = priced (own_entries (js_or v (Obj [])))"

lemma rowsToMap_mapToRows:
  assumes "tier_table v"
  shows "rowsToMap (fst (mapToRows v n)) = table_of v"
proof -
  define m where "m = own_entries (js_or v (Obj []))"
  have "tier_rows m" using assms by (cases v) (simp_all add: m_def tier_table_def tier_rows_def js_or_def obj_merge_def)
  then have "obj_merge [] (priced m) = priced m" "list_all (\<lambda>(k, v). k \<noteq> [] \<and> trimmed k \<and> v \<noteq> Undefined) m"
    using obj_merge_priced [of "[]" m] by (simp_all add: tier_rows_def priced_def)
  then show ?thesis using rowsToMap_entries [of m "[]" n] by (simp add: rowsToMap_def mapToRows_def table_of_def m_def)
qed

lemma table_entries: "tier_table v \<Longrightarrow> map fst (table_of v) = map fst (own_entries (js_or v (Obj [])))"
  by (simp add: table_of_def)

lemma table_get:
  assumes "tier_table v"
  shows "toNumber (obj_get (table_of v) r) = toNumber (opt_prop v r)" "obj_get (table_of v) r = Undefined \<longleftrightarrow> opt_prop v r = Undefined"
proof -
  have g: "obj_get (priced m) r = (case map_of m r of None \<Rightarrow> Undefined | Some x \<Rightarrow> Num (toNumber x))" for m
    by (simp add: priced_def obj_get_def map_of_map split: option.splits)
  have "toNumber (obj_get (table_of v) r) = toNumber (opt_prop v r) \<and> (obj_get (table_of v) r = Undefined \<longleftrightarrow> opt_prop v r = Undefined)"
  proof (cases v)
    case (Obj m)
    then have "list_all (\<lambda>(k, v). v \<noteq> Undefined) m" using assms by (auto simp: tier_table_def tier_rows_def list_all_iff)
    then show ?thesis using Obj g [of m]
      by (auto simp: table_of_def js_or_def obj_get_def list_all_iff split: option.splits dest!: map_of_SomeD)
  qed (use assms g [of "[]"] in \<open>simp_all add: tier_table_def table_of_def js_or_def\<close>)
  then show "toNumber (obj_get (table_of v) r) = toNumber (opt_prop v r)" "obj_get (table_of v) r = Undefined \<longleftrightarrow> opt_prop v r = Undefined"
    by blast+
qed

lemma toNumber_Undefined [simp]: "toNumber Undefined = Fin 0"
  by (simp add: toNumber_def)

section \<open>Properties\<close>

text \<open>The specification saved for a stored one.\<close>

definition stored_ok :: "jsval \<Rightarrow> bool" where
  "stored_ok spec \<longleftrightarrow> truthy spec \<and> tier_table (opt_prop spec (lit ''output'')) \<and> tier_table (opt_prop spec (lit ''output_with_video_input'')) \<and>
     tier_table (spec_input spec (lit ''video'') (lit ''per_second_by_output_resolution''))"

definition saved_spec :: "jsval \<Rightarrow> jsobj" where
  "saved_spec spec =
     (let num = (\<lambda>v. Num (toNumber v)); vid = table_of (spec_input spec (lit ''video'') (lit ''per_second_by_output_resolution''));
          wvid = table_of (opt_prop spec (lit ''output_with_video_input'')); mx = toNumber (opt_prop spec (lit ''max_output_seconds''))
      in [(lit ''unit'', js_or (opt_prop spec (lit ''unit'')) (Str (lit ''second''))),
          (lit ''default_resolution'', js_or (opt_prop spec (lit ''default_resolution'')) (Str [])),
          (lit ''output'', Obj (table_of (opt_prop spec (lit ''output'')))),
          (lit ''input'', Obj ([(lit ''image'', Obj [(lit ''per_image'', num (spec_input spec (lit ''image'') (lit ''per_image''))),
                                          (lit ''free_count'', num (spec_input spec (lit ''image'') (lit ''free_count'')))]),
                          (lit ''audio'', Obj [(lit ''per_second'', num (spec_input spec (lit ''audio'') (lit ''per_second'')))])] @
             (if vid \<noteq> [] then [(lit ''video'', Obj [(lit ''per_second_by_output_resolution'', Obj vid)])] else [])))] @
         (if wvid \<noteq> [] then [(lit ''output_with_video_input'', Obj wvid)] else []) @
         (if positive mx then [(lit ''max_output_seconds'', Num mx)] else []))"

lemma save_open:
  assumes "stored_ok spec"
  shows "videoEditorStateToSpec (Some (fst (specToVideoEditorState spec n))) = Some (saved_spec spec)"
proof -
  have src: "js_or spec (Obj DEFAULT_VIDEO_MODEL_SPEC) = spec" using assms by (simp add: stored_ok_def js_or_def)
  obtain rs n1 where rs: "mapToRows (opt_prop spec (lit ''output'')) n = (rs, n1)" by fastforce
  obtain ws n2 where ws: "mapToRows (opt_prop spec (lit ''output_with_video_input'')) n1 = (ws, n2)" by fastforce
  obtain vs n3 where vs: "mapToRows (spec_input spec (lit ''video'') (lit ''per_second_by_output_resolution'')) n2 = (vs, n3)" by fastforce
  have m: "rowsToMap rs = table_of (opt_prop spec (lit ''output''))" "rowsToMap ws = table_of (opt_prop spec (lit ''output_with_video_input''))"
      "rowsToMap vs = table_of (spec_input spec (lit ''video'') (lit ''per_second_by_output_resolution''))"
    using rowsToMap_mapToRows [of "opt_prop spec (lit ''output'')" n] rowsToMap_mapToRows [of "opt_prop spec (lit ''output_with_video_input'')" n1]
      rowsToMap_mapToRows [of "spec_input spec (lit ''video'') (lit ''per_second_by_output_resolution'')" n2] rs ws vs assms
    by (simp_all add: stored_ok_def)
  have unit: "js_or (js_or v (Str (lit ''second''))) (Str (lit ''second'')) = js_or v (Str (lit ''second''))"
      "js_or (js_or v (Str [])) (Str []) = js_or v (Str [])" for v by (simp_all add: js_or_def)
  show ?thesis
    unfolding specToVideoEditorState_def Let_def src rs prod.case ws vs videoEditorStateToSpec_def saved_spec_def
    by (simp add: m unit)
qed

lemma saved_props:
  "opt_prop (Obj (saved_spec spec)) (lit ''output'') = Obj (table_of (opt_prop spec (lit ''output'')))"
  "opt_prop (Obj (saved_spec spec)) (lit ''default_resolution'') = js_or (opt_prop spec (lit ''default_resolution'')) (Str [])"
  "toNumber (opt_prop (opt_prop (opt_prop (Obj (saved_spec spec)) (lit ''input'')) (lit ''image'')) (lit ''per_image'')) =
     toNumber (spec_input spec (lit ''image'') (lit ''per_image''))"
  "toNumber (opt_prop (opt_prop (opt_prop (Obj (saved_spec spec)) (lit ''input'')) (lit ''image'')) (lit ''free_count'')) =
     toNumber (spec_input spec (lit ''image'') (lit ''free_count''))"
  "toNumber (opt_prop (opt_prop (opt_prop (Obj (saved_spec spec)) (lit ''input'')) (lit ''audio'')) (lit ''per_second'')) =
     toNumber (spec_input spec (lit ''audio'') (lit ''per_second''))"
  "truthy (opt_prop (opt_prop (Obj (saved_spec spec)) (lit ''input'')) (lit ''image''))"
  "truthy (opt_prop (opt_prop (Obj (saved_spec spec)) (lit ''input'')) (lit ''audio''))"
  by (simp_all add: saved_spec_def Let_def)

definition some_table :: "jsval \<Rightarrow> jsval" where
  "some_table v = (if table_of v = [] then Undefined else Obj (table_of v))"

lemma saved_tables:
  "opt_prop (Obj (saved_spec spec)) (lit ''output_with_video_input'') = some_table (opt_prop spec (lit ''output_with_video_input''))"
  "spec_input (Obj (saved_spec spec)) (lit ''video'') (lit ''per_second_by_output_resolution'') =
     some_table (spec_input spec (lit ''video'') (lit ''per_second_by_output_resolution''))"
  by (simp_all add: saved_spec_def spec_input_def some_table_def Let_def)

lemma table_or_none:
  assumes "tier_table v"
  shows "toNumber (opt_prop (some_table v) r) = toNumber (opt_prop v r)"
    "opt_prop (some_table v) r = Undefined \<longleftrightarrow> opt_prop v r = Undefined"
  using table_get [OF assms, of r] by (auto simp: some_table_def)

lemma resolve_saved:
  "tier_table v \<Longrightarrow> resolveResolution (Obj (table_of v)) r (js_or d (Str [])) = resolveResolution v r d"
proof -
  assume "tier_table v"
  then have "map fst (own_entries (js_or (Obj (table_of v)) (Obj []))) = map fst (own_entries (js_or v (Obj [])))"
    by (simp add: js_or_def table_entries)
  moreover have "(case js_or d (Str []) of Str d \<Rightarrow> if d \<noteq> [] \<and> d \<in> K then d else [] | _ \<Rightarrow> []) =
      (case d of Str d \<Rightarrow> if d \<noteq> [] \<and> d \<in> K then d else [] | _ \<Rightarrow> [])" for K
    by (cases d) (auto simp: js_or_def)
  ultimately show ?thesis by (simp only: resolveResolution_def Let_def)
qed

lemma falsy_prop: "\<not> truthy v \<Longrightarrow> k \<noteq> lit ''length'' \<Longrightarrow> opt_prop v k = Undefined"
  by (cases v) (auto simp: index_entries_def)

lemma finite_mul_zero: "is_finite a \<Longrightarrow> num_mul a (Fin 0) = Fin 0" "is_finite a \<Longrightarrow> num_mul (Fin 0) a = Fin 0"
  by (cases a; simp add: rnd_def)+

lemma output_rate_saved:
  "stored_ok spec \<Longrightarrow> output_rate (Obj (saved_spec spec)) r b = output_rate spec r b"
  unfolding output_rate_def saved_props(1) saved_tables(1)
  using table_or_none [of "opt_prop spec (lit ''output_with_video_input'')" r] table_get(1) [of "opt_prop spec (lit ''output'')" r]
  by (simp add: stored_ok_def Let_def)

lemma image_cost_saved:
  assumes "rounded (toNumber (opt_prop usage (lit ''imageCount'')))"
  shows "image_cost (Obj (saved_spec spec)) usage = image_cost spec usage"
proof (cases "truthy (opt_prop (opt_prop spec (lit ''input'')) (lit ''image''))")
  case True
  then show ?thesis by (simp only: image_cost_def Let_def saved_props if_True) (simp add: spec_input_def)
next
  case False
  then have "spec_input spec (lit ''image'') k = Undefined" if "k \<in> {lit ''per_image'', lit ''free_count''}" for k
    using that False falsy_prop [of "opt_prop (opt_prop spec (lit ''input'')) (lit ''image'')" k] by (auto simp: spec_input_def)
  moreover obtain a where "toNumber (opt_prop usage (lit ''imageCount'')) = Fin a"
    using is_finite_toNumber is_finite_iff by blast
  moreover from this have "num_sub (Fin a) (Fin 0) = Fin a"
    using assms by (simp add: num_sub_def rounded_def)
  ultimately show ?thesis
    using False by (simp only: image_cost_def Let_def saved_props) (simp add: rnd_def)
qed

lemma map_priced: "(\<And>k v. f (k, Num (toNumber v)) = f (k, v)) \<Longrightarrow> map f (priced m) = map f m"
  by (auto simp: priced_def)

lemma price_items_saved:
  assumes "stored_ok spec"
  shows "getVideoPriceItems (Obj (saved_spec spec)) ratio displayPrice tr tc = getVideoPriceItems spec ratio displayPrice tr tc"
proof -
  let ?vr = "spec_input spec (lit ''video'') (lit ''per_second_by_output_resolution'')"
  have out: "tier_entries (Obj (saved_spec spec)) (lit ''output'') = priced (tier_entries spec (lit ''output''))"
    unfolding tier_entries_def saved_props(1) by (simp add: table_of_def js_or_def)
  have wvid: "tier_entries (Obj (saved_spec spec)) (lit ''output_with_video_input'') = priced (tier_entries spec (lit ''output_with_video_input''))"
    unfolding tier_entries_def saved_tables(1) by (simp add: some_table_def table_of_def js_or_def)
  have vid: "(if truthy (some_table ?vr)
      then map f (own_entries (some_table ?vr)) else []) =
    (if truthy ?vr then map f (own_entries ?vr) else [])" if "\<And>k v. f (k, Num (toNumber v)) = f (k, v)" for f :: "jsstr \<times> jsval \<Rightarrow> price_item"
    using assms map_priced [of f, OF that]
    by (cases ?vr) (simp_all add: stored_ok_def tier_table_def some_table_def table_of_def js_or_def)
  have img: "truthy (opt_prop (opt_prop spec (lit ''input'')) (lit ''image'')) \<and>
      positive (toNumber (opt_prop (opt_prop (opt_prop spec (lit ''input'')) (lit ''image'')) (lit ''per_image''))) \<longleftrightarrow>
    positive (toNumber (spec_input spec (lit ''image'') (lit ''per_image'')))"
    using falsy_prop [of "opt_prop (opt_prop spec (lit ''input'')) (lit ''image'')" "lit ''per_image''"]
    by (cases "truthy (opt_prop (opt_prop spec (lit ''input'')) (lit ''image''))") (simp_all add: spec_input_def)
  have aud: "truthy (opt_prop (opt_prop spec (lit ''input'')) (lit ''audio'')) \<and>
      positive (toNumber (opt_prop (opt_prop (opt_prop spec (lit ''input'')) (lit ''audio'')) (lit ''per_second''))) \<longleftrightarrow>
    positive (toNumber (spec_input spec (lit ''audio'') (lit ''per_second'')))"
    using falsy_prop [of "opt_prop (opt_prop spec (lit ''input'')) (lit ''audio'')" "lit ''per_second''"]
    by (cases "truthy (opt_prop (opt_prop spec (lit ''input'')) (lit ''audio''))") (simp_all add: spec_input_def)
  show ?thesis
    unfolding getVideoPriceItems_def Let_def saved_tables(2) out wvid img aud saved_props(3-7)
    by (subst vid, simp, subst map_priced, simp, subst map_priced, simp)
      (simp only: spec_input_def saved_props(6,7) simp_thms)
qed

text \<open>C23: opening a stored price list in the editor and saving it, whatever optional parts it has and in whatever order its
  properties are, changes no price: every request costs the same, the price list shows the same, and a positive limit of
  seconds is kept. (The text itself can change: image and audio prices that the list lacks are added as zero.) The
  conditions: the price tables are absent or objects whose keys are not empty and have no white space around them, and the
  number of images of the request is a machine number.\<close>

theorem saving_keeps_prices:
  assumes "stored_ok spec" "videoEditorStateToSpec (Some (fst (specToVideoEditorState spec n))) = Some saved"
    "rounded (toNumber (opt_prop usage (lit ''imageCount'')))"
  shows "computeVideoCost (Obj saved) usage = computeVideoCost spec usage \<and>
    getVideoPriceItems (Obj saved) ratio displayPrice tr tc = getVideoPriceItems spec ratio displayPrice tr tc \<and>
    (positive (toNumber (opt_prop spec (lit ''max_output_seconds''))) \<longrightarrow>
       opt_prop (Obj saved) (lit ''max_output_seconds'') = Num (toNumber (opt_prop spec (lit ''max_output_seconds''))))"
proof -
  have saved: "saved = saved_spec spec" using save_open [OF assms(1)] assms(2) by simp
  let ?vr = "spec_input spec (lit ''video'') (lit ''per_second_by_output_resolution'')"
  let ?vr' = "spec_input (Obj (saved_spec spec)) (lit ''video'') (lit ''per_second_by_output_resolution'')"
  have ok: "truthy spec" "tier_table (opt_prop spec (lit ''output''))" "tier_table ?vr" using assms(1) by (simp_all add: stored_ok_def)
  have aud: "(if truthy (opt_prop (opt_prop (Obj (saved_spec spec)) (lit ''input'')) (lit ''audio'')) \<and> positive a
      then num_mul (toNumber (opt_prop (opt_prop (opt_prop (Obj (saved_spec spec)) (lit ''input'')) (lit ''audio'')) (lit ''per_second''))) a else Fin 0) =
    (if truthy (opt_prop (opt_prop spec (lit ''input'')) (lit ''audio'')) \<and> positive a
      then num_mul (toNumber (opt_prop (opt_prop (opt_prop spec (lit ''input'')) (lit ''audio'')) (lit ''per_second''))) a else Fin 0)" if "is_finite a" for a
    unfolding saved_props(5) using saved_props(7) [of spec] finite_mul_zero(2) [OF that]
      falsy_prop [of "opt_prop (opt_prop spec (lit ''input'')) (lit ''audio'')" "lit ''per_second''"]
    by (auto simp: spec_input_def)
  have vid: "(if truthy ?vr' \<and> positive a \<and> opt_prop ?vr' r \<noteq> Undefined then num_mul (toNumber (opt_prop ?vr' r)) a else Fin 0) =
    (if truthy ?vr \<and> positive a \<and> opt_prop ?vr r \<noteq> Undefined then num_mul (toNumber (opt_prop ?vr r)) a else Fin 0)" for a r
    unfolding saved_tables(2) using table_or_none [OF ok(3), of r] ok(3)
    by (cases ?vr) (auto simp: tier_table_def some_table_def table_of_def js_or_def)
  have "computeVideoCost (Obj (saved_spec spec)) usage = computeVideoCost spec usage"
    unfolding computeVideoCost_def saved_props(1,2) resolve_saved [OF ok(2)] image_cost_saved [OF assms(3)] output_rate_saved [OF assms(1)]
    using ok(1) by (simp only: Let_def aud [OF is_finite_toNumber] vid truthy.simps simp_thms if_False)
  moreover have "positive (toNumber (opt_prop spec (lit ''max_output_seconds''))) \<longrightarrow>
      opt_prop (Obj (saved_spec spec)) (lit ''max_output_seconds'') = Num (toNumber (opt_prop spec (lit ''max_output_seconds'')))"
    by (simp add: saved_spec_def Let_def)
  ultimately show ?thesis unfolding saved using price_items_saved [OF assms(1)] by blast
qed

text \<open>A list as the backend stores it: no prices for images and sound, the limit before the input.\<close>

definition stored_list :: jsobj where
  "stored_list =
     [(lit ''unit'', Str (lit ''second'')), (lit ''default_resolution'', Str (lit ''720p'')),
      (lit ''output'', Obj [(lit ''480p'', Num (Fin (1 / 8))), (lit ''720p'', Num (Fin (1 / 4)))]),
      (lit ''output_with_video_input'', Obj [(lit ''480p'', Num (Fin (1 / 16))), (lit ''720p'', Num (Fin (1 / 8)))]),
      (lit ''max_output_seconds'', Num (Fin 15)),
      (lit ''input'', Obj [(lit ''video'', Obj [(lit ''per_second_by_output_resolution'',
         Obj [(lit ''480p'', Num (Fin (1 / 16))), (lit ''720p'', Num (Fin (1 / 8)))])])])]"

lemma saving_keeps_prices_witness:
  "computeVideoCost (Obj (the (videoEditorStateToSpec (Some (fst (specToVideoEditorState (Obj stored_list) 4))))))
      (Obj [(lit ''outputSeconds'', Num (Fin 5)), (lit ''imageCount'', Num (Fin 2))]) =
   computeVideoCost (Obj stored_list) (Obj [(lit ''outputSeconds'', Num (Fin 5)), (lit ''imageCount'', Num (Fin 2))]) \<and>
   videoEditorStateToSpec (Some (fst (specToVideoEditorState (Obj stored_list) 4))) \<noteq> Some stored_list"
proof -
  let ?u = "Obj [(lit ''outputSeconds'', Num (Fin 5)), (lit ''imageCount'', Num (Fin 2))]"
  have ok: "stored_ok (Obj stored_list)" by code_simp
  have u: "rounded (toNumber (opt_prop ?u (lit ''imageCount'')))" by code_simp
  have "saved_spec (Obj stored_list) \<noteq> stored_list" by code_simp
  then show ?thesis
    using saving_keeps_prices [OF ok save_open [OF ok] u] save_open [OF ok, of 4] by simp
qed

text \<open>An estimate either names a tier of the price list and adds up its parts, or reports an
  error with every amount zero; a price list that cannot price a request is never shown as
  free of charge without an error.\<close>

theorem computeVideoCost_priced_or_error:
  assumes "computeVideoCost spec usage = Inr c"
  shows "(vc_error c = None \<and> (\<exists>r. vc_resolution c = Some r \<and> r \<noteq> [] \<and>
      r \<in> fst ` set (tier_entries spec (lit ''output'')) \<and>
      vc_total c = num_add (num_add (num_add (vc_output c) (vc_image c)) (vc_audio c)) (vc_video c))) \<or>
    ((\<exists>m. vc_error c = Some m) \<and> vc_resolution c = None \<and> vc_output c = Fin 0 \<and> vc_image c = Fin 0 \<and>
      vc_audio c = Fin 0 \<and> vc_video c = Fin 0 \<and> vc_total c = Fin 0)"
proof -
  have key: "r \<in> fst ` set (own_entries (js_or m (Obj [])))" if "resolveResolution m a b = Inr r" "r \<noteq> []" for m a b r
    using that by (auto simp: resolveResolution_def Let_def dest!: find_SomeD split: jsval.splits if_splits option.splits)
  show ?thesis
  proof (cases "vc_error c")
    case None
    then show ?thesis using assms key
      by (auto simp: computeVideoCost_def Let_def no_cost_def tier_entries_def split: if_splits sum.splits)
  next
    case (Some m)
    then show ?thesis using assms
      by (auto simp: computeVideoCost_def Let_def no_cost_def split: if_splits sum.splits)
  qed
qed

lemma computeVideoCost_priced_or_error_witness:
  "\<exists>c. computeVideoCost (Obj DEFAULT_VIDEO_MODEL_SPEC) (Obj [(lit ''resolution'', Str (lit ''8K'')), (lit ''outputSeconds'', Num (Fin 5))]) = Inr c \<and>
     vc_error c = None \<and> (\<exists>r. vc_resolution c = Some r \<and> r \<in> fst ` set price_tiers)"
proof -
  let ?u = "Obj [(lit ''resolution'', Str (lit ''8K'')), (lit ''outputSeconds'', Num (Fin 5))]"
  obtain c where c: "computeVideoCost (Obj DEFAULT_VIDEO_MODEL_SPEC) ?u = Inr c" "vc_error c = None"
    by (auto simp: computeVideoCost_def DEFAULT_VIDEO_MODEL_SPEC_def resolveResolution_def js_or_def price_tiers_def
        lit_simps to_lower_def lower_unit_def trim_def is_ws_def Let_def)
  moreover have "tier_entries (Obj DEFAULT_VIDEO_MODEL_SPEC) (lit ''output'') = price_tiers"
    by (simp add: tier_entries_def DEFAULT_VIDEO_MODEL_SPEC_def js_or_def price_tiers_def)
  ultimately show ?thesis using computeVideoCost_priced_or_error [OF c(1)] by auto
qed

text \<open>The tier a request is priced at: the tier of exactly that name; else one that differs
  in letter case only; else the default tier; else none.\<close>

theorem resolveResolution_spec:
  assumes "tiers = map fst (own_entries (js_or m (Obj [])))" "target = trim r"
  shows "resolveResolution m (Str r) dflt = Inr (
    if target \<noteq> [] \<and> target \<in> set tiers then target
    else if target \<noteq> [] \<and> (\<exists>k \<in> set tiers. to_lower k = to_lower target)
      then hd (filter (\<lambda>k. to_lower k = to_lower target) tiers)
    else if \<exists>d \<in> set tiers. d \<noteq> [] \<and> dflt = Str d then to_str dflt else [])"
proof -
  have fallback: "(case dflt of Str d \<Rightarrow> if d \<noteq> [] \<and> d \<in> set tiers then d else [] | _ \<Rightarrow> []) =
      (if \<exists>d \<in> set tiers. d \<noteq> [] \<and> dflt = Str d then to_str dflt else [])"
    by (cases dflt) auto
  have lower: "to_lower k = to_lower target \<Longrightarrow> target \<noteq> [] \<Longrightarrow> k \<noteq> []" for k
    by (auto simp: to_lower_def)
  have "find P xs = (case filter P xs of [] \<Rightarrow> None | x # _ \<Rightarrow> Some x)" for P and xs :: "jsstr list"
    by (induction xs) auto
  then have found: "(case find (\<lambda>k. to_lower k = to_lower target) tiers of
        Some k \<Rightarrow> if k \<noteq> [] then k else x | None \<Rightarrow> x) =
      (if \<exists>k \<in> set tiers. to_lower k = to_lower target
       then hd (filter (\<lambda>k. to_lower k = to_lower target) tiers) else x)" if "target \<noteq> []" for x
    using lower [OF _ that] by (auto split: list.splits simp: filter_empty_conv filter_eq_Cons_iff)
  show ?thesis
    unfolding resolveResolution_def Let_def assms(1) [symmetric] fallback
    using found assms(2) by auto
qed

lemma resolveResolution_spec_witness:
  "resolveResolution (Obj price_tiers) (Str (lit '' 2k '')) (Str (lit ''768P'')) = Inr (lit ''2K'')"
proof -
  have e: "own_entries (js_or (Obj price_tiers) (Obj [])) = price_tiers" by (simp add: js_or_def)
  show ?thesis
    using resolveResolution_spec [OF refl refl, of "Obj price_tiers" "lit '' 2k ''" "Str (lit ''768P'')"]
    unfolding e by (simp add: price_tiers_def lit_simps to_lower_def lower_unit_def trim_def is_ws_def)
qed

end
