(* ===== verification/Pricing_Editor.thy ===== *)
theory Pricing_Editor
  imports Request_Rule_Expr Video_Pricing Playground_Db
begin

text \<open>
  The model pricing editor, \<open>web/src/pages/Setting/Ratio/hooks/useModelPricingEditorState.js\<close>:
  the stored ratio options become a list of models with prices, the administrator edits them,
  and saving turns prices back into ratios. Prices and raw ratios are the texts of the input
  fields. The translation functions are parameters (\<open>t\<close> for a key, \<open>tn\<close> for a key with the
  model's name), and so is the order of names by \<open>localeCompare\<close>.
\<close>

section \<open>Models\<close>

record raw_ratios =
  modelRatio :: jsstr
  completionRatio :: jsstr
  cacheRatio :: jsstr
  createCacheRatio :: jsstr
  imageRatio :: jsstr
  audioRatio :: jsstr
  audioCompletionRatio :: jsstr

record pricing_model =
  name :: jsstr
  billingMode :: jsstr
  fixedPrice :: jsstr
  inputPrice :: jsstr
  completionPrice :: jsstr
  lockedCompletionRatio :: jsstr
  completionRatioLocked :: bool
  cachePrice :: jsstr
  createCachePrice :: jsstr
  imagePrice :: jsstr
  audioInputPrice :: jsstr
  audioOutputPrice :: jsstr
  m_billingExpr :: jsstr
  m_requestRuleExpr :: jsstr
  videoPricing :: "video_state option"
  rawRatios :: raw_ratios
  hasConflict :: bool

definition PAGE_SIZE :: nat where "PAGE_SIZE = 10"

definition EMPTY_RATIOS :: raw_ratios where
  "EMPTY_RATIOS = \<lparr>modelRatio = [], completionRatio = [], cacheRatio = [], createCacheRatio = [],
     imageRatio = [], audioRatio = [], audioCompletionRatio = []\<rparr>"

definition EMPTY_MODEL :: pricing_model where
  "EMPTY_MODEL = \<lparr>name = [], billingMode = lit ''per-token'', fixedPrice = [], inputPrice = [],
     completionPrice = [], lockedCompletionRatio = [], completionRatioLocked = False, cachePrice = [],
     createCachePrice = [], imagePrice = [], audioInputPrice = [], audioOutputPrice = [],
     m_billingExpr = [], m_requestRuleExpr = [], videoPricing = None, rawRatios = EMPTY_RATIOS,
     hasConflict = False\<rparr>"

text \<open>\<open>/^(\d+(\.\d*)?|\.\d*)?$/\<close>: digits with at most one point.\<close>

definition NUMERIC_INPUT_REGEX :: "jsstr \<Rightarrow> bool" where
  "NUMERIC_INPUT_REGEX s =
     (case dropWhile is_digit s of [] \<Rightarrow> True | c # r \<Rightarrow> c = 46 \<and> list_all is_digit r)"

definition hasValue :: "jsval \<Rightarrow> bool" where
  "hasValue v \<longleftrightarrow> v \<noteq> Str [] \<and> v \<noteq> Null \<and> v \<noteq> Undefined \<and> v \<noteq> Bool False"

abbreviation has :: "jsstr \<Rightarrow> bool" where
  "has s \<equiv> hasValue (Str s)"

definition toNumericString :: "jsval \<Rightarrow> jsstr" where
  "toNumericString v =
     (if \<not> hasValue v \<and> v \<noteq> Num (Fin 0) then []
      else let num = to_num v in if is_finite num then num_to_str num else [])"

definition toNumberOrNull :: "jsval \<Rightarrow> jsnum option" where
  "toNumberOrNull v =
     (if \<not> hasValue v \<and> v \<noteq> Num (Fin 0) then None
      else let num = to_num v in if is_finite num then Some num else None)"

definition formatNumber :: "jsval \<Rightarrow> jsstr" where
  "formatNumber v = (case toNumberOrNull v of None \<Rightarrow> []
     | Some num \<Rightarrow> num_to_str (parse_float (to_fixed 12 num)))"

definition toNormalizedNumber :: "jsval \<Rightarrow> jsnum option" where
  "toNormalizedNumber v = (let formatted = formatNumber v in
     if formatted = [] then None else Some (str_to_num formatted))"

text \<open>\<open>rawValue\<close> is the text of an option; a missing option is the empty text.\<close>

definition parseOptionJSON :: "jsstr \<Rightarrow> jsval" where
  "parseOptionJSON rawValue =
     (if trim rawValue = [] then Obj []
      else case json_parse rawValue of Inl _ \<Rightarrow> Obj []
        | Inr parsed \<Rightarrow> if truthy parsed \<and> typeof_object parsed then parsed else Obj [])"

definition ratioToBasePrice :: "jsstr \<Rightarrow> jsstr" where
  "ratioToBasePrice ratio = (case toNumberOrNull (Str ratio) of None \<Rightarrow> []
     | Some num \<Rightarrow> formatNumber (Num (num_mul num (Fin 2))))"

definition normalizeCompletionRatioMeta :: "jsval \<Rightarrow> bool \<times> jsstr" where
  "normalizeCompletionRatioMeta rawMeta =
     (case rawMeta of
        Obj kvs \<Rightarrow> (truthy (obj_get kvs (lit ''locked'')), toNumericString (obj_get kvs (lit ''ratio'')))
      | _ \<Rightarrow> (False, []))"

record source_maps =
  ModelPrice :: jsval
  ModelRatio :: jsval
  CompletionRatio :: jsval
  CompletionRatioMeta :: jsval
  CacheRatio :: jsval
  CreateCacheRatio :: jsval
  ImageRatio :: jsval
  AudioRatio :: jsval
  AudioCompletionRatio :: jsval
  ModelBillingMode :: jsval
  ModelBillingExpr :: jsval
  ModelVideoPricing :: jsval
  VideoPricingDefaults :: jsval
  VideoPricingAliases :: jsval

text \<open>\<open>base * Number(ratio)\<close> as a price, when there is a base and a ratio.\<close>

definition derived_price :: "jsnum option \<Rightarrow> jsstr \<Rightarrow> jsstr" where
  "derived_price base ratio = (case base of
     Some b \<Rightarrow> if has ratio then formatNumber (Num (num_mul b (str_to_num ratio))) else []
   | None \<Rightarrow> [])"

definition build_ratio_model :: "jsstr \<Rightarrow> source_maps \<Rightarrow> pricing_model" where
  "build_ratio_model nm maps =
     (let ratio = (\<lambda>m. toNumericString (opt_prop m nm));
          model = ratio (ModelRatio maps); completion = ratio (CompletionRatio maps);
          (locked, lockedRatio) = normalizeCompletionRatioMeta (opt_prop (CompletionRatioMeta maps) nm);
          cache = ratio (CacheRatio maps); createCache = ratio (CreateCacheRatio maps);
          image = ratio (ImageRatio maps); audio = ratio (AudioRatio maps);
          audioCompletion = ratio (AudioCompletionRatio maps);
          fixed = ratio (ModelPrice maps);
          input = ratioToBasePrice model;
          inputNumber = toNumberOrNull (Str input);
          audioInput = derived_price inputNumber audio
      in EMPTY_MODEL\<lparr>name := nm,
           billingMode := (if has fixed then lit ''per-request'' else lit ''per-token''),
           fixedPrice := fixed, inputPrice := input,
           completionRatioLocked := locked, lockedCompletionRatio := lockedRatio,
           completionPrice := derived_price inputNumber (if locked then lockedRatio else completion),
           cachePrice := derived_price inputNumber cache,
           createCachePrice := derived_price inputNumber createCache,
           imagePrice := derived_price inputNumber image,
           audioInputPrice := audioInput,
           audioOutputPrice := (if toNumberOrNull (Str audioInput) \<noteq> None \<and> has audioCompletion
             then formatNumber (Num (num_mul (str_to_num audioInput) (str_to_num audioCompletion))) else []),
           rawRatios := \<lparr>modelRatio = model, completionRatio = completion, cacheRatio = cache,
             createCacheRatio = createCache, imageRatio = image, audioRatio = audio,
             audioCompletionRatio = audioCompletion\<rparr>,
           hasConflict := has fixed \<and>
             list_ex has [model, completion, cache, createCache, image, audio, audioCompletion]\<rparr>)"

definition video_spec_of :: "jsstr \<Rightarrow> source_maps \<Rightarrow> jsval" where
  "video_spec_of nm maps =
     js_coalesce (opt_prop (ModelVideoPricing maps) nm)
       (js_coalesce (opt_prop (VideoPricingDefaults maps) nm) (opt_prop (VideoPricingAliases maps) nm))"

text \<open>The text of the stored expression; \<open>split\<dots>\<close> calls \<open>trim\<close> on it, which throws on a value
  that is not a string. The counter of video rows is threaded through.\<close>

definition buildModelState :: "jsstr \<Rightarrow> source_maps \<Rightarrow> nat \<Rightarrow> (pricing_model \<times> nat) res" where
  "buildModelState nm maps seq =
     (let mode = opt_prop (ModelBillingMode maps) nm in
      if mode = Str (lit ''tiered_expr'') then
        (case js_or (opt_prop (ModelBillingExpr maps) nm) (Str []) of
           Str full \<Rightarrow>
             (case splitBillingExprAndRequestRules full of
                Inl e \<Rightarrow> Inl e
              | Inr sp \<Rightarrow> Inr (EMPTY_MODEL\<lparr>name := nm, billingMode := lit ''tiered_expr'',
                    m_billingExpr := billingExpr sp, m_requestRuleExpr := requestRuleExpr sp\<rparr>, seq))
         | _ \<Rightarrow> Inl TypeError)
      else if mode = Str (lit ''per_hour'') then
        Inr (EMPTY_MODEL\<lparr>name := nm, billingMode := lit ''per_hour'',
               fixedPrice := toNumericString (opt_prop (ModelPrice maps) nm)\<rparr>, seq)
      else let videoSpec = video_spec_of nm maps in
        if mode = Str (lit ''video'') \<or> truthy videoSpec then
          (case specToVideoEditorState videoSpec seq of (st, seq') \<Rightarrow>
             Inr (EMPTY_MODEL\<lparr>name := nm, billingMode := lit ''video'', videoPricing := Some st\<rparr>, seq'))
        else Inr (build_ratio_model nm maps, seq))"

section \<open>Derived facts of a model\<close>

definition isBasePricingUnset :: "pricing_model \<Rightarrow> bool" where
  "isBasePricingUnset model \<longleftrightarrow>
     billingMode model \<noteq> lit ''tiered_expr'' \<and>
     \<not> (billingMode model = lit ''video'' \<and> isVideoPricingConfigured (videoPricing model)) \<and>
     \<not> has (fixedPrice model) \<and> \<not> has (inputPrice model)"

definition getModelWarnings :: "pricing_model option \<Rightarrow> (jsstr \<Rightarrow> jsstr) \<Rightarrow> jsstr list" where
  "getModelWarnings model t =
     (case model of None \<Rightarrow> []
      | Some m \<Rightarrow>
          if billingMode m = lit ''tiered_expr'' then []
          else if billingMode m = lit ''video'' then
            (if \<not> isVideoPricingConfigured (videoPricing m)
             then [t [35270, 39057, 35745, 36153, 38656, 35201, 33267, 23569, 37197, 32622, 19968, 20010, 20998, 36776, 29575, 30340, 36755, 20986, 21333, 20215, 65292, 21542, 21017, 35831, 27714, 20250, 34987, 25298, 32477, 12290]] else [])
          else
            (if billingMode m = lit ''per_hour'' \<and> \<not> has (fixedPrice m)
             then [t [25353, 23567, 26102, 35745, 36153, 38656, 35201, 22635, 20889, 27599, 23567, 26102, 20215, 26684, 65292, 21542, 21017, 19981, 20250, 35745, 36153, 12290]] else [])
          @ (if hasConflict m then [t [24403, 21069, 27169, 22411, 21516, 26102, 23384, 22312, 25353, 27425, 20215, 26684, 21644, 20493, 29575, 37197, 32622, 65292, 20445, 23384, 26102, 20250, 25353, 24403, 21069, 35745, 36153, 26041, 24335, 35206, 30422, 12290]] else [])
          @ (if \<not> has (inputPrice m) \<and>
                list_ex has [completionRatio (rawRatios m), cacheRatio (rawRatios m), createCacheRatio (rawRatios m),
                  imageRatio (rawRatios m), audioRatio (rawRatios m), audioCompletionRatio (rawRatios m)]
             then [t [24403, 21069, 27169, 22411, 23384, 22312, 26410, 26174, 24335, 35774, 32622, 36755, 20837, 20493, 29575, 30340, 25193, 23637, 20493, 29575, 65307, 22635, 20889, 36755, 20837, 20215, 26684, 21518, 20250, 33258, 21160, 25442, 31639, 20026, 20215, 26684, 23383, 27573, 12290]] else [])
          @ (if billingMode m = lit ''per-token'' \<and>
                list_ex has [inputPrice m, completionPrice m, cachePrice m, createCachePrice m, imagePrice m,
                  audioInputPrice m, audioOutputPrice m] \<and> \<not> has (inputPrice m)
             then [t [25353, 37327, 35745, 36153, 19979, 38656, 35201, 20808, 22635, 20889, 36755, 20837, 20215, 26684, 65292, 25165, 33021, 20445, 23384, 20854, 23427, 20215, 26684, 39033, 12290]] else [])
          @ (if billingMode m = lit ''per-token'' \<and> has (audioOutputPrice m) \<and> \<not> has (audioInputPrice m)
             then [t [22635, 20889, 38899, 39057, 34917, 20840, 20215, 26684, 21069, 65292, 38656, 35201, 20808, 22635, 20889, 38899, 39057, 36755, 20837, 20215, 26684, 12290]] else []))"

text \<open>The number of matches of \<open>/tier\(/g\<close>.\<close>

fun tier_count :: "jsstr \<Rightarrow> nat" where
  "tier_count [] = 0"
| "tier_count (c # cs) = (if starts_with (c # cs) (lit ''tier('') then 1 else 0) + tier_count cs"

definition buildSummaryText :: "pricing_model \<Rightarrow> (jsstr \<Rightarrow> jsstr) \<Rightarrow> jsstr" where
  "buildSummaryText m t =
     (let suffix = (if billingMode m = lit ''tiered_expr'' \<and> m_requestRuleExpr m \<noteq> []
                    then [65292] @ t [35831, 27714, 35268, 21017] else []) in
      if billingMode m = lit ''tiered_expr'' then
        (let n = tier_count (m_billingExpr m) in
         if m_billingExpr m = [] \<or> n = 0 then t [34920, 36798, 24335, 35745, 36153] @ suffix
         else t [38454, 26799, 35745, 36153] @ lit '' ('' @ nat_digits n @ lit '' '' @ t [26723] @ lit '')'' @ suffix)
      else if billingMode m = lit ''video'' then summarizeVideoPricing (videoPricing m) t
      else if billingMode m = lit ''per_hour'' \<and> has (fixedPrice m) then
        t [25353, 23567, 26102] @ lit '' $'' @ fixedPrice m @ lit '' / '' @ t [23567, 26102] @ suffix
      else if billingMode m = lit ''per-request'' \<and> has (fixedPrice m) then
        t [25353, 27425] @ lit '' $'' @ fixedPrice m @ lit '' / '' @ t [27425] @ suffix
      else if has (inputPrice m) then
        (let extraCount = length (filter has [completionPrice m, cachePrice m, createCachePrice m, imagePrice m,
               audioInputPrice m, audioOutputPrice m]);
             extraLabel = (if 0 < extraCount then [65292] @ t [39069, 22806, 20215, 26684, 39033] @ lit '' '' @ nat_digits extraCount else [])
         in t [36755, 20837] @ lit '' $'' @ inputPrice m @ extraLabel @ suffix)
      else t [26410, 35774, 32622, 20215, 26684] @ suffix)"

type_synonym toggles = "(jsstr \<times> bool) list"

definition buildOptionalFieldToggles :: "pricing_model \<Rightarrow> toggles" where
  "buildOptionalFieldToggles m =
     [(lit ''completionPrice'', completionRatioLocked m \<or> has (completionPrice m)),
      (lit ''cachePrice'', has (cachePrice m)), (lit ''createCachePrice'', has (createCachePrice m)),
      (lit ''imagePrice'', has (imagePrice m)), (lit ''audioInputPrice'', has (audioInputPrice m)),
      (lit ''audioOutputPrice'', has (audioOutputPrice m))]"

section \<open>Serialisation\<close>

text \<open>The eight properties of the result, in the order of the object literal.\<close>

record serialized =
  s_ModelPrice :: "jsnum option"
  s_ModelRatio :: "jsnum option"
  s_CompletionRatio :: "jsnum option"
  s_CacheRatio :: "jsnum option"
  s_CreateCacheRatio :: "jsnum option"
  s_ImageRatio :: "jsnum option"
  s_AudioRatio :: "jsnum option"
  s_AudioCompletionRatio :: "jsnum option"

definition no_output :: serialized where
  "no_output = \<lparr>s_ModelPrice = None, s_ModelRatio = None, s_CompletionRatio = None, s_CacheRatio = None,
     s_CreateCacheRatio = None, s_ImageRatio = None, s_AudioRatio = None, s_AudioCompletionRatio = None\<rparr>"

definition text_number :: "jsstr \<Rightarrow> jsnum option" where
  "text_number s = (if has s then toNormalizedNumber (Str s) else None)"

definition ratio_to :: "jsnum option \<Rightarrow> jsnum \<Rightarrow> jsnum option" where
  "ratio_to p base = (case p of None \<Rightarrow> None | Some x \<Rightarrow> toNormalizedNumber (Num (num_div x base)))"

definition raw_output :: "raw_ratios \<Rightarrow> serialized" where
  "raw_output r = no_output\<lparr>s_ModelRatio := text_number (modelRatio r),
     s_CompletionRatio := text_number (completionRatio r), s_CacheRatio := text_number (cacheRatio r),
     s_CreateCacheRatio := text_number (createCacheRatio r), s_ImageRatio := text_number (imageRatio r),
     s_AudioRatio := text_number (audioRatio r), s_AudioCompletionRatio := text_number (audioCompletionRatio r)\<rparr>"

definition serializeModel :: "pricing_model \<Rightarrow> (jsstr \<Rightarrow> jsstr \<Rightarrow> jsstr) \<Rightarrow> serialized res" where
  "serializeModel m tn =
     (if billingMode m = lit ''per-request'' \<or> billingMode m = lit ''per_hour'' then
        Inr (no_output\<lparr>s_ModelPrice := text_number (fixedPrice m)\<rparr>)
      else if billingMode m = lit ''video'' then Inr no_output
      else
        let num = (\<lambda>s. toNumberOrNull (Str s));
            completion = num (completionPrice m); cache = num (cachePrice m);
            createCache = num (createCachePrice m); image = num (imagePrice m);
            audioInput = num (audioInputPrice m); audioOutput = num (audioOutputPrice m)
        in (case num (inputPrice m) of
             None \<Rightarrow>
               (if list_ex (\<lambda>v. v \<noteq> None) [completion, cache, createCache, image, audioInput, audioOutput]
               then Inl (JsError (tn [27169, 22411, 32, 123, 123, 110, 97, 109, 101, 125, 125, 32, 32570, 23569, 36755, 20837, 20215, 26684, 65292, 26080, 27861, 35745, 31639, 34917, 20840, 47, 32531, 23384, 47, 22270, 29255, 47, 38899, 39057, 20215, 26684, 23545, 24212, 30340, 20493, 29575] (name m)))
               else Inr (raw_output (rawRatios m)))
           | Some input \<Rightarrow>
               (let result = no_output\<lparr>s_ModelRatio := toNormalizedNumber (Num (num_div input (Fin 2))),
                     s_CompletionRatio := (if \<not> completionRatioLocked m then ratio_to completion input
                                           else text_number (completionRatio (rawRatios m))),
                     s_CacheRatio := ratio_to cache input, s_CreateCacheRatio := ratio_to createCache input,
                     s_ImageRatio := ratio_to image input, s_AudioRatio := ratio_to audioInput input\<rparr>
               in (case audioOutput of None \<Rightarrow> Inr result
                  | Some out \<Rightarrow>
                      (case audioInput of
                         None \<Rightarrow> Inl (JsError (tn [27169, 22411, 32, 123, 123, 110, 97, 109, 101, 125, 125, 32, 32570, 23569, 38899, 39057, 36755, 20837, 20215, 26684, 65292, 26080, 27861, 35745, 31639, 38899, 39057, 34917, 20840, 20493, 29575] (name m)))
                       | Some a \<Rightarrow>
                           if a = Fin 0
                           then Inl (JsError (tn [27169, 22411, 32, 123, 123, 110, 97, 109, 101, 125, 125, 32, 32570, 23569, 38899, 39057, 36755, 20837, 20215, 26684, 65292, 26080, 27861, 35745, 31639, 38899, 39057, 34917, 20840, 20493, 29575] (name m)))
                           else Inr (result\<lparr>s_AudioCompletionRatio := toNormalizedNumber (Num (num_div out a))\<rparr>))))))"

text \<open>Rows of the preview: key, label and value; key and label are the same text but for the
  two rows of a tiered model.\<close>

definition cut60 :: "jsstr \<Rightarrow> jsstr" where
  "cut60 s = (if 60 < length s then take 60 s @ lit ''...'' else s)"

definition value_or_empty :: "jsstr \<Rightarrow> (jsstr \<Rightarrow> jsstr) \<Rightarrow> jsstr" where
  "value_or_empty s t = (if has s then s else t [31354])"

definition preview_ratio :: "jsnum option \<Rightarrow> jsnum \<Rightarrow> (jsstr \<Rightarrow> jsstr) \<Rightarrow> jsstr" where
  "preview_ratio p base t = (case p of Some x \<Rightarrow> formatNumber (Num (num_div x base)) | None \<Rightarrow> t [31354])"

definition same_label :: "(jsstr \<times> jsstr) list \<Rightarrow> (jsstr \<times> jsstr \<times> jsstr) list" where
  "same_label rows = map (\<lambda>(k, v). (k, k, v)) rows"

definition buildPreviewRows :: "pricing_model option \<Rightarrow> (jsstr \<Rightarrow> jsstr) \<Rightarrow> (jsstr \<times> jsstr \<times> jsstr) list" where
  "buildPreviewRows model t =
     (case model of None \<Rightarrow> []
      | Some m \<Rightarrow>
          let finalExpr = combineBillingExpr (m_billingExpr m) (m_requestRuleExpr m);
              num = (\<lambda>s. toNumberOrNull (Str s)); r = rawRatios m
          in if billingMode m = lit ''tiered_expr'' then
               (lit ''BillingMode'', lit ''ModelBillingMode'', lit ''tiered_expr'') #
               (if finalExpr \<noteq> [] then
                  [(lit ''BillingExpr'', lit ''ModelBillingExpr'',
                    let n = tier_count (m_billingExpr m) in
                    if 0 < n then nat_digits n @ lit '' '' @ t [26723] @ [32, 8212, 32] @ cut60 finalExpr else cut60 finalExpr)]
                else [])
             else if billingMode m = lit ''per-request'' \<or> billingMode m = lit ''per_hour'' then
               same_label [(lit ''ModelPrice'', value_or_empty (fixedPrice m) t)]
             else (case num (inputPrice m) of
               None \<Rightarrow> same_label
                 [(lit ''ModelRatio'', value_or_empty (modelRatio r) t), (lit ''CompletionRatio'', value_or_empty (completionRatio r) t),
                  (lit ''CacheRatio'', value_or_empty (cacheRatio r) t), (lit ''CreateCacheRatio'', value_or_empty (createCacheRatio r) t),
                  (lit ''ImageRatio'', value_or_empty (imageRatio r) t), (lit ''AudioRatio'', value_or_empty (audioRatio r) t),
                  (lit ''AudioCompletionRatio'', value_or_empty (audioCompletionRatio r) t)]
             | Some input \<Rightarrow> same_label
                 [(lit ''ModelRatio'', formatNumber (Num (num_div input (Fin 2)))),
                  (lit ''CompletionRatio'',
                    if completionRatioLocked m
                    then (if lockedCompletionRatio m = [] then t [31354] else lockedCompletionRatio m) @ lit '' ('' @ t [21518, 31471, 22266, 23450] @ lit '')''
                    else preview_ratio (num (completionPrice m)) input t),
                  (lit ''CacheRatio'', preview_ratio (num (cachePrice m)) input t),
                  (lit ''CreateCacheRatio'', preview_ratio (num (createCachePrice m)) input t),
                  (lit ''ImageRatio'', preview_ratio (num (imagePrice m)) input t),
                  (lit ''AudioRatio'', preview_ratio (num (audioInputPrice m)) input t),
                  (lit ''AudioCompletionRatio'',
                    (case num (audioInputPrice m) of
                      None \<Rightarrow> t [31354]
                    | Some a \<Rightarrow> if a = Fin 0 then t [31354] else preview_ratio (num (audioOutputPrice m)) a t))]))"

section \<open>The hook\<close>

record editor_state =
  models :: "pricing_model list"
  initialVisibleModelNames :: "jsstr list"
  selectedModelName :: jsstr
  selectedModelNames :: "jsstr list"
  searchText :: jsstr
  currentPage :: nat
  loading :: bool
  conflictOnly :: bool
  optionalFieldToggles :: "(jsstr \<times> toggles) list"
  videoRowSeq :: nat

text \<open>The text of an option, empty when it is missing.\<close>

definition option_text :: "(jsstr \<rightharpoonup> jsstr) \<Rightarrow> jsstr \<Rightarrow> jsstr" where
  "option_text options k = (case options k of None \<Rightarrow> [] | Some v \<Rightarrow> v)"

definition source_maps_of :: "(jsstr \<rightharpoonup> jsstr) \<Rightarrow> source_maps" where
  "source_maps_of options =
     (let p = (\<lambda>k. parseOptionJSON (option_text options k)) in
      \<lparr>ModelPrice = p (lit ''ModelPrice''), ModelRatio = p (lit ''ModelRatio''), CompletionRatio = p (lit ''CompletionRatio''),
       CompletionRatioMeta = p (lit ''CompletionRatioMeta''), CacheRatio = p (lit ''CacheRatio''),
       CreateCacheRatio = p (lit ''CreateCacheRatio''), ImageRatio = p (lit ''ImageRatio''), AudioRatio = p (lit ''AudioRatio''),
       AudioCompletionRatio = p (lit ''AudioCompletionRatio''),
       ModelBillingMode = p (lit ''billing_setting.billing_mode''),
       ModelBillingExpr = p (lit ''billing_setting.billing_expr''),
       ModelVideoPricing = p (lit ''video_pricing_setting.pricing''),
       VideoPricingDefaults = p (lit ''VideoPricingDefaults''), VideoPricingAliases = p (lit ''VideoPricingAliases'')\<rparr>)"

definition model_names :: "jsstr list \<Rightarrow> source_maps \<Rightarrow> jsstr list" where
  "model_names candidates maps = uniq (candidates @ concat (map (\<lambda>m. map fst (own_entries m))
     [ModelPrice maps, ModelRatio maps, CompletionRatio maps, CompletionRatioMeta maps, CacheRatio maps,
      CreateCacheRatio maps, ImageRatio maps, AudioRatio maps, AudioCompletionRatio maps, ModelBillingMode maps,
      ModelBillingExpr maps, ModelVideoPricing maps, VideoPricingDefaults maps]))"

text \<open>\<open>names.map(buildModelState)\<close>\<close>

fun build_models :: "jsstr list \<Rightarrow> source_maps \<Rightarrow> nat \<Rightarrow> (pricing_model list \<times> nat) res" where
  "build_models [] maps seq = Inr ([], seq)"
| "build_models (nm # nms) maps seq =
     (case buildModelState nm maps seq of Inl e \<Rightarrow> Inl e
      | Inr (m, seq1) \<Rightarrow>
          (case build_models nms maps seq1 of Inl e \<Rightarrow> Inl e | Inr (ms, seq2) \<Rightarrow> Inr (m # ms, seq2)))"

text \<open>The effect that loads the options; \<open>lt\<close> is the order of \<open>localeCompare\<close>, \<open>unset\<close> says that the
  filter mode is \<open>unset\<close>.\<close>

definition load_options ::
  "(jsstr \<Rightarrow> jsstr \<Rightarrow> bool) \<Rightarrow> bool \<Rightarrow> jsstr list \<Rightarrow> (jsstr \<rightharpoonup> jsstr) \<Rightarrow> editor_state \<Rightarrow> editor_state res" where
  "load_options lt unset candidates options s =
     (let maps = source_maps_of options in
      case build_models (model_names candidates maps) maps (videoRowSeq s) of
        Inl e \<Rightarrow> Inl e
      | Inr (ms, seq) \<Rightarrow>
          (let nextModels = sort_by (\<lambda>a b. lt (name a) (name b)) ms;
               visible = (if unset then filter isBasePricingUnset nextModels else nextModels);
               previous = selectedModelName s
           in Inr (s\<lparr>models := nextModels, initialVisibleModelNames := map name visible,
                optionalFieldToggles := map (\<lambda>m. (name m, buildOptionalFieldToggles m)) nextModels,
                selectedModelName := (if previous \<noteq> [] \<and> list_ex (\<lambda>m. name m = previous) nextModels then previous
                   else case visible of [] \<Rightarrow> [] | m # _ \<Rightarrow> name m),
                videoRowSeq := seq\<rparr>)))"

definition visibleModels :: "bool \<Rightarrow> editor_state \<Rightarrow> pricing_model list" where
  "visibleModels unset s =
     (if unset then filter (\<lambda>m. name m \<in> set (initialVisibleModelNames s)) (models s) else models s)"

definition filteredModels :: "bool \<Rightarrow> editor_state \<Rightarrow> pricing_model list" where
  "filteredModels unset s =
     filter (\<lambda>m. let keyword = to_lower (trim (searchText s)) in
        (keyword = [] \<or> str_includes (to_lower (name m)) keyword) \<and> (\<not> conflictOnly s \<or> hasConflict m))
       (visibleModels unset s)"

definition pagedData :: "bool \<Rightarrow> editor_state \<Rightarrow> pricing_model list" where
  "pagedData unset s =
     (let start = (currentPage s - 1) * PAGE_SIZE in take PAGE_SIZE (drop start (filteredModels unset s)))"

definition selectedModel :: "bool \<Rightarrow> editor_state \<Rightarrow> pricing_model option" where
  "selectedModel unset s = find (\<lambda>m. name m = selectedModelName s) (visibleModels unset s)"

text \<open>The effects that follow a change of the visible models.\<close>

definition sync_selection :: "bool \<Rightarrow> editor_state \<Rightarrow> editor_state" where
  "sync_selection unset s =
     (let vis = visibleModels unset s in
      s\<lparr>selectedModelNames := filter (\<lambda>nm. list_ex (\<lambda>m. name m = nm) vis) (selectedModelNames s),
        selectedModelName := (case vis of [] \<Rightarrow> []
          | m # _ \<Rightarrow> if list_ex (\<lambda>m. name m = selectedModelName s) vis then selectedModelName s else name m)\<rparr>)"

definition upsertModel :: "jsstr \<Rightarrow> (pricing_model \<Rightarrow> pricing_model) \<Rightarrow> editor_state \<Rightarrow> editor_state" where
  "upsertModel nm updater s = s\<lparr>models := map (\<lambda>m. if name m \<noteq> nm then m else updater m) (models s)\<rparr>"

text \<open>Association lists of toggles: the first entry of a key counts.\<close>

definition toggle_put :: "(jsstr \<times> 'v) list \<Rightarrow> jsstr \<Rightarrow> 'v \<Rightarrow> (jsstr \<times> 'v) list" where
  "toggle_put xs k v = (k, v) # filter (\<lambda>p. fst p \<noteq> k) xs"

definition toggles_of :: "editor_state \<Rightarrow> jsstr \<Rightarrow> toggles" where
  "toggles_of s nm = (case map_of (optionalFieldToggles s) nm of None \<Rightarrow> [] | Some ts \<Rightarrow> ts)"

definition isOptionalFieldEnabled :: "editor_state \<Rightarrow> pricing_model option \<Rightarrow> jsstr \<Rightarrow> bool" where
  "isOptionalFieldEnabled s model field =
     (case model of None \<Rightarrow> False
      | Some m \<Rightarrow> (case map_of (toggles_of s (name m)) field of Some b \<Rightarrow> b
          | None \<Rightarrow> (case map_of (buildOptionalFieldToggles m) field of Some b \<Rightarrow> b | None \<Rightarrow> False)))"

definition updateOptionalFieldToggle :: "jsstr \<Rightarrow> jsstr \<Rightarrow> bool \<Rightarrow> editor_state \<Rightarrow> editor_state" where
  "updateOptionalFieldToggle nm field checked s =
     s\<lparr>optionalFieldToggles := toggle_put (optionalFieldToggles s) nm (toggle_put (toggles_of s nm) field checked)\<rparr>"

text \<open>The price fields an input can edit; \<open>[field]: value\<close> on a model.\<close>

datatype price_field = FixedPrice | InputPrice | CompletionPrice | CachePrice | CreateCachePrice
  | ImagePrice | AudioInputPrice | AudioOutputPrice

fun field_name :: "price_field \<Rightarrow> jsstr" where
  "field_name FixedPrice = lit ''fixedPrice''" | "field_name InputPrice = lit ''inputPrice''"
| "field_name CompletionPrice = lit ''completionPrice''" | "field_name CachePrice = lit ''cachePrice''"
| "field_name CreateCachePrice = lit ''createCachePrice''" | "field_name ImagePrice = lit ''imagePrice''"
| "field_name AudioInputPrice = lit ''audioInputPrice''" | "field_name AudioOutputPrice = lit ''audioOutputPrice''"

fun set_field :: "price_field \<Rightarrow> jsstr \<Rightarrow> pricing_model \<Rightarrow> pricing_model" where
  "set_field FixedPrice v m = m\<lparr>fixedPrice := v\<rparr>"
| "set_field InputPrice v m = m\<lparr>inputPrice := v\<rparr>"
| "set_field CompletionPrice v m = m\<lparr>completionPrice := v\<rparr>"
| "set_field CachePrice v m = m\<lparr>cachePrice := v\<rparr>"
| "set_field CreateCachePrice v m = m\<lparr>createCachePrice := v\<rparr>"
| "set_field ImagePrice v m = m\<lparr>imagePrice := v\<rparr>"
| "set_field AudioInputPrice v m = m\<lparr>audioInputPrice := v\<rparr>"
| "set_field AudioOutputPrice v m = m\<lparr>audioOutputPrice := v\<rparr>"

definition handleOptionalFieldToggle :: "bool \<Rightarrow> price_field \<Rightarrow> bool \<Rightarrow> editor_state \<Rightarrow> editor_state" where
  "handleOptionalFieldToggle unset field checked s =
     (case selectedModel unset s of None \<Rightarrow> s
      | Some sel \<Rightarrow>
          (let s1 = updateOptionalFieldToggle (name sel) (field_name field) checked s in
           if checked then s1
           else let s2 = upsertModel (name sel) (\<lambda>m. let n = set_field field [] m in
                  if field = AudioInputPrice then n\<lparr>audioOutputPrice := []\<rparr> else n) s1
             in if field = AudioInputPrice
                then updateOptionalFieldToggle (name sel) (lit ''audioOutputPrice'') False
                       (updateOptionalFieldToggle (name sel) (lit ''audioInputPrice'') False s2)
                else s2))"

definition fill_price :: "jsnum \<Rightarrow> jsstr \<Rightarrow> jsstr \<Rightarrow> jsstr" where
  "fill_price base ratio current =
     (if \<not> has current \<and> has ratio then formatNumber (Num (num_mul base (str_to_num ratio))) else current)"

definition fillDerivedPricesFromBase :: "pricing_model \<Rightarrow> jsstr \<Rightarrow> pricing_model" where
  "fillDerivedPricesFromBase m nextInputPrice =
     (case toNumberOrNull (Str nextInputPrice) of None \<Rightarrow> m
      | Some base \<Rightarrow> (let r = rawRatios m in m\<lparr>
          completionPrice := (if completionRatioLocked m \<and> has (lockedCompletionRatio m)
             then formatNumber (Num (num_mul base (str_to_num (lockedCompletionRatio m))))
             else fill_price base (completionRatio r) (completionPrice m)),
          cachePrice := fill_price base (cacheRatio r) (cachePrice m),
          createCachePrice := fill_price base (createCacheRatio r) (createCachePrice m),
          imagePrice := fill_price base (imageRatio r) (imagePrice m),
          audioInputPrice := fill_price base (audioRatio r) (audioInputPrice m),
          audioOutputPrice := (if \<not> has (audioOutputPrice m) \<and> has (audioRatio r) \<and> has (audioCompletionRatio r)
             then formatNumber (Num (num_mul (num_mul base (str_to_num (audioRatio r))) (str_to_num (audioCompletionRatio r))))
             else audioOutputPrice m)\<rparr>))"

definition handleNumericFieldChange :: "bool \<Rightarrow> price_field \<Rightarrow> jsstr \<Rightarrow> editor_state \<Rightarrow> editor_state" where
  "handleNumericFieldChange unset field v s =
     (case selectedModel unset s of None \<Rightarrow> s
      | Some sel \<Rightarrow>
          if \<not> NUMERIC_INPUT_REGEX v then s
          else upsertModel (name sel) (\<lambda>m. let u = set_field field v m in
            if field = InputPrice then fillDerivedPricesFromBase u v else u) s)"

definition default_tier_expr :: jsstr where
  "default_tier_expr = lit ''tier('' @ [34] @ lit ''base'' @ [34] @ lit '', p * 0 + c * 0)''"

definition handleBillingModeChange :: "bool \<Rightarrow> jsstr \<Rightarrow> editor_state \<Rightarrow> editor_state" where
  "handleBillingModeChange unset v s =
     (case selectedModel unset s of None \<Rightarrow> s
      | Some sel \<Rightarrow>
          (case specToVideoEditorState (Obj DEFAULT_VIDEO_MODEL_SPEC) (videoRowSeq s) of (st, seq) \<Rightarrow>
             let fresh = (v = lit ''video'' \<and> list_ex (\<lambda>m. name m = name sel \<and> videoPricing m = None) (models s)) in
             (upsertModel (name sel) (\<lambda>m. m\<lparr>billingMode := v,
                m_billingExpr := (if v = lit ''tiered_expr'' \<and> m_billingExpr m = [] then default_tier_expr else m_billingExpr m),
                videoPricing := (if v = lit ''video'' \<and> videoPricing m = None then Some st else videoPricing m)\<rparr>) s)
             \<lparr>videoRowSeq := (if fresh then seq else videoRowSeq s)\<rparr>))"

definition update_selected :: "bool \<Rightarrow> (pricing_model \<Rightarrow> pricing_model) \<Rightarrow> editor_state \<Rightarrow> editor_state" where
  "update_selected unset f s =
     (case selectedModel unset s of None \<Rightarrow> s | Some sel \<Rightarrow> upsertModel (name sel) f s)"

definition handleVideoPricingChange :: "bool \<Rightarrow> video_state option \<Rightarrow> editor_state \<Rightarrow> editor_state" where
  "handleVideoPricingChange unset nextPricing = update_selected unset (\<lambda>m. m\<lparr>videoPricing := nextPricing\<rparr>)"

definition handleBillingExprChange :: "bool \<Rightarrow> jsstr \<Rightarrow> editor_state \<Rightarrow> editor_state" where
  "handleBillingExprChange unset newExpr = update_selected unset (\<lambda>m. m\<lparr>m_billingExpr := newExpr\<rparr>)"

definition handleRequestRuleExprChange :: "bool \<Rightarrow> jsstr \<Rightarrow> editor_state \<Rightarrow> editor_state" where
  "handleRequestRuleExprChange unset newExpr = update_selected unset (\<lambda>m. m\<lparr>m_requestRuleExpr := newExpr\<rparr>)"

text \<open>\<open>Inl\<close> is the key of the error shown.\<close>

definition addModel :: "jsstr \<Rightarrow> editor_state \<Rightarrow> (jsstr + unit) \<times> editor_state" where
  "addModel modelName s =
     (let trimmedName = trim modelName in
      if trimmedName = [] then (Inl [35831, 36755, 20837, 27169, 22411, 21517, 31216], s)
      else if list_ex (\<lambda>m. name m = trimmedName) (models s) then (Inl [27169, 22411, 21517, 31216, 24050, 23384, 22312], s)
      else let nextModel = EMPTY_MODEL\<lparr>name := trimmedName\<rparr> in
        (Inr (), s\<lparr>models := nextModel # models s,
           optionalFieldToggles := toggle_put (optionalFieldToggles s) trimmedName (buildOptionalFieldToggles nextModel),
           selectedModelName := trimmedName, currentPage := 1\<rparr>))"

definition deleteModel :: "jsstr \<Rightarrow> editor_state \<Rightarrow> editor_state" where
  "deleteModel nm s =
     (let nextModels = filter (\<lambda>m. name m \<noteq> nm) (models s) in
      s\<lparr>models := nextModels, optionalFieldToggles := filter (\<lambda>p. fst p \<noteq> nm) (optionalFieldToggles s),
        selectedModelNames := filter (\<lambda>n. n \<noteq> nm) (selectedModelNames s),
        selectedModelName := (if selectedModelName s = nm then (case nextModels of [] \<Rightarrow> [] | m # _ \<Rightarrow> name m)
                              else selectedModelName s)\<rparr>)"

definition apply_template :: "pricing_model \<Rightarrow> pricing_model \<Rightarrow> pricing_model" where
  "apply_template sel m =
     (let n = m\<lparr>billingMode := billingMode sel, fixedPrice := fixedPrice sel, inputPrice := inputPrice sel,
            completionPrice := completionPrice sel, cachePrice := cachePrice sel,
            createCachePrice := createCachePrice sel, imagePrice := imagePrice sel,
            audioInputPrice := audioInputPrice sel, audioOutputPrice := audioOutputPrice sel,
            m_billingExpr := m_billingExpr sel, m_requestRuleExpr := m_requestRuleExpr sel\<rparr>
      in if billingMode n = lit ''per-token'' \<and> completionRatioLocked n \<and> has (inputPrice n) \<and> has (lockedCompletionRatio n)
         then n\<lparr>completionPrice := formatNumber (Num (num_mul (str_to_num (inputPrice n)) (str_to_num (lockedCompletionRatio n))))\<rparr>
         else n)"

definition template_toggles :: "toggles \<Rightarrow> pricing_model option \<Rightarrow> toggles" where
  "template_toggles src target =
     (let on = (\<lambda>f. map_of src f = Some True) in
      [(lit ''completionPrice'', (case target of Some m \<Rightarrow> completionRatioLocked m | None \<Rightarrow> False) \<or> on (lit ''completionPrice'')),
       (lit ''cachePrice'', on (lit ''cachePrice'')), (lit ''createCachePrice'', on (lit ''createCachePrice'')),
       (lit ''imagePrice'', on (lit ''imagePrice'')), (lit ''audioInputPrice'', on (lit ''audioInputPrice'')),
       (lit ''audioOutputPrice'', on (lit ''audioInputPrice'') \<and> on (lit ''audioOutputPrice''))])"

definition applySelectedModelPricing :: "bool \<Rightarrow> editor_state \<Rightarrow> (jsstr + unit) \<times> editor_state" where
  "applySelectedModelPricing unset s =
     (case selectedModel unset s of
        None \<Rightarrow> (Inl [35831, 20808, 36873, 25321, 19968, 20010, 20316, 20026, 27169, 26495, 30340, 27169, 22411], s)
      | Some sel \<Rightarrow>
          (if selectedModelNames s = [] then (Inl [35831, 20808, 21246, 36873, 38656, 35201, 25209, 37327, 35774, 32622, 30340, 27169, 22411], s)
           else (Inr (), s\<lparr>
             models := map (\<lambda>m. if name m \<notin> set (selectedModelNames s) then m else apply_template sel m) (models s),
             optionalFieldToggles := foldl (\<lambda>ts nm. toggle_put ts nm
                 (template_toggles (toggles_of s (name sel)) (find (\<lambda>m. name m = nm) (models s))))
               (optionalFieldToggles s) (selectedModelNames s)\<rparr>)))"

section \<open>Saving\<close>

text \<open>The eleven objects whose JSON texts are sent, by option key.\<close>

type_synonym outputs = "(jsstr \<times> jsobj) list"

definition empty_output :: outputs where
  "empty_output = map (\<lambda>k. (k, []))
     [lit ''ModelPrice'', lit ''ModelRatio'', lit ''CompletionRatio'', lit ''CacheRatio'', lit ''CreateCacheRatio'', lit ''ImageRatio'',
      lit ''AudioRatio'', lit ''AudioCompletionRatio'', lit ''billing_setting.billing_mode'', lit ''billing_setting.billing_expr'',
      lit ''video_pricing_setting.pricing'']"

definition output_put :: "outputs \<Rightarrow> jsstr \<Rightarrow> jsstr \<Rightarrow> jsval \<Rightarrow> outputs" where
  "output_put out key nm v = map (\<lambda>(k, o'). (k, if k = key then obj_put o' nm v else o')) out"

definition put_opt :: "outputs \<Rightarrow> jsstr \<Rightarrow> jsstr \<Rightarrow> jsnum option \<Rightarrow> outputs" where
  "put_opt out key nm v = (case v of None \<Rightarrow> out | Some x \<Rightarrow> output_put out key nm (Num x))"

definition put_serialized :: "outputs \<Rightarrow> jsstr \<Rightarrow> serialized \<Rightarrow> outputs" where
  "put_serialized out nm r =
     foldl (\<lambda>o' (k, v). put_opt o' k nm v) out
       [(lit ''ModelPrice'', s_ModelPrice r), (lit ''ModelRatio'', s_ModelRatio r), (lit ''CompletionRatio'', s_CompletionRatio r),
        (lit ''CacheRatio'', s_CacheRatio r), (lit ''CreateCacheRatio'', s_CreateCacheRatio r), (lit ''ImageRatio'', s_ImageRatio r),
        (lit ''AudioRatio'', s_AudioRatio r), (lit ''AudioCompletionRatio'', s_AudioCompletionRatio r)]"

definition put_mode :: "outputs \<Rightarrow> pricing_model \<Rightarrow> outputs" where
  "put_mode out m =
     (if billingMode m = lit ''video'' then
        (case videoEditorStateToSpec (videoPricing m) of
           Some spec \<Rightarrow>
             if own_entries (obj_get spec (lit ''output'')) \<noteq> []
             then output_put (output_put out (lit ''billing_setting.billing_mode'') (name m) (Str (lit ''video'')))
                    (lit ''video_pricing_setting.pricing'') (name m) (Obj spec)
             else out
         | None \<Rightarrow> out)
      else if billingMode m = lit ''tiered_expr'' then
        (let finalExpr = combineBillingExpr (m_billingExpr m) (m_requestRuleExpr m) in
         if finalExpr \<noteq> []
         then output_put (output_put out (lit ''billing_setting.billing_mode'') (name m) (Str (lit ''tiered_expr'')))
                (lit ''billing_setting.billing_expr'') (name m) (Str finalExpr)
         else out)
      else if billingMode m = lit ''per_hour''
      then output_put out (lit ''billing_setting.billing_mode'') (name m) (Str (lit ''per_hour''))
      else out)"

fun submit_output :: "(jsstr \<Rightarrow> jsstr \<Rightarrow> jsstr) \<Rightarrow> outputs \<Rightarrow> pricing_model list \<Rightarrow> outputs res" where
  "submit_output tn out [] = Inr out"
| "submit_output tn out (m # ms) =
     (let out1 = put_mode out m in
      case serializeModel m tn of
        Inr r \<Rightarrow> submit_output tn (put_serialized out1 (name m) r) ms
      | Inl e \<Rightarrow> if billingMode m \<noteq> lit ''tiered_expr'' \<and> billingMode m \<noteq> lit ''video'' then Inl e
                else submit_output tn out1 ms)"

text \<open>The outcome of \<open>handleSubmit\<close> given the responses of the requests, or the error one of them
  rejects with; \<open>refreshed\<close> says whether the options are loaded again.\<close>

record submit_result =
  sent :: "outputs option"
  message :: "jsstr + jsstr"
  refreshed :: bool

definition err_message :: "jserr \<Rightarrow> jsstr" where
  "err_message e = (case e of JsError m \<Rightarrow> m | _ \<Rightarrow> [])"

definition handleSubmit ::
  "(jsstr \<Rightarrow> jsstr) \<Rightarrow> (jsstr \<Rightarrow> jsstr \<Rightarrow> jsstr) \<Rightarrow> (outputs \<Rightarrow> jsval list res) \<Rightarrow> editor_state \<Rightarrow> submit_result" where
  "handleSubmit t tn api s =
     (let failed = (\<lambda>sentOut m. \<lparr>sent = sentOut, message = Inl (if m = [] then t [20445, 23384, 22833, 36133, 65292, 35831, 37325, 35797] else m), refreshed = False\<rparr>) in
      case submit_output tn empty_output (models s) of
        Inl e \<Rightarrow> failed None (err_message e)
      | Inr out \<Rightarrow>
          (case api out of
             Inl e \<Rightarrow> failed (Some out) (err_message e)
           | Inr results \<Rightarrow>
               (case find (\<lambda>res. \<not> truthy (opt_prop (opt_prop res (lit ''data'')) (lit ''success''))) results of
                  Some res \<Rightarrow> failed (Some out) (to_str (js_or (opt_prop (opt_prop res (lit ''data'')) (lit ''message''))
                    (Str (t [20445, 23384, 22833, 36133, 65292, 35831, 37325, 35797]))))
                | None \<Rightarrow> \<lparr>sent = Some out, message = Inr (t [20445, 23384, 25104, 21151]), refreshed = True\<rparr>)))"

end
