(* ===== verification/Pricing_Editor_Thms.thy ===== *)
theory Pricing_Editor_Thms
  imports Pricing_Editor
begin

text \<open>
  Properties of the pricing editor: model names stay distinct under every edit, saving never
  writes both a fixed price and a ratio for a model, the pages partition the filtered list, and
  two ways in which saving drops prices.
\<close>

section \<open>Names\<close>

definition names_distinct :: "editor_state \<Rightarrow> bool" where
  "names_distinct s \<longleftrightarrow> distinct (map name (models s))"

text \<open>An edit in the page, whatever the filter mode.\<close>

inductive edit_step :: "editor_state \<Rightarrow> editor_state \<Rightarrow> bool" where
  toggle: "edit_step s (handleOptionalFieldToggle unset field checked s)"
| numeric: "edit_step s (handleNumericFieldChange unset field v s)"
| mode: "edit_step s (handleBillingModeChange unset v s)"
| video: "edit_step s (handleVideoPricingChange unset p s)"
| expr: "edit_step s (handleBillingExprChange unset e s)"
| rules: "edit_step s (handleRequestRuleExprChange unset e s)"
| add: "edit_step s (snd (addModel nm s))"
| delete: "edit_step s (deleteModel nm s)"
| apply_all: "edit_step s (snd (applySelectedModelPricing unset s))"
| select: "edit_step s (s\<lparr>selectedModelName := nm\<rparr>)"
| check: "edit_step s (s\<lparr>selectedModelNames := nms\<rparr>)"
| search: "edit_step s (s\<lparr>searchText := txt, conflictOnly := c, currentPage := p\<rparr>)"
| sync: "edit_step s (sync_selection unset s)"

inductive_cases edit_stepE: "edit_step s s'"

lemma map_name_upsert: "(\<And>m. name (f m) = name m) \<Longrightarrow> map name (models (upsertModel nm f s)) = map name (models s)"
  by (auto simp: upsertModel_def)

lemma name_set_field [simp]: "name (set_field f v m) = name m"
  by (cases f) auto

lemma name_fillDerived [simp]: "name (fillDerivedPricesFromBase m v) = name m"
  by (auto simp: fillDerivedPricesFromBase_def Let_def split: option.splits)

lemma name_apply_template [simp]: "name (apply_template sel m) = name m"
  by (simp add: apply_template_def Let_def)

lemma models_update_toggle [simp]: "models (updateOptionalFieldToggle nm f c s) = models s"
  by (simp add: updateOptionalFieldToggle_def)

lemma names_handlers:
  "map name (models (handleOptionalFieldToggle unset field checked s)) = map name (models s)"
  "map name (models (handleNumericFieldChange unset field v s)) = map name (models s)"
  "map name (models (handleBillingModeChange unset v s)) = map name (models s)"
  "map name (models (update_selected unset g s)) = map name (models s)" if "\<And>m. name (g m) = name m"
  using that
  by (auto simp: handleOptionalFieldToggle_def handleNumericFieldChange_def handleBillingModeChange_def
      update_selected_def Let_def map_name_upsert split: option.splits prod.splits)

lemma names_distinct_add: "names_distinct s \<Longrightarrow> names_distinct (snd (addModel nm s))"
  by (auto simp: addModel_def names_distinct_def Let_def list_ex_iff)

lemma names_distinct_delete: "names_distinct s \<Longrightarrow> names_distinct (deleteModel nm s)"
  by (auto simp: deleteModel_def names_distinct_def Let_def distinct_map_filter)

lemma map_name_template:
  "map (name \<circ> (\<lambda>m. if name m \<notin> N then m else apply_template sel m)) ms = map name ms"
  by auto

lemma names_distinct_apply: "names_distinct s \<Longrightarrow> names_distinct (snd (applySelectedModelPricing unset s))"
  by (auto simp: applySelectedModelPricing_def names_distinct_def map_name_template simp del: map_eq_conv split: option.splits)

lemma edit_step_names: "edit_step s s' \<Longrightarrow> names_distinct s \<Longrightarrow> names_distinct s'"
  by (erule edit_stepE)
    (auto simp: names_handlers handleVideoPricingChange_def handleBillingExprChange_def
      handleRequestRuleExprChange_def sync_selection_def Let_def names_distinct_def
      intro: names_distinct_add [unfolded names_distinct_def] names_distinct_delete [unfolded names_distinct_def]
        names_distinct_apply [unfolded names_distinct_def])

lemma name_buildModelState: "buildModelState nm maps seq = Inr (m, seq') \<Longrightarrow> name m = nm"
  by (auto simp: buildModelState_def build_ratio_model_def Let_def
      split: if_splits jsval.splits sum.splits prod.splits)

lemma names_build_models: "build_models nms maps seq = Inr (ms, seq') \<Longrightarrow> map name ms = nms"
  by (induction nms maps seq arbitrary: ms seq' rule: build_models.induct)
    (auto dest: name_buildModelState split: sum.splits prod.splits)

lemma load_options_names:
  assumes "load_options lt unset candidates options s = Inr s'"
  shows "names_distinct s' \<and> set (map name (models s')) = set (model_names candidates (source_maps_of options))"
proof -
  obtain ms seq where ms: "build_models (model_names candidates (source_maps_of options)) (source_maps_of options) (videoRowSeq s) = Inr (ms, seq)"
      "models s' = sort_by (\<lambda>a b. lt (name a) (name b)) ms"
    using assms by (auto simp: load_options_def Let_def split: sum.splits prod.splits)
  then have n: "map name ms = model_names candidates (source_maps_of options)" by (auto dest: names_build_models)
  have "mset (map name (models s')) = mset (map name ms)" by (simp add: ms(2))
  then show ?thesis using n
    by (metis distinct_uniq model_names_def mset_eq_imp_distinct_iff names_distinct_def set_mset_mset)
qed

section \<open>Serialised output\<close>

definition out_has :: "outputs \<Rightarrow> jsstr \<Rightarrow> jsstr \<Rightarrow> bool" where
  "out_has out k nm \<longleftrightarrow> (case map_of out k of None \<Rightarrow> False | Some kvs \<Rightarrow> obj_has kvs nm)"

definition RATIO_KEYS :: "jsstr list" where
  "RATIO_KEYS = [lit ''ModelRatio'', lit ''CompletionRatio'', lit ''CacheRatio'', lit ''CreateCacheRatio'', lit ''ImageRatio'',
     lit ''AudioRatio'', lit ''AudioCompletionRatio'']"

lemma map_of_output_put:
  "map_of (output_put out key nm v) k = (if k = key then map_option (\<lambda>kvs. obj_put kvs nm v) (map_of out k) else map_of out k)"
  by (induction out) (auto simp: output_put_def)

lemma out_has_output_put: "out_has (output_put out key nm v) k n \<Longrightarrow> out_has out k n \<or> (k = key \<and> n = nm)"
  by (auto simp: out_has_def map_of_output_put split: option.splits if_splits)

lemma out_has_put_mode:
  "out_has (put_mode out m) k n \<Longrightarrow> k \<in> insert (lit ''ModelPrice'') (set RATIO_KEYS) \<Longrightarrow> out_has out k n"
  by (auto simp: put_mode_def Let_def RATIO_KEYS_def split: if_splits option.splits dest!: out_has_output_put)

lemma out_has_put_mode_name: "out_has (put_mode out m) k n \<Longrightarrow> out_has out k n \<or> n = name m"
  by (auto simp: put_mode_def Let_def split: if_splits option.splits dest!: out_has_output_put)

lemma out_has_put_opt: "out_has (put_opt out key nm v) k n \<Longrightarrow> out_has out k n \<or> (k = key \<and> n = nm \<and> v \<noteq> None)"
  by (auto simp: put_opt_def split: option.splits dest: out_has_output_put)

lemma out_has_put_opts:
  "out_has (foldl (\<lambda>o' (k, v). put_opt o' k nm v) out kvs) k n \<Longrightarrow>
   out_has out k n \<or> (n = nm \<and> (\<exists>v. (k, v) \<in> set kvs \<and> v \<noteq> None))"
proof (induction kvs arbitrary: out)
  case (Cons kv kvs)
  obtain k' v' where kv: "kv = (k', v')" by (cases kv)
  from Cons.prems have "out_has (put_opt out k' nm v') k n \<or> (n = nm \<and> (\<exists>v. (k, v) \<in> set kvs \<and> v \<noteq> None))"
    using Cons.IH [of "put_opt out k' nm v'"] by (simp add: kv)
  then show ?case using out_has_put_opt [of out k' nm v' k n] kv by auto
qed simp

text \<open>What one model writes: a fixed price or ratios.\<close>

definition price_or_ratios :: "serialized \<Rightarrow> bool" where
  "price_or_ratios r \<longleftrightarrow> s_ModelPrice r = None \<or>
     (s_ModelRatio r = None \<and> s_CompletionRatio r = None \<and> s_CacheRatio r = None \<and> s_CreateCacheRatio r = None \<and>
      s_ImageRatio r = None \<and> s_AudioRatio r = None \<and> s_AudioCompletionRatio r = None)"

lemma serializeModel_exclusive: "serializeModel m tn = Inr r \<Longrightarrow> price_or_ratios r"
  by (auto simp: serializeModel_def price_or_ratios_def no_output_def raw_output_def Let_def
      split: if_splits option.splits)

definition exclusive :: "outputs \<Rightarrow> bool" where
  "exclusive out \<longleftrightarrow> (\<forall>nm. \<forall>k \<in> set RATIO_KEYS. \<not> (out_has out (lit ''ModelPrice'') nm \<and> out_has out k nm))"

lemma put_serialized_exclusive:
  assumes "exclusive out" "price_or_ratios r" "\<And>k. k \<in> insert (lit ''ModelPrice'') (set RATIO_KEYS) \<Longrightarrow> \<not> out_has out k nm"
  shows "exclusive (put_serialized out nm r)"
  unfolding exclusive_def
proof (intro allI ballI notI)
  fix n k assume k: "k \<in> set RATIO_KEYS" and
    h: "out_has (put_serialized out nm r) (lit ''ModelPrice'') n \<and> out_has (put_serialized out nm r) k n"
  note p = h [THEN conjunct1, unfolded put_serialized_def, THEN out_has_put_opts]
    and q = h [THEN conjunct2, unfolded put_serialized_def, THEN out_has_put_opts]
  show False
  proof (cases "n = nm")
    case True
    then have "s_ModelPrice r \<noteq> None" "\<not> price_or_ratios r"
      using p q k assms(3) by (auto simp: price_or_ratios_def RATIO_KEYS_def)
    then show False using assms(2) by simp
  next
    case False
    then show False using p q k assms(1) by (auto simp: exclusive_def)
  qed
qed

lemma submit_output_exclusive:
  "submit_output tn out ms = Inr out' \<Longrightarrow> exclusive out \<Longrightarrow> distinct (map name ms) \<Longrightarrow>
   (\<And>k nm. nm \<in> set (map name ms) \<Longrightarrow> \<not> out_has out k nm) \<Longrightarrow> exclusive out'"
proof (induction tn out ms arbitrary: out' rule: submit_output.induct)
  case (2 tn out m ms)
  have fresh: "\<not> out_has out k (name m)" for k using "2.prems"(4) by simp
  have e1: "exclusive (put_mode out m)"
    using "2.prems"(2) out_has_put_mode unfolding exclusive_def by blast
  have n1: "\<not> out_has (put_mode out m) k nm" if "nm \<in> set (map name ms)" for k nm
  proof -
    have "nm \<noteq> name m" using that "2.prems"(3) by (metis distinct.simps(2) list.simps(9))
    then show ?thesis using that "2.prems"(4) [of nm k] out_has_put_mode_name [of out m k nm] by auto
  qed
  show ?case
  proof (cases "serializeModel m tn")
    case (Inl e)
    then show ?thesis using "2.prems" "2.IH"(1) [OF refl Inl] e1 n1 by (auto split: if_splits)
  next
    case (Inr r)
    have "exclusive (put_serialized (put_mode out m) (name m) r)"
      using e1 serializeModel_exclusive [OF Inr] fresh out_has_put_mode by (intro put_serialized_exclusive) blast+
    moreover have "\<not> out_has (put_serialized (put_mode out m) (name m) r) k nm" if "nm \<in> set (map name ms)" for k nm
    proof
      assume "out_has (put_serialized (put_mode out m) (name m) r) k nm"
      from out_has_put_opts [OF this [unfolded put_serialized_def]] show False
        using n1 [OF that] that "2.prems"(3) by auto
    qed
    ultimately show ?thesis using "2.prems" "2.IH"(2) [OF refl Inr] Inr by auto
  qed
qed simp

section \<open>Pages\<close>

definition page_count :: "nat \<Rightarrow> nat" where
  "page_count n = (n + PAGE_SIZE - 1) div PAGE_SIZE"

lemma pages_concat:
  "0 < k \<Longrightarrow> concat (map (\<lambda>p. take k (drop (p * k) xs)) [0..<n]) = take (n * k) xs"
proof (induction n)
  case (Suc n)
  have "take (Suc n * k) xs = take (n * k) xs @ take k (drop (n * k) xs)"
    by (metis add.commute mult_Suc take_add)
  then show ?case using Suc by simp
qed simp

section \<open>Properties\<close>

text \<open>Model names are distinct after loading the options, they are the names the options
  and the caller give, and they stay distinct through any sequence of edits, additions,
  deletions and batch applications.\<close>

theorem editor_names_distinct:
  assumes "load_options lt unset candidates options s = Inr s'" "edit_step\<^sup>*\<^sup>* s' s''"
  shows "names_distinct s'' \<and> set (map name (models s')) = set (model_names candidates (source_maps_of options))"
proof -
  have "names_distinct s''"
    using assms(2) load_options_names [OF assms(1)] by (induction rule: rtranclp_induct) (auto intro: edit_step_names)
  then show ?thesis using load_options_names [OF assms(1)] by blast
qed

definition sample_editor :: editor_state where
  "sample_editor = \<lparr>models = [], initialVisibleModelNames = [], selectedModelName = [], selectedModelNames = [],
     searchText = [], currentPage = 1, loading = False, conflictOnly = False, optionalFieldToggles = [], videoRowSeq = 0\<rparr>"

definition sample_options :: "jsstr \<rightharpoonup> jsstr" where
  "sample_options = [lit ''ModelPrice'' \<mapsto> lit ''{}'']"

lemma editor_names_distinct_witness:
  "\<exists>s'. load_options (\<lambda>_ _. False) False [lit ''gpt-4o'', lit ''o3'', lit ''gpt-4o''] sample_options sample_editor = Inr s' \<and>
     names_distinct (deleteModel (lit ''o3'') s')"
proof -
  obtain s' where l: "load_options (\<lambda>_ _. False) False [lit ''gpt-4o'', lit ''o3'', lit ''gpt-4o''] sample_options sample_editor = Inr s'"
  proof (cases "load_options (\<lambda>_ _. False) False [lit ''gpt-4o'', lit ''o3'', lit ''gpt-4o''] sample_options sample_editor")
    case (Inl e)
    moreover have "\<not> isl (load_options (\<lambda>_ _. False) False [lit ''gpt-4o'', lit ''o3'', lit ''gpt-4o''] sample_options sample_editor)"
      by code_simp
    ultimately show ?thesis by simp
  qed
  moreover have "edit_step\<^sup>*\<^sup>* s' (deleteModel (lit ''o3'') s')" by (rule r_into_rtranclp) (rule edit_step.delete)
  ultimately show ?thesis using editor_names_distinct by blast
qed

text \<open>What is saved never gives a model both a fixed price and a ratio: a conflict in the
  loaded options is resolved by saving.\<close>

theorem saved_price_or_ratios:
  assumes "submit_output tn empty_output (models s) = Inr out" "names_distinct s" "k \<in> set RATIO_KEYS"
  shows "\<not> (out_has out (lit ''ModelPrice'') nm \<and> out_has out k nm)"
proof -
  have e: "\<not> out_has empty_output k nm" for k nm
    by (auto simp: out_has_def empty_output_def map_of_eq_None_iff split: option.splits dest!: map_of_SomeD)
  then have "exclusive empty_output" by (simp add: exclusive_def)
  then have "exclusive out"
    using submit_output_exclusive [OF assms(1)] assms(2) e by (simp add: names_distinct_def)
  then show ?thesis using assms(3) by (auto simp: exclusive_def)
qed

definition conflict_model :: pricing_model where
  "conflict_model = EMPTY_MODEL\<lparr>name := lit ''m'', billingMode := lit ''per-request'',
     rawRatios := EMPTY_RATIOS\<lparr>modelRatio := lit ''2''\<rparr>, hasConflict := True\<rparr>"

lemma saved_price_or_ratios_witness:
  "\<exists>out. submit_output (\<lambda>_ _. []) empty_output (models (sample_editor\<lparr>models := [conflict_model]\<rparr>)) = Inr out \<and>
     \<not> (out_has out (lit ''ModelPrice'') (lit ''m'') \<and> out_has out (lit ''ModelRatio'') (lit ''m''))"
proof -
  let ?s = "sample_editor\<lparr>models := [conflict_model]\<rparr>"
  obtain out where o: "submit_output (\<lambda>_ _. []) empty_output (models ?s) = Inr out"
    by (simp add: conflict_model_def serializeModel_def EMPTY_MODEL_def)
  have "names_distinct ?s" by (simp add: names_distinct_def)
  then have "\<not> (out_has out (lit ''ModelPrice'') (lit ''m'') \<and> out_has out (lit ''ModelRatio'') (lit ''m''))"
    by (rule saved_price_or_ratios [OF o]) (simp add: RATIO_KEYS_def)
  with o show ?thesis by blast
qed

text \<open>The pages of the table, one after the other, are the filtered list.\<close>

theorem pages_cover_filtered:
  "concat (map (\<lambda>p. pagedData unset (s\<lparr>currentPage := p + 1\<rparr>)) [0..<page_count (length (filteredModels unset s))]) =
   filteredModels unset s"
proof -
  have f: "filteredModels unset (s\<lparr>currentPage := p\<rparr>) = filteredModels unset s" for p
    by (simp add: filteredModels_def visibleModels_def)
  have "n \<le> page_count n * PAGE_SIZE" for n
    by (simp add: page_count_def PAGE_SIZE_def)
  then show ?thesis
    using pages_concat [of PAGE_SIZE "filteredModels unset s"] by (simp add: pagedData_def f Let_def PAGE_SIZE_def)
qed

text \<open>Loading a model in expression billing and saving it writes no price and no ratio for
  it, whatever the stored options hold: the ratios that the code means to keep as a fallback
  are dropped, because loading such a model leaves its price fields and raw ratios empty.\<close>

theorem tiered_model_loses_fallback_ratios:
  assumes "opt_prop (ModelBillingMode maps) nm = Str (lit ''tiered_expr'')" "buildModelState nm maps seq = Inr (m, seq')"
  shows "serializeModel m tn = Inr no_output"
proof -
  have "m = EMPTY_MODEL\<lparr>name := nm, billingMode := lit ''tiered_expr'', m_billingExpr := m_billingExpr m,
      m_requestRuleExpr := m_requestRuleExpr m\<rparr>"
    using assms by (auto simp: buildModelState_def EMPTY_MODEL_def split: jsval.splits sum.splits)
  then obtain b r where m: "m = EMPTY_MODEL\<lparr>name := nm, billingMode := lit ''tiered_expr'', m_billingExpr := b,
      m_requestRuleExpr := r\<rparr>" by blast
  show ?thesis
    by (simp add: m serializeModel_def EMPTY_MODEL_def EMPTY_RATIOS_def toNumberOrNull_def hasValue_def
        raw_output_def text_number_def no_output_def)
qed

lemma tiered_model_loses_fallback_ratios_witness:
  "\<exists>m. buildModelState (lit ''m'') ((source_maps_of Map.empty)
      \<lparr>ModelBillingMode := Obj [(lit ''m'', Str (lit ''tiered_expr''))], ModelRatio := Obj [(lit ''m'', Num (Fin 3))]\<rparr>) 0 = Inr (m, 0) \<and>
    serializeModel m (\<lambda>_ _. []) = Inr no_output"
proof -
  let ?maps = "(source_maps_of Map.empty)\<lparr>ModelBillingMode := Obj [(lit ''m'', Str (lit ''tiered_expr''))],
      ModelRatio := Obj [(lit ''m'', Num (Fin 3))]\<rparr>"
  have mode: "opt_prop (ModelBillingMode ?maps) (lit ''m'') = Str (lit ''tiered_expr'')" by simp
  have "\<exists>m. buildModelState (lit ''m'') ?maps 0 = Inr (m, 0)"
    by (simp add: buildModelState_def source_maps_of_def parseOptionJSON_def option_text_def
        splitBillingExprAndRequestRules_def js_or_def Let_def)
  then show ?thesis using tiered_model_loses_fallback_ratios [OF mode] by blast
qed

text \<open>Applying a video model's pricing to a model without a price list switches that model
  to video billing without giving it the list, and saving then writes nothing for it: no mode,
  no price list, no price and no ratio.\<close>

theorem video_template_drops_pricing:
  assumes "billingMode sel = lit ''video''" "videoPricing m = None"
  shows "billingMode (apply_template sel m) = lit ''video'' \<and> videoPricing (apply_template sel m) = None \<and>
    put_mode out (apply_template sel m) = out \<and> serializeModel (apply_template sel m) tn = Inr no_output"
  using assms
  by (simp add: apply_template_def Let_def put_mode_def serializeModel_def videoEditorStateToSpec_def)

lemma video_template_drops_pricing_witness:
  "serializeModel (apply_template (EMPTY_MODEL\<lparr>billingMode := lit ''video''\<rparr>) (EMPTY_MODEL\<lparr>inputPrice := lit ''2.5''\<rparr>))
     (\<lambda>_ _. []) = Inr no_output"
  using video_template_drops_pricing [of "EMPTY_MODEL\<lparr>billingMode := lit ''video''\<rparr>" "EMPTY_MODEL\<lparr>inputPrice := lit ''2.5''\<rparr>"]
  by (simp add: EMPTY_MODEL_def)

end
