(* ===== verification/Tiered_Editor.thy ===== *)
theory Tiered_Editor
  imports Js_Regex Request_Rule_Expr
begin

text \<open>
  Tiered billing expressions: the variables of \<open>constants/billing.constants.js\<close> and the editor
  \<open>pages/Setting/Ratio/components/TieredPricingEditor.jsx\<close>, which turns a list of tiers into an
  expression (\<open>generateExprFromVisualConfig\<close>), reads an expression back (\<open>tryParseVisualConfig\<close>)
  and reports every change of the expression to its caller.

  A tier is a JavaScript object; a visual configuration is its list of tiers, \<open>None\<close> for a null
  configuration. The regular expressions are the patterns of the source, assembled as there.
\<close>

section \<open>Billing variables\<close>

record billing_var =
  bv_key :: jsstr
  bv_field :: jsstr
  bv_tierField :: jsstr
  bv_label :: jsstr
  bv_shortLabel :: jsstr
  bv_isBase :: bool
  bv_isConditionOnly :: bool
  bv_group :: jsstr

text \<open>The null fields of \<open>len\<close> are empty here; it is filtered out wherever they are read.\<close>

definition bvar :: "string \<Rightarrow> string \<Rightarrow> string \<Rightarrow> jsstr \<Rightarrow> jsstr \<Rightarrow> string \<Rightarrow> billing_var" where
  "bvar k f tf l sl g = \<lparr>bv_key = lit k, bv_field = lit f, bv_tierField = lit tf, bv_label = l,
     bv_shortLabel = sl, bv_isBase = (g = ''base''), bv_isConditionOnly = (g = ''condition''),
     bv_group = (if g = ''base'' \<or> g = ''condition'' then [] else lit g)\<rparr>"

definition BILLING_VARS :: "billing_var list" where
  "BILLING_VARS =
     [bvar ''p'' ''inputPrice'' ''input_unit_cost'' ([36755, 20837, 20215, 26684]) ([36755, 20837]) ''base'',
      bvar ''c'' ''outputPrice'' ''output_unit_cost'' ([34917, 20840, 20215, 26684]) ([34917, 20840]) ''base'',
      bvar ''len'' '''' '''' ([36755, 20837, 38271, 24230]) ([38271, 24230]) ''condition'',
      bvar ''cr'' ''cacheReadPrice'' ''cache_read_unit_cost'' ([32531, 23384, 35835, 21462, 20215, 26684]) ([32531, 23384, 35835]) ''cache'',
      bvar ''cc'' ''cacheCreatePrice'' ''cache_create_unit_cost'' ([32531, 23384, 21019, 24314, 20215, 26684]) ([32531, 23384, 21019, 24314]) ''cache'',
      bvar ''cc1h'' ''cacheCreate1hPrice'' ''cache_create_1h_unit_cost'' ([49, 104, 32531, 23384, 21019, 24314, 20215, 26684]) ([49, 104, 32531, 23384, 21019, 24314]) ''cache'',
      bvar ''img'' ''imagePrice'' ''image_unit_cost'' ([22270, 29255, 36755, 20837, 20215, 26684]) ([22270, 29255, 36755, 20837]) ''media'',
      bvar ''img_o'' ''imageOutputPrice'' ''image_output_unit_cost'' ([22270, 29255, 36755, 20986, 20215, 26684]) ([22270, 29255, 36755, 20986]) ''media'',
      bvar ''ai'' ''audioInputPrice'' ''audio_input_unit_cost'' ([38899, 39057, 36755, 20837, 20215, 26684]) ([38899, 39057, 36755, 20837]) ''media'',
      bvar ''ao'' ''audioOutputPrice'' ''audio_output_unit_cost'' ([38899, 39057, 34917, 20840, 20215, 26684]) ([38899, 39057, 36755, 20986]) ''media'']"

definition BILLING_PRICING_VARS :: "billing_var list" where
  "BILLING_PRICING_VARS = filter (\<lambda>v. \<not> bv_isConditionOnly v) BILLING_VARS"

definition BILLING_EXTRA_VARS :: "billing_var list" where
  "BILLING_EXTRA_VARS = filter (\<lambda>v. \<not> bv_isBase v \<and> \<not> bv_isConditionOnly v) BILLING_VARS"

definition BILLING_VAR_KEY_TO_FIELD :: "(jsstr \<times> jsstr) list" where
  "BILLING_VAR_KEY_TO_FIELD = map (\<lambda>v. (bv_key v, bv_field v)) BILLING_PRICING_VARS"

text \<open>Pairs of expression variable and tier field.\<close>

definition BILLING_CACHE_VAR_MAP :: "(jsstr \<times> jsstr) list" where
  "BILLING_CACHE_VAR_MAP = map (\<lambda>v. (bv_key v, bv_tierField v)) BILLING_EXTRA_VARS"

text \<open>The classes \<open>[\d.eE+-]\<close> and \<open>[\d.eE+]\<close>.\<close>

definition NumCls :: re where
  "NumCls = Plus (Cls is_numchar)"

definition is_condchar :: "nat \<Rightarrow> bool" where
  "is_condchar c \<longleftrightarrow> is_numchar c \<and> c \<noteq> 45"

primrec AltList :: "jsstr list \<Rightarrow> re" where
  "AltList [] = Cls (\<lambda>_. False)"
| "AltList (w # ws) = Alt (Lit w) (AltList ws)"

definition BILLING_VAR_REGEX :: re where
  "BILLING_VAR_REGEX = Seqs [WordB, Cap 1 (AltList (map bv_key BILLING_PRICING_VARS)), Ws, Lit (lit ''*''), Ws,
     Cap 2 NumCls]"

section \<open>From tiers to an expression\<close>

definition number_or_0 :: "jsval \<Rightarrow> jsnum" where
  "number_or_0 v = (let n = to_num v in if n = NaN then Fin 0 else n)"

definition unitCostToPrice :: "jsval \<Rightarrow> jsnum" where
  "unitCostToPrice uc = number_or_0 uc"

definition priceToUnitCost :: "jsval \<Rightarrow> jsnum" where
  "priceToUnitCost price = number_or_0 price"

definition buildConditionStr :: "jsval \<Rightarrow> jsstr" where
  "buildConditionStr conditions = (case conditions of
     Arr cs \<Rightarrow> join (lit '' && '')
       (map (\<lambda>c. to_str (opt_prop c (lit ''var'')) @ lit '' '' @ to_str (opt_prop c (lit ''op'')) @ lit '' '' @
          to_str (opt_prop c (lit ''value'')))
        (filter (\<lambda>c. truthy (opt_prop c (lit ''var'')) \<and> truthy (opt_prop c (lit ''op'')) \<and>
           \<not> nullish (opt_prop c (lit ''value'')) \<and> opt_prop c (lit ''value'') \<noteq> Str []) cs))
   | _ \<Rightarrow> [])"

definition getTierCacheMode :: "jsobj \<Rightarrow> jsstr" where
  "getTierCacheMode tier =
     (if obj_get tier (lit ''cache_mode'') = Str (lit ''timed'') then lit ''timed''
      else if obj_get tier (lit ''cache_mode'') = Str (lit ''generic'') then lit ''generic''
      else if num_lt (Fin 0) (to_num (obj_get tier (lit ''cache_create_1h_unit_cost''))) then lit ''timed''
      else lit ''generic'')"

definition normalizeVisualTier :: "jsobj \<Rightarrow> jsobj" where
  "normalizeVisualTier tier =
     obj_put (obj_put tier (lit ''conditions'')
       (if is_arr (obj_get tier (lit ''conditions'')) then obj_get tier (lit ''conditions'') else Arr []))
       (lit ''cache_mode'') (Str (getTierCacheMode tier))"

definition createDefaultVisualConfig :: "jsobj list" where
  "createDefaultVisualConfig = [normalizeVisualTier
     [(lit ''conditions'', Arr []), (lit ''input_unit_cost'', Num (Fin 0)), (lit ''output_unit_cost'', Num (Fin 0)),
      (lit ''label'', Str (lit ''base'')), (lit ''cache_mode'', Str (lit ''generic''))]]"

definition normalizeVisualConfig :: "jsobj list option \<Rightarrow> jsobj list" where
  "normalizeVisualConfig config = (case config of
     None \<Rightarrow> createDefaultVisualConfig
   | Some tiers \<Rightarrow> if tiers = [] then createDefaultVisualConfig else map normalizeVisualTier tiers)"

definition body_term :: "jsstr \<Rightarrow> jsnum \<Rightarrow> jsstr" where
  "body_term v n = v @ lit '' * '' @ num_to_str n"

definition buildTierBodyExpr :: "jsobj \<Rightarrow> jsstr" where
  "buildTierBodyExpr tier = join (lit '' + '')
     (body_term (lit ''p'') (number_or_0 (obj_get tier (lit ''input_unit_cost''))) #
      body_term (lit ''c'') (number_or_0 (obj_get tier (lit ''output_unit_cost''))) #
      concat (map (\<lambda>(exprVar, field).
        let v = number_or_0 (obj_get tier field) in if v \<noteq> Fin 0 then [body_term exprVar v] else [])
        BILLING_CACHE_VAR_MAP))"

definition tier_call :: "jsstr \<Rightarrow> jsobj \<Rightarrow> jsstr" where
  "tier_call label tier = lit ''tier('' @ [34] @ label @ [34] @ lit '', '' @ buildTierBodyExpr tier @ lit '')''"

definition label_or :: "jsstr \<Rightarrow> jsobj \<Rightarrow> jsstr" where
  "label_or d tier = to_str (js_or (obj_get tier (lit ''label'')) (Str d))"

definition zero_body :: jsstr where
  "zero_body = lit ''p * 0 + c * 0''"

text \<open>The part of one tier in a configuration of several, \<open>i\<close> counted from 0.\<close>

definition tier_part :: "nat \<Rightarrow> nat \<Rightarrow> jsobj \<Rightarrow> jsstr" where
  "tier_part n i tier =
     (let body = tier_call (label_or ([31532] @ nat_digits (i + 1) @ [26723]) tier) tier;
          cond = buildConditionStr (obj_get tier (lit ''conditions''))
      in if i < n - 1 \<and> cond \<noteq> [] then cond @ lit '' ? '' @ body else body)"

definition generateExprFromVisualConfig :: "jsobj list option \<Rightarrow> jsstr" where
  "generateExprFromVisualConfig config = (case config of
     None \<Rightarrow> zero_body
   | Some [] \<Rightarrow> zero_body
   | Some [tier] \<Rightarrow>
       (let body = tier_call (label_or (lit ''default'') tier) tier;
            cond = buildConditionStr (obj_get tier (lit ''conditions''))
        in if cond \<noteq> [] then cond @ lit '' ? '' @ body @ lit '' : '' @ zero_body else body)
   | Some tiers \<Rightarrow> join (lit '' : '') (map (\<lambda>(i, tier). tier_part (length tiers) i tier) (List.enumerate 0 tiers)))"

section \<open>From an expression to tiers\<close>

text \<open>\<open>/^v\d+:([\s\S]*)$/\<close>\<close>

definition strip_version :: "jsstr \<Rightarrow> (jsstr \<times> jsstr) option" where
  "strip_version s = (case s of
     c # r \<Rightarrow>
       if c = 118 \<and> takeWhile is_digit r \<noteq> []
       then (case dropWhile is_digit r of d # b \<Rightarrow> if d = 58 then Some (takeWhile is_digit r, b) else None | [] \<Rightarrow> None)
       else None
   | [] \<Rightarrow> None)"

definition version_body :: "jsstr \<Rightarrow> jsstr" where
  "version_body s = (case strip_version s of Some (n, b) \<Rightarrow> b | None \<Rightarrow> s)"

definition opt_term :: "nat \<Rightarrow> jsstr \<Rightarrow> re" where
  "opt_term i v = Opt (Seqs [Ws, Lit (lit ''+''), Ws, Lit v, Ws, Lit (lit ''*''), Ws, Cap i NumCls])"

text \<open>\<open>bodyPat\<close>, with its captures numbered from \<open>k\<close>.\<close>

definition body_re :: "nat \<Rightarrow> re" where
  "body_re k = Seqs ([Lit (lit ''p''), Ws, Lit (lit ''*''), Ws, Cap k NumCls, Ws, Lit (lit ''+''), Ws,
     Lit (lit ''c''), Ws, Lit (lit ''*''), Ws, Cap (k + 1) NumCls] @
     map (\<lambda>(i, v). opt_term i v) (List.enumerate (k + 2) (map fst BILLING_CACHE_VAR_MAP)))"

definition tier_re :: "nat \<Rightarrow> re" where
  "tier_re k = Seqs [Lit (lit ''tier('' @ [34]), Cap k (Star (Cls (\<lambda>c. c \<noteq> 34))), Lit ([34] @ lit '',''), Ws,
     body_re (k + 1), Lit (lit '')'')]"

definition singleRe :: re where
  "singleRe = Seqs [AtStart, tier_re 1, AtEnd]"

definition cond_op :: re where
  "cond_op = AltList (map lit [''<'', ''<='', ''>'', ''>=''])"

definition cond_var :: re where
  "cond_var = AltList (map lit [''p'', ''c'', ''len''])"

definition cond_re :: re where
  "cond_re = Seqs [cond_var, Ws, cond_op, Ws, Plus (Cls is_condchar)]"

definition condGroup :: re where
  "condGroup = Cap 1 (Seq cond_re (Star (Seqs [Ws, Lit (lit ''&&''), Ws, cond_re])))"

definition tierRe :: re where
  "tierRe = Seq (Opt (Seqs [condGroup, Ws, Lit (lit ''?''), Ws])) (tier_re 2)"

text \<open>\<open>/^(p|c|len)\s*(<|<=|>|>=)\s*([\d.eE+]+)$/\<close>\<close>

definition condRe :: re where
  "condRe = Seqs [AtStart, Cap 1 cond_var, Ws, Cap 2 cond_op, Ws, Cap 3 (Plus (Cls is_condchar)), AtEnd]"

text \<open>\<open>s.split(/\s*&&\s*/)\<close>, whose parts the caller trims.\<close>

fun split_and :: "jsstr \<Rightarrow> jsstr list" where
  "split_and [] = [[]]"
| "split_and [c] = [[c]]"
| "split_and (c # d # cs) =
     (if c = 38 \<and> d = 38 then [] # split_and cs
      else case split_and (d # cs) of [] \<Rightarrow> [[c]] | p # ps \<Rightarrow> (c # p) # ps)"

definition cap_num :: "re_match \<Rightarrow> nat \<Rightarrow> jsval" where
  "cap_num m i = (case cap m i of None \<Rightarrow> Num NaN | Some w \<Rightarrow> Num (str_to_num w))"

definition cap_str :: "re_match \<Rightarrow> nat \<Rightarrow> jsval" where
  "cap_str m i = (case cap m i of None \<Rightarrow> Undefined | Some w \<Rightarrow> Str w)"

definition parse_condition :: "jsstr \<Rightarrow> jsval list" where
  "parse_condition cp = (case re_search condRe (trim cp) of
     None \<Rightarrow> []
   | Some m \<Rightarrow> [Obj [(lit ''var'', cap_str m 1), (lit ''op'', cap_str m 2), (lit ''value'', cap_num m 3)]])"

definition parse_conditions :: "jsstr \<Rightarrow> jsval list" where
  "parse_conditions condStr = (if condStr = [] then [] else concat (map parse_condition (split_and condStr)))"

text \<open>The tier of a match whose label is capture \<open>k\<close>.\<close>

definition match_tier :: "nat \<Rightarrow> jsval list \<Rightarrow> re_match \<Rightarrow> jsobj" where
  "match_tier k conditions m = normalizeVisualTier (foldl (\<lambda>tier (i, field).
     case cap m i of None \<Rightarrow> tier | Some w \<Rightarrow> obj_put tier field (Num (str_to_num w)))
     [(lit ''conditions'', Arr conditions), (lit ''input_unit_cost'', cap_num m (k + 1)),
      (lit ''output_unit_cost'', cap_num m (k + 2)), (lit ''label'', cap_str m k)]
     (List.enumerate (k + 3) (map snd BILLING_CACHE_VAR_MAP)))"

definition tryParseVisualConfig :: "jsstr \<Rightarrow> jsobj list option" where
  "tryParseVisualConfig expr =
     (if expr = [] then None
      else
        (let exprStr = version_body expr
         in case re_search singleRe exprStr of
           Some m \<Rightarrow> Some (normalizeVisualConfig (Some [match_tier 1 [] m]))
         | None \<Rightarrow>
             (let tiers = map (\<lambda>m. match_tier 2
                    (parse_conditions (case cap m 1 of None \<Rightarrow> [] | Some w \<Rightarrow> w)) m) (re_all tierRe exprStr)
              in if tiers = [] then None
                 else (let cfg = normalizeVisualConfig (Some tiers)
                       in if strip_ws (generateExprFromVisualConfig (Some cfg)) \<noteq> strip_ws exprStr then None
                          else Some cfg))))"

section \<open>The tier cards\<close>

definition updateTier :: "nat \<Rightarrow> jsobj \<Rightarrow> jsobj list \<Rightarrow> jsobj list" where
  "updateTier index patch tiers =
     (if index < length tiers then tiers[index := normalizeVisualTier (obj_merge (tiers ! index) patch)] else tiers)"

definition addTier :: "jsobj list \<Rightarrow> jsobj list" where
  "addTier tiers =
     (let n = length tiers;
          newTiers = (if n > 0 \<and> (\<not> truthy (obj_get (last tiers) (lit ''conditions'')) \<or>
                obj_get (last tiers) (lit ''conditions'') = Arr [])
            then tiers[n - 1 := obj_put (last tiers) (lit ''conditions'')
              (Arr [Obj [(lit ''var'', Str (lit ''len'')), (lit ''op'', Str (lit ''<'')), (lit ''value'', Num (Fin 200000))]])]
            else tiers)
      in newTiers @ [[(lit ''conditions'', Arr []), (lit ''input_unit_cost'', Num (Fin 0)),
           (lit ''output_unit_cost'', Num (Fin 0)), (lit ''label'', Str ([31532] @ nat_digits (n + 1) @ [26723])),
           (lit ''cache_mode'', Str (lit ''generic''))]])"

definition removeTier :: "nat \<Rightarrow> jsobj list \<Rightarrow> jsobj list" where
  "removeTier index tiers =
     (if length tiers \<le> 1 then tiers
      else (let next = take index tiers @ drop (Suc index) tiers
            in if next \<noteq> [] then next[length next - 1 := obj_put (last next) (lit ''conditions'') (Arr [])] else next))"

section \<open>The editor\<close>

text \<open>The state of \<open>TieredPricingEditor\<close> that decides the expression. \<open>reported\<close> is what its caller
  last received through \<open>onExprChange\<close>, which becomes \<open>currentExpr\<close>; \<open>reported_rules\<close> the same for
  \<open>onRequestRuleExprChange\<close>.\<close>

datatype editor_mode = Visual | Raw

record tiered_editor =
  editorMode :: editor_mode
  visualConfig :: "jsobj list option"
  rawExpr :: jsstr
  requestRuleGroups :: "rule_group list"
  reported :: jsstr
  reported_rules :: jsstr

definition rule_groups_or_empty :: "jsstr \<Rightarrow> rule_group list res" where
  "rule_groups_or_empty e = map_sum id (\<lambda>gs. case gs of None \<Rightarrow> [] | Some g \<Rightarrow> g) (tryParseRequestRuleExpr e)"

definition effectiveExpr :: "tiered_editor \<Rightarrow> jsstr res" where
  "effectiveExpr ed = (case editorMode ed of
     Visual \<Rightarrow> Inr (generateExprFromVisualConfig (visualConfig ed))
   | Raw \<Rightarrow> map_sum id billingExpr (splitBillingExprAndRequestRules (rawExpr ed)))"

text \<open>The effect on \<open>effectiveExpr\<close>, which runs after every change.\<close>

definition report_expr :: "tiered_editor \<Rightarrow> tiered_editor res" where
  "report_expr ed = (case effectiveExpr ed of
     Inl e \<Rightarrow> Inl e | Inr x \<Rightarrow> Inr (if x \<noteq> reported ed then ed\<lparr>reported := x\<rparr> else ed))"

text \<open>The effect on the model's name: the editor opens on \<open>currentExpr\<close>.\<close>

definition open_model :: "tiered_editor \<Rightarrow> tiered_editor" where
  "open_model ed =
     (let currentExpr = reported ed
      in case tryParseVisualConfig currentExpr of
           Some parsed \<Rightarrow> ed\<lparr>editorMode := Visual, visualConfig := Some parsed, rawExpr := currentExpr\<rparr>
         | None \<Rightarrow>
             if currentExpr \<noteq> [] then ed\<lparr>editorMode := Raw, rawExpr := currentExpr, visualConfig := None\<rparr>
             else ed\<lparr>editorMode := Visual, visualConfig := Some createDefaultVisualConfig, rawExpr := []\<rparr>)"

definition handleRequestRuleGroupsChange :: "rule_group list \<Rightarrow> tiered_editor \<Rightarrow> tiered_editor res" where
  "handleRequestRuleGroupsChange gs ed = (case buildRequestRuleExpr (Some gs) of
     Inl e \<Rightarrow> Inl e | Inr x \<Rightarrow> Inr (ed\<lparr>requestRuleGroups := gs, reported_rules := x\<rparr>))"

definition handleVisualChange :: "jsobj list \<Rightarrow> tiered_editor \<Rightarrow> tiered_editor" where
  "handleVisualChange cfg ed = ed\<lparr>visualConfig := Some cfg\<rparr>"

definition handleRawChange :: "jsstr \<Rightarrow> tiered_editor \<Rightarrow> tiered_editor res" where
  "handleRawChange val ed = (case splitBillingExprAndRequestRules val of
     Inl e \<Rightarrow> Inl e | Inr b \<Rightarrow> Inr (ed\<lparr>rawExpr := val, reported_rules := requestRuleExpr b\<rparr>))"

definition handleModeSwitch :: "editor_mode \<Rightarrow> tiered_editor \<Rightarrow> tiered_editor res" where
  "handleModeSwitch newMode ed = (case newMode of
     Visual \<Rightarrow>
       (case splitBillingExprAndRequestRules (rawExpr ed) of
          Inl e \<Rightarrow> Inl e
        | Inr b \<Rightarrow>
            (case rule_groups_or_empty (requestRuleExpr b) of
               Inl e \<Rightarrow> Inl e
             | Inr gs \<Rightarrow> Inr (ed\<lparr>editorMode := Visual, requestRuleGroups := gs, reported_rules := requestRuleExpr b,
                 visualConfig := Some (case tryParseVisualConfig (billingExpr b) of
                   Some parsed \<Rightarrow> parsed | None \<Rightarrow> createDefaultVisualConfig)\<rparr>)))
   | Raw \<Rightarrow>
       (let expr = generateExprFromVisualConfig (visualConfig ed)
        in case buildRequestRuleExpr (Some (requestRuleGroups ed)) of
          Inl e \<Rightarrow> Inl e
        | Inr r \<Rightarrow>
            (let combined = combineBillingExpr expr r
             in Inr (ed\<lparr>editorMode := Raw, rawExpr := (if combined \<noteq> [] then combined else expr)\<rparr>))))"

text \<open>A preset has an expression and rule groups.\<close>

definition applyPreset :: "jsstr \<Rightarrow> rule_group list \<Rightarrow> tiered_editor \<Rightarrow> tiered_editor res" where
  "applyPreset expr gs ed = (case buildRequestRuleExpr (Some gs) of
     Inl e \<Rightarrow> Inl e
   | Inr r \<Rightarrow>
       (let combined = combineBillingExpr expr r;
            ed1 = ed\<lparr>rawExpr := (if combined \<noteq> [] then combined else expr), requestRuleGroups := gs, reported_rules := r\<rparr>
        in Inr (case tryParseVisualConfig expr of
             Some parsed \<Rightarrow> ed1\<lparr>visualConfig := Some parsed\<rparr>
           | None \<Rightarrow> ed1\<lparr>editorMode := Raw, visualConfig := None\<rparr>)))"

end
