(* ===== verification/Tiered_Editor_Thms.thy ===== *)
theory Tiered_Editor_Thms
  imports Tiered_Editor
begin

text \<open>
  The editor of tiered expressions: what the visual editor generates is read back as the same
  tiers, and what it does to expressions it cannot represent.
\<close>

section \<open>Tiers in the form the parser produces\<close>

text \<open>A condition is a variable, an operator and a number; a tier has conditions, the two base
  prices, a label and one price for each extra variable, 0 for none.\<close>

record tier_spec =
  ts_conds :: "(jsstr \<times> jsstr \<times> jsnum) list"
  ts_in :: jsnum
  ts_out :: jsnum
  ts_label :: jsstr
  ts_extra :: "jsnum list"

definition cond_obj :: "jsstr \<times> jsstr \<times> jsnum \<Rightarrow> jsval" where
  "cond_obj c = (case c of (v, p, n) \<Rightarrow> Obj [(lit ''var'', Str v), (lit ''op'', Str p), (lit ''value'', Num n)])"

definition base_tier :: "tier_spec \<Rightarrow> jsobj" where
  "base_tier s = [(lit ''conditions'', Arr (map cond_obj (ts_conds s))), (lit ''input_unit_cost'', Num (ts_in s)),
     (lit ''output_unit_cost'', Num (ts_out s)), (lit ''label'', Str (ts_label s))]"

definition raw_tier :: "tier_spec \<Rightarrow> jsobj" where
  "raw_tier s = foldl (\<lambda>acc kv. if snd kv \<noteq> Fin 0 then obj_put acc (fst kv) (Num (snd kv)) else acc)
     (base_tier s) (zip (map snd BILLING_CACHE_VAR_MAP) (ts_extra s))"

definition tier_of :: "tier_spec \<Rightarrow> jsobj" where
  "tier_of s = normalizeVisualTier (raw_tier s)"

text \<open>A number whose text the patterns accept and \<open>Number\<close> reads back; \<open>P\<close> is the class of the
  pattern.\<close>

definition plain_num :: "(nat \<Rightarrow> bool) \<Rightarrow> jsnum \<Rightarrow> bool" where
  "plain_num P x \<longleftrightarrow> num_to_str x \<noteq> [] \<and> list_all P (num_to_str x) \<and> str_to_num (num_to_str x) = x \<and> x \<noteq> NaN"

definition plain_cond :: "jsstr \<times> jsstr \<times> jsnum \<Rightarrow> bool" where
  "plain_cond c = (case c of (v, p, n) \<Rightarrow>
     v \<in> set (map lit [''p'', ''c'', ''len'']) \<and> p \<in> set (map lit [''<'', ''<='', ''>'', ''>='']) \<and>
     plain_num is_condchar n)"

definition plain_tier :: "tier_spec \<Rightarrow> bool" where
  "plain_tier s \<longleftrightarrow> ts_label s \<noteq> [] \<and> 34 \<notin> set (ts_label s) \<and> list_all plain_cond (ts_conds s) \<and>
     plain_num is_numchar (ts_in s) \<and> plain_num is_numchar (ts_out s) \<and>
     length (ts_extra s) = 7 \<and> list_all (plain_num is_numchar) (ts_extra s)"

lemma extra_vars: "BILLING_CACHE_VAR_MAP = map (map_prod lit lit)
   [(''cr'', ''cache_read_unit_cost''), (''cc'', ''cache_create_unit_cost''), (''cc1h'', ''cache_create_1h_unit_cost''),
    (''img'', ''image_unit_cost''), (''img_o'', ''image_output_unit_cost''), (''ai'', ''audio_input_unit_cost''),
    (''ao'', ''audio_output_unit_cost'')]"
  by (simp add: BILLING_CACHE_VAR_MAP_def BILLING_EXTRA_VARS_def BILLING_VARS_def bvar_def)

lemma extra_fields_distinct: "distinct (map snd BILLING_CACHE_VAR_MAP)"
  by (simp add: extra_vars)

lemma length_extra [simp]: "length BILLING_CACHE_VAR_MAP = 7"
  by (simp add: extra_vars)

lemma map_of_raw_tier:
  assumes "length (ts_extra s) = 7"
  shows "map_of (raw_tier s) k = (case map_of (zip (map snd BILLING_CACHE_VAR_MAP) (ts_extra s)) k of
     Some x \<Rightarrow> if x \<noteq> Fin 0 then Some (Num x) else map_of (base_tier s) k
   | None \<Rightarrow> map_of (base_tier s) k)"
proof -
  have d: "distinct (map fst (zip (map snd BILLING_CACHE_VAR_MAP) (ts_extra s)))"
    using assms extra_fields_distinct by (simp add: map_fst_zip)
  show ?thesis
    unfolding raw_tier_def
    by (rule trans [OF foldl_put_get [OF d]])
      (cases "map_of (zip (map snd BILLING_CACHE_VAR_MAP) (ts_extra s)) k"; simp)
qed

lemma get_normalizeVisualTier:
  "obj_get (normalizeVisualTier tr) k =
    (if k = lit ''cache_mode'' then Str (getTierCacheMode tr)
     else if k = lit ''conditions''
     then (if is_arr (obj_get tr (lit ''conditions'')) then obj_get tr (lit ''conditions'') else Arr [])
     else obj_get tr k)"
  by (simp add: normalizeVisualTier_def obj_get_put)

lemma not_extra_field: "k \<notin> snd ` set BILLING_CACHE_VAR_MAP \<Longrightarrow>
   map_of (zip (map snd BILLING_CACHE_VAR_MAP) xs) k = None"
  by (auto simp: map_of_eq_None_iff dest!: set_zip_leftD)

lemma get_raw_tier_base:
  assumes "length (ts_extra s) = 7" "k \<notin> snd ` set BILLING_CACHE_VAR_MAP"
  shows "obj_get (raw_tier s) k = obj_get (base_tier s) k"
  using not_extra_field [OF assms(2), of "ts_extra s"]
  by (simp add: obj_get_def map_of_raw_tier [OF assms(1)])

lemma get_tier_of:
  assumes "length (ts_extra s) = 7"
  shows "obj_get (tier_of s) (lit ''conditions'') = Arr (map cond_obj (ts_conds s))"
    "obj_get (tier_of s) (lit ''input_unit_cost'') = Num (ts_in s)"
    "obj_get (tier_of s) (lit ''output_unit_cost'') = Num (ts_out s)"
    "obj_get (tier_of s) (lit ''label'') = Str (ts_label s)"
  by (simp_all add: tier_of_def get_normalizeVisualTier get_raw_tier_base [OF assms] extra_vars base_tier_def)

lemma get_tier_of_extra:
  assumes "length (ts_extra s) = 7" "i < 7"
  shows "obj_get (tier_of s) (snd (BILLING_CACHE_VAR_MAP ! i)) =
    (if ts_extra s ! i \<noteq> Fin 0 then Num (ts_extra s ! i) else Undefined)"
proof -
  let ?f = "snd (BILLING_CACHE_VAR_MAP ! i)"
  have mem: "?f \<in> snd ` set BILLING_CACHE_VAR_MAP" using assms(2) by simp
  then have other: "?f \<noteq> lit ''cache_mode''" "?f \<noteq> lit ''conditions''"
    by (auto simp: extra_vars)
  have "map_of (zip (map snd BILLING_CACHE_VAR_MAP) (ts_extra s)) ?f = Some (ts_extra s ! i)"
    using assms extra_fields_distinct
      map_of_zip_nth [of "map snd BILLING_CACHE_VAR_MAP" "ts_extra s" i] by simp
  moreover have "map_of (base_tier s) ?f = None"
    using mem by (auto simp: base_tier_def extra_vars)
  ultimately have "obj_get (raw_tier s) ?f = (if ts_extra s ! i \<noteq> Fin 0 then Num (ts_extra s ! i) else Undefined)"
    by (simp add: obj_get_def map_of_raw_tier [OF assms(1)])
  then show ?thesis
    using other by (simp add: tier_of_def get_normalizeVisualTier)
qed

section \<open>The text of a tier\<close>

lemma join_concat: "join sep (x # xs) = x @ concat (map (\<lambda>y. sep @ y) xs)"
  by (induction xs arbitrary: x) auto

definition extras_text :: "(jsstr \<times> jsnum) list \<Rightarrow> jsstr" where
  "extras_text vxs = concat (map (\<lambda>(v, x). if x \<noteq> Fin 0 then lit '' + '' @ body_term v x else []) vxs)"

definition body_text :: "tier_spec \<Rightarrow> jsstr" where
  "body_text s = body_term (lit ''p'') (ts_in s) @ lit '' + '' @ body_term (lit ''c'') (ts_out s) @
     extras_text (zip (map fst BILLING_CACHE_VAR_MAP) (ts_extra s))"

lemma plain_numD: "plain_num P x \<Longrightarrow> x \<noteq> NaN" "plain_num P x \<Longrightarrow> str_to_num (num_to_str x) = x"
  "plain_num P x \<Longrightarrow> num_to_str x \<noteq> []" "plain_num P x \<Longrightarrow> list_all P (num_to_str x)"
  by (simp_all add: plain_num_def)

lemma number_or_0_plain: "plain_num P x \<Longrightarrow> number_or_0 (Num x) = x"
  by (auto simp: number_or_0_def dest: plain_numD(1))

lemma buildTierBodyExpr_tier_of:
  assumes "plain_tier s"
  shows "buildTierBodyExpr (tier_of s) = body_text s"
proof -
  have len: "length (ts_extra s) = 7" and nums: "plain_num is_numchar (ts_in s)" "plain_num is_numchar (ts_out s)"
    using assms by (simp_all add: plain_tier_def)
  have ex: "plain_num is_numchar (ts_extra s ! i)" if "i < 7" for i
    using assms that by (simp add: plain_tier_def list_all_length)
  have val: "number_or_0 (obj_get (tier_of s) (snd (BILLING_CACHE_VAR_MAP ! i))) = ts_extra s ! i" if "i < 7" for i
    using get_tier_of_extra [OF len that] number_or_0_plain [OF ex [OF that]] by (simp add: number_or_0_def)
  have "map (\<lambda>(exprVar, field). let v = number_or_0 (obj_get (tier_of s) field)
        in if v \<noteq> Fin 0 then [body_term exprVar v] else []) BILLING_CACHE_VAR_MAP =
      map (\<lambda>(v, x). if x \<noteq> Fin 0 then [body_term v x] else []) (zip (map fst BILLING_CACHE_VAR_MAP) (ts_extra s))"
    using len val by (intro nth_equalityI) (auto simp: case_prod_beta Let_def)
  then have "buildTierBodyExpr (tier_of s) = body_term (lit ''p'') (ts_in s) @ lit '' + '' @
      body_term (lit ''c'') (ts_out s) @ concat (map (\<lambda>y. lit '' + '' @ y)
        (concat (map (\<lambda>(v, x). if x \<noteq> Fin 0 then [body_term v x] else [])
          (zip (map fst BILLING_CACHE_VAR_MAP) (ts_extra s)))))"
    using nums by (simp add: buildTierBodyExpr_def join_concat get_tier_of [OF len] number_or_0_plain)
  moreover have "concat (map (\<lambda>y. lit '' + '' @ y)
      (concat (map (\<lambda>(v, x). if x \<noteq> Fin 0 then [body_term v x] else []) vxs))) = extras_text vxs" for vxs
    unfolding extras_text_def by (induction vxs) auto
  ultimately show ?thesis by (simp add: body_text_def)
qed

section \<open>The pattern of a tier matches its text\<close>

lemma numchar_not_ws: "is_numchar c \<Longrightarrow> \<not> is_ws c"
  by (auto simp: is_numchar_def is_ws_def is_digit_def)

lemma hd_num_not_ws: "plain_num is_numchar x \<Longrightarrow> \<not> is_ws (hd (num_to_str x @ post))"
  by (cases "num_to_str x") (auto simp: plain_num_def numchar_not_ws)

lemma takes_num:
  "plain_num is_numchar x \<Longrightarrow> post = [] \<or> \<not> is_numchar (hd post) \<Longrightarrow> takes NumCls (num_to_str x) post c c"
  unfolding NumCls_def by (rule takes_Plus_Cls) (auto simp: plain_num_def)

lemma ws_32 [simp]: "is_ws 32" "\<not> is_ws 43" "\<not> is_ws 42" "\<not> is_ws 41" "\<not> is_ws 34"
  by (simp_all add: is_ws_def)

lemma numchar_stops [simp]: "\<not> is_numchar 32" "\<not> is_numchar 41"
  by (simp_all add: is_numchar_def is_digit_def)

lemma lit_ops [simp]: "lit '' + '' = [32, 43, 32]" "lit '' * '' = [32, 42, 32]" "lit ''+'' = [43]" "lit ''*'' = [42]"
  "lit '')'' = [41]" "lit '','' = [44]" "lit '', '' = [44, 32]"
  by (simp_all add: lit_def)

text \<open>One term \<open>v * x\<close>, after its optional plus.\<close>

lemma takes_term:
  assumes "plain_num is_numchar x" "w' @ post = [] \<or> \<not> is_numchar (hd (w' @ post))"
    "takes R w' post ((i, num_to_str x) # c) c'"
  shows "takes (Seq (Lit v) (Seq Ws (Seq (Lit [42]) (Seq Ws (Seq (Cap i NumCls) R)))))
    (v @ [32] @ [42] @ [32] @ num_to_str x @ w') post c c'"
  by (intro takes_Seq [OF takes_Lit] takes_Seq [OF takes_Ws] takes_Seq [OF takes_Cap [OF takes_num]])
    (use assms hd_num_not_ws [OF assms(1)] in simp_all)

lemma takes_opt_term:
  assumes "v \<noteq> []" "\<not> is_ws (hd v)" "plain_num is_numchar x" "post = [] \<or> \<not> is_numchar (hd post)"
  shows "takes (opt_term i v) ([32, 43, 32] @ body_term v x) post c ((i, num_to_str x) # c)"
proof -
  have "takes (Seq Ws (Seq (Lit [43]) (Seq Ws (Seq (Lit v) (Seq Ws (Seq (Lit [42]) (Seq Ws (Seq (Cap i NumCls) Eps))))))))
      ([32] @ [43] @ [32] @ (v @ [32] @ [42] @ [32] @ num_to_str x @ [])) post c ((i, num_to_str x) # c)"
    by (intro takes_Seq [OF takes_Lit] takes_Seq [OF takes_Ws] takes_term takes_Eps)
      (use assms in \<open>simp_all add: hd_append\<close>)
  then show ?thesis
    by (simp add: opt_term_def body_term_def takes_Opt)
qed

text \<open>A term of one variable is not taken for a term of another.\<close>

definition apart :: "jsstr \<Rightarrow> jsstr \<Rightarrow> bool" where
  "apart v v' = (case strip_prefix v v' of
     Some r \<Rightarrow> r \<noteq> [] \<and> hd r \<noteq> 42 \<and> \<not> is_ws (hd r)
   | None \<Rightarrow> strip_prefix v' v = None)"

lemma fails_opt_term_close: "fails (Seqs [Ws, Lit (lit ''+''), Ws, Lit v, Ws, Lit (lit ''*''), Ws, Cap i NumCls]) (41 # post)"
  by (simp, intro fails_Seq_Ws0 fails_Seq fails_Lit) (simp_all add: starts_with_def)

lemma fails_var_apart:
  assumes "apart v v'"
  shows "fails (Seq (Lit v) (Seq Ws (Seq (Lit [42]) R))) (v' @ post)"
proof (cases "strip_prefix v v'")
  case (Some r)
  then have r: "v' = v @ r" "r \<noteq> []" "hd r \<noteq> 42" "\<not> is_ws (hd r)"
    using assms by (simp_all add: apart_def strip_prefix_Some_iff)
  have "fails (Seq Ws (Seq (Lit [42]) R)) (r @ post)"
    using r(2-) by (intro fails_Seq_Ws0 fails_Seq fails_Lit) (cases r; simp add: starts_with_def)+
  then show ?thesis using fails_Seq_Lit [of _ "r @ post" v] r(1) by simp
next
  case None
  then have "strip_prefix v' v = None" using assms by (simp add: apart_def)
  then have "\<not> starts_with (v' @ post) v"
    using None by (auto simp: starts_with_iff append_eq_append_conv2 strip_prefix_Some_iff)
  then show ?thesis by (intro fails_Seq fails_Lit)
qed

lemma fails_opt_term_apart:
  assumes "apart v v'" "v' \<noteq> []" "\<not> is_ws (hd v')" "v \<noteq> []" "\<not> is_ws (hd v)"
  shows "fails (Seqs [Ws, Lit (lit ''+''), Ws, Lit v, Ws, Lit (lit ''*''), Ws, Cap i NumCls]) ([32, 43, 32] @ v' @ post)"
proof -
  let ?R = "Seq Ws (Seq (Lit [42]) (Seq Ws (Seq (Cap i NumCls) Eps)))"
  have "fails (Seq (Lit v) ?R) (v' @ post)" by (rule fails_var_apart [OF assms(1)])
  moreover have "fails (Seq (Lit v) ?R) (32 # v' @ post)"
    using assms(4,5) by (intro fails_Seq fails_Lit) (cases v; auto simp: starts_with_def)
  ultimately have "fails (Seq Ws (Seq (Lit v) ?R)) (32 # v' @ post)"
    using assms(2,3) by (intro fails_Seq_Ws1) simp_all
  then have "fails (Seq (Lit [43]) (Seq Ws (Seq (Lit v) ?R))) (43 # 32 # v' @ post)"
    using fails_Seq_Lit [of _ "32 # v' @ post" "[43]"] by simp
  moreover have "fails (Seq (Lit [43]) (Seq Ws (Seq (Lit v) ?R))) (32 # 43 # 32 # v' @ post)"
    by (intro fails_Seq fails_Lit) (simp add: starts_with_def)
  ultimately show ?thesis
    by (simp, intro fails_Seq_Ws1) simp_all
qed

lemma vars_apart: "sorted_wrt apart (map fst BILLING_CACHE_VAR_MAP)"
  by (simp add: extra_vars apart_def lit_simps is_ws_def)

lemma vars_plain: "v \<in> set (map fst BILLING_CACHE_VAR_MAP) \<Longrightarrow> v \<noteq> [] \<and> \<not> is_ws (hd v)"
  by (auto simp: extra_vars lit_simps is_ws_def)

fun extra_caps :: "nat \<Rightarrow> jsnum list \<Rightarrow> caps \<Rightarrow> caps" where
  "extra_caps n [] c = c"
| "extra_caps n (x # xs) c = extra_caps (n + 1) xs (if x \<noteq> Fin 0 then (n, num_to_str x) # c else c)"

lemma extras_text_Cons: "extras_text ((v, x) # vxs) =
   (if x \<noteq> Fin 0 then [32, 43, 32] @ body_term v x else []) @ extras_text vxs"
  by (simp add: extras_text_def)

text \<open>What follows an absent term is the closing bracket or a later variable's term.\<close>

lemma extras_text_start:
  "extras_text vxs = [] \<or> (\<exists>v x r. (v, x) \<in> set vxs \<and> extras_text vxs = [32, 43, 32] @ v @ r)"
proof (induction vxs)
  case (Cons vx vxs)
  obtain v x where vx: "vx = (v, x)" by fastforce
  show ?case
  proof (cases "x = Fin 0")
    case True
    with Cons vx show ?thesis by (auto simp: extras_text_Cons)
  next
    case False
    then have "extras_text (vx # vxs) = [32, 43, 32] @ v @ [32, 42, 32] @ num_to_str x @ extras_text vxs"
      by (simp add: vx extras_text_Cons body_term_def)
    then show ?thesis using vx by (metis list.set_intros(1))
  qed
qed (simp add: extras_text_def)

lemma takes_opts:
  assumes "length vs = length xs" "sorted_wrt apart vs" "\<forall>v \<in> set vs. v \<noteq> [] \<and> \<not> is_ws (hd v)"
    "list_all (plain_num is_numchar) xs"
  shows "takes (Seqs (map (\<lambda>(i, v). opt_term i v) (List.enumerate n vs))) (extras_text (zip vs xs)) (41 # post) c
    (extra_caps n xs c)"
  using assms
proof (induction vs xs arbitrary: n c rule: list_induct2)
  case Nil
  then show ?case by (simp add: extras_text_def takes_Eps)
next
  case (Cons v vs x xs)
  let ?rest = "extras_text (zip vs xs)"
  have IH: "takes (Seqs (map (\<lambda>(i, v). opt_term i v) (List.enumerate (Suc n) vs))) ?rest (41 # post) c'
      (extra_caps (Suc n) xs c')" for c'
    using Cons by simp
  have start: "?rest = [] \<or> (\<exists>v' r. v' \<in> set vs \<and> ?rest = [32, 43, 32] @ v' @ r)"
    using extras_text_start [of "zip vs xs"] by (auto dest!: set_zip_leftD)
  have hd: "?rest @ 41 # post = [] \<or> \<not> is_numchar (hd (?rest @ 41 # post))"
    using start by auto
  show ?case
  proof (cases "x = Fin 0")
    case True
    have "fails (Seqs [Ws, Lit (lit ''+''), Ws, Lit v, Ws, Lit (lit ''*''), Ws, Cap n NumCls]) (?rest @ 41 # post)"
      using start
    proof
      assume "?rest = []"
      then show ?thesis using fails_opt_term_close by simp
    next
      assume "\<exists>v' r. v' \<in> set vs \<and> ?rest = [32, 43, 32] @ v' @ r"
      then obtain v' r where "v' \<in> set vs" and r: "?rest = [32, 43, 32] @ v' @ r" by blast
      then have "apart v v'" "v' \<noteq> []" "\<not> is_ws (hd v')" "v \<noteq> []" "\<not> is_ws (hd v)" using Cons.prems by auto
      from fails_opt_term_apart [OF this, of n "r @ 41 # post"] r show ?thesis by simp
    qed
    then have "takes (opt_term n v) [] (?rest @ 41 # post) c c"
      unfolding opt_term_def by (rule takes_Opt_none)
    from takes_Seq [OF this IH] True show ?thesis by (simp add: extras_text_Cons)
  next
    case False
    have "takes (opt_term n v) ([32, 43, 32] @ body_term v x) (?rest @ 41 # post) c ((n, num_to_str x) # c)"
      using Cons.prems hd by (intro takes_opt_term) auto
    from takes_Seq [OF this IH] False show ?thesis by (simp add: extras_text_Cons)
  qed
qed

definition tier_caps :: "nat \<Rightarrow> tier_spec \<Rightarrow> caps \<Rightarrow> caps" where
  "tier_caps k s c = extra_caps (k + 3) (ts_extra s)
     ((k + 2, num_to_str (ts_out s)) # (k + 1, num_to_str (ts_in s)) # (k, ts_label s) # c)"

definition tier_text :: "tier_spec \<Rightarrow> jsstr" where
  "tier_text s = lit ''tier('' @ [34] @ ts_label s @ [34, 44, 32] @ body_text s @ [41]"

lemma takes_body:
  assumes "plain_tier s"
  shows "takes (body_re k) (body_text s) (41 # post) c
    (extra_caps (k + 2) (ts_extra s) ((k + 1, num_to_str (ts_out s)) # (k, num_to_str (ts_in s)) # c))"
proof -
  let ?ex = "extras_text (zip (map fst BILLING_CACHE_VAR_MAP) (ts_extra s))"
  let ?O = "Seqs (map (\<lambda>(i, v). opt_term i v) (List.enumerate (k + 2) (map fst BILLING_CACHE_VAR_MAP)))"
  let ?c = "(k + 1, num_to_str (ts_out s)) # (k, num_to_str (ts_in s)) # c"
  have nums: "plain_num is_numchar (ts_in s)" "plain_num is_numchar (ts_out s)"
    using assms by (simp_all add: plain_tier_def)
  have opts: "takes ?O ?ex (41 # post) ?c (extra_caps (k + 2) (ts_extra s) ?c)"
    using assms vars_apart vars_plain by (intro takes_opts) (auto simp: plain_tier_def)
  have hd: "?ex @ 41 # post = [] \<or> \<not> is_numchar (hd (?ex @ 41 # post))"
    using extras_text_start [of "zip (map fst BILLING_CACHE_VAR_MAP) (ts_extra s)"] by auto
  have "takes (Seq (Lit (lit ''p'')) (Seq Ws (Seq (Lit [42]) (Seq Ws (Seq (Cap k NumCls)
      (Seq Ws (Seq (Lit [43]) (Seq Ws (Seq (Lit (lit ''c'')) (Seq Ws (Seq (Lit [42]) (Seq Ws (Seq (Cap (k + 1) NumCls) ?O)))))))))))))
      (lit ''p'' @ [32] @ [42] @ [32] @ num_to_str (ts_in s) @ [32] @ [43] @ [32] @
        (lit ''c'' @ [32] @ [42] @ [32] @ num_to_str (ts_out s) @ ?ex))
      (41 # post) c (extra_caps (k + 2) (ts_extra s) ?c)"
    by (intro takes_term takes_Seq [OF takes_Lit] takes_Seq [OF takes_Ws])
      (use nums hd opts in \<open>simp_all add: lit_simps is_ws_def\<close>)
  then show ?thesis
    by (simp add: body_re_def body_text_def body_term_def)
qed

lemma takes_tier:
  assumes "plain_tier s"
  shows "takes (tier_re k) (tier_text s) post c (tier_caps k s c)"
proof -
  have lab: "list_all (\<lambda>c. c \<noteq> 34) (ts_label s)"
    using assms by (auto simp: plain_tier_def list_all_iff)
  have "hd (body_text s) = 112" by (simp add: body_text_def body_term_def lit_simps)
  moreover have "body_text s \<noteq> []" by (simp add: body_text_def body_term_def lit_simps)
  ultimately have hd: "\<not> is_ws (hd (body_text s @ r))" for r by (simp add: is_ws_def)
  have body: "takes (body_re (k + 1)) (body_text s) (([41] @ []) @ post) ((k, ts_label s) # c) (tier_caps k s c)"
    using takes_body [OF assms, of "k + 1" post "(k, ts_label s) # c"]
    by (simp add: tier_caps_def numeral_3_eq_3 numeral_2_eq_2)
  have "takes (Seq (Lit (lit ''tier('' @ [34])) (Seq (Cap k (Star (Cls (\<lambda>c. c \<noteq> 34)))) (Seq (Lit [34, 44]) (Seq Ws
      (Seq (body_re (k + 1)) (Seq (Lit [41]) Eps))))))
      ((lit ''tier('' @ [34]) @ ts_label s @ [34, 44] @ [32] @ body_text s @ [41] @ []) post c (tier_caps k s c)"
    by (intro takes_Seq [OF takes_Lit] takes_Seq [OF takes_Cap [OF takes_Star_Cls]] takes_Seq [OF takes_Ws]
        takes_Seq [OF body] takes_Eps)
      (use lab hd in simp_all)
  then show ?thesis
    by (simp add: tier_re_def tier_text_def)
qed

end
