(* ===== verification/Tiered_Round_Trip.thy ===== *)
theory Tiered_Round_Trip
  imports Tiered_Editor_Thms
begin

text \<open>
  The visual editor of tiered expressions reads back what it generates: the patterns match the
  text of conditions and tiers, and the tiers rebuilt from the captures are the tiers printed.
\<close>

section \<open>Anchored patterns\<close>

lemma takes_AtEnd: "post = [] \<Longrightarrow> takes AtEnd [] post c c"
  by (simp add: takes_def re_first_def)

lemma takes_Seq_AtEnd: "takes (Seq AtEnd Eps) [] [] c c"
  using takes_Seq [OF takes_AtEnd takes_Eps, of "[]"] by simp

lemma takes_Seq_end: "takes r w [] c c' \<Longrightarrow> takes (Seq r (Seq AtEnd Eps)) w [] c c'"
  using takes_Seq [of r w "[]" "[]" c c', OF _ takes_Seq_AtEnd] by simp

lemma re_search_moved: "pre \<noteq> [] \<Longrightarrow> re_search_from (Seq AtStart r) pre s = None"
  by (induction s arbitrary: pre) (simp_all add: re_search_from.simps)

lemma re_search_anchored:
  "takes r s [] [] c \<Longrightarrow> re_search (Seq AtStart r) s = Some \<lparr>m_from = ([], s), m_to = (rev s, []), m_caps = c\<rparr>"
  using takes_rmatch [of r s "[]" "[]" c "[]"] by (auto simp: re_search_def re_search_from.simps)

lemma re_search_anchored_fails: "fails r s \<Longrightarrow> re_search (Seq AtStart r) s = None"
  by (cases s) (simp_all add: re_search_def fails_def re_search_moved re_search_from.simps [of _ "[]"])

section \<open>Conditions\<close>

definition cond_text :: "jsstr \<times> jsstr \<times> jsnum \<Rightarrow> jsstr" where
  "cond_text c = (case c of (v, p, n) \<Rightarrow> v @ [32] @ p @ [32] @ num_to_str n)"

definition conds_text :: "(jsstr \<times> jsstr \<times> jsnum) list \<Rightarrow> jsstr" where
  "conds_text cs = join (lit '' && '') (map cond_text cs)"

lemma condchar_numchar: "plain_num is_condchar n \<Longrightarrow> plain_num is_numchar n"
  by (auto simp: plain_num_def is_condchar_def list_all_iff)

lemma takes_condnum:
  "plain_num is_condchar n \<Longrightarrow> post = [] \<or> \<not> is_condchar (hd post) \<Longrightarrow>
   takes (Plus (Cls is_condchar)) (num_to_str n) post c c"
  by (rule takes_Plus_Cls) (auto simp: plain_num_def)

lemma takes_AltList:
  assumes "w \<in> set ws" "\<And>u. u \<in> set ws \<Longrightarrow> u \<noteq> w \<Longrightarrow> fails (Seq (Lit u) X) (w @ w' @ post)"
    "takes X w' post c c'"
  shows "takes (Seq (AltList ws) X) (w @ w') post c c'"
  using assms
proof (induction ws)
  case (Cons u ws)
  show ?case
  proof (cases "u = w")
    case True
    then show ?thesis
      using Cons.prems(3) by (auto simp: takes_Seq_Alt intro: takes_Alt_left takes_Seq [OF takes_Lit])
  next
    case False
    then have "takes (Seq (AltList ws) X) (w @ w') post c c'"
      using Cons by auto
    moreover have "fails (Seq (Lit u) X) ((w @ w') @ post)"
      using Cons.prems(2) [of u] False by simp
    ultimately show ?thesis by (auto simp: takes_Seq_Alt intro: takes_Alt_right)
  qed
qed simp

lemma fails_Seq_Cap_Lit:
  assumes "fails (Seq (Lit u) X) p"
  shows "fails (Seq (Cap i (Lit u)) X) p"
proof (cases "starts_with p u")
  case True
  then obtain r where "p = u @ r" by (auto simp: starts_with_iff)
  then show ?thesis using assms by (simp add: fails_def rmatch_Lit)
next
  case False
  then show ?thesis by (simp add: fails_def rmatch_Lit_mismatch)
qed

lemma takes_Cap_AltList:
  assumes "w \<in> set ws" "\<And>u. u \<in> set ws \<Longrightarrow> u \<noteq> w \<Longrightarrow> fails (Seq (Lit u) X) (w @ w' @ post)"
    "takes X w' post ((i, w) # c) c'"
  shows "takes (Seq (Cap i (AltList ws)) X) (w @ w') post c c'"
  using assms
proof (induction ws)
  case (Cons u ws)
  show ?case
  proof (cases "u = w")
    case True
    then show ?thesis
      using Cons.prems(3) by (auto simp: takes_Seq_Cap_Alt intro: takes_Alt_left takes_Seq [OF takes_Cap [OF takes_Lit]])
  next
    case False
    then have "takes (Seq (Cap i (AltList ws)) X) (w @ w') post c c'"
      using Cons by auto
    moreover have "fails (Seq (Cap i (Lit u)) X) ((w @ w') @ post)"
      using Cons.prems(2) [of u] False by (intro fails_Seq_Cap_Lit) simp
    ultimately show ?thesis by (auto simp: takes_Seq_Cap_Alt intro: takes_Alt_right)
  qed
qed simp

text \<open>The alternatives of a variable and of an operator: no earlier one can take the text of a later.\<close>

abbreviation "cond_vars \<equiv> map lit [''p'', ''c'', ''len'']"
abbreviation "cond_ops \<equiv> map lit [''<'', ''<='', ''>'', ''>='']"

lemma fails_other_var:
  "v \<in> set cond_vars \<Longrightarrow> u \<in> set cond_vars \<Longrightarrow> u \<noteq> v \<Longrightarrow> fails (Seq (Lit u) X) (v @ post)"
  by (intro fails_Seq fails_Lit) (auto simp: starts_with_iff lit_simps)

lemma fails_other_op:
  assumes "p \<in> set cond_ops" "u \<in> set cond_ops" "u \<noteq> p" "\<And>r. fails Y (61 # r)"
  shows "fails (Seq (Lit u) (Seq Ws (Seq Y Z))) (p @ 32 # post)"
proof (cases "p = u @ [61]")
  case True
  have "fails (Seq Ws (Seq Y Z)) (61 # 32 # post)"
    using assms(4) by (intro fails_Seq_Ws0 fails_Seq) (simp_all add: is_ws_def)
  from fails_Seq_Lit [OF this, of u] True show ?thesis by simp
next
  case False
  have "\<not> starts_with (p @ 32 # post) u"
    using assms(1-3) False by (auto simp: starts_with_iff lit_simps)
  then show ?thesis by (intro fails_Seq fails_Lit)
qed

lemma fails_condnum: "fails (Plus (Cls is_condchar)) (61 # r)"
  by (intro fails_Plus fails_Cls) (simp add: is_condchar_def is_numchar_def is_digit_def)

lemma hd_op: "p \<in> set cond_ops \<Longrightarrow> p \<noteq> [] \<and> \<not> is_ws (hd p)"
  by (auto simp: lit_simps is_ws_def)

lemma hd_condnum: "plain_num is_condchar n \<Longrightarrow> \<not> is_ws (hd (num_to_str n @ post))"
  by (rule hd_num_not_ws [OF condchar_numchar])

lemma takes_cond:
  assumes "plain_cond k" "post = [] \<or> \<not> is_condchar (hd post)"
  shows "takes cond_re (cond_text k) post c c"
proof -
  obtain v p n where k: "k = (v, p, n)" by (cases k) auto
  then have mem: "v \<in> set cond_vars" "p \<in> set cond_ops" and n: "plain_num is_condchar n"
    using assms(1) by (simp_all add: plain_cond_def)
  have hp: "\<not> is_ws (hd (p @ r))" for r using hd_op [OF mem(2)] by simp
  let ?N = "Seq Ws (Seq (Plus (Cls is_condchar)) Eps)"
  have num: "takes ?N ([32] @ num_to_str n @ []) post c c"
    by (intro takes_Seq [OF takes_Ws] takes_Seq [OF takes_condnum] takes_Eps)
      (use n assms(2) hd_condnum [OF n] in simp_all)
  have ops: "takes (Seq cond_op ?N) (p @ [32] @ num_to_str n @ []) post c c"
    unfolding cond_op_def
    by (rule takes_AltList [OF mem(2) _ num]) (use fails_other_op [OF mem(2)] fails_condnum in simp)
  have "takes (Seq cond_var (Seq Ws (Seq cond_op ?N))) (v @ [32] @ p @ [32] @ num_to_str n @ []) post c c"
    unfolding cond_var_def
    by (rule takes_AltList [OF mem(1) fails_other_var [OF mem(1)]], assumption, assumption)
      (rule takes_Seq [OF takes_Ws ops]; use hp in simp)
  then show ?thesis by (simp add: cond_re_def cond_text_def k)
qed

lemma takes_condRe:
  assumes "plain_cond (v, p, n)"
  shows "takes (Seqs [Cap 1 cond_var, Ws, Cap 2 cond_op, Ws, Cap 3 (Plus (Cls is_condchar)), AtEnd])
    (cond_text (v, p, n)) [] [] [(3, num_to_str n), (2, p), (1, v)]"
proof -
  have mem: "v \<in> set cond_vars" "p \<in> set cond_ops" and n: "plain_num is_condchar n"
    using assms by (simp_all add: plain_cond_def)
  have hp: "\<not> is_ws (hd (p @ r))" for r using hd_op [OF mem(2)] by simp
  let ?N = "Seq Ws (Seq (Cap 3 (Plus (Cls is_condchar))) (Seq AtEnd Eps))"
  have num: "takes ?N ([32] @ num_to_str n @ [] @ []) [] c ((3, num_to_str n) # c)" for c
    by (intro takes_Seq [OF takes_Ws] takes_Seq [OF takes_Cap [OF takes_condnum]] takes_Seq [OF takes_AtEnd] takes_Eps)
      (use n hd_condnum [OF n, of "[]"] in simp_all)
  have ops: "takes (Seq (Cap 2 cond_op) ?N) (p @ [32] @ num_to_str n @ [] @ []) [] c ((3, num_to_str n) # (2, p) # c)" for c
    unfolding cond_op_def
    by (rule takes_Cap_AltList [OF mem(2) _ num])
      (use fails_other_op [OF mem(2), of _ "Cap 3 (Plus (Cls is_condchar))"] fails_Cap [OF fails_condnum] in simp)
  have "takes (Seq (Cap 1 cond_var) (Seq Ws (Seq (Cap 2 cond_op) ?N))) (v @ [32] @ p @ [32] @ num_to_str n @ [] @ [])
      [] [] [(3, num_to_str n), (2, p), (1, v)]"
    unfolding cond_var_def
    by (rule takes_Cap_AltList [OF mem(1) fails_other_var [OF mem(1)]], assumption, assumption)
      (rule takes_Seq [OF takes_Ws ops]; use hp in simp)
  then show ?thesis by (simp add: cond_text_def)
qed

lemma cond_text_ends:
  assumes "plain_cond k"
  shows "cond_text k \<noteq> []" "\<not> is_ws (hd (cond_text k @ r))" "\<not> is_ws (last (cond_text k))" "38 \<notin> set (cond_text k)"
proof -
  obtain v p n where k: "k = (v, p, n)" by (cases k) auto
  then have mem: "v \<in> set cond_vars" "p \<in> set cond_ops" and n: "plain_num is_condchar n"
    using assms by (simp_all add: plain_cond_def)
  show "cond_text k \<noteq> []" by (simp add: cond_text_def k)
  show "\<not> is_ws (hd (cond_text k @ r))" using mem(1) by (auto simp: cond_text_def k lit_simps is_ws_def)
  have chars: "is_condchar x" if "x \<in> set (num_to_str n)" for x
    using n that by (simp add: plain_num_def list_all_iff)
  have "num_to_str n \<noteq> []" using n by (simp add: plain_num_def)
  then show "\<not> is_ws (last (cond_text k))"
    using chars [of "last (num_to_str n)"] by (auto simp: cond_text_def k is_condchar_def dest: numchar_not_ws)
  have "\<not> is_condchar 38" by (simp add: is_condchar_def is_numchar_def is_digit_def)
  then show "38 \<notin> set (cond_text k)"
    using mem chars by (auto simp: cond_text_def k lit_simps)
qed

definition and_text :: "(jsstr \<times> jsstr \<times> jsnum) list \<Rightarrow> jsstr" where
  "and_text ks = concat (map (\<lambda>k. [32, 38, 38, 32] @ cond_text k) ks)"

lemma conds_text_Cons: "conds_text (k # ks) = cond_text k @ and_text ks"
  by (simp add: conds_text_def and_text_def join_concat lit_simps comp_def)

lemma and_text_simps: "and_text [] = []" "and_text (k # ks) = [32] @ [38, 38] @ [32] @ cond_text k @ and_text ks"
  by (simp_all add: and_text_def)

lemma not_condchar_32 [simp]: "\<not> is_condchar 32"
  by (simp add: is_condchar_def)

lemma hd_and_text: "hd (and_text ks @ 32 # post) = 32"
  by (cases ks) (simp_all add: and_text_simps)

lemma takes_ands:
  assumes "list_all plain_cond ks"
  shows "takes (Star (Seqs [Ws, Lit [38, 38], Ws, cond_re])) (and_text ks) (32 # 63 # post) c c"
  using assms
proof (induction ks)
  case Nil
  have "fails (Seqs [Ws, Lit [38, 38], Ws, cond_re]) (32 # 63 # post)"
    by (simp, intro fails_Seq_Ws1 fails_Seq fails_Lit) (simp_all add: is_ws_def starts_with_def)
  then show ?case by (simp add: and_text_simps takes_Star_end)
next
  case (Cons k ks)
  have k: "plain_cond k" using Cons.prems by simp
  have "takes (Seqs [Ws, Lit [38, 38], Ws, cond_re]) ([32] @ [38, 38] @ [32] @ cond_text k @ [])
      (and_text ks @ 32 # 63 # post) c c"
    unfolding Seqs.simps
    by (intro takes_Seq [OF takes_Ws] takes_Seq [OF takes_Lit] takes_Seq [OF takes_cond [OF k]] takes_Eps)
      (use cond_text_ends(2) [OF k] hd_and_text [of ks] in \<open>simp_all add: is_ws_def\<close>)
  from takes_Star_step [OF this] Cons show ?case by (simp add: and_text_simps)
qed

lemma takes_conds:
  assumes "list_all plain_cond ks" "ks \<noteq> []"
  shows "takes condGroup (conds_text ks) (32 # 63 # post) c ((1, conds_text ks) # c)"
proof -
  obtain k js where ks: "ks = k # js" using assms(2) by (cases ks) auto
  have "takes (Seq cond_re (Star (Seqs [Ws, Lit [38, 38], Ws, cond_re]))) (cond_text k @ and_text js) (32 # 63 # post) c c"
    by (intro takes_Seq [OF takes_cond] takes_ands) (use assms ks hd_and_text [of js] in simp_all)
  then show ?thesis by (simp add: condGroup_def conds_text_Cons ks takes_Cap lit_simps)
qed

subsection \<open>Reading a condition back\<close>

lemma split_and_plain: "38 \<notin> set a \<Longrightarrow> split_and a = [a]"
  by (induction a rule: split_and.induct) auto

lemma split_and_append: "38 \<notin> set a \<Longrightarrow> split_and (a @ [38, 38] @ b) = a # split_and b"
proof (induction a)
  case (Cons x a)
  then show ?case by (cases a) auto
qed simp

lemma trim_spaces: "trimmed a \<Longrightarrow> a \<noteq> [] \<Longrightarrow> set pre \<subseteq> {32} \<Longrightarrow> set suf \<subseteq> {32} \<Longrightarrow> trim (pre @ a @ suf) = a"
proof -
  assume a: "trimmed a" "a \<noteq> []" and "set pre \<subseteq> {32}" "set suf \<subseteq> {32}"
  then have "list_all is_ws pre" "list_all is_ws (rev suf)" by (auto simp: list_all_iff)
  then have "dropWhile is_ws (pre @ a @ suf) = a @ suf" "dropWhile is_ws (rev suf @ rev a) = rev a"
    using a by (auto simp: list_all_iff dropWhile_append trimmed_def hd_rev dropWhile_eq_self_iff)
  then show ?thesis by (simp add: trim_def)
qed

lemma parse_condition_text:
  assumes "plain_cond k" "set pre \<subseteq> {32}" "set suf \<subseteq> {32}"
  shows "parse_condition (pre @ cond_text k @ suf) = [cond_obj k]"
proof -
  obtain v p n where k: "k = (v, p, n)" by (cases k) auto
  have "trim (pre @ cond_text k @ suf) = cond_text k"
    using cond_text_ends(1,3) [OF assms(1)] cond_text_ends(2) [OF assms(1), of "[]"] assms by (intro trim_spaces) (auto simp: trimmed_def)
  moreover have "str_to_num (num_to_str n) = n"
    using assms(1) by (simp add: k plain_cond_def plain_num_def)
  ultimately show ?thesis
    using re_search_anchored [OF takes_condRe] assms(1)
    by (simp add: parse_condition_def condRe_def k cap_str_def cap_num_def cap_def cond_obj_def)
qed

lemma split_and_conds:
  assumes "list_all plain_cond ks" "plain_cond k" "set pre \<subseteq> {32}"
  shows "concat (map parse_condition (split_and (pre @ cond_text k @ and_text ks))) = map cond_obj (k # ks)"
  using assms
proof (induction ks arbitrary: k pre)
  case Nil
  then have "38 \<notin> set (pre @ cond_text k)" using cond_text_ends(4) [of k] by auto
  then show ?case
    using parse_condition_text [of k pre "[]"] Nil by (simp add: and_text_simps split_and_plain)
next
  case (Cons j ks)
  have no: "38 \<notin> set (pre @ cond_text k @ [32])" using Cons.prems cond_text_ends(4) [of k] by auto
  have "split_and (pre @ cond_text k @ and_text (j # ks)) =
      (pre @ cond_text k @ [32]) # split_and ([32] @ cond_text j @ and_text ks)"
    using split_and_append [OF no, of "[32] @ cond_text j @ and_text ks"] by (simp add: and_text_simps)
  then show ?case
    using Cons.IH [of j "[32]"] Cons.prems parse_condition_text [of k pre "[32]"] by simp
qed

lemma parse_conditions_text:
  "list_all plain_cond ks \<Longrightarrow> parse_conditions (conds_text ks) = map cond_obj ks"
proof (cases ks)
  case (Cons k js)
  assume "list_all plain_cond ks"
  with Cons show ?thesis
    using split_and_conds [of js k "[]"] cond_text_ends(1) [of k]
    by (simp add: parse_conditions_def conds_text_Cons)
qed (simp add: parse_conditions_def conds_text_def)

section \<open>Parts\<close>

text \<open>The part of a tier: its conditions, if it has any, and its call.\<close>

definition part_text :: "tier_spec \<Rightarrow> jsstr" where
  "part_text s = (if ts_conds s \<noteq> [] then conds_text (ts_conds s) @ lit '' ? '' @ tier_text s else tier_text s)"

definition cond_caps :: "tier_spec \<Rightarrow> caps" where
  "cond_caps s = (if ts_conds s \<noteq> [] then [(1, conds_text (ts_conds s))] else [])"

text \<open>A pattern with optional conditions in front, which the editor and the logs share.\<close>

definition cond_prefix :: "re \<Rightarrow> re" where
  "cond_prefix T = Seq (Opt (Seqs [condGroup, Ws, Lit (lit ''?''), Ws])) T"

lemma fails_Seq_Alt: "fails (Seq a x) post \<Longrightarrow> fails (Seq b x) post \<Longrightarrow> fails (Seq (Alt a b) x) post"
  by (simp add: fails_def)

lemma fails_cond_re:
  assumes "x \<notin> {112, 99, 108} \<or> (x \<noteq> 108 \<and> (\<exists>y. r = 32 # 42 # y))"
  shows "fails cond_re (x # r)"
proof -
  let ?X = "Seq Ws (Seq cond_op (Seq Ws (Seq (Plus (Cls is_condchar)) Eps)))"
  have "fails (Seq (Lit [u]) ?X) (x # r)" if u: "u \<in> {112, 99}" for u
  proof (cases "x = u")
    case True
    then obtain y where r: "r = 32 # 42 # y" using assms u by auto
    have "fails cond_op (z # y')" if "z = 32 \<or> z = 42" for z y'
      unfolding cond_op_def using that
      by (auto simp: starts_with_iff lit_simps intro!: fails_Alt fails_Lit fails_Cls)
    then have "fails ?X r" unfolding r by (intro fails_Seq_Ws1 fails_Seq) simp_all
    from fails_Seq_Lit [OF this, of "[u]"] True show ?thesis by simp
  next
    case False
    then show ?thesis by (intro fails_Seq fails_Lit) (simp add: starts_with_iff)
  qed
  moreover have "fails (Seq (Lit (lit ''len'')) ?X) (x # r)"
    using assms by (intro fails_Seq fails_Lit) (auto simp: starts_with_iff lit_simps)
  moreover have "fails (Seq (Cls (\<lambda>_. False)) ?X) (x # r)"
    by (intro fails_Seq fails_Cls) simp
  ultimately show ?thesis
    by (simp add: cond_re_def cond_var_def fails_Seq_Alt lit_simps)
qed

lemma tier_text_start: "tier_text s = 116 # tl (tier_text s)"
  by (simp add: tier_text_def lit_simps)

section \<open>A tier from its captures\<close>

lemma map_of_extra_caps:
  "map_of (extra_caps n xs c) i =
    (if n \<le> i \<and> i < n + length xs \<and> xs ! (i - n) \<noteq> Fin 0 then Some (num_to_str (xs ! (i - n))) else map_of c i)"
proof (induction xs arbitrary: n c)
  case (Cons x xs)
  show ?case
  proof (cases "i \<le> n")
    case True
    then show ?thesis using Cons by auto
  next
    case False
    then have "i - n = Suc (i - Suc n)" by simp
    with False show ?thesis using Cons [of "n + 1"] by auto
  qed
qed auto

lemma foldl_enumerate_zip:
  assumes "length fs = length xs" "\<And>j acc. j < length xs \<Longrightarrow> F acc (n + j, fs ! j) = G acc (fs ! j, xs ! j)"
  shows "foldl F b (List.enumerate n fs) = foldl G b (zip fs xs)"
  using assms
proof (induction fs xs arbitrary: n b rule: list_induct2)
  case (Cons f fs x xs)
  have "F b (n, f) = G b (f, x)" using Cons.prems [of 0] by simp
  moreover have "F acc (Suc n + j, fs ! j) = G acc (fs ! j, xs ! j)" if "j < length xs" for j acc
    using Cons.prems [of "Suc j"] that by simp
  ultimately show ?case using Cons.IH [of "Suc n"] by simp
qed simp

lemma foldl_skip: "(\<And>x acc. x \<in> set xs \<Longrightarrow> F acc x = acc) \<Longrightarrow> foldl F a xs = a"
  by (induction xs) auto

lemma match_tier_caps:
  assumes "plain_tier s" "m_caps m = tier_caps k s c" "\<forall>i \<in> set (map fst c). i < k"
  shows "match_tier k (map cond_obj (ts_conds s)) m = tier_of s"
proof -
  have len: "length (ts_extra s) = 7" and nums: "plain_num is_numchar (ts_in s)" "plain_num is_numchar (ts_out s)"
      and ex: "list_all (plain_num is_numchar) (ts_extra s)"
    using assms(1) by (simp_all add: plain_tier_def)
  have none: "map_of c i = None" if "k \<le> i" for i
    using assms(3) that by (force simp: map_of_eq_None_iff)
  have base: "cap m k = Some (ts_label s)" "cap m (k + 1) = Some (num_to_str (ts_in s))"
      "cap m (k + 2) = Some (num_to_str (ts_out s))"
    by (simp_all add: cap_def assms(2) tier_caps_def map_of_extra_caps)
  have extra: "cap m (k + 3 + j) = (if ts_extra s ! j \<noteq> Fin 0 then Some (num_to_str (ts_extra s ! j)) else None)"
    if "j < 7" for j
    using that len none by (simp add: cap_def assms(2) tier_caps_def map_of_extra_caps)
  have val: "str_to_num (num_to_str (ts_extra s ! j)) = ts_extra s ! j" if "j < 7" for j
    using ex len that by (simp add: list_all_length plain_num_def)
  have "foldl (\<lambda>tier (i, field). case cap m i of None \<Rightarrow> tier | Some w \<Rightarrow> obj_put tier field (Num (str_to_num w)))
      (base_tier s) (List.enumerate (k + 3) (map snd BILLING_CACHE_VAR_MAP)) = raw_tier s"
    unfolding raw_tier_def using extra val len by (intro foldl_enumerate_zip) simp_all
  then show ?thesis
    using nums base by (simp add: match_tier_def tier_of_def base_tier_def cap_num_def cap_str_def plain_num_def)
qed

lemma obj_put_id:
  assumes "distinct (map fst kvs)" "(k, v) \<in> set kvs"
  shows "obj_put kvs k v = kvs"
proof -
  have "k \<in> fst ` set kvs" using assms(2) by force
  then show ?thesis
    unfolding obj_put_def using assms by (auto intro!: map_idI dest: eq_key_imp_eq_value)
qed

lemma distinct_normalize: "distinct (map fst tr) \<Longrightarrow> distinct (map fst (normalizeVisualTier tr))"
  by (simp add: normalizeVisualTier_def distinct_obj_put)

lemma normalizeVisualTier_idem:
  assumes "distinct (map fst tr)"
  shows "normalizeVisualTier (normalizeVisualTier tr) = normalizeVisualTier tr"
proof -
  let ?n = "normalizeVisualTier tr"
  have mem: "obj_has ?n k \<Longrightarrow> (k, obj_get ?n k) \<in> set ?n" for k
    by (auto simp: obj_has_iff obj_get_def map_of_SomeD)
  have "is_arr (obj_get ?n (lit ''conditions''))" "getTierCacheMode ?n = getTierCacheMode tr"
    by (simp_all add: get_normalizeVisualTier) (auto simp: getTierCacheMode_def get_normalizeVisualTier)
  moreover have "obj_has ?n (lit ''conditions'')" "obj_has ?n (lit ''cache_mode'')"
    by (simp_all add: normalizeVisualTier_def)
  ultimately show ?thesis
    using mem [of "lit ''conditions''"] mem [of "lit ''cache_mode''"] distinct_normalize [OF assms]
    unfolding normalizeVisualTier_def [of ?n] by (simp add: obj_put_id) (simp add: obj_put_id get_normalizeVisualTier)
qed

lemma distinct_raw_tier: "distinct (map fst (raw_tier s))"
  unfolding raw_tier_def by (rule distinct_foldl_put) (simp add: base_tier_def)

lemma normalize_tier_of: "normalizeVisualTier (tier_of s) = tier_of s"
  unfolding tier_of_def by (rule normalizeVisualTier_idem) (rule distinct_raw_tier)

section \<open>The text of a configuration\<close>

lemma buildConditionStr_tier_of:
  assumes "plain_tier s"
  shows "buildConditionStr (obj_get (tier_of s) (lit ''conditions'')) = conds_text (ts_conds s)"
proof -
  have "list_all plain_cond (ts_conds s)" and len: "length (ts_extra s) = 7"
    using assms by (simp_all add: plain_tier_def)
  then have "filter (\<lambda>c. truthy (opt_prop c (lit ''var'')) \<and> truthy (opt_prop c (lit ''op'')) \<and>
      \<not> nullish (opt_prop c (lit ''value'')) \<and> opt_prop c (lit ''value'') \<noteq> Str []) (map cond_obj (ts_conds s)) =
      map cond_obj (ts_conds s)"
    by (intro filter_True) (auto simp: list_all_iff cond_obj_def plain_cond_def)
  moreover have "to_str (opt_prop (cond_obj k) (lit ''var'')) @ lit '' '' @ to_str (opt_prop (cond_obj k) (lit ''op'')) @
      lit '' '' @ to_str (opt_prop (cond_obj k) (lit ''value'')) = cond_text k" for k
    by (simp add: cond_obj_def cond_text_def lit_simps split: prod.splits)
  ultimately show ?thesis
    by (simp add: buildConditionStr_def get_tier_of [OF len] conds_text_def comp_def)
qed

lemma conds_text_Nil_iff: "plain_tier s \<Longrightarrow> conds_text (ts_conds s) = [] \<longleftrightarrow> ts_conds s = []"
  by (cases "ts_conds s") (auto simp: conds_text_Cons plain_tier_def cond_text_ends(1), simp add: conds_text_def)

lemma tier_call_tier_of:
  assumes "plain_tier s"
  shows "tier_call (label_or d (tier_of s)) (tier_of s) = tier_text s"
proof -
  have "length (ts_extra s) = 7" "ts_label s \<noteq> []" using assms by (simp_all add: plain_tier_def)
  then show ?thesis
    by (simp add: tier_call_def label_or_def get_tier_of buildTierBodyExpr_tier_of [OF assms] tier_text_def)
qed

text \<open>The lists of tiers that the visual editor can hold: one tier, with or without conditions, or
  several, of which the first has conditions and the last has none.\<close>

definition plain_tiers :: "tier_spec list \<Rightarrow> bool" where
  "plain_tiers specs \<longleftrightarrow> specs \<noteq> [] \<and> list_all plain_tier specs \<and>
     (1 < length specs \<longrightarrow> ts_conds (hd specs) \<noteq> [] \<and> ts_conds (last specs) = [])"

definition tail_text :: "tier_spec list \<Rightarrow> jsstr" where
  "tail_text specs = (case specs of [s] \<Rightarrow> if ts_conds s \<noteq> [] then lit '' : p * 0 + c * 0'' else [] | _ \<Rightarrow> [])"

lemma tier_part_tier_of:
  assumes "plain_tier s" "i < n - 1 \<or> ts_conds s = []"
  shows "tier_part n i (tier_of s) = part_text s"
  using assms(2) conds_text_Nil_iff [OF assms(1)]
  by (auto simp: tier_part_def Let_def tier_call_tier_of [OF assms(1)] buildConditionStr_tier_of [OF assms(1)] part_text_def)

lemma generate_parts:
  assumes "plain_tiers specs" "1 < length specs"
  shows "map (\<lambda>(i, tier). tier_part (length specs) i tier) (List.enumerate 0 (map tier_of specs)) = map part_text specs"
proof (rule nth_equalityI)
  fix i
  assume "i < length (map (\<lambda>(i, tier). tier_part (length specs) i tier) (List.enumerate 0 (map tier_of specs)))"
  then have i: "i < length specs" by simp
  then have "plain_tier (specs ! i)" using assms(1) by (simp add: plain_tiers_def list_all_length)
  moreover have "i < length specs - 1 \<or> ts_conds (specs ! i) = []"
    using i assms by (cases "i = length specs - 1") (auto simp: plain_tiers_def last_conv_nth)
  ultimately show "map (\<lambda>(i, tier). tier_part (length specs) i tier) (List.enumerate 0 (map tier_of specs)) ! i =
      map part_text specs ! i"
    using i by (simp add: nth_enumerate_eq tier_part_tier_of)
qed simp

lemma generate_text:
  assumes "plain_tiers specs"
  shows "generateExprFromVisualConfig (Some (map tier_of specs)) = join (lit '' : '') (map part_text specs) @ tail_text specs"
proof (cases "1 < length specs")
  case True
  then obtain s1 s2 ss where specs: "specs = s1 # s2 # ss"
    by (cases specs; cases "tl specs") auto
  from generate_parts [OF assms True] show ?thesis
    by (simp add: specs generateExprFromVisualConfig_def tail_text_def)
next
  case False
  then obtain s where specs: "specs = [s]" using assms by (cases specs) (auto simp: plain_tiers_def)
  then have s: "plain_tier s" using assms by (simp add: plain_tiers_def)
  have "lit '' : '' @ zero_body = lit '' : p * 0 + c * 0''"
    by (simp add: zero_body_def flip: lit_append)
  then show ?thesis
    using conds_text_Nil_iff [OF s]
    by (simp add: specs generateExprFromVisualConfig_def Let_def tail_text_def part_text_def
        tier_call_tier_of [OF s] buildConditionStr_tier_of [OF s])
qed

section \<open>Reading the text back\<close>

text \<open>A pattern that matches the call of a tier and nothing that starts otherwise. With optional
  conditions in front, its matches in a generated expression are the parts, one for each tier.\<close>

locale tier_pattern =
  fixes T :: re and tcaps :: "tier_spec \<Rightarrow> caps \<Rightarrow> caps"
  assumes T_takes: "plain_tier s \<Longrightarrow> takes T (tier_text s) post c (tcaps s c)"
    and T_fails: "x \<noteq> 116 \<Longrightarrow> fails T (x # r)"
    and T_fails_Nil: "fails T []"
begin

lemma fails_prefixed:
  assumes "x \<notin> {112, 99, 108, 116} \<or> (x \<noteq> 108 \<and> x \<noteq> 116 \<and> (\<exists>y. r = 32 # 42 # y))"
  shows "fails (cond_prefix T) (x # r)"
proof -
  have "fails cond_re (x # r)" using assms by (intro fails_cond_re) auto
  then have "fails (Seq (Seqs [condGroup, Ws, Lit (lit ''?''), Ws]) T) (x # r)"
    unfolding condGroup_def Seqs.simps by (intro fails_Seq fails_Cap)
  moreover have "fails T (x # r)" using assms by (intro T_fails) auto
  ultimately show ?thesis unfolding cond_prefix_def by (rule fails_Seq_Opt)
qed

lemma fails_prefixed_Nil: "fails (cond_prefix T) []"
proof -
  have "fails condGroup []"
    unfolding condGroup_def cond_re_def cond_var_def Seqs.simps list.map AltList.simps
    by (intro fails_Seq fails_Cap fails_Alt fails_Lit fails_Cls) (simp_all add: starts_with_iff)
  then show ?thesis
    unfolding cond_prefix_def Seqs.simps by (intro fails_Seq_Opt T_fails_Nil fails_Seq)
qed

lemma takes_part:
  assumes "plain_tier s"
  shows "takes (cond_prefix T) (part_text s) post [] (tcaps s (cond_caps s))"
proof (cases "ts_conds s = []")
  case True
  have "fails cond_re (116 # tl (tier_text s) @ post)"
    by (rule fails_cond_re) simp
  then have "fails (Seqs [condGroup, Ws, Lit (lit ''?''), Ws]) (tier_text s @ post)"
    unfolding condGroup_def Seqs.simps by (subst tier_text_start) (simp, intro fails_Seq fails_Cap)
  from takes_Seq [OF takes_Opt_none [OF this] T_takes [OF assms]] True show ?thesis
    by (simp add: cond_prefix_def part_text_def cond_caps_def)
next
  case False
  have ks: "list_all plain_cond (ts_conds s)" using assms by (simp add: plain_tier_def)
  have hd: "\<not> is_ws (hd (tier_text s @ post))" by (subst tier_text_start) (simp add: is_ws_def)
  have "takes (Seqs [condGroup, Ws, Lit [63], Ws]) (conds_text (ts_conds s) @ [32] @ [63] @ [32] @ [])
      (tier_text s @ post) [] [(1, conds_text (ts_conds s))]"
    unfolding Seqs.simps
  proof (rule takes_Seq)
    show "takes condGroup (conds_text (ts_conds s)) (([32] @ [63] @ [32] @ []) @ tier_text s @ post) []
        [(1, conds_text (ts_conds s))]"
      using takes_conds [OF ks False, of "[32] @ tier_text s @ post" "[]"] by simp
    show "takes (Seq Ws (Seq (Lit [63]) (Seq Ws Eps))) ([32] @ [63] @ [32] @ []) (tier_text s @ post) c c" for c
      by (intro takes_Seq [OF takes_Ws] takes_Seq [OF takes_Lit] takes_Eps)
        (use hd in \<open>simp_all add: is_ws_def\<close>)
  qed
  from takes_Seq [OF takes_Opt [OF this] T_takes [OF assms]] False show ?thesis
    by (simp add: cond_prefix_def part_text_def cond_caps_def lit_simps)
qed

lemma fails_along_tail: "fails_along (cond_prefix T) (tail_text specs) []"
  by (auto simp: tail_text_def lit_simps intro!: fails_prefixed split: list.splits)

lemma re_all_parts:
  assumes "list_all plain_tier ss" "fails_along (cond_prefix T) tail []"
  shows "list_all2 (\<lambda>m s. m_caps m = tcaps s (cond_caps s))
    (re_all_from (cond_prefix T) (pre, concat (map (\<lambda>s. lit '' : '' @ part_text s) ss) @ tail)) ss"
  using assms(1)
proof (induction ss arbitrary: pre)
  case Nil
  then show ?case using re_all_end [OF assms(2) fails_prefixed_Nil] by simp
next
  case (Cons s ss)
  let ?rest = "concat (map (\<lambda>s. lit '' : '' @ part_text s) ss) @ tail"
  have "fails_along (cond_prefix T) (lit '' : '') (part_text s @ ?rest)"
    by (auto simp: lit_simps intro!: fails_prefixed)
  moreover have "takes (cond_prefix T) (part_text s) ?rest [] (tcaps s (cond_caps s))"
    using Cons.prems by (intro takes_part) simp
  moreover have "part_text s \<noteq> []" by (simp add: part_text_def tier_text_def lit_simps)
  ultimately show ?case
    using re_all_takes [of "cond_prefix T" "lit '' : ''" "part_text s" ?rest _ pre] Cons by simp
qed

lemma re_all_generated:
  assumes "plain_tiers specs"
  shows "list_all2 (\<lambda>m s. m_caps m = tcaps s (cond_caps s))
    (re_all (cond_prefix T) (join (lit '' : '') (map part_text specs) @ tail_text specs)) specs"
proof -
  obtain s ss where specs: "specs = s # ss" using assms by (cases specs) (auto simp: plain_tiers_def)
  let ?rest = "concat (map (\<lambda>s. lit '' : '' @ part_text s) ss) @ tail_text specs"
  have plain: "plain_tier s" "list_all plain_tier ss" using assms by (simp_all add: specs plain_tiers_def)
  have "part_text s \<noteq> []" by (simp add: part_text_def tier_text_def lit_simps)
  with re_all_takes [of "cond_prefix T" "[]" "part_text s" ?rest _ "[]"] takes_part [OF plain(1), of ?rest]
  have "re_all_from (cond_prefix T) ([], part_text s @ ?rest) =
      \<lparr>m_from = ([], part_text s @ ?rest), m_to = (rev (part_text s), ?rest), m_caps = tcaps s (cond_caps s)\<rparr> #
      re_all_from (cond_prefix T) (rev (part_text s), ?rest)"
    by simp
  then show ?thesis
    using re_all_parts [OF plain(2) fails_along_tail, of "rev (part_text s)" specs]
    by (simp add: re_all_def specs join_concat comp_def)
qed

end

lemma fails_tier_call: "x \<noteq> 116 \<Longrightarrow> fails (Seq (Lit (lit ''tier('' @ [34])) R) (x # r)"
  "fails (Seq (Lit (lit ''tier('' @ [34])) R) []"
  by (intro fails_Seq fails_Lit, simp add: starts_with_iff lit_simps)+

interpretation editor_pattern: tier_pattern "tier_re 2" "tier_caps 2"
proof unfold_locales
  show "takes (tier_re 2) (tier_text s) post c (tier_caps 2 s c)" if "plain_tier s" for s post c
    using that by (rule takes_tier)
qed (simp_all add: tier_re_def fails_tier_call)

lemma tierRe_prefix: "tierRe = cond_prefix (tier_re 2)"
  by (simp add: tierRe_def cond_prefix_def)

lemma match_part:
  assumes "plain_tier s" "m_caps m = tier_caps 2 s (cond_caps s)"
  shows "match_tier 2 (parse_conditions (case cap m 1 of None \<Rightarrow> [] | Some w \<Rightarrow> w)) m = tier_of s"
proof -
  have ks: "list_all plain_cond (ts_conds s)" using assms(1) by (simp add: plain_tier_def)
  have "(case cap m 1 of None \<Rightarrow> [] | Some w \<Rightarrow> w) = conds_text (ts_conds s)"
    by (simp add: cap_def assms(2) cond_caps_def tier_caps_def map_of_extra_caps conds_text_def)
  then show ?thesis
    using match_tier_caps [OF assms(1), of m 2] assms(2) parse_conditions_text [OF ks]
    by (simp add: cond_caps_def)
qed

section \<open>Round trip\<close>

lemma version_body_id: "hd s \<noteq> 118 \<Longrightarrow> version_body s = s"
  by (cases s) (simp_all add: version_body_def strip_version_def)

lemma hd_part_text: "plain_tier s \<Longrightarrow> ts_conds s \<noteq> [] \<Longrightarrow> hd (part_text s @ r) \<in> {112, 99, 108}"
  by (cases "ts_conds s")
    (auto simp: part_text_def conds_text_Cons plain_tier_def cond_text_def plain_cond_def lit_simps)

lemma single_parse:
  assumes "plain_tier s" "ts_conds s = []"
  shows "tryParseVisualConfig (tier_text s) = Some [tier_of s]"
proof -
  have "takes (Seqs [tier_re 1, AtEnd]) (tier_text s) [] [] (tier_caps 1 s [])"
    unfolding Seqs.simps by (rule takes_Seq_end [OF takes_tier [OF assms(1)]])
  then have "re_search singleRe (tier_text s) =
      Some \<lparr>m_from = ([], tier_text s), m_to = (rev (tier_text s), []), m_caps = tier_caps 1 s []\<rparr>"
    using re_search_anchored [of "Seqs [tier_re 1, AtEnd]" "tier_text s"] by (simp add: singleRe_def)
  moreover have "match_tier 1 [] \<lparr>m_from = p, m_to = q, m_caps = tier_caps 1 s []\<rparr> = tier_of s" for p q
    using match_tier_caps [OF assms(1), of "\<lparr>m_from = p, m_to = q, m_caps = tier_caps 1 s []\<rparr>" 1 "[]"] assms(2) by simp
  moreover have "version_body (tier_text s) = tier_text s" "tier_text s \<noteq> []"
    by (simp_all add: version_body_id tier_text_def lit_simps)
  ultimately show ?thesis
    by (simp add: tryParseVisualConfig_def normalizeVisualConfig_def normalize_tier_of)
qed

lemma multi_parse:
  assumes "plain_tiers specs" "ts_conds (hd specs) \<noteq> []"
  defines "e \<equiv> generateExprFromVisualConfig (Some (map tier_of specs))"
  shows "tryParseVisualConfig e = Some (map tier_of specs)"
proof -
  obtain s ss where specs: "specs = s # ss" using assms(1) by (cases specs) (auto simp: plain_tiers_def)
  have e: "e = join (lit '' : '') (map part_text specs) @ tail_text specs"
    unfolding e_def by (rule generate_text [OF assms(1)])
  have plain: "list_all plain_tier specs" using assms(1) by (simp add: plain_tiers_def)
  have ne: "e \<noteq> []" and hd: "hd e \<in> {112, 99, 108}"
    using hd_part_text [of s] plain assms(2) by (auto simp: e specs join_concat part_text_def tier_text_def)
  then have "\<not> starts_with e (lit ''tier('' @ [34])"
    by (cases e) (auto simp: starts_with_iff lit_simps)
  then have "re_search singleRe e = None"
    unfolding singleRe_def tier_re_def Seqs.simps
    by (intro re_search_anchored_fails fails_Seq fails_Lit)
  moreover have "version_body e = e" using hd by (intro version_body_id) auto
  moreover have "map (\<lambda>m. match_tier 2 (parse_conditions (case cap m 1 of None \<Rightarrow> [] | Some w \<Rightarrow> w)) m)
      (re_all tierRe e) = map tier_of specs"
    using editor_pattern.re_all_generated [OF assms(1)] plain match_part unfolding e [symmetric] tierRe_prefix
    by (simp add: list_eq_iff_nth_eq list_all2_conv_all_nth list_all_length)
  moreover have "normalizeVisualConfig (Some (map tier_of specs)) = map tier_of specs"
    by (simp add: normalizeVisualConfig_def normalize_tier_of specs)
  ultimately show ?thesis
    using ne by (simp add: tryParseVisualConfig_def e_def specs)
qed

lemma parse_generated:
  assumes "plain_tiers specs"
  shows "tryParseVisualConfig (generateExprFromVisualConfig (Some (map tier_of specs))) = Some (map tier_of specs)"
proof (cases "ts_conds (hd specs) = []")
  case True
  then obtain s where "specs = [s]" "plain_tier s" "ts_conds s = []"
    using assms by (cases specs; cases "tl specs") (auto simp: plain_tiers_def)
  then show ?thesis
    using generate_text [OF assms] single_parse [of s] by (simp add: tail_text_def part_text_def)
qed (rule multi_parse [OF assms])

definition plain_config :: "jsobj list \<Rightarrow> bool" where
  "plain_config cfg \<longleftrightarrow> (\<exists>specs. plain_tiers specs \<and> cfg = map tier_of specs)"

interpretation visual_config: codec plain_config "\<lambda>cfg. generateExprFromVisualConfig (Some cfg)" tryParseVisualConfig
  by unfold_locales (auto simp: plain_config_def parse_generated)

section \<open>Opening an expression of one tier\<close>

text \<open>A one-tier expression with the texts of its two prices as they stand.\<close>

definition single_text :: "jsstr \<Rightarrow> jsstr \<Rightarrow> jsstr \<Rightarrow> jsstr" where
  "single_text l w v = lit ''tier('' @ [34] @ l @ [34] @ lit '', p * '' @ w @ lit '' + c * '' @ v @ lit '')''"

definition price_text :: "jsstr \<Rightarrow> jsstr" where
  "price_text w = num_to_str (number_or_0 (Num (str_to_num w)))"

definition numtext :: "jsstr \<Rightarrow> bool" where
  "numtext w \<longleftrightarrow> w \<noteq> [] \<and> list_all is_numchar w"

lemma numtext_takes:
  assumes "numtext w" "post = [] \<or> \<not> is_numchar (hd post)"
  shows "takes NumCls w post c c" "\<not> is_ws (hd (w @ r))"
proof -
  show "takes NumCls w post c c" unfolding NumCls_def using assms by (intro takes_Plus_Cls) (auto simp: numtext_def)
  show "\<not> is_ws (hd (w @ r))" using assms(1) by (cases w) (auto simp: numtext_def numchar_not_ws)
qed

lemma takes_no_opts:
  "takes (Seqs (map (\<lambda>(i, v). opt_term i v) (List.enumerate n (map fst BILLING_CACHE_VAR_MAP)))) [] (41 # post) c c"
proof -
  have zero: "plain_num is_numchar (Fin 0)" by (simp add: plain_num_def) code_simp
  have "extras_text (zip vs (replicate k (Fin 0))) = []" for vs k
    by (auto simp: extras_text_def dest!: set_zip_rightD)
  moreover have "extra_caps n (replicate k (Fin 0)) c = c" for n k
    by (induction k arbitrary: n) auto
  ultimately show ?thesis
    using takes_opts [of "map fst BILLING_CACHE_VAR_MAP" "replicate 7 (Fin 0)" n post c] vars_apart vars_plain zero
    by (simp add: list_all_iff)
qed

lemma takes_single:
  assumes "numtext w" "numtext v" "34 \<notin> set l"
  shows "takes (Seqs [tier_re 1, AtEnd]) (single_text l w v) [] [] [(3, v), (2, w), (1, l)]"
proof -
  let ?O = "Seqs (map (\<lambda>(i, v). opt_term i v) (List.enumerate 4 (map fst BILLING_CACHE_VAR_MAP)))"
  have lab: "list_all (\<lambda>c. c \<noteq> 34) l" using assms(3) by (auto simp: list_all_iff)
  have opts: "takes ?O [] [41] c c" for c by (rule takes_no_opts)
  have hd: "\<not> is_ws (hd (w @ r))" "\<not> is_ws (hd (v @ r))" for r
    using numtext_takes(2) [of _ "[]"] assms by simp_all
  have ws_pc: "\<not> is_ws 112" "\<not> is_ws 99" by (simp_all add: is_ws_def)
  have body: "takes (Seq (Lit (lit ''p'')) (Seq Ws (Seq (Lit [42]) (Seq Ws (Seq (Cap 2 NumCls) (Seq Ws (Seq (Lit [43])
      (Seq Ws (Seq (Lit (lit ''c'')) (Seq Ws (Seq (Lit [42]) (Seq Ws (Seq (Cap 3 NumCls) ?O)))))))))))))
      (lit ''p'' @ [32] @ [42] @ [32] @ w @ [32] @ [43] @ [32] @ lit ''c'' @ [32] @ [42] @ [32] @ v @ [])
      (([41] @ []) @ []) c ((3, v) # (2, w) # c)" for c
    by (intro takes_Seq [OF takes_Lit] takes_Seq [OF takes_Ws] takes_Seq [OF takes_Cap [OF numtext_takes(1)]])
      (use opts hd assms(1,2) in \<open>simp_all add: lit_simps ws_pc\<close>)
  let ?b = "lit ''p'' @ [32] @ [42] @ [32] @ w @ [32] @ [43] @ [32] @ lit ''c'' @ [32] @ [42] @ [32] @ v @ []"
  have body': "takes (body_re (1 + 1)) ?b (([41] @ []) @ []) c ((3, v) # (2, w) # c)" for c
    using body [of c] by (simp add: body_re_def eval_nat_numeral)
  have "takes (Seq (Lit (lit ''tier('' @ [34])) (Seq (Cap 1 (Star (Cls (\<lambda>c. c \<noteq> 34)))) (Seq (Lit [34, 44]) (Seq Ws
      (Seq (body_re (1 + 1)) (Seq (Lit [41]) Eps))))))
      ((lit ''tier('' @ [34]) @ l @ [34, 44] @ [32] @ ?b @ [41] @ []) [] [] [(3, v), (2, w), (1, l)]"
    by (intro takes_Seq [OF takes_Lit] takes_Seq [OF takes_Cap [OF takes_Star_Cls]] takes_Seq [OF takes_Ws]
        takes_Seq [OF body'] takes_Eps) (use lab in \<open>simp_all add: lit_simps ws_pc\<close>)
  then have "takes (tier_re 1) ((lit ''tier('' @ [34]) @ l @ [34, 44] @ [32] @ ?b @ [41] @ []) [] [] [(3, v), (2, w), (1, l)]"
    by (simp add: tier_re_def)
  from takes_Seq_end [OF this] show ?thesis by (simp add: single_text_def lit_simps)
qed

lemma parse_single_text:
  assumes "numtext w" "numtext v" "34 \<notin> set l"
  shows "tryParseVisualConfig (single_text l w v) = Some [normalizeVisualTier
    [(lit ''conditions'', Arr []), (lit ''input_unit_cost'', Num (str_to_num w)),
     (lit ''output_unit_cost'', Num (str_to_num v)), (lit ''label'', Str l)]]"
proof -
  let ?m = "\<lparr>m_from = ([], single_text l w v), m_to = (rev (single_text l w v), []), m_caps = [(3, v), (2, w), (1, l)]\<rparr>"
  let ?t = "[(lit ''conditions'', Arr []), (lit ''input_unit_cost'', Num (str_to_num w)),
     (lit ''output_unit_cost'', Num (str_to_num v)), (lit ''label'', Str l)]"
  have "re_search singleRe (single_text l w v) = Some ?m"
    using re_search_anchored [OF takes_single [OF assms]] by (simp add: singleRe_def)
  moreover have "cap ?m i = None" if "4 \<le> i" for i using that by (simp add: cap_def)
  then have "foldl (\<lambda>tier (i, field). case cap ?m i of None \<Rightarrow> tier | Some w \<Rightarrow> obj_put tier field (Num (str_to_num w))) a
      (List.enumerate 4 fs) = a" for a fs
    by (intro foldl_skip) (auto simp: in_set_enumerate_eq)
  then have "match_tier 1 [] ?m = normalizeVisualTier ?t"
    by (simp add: match_tier_def cap_num_def cap_str_def cap_def)
  moreover have "version_body (single_text l w v) = single_text l w v" "single_text l w v \<noteq> []"
    by (simp_all add: version_body_id single_text_def lit_simps)
  ultimately show ?thesis
    by (simp add: tryParseVisualConfig_def normalizeVisualConfig_def normalizeVisualTier_idem)
qed

lemma generate_single_text:
  "generateExprFromVisualConfig (Some [normalizeVisualTier
    [(lit ''conditions'', Arr []), (lit ''input_unit_cost'', Num x), (lit ''output_unit_cost'', Num y), (lit ''label'', Str l)]]) =
   single_text (if l = [] then lit ''default'' else l) (num_to_str (number_or_0 (Num x))) (num_to_str (number_or_0 (Num y)))"
proof -
  let ?t = "normalizeVisualTier [(lit ''conditions'', Arr []), (lit ''input_unit_cost'', Num x),
    (lit ''output_unit_cost'', Num y), (lit ''label'', Str l)]"
  have "number_or_0 Undefined = Fin 0" by (simp add: number_or_0_def)
  then have "concat (map (\<lambda>(exprVar, field). let v = number_or_0 (obj_get ?t field)
      in if v \<noteq> Fin 0 then [body_term exprVar v] else []) BILLING_CACHE_VAR_MAP) = []"
    by (simp add: extra_vars get_normalizeVisualTier)
  then have "buildTierBodyExpr ?t =
      body_term (lit ''p'') (number_or_0 (Num x)) @ lit '' + '' @ body_term (lit ''c'') (number_or_0 (Num y))"
    unfolding buildTierBodyExpr_def by (simp only: join.simps) (simp add: get_normalizeVisualTier)
  moreover have "label_or d ?t = (if l = [] then d else l)" for d
    by (simp add: label_or_def get_normalizeVisualTier)
  moreover have "buildConditionStr (obj_get ?t (lit ''conditions'')) = []"
    by (simp add: buildConditionStr_def get_normalizeVisualTier)
  ultimately show ?thesis
    by (simp add: generateExprFromVisualConfig_def tier_call_def single_text_def) (simp add: body_term_def lit_simps)
qed

section \<open>An example\<close>

definition two_tiers :: "tier_spec list" where
  "two_tiers =
     [\<lparr>ts_conds = [(lit ''len'', lit ''<='', Fin 200000), (lit ''c'', lit ''<'', Fin 15)], ts_in = Fin 3, ts_out = Fin 15,
        ts_label = lit ''standard'', ts_extra = [Fin 3, Fin 0, Fin 15, Fin 0, Fin 0, Fin 0, Fin 0]\<rparr>,
      \<lparr>ts_conds = [], ts_in = Fin 15, ts_out = Fin 15, ts_label = lit ''long'', ts_extra = replicate 7 (Fin 0)\<rparr>]"

lemma two_tiers_plain: "plain_tiers two_tiers"
proof -
  have "plain_num is_condchar (Fin 0)" "plain_num is_condchar (Fin 3)" "plain_num is_condchar (Fin 15)"
      "plain_num is_condchar (Fin 200000)"
    unfolding plain_num_def by (intro conjI; code_simp)+
  then show ?thesis
    by (simp add: plain_tiers_def two_tiers_def plain_tier_def plain_cond_def condchar_numchar list_all_iff) (simp add: lit_simps)
qed

section \<open>Properties\<close>

text \<open>C4: what the visual editor generates from a list of plain tiers (labels without quotes, numbers
  whose printed form the patterns accept, conditions over p, c and len; one tier, or several of
  which the first has conditions and the last has none) is parsed back to the same list of tiers,
  so that saving and reopening shows the same tiers.\<close>

theorem visual_config_round_trip:
  "plain_tiers specs \<Longrightarrow>
   tryParseVisualConfig (generateExprFromVisualConfig (Some (map tier_of specs))) = Some (map tier_of specs)"
  using visual_config.dec_enc [of "map tier_of specs"] by (auto simp: plain_config_def)

theorem visual_config_round_trip_witness:
  "plain_tiers two_tiers \<and>
   tryParseVisualConfig (generateExprFromVisualConfig (Some (map tier_of two_tiers))) = Some (map tier_of two_tiers)"
  using visual_config_round_trip [OF two_tiers_plain] two_tiers_plain by blast

text \<open>Opening a model whose expression is one tier with the price texts \<open>w\<close> and \<open>v\<close> makes the
  editor report, without any action of the user, the expression with each text replaced by the
  number read from it, and by 0 where the text is no number. The price pattern also accepts texts
  such as \<open>1+2\<close>, which is no number, so the billed price of such a model silently becomes 0.\<close>

theorem open_single_tier_reports:
  assumes "numtext w" "numtext v" "34 \<notin> set l" "reported ed = single_text l w v"
  shows "map_sum id reported (report_expr (open_model ed)) =
    Inr (single_text (if l = [] then lit ''default'' else l) (price_text w) (price_text v))"
  using parse_single_text [OF assms(1-3)] assms(4)
  by (simp add: open_model_def report_expr_def effectiveExpr_def generate_single_text price_text_def)

definition no_editor :: tiered_editor where
  "no_editor = \<lparr>editorMode = Visual, visualConfig = None, rawExpr = [], requestRuleGroups = [], reported = [], reported_rules = []\<rparr>"

theorem open_single_tier_reports_witness:
  "map_sum id reported (report_expr (open_model (no_editor\<lparr>reported := single_text (lit ''a'') (lit ''1+2'') (lit ''3'')\<rparr>))) =
    Inr (single_text (lit ''a'') (lit ''0'') (lit ''3''))"
proof -
  have "numtext (lit ''1+2'')" "numtext (lit ''3'')" "34 \<notin> set (lit ''a'')"
    by (simp_all add: numtext_def lit_simps is_numchar_def is_digit_def)
  moreover have "price_text (lit ''1+2'') = lit ''0''" by code_simp
  moreover have "price_text (lit ''3'') = lit ''3''" by code_simp
  ultimately show ?thesis using open_single_tier_reports [of "lit ''1+2''" "lit ''3''" "lit ''a''"
      "no_editor\<lparr>reported := single_text (lit ''a'') (lit ''1+2'') (lit ''3'')\<rparr>"]
    by simp
qed

text \<open>Switching to the visual editor while the expression cannot be shown as tiers replaces the
  expression by one that charges nothing.\<close>

theorem mode_switch_discards:
  assumes "splitBillingExprAndRequestRules (rawExpr ed) = Inr b" "tryParseRequestRuleExpr (requestRuleExpr b) = Inr gs"
    "tryParseVisualConfig (billingExpr b) = None" "handleModeSwitch Visual ed = Inr ed'"
  shows "map_sum id reported (report_expr ed') = Inr (single_text (lit ''base'') [48] [48])"
proof -
  have "visualConfig ed' = Some createDefaultVisualConfig" "editorMode ed' = Visual"
    using assms by (auto simp: handleModeSwitch_def rule_groups_or_empty_def)
  moreover have "generateExprFromVisualConfig (Some createDefaultVisualConfig) = single_text (lit ''base'') [48] [48]"
    by code_simp
  ultimately show ?thesis by (simp add: report_expr_def effectiveExpr_def)
qed

theorem mode_switch_discards_witness:
  "\<exists>ed'. handleModeSwitch Visual (no_editor\<lparr>editorMode := Raw, rawExpr := lit ''p * 3''\<rparr>) = Inr ed' \<and>
    map_sum id reported (report_expr ed') = Inr (single_text (lit ''base'') [48] [48])"
proof -
  let ?ed = "no_editor\<lparr>editorMode := Raw, rawExpr := lit ''p * 3''\<rparr>"
  let ?b = "\<lparr>billingExpr = lit ''p * 3'', requestRuleExpr = []\<rparr>"
  have facts: "splitBillingExprAndRequestRules (rawExpr ?ed) = Inr ?b" "tryParseRequestRuleExpr (requestRuleExpr ?b) = Inr (Some [])"
      "tryParseVisualConfig (billingExpr ?b) = None"
    by code_simp+
  then obtain ed' where ed': "handleModeSwitch Visual ?ed = Inr ed'"
    by (simp add: handleModeSwitch_def rule_groups_or_empty_def)
  from mode_switch_discards [OF facts ed'] ed' show ?thesis by blast
qed

end
