(* ===== verification/Model_Price.thy ===== *)
theory Model_Price
  imports Tiered_Editor "HOL-Library.Word"
begin

text \<open>
  The prices shown on a model card, from \<open>helpers/utils.jsx\<close>: the evaluation of time rules at the
  present moment (\<open>timeValueInZone\<close>, \<open>evalRuleConditionAtTime\<close>, \<open>evaluateTieredTimeRules\<close>), the
  price itself (\<open>calculateModelPrice\<close>), its lines (\<open>getModelPriceItems\<close>), the filter by billing type,
  the discount label of a group, and the content fingerprint \<open>stableStringHash\<close>.

  \<open>fmt tz\<close> is the list of parts that \<open>Intl.DateTimeFormat(...).formatToParts(now)\<close> gives for the
  present moment in the zone \<open>tz\<close>, or the error it throws for an unknown zone. The time zone
  database is not part of the repository. The stored \<open>status\<close> text and the caller's \<open>displayPrice\<close>
  are arguments too. Group ratios are numbers, as the server sends them.
\<close>

section \<open>Time rules\<close>

type_synonym zone_fmt = "jsval \<Rightarrow> (jsstr \<times> jsstr) list res"

definition part_value :: "(jsstr \<times> jsstr) list \<Rightarrow> string \<Rightarrow> jsval" where
  "part_value parts ty = (case map_of parts (lit ty) of None \<Rightarrow> Undefined | Some v \<Rightarrow> Str v)"

definition weekday_map :: "(jsstr \<times> jsnum) list" where
  "weekday_map = [(lit ''Sun'', Fin 0), (lit ''Mon'', Fin 1), (lit ''Tue'', Fin 2), (lit ''Wed'', Fin 3),
     (lit ''Thu'', Fin 4), (lit ''Fri'', Fin 5), (lit ''Sat'', Fin 6)]"

definition timeValueInZone :: "zone_fmt \<Rightarrow> jsval \<Rightarrow> jsval \<Rightarrow> jsnum res" where
  "timeValueInZone fmt fn timezone = (case fmt (js_or timezone (Str (lit ''UTC''))) of
     Inl e \<Rightarrow> Inl e
   | Inr parts \<Rightarrow> Inr (
       if fn = Str (lit ''hour'') then (let h = to_num (part_value parts ''hour'') in if h = Fin 24 then Fin 0 else h)
       else if fn = Str (lit ''minute'') then to_num (part_value parts ''minute'')
       else if fn = Str (lit ''weekday'')
         then (case map_of weekday_map (to_str (part_value parts ''weekday'')) of None \<Rightarrow> Fin 0 | Some d \<Rightarrow> d)
       else if fn = Str (lit ''month'') then to_num (part_value parts ''month'')
       else if fn = Str (lit ''day'') then to_num (part_value parts ''day'')
       else Fin 0))"

text \<open>\<open>None\<close> is the null of a condition that cannot be evaluated.\<close>

definition evalRuleConditionAtTime :: "zone_fmt \<Rightarrow> rule_cond \<Rightarrow> bool option res" where
  "evalRuleConditionAtTime fmt cond =
     (if c_source cond \<noteq> Str SOURCE_TIME then Inr None
      else case timeValueInZone fmt (c_timeFunc cond) (c_timezone cond) of
        Inl e \<Rightarrow> Inl e
      | Inr v \<Rightarrow> Inr (
          if c_mode cond = Str MATCH_RANGE then
            (let a = to_num (c_rangeStart cond); b = to_num (c_rangeEnd cond)
             in if \<not> is_finite a \<or> \<not> is_finite b then None
                else Some (if num_le a b then num_le a v \<and> num_le v b else num_le a v \<or> num_le v b))
          else
            (let target = to_num (c_value cond)
             in if c_mode cond = Str MATCH_EQ then Some (num_eq v target)
                else if c_mode cond = Str MATCH_GTE then Some (num_le target v)
                else if c_mode cond = Str MATCH_LT then Some (num_lt v target)
                else None)))"

record time_rules =
  effectiveMultiplier :: jsnum
  fired :: "(jsnum \<times> rule_cond list) list"
  hasTime :: bool
  hasRequest :: bool

definition no_rules :: time_rules where
  "no_rules = \<lparr>effectiveMultiplier = Fin 1, fired = [], hasTime = False, hasRequest = False\<rparr>"

text \<open>The inner loop leaves at the first condition that is not true.\<close>

fun all_true :: "zone_fmt \<Rightarrow> rule_cond list \<Rightarrow> bool res" where
  "all_true fmt [] = Inr True"
| "all_true fmt (c # cs) = (case evalRuleConditionAtTime fmt c of
     Inl e \<Rightarrow> Inl e
   | Inr r \<Rightarrow> if r \<noteq> Some True then Inr False else all_true fmt cs)"

definition group_conds :: "rule_group \<Rightarrow> rule_cond list" where
  "group_conds g = (case g_conditions g of None \<Rightarrow> [] | Some cs \<Rightarrow> cs)"

definition is_all_time :: "rule_group \<Rightarrow> bool" where
  "is_all_time g \<longleftrightarrow> list_all (\<lambda>c. c_source c = Str SOURCE_TIME) (group_conds g)"

definition rule_step :: "zone_fmt \<Rightarrow> rule_group \<Rightarrow> time_rules \<Rightarrow> time_rules res" where
  "rule_step fmt g st =
     (if \<not> is_all_time g then Inr (st\<lparr>hasRequest := True\<rparr>)
      else case all_true fmt (group_conds g) of
        Inl e \<Rightarrow> Inl e
      | Inr ok \<Rightarrow>
          (let st1 = st\<lparr>hasTime := True\<rparr>; m = to_num (g_multiplier g)
           in Inr (if ok \<and> is_finite m
              then st1\<lparr>effectiveMultiplier := num_mul (effectiveMultiplier st1) m,
                       fired := fired st1 @ [(m, group_conds g)]\<rparr>
              else st1)))"

fun rule_loop :: "zone_fmt \<Rightarrow> rule_group list \<Rightarrow> time_rules \<Rightarrow> time_rules res" where
  "rule_loop fmt [] st = Inr st"
| "rule_loop fmt (g # gs) st = (case rule_step fmt g st of Inl e \<Rightarrow> Inl e | Inr st' \<Rightarrow> rule_loop fmt gs st')"

definition evaluateTieredTimeRules :: "zone_fmt \<Rightarrow> jsstr \<Rightarrow> time_rules res" where
  "evaluateTieredTimeRules fmt expr =
     (if expr = [] then Inr no_rules
      else case splitBillingExprAndRequestRules (version_body expr) of
        Inl e \<Rightarrow> Inl e
      | Inr b \<Rightarrow>
          if requestRuleExpr b = [] then Inr no_rules
          else (case tryParseRequestRuleExpr (requestRuleExpr b) of
            Inl e \<Rightarrow> Inl e
          | Inr None \<Rightarrow> Inr no_rules
          | Inr (Some groups) \<Rightarrow> if groups = [] then Inr no_rules else rule_loop fmt groups no_rules))"

section \<open>The price of a model\<close>

record price_args =
  pa_record :: jsobj
  pa_selectedGroup :: jsstr
  pa_groupRatio :: "(jsstr \<times> jsnum) list"
  pa_tokenUnit :: jsstr
  pa_currency :: jsstr
  pa_quotaDisplayType :: jsstr
  pa_precision :: nat
  pa_applyRuleMultiplier :: bool

text \<open>The properties of the object returned; absent ones are false, empty or \<open>Undefined\<close>.\<close>

record price_data =
  pd_isDynamicPricing :: bool
  pd_billingExpr :: jsstr
  pd_tierCount :: nat
  pd_hasTimeCondition :: bool
  pd_hasRequestCondition :: bool
  pd_usedGroup :: jsstr
  pd_usedGroupRatio :: jsnum
  pd_rules :: time_rules
  pd_isPerToken :: bool
  pd_isTokensDisplay :: bool
  pd_isPerHour :: bool
  pd_unitLabel :: jsval
  pd_inputPrice :: jsval
  pd_completionPrice :: jsval
  pd_cachePrice :: jsval
  pd_createCachePrice :: jsval
  pd_imagePrice :: jsval
  pd_audioInputPrice :: jsval
  pd_audioOutputPrice :: jsval
  pd_inputRatio :: jsval
  pd_completionRatio :: jsval
  pd_cacheRatio :: jsval
  pd_createCacheRatio :: jsval
  pd_imageRatio :: jsval
  pd_audioInputRatio :: jsval
  pd_audioOutputRatio :: jsval
  pd_price :: jsval

definition empty_price :: "jsstr \<Rightarrow> jsnum \<Rightarrow> price_data" where
  "empty_price g r = \<lparr>pd_isDynamicPricing = False, pd_billingExpr = [], pd_tierCount = 0, pd_hasTimeCondition = False,
     pd_hasRequestCondition = False, pd_usedGroup = g, pd_usedGroupRatio = r, pd_rules = no_rules,
     pd_isPerToken = False, pd_isTokensDisplay = False, pd_isPerHour = False, pd_unitLabel = Undefined,
     pd_inputPrice = Undefined, pd_completionPrice = Undefined, pd_cachePrice = Undefined,
     pd_createCachePrice = Undefined, pd_imagePrice = Undefined, pd_audioInputPrice = Undefined,
     pd_audioOutputPrice = Undefined, pd_inputRatio = Undefined, pd_completionRatio = Undefined,
     pd_cacheRatio = Undefined, pd_createCacheRatio = Undefined, pd_imageRatio = Undefined,
     pd_audioInputRatio = Undefined, pd_audioOutputRatio = Undefined, pd_price = Undefined\<rparr>"

subsection \<open>The group\<close>

fun pick_min :: "(jsstr \<times> jsnum) list \<Rightarrow> jsnum \<Rightarrow> jsstr \<times> jsnum option \<Rightarrow> jsstr list \<Rightarrow> jsstr \<times> jsnum option" where
  "pick_min ratios mn used [] = used"
| "pick_min ratios mn used (g # gs) = (case map_of ratios g of
     Some r \<Rightarrow> if num_lt r mn then pick_min ratios r (g, Some r) gs else pick_min ratios mn used gs
   | None \<Rightarrow> pick_min ratios mn used gs)"

definition enable_groups :: "jsobj \<Rightarrow> jsstr list" where
  "enable_groups rec = (case obj_get rec (lit ''enable_groups'') of Arr gs \<Rightarrow> map to_str gs | _ \<Rightarrow> [])"

definition used_group :: "price_args \<Rightarrow> jsstr \<times> jsnum" where
  "used_group a =
     (let sel = pa_selectedGroup a; r0 = map_of (pa_groupRatio a) sel
      in if sel = lit ''all'' \<or> r0 = None
         then (case pick_min (pa_groupRatio a) PInf (sel, r0) (enable_groups (pa_record a)) of
                 (g, Some r) \<Rightarrow> (g, r) | (g, None) \<Rightarrow> (g, Fin 1))
         else (sel, the r0))"

subsection \<open>Expressions\<close>

definition base_coeffs :: "jsstr \<Rightarrow> (jsstr \<times> jsnum) list" where
  "base_coeffs body = foldl (\<lambda>acc m. case (cap m 1, cap m 2) of
       (Some v, Some n) \<Rightarrow> if v \<in> fst ` set acc then acc else acc @ [(v, str_to_num n)]
     | _ \<Rightarrow> acc) [] (re_all BILLING_VAR_REGEX body)"

definition call_re :: "string list \<Rightarrow> re" where
  "call_re fns = Seqs [WordB, AltList (map lit fns), Lit (lit ''('')]"

text \<open>The currency symbol and the rate of the dynamic branch; a status text that is not JSON
  leaves dollars at rate 1.\<close>

definition dynamic_currency :: "jsstr option \<Rightarrow> jsstr \<Rightarrow> jsval \<times> jsval" where
  "dynamic_currency status ty = (case json_parse (case status of None \<Rightarrow> lit ''{}'' | Some s \<Rightarrow> if s = [] then lit ''{}'' else s) of
     Inl e \<Rightarrow> (Str (lit ''$''), Num (Fin 1))
   | Inr st \<Rightarrow>
       if ty = lit ''CNY'' then (Str [165], js_or (opt_prop st (lit ''usd_exchange_rate'')) (Num (Fin 7)))
       else if ty = lit ''CUSTOM''
         then (js_or (opt_prop st (lit ''custom_currency_symbol'')) (Str [164]),
               js_or (opt_prop st (lit ''custom_currency_exchange_rate'')) (Num (Fin 1)))
       else (Str (lit ''$''), Num (Fin 1)))"

definition fmt_price :: "nat \<Rightarrow> jsval \<times> jsval \<Rightarrow> jsnum \<Rightarrow> jsnum \<Rightarrow> jsnum option \<Rightarrow> jsval" where
  "fmt_price precision cur ratio tmult coeff = (case coeff of
     None \<Rightarrow> Null
   | Some k \<Rightarrow>
       if k = NaN \<or> k = Fin 0 \<or> num_le k (Fin 0) then Null
       else Str (to_str (fst cur) @
         to_fixed precision (num_mul (num_mul (num_mul k ratio) tmult) (to_num (snd cur)))))"

definition dynamic_price :: "zone_fmt \<Rightarrow> jsstr option \<Rightarrow> price_args \<Rightarrow> jsstr \<Rightarrow> price_data res" where
  "dynamic_price fmt status a expr =
     (let body = version_body expr; (g, r) = used_group a; coeffs = base_coeffs body
      in case (if pa_applyRuleMultiplier a then evaluateTieredTimeRules fmt expr else Inr no_rules) of
           Inl e \<Rightarrow> Inl e
         | Inr ruleEval \<Rightarrow>
             (let summary = (empty_price g r)\<lparr>pd_isDynamicPricing := True, pd_billingExpr := expr,
                    pd_tierCount := length (re_all (Lit (lit ''tier('')) body),
                    pd_hasTimeCondition := re_test (call_re [''hour'', ''minute'', ''weekday'', ''month'', ''day'']) body,
                    pd_hasRequestCondition := re_test (call_re [''param'', ''header'']) body,
                    pd_rules := ruleEval\<rparr>;
                  price = (\<lambda>v. fmt_price (pa_precision a) (dynamic_currency status (pa_quotaDisplayType a)) r
                    (effectiveMultiplier ruleEval) (map_of coeffs (lit v)))
              in Inr (if pa_quotaDisplayType a = lit ''TOKENS'' \<or>
                      \<not> (lit ''p'' \<in> fst ` set coeffs \<or> lit ''c'' \<in> fst ` set coeffs)
                   then summary
                   else summary\<lparr>pd_isPerToken := True, pd_isTokensDisplay := False, pd_unitLabel := Str (lit ''M''),
                     pd_inputPrice := price ''p'', pd_completionPrice := price ''c'',
                     pd_cachePrice := price ''cr'', pd_createCachePrice := price ''cc''\<rparr>)))"

subsection \<open>Ratios\<close>

definition hasRatioValue :: "jsval \<Rightarrow> bool" where
  "hasRatioValue v \<longleftrightarrow> \<not> nullish v \<and> v \<noteq> Str [] \<and> is_finite (to_num v)"

definition formatRatio :: "jsval \<Rightarrow> jsval" where
  "formatRatio v = (if hasRatioValue v then Num (str_to_num (to_fixed 6 (to_num v))) else Null)"

definition currency_symbol :: "jsstr option \<Rightarrow> jsstr \<Rightarrow> jsval" where
  "currency_symbol status currency =
     (if currency = lit ''CNY'' then Str [165]
      else if currency = lit ''CUSTOM'' then
        (case status of
           None \<Rightarrow> Str [164]
         | Some s \<Rightarrow> if s = [] then Str [164]
             else (case json_parse s of
               Inl e \<Rightarrow> Str [164]
             | Inr v \<Rightarrow> js_or (opt_prop v (lit ''custom_currency_symbol'')) (Str [164])))
      else Str (lit ''$''))"

definition formatTokenPrice :: "(jsnum \<Rightarrow> jsstr) \<Rightarrow> jsval \<Rightarrow> jsnum \<Rightarrow> nat \<Rightarrow> jsnum \<Rightarrow> jsval" where
  "formatTokenPrice displayPrice symbol unitDivisor precision priceUSD =
     Str (to_str symbol @ to_fixed precision (num_div
       (parse_float (filter (\<lambda>c. is_digit c \<or> c = 46) (displayPrice priceUSD))) unitDivisor))"

definition ratio_price :: "(jsnum \<Rightarrow> jsstr) \<Rightarrow> jsstr option \<Rightarrow> price_args \<Rightarrow> price_data" where
  "ratio_price displayPrice status a =
     (let rec = pa_record a; (g, r) = used_group a;
          fld = (\<lambda>k. obj_get rec (lit k));
          usd = num_mul (num_mul (to_num (fld ''model_ratio'')) (Fin 2)) r;
          isK = (pa_tokenUnit a = lit ''K'')
      in if pa_quotaDisplayType a = lit ''TOKENS'' then
           (empty_price g r)\<lparr>pd_inputRatio := formatRatio (fld ''model_ratio''),
             pd_completionRatio := formatRatio (fld ''completion_ratio''),
             pd_cacheRatio := formatRatio (fld ''cache_ratio''),
             pd_createCacheRatio := formatRatio (fld ''create_cache_ratio''),
             pd_imageRatio := formatRatio (fld ''image_ratio''),
             pd_audioInputRatio := formatRatio (fld ''audio_ratio''),
             pd_audioOutputRatio := formatRatio (fld ''audio_completion_ratio''),
             pd_isPerToken := True, pd_isTokensDisplay := True\<rparr>
         else
           (let fmtp = formatTokenPrice displayPrice (currency_symbol status (pa_currency a))
                  (if isK then Fin 1000 else Fin 1) (pa_precision a);
                has_in = hasRatioValue (fld ''model_ratio'');
                line = (\<lambda>k. if has_in \<and> hasRatioValue (fld k) then fmtp (num_mul usd (to_num (fld k))) else Null);
                audio_in = line ''audio_ratio''
            in (empty_price g r)\<lparr>pd_inputPrice := (if has_in then fmtp usd else Null),
                 pd_completionPrice := line ''completion_ratio'', pd_cachePrice := line ''cache_ratio'',
                 pd_createCachePrice := line ''create_cache_ratio'', pd_imagePrice := line ''image_ratio'',
                 pd_audioInputPrice := audio_in,
                 pd_audioOutputPrice := (if truthy audio_in \<and> hasRatioValue (fld ''audio_completion_ratio'')
                   then fmtp (num_mul (num_mul usd (to_num (fld ''audio_ratio''))) (to_num (fld ''audio_completion_ratio'')))
                   else Null),
                 pd_unitLabel := Str (if isK then lit ''K'' else lit ''M''),
                 pd_isPerToken := True, pd_isTokensDisplay := False\<rparr>))"

definition fixed_price :: "(jsnum \<Rightarrow> jsstr) \<Rightarrow> price_args \<Rightarrow> price_data" where
  "fixed_price displayPrice a =
     (let rec = pa_record a; (g, r) = used_group a
      in (empty_price g r)\<lparr>
           pd_price := Str (displayPrice (num_mul (parse_float (to_str (obj_get rec (lit ''model_price'')))) r)),
           pd_isPerHour := (obj_get rec (lit ''billing_mode'') = Str (lit ''per_hour''))\<rparr>)"

definition calculateModelPrice ::
    "zone_fmt \<Rightarrow> jsstr option \<Rightarrow> (jsnum \<Rightarrow> jsstr) \<Rightarrow> price_args \<Rightarrow> price_data res" where
  "calculateModelPrice fmt status displayPrice a =
     (let rec = pa_record a; (g, r) = used_group a; expr = obj_get rec (lit ''billing_expr'')
      in if obj_get rec (lit ''billing_mode'') = Str (lit ''tiered_expr'') \<and> truthy expr
         then (case expr of Str e \<Rightarrow> dynamic_price fmt status a e | _ \<Rightarrow> Inl TypeError)
         else if obj_get rec (lit ''quota_type'') = Num (Fin 0) then Inr (ratio_price displayPrice status a)
         else if obj_get rec (lit ''quota_type'') = Num (Fin 1) then Inr (fixed_price displayPrice a)
         else Inr ((empty_price g r)\<lparr>pd_price := Str (lit ''-'')\<rparr>))"

section \<open>Filters and lines\<close>

text \<open>The selected billing type is a text or one of the numbers 0 and 1; \<open>model\<close> is the model's
  object.\<close>

definition matchesPricingBillingType :: "jsobj \<Rightarrow> jsval \<Rightarrow> bool" where
  "matchesPricingBillingType model billingType =
     (let mode = obj_get model (lit ''billing_mode''); qt = obj_get model (lit ''quota_type'');
          video = truthy (obj_get model (lit ''video_pricing''))
      in if billingType = Str (lit ''all'') then True
         else if billingType = Str (lit ''video'') then mode = Str (lit ''video'') \<or> video
         else if billingType = Str (lit ''per_hour'') \<or> billingType = Str (lit ''tiered_expr'') then mode = billingType
         else if billingType = Num (Fin 1)
           then qt = Num (Fin 1) \<and> mode \<noteq> Str (lit ''per_hour'') \<and> mode \<noteq> Str (lit ''video'') \<and> \<not> video
         else if billingType = Num (Fin 0) then qt = Num (Fin 0) \<and> mode \<noteq> Str (lit ''tiered_expr'')
         else False)"

record price_item =
  pi_key :: jsstr
  pi_label :: jsstr
  pi_value :: jsval
  pi_suffix :: jsstr
  pi_isDynamic :: bool

definition price_item_of :: "string \<Rightarrow> jsstr \<Rightarrow> jsval \<Rightarrow> jsstr \<Rightarrow> price_item" where
  "price_item_of k l v s = \<lparr>pi_key = lit k, pi_label = l, pi_value = v, pi_suffix = s, pi_isDynamic = False\<rparr>"

definition has_value :: "price_item \<Rightarrow> bool" where
  "has_value it \<longleftrightarrow> \<not> nullish (pi_value it) \<and> pi_value it \<noteq> Str []"

definition getModelPriceItems :: "price_data \<Rightarrow> (jsstr \<Rightarrow> jsstr) \<Rightarrow> jsstr \<Rightarrow> price_item list" where
  "getModelPriceItems pd t ty =
     (if pd_isDynamicPricing pd \<and> \<not> pd_isPerToken pd
      then [\<lparr>pi_key = lit ''dynamic'', pi_label = t ([21160, 24577, 35745, 36153]), pi_value = Str [], pi_suffix = [], pi_isDynamic = True\<rparr>]
      else if pd_isPerToken pd then
        (if ty = lit ''TOKENS'' \<or> pd_isTokensDisplay pd
         then filter has_value
           [price_item_of ''input-ratio'' (t ([36755, 20837, 20493, 29575])) (pd_inputRatio pd) (lit ''x''),
            price_item_of ''completion-ratio'' (t ([34917, 20840, 20493, 29575])) (pd_completionRatio pd) (lit ''x''),
            price_item_of ''cache-ratio'' (t ([32531, 23384, 35835, 21462, 20493, 29575])) (pd_cacheRatio pd) (lit ''x''),
            price_item_of ''create-cache-ratio'' (t ([32531, 23384, 21019, 24314, 20493, 29575])) (pd_createCacheRatio pd) (lit ''x''),
            price_item_of ''image-ratio'' (t ([22270, 29255, 36755, 20837, 20493, 29575])) (pd_imageRatio pd) (lit ''x''),
            price_item_of ''audio-input-ratio'' (t ([38899, 39057, 36755, 20837, 20493, 29575])) (pd_audioInputRatio pd) (lit ''x''),
            price_item_of ''audio-output-ratio'' (t ([38899, 39057, 34917, 20840, 20493, 29575])) (pd_audioOutputRatio pd) (lit ''x'')]
         else (let unitSuffix = lit '' / 1'' @ to_str (pd_unitLabel pd) @ lit '' Tokens''
           in filter has_value
             [price_item_of ''input'' (t ([36755, 20837, 20215, 26684])) (pd_inputPrice pd) unitSuffix,
              price_item_of ''completion'' (t ([34917, 20840, 20215, 26684])) (pd_completionPrice pd) unitSuffix,
              price_item_of ''cache'' (t ([32531, 23384, 35835, 21462, 20215, 26684])) (pd_cachePrice pd) unitSuffix,
              price_item_of ''create-cache'' (t ([32531, 23384, 21019, 24314, 20215, 26684])) (pd_createCachePrice pd) unitSuffix,
              price_item_of ''image'' (t ([22270, 29255, 36755, 20837, 20215, 26684])) (pd_imagePrice pd) unitSuffix,
              price_item_of ''audio-input'' (t ([38899, 39057, 36755, 20837, 20215, 26684])) (pd_audioInputPrice pd) unitSuffix,
              price_item_of ''audio-output'' (t ([38899, 39057, 34917, 20840, 20215, 26684])) (pd_audioOutputPrice pd) unitSuffix]))
      else filter has_value
        [price_item_of ''fixed'' (t ([27169, 22411, 20215, 26684])) (pd_price pd)
           (lit '' / '' @ (if pd_isPerHour pd then t ([23567, 26102]) else t ([27425])))])"

subsection \<open>The discount of a group\<close>

datatype discount = Surcharge jsstr | Discount jsstr

text \<open>\<open>s.replace(/\.?0+$/, '')\<close>\<close>

definition strip_trailing_zeros :: "jsstr \<Rightarrow> jsstr" where
  "strip_trailing_zeros s = (case re_search (Seqs [Opt (Lit [46]), Plus (Cls (\<lambda>c. c = 48)), AtEnd]) s of
     None \<Rightarrow> s | Some m \<Rightarrow> rev (fst (m_from m)) @ snd (m_to m))"

text \<open>\<open>t\<close>, when given, receives the key and the values of \<open>tenths\<close> and \<open>percent\<close>.\<close>

definition formatGroupDiscount :: "jsval \<Rightarrow> (jsstr \<Rightarrow> jsstr \<Rightarrow> jsnum \<Rightarrow> jsstr) option \<Rightarrow> discount option" where
  "formatGroupDiscount ratio t =
     (if nullish ratio \<or> \<not> is_finite (to_num ratio) then None
      else (let r = to_num ratio
        in if r = Fin 1 then None
           else if num_lt (Fin 1) r
             then Some (Surcharge (lit ''+'' @ num_to_str (math_round (num_mul (num_sub r (Fin 1)) (Fin 100))) @ lit ''%''))
           else (let tenths = num_mul r (Fin 10);
                     tenthsText = (if is_integer tenths then num_to_str tenths
                       else strip_trailing_zeros (to_fixed 2 tenths));
                     percent = math_round (num_mul (num_sub (Fin 1) r) (Fin 100))
             in Some (Discount (case t of
                  Some tr \<Rightarrow> tr ([123, 123, 116, 101, 110, 116, 104, 115, 125, 125, 25240]) tenthsText percent
                | None \<Rightarrow> tenthsText @ [25240])))))"

section \<open>The fingerprint of a text\<close>

text \<open>\<open>ToInt32\<close> of an integer, what the shift and \<open>| 0\<close> apply. The sums between two of them stay far
  below \<open>2\<^sup>5\<^sup>3\<close>, so they are exact.\<close>

definition to_int32 :: "int \<Rightarrow> int" where
  "to_int32 x = (x + 2 ^ 31) mod 2 ^ 32 - 2 ^ 31"

definition hash_step :: "int \<Rightarrow> nat \<Rightarrow> int" where
  "hash_step h c = to_int32 (to_int32 (h * 2 ^ 5) + h + int c)"

definition radix36_digit :: "nat \<Rightarrow> nat" where
  "radix36_digit d = (if d < 10 then 48 + d else 87 + d)"

fun nat_radix36 :: "nat \<Rightarrow> jsstr" where
  "nat_radix36 n = (if n < 36 then [radix36_digit n] else nat_radix36 (n div 36) @ [radix36_digit (n mod 36)])"

declare nat_radix36.simps [simp del]

definition to_string36 :: "int \<Rightarrow> jsstr" where
  "to_string36 h = (if h < 0 then 45 # nat_radix36 (nat (- h)) else nat_radix36 (nat h))"

definition stableStringHash :: "jsstr \<Rightarrow> jsstr" where
  "stableStringHash s = (if s = [] then [] else to_string36 (foldl hash_step 5381 s))"

end
