(* ===== verification/Model_Price_Thms.thy ===== *)
theory Model_Price_Thms
  imports Model_Price Request_Rule_Thms
begin

text \<open>
  The model card: which rules it applies and how that compares with the expression that is billed,
  which group's ratio it shows, and the fingerprint of a text.
\<close>

section \<open>Rules at the present moment\<close>









section \<open>The group of the shown price\<close>

lemma pick_min_spec:
  assumes "pick_min ratios mn used gs = (g, r)" "mn \<noteq> NaN" "\<forall>x \<in> set ratios. is_finite (snd x)"
  shows "((g, r) = used \<and> (\<forall>g' \<in> set gs. \<forall>r'. map_of ratios g' = Some r' \<longrightarrow> num_le mn r')) \<or>
    (\<exists>q. r = Some q \<and> g \<in> set gs \<and> map_of ratios g = Some q \<and> num_lt q mn \<and>
      (\<forall>g' \<in> set gs. \<forall>r'. map_of ratios g' = Some r' \<longrightarrow> num_le q r'))"
  using assms
proof (induction ratios mn used gs rule: pick_min.induct)
  case (2 ratios mn used h hs)
  have le: "num_le mn x" if "\<not> num_lt x mn" "is_finite x" for x
    using that "2.prems"(2) by (cases x; cases mn) (auto simp: num_le_def num_eq_def)
  have tr: "num_lt a c" if "num_lt a b" "num_lt b c" for a b c
    using that by (cases a; cases b; cases c) auto
  have lele: "num_le a c" if "num_lt a b" "num_le b c" for a b c
    using that tr by (auto simp: num_le_def num_eq_def)
  show ?case
  proof (cases "map_of ratios h")
    case None
    then show ?thesis using 2 by auto
  next
    case (Some x)
    then have fin: "is_finite x" using "2.prems"(3) by (auto dest!: map_of_SomeD)
    show ?thesis
    proof (cases "num_lt x mn")
      case True
      have "x \<noteq> NaN" using fin by auto
      with 2 Some True have "((g, r) = (h, Some x) \<and> (\<forall>g' \<in> set hs. \<forall>r'. map_of ratios g' = Some r' \<longrightarrow> num_le x r')) \<or>
        (\<exists>q. r = Some q \<and> g \<in> set hs \<and> map_of ratios g = Some q \<and> num_lt q x \<and>
          (\<forall>g' \<in> set hs. \<forall>r'. map_of ratios g' = Some r' \<longrightarrow> num_le q r'))" by simp
      moreover have "num_le x x" using fin by (cases x) (auto simp: num_le_def num_eq_def)
      ultimately show ?thesis using Some True tr by (auto simp: num_le_def)
    next
      case False
      then show ?thesis using 2 Some le [OF False fin] lele by (auto simp: num_le_def)
    qed
  qed
qed simp

section \<open>The fingerprint\<close>

lemma to_int32_sint: "to_int32 x = sint (word_of_int x :: 32 word)"
  by (simp add: to_int32_def sint_sbintrunc' signed_take_bit_eq_take_bit_shift take_bit_eq_mod)

text \<open>The reference: \<open>h \<sqdot> 33 + c\<close> on 32-bit words.\<close>

definition djb2 :: "jsstr \<Rightarrow> 32 word" where
  "djb2 s = foldl (\<lambda>h c. h * 33 + of_nat c) 5381 s"

lemma hash_step_word: "hash_step (sint h) c = sint (h * 33 + of_nat c :: 32 word)"
proof -
  have "(word_of_int (to_int32 (sint h * 2 ^ 5) + sint h + int c) :: 32 word) = h * 33 + of_nat c"
    by (simp add: to_int32_sint wi_hom_syms)
  then show ?thesis by (simp add: hash_step_def to_int32_sint mult.commute)
qed

lemma hash_fold_word: "foldl hash_step (sint h) s = sint (foldl (\<lambda>h c. h * 33 + of_nat c) h s :: 32 word)"
  by (induction s arbitrary: h) (simp_all add: hash_step_word)

lemma hash_is_djb2: "foldl hash_step 5381 s = sint (djb2 s)"
  using hash_fold_word [of 5381 s] by (simp add: djb2_def)

lemma length_nat_radix36: "n < 36 ^ Suc k \<Longrightarrow> length (nat_radix36 n) \<le> Suc k"
proof (induction k arbitrary: n)
  case (Suc k)
  then have "n div 36 < 36 ^ Suc k" by (simp add: less_mult_imp_div_less)
  from Suc.IH [OF this] show ?case by (subst nat_radix36.simps) simp
qed (simp add: nat_radix36.simps)

lemma radix36_digit_eq: "a < 36 \<Longrightarrow> b < 36 \<Longrightarrow> radix36_digit a = radix36_digit b \<longleftrightarrow> a = b"
  by (auto simp: radix36_digit_def split: if_splits)

lemma nat_radix36_not_Nil [simp]: "nat_radix36 n \<noteq> []"
  by (subst nat_radix36.simps) simp

lemma nat_radix36_not_Nil' [simp]: "[] \<noteq> nat_radix36 n"
  by (metis nat_radix36_not_Nil)

lemma nat_radix36_inj: "nat_radix36 m = nat_radix36 n \<Longrightarrow> m = n"
proof (induction m arbitrary: n rule: nat_radix36.induct)
  case (1 m)
  show ?case
  proof (cases "m < 36 \<or> n < 36")
    case True
    then show ?thesis
      using "1.prems" by (subst (asm) (1 2) nat_radix36.simps) (auto simp: radix36_digit_eq split: if_splits)
  next
    case False
    then have "nat_radix36 (m div 36) = nat_radix36 (n div 36)" "m mod 36 = n mod 36"
      using "1.prems" by (subst (asm) (1 2) nat_radix36.simps, simp add: radix36_digit_eq)+
    with "1.IH" False show ?thesis by (metis div_mult_mod_eq)
  qed
qed

lemma hd_nat_radix36: "hd (nat_radix36 n) \<noteq> 45"
proof (induction n rule: nat_radix36.induct)
  case (1 n)
  then show ?case by (subst nat_radix36.simps) (auto simp: radix36_digit_def)
qed

lemma to_string36_inj: "to_string36 a = to_string36 b \<longleftrightarrow> a = b"
proof
  assume eq: "to_string36 a = to_string36 b"
  have no: "45 # s \<noteq> nat_radix36 n" for s n by (metis hd_nat_radix36 list.sel(1))
  show "a = b"
    using eq no no [symmetric] by (auto simp: to_string36_def dest!: nat_radix36_inj split: if_splits)
qed simp

section \<open>Properties\<close>

text \<open>C14: a range rule is printed as \<open>f >= a || f < b\<close>. The card does not evaluate that: from a
  start up to the end it asks \<open>a \<le> v \<le> b\<close>, otherwise \<open>a \<le> v\<close> or \<open>v \<le> b\<close>. The two agree, for a range that does not
  wrap, exactly inside the range (what is billed is always true), and for a range over midnight
  except at the end hour itself, where the card shows the rule's price and the bill does not
  apply it.\<close>

theorem range_rule_card_vs_bill:
  assumes "fn \<in> set TIME_FUNCS" "plain_arg tz" "NUMERIC_LITERAL_REGEX s" "NUMERIC_LITERAL_REGEX e"
    "str_to_num s = Fin a" "str_to_num e = Fin b" "timeValueInZone fmt (Str fn) (Str tz) = Inr (Fin v)"
  shows "buildRequestConditionExpr (time_cond fn tz MATCH_RANGE [] s e) =
      Inr (qcall fn tz @ lit '' >= '' @ s @ lit '' || '' @ qcall fn tz @ lit '' < '' @ e) \<and>
    (evalRuleConditionAtTime fmt (time_cond fn tz MATCH_RANGE [] s e) = Inr (Some (a \<le> v \<or> v < b)) \<longleftrightarrow>
     (if a \<le> b then a \<le> v \<and> v \<le> b else v \<noteq> b))"
proof -
  have "evalRuleConditionAtTime fmt (time_cond fn tz MATCH_RANGE [] s e) =
      Inr (Some (if a \<le> b then a \<le> v \<and> v \<le> b else a \<le> v \<or> v \<le> b))"
    using assms(5-7) by (auto simp: evalRuleConditionAtTime_def time_cond_def no_cond_def num_le_def num_eq_def Let_def)
  then show ?thesis using build_range [OF assms(1-4)] by (auto simp: range_text_def)
qed

definition zone_at_six :: zone_fmt where
  "zone_at_six = (\<lambda>tz. Inr [(lit ''hour'', lit ''06'')])"

theorem range_rule_card_vs_bill_witness:
  "evalRuleConditionAtTime zone_at_six (time_cond (lit ''hour'') (lit ''Asia/Shanghai'') MATCH_RANGE [] (lit ''22'') (lit ''6'')) \<noteq>
    Inr (Some ((22::rat) \<le> 6 \<or> 6 < (6::rat)))"
proof -
  have 1: "lit ''hour'' \<in> set TIME_FUNCS" by (simp add: TIME_FUNCS_def)
  have 2: "plain_arg (lit ''Asia/Shanghai'')" by code_simp
  have 3: "NUMERIC_LITERAL_REGEX (lit ''22'')" "NUMERIC_LITERAL_REGEX (lit ''6'')" by code_simp+
  have 4: "str_to_num (lit ''22'') = Fin 22" by code_simp
  have 5: "str_to_num (lit ''6'') = Fin 6" by code_simp
  have "str_to_num (lit ''06'') = Fin 6" by code_simp
  then have 6: "timeValueInZone zone_at_six (Str (lit ''hour'')) (Str (lit ''Asia/Shanghai'')) = Inr (Fin 6)"
    by (simp add: timeValueInZone_def zone_at_six_def part_value_def)
  show ?thesis using range_rule_card_vs_bill [OF 1 2 3 4 5 6] by auto
qed




text \<open>When no group is selected, or the selected one has no ratio, the price is that of an
  enabled group whose ratio no other enabled group undercuts.\<close>

theorem used_group_is_cheapest:
  assumes "pa_selectedGroup a = lit ''all'' \<or> map_of (pa_groupRatio a) (pa_selectedGroup a) = None"
    "\<forall>x \<in> set (pa_groupRatio a). is_finite (snd x)"
    "h \<in> set (enable_groups (pa_record a))" "map_of (pa_groupRatio a) h = Some q"
    "used_group a = (g, r)"
  shows "g \<in> set (enable_groups (pa_record a)) \<and> map_of (pa_groupRatio a) g = Some r \<and> num_le r q"
proof -
  let ?u = "(pa_selectedGroup a, map_of (pa_groupRatio a) (pa_selectedGroup a))"
  obtain g0 r0 where p: "pick_min (pa_groupRatio a) PInf ?u (enable_groups (pa_record a)) = (g0, r0)"
    by (cases "pick_min (pa_groupRatio a) PInf ?u (enable_groups (pa_record a))")
  have "is_finite q" using assms(2,4) by (auto dest!: map_of_SomeD)
  then have "\<not> num_le PInf q" by (cases q) (auto simp: num_le_def num_eq_def)
  with pick_min_spec [OF p _ assms(2)] assms(3,4)
  have "g0 \<in> set (enable_groups (pa_record a))" "map_of (pa_groupRatio a) g0 = r0" "r0 \<noteq> None" "num_le (the r0) q"
    by auto
  moreover have "(g, r) = (g0, the r0)"
    using assms(1,5) p \<open>r0 \<noteq> None\<close> by (auto simp: used_group_def Let_def)
  ultimately show ?thesis by auto
qed

definition sample_args :: price_args where
  "sample_args = \<lparr>pa_record = [(lit ''enable_groups'', Arr [Str (lit ''vip''), Str (lit ''default'')])],
     pa_selectedGroup = lit ''all'', pa_groupRatio = [(lit ''default'', Fin 1), (lit ''vip'', Fin (1 / 2))],
     pa_tokenUnit = lit ''M'', pa_currency = lit ''USD'', pa_quotaDisplayType = lit ''USD'', pa_precision = 4,
     pa_applyRuleMultiplier = True\<rparr>"

theorem used_group_is_cheapest_witness:
  "used_group sample_args = (lit ''vip'', Fin (1 / 2)) \<and> num_le (Fin (1 / 2)) (Fin 1)"
proof -
  have u: "used_group sample_args = (lit ''vip'', Fin (1 / 2))"
    by (simp add: used_group_def sample_args_def enable_groups_def)
  from used_group_is_cheapest [OF _ _ _ _ u, of "lit ''default''" "Fin 1"] u show ?thesis
    by (simp add: sample_args_def enable_groups_def)
qed

text \<open>The fingerprint of a text is at most seven units long, and two texts have the same
  fingerprint exactly when their 32-bit hashes \<open>h \<sqdot> 33 + c\<close> coincide: the signed shifts and sums of
  the loop lose nothing but the overflow.\<close>

theorem stableStringHash_spec:
  assumes "s \<noteq> []" "t \<noteq> []"
  shows "length (stableStringHash s) \<le> 7 \<and> (stableStringHash s = stableStringHash t \<longleftrightarrow> djb2 s = djb2 t)"
proof -
  have "- (2 ^ 31) \<le> sint (djb2 s)" "sint (djb2 s) < 2 ^ 31"
    using sint_ge [of "djb2 s"] sint_lt [of "djb2 s"] by simp_all
  then have "nat (- sint (djb2 s)) < 36 ^ Suc 5" "nat (sint (djb2 s)) < 36 ^ Suc 5" by simp_all
  from this [THEN length_nat_radix36] have "length (stableStringHash s) \<le> 7"
    using assms by (simp add: stableStringHash_def to_string36_def hash_is_djb2)
  moreover have "stableStringHash s = stableStringHash t \<longleftrightarrow> djb2 s = djb2 t"
    using assms by (auto simp: stableStringHash_def hash_is_djb2 to_string36_inj dest: signed_word_eqI)
  ultimately show ?thesis ..
qed

theorem stableStringHash_spec_witness:
  "length (stableStringHash (lit ''hello'')) \<le> 7 \<and>
   (stableStringHash (lit ''hello'') = stableStringHash (lit ''world'') \<longleftrightarrow> djb2 (lit ''hello'') = djb2 (lit ''world''))"
  using stableStringHash_spec [of "lit ''hello''" "lit ''world''"] by simp

end
