(* ===== verification/Quota_Display.thy ===== *)
theory Quota_Display
  imports Model_Price
begin

text \<open>
  Amounts on the screen, from \<open>helpers/render.jsx\<close>: numbers, quotas converted to money with the
  stored \<open>quota_per_unit\<close>, the currency configuration, ratios and the choice between price and
  ratio display. \<open>store\<close> is what the functions read of \<open>localStorage\<close>, \<open>None\<close> for a missing key;
  \<open>tr key vars\<close> stands for \<open>i18next.t\<close>.
\<close>

record store =
  quota_display_type :: "jsstr option"
  status_text :: "jsstr option"
  quota_per_unit_text :: "jsstr option"

type_synonym translate = "jsval \<Rightarrow> (jsstr \<times> jsval) list \<Rightarrow> jsstr"

definition getQuotaDisplayType :: "store \<Rightarrow> jsstr" where
  "getQuotaDisplayType st = (case quota_display_type st of
     None \<Rightarrow> lit ''USD'' | Some s \<Rightarrow> if s = [] then lit ''USD'' else s)"

text \<open>\<open>if (statusStr) { const s = JSON.parse(statusStr); ... }\<close> inside a \<open>try\<close>: the parsed status, if
  there is one.\<close>

definition stored_status :: "store \<Rightarrow> jsval option" where
  "stored_status st = (case status_text st of
     None \<Rightarrow> None
   | Some s \<Rightarrow> if s = [] then None else (case json_parse s of Inl e \<Rightarrow> None | Inr v \<Rightarrow> Some v))"

definition status_or :: "store \<Rightarrow> string \<Rightarrow> jsval \<Rightarrow> jsval" where
  "status_or st k d = (case stored_status st of None \<Rightarrow> d | Some s \<Rightarrow> js_or (opt_prop s (lit k)) d)"

section \<open>Numbers\<close>

definition renderNumber :: "jsval \<Rightarrow> jsval" where
  "renderNumber num =
     (let x = to_num num
      in if num_le (Fin 1000000000) x then Str (to_fixed 1 (num_div x (Fin 1000000000)) @ lit ''B'')
         else if num_le (Fin 1000000) x then Str (to_fixed 1 (num_div x (Fin 1000000)) @ lit ''M'')
         else if num_le (Fin 10000) x then Str (to_fixed 1 (num_div x (Fin 1000)) @ lit ''k'')
         else num)"

definition renderQuotaNumberWithDigit :: "store \<Rightarrow> jsval \<Rightarrow> nat \<Rightarrow> jsval" where
  "renderQuotaNumberWithDigit st num digits = (case num of
     Num x \<Rightarrow>
       if x = NaN then Num (Fin 0)
       else (let ty = getQuotaDisplayType st; s = to_fixed digits x
         in if ty = lit ''CNY'' then Str ([165] @ s)
            else if ty = lit ''USD'' then Str (lit ''$'' @ s)
            else if ty = lit ''CUSTOM'' then Str (to_str (status_or st ''custom_currency_symbol'' (Str [164])) @ s)
            else Str s)
   | _ \<Rightarrow> Num (Fin 0))"

definition renderNumberWithPoint :: "jsval \<Rightarrow> jsval res" where
  "renderNumberWithPoint num = (case num of
     Undefined \<Rightarrow> Inr (Str [])
   | Num x \<Rightarrow>
       (let s = to_fixed 2 x
        in if num_le (Fin 100000) (str_to_num s)
           then (let wholePart = takeWhile (\<lambda>c. c \<noteq> 46) s; decimalPart = dropWhile (\<lambda>c. c \<noteq> 46) s
                 in Inr (Str (take 2 wholePart @ lit ''..'' @ drop (length wholePart - 2) wholePart @ decimalPart)))
           else Inr (Str s))
   | _ \<Rightarrow> Inl TypeError)"

section \<open>Quotas\<close>

definition DEFAULT_QUOTA_PER_UNIT :: jsnum where
  "DEFAULT_QUOTA_PER_UNIT = Fin 500000"

definition readQuotaPerUnit :: "store \<Rightarrow> jsnum" where
  "readQuotaPerUnit st = (case quota_per_unit_text st of
     None \<Rightarrow> NaN
   | Some raw \<Rightarrow>
       if raw = [] \<or> raw = lit ''undefined'' \<or> raw = lit ''null'' then NaN
       else (let num = parse_float raw in if \<not> is_finite num \<or> num_le num (Fin 0) then NaN else num))"

definition getQuotaPerUnit :: "store \<Rightarrow> jsnum" where
  "getQuotaPerUnit st = (let num = readQuotaPerUnit st in if is_finite num then num else DEFAULT_QUOTA_PER_UNIT)"

definition renderUnitWithQuota :: "store \<Rightarrow> jsval \<Rightarrow> jsnum" where
  "renderUnitWithQuota st quota =
     (let quotaPerUnit = readQuotaPerUnit st; numericQuota = parse_float (to_str quota)
      in if \<not> is_finite quotaPerUnit \<or> \<not> is_finite numericQuota then Fin 0 else num_mul quotaPerUnit numericQuota)"

definition getQuotaWithUnit :: "store \<Rightarrow> jsval \<Rightarrow> nat \<Rightarrow> jsstr" where
  "getQuotaWithUnit st quota digits =
     (let quotaPerUnit = readQuotaPerUnit st; numericQuota = to_num quota
      in if \<not> is_finite quotaPerUnit \<or> \<not> is_finite numericQuota then to_fixed digits (Fin 0)
         else to_fixed digits (num_div numericQuota quotaPerUnit))"

definition renderQuotaWithAmount :: "store \<Rightarrow> jsval \<Rightarrow> jsval" where
  "renderQuotaWithAmount st amount =
     (let ty = getQuotaDisplayType st
      in if ty = lit ''TOKENS'' then renderNumber (Num (renderUnitWithQuota st amount))
         else (let x = to_num amount;
                   formatted = (if is_finite x then to_fixed 2 x else to_str amount)
           in if ty = lit ''CNY'' then Str ([165] @ formatted)
              else if ty = lit ''CUSTOM'' then Str (to_str (status_or st ''custom_currency_symbol'' (Str [164])) @ formatted)
              else Str (lit ''$'' @ formatted)))"

text \<open>Symbol, rate and type.\<close>

definition getCurrencyConfig :: "store \<Rightarrow> jsval \<times> jsval \<times> jsstr" where
  "getCurrencyConfig st =
     (let ty = getQuotaDisplayType st
      in if ty = lit ''CNY''
         then (Str [165], (case stored_status st of None \<Rightarrow> Num (Fin 1)
                | Some s \<Rightarrow> js_or (opt_prop s (lit ''usd_exchange_rate'')) (Num (Fin 7))), ty)
         else if ty = lit ''CUSTOM''
         then (case stored_status st of None \<Rightarrow> (Str (lit ''$''), Num (Fin 1), ty)
                | Some s \<Rightarrow> (js_or (opt_prop s (lit ''custom_currency_symbol'')) (Str [164]),
                    js_or (opt_prop s (lit ''custom_currency_exchange_rate'')) (Num (Fin 1)), ty))
         else (Str (lit ''$''), Num (Fin 1), ty))"

definition convertUSDToCurrency :: "store \<Rightarrow> jsnum \<Rightarrow> nat \<Rightarrow> jsstr" where
  "convertUSDToCurrency st usdAmount digits = (case getCurrencyConfig st of (symbol, rate, _) \<Rightarrow>
     to_str symbol @ to_fixed digits (num_mul usdAmount (to_num rate)))"

text \<open>The symbol and the value of \<open>renderQuota\<close>, which reads the status with defaults of its own.\<close>

definition quota_value :: "store \<Rightarrow> jsnum \<Rightarrow> jsval \<times> jsnum" where
  "quota_value st resultUSD =
     (let ty = getQuotaDisplayType st
      in if ty = lit ''CNY'' then (Str [165], num_mul resultUSD (to_num (status_or st ''usd_exchange_rate'' (Num (Fin 1)))))
         else if ty = lit ''CUSTOM''
           then (status_or st ''custom_currency_symbol'' (Str [164]),
                 num_mul resultUSD (to_num (status_or st ''custom_currency_exchange_rate'' (Num (Fin 1)))))
         else (Str (lit ''$''), resultUSD))"

definition renderQuota :: "store \<Rightarrow> jsval \<Rightarrow> nat \<Rightarrow> jsval" where
  "renderQuota st quota digits =
     (let q = to_num quota; quotaPerUnit = readQuotaPerUnit st
      in if \<not> is_finite q then Str (lit ''--'')
         else if getQuotaDisplayType st = lit ''TOKENS'' then renderNumber (Num q)
         else if \<not> is_finite quotaPerUnit then Str (lit ''--'')
         else (case quota_value st (num_div q quotaPerUnit) of (symbol, v) \<Rightarrow>
           (let fixedResult = to_fixed digits v
            in if parse_float fixedResult = Fin 0 \<and> num_lt (Fin 0) q \<and> num_lt (Fin 0) v
               then Str (to_str symbol @ to_fixed digits (rnd (pow10 (- int digits))))
               else Str (to_str symbol @ fixedResult))))"

section \<open>Ratios\<close>

definition isValidGroupRatio :: "jsval \<Rightarrow> bool" where
  "isValidGroupRatio ratio = (case ratio of Num x \<Rightarrow> is_finite x \<and> x \<noteq> Fin (- 1) | _ \<Rightarrow> False)"

record effective_ratio =
  er_ratio :: jsval
  er_label :: jsstr
  er_user :: bool

definition getEffectiveRatio :: "translate \<Rightarrow> jsval \<Rightarrow> jsval \<Rightarrow> effective_ratio" where
  "getEffectiveRatio tr groupRatio user_group_ratio =
     (let useUser = isValidGroupRatio user_group_ratio
      in \<lparr>er_ratio = (if useUser then user_group_ratio else groupRatio),
          er_label = (if useUser then tr (Str ([19987, 23646, 20493, 29575])) [] else tr (Str ([20998, 32452, 20493, 29575])) []),
          er_user = useUser\<rparr>)"

definition getGroupRatioText :: "translate \<Rightarrow> jsval \<Rightarrow> jsval \<Rightarrow> jsstr" where
  "getGroupRatioText tr groupRatio user_group_ratio =
     (let e = getEffectiveRatio tr groupRatio user_group_ratio
      in tr (Str (lit ''{{ratioType}} {{ratio}}x'')) [(lit ''ratioType'', Str (er_label e)), (lit ''ratio'', er_ratio e)])"

text \<open>\<open>modelPrice\<close> is a number, -1 by default.\<close>

definition resolveBillingDisplayMode :: "store \<Rightarrow> jsstr \<Rightarrow> jsnum \<Rightarrow> jsstr" where
  "resolveBillingDisplayMode st displayMode modelPrice =
     (if modelPrice \<noteq> Fin (- 1) then lit ''price''
      else if getQuotaDisplayType st = lit ''TOKENS'' then lit ''ratio''
      else if displayMode = lit ''ratio'' then lit ''ratio'' else lit ''price'')"

definition isPriceDisplayMode :: "store \<Rightarrow> jsstr \<Rightarrow> jsnum \<Rightarrow> bool" where
  "isPriceDisplayMode st displayMode modelPrice \<longleftrightarrow> resolveBillingDisplayMode st displayMode modelPrice = lit ''price''"

definition shouldUseRatioBillingProcess :: "store \<Rightarrow> jsnum \<Rightarrow> bool" where
  "shouldUseRatioBillingProcess st modelPrice \<longleftrightarrow> modelPrice = Fin (- 1) \<and> getQuotaDisplayType st = lit ''TOKENS''"

definition formatCompactDisplayPrice :: "store \<Rightarrow> jsnum \<Rightarrow> nat \<Rightarrow> jsstr" where
  "formatCompactDisplayPrice st usdAmount digits = (case getCurrencyConfig st of (symbol, rate, _) \<Rightarrow>
     to_str symbol @ num_to_str (str_to_num (to_fixed digits (num_mul usdAmount (to_num rate)))))"

definition joinBillingSummary :: "jsstr list \<Rightarrow> jsstr" where
  "joinBillingSummary parts = join [65292] (filter (\<lambda>p. p \<noteq> []) parts)"

definition formatRatioValue :: "jsval \<Rightarrow> nat \<Rightarrow> jsnum" where
  "formatRatioValue v digits =
     (let num = to_num v in if \<not> is_finite num then Fin 0 else str_to_num (to_fixed digits num))"

definition renderDisplayAmountFromUsd :: "store \<Rightarrow> jsval \<Rightarrow> nat \<Rightarrow> jsval" where
  "renderDisplayAmountFromUsd st usdAmount digits =
     renderQuotaWithAmount st (Num (str_to_num (to_fixed digits (to_num (js_or usdAmount (Num (Fin 0)))))))"

definition formatBillingDisplayPrice :: "jsnum \<Rightarrow> jsval \<Rightarrow> nat \<Rightarrow> jsstr" where
  "formatBillingDisplayPrice usdAmount rate digits = to_fixed digits (num_mul usdAmount (to_num rate))"

text \<open>The lines of an article: the empty ones are dropped, a note follows.\<close>

definition renderBillingArticle :: "translate \<Rightarrow> jsstr list \<Rightarrow> jsstr list" where
  "renderBillingArticle tr lines = filter (\<lambda>l. l \<noteq> []) lines @ [tr (Str ([20165, 20379, 21442, 32771, 65292, 20197, 23454, 38469, 25187, 36153, 20026, 20934])) []]"

end
