(* ===== verification/Tier_Display.thy ===== *)
theory Tier_Display
  imports Quota_Display
begin

text \<open>
  Tiered billing in the logs, from \<open>helpers/render.jsx\<close>: reading tiers out of an expression,
  choosing the tier a request was billed with, the tokens each variable counts, the rule
  multiplier derived from the charged quota, and the texts shown.

  \<open>decode\<close> stands for \<open>decodeTieredExprB64\<close>, that is the browser's \<open>atob\<close> and \<open>TextDecoder\<close>; it
  fails on a text that is not base64.
\<close>

section \<open>Tiers of an expression\<close>

definition stripExprVersion :: "jsstr \<Rightarrow> jsnum \<times> jsstr" where
  "stripExprVersion exprStr =
     (if exprStr = [] then (Fin 1, [])
      else case strip_version exprStr of Some (n, b) \<Rightarrow> (str_to_num n, b) | None \<Rightarrow> (Fin 1, exprStr))"

text \<open>Prices by field, in the order of the variables; 0 where the body does not price it.\<close>

definition parseTierBody :: "jsstr \<Rightarrow> (jsstr \<times> jsnum) list" where
  "parseTierBody bodyStr =
     (let coeffs = base_coeffs bodyStr
      in map (\<lambda>(varName, field). (field, case map_of coeffs varName of
           None \<Rightarrow> Fin 0 | Some x \<Rightarrow> if x = NaN then Fin 0 else x)) BILLING_VAR_KEY_TO_FIELD)"

record shown_tier =
  st_prices :: "(jsstr \<times> jsnum) list"
  st_label :: jsstr
  st_conditions :: "jsval list"

definition display_tier_re :: re where
  "display_tier_re = Seq (Opt (Seqs [condGroup, Ws, Lit (lit ''?''), Ws]))
     (Seqs [Lit (lit ''tier('' @ [34]), Cap 2 (Star (Cls (\<lambda>c. c \<noteq> 34))), Lit ([34] @ lit '',''), Ws,
        Cap 3 (Plus (Cls (\<lambda>c. c \<noteq> 41))), Lit (lit '')'')])"

definition cap_or_empty :: "re_match \<Rightarrow> nat \<Rightarrow> jsstr" where
  "cap_or_empty m i = (case cap m i of None \<Rightarrow> [] | Some w \<Rightarrow> w)"

definition parseTiersFromExpr :: "jsstr \<Rightarrow> shown_tier list" where
  "parseTiersFromExpr exprStr =
     (if exprStr = [] then []
      else map (\<lambda>m. \<lparr>st_prices = parseTierBody (cap_or_empty m 3), st_label = cap_or_empty m 2,
             st_conditions = parse_conditions (cap_or_empty m 1)\<rparr>)
           (re_all display_tier_re (snd (stripExprVersion exprStr))))"

definition tier_price :: "shown_tier \<Rightarrow> billing_var \<Rightarrow> jsnum" where
  "tier_price tier v = (case map_of (st_prices tier) (bv_field v) of None \<Rightarrow> Fin 0 | Some x \<Rightarrow> x)"

section \<open>The matched tier\<close>

text \<open>\<open>replace(/<[=\<dots>]?|\<le>|\<dots>/g, '<')\<close>, for each of the two signs: \<open>ascii\<close> and \<open>wide\<close> may be followed by an equality
  sign, \<open>eq\<close> is the sign with equality.\<close>

fun fold_sign :: "nat \<Rightarrow> nat \<Rightarrow> nat \<Rightarrow> jsstr \<Rightarrow> jsstr" where
  "fold_sign ascii eq wide [] = []"
| "fold_sign ascii eq wide [c] = [if c = eq \<or> c = wide then ascii else c]"
| "fold_sign ascii eq wide (c # d # cs) =
     (if c = ascii \<or> c = wide
      then ascii # (if d = 61 \<or> d = 65309 then fold_sign ascii eq wide cs else fold_sign ascii eq wide (d # cs))
      else (if c = eq then ascii else c) # fold_sign ascii eq wide (d # cs))"

definition normalizeTierLabel :: "jsval \<Rightarrow> jsstr" where
  "normalizeTierLabel label = (if \<not> truthy label then []
     else to_lower (strip_ws (fold_sign 62 8805 65310 (fold_sign 60 8804 65308 (to_str label)))))"

definition findMatchedTier :: "shown_tier list \<Rightarrow> jsval \<Rightarrow> shown_tier option" where
  "findMatchedTier tiers matchedTier =
     (let target = normalizeTierLabel matchedTier
      in case find (\<lambda>t. normalizeTierLabel (Str (st_label t)) \<noteq> [] \<and> normalizeTierLabel (Str (st_label t)) = target) tiers of
           Some t \<Rightarrow> Some t
         | None \<Rightarrow> (case tiers of [t] \<Rightarrow> Some t | _ \<Rightarrow> None))"

section \<open>Tokens\<close>

text \<open>The tokens of each variable; \<open>opts\<close> is the log's \<open>other\<close> object with the token counts.\<close>

definition used_vars :: "jsstr \<Rightarrow> jsstr set" where
  "used_vars exprStr = set (map (\<lambda>m. cap_or_empty m 1) (re_all BILLING_VAR_REGEX exprStr))"

definition clamp0 :: "jsnum \<Rightarrow> jsnum" where
  "clamp0 x = (if num_lt x (Fin 0) then Fin 0 else x)"

definition getTieredEffectiveTokens :: "jsobj \<Rightarrow> jsstr \<Rightarrow> (jsstr \<times> jsnum) list" where
  "getTieredEffectiveTokens opts exprStr =
     (let isClaude = (obj_get opts (lit ''usage_semantic'') = Str (lit ''anthropic''));
          used = used_vars exprStr;
          get = (\<lambda>k. number_or_0 (obj_get opts (lit k)));
          cr = get ''cache_tokens''; cc5m = get ''cache_creation_tokens_5m''; cc1h = get ''cache_creation_tokens_1h'';
          ccGeneric = get ''cache_creation_tokens'';
          cc = (if isClaude then cc5m else if cc5m \<noteq> Fin 0 then cc5m else ccGeneric);
          sub = (\<lambda>v n p. if \<not> isClaude \<and> lit v \<in> used then num_sub p n else p);
          p = sub ''cc1h'' cc1h (sub ''cc'' cc (sub ''cr'' cr (get ''prompt_tokens'')))
      in [(lit ''p'', clamp0 p), (lit ''c'', clamp0 (get ''completion_tokens'')), (lit ''cr'', cr), (lit ''cc'', cc),
          (lit ''cc1h'', cc1h)])"

definition tokens_of :: "(jsstr \<times> jsnum) list \<Rightarrow> billing_var \<Rightarrow> jsnum" where
  "tokens_of tokens v = (case map_of tokens (bv_key v) of None \<Rightarrow> Fin 0 | Some n \<Rightarrow> if n = NaN then Fin 0 else n)"

section \<open>Rules that fired\<close>

datatype firing = FiredTime jsstr jsnum | FiredRequest jsstr jsnum | FiredMulti jsnum

definition describeFiringRules :: "translate \<Rightarrow> jsstr \<Rightarrow> jsnum \<Rightarrow> firing option res" where
  "describeFiringRules tr exprStr m =
     (if exprStr = [] \<or> num_le (math_abs (num_sub m (Fin 1))) (rnd (1 / 10000)) then Inr None
      else case splitBillingExprAndRequestRules exprStr of
        Inl e \<Rightarrow> Inl e
      | Inr b \<Rightarrow>
          if requestRuleExpr b = [] then Inr None
          else (case tryParseRequestRuleExpr (requestRuleExpr b) of
            Inl e \<Rightarrow> Inl e
          | Inr None \<Rightarrow> Inr None
          | Inr (Some groups) \<Rightarrow>
              if groups = [] then Inr None
              else (case find (\<lambda>g. num_lt (math_abs (num_sub (to_num (g_multiplier g)) m)) (rnd (1 / 10000))) groups of
                Some g \<Rightarrow>
                  (let desc = describeRuleGroup g (\<lambda>key. tr key []);
                       isTime = (group_conds g \<noteq> [] \<and> c_source (hd (group_conds g)) = Str SOURCE_TIME)
                   in Inr (Some ((if isTime then FiredTime else FiredRequest) desc (to_num (g_multiplier g)))))
              | None \<Rightarrow> Inr (Some (FiredMulti m)))))"

definition fixed4 :: "jsnum \<Rightarrow> jsnum" where
  "fixed4 m = str_to_num (to_fixed 4 m)"

definition tieredRuleKindLabel :: "translate \<Rightarrow> bool \<Rightarrow> jsstr" where
  "tieredRuleKindLabel tr isTime = (if isTime then tr (Str ([26102, 38388, 26465, 20214])) [] else tr (Str ([35831, 27714, 26465, 20214])) [])"

definition formatRuleMultiplierFactor :: "translate \<Rightarrow> firing option \<Rightarrow> jsnum \<Rightarrow> jsstr option" where
  "formatRuleMultiplierFactor tr firing m = (case firing of
     None \<Rightarrow> None
   | Some (FiredMulti x) \<Rightarrow> Some (tr (Str ([35831, 27714, 35268, 21017, 20493, 29575, 32, 123, 123, 114, 97, 116, 105, 111, 125, 125])) [(lit ''ratio'', Num (fixed4 m))])
   | Some (FiredTime d x) \<Rightarrow> Some (tieredRuleKindLabel tr True @ lit ''('' @ d @ lit '') '' @ num_to_str (fixed4 x))
   | Some (FiredRequest d x) \<Rightarrow> Some (tieredRuleKindLabel tr False @ lit ''('' @ d @ lit '') '' @ num_to_str (fixed4 x)))"

section \<open>Texts\<close>

text \<open>The texts of a variable: before and after the name of \<open>tieredPriceLine\<close>, \<open>tieredPriceLineColon\<close>
  and \<open>tieredFormulaTerm\<close>; variables without one give the empty text.\<close>

definition line_names :: "(jsstr \<times> jsstr) list" where
  "line_names = [(lit ''p'', [36755, 20837, 20215, 26684]), (lit ''c'', [36755, 20986, 20215, 26684]), (lit ''cr'', [32531, 23384, 35835, 21462, 20215, 26684]), (lit ''cc'', [32531, 23384, 21019, 24314, 20215, 26684]),
     (lit ''cc1h'', [49, 104, 32531, 23384, 21019, 24314, 20215, 26684]), (lit ''img'', [22270, 29255, 36755, 20837, 20215, 26684]), (lit ''img_o'', [22270, 29255, 36755, 20986, 20215, 26684]),
     (lit ''ai'', [38899, 39057, 36755, 20837, 20215, 26684]), (lit ''ao'', [38899, 39057, 36755, 20986, 20215, 26684])]"

definition term_names :: "(jsstr \<times> jsstr) list" where
  "term_names = [(lit ''p'', [36755, 20837]), (lit ''c'', [36755, 20986]), (lit ''cr'', [32531, 23384, 35835, 21462]), (lit ''cc'', [32531, 23384, 21019, 24314]),
     (lit ''cc1h'', [49, 104, 32531, 23384, 21019, 24314]), (lit ''img'', [22270, 29255, 36755, 20837]), (lit ''img_o'', [22270, 29255, 36755, 20986]),
     (lit ''ai'', [38899, 39057, 36755, 20837]), (lit ''ao'', [38899, 39057, 36755, 20986])]"

definition tieredPriceLine :: "translate \<Rightarrow> jsstr \<Rightarrow> (jsstr \<times> jsval) list \<Rightarrow> jsstr" where
  "tieredPriceLine tr varKey vars = (case map_of line_names varKey of
     None \<Rightarrow> [] | Some n \<Rightarrow> tr (Str (n @ lit '' {{symbol}}{{price}} / 1M tokens'')) vars)"

definition tieredPriceLineColon :: "translate \<Rightarrow> jsstr \<Rightarrow> (jsstr \<times> jsval) list \<Rightarrow> jsstr" where
  "tieredPriceLineColon tr varKey vars = (case map_of line_names varKey of
     None \<Rightarrow> [] | Some n \<Rightarrow> tr (Str (n @ [65306] @ lit ''{{symbol}}{{price}} / 1M tokens'')) vars)"

definition tieredFormulaTerm :: "translate \<Rightarrow> jsstr \<Rightarrow> (jsstr \<times> jsval) list \<Rightarrow> jsstr" where
  "tieredFormulaTerm tr varKey vars = (case map_of term_names varKey of
     None \<Rightarrow> [] | Some n \<Rightarrow> tr (Str (n @ lit '' {{tokens}} tokens / 1M tokens * {{symbol}}{{price}}'')) vars)"

definition active_vars :: "shown_tier \<Rightarrow> (jsstr \<times> jsnum) list \<Rightarrow> billing_var list" where
  "active_vars tier tokens =
     filter (\<lambda>v. num_lt (Fin 0) (tier_price tier v) \<and> num_lt (Fin 0) (tokens_of tokens v)) BILLING_PRICING_VARS"

definition priced_vars :: "shown_tier \<Rightarrow> (jsstr \<times> jsnum) list \<Rightarrow> billing_var list" where
  "priced_vars tier tokens =
     filter (\<lambda>v. num_lt (Fin 0) (tier_price tier v) \<and> (bv_isBase v \<or> num_lt (Fin 0) (tokens_of tokens v))) BILLING_PRICING_VARS"

text \<open>The cost of one variable, and the base cost as the breakdown (over the active variables) and the
  log rows (over all variables, guarded) add it up.\<close>

definition var_cost :: "shown_tier \<Rightarrow> (jsstr \<times> jsnum) list \<Rightarrow> billing_var \<Rightarrow> jsnum" where
  "var_cost tier tokens v = num_div (num_mul (tier_price tier v) (tokens_of tokens v)) (Fin 1000000)"

definition breakdown_base :: "shown_tier \<Rightarrow> (jsstr \<times> jsnum) list \<Rightarrow> jsnum" where
  "breakdown_base tier tokens = foldl (\<lambda>acc v. num_add acc (var_cost tier tokens v)) (Fin 0) (active_vars tier tokens)"

definition row_base :: "shown_tier \<Rightarrow> (jsstr \<times> jsnum) list \<Rightarrow> jsnum" where
  "row_base tier tokens = foldl (\<lambda>acc v.
     if num_lt (Fin 0) (tier_price tier v) \<and> num_lt (Fin 0) (tokens_of tokens v)
     then num_add acc (var_cost tier tokens v) else acc) (Fin 0) BILLING_PRICING_VARS"

definition quota_per_unit_of :: "store \<Rightarrow> jsobj \<Rightarrow> jsnum" where
  "quota_per_unit_of st opts =
     to_num (js_or (js_or (obj_get opts (lit ''tiered_quota_per_unit'')) (Num (getQuotaPerUnit st))) (Num (Fin 500000)))"

definition rule_multiplier_of :: "store \<Rightarrow> jsobj \<Rightarrow> jsnum \<Rightarrow> jsnum" where
  "rule_multiplier_of st opts base = (case obj_get opts (lit ''tiered_actual_quota_before_group'') of
     Num actual \<Rightarrow>
       if num_lt (Fin 0) base
       then (let q = num_mul base (quota_per_unit_of st opts) in if num_lt (Fin 0) q then num_div actual q else Fin 1)
       else Fin 1
   | _ \<Rightarrow> Fin 1)"

section \<open>What the logs show\<close>

definition expr_of :: "(jsval \<Rightarrow> jsstr option) \<Rightarrow> jsobj \<Rightarrow> jsstr" where
  "expr_of decode opts =
     (let b = obj_get opts (lit ''expr_b64'')
      in if \<not> truthy b then [] else (case decode b of None \<Rightarrow> [] | Some s \<Rightarrow> s))"

definition parse_failed :: jsstr where
  "parse_failed = [38454, 26799, 35745, 36153, 65288, 34920, 36798, 24335, 35299, 26512, 22833, 36133, 65289]"

definition no_tier_matched :: jsstr where
  "no_tier_matched = [38454, 26799, 35745, 36153, 65288, 26410, 21305, 37197, 21040, 23545, 24212, 38454, 26799, 65289]"

definition price_vars :: "jsval \<Rightarrow> jsval \<Rightarrow> shown_tier \<Rightarrow> billing_var \<Rightarrow> (jsstr \<times> jsval) list" where
  "price_vars symbol rate tier v =
     [(lit ''symbol'', symbol), (lit ''price'', Str (formatBillingDisplayPrice (tier_price tier v) rate 6))]"

text \<open>Either a message or the lines of the breakdown.\<close>

datatype breakdown = Message jsstr | Article "jsstr list"

definition renderTieredModelPrice ::
    "(jsval \<Rightarrow> jsstr option) \<Rightarrow> store \<Rightarrow> translate \<Rightarrow> jsobj \<Rightarrow> breakdown res" where
  "renderTieredModelPrice decode st tr opts =
     (let exprStr = expr_of decode opts; tiers = parseTiersFromExpr exprStr; matched = obj_get opts (lit ''matched_tier'')
      in if tiers = [] then Inr (Message (tr (Str parse_failed) []))
         else case findMatchedTier tiers matched of
           None \<Rightarrow> Inr (Message (tr (Str no_tier_matched) []))
         | Some tier \<Rightarrow>
             (case getCurrencyConfig st of (symbol, rate, _) \<Rightarrow>
               (let er = getEffectiveRatio tr (obj_get opts (lit ''group_ratio'')) (obj_get opts (lit ''user_group_ratio''));
                    gr = js_coalesce (er_ratio er) (Num (Fin 1));
                    tokens = getTieredEffectiveTokens opts exprStr;
                    base = breakdown_base tier tokens;
                    m = rule_multiplier_of st opts base;
                    finalUsd = num_mul (num_mul base m) (to_num gr);
                    additive = map (\<lambda>v. tieredFormulaTerm tr (bv_key v)
                      ((lit ''tokens'', Num (tokens_of tokens v)) # price_vars symbol rate tier v)) (active_vars tier tokens)
                in case describeFiringRules tr exprStr m of
                     Inl e \<Rightarrow> Inl e
                   | Inr firing \<Rightarrow>
                       (let factors = (case formatRuleMultiplierFactor tr firing m of
                                None \<Rightarrow> [] | Some f \<Rightarrow> if f = [] then [] else [f]) @
                              (if num_lt (rnd (1 / 1000000)) (math_abs (num_sub (to_num gr) (Fin 1)))
                               then [er_label er @ lit '' '' @ to_str gr] else []);
                            suffix = (if factors \<noteq> [] then lit '' * '' @ join (lit '' * '') factors else [])
                        in Inr (Article (renderBillingArticle tr (
                             (if length tiers > 1
                              then [tr (Str ([21629, 20013, 26723, 20301, 65306, 123, 123, 116, 105, 101, 114, 125, 125])) [(lit ''tier'', js_or matched (Str (st_label tier)))]] else []) @
                             map (\<lambda>v. tieredPriceLineColon tr (bv_key v) (price_vars symbol rate tier v)) (priced_vars tier tokens) @
                             (if additive \<noteq> []
                              then [lit ''('' @ join (lit '' + '') additive @ lit '')'' @ suffix @ lit '' = '' @
                                    to_str symbol @ formatBillingDisplayPrice finalUsd rate 6] else []))))))))"

definition renderTieredLogContent ::
    "(jsval \<Rightarrow> jsstr option) \<Rightarrow> store \<Rightarrow> translate \<Rightarrow> jsobj \<Rightarrow> jsstr res" where
  "renderTieredLogContent decode st tr opts =
     (let exprStr = expr_of decode opts; tiers = parseTiersFromExpr exprStr; matched = obj_get opts (lit ''matched_tier'')
      in if tiers = [] then Inr (tr (Str parse_failed) [])
         else case findMatchedTier tiers matched of
           None \<Rightarrow> Inr (tr (Str no_tier_matched) [])
         | Some tier \<Rightarrow>
             (case getCurrencyConfig st of (symbol, rate, _) \<Rightarrow>
               (let tokens = getTieredEffectiveTokens opts exprStr;
                    m = rule_multiplier_of st opts (row_base tier tokens)
                in case describeFiringRules tr exprStr m of
                     Inl e \<Rightarrow> Inl e
                   | Inr firing \<Rightarrow> Inr (joinBillingSummary (
                       [if length tiers > 1
                        then tr (Str ([38454, 26799, 35745, 36153, 32, 123, 123, 116, 105, 101, 114, 125, 125, 32, 26723, 20301])) [(lit ''tier'', js_or matched (Str (st_label tier)))]
                        else tr (Str ([38454, 26799, 35745, 36153])) []] @
                       map (\<lambda>v. tieredPriceLine tr (bv_key v) (price_vars symbol rate tier v)) (priced_vars tier tokens) @
                       (case firing of
                          None \<Rightarrow> []
                        | Some (FiredMulti x) \<Rightarrow> [tr (Str ([35831, 27714, 35268, 21017, 20493, 29575, 32, 123, 123, 114, 97, 116, 105, 111, 125, 125, 120])) [(lit ''ratio'', Num (fixed4 m))]]
                        | Some (FiredTime d x) \<Rightarrow> [tieredRuleKindLabel tr True @ lit ''('' @ d @ lit '') '' @ num_to_str (fixed4 x) @ lit ''x'']
                        | Some (FiredRequest d x) \<Rightarrow> [tieredRuleKindLabel tr False @ lit ''('' @ d @ lit '') '' @ num_to_str (fixed4 x) @ lit ''x'']) @
                       [getGroupRatioText tr (obj_get opts (lit ''group_ratio'')) (obj_get opts (lit ''user_group_ratio''))])))))"

text \<open>Segments are pairs of a flag for the primary tone and a text.\<close>

definition renderTieredModelPriceSimple ::
    "(jsval \<Rightarrow> jsstr option) \<Rightarrow> store \<Rightarrow> translate \<Rightarrow> jsobj \<Rightarrow> jsstr \<Rightarrow> jsstr \<Rightarrow> (bool \<times> jsstr) list res" where
  "renderTieredModelPriceSimple decode st tr opts displayMode outputMode =
     (let exprStr = expr_of decode opts; tiers = parseTiersFromExpr exprStr;
          matchedTier = findMatchedTier tiers (obj_get opts (lit ''matched_tier''));
          ratio = (True, getGroupRatioText tr (obj_get opts (lit ''group_ratio'')) (obj_get opts (lit ''user_group_ratio'')));
          positive = (\<lambda>k. num_lt (Fin 0) (to_num (obj_get opts (lit k))));
          anyCache = (positive ''cache_tokens'' \<or> positive ''cache_creation_tokens'' \<or>
            positive ''cache_creation_tokens_5m'' \<or> positive ''cache_creation_tokens_1h'')
      in if outputMode \<noteq> lit ''segments'' then Inr []
         else case matchedTier of
           None \<Rightarrow> Inr (ratio # (if tiers \<noteq> [] then [(False, tr (Str no_tier_matched) [])] else []))
         | Some tier \<Rightarrow>
             (let m = rule_multiplier_of st opts (row_base tier (getTieredEffectiveTokens opts exprStr))
              in case describeFiringRules tr exprStr m of
                   Inl e \<Rightarrow> Inl e
                 | Inr firing \<Rightarrow> Inr (ratio #
                     (case firing of
                        None \<Rightarrow> []
                      | Some (FiredMulti x) \<Rightarrow> [(True, tr (Str ([35831, 27714, 35268, 21017, 20493, 29575, 32, 123, 123, 114, 97, 116, 105, 111, 125, 125, 120])) [(lit ''ratio'', Num (fixed4 m))])]
                      | Some (FiredTime d x) \<Rightarrow> [(True, tieredRuleKindLabel tr True @ lit '' '' @ num_to_str (fixed4 x) @ lit ''x'')]
                      | Some (FiredRequest d x) \<Rightarrow> [(True, tieredRuleKindLabel tr False @ lit '' '' @ num_to_str (fixed4 x) @ lit ''x'')]) @
                     (if isPriceDisplayMode st displayMode (Fin (- 1))
                      then map (\<lambda>v. (False, tr (Str (lit ''{{label}} {{price}} / 1M tokens''))
                             [(lit ''label'', Str (tr (Str (bv_shortLabel v)) [])),
                              (lit ''price'', Str (formatCompactDisplayPrice st (tier_price tier v) 6))]))
                           (filter (\<lambda>v. (bv_group v \<noteq> lit ''cache'' \<or> anyCache) \<and> num_lt (Fin 0) (tier_price tier v)) BILLING_PRICING_VARS)
                      else []))))"

end
