(* ===== verification/Tier_Display_Thms.thy ===== *)
theory Tier_Display_Thms
  imports Tier_Display Tiered_Round_Trip
begin

text \<open>
  Tiered billing in the logs: the tiers read from an expression of the visual editor are the tiers
  edited, the tier shown is the one that was billed, the breakdown and the row of a log agree on
  the base cost, and a positive amount is never shown as zero.
\<close>

section \<open>The pattern of the logs\<close>

definition display_call :: re where
  "display_call = Seqs [Lit (lit ''tier('' @ [34]), Cap 2 (Star (Cls (\<lambda>c. c \<noteq> 34))), Lit ([34] @ lit '',''), Ws,
     Cap 3 (Plus (Cls (\<lambda>c. c \<noteq> 41))), Lit (lit '')'')]"

definition display_caps :: "tier_spec \<Rightarrow> caps \<Rightarrow> caps" where
  "display_caps s c = (3, body_text s) # (2, ts_label s) # c"

lemma display_tier_re_prefix: "display_tier_re = cond_prefix display_call"
  by (simp add: display_tier_re_def cond_prefix_def display_call_def)

lemma numtext_no_close: "plain_num is_numchar x \<Longrightarrow> 41 \<notin> set (num_to_str x)"
  by (auto simp: plain_num_def list_all_iff)

lemma extras_no_close:
  "(\<forall>(v, x) \<in> set vxs. 41 \<notin> set v \<and> plain_num is_numchar x) \<Longrightarrow> 41 \<notin> set (extras_text vxs)"
  by (induction vxs) (auto simp: extras_text_def body_term_def numtext_no_close)

lemma body_no_close:
  assumes "plain_tier s"
  shows "list_all (\<lambda>c. c \<noteq> 41) (body_text s)"
proof -
  have "41 \<notin> set (extras_text (zip (map fst BILLING_CACHE_VAR_MAP) (ts_extra s)))"
  proof (rule extras_no_close, clarify)
    fix v x
    assume "(v, x) \<in> set (zip (map fst BILLING_CACHE_VAR_MAP) (ts_extra s))"
    then have "v \<in> set (map fst BILLING_CACHE_VAR_MAP)" "x \<in> set (ts_extra s)" by (auto dest: set_zip_leftD set_zip_rightD)
    then show "41 \<notin> set v \<and> plain_num is_numchar x"
      using assms by (auto simp: extra_vars lit_simps plain_tier_def list_all_iff)
  qed
  then show ?thesis
    using assms by (auto simp: body_text_def body_term_def plain_tier_def numtext_no_close list_all_iff lit_simps
        dest: numtext_no_close)
qed

lemma body_start: "body_text s \<noteq> []" "hd (body_text s) = 112"
  by (simp_all add: body_text_def body_term_def lit_simps)

lemma takes_display_call:
  assumes "plain_tier s"
  shows "takes display_call (tier_text s) post c (display_caps s c)"
proof -
  have lab: "list_all (\<lambda>c. c \<noteq> 34) (ts_label s)"
    using assms by (auto simp: plain_tier_def list_all_iff)
  have hd: "\<not> is_ws (hd (body_text s @ r))" for r using body_start [of s] by (simp add: is_ws_def)
  have "takes (Seq (Lit (lit ''tier('' @ [34])) (Seq (Cap 2 (Star (Cls (\<lambda>c. c \<noteq> 34)))) (Seq (Lit [34, 44]) (Seq Ws
      (Seq (Cap 3 (Plus (Cls (\<lambda>c. c \<noteq> 41)))) (Seq (Lit [41]) Eps))))))
      ((lit ''tier('' @ [34]) @ ts_label s @ [34, 44] @ [32] @ body_text s @ [41] @ []) post c (display_caps s c)"
    unfolding display_caps_def
    by (intro takes_Seq [OF takes_Lit] takes_Seq [OF takes_Cap [OF takes_Star_Cls]] takes_Seq [OF takes_Ws]
        takes_Seq [OF takes_Cap [OF takes_Plus_Cls]] takes_Eps)
      (use lab hd body_no_close [OF assms] body_start in simp_all)
  then show ?thesis by (simp add: display_call_def tier_text_def)
qed

interpretation display_pattern: tier_pattern display_call display_caps
  by unfold_locales (simp_all add: takes_display_call, simp_all add: display_call_def fails_tier_call)

section \<open>The prices of a body\<close>

lemma pricing_keys: "map bv_key BILLING_PRICING_VARS = map lit [''p'', ''c''] @ map fst BILLING_CACHE_VAR_MAP"
  by (simp add: BILLING_PRICING_VARS_def BILLING_VARS_def bvar_def extra_vars)

abbreviation "price_keys \<equiv> map lit [''p'', ''c''] @ map fst BILLING_CACHE_VAR_MAP"

lemma keys_apart:
  "u \<in> set price_keys \<Longrightarrow> v \<in> set price_keys \<Longrightarrow> u \<noteq> v \<Longrightarrow>
   apart u v \<or> (case strip_prefix v u of None \<Rightarrow> False | Some r \<Rightarrow> r \<noteq> [] \<and> hd r \<noteq> 32)"
  by (auto simp: extra_vars apart_def lit_simps is_ws_def)

lemma fails_other_key:
  assumes "u \<in> set price_keys" "v \<in> set price_keys" "u \<noteq> v"
  shows "fails (Seq (Lit u) (Seq Ws (Seq (Lit [42]) R))) (v @ 32 # post)"
  using keys_apart [OF assms]
proof
  assume "apart u v"
  then show ?thesis by (rule fails_var_apart)
next
  assume "case strip_prefix v u of None \<Rightarrow> False | Some r \<Rightarrow> r \<noteq> [] \<and> hd r \<noteq> 32"
  then obtain r where "u = v @ r" "r \<noteq> []" "hd r \<noteq> 32" by (auto simp: strip_prefix_Some_iff split: option.splits)
  then have "\<not> starts_with (v @ 32 # post) u" by (cases r) (auto simp: starts_with_iff)
  then show ?thesis by (intro fails_Seq fails_Lit)
qed

lemma keys_word: "v \<in> set price_keys \<Longrightarrow> v \<noteq> [] \<and> word_unit (hd v)"
  by (auto simp: extra_vars lit_simps word_unit_def)

definition var_tail :: re where
  "var_tail = Seq Ws (Seq (Lit [42]) (Seq Ws (Seq (Cap 2 NumCls) Eps)))"

lemma BILLING_VAR_REGEX_eq: "BILLING_VAR_REGEX = Seq WordB (Seq (Cap 1 (AltList price_keys)) var_tail)"
  by (simp add: BILLING_VAR_REGEX_def pricing_keys var_tail_def)

lemma takes_price_term:
  assumes "v \<in> set price_keys" "plain_num is_numchar x" "post = [] \<or> \<not> is_numchar (hd post)"
  shows "takes (Seq (Cap 1 (AltList price_keys)) var_tail) (body_term v x) post [] [(2, num_to_str x), (1, v)]"
proof -
  have "takes var_tail ([32] @ [42] @ [32] @ num_to_str x @ []) post c ((2, num_to_str x) # c)" for c
    unfolding var_tail_def
    by (intro takes_Seq [OF takes_Ws] takes_Seq [OF takes_Lit] takes_Seq [OF takes_Cap [OF takes_num]] takes_Eps)
      (use assms hd_num_not_ws [OF assms(2)] in simp_all)
  from takes_Cap_AltList [OF assms(1) _ this]
  have "takes (Seq (Cap 1 (AltList price_keys)) var_tail) (v @ [32] @ [42] @ [32] @ num_to_str x @ []) post [] [(2, num_to_str x), (1, v)]"
    using fails_other_key [OF _ assms(1)] by (simp add: var_tail_def)
  then show ?thesis by (simp add: body_term_def)
qed

lemma search_price_term:
  assumes "v \<in> set price_keys" "plain_num is_numchar x" "post = [] \<or> \<not> is_numchar (hd post)"
    "pre = [] \<or> \<not> word_unit (hd pre)"
  shows "re_search_from BILLING_VAR_REGEX pre (body_term v x @ post) =
    Some \<lparr>m_from = (pre, body_term v x @ post), m_to = (rev (body_term v x) @ pre, post), m_caps = [(2, num_to_str x), (1, v)]\<rparr>"
proof -
  have "word_boundary (pre, body_term v x @ post)"
    using keys_word [OF assms(1)] assms(4) by (auto simp: word_boundary_def body_term_def)
  moreover obtain ms where "rmatch (Seq (Cap 1 (AltList price_keys)) var_tail) (pre, body_term v x @ post) [] =
      ((rev (body_term v x) @ pre, post), [(2, num_to_str x), (1, v)]) # ms"
    using takes_rmatch [OF takes_price_term [OF assms(1-3)]] by blast
  ultimately show ?thesis
    by (simp add: re_search_from.simps BILLING_VAR_REGEX_eq del: rmatch.simps(7))
qed

lemma fails_AltList: "(\<And>w. w \<in> set ws \<Longrightarrow> \<not> starts_with post w) \<Longrightarrow> fails (AltList ws) post"
  by (induction ws) (auto intro!: fails_Alt fails_Lit fails_Cls)

lemma fails_price_regex:
  assumes "post = [] \<or> hd post \<notin> {112, 99, 105, 97}"
  shows "fails BILLING_VAR_REGEX post"
proof -
  have "fails (AltList price_keys) post"
    using assms by (intro fails_AltList) (auto simp: starts_with_iff extra_vars lit_simps)
  then have "fails (Seq (Cap 1 (AltList price_keys)) var_tail) post" by (intro fails_Seq fails_Cap)
  then show ?thesis by (auto simp: fails_def BILLING_VAR_REGEX_eq)
qed

text \<open>A body is its first term and then a term after each plus.\<close>

definition terms_text :: "(jsstr \<times> jsnum) list \<Rightarrow> jsstr" where
  "terms_text vxs = concat (map (\<lambda>(v, x). [32, 43, 32] @ body_term v x) vxs)"

lemma terms_text_simps: "terms_text [] = []" "terms_text ((v, x) # vxs) = [32, 43, 32] @ body_term v x @ terms_text vxs"
  by (simp_all add: terms_text_def)

lemma extras_terms: "extras_text vxs = terms_text (filter (\<lambda>(v, x). x \<noteq> Fin 0) vxs)"
  by (induction vxs) (auto simp: extras_text_def terms_text_def)

lemma terms_text_stops: "terms_text vxs = [] \<or> \<not> is_numchar (hd (terms_text vxs))"
  by (cases vxs) (auto simp: terms_text_def)

definition plain_term :: "jsstr \<times> jsnum \<Rightarrow> bool" where
  "plain_term vx \<longleftrightarrow> fst vx \<in> set price_keys \<and> plain_num is_numchar (snd vx)"

definition term_caps :: "re_match \<Rightarrow> jsstr \<times> jsnum \<Rightarrow> bool" where
  "term_caps m vx \<longleftrightarrow> m_caps m = [(2, num_to_str (snd vx)), (1, fst vx)]"

lemma re_all_term:
  assumes "plain_term (v, x)" "pre = [] \<or> \<not> word_unit (hd pre)" "post = [] \<or> \<not> is_numchar (hd post)"
  shows "\<exists>m. re_all_from BILLING_VAR_REGEX (pre, body_term v x @ post) =
    m # re_all_from BILLING_VAR_REGEX (rev (body_term v x) @ pre, post) \<and> term_caps m (v, x)"
proof -
  have "body_term v x \<noteq> []" by (simp add: body_term_def)
  then show ?thesis
    using search_price_term [OF _ _ assms(3,2), of v x] assms(1)
    by (simp add: re_all_from.simps [of _ "(pre, _)"] term_caps_def plain_term_def)
qed

lemma re_all_terms:
  "list_all plain_term vxs \<Longrightarrow>
   list_all2 term_caps (re_all_from BILLING_VAR_REGEX (pre, terms_text vxs)) vxs"
proof (induction vxs arbitrary: pre)
  case Nil
  have "re_search_from BILLING_VAR_REGEX pre [] = None" by (intro re_search_end fails_price_regex) simp
  then show ?case by (simp add: terms_text_simps re_all_from.simps)
next
  case (Cons vx vxs)
  obtain v x where vx: "vx = (v, x)" by fastforce
  let ?t = "body_term v x @ terms_text vxs" and ?pre = "32 # 43 # 32 # pre"
  have along: "fails_along BILLING_VAR_REGEX [32, 43, 32] ?t"
    by (simp add: fails_price_regex)
  have "re_search_from BILLING_VAR_REGEX pre ([32, 43, 32] @ ?t) = re_search_from BILLING_VAR_REGEX ?pre ?t"
    using re_search_along [OF along, of pre] by simp
  moreover have "re_search_from BILLING_VAR_REGEX ?pre ?t =
      Some \<lparr>m_from = (?pre, ?t), m_to = (rev (body_term v x) @ ?pre, terms_text vxs), m_caps = [(2, num_to_str x), (1, v)]\<rparr>"
    using Cons.prems terms_text_stops
    by (intro search_price_term) (auto simp: vx plain_term_def word_unit_def is_digit_def)
  ultimately have "re_all_from BILLING_VAR_REGEX (pre, terms_text (vx # vxs)) =
      \<lparr>m_from = (?pre, ?t), m_to = (rev (body_term v x) @ ?pre, terms_text vxs), m_caps = [(2, num_to_str x), (1, v)]\<rparr> #
      re_all_from BILLING_VAR_REGEX (rev (body_term v x) @ ?pre, terms_text vxs)"
    by (simp add: re_all_from.simps [of _ "(pre, _)"] vx terms_text_simps)
  then show ?case using Cons by (simp add: vx term_caps_def)
qed

lemma base_coeffs_fold:
  assumes "list_all2 term_caps ms vxs" "distinct (map fst (acc @ vxs))" "list_all plain_term vxs"
  shows "foldl (\<lambda>acc m. case (cap m 1, cap m 2) of
       (Some v, Some n) \<Rightarrow> if v \<in> fst ` set acc then acc else acc @ [(v, str_to_num n)] | _ \<Rightarrow> acc) acc ms = acc @ vxs"
  using assms
proof (induction ms vxs arbitrary: acc rule: list_all2_induct)
  case (Cons m ms vx vxs)
  then have "cap m 1 = Some (fst vx)" "cap m 2 = Some (num_to_str (snd vx))" "fst vx \<notin> fst ` set acc"
      "str_to_num (num_to_str (snd vx)) = snd vx"
    by (auto simp: term_caps_def cap_def plain_term_def plain_num_def)
  then show ?case using Cons.IH [of "acc @ [vx]"] Cons.prems by simp
qed simp

definition spec_coeffs :: "tier_spec \<Rightarrow> (jsstr \<times> jsnum) list" where
  "spec_coeffs s = (lit ''p'', ts_in s) # (lit ''c'', ts_out s) #
     filter (\<lambda>(v, x). x \<noteq> Fin 0) (zip (map fst BILLING_CACHE_VAR_MAP) (ts_extra s))"

lemma spec_coeffs_plain:
  assumes "plain_tier s"
  shows "list_all plain_term (spec_coeffs s)" "distinct (map fst (spec_coeffs s))"
proof -
  let ?z = "zip (map fst BILLING_CACHE_VAR_MAP) (ts_extra s)"
  have ex: "list_all (plain_num is_numchar) (ts_extra s)" using assms by (simp add: plain_tier_def)
  have mem: "v \<in> set (map fst BILLING_CACHE_VAR_MAP) \<and> x \<in> set (ts_extra s)" if "(v, x) \<in> set ?z" for v x
    using that by (auto dest: set_zip_leftD set_zip_rightD)
  then show "list_all plain_term (spec_coeffs s)"
    using assms ex unfolding spec_coeffs_def by (auto simp: list_all_iff plain_term_def plain_tier_def)
  have len: "length (ts_extra s) = 7" using assms by (simp add: plain_tier_def)
  have "distinct (map fst ?z)" using len by (simp add: extra_vars)
  then have "distinct (map fst (filter (\<lambda>(v, x). x \<noteq> Fin 0) ?z))" by (simp add: distinct_map_filter)
  moreover have "lit ''p'' \<notin> set (map fst BILLING_CACHE_VAR_MAP)" "lit ''c'' \<notin> set (map fst BILLING_CACHE_VAR_MAP)"
    by (simp_all add: extra_vars)
  ultimately show "distinct (map fst (spec_coeffs s))"
    using mem unfolding spec_coeffs_def by fastforce
qed

lemma base_coeffs_body:
  assumes "plain_tier s"
  shows "base_coeffs (body_text s) = spec_coeffs s"
proof -
  have body: "body_text s = body_term (lit ''p'') (ts_in s) @ terms_text (tl (spec_coeffs s))"
    by (simp add: body_text_def spec_coeffs_def extras_terms terms_text_simps)
  have first: "plain_term (lit ''p'', ts_in s)" "list_all plain_term (tl (spec_coeffs s))"
    using spec_coeffs_plain(1) [OF assms] by (simp_all add: spec_coeffs_def)
  obtain m where m: "re_all BILLING_VAR_REGEX (body_text s) =
      m # re_all_from BILLING_VAR_REGEX (rev (body_term (lit ''p'') (ts_in s)) @ [], terms_text (tl (spec_coeffs s)))"
      "term_caps m (lit ''p'', ts_in s)"
    using re_all_term [OF first(1), of "[]"] terms_text_stops unfolding re_all_def body by blast
  then have "list_all2 term_caps (re_all BILLING_VAR_REGEX (body_text s)) (spec_coeffs s)"
    using re_all_terms [OF first(2)] by (simp add: spec_coeffs_def)
  from base_coeffs_fold [OF this, of "[]"] spec_coeffs_plain [OF assms] show ?thesis by (simp add: base_coeffs_def)
qed

lemma map_of_filter_distinct:
  "distinct (map fst xs) \<Longrightarrow>
   map_of (filter (\<lambda>(v, x). x \<noteq> z) xs) k = (case map_of xs k of None \<Rightarrow> None | Some y \<Rightarrow> if y \<noteq> z then Some y else None)"
proof (induction xs)
  case (Cons p xs)
  then have "map_of xs (fst p) = None" by (auto simp: map_of_eq_None_iff)
  with Cons show ?case by (cases p) auto
qed simp

definition spec_prices :: "tier_spec \<Rightarrow> (jsstr \<times> jsnum) list" where
  "spec_prices s = zip (map bv_field BILLING_PRICING_VARS) (ts_in s # ts_out s # ts_extra s)"

lemma parseTierBody_text:
  assumes "plain_tier s"
  shows "parseTierBody (body_text s) = spec_prices s"
proof -
  let ?vs = "map fst BILLING_CACHE_VAR_MAP" and ?xs = "ts_in s # ts_out s # ts_extra s"
  have len: "length (ts_extra s) = 7" and plain: "list_all (plain_num is_numchar) ?xs"
    using assms by (simp_all add: plain_tier_def)
  have d: "distinct (map fst (zip ?vs (ts_extra s)))" using len by (simp add: extra_vars)
  have at: "(case map_of (spec_coeffs s) (price_keys ! i) of None \<Rightarrow> Fin 0 | Some x \<Rightarrow> if x = NaN then Fin 0 else x) = ?xs ! i"
    if i: "i < 9" for i
  proof (cases "i < 2")
    case True
    then have "i = 0 \<or> i = 1" by auto
    then show ?thesis using assms by (auto simp: spec_coeffs_def plain_tier_def plain_num_def)
  next
    case False
    let ?j = "i - 2"
    have j: "?j < 7" "price_keys ! i = ?vs ! ?j" "?xs ! i = ts_extra s ! ?j"
      using i False by (auto simp: nth_append nth_Cons' numeral_2_eq_2)
    have "?vs ! ?j \<in> set ?vs" using j(1) by (intro nth_mem) simp
    then have "?vs ! ?j \<noteq> lit ''p''" "?vs ! ?j \<noteq> lit ''c''" by (auto simp: extra_vars)
    moreover have "map_of (zip ?vs (ts_extra s)) (?vs ! ?j) = Some (ts_extra s ! ?j)"
      using map_of_zip_nth [of ?vs "ts_extra s" ?j] j(1) len by (simp add: extra_vars)
    ultimately have "map_of (spec_coeffs s) (price_keys ! i) = (if ts_extra s ! ?j \<noteq> Fin 0 then Some (ts_extra s ! ?j) else None)"
      using map_of_filter_distinct [OF d, of "Fin 0"] unfolding j(2) spec_coeffs_def by simp
    moreover have "plain_num is_numchar (?xs ! i)" using plain i len unfolding list_all_length by simp
    then have "ts_extra s ! ?j \<noteq> NaN" using j(3) by (simp add: plain_num_def)
    ultimately show ?thesis using j(3) by simp
  qed
  have len9: "length BILLING_PRICING_VARS = 9" by (simp add: BILLING_PRICING_VARS_def BILLING_VARS_def bvar_def)
  have key: "bv_key (BILLING_PRICING_VARS ! i) = price_keys ! i" if "i < 9" for i
    using arg_cong [OF pricing_keys, of "\<lambda>l. l ! i"] that len9 by simp
  show ?thesis
    unfolding parseTierBody_def base_coeffs_body [OF assms] spec_prices_def BILLING_VAR_KEY_TO_FIELD_def
    using at key len len9 by (intro nth_equalityI) (simp_all add: Let_def)
qed

section \<open>The tiers shown\<close>

definition shown_of :: "tier_spec \<Rightarrow> shown_tier" where
  "shown_of s = \<lparr>st_prices = spec_prices s, st_label = ts_label s, st_conditions = map cond_obj (ts_conds s)\<rparr>"

lemma hd_generated:
  assumes "plain_tiers specs"
  shows "generateExprFromVisualConfig (Some (map tier_of specs)) \<noteq> []"
    "hd (generateExprFromVisualConfig (Some (map tier_of specs))) \<noteq> 118"
proof -
  obtain s ss where specs: "specs = s # ss" using assms by (cases specs) (auto simp: plain_tiers_def)
  have s: "plain_tier s" using assms by (simp add: specs plain_tiers_def)
  have "hd (part_text s @ r) \<noteq> 118" for r
    using hd_part_text [OF s, of r] by (cases "ts_conds s = []") (auto simp: part_text_def tier_text_def lit_simps)
  moreover have "part_text s \<noteq> []" by (simp add: part_text_def tier_text_def lit_simps)
  ultimately show "generateExprFromVisualConfig (Some (map tier_of specs)) \<noteq> []"
      "hd (generateExprFromVisualConfig (Some (map tier_of specs))) \<noteq> 118"
    unfolding generate_text [OF assms] by (simp_all add: specs join_concat)
qed

lemma parse_shown:
  assumes "plain_tiers specs"
  shows "parseTiersFromExpr (generateExprFromVisualConfig (Some (map tier_of specs))) = map shown_of specs"
proof -
  let ?e = "generateExprFromVisualConfig (Some (map tier_of specs))"
  have "strip_version ?e = None" using hd_generated [OF assms] by (cases ?e) (simp_all add: strip_version_def)
  then have v: "snd (stripExprVersion ?e) = ?e" by (simp add: stripExprVersion_def)
  have plain: "list_all plain_tier specs" using assms by (simp add: plain_tiers_def)
  have one: "\<lparr>st_prices = parseTierBody (cap_or_empty m 3), st_label = cap_or_empty m 2,
      st_conditions = parse_conditions (cap_or_empty m 1)\<rparr> = shown_of s"
    if "m_caps m = display_caps s (cond_caps s)" "plain_tier s" for m s
  proof -
    have "cap_or_empty m 1 = conds_text (ts_conds s)" "cap_or_empty m 2 = ts_label s" "cap_or_empty m 3 = body_text s"
      by (simp_all add: cap_or_empty_def cap_def that(1) display_caps_def cond_caps_def conds_text_def)
    moreover have "list_all plain_cond (ts_conds s)" using that(2) by (simp add: plain_tier_def)
    ultimately show ?thesis by (simp add: shown_of_def parse_conditions_text parseTierBody_text [OF that(2)])
  qed
  have "list_all2 (\<lambda>m s. m_caps m = display_caps s (cond_caps s)) (re_all display_tier_re ?e) specs"
    using display_pattern.re_all_generated [OF assms] generate_text [OF assms] by (simp add: display_tier_re_prefix)
  then have "map (\<lambda>m. \<lparr>st_prices = parseTierBody (cap_or_empty m 3), st_label = cap_or_empty m 2,
      st_conditions = parse_conditions (cap_or_empty m 1)\<rparr>) (re_all display_tier_re ?e) = map shown_of specs"
    using plain one by (simp add: list_eq_iff_nth_eq list_all2_conv_all_nth list_all_length)
  then show ?thesis using hd_generated(1) [OF assms] by (simp add: parseTiersFromExpr_def v)
qed

lemma find_unique:
  "distinct (map f xs) \<Longrightarrow> x \<in> set xs \<Longrightarrow> find (\<lambda>y. P (f y) \<and> f y = f x) xs = (if P (f x) then Some x else None)"
  by (induction xs) (auto simp: find_None_iff)

section \<open>Amounts\<close>

text \<open>\<open>toFixed\<close> writes the nearest multiple of its unit, which can be read off the text exactly.\<close>

lemma digits_val_zeros: "digits_val (replicate k 48 @ ds) = digits_val ds"
  by (induction k) (simp_all add: digits_val_def)

lemma fixed_digits_read:
  assumes "0 < f" "0 \<le> x"
  shows "scan_unsigned (fixed_digits f x) = Some (of_int \<lfloor>x * 10 ^ f + 1 / 2\<rfloor> / 10 ^ f, [])"
    and "fixed_digits f x \<noteq> [] \<and> is_digit (hd (fixed_digits f x))"
proof -
  define n where "n = \<lfloor>x * 10 ^ f + 1 / 2\<rfloor>"
  define ds where "ds = nat_digits (nat n)"
  define ps where "ps = replicate (Suc f - length ds) 48 @ ds"
  have n: "0 \<le> n" using assms(2) by (simp add: n_def zero_le_floor)
  have shown: "fixed_digits f x = take (length ps - f) ps @ 46 # drop (length ps - f) ps"
    using assms(1) n by (simp add: fixed_digits_def Let_def n_def [symmetric] ps_def ds_def)
  have "f < length ps" by (simp add: ps_def)
  moreover have dig: "\<forall>c \<in> set ps. is_digit c" using nat_digits_digit by (auto simp: ps_def ds_def is_digit_def)
  ultimately have ip: "take (length ps - f) ps \<noteq> []" "\<forall>c \<in> set (take (length ps - f) ps). is_digit c"
      "\<forall>c \<in> set (drop (length ps - f) ps). is_digit c" "length (drop (length ps - f) ps) = f"
    by (auto dest: in_set_takeD in_set_dropD)
  have val: "digits_val ps = nat n" by (simp add: ps_def digits_val_zeros ds_def)
  have all: "takeWhile is_digit (drop (length ps - f) ps) = drop (length ps - f) ps" "dropWhile is_digit (drop (length ps - f) ps) = []"
    using ip(3) by (auto simp: takeWhile_eq_all_conv dropWhile_eq_Nil_conv)
  have parts: "takeWhile is_digit (fixed_digits f x) = take (length ps - f) ps"
      "dropWhile is_digit (fixed_digits f x) = 46 # drop (length ps - f) ps"
    unfolding shown using ip(2) by (simp_all add: takeWhile_append2 dropWhile_append2 is_digit_def)
  have "scan_unsigned (fixed_digits f x) = Some (of_nat (digits_val ps) * pow10 (- int f), [])"
    unfolding scan_unsigned_def parts Let_def using ip(1,4) by (simp add: all scan_exp_def)
  then show "scan_unsigned (fixed_digits f x) = Some (of_int \<lfloor>x * 10 ^ f + 1 / 2\<rfloor> / 10 ^ f, [])"
    using assms(1) n by (simp add: val pow10_def n_def [symmetric])
  show "fixed_digits f x \<noteq> [] \<and> is_digit (hd (fixed_digits f x))"
    unfolding shown using ip(1,2) by (cases "take (length ps - f) ps") auto
qed

lemma rnd_not_zero: "pow2 (- 1074) \<le> q \<Longrightarrow> rnd q \<noteq> Fin 0"
proof -
  assume a: "pow2 (- 1074) \<le> q"
  then have q: "0 < q" using pow2_pos less_le_trans by blast
  define e where "e = max (ilog2 q - 52) (- 1074)"
  have "pow2 e \<le> q"
  proof (cases "ilog2 q - 52 \<le> - 1074")
    case False
    then have "pow2 e \<le> pow2 (ilog2 q)" using q by (intro pow2_mono) (simp add: e_def)
    then show ?thesis using ilog2_le [OF q] by linarith
  qed (use a q in \<open>simp add: e_def\<close>)
  then have "of_int 1 \<le> q / pow2 e" by (simp add: pos_le_divide_eq)
  then have "1 \<le> round_even (q / pow2 e)" by (rule round_even_bounds)
  moreover have "pow2 e \<noteq> 0" using pow2_pos [of e] by linarith
  ultimately show ?thesis using q by (simp add: rnd_def Let_def e_def [symmetric])
qed

lemma parse_fixed:
  assumes "0 < f" "f \<le> 6" "0 \<le> x"
  shows "parse_float (fixed_digits f x) = Fin 0 \<longleftrightarrow> \<lfloor>x * 10 ^ f + 1 / 2\<rfloor> = 0"
proof -
  let ?n = "\<lfloor>x * 10 ^ f + 1 / 2\<rfloor>"
  obtain c r where t: "fixed_digits f x = c # r" "is_digit c" using fixed_digits_read(2) [OF assms(1,3)] by (cases "fixed_digits f x") auto
  then have "parse_float (fixed_digits f x) = rnd (of_int ?n / 10 ^ f)"
    using fixed_digits_read(1) [OF assms(1,3)]
    by (auto simp: parse_float_def trim_start_def is_ws_def is_digit_def scan_sign_def starts_with_def lit_simps)
  moreover have "rnd (of_int ?n / 10 ^ f) \<noteq> Fin 0" if "?n \<noteq> 0"
  proof (rule rnd_not_zero)
    have "0 \<le> ?n" using assms(3) by (simp add: zero_le_floor)
    then have n: "1 \<le> ?n" using that by linarith
    have "pow2 (- 1074) \<le> pow2 (- 20)" by (rule pow2_mono) simp
    also have "\<dots> \<le> 1 / 10 ^ 6" by (simp add: pow2_def)
    also have "\<dots> \<le> 1 / 10 ^ f" using assms(2) by (intro divide_left_mono power_increasing) auto
    also have "\<dots> \<le> of_int ?n / 10 ^ f" using n by (simp add: divide_right_mono)
    finally show "pow2 (- 1074) \<le> of_int ?n / 10 ^ f" .
  qed
  ultimately show ?thesis by (auto simp: rnd_def)
qed

text \<open>The smallest amount with 2, 4 and 6 decimals.\<close>

lemma min_amount_text:
  "to_fixed 2 (rnd (pow10 (- int 2))) = lit ''0.01''"
  "to_fixed 4 (rnd (pow10 (- int 4))) = lit ''0.0001''"
  "to_fixed 6 (rnd (pow10 (- int 6))) = lit ''0.000001''"
  subgoal by code_simp
  subgoal by code_simp
  subgoal by code_simp
  done

lemma min_amount_read:
  "scan_unsigned (lit ''0.01'') = Some (1 / 10 ^ 2, [])" "scan_unsigned (lit ''0.0001'') = Some (1 / 10 ^ 4, [])"
  "scan_unsigned (lit ''0.000001'') = Some (1 / 10 ^ 6, [])"
  subgoal by code_simp
  subgoal by code_simp
  subgoal by code_simp
  done

lemma min_amount: "d \<in> {2, 4, 6} \<Longrightarrow> scan_unsigned (to_fixed d (rnd (pow10 (- int d)))) = Some (1 / 10 ^ d, [])"
  using min_amount_text min_amount_read by auto

lemma foldl_filter_guard: "foldl f a (filter P xs) = foldl (\<lambda>acc x. if P x then f acc x else acc) a xs"
  by (induction xs arbitrary: a) auto

section \<open>Properties\<close>

text \<open>C3: the logs show the tier that was billed: for an expression of the visual editor whose labels
  stay distinct and not empty under \<open>normalizeTierLabel\<close>, the tier found for the label of an edited
  tier has the label, the conditions and the prices of that tier.\<close>

theorem log_shows_billed_tier:
  assumes "plain_tiers specs" "s \<in> set specs" "normalizeTierLabel (Str (ts_label s)) \<noteq> []"
    "distinct (map (\<lambda>r. normalizeTierLabel (Str (ts_label r))) specs)"
  shows "findMatchedTier (parseTiersFromExpr (generateExprFromVisualConfig (Some (map tier_of specs)))) (Str (ts_label s)) =
    Some \<lparr>st_prices = zip (map bv_field BILLING_PRICING_VARS) (ts_in s # ts_out s # ts_extra s),
      st_label = ts_label s, st_conditions = map cond_obj (ts_conds s)\<rparr>"
proof -
  let ?f = "\<lambda>t. normalizeTierLabel (Str (st_label t))"
  have "distinct (map ?f (map shown_of specs))" using assms(4) by (simp add: shown_of_def comp_def)
  moreover have "shown_of s \<in> set (map shown_of specs)" using assms(2) by simp
  ultimately have "find (\<lambda>t. ?f t \<noteq> [] \<and> ?f t = ?f (shown_of s)) (map shown_of specs) = Some (shown_of s)"
    using find_unique [of ?f "map shown_of specs" "shown_of s" "\<lambda>l. l \<noteq> []"] assms(3) by (simp add: shown_of_def)
  then show ?thesis
    by (simp add: findMatchedTier_def parse_shown [OF assms(1)] shown_of_def spec_prices_def)
qed

theorem log_shows_billed_tier_witness:
  "findMatchedTier (parseTiersFromExpr (generateExprFromVisualConfig (Some (map tier_of two_tiers)))) (Str (lit ''long'')) =
    Some \<lparr>st_prices = zip (map bv_field BILLING_PRICING_VARS) (Fin 15 # Fin 15 # replicate 7 (Fin 0)),
      st_label = lit ''long'', st_conditions = []\<rparr>"
proof -
  have norm: "normalizeTierLabel (Str (lit ''standard'')) = lit ''standard''" "normalizeTierLabel (Str (lit ''long'')) = lit ''long''"
    by code_simp+
  have mem: "two_tiers ! 1 \<in> set two_tiers" by (simp add: two_tiers_def)
  show ?thesis
    using log_shows_billed_tier [OF two_tiers_plain mem] norm by (simp add: two_tiers_def)
qed

text \<open>The rule multiplier a log row shows is the one of the expanded breakdown: both derive it from
  the same base cost, although the breakdown adds up the active variables and the row goes over all
  variables with a guard.\<close>

theorem row_mirrors_breakdown:
  "rule_multiplier_of st opts (breakdown_base tier tokens) = rule_multiplier_of st opts (row_base tier tokens)"
  by (simp add: breakdown_base_def row_base_def active_vars_def foldl_filter_guard)

text \<open>C9: how a positive quota is shown in a currency, with 2, 4 or 6 decimals (the numbers of decimals the pages ask
  for) and a finite quota per unit: the text after the symbol is a decimal, and it is the value rounded to that many
  decimals, but at least the smallest amount that has them. So a positive amount is never shown as zero.\<close>

theorem renderQuota_amount:
  assumes "to_num quota = Fin q" "0 < q" "getQuotaDisplayType st \<noteq> lit ''TOKENS''" "is_finite (readQuotaPerUnit st)"
    "quota_value st (num_div (Fin q) (readQuotaPerUnit st)) = (symbol, Fin x)" "0 < x" "x < 10 ^ 21" "digits \<in> {2, 4, 6}"
  shows "\<exists>text. renderQuota st quota digits = Str (to_str symbol @ text) \<and>
    scan_unsigned text = Some (of_int (max 1 \<lfloor>x * 10 ^ digits + 1 / 2\<rfloor>) / 10 ^ digits, [])"
proof -
  have x: "0 \<le> x" "0 < digits" "digits \<le> 6" using assms(6,8) by auto
  have fixed: "to_fixed digits (Fin x) = fixed_digits digits x" using assms(6,7) by (simp add: pow10_def)
  have "0 \<le> \<lfloor>x * 10 ^ digits + 1 / 2\<rfloor>" using x(1) by (simp add: zero_le_floor)
  then have "\<lfloor>x * 10 ^ digits + 1 / 2\<rfloor> = max 1 \<lfloor>x * 10 ^ digits + 1 / 2\<rfloor>" if "\<lfloor>x * 10 ^ digits + 1 / 2\<rfloor> \<noteq> 0" using that by linarith
  then show ?thesis
    using assms(1-6) parse_fixed [OF x(2,3,1)] fixed_digits_read(1) [OF x(2,1)] min_amount [OF assms(8)] fixed
    by (auto simp: renderQuota_def Let_def simp del: to_fixed.simps)
qed

definition usd_store :: store where
  "usd_store = \<lparr>quota_display_type = None, status_text = None, quota_per_unit_text = Some (lit ''500000'')\<rparr>"

theorem renderQuota_amount_witness:
  "\<exists>text. renderQuota usd_store (Num (Fin 1)) 2 = Str (lit ''$'' @ text) \<and> scan_unsigned text = Some (1 / 100, [])"
proof -
  have unit: "readQuotaPerUnit usd_store = Fin 500000" by code_simp
  obtain x where x: "num_div (Fin 1) (Fin 500000) = Fin x" "0 < x" "x < 1 / 1000"
  proof (rule that)
    define x where "x = (case num_div (Fin 1) (Fin 500000) of Fin x \<Rightarrow> x | _ \<Rightarrow> 0)"
    show "num_div (Fin 1) (Fin 500000) = Fin x" unfolding x_def by code_simp
    show "0 < x" "x < 1 / 1000" unfolding x_def by code_simp+
  qed
  have v: "quota_value usd_store (num_div (Fin 1) (readQuotaPerUnit usd_store)) = (Str (lit ''$''), Fin x)"
    unfolding unit x(1) by (simp add: quota_value_def getQuotaDisplayType_def usd_store_def)
  have "\<lfloor>x * 10 ^ 2 + 1 / 2\<rfloor> = 0" using x by (simp add: floor_eq_iff)
  then show ?thesis
    using renderQuota_amount [OF _ _ _ _ v x(2), of "Num (Fin 1)" 2] unit x(3)
    by (simp add: getQuotaDisplayType_def usd_store_def)
qed

end
