(* ===== verification/Upload.thy ===== *)
theory Upload
  imports Js_Json
begin

text \<open>
  \<open>web/src/helpers/upload.js\<close>: the two-step upload to the object store. \<open>uploadToR2\<close> asks the
  server for a presigned URL and sends the file to that URL with an XMLHttpRequest.

  The environment's part is an argument: the answer of the presign request, whether the caller's
  abort signal has fired when the function starts and again when the PUT is about to be sent, the
  progress events of the transfer and how it ends. \<open>putToR2\<close> returns \<open>None\<close> for a promise that is
  never settled: \<open>xhr.abort()\<close> before \<open>xhr.send()\<close> fires no event.
\<close>

record blob =
  is_file :: bool
  fname :: jsstr
  ftype :: jsstr
  fsize :: nat

datatype upload_error = UploadError jsstr | AbortError | RequestFailed jsval

datatype put_end = Loaded nat jsstr | NetworkError | TimedOut | Aborted

record progress_event =
  lengthComputable :: bool
  loaded_bytes :: nat
  total_bytes :: nat

definition upload_filename :: "blob \<Rightarrow> jsstr" where
  "upload_filename b = (if is_file b \<and> fname b \<noteq> [] then fname b else lit ''upload.bin'')"

text \<open>The body of the presign request.\<close>

definition presign_body :: "blob \<Rightarrow> jsstr \<Rightarrow> jsobj" where
  "presign_body b scope =
     [(lit ''scope'', Str scope), (lit ''filename'', Str (upload_filename b)),
      (lit ''size'', Num (num_of_nat (fsize b))),
      (lit ''content_type'',
        Str (if ftype b \<noteq> [] then ftype b else lit ''application/octet-stream''))]"

text \<open>The request \<open>putToR2\<close> opens: method, URL and the headers it sets.\<close>

definition put_request :: "jsval \<Rightarrow> jsstr \<times> jsstr \<times> (jsstr \<times> jsstr) list" where
  "put_request presign =
     (let hs = opt_prop presign (lit ''headers'')
      in (to_str (js_or (opt_prop presign (lit ''method'')) (Str (lit ''PUT''))),
          to_str (opt_prop presign (lit ''upload_url'')),
          if truthy hs \<and> typeof_object hs
          then concat (map (\<lambda>kv. case snd kv of Str v \<Rightarrow> [(fst kv, v)] | _ \<Rightarrow> []) (own_entries hs))
          else []))"

text \<open>The values passed to \<open>onProgress\<close>, the last one by \<open>onload\<close>.\<close>

definition progress_calls :: "progress_event list \<Rightarrow> put_end \<Rightarrow> jsnum list" where
  "progress_calls es e =
     map (\<lambda>v. math_round (num_mul (num_div (num_of_nat (loaded_bytes v)) (num_of_nat (total_bytes v))) (Fin 100)))
       (filter (\<lambda>v. lengthComputable v \<and> total_bytes v \<noteq> 0) es) @
     (case e of Loaded st _ \<Rightarrow> if 200 \<le> st \<and> st < 300 then [Fin 100] else [] | _ \<Rightarrow> [])"

definition putToR2 :: "bool \<Rightarrow> put_end \<Rightarrow> (upload_error + unit) option" where
  "putToR2 aborted e =
     (if aborted then None
      else Some (case e of
        Loaded st text \<Rightarrow>
          if 200 \<le> st \<and> st < 300 then Inr ()
          else Inl (UploadError ([19978, 20256, 21040, 23545, 35937, 23384, 20648, 22833, 36133, 32, 40, 72, 84, 84, 80, 32] @ nat_digits st @
            (if text \<noteq> [] then lit '' '' @ text else []) @ lit '')''))
      | NetworkError \<Rightarrow> Inl (UploadError [32593, 32476, 38169, 35823, 65292, 19978, 20256, 22833, 36133])
      | TimedOut \<Rightarrow> Inl (UploadError [19978, 20256, 36229, 26102])
      | Aborted \<Rightarrow> Inl AbortError))"

text \<open>The answer of the presign request is \<open>Inl\<close> the thrown error or \<open>Inr\<close> the response.\<close>

definition uploadToR2 ::
  "blob option \<Rightarrow> jsval \<Rightarrow> bool \<Rightarrow> jsval + jsval \<Rightarrow> bool \<Rightarrow> put_end \<Rightarrow> (upload_error + jsobj) option"
where
  "uploadToR2 f scope aborted answer aborted_later e =
     (case f of
        None \<Rightarrow> Some (Inl (UploadError [117, 112, 108, 111, 97, 100, 84, 111, 82, 50, 58, 32, 102, 105, 108, 101, 32, 21442, 25968, 24517, 39035, 26159, 32, 70, 105, 108, 101, 32, 47, 32, 66, 108, 111, 98]))
      | Some b \<Rightarrow>
          if \<not> truthy scope \<or> \<not> is_str scope then Some (Inl (UploadError [117, 112, 108, 111, 97, 100, 84, 111, 82, 50, 58, 32, 32570, 23569, 32, 115, 99, 111, 112, 101]))
          else if aborted then Some (Inl AbortError)
          else (case answer of
            Inl err \<Rightarrow> Some (Inl (RequestFailed err))
          | Inr res \<Rightarrow>
              (let body = opt_prop res (lit ''data'');
                   presign = opt_prop body (lit ''data'')
               in if \<not> truthy (opt_prop body (lit ''success'')) \<or>
                     \<not> truthy (opt_prop presign (lit ''upload_url'')) then
                    Some (Inl (UploadError (to_str (js_or (opt_prop body (lit ''message''))
                      (Str [33719, 21462, 19978, 20256, 31614, 21517, 22833, 36133])))))
                  else (case putToR2 aborted_later e of
                    None \<Rightarrow> None
                  | Some (Inl err) \<Rightarrow> Some (Inl err)
                  | Some (Inr u) \<Rightarrow> Some (Inr
                      [(lit ''url'', opt_prop presign (lit ''public_url'')),
                       (lit ''key'', opt_prop presign (lit ''key'')),
                       (lit ''size'', opt_prop presign (lit ''size'')),
                       (lit ''content_type'', opt_prop presign (lit ''content_type''))])))))"

definition uploadToR2WithMeta ::
  "blob \<Rightarrow> (upload_error + jsobj) option \<Rightarrow> (upload_error + jsobj) option"
where
  "uploadToR2WithMeta b up = map_option (map_sum id (\<lambda>data. obj_merge data
     [(lit ''name'', if is_file b then Str (fname b) else Str []),
      (lit ''originalSize'', Num (num_of_nat (fsize b))),
      (lit ''originalType'', Str (ftype b))])) up"

section \<open>What an upload guarantees\<close>

lemma putToR2_ok_iff:
  "putToR2 ab e = Some (Inr ()) \<longleftrightarrow> \<not> ab \<and> (\<exists>st text. e = Loaded st text \<and> 200 \<le> st \<and> st < 300)"
  by (auto simp: putToR2_def split: put_end.splits)

lemma putToR2_settles: "\<not> ab \<Longrightarrow> putToR2 ab e \<noteq> None"
  by (simp add: putToR2_def)

text \<open>\<open>uploadToR2\<close> returns a URL exactly when it was called with a file and a non-empty scope
  string, the signal had not fired, the presign request was answered with success and an upload
  URL, and the PUT to that URL ended with a 2xx status; the URL is then the presigned
  \<open>public_url\<close>. Every other ending is an error or, when the signal fires just before the PUT is
  sent, a promise that never settles.\<close>

theorem upload_url_iff:
  "(\<exists>up. uploadToR2 f scope ab answer ab' e = Some (Inr up) \<and> obj_get up (lit ''url'') = url) \<longleftrightarrow>
   (\<exists>b c cs res st text. f = Some b \<and> scope = Str (c # cs) \<and> \<not> ab \<and> answer = Inr res \<and>
      truthy (opt_prop (opt_prop res (lit ''data'')) (lit ''success'')) \<and>
      truthy (opt_prop (opt_prop (opt_prop res (lit ''data'')) (lit ''data'')) (lit ''upload_url'')) \<and>
      \<not> ab' \<and> e = Loaded st text \<and> 200 \<le> st \<and> st < 300 \<and>
      url = opt_prop (opt_prop (opt_prop res (lit ''data'')) (lit ''data'')) (lit ''public_url''))"
proof -
  have scope: "truthy scope \<and> is_str scope \<longleftrightarrow> (\<exists>c cs. scope = Str (c # cs))"
    by (cases scope) (auto simp: neq_Nil_conv)
  show ?thesis
    using scope
    by (cases f; cases answer; cases e)
      (auto simp: uploadToR2_def putToR2_def Let_def split: if_splits)
qed

end
