(* ===== verification/Task_Polling.thy ===== *)
theory Task_Polling
  imports Upload "HOL-Library.AList"
begin

text \<open>
  The asynchronous media tasks of the playground: \<open>useVideoGeneration.js\<close>,
  \<open>useAudioTranscription.js\<close> and the upload helper \<open>upload.js\<close> the latter calls.

  Both hooks submit a task, register a poll for it in \<open>pollsRef\<close> (a Map, kept in insertion order: task id to interval id, start
  time and callback) and fetch its status every three seconds until the task ends, the server
  answers 4xx or the poll is too old. \<open>poller\<close> is the state of one hook together with the part
  of the browser it uses: the running intervals (\<open>timers\<close>, interval id to the arguments its
  closure captured), the GET requests that have been sent and not yet answered (\<open>in_flight\<close>), and
  what has been handed out so far: the patches passed to the \<open>onUpdate\<close> callbacks, the messages
  passed to \<open>showError\<close>, the patches passed to \<open>onDebug\<close>. A callback is known by a number, and
  \<open>None\<close> is a caller that passed no callback (\<open>onUpdate?.(...)\<close>). An \<open>await\<close> splits a function
  into the part before it and the part that runs on the answer, so the steps of several calls can
  be interleaved. The server's answers, the clock and \<open>t\<close> of i18next are arguments.

  Task ids are the values the server sends (strings); the registry is keyed by them. Callbacks
  are taken not to throw.
\<close>

section \<open>State\<close>

type_synonym sink = "nat option"

record poll =
  intervalId :: nat
  startedAt :: int
  onUpdate :: sink

record poller =
  polls :: "(jsval \<times> poll) list"
  timers :: "nat \<rightharpoonup> jsval \<times> sink"
  next_id :: nat
  in_flight :: "(jsstr \<times> jsval \<times> sink) list"
  updates :: "(nat \<times> jsobj) list"
  shown_errors :: "jsval list"
  debugs :: "jsobj list"
  loading :: bool

text \<open>What \<open>await API.get(...)\<close> or \<open>await API.post(...)\<close> ends with: a response object, or a
  thrown error object.\<close>

datatype reply = Reply jsval | Failure jsval

definition init_poller :: poller where
  "init_poller = \<lparr>polls = [], timers = Map.empty, next_id = 1, in_flight = [], updates = [],
     shown_errors = [], debugs = [], loading = False\<rparr>"

abbreviation S :: "string \<Rightarrow> jsval" where
  "S s \<equiv> Str (lit s)"

section \<open>The poll registry\<close>

definition emit :: "sink \<Rightarrow> jsobj \<Rightarrow> poller \<Rightarrow> poller" where
  "emit s u h = (case s of None \<Rightarrow> h | Some c \<Rightarrow> h\<lparr>updates := updates h @ [(c, u)]\<rparr>)"

definition unmount :: "poller \<Rightarrow> poller" where
  "unmount h = h\<lparr>timers := foldl (\<lambda>m kp. m(intervalId (snd kp) := None)) (timers h) (polls h), polls := []\<rparr>"

definition stopPoll :: "jsval \<Rightarrow> poller \<Rightarrow> poller" where
  "stopPoll k h = (case map_of (polls h) k of
     None \<Rightarrow> h
   | Some p \<Rightarrow> h\<lparr>timers := (timers h)(intervalId p := None), polls := AList.delete k (polls h)\<rparr>)"

text \<open>\<open>tick\<close> up to its \<open>await API.get(FETCH_ENDPOINT(taskId))\<close>.\<close>

definition send_fetch :: "(jsval \<Rightarrow> jsstr) \<Rightarrow> jsval \<Rightarrow> sink \<Rightarrow> poller \<Rightarrow> poller" where
  "send_fetch endpoint k s h = h\<lparr>in_flight := in_flight h @ [(endpoint k, k, s)]\<rparr>"

definition startPolling :: "(jsval \<Rightarrow> jsstr) \<Rightarrow> int \<Rightarrow> jsval \<Rightarrow> sink \<Rightarrow> poller \<Rightarrow> poller" where
  "startPolling endpoint now k s h =
     (if \<not> truthy k then h
      else if map_of (polls h) k \<noteq> None then h
      else let i = next_id h;
               h1 = h\<lparr>next_id := i + 1, timers := (timers h)(i \<mapsto> (k, s))\<rparr>;
               h2 = h1\<lparr>polls := AList.update k \<lparr>intervalId = i, startedAt = now, onUpdate = s\<rparr> (polls h1)\<rparr>
           in send_fetch endpoint k s h2)"

text \<open>The \<open>catch\<close> of \<open>tick\<close>: a 4xx answer ends the poll, any other failure is left to the next
  tick.\<close>

definition tick_failure :: "(jsstr \<Rightarrow> jsstr) \<Rightarrow> jsval \<Rightarrow> sink \<Rightarrow> jsval \<Rightarrow> poller \<Rightarrow> poller" where
  "tick_failure t k s err h =
     (let code = opt_prop (opt_prop err (lit ''response'')) (lit ''status'')
      in if truthy code \<and> num_le (Fin 400) (to_num code) \<and> num_lt (to_num code) (Fin 500)
         then emit s
           [(lit ''status'', S ''error''),
            (lit ''errorMessage'',
              js_or (opt_prop (opt_prop (opt_prop err (lit ''response'')) (lit ''data'')) (lit ''message''))
                (js_or (opt_prop err (lit ''message'')) (Str (t [26597, 35810, 22833, 36133]))))]
           (stopPoll k h)
         else h)"

text \<open>The end of \<open>tick\<close>: a poll that is still registered and too old is given up.\<close>

definition tick_timeout :: "(jsstr \<Rightarrow> jsstr) \<Rightarrow> int \<Rightarrow> int \<Rightarrow> jsval \<Rightarrow> sink \<Rightarrow> poller \<Rightarrow> poller" where
  "tick_timeout t limit now k s h = (case map_of (polls h) k of
     None \<Rightarrow> h
   | Some p \<Rightarrow>
       if limit < now - startedAt p
       then emit s
         [(lit ''status'', S ''error''),
          (lit ''errorMessage'', Str (t [36718, 35810, 36229, 26102, 65292, 35831, 31245, 21518, 25163, 21160, 21047, 26032]))]
         (stopPoll k h)
       else h)"

section \<open>Video generation\<close>

definition video_endpoint :: "jsval \<Rightarrow> jsstr" where
  "video_endpoint k = lit ''/pg/video/generations/'' @ to_str k"

definition video_timeout_ms :: int where
  "video_timeout_ms = 30 * 60 * 1000"

definition video_url :: "jsval \<Rightarrow> jsval" where
  "video_url body =
     js_or (opt_prop (opt_prop body (lit ''metadata'')) (lit ''url''))
     (js_or (opt_prop body (lit ''result_url''))
     (js_or (opt_prop body (lit ''url''))
     (js_or (opt_prop (opt_prop (opt_prop body (lit ''data'')) (lit ''output'')) (lit ''url''))
     (js_or (opt_prop (opt_prop body (lit ''content'')) (lit ''video_url'')) (Str [])))))"

definition video_reply :: "(jsstr \<Rightarrow> jsstr) \<Rightarrow> jsval \<Rightarrow> sink \<Rightarrow> jsval \<Rightarrow> poller \<Rightarrow> poller" where
  "video_reply t k s res h =
     (let body = opt_prop res (lit ''data'');
          status = opt_prop body (lit ''status'');
          progress = (if is_num (opt_prop body (lit ''progress''))
            then opt_prop body (lit ''progress'') else Undefined);
          errorMsg = js_or (opt_prop (opt_prop body (lit ''error'')) (lit ''message'')) (Str [])
      in if js_eq status (S ''completed'') then
           emit s [(lit ''status'', S ''complete''), (lit ''progress'', Num (Fin 100)),
             (lit ''videoUrl'', video_url body), (lit ''raw'', body)] (stopPoll k h)
         else if js_eq status (S ''failed'') then
           emit s [(lit ''status'', S ''error''),
             (lit ''errorMessage'', js_or errorMsg (Str (t [35270, 39057, 29983, 25104, 22833, 36133]))),
             (lit ''raw'', body)] (stopPoll k h)
         else emit s [(lit ''status'', S ''polling''),
             (lit ''progress'', js_coalesce progress Undefined)] h)"

text \<open>\<open>tick\<close> from the answer of its request on.\<close>

definition video_tick :: "(jsstr \<Rightarrow> jsstr) \<Rightarrow> int \<Rightarrow> jsval \<Rightarrow> sink \<Rightarrow> reply \<Rightarrow> poller \<Rightarrow> poller" where
  "video_tick t now k s r h = tick_timeout t video_timeout_ms now k s
     (case r of Reply res \<Rightarrow> video_reply t k s res h | Failure err \<Rightarrow> tick_failure t k s err h)"

record video_args =
  va_model :: jsval
  va_group :: jsval
  va_prompt :: jsval
  va_params :: jsval
  va_content :: jsval
  va_promptOptional :: jsval
  va_onUpdate :: sink

text \<open>\<open>generate\<close> up to its request: the payload to post, or \<open>None\<close> when it returned null. The
  clock's ISO text is \<open>ts\<close>.\<close>

definition video_payload :: "video_args \<Rightarrow> jsstr \<Rightarrow> jsobj" where
  "video_payload a trimmedPrompt =
     (let ps = own_entries (js_or (va_params a) (Obj []));
          metadata = (case va_content a of
            Arr (x # xs) \<Rightarrow> obj_put ps (lit ''content'') (Arr (x # xs)) | _ \<Rightarrow> ps)
      in [(lit ''model'', va_model a), (lit ''group'', va_group a),
          (lit ''prompt'', Str trimmedPrompt), (lit ''metadata'', Obj metadata)])"

definition video_submit ::
  "(jsstr \<Rightarrow> jsstr) \<Rightarrow> jsstr \<Rightarrow> video_args \<Rightarrow> poller \<Rightarrow> (poller \<times> jsobj option) res"
where
  "video_submit t ts a h =
     (if \<not> truthy (va_model a) then
        Inr (h\<lparr>shown_errors := shown_errors h @ [Str (t [35831, 20808, 36873, 25321, 27169, 22411])]\<rparr>, None)
      else case js_or (va_prompt a) (Str []) of
        Str p \<Rightarrow>
          (let trimmedPrompt = trim p;
               hasContent = (case va_content a of Arr (x # xs) \<Rightarrow> True | _ \<Rightarrow> False)
           in if trimmedPrompt = [] \<and> \<not> (truthy (va_promptOptional a) \<and> hasContent) then
                Inr (h\<lparr>shown_errors := shown_errors h @ [Str (t [35831, 36755, 20837, 32, 80, 114, 111, 109, 112, 116])]\<rparr>, None)
              else
                (let payload = video_payload a trimmedPrompt;
                     text = stringify2 (Obj payload);
                     debug = [(lit ''previewRequest'', text), (lit ''previewTimestamp'', Str ts),
                       (lit ''request'', text), (lit ''timestamp'', Str ts)]
                 in Inr (h\<lparr>debugs := debugs h @ [debug], loading := True\<rparr>, Some payload)))
      | _ \<Rightarrow> Inl TypeError)"

definition show_and_return :: "jsval \<Rightarrow> jsobj \<Rightarrow> poller \<Rightarrow> poller \<times> jsval" where
  "show_and_return msg rest h =
     (h\<lparr>shown_errors := shown_errors h @ [msg], loading := False\<rparr>, Obj ((lit ''error'', msg) # rest))"

text \<open>The message of a failed submission, the same in both hooks.\<close>

definition submit_failure_message :: "(jsstr \<Rightarrow> jsstr) \<Rightarrow> jsval \<Rightarrow> jsval" where
  "submit_failure_message t err =
     (let data = opt_prop (opt_prop err (lit ''response'')) (lit ''data'')
      in js_or (opt_prop data (lit ''message''))
        (js_or (opt_prop (opt_prop data (lit ''error'')) (lit ''message''))
        (js_or (opt_prop err (lit ''message'')) (Str (t [32593, 32476, 38169, 35823])))))"

text \<open>\<open>generate\<close> from the answer of its request on, with the value it returns.\<close>

definition video_submitted ::
  "(jsstr \<Rightarrow> jsstr) \<Rightarrow> int \<Rightarrow> jsstr \<Rightarrow> sink \<Rightarrow> reply \<Rightarrow> poller \<Rightarrow> poller \<times> jsval"
where
  "video_submitted t now ts s r h = (case r of
     Failure err \<Rightarrow> show_and_return (submit_failure_message t err) [] h
   | Reply res \<Rightarrow>
       (let body = opt_prop res (lit ''data'');
            h1 = h\<lparr>debugs := debugs h @
              [[(lit ''response'', stringify2 body), (lit ''timestamp'', Str ts)]]\<rparr>;
            taskId = js_or (opt_prop body (lit ''id'')) (opt_prop body (lit ''task_id''))
        in if num_le (Fin 400) (to_num (opt_prop res (lit ''status''))) \<or>
              truthy (opt_prop body (lit ''error'')) then
             show_and_return (js_or (opt_prop (opt_prop body (lit ''error'')) (lit ''message''))
               (js_or (opt_prop body (lit ''message'')) (Str (t [35270, 39057, 29983, 25104, 20219, 21153, 25552, 20132, 22833, 36133]))))
               [(lit ''raw'', body)] h1
           else if \<not> truthy taskId then
             show_and_return (Str (t [26381, 21153, 31471, 26410, 36820, 22238, 32, 116, 97, 115, 107, 95, 105, 100])) [(lit ''raw'', body)] h1
           else ((startPolling video_endpoint now taskId s h1)\<lparr>loading := False\<rparr>,
             Obj [(lit ''taskId'', taskId),
               (lit ''status'', js_or (opt_prop body (lit ''status'')) (S ''queued'')),
               (lit ''raw'', body)])))"

section \<open>Transcription\<close>

definition stt_endpoint :: "jsval \<Rightarrow> jsstr" where
  "stt_endpoint k = lit ''/pg/audio/transcriptions/'' @ to_str k"

definition stt_timeout_ms :: int where
  "stt_timeout_ms = 10 * 60 * 1000"

text \<open>\<open>fileToBase64\<close> on what the FileReader produced.\<close>

definition fileToBase64 :: "jsstr option \<Rightarrow> jsstr option" where
  "fileToBase64 r = map_option (\<lambda>result.
     if 44 \<in> set result then tl (dropWhile (\<lambda>c. c \<noteq> 44) result) else result) r"

definition joinArr :: "jsval \<Rightarrow> jsstr" where
  "joinArr v = (case v of
     Arr xs \<Rightarrow> join [] (map to_str (filter truthy (map (\<lambda>x.
       if truthy x \<and> typeof_object x
       then js_or (opt_prop x (lit ''text'')) (js_or (opt_prop x (lit ''transcript'')) (Str []))
       else Str (to_str (js_or x (Str [])))) xs)))
   | _ \<Rightarrow> [])"

definition textual_key :: "jsstr \<Rightarrow> bool" where
  "textual_key k \<longleftrightarrow> str_includes (to_lower k) (lit ''text'') \<or> str_includes (to_lower k) (lit ''transcript'')"

text \<open>The local function \<open>walk\<close>; the variable \<open>found\<close> it assigns is threaded through.\<close>

function walk :: "nat \<Rightarrow> jsval \<Rightarrow> jsstr \<Rightarrow> jsstr" where
  "walk depth v found =
     (if found \<noteq> [] \<or> 4 < depth \<or> nullish v then found
      else case v of
        Arr xs \<Rightarrow> foldl (\<lambda>f x. walk (depth + 1) x f) found xs
      | Obj kvs \<Rightarrow> foldl (\<lambda>f kv.
          if f \<noteq> [] then f
          else case snd kv of
            Str s \<Rightarrow> if textual_key (fst kv) \<and> trim s \<noteq> [] then s else walk (depth + 1) (snd kv) f
          | _ \<Rightarrow> walk (depth + 1) (snd kv) f) found kvs
      | _ \<Rightarrow> found)"
  by pat_completeness auto
termination
  by (relation "measure (\<lambda>(depth, v, found). 5 - depth)") auto

declare walk.simps [simp del]

text \<open>\<open>extractTranscript\<close> from the point where \<open>obj\<close> is known to be an object.\<close>

definition nonblank_str :: "jsval \<Rightarrow> bool" where
  "nonblank_str v = (case v of Str s \<Rightarrow> trim s \<noteq> [] | _ \<Rightarrow> False)"

definition extract_object :: "jsval \<Rightarrow> jsstr" where
  "extract_object obj =
     (let direct = js_coalesce (opt_prop obj (lit ''text''))
            (js_coalesce (opt_prop obj (lit ''transcript''))
            (js_coalesce (opt_prop obj (lit ''transcription'')) (opt_prop obj (lit ''result_text''))));
          result = js_coalesce (opt_prop obj (lit ''result''))
            (js_coalesce (opt_prop obj (lit ''data'')) (opt_prop obj (lit ''output'')));
          nested = js_coalesce (opt_prop result (lit ''text''))
            (js_coalesce (opt_prop result (lit ''transcript'')) (opt_prop result (lit ''transcription'')));
          fromArr = to_str (js_or (Str (joinArr (opt_prop obj (lit ''utterances''))))
            (js_or (Str (joinArr (opt_prop obj (lit ''segments''))))
            (js_or (Str (joinArr (opt_prop result (lit ''utterances''))))
              (Str (joinArr (opt_prop result (lit ''segments'')))))));
          found = walk 0 obj []
      in if nonblank_str direct then to_str direct
         else if truthy result \<and> typeof_object result \<and> nonblank_str nested then to_str nested
         else if trim fromArr \<noteq> [] then fromArr
         else if trim found \<noteq> [] then found
         else to_str (stringify2 obj))"

definition extractTranscript :: "jsval \<Rightarrow> jsstr res" where
  "extractTranscript data =
     (let finish = (\<lambda>obj.
        if is_str obj then Inr (to_str obj)
        else if \<not> typeof_object obj then Inr (to_str obj)
        else if nullish obj then Inl TypeError
        else Inr (extract_object obj))
      in if nullish data then Inr []
         else (case data of
           Str d \<Rightarrow>
             (let s = trim d
              in if s = [] then Inr []
                 else (case json_parse s of Inl e \<Rightarrow> Inr s | Inr obj \<Rightarrow> finish obj))
         | _ \<Rightarrow> finish data))"

text \<open>The \<open>try\<close> block of \<open>tick\<close>. An exception of \<open>extractTranscript\<close> reaches the \<open>catch\<close> after
  \<open>stopPoll\<close>; it carries no \<open>response\<close>.\<close>

definition stt_reply :: "(jsstr \<Rightarrow> jsstr) \<Rightarrow> jsval \<Rightarrow> sink \<Rightarrow> jsval \<Rightarrow> poller \<Rightarrow> poller" where
  "stt_reply t k s res h =
     (let body = opt_prop res (lit ''data'');
          task = js_or (opt_prop body (lit ''data'')) body;
          status = opt_prop task (lit ''status'')
      in if js_eq status (S ''SUCCESS'') then
           (case extractTranscript (opt_prop task (lit ''data'')) of
              Inl e \<Rightarrow> tick_failure t k s (Obj []) (stopPoll k h)
            | Inr text \<Rightarrow> emit s [(lit ''status'', S ''complete''), (lit ''text'', Str text),
                (lit ''raw'', body)] (stopPoll k h))
         else if js_eq status (S ''FAILURE'') then
           emit s [(lit ''status'', S ''error''),
             (lit ''errorMessage'', js_or (opt_prop task (lit ''fail_reason'')) (Str (t [35821, 38899, 35782, 21035, 22833, 36133]))),
             (lit ''raw'', body)] (stopPoll k h)
         else emit s [(lit ''status'', S ''polling'')] h)"

definition stt_tick :: "(jsstr \<Rightarrow> jsstr) \<Rightarrow> int \<Rightarrow> jsval \<Rightarrow> sink \<Rightarrow> reply \<Rightarrow> poller \<Rightarrow> poller" where
  "stt_tick t now k s r h = tick_timeout t stt_timeout_ms now k s
     (case r of Reply res \<Rightarrow> stt_reply t k s res h | Failure err \<Rightarrow> tick_failure t k s err h)"

record stt_args =
  sa_model :: jsval
  sa_group :: jsval
  sa_file :: "blob option"
  sa_params :: jsval
  sa_onUpdate :: sink

definition audio_type_by_ext :: "(jsstr \<times> jsstr) list" where
  "audio_type_by_ext = map (map_prod lit lit)
     [(''mp3'', ''audio/mpeg''), (''wav'', ''audio/wav''), (''m4a'', ''audio/mp4''), (''mp4'', ''audio/mp4''),
      (''ogg'', ''audio/ogg''), (''oga'', ''audio/ogg''), (''opus'', ''audio/opus''), (''flac'', ''audio/flac''),
      (''aac'', ''audio/aac''), (''webm'', ''audio/webm''), (''amr'', ''audio/amr'')]"

definition audio_filename :: "blob \<Rightarrow> jsstr" where
  "audio_filename b = (if is_file b \<and> fname b \<noteq> [] then fname b else lit ''audio.mp3'')"

text \<open>The file that is uploaded: one whose type is not an audio type gets the type of its
  extension.\<close>

definition upload_file :: "blob \<Rightarrow> blob" where
  "upload_file b =
     (if ftype b = [] \<or> \<not> starts_with (ftype b) (lit ''audio/'') then
        (let ext = to_lower (last (split_char 46 (audio_filename b)));
             typeByExt = (case map_of audio_type_by_ext ext of None \<Rightarrow> lit ''audio/mpeg'' | Some ty \<Rightarrow> ty)
         in b\<lparr>is_file := True, fname := audio_filename b, ftype := typeByExt\<rparr>)
      else b)"

text \<open>The loop over \<open>params\<close>: the payload and the options collected.\<close>

definition stt_param :: "jsobj \<times> jsobj \<Rightarrow> jsstr \<times> jsval \<Rightarrow> jsobj \<times> jsobj" where
  "stt_param po kv = (case (po, kv) of ((payload, opts), (k, v)) \<Rightarrow>
     if nullish v \<or> v = Str [] then (payload, opts)
     else if k = lit ''batch_mode'' then
       (obj_put payload k (Bool (v = Bool True \<or> v = S ''true'' \<or> v = Num (Fin 1))), opts)
     else if k = lit ''priority'' then
       (if to_num v = NaN then payload else obj_put payload k (Num (to_num v)), opts)
     else (payload, obj_put opts k v))"

definition stt_payload :: "stt_args \<Rightarrow> blob \<Rightarrow> jsval \<Rightarrow> jsstr \<Rightarrow> jsobj" where
  "stt_payload a b audioUrl audioBase64 =
     (let base = [(lit ''model'', sa_model a), (lit ''group'', sa_group a),
            (lit ''audio_filename'', Str (audio_filename b))];
          p1 = (if truthy audioUrl then obj_put base (lit ''audio_url'') audioUrl
            else obj_put base (lit ''audio_base64'') (Str audioBase64));
          (p2, opts) = foldl stt_param (p1, []) (own_entries (js_or (sa_params a) (Obj [])))
      in if opts \<noteq> [] then obj_put p2 (lit ''options'') (Obj opts) else p2)"

text \<open>\<open>transcribe\<close> up to its request. \<open>up\<close> is how the upload settled and \<open>b64\<close> what the fallback
  FileReader produced; the result is the payload to post and the audio URL, or the value
  returned at once.\<close>

definition stt_submit ::
  "(jsstr \<Rightarrow> jsstr) \<Rightarrow> jsstr \<Rightarrow> stt_args \<Rightarrow> upload_error + jsobj \<Rightarrow> jsstr option \<Rightarrow> poller \<Rightarrow>
   poller \<times> (jsval + jsobj \<times> jsval)"
where
  "stt_submit t ts a up b64 h =
     (if \<not> truthy (sa_model a) then
        (h\<lparr>shown_errors := shown_errors h @ [Str (t [35831, 20808, 36873, 25321, 27169, 22411])]\<rparr>, Inl Null)
      else case sa_file a of
        None \<Rightarrow>
          (h\<lparr>shown_errors := shown_errors h @ [Str (t [35831, 20808, 36873, 25321, 35201, 36716, 20889, 30340, 38899, 39057, 25991, 20214])]\<rparr>, Inl Null)
      | Some b \<Rightarrow>
          (let go = (\<lambda>audioUrl audioBase64.
             let payload = stt_payload a b audioUrl audioBase64;
                 preview = (if truthy (obj_get payload (lit ''audio_base64''))
                   then obj_put payload (lit ''audio_base64'')
                     (Str (lit ''<'' @ audio_filename b @ [44, 32, 98, 97, 115, 101, 54, 52, 32, 30465, 30053, 62]))
                   else payload);
                 debug = [(lit ''previewRequest'', stringify2 (Obj preview)),
                   (lit ''previewTimestamp'', Str ts),
                   (lit ''request'', Str (lit ''POST /pg/audio/transcriptions/async (json, '' @
                      (if truthy audioUrl then lit ''audio_url'' else lit ''audio_base64'') @ lit '')'')),
                   (lit ''timestamp'', Str ts)]
             in (h\<lparr>debugs := debugs h @ [debug], loading := True\<rparr>, Inr (payload, audioUrl)))
           in case up of
             Inr u \<Rightarrow> go (obj_get u (lit ''url'')) []
           | Inl _ \<Rightarrow>
               (case fileToBase64 b64 of
                  None \<Rightarrow>
                    (h\<lparr>shown_errors := shown_errors h @ [Str (t [35835, 21462, 38899, 39057, 25991, 20214, 22833, 36133])]\<rparr>,
                     Inl (Obj [(lit ''error'', Str (t [35835, 21462, 38899, 39057, 25991, 20214, 22833, 36133]))]))
                | Some d \<Rightarrow> go (Str []) d)))"

definition stt_submitted ::
  "(jsstr \<Rightarrow> jsstr) \<Rightarrow> int \<Rightarrow> jsstr \<Rightarrow> sink \<Rightarrow> jsval \<Rightarrow> reply \<Rightarrow> poller \<Rightarrow> poller \<times> jsval"
where
  "stt_submitted t now ts s audioUrl r h = (case r of
     Failure err \<Rightarrow> show_and_return (submit_failure_message t err) [(lit ''audioUrl'', audioUrl)] h
   | Reply res \<Rightarrow>
       (let body = opt_prop res (lit ''data'');
            h1 = h\<lparr>debugs := debugs h @
              [[(lit ''response'', stringify2 body), (lit ''timestamp'', Str ts)]]\<rparr>;
            data = opt_prop body (lit ''data'');
            taskId = js_or (opt_prop body (lit ''id'')) (js_or (opt_prop body (lit ''task_id''))
              (js_or (opt_prop data (lit ''task_id'')) (opt_prop data (lit ''id''))))
        in if num_le (Fin 400) (to_num (opt_prop res (lit ''status''))) \<or>
              truthy (opt_prop body (lit ''error'')) \<or>
              (truthy (opt_prop body (lit ''message'')) \<and> \<not> truthy (opt_prop body (lit ''id''))) then
             show_and_return (js_or (opt_prop (opt_prop body (lit ''error'')) (lit ''message''))
               (js_or (opt_prop body (lit ''message'')) (Str (t [35821, 38899, 35782, 21035, 20219, 21153, 25552, 20132, 22833, 36133]))))
               [(lit ''audioUrl'', audioUrl), (lit ''raw'', body)] h1
           else if \<not> truthy taskId then
             show_and_return (Str (t [26381, 21153, 31471, 26410, 36820, 22238, 32, 116, 97, 115, 107, 95, 105, 100]))
               [(lit ''audioUrl'', audioUrl), (lit ''raw'', body)] h1
           else ((startPolling stt_endpoint now taskId s h1)\<lparr>loading := False\<rparr>,
             Obj [(lit ''taskId'', taskId), (lit ''audioUrl'', audioUrl),
               (lit ''status'', opt_prop body (lit ''status'')), (lit ''raw'', body)])))"

end
