(* ===== verification/Task_Polling_Thms.thy ===== *)
theory Task_Polling_Thms
  imports Task_Polling
begin

text \<open>
  Properties of the polling hooks. \<open>poller_reach\<close> is every state a hook can be in, whatever the
  order in which calls, interval ticks, answers, submissions and the unmount are interleaved. The
  locale \<open>poll_hook\<close> states what a hook's \<open>tick\<close> and submission have to satisfy; the invariant of
  the registry and the end of polling are proved there once and hold for both hooks by
  interpretation.
\<close>

section \<open>The registry operations\<close>

lemma emit_keeps [simp]:
  "polls (emit s u h) = polls h" "timers (emit s u h) = timers h"
  "next_id (emit s u h) = next_id h" "in_flight (emit s u h) = in_flight h"
  by (simp_all add: emit_def split: option.splits)

lemma stopPoll_keeps [simp]:
  "next_id (stopPoll k h) = next_id h" "in_flight (stopPoll k h) = in_flight h"
  "updates (stopPoll k h) = updates h"
  by (simp_all add: stopPoll_def split: option.splits)

lemma map_of_stopPoll [simp]: "map_of (polls (stopPoll k h)) = (map_of (polls h))(k := None)"
  by (auto simp: stopPoll_def delete_conv' split: option.splits)

lemma stopPoll_unregistered: "map_of (polls h) k = None \<Longrightarrow> stopPoll k h = h"
  by (simp add: stopPoll_def)

text \<open>The timers are exactly those of the registered polls, and ids are fresh.\<close>

definition timers_ok :: "poller \<Rightarrow> bool" where
  "timers_ok h \<longleftrightarrow>
     (\<forall>i k s. timers h i = Some (k, s) \<longleftrightarrow>
        (\<exists>p. map_of (polls h) k = Some p \<and> intervalId p = i \<and> onUpdate p = s)) \<and>
     (\<forall>i k s. timers h i = Some (k, s) \<longrightarrow> i < next_id h) \<and>
     distinct (map fst (polls h))"

lemma timers_okI:
  assumes "\<And>i k s. timers h i = Some (k, s) \<longleftrightarrow>
      (\<exists>p. map_of (polls h) k = Some p \<and> intervalId p = i \<and> onUpdate p = s)"
    and "\<And>i k s. timers h i = Some (k, s) \<Longrightarrow> i < next_id h"
    and "distinct (map fst (polls h))"
  shows "timers_ok h"
  using assms unfolding timers_ok_def by blast

lemma timers_okD:
  assumes "timers_ok h"
  shows "timers h i = Some (k, s) \<longleftrightarrow>
      (\<exists>p. map_of (polls h) k = Some p \<and> intervalId p = i \<and> onUpdate p = s)"
    and "timers h i = Some (k, s) \<Longrightarrow> i < next_id h"
    and "distinct (map fst (polls h))"
  using assms unfolding timers_ok_def by blast+

lemma timers_ok_owner:
  assumes "timers_ok h" "map_of (polls h) k = Some p"
  shows "timers h (intervalId p) = Some (k, onUpdate p)"
  using assms timers_okD(1) by blast

lemma timers_ok_cong:
  "polls h' = polls h \<Longrightarrow> timers h' = timers h \<Longrightarrow> next_id h' = next_id h \<Longrightarrow>
   timers_ok h' \<longleftrightarrow> timers_ok h"
  by (simp add: timers_ok_def)

lemma timers_ok_init: "timers_ok init_poller"
  by (simp add: timers_ok_def init_poller_def)

lemma timers_stopPoll:
  "timers (stopPoll k h) = (case map_of (polls h) k of None \<Rightarrow> timers h
     | Some p \<Rightarrow> (timers h)(intervalId p := None))"
  by (simp add: stopPoll_def split: option.splits)

lemma timers_ok_stopPoll:
  assumes ok: "timers_ok h"
  shows "timers_ok (stopPoll k h)"
proof (cases "map_of (polls h) k")
  case (Some p)
  note own = timers_ok_owner [OF ok]
  show ?thesis
  proof (rule timers_okI)
    show "timers (stopPoll k h) i = Some (k', s) \<longleftrightarrow>
        (\<exists>q. map_of (polls (stopPoll k h)) k' = Some q \<and> intervalId q = i \<and> onUpdate q = s)" for i k' s
      using own [OF Some] own timers_okD(1) [OF ok, of i k' s] Some
      by (auto simp: timers_stopPoll)
    show "timers (stopPoll k h) i = Some (k', s) \<Longrightarrow> i < next_id (stopPoll k h)" for i k' s
      using timers_okD(2) [OF ok] Some by (auto simp: timers_stopPoll split: if_splits)
    show "distinct (map fst (polls (stopPoll k h)))"
      using timers_okD(3) [OF ok] Some by (simp add: stopPoll_def distinct_delete)
  qed
qed (use ok stopPoll_unregistered in metis)

lemma timers_ok_startPolling:
  assumes ok: "timers_ok h"
  shows "timers_ok (startPolling e now k s h)"
proof (cases "truthy k \<and> map_of (polls h) k = None")
  case True
  let ?h = "startPolling e now k s h"
  have fields: "timers ?h = (timers h)(next_id h \<mapsto> (k, s))" "next_id ?h = next_id h + 1"
      "map_of (polls ?h) = (map_of (polls h))(k \<mapsto> \<lparr>intervalId = next_id h, startedAt = now, onUpdate = s\<rparr>)"
    using True by (auto simp: startPolling_def send_fetch_def Let_def update_conv')
  have fresh: "intervalId p \<noteq> next_id h" if "map_of (polls h) k' = Some p" for k' p
    using timers_okD(2) [OF ok timers_ok_owner [OF ok that]] by simp
  have old: "timers h (next_id h) = None"
    using timers_okD(2) [OF ok, of "next_id h"] by (cases "timers h (next_id h)") auto
  show ?thesis
  proof (rule timers_okI)
    show "timers ?h i = Some (k', s') \<longleftrightarrow>
        (\<exists>q. map_of (polls ?h) k' = Some q \<and> intervalId q = i \<and> onUpdate q = s')" for i k' s'
      using timers_okD(1) [OF ok, of i k' s'] True fresh old by (auto simp: fields)
    show "timers ?h i = Some (k', s') \<Longrightarrow> i < next_id ?h" for i k' s'
      using timers_okD(2) [OF ok] by (auto simp: fields less_Suc_eq split: if_splits)
    show "distinct (map fst (polls ?h))"
      using timers_okD(3) [OF ok] True
      by (simp add: startPolling_def send_fetch_def Let_def distinct_update)
  qed
qed (use ok in \<open>auto simp: startPolling_def\<close>)

lemma foldl_clear: "foldl (\<lambda>m kp. m(intervalId (snd kp) := None)) m xs i =
   (if i \<in> intervalId ` snd ` set xs then None else m i)"
  by (induction xs arbitrary: m) auto

lemma timers_unmount: "timers_ok h \<Longrightarrow> timers (unmount h) = Map.empty"
proof
  fix i
  assume ok: "timers_ok h"
  show "timers (unmount h) i = None"
  proof (cases "timers h i")
    case (Some ks)
    then obtain p where "map_of (polls h) (fst ks) = Some p" "intervalId p = i"
      using timers_okD(1) [OF ok, of i "fst ks" "snd ks"] by auto
    then have "i \<in> intervalId ` snd ` set (polls h)"
      by (metis image_eqI map_of_SomeD snd_conv)
    then show ?thesis by (simp add: unmount_def foldl_clear)
  qed (simp add: unmount_def foldl_clear)
qed

lemma timers_ok_unmount: "timers_ok h \<Longrightarrow> timers_ok (unmount h)"
  using timers_unmount [of h] by (simp add: timers_ok_def unmount_def)

section \<open>What one tick does\<close>

text \<open>A tick leaves the registry alone or stops its own poll, and hands a list of patches to its
  callback. A patch is terminal when its status is not \<open>polling\<close>.\<close>

definition tick_effect :: "jsval \<Rightarrow> sink \<Rightarrow> bool \<Rightarrow> jsobj list \<Rightarrow> poller \<Rightarrow> poller \<Rightarrow> bool" where
  "tick_effect k s stop us h h' \<longleftrightarrow>
     (let g = (if stop then stopPoll k h else h)
      in polls h' = polls g \<and> timers h' = timers g \<and> next_id h' = next_id h \<and>
         in_flight h' = in_flight h \<and>
         updates h' = updates h @ (case s of None \<Rightarrow> [] | Some c \<Rightarrow> map (Pair c) us))"

definition terminal :: "jsobj \<Rightarrow> bool" where
  "terminal u \<longleftrightarrow> obj_get u (lit ''status'') \<noteq> Str (lit ''polling'')"

lemma effect_none: "tick_effect k s False [] h h"
  by (simp add: tick_effect_def split: option.splits)

lemma effect_emit: "tick_effect k s False [u] h (emit s u h)"
  by (simp add: tick_effect_def emit_def split: option.splits)

lemma effect_stop: "tick_effect k s True [] h (stopPoll k h)"
  by (simp add: tick_effect_def split: option.splits)

lemma effect_stop_emit: "tick_effect k s True [u] h (emit s u (stopPoll k h))"
  by (simp add: tick_effect_def emit_def split: option.splits)

lemma stopPoll_again:
  assumes "polls h1 = polls (stopPoll k h)" "timers h1 = timers (stopPoll k h)"
  shows "polls (stopPoll k h1) = polls h1" "timers (stopPoll k h1) = timers h1"
  using assms map_of_stopPoll [of k h] by (simp_all add: stopPoll_unregistered)

lemma stopPoll_cong:
  assumes "polls h1 = polls h" "timers h1 = timers h"
  shows "polls (stopPoll k h1) = polls (stopPoll k h)" "timers (stopPoll k h1) = timers (stopPoll k h)"
  using assms by (simp_all add: stopPoll_def split: option.splits)

lemma effect_trans:
  assumes "tick_effect k s b us h h1" "tick_effect k s b' us' h1 h2"
  shows "tick_effect k s (b \<or> b') (us @ us') h h2"
  using assms stopPoll_again [of h1 k h] stopPoll_cong [of h1 h k]
  by (cases b; cases b') (auto simp: tick_effect_def Let_def split: option.splits)

lemma effect_timers_ok:
  "tick_effect k s b us h h' \<Longrightarrow> timers_ok h \<Longrightarrow> timers_ok h'"
  using timers_ok_cong [of h' "if b then stopPoll k h else h"] timers_ok_stopPoll [of h k]
  by (auto simp: tick_effect_def Let_def split: if_splits)

lemma effect_registered:
  "tick_effect k s b us h h' \<Longrightarrow>
   map_of (polls h') k = (if b then None else map_of (polls h) k)"
  by (auto simp: tick_effect_def Let_def)

text \<open>The status code of an answer that ends a poll.\<close>

definition client_error :: "jsval \<Rightarrow> bool" where
  "client_error err \<longleftrightarrow> (\<exists>c. to_num (opt_prop (opt_prop err (lit ''response'')) (lit ''status'')) = Fin c \<and>
     400 \<le> c \<and> c < 500) \<and> truthy (opt_prop (opt_prop err (lit ''response'')) (lit ''status''))"

lemma client_error_iff:
  "num_le (Fin 400) x \<and> num_lt x (Fin 500) \<longleftrightarrow> (\<exists>c. x = Fin c \<and> 400 \<le> c \<and> c < 500)"
  by (cases x) (auto simp: num_le_def num_eq_def)

lemma terminal_simps:
  "terminal ((lit ''status'', Str (lit w)) # u) \<longleftrightarrow> w \<noteq> ''polling''"
  by (simp add: terminal_def)

lemma tick_failure_effect:
  "\<exists>us. tick_effect k s (client_error err) us h (tick_failure t k s err h) \<and>
     length (filter terminal us) = of_bool (client_error err)"
proof (cases "client_error err")
  case True
  then obtain u where "tick_failure t k s err h = emit s u (stopPoll k h)" "terminal u"
    using client_error_iff
    by (auto simp: tick_failure_def client_error_def Let_def terminal_simps)
  then show ?thesis
    using True effect_stop_emit [of k s u h] by (intro exI [of _ "[u]"]) simp
next
  case False
  then have "tick_failure t k s err h = h"
    using client_error_iff [of "to_num (opt_prop (opt_prop err (lit ''response'')) (lit ''status''))"]
    by (auto simp: tick_failure_def client_error_def Let_def)
  then show ?thesis
    using False effect_none [of k s h] by (intro exI [of _ "[]"]) simp
qed

text \<open>A registered poll past the time limit.\<close>

definition too_old :: "int \<Rightarrow> int \<Rightarrow> jsval \<Rightarrow> poller \<Rightarrow> bool" where
  "too_old limit now k h \<longleftrightarrow> (\<exists>p. map_of (polls h) k = Some p \<and> limit < now - startedAt p)"

lemma tick_timeout_effect:
  "\<exists>us. tick_effect k s (too_old limit now k h) us h (tick_timeout t limit now k s h) \<and>
     length (filter terminal us) = of_bool (too_old limit now k h)"
proof (cases "too_old limit now k h")
  case True
  then obtain u where "tick_timeout t limit now k s h = emit s u (stopPoll k h)" "terminal u"
    by (auto simp: tick_timeout_def too_old_def terminal_simps)
  then show ?thesis
    using True effect_stop_emit [of k s u h] by (intro exI [of _ "[u]"]) simp
next
  case False
  then have "tick_timeout t limit now k s h = h"
    by (auto simp: tick_timeout_def too_old_def split: option.splits)
  then show ?thesis
    using False effect_none [of k s h] by (intro exI [of _ "[]"]) simp
qed

text \<open>A poll that the answer does not end and that is too old is ended by the timeout: the two
  halves of a tick together report one terminal patch exactly when the poll is stopped.\<close>

lemma tick_compose:
  assumes "tick_effect k s b us h h1"
  shows "\<exists>us'. tick_effect k s (b \<or> too_old limit now k h) us' h (tick_timeout t limit now k s h1) \<and>
    length (filter terminal us') =
      length (filter terminal us) + of_bool (\<not> b \<and> too_old limit now k h)"
proof -
  have late: "too_old limit now k h1 \<longleftrightarrow> \<not> b \<and> too_old limit now k h"
    using effect_registered [OF assms] by (auto simp: too_old_def)
  obtain us2 where "tick_effect k s (\<not> b \<and> too_old limit now k h) us2 h1 (tick_timeout t limit now k s h1)"
      "length (filter terminal us2) = of_bool (\<not> b \<and> too_old limit now k h)"
    using tick_timeout_effect [of k s limit now h1 t] unfolding late by blast
  moreover have "(b \<or> (\<not> b \<and> too_old limit now k h)) = (b \<or> too_old limit now k h)" by blast
  ultimately show ?thesis
    using effect_trans [OF assms] by (intro exI [of _ "us @ us2"]) force
qed

section \<open>The two hooks\<close>

definition video_ends :: "reply \<Rightarrow> bool" where
  "video_ends r = (case r of
     Reply res \<Rightarrow> opt_prop (opt_prop res (lit ''data'')) (lit ''status'') \<in>
       {Str (lit ''completed''), Str (lit ''failed'')}
   | Failure err \<Rightarrow> client_error err)"

lemma video_reply_effect:
  "\<exists>us. tick_effect k s (video_ends (Reply res)) us h (video_reply t k s res h) \<and>
     length (filter terminal us) = of_bool (video_ends (Reply res))"
proof (cases "video_ends (Reply res)")
  case True
  then obtain u where "video_reply t k s res h = emit s u (stopPoll k h)" "terminal u"
    by (auto simp: video_reply_def video_ends_def Let_def js_eq_def terminal_simps)
  then show ?thesis
    using True effect_stop_emit [of k s u h] by (intro exI [of _ "[u]"]) simp
next
  case False
  then obtain u where "video_reply t k s res h = emit s u h" "\<not> terminal u"
    by (auto simp: video_reply_def video_ends_def Let_def js_eq_def terminal_simps)
  then show ?thesis
    using False effect_emit [of k s u h] by (intro exI [of _ "[u]"]) simp
qed

lemma video_tick_effect:
  "\<exists>us. tick_effect k s (video_ends r \<or> too_old video_timeout_ms now k h) us h (video_tick t now k s r h) \<and>
     length (filter terminal us) = of_bool (video_ends r \<or> too_old video_timeout_ms now k h)"
proof -
  obtain us h1 where us: "tick_effect k s (video_ends r) us h h1"
      "length (filter terminal us) = of_bool (video_ends r)"
      "video_tick t now k s r h = tick_timeout t video_timeout_ms now k s h1"
    using video_reply_effect [of k s _ h t] tick_failure_effect [of k s _ h t]
    by (cases r) (fastforce simp: video_tick_def video_ends_def)+
  show ?thesis
    using tick_compose [OF us(1), of video_timeout_ms now t] us(2,3) by (auto simp: of_bool_def)
qed

definition stt_task :: "jsval \<Rightarrow> jsval" where
  "stt_task res = js_or (opt_prop (opt_prop res (lit ''data'')) (lit ''data'')) (opt_prop res (lit ''data''))"

definition stt_ends :: "reply \<Rightarrow> bool" where
  "stt_ends r = (case r of
     Reply res \<Rightarrow> opt_prop (stt_task res) (lit ''status'') \<in> {Str (lit ''SUCCESS''), Str (lit ''FAILURE'')}
   | Failure err \<Rightarrow> client_error err)"

text \<open>An answer whose transcript makes \<open>extractTranscript\<close> throw.\<close>

definition stt_throws :: "reply \<Rightarrow> bool" where
  "stt_throws r = (case r of
     Reply res \<Rightarrow> opt_prop (stt_task res) (lit ''status'') = Str (lit ''SUCCESS'') \<and>
       isl (extractTranscript (opt_prop (stt_task res) (lit ''data'')))
   | Failure err \<Rightarrow> False)"

lemma not_client_error_Nil [simp]: "\<not> client_error (Obj [])"
  by (simp add: client_error_def)

lemma tick_failure_Nil [simp]: "tick_failure t k s (Obj []) h = h"
  by (simp add: tick_failure_def)

lemma stt_reply_effect:
  "\<exists>us. tick_effect k s (stt_ends (Reply res)) us h (stt_reply t k s res h) \<and>
     length (filter terminal us) = of_bool (stt_ends (Reply res) \<and> \<not> stt_throws (Reply res))"
proof (cases "stt_ends (Reply res)")
  case True
  show ?thesis
  proof (cases "stt_throws (Reply res)")
    case throws: True
    then have "stt_reply t k s res h = stopPoll k h"
      by (auto simp: stt_reply_def stt_throws_def stt_task_def Let_def js_eq_def split: sum.splits)
    then show ?thesis
      using True throws effect_stop [of k s h] by (intro exI [of _ "[]"]) simp
  next
    case False
    then obtain u where "stt_reply t k s res h = emit s u (stopPoll k h)" "terminal u"
      using True
      by (cases "extractTranscript (opt_prop (stt_task res) (lit ''data''))")
        (auto simp: stt_reply_def stt_ends_def stt_throws_def stt_task_def Let_def js_eq_def
          terminal_simps)
    then show ?thesis
      using True False effect_stop_emit [of k s u h] by (intro exI [of _ "[u]"]) simp
  qed
next
  case False
  then obtain u where "stt_reply t k s res h = emit s u h" "\<not> terminal u"
    by (auto simp: stt_reply_def stt_ends_def stt_task_def Let_def js_eq_def terminal_simps)
  then show ?thesis
    using False effect_emit [of k s u h] by (intro exI [of _ "[u]"]) simp
qed

lemma stt_throws_ends: "stt_throws r \<Longrightarrow> stt_ends r"
  by (auto simp: stt_throws_def stt_ends_def split: reply.splits)

lemma stt_tick_effect:
  "\<exists>us. tick_effect k s (stt_ends r \<or> too_old stt_timeout_ms now k h) us h (stt_tick t now k s r h) \<and>
     length (filter terminal us) =
       of_bool ((stt_ends r \<or> too_old stt_timeout_ms now k h) \<and> \<not> stt_throws r)"
proof -
  have fail: "stt_ends (Failure e) = client_error e" "\<not> stt_throws (Failure e)" for e
    by (simp_all add: stt_ends_def stt_throws_def)
  obtain us h1 where us: "tick_effect k s (stt_ends r) us h h1"
      "length (filter terminal us) = of_bool (stt_ends r \<and> \<not> stt_throws r)"
      "stt_tick t now k s r h = tick_timeout t stt_timeout_ms now k s h1"
    using stt_reply_effect [of k s _ h t] tick_failure_effect [of k s _ h t]
    by (cases r) (fastforce simp: stt_tick_def fail)+
  show ?thesis
    using tick_compose [OF us(1), of stt_timeout_ms now t] us(2,3) stt_throws_ends [of r]
    by (auto simp: of_bool_def)
qed

section \<open>Reachable states\<close>

text \<open>The states of a hook with the given endpoint and \<open>tick\<close>, and with the submissions that
  \<open>submit\<close> relates. An interval fires as long as it is running; an answer arrives for any request
  in flight, in any order.\<close>

inductive poller_reach ::
  "(jsval \<Rightarrow> jsstr) \<Rightarrow> (int \<Rightarrow> jsval \<Rightarrow> sink \<Rightarrow> reply \<Rightarrow> poller \<Rightarrow> poller) \<Rightarrow>
   (poller \<Rightarrow> poller \<Rightarrow> bool) \<Rightarrow> poller \<Rightarrow> bool"
  for endpoint tick submit
where
  reach_init: "poller_reach endpoint tick submit init_poller"
| reach_start: "poller_reach endpoint tick submit h \<Longrightarrow>
    poller_reach endpoint tick submit (startPolling endpoint now k s h)"
| reach_stop: "poller_reach endpoint tick submit h \<Longrightarrow> poller_reach endpoint tick submit (stopPoll k h)"
| reach_fire: "poller_reach endpoint tick submit h \<Longrightarrow> timers h i = Some (k, s) \<Longrightarrow>
    poller_reach endpoint tick submit (send_fetch endpoint k s h)"
| reach_answer: "poller_reach endpoint tick submit h \<Longrightarrow> (u, k, s) \<in> set (in_flight h) \<Longrightarrow>
    poller_reach endpoint tick submit
      (tick now k s r (h\<lparr>in_flight := remove1 (u, k, s) (in_flight h)\<rparr>))"
| reach_submit: "poller_reach endpoint tick submit h \<Longrightarrow> submit h h' \<Longrightarrow>
    poller_reach endpoint tick submit h'"
| reach_unmount: "poller_reach endpoint tick submit h \<Longrightarrow> poller_reach endpoint tick submit (unmount h)"

inductive video_submits :: "(jsstr \<Rightarrow> jsstr) \<Rightarrow> poller \<Rightarrow> poller \<Rightarrow> bool" for t where
  "video_submit t ts a h = Inr (h', q) \<Longrightarrow> video_submits t h h'"
| "video_submitted t now ts s r h = (h', v) \<Longrightarrow> video_submits t h h'"

inductive stt_submits :: "(jsstr \<Rightarrow> jsstr) \<Rightarrow> poller \<Rightarrow> poller \<Rightarrow> bool" for t where
  "stt_submit t ts a up b64 h = (h', q) \<Longrightarrow> stt_submits t h h'"
| "stt_submitted t now ts s audioUrl r h = (h', v) \<Longrightarrow> stt_submits t h h'"

abbreviation video_reach :: "(jsstr \<Rightarrow> jsstr) \<Rightarrow> poller \<Rightarrow> bool" where
  "video_reach t \<equiv> poller_reach video_endpoint (video_tick t) (video_submits t)"

abbreviation stt_reach :: "(jsstr \<Rightarrow> jsstr) \<Rightarrow> poller \<Rightarrow> bool" where
  "stt_reach t \<equiv> poller_reach stt_endpoint (stt_tick t) (stt_submits t)"

section \<open>The contract of a polling hook\<close>

text \<open>\<open>ends\<close> says which answers end a poll; \<open>silent\<close> those for which the callback is told
  nothing although the poll ends.\<close>

locale poll_hook =
  fixes endpoint :: "jsval \<Rightarrow> jsstr"
    and tick :: "int \<Rightarrow> jsval \<Rightarrow> sink \<Rightarrow> reply \<Rightarrow> poller \<Rightarrow> poller"
    and submit :: "poller \<Rightarrow> poller \<Rightarrow> bool"
    and limit :: int
    and ends :: "reply \<Rightarrow> bool"
    and silent :: "reply \<Rightarrow> bool"
  assumes tick_law: "\<exists>us. tick_effect k s (ends r \<or> too_old limit now k h) us h (tick now k s r h) \<and>
      length (filter terminal us) = of_bool ((ends r \<or> too_old limit now k h) \<and> \<not> silent r)"
    and submit_law: "submit h h' \<Longrightarrow> timers_ok h \<Longrightarrow> timers_ok h'"
begin

lemma reach_timers_ok: "poller_reach endpoint tick submit h \<Longrightarrow> timers_ok h"
proof (induction rule: poller_reach.induct)
  case (reach_answer h u k s now r)
  let ?h = "h\<lparr>in_flight := remove1 (u, k, s) (in_flight h)\<rparr>"
  have "timers_ok ?h" using reach_answer.IH by (simp add: timers_ok_def)
  then show ?case using tick_law [of k s r now ?h] effect_timers_ok by blast
next
  case (reach_fire h i k s)
  then show ?case by (simp add: timers_ok_def send_fetch_def)
qed (auto intro: timers_ok_init timers_ok_startPolling timers_ok_stopPoll timers_ok_unmount submit_law)

lemma timer_iff_registered:
  assumes "poller_reach endpoint tick submit h"
  shows "timers h i = Some (k, s) \<longleftrightarrow>
    (\<exists>p. map_of (polls h) k = Some p \<and> intervalId p = i \<and> onUpdate p = s)"
  using timers_okD(1) [OF reach_timers_ok [OF assms]] .

lemma unmount_leaves_no_timer:
  "poller_reach endpoint tick submit h \<Longrightarrow> timers (unmount h) = Map.empty"
  by (rule timers_unmount [OF reach_timers_ok])

lemma tick_ends_poll:
  assumes "poller_reach endpoint tick submit h" "map_of (polls h) k = Some p" "onUpdate p = Some c"
    and "h' = tick now k (Some c) r h"
  shows "\<exists>us. updates h' = updates h @ map (Pair c) us \<and>
      length (filter terminal us) = of_bool (map_of (polls h') k = None \<and> \<not> silent r) \<and>
      (map_of (polls h') k = None \<longleftrightarrow> ends r \<or> limit < now - startedAt p) \<and>
      (map_of (polls h') k = None \<longrightarrow> (\<forall>i s. timers h' i \<noteq> Some (k, s)))"
proof -
  let ?stop = "ends r \<or> limit < now - startedAt p"
  have old: "too_old limit now k h \<longleftrightarrow> limit < now - startedAt p"
    using assms(2) by (simp add: too_old_def)
  obtain us where us: "tick_effect k (Some c) ?stop us h h'"
      "length (filter terminal us) = of_bool (?stop \<and> \<not> silent r)"
    using tick_law [of k "Some c" r now h] unfolding old assms(4) by blast
  have reg: "map_of (polls h') k = None \<longleftrightarrow> ?stop"
    using effect_registered [OF us(1)] assms(2) by simp
  have "timers_ok h'"
    using effect_timers_ok [OF us(1) reach_timers_ok [OF assms(1)]] .
  then have "map_of (polls h') k = None \<longrightarrow> (\<forall>i s. timers h' i \<noteq> Some (k, s))"
    using timers_okD(1) by fastforce
  moreover have "updates h' = updates h @ map (Pair c) us"
    using us(1) by (simp add: tick_effect_def Let_def)
  ultimately show ?thesis using us(2) reg by (intro exI [of _ us]) simp
qed

end

lemma timers_ok_fields [simp]:
  "timers_ok (h\<lparr>shown_errors := e\<rparr>) = timers_ok h" "timers_ok (h\<lparr>debugs := d\<rparr>) = timers_ok h"
  "timers_ok (h\<lparr>loading := b\<rparr>) = timers_ok h"
  by (simp_all add: timers_ok_def)

lemma fst_show_and_return:
  "timers_ok (fst (show_and_return m rest h)) = timers_ok h"
  by (simp add: show_and_return_def)

lemma video_submits_ok: "video_submits t h h' \<Longrightarrow> timers_ok h \<Longrightarrow> timers_ok h'"
proof (induction rule: video_submits.induct)
  case (1 ts a h h' q)
  then show ?case
    by (auto simp: video_submit_def Let_def split: if_splits jsval.splits)
next
  case (2 now ts s r h h' v)
  then have "h' = fst (video_submitted t now ts s r h)" by simp
  with 2 show ?case
    by (auto simp: video_submitted_def Let_def fst_show_and_return timers_ok_startPolling
        split: reply.splits)
qed

lemma stt_submits_ok: "stt_submits t h h' \<Longrightarrow> timers_ok h \<Longrightarrow> timers_ok h'"
proof (induction rule: stt_submits.induct)
  case (1 ts a up b64 h h' q)
  then have "h' = fst (stt_submit t ts a up b64 h)" by simp
  with 1 show ?case
    by (auto simp: stt_submit_def Let_def split: option.splits sum.splits)
next
  case (2 now ts s audioUrl r h h' v)
  then have "h' = fst (stt_submitted t now ts s audioUrl r h)" by simp
  with 2 show ?case
    by (auto simp: stt_submitted_def Let_def fst_show_and_return timers_ok_startPolling
        split: reply.splits)
qed

interpretation video_hook: poll_hook video_endpoint "video_tick t" "video_submits t" video_timeout_ms
  video_ends "\<lambda>_. False" for t
  by unfold_locales (use video_tick_effect video_submits_ok in auto)

interpretation stt_hook: poll_hook stt_endpoint "stt_tick t" "stt_submits t" stt_timeout_ms
  stt_ends stt_throws for t
  by unfold_locales (use stt_tick_effect stt_submits_ok in auto)

section \<open>Properties\<close>

text \<open>C31: no interval is leaked and none is missing. In every reachable state of either hook the
  running intervals are exactly those of the registered polls, each with its own task and
  callback, and unmounting the component stops all of them.\<close>

theorem poll_timers_match:
  assumes "video_reach t h \<or> stt_reach t h"
  shows "(timers h i = Some (k, s) \<longleftrightarrow>
      (\<exists>p. map_of (polls h) k = Some p \<and> intervalId p = i \<and> onUpdate p = s)) \<and>
    timers (unmount h) = Map.empty"
  using assms video_hook.timer_iff_registered stt_hook.timer_iff_registered
    video_hook.unmount_leaves_no_timer stt_hook.unmount_leaves_no_timer by blast

definition sample_poller :: poller where
  "sample_poller = startPolling video_endpoint 0 (Str (lit ''task_1'')) (Some 7) init_poller"

lemma sample_poller_reach: "video_reach id sample_poller"
  unfolding sample_poller_def by (intro reach_start reach_init)

lemma sample_poller_registered:
  "map_of (polls sample_poller) (Str (lit ''task_1'')) = Some \<lparr>intervalId = 1, startedAt = 0, onUpdate = Some 7\<rparr>"
  by (simp add: sample_poller_def startPolling_def send_fetch_def init_poller_def Let_def)

theorem poll_timers_match_witness:
  "(timers sample_poller 1 = Some (Str (lit ''task_1''), Some 7) \<longleftrightarrow>
      (\<exists>p. map_of (polls sample_poller) (Str (lit ''task_1'')) = Some p \<and> intervalId p = 1 \<and> onUpdate p = Some 7)) \<and>
    timers (unmount sample_poller) = Map.empty"
  using poll_timers_match [of id sample_poller 1 "Str (lit ''task_1'')" "Some 7"] sample_poller_reach by blast

text \<open>C32: what the answer to one status request of a video task does. For a poll that is still registered, it ends the poll
  if and only if the task is completed or failed, the server answered 4xx, or the poll is older than thirty minutes; the
  callback then receives exactly one terminal patch and no interval of the task is left; otherwise it receives none. For a poll that is no longer
  registered (another answer came first, it was stopped, or the page was left), the registry and the intervals
  stay as they are, but an answer that says completed, failed or 4xx is reported once more.\<close>

theorem video_answer_ends_poll:
  assumes "video_reach t h" "\<forall>p. map_of (polls h) k = Some p \<longrightarrow> onUpdate p = Some c"
    and "h' = video_tick t now k (Some c) r h"
  shows "\<exists>us. updates h' = updates h @ map (Pair c) us \<and>
    (case map_of (polls h) k of
       Some p \<Rightarrow>
         length (filter terminal us) = of_bool (map_of (polls h') k = None) \<and>
         (map_of (polls h') k = None \<longleftrightarrow> video_ends r \<or> 1800000 < now - startedAt p) \<and>
         (map_of (polls h') k = None \<longrightarrow> (\<forall>i s. timers h' i \<noteq> Some (k, s)))
     | None \<Rightarrow> length (filter terminal us) = of_bool (video_ends r) \<and> polls h' = polls h \<and> timers h' = timers h)"
proof (cases "map_of (polls h) k")
  case None
  then have "\<not> too_old video_timeout_ms now k h" by (simp add: too_old_def)
  with video_tick_effect [of k "Some c" r now h t] assms(3)
  obtain us where us: "tick_effect k (Some c) (video_ends r) us h h'" "length (filter terminal us) = of_bool (video_ends r)" by auto
  have g: "(if video_ends r then stopPoll k h else h) = h" using stopPoll_unregistered [OF None] by simp
  have "polls h' = polls h" "timers h' = timers h" "updates h' = updates h @ map (Pair c) us"
    using us(1) unfolding tick_effect_def Let_def g option.case by blast+
  then show ?thesis using us(2) None by (intro exI [of _ us]) simp
next
  case (Some p)
  then show ?thesis
    using video_hook.tick_ends_poll [OF assms(1) Some _ assms(3)] assms(2) by (simp add: video_timeout_ms_def)
qed

definition completed_reply :: reply where
  "completed_reply = Reply (Obj [(lit ''data'', Obj [(lit ''status'', Str (lit ''completed''))])])"

theorem video_answer_ends_poll_witness:
  "\<exists>us. updates (video_tick id 10 (Str (lit ''task_1'')) (Some 7) completed_reply sample_poller) =
      updates sample_poller @ map (Pair 7) us \<and> length (filter terminal us) = 1"
proof -
  have e: "video_ends completed_reply"
    by (simp add: completed_reply_def video_ends_def)
  show ?thesis
    using video_answer_ends_poll [OF sample_poller_reach _ refl, of "Str (lit ''task_1'')" 7 10 completed_reply] sample_poller_registered e
    by fastforce
qed

text \<open>Two requests of one task are under way when the first answer says it is completed: the callback hears of
  the end twice.\<close>

lemma late_answer_repeats_end:
  "length (filter (\<lambda>u. terminal (snd u)) (updates (video_tick id 11 (Str (lit ''task_1'')) (Some 7) completed_reply
     (video_tick id 10 (Str (lit ''task_1'')) (Some 7) completed_reply sample_poller)))) =
   length (filter (\<lambda>u. terminal (snd u)) (updates sample_poller)) + 2"
proof -
  have e: "video_ends completed_reply" by (simp add: completed_reply_def video_ends_def)
  have tick: "\<exists>us. updates (video_tick id now k (Some 7) completed_reply h) = updates h @ map (Pair 7) us \<and>
      length (filter terminal us) = 1" for now k h
    using video_tick_effect [of k "Some 7" completed_reply now h id] e by (auto simp: tick_effect_def Let_def)
  have sum: "length (filter (\<lambda>u. terminal (snd u)) (updates (video_tick id now k (Some 7) completed_reply h))) =
      length (filter (\<lambda>u. terminal (snd u)) (updates h)) + 1" for now k h
    using tick [of now k h] by (auto simp: filter_map comp_def)
  show ?thesis by (simp only: sum)
qed

text \<open>A transcription poll ends under the same conditions with the ten-minute limit, and its
  callback receives exactly one terminal patch, with one exception: when \<open>extractTranscript\<close> throws
  on a successful answer, the poll is stopped and the callback is told nothing, so the message
  stays in the polling state for good.\<close>

theorem stt_poll_ends:
  assumes "stt_reach t h" "map_of (polls h) k = Some p" "onUpdate p = Some c"
    and "h' = stt_tick t now k (Some c) r h"
  shows "\<exists>us. updates h' = updates h @ map (Pair c) us \<and>
      length (filter terminal us) = of_bool (map_of (polls h') k = None \<and> \<not> stt_throws r) \<and>
      (map_of (polls h') k = None \<longleftrightarrow> stt_ends r \<or> 600000 < now - startedAt p) \<and>
      (map_of (polls h') k = None \<longrightarrow> (\<forall>i s. timers h' i \<noteq> Some (k, s)))"
  using stt_hook.tick_ends_poll [OF assms] by (simp add: stt_timeout_ms_def)

definition null_reply :: reply where
  "null_reply = Reply (Obj [(lit ''data'', Obj [(lit ''data'',
     Obj [(lit ''status'', Str (lit ''SUCCESS'')), (lit ''data'', Str (lit ''null''))])])])"

lemma json_parse_null: "json_parse (lit ''null'') = Inr Null"
  by (simp add: lit_simps json_parse_def skip_ws_def is_json_ws_def parse_literal_def numeral_eq_Suc)

lemma trim_null: "trim (lit ''null'') = lit ''null''"
  by (rule trim_id) (simp add: trimmed_def lit_simps is_ws_def)

lemma null_reply_throws: "stt_throws null_reply" "stt_ends null_reply"
  using json_parse_null trim_null
  by (simp_all add: null_reply_def stt_throws_def stt_ends_def stt_task_def js_or_def
      extractTranscript_def Let_def)

definition sample_stt_poller :: poller where
  "sample_stt_poller = startPolling stt_endpoint 0 (Str (lit ''task_1'')) (Some 7) init_poller"

theorem stt_poll_ends_witness:
  "\<exists>us. updates (stt_tick id 10 (Str (lit ''task_1'')) (Some 7) null_reply sample_stt_poller) =
      updates sample_stt_poller @ map (Pair 7) us \<and> filter terminal us = [] \<and>
      map_of (polls (stt_tick id 10 (Str (lit ''task_1'')) (Some 7) null_reply sample_stt_poller))
        (Str (lit ''task_1'')) = None"
proof -
  have reach: "stt_reach id sample_stt_poller"
    unfolding sample_stt_poller_def by (intro reach_start reach_init)
  have reg: "map_of (polls sample_stt_poller) (Str (lit ''task_1'')) =
      Some \<lparr>intervalId = 1, startedAt = 0, onUpdate = Some 7\<rparr>"
    by (simp add: sample_stt_poller_def startPolling_def send_fetch_def init_poller_def Let_def)
  show ?thesis
    using stt_poll_ends [OF reach reg _ refl, of 7 10 null_reply] null_reply_throws by fastforce
qed

text \<open>\<open>extractTranscript\<close> is total except on one input: it throws exactly when the transcript
  is a string whose trimmed text is JSON for null, and then a TypeError.\<close>

theorem extractTranscript_throws_iff:
  "extractTranscript data = Inl e \<longleftrightarrow>
   e = TypeError \<and> (\<exists>d. data = Str d \<and> trim d \<noteq> [] \<and> json_parse (trim d) = Inr Null)"
proof (cases data)
  case (Str d)
  have null: "is_str v = False \<and> typeof_object v \<and> nullish v \<longleftrightarrow> v = Null" for v
    by (cases v) auto
  show ?thesis
  proof (cases "json_parse (trim d)")
    case (Inr v)
    with Str null [of v] show ?thesis
      by (cases v) (auto simp: extractTranscript_def Let_def)
  qed (use Str in \<open>auto simp: extractTranscript_def Let_def\<close>)
qed (auto simp: extractTranscript_def Let_def)

text \<open>What a submitted video task does to the hook. When \<open>generate\<close> returns a task id, that
  task is registered and, unless it already was, its first status request is in flight; when it
  returns an error instead, exactly that message has been shown and the registry, the intervals
  and the requests are untouched. In both cases loading is over.\<close>

theorem video_submission_outcome:
  assumes "video_submitted t now ts s r h = (h', v)"
  shows "\<not> loading h' \<and>
    ((\<exists>k. truthy k \<and> opt_prop v (lit ''taskId'') = k \<and> opt_prop v (lit ''error'') = Undefined \<and>
        map_of (polls h') k \<noteq> None \<and> shown_errors h' = shown_errors h \<and>
        (map_of (polls h) k = None \<longrightarrow> in_flight h' = in_flight h @ [(video_endpoint k, k, s)])) \<or>
     (\<exists>m. opt_prop v (lit ''error'') = m \<and> shown_errors h' = shown_errors h @ [m] \<and>
        opt_prop v (lit ''taskId'') = Undefined \<and>
        polls h' = polls h \<and> timers h' = timers h \<and> in_flight h' = in_flight h))"
proof -
  have start: "map_of (polls (startPolling video_endpoint now k s g)) k \<noteq> None"
      "shown_errors (startPolling video_endpoint now k s g) = shown_errors g"
      "map_of (polls g) k = None \<Longrightarrow>
       in_flight (startPolling video_endpoint now k s g) = in_flight g @ [(video_endpoint k, k, s)]"
    if "truthy k" for k g
    using that by (auto simp: startPolling_def send_fetch_def Let_def update_conv')
  show ?thesis
    using assms start
    by (auto simp: video_submitted_def show_and_return_def Let_def split: reply.splits if_splits)
qed

theorem video_submission_outcome_witness:
  "\<not> loading (fst (video_submitted id 0 [] (Some 7)
      (Reply (Obj [(lit ''data'', Obj [(lit ''id'', Str (lit ''task_1''))])])) init_poller)) \<and>
   map_of (polls (fst (video_submitted id 0 [] (Some 7)
      (Reply (Obj [(lit ''data'', Obj [(lit ''id'', Str (lit ''task_1''))])])) init_poller)))
      (Str (lit ''task_1'')) \<noteq> None"
proof -
  let ?r = "Reply (Obj [(lit ''data'', Obj [(lit ''id'', Str (lit ''task_1''))])])"
  obtain h' v where hv: "video_submitted id 0 [] (Some 7) ?r init_poller = (h', v)"
    by fastforce
  have v: "opt_prop v (lit ''taskId'') = Str (lit ''task_1'')"
    using hv by (auto simp: video_submitted_def Let_def num_le_def num_eq_def)
  show ?thesis
    using video_submission_outcome [OF hv] v hv by auto
qed

end
