(* ===== verification/Sidebar.thy ===== *)
theory Sidebar
  imports Js_Json
begin

text \<open>
  What a user sees of the console: \<open>useSidebar.js\<close> (the administrator's module configuration, the
  user's own and the merge of the two), \<open>useUserPermissions.js\<close> (the permissions the server sends)
  and \<open>useNavigation.js\<close> (the links of the header).

  Configurations are JavaScript objects, section name to an object of module flags. The answer of
  \<open>API.get('/api/user/self')\<close> is an argument: \<open>None\<close> when the request threw, otherwise the
  response. \<open>deepClone\<close> is the identity on values here, which have no aliases.
\<close>

section \<open>The configuration of the administrator\<close>

definition flags :: "string list \<Rightarrow> jsval" where
  "flags ks = Obj (map (\<lambda>k. (lit k, Bool True)) ks)"

definition DEFAULT_ADMIN_CONFIG :: jsobj where
  "DEFAULT_ADMIN_CONFIG =
     [(lit ''chat'', flags [''enabled'', ''playground'', ''chat'']),
      (lit ''console'', flags [''enabled'', ''detail'', ''token'', ''log'', ''midjourney'', ''task'', ''ticket'']),
      (lit ''personal'', flags [''enabled'', ''topup'', ''personal'']),
      (lit ''admin'', flags [''enabled'', ''operations'', ''channel'', ''models'', ''deployment'',
         ''redemption'', ''user'', ''billing'', ''subscription'', ''ticket_admin'', ''blindbox_admin'', ''setting''])]"

definition merge_section :: "jsobj \<Rightarrow> jsstr \<times> jsval \<Rightarrow> jsobj" where
  "merge_section merged kv = (case kv of (sectionKey, sectionConfig) \<Rightarrow>
     if \<not> truthy sectionConfig \<or> \<not> typeof_object sectionConfig then merged
     else if \<not> truthy (obj_get merged sectionKey)
     then obj_put merged sectionKey (Obj (obj_merge [] (own_entries sectionConfig)))
     else obj_put merged sectionKey
       (Obj (obj_merge (own_entries (obj_get merged sectionKey)) (own_entries sectionConfig))))"

definition mergeAdminConfig :: "jsval \<Rightarrow> jsobj" where
  "mergeAdminConfig savedConfig =
     (if \<not> truthy savedConfig \<or> \<not> typeof_object savedConfig then DEFAULT_ADMIN_CONFIG
      else foldl merge_section DEFAULT_ADMIN_CONFIG (own_entries savedConfig))"

text \<open>The memo \<open>adminConfig\<close>, on \<open>statusState?.status?.SidebarModulesAdmin\<close>.\<close>

definition adminConfig :: "jsval \<Rightarrow> jsobj" where
  "adminConfig statusState =
     (let saved = opt_prop (opt_prop statusState (lit ''status'')) (lit ''SidebarModulesAdmin'')
      in if truthy saved then
           (case json_parse (to_str saved) of Inl e \<Rightarrow> mergeAdminConfig Null | Inr c \<Rightarrow> mergeAdminConfig c)
         else mergeAdminConfig Null)"

section \<open>The configuration of the user\<close>

record sidebar =
  userConfig :: jsval
  sb_loading :: bool
  hasLoadedOnce :: bool

definition init_sidebar :: sidebar where
  "init_sidebar = \<lparr>userConfig = Null, sb_loading = True, hasLoadedOnce = False\<rparr>"

text \<open>The default configuration, which the code builds in two places.\<close>

definition default_section :: "jsobj \<Rightarrow> jsobj" where
  "default_section ms = foldl (\<lambda>acc kv.
     if fst kv \<noteq> lit ''enabled'' \<and> truthy (snd kv) then obj_put acc (fst kv) (Bool True) else acc)
     [(lit ''enabled'', Bool True)] ms"

definition defaultUserConfig :: "jsobj \<Rightarrow> jsobj" where
  "defaultUserConfig admin = foldl (\<lambda>acc kv.
     if truthy (opt_prop (snd kv) (lit ''enabled''))
     then obj_put acc (fst kv) (Obj (default_section (own_entries (snd kv)))) else acc) [] admin"

definition shouldShowLoader :: "jsval \<Rightarrow> sidebar \<Rightarrow> bool" where
  "shouldShowLoader withLoading sb = (case withLoading of Bool b \<Rightarrow> b | _ \<Rightarrow> \<not> hasLoadedOnce sb)"

text \<open>\<open>loadUserConfig\<close> before and after its request.\<close>

definition loadUserConfig_start :: "jsval \<Rightarrow> sidebar \<Rightarrow> sidebar" where
  "loadUserConfig_start withLoading sb =
     (if shouldShowLoader withLoading sb then sb\<lparr>sb_loading := True\<rparr> else sb)"

text \<open>The \<open>try\<close> block; \<open>Inl\<close> is the exception that its \<open>catch\<close> receives.\<close>

definition fetched_config :: "jsobj \<Rightarrow> jsval option \<Rightarrow> jsval res" where
  "fetched_config admin answer = (case answer of
     None \<Rightarrow> Inl (JsError [])
   | Some res \<Rightarrow>
       if nullish res \<or> nullish (opt_prop res (lit ''data'')) then Inl TypeError
       else (let body = opt_prop res (lit ''data''); data = opt_prop body (lit ''data'');
                 saved = opt_prop data (lit ''sidebar_modules'')
             in if truthy (opt_prop body (lit ''success'')) then
                  (if nullish data then Inl TypeError
                   else if truthy saved then
                     (case saved of Str s \<Rightarrow> json_parse s | _ \<Rightarrow> Inr saved)
                   else Inr (Obj (defaultUserConfig admin)))
                else Inr (Obj (defaultUserConfig admin))))"

definition loadUserConfig_finish :: "jsobj \<Rightarrow> bool \<Rightarrow> jsval option \<Rightarrow> sidebar \<Rightarrow> sidebar" where
  "loadUserConfig_finish admin loader answer sb =
     (let config = (case fetched_config admin answer of
        Inl e \<Rightarrow> Obj (defaultUserConfig admin) | Inr c \<Rightarrow> c)
      in sb\<lparr>userConfig := config, sb_loading := (if loader then False else sb_loading sb),
          hasLoadedOnce := True\<rparr>)"

text \<open>The callers of \<open>loadUserConfig\<close>: the effect on \<open>adminConfig\<close>, \<open>refreshUserConfig\<close> before it
  dispatches its event, and the listener of that event. The flag says whether a request is sent.\<close>

definition admin_effect :: "jsobj \<Rightarrow> sidebar \<Rightarrow> sidebar \<times> bool" where
  "admin_effect admin sb = (if admin \<noteq> [] then (loadUserConfig_start Undefined sb, True) else (sb, False))"

definition refreshUserConfig :: "jsobj \<Rightarrow> sidebar \<Rightarrow> sidebar \<times> bool" where
  "refreshUserConfig admin sb =
     (if admin \<noteq> [] then (loadUserConfig_start (Bool False) sb, True) else (sb, False))"

definition handleRefresh :: "jsobj \<Rightarrow> jsstr \<Rightarrow> jsval \<Rightarrow> sidebar \<Rightarrow> sidebar \<times> bool" where
  "handleRefresh admin instanceId event sb =
     (let detail = opt_prop event (lit ''detail'')
      in if js_eq (opt_prop detail (lit ''sourceId'')) (Str instanceId) then (sb, False)
         else if admin \<noteq> [] then
           (loadUserConfig_start (if truthy (opt_prop detail (lit ''skipLoader'')) then Bool False else Undefined) sb, True)
         else (sb, False))"

section \<open>What is shown\<close>

definition final_section :: "jsval \<Rightarrow> jsval \<Rightarrow> jsobj" where
  "final_section adminSection userSection =
     (if \<not> truthy (opt_prop adminSection (lit ''enabled'')) then [(lit ''enabled'', Bool False)]
      else
        (let sectionEnabled = (if truthy userSection
               then opt_prop userSection (lit ''enabled'') \<noteq> Bool False else True)
         in foldl (\<lambda>acc kv.
              if fst kv = lit ''enabled'' then acc
              else (let userAllowed = (if truthy userSection
                          then opt_prop userSection (fst kv) \<noteq> Bool False else True)
                    in obj_put acc (fst kv)
                      (js_and (js_and (snd kv) (Bool userAllowed)) (Bool sectionEnabled))))
              [(lit ''enabled'', Bool sectionEnabled)] (own_entries adminSection)))"

definition finalConfig :: "jsobj \<Rightarrow> jsval \<Rightarrow> jsobj" where
  "finalConfig admin user =
     (if admin = [] \<or> \<not> truthy user then []
      else foldl (\<lambda>acc kv.
        obj_put acc (fst kv) (Obj (final_section (snd kv) (opt_prop user (fst kv))))) [] admin)"

text \<open>\<open>isModuleVisible(section, module = null)\<close>; an absent or empty module asks for the section.\<close>

definition isModuleVisible :: "jsobj \<Rightarrow> jsstr \<Rightarrow> jsstr option \<Rightarrow> bool" where
  "isModuleVisible final sectionKey moduleKey =
     (case moduleKey of
        Some (c # cs) \<Rightarrow> js_eq (opt_prop (obj_get final sectionKey) (c # cs)) (Bool True)
      | _ \<Rightarrow> js_eq (opt_prop (obj_get final sectionKey) (lit ''enabled'')) (Bool True))"

definition getVisibleModules :: "jsobj \<Rightarrow> jsstr \<Rightarrow> jsstr list" where
  "getVisibleModules final sectionKey =
     (let sect = obj_get final sectionKey
      in if \<not> truthy (opt_prop sect (lit ''enabled'')) then []
         else filter (\<lambda>k. k \<noteq> lit ''enabled'' \<and> js_eq (opt_prop sect k) (Bool True))
           (map fst (own_entries sect)))"

definition hasSectionVisibleModules :: "jsobj \<Rightarrow> jsstr \<Rightarrow> bool" where
  "hasSectionVisibleModules final sectionKey =
     (let sect = obj_get final sectionKey
      in if \<not> truthy (opt_prop sect (lit ''enabled'')) then False
         else list_ex (\<lambda>k. k \<noteq> lit ''enabled'' \<and> js_eq (opt_prop sect k) (Bool True))
           (map fst (own_entries sect)))"

section \<open>Permissions\<close>

record permission_state =
  permissions :: jsval
  ps_loading :: bool
  ps_error :: jsval

definition loadPermissions :: "jsval option \<Rightarrow> permission_state \<Rightarrow> permission_state" where
  "loadPermissions answer ps =
     (let failed = ps\<lparr>ps_error := Str [32593, 32476, 38169, 35823, 65292, 35831, 37325, 35797], ps_loading := False\<rparr>
      in case answer of
        None \<Rightarrow> failed
      | Some res \<Rightarrow>
          (let body = opt_prop res (lit ''data''); data = opt_prop body (lit ''data'')
           in if nullish res \<or> nullish body then failed
              else if truthy (opt_prop body (lit ''success'')) then
                (if nullish data then failed
                 else ps\<lparr>ps_error := Null, permissions := opt_prop data (lit ''permissions''), ps_loading := False\<rparr>)
              else ps\<lparr>ps_error := js_or (opt_prop body (lit ''message'')) (Str [33719, 21462, 26435, 38480, 22833, 36133]),
                  ps_loading := False\<rparr>))"

definition hasSidebarSettingsPermission :: "jsval \<Rightarrow> bool" where
  "hasSidebarSettingsPermission perms = js_eq (opt_prop perms (lit ''sidebar_settings'')) (Bool True)"

definition isSidebarSectionAllowed :: "jsval \<Rightarrow> jsstr \<Rightarrow> bool" where
  "isSidebarSectionAllowed perms sectionKey =
     (let ms = opt_prop perms (lit ''sidebar_modules'')
      in if \<not> truthy ms then True else opt_prop ms sectionKey \<noteq> Bool False)"

definition isSidebarModuleAllowed :: "jsval \<Rightarrow> jsstr \<Rightarrow> jsstr \<Rightarrow> bool" where
  "isSidebarModuleAllowed perms sectionKey moduleKey =
     (let ms = opt_prop perms (lit ''sidebar_modules''); sectionPerms = opt_prop ms sectionKey
      in if \<not> truthy ms then True
         else if sectionPerms = Bool False then False
         else if truthy sectionPerms \<and> opt_prop sectionPerms moduleKey = Bool False then False
         else True)"

definition getAllowedSidebarSections :: "jsval \<Rightarrow> jsstr list" where
  "getAllowedSidebarSections perms =
     (let ms = opt_prop perms (lit ''sidebar_modules'')
      in if \<not> truthy ms then []
         else filter (isSidebarSectionAllowed perms) (map fst (own_entries ms)))"

definition getAllowedSidebarModules :: "jsval \<Rightarrow> jsstr \<Rightarrow> jsstr list" where
  "getAllowedSidebarModules perms sectionKey =
     (let ms = opt_prop perms (lit ''sidebar_modules''); sectionPerms = opt_prop ms sectionKey
      in if \<not> truthy ms then []
         else if sectionPerms = Bool False then []
         else if \<not> truthy sectionPerms \<or> \<not> typeof_object sectionPerms then []
         else filter (\<lambda>k. k \<noteq> lit ''enabled'' \<and> js_eq (opt_prop sectionPerms k) (Bool True))
           (map fst (own_entries sectionPerms)))"

section \<open>Navigation links\<close>

definition nav_links :: "(jsstr \<Rightarrow> jsstr) \<Rightarrow> jsval \<Rightarrow> jsobj list" where
  "nav_links t docsLink =
     (let link = (\<lambda>text key to. [(lit ''text'', Str (t text)), (lit ''itemKey'', Str (lit key)), (lit ''to'', Str (lit to))])
      in [link [39318, 39029] ''home'' ''/'', link [25511, 21046, 21488] ''console'' ''/console'',
          link [27169, 22411] ''pricing'' ''/pricing''] @
         (if truthy docsLink then [[(lit ''text'', Str (t [25991, 26723])), (lit ''itemKey'', Str (lit ''docs'')),
            (lit ''isExternal'', Bool True), (lit ''externalLink'', docsLink)]] else []) @
         [link [20851, 20110] ''about'' ''/about''])"

definition mainNavLinks :: "(jsstr \<Rightarrow> jsstr) \<Rightarrow> jsval \<Rightarrow> jsval \<Rightarrow> jsobj list res" where
  "mainNavLinks t docsLink headerNavModules =
     (let modules = js_or headerNavModules (flags [''home'', ''console'', ''pricing'', ''docs'', ''about'']);
          pricing = opt_prop modules (lit ''pricing'')
      in if pricing = Null then Inl TypeError
         else Inr (filter (\<lambda>l.
           if obj_get l (lit ''itemKey'') = Str (lit ''docs'')
           then truthy docsLink \<and> truthy (opt_prop modules (lit ''docs''))
           else if obj_get l (lit ''itemKey'') = Str (lit ''pricing'')
           then (if typeof_object pricing then truthy (opt_prop pricing (lit ''enabled'')) else truthy pricing)
           else js_eq (opt_prop modules (to_str (obj_get l (lit ''itemKey'')))) (Bool True))
           (nav_links t docsLink)))"

section \<open>The administrator's configuration is well formed\<close>

definition wf_section :: "jsval \<Rightarrow> bool" where
  "wf_section v = (case v of Obj ms \<Rightarrow> distinct (map fst ms) | _ \<Rightarrow> False)"

definition wf_admin :: "jsobj \<Rightarrow> bool" where
  "wf_admin a \<longleftrightarrow> distinct (map fst a) \<and> (\<forall>k v. map_of a k = Some v \<longrightarrow> wf_section v)"

lemma wf_default: "wf_admin DEFAULT_ADMIN_CONFIG"
  by (simp add: wf_admin_def DEFAULT_ADMIN_CONFIG_def flags_def wf_section_def)

lemma wf_admin_put: "wf_admin a \<Longrightarrow> wf_section v \<Longrightarrow> wf_admin (obj_put a k v)"
  by (auto simp: wf_admin_def distinct_obj_put simp del: map_of_eq_Some_iff split: if_splits)

lemma wf_adminD: "wf_admin a \<Longrightarrow> map_of a k = Some v \<Longrightarrow> wf_section v"
  unfolding wf_admin_def by blast

lemma wf_merge_section:
  assumes a: "wf_admin a"
  shows "wf_admin (merge_section a kv)"
proof -
  have "distinct (map fst (own_entries (obj_get a k)))" if k: "truthy (obj_get a k)" for k
  proof -
    obtain v where "map_of a k = Some v" "obj_get a k = v"
      using k by (cases "map_of a k") (auto simp: obj_get_def)
    then show ?thesis
      using wf_adminD [OF a, of k v] by (cases v) (auto simp: wf_section_def)
  qed
  then show ?thesis
    using a by (auto simp: merge_section_def wf_section_def distinct_obj_merge
        intro!: wf_admin_put split: prod.splits)
qed

lemma wf_mergeAdminConfig: "wf_admin (mergeAdminConfig c)"
proof -
  have "wf_admin (foldl merge_section a xs)" if "wf_admin a" for a xs
    using that by (induction xs arbitrary: a) (auto simp: wf_merge_section)
  then show ?thesis by (simp add: mergeAdminConfig_def wf_default)
qed

lemma wf_adminConfig: "wf_admin (adminConfig st)"
  by (simp add: adminConfig_def Let_def wf_mergeAdminConfig split: sum.splits)

lemma wf_sectionE:
  assumes "wf_admin a" "map_of a k = Some v"
  obtains ms where "v = Obj ms" "distinct (map fst ms)"
  using wf_adminD [OF assms] by (cases v) (auto simp: wf_section_def)

section \<open>The final configuration\<close>

lemma map_of_finalConfig:
  assumes "wf_admin a" "truthy u"
  shows "map_of (finalConfig a u) k =
    map_option (\<lambda>v. Obj (final_section v (opt_prop u k))) (map_of a k)"
  using assms foldl_put_get [of a "\<lambda>_. True" "\<lambda>kv. Obj (final_section (snd kv) (opt_prop u (fst kv)))" "[]" k]
  by (auto simp: finalConfig_def wf_admin_def split: option.splits)

lemma map_of_final_section:
  fixes u :: jsval
  assumes d: "distinct (map fst ms)" and on: "truthy (obj_get ms (lit ''enabled''))"
  defines "se \<equiv> (truthy u \<longrightarrow> opt_prop u (lit ''enabled'') \<noteq> Bool False)"
  shows "map_of (final_section (Obj ms) u) m =
    (if m = lit ''enabled'' then Some (Bool se)
     else map_option (\<lambda>v. js_and (js_and v (Bool (truthy u \<longrightarrow> opt_prop u m \<noteq> Bool False))) (Bool se)) (map_of ms m))"
proof -
  define f where "f = (\<lambda>kv. js_and (js_and (snd kv)
      (Bool (truthy u \<longrightarrow> opt_prop u (fst kv) \<noteq> Bool False))) (Bool se))"
  have "final_section (Obj ms) u = foldl (\<lambda>acc kv. if fst kv \<noteq> lit ''enabled''
      then obj_put acc (fst kv) (f kv) else acc) [(lit ''enabled'', Bool se)] ms"
    using on by (auto simp: final_section_def Let_def f_def se_def intro!: foldl_cong)
  then show ?thesis
    using foldl_put_get [OF d, of "\<lambda>kv. fst kv \<noteq> lit ''enabled''" f "[(lit ''enabled'', Bool se)]" m]
    by (auto simp: f_def split: option.splits)
qed

lemma final_section_off:
  "\<not> truthy (obj_get ms (lit ''enabled'')) \<Longrightarrow> final_section (Obj ms) u = [(lit ''enabled'', Bool False)]"
  by (simp add: final_section_def)

lemma js_and_true_iff: "js_and (js_and v (Bool b)) (Bool c) = Bool True \<longleftrightarrow> truthy v \<and> b \<and> c"
  by (cases v) (auto simp: js_and_def)

text \<open>When a module of the final configuration is on.\<close>

definition allows :: "jsobj \<Rightarrow> jsval \<Rightarrow> jsstr \<Rightarrow> jsstr \<Rightarrow> bool" where
  "allows a u s m \<longleftrightarrow>
     truthy (opt_prop (obj_get a s) (lit ''enabled'')) \<and> truthy (opt_prop (obj_get a s) m) \<and>
     (truthy (opt_prop u s) \<longrightarrow> opt_prop (opt_prop u s) (lit ''enabled'') \<noteq> Bool False \<and>
        opt_prop (opt_prop u s) m \<noteq> Bool False)"

lemma final_module_on_iff:
  assumes a: "wf_admin a" and u: "truthy u" and m: "m \<noteq> lit ''enabled''"
  shows "opt_prop (obj_get (finalConfig a u) s) m = Bool True \<longleftrightarrow> allows a u s m"
proof (cases "map_of a s")
  case None
  then show ?thesis by (simp add: obj_get_def map_of_finalConfig [OF a u] allows_def)
next
  case (Some v)
  then obtain ms where v: "v = Obj ms" "distinct (map fst ms)"
    using wf_sectionE [OF a] by metis
  have get: "obj_get a s = Obj ms" "obj_get (finalConfig a u) s = Obj (final_section (Obj ms) (opt_prop u s))"
    using Some v by (simp_all add: obj_get_def map_of_finalConfig [OF a u])
  show ?thesis
  proof (cases "truthy (obj_get ms (lit ''enabled''))")
    case True
    have "obj_get (final_section (Obj ms) (opt_prop u s)) m = Bool True \<longleftrightarrow>
        truthy (obj_get ms m) \<and>
        (truthy (opt_prop u s) \<longrightarrow> opt_prop (opt_prop u s) m \<noteq> Bool False) \<and>
        (truthy (opt_prop u s) \<longrightarrow> opt_prop (opt_prop u s) (lit ''enabled'') \<noteq> Bool False)"
      using m by (simp add: obj_get_def map_of_final_section [OF v(2) True] js_and_true_iff
          split: option.splits)
    with True show ?thesis by (auto simp: get allows_def)
  next
    case False
    then show ?thesis using m by (simp add: get allows_def final_section_off)
  qed
qed

lemma final_section_on:
  assumes a: "wf_admin a" and u: "truthy u" and m: "allows a u s m"
  shows "opt_prop (obj_get (finalConfig a u) s) (lit ''enabled'') = Bool True"
proof -
  obtain v where v: "map_of a s = Some v"
    using m by (cases "map_of a s") (auto simp: allows_def obj_get_def)
  then obtain ms where ms: "v = Obj ms" "distinct (map fst ms)"
    using wf_sectionE [OF a] by metis
  then have "truthy (obj_get ms (lit ''enabled''))"
    using m v by (simp add: allows_def obj_get_def)
  then show ?thesis
    using m v ms
    by (auto simp: obj_get_def map_of_finalConfig [OF a u] map_of_final_section allows_def)
qed

lemma finalConfig_not_loaded: "\<not> truthy u \<Longrightarrow> finalConfig a u = []"
  by (simp add: finalConfig_def)

lemma js_eq_true [simp]: "js_eq v (Bool True) \<longleftrightarrow> v = Bool True"
  by (auto simp: js_eq_def)

lemma isModuleVisible_Some: "m \<noteq> [] \<Longrightarrow>
   isModuleVisible c s (Some m) \<longleftrightarrow> opt_prop (obj_get c s) m = Bool True"
  by (cases m) (simp_all add: isModuleVisible_def)

lemma opt_prop_listed:
  "opt_prop (Obj kvs) m = Bool True \<Longrightarrow> m \<in> set (map fst kvs)"
  by (auto simp: obj_get_def split: option.splits dest!: map_of_SomeD intro!: image_eqI)

text \<open>C36: a module is shown exactly when the administrator's configuration enables its section and
  the module, the user's configuration is loaded, and the user has not switched off the section or
  the module; \<open>getVisibleModules\<close> lists exactly the modules shown. This holds for whatever text the
  server has stored as the administrator's configuration.\<close>

theorem module_visible_iff:
  assumes "m \<noteq> []" "m \<noteq> lit ''enabled''"
  shows "(isModuleVisible (finalConfig (adminConfig st) u) s (Some m) \<longleftrightarrow>
      truthy u \<and> allows (adminConfig st) u s m) \<and>
    (m \<in> set (getVisibleModules (finalConfig (adminConfig st) u) s) \<longleftrightarrow>
      truthy u \<and> allows (adminConfig st) u s m)"
proof (cases "truthy u")
  case True
  note on = final_module_on_iff [OF wf_adminConfig True assms(2), of st s]
  have "m \<in> set (map fst (own_entries (obj_get (finalConfig (adminConfig st) u) s)))"
    if al: "allows (adminConfig st) u s m"
  proof -
    obtain kvs where "obj_get (finalConfig (adminConfig st) u) s = Obj kvs"
      using al by (cases "map_of (adminConfig st) s")
        (auto simp: allows_def obj_get_def map_of_finalConfig [OF wf_adminConfig True])
    then show ?thesis using opt_prop_listed [of kvs m] on al by simp
  qed
  then show ?thesis
    using on True assms final_section_on [OF wf_adminConfig True, of st s m]
    by (auto simp: isModuleVisible_Some getVisibleModules_def Let_def)
next
  case False
  then show ?thesis using assms
    by (simp add: finalConfig_not_loaded isModuleVisible_Some getVisibleModules_def)
qed

theorem module_visible_iff_witness:
  "isModuleVisible (finalConfig (adminConfig Undefined) (Obj [])) (lit ''console'') (Some (lit ''log'')) \<and>
   lit ''log'' \<in> set (getVisibleModules (finalConfig (adminConfig Undefined) (Obj [])) (lit ''console''))"
proof -
  have "allows (adminConfig Undefined) (Obj []) (lit ''console'') (lit ''log'')"
    by (simp add: allows_def adminConfig_def mergeAdminConfig_def DEFAULT_ADMIN_CONFIG_def flags_def)
  then show ?thesis
    using module_visible_iff [of "lit ''log''" Undefined "Obj []" "lit ''console''"] by simp
qed

section \<open>Users without a configuration of their own\<close>

lemma map_of_default_section:
  assumes "distinct (map fst ms)"
  shows "map_of (default_section ms) m =
    (if m = lit ''enabled'' then Some (Bool True)
     else case map_of ms m of Some v \<Rightarrow> if truthy v then Some (Bool True) else None | None \<Rightarrow> None)"
  using foldl_put_get [OF assms, of "\<lambda>kv. fst kv \<noteq> lit ''enabled'' \<and> truthy (snd kv)" "\<lambda>_. Bool True"
      "[(lit ''enabled'', Bool True)]" m]
  by (auto simp: default_section_def split: option.splits)

lemma map_of_defaultUserConfig:
  assumes "wf_admin a"
  shows "map_of (defaultUserConfig a) s = (case map_of a s of None \<Rightarrow> None
    | Some v \<Rightarrow> if truthy (opt_prop v (lit ''enabled'')) then Some (Obj (default_section (own_entries v))) else None)"
  using foldl_put_get [of a "\<lambda>kv. truthy (opt_prop (snd kv) (lit ''enabled''))"
      "\<lambda>kv. Obj (default_section (own_entries (snd kv)))" "[]" s] assms
  by (auto simp: defaultUserConfig_def wf_admin_def split: option.splits)

lemma default_allows:
  assumes a: "wf_admin a" and m: "m \<noteq> lit ''enabled''"
  shows "allows a (Obj (defaultUserConfig a)) s m \<longleftrightarrow>
    truthy (opt_prop (obj_get a s) (lit ''enabled'')) \<and> truthy (opt_prop (obj_get a s) m)"
proof (cases "map_of a s")
  case (Some v)
  then obtain ms where v: "v = Obj ms" "distinct (map fst ms)"
    using wf_sectionE [OF a] by metis
  have sec: "opt_prop (Obj (defaultUserConfig a)) s =
      (if truthy (obj_get ms (lit ''enabled'')) then Obj (default_section ms) else Undefined)"
    using Some v by (simp add: obj_get_def [of "defaultUserConfig a"] map_of_defaultUserConfig [OF a])
  have "obj_get (default_section ms) (lit ''enabled'') \<noteq> Bool False"
      "obj_get (default_section ms) m \<noteq> Bool False"
    using m by (simp_all add: obj_get_def map_of_default_section [OF v(2)] split: option.splits)
  then show ?thesis by (auto simp: allows_def sec simp del: opt_prop.simps(1)) auto
qed (simp add: allows_def obj_get_def)

text \<open>A user who has saved no configuration, or whose configuration could not be fetched or
  parsed, sees exactly the modules the administrator allows: \<open>loadUserConfig\<close> then installs a
  default configuration that hides nothing and adds nothing.\<close>

theorem default_user_sees_admin_choice:
  assumes "m \<noteq> []" "m \<noteq> lit ''enabled''"
    and "fetched_config (adminConfig st) answer \<in> {Inl e, Inr (Obj (defaultUserConfig (adminConfig st)))}"
    and "sb' = loadUserConfig_finish (adminConfig st) loader answer sb"
  shows "isModuleVisible (finalConfig (adminConfig st) (userConfig sb')) s (Some m) \<longleftrightarrow>
    truthy (opt_prop (obj_get (adminConfig st) s) (lit ''enabled'')) \<and>
    truthy (opt_prop (obj_get (adminConfig st) s) m)"
proof -
  have u: "userConfig sb' = Obj (defaultUserConfig (adminConfig st))"
    using assms(3,4) by (auto simp: loadUserConfig_finish_def Let_def)
  show ?thesis
    using final_module_on_iff [OF wf_adminConfig _ assms(2), of "userConfig sb'" st s]
      default_allows [OF wf_adminConfig assms(2), of st s] assms(1)
    by (simp add: u isModuleVisible_Some)
qed

theorem default_user_sees_admin_choice_witness:
  "isModuleVisible (finalConfig (adminConfig Undefined)
     (userConfig (loadUserConfig_finish (adminConfig Undefined) True None init_sidebar)))
     (lit ''console'') (Some (lit ''log''))"
proof -
  have "fetched_config (adminConfig Undefined) None = Inl (JsError [])"
    by (simp add: fetched_config_def)
  moreover have "truthy (opt_prop (obj_get (adminConfig Undefined) (lit ''console'')) (lit ''enabled''))"
      "truthy (opt_prop (obj_get (adminConfig Undefined) (lit ''console'')) (lit ''log''))"
    by (simp_all add: adminConfig_def mergeAdminConfig_def DEFAULT_ADMIN_CONFIG_def flags_def)
  ultimately show ?thesis
    using default_user_sees_admin_choice [of "lit ''log''" Undefined None "JsError []" _ True init_sidebar
        "lit ''console''"] by simp
qed

end
