(* ===== verification/Token_Links.thy ===== *)
theory Token_Links
  imports Js_Json
begin

text \<open>
  The strings the client exchanges outside its own pages: API keys and the connection string a user
  copies to another installation (\<open>helpers/token.js\<close>), and deep links into the playground
  (\<open>helpers/playgroundDeepLink.js\<close>).

  The answers of the server are arguments (\<open>None\<close> for a request that threw). A URLSearchParams
  object is its list of name-value pairs; \<open>form_serialize\<close> is its \<open>toString\<close>.
\<close>

section \<open>Token keys\<close>

definition destructure :: "jsval \<Rightarrow> jsval" where
  "destructure response = js_or (opt_prop response (lit ''data'')) (Obj [])"

definition fetchTokenKey :: "jsval \<Rightarrow> jsval res" where
  "fetchTokenKey response =
     (let d = destructure response; key = opt_prop (opt_prop d (lit ''data'')) (lit ''key'')
      in if nullish response then Inl TypeError
         else if \<not> truthy (opt_prop d (lit ''success'')) \<or> \<not> truthy key
         then Inl (JsError (to_str (js_or (opt_prop d (lit ''message'')) (Str (lit ''Failed to fetch token key'')))))
         else Inr key)"

definition fetchTokenKeysBatch :: "jsval \<Rightarrow> jsval res" where
  "fetchTokenKeysBatch response =
     (let d = destructure response; ks = opt_prop (opt_prop d (lit ''data'')) (lit ''keys'')
      in if nullish response then Inl TypeError
         else if \<not> truthy (opt_prop d (lit ''success'')) \<or> \<not> truthy ks
         then Inl (JsError (to_str (js_or (opt_prop d (lit ''message'')) (Str (lit ''Failed to fetch token keys'')))))
         else Inr ks)"

definition fetchTokenInflight :: "jsval \<Rightarrow> jsobj res" where
  "fetchTokenInflight response =
     (let d = destructure response; data = opt_prop d (lit ''data'')
      in if nullish response then Inl TypeError
         else if \<not> truthy (opt_prop d (lit ''success''))
         then Inl (JsError (to_str (js_or (opt_prop d (lit ''message'')) (Str (lit ''Failed to fetch token inflight'')))))
         else Inr [(lit ''inflight'', js_or (opt_prop data (lit ''inflight'')) (Obj [])),
           (lit ''clusterWide'', Bool (opt_prop data (lit ''cluster_wide'') \<noteq> Bool False))])"

text \<open>\<open>fetchTokenKeys\<close>: \<open>keyOf\<close> is how the request for each active token settles. Every exception is
  caught and gives the empty list.\<close>

definition fetchTokenKeys :: "jsval option \<Rightarrow> (jsval \<Rightarrow> jsval res) \<Rightarrow> jsval list" where
  "fetchTokenKeys answer keyOf = (case answer of
     None \<Rightarrow> []
   | Some response \<Rightarrow>
       (let body = opt_prop response (lit ''data''); data = opt_prop body (lit ''data'');
            items = (if is_arr data then data else js_or (opt_prop data (lit ''items'')) (Arr []))
        in if \<not> truthy (opt_prop body (lit ''success'')) \<or> nullish data then []
           else case items of
             Arr ts \<Rightarrow>
               if list_ex nullish ts then []
               else concat (map (\<lambda>tok. case keyOf (opt_prop tok (lit ''id'')) of
                   Inr v \<Rightarrow> if truthy v then [v] else [] | Inl e \<Rightarrow> [])
                 (filter (\<lambda>tok. js_eq (opt_prop tok (lit ''status'')) (Num (Fin 1))) ts))
           | _ \<Rightarrow> []))"

definition getServerAddress :: "jsstr option \<Rightarrow> jsstr \<Rightarrow> jsval" where
  "getServerAddress status origin =
     (let stored = (case status of
            None \<Rightarrow> Str []
          | Some s \<Rightarrow>
              if s = [] then Str []
              else (case json_parse s of
                Inl e \<Rightarrow> Str []
              | Inr v \<Rightarrow> js_or (opt_prop v (lit ''server_address'')) (Str [])))
      in if truthy stored then stored else Str origin)"

section \<open>Connection strings\<close>

definition CHANNEL_CONN_CLIPBOARD_TYPE :: jsstr where
  "CHANNEL_CONN_CLIPBOARD_TYPE = lit ''amuxapi_channel_conn''"

definition CHANNEL_CONN_CLIPBOARD_TYPE_LEGACY :: jsstr where
  "CHANNEL_CONN_CLIPBOARD_TYPE_LEGACY = lit ''newapi_channel_conn''"

definition encodeChannelConnectionString :: "jsstr \<Rightarrow> jsstr \<Rightarrow> jsstr" where
  "encodeChannelConnectionString key url = the (json_text (Obj
     [(lit ''_type'', Str CHANNEL_CONN_CLIPBOARD_TYPE), (lit ''key'', Str key), (lit ''url'', Str url)]))"

definition parseChannelConnectionString :: "jsval \<Rightarrow> (jsstr \<times> jsstr) option" where
  "parseChannelConnectionString text = (case text of
     Str (c # cs) \<Rightarrow>
       (case json_parse (trim (c # cs)) of
          Inl e \<Rightarrow> None
        | Inr parsed \<Rightarrow>
            if truthy parsed \<and> typeof_object parsed \<and>
               (js_eq (opt_prop parsed (lit ''_type'')) (Str CHANNEL_CONN_CLIPBOARD_TYPE) \<or>
                js_eq (opt_prop parsed (lit ''_type'')) (Str CHANNEL_CONN_CLIPBOARD_TYPE_LEGACY))
            then (case (opt_prop parsed (lit ''key''), opt_prop parsed (lit ''url'')) of
              (Str k, Str u) \<Rightarrow> Some (k, u) | _ \<Rightarrow> None)
            else None)
   | _ \<Rightarrow> None)"

section \<open>Deep links\<close>

type_synonym search_params = "(jsstr \<times> jsstr) list"

definition MAX_MODEL_LEN :: nat where "MAX_MODEL_LEN = 200"

definition MAX_GROUP_LEN :: nat where "MAX_GROUP_LEN = 100"

definition MAX_PROMPT_LEN :: nat where "MAX_PROMPT_LEN = 4000"

definition MAX_PARAM_VALUE_LEN :: nat where "MAX_PARAM_VALUE_LEN = 2000"

definition MAX_PARAM_COUNT :: nat where "MAX_PARAM_COUNT = 32"

definition RESERVED_KEYS :: "jsstr list" where
  "RESERVED_KEYS = [lit ''model'', lit ''group'', lit ''prompt'']"

definition TEXT_PARAM_SCHEMA :: "(jsstr \<times> jsstr) list" where
  "TEXT_PARAM_SCHEMA = map (map_prod lit lit)
     [(''temperature'', ''number''), (''top_p'', ''number''), (''max_tokens'', ''integer''),
      (''frequency_penalty'', ''number''), (''presence_penalty'', ''number''), (''seed'', ''integer''),
      (''stream'', ''boolean'')]"

lemma size_obj_get: "size (obj_get kvs k) < size (Obj kvs)"
proof (cases "map_of kvs k")
  case (Some v)
  then have "(k, v) \<in> set kvs" by (rule map_of_SomeD)
  then have "size v < Suc (size_list (size_prod (\<lambda>_. 0) size) kvs)"
    by (induction kvs) auto
  with Some show ?thesis by (simp add: obj_get_def)
qed (simp add: obj_get_def)

function coerceParam :: "jsval \<Rightarrow> jsval \<Rightarrow> jsval" where
  "coerceParam value typeOrDef =
     (if nullish value then Undefined
      else
        (let ty = (case typeOrDef of Str s \<Rightarrow> Str s | _ \<Rightarrow> opt_prop typeOrDef (lit ''type''))
         in if js_eq ty (Str (lit ''number'')) then
              (let n = parse_float (to_str value) in if is_finite n then Num n else Undefined)
            else if js_eq ty (Str (lit ''integer'')) then
              (let n = parse_int10 (to_str value) in if is_finite n then Num n else Undefined)
            else if js_eq ty (Str (lit ''boolean'')) then
              (if value = Str (lit ''true'') \<or> value = Str (lit ''1'') then Bool True
               else if value = Str (lit ''false'') \<or> value = Str (lit ''0'') then Bool False
               else Undefined)
            else if js_eq ty (Str (lit ''array'')) then
              (let arr = filter (\<lambda>v. v \<noteq> Undefined) (map (\<lambda>v.
                     case typeOrDef of
                       Obj def \<Rightarrow> coerceParam (Str (trim v)) (obj_get def (lit ''items''))
                     | _ \<Rightarrow> Str (trim v)) (split_char 44 (to_str value)))
               in if arr \<noteq> [] then Arr arr else Undefined)
            else (case typeOrDef of
              Obj def \<Rightarrow>
                (case obj_get def (lit ''enum'') of
                   Arr es \<Rightarrow> if list_ex (\<lambda>e. js_eq e value) es then value else Undefined
                 | _ \<Rightarrow> value)
            | _ \<Rightarrow> value)))"
  by pat_completeness auto
termination
  by (relation "measure (\<lambda>(v, d). size d)") (use size_obj_get in simp_all)

declare coerceParam.simps [simp del]

record deep_link =
  dl_model :: jsstr
  dl_group :: jsstr
  dl_prompt :: jsstr
  dl_params :: jsobj

definition search_get :: "search_params \<Rightarrow> jsstr \<Rightarrow> jsstr" where
  "search_get ps k = (case map_of ps k of None \<Rightarrow> [] | Some v \<Rightarrow> v)"

text \<open>The body of \<open>searchParams.forEach\<close>, with the counter. Assigning a text to \<open>params['__proto__']\<close>
  has no effect.\<close>

definition collect_param :: "jsobj \<times> nat \<Rightarrow> jsstr \<times> jsstr \<Rightarrow> jsobj \<times> nat" where
  "collect_param st kv = (case (st, kv) of ((ps, cnt), (key, value)) \<Rightarrow>
     if key \<in> set RESERVED_KEYS then (ps, cnt)
     else if MAX_PARAM_COUNT \<le> cnt then (ps, cnt)
     else if key = lit ''__proto__'' then (ps, cnt + 1)
     else (obj_put ps key (Str (take MAX_PARAM_VALUE_LEN value)), cnt + 1))"

definition parsePlaygroundDeepLink :: "search_params \<Rightarrow> deep_link option" where
  "parsePlaygroundDeepLink sp =
     (let model = trim (search_get sp (lit ''model''));
          grp = trim (search_get sp (lit ''group''));
          prompt = search_get sp (lit ''prompt'')
      in if model = [] \<or> grp = [] then None
         else if MAX_MODEL_LEN < length model \<or> MAX_GROUP_LEN < length grp then None
         else Some \<lparr>dl_model = model, dl_group = grp, dl_prompt = take MAX_PROMPT_LEN prompt,
           dl_params = fst (foldl collect_param ([], 0) sp)\<rparr>)"

text \<open>\<open>search.set(k, v)\<close>: the first pair of that name gets the value and the others go; a new name
  is appended.\<close>

definition search_set :: "search_params \<Rightarrow> jsstr \<Rightarrow> jsstr \<Rightarrow> search_params" where
  "search_set ps k v =
     (if k \<in> fst ` set ps
      then takeWhile (\<lambda>p. fst p \<noteq> k) ps @ (k, v) #
        filter (\<lambda>p. fst p \<noteq> k) (tl (dropWhile (\<lambda>p. fst p \<noteq> k) ps))
      else ps @ [(k, v)])"

text \<open>A URLSearchParams object keeps scalar values only: a text is read as code points, a lone
  surrogate as U+FFFD, and \<open>usv\<close> is the text it keeps.\<close>

fun code_points :: "jsstr \<Rightarrow> nat list" where
  "code_points [] = []"
| "code_points (c # cs) =
     (if is_lead c then
        (case cs of
           d # ds \<Rightarrow> if is_trail d then (65536 + (c - 55296) * 1024 + (d - 56320)) # code_points ds
             else 65533 # code_points cs
         | [] \<Rightarrow> [65533])
      else if is_trail c then 65533 # code_points cs
      else c # code_points cs)"

definition utf16 :: "nat \<Rightarrow> jsstr" where
  "utf16 cp = (if cp < 65536 then [cp]
     else [55296 + (cp - 65536) div 1024, 56320 + (cp - 65536) mod 1024])"

definition usv :: "jsstr \<Rightarrow> jsstr" where
  "usv s = concat (map utf16 (code_points s))"

definition link_param :: "search_params \<Rightarrow> jsstr \<times> jsval \<Rightarrow> search_params" where
  "link_param sp kv = (case kv of (k, v) \<Rightarrow>
     if k \<in> set RESERVED_KEYS then sp else if nullish v then sp else search_set sp (usv k) (usv (to_str v)))"

definition deep_link_search :: "jsval \<Rightarrow> jsval \<Rightarrow> jsval \<Rightarrow> jsval \<Rightarrow> search_params" where
  "deep_link_search model grp prompt params =
     (let s1 = search_set [] (lit ''model'') (usv (to_str model));
          s2 = search_set s1 (lit ''group'') (usv (to_str grp));
          s3 = (if truthy prompt then search_set s2 (lit ''prompt'') (usv (to_str prompt)) else s2)
      in if truthy params \<and> typeof_object params then foldl link_param s3 (own_entries params) else s3)"

text \<open>The application/x-www-form-urlencoded serializer: UTF-8, a lone surrogate as U+FFFD, a space
  as \<open>+\<close>, everything but letters, digits and \<open>*-._\<close> percent-encoded.\<close>

definition utf8 :: "nat \<Rightarrow> nat list" where
  "utf8 cp =
     (if cp < 128 then [cp]
      else if cp < 2048 then [192 + cp div 64, 128 + cp mod 64]
      else if cp < 65536 then [224 + cp div 4096, 128 + cp div 64 mod 64, 128 + cp mod 64]
      else [240 + cp div 262144, 128 + cp div 4096 mod 64, 128 + cp div 64 mod 64, 128 + cp mod 64])"

definition form_byte :: "nat \<Rightarrow> jsstr" where
  "form_byte b =
     (let up = (\<lambda>d. if d < 10 then 48 + d else 55 + d)
      in if b = 32 then [43]
         else if is_digit b \<or> (65 \<le> b \<and> b \<le> 90) \<or> (97 \<le> b \<and> b \<le> 122) \<or> b \<in> {42, 45, 46, 95} then [b]
         else [37, up (b div 16), up (b mod 16)])"

definition form_encode :: "jsstr \<Rightarrow> jsstr" where
  "form_encode s = concat (map form_byte (concat (map utf8 (code_points s))))"

definition form_serialize :: "search_params \<Rightarrow> jsstr" where
  "form_serialize ps = join (lit ''&'') (map (\<lambda>(k, v). form_encode k @ lit ''='' @ form_encode v) ps)"

definition buildPlaygroundDeepLink :: "jsval \<Rightarrow> jsval \<Rightarrow> jsval \<Rightarrow> jsval \<Rightarrow> jsstr option \<Rightarrow> jsstr" where
  "buildPlaygroundDeepLink model grp prompt params base =
     (case base of None \<Rightarrow> lit ''/console/playground'' | Some b \<Rightarrow> b) @ lit ''?'' @
     form_serialize (deep_link_search model grp prompt params)"

text \<open>What the browser makes of the link. \<open>location_search\<close> is \<open>location.search\<close>, the query with its
  \<open>?\<close>, for a query of characters the URL parser keeps as they are. \<open>form_parse\<close> is
  \<open>new URLSearchParams(text)\<close>: parts between \<open>&\<close>, each split at its first \<open>=\<close>, \<open>+\<close> for a space,
  percent-decoded to bytes, and the bytes read as UTF-8 with U+FFFD for what is no UTF-8.
  \<open>utf8_decode\<close> keeps the number of continuation bytes it still needs, the range of the next one
  and the code point so far.\<close>

definition location_search :: "jsstr \<Rightarrow> jsstr" where
  "location_search link = dropWhile (\<lambda>c. c \<noteq> 63) (takeWhile (\<lambda>c. c \<noteq> 35) link)"

fun percent_decode :: "nat list \<Rightarrow> nat list" where
  "percent_decode [] = []"
| "percent_decode (c # cs) =
     (if c = 43 then 32 # percent_decode cs
      else if c = 37 then
        (case cs of
           a # b # r \<Rightarrow>
             (case (hex_val a, hex_val b) of
                (Some x, Some y) \<Rightarrow> (16 * x + y) # percent_decode r
              | _ \<Rightarrow> 37 # percent_decode cs)
         | _ \<Rightarrow> 37 # percent_decode cs)
      else c # percent_decode cs)"

function utf8_decode :: "nat \<Rightarrow> nat \<Rightarrow> nat \<Rightarrow> nat \<Rightarrow> nat list \<Rightarrow> nat list" where
  "utf8_decode need lo hi cp [] = (if need = 0 then [] else [65533])"
| "utf8_decode need lo hi cp (b # bs) =
     (if need = 0 then
        (if b < 128 then b # utf8_decode 0 128 191 0 bs
         else if 194 \<le> b \<and> b \<le> 223 then utf8_decode 1 128 191 (b - 192) bs
         else if 224 \<le> b \<and> b \<le> 239 then
           utf8_decode 2 (if b = 224 then 160 else 128) (if b = 237 then 159 else 191) (b - 224) bs
         else if 240 \<le> b \<and> b \<le> 244 then
           utf8_decode 3 (if b = 240 then 144 else 128) (if b = 244 then 143 else 191) (b - 240) bs
         else 65533 # utf8_decode 0 128 191 0 bs)
      else if b < lo \<or> hi < b then 65533 # utf8_decode 0 128 191 0 (b # bs)
      else if need = 1 then (cp * 64 + (b - 128)) # utf8_decode 0 128 191 0 bs
      else utf8_decode (need - 1) 128 191 (cp * 64 + (b - 128)) bs)"
  by pat_completeness auto
termination
  by (relation "measure (\<lambda>(need, lo, hi, cp, bs). 2 * length bs + (if need = 0 then 0 else 1))") auto

declare utf8_decode.simps [simp del]

definition form_decode :: "nat list \<Rightarrow> jsstr" where
  "form_decode bs = concat (map utf16 (utf8_decode 0 128 191 0 (percent_decode bs)))"

definition form_pair :: "nat list \<Rightarrow> jsstr \<times> jsstr" where
  "form_pair part = (form_decode (takeWhile (\<lambda>c. c \<noteq> 61) part),
     form_decode (drop 1 (dropWhile (\<lambda>c. c \<noteq> 61) part)))"

definition form_parse :: "jsstr \<Rightarrow> search_params" where
  "form_parse s =
     (let q = (case s of c # cs \<Rightarrow> if c = 63 then cs else s | [] \<Rightarrow> [])
      in map form_pair (filter (\<lambda>p. p \<noteq> []) (split_char 38 (concat (map utf8 (code_points q))))))"

section \<open>The connection string is read back\<close>

definition units_ok :: "jsstr \<Rightarrow> bool" where
  "units_ok s \<longleftrightarrow> (\<forall>c \<in> set s. c < 65536)"

lemma of_char_lt: "of_char c < (256 :: nat)"
proof -
  have "of_char c mod 256 < (256 :: nat)" by simp
  then show ?thesis by simp
qed

lemma units_ok_lit [simp]: "units_ok (lit s)"
proof -
  have "of_char c < (65536 :: nat)" for c using of_char_lt [of c] by linarith
  then show ?thesis by (auto simp: units_ok_def lit_def)
qed

lemma skip_ws_Cons [simp]: "\<not> is_json_ws c \<Longrightarrow> skip_ws (c # r) = c # r"
  by (simp add: skip_ws_def)

lemma not_json_ws [simp]:
  "\<not> is_json_ws 34" "\<not> is_json_ws 44" "\<not> is_json_ws 58" "\<not> is_json_ws 123" "\<not> is_json_ws 125"
  by (simp_all add: is_json_ws_def)

text \<open>One member with a string value: the parser goes on after the comma or stops at the brace.\<close>

lemma pmembers_quoted:
  assumes "units_ok k" "units_ok v"
  shows "pmembers (Suc (Suc n)) acc (json_quote k @ 58 # json_quote v @ 125 # r) =
      Some (obj_put acc k (Str v), r)"
    and "pmembers (Suc (Suc n)) acc (json_quote k @ 58 # json_quote v @ 44 # r) =
      pmembers (Suc n) (obj_put acc k (Str v)) r"
  using assms by (simp_all add: json_quote_def parse_chars_quote_units units_ok_def)

definition conn_text :: "jsstr \<Rightarrow> jsstr \<Rightarrow> jsstr" where
  "conn_text key url = 123 # json_quote (lit ''_type'') @ 58 # json_quote CHANNEL_CONN_CLIPBOARD_TYPE @ 44 #
     json_quote (lit ''key'') @ 58 # json_quote key @ 44 # json_quote (lit ''url'') @ 58 # json_quote url @ [125]"

lemma encode_conn_text: "encodeChannelConnectionString key url = conn_text key url"
  by (simp add: encodeChannelConnectionString_def conn_text_def, simp add: lit_def)

lemma json_parse_conn:
  assumes "units_ok key" "units_ok url"
  shows "json_parse (conn_text key url) = Inr (Obj
    [(lit ''_type'', Str CHANNEL_CONN_CLIPBOARD_TYPE), (lit ''key'', Str key), (lit ''url'', Str url)])"
proof -
  let ?s = "conn_text key url"
  let ?n = "2 * length ?s"
  obtain r where s: "?s = 123 # 34 # r"
    by (simp add: conn_text_def json_quote_def)
  have ty: "units_ok CHANNEL_CONN_CLIPBOARD_TYPE"
    by (simp add: CHANNEL_CONN_CLIPBOARD_TYPE_def)
  have idx: "\<not> is_index (lit ''_type'')" "\<not> is_index (lit ''key'')" "\<not> is_index (lit ''url'')"
    by (simp_all add: is_index_def is_digit_def lit_simps)
  have "pmembers (Suc (Suc (Suc (Suc ?n)))) [] (34 # r) = Some
      ([(lit ''_type'', Str CHANNEL_CONN_CLIPBOARD_TYPE), (lit ''key'', Str key), (lit ''url'', Str url)], [])"
  proof -
    have "34 # r = json_quote (lit ''_type'') @ 58 # json_quote CHANNEL_CONN_CLIPBOARD_TYPE @ 44 #
       json_quote (lit ''key'') @ 58 # json_quote key @ 44 # json_quote (lit ''url'') @ 58 # json_quote url @ 125 # []"
      using s by (simp add: conn_text_def)
    then show ?thesis
      using assms ty idx by (simp add: pmembers_quoted obj_put_def del: pmembers.simps)
  qed
  then have "pval (Suc (Suc (Suc (Suc (Suc ?n))))) ?s = Some (Obj
      [(lit ''_type'', Str CHANNEL_CONN_CLIPBOARD_TYPE), (lit ''key'', Str key), (lit ''url'', Str url)], [])"
    by (simp add: s del: pmembers.simps)
  then show ?thesis
    using json_parse_fuel [of ?s "Suc (Suc (Suc (Suc (Suc ?n))))"] by (simp add: skip_ws_def)
qed

lemma trim_conn_text: "trim (conn_text key url) = conn_text key url"
  by (rule trim_id) (simp add: trimmed_def conn_text_def is_ws_def)

definition conn_encode :: "jsstr \<times> jsstr \<Rightarrow> jsval" where
  "conn_encode ku = Str (encodeChannelConnectionString (fst ku) (snd ku))"

interpretation conn: codec "\<lambda>ku. units_ok (fst ku) \<and> units_ok (snd ku)" conn_encode parseChannelConnectionString
proof
  fix ku :: "jsstr \<times> jsstr"
  assume ok: "units_ok (fst ku) \<and> units_ok (snd ku)"
  obtain r where s: "conn_text (fst ku) (snd ku) = 123 # r"
    by (simp add: conn_text_def)
  then show "parseChannelConnectionString (conn_encode ku) = Some ku"
    using json_parse_conn [of "fst ku" "snd ku"] trim_conn_text [of "fst ku" "snd ku"] ok
    by (simp add: conn_encode_def encode_conn_text parseChannelConnectionString_def js_eq_def)
qed

text \<open>The connection string a user copies is read back as the same key and address, whatever
  characters they contain (quotes, backslashes, control characters, lone surrogates), and two
  different pairs never give the same string.\<close>

theorem connection_string_round_trip:
  assumes "\<forall>c \<in> set key. c < 65536" "\<forall>c \<in> set url. c < 65536"
  shows "parseChannelConnectionString (Str (encodeChannelConnectionString key url)) = Some (key, url) \<and>
    (\<forall>key' url'. (\<forall>c \<in> set key'. c < 65536) \<longrightarrow> (\<forall>c \<in> set url'. c < 65536) \<longrightarrow>
       encodeChannelConnectionString key' url' = encodeChannelConnectionString key url \<longrightarrow>
       key' = key \<and> url' = url)"
  using assms conn.dec_enc [of "(key, url)"] conn.enc_eq_iff [of "(_, _)" "(key, url)"]
  by (auto simp: conn_encode_def units_ok_def)

theorem connection_string_round_trip_witness:
  "parseChannelConnectionString (Str (encodeChannelConnectionString (lit ''sk-1'') [34, 92, 10, 55296])) =
     Some (lit ''sk-1'', [34, 92, 10, 55296])"
  using connection_string_round_trip [of "lit ''sk-1''" "[34, 92, 10, 55296]"]
    units_ok_lit [of "''sk-1''"] by (simp add: units_ok_def)

section \<open>Deep links are read back\<close>

lemma map_of_search_set [simp]: "map_of (search_set ps k v) = (map_of ps)(k \<mapsto> v)"
proof (cases "k \<in> fst ` set ps")
  case True
  have "map_of (takeWhile (\<lambda>p. fst p \<noteq> k) ps @ (k, v) #
      filter (\<lambda>p. fst p \<noteq> k) (tl (dropWhile (\<lambda>p. fst p \<noteq> k) ps))) = (map_of ps)(k \<mapsto> v)"
    using True
  proof (induction ps)
    case (Cons p ps)
    show ?case
    proof (cases "fst p = k")
      case eq: True
      have "map_of (filter (\<lambda>p. fst p \<noteq> k) ps) x = (if x = k then None else map_of ps x)" for x
        by (induction ps) auto
      with eq show ?thesis by (cases p) auto
    next
      case False
      with Cons show ?thesis by (cases p) auto
    qed
  qed simp
  with True show ?thesis by (simp add: search_set_def)
next
  case False
  then have "map_of ps k = None" by (simp add: map_of_eq_None_iff)
  with False show ?thesis by (auto simp: search_set_def map_add_def split: option.splits)
qed

lemma search_set_new: "k \<notin> fst ` set ps \<Longrightarrow> search_set ps k v = ps @ [(k, v)]"
  by (simp add: search_set_def)

text \<open>The link text is read as the pairs it was written from. A code point comes back from its UTF-16
  units and from its UTF-8 bytes, a byte from its form encoding.\<close>

definition scalar :: "nat \<Rightarrow> bool" where
  "scalar cp \<longleftrightarrow> cp < 1114112 \<and> \<not> (55296 \<le> cp \<and> cp \<le> 57343)"

lemma code_points_scalar: "units_ok s \<Longrightarrow> list_all scalar (code_points s)"
  by (induction s rule: code_points.induct)
    (auto simp: units_ok_def scalar_def is_lead_def is_trail_def split: list.splits)

lemma code_points_utf16: "scalar cp \<Longrightarrow> code_points (utf16 cp @ s) = cp # code_points s"
proof (cases "cp < 65536")
  case False
  assume "scalar cp"
  define n where "n = cp - 65536"
  have n: "cp = 65536 + n" "n < 1048576" using False \<open>scalar cp\<close> by (simp_all add: n_def scalar_def)
  have "n div 1024 < 1024" "n mod 1024 < 1024" using n(2) by (simp_all add: less_mult_imp_div_less)
  moreover have "n div 1024 * 1024 + n mod 1024 = n" by simp
  ultimately show ?thesis by (simp add: n(1) utf16_def is_lead_def is_trail_def)
qed (auto simp: utf16_def scalar_def is_lead_def is_trail_def)

lemma code_points_utf16_all: "list_all scalar cps \<Longrightarrow> code_points (concat (map utf16 cps)) = cps"
  by (induction cps) (simp_all add: code_points_utf16 del: code_points.simps(2))

lemma units_ok_utf16: "scalar cp \<Longrightarrow> units_ok (utf16 cp)"
  by (auto simp: utf16_def scalar_def units_ok_def)

lemma usv_facts:
  assumes "units_ok s"
  shows "units_ok (usv s)" "usv (usv s) = usv s"
proof -
  have sc: "list_all scalar (code_points s)" using assms by (rule code_points_scalar)
  have "list_all scalar cps \<Longrightarrow> units_ok (concat (map utf16 cps))" for cps
    using units_ok_utf16 by (auto simp: units_ok_def list_all_iff)
  then show "units_ok (usv s)" using sc by (simp add: usv_def)
  show "usv (usv s) = usv s" using code_points_utf16_all [OF sc] by (simp add: usv_def)
qed

lemma base64_digits: "(n :: nat) = n div 64 * 64 + n mod 64" "n div 4096 = n div 64 div 64" "n div 262144 = n div 64 div 64 div 64"
  by (simp_all add: div_mult2_eq [symmetric])

lemma utf8_decode_two:
  assumes "2 \<le> a" "a < 32" "b < 64"
  shows "utf8_decode 0 128 191 0 ((192 + a) # (128 + b) # bs) = (a * 64 + b) # utf8_decode 0 128 191 0 bs"
  using assms by (simp add: utf8_decode.simps)

lemma utf8_decode_three:
  assumes "a < 16" "b < 64" "c < 64" "a = 0 \<longrightarrow> 32 \<le> b" "a = 13 \<longrightarrow> b < 32"
  shows "utf8_decode 0 128 191 0 ((224 + a) # (128 + b) # (128 + c) # bs) =
    ((a * 64 + b) * 64 + c) # utf8_decode 0 128 191 0 bs"
proof -
  have "utf8_decode 0 128 191 0 ((224 + a) # (128 + b) # (128 + c) # bs) =
      utf8_decode 2 (if a = 0 then 160 else 128) (if a = 13 then 159 else 191) a ((128 + b) # (128 + c) # bs)"
    using assms by (simp add: utf8_decode.simps(2) [of 0])
  also have "\<dots> = utf8_decode 1 128 191 (a * 64 + b) ((128 + c) # bs)"
    using assms by (auto simp add: utf8_decode.simps(2) [of 2])
  also have "\<dots> = ((a * 64 + b) * 64 + c) # utf8_decode 0 128 191 0 bs"
    using assms by (simp add: utf8_decode.simps(2) [of 1, simplified])
  finally show ?thesis .
qed

lemma utf8_decode_four:
  assumes "a < 5" "b < 64" "c < 64" "d < 64" "a = 0 \<longrightarrow> 16 \<le> b" "a = 4 \<longrightarrow> b < 16"
  shows "utf8_decode 0 128 191 0 ((240 + a) # (128 + b) # (128 + c) # (128 + d) # bs) =
    (((a * 64 + b) * 64 + c) * 64 + d) # utf8_decode 0 128 191 0 bs"
proof -
  have "utf8_decode 0 128 191 0 ((240 + a) # (128 + b) # (128 + c) # (128 + d) # bs) =
      utf8_decode 3 (if a = 0 then 144 else 128) (if a = 4 then 143 else 191) a ((128 + b) # (128 + c) # (128 + d) # bs)"
    using assms by (simp add: utf8_decode.simps(2) [of 0])
  also have "\<dots> = utf8_decode 2 128 191 (a * 64 + b) ((128 + c) # (128 + d) # bs)"
    using assms by (auto simp add: utf8_decode.simps(2) [of 3])
  also have "\<dots> = utf8_decode 1 128 191 ((a * 64 + b) * 64 + c) ((128 + d) # bs)"
    using assms by (simp add: utf8_decode.simps(2) [of 2])
  also have "\<dots> = (((a * 64 + b) * 64 + c) * 64 + d) # utf8_decode 0 128 191 0 bs"
    using assms by (simp add: utf8_decode.simps(2) [of 1, simplified])
  finally show ?thesis .
qed

lemma utf8_decode_utf8:
  assumes "scalar cp"
  shows "utf8_decode 0 128 191 0 (utf8 cp @ bs) = cp # utf8_decode 0 128 191 0 bs"
proof -
  define h g f where "h = cp div 64" and "g = h div 64" and "f = g div 64"
  have cp: "cp = h * 64 + cp mod 64" "h = g * 64 + h mod 64" "g = f * 64 + g mod 64"
    by (simp_all add: h_def g_def f_def)
  have bytes: "utf8 cp = (if cp < 128 then [cp] else if cp < 2048 then [192 + h, 128 + cp mod 64]
      else if cp < 65536 then [224 + g, 128 + h mod 64, 128 + cp mod 64]
      else [240 + f, 128 + g mod 64, 128 + h mod 64, 128 + cp mod 64])"
    using base64_digits(2,3) [of cp] by (simp add: utf8_def h_def g_def f_def)
  have b: "cp mod 64 < 64" "h mod 64 < 64" "g mod 64 < 64" by simp_all
  have up: "cp < 1114112" "\<not> (55296 \<le> cp \<and> cp \<le> 57343)" using assms by (simp_all add: scalar_def)
  consider "cp < 128" | "128 \<le> cp" "cp < 2048" | "2048 \<le> cp" "cp < 65536" | "65536 \<le> cp" by linarith
  then show ?thesis
  proof cases
    case 1
    then show ?thesis by (simp add: bytes utf8_decode.simps(2) [of 0])
  next
    case 2
    then have "2 \<le> h" "h < 32" using cp(1) b(1) by linarith+
    then show ?thesis using 2 utf8_decode_two [of h "cp mod 64" bs] cp(1) by (simp add: bytes)
  next
    case 3
    then have "g < 16" "g = 0 \<longrightarrow> 32 \<le> h mod 64" "g = 13 \<longrightarrow> h mod 64 < 32"
      using cp b up(2) by linarith+
    then have "utf8_decode 0 128 191 0 ((224 + g) # (128 + h mod 64) # (128 + cp mod 64) # bs) =
        ((g * 64 + h mod 64) * 64 + cp mod 64) # utf8_decode 0 128 191 0 bs" using b by (intro utf8_decode_three) auto
    then show ?thesis using 3 cp(1,2) by (simp add: bytes)
  next
    case 4
    then have "f < 5" "f = 0 \<longrightarrow> 16 \<le> g mod 64" "f = 4 \<longrightarrow> g mod 64 < 16"
      using cp b up(1) by linarith+
    then have "utf8_decode 0 128 191 0 ((240 + f) # (128 + g mod 64) # (128 + h mod 64) # (128 + cp mod 64) # bs) =
        (((f * 64 + g mod 64) * 64 + h mod 64) * 64 + cp mod 64) # utf8_decode 0 128 191 0 bs"
      using b by (intro utf8_decode_four) auto
    then show ?thesis using 4 cp(1,2,3) by (simp add: bytes)
  qed
qed

lemma utf8_decode_all: "list_all scalar cps \<Longrightarrow> utf8_decode 0 128 191 0 (concat (map utf8 cps)) = cps"
  by (induction cps) (simp_all add: utf8_decode_utf8 utf8_decode.simps(1))

lemma utf8_bytes: "scalar cp \<Longrightarrow> \<forall>b \<in> set (utf8 cp). b < 256"
proof -
  assume "scalar cp"
  then have "cp < 2048 \<Longrightarrow> cp div 64 < 32" "cp < 65536 \<Longrightarrow> cp div 4096 < 16" "cp div 262144 < 5"
    by (auto simp: scalar_def)
  moreover have "n mod 64 < 64" for n :: nat by simp
  then have "128 + n mod 64 < 256" for n :: nat by (metis add_less_mono1 add_lessD1 nat_add_left_cancel_less
      numeral_Bit0 order.strict_trans less_add_same_cancel1 trans_less_add1 zero_less_numeral)
  ultimately show ?thesis by (auto simp: utf8_def)
qed

definition form_char :: "nat \<Rightarrow> bool" where
  "form_char c \<longleftrightarrow> c < 128 \<and> c \<notin> {35, 38, 61, 63}"

lemma form_byte_chars: "b < 256 \<Longrightarrow> list_all form_char (form_byte b)"
proof -
  assume "b < 256"
  then have "b div 16 < 16" "b mod 16 < 16" by (simp_all add: less_mult_imp_div_less)
  then show ?thesis by (auto simp: form_byte_def form_char_def is_digit_def Let_def)
qed

lemma percent_decode_form_byte:
  assumes "b < 256"
  shows "percent_decode (form_byte b @ r) = b # percent_decode r"
proof -
  have "b div 16 < 16" "b mod 16 < 16" using assms by (simp_all add: less_mult_imp_div_less)
  then have "hex_val (if b div 16 < 10 then 48 + b div 16 else 55 + b div 16) = Some (b div 16)"
    "hex_val (if b mod 16 < 10 then 48 + b mod 16 else 55 + b mod 16) = Some (b mod 16)"
    by (simp_all add: hex_val_def)
  then show ?thesis by (auto simp: form_byte_def is_digit_def Let_def)
qed

lemma percent_decode_all: "\<forall>b \<in> set bs. b < 256 \<Longrightarrow> percent_decode (concat (map form_byte bs)) = bs"
  by (induction bs) (simp_all add: percent_decode_form_byte del: percent_decode.simps(2))

lemma form_encode_facts:
  assumes "units_ok s"
  shows "form_decode (form_encode s) = usv s" "list_all form_char (form_encode s)"
proof -
  have sc: "list_all scalar (code_points s)" using assms by (rule code_points_scalar)
  then have b: "\<forall>b \<in> set (concat (map utf8 (code_points s))). b < 256"
    using utf8_bytes by (auto simp: list_all_iff)
  then show "form_decode (form_encode s) = usv s"
    by (simp add: form_decode_def form_encode_def percent_decode_all [OF b] utf8_decode_all [OF sc] usv_def)
  show "list_all form_char (form_encode s)"
    using b form_byte_chars by (fastforce simp: form_encode_def list_all_iff)
qed

lemma ascii_bytes: "\<forall>c \<in> set s. c < 128 \<Longrightarrow> concat (map utf8 (code_points s)) = s"
  by (induction s rule: code_points.induct) (auto simp: utf8_def is_lead_def is_trail_def split: list.splits)

definition form_part :: "jsstr \<times> jsstr \<Rightarrow> jsstr" where
  "form_part kv = form_encode (fst kv) @ 61 # form_encode (snd kv)"

lemma form_serialize_parts: "form_serialize ps = join [38] (map form_part ps)"
proof -
  have "(\<lambda>(k, v). form_encode k @ lit ''='' @ form_encode v) = form_part" by (auto simp: form_part_def lit_def)
  then show ?thesis by (simp add: form_serialize_def lit_def)
qed

lemma form_part_facts:
  assumes "units_ok (fst kv)" "units_ok (snd kv)"
  shows "form_pair (form_part kv) = (usv (fst kv), usv (snd kv))"
    and "\<forall>c \<in> set (form_part kv). c < 128 \<and> c \<noteq> 38 \<and> c \<noteq> 35 \<and> c \<noteq> 63"
proof -
  note e = form_encode_facts [OF assms(1)] form_encode_facts [OF assms(2)]
  have "takeWhile (\<lambda>c. c \<noteq> 61) (form_part kv) = form_encode (fst kv)"
    "dropWhile (\<lambda>c. c \<noteq> 61) (form_part kv) = 61 # form_encode (snd kv)"
    using e(2) unfolding form_part_def
    by (subst takeWhile_append2 dropWhile_append2; force simp: list_all_iff form_char_def)+
  then show "form_pair (form_part kv) = (usv (fst kv), usv (snd kv))" by (simp add: form_pair_def e)
  show "\<forall>c \<in> set (form_part kv). c < 128 \<and> c \<noteq> 38 \<and> c \<noteq> 35 \<and> c \<noteq> 63"
    using e(2,4) by (auto simp: form_part_def list_all_iff form_char_def)
qed

lemma set_join: "set (join sep ps) \<subseteq> set sep \<union> \<Union> (set ` set ps)"
  by (induction sep ps rule: join.induct) auto

text \<open>Serialising and parsing give the pairs back, lone surrogates replaced.\<close>

lemma form_parse_serialize:
  assumes "\<And>kv. kv \<in> set ps \<Longrightarrow> units_ok (fst kv) \<and> units_ok (snd kv)" "ps \<noteq> []"
  shows "form_parse (63 # form_serialize ps) = map (\<lambda>kv. (usv (fst kv), usv (snd kv))) ps"
    and "35 \<notin> set (form_serialize ps)"
proof -
  note f = form_part_facts [of "_ :: jsstr \<times> jsstr"]
  have c: "\<forall>c \<in> set (form_serialize ps). c < 128 \<and> c \<noteq> 35"
  proof
    fix c assume "c \<in> set (form_serialize ps)"
    then consider "c = 38" | kv where "kv \<in> set ps" "c \<in> set (form_part kv)"
      using set_join [of "[38]" "map form_part ps"] by (auto simp: form_serialize_parts)
    then show "c < 128 \<and> c \<noteq> 35" using f(2) assms(1) by cases auto
  qed
  then show "35 \<notin> set (form_serialize ps)" by blast
  have "split_char 38 (form_serialize ps) = map form_part ps"
    unfolding form_serialize_parts using f(2) assms by (intro split_char_join) auto
  moreover have "filter (\<lambda>p. p \<noteq> []) (map form_part ps) = map form_part ps"
    by (simp add: filter_id_conv form_part_def)
  moreover have "concat (map utf8 (code_points (form_serialize ps))) = form_serialize ps"
    using c by (intro ascii_bytes) blast
  ultimately show "form_parse (63 # form_serialize ps) = map (\<lambda>kv. (usv (fst kv), usv (snd kv))) ps"
    using f(1) assms(1) by (simp add: form_parse_def)
qed

lemma location_search_link:
  assumes "35 \<notin> set b" "63 \<notin> set b" "35 \<notin> set q"
  shows "location_search (b @ 63 # q) = 63 # q"
proof -
  have "takeWhile (\<lambda>c. c \<noteq> 35) (b @ 63 # q) = b @ 63 # q"
    using assms(1,3) by (auto simp: takeWhile_eq_all_conv)
  moreover have "dropWhile (\<lambda>c. c \<noteq> 63) (b @ 63 # q) = 63 # q"
    using assms(2) by (subst dropWhile_append2) auto
  ultimately show ?thesis unfolding location_search_def by metis
qed

text \<open>The pairs a link carries for a parameter object.\<close>

definition sent :: "jsstr \<times> jsval \<Rightarrow> bool" where
  "sent kv \<longleftrightarrow> fst kv \<notin> set RESERVED_KEYS \<and> \<not> nullish (snd kv)"

definition sent_pairs :: "jsobj \<Rightarrow> search_params" where
  "sent_pairs kvs = map (\<lambda>(k, v). (k, usv (to_str v))) (filter sent kvs)"

lemma foldl_link_param:
  assumes "distinct (map fst kvs)" "\<And>kv. kv \<in> set kvs \<Longrightarrow> usv (fst kv) = fst kv"
    "\<And>kv. kv \<in> set kvs \<Longrightarrow> sent kv \<Longrightarrow> fst kv \<notin> fst ` set sp"
  shows "foldl link_param sp kvs = sp @ sent_pairs kvs"
  using assms
proof (induction kvs arbitrary: sp)
  case (Cons kv kvs)
  obtain k v where kv: "kv = (k, v)" by fastforce
  have k: "usv k = k" using Cons.prems(2) [of kv] kv by simp
  show ?case
  proof (cases "sent kv")
    case True
    then have "link_param sp kv = sp @ [(k, usv (to_str v))]"
      using Cons.prems(3) [of kv] kv k by (simp add: link_param_def sent_def search_set_new)
    moreover have "fst kv' \<notin> fst ` set (sp @ [(k, usv (to_str v))])" if "kv' \<in> set kvs" "sent kv'" for kv'
    proof -
      have "fst kv' \<noteq> k" using Cons.prems(1) kv that(1) by (metis distinct.simps(2) fst_conv
          image_eqI list.set_map list.simps(9))
      then show ?thesis using Cons.prems(3) [of kv'] that by simp
    qed
    ultimately show ?thesis
      using Cons.IH [of "sp @ [(k, usv (to_str v))]"] Cons.prems(1,2) True kv by (simp add: sent_pairs_def)
  next
    case False
    then have "link_param sp kv = sp"
      using kv by (auto simp: link_param_def sent_def)
    with Cons.IH [of sp] Cons.prems False show ?thesis by (simp add: sent_pairs_def)
  qed
qed (simp add: sent_pairs_def)

lemma foldl_collect_reserved:
  "fst ` set xs \<subseteq> set RESERVED_KEYS \<Longrightarrow> foldl collect_param st (xs @ ys) = foldl collect_param st ys"
proof (induction xs arbitrary: st)
  case (Cons x xs)
  then have "collect_param st x = st"
    by (cases x; cases st) (auto simp: collect_param_def)
  with Cons show ?case by simp
qed simp

lemma foldl_collect:
  assumes "distinct (map fst ys)" "\<And>y. y \<in> set ys \<Longrightarrow> fst y \<notin> set RESERVED_KEYS \<and> fst y \<noteq> lit ''__proto__''"
    "n + length ys \<le> MAX_PARAM_COUNT"
  shows "map_of (fst (foldl collect_param (acc, n) ys)) k =
    (case map_of ys k of Some v \<Rightarrow> Some (Str (take MAX_PARAM_VALUE_LEN v)) | None \<Rightarrow> map_of acc k)"
  using assms
proof (induction ys arbitrary: acc n)
  case (Cons y ys)
  obtain q v where y: "y = (q, v)" by fastforce
  have "collect_param (acc, n) y = (obj_put acc q (Str (take MAX_PARAM_VALUE_LEN v)), Suc n)"
    using Cons.prems(2) [of y] Cons.prems(3) y by (simp add: collect_param_def)
  moreover have "q \<notin> fst ` set ys" using Cons.prems(1) y by simp
  ultimately show ?case
    using Cons y by (auto simp: map_of_eq_None_iff [THEN iffD2] split: option.splits)
qed simp

text \<open>The control pairs of a link.\<close>

definition control_pairs :: "jsstr \<Rightarrow> jsstr \<Rightarrow> jsstr \<Rightarrow> search_params" where
  "control_pairs model grp prompt = [(lit ''model'', model), (lit ''group'', grp)] @
     (if prompt = [] then [] else [(lit ''prompt'', usv prompt)])"

lemma deep_link_search_pairs:
  assumes "distinct (map fst kvs)" "\<And>kv. kv \<in> set kvs \<Longrightarrow> usv (fst kv) = fst kv"
    "usv model = model" "usv grp = grp"
  shows "deep_link_search (Str model) (Str grp) (Str prompt) (Obj kvs) = control_pairs model grp prompt @ sent_pairs kvs"
proof -
  have "foldl link_param (control_pairs model grp prompt) kvs = control_pairs model grp prompt @ sent_pairs kvs"
    using assms by (intro foldl_link_param) (auto simp: control_pairs_def sent_def RESERVED_KEYS_def split: if_splits)
  then show ?thesis using assms(3,4)
    by (cases "prompt = []") (simp_all add: deep_link_search_def control_pairs_def search_set_def)
qed

lemma map_of_sent:
  "distinct (map fst kvs) \<Longrightarrow> map_of (sent_pairs kvs) k =
   (case map_of kvs k of Some v \<Rightarrow> if sent (k, v) then Some (usv (to_str v)) else None | None \<Rightarrow> None)"
proof (induction kvs)
  case (Cons kv kvs)
  have "map_of (sent_pairs kvs) k = None" if "k \<notin> fst ` set kvs"
    using that by (force simp: map_of_eq_None_iff sent_pairs_def)
  with Cons show ?case unfolding sent_pairs_def
    by (cases kv) (auto simp: map_of_eq_None_iff [THEN iffD2] simp del: map_of_eq_Some_iff split: option.splits)
qed (simp add: sent_pairs_def)

text \<open>The texts the pairs of a link are made of.\<close>

definition well_formed :: "jsstr \<Rightarrow> bool" where
  "well_formed s \<longleftrightarrow> units_ok s \<and> usv s = s"

definition param_ok :: "jsstr \<times> jsval \<Rightarrow> bool" where
  "param_ok kv \<longleftrightarrow> well_formed (fst kv) \<and> fst kv \<noteq> lit ''__proto__'' \<and> units_ok (to_str (snd kv))"

lemma usv_lit [simp]: "usv (lit s) = lit s"
proof -
  have "\<forall>c \<in> set s. c < 55296 \<Longrightarrow> concat (map utf16 (code_points s)) = s" for s
    by (induction s rule: code_points.induct) (auto simp: utf16_def is_lead_def is_trail_def split: list.splits)
  moreover have "of_char c < (55296 :: nat)" for c
    using of_char_lt [of c] by linarith
  ultimately show ?thesis by (auto simp: usv_def lit_def)
qed

lemma link_pairs_read:
  assumes "well_formed model" "well_formed grp" "units_ok prompt"
    "list_all param_ok kvs" "distinct (map fst kvs)"
    "35 \<notin> set b" "63 \<notin> set b"
  shows "form_parse (location_search (buildPlaygroundDeepLink (Str model) (Str grp) (Str prompt) (Obj kvs) (Some b))) =
    control_pairs model grp prompt @ sent_pairs kvs"
proof -
  let ?ps = "control_pairs model grp prompt @ sent_pairs kvs"
  have pairs: "deep_link_search (Str model) (Str grp) (Str prompt) (Obj kvs) = ?ps"
    using assms by (intro deep_link_search_pairs) (auto simp: list_all_iff param_ok_def well_formed_def)
  have u: "units_ok (fst kv) \<and> units_ok (snd kv) \<and> usv (fst kv) = fst kv \<and> usv (snd kv) = snd kv" if "kv \<in> set ?ps" for kv
    using that assms(1-4) usv_facts
    by (auto simp: control_pairs_def sent_pairs_def list_all_iff param_ok_def well_formed_def split: if_splits)
  have ne: "?ps \<noteq> []" by (simp add: control_pairs_def)
  have "map (\<lambda>kv. (usv (fst kv), usv (snd kv))) ?ps = ?ps" using u by (intro map_idI) simp
  moreover have "location_search (b @ 63 # form_serialize ?ps) = 63 # form_serialize ?ps"
    using assms(6,7) form_parse_serialize(2) [OF _ ne] u by (intro location_search_link) blast+
  moreover have "form_parse (63 # form_serialize ?ps) = map (\<lambda>kv. (usv (fst kv), usv (snd kv))) ?ps"
    using u by (intro form_parse_serialize(1) [OF _ ne]) blast
  ultimately show ?thesis by (simp add: buildPlaygroundDeepLink_def pairs lit_def)
qed

text \<open>C39: a deep link is read back from its text. The link is built for a model, a group, a prompt,
  parameters and a base address, the browser takes its query and parses it (percent-decoding, UTF-8),
  and the reader finds the model and the group given, the prompt cut at 4000 units, and each parameter
  that is neither reserved nor null as its text (\<open>String(v)\<close>, an array joined by commas), cut at 2000
  units, and no other parameter. In the prompt and in the parameters a lone surrogate has become
  U+FFFD (\<open>usv\<close>). The conditions: model and group are non-empty, have no outer white space and are at
  most 200 and 100 units long, there are at most 32 parameters, the names have no lone surrogate and
  none is \<open>__proto__\<close>, and the base has no \<open>?\<close> and no \<open>#\<close>.\<close>

theorem deep_link_round_trip:
  assumes "trimmed model" "model \<noteq> []" "length model \<le> 200" "well_formed model"
    and "trimmed grp" "grp \<noteq> []" "length grp \<le> 100" "well_formed grp"
    and "units_ok prompt" "list_all param_ok kvs"
    and "distinct (map fst kvs)" "length kvs \<le> 32"
    and "35 \<notin> set b" "63 \<notin> set b"
  shows "\<exists>l. parsePlaygroundDeepLink (form_parse (location_search
      (buildPlaygroundDeepLink (Str model) (Str grp) (Str prompt) (Obj kvs) (Some b)))) = Some l \<and>
    dl_model l = model \<and> dl_group l = grp \<and> dl_prompt l = take 4000 (usv prompt) \<and>
    (\<forall>k. obj_get (dl_params l) k =
      (case map_of kvs k of
         Some v \<Rightarrow> if k \<in> set RESERVED_KEYS \<or> nullish v then Undefined else Str (take 2000 (usv (to_str v)))
       | None \<Rightarrow> Undefined))"
proof -
  let ?ys = "sent_pairs kvs"
  let ?sp = "control_pairs model grp prompt @ ?ys"
  have nores: "fst y \<notin> set RESERVED_KEYS \<and> fst y \<noteq> lit ''__proto__''" if "y \<in> set ?ys" for y
    using that assms(10) by (auto simp: sent_def sent_pairs_def list_all_iff param_ok_def)
  have keys: "map fst ?ys = map fst (filter sent kvs)" by (auto simp: sent_pairs_def)
  have d: "distinct (map fst ?ys)"
    unfolding keys using assms(11) by (rule distinct_map_filter)
  have "length ?ys \<le> MAX_PARAM_COUNT"
    using le_trans [OF length_filter_le [of sent kvs] assms(12)] by (simp add: MAX_PARAM_COUNT_def sent_pairs_def)
  then have ps: "map_of (fst (foldl collect_param ([], 0) ?sp)) k =
      map_option (\<lambda>v. Str (take 2000 v)) (map_of ?ys k)" for k
    using foldl_collect [OF d nores, of 0 "[]" k]
      foldl_collect_reserved [of "control_pairs model grp prompt" "([], 0)" ?ys]
    by (simp add: control_pairs_def RESERVED_KEYS_def MAX_PARAM_VALUE_LEN_def split: option.splits)
  have noprompt: "map_of ?ys (lit ''prompt'') = None"
    using nores by (force simp: map_of_eq_None_iff RESERVED_KEYS_def)
  have get: "search_get ?sp (lit ''model'') = model" "search_get ?sp (lit ''group'') = grp"
      "search_get ?sp (lit ''prompt'') = usv prompt"
    using noprompt by (simp_all add: search_get_def control_pairs_def usv_def)
  have "obj_get (fst (foldl collect_param ([], 0) ?sp)) k =
      (case map_of kvs k of
         Some v \<Rightarrow> if k \<in> set RESERVED_KEYS \<or> nullish v then Undefined else Str (take 2000 (usv (to_str v)))
       | None \<Rightarrow> Undefined)" for k
    unfolding obj_get_def ps map_of_sent [OF assms(11)] by (auto simp: sent_def split: option.splits)
  then show ?thesis
    unfolding link_pairs_read [OF assms(4,8,9,10,11,13,14)] parsePlaygroundDeepLink_def get Let_def
    using assms by (simp add: trim_id MAX_MODEL_LEN_def MAX_GROUP_LEN_def MAX_PROMPT_LEN_def)
qed

theorem deep_link_round_trip_witness:
  "\<exists>l. parsePlaygroundDeepLink (form_parse (location_search (buildPlaygroundDeepLink (Str (lit ''gpt-4o''))
      (Str (lit ''vip'')) (Str [55357, 56832, 32, 55296]) (Obj [(lit ''stream'', Bool True)]) (Some (lit ''/console/playground''))))) = Some l \<and>
    dl_model l = lit ''gpt-4o'' \<and> dl_prompt l = [55357, 56832, 32, 65533] \<and>
    obj_get (dl_params l) (lit ''stream'') = Str (lit ''true'')"
proof -
  have "trimmed (lit ''gpt-4o'')" "trimmed (lit ''vip'')" "length (lit ''gpt-4o'') \<le> 200" "lit ''gpt-4o'' \<noteq> []"
      "length (lit ''vip'') \<le> 100" "lit ''vip'' \<noteq> []" "length (lit ''true'') \<le> 2000"
      "35 \<notin> set (lit ''/console/playground'')" "63 \<notin> set (lit ''/console/playground'')"
    by (simp_all add: trimmed_def is_ws_def lit_def)
  moreover have "units_ok [55357, 56832, 32, 55296]" by (simp add: units_ok_def)
  moreover have "usv [55357, 56832, 32, 55296] = [55357, 56832, 32, 65533]" by code_simp
  moreover have "well_formed (lit ''gpt-4o'')" "well_formed (lit ''vip'')" "list_all param_ok [(lit ''stream'', Bool True)]"
    by (simp_all add: well_formed_def param_ok_def)
  moreover have "lit ''stream'' \<notin> set RESERVED_KEYS" by (simp add: RESERVED_KEYS_def)
  ultimately show ?thesis
    using deep_link_round_trip [of "lit ''gpt-4o''" "lit ''vip''" "[55357, 56832, 32, 55296]"
      "[(lit ''stream'', Bool True)]" "lit ''/console/playground''"]
    by auto
qed

end
