(* ===== verification/Json_Round_Trip.thy ===== *)
theory Json_Round_Trip
  imports Js_Json
begin

text \<open>
  \<open>JSON.parse\<close> undoes \<open>JSON.stringify\<close>, compact or indented. The relation \<open>prints v s\<close> describes the JSON texts
  of a value with any white space between tokens; the parser reads each of them, and both printers
  produce one. A number must be one whose printed form reads back as itself, which is checked by
  evaluation.
\<close>

section \<open>Texts of a value\<close>

definition ws :: "jsstr \<Rightarrow> bool" where
  "ws w \<longleftrightarrow> list_all is_json_ws w"

text \<open>What can follow a value.\<close>

definition stops :: "jsstr \<Rightarrow> bool" where
  "stops r \<longleftrightarrow> r = [] \<or> is_json_ws (hd r) \<or> hd r = 44 \<or> hd r = 93 \<or> hd r = 125"

definition units_ok :: "jsstr \<Rightarrow> bool" where
  "units_ok s \<longleftrightarrow> list_all (\<lambda>c. c < 65536) s"

definition num_reads :: "jsnum \<Rightarrow> jsstr \<Rightarrow> bool" where
  "num_reads x t \<longleftrightarrow> parse_number t = Some (x, []) \<and> \<not> is_ws (last t)"

inductive prints :: "jsval \<Rightarrow> jsstr \<Rightarrow> bool"
  and prints_elems :: "jsval list \<Rightarrow> jsstr \<Rightarrow> bool"
  and prints_members :: "jsobj \<Rightarrow> jsstr \<Rightarrow> bool"
where
  p_null: "prints Null (lit ''null'')"
| p_true: "prints (Bool True) (lit ''true'')"
| p_false: "prints (Bool False) (lit ''false'')"
| p_num: "num_reads x t \<Longrightarrow> prints (Num x) t"
| p_str: "units_ok s \<Longrightarrow> prints (Str s) (json_quote s)"
| p_arr0: "ws w \<Longrightarrow> prints (Arr []) (91 # w @ [93])"
| p_arr: "prints_elems vs t \<Longrightarrow> prints (Arr vs) (91 # t)"
| p_obj0: "ws w \<Longrightarrow> prints (Obj []) (123 # w @ [125])"
| p_obj: "prints_members ms t \<Longrightarrow> prints (Obj (obj_merge [] ms)) (123 # t)"
| e_last: "ws w \<Longrightarrow> prints v s \<Longrightarrow> ws w' \<Longrightarrow> prints_elems [v] (w @ s @ w' @ [93])"
| e_cons: "ws w \<Longrightarrow> prints v s \<Longrightarrow> ws w' \<Longrightarrow> prints_elems vs t \<Longrightarrow> prints_elems (v # vs) (w @ s @ w' @ 44 # t)"
| m_last: "ws w \<Longrightarrow> units_ok k \<Longrightarrow> ws w1 \<Longrightarrow> prints v s \<Longrightarrow> ws w' \<Longrightarrow>
    prints_members [(k, v)] (w @ json_quote k @ 58 # w1 @ s @ w' @ [125])"
| m_cons: "ws w \<Longrightarrow> units_ok k \<Longrightarrow> ws w1 \<Longrightarrow> prints v s \<Longrightarrow> ws w' \<Longrightarrow> prints_members ms t \<Longrightarrow>
    prints_members ((k, v) # ms) (w @ json_quote k @ 58 # w1 @ s @ w' @ 44 # t)"

section \<open>White space\<close>

lemma skip_ws_append: "ws w \<Longrightarrow> skip_ws (w @ s) = skip_ws s"
  by (simp add: skip_ws_def ws_def dropWhile_append2 list_all_iff)

lemma skip_ws_not: "\<not> is_json_ws c \<Longrightarrow> skip_ws (c # s) = c # s"
  by (simp add: skip_ws_def)

lemma skip_ws_idem [simp]: "skip_ws (skip_ws s) = skip_ws s"
  by (simp add: skip_ws_def dropWhile_idem)

lemma skip_ws_more: "skip_ws t = c # q \<Longrightarrow> skip_ws (t @ r) = c # q @ r"
  by (induction t) (auto simp: skip_ws_def split: if_splits)

lemma pval_skip_ws: "pval n (skip_ws s) = pval n s"
  by (cases n) simp_all

lemma pelems_skip_ws: "pelems n (skip_ws s) = pelems n s"
  by (cases n) (simp_all add: pval_skip_ws)

lemma pmembers_skip_ws: "pmembers n acc (skip_ws s) = pmembers n acc s"
  by (cases n) simp_all

lemma pval_ws: "ws w \<Longrightarrow> pval n (w @ s) = pval n s"
  by (metis pval_skip_ws skip_ws_append)

lemma not_ws [simp]: "\<not> is_json_ws 34" "\<not> is_json_ws 44" "\<not> is_json_ws 58" "\<not> is_json_ws 91" "\<not> is_json_ws 93"
  "\<not> is_json_ws 123" "\<not> is_json_ws 125"
  by (simp_all add: is_json_ws_def)

lemma stops_ws: "ws w \<Longrightarrow> stops r \<Longrightarrow> stops (w @ r)"
  by (cases w) (auto simp: ws_def stops_def)

lemma stops_Cons [simp]: "stops (44 # r)" "stops (93 # r)" "stops (125 # r)" "stops []"
  by (simp_all add: stops_def)

section \<open>Numbers\<close>

lemma stops_not_num:
  assumes "stops r"
  shows "r = [] \<or> (\<not> is_digit (hd r) \<and> hd r \<noteq> 46 \<and> hd r \<noteq> 101 \<and> hd r \<noteq> 69 \<and> hd r \<noteq> 43 \<and> hd r \<noteq> 45)"
  using assms by (auto simp: stops_def is_json_ws_def is_digit_def)

lemma digits_append:
  assumes "stops r"
  shows "takeWhile is_digit (a @ r) = takeWhile is_digit a" "dropWhile is_digit (a @ r) = dropWhile is_digit a @ r"
  using stops_not_num [OF assms] by (induction a) (cases r, auto)+

lemma scan_exp_append:
  assumes "stops r"
  shows "scan_exp (a @ r) = (fst (scan_exp a), snd (scan_exp a) @ r)"
proof (cases a)
  case Nil
  then show ?thesis using stops_not_num [OF assms] by (auto simp: scan_exp_def split: list.splits)
next
  case (Cons c q)
  show ?thesis
  proof (cases q)
    case Nil
    then show ?thesis using Cons stops_not_num [OF assms] by (cases r) (auto simp: scan_exp_def)
  next
    case (Cons d q')
    then show ?thesis using \<open>a = c # q\<close> digits_append [OF assms, of q'] digits_append [OF assms, of q]
      by (auto simp: scan_exp_def)
  qed
qed

lemma parse_number_append:
  assumes "parse_number t = Some (x, [])" "stops r"
  shows "parse_number (t @ r) = Some (x, r)"
proof -
  note stop = stops_not_num [OF assms(2)]
  define b where "b = (case t of [] \<Rightarrow> (1, t) | c # q \<Rightarrow> if c = 45 then (- 1, q) else (1::rat, t))"
  have b': "(case t @ r of [] \<Rightarrow> (1, t @ r) | c # q \<Rightarrow> if c = 45 then (- 1, q) else (1::rat, t @ r)) = (fst b, snd b @ r)"
    using stop by (cases t; cases r) (auto simp: b_def)
  obtain u where u: "snd b = u" by simp
  have ne: "u \<noteq> []" using assms(1) u by (auto simp: parse_number_def b_def [symmetric] split_beta)
  define ip where "ip = (if u \<noteq> [] \<and> hd u = 48 then [48] else takeWhile is_digit u)"
  have ip': "(if u @ r \<noteq> [] \<and> hd (u @ r) = 48 then [48] else takeWhile is_digit (u @ r)) = ip"
    using ne by (simp add: ip_def digits_append [OF assms(2)])
  have le: "length ip \<le> length u"
    using ne by (simp add: ip_def length_takeWhile_le Suc_le_eq)
  define r1 where "r1 = drop (length ip) u"
  have r1': "drop (length ip) (u @ r) = r1 @ r" using le by (simp add: r1_def)
  have frac': "(r1 @ r \<noteq> [] \<and> hd (r1 @ r) = 46) = (r1 \<noteq> [] \<and> hd r1 = 46)" using stop by (cases r1) auto
  have tl': "r1 \<noteq> [] \<Longrightarrow> tl (r1 @ r) = tl r1 @ r" by (cases r1) auto
  have fp': "(if r1 \<noteq> [] \<and> hd r1 = 46 then takeWhile is_digit (tl (r1 @ r)) else []) = (if r1 \<noteq> [] \<and> hd r1 = 46 then takeWhile is_digit (tl r1) else [])"
    by (simp add: tl' digits_append [OF assms(2)])
  have r2': "(if r1 \<noteq> [] \<and> hd r1 = 46 then dropWhile is_digit (tl (r1 @ r)) else r1 @ r) = (if r1 \<noteq> [] \<and> hd r1 = 46 then dropWhile is_digit (tl r1) else r1) @ r"
    by (simp add: tl' digits_append [OF assms(2)])
  show ?thesis
    using assms(1)
    unfolding parse_number_def Let_def b' b_def [symmetric] split_beta fst_conv snd_conv u ip' ip_def [symmetric] r1' r1_def [symmetric] frac' fp' r2'
      scan_exp_append [OF assms(2)]
    by (auto split: if_splits)
qed

lemma num_reads_hd: "num_reads x t \<Longrightarrow> t \<noteq> [] \<and> (is_digit (hd t) \<or> hd t = 45)"
  by (cases t) (auto simp: num_reads_def parse_number_def Let_def is_digit_def split: if_splits)

lemma parse_literal_num:
  assumes "num_reads x t" "stops r"
  shows "parse_literal (t @ r) = Some (Num x, r)"
proof -
  obtain c q where t: "t = c # q" "is_digit c \<or> c = 45" using num_reads_hd [OF assms(1)] by (cases t) auto
  have "strip_prefix (lit ''true'') (t @ r) = None" "strip_prefix (lit ''false'') (t @ r) = None" "strip_prefix (lit ''null'') (t @ r) = None"
    using t by (auto simp: lit_simps is_digit_def)
  then show ?thesis using parse_number_append [of t x r] assms by (simp add: parse_literal_def num_reads_def)
qed

section \<open>The parser reads every text\<close>

lemma quote_parts: "json_quote s = 34 # quote_units s @ [34]"
  by (simp add: json_quote_def lit_simps)

lemma parse_quote: "units_ok k \<Longrightarrow> parse_chars (quote_units k @ 34 # r) = Some (k, r)"
  by (intro parse_chars_quote_units) (auto simp: units_ok_def list_all_iff)

lemma prints_hd:
  "prints v s \<Longrightarrow> s \<noteq> [] \<and> \<not> is_json_ws (hd s) \<and> hd s \<noteq> 93 \<and> hd s \<noteq> 125 \<and> hd s \<noteq> 44"
  by (cases rule: prints.cases, assumption)
     (auto simp: lit_simps is_json_ws_def quote_parts is_digit_def dest!: num_reads_hd)

lemma elems_hd: "prints_elems vs t \<Longrightarrow> \<exists>c q. skip_ws t = c # q \<and> c \<noteq> 93"
proof (cases rule: prints_elems.cases, assumption)
  fix w v s w' assume *: "t = w @ s @ w' @ [93]" "ws w" "prints v s"
  then show ?thesis using prints_hd [of v s] by (cases s) (auto simp: skip_ws_append skip_ws_not)
next
  fix w v s w' vs' t' assume *: "t = w @ s @ w' @ 44 # t'" "ws w" "prints v s"
  then show ?thesis using prints_hd [of v s] by (cases s) (auto simp: skip_ws_append skip_ws_not)
qed

lemma members_hd: "prints_members ms t \<Longrightarrow> \<exists>q. skip_ws t = 34 # q"
  by (cases rule: prints_members.cases, assumption) (auto simp: skip_ws_append quote_parts skip_ws_not)

lemma parser_reads:
  "prints v s \<Longrightarrow> (\<forall>n r. stops r \<longrightarrow> 2 * length s < n \<longrightarrow> pval n (s @ r) = Some (v, r))"
  "prints_elems vs t \<Longrightarrow> (\<forall>n r. 2 * length t + 1 < n \<longrightarrow> pelems n (t @ r) = Some (vs, r))"
  "prints_members ms t \<Longrightarrow> (\<forall>n acc r. 2 * length t + 1 < n \<longrightarrow> pmembers n acc (t @ r) = Some (obj_merge acc ms, r))"
proof (induction rule: prints_prints_elems_prints_members.inducts)
  case (p_num x t)
  show ?case
  proof (intro allI impI)
    fix n r assume r: "stops r" "2 * length t < n"
    obtain c q where t: "t = c # q" "is_digit c \<or> c = 45" using num_reads_hd [OF p_num] by (cases t) auto
    then have "skip_ws (t @ r) = t @ r" "c \<notin> {34, 91, 123}" by (auto simp: is_digit_def is_json_ws_def intro!: skip_ws_not)
    moreover obtain m where "n = Suc m" using r(2) by (cases n) auto
    ultimately show "pval n (t @ r) = Some (Num x, r)" using t(1) parse_literal_num [OF p_num r(1)] by simp
  qed
next
  case (p_arr vs t)
  show ?case
  proof (intro allI impI)
    fix n r assume r: "stops (r :: jsstr)" "2 * length (91 # t) < n"
    obtain m where m: "n = Suc m" using r(2) by (cases n) auto
    obtain c q where c: "skip_ws (t @ r) = c # q" "c \<noteq> 93"
      using elems_hd [OF p_arr(1)] skip_ws_more by blast
    have "pelems m (t @ r) = Some (vs, r)" using p_arr.IH r(2) m by simp
    then show "pval n ((91 # t) @ r) = Some (Arr vs, r)"
      using c pelems_skip_ws [of m "t @ r"] by (simp add: m skip_ws_not)
  qed
next
  case (p_obj ms t)
  show ?case
  proof (intro allI impI)
    fix n r assume r: "stops (r :: jsstr)" "2 * length (123 # t) < n"
    obtain m where m: "n = Suc m" using r(2) by (cases n) auto
    obtain q where c: "skip_ws (t @ r) = 34 # q"
      using members_hd [OF p_obj(1)] skip_ws_more by blast
    have "pmembers m [] (t @ r) = Some (obj_merge [] ms, r)" using p_obj.IH r(2) m by simp
    then show "pval n ((123 # t) @ r) = Some (Obj (obj_merge [] ms), r)"
      using c pmembers_skip_ws [of m "[]" "t @ r"] by (simp add: m skip_ws_not)
  qed
next
  case (e_last w v s w')
  then show ?case
  proof (intro allI impI)
    fix n r assume n: "2 * length (w @ s @ w' @ [93]) + 1 < n"
    obtain m where m: "n = Suc m" using n by (cases n) auto
    have "pval m (w @ s @ w' @ [93] @ r) = Some (v, w' @ [93] @ r)"
      using e_last n m by (simp add: pval_ws stops_ws)
    then show "pelems n ((w @ s @ w' @ [93]) @ r) = Some ([v], r)"
      using e_last.hyps by (simp add: m skip_ws_append skip_ws_not)
  qed
next
  case (e_cons w v s w' vs t)
  then show ?case
  proof (intro allI impI)
    fix n r assume n: "2 * length (w @ s @ w' @ 44 # t) + 1 < n"
    obtain m where m: "n = Suc m" using n by (cases n) auto
    have "pval m (w @ s @ w' @ 44 # t @ r) = Some (v, w' @ 44 # t @ r)"
      using e_cons n m by (simp add: pval_ws stops_ws)
    moreover have "pelems m (t @ r) = Some (vs, r)" using e_cons.IH n m by simp
    ultimately show "pelems n ((w @ s @ w' @ 44 # t) @ r) = Some (v # vs, r)"
      using e_cons.hyps by (simp add: m skip_ws_append skip_ws_not)
  qed
next
  case (m_last w k w1 v s w')
  show ?case
  proof (intro allI impI)
    fix n r acc assume n: "2 * length (w @ json_quote k @ 58 # w1 @ s @ w' @ [125]) + 1 < n"
    obtain m where m: "n = Suc m" using n by (cases n) auto
    have "pval m (w1 @ s @ w' @ [125] @ r) = Some (v, w' @ [125] @ r)"
      using m_last n m by (simp add: pval_ws stops_ws)
    then show "pmembers n acc ((w @ json_quote k @ 58 # w1 @ s @ w' @ [125]) @ r) = Some (obj_merge acc [(k, v)], r)"
      using m_last by (simp add: m skip_ws_append skip_ws_not quote_parts parse_quote obj_merge_def)
  qed
next
  case (m_cons w k w1 v s w' ms t)
  show ?case
  proof (intro allI impI)
    fix n r acc assume n: "2 * length (w @ json_quote k @ 58 # w1 @ s @ w' @ 44 # t) + 1 < n"
    obtain m where m: "n = Suc m" using n by (cases n) auto
    have "pval m (w1 @ s @ w' @ 44 # t @ r) = Some (v, w' @ 44 # t @ r)"
      using m_cons n m by (simp add: pval_ws stops_ws)
    moreover have "pmembers m (obj_put acc k v) (t @ r) = Some (obj_merge (obj_put acc k v) ms, r)" using m_cons.IH n m by simp
    ultimately show "pmembers n acc ((w @ json_quote k @ 58 # w1 @ s @ w' @ 44 # t) @ r) = Some (obj_merge acc ((k, v) # ms), r)"
      using m_cons by (simp add: m skip_ws_append skip_ws_not quote_parts parse_quote obj_merge_def)
  qed
qed (auto simp: gr0_conv_Suc less_eq_Suc_le [symmetric] lit_simps is_json_ws_def skip_ws_def ws_def parse_literal_def quote_parts parse_quote
    dropWhile_append2 list_all_iff dest!: gr_implies_not0 [THEN not0_implies_Suc])

lemma json_parse_prints:
  assumes "prints v s" "ws w" "ws w'"
  shows "json_parse (w @ s @ w') = Inr v"
proof -
  have "stops w'" using stops_ws [OF assms(3), of "[]"] by simp
  then have "pval (2 * length (w @ s @ w') + 2) (w @ s @ w') = Some (v, w')"
    using parser_reads(1) [OF assms(1)] by (simp add: pval_ws [OF assms(2)] del: pval.simps)
  moreover have "skip_ws w' = []" using skip_ws_append [OF assms(3), of "[]"] by (simp add: skip_ws_def)
  ultimately show ?thesis by (simp add: json_parse_def)
qed

section \<open>The printers print\<close>

text \<open>The values \<open>JSON.stringify\<close> keeps: no undefined, numbers that read back, properties in their order.\<close>

fun json_ok :: "jsval \<Rightarrow> bool" where
  "json_ok Undefined = False"
| "json_ok Null = True"
| "json_ok (Bool b) = True"
| "json_ok (Num x) = (is_finite x \<and> num_reads x (num_to_str x))"
| "json_ok (Str s) = units_ok s"
| "json_ok (Arr xs) = list_all json_ok xs"
| "json_ok (Obj kvs) = (list_all (\<lambda>kv. units_ok (fst kv) \<and> json_ok (snd kv)) kvs \<and> obj_merge [] kvs = kvs)"

lemma elems_join:
  assumes "list_all2 prints vs ss" "vs \<noteq> []" "ws w" "ws wi" "ws wsep" "ws wend"
  shows "prints_elems vs (w @ join (44 # wsep) (map (\<lambda>s. wi @ s) ss) @ wend @ [93])"
  using assms(1-3)
proof (induction vs ss arbitrary: w rule: list_all2_induct)
  case (Cons v vs s ss)
  have w: "ws (w @ wi)" using Cons.prems(2) assms(4) by (simp add: ws_def)
  show ?case
  proof (cases vs)
    case Nil
    then show ?thesis using e_last [OF w Cons.hyps(1) assms(6)] Cons.hyps(2) by simp
  next
    case (Cons v' vs')
    then obtain s' ss' where ss: "ss = s' # ss'" using Cons.hyps(2) by (cases ss) auto
    have "prints_elems vs (wsep @ join (44 # wsep) (map (\<lambda>s. wi @ s) ss) @ wend @ [93])"
      using Cons.IH [OF _ assms(5)] Cons by simp
    from e_cons [OF w Cons.hyps(1) _ this, of "[]"] show ?thesis by (simp add: ss ws_def)
  qed
qed simp

lemma members_join:
  assumes "list_all2 (\<lambda>m s. units_ok (fst m) \<and> prints (snd m) s) ms ss" "ms \<noteq> []" "ws w" "ws wi" "ws wk" "ws wsep" "ws wend"
  shows "prints_members ms (w @ join (44 # wsep) (map (\<lambda>(m, s). wi @ json_quote (fst m) @ 58 # wk @ s) (zip ms ss)) @ wend @ [125])"
  using assms(1-3)
proof (induction ms ss arbitrary: w rule: list_all2_induct)
  case (Cons m ms s ss)
  obtain k v where m: "m = (k, v)" by fastforce
  have w: "ws (w @ wi)" using Cons.prems(2) assms(4) by (simp add: ws_def)
  have kv: "units_ok k" "prints v s" using Cons.hyps(1) by (simp_all add: m)
  show ?case
  proof (cases ms)
    case Nil
    then show ?thesis using m_last [OF w kv(1) assms(5) kv(2) assms(7)] Cons.hyps(2) by (simp add: m)
  next
    case (Cons m' ms')
    then obtain s' ss' where ss: "ss = s' # ss'" using Cons.hyps(2) by (cases ss) auto
    have "prints_members ms (wsep @ join (44 # wsep) (map (\<lambda>(m, s). wi @ json_quote (fst m) @ 58 # wk @ s) (zip ms ss)) @ wend @ [125])"
      using Cons.IH [OF _ assms(6)] Cons by simp
    from m_cons [OF w kv(1) assms(5) kv(2) _ this, of "[]"] show ?thesis by (simp add: ss m Cons ws_def)
  qed
qed simp

lemma ws_simps [simp]: "ws []" "ws (10 # w) = ws w" "ws (replicate n 32 @ w) = ws w" "ws (replicate n 32)" "ws [32]"
  by (auto simp: ws_def is_json_ws_def list_all_iff)

lemma texts_exist:
  assumes "list_all (\<lambda>x. \<exists>s. f x = Some s \<and> P x s) xs"
  shows "\<exists>ss. map f xs = map Some ss \<and> list_all2 P xs ss"
  using assms
proof (induction xs)
  case (Cons x xs)
  then obtain ss s where "map f xs = map Some ss" "list_all2 P xs ss" "f x = Some s" "P x s" by auto
  then show ?case by (intro exI [of _ "s # ss"]) simp
qed simp

lemma pick_texts:
  "map f xs = map Some ss \<Longrightarrow> map (\<lambda>x. case f x of None \<Rightarrow> d | Some t \<Rightarrow> t) xs = ss"
  by (induction xs arbitrary: ss) auto

lemma pick_members:
  "map (\<lambda>kv. f (snd kv)) kvs = map Some ss \<Longrightarrow>
   concat (map (\<lambda>kv. case f (snd kv) of None \<Rightarrow> [] | Some t \<Rightarrow> [g (fst kv) t]) kvs) = map (\<lambda>(m, s). g (fst m) s) (zip kvs ss)"
  by (induction kvs arbitrary: ss) auto

lemma json_text_prints: "json_ok v \<Longrightarrow> \<exists>s. json_text v = Some s \<and> prints v s"
proof (induction v rule: json_ok.induct)
  case (6 xs)
  then have "list_all (\<lambda>x. \<exists>s. json_text x = Some s \<and> prints x s) xs" by (auto simp: list_all_iff)
  from texts_exist [OF this] obtain ss where ss: "map json_text xs = map Some ss" "list_all2 prints xs ss" by blast
  show ?case
  proof (cases "xs = []")
    case True
    then show ?thesis using p_arr0 [of "[]"] by (simp add: lit_simps)
  next
    case False
    from p_arr [OF elems_join [OF ss(2) False, of "[]" "[]" "[]" "[]"]]
    have "prints (Arr xs) (91 # join [44] ss @ [93])" by simp
    then show ?thesis by (simp add: lit_simps pick_texts [OF ss(1)])
  qed
next
  case (7 kvs)
  then have "list_all (\<lambda>kv. \<exists>s. json_text (snd kv) = Some s \<and> units_ok (fst kv) \<and> prints (snd kv) s) kvs" by (auto simp: list_all_iff)
  from texts_exist [OF this] obtain ss where ss: "map (\<lambda>kv. json_text (snd kv)) kvs = map Some ss"
      "list_all2 (\<lambda>kv s. units_ok (fst kv) \<and> prints (snd kv) s) kvs ss" by blast
  have merge: "obj_merge [] kvs = kvs" using 7 by simp
  show ?case
  proof (cases "kvs = []")
    case True
    then show ?thesis using p_obj0 [of "[]"] by (simp add: lit_simps)
  next
    case False
    from p_obj [OF members_join [OF ss(2) False, of "[]" "[]" "[]" "[]" "[]"]] merge
    have "prints (Obj kvs) (123 # join [44] (map (\<lambda>(m, s). json_quote (fst m) @ 58 # s) (zip kvs ss)) @ [125])" by simp
    moreover have "lit '':'' = [58]" by (simp add: lit_simps)
    ultimately show ?thesis
      using pick_members [of json_text kvs ss "\<lambda>k t. json_quote k @ lit '':'' @ t"] ss(1) by (simp add: lit_simps)
  qed
qed (auto intro: prints_prints_elems_prints_members.intros)

lemma json_pretty_prints: "json_ok v \<Longrightarrow> \<exists>s. json_pretty d v = Some s \<and> prints v s"
proof (induction v arbitrary: d rule: json_ok.induct)
  case (6 xs)
  then have "list_all (\<lambda>x. \<exists>s. json_pretty (d + 2) x = Some s \<and> prints x s) xs" by (auto simp: list_all_iff)
  from texts_exist [OF this] obtain ss where ss: "map (json_pretty (d + 2)) xs = map Some ss" "list_all2 prints xs ss" by blast
  show ?case
  proof (cases "xs = []")
    case True
    then show ?thesis using p_arr0 [of "[]"] by (simp add: lit_simps json_block_def)
  next
    case False
    have len: "ss \<noteq> []" using ss(2) False by (auto dest: list_all2_lengthD)
    define ind where "ind = replicate (d + 2) (32 :: nat)"
    have "ws ind" by (simp add: ind_def ws_def is_json_ws_def list_all_iff)
    from p_arr [OF elems_join [OF ss(2) False _ this, of "[10]" "[10]" "10 # replicate d 32"]]
    show ?thesis using pick_texts [OF ss(1), of "lit ''null''"] len
      unfolding json_pretty.simps json_block_def ind_def [symmetric] by (simp add: lit_simps del: replicate.simps)
  qed
next
  case (7 kvs)
  then have "list_all (\<lambda>kv. \<exists>s. json_pretty (d + 2) (snd kv) = Some s \<and> units_ok (fst kv) \<and> prints (snd kv) s) kvs"
    by (auto simp: list_all_iff)
  from texts_exist [OF this] obtain ss where ss: "map (\<lambda>kv. json_pretty (d + 2) (snd kv)) kvs = map Some ss"
      "list_all2 (\<lambda>kv s. units_ok (fst kv) \<and> prints (snd kv) s) kvs ss" by blast
  have merge: "obj_merge [] kvs = kvs" using 7 by simp
  show ?case
  proof (cases "kvs = []")
    case True
    then show ?thesis using p_obj0 [of "[]"] by (simp add: lit_simps json_block_def)
  next
    case False
    have len: "ss \<noteq> []" using ss(2) False by (auto dest: list_all2_lengthD)
    have items: "concat (map (\<lambda>kv. case json_pretty (d + 2) (snd kv) of None \<Rightarrow> [] | Some t \<Rightarrow> [json_quote (fst kv) @ lit '': '' @ t]) kvs) =
        map (\<lambda>(m, s). json_quote (fst m) @ lit '': '' @ s) (zip kvs ss)"
      using pick_members [of "json_pretty (d + 2)" kvs ss "\<lambda>k t. json_quote k @ lit '': '' @ t"] ss(1) by simp
    define ind where "ind = replicate (d + 2) (32 :: nat)"
    have "ws ind" by (simp add: ind_def ws_def is_json_ws_def list_all_iff)
    from p_obj [OF members_join [OF ss(2) False _ this, of "[10]" "[32]" "[10]" "10 # replicate d 32"]] merge
    show ?thesis using len False
      unfolding json_pretty.simps json_block_def ind_def [symmetric] items
      by (simp add: lit_simps comp_def case_prod_unfold zip_eq_Nil_iff del: replicate.simps)
  qed
qed (auto intro: prints_prints_elems_prints_members.intros)

lemma parse_stringify: "json_ok v \<Longrightarrow> json_parse (json_str v) = Inr v"
  using json_text_prints [of v] json_parse_prints [of v _ "[]" "[]"] by (auto simp: json_str_def)

lemma parse_stringify2: "json_ok v \<Longrightarrow> \<exists>s. stringify2 v = Str s \<and> json_parse s = Inr v"
  using json_pretty_prints [of v 0] json_parse_prints [of v _ "[]" "[]"] by (auto simp: stringify2_def)

section \<open>Texts are trimmed\<close>

lemma elems_last: "prints_elems vs t \<Longrightarrow> t \<noteq> [] \<and> last t = 93"
  by (induction vs t rule: prints_prints_elems_prints_members.inducts(2)[where ?P1.0 = "\<lambda>_ _. True" and ?P3.0 = "\<lambda>_ _. True"]) auto

lemma members_last: "prints_members ms t \<Longrightarrow> t \<noteq> [] \<and> last t = 125"
  by (induction ms t rule: prints_prints_elems_prints_members.inducts(3)[where ?P1.0 = "\<lambda>_ _. True" and ?P2.0 = "\<lambda>_ _. True"]) auto

lemma token_not_ws: "\<not> is_ws 34" "\<not> is_ws 91" "\<not> is_ws 93" "\<not> is_ws 123" "\<not> is_ws 125" "\<not> is_ws 45"
    "is_digit c \<Longrightarrow> \<not> is_ws c"
  by (auto simp: is_ws_def is_digit_def)

lemma prints_hd_token: "prints v s \<Longrightarrow> \<not> is_ws (hd s)"
proof (cases rule: prints.cases, assumption)
  fix x assume "num_reads x s"
  then show ?thesis using num_reads_hd [of x s] token_not_ws by auto
qed (simp_all add: token_not_ws quote_parts, simp_all add: lit_simps is_ws_def)

lemma prints_last_token: "prints v s \<Longrightarrow> \<not> is_ws (last s)"
proof (cases rule: prints.cases, assumption)
  fix x assume "num_reads x s"
  then show ?thesis by (simp add: num_reads_def)
next
  fix vs t assume "s = 91 # t" "prints_elems vs t"
  then show ?thesis using elems_last [of vs t] by (simp add: token_not_ws)
next
  fix ms t assume "s = 123 # t" "prints_members ms t"
  then show ?thesis using members_last [of ms t] by (simp add: token_not_ws)
qed (simp_all add: token_not_ws quote_parts, simp_all add: lit_simps is_ws_def)

lemma prints_trimmed:
  assumes "prints v s"
  shows "trim s = s \<and> s \<noteq> []"
  using prints_hd [OF assms] prints_hd_token [OF assms] prints_last_token [OF assms]
  by (simp add: trim_id trimmed_def)

section \<open>JSON as a codec\<close>

interpretation json: codec json_ok json_str "\<lambda>s. case json_parse s of Inr v \<Rightarrow> Some v | Inl e \<Rightarrow> None"
  by unfold_locales (simp add: parse_stringify)

end
