(* ===== verification/Param_Override.thy ===== *)
theory Param_Override
  imports Json_Round_Trip
begin

text \<open>
  The editor of parameter overrides, \<open>components/table/channels/modals/ParamOverrideEditorModal.jsx\<close>: the
  operations and their conditions, the drafts of single operations, validation, printing, and the
  state of the editor with its two modes.

  The ids of operations and conditions are the numbers that \<open>nextLocalId\<close> counts up; a function that makes
  ids takes the next one. Which rows are expanded, searched or dragged is not part of the model.
\<close>

section \<open>Modes\<close>

definition OPERATION_MODE_VALUES :: "jsstr list" where
  "OPERATION_MODE_VALUES = map lit [''set'', ''delete'', ''append'', ''prepend'', ''copy'', ''move'', ''replace'', ''regex_replace'',
     ''trim_prefix'', ''trim_suffix'', ''ensure_prefix'', ''ensure_suffix'', ''trim_space'', ''to_lower'', ''to_upper'',
     ''return_error'', ''prune_objects'', ''pass_headers'', ''sync_fields'', ''set_header'', ''delete_header'', ''copy_header'', ''move_header'']"

definition CONDITION_MODE_VALUES :: "jsstr list" where
  "CONDITION_MODE_VALUES = map lit [''full'', ''prefix'', ''suffix'', ''contains'', ''gt'', ''gte'', ''lt'', ''lte'']"

record mode_meta =
  mm_path :: bool
  mm_value :: bool
  mm_keepOrigin :: bool
  mm_from :: bool
  mm_to :: bool
  mm_pathOptional :: bool
  mm_pathAlias :: bool

definition meta_of :: "string list \<Rightarrow> mode_meta" where
  "meta_of fs = \<lparr>mm_path = (''path'' \<in> set fs), mm_value = (''value'' \<in> set fs), mm_keepOrigin = (''keepOrigin'' \<in> set fs),
     mm_from = (''from'' \<in> set fs), mm_to = (''to'' \<in> set fs), mm_pathOptional = (''pathOptional'' \<in> set fs),
     mm_pathAlias = (''pathAlias'' \<in> set fs)\<rparr>"

definition MODE_META :: "(jsstr \<times> mode_meta) list" where
  "MODE_META = map (\<lambda>(k, fs). (lit k, meta_of fs))
     [(''delete'', [''path'']), (''set'', [''path'', ''value'', ''keepOrigin'']), (''append'', [''path'', ''value'', ''keepOrigin'']),
      (''prepend'', [''path'', ''value'', ''keepOrigin'']), (''copy'', [''from'', ''to'']), (''move'', [''from'', ''to'']),
      (''replace'', [''path'', ''from'']), (''regex_replace'', [''path'', ''from'']), (''trim_prefix'', [''path'', ''value'']),
      (''trim_suffix'', [''path'', ''value'']), (''ensure_prefix'', [''path'', ''value'']), (''ensure_suffix'', [''path'', ''value'']),
      (''trim_space'', [''path'']), (''to_lower'', [''path'']), (''to_upper'', [''path'']), (''return_error'', [''value'']),
      (''prune_objects'', [''pathOptional'', ''value'']), (''pass_headers'', [''value'', ''keepOrigin'']), (''sync_fields'', [''from'', ''to'']),
      (''set_header'', [''path'', ''value'', ''keepOrigin'']), (''delete_header'', [''path'']),
      (''copy_header'', [''from'', ''to'', ''keepOrigin'', ''pathAlias'']), (''move_header'', [''from'', ''to'', ''keepOrigin'', ''pathAlias''])]"

definition mode_meta_of :: "jsstr \<Rightarrow> mode_meta" where
  "mode_meta_of m = (case map_of MODE_META m of Some mt \<Rightarrow> mt | None \<Rightarrow> meta_of [''path'', ''value'', ''keepOrigin''])"

definition VALUE_REQUIRED_MODES :: "jsstr list" where
  "VALUE_REQUIRED_MODES = map lit [''trim_prefix'', ''trim_suffix'', ''ensure_prefix'', ''ensure_suffix'', ''set_header'', ''return_error'',
     ''prune_objects'', ''pass_headers'']"

definition FROM_REQUIRED_MODES :: "jsstr list" where
  "FROM_REQUIRED_MODES = map lit [''copy'', ''move'', ''replace'', ''regex_replace'', ''copy_header'', ''move_header'', ''sync_fields'']"

definition TO_REQUIRED_MODES :: "jsstr list" where
  "TO_REQUIRED_MODES = map lit [''copy'', ''move'', ''copy_header'', ''move_header'', ''sync_fields'']"

section \<open>Values\<close>

definition toValueText :: "jsval \<Rightarrow> jsstr" where
  "toValueText v = (case v of Undefined \<Rightarrow> [] | Str s \<Rightarrow> s | _ \<Rightarrow> json_str v)"

definition parseLooseValue :: "jsstr \<Rightarrow> jsval" where
  "parseLooseValue raw = (if trim raw = [] then Str [] else case json_parse raw of Inr v \<Rightarrow> v | Inl e \<Rightarrow> Str raw)"

definition header_names :: "jsval list \<Rightarrow> jsstr list" where
  "header_names items = filter (\<lambda>s. s \<noteq> []) (map (\<lambda>it. trim (to_str (js_coalesce it (Str [])))) items)"

definition parsePassHeaderNames :: "jsval \<Rightarrow> jsstr list" where
  "parsePassHeaderNames v = (case v of
     Arr items \<Rightarrow> header_names items
   | Obj fs \<Rightarrow>
       (case obj_get fs (lit ''headers'') of
          Arr items \<Rightarrow> header_names items
        | _ \<Rightarrow> if obj_get fs (lit ''header'') \<noteq> Undefined then header_names [obj_get fs (lit ''header'')] else [])
   | Str s \<Rightarrow> filter (\<lambda>p. p \<noteq> []) (map trim (split_char 44 s))
   | _ \<Rightarrow> [])"

text \<open>\<open>s.toUpperCase() === w\<close> for a word of ASCII capitals, and \<open>s.toLowerCase()\<close> compared with its lower
  case form; the words are AND, OR and HEADER, to whose letters no other character is mapped.\<close>

definition upper_is :: "jsstr \<Rightarrow> string \<Rightarrow> bool" where
  "upper_is s w \<longleftrightarrow> map (\<lambda>c. if 97 \<le> c \<and> c \<le> 122 then c - 32 else c) s = lit w"

section \<open>Drafts\<close>

record error_draft =
  ed_message :: jsstr
  ed_statusCode :: jsnum
  ed_code :: jsstr
  ed_type :: jsstr
  ed_skipRetry :: bool
  ed_simpleMode :: bool

definition error_defaults :: error_draft where
  "error_defaults = \<lparr>ed_message = [], ed_statusCode = Fin 400, ed_code = [], ed_type = [], ed_skipRetry = True, ed_simpleMode = True\<rparr>"

definition valid_status :: "jsnum \<Rightarrow> bool" where
  "valid_status n \<longleftrightarrow> (case n of Fin q \<Rightarrow> q = of_int \<lfloor>q\<rfloor> \<and> 100 \<le> q \<and> q \<le> 599 | _ \<Rightarrow> False)"

definition parseReturnErrorDraft :: "jsstr \<Rightarrow> error_draft" where
  "parseReturnErrorDraft valueText =
     (let raw = trim valueText; plain = error_defaults\<lparr>ed_message := raw\<rparr>
      in if raw = [] then error_defaults
         else case json_parse raw of
           Inr (Obj fs) \<Rightarrow>
             (let get = (\<lambda>k. obj_get fs (lit k));
                  status = to_num (if get ''status_code'' \<noteq> Undefined then get ''status_code'' else get ''status'');
                  txt = (\<lambda>v. trim (to_str (js_or v (Str []))))
              in \<lparr>ed_message = txt (js_or (get ''message'') (get ''msg'')), ed_statusCode = (if valid_status status then status else Fin 400),
                  ed_code = txt (get ''code''), ed_type = txt (get ''type''), ed_skipRetry = (get ''skip_retry'' \<noteq> Bool False),
                  ed_simpleMode = False\<rparr>)
         | _ \<Rightarrow> plain)"

definition buildReturnErrorValueText :: "error_draft \<Rightarrow> jsstr" where
  "buildReturnErrorValueText d =
     (if ed_simpleMode d then trim (ed_message d)
      else json_str (Obj ([(lit ''message'', Str (trim (ed_message d))),
           (lit ''status_code'', Num (if valid_status (ed_statusCode d) then ed_statusCode d else Fin 400))] @
         (if trim (ed_code d) \<noteq> [] then [(lit ''code'', Str (trim (ed_code d)))] else []) @
         (if trim (ed_type d) \<noteq> [] then [(lit ''type'', Str (trim (ed_type d)))] else []) @
         (if \<not> ed_skipRetry d then [(lit ''skip_retry'', Bool False)] else []))))"

text \<open>The condition of an operation; a rule of a \<open>prune_objects\<close> draft has the same fields.\<close>

record condition =
  cd_id :: nat
  cd_path :: jsstr
  cd_mode :: jsstr
  cd_value_text :: jsstr
  cd_invert :: bool
  cd_pass_missing_key :: bool

definition str_or_empty :: "jsval \<Rightarrow> jsstr" where
  "str_or_empty v = (case v of Str s \<Rightarrow> s | _ \<Rightarrow> [])"

definition mode_or :: "jsstr list \<Rightarrow> string \<Rightarrow> jsval \<Rightarrow> jsstr" where
  "mode_or ms d v = (case v of Str s \<Rightarrow> if s \<in> set ms then s else lit d | _ \<Rightarrow> lit d)"

definition normalizeCondition :: "nat \<Rightarrow> jsval \<Rightarrow> condition res" where
  "normalizeCondition n v =
     (if v = Null then Inl TypeError
      else Inr \<lparr>cd_id = n, cd_path = str_or_empty (opt_prop v (lit ''path'')),
        cd_mode = mode_or CONDITION_MODE_VALUES ''full'' (opt_prop v (lit ''mode'')), cd_value_text = toValueText (opt_prop v (lit ''value'')),
        cd_invert = (opt_prop v (lit ''invert'') = Bool True), cd_pass_missing_key = (opt_prop v (lit ''pass_missing_key'') = Bool True)\<rparr>)"

fun normalizeConditions :: "nat \<Rightarrow> jsval list \<Rightarrow> condition list res" where
  "normalizeConditions n [] = Inr []"
| "normalizeConditions n (v # vs) = (case normalizeCondition n v of
     Inl e \<Rightarrow> Inl e
   | Inr c \<Rightarrow> (case normalizeConditions (Suc n) vs of Inl e \<Rightarrow> Inl e | Inr cs \<Rightarrow> Inr (c # cs)))"

definition blank_condition :: "nat \<Rightarrow> condition" where
  "blank_condition n = \<lparr>cd_id = n, cd_path = [], cd_mode = lit ''full'', cd_value_text = [], cd_invert = False, cd_pass_missing_key = False\<rparr>"

record prune_draft =
  pd_simpleMode :: bool
  pd_typeText :: jsstr
  pd_logic :: jsstr
  pd_recursive :: bool
  pd_rules :: "condition list"

definition prune_defaults :: prune_draft where
  "prune_defaults = \<lparr>pd_simpleMode = True, pd_typeText = [], pd_logic = lit ''AND'', pd_recursive = True, pd_rules = []\<rparr>"

text \<open>Rules given as an object: a full match per property.\<close>

definition rules_of_object :: "nat \<Rightarrow> jsobj \<Rightarrow> condition list" where
  "rules_of_object n fs = map (\<lambda>(i, kv). (blank_condition (n + i))\<lparr>cd_path := fst kv, cd_value_text := toValueText (snd kv)\<rparr>) (List.enumerate 0 fs)"

definition prune_rules :: "nat \<Rightarrow> jsobj \<Rightarrow> condition list" where
  "prune_rules n fs =
     (let w = (case obj_get fs (lit ''where'') of Obj wh \<Rightarrow> rules_of_object n wh | _ \<Rightarrow> []); k = n + length w
      in w @ (case obj_get fs (lit ''conditions'') of
        Arr items \<Rightarrow> (case normalizeConditions k (filter (\<lambda>it. truthy it \<and> typeof_object it) items) of Inr cs \<Rightarrow> cs | Inl e \<Rightarrow> [])
      | Obj cs \<Rightarrow> rules_of_object k cs
      | _ \<Rightarrow> []))"

definition parsePruneObjectsDraft :: "nat \<Rightarrow> jsstr \<Rightarrow> prune_draft" where
  "parsePruneObjectsDraft n valueText =
     (let raw = trim valueText
      in if raw = [] then prune_defaults
         else case json_parse raw of
           Inl e \<Rightarrow> prune_defaults\<lparr>pd_typeText := raw\<rparr>
         | Inr (Obj fs) \<Rightarrow>
             (let get = (\<lambda>k. obj_get fs (lit k))
              in \<lparr>pd_simpleMode = (get ''logic'' = Undefined \<and> get ''recursive'' = Undefined \<and> get ''where'' = Undefined \<and> get ''conditions'' = Undefined),
                  pd_typeText = (if get ''type'' = Undefined then [] else trim (to_str (get ''type''))),
                  pd_logic = (if upper_is (to_str (js_or (get ''logic'') (Str (lit ''AND'')))) ''OR'' then lit ''OR'' else lit ''AND''),
                  pd_recursive = (get ''recursive'' \<noteq> Bool False), pd_rules = prune_rules n fs\<rparr>)
         | Inr v \<Rightarrow> prune_defaults\<lparr>pd_typeText := trim (to_str (js_coalesce v (Str [])))\<rparr>)"

definition prune_condition :: "condition \<Rightarrow> jsobj" where
  "prune_condition r = [(lit ''path'', Str (trim (cd_path r))),
     (lit ''mode'', Str (if cd_mode r \<in> set CONDITION_MODE_VALUES then cd_mode r else lit ''full''))] @
     (if trim (cd_value_text r) \<noteq> [] then [(lit ''value'', parseLooseValue (trim (cd_value_text r)))] else []) @
     (if cd_invert r then [(lit ''invert'', Bool True)] else []) @
     (if cd_pass_missing_key r then [(lit ''pass_missing_key'', Bool True)] else [])"

definition buildPruneObjectsValueText :: "prune_draft \<Rightarrow> jsstr" where
  "buildPruneObjectsValueText d =
     (let typeText = trim (pd_typeText d); conditions = map (\<lambda>r. Obj (prune_condition r)) (filter (\<lambda>r. trim (cd_path r) \<noteq> []) (pd_rules d))
      in if pd_simpleMode d then typeText
         else if typeText = [] \<and> conditions = [] then json_str (Obj [(lit ''logic'', Str (lit ''AND''))])
         else json_str (Obj (
           (if typeText \<noteq> [] then [(lit ''type'', Str typeText)] else []) @
           (if upper_is (if pd_logic d = [] then lit ''AND'' else pd_logic d) ''OR'' then [(lit ''logic'', Str (lit ''OR''))] else []) @
           (if \<not> pd_recursive d then [(lit ''recursive'', Bool False)] else []) @
           (if conditions \<noteq> [] then [(lit ''conditions'', Arr conditions)] else []))))"

text \<open>The ends of a \<open>sync_fields\<close> operation: whether it is a header, and the name.\<close>

definition parseSyncTargetSpec :: "jsval \<Rightarrow> bool \<times> jsstr" where
  "parseSyncTargetSpec spec =
     (let raw = trim (to_str (js_coalesce spec (Str [])))
      in if 58 \<notin> set raw then (False, raw)
         else (upper_is (trim (takeWhile (\<lambda>c. c \<noteq> 58) raw)) ''HEADER'', trim (tl (dropWhile (\<lambda>c. c \<noteq> 58) raw))))"

definition buildSyncTargetSpec :: "bool \<Rightarrow> jsstr \<Rightarrow> jsstr" where
  "buildSyncTargetSpec isHeader key =
     (if trim key = [] then [] else (if isHeader then lit ''header'' else lit ''json'') @ lit '':'' @ trim key)"

section \<open>Operations\<close>

record operation =
  op_id :: nat
  op_description :: jsstr
  op_path :: jsstr
  op_mode :: jsstr
  op_value_text :: jsstr
  op_keep_origin :: bool
  op_from :: jsstr
  op_to :: jsstr
  op_logic :: jsstr
  op_conditions :: "condition list"

definition normalizeOperation :: "nat \<Rightarrow> jsval \<Rightarrow> operation res" where
  "normalizeOperation n v =
     (if v = Null then Inl TypeError
      else case (case opt_prop v (lit ''conditions'') of Arr cs \<Rightarrow> normalizeConditions (Suc n) cs | _ \<Rightarrow> Inr []) of
        Inl e \<Rightarrow> Inl e
      | Inr cs \<Rightarrow> Inr \<lparr>op_id = n, op_description = str_or_empty (opt_prop v (lit ''description'')),
          op_path = str_or_empty (opt_prop v (lit ''path'')), op_mode = mode_or OPERATION_MODE_VALUES ''set'' (opt_prop v (lit ''mode'')),
          op_value_text = toValueText (opt_prop v (lit ''value'')), op_keep_origin = (opt_prop v (lit ''keep_origin'') = Bool True),
          op_from = str_or_empty (opt_prop v (lit ''from'')), op_to = str_or_empty (opt_prop v (lit ''to'')),
          op_logic = (if upper_is (to_str (js_or (opt_prop v (lit ''logic'')) (Str (lit ''OR'')))) ''AND'' then lit ''AND'' else lit ''OR''),
          op_conditions = cs\<rparr>)"

definition next_id :: "operation \<Rightarrow> nat" where
  "next_id x = Suc (op_id x) + length (op_conditions x)"

fun normalizeOperations :: "nat \<Rightarrow> jsval list \<Rightarrow> operation list res" where
  "normalizeOperations n [] = Inr []"
| "normalizeOperations n (v # vs) = (case normalizeOperation n v of
     Inl e \<Rightarrow> Inl e
   | Inr x \<Rightarrow> (case normalizeOperations (next_id x) vs of Inl e \<Rightarrow> Inl e | Inr xs \<Rightarrow> Inr (x # xs)))"

definition createDefaultOperation :: "nat \<Rightarrow> operation" where
  "createDefaultOperation n = \<lparr>op_id = n, op_description = [], op_path = [], op_mode = lit ''set'', op_value_text = [], op_keep_origin = False,
     op_from = [], op_to = [], op_logic = lit ''OR'', op_conditions = []\<rparr>"

definition reorderOperations :: "operation list \<Rightarrow> nat \<Rightarrow> nat \<Rightarrow> bool \<Rightarrow> operation list" where
  "reorderOperations ops source target after =
     (if source = target then ops
      else case find (\<lambda>x. op_id x = source) ops of
        None \<Rightarrow> ops
      | Some moved \<Rightarrow>
          (let rest = takeWhile (\<lambda>x. op_id x \<noteq> source) ops @ tl (dropWhile (\<lambda>x. op_id x \<noteq> source) ops);
               before = takeWhile (\<lambda>x. op_id x \<noteq> target) rest; from_target = dropWhile (\<lambda>x. op_id x \<noteq> target) rest
           in if from_target = [] then ops
              else if after then before @ hd from_target # moved # tl from_target
              else before @ moved # from_target))"

definition isOperationBlank :: "operation \<Rightarrow> bool" where
  "isOperationBlank x \<longleftrightarrow> op_mode x = lit ''set'' \<and> trim (op_path x) = [] \<and> trim (op_from x) = [] \<and> trim (op_to x) = [] \<and>
     trim (op_value_text x) = [] \<and> \<not> op_keep_origin x \<and>
     \<not> list_ex (\<lambda>c. trim (cd_path c) \<noteq> [] \<or> trim (cd_value_text c) \<noteq> [] \<or> cd_mode c \<noteq> lit ''full'' \<or> cd_invert c \<or> cd_pass_missing_key c)
        (op_conditions x)"

definition buildConditionPayload :: "condition \<Rightarrow> jsobj option" where
  "buildConditionPayload c =
     (if trim (cd_path c) = [] then None
      else Some ([(lit ''path'', Str (trim (cd_path c))), (lit ''mode'', Str (if cd_mode c = [] then lit ''full'' else cd_mode c)),
             (lit ''value'', parseLooseValue (cd_value_text c))] @
           (if cd_invert c then [(lit ''invert'', Bool True)] else []) @
           (if cd_pass_missing_key c then [(lit ''pass_missing_key'', Bool True)] else [])))"

subsection \<open>Validation\<close>

text \<open>The message of a value that is required or malformed; \<open>t\<close> takes the key and the line.\<close>

type_synonym messages = "jsstr \<Rightarrow> nat \<Rightarrow> jsstr"

definition has_members :: "jsval \<Rightarrow> bool" where
  "has_members v \<longleftrightarrow> (case v of Obj fs \<Rightarrow> fs \<noteq> [] | Arr xs \<Rightarrow> xs \<noteq> [] | _ \<Rightarrow> False)"

definition where_members :: "jsval \<Rightarrow> bool" where
  "where_members v \<longleftrightarrow> (case v of Obj fs \<Rightarrow> fs \<noteq> [] | _ \<Rightarrow> False)"

definition validate_value :: "messages \<Rightarrow> nat \<Rightarrow> jsstr \<Rightarrow> jsstr \<Rightarrow> jsstr option" where
  "validate_value t line mode valueText =
     (let raw = trim valueText
      in if mode \<in> set VALUE_REQUIRED_MODES \<and> raw = [] then Some (t ([31532, 32, 123, 123, 108, 105, 110, 101, 125, 125, 32, 26465, 25805, 20316, 32570, 23569, 20540]) line)
         else if mode = lit ''return_error'' then
           (case json_parse raw of
              Inr (Obj fs) \<Rightarrow>
                if trim (to_str (js_or (obj_get fs (lit ''message'')) (Str []))) = []
                then Some (t ([31532, 32, 123, 123, 108, 105, 110, 101, 125, 125, 32, 26465, 32, 114, 101, 116, 117, 114, 110, 95, 101, 114, 114, 111, 114, 32, 38656, 35201, 32, 109, 101, 115, 115, 97, 103, 101, 32, 23383, 27573]) line) else None
            | _ \<Rightarrow> None)
         else if mode = lit ''prune_objects'' then
           (case json_parse raw of
              Inr (Obj fs) \<Rightarrow>
                if \<not> (obj_get fs (lit ''type'') \<noteq> Undefined \<and> trim (to_str (obj_get fs (lit ''type''))) \<noteq> []) \<and>
                   \<not> where_members (obj_get fs (lit ''where'')) \<and> \<not> has_members (obj_get fs (lit ''conditions''))
                then Some (t ([31532, 32, 123, 123, 108, 105, 110, 101, 125, 125, 32, 26465, 32, 112, 114, 117, 110, 101, 95, 111, 98, 106, 101, 99, 116, 115, 32, 38656, 35201, 33267, 23569, 19968, 20010, 21305, 37197, 26465, 20214]) line) else None
            | _ \<Rightarrow> None)
         else if mode = lit ''pass_headers'' then
           (if parsePassHeaderNames (parseLooseValue raw) = [] then Some (t ([31532, 32, 123, 123, 108, 105, 110, 101, 125, 125, 32, 26465, 35831, 27714, 22836, 36879, 20256, 26684, 24335, 26080, 25928]) line) else None)
         else None)"

definition validate_operation :: "messages \<Rightarrow> nat \<Rightarrow> operation \<Rightarrow> jsstr option" where
  "validate_operation t line x =
     (let mode = (if op_mode x = [] then lit ''set'' else op_mode x); meta = mode_meta_of mode;
          path = trim (op_path x); from = trim (op_from x); dest = trim (op_to x);
          no_from = t ([31532, 32, 123, 123, 108, 105, 110, 101, 125, 125, 32, 26465, 25805, 20316, 32570, 23569, 26469, 28304, 23383, 27573]) line; no_to = t ([31532, 32, 123, 123, 108, 105, 110, 101, 125, 125, 32, 26465, 25805, 20316, 32570, 23569, 30446, 26631, 23383, 27573]) line
      in if mm_path meta \<and> path = [] then Some (t ([31532, 32, 123, 123, 108, 105, 110, 101, 125, 125, 32, 26465, 25805, 20316, 32570, 23569, 30446, 26631, 36335, 24452]) line)
         else if mode \<in> set FROM_REQUIRED_MODES \<and> from = [] \<and> \<not> (mm_pathAlias meta \<and> path \<noteq> []) then Some no_from
         else if mode \<in> set TO_REQUIRED_MODES \<and> dest = [] \<and> \<not> (mm_pathAlias meta \<and> path \<noteq> []) then Some no_to
         else if mm_from meta \<and> from = [] then Some no_from
         else if mm_to meta \<and> dest = [] then Some no_to
         else validate_value t line mode (op_value_text x))"

text \<open>The first message, or the empty text.\<close>

fun validateOperations :: "messages \<Rightarrow> nat \<Rightarrow> operation list \<Rightarrow> jsstr" where
  "validateOperations t line [] = []"
| "validateOperations t line (x # xs) = (case validate_operation t line x of
     Some m \<Rightarrow> m
   | None \<Rightarrow> validateOperations t (Suc line) xs)"

subsection \<open>Printing\<close>

definition operation_payload :: "operation \<Rightarrow> jsobj" where
  "operation_payload x =
     (let mode = (if op_mode x = [] then lit ''set'' else op_mode x); meta = mode_meta_of mode;
          path = trim (op_path x); from = trim (op_from x); dest = trim (op_to x);
          alias = (\<lambda>s. if mm_pathAlias meta \<and> s = [] then path else s);
          conditions = List.map_filter buildConditionPayload (op_conditions x)
      in [(lit ''mode'', Str mode)] @
         (if trim (op_description x) \<noteq> [] then [(lit ''description'', Str (trim (op_description x)))] else []) @
         (if mm_path meta \<or> (mm_pathOptional meta \<and> path \<noteq> []) then [(lit ''path'', Str path)] else []) @
         (if mm_value meta then [(lit ''value'', parseLooseValue (op_value_text x))] else []) @
         (if mm_keepOrigin meta \<and> op_keep_origin x then [(lit ''keep_origin'', Bool True)] else []) @
         (if mm_from meta then [(lit ''from'', Str (alias from))] else []) @
         (if mm_to meta \<or> dest \<noteq> [] then [(lit ''to'', Str (alias dest))] else []) @
         (if conditions \<noteq> []
          then [(lit ''conditions'', Arr (map Obj conditions)), (lit ''logic'', Str (if op_logic x = lit ''AND'' then lit ''AND'' else lit ''OR''))]
          else []))"

definition operations_object :: "operation list \<Rightarrow> jsval" where
  "operations_object ops = Obj [(lit ''operations'', Arr (map (\<lambda>x. Obj (operation_payload x)) ops))]"

definition buildOperationsJson :: "messages \<Rightarrow> bool \<Rightarrow> operation list \<Rightarrow> jsstr res" where
  "buildOperationsJson t validate ops =
     (let filtered = filter (\<lambda>x. \<not> isOperationBlank x) ops; message = (if validate then validateOperations t 1 filtered else [])
      in if filtered = [] then Inr []
         else if message \<noteq> [] then Inl (JsError message)
         else Inr (to_str (stringify2 (operations_object filtered))))"

section \<open>The editor\<close>

record override_editor =
  oe_json :: bool
  oe_legacy :: bool
  oe_legacyValue :: jsstr
  oe_operations :: "operation list"
  oe_jsonText :: jsstr
  oe_jsonError :: jsstr
  oe_selected :: "nat option"
  oe_next :: nat

definition verifyJSON :: "jsstr \<Rightarrow> bool" where
  "verifyJSON s \<longleftrightarrow> (case json_parse s of Inr v \<Rightarrow> True | Inl e \<Rightarrow> False)"

definition next_after :: "nat \<Rightarrow> operation list \<Rightarrow> nat" where
  "next_after n ops = (if ops = [] then n else next_id (last ops))"

text \<open>The operations of an object with an array of them, at least one.\<close>

definition read_operations :: "nat \<Rightarrow> jsval list \<Rightarrow> operation list res" where
  "read_operations n items = (if items = [] then Inr [createDefaultOperation n] else normalizeOperations n items)"

definition select_first :: "override_editor \<Rightarrow> override_editor" where
  "select_first ed = ed\<lparr>oe_selected := (case oe_operations ed of [] \<Rightarrow> None | x # _ \<Rightarrow> Some (op_id x)),
     oe_next := next_after (oe_next ed) (oe_operations ed)\<rparr>"

text \<open>Opening the editor on a value: \<open>parseInitialState\<close> and the effect that stores it.\<close>

definition open_editor :: "jsval \<Rightarrow> nat \<Rightarrow> override_editor res" where
  "open_editor rawValue n =
     (let source = (case rawValue of Str s \<Rightarrow> s | _ \<Rightarrow> []); trimmed_text = trim source;
          base = \<lparr>oe_json = False, oe_legacy = False, oe_legacyValue = [], oe_operations = [createDefaultOperation n], oe_jsonText = [],
            oe_jsonError = [], oe_selected = None, oe_next = n\<rparr>
      in if trimmed_text = [] then Inr (select_first base)
         else case json_parse trimmed_text of
           Inl e \<Rightarrow> Inr (select_first (base\<lparr>oe_json := True, oe_jsonText := source, oe_jsonError := [74, 83, 79, 78, 32, 26684, 24335, 19981, 27491, 30830]\<rparr>))
         | Inr v \<Rightarrow>
             (let pretty = to_str (stringify2 v)
              in case v of
                   Obj fs \<Rightarrow>
                     (case obj_get fs (lit ''operations'') of
                        Arr items \<Rightarrow> map_sum id (\<lambda>ops. select_first (base\<lparr>oe_operations := ops, oe_jsonText := pretty\<rparr>)) (read_operations n items)
                      | _ \<Rightarrow> Inr (select_first (base\<lparr>oe_legacy := True, oe_legacyValue := pretty, oe_jsonText := pretty\<rparr>)))
                 | _ \<Rightarrow> Inr (select_first (base\<lparr>oe_json := True, oe_jsonText := pretty\<rparr>))))"

definition buildVisualJson :: "messages \<Rightarrow> (jsstr \<Rightarrow> jsstr) \<Rightarrow> override_editor \<Rightarrow> jsstr res" where
  "buildVisualJson tm tr ed =
     (if oe_legacy ed then
        (if trim (oe_legacyValue ed) = [] then Inr []
         else case json_parse (trim (oe_legacyValue ed)) of
           Inl e \<Rightarrow> Inl (JsError (tr ([21442, 25968, 35206, 30422, 24517, 39035, 26159, 21512, 27861, 30340, 32, 74, 83, 79, 78, 32, 26684, 24335, 65281])))
         | Inr (Obj fs) \<Rightarrow> Inr (to_str (stringify2 (Obj fs)))
         | Inr v \<Rightarrow> Inl (JsError (tr ([26087, 26684, 24335, 24517, 39035, 26159, 32, 74, 83, 79, 78, 32, 23545, 35937]))))
      else buildOperationsJson tm True (oe_operations ed))"

definition err_text :: "jserr \<Rightarrow> jsstr" where
  "err_text e = (case e of JsError m \<Rightarrow> m | _ \<Rightarrow> [])"

definition switchToJsonMode :: "messages \<Rightarrow> (jsstr \<Rightarrow> jsstr) \<Rightarrow> override_editor \<Rightarrow> override_editor" where
  "switchToJsonMode tm tr ed =
     (if oe_json ed then ed
      else case buildVisualJson tm tr ed of
        Inr s \<Rightarrow> ed\<lparr>oe_jsonText := s, oe_jsonError := [], oe_json := True\<rparr>
      | Inl e \<Rightarrow>
          ed\<lparr>oe_jsonText := (if oe_legacy ed then oe_legacyValue ed
               else case buildOperationsJson tm False (oe_operations ed) of Inr s \<Rightarrow> s | Inl e \<Rightarrow> []),
             oe_jsonError := (if err_text e = [] then tr ([21442, 25968, 37197, 32622, 26377, 35823]) else err_text e), oe_json := True\<rparr>)"

definition switchToVisualMode :: "override_editor \<Rightarrow> override_editor res" where
  "switchToVisualMode ed =
     (let n = oe_next ed; visual = ed\<lparr>oe_json := False, oe_jsonError := []\<rparr>
      in if \<not> oe_json ed then Inr ed
         else if trim (oe_jsonText ed) = []
         then Inr (select_first (visual\<lparr>oe_legacy := False, oe_legacyValue := [], oe_operations := [createDefaultOperation n]\<rparr>))
         else case json_parse (trim (oe_jsonText ed)) of
           Inr (Obj fs) \<Rightarrow>
             (case obj_get fs (lit ''operations'') of
                Arr items \<Rightarrow> map_sum id (\<lambda>ops. select_first (visual\<lparr>oe_legacy := False, oe_legacyValue := [], oe_operations := ops\<rparr>)) (read_operations n items)
              | _ \<Rightarrow> Inr (select_first (visual\<lparr>oe_legacy := True, oe_legacyValue := to_str (stringify2 (Obj fs)),
                  oe_operations := [createDefaultOperation n]\<rparr>)))
         | _ \<Rightarrow> Inr ed)"

definition updateOperation :: "nat \<Rightarrow> (operation \<Rightarrow> operation) \<Rightarrow> override_editor \<Rightarrow> override_editor" where
  "updateOperation i f ed = ed\<lparr>oe_operations := map (\<lambda>x. if op_id x = i then f x else x) (oe_operations ed)\<rparr>"

definition updateReturnErrorDraft :: "nat \<Rightarrow> (error_draft \<Rightarrow> error_draft) \<Rightarrow> override_editor \<Rightarrow> override_editor" where
  "updateReturnErrorDraft i f ed = (case find (\<lambda>x. op_id x = i) (oe_operations ed) of
     None \<Rightarrow> ed
   | Some x \<Rightarrow> updateOperation i (\<lambda>y. y\<lparr>op_value_text := buildReturnErrorValueText (f (parseReturnErrorDraft (op_value_text x)))\<rparr>) ed)"

definition updatePruneObjectsDraft :: "nat \<Rightarrow> (prune_draft \<Rightarrow> prune_draft) \<Rightarrow> override_editor \<Rightarrow> override_editor" where
  "updatePruneObjectsDraft i f ed = (case find (\<lambda>x. op_id x = i) (oe_operations ed) of
     None \<Rightarrow> ed
   | Some x \<Rightarrow> (let d = parsePruneObjectsDraft (oe_next ed) (op_value_text x)
       in (updateOperation i (\<lambda>y. y\<lparr>op_value_text := buildPruneObjectsValueText (f d)\<rparr>) ed)\<lparr>oe_next := oe_next ed + length (pd_rules d)\<rparr>))"

text \<open>The id of the added rule is the one after those of the rules just read.\<close>

definition addPruneRule :: "nat \<Rightarrow> override_editor \<Rightarrow> override_editor" where
  "addPruneRule i ed =
     (let ed' = updatePruneObjectsDraft i (\<lambda>d. d\<lparr>pd_simpleMode := False, pd_rules := pd_rules d @ [blank_condition (oe_next ed + length (pd_rules d))]\<rparr>) ed
      in ed'\<lparr>oe_next := Suc (oe_next ed')\<rparr>)"

definition updatePruneRule :: "nat \<Rightarrow> nat \<Rightarrow> (condition \<Rightarrow> condition) \<Rightarrow> override_editor \<Rightarrow> override_editor" where
  "updatePruneRule i j f = updatePruneObjectsDraft i (\<lambda>d. d\<lparr>pd_rules := map (\<lambda>r. if cd_id r = j then f r else r) (pd_rules d)\<rparr>)"

definition removePruneRule :: "nat \<Rightarrow> nat \<Rightarrow> override_editor \<Rightarrow> override_editor" where
  "removePruneRule i j = updatePruneObjectsDraft i (\<lambda>d. d\<lparr>pd_rules := filter (\<lambda>r. cd_id r \<noteq> j) (pd_rules d)\<rparr>)"

text \<open>The effect that keeps the selection on an operation of the list.\<close>

definition keep_selection :: "override_editor \<Rightarrow> override_editor" where
  "keep_selection ed = (case oe_operations ed of
     [] \<Rightarrow> ed\<lparr>oe_selected := None\<rparr>
   | x # _ \<Rightarrow> if \<exists>y \<in> set (oe_operations ed). oe_selected ed = Some (op_id y) then ed else ed\<lparr>oe_selected := Some (op_id x)\<rparr>)"

definition selectedOperation :: "override_editor \<Rightarrow> operation option" where
  "selectedOperation ed = find (\<lambda>x. oe_selected ed = Some (op_id x)) (oe_operations ed)"

text \<open>The draft of the selected \<open>prune_objects\<close> operation as the form displays it: reading it makes new ids.\<close>

definition pruneObjectsDraft :: "override_editor \<Rightarrow> prune_draft option \<times> override_editor" where
  "pruneObjectsDraft ed = (case selectedOperation ed of
     None \<Rightarrow> (None, ed)
   | Some x \<Rightarrow> if op_mode x \<noteq> lit ''prune_objects'' then (None, ed)
       else (let d = parsePruneObjectsDraft (oe_next ed) (op_value_text x) in (Some d, ed\<lparr>oe_next := oe_next ed + length (pd_rules d)\<rparr>)))"

definition returnErrorDraft :: "override_editor \<Rightarrow> error_draft option" where
  "returnErrorDraft ed = (case selectedOperation ed of
     None \<Rightarrow> None
   | Some x \<Rightarrow> if op_mode x \<noteq> lit ''return_error'' then None else Some (parseReturnErrorDraft (op_value_text x)))"

text \<open>Writing a field of the guide into the path, the source or the target of the selected operation;
  where the mode has no such field only an error is shown.\<close>

definition applyBuiltinField :: "jsstr \<Rightarrow> jsstr \<Rightarrow> override_editor \<Rightarrow> override_editor" where
  "applyBuiltinField key target ed = (case selectedOperation ed of
     None \<Rightarrow> ed
   | Some x \<Rightarrow>
       (let mode = (if op_mode x = [] then lit ''set'' else op_mode x); meta = mode_meta_of mode; sync = (mode = lit ''sync_fields'');
            written = (if sync then buildSyncTargetSpec False key else key)
        in if target = lit ''path'' \<and> (mm_path meta \<or> mm_pathOptional meta \<or> mm_pathAlias meta) then updateOperation (op_id x) (\<lambda>y. y\<lparr>op_path := key\<rparr>) ed
           else if target = lit ''from'' \<and> (mm_from meta \<or> mm_pathAlias meta \<or> sync) then updateOperation (op_id x) (\<lambda>y. y\<lparr>op_from := written\<rparr>) ed
           else if target = lit ''to'' \<and> (mm_to meta \<or> sync) then updateOperation (op_id x) (\<lambda>y. y\<lparr>op_to := written\<rparr>) ed
           else ed))"

definition formatSelectedOperationValueAsJson :: "override_editor \<Rightarrow> override_editor" where
  "formatSelectedOperationValueAsJson ed = (case selectedOperation ed of
     None \<Rightarrow> ed
   | Some x \<Rightarrow> (case json_parse (trim (op_value_text x)) of
       Inl e \<Rightarrow> ed
     | Inr v \<Rightarrow> updateOperation (op_id x) (\<lambda>y. y\<lparr>op_value_text := to_str (stringify2 v)\<rparr>) ed))"

definition addOperation :: "override_editor \<Rightarrow> override_editor" where
  "addOperation ed = ed\<lparr>oe_operations := oe_operations ed @ [createDefaultOperation (oe_next ed)], oe_selected := Some (oe_next ed),
     oe_next := Suc (oe_next ed)\<rparr>"

definition moveOperation :: "nat \<Rightarrow> nat \<Rightarrow> bool \<Rightarrow> override_editor \<Rightarrow> override_editor" where
  "moveOperation source target after ed =
     (if source = target then ed
      else ed\<lparr>oe_operations := reorderOperations (oe_operations ed) source target after, oe_selected := Some source\<rparr>)"

text \<open>A copy goes through the values, as if the operation were stored and read.\<close>

definition copied_condition :: "nat \<Rightarrow> condition \<Rightarrow> condition" where
  "copied_condition n c = c\<lparr>cd_id := n, cd_mode := (if cd_mode c \<in> set CONDITION_MODE_VALUES then cd_mode c else lit ''full''),
     cd_value_text := toValueText (parseLooseValue (cd_value_text c))\<rparr>"

definition copied_operation :: "nat \<Rightarrow> operation \<Rightarrow> operation" where
  "copied_operation n x = x\<lparr>op_id := n, op_mode := (if op_mode x \<in> set OPERATION_MODE_VALUES then op_mode x else lit ''set''),
     op_value_text := toValueText (parseLooseValue (op_value_text x)),
     op_logic := (if upper_is (if op_logic x = [] then lit ''OR'' else op_logic x) ''AND'' then lit ''AND'' else lit ''OR''),
     op_conditions := map (\<lambda>(i, c). copied_condition (Suc n + i) c) (List.enumerate 0 (op_conditions x))\<rparr>"

definition duplicateOperation :: "nat \<Rightarrow> override_editor \<Rightarrow> override_editor" where
  "duplicateOperation i ed =
     (let before = takeWhile (\<lambda>x. op_id x \<noteq> i) (oe_operations ed)
      in case dropWhile (\<lambda>x. op_id x \<noteq> i) (oe_operations ed) of
           [] \<Rightarrow> ed
         | x # rest \<Rightarrow>
             (let y = copied_operation (oe_next ed) x
              in ed\<lparr>oe_operations := before @ x # y # rest, oe_selected := Some (op_id y), oe_next := next_id y\<rparr>))"

definition removeOperation :: "nat \<Rightarrow> override_editor \<Rightarrow> override_editor" where
  "removeOperation i ed =
     (if length (oe_operations ed) \<le> 1
      then ed\<lparr>oe_operations := [createDefaultOperation (oe_next ed)], oe_next := Suc (oe_next ed)\<rparr>
      else ed\<lparr>oe_operations := filter (\<lambda>x. op_id x \<noteq> i) (oe_operations ed)\<rparr>)"

definition addCondition :: "nat \<Rightarrow> override_editor \<Rightarrow> override_editor" where
  "addCondition i ed =
     (updateOperation i (\<lambda>x. x\<lparr>op_conditions := op_conditions x @ [blank_condition (oe_next ed)]\<rparr>) ed)\<lparr>oe_next := Suc (oe_next ed)\<rparr>"

definition updateCondition :: "nat \<Rightarrow> nat \<Rightarrow> (condition \<Rightarrow> condition) \<Rightarrow> override_editor \<Rightarrow> override_editor" where
  "updateCondition i j f = updateOperation i (\<lambda>x. x\<lparr>op_conditions := map (\<lambda>c. if cd_id c = j then f c else c) (op_conditions x)\<rparr>)"

definition removeCondition :: "nat \<Rightarrow> nat \<Rightarrow> override_editor \<Rightarrow> override_editor" where
  "removeCondition i j = updateOperation i (\<lambda>x. x\<lparr>op_conditions := filter (\<lambda>c. cd_id c \<noteq> j) (op_conditions x)\<rparr>)"

definition handleJsonChange :: "(jsstr \<Rightarrow> jsstr) \<Rightarrow> jsstr \<Rightarrow> override_editor \<Rightarrow> override_editor" where
  "handleJsonChange tr s ed =
     ed\<lparr>oe_jsonText := s, oe_jsonError := (if trim s \<noteq> [] \<and> \<not> verifyJSON (trim s) then tr ([74, 83, 79, 78, 26684, 24335, 38169, 35823]) else [])\<rparr>"

definition formatJson :: "override_editor \<Rightarrow> override_editor" where
  "formatJson ed = (if trim (oe_jsonText ed) = [] then ed
     else case json_parse (trim (oe_jsonText ed)) of
       Inl e \<Rightarrow> ed
     | Inr v \<Rightarrow> ed\<lparr>oe_jsonText := to_str (stringify2 v), oe_jsonError := []\<rparr>)"

definition clearValue :: "override_editor \<Rightarrow> override_editor" where
  "clearValue ed = select_first (ed\<lparr>oe_legacy := False, oe_legacyValue := [], oe_operations := [createDefaultOperation (oe_next ed)],
     oe_jsonText := [], oe_jsonError := []\<rparr>)"

subsection \<open>Templates\<close>

definition fillLegacyTemplate :: "jsobj \<Rightarrow> override_editor \<Rightarrow> override_editor" where
  "fillLegacyTemplate payload ed =
     (let s = to_str (stringify2 (Obj payload))
      in select_first (ed\<lparr>oe_legacy := True, oe_legacyValue := s, oe_operations := [createDefaultOperation (oe_next ed)], oe_jsonText := s,
           oe_jsonError := [], oe_json := False\<rparr>))"

definition fillOperationsTemplate :: "jsval list \<Rightarrow> override_editor \<Rightarrow> override_editor res" where
  "fillOperationsTemplate payload ed =
     map_sum id (\<lambda>ops. select_first (ed\<lparr>oe_legacy := False, oe_operations := ops,
       oe_jsonText := to_str (stringify2 (Obj [(lit ''operations'', Arr payload)])), oe_jsonError := [], oe_json := False\<rparr>))
     (read_operations (oe_next ed) payload)"

text \<open>Appending the fields of a template that the current object does not have; an invalid current
  value only shows an error.\<close>

definition appendLegacyTemplate :: "jsobj \<Rightarrow> override_editor \<Rightarrow> override_editor" where
  "appendLegacyTemplate payload ed =
     (let current = (if oe_legacy ed \<and> trim (oe_legacyValue ed) \<noteq> []
            then (case json_parse (trim (oe_legacyValue ed)) of Inr (Obj fs) \<Rightarrow> Some fs | _ \<Rightarrow> None) else Some [])
      in case current of None \<Rightarrow> ed | Some fs \<Rightarrow> fillLegacyTemplate (obj_merge payload fs) ed)"

definition appendOperationsTemplate :: "jsval list \<Rightarrow> override_editor \<Rightarrow> override_editor res" where
  "appendOperationsTemplate payload ed = map_sum id (\<lambda>appended.
     (let existing = (if oe_legacy ed then [] else filter (\<lambda>x. \<not> isOperationBlank x) (oe_operations ed)); ops = existing @ appended
      in ed\<lparr>oe_legacy := False, oe_operations := ops, oe_selected := (case ops of [] \<Rightarrow> None | x # _ \<Rightarrow> Some (op_id x)),
           oe_next := next_after (oe_next ed) appended, oe_legacyValue := [], oe_jsonError := [], oe_json := False, oe_jsonText := []\<rparr>))
     (normalizeOperations (oe_next ed) payload)"

definition LEGACY_TEMPLATE :: jsobj where
  "LEGACY_TEMPLATE = [(lit ''temperature'', Num (Fin 0)), (lit ''max_tokens'', Num (Fin 1000))]"

definition template_condition :: "string \<Rightarrow> string \<Rightarrow> string \<Rightarrow> jsval" where
  "template_condition p m v = Obj [(lit ''path'', Str (lit p)), (lit ''mode'', Str (lit m)), (lit ''value'', Str (lit v))]"

definition OPERATION_TEMPLATE :: "jsval list" where
  "OPERATION_TEMPLATE = [Obj [(lit ''description'', Str (lit ''Set default temperature for openai/* models.'')),
     (lit ''path'', Str (lit ''temperature'')), (lit ''mode'', Str (lit ''set'')), (lit ''value'', Num (rnd 0.7)),
     (lit ''conditions'', Arr [template_condition ''model'' ''prefix'' ''openai/'']), (lit ''logic'', Str (lit ''AND''))]]"

definition HEADER_PASSTHROUGH_TEMPLATE :: "jsval list" where
  "HEADER_PASSTHROUGH_TEMPLATE = [Obj [(lit ''description'', Str (lit ''Pass through X-Request-Id header to upstream.'')),
     (lit ''mode'', Str (lit ''pass_headers'')), (lit ''value'', Arr [Str (lit ''X-Request-Id'')]), (lit ''keep_origin'', Bool True)]]"

definition GEMINI_IMAGE_4K_TEMPLATE :: "jsval list" where
  "GEMINI_IMAGE_4K_TEMPLATE = [Obj [(lit ''description'', Str (lit ''Set imageSize to 4K when model contains gemini/image and ends with 4k.'')),
     (lit ''mode'', Str (lit ''set'')), (lit ''path'', Str (lit ''generationConfig.imageConfig.imageSize'')), (lit ''value'', Str (lit ''4K'')),
     (lit ''conditions'', Arr [template_condition ''original_model'' ''contains'' ''gemini'', template_condition ''original_model'' ''contains'' ''image'',
        template_condition ''original_model'' ''suffix'' ''4k'']), (lit ''logic'', Str (lit ''AND''))]]"

definition buildPassHeadersTemplate :: "string list \<Rightarrow> jsval list" where
  "buildPassHeadersTemplate headers = [Obj [(lit ''mode'', Str (lit ''pass_headers'')), (lit ''value'', Arr (map (\<lambda>h. Str (lit h)) headers)),
     (lit ''keep_origin'', Bool True)]]"

definition CODEX_CLI_HEADER_PASSTHROUGH_TEMPLATE :: "jsval list" where
  "CODEX_CLI_HEADER_PASSTHROUGH_TEMPLATE = buildPassHeadersTemplate
     [''Originator'', ''Session_id'', ''User-Agent'', ''X-Codex-Beta-Features'', ''X-Codex-Turn-Metadata'']"

definition CLAUDE_CLI_HEADER_PASSTHROUGH_TEMPLATE :: "jsval list" where
  "CLAUDE_CLI_HEADER_PASSTHROUGH_TEMPLATE = buildPassHeadersTemplate
     [''X-Stainless-Arch'', ''X-Stainless-Lang'', ''X-Stainless-Os'', ''X-Stainless-Package-Version'', ''X-Stainless-Retry-Count'', ''X-Stainless-Runtime'', ''X-Stainless-Runtime-Version'', ''X-Stainless-Timeout'', ''User-Agent'', ''X-App'', ''Anthropic-Beta'', ''Anthropic-Dangerous-Direct-Browser-Access'', ''Anthropic-Version'']"

definition AWS_BEDROCK_ANTHROPIC_COMPAT_TEMPLATE :: "jsval list" where
  "AWS_BEDROCK_ANTHROPIC_COMPAT_TEMPLATE =
    [Obj [(lit ''description'', Str (lit ''Normalize anthropic-beta header tokens for Bedrock compatibility.'')), (lit ''mode'', Str (lit ''set_header'')),
      (lit ''path'', Str (lit ''anthropic-beta'')), (lit ''value'', Obj [
      (lit ''advanced-tool-use-2025-11-20'', Str (lit ''tool-search-tool-2025-10-19'')), (lit ''bash_20241022'', Null), (lit ''bash_20250124'', Null),
      (lit ''code-execution-2025-08-25'', Null), (lit ''compact-2026-01-12'', Str (lit ''compact-2026-01-12'')),
      (lit ''computer-use-2025-01-24'', Str (lit ''computer-use-2025-01-24'')),
      (lit ''computer-use-2025-11-24'', Str (lit ''computer-use-2025-11-24'')), (lit ''context-1m-2025-08-07'', Str (lit ''context-1m-2025-08-07'')),
      (lit ''context-management-2025-06-27'', Str (lit ''context-management-2025-06-27'')), (lit ''effort-2025-11-24'', Null),
      (lit ''fast-mode-2026-02-01'', Null), (lit ''files-api-2025-04-14'', Null), (lit ''fine-grained-tool-streaming-2025-05-14'', Null),
      (lit ''interleaved-thinking-2025-05-14'', Str (lit ''interleaved-thinking-2025-05-14'')), (lit ''mcp-client-2025-11-20'', Null),
      (lit ''mcp-client-2025-04-04'', Null), (lit ''mcp-servers-2025-12-04'', Null), (lit ''output-128k-2025-02-19'', Null),
      (lit ''structured-output-2024-03-01'', Null), (lit ''prompt-caching-scope-2026-01-05'', Null), (lit ''skills-2025-10-02'', Null),
      (lit ''structured-outputs-2025-11-13'', Null), (lit ''text_editor_20241022'', Null), (lit ''text_editor_20250124'', Null),
      (lit ''token-efficient-tools-2025-02-19'', Null), (lit ''tool-search-tool-2025-10-19'', Str (lit ''tool-search-tool-2025-10-19'')),
      (lit ''web-fetch-2025-09-10'', Null), (lit ''web-search-2025-03-05'', Null), (lit ''oauth-2025-04-20'', Null)])],
     Obj [(lit ''description'', Str (lit ''Remove all tools[*].custom.input_examples before upstream relay.'')), (lit ''mode'', Str (lit ''delete'')),
      (lit ''path'', Str (lit ''tools.*.custom.input_examples''))]]"

text \<open>The library: a template is a legacy object or a list of operations.\<close>

datatype template = Legacy_Template jsobj | Operations_Template "jsval list"

definition TEMPLATE_PRESET_CONFIG :: "(jsstr \<times> template) list" where
  "TEMPLATE_PRESET_CONFIG = [(lit ''operations_default'', Operations_Template OPERATION_TEMPLATE), (lit ''legacy_default'', Legacy_Template LEGACY_TEMPLATE),
     (lit ''pass_headers_auth'', Operations_Template HEADER_PASSTHROUGH_TEMPLATE), (lit ''gemini_image_4k'', Operations_Template GEMINI_IMAGE_4K_TEMPLATE),
     (lit ''claude_cli_headers_passthrough'', Operations_Template CLAUDE_CLI_HEADER_PASSTHROUGH_TEMPLATE),
     (lit ''codex_cli_headers_passthrough'', Operations_Template CODEX_CLI_HEADER_PASSTHROUGH_TEMPLATE),
     (lit ''aws_bedrock_anthropic_beta_override'', Operations_Template AWS_BEDROCK_ANTHROPIC_COMPAT_TEMPLATE)]"

definition getSelectedTemplatePreset :: "jsstr \<Rightarrow> template" where
  "getSelectedTemplatePreset key = (case map_of TEMPLATE_PRESET_CONFIG key of Some p \<Rightarrow> p | None \<Rightarrow> Operations_Template OPERATION_TEMPLATE)"

definition fillTemplateFromLibrary :: "jsstr \<Rightarrow> override_editor \<Rightarrow> override_editor res" where
  "fillTemplateFromLibrary key ed = (case getSelectedTemplatePreset key of
     Legacy_Template fs \<Rightarrow> Inr (fillLegacyTemplate fs ed) | Operations_Template xs \<Rightarrow> fillOperationsTemplate xs ed)"

definition appendTemplateFromLibrary :: "jsstr \<Rightarrow> override_editor \<Rightarrow> override_editor res" where
  "appendTemplateFromLibrary key ed = (case getSelectedTemplatePreset key of
     Legacy_Template fs \<Rightarrow> Inr (appendLegacyTemplate fs ed) | Operations_Template xs \<Rightarrow> appendOperationsTemplate xs ed)"

definition resetEditorState :: "override_editor \<Rightarrow> override_editor" where
  "resetEditorState ed = (clearValue ed)\<lparr>oe_json := False\<rparr>"

subsection \<open>Saving\<close>

definition handleSave :: "messages \<Rightarrow> (jsstr \<Rightarrow> jsstr) \<Rightarrow> override_editor \<Rightarrow> jsstr res" where
  "handleSave tm tr ed =
     (if oe_json ed
      then (if trim (oe_jsonText ed) = [] then Inr []
            else case json_parse (trim (oe_jsonText ed)) of
              Inl e \<Rightarrow> Inl (JsError (tr ([21442, 25968, 35206, 30422, 24517, 39035, 26159, 21512, 27861, 30340, 32, 74, 83, 79, 78, 32, 26684, 24335, 65281])))
            | Inr v \<Rightarrow> Inr (to_str (stringify2 v)))
      else buildVisualJson tm tr ed)"

end
