(* ===== verification/Param_Override_Thms.thy ===== *)
theory Param_Override_Thms
  imports Param_Override
begin

text \<open>
  Properties of the parameter-override editor: which values survive the detour through the text field,
  the round trip of saving and opening, reordering, and the rules of \<open>prune_objects\<close>.
\<close>

section \<open>Values\<close>

text \<open>The values that the text field gives back as they were: a string must not look like JSON.\<close>

definition stable_value :: "jsval \<Rightarrow> bool" where
  "stable_value v \<longleftrightarrow> json_ok v \<and> (case v of Str s \<Rightarrow> s = [] \<or> (trimmed s \<and> \<not> verifyJSON s) | _ \<Rightarrow> True)"

lemma json_str_facts:
  assumes "json_ok v"
  shows "trim (json_str v) = json_str v" "json_str v \<noteq> []" "json_parse (json_str v) = Inr v"
  using json_text_prints [OF assms] prints_trimmed parse_stringify [OF assms] by (auto simp: json_str_def)

lemma value_text_cases:
  assumes "stable_value v"
  shows "(\<exists>s. v = Str s \<and> toValueText v = s \<and> (s = [] \<or> trim s = s \<and> (\<exists>e. json_parse s = Inl e))) \<or> (toValueText v = json_str v \<and> json_ok v \<and> (\<forall>s. v \<noteq> Str s))"
  using assms by (cases v) (auto simp: stable_value_def toValueText_def verifyJSON_def trim_id split: sum.splits)

lemma reread_value: "stable_value v \<Longrightarrow> parseLooseValue (toValueText v) = v"
  using value_text_cases [of v] json_str_facts [of v] by (auto simp: parseLooseValue_def)



interpretation value_field: codec stable_value toValueText "\<lambda>s. Some (parseLooseValue s)"
  by unfold_locales (simp add: reread_value)

section \<open>Objects with optional properties\<close>

lemma obj_get_opt [simp]: "obj_get ((if b then [(k, v)] else []) @ r) k' = (if b \<and> k' = k then v else obj_get r k')"
  by simp

lemma obj_get_last [simp]: "obj_get (if b then [(k, v)] else []) k' = (if b \<and> k' = k then v else Undefined)"
  by simp


lemma obj_merge_fresh:
  assumes "distinct (map fst (a @ b))" "\<forall>kv \<in> set b. \<not> is_index (fst kv)"
  shows "obj_merge a b = a @ b"
  using assms
proof (induction b arbitrary: a)
  case (Cons kv b)
  have "obj_put a (fst kv) (snd kv) = a @ [kv]" using Cons.prems by (simp add: obj_put_def)
  then show ?case using Cons.IH [of "a @ [kv]"] Cons.prems by (simp add: obj_merge_def)
qed (simp add: obj_merge_def)

lemma units_ok_simps [simp]: "units_ok (lit s)" "units_ok []" "units_ok (a @ b) \<longleftrightarrow> units_ok a \<and> units_ok b"
  by (auto simp: units_ok_def lit_def list_all_iff of_char_def)


section \<open>The modes\<close>




section \<open>Reading what was printed\<close>








section \<open>Operations\<close>

lemma logic_AND: "upper_is (lit ''AND'') ''AND''" "\<not> upper_is (lit ''OR'') ''AND''"
  by (simp_all add: upper_is_def lit_simps)







section \<open>The round trip\<close>




lemma field_not_index: "\<not> is_index (lit (c # cs))" if "\<not> is_digit (of_char c)"
  using that by (simp add: is_index_def lit_Cons)

lemma fields_not_index [simp]: "\<not> is_index (lit ''mode'')" "\<not> is_index (lit ''description'')" "\<not> is_index (lit ''path'')" "\<not> is_index (lit ''value'')"
  "\<not> is_index (lit ''keep_origin'')" "\<not> is_index (lit ''from'')" "\<not> is_index (lit ''to'')" "\<not> is_index (lit ''conditions'')" "\<not> is_index (lit ''logic'')"
  "\<not> is_index (lit ''invert'')" "\<not> is_index (lit ''pass_missing_key'')" "\<not> is_index (lit ''operations'')"
  by (rule field_not_index, simp add: is_digit_def)+

lemma json_ok_fields:
  assumes "distinct (map fst fs)" "\<forall>kv \<in> set fs. \<not> is_index (fst kv) \<and> units_ok (fst kv) \<and> json_ok (snd kv)"
  shows "json_ok (Obj fs)"
  using assms obj_merge_fresh [of "[]" fs] by (simp add: list_all_iff)



lemma pretty_facts:
  assumes "json_ok v"
  obtains s where "stringify2 v = Str s" "trim s = s" "s \<noteq> []" "json_parse s = Inr v"
  using json_pretty_prints [OF assms, of 0] prints_trimmed json_parse_prints [of v _ "[]" "[]"] by (auto simp: stringify2_def)




definition sample_editor :: override_editor where
  "sample_editor = \<lparr>oe_json = False, oe_legacy = False, oe_legacyValue = [], oe_operations =
     [(createDefaultOperation 0)\<lparr>op_path := lit ''temperature'', op_value_text := lit ''3'', op_keep_origin := True, op_logic := lit ''AND'',
        op_conditions := [(blank_condition 1)\<lparr>cd_path := lit ''model'', cd_value_text := lit ''gpt''\<rparr>]\<rparr>, createDefaultOperation 2],
     oe_jsonText = [], oe_jsonError = [], oe_selected = Some 0, oe_next = 3\<rparr>"


section \<open>Values that change\<close>

text \<open>The stored text with one \<open>set\<close> operation.\<close>

definition set_text :: "jsstr \<Rightarrow> jsval \<Rightarrow> jsstr" where
  "set_text p v = to_str (stringify2 (Obj [(lit ''operations'', Arr [Obj [(lit ''mode'', Str (lit ''set'')), (lit ''path'', Str p), (lit ''value'', v)]])]))"

text \<open>A string that is JSON text does not survive opening and saving: it is replaced by the value it
  denotes, so that the string \<open>"5"\<close> becomes the number 5.\<close>

theorem string_value_retyped:
  assumes "trim p = p" "p \<noteq> []" "units_ok p" "units_ok s" "trim s \<noteq> []" "json_parse s = Inr v"
  shows "\<exists>ed. open_editor (Str (set_text p (Str s))) n = Inr ed \<and> handleSave tm tr ed = Inr (set_text p v)"
proof -
  let ?v = "Obj [(lit ''operations'', Arr [Obj [(lit ''mode'', Str (lit ''set'')), (lit ''path'', Str p), (lit ''value'', Str s)]])]"
  have "json_ok (Obj [(lit ''mode'', Str (lit ''set'')), (lit ''path'', Str p), (lit ''value'', Str s)])"
    by (rule json_ok_fields) (simp_all add: assms)
  then have "json_ok ?v" by (intro json_ok_fields) (simp_all del: json_ok.simps(7))
  then obtain u where u: "stringify2 ?v = Str u" "trim u = u" "u \<noteq> []" "json_parse u = Inr ?v" using pretty_facts by blast
  have meta: "lit ''set'' \<in> set OPERATION_MODE_VALUES" "mode_meta_of (lit ''set'') = meta_of [''path'', ''value'', ''keepOrigin'']"
      "lit ''set'' \<notin> set FROM_REQUIRED_MODES" "lit ''set'' \<notin> set TO_REQUIRED_MODES" "lit ''set'' \<notin> set VALUE_REQUIRED_MODES"
    by code_simp+
  define x where "x = (createDefaultOperation n)\<lparr>op_path := p, op_value_text := s\<rparr>"
  have norm: "normalizeOperation n (Obj [(lit ''mode'', Str (lit ''set'')), (lit ''path'', Str p), (lit ''value'', Str s)]) = Inr x"
    using meta(1) by (simp add: normalizeOperation_def str_or_empty_def mode_or_def toValueText_def logic_AND x_def createDefaultOperation_def)
  have x: "\<not> isOperationBlank x" "validate_operation tm 1 x = None"
      "operation_payload x = [(lit ''mode'', Str (lit ''set'')), (lit ''path'', Str p), (lit ''value'', v)]"
    using assms meta
    by (simp_all add: x_def createDefaultOperation_def isOperationBlank_def validate_operation_def validate_value_def operation_payload_def meta_of_def
        List.map_filter_simps parseLooseValue_def trim_def [of "[]"])
  show ?thesis
    using u norm x
    by (simp add: set_text_def open_editor_def Let_def read_operations_def select_first_def handleSave_def buildVisualJson_def buildOperationsJson_def
        operations_object_def)
qed

theorem string_value_retyped_witness:
  "\<exists>ed. open_editor (Str (set_text (lit ''a'') (Str (lit ''5'')))) 0 = Inr ed \<and> handleSave (\<lambda>k l. k) id ed = Inr (set_text (lit ''a'') (Num (Fin 5)))"
proof (rule string_value_retyped)
  show "json_parse (lit ''5'') = Inr (Num (Fin 5))" "trim (lit ''a'') = lit ''a''" "trim (lit ''5'') \<noteq> []" by code_simp+
qed simp_all

section \<open>Drafts\<close>

text \<open>The ends of a \<open>sync_fields\<close> operation are read as they were written.\<close>

definition end_ok :: "bool \<times> jsstr \<Rightarrow> bool" where
  "end_ok e \<longleftrightarrow> trim (snd e) = snd e \<and> snd e \<noteq> []"

lemma sync_end_reread: "end_ok (h, k) \<Longrightarrow> parseSyncTargetSpec (Str (buildSyncTargetSpec h k)) = (h, k)"
proof -
  assume "end_ok (h, k)"
  then have k: "trim k = k" "k \<noteq> []" by (simp_all add: end_ok_def)
  have ws: "\<not> is_ws 104" "\<not> is_ws 106" by (simp_all add: is_ws_def)
  have "trimmed k" using trimmed_trim [of k] k by simp
  then have tr: "trim (lit ''header'' @ 58 # k) = lit ''header'' @ 58 # k" "trim (lit ''json'' @ 58 # k) = lit ''json'' @ 58 # k"
    using k(2) ws by (simp_all add: trim_id trimmed_def lit_simps)
  have w: "takeWhile (\<lambda>c. c \<noteq> 58) (lit ''header'' @ 58 # k) = lit ''header''" "takeWhile (\<lambda>c. c \<noteq> 58) (lit ''json'' @ 58 # k) = lit ''json''"
    "dropWhile (\<lambda>c. c \<noteq> 58) (lit ''header'' @ 58 # k) = 58 # k" "dropWhile (\<lambda>c. c \<noteq> 58) (lit ''json'' @ 58 # k) = 58 # k"
    by (simp_all add: lit_simps)
  have u: "upper_is (trim (lit ''header'')) ''HEADER''" "\<not> upper_is (trim (lit ''json'')) ''HEADER''" by code_simp+
  have c: "lit '':'' = [58]" by (simp add: lit_simps)
  show "parseSyncTargetSpec (Str (buildSyncTargetSpec h k)) = (h, k)"
    using k by (cases h) (simp_all add: parseSyncTargetSpec_def buildSyncTargetSpec_def js_coalesce_def tr w u c)
qed

interpretation sync_end: codec end_ok "\<lambda>(h, k). buildSyncTargetSpec h k" "\<lambda>s. Some (parseSyncTargetSpec (Str s))"
  by unfold_locales (auto simp: sync_end_reread)

text \<open>So is the draft of a custom error, outside the simple mode.\<close>

definition error_draft_ok :: "error_draft \<Rightarrow> bool" where
  "error_draft_ok d \<longleftrightarrow> \<not> ed_simpleMode d \<and> valid_status (ed_statusCode d) \<and> json_ok (Num (ed_statusCode d)) \<and>
     (\<forall>s \<in> {ed_message d, ed_code d, ed_type d}. trim s = s \<and> units_ok s)"

lemma error_fields_not_index [simp]: "\<not> is_index (lit ''message'')" "\<not> is_index (lit ''status_code'')" "\<not> is_index (lit ''code'')" "\<not> is_index (lit ''type'')"
  "\<not> is_index (lit ''skip_retry'')"
  by (rule field_not_index, simp add: is_digit_def)+

lemma error_draft_reread:
  assumes "error_draft_ok d"
  shows "parseReturnErrorDraft (buildReturnErrorValueText d) = d"
proof -
  let ?fs = "[(lit ''message'', Str (ed_message d)), (lit ''status_code'', Num (ed_statusCode d))] @
         (if ed_code d \<noteq> [] then [(lit ''code'', Str (ed_code d))] else []) @ (if ed_type d \<noteq> [] then [(lit ''type'', Str (ed_type d))] else []) @
         (if \<not> ed_skipRetry d then [(lit ''skip_retry'', Bool False)] else [])"
  have b: "buildReturnErrorValueText d = json_str (Obj ?fs)" using assms by (simp add: buildReturnErrorValueText_def error_draft_ok_def)
  have ok: "json_ok (Obj ?fs)"
    by (rule json_ok_fields) (use assms in \<open>auto simp: error_draft_ok_def split: if_split_asm\<close>)
  have tr: "trim (ed_message d) = ed_message d" "trim (ed_code d) = ed_code d" "trim (ed_type d) = ed_type d" using assms by (simp_all add: error_draft_ok_def)
  show ?thesis
    unfolding b parseReturnErrorDraft_def Let_def json_str_facts(1) [OF ok]
    using json_str_facts(2,3) [OF ok] assms tr by (cases d) (simp add: error_draft_ok_def)
qed

interpretation error_draft: codec error_draft_ok buildReturnErrorValueText "\<lambda>s. Some (parseReturnErrorDraft s)"
  by unfold_locales (simp add: error_draft_reread)

section \<open>Reordering\<close>

lemma take_drop_While: "\<exists>x \<in> set xs. P x \<Longrightarrow> xs = takeWhile (\<lambda>x. \<not> P x) xs @ hd (dropWhile (\<lambda>x. \<not> P x) xs) # tl (dropWhile (\<lambda>x. \<not> P x) xs)"
  by (metis dropWhile_eq_Nil_conv list.exhaust_sel takeWhile_dropWhile_id)

text \<open>Dragging an operation permutes the list.\<close>

lemma reorder_permutes: "mset (reorderOperations ops a b after) = mset ops"
proof (cases "a = b \<or> find (\<lambda>x. op_id x = a) ops = None")
  case False
  then obtain moved where f: "find (\<lambda>x. op_id x = a) ops = Some moved" "a \<noteq> b" by auto
  have m: "hd (dropWhile (\<lambda>x. op_id x \<noteq> a) ops) = moved" "\<exists>x \<in> set ops. op_id x = a"
    using f(1) by (induction ops) (auto split: if_split_asm)
  define pre post where "pre = takeWhile (\<lambda>x. op_id x \<noteq> a) ops" and "post = tl (dropWhile (\<lambda>x. op_id x \<noteq> a) ops)"
  have ops: "ops = pre @ moved # post" using take_drop_While [OF m(2)] m(1) by (simp add: pre_def post_def)
  let ?b = "takeWhile (\<lambda>x. op_id x \<noteq> b) (pre @ post)" and ?t = "dropWhile (\<lambda>x. op_id x \<noteq> b) (pre @ post)"
  have rest: "mset (pre @ post) = mset ?b + mset ?t" by (metis mset_append takeWhile_dropWhile_id)
  have r: "reorderOperations ops a b after =
      (if ?t = [] then ops else if after then ?b @ hd ?t # moved # tl ?t else ?b @ moved # ?t)"
    using f by (simp add: reorderOperations_def Let_def pre_def post_def)
  have "mset ops = add_mset moved (mset (pre @ post))" by (subst ops) simp
  then show ?thesis unfolding r using rest by (cases ?t) (simp_all del: takeWhile_append dropWhile_append)
qed (auto simp: reorderOperations_def)

section \<open>Rules of a prune operation\<close>

lemma conditions_ids: "normalizeConditions n vs = Inr cs \<Longrightarrow> map cd_id cs = [n..<n + length cs]"
proof (induction n vs arbitrary: cs rule: normalizeConditions.induct)
  case (2 n v vs)
  then obtain c cs' where c: "normalizeCondition n v = Inr c" "normalizeConditions (Suc n) vs = Inr cs'" "cs = c # cs'"
    by (auto split: sum.split_asm)
  then have "cd_id c = n" by (auto simp: normalizeCondition_def split: if_split_asm)
  then show ?case using 2(1) [OF c(1,2)] c(3) by (simp add: upt_rec)
qed simp

lemma rules_of_object_ids: "r \<in> set (rules_of_object n fs) \<Longrightarrow> n \<le> cd_id r \<and> cd_id r < n + length fs"
  by (auto simp: rules_of_object_def blank_condition_def in_set_enumerate_eq)

lemma conditions_id_range: "normalizeConditions n vs = Inr cs \<Longrightarrow> r \<in> set cs \<Longrightarrow> n \<le> cd_id r \<and> cd_id r < n + length cs"
  using conditions_ids [of n vs cs] by (metis atLeastLessThan_iff image_eqI list.set_map set_upt)

lemma length_rules_of_object [simp]: "length (rules_of_object n fs) = length fs"
  by (simp add: rules_of_object_def)

text \<open>Reading a draft gives its rules the next ids.\<close>

lemma prune_rule_ids:
  assumes "r \<in> set (pd_rules (parsePruneObjectsDraft n s))"
  shows "n \<le> cd_id r \<and> cd_id r < n + length (pd_rules (parsePruneObjectsDraft n s))"
proof -
  have "n \<le> cd_id r \<and> cd_id r < n + length (prune_rules n fs)" if "r \<in> set (prune_rules n fs)" for fs
  proof -
    define W where "W = (case obj_get fs (lit ''where'') of Obj wh \<Rightarrow> rules_of_object n wh | _ \<Rightarrow> [])"
    define k where "k = n + length W"
    define B where "B = (case obj_get fs (lit ''conditions'') of
        Arr items \<Rightarrow> (case normalizeConditions k (filter (\<lambda>it. truthy it \<and> typeof_object it) items) of Inr cs \<Rightarrow> cs | Inl e \<Rightarrow> [])
      | Obj cs \<Rightarrow> rules_of_object k cs | _ \<Rightarrow> [])"
    have all: "prune_rules n fs = W @ B" unfolding prune_rules_def Let_def B_def k_def W_def ..
    have "r \<in> set W \<longrightarrow> n \<le> cd_id r \<and> cd_id r < n + length W"
      using rules_of_object_ids by (cases "obj_get fs (lit ''where'')") (simp_all add: W_def)
    moreover have "r \<in> set B \<longrightarrow> k \<le> cd_id r \<and> cd_id r < k + length B"
      using rules_of_object_ids conditions_id_range
      by (cases "obj_get fs (lit ''conditions'')") (simp_all add: B_def split: sum.split)
    ultimately show ?thesis using that by (auto simp: all k_def)
  qed
  then show ?thesis using assms
    by (auto simp: parsePruneObjectsDraft_def Let_def prune_defaults_def split: if_split_asm sum.split_asm jsval.split_asm)
qed


text \<open>C21: the rules of a \<open>prune_objects\<close> operation cannot be edited in the form. A rule is displayed with an id
  that is new for every reading of the text, and the handlers read the text again: removing or changing a
  displayed rule rewrites the draft as it is, and adding one only leaves the simple mode.\<close>

theorem prune_rules_not_editable:
  assumes "pruneObjectsDraft ed = (Some d, ed')" "oe_operations ed2 = oe_operations ed" "oe_next ed' \<le> oe_next ed2" "oe_selected ed = Some i"
  shows "(\<forall>r \<in> set (pd_rules d). removePruneRule i (cd_id r) ed2 = updatePruneObjectsDraft i (\<lambda>d. d) ed2 \<and>
      updatePruneRule i (cd_id r) f ed2 = updatePruneObjectsDraft i (\<lambda>d. d) ed2) \<and>
    oe_operations (addPruneRule i ed2) = oe_operations (updatePruneObjectsDraft i (\<lambda>d. d\<lparr>pd_simpleMode := False\<rparr>) ed2)"
proof -
  obtain x where x: "find (\<lambda>x. op_id x = i) (oe_operations ed) = Some x"
      "d = parsePruneObjectsDraft (oe_next ed) (op_value_text x)" "oe_next ed' = oe_next ed + length (pd_rules d)"
    using assms(1,4) by (auto simp: pruneObjectsDraft_def selectedOperation_def Let_def eq_commute [of i] split: option.split_asm if_split_asm)
  define m where "m = oe_next ed2"
  define e where "e = parsePruneObjectsDraft m (op_value_text x)"
  have d: "find (\<lambda>x. op_id x = i) (oe_operations ed2) = Some x" using x(1) assms(2) by simp
  have new: "cd_id r' \<noteq> cd_id r" if "r \<in> set (pd_rules d)" "r' \<in> set (pd_rules e)" for r r'
    using prune_rule_ids [of r "oe_next ed" "op_value_text x"] prune_rule_ids [of r' m "op_value_text x"] that x assms(3) by (auto simp: e_def m_def)
  have same: "updatePruneObjectsDraft i g ed2 = updatePruneObjectsDraft i (\<lambda>d. d) ed2" if "g e = e" for g
    using that d by (simp add: updatePruneObjectsDraft_def e_def m_def Let_def)
  have "buildPruneObjectsValueText (e\<lparr>pd_simpleMode := False, pd_rules := pd_rules e @ [blank_condition k]\<rparr>) =
      buildPruneObjectsValueText (e\<lparr>pd_simpleMode := False\<rparr>)" for k
    by (simp add: buildPruneObjectsValueText_def Let_def blank_condition_def trim_def [of "[]"])
  then have "oe_operations (addPruneRule i ed2) = oe_operations (updatePruneObjectsDraft i (\<lambda>d. d\<lparr>pd_simpleMode := False\<rparr>) ed2)"
    using d by (simp add: addPruneRule_def updatePruneObjectsDraft_def updateOperation_def Let_def m_def e_def)
  moreover have "removePruneRule i (cd_id r) ed2 = updatePruneObjectsDraft i (\<lambda>d. d) ed2 \<and>
      updatePruneRule i (cd_id r) f ed2 = updatePruneObjectsDraft i (\<lambda>d. d) ed2" if r: "r \<in> set (pd_rules d)" for r
  proof -
    have "map (\<lambda>r'. if cd_id r' = cd_id r then f r' else r') (pd_rules e) = pd_rules e" "filter (\<lambda>r'. cd_id r' \<noteq> cd_id r) (pd_rules e) = pd_rules e"
      using new [OF r] by (auto intro: map_idI simp: filter_id_conv)
    then show ?thesis
      unfolding removePruneRule_def updatePruneRule_def by (intro conjI same) simp_all
  qed
  ultimately show ?thesis by blast
qed

definition sample_prune :: override_editor where
  "sample_prune = sample_editor\<lparr>oe_operations := [(createDefaultOperation 0)\<lparr>op_mode := lit ''prune_objects'',
     op_value_text := json_str (Obj [(lit ''type'', Str (lit ''x'')), (lit ''conditions'', Arr [template_condition ''a'' ''full'' ''b''])])\<rparr>]\<rparr>"

theorem prune_rules_not_editable_witness:
  "\<exists>d ed' r. pruneObjectsDraft sample_prune = (Some d, ed') \<and> r \<in> set (pd_rules d) \<and>
     oe_operations (removePruneRule 0 (cd_id r) ed') = oe_operations sample_prune"
proof -
  have "case pruneObjectsDraft sample_prune of (Some d, ed') \<Rightarrow> pd_rules d \<noteq> [] \<and>
      oe_operations (updatePruneObjectsDraft 0 (\<lambda>d. d) ed') = oe_operations sample_prune \<and> oe_operations ed' = oe_operations sample_prune | _ \<Rightarrow> False"
    by code_simp
  then obtain d ed' where d: "pruneObjectsDraft sample_prune = (Some d, ed')" "pd_rules d \<noteq> []" "oe_operations ed' = oe_operations sample_prune"
      "oe_operations (updatePruneObjectsDraft 0 (\<lambda>d. d) ed') = oe_operations sample_prune"
    by (auto split: prod.split_asm option.split_asm)
  then obtain r where r: "r \<in> set (pd_rules d)" by (cases "pd_rules d") auto
  have "oe_selected sample_prune = Some 0" by (simp add: sample_prune_def sample_editor_def)
  from prune_rules_not_editable [OF d(1,3) order_refl this] show ?thesis using d r by auto
qed

end
