(* ===== verification/Dashboard.thy ===== *)
theory Dashboard
  imports Quota_Display "HOL-Library.AList"
begin

text \<open>
  The usage dashboard: the aggregation of usage rows in \<open>helpers/dashboard.jsx\<close>, the chart data of
  \<open>hooks/dashboard/useDashboardCharts.jsx\<close>, the loading of the rows in \<open>hooks/dashboard/useDashboardData.js\<close>, and the
  time labels of \<open>helpers/utils.jsx\<close>.

  A usage row is a record: its quota and count are numbers, and the token fields, which a row can lack, are
  values. A JavaScript \<open>Map\<close> is an association list in insertion order. The browser's calendar, which turns
  milliseconds into local year, month, day and hour, and the collation order of \<open>localeCompare\<close> are arguments. Of a
  chart specification only the data is kept.
\<close>

section \<open>Rows and maps\<close>

record quota_row =
  q_created_at :: jsnum
  q_model_name :: jsstr
  q_username :: jsstr
  q_quota :: jsnum
  q_count :: jsnum
  q_token_used :: jsval
  q_prompt_tokens :: jsval
  q_completion_tokens :: jsval
  q_cache_read_tokens :: jsval
  q_cache_write_tokens :: jsval

type_synonym num_map = "(jsstr \<times> jsnum) list"

definition map_has :: "(jsstr \<times> 'v) list \<Rightarrow> jsstr \<Rightarrow> bool" where
  "map_has m k \<longleftrightarrow> map_of m k \<noteq> None"

definition map_num :: "num_map \<Rightarrow> jsstr \<Rightarrow> jsnum" where
  "map_num m k = (case map_of m k of Some x \<Rightarrow> x | None \<Rightarrow> NaN)"

definition updateMapValue :: "num_map \<Rightarrow> jsstr \<Rightarrow> jsnum \<Rightarrow> num_map" where
  "updateMapValue m k v =
     (let m1 = (if map_has m k then m else AList.update k (Fin 0) m) in AList.update k (num_add (map_num m1 k) v) m1)"

definition initializeMap :: "jsstr \<Rightarrow> num_map \<Rightarrow> num_map" where
  "initializeMap k m = (if map_has m k then m else AList.update k (Fin 0) m)"

text \<open>\<open>x || 0\<close> for a number or a missing one.\<close>

definition or_zero :: "jsnum \<Rightarrow> jsnum" where
  "or_zero x = (if x = NaN then Fin 0 else x)"

definition get_or_zero :: "num_map \<Rightarrow> jsstr \<Rightarrow> jsnum" where
  "get_or_zero m k = (case map_of m k of Some x \<Rightarrow> or_zero x | None \<Rightarrow> Fin 0)"

text \<open>\<open>acc + v\<close> where \<open>v\<close> is a number or undefined.\<close>

definition add_val :: "jsnum \<Rightarrow> jsval \<Rightarrow> jsnum" where
  "add_val x v = num_add x (to_num v)"

section \<open>Time labels\<close>

record calendar =
  cal_year :: nat
  cal_month :: nat
  cal_date :: nat
  cal_hours :: nat

type_synonym clock = "jsnum \<Rightarrow> calendar"

definition pad2 :: "nat \<Rightarrow> jsstr" where
  "pad2 n = (if length (nat_digits n) = 1 then 48 # nat_digits n else nat_digits n)"

definition day_label :: "calendar \<Rightarrow> bool \<Rightarrow> jsstr" where
  "day_label d showYear = (if showYear then nat_digits (cal_year d) @ lit ''-'' else []) @ pad2 (cal_month d + 1) @ lit ''-'' @ pad2 (cal_date d)"

definition timestamp2string1 :: "clock \<Rightarrow> jsnum \<Rightarrow> jsstr \<Rightarrow> bool \<Rightarrow> jsstr" where
  "timestamp2string1 clk ts mode showYear =
     (let ms = num_mul ts (Fin 1000); d = clk ms; str = day_label d showYear
      in if mode = lit ''hour'' then str @ lit '' '' @ pad2 (cal_hours d) @ lit '':00''
         else if mode = lit ''week'' then str @ lit '' - '' @ day_label (clk (num_add ms (Fin 518400000))) showYear
         else str)"

definition isDataCrossYear :: "clock \<Rightarrow> jsnum list \<Rightarrow> bool" where
  "isDataCrossYear clk tss \<longleftrightarrow> 1 < length (remdups (map (\<lambda>ts. cal_year (clk (num_mul ts (Fin 1000)))) tss))"

definition getTimeInterval :: "jsstr \<Rightarrow> bool \<Rightarrow> jsnum" where
  "getTimeInterval mode seconds =
     (if mode = lit ''day'' then (if seconds then Fin 86400 else Fin 1440)
      else if mode = lit ''week'' then (if seconds then Fin 604800 else Fin 10080)
      else (if seconds then Fin 3600 else Fin 60))"

definition show_year :: "clock \<Rightarrow> quota_row list \<Rightarrow> bool" where
  "show_year clk rows = isDataCrossYear clk (map q_created_at rows)"

definition row_time :: "clock \<Rightarrow> jsstr \<Rightarrow> quota_row list \<Rightarrow> quota_row \<Rightarrow> jsstr" where
  "row_time clk mode rows r = timestamp2string1 clk (q_created_at r) mode (show_year clk rows)"

section \<open>Totals\<close>

record processed =
  totalQuota :: jsnum
  totalTimes :: jsnum
  totalTokens :: jsnum
  totalPromptTokens :: jsnum
  totalCompletionTokens :: jsnum
  totalCacheReadTokens :: jsnum
  totalCacheWriteTokens :: jsnum
  uniqueModels :: "jsstr list"
  timePoints :: "jsstr list"
  timeQuotaMap :: num_map
  timeTokensMap :: num_map
  timeCountMap :: num_map

definition empty_processed :: processed where
  "empty_processed = \<lparr>totalQuota = Fin 0, totalTimes = Fin 0, totalTokens = Fin 0, totalPromptTokens = Fin 0, totalCompletionTokens = Fin 0,
     totalCacheReadTokens = Fin 0, totalCacheWriteTokens = Fin 0, uniqueModels = [], timePoints = [], timeQuotaMap = [], timeTokensMap = [],
     timeCountMap = []\<rparr>"

definition process_row :: "(quota_row \<Rightarrow> jsstr) \<Rightarrow> processed \<Rightarrow> quota_row \<Rightarrow> processed" where
  "process_row time p r =
     (let k = time r; opt = (\<lambda>v. js_or v (Num (Fin 0)))
      in p\<lparr>uniqueModels := set_add (uniqueModels p) (q_model_name r), totalTokens := add_val (totalTokens p) (q_token_used r),
        totalPromptTokens := add_val (totalPromptTokens p) (opt (q_prompt_tokens r)),
        totalCompletionTokens := add_val (totalCompletionTokens p) (opt (q_completion_tokens r)),
        totalCacheReadTokens := add_val (totalCacheReadTokens p) (opt (q_cache_read_tokens r)),
        totalCacheWriteTokens := add_val (totalCacheWriteTokens p) (opt (q_cache_write_tokens r)),
        totalQuota := num_add (totalQuota p) (q_quota r), totalTimes := num_add (totalTimes p) (q_count r), timePoints := set_add (timePoints p) k,
        timeQuotaMap := updateMapValue (initializeMap k (timeQuotaMap p)) k (q_quota r),
        timeTokensMap := updateMapValue (initializeMap k (timeTokensMap p)) k (to_num (q_token_used r)),
        timeCountMap := updateMapValue (initializeMap k (timeCountMap p)) k (q_count r)\<rparr>)"

definition processRawData :: "clock \<Rightarrow> jsstr \<Rightarrow> quota_row list \<Rightarrow> processed" where
  "processRawData clk mode rows =
     (let p = foldl (process_row (row_time clk mode rows)) empty_processed rows in p\<lparr>timePoints := sort_by units_less (timePoints p)\<rparr>)"

record trend_data =
  td_times :: "jsnum list"
  td_consumeQuota :: "jsnum list"
  td_tokens :: "jsnum list"
  td_rpm :: "jsnum list"
  td_tpm :: "jsnum list"

definition calculateTrendData :: "jsstr \<Rightarrow> processed \<Rightarrow> trend_data" where
  "calculateTrendData mode p =
     (let pts = timePoints p; interval = getTimeInterval mode False; rate = (\<lambda>m. if 2 \<le> length pts then map (\<lambda>t. num_div (map_num m t) interval) pts else [])
      in \<lparr>td_times = map (get_or_zero (timeCountMap p)) pts, td_consumeQuota = map (get_or_zero (timeQuotaMap p)) pts,
          td_tokens = map (get_or_zero (timeTokensMap p)) pts, td_rpm = rate (timeCountMap p), td_tpm = rate (timeTokensMap p)\<rparr>)"

section \<open>Charts\<close>

record aggregate =
  ag_time :: jsstr
  ag_model :: jsstr
  ag_quota :: jsnum
  ag_count :: jsnum

definition chart_key :: "jsstr \<Rightarrow> jsstr \<Rightarrow> jsstr" where
  "chart_key time model = time @ lit ''-'' @ model"

definition aggregate_row :: "(quota_row \<Rightarrow> jsstr) \<Rightarrow> (jsstr \<times> aggregate) list \<Rightarrow> quota_row \<Rightarrow> (jsstr \<times> aggregate) list" where
  "aggregate_row time m r =
     (let k = chart_key (time r) (q_model_name r);
          old = (case map_of m k of Some a \<Rightarrow> a | None \<Rightarrow> \<lparr>ag_time = time r, ag_model = q_model_name r, ag_quota = Fin 0, ag_count = Fin 0\<rparr>)
      in AList.update k (old\<lparr>ag_quota := num_add (ag_quota old) (q_quota r), ag_count := num_add (ag_count old) (q_count r)\<rparr>) m)"

definition aggregateDataByTimeAndModel :: "clock \<Rightarrow> jsstr \<Rightarrow> quota_row list \<Rightarrow> (jsstr \<times> aggregate) list" where
  "aggregateDataByTimeAndModel clk mode rows = foldl (aggregate_row (row_time clk mode rows)) [] rows"

definition MAX_TREND_POINTS :: nat where
  "MAX_TREND_POINTS = 7"

definition generated_timestamps :: "jsstr \<Rightarrow> quota_row list \<Rightarrow> jsnum list" where
  "generated_timestamps mode rows =
     (let lastTime = foldl math_max NInf (map q_created_at rows); interval = getTimeInterval mode True
      in map (\<lambda>i. num_sub lastTime (num_mul (num_sub (Fin 6) (num_of_nat i)) interval)) [0..<MAX_TREND_POINTS])"

definition generateChartTimePoints :: "clock \<Rightarrow> jsstr \<Rightarrow> (jsstr \<times> aggregate) list \<Rightarrow> quota_row list \<Rightarrow> jsstr list" where
  "generateChartTimePoints clk mode agg rows =
     (let pts = foldl set_add [] (map (\<lambda>a. ag_time (snd a)) agg); gen = generated_timestamps mode rows
      in if length pts < MAX_TREND_POINTS then map (\<lambda>ts. timestamp2string1 clk ts mode (isDataCrossYear clk gen)) gen else pts)"

record bar =
  bar_Time :: jsstr
  bar_Model :: jsstr
  bar_rawQuota :: jsnum
  bar_Usage :: jsval
  bar_TimeSum :: jsnum

record line_point =
  lp_Time :: jsstr
  lp_Model :: jsstr
  lp_Count :: jsnum

definition agg_quota :: "(jsstr \<times> aggregate) list \<Rightarrow> jsstr \<Rightarrow> jsstr \<Rightarrow> jsnum" where
  "agg_quota agg time model = (case map_of agg (chart_key time model) of Some a \<Rightarrow> or_zero (ag_quota a) | None \<Rightarrow> Fin 0)"

definition agg_count :: "(jsstr \<times> aggregate) list \<Rightarrow> jsstr \<Rightarrow> jsstr \<Rightarrow> jsnum" where
  "agg_count agg time model = (case map_of agg (chart_key time model) of Some a \<Rightarrow> or_zero (ag_count a) | None \<Rightarrow> Fin 0)"

text \<open>\<open>(a, b) => b.x - a.x\<close>\<close>

definition descending :: "('a \<Rightarrow> jsnum) \<Rightarrow> 'a \<Rightarrow> 'a \<Rightarrow> bool" where
  "descending f a b \<longleftrightarrow> num_lt (num_sub (f b) (f a)) (Fin 0)"

definition time_bars :: "store \<Rightarrow> (jsstr \<times> aggregate) list \<Rightarrow> jsstr list \<Rightarrow> jsstr \<Rightarrow> bar list" where
  "time_bars st agg models time =
     (let bars = map (\<lambda>m. let q = agg_quota agg time m in \<lparr>bar_Time = time, bar_Model = m, bar_rawQuota = q,
            bar_Usage = (if q = Fin 0 then Num (Fin 0) else Str (getQuotaWithUnit st (Num q) 4)), bar_TimeSum = Fin 0\<rparr>) models;
          timeSum = foldl (\<lambda>s b. num_add s (bar_rawQuota b)) (Fin 0) bars
      in map (\<lambda>b. b\<lparr>bar_TimeSum := timeSum\<rparr>) (sort_by (descending bar_rawQuota) bars))"

definition model_totals :: "(jsstr \<times> aggregate) list \<Rightarrow> num_map" where
  "model_totals agg = foldl (\<lambda>m a. updateMapValue m (ag_model (snd a)) (ag_count (snd a))) [] agg"

definition MAX_RANK_MODELS :: nat where
  "MAX_RANK_MODELS = 20"

text \<open>The ranking: the first twenty models and the rest as one.\<close>

definition rank_data :: "(jsstr \<Rightarrow> jsstr) \<Rightarrow> num_map \<Rightarrow> num_map" where
  "rank_data t totals =
     (let sorted_totals = sort_by (descending snd) totals
      in if MAX_RANK_MODELS < length sorted_totals
         then take MAX_RANK_MODELS sorted_totals @ [(t ([20854, 20182]), foldl (\<lambda>s x. num_add s (snd x)) (Fin 0) (drop MAX_RANK_MODELS sorted_totals))]
         else sorted_totals)"

record charts =
  ch_pie :: num_map
  ch_line :: "bar list"
  ch_model_line :: "line_point list"
  ch_rank :: num_map
  ch_trend :: trend_data
  ch_totals :: processed
  ch_colors :: "(jsstr \<times> jsstr) list"

subsection \<open>Colours\<close>

definition baseColors :: "jsstr list" where
  "baseColors = map lit [
     ''#1664FF'', ''#1AC6FF'', ''#FF8A00'', ''#3CC780'', ''#7442D4'', ''#FFC400'', ''#304D77'', ''#B48DEB'', ''#009488'', ''#FF7DDA'']"

definition extendedColors :: "jsstr list" where
  "extendedColors = map lit [
     ''#1664FF'', ''#B2CFFF'', ''#1AC6FF'', ''#94EFFF'', ''#FF8A00'', ''#FFCE7A'', ''#3CC780'', ''#B9EDCD'', ''#7442D4'', ''#DDC5FA'', ''#FFC400'',
     ''#FAE878'', ''#304D77'', ''#8B959E'', ''#B48DEB'', ''#EFE3FF'', ''#009488'', ''#59BAA8'', ''#FF7DDA'', ''#FFCFEE'']"

definition modelColorMap :: "(jsstr \<times> jsstr) list" where
  "modelColorMap = [
     (lit ''dall-e'', lit ''rgb(147,112,219)''), (lit ''dall-e-3'', lit ''rgb(153,50,204)''), (lit ''gpt-3.5-turbo'', lit ''rgb(184,227,167)''),
     (lit ''gpt-3.5-turbo-0613'', lit ''rgb(60,179,113)''), (lit ''gpt-3.5-turbo-1106'', lit ''rgb(32,178,170)''),
     (lit ''gpt-3.5-turbo-16k'', lit ''rgb(149,252,206)''), (lit ''gpt-3.5-turbo-16k-0613'', lit ''rgb(119,255,214)''),
     (lit ''gpt-3.5-turbo-instruct'', lit ''rgb(175,238,238)''), (lit ''gpt-4'', lit ''rgb(135,206,235)''),
     (lit ''gpt-4-0613'', lit ''rgb(100,149,237)''), (lit ''gpt-4-1106-preview'', lit ''rgb(30,144,255)''),
     (lit ''gpt-4-0125-preview'', lit ''rgb(2,177,236)''), (lit ''gpt-4-turbo-preview'', lit ''rgb(2,177,255)''),
     (lit ''gpt-4-32k'', lit ''rgb(104,111,238)''), (lit ''gpt-4-32k-0613'', lit ''rgb(61,71,139)''), (lit ''gpt-4-all'', lit ''rgb(65,105,225)''),
     (lit ''gpt-4-gizmo-*'', lit ''rgb(0,0,255)''), (lit ''gpt-4-vision-preview'', lit ''rgb(25,25,112)''),
     (lit ''text-ada-001'', lit ''rgb(255,192,203)''), (lit ''text-babbage-001'', lit ''rgb(255,160,122)''),
     (lit ''text-curie-001'', lit ''rgb(219,112,147)''), (lit ''text-davinci-003'', lit ''rgb(219,112,147)''),
     (lit ''text-davinci-edit-001'', lit ''rgb(255,105,180)''), (lit ''text-embedding-ada-002'', lit ''rgb(255,182,193)''),
     (lit ''text-embedding-v1'', lit ''rgb(255,174,185)''), (lit ''text-moderation-latest'', lit ''rgb(255,130,171)''),
     (lit ''text-moderation-stable'', lit ''rgb(255,160,122)''), (lit ''tts-1'', lit ''rgb(255,140,0)''), (lit ''tts-1-1106'', lit ''rgb(255,165,0)''),
     (lit ''tts-1-hd'', lit ''rgb(255,215,0)''), (lit ''tts-1-hd-1106'', lit ''rgb(255,223,0)''), (lit ''whisper-1'', lit ''rgb(245,245,220)''),
     (lit ''claude-3-opus-20240229'', lit ''rgb(255,132,31)''), (lit ''claude-3-sonnet-20240229'', lit ''rgb(253,135,93)''),
     (lit ''claude-3-haiku-20240307'', lit ''rgb(255,175,146)'')]"

text \<open>The hash wraps at 32 bits in every round.\<close>

definition color_hash :: "jsstr \<Rightarrow> int" where
  "color_hash s = foldl (\<lambda>h c. to_int32 (to_int32 (h * 2 ^ 5) - h + int c)) 0 s"

definition modelToColor :: "jsstr \<Rightarrow> jsstr" where
  "modelToColor m = (case map_of modelColorMap m of
     Some c \<Rightarrow> c
   | None \<Rightarrow> (let palette = (if 10 < length m then extendedColors else baseColors) in palette ! nat (\<bar>color_hash m\<bar> mod int (length palette))))"

definition generateModelColors :: "jsstr list \<Rightarrow> (jsstr \<times> jsstr) list \<Rightarrow> (jsstr \<times> jsstr) list" where
  "generateModelColors models known = map (\<lambda>m. (m, case map_of modelColorMap m of
     Some c \<Rightarrow> c
   | None \<Rightarrow> (case map_of known m of Some c \<Rightarrow> if c \<noteq> [] then c else modelToColor m | None \<Rightarrow> modelToColor m))) models"

subsection \<open>All charts\<close>

definition updateChartData :: "clock \<Rightarrow> (jsstr \<Rightarrow> jsstr \<Rightarrow> bool) \<Rightarrow> (jsstr \<Rightarrow> jsstr) \<Rightarrow> store \<Rightarrow> jsstr \<Rightarrow> quota_row list \<Rightarrow> charts" where
  "updateChartData clk collates t st mode rows =
     (let p = processRawData clk mode rows; agg = aggregateDataByTimeAndModel clk mode rows; totals = model_totals agg;
          pts = generateChartTimePoints clk mode agg rows
      in \<lparr>ch_pie = sort_by (descending snd) totals,
          ch_line = sort_by (\<lambda>a b. collates (bar_Time a) (bar_Time b)) (concat (map (time_bars st agg (uniqueModels p)) pts)),
          ch_model_line = sort_by (\<lambda>a b. collates (lp_Time a) (lp_Time b))
            (concat (map (\<lambda>time. map (\<lambda>m. \<lparr>lp_Time = time, lp_Model = m, lp_Count = agg_count agg time m\<rparr>) (uniqueModels p)) pts)),
          ch_rank = rank_data t totals, ch_trend = calculateTrendData mode p, ch_totals = p, ch_colors = generateModelColors (uniqueModels p) []\<rparr>)"

section \<open>Users\<close>

definition user_totals :: "quota_row list \<Rightarrow> num_map" where
  "user_totals rows = foldl (\<lambda>m r. AList.update (q_username r) (num_add (get_or_zero m (q_username r)) (q_quota r)) m) [] rows"

definition user_ranking :: "nat \<Rightarrow> quota_row list \<Rightarrow> num_map" where
  "user_ranking limit rows = take limit (sort_by (descending snd) (user_totals rows))"

text \<open>Ranking and trend of the users that consumed most. An empty user name counts as none.\<close>

definition processUserData :: "clock \<Rightarrow> jsstr \<Rightarrow> nat \<Rightarrow> quota_row list \<Rightarrow> num_map \<times> (jsstr \<times> jsstr \<times> jsnum) list" where
  "processUserData clk mode limit rows =
     (let ranking = user_ranking limit rows; top = map fst ranking; time = row_time clk mode rows;
          shown = filter (\<lambda>r. q_username r \<in> set top \<and> q_username r \<noteq> []) rows;
          m = foldl (\<lambda>m r. let k = chart_key (time r) (q_username r) in AList.update k (num_add (map_num (initializeMap k m) k) (q_quota r)) m) [] shown;
          pts = sort_by units_less (foldl set_add [] (map time rows))
      in (ranking, concat (map (\<lambda>tm. map (\<lambda>u. (tm, u, get_or_zero m (chart_key tm u))) top) pts)))"

section \<open>Loading\<close>

definition no_data_row :: "jsnum \<Rightarrow> quota_row" where
  "no_data_row now = \<lparr>q_created_at = now, q_model_name = [26080, 25968, 25454], q_username = [], q_quota = Fin 0, q_count = Fin 0, q_token_used = Undefined,
     q_prompt_tokens = Undefined, q_completion_tokens = Undefined, q_cache_read_tokens = Undefined, q_cache_write_tokens = Undefined\<rparr>"

text \<open>The rows of a successful answer; \<open>None\<close> is an answer without success.\<close>

definition loadQuotaData :: "jsnum \<Rightarrow> quota_row list option \<Rightarrow> quota_row list" where
  "loadQuotaData now answer = (case answer of
     None \<Rightarrow> []
   | Some rows \<Rightarrow> sort_by (\<lambda>a b. num_lt (num_sub (q_created_at a) (q_created_at b)) (Fin 0)) (if rows = [] then [no_data_row now] else rows))"

text \<open>Rates over the chosen period, in minutes.\<close>

definition average :: "jsnum \<Rightarrow> jsnum \<Rightarrow> jsstr" where
  "average x minutes = (if num_div x minutes = NaN then lit ''0'' else to_fixed 3 (num_div x minutes))"

definition performanceMetrics :: "jsnum \<Rightarrow> jsnum \<Rightarrow> jsnum \<Rightarrow> jsnum \<Rightarrow> jsstr \<times> jsstr \<times> jsnum" where
  "performanceMetrics start_ms end_ms requests tokens =
     (let timeDiff = num_div (num_sub end_ms start_ms) (Fin 60000) in (average requests timeDiff, average tokens timeDiff, timeDiff))"

end
