(* ===== verification/Dashboard_Thms.thy ===== *)
theory Dashboard_Thms
  imports Dashboard
begin

text \<open>
  What the charts of the dashboard show of the usage rows: sums per label and model, when they add up to the totals
  and when rows are lost.
\<close>

section \<open>Exact sums\<close>

text \<open>A number that is an integer, and its value.\<close>

definition int_of :: "jsnum \<Rightarrow> int" where
  "int_of x = (case x of Fin q \<Rightarrow> \<lfloor>q\<rfloor> | _ \<Rightarrow> 0)"

definition is_int :: "jsnum \<Rightarrow> bool" where
  "is_int x \<longleftrightarrow> x = Fin (of_int (int_of x))"

lemma int_of_Fin [simp]: "int_of (Fin (of_int i)) = i" "is_int (Fin (of_int i))"
  by (simp_all add: int_of_def is_int_def)

text \<open>Integers whose absolute values add up to less than \<open>2\<^sup>5\<^sup>3\<close> are added without rounding, in any order.\<close>

definition exact :: "jsnum list \<Rightarrow> bool" where
  "exact xs \<longleftrightarrow> list_all is_int xs \<and> (\<Sum>x\<leftarrow>xs. \<bar>int_of x\<bar>) < 2 ^ 53"

lemma abs_sum_le: "\<bar>\<Sum>x\<leftarrow>xs. f x :: int\<bar> \<le> (\<Sum>x\<leftarrow>xs. \<bar>f x\<bar>)"
  by (induction xs) auto

section \<open>Accumulating in a map\<close>

text \<open>The sum of the values with a key, and whether a row of the data has it.\<close>

definition sum_of :: "('r \<Rightarrow> bool) \<Rightarrow> ('r \<Rightarrow> jsnum) \<Rightarrow> 'r list \<Rightarrow> int" where
  "sum_of P f rs = (\<Sum>r\<leftarrow>rs. if P r then int_of (f r) else 0)"

lemma total_append [simp]: "sum_of P f (rs @ ss) = sum_of P f rs + sum_of P f ss"
  by (simp add: sum_of_def)

lemma total_Cons [simp]: "sum_of P f (r # rs) = (if P r then int_of (f r) else 0) + sum_of P f rs"
  by (simp add: sum_of_def)

lemma total_Nil [simp]: "sum_of P f [] = 0"
  by (simp add: sum_of_def)

definition row_exact :: "('r \<Rightarrow> jsnum) \<Rightarrow> 'r list \<Rightarrow> bool" where
  "row_exact f rs \<longleftrightarrow> exact (map f rs)"

lemma total_bound: "\<bar>sum_of P f rs\<bar> \<le> (\<Sum>r\<leftarrow>rs. \<bar>int_of (f r)\<bar>)"
  unfolding sum_of_def by (rule order_trans [OF abs_sum_le]) (auto intro!: sum_list_mono)

lemma row_exact_prefix: "row_exact f (rs @ ss) \<Longrightarrow> row_exact f rs"
proof -
  assume "row_exact f (rs @ ss)"
  moreover have "0 \<le> (\<Sum>x\<leftarrow>ss. \<bar>int_of (f x)\<bar>)" by (rule sum_list_nonneg) auto
  ultimately show ?thesis by (auto simp: row_exact_def exact_def comp_def)
qed

lemma total_small: "row_exact f rs \<Longrightarrow> \<bar>sum_of P f rs\<bar> < 2 ^ 53"
  using total_bound [of P f rs] by (simp add: row_exact_def exact_def comp_def)

lemma add_total:
  assumes "row_exact f (rs @ [r])" "P r"
  shows "num_add (Fin (of_int (sum_of P f rs))) (f r) = Fin (of_int (sum_of P f (rs @ [r])))"
proof -
  obtain i where i: "f r = Fin (of_int i)" using assms(1) by (auto simp: row_exact_def exact_def is_int_def)
  then have "\<bar>sum_of P f rs + i\<bar> < 2 ^ 53" using total_small [OF assms(1), of P] assms(2) by simp
  then show ?thesis using num_add_int [of "sum_of P f rs" i] assms(2) i by simp
qed

lemma foldl_add_total:
  assumes "row_exact f rs"
  shows "foldl (\<lambda>s r. num_add s (f r)) (Fin 0) rs = Fin (of_int (sum_of (\<lambda>_. True) f rs))"
  using assms
proof (induction rs rule: rev_induct)
  case (snoc r rs)
  then show ?case using row_exact_prefix [OF snoc.prems] add_total [OF snoc.prems, of "\<lambda>_. True"] by simp
qed simp

text \<open>One row more in a map whose entries are the totals of the rows so far.\<close>

lemma update_num_map:
  assumes "row_exact f (rs @ [r])"
    and "\<And>k. map_of m k = (if k \<in> key ` set rs then Some (Fin (of_int (sum_of (\<lambda>r. key r = k) f rs))) else None)"
  shows "map_of (updateMapValue m (key r) (f r)) k =
    (if k \<in> key ` set (rs @ [r]) then Some (Fin (of_int (sum_of (\<lambda>r. key r = k) f (rs @ [r])))) else None)"
proof -
  have "sum_of (\<lambda>r'. key r' = key r) f rs = 0" if "key r \<notin> key ` set rs"
    using that by (induction rs) (auto simp: sum_of_def)
  then have base: "map_num (if map_has m (key r) then m else AList.update (key r) (Fin 0) m) (key r) = Fin (of_int (sum_of (\<lambda>r'. key r' = key r) f rs))"
    by (auto simp: map_has_def map_num_def assms(2) update_conv')
  have "num_add (Fin (of_int (sum_of (\<lambda>r'. key r' = key r) f rs))) (f r) = Fin (of_int (sum_of (\<lambda>r'. key r' = key r) f (rs @ [r])))"
    using add_total [OF assms(1), of "\<lambda>r'. key r' = key r"] by simp
  then show ?thesis unfolding updateMapValue_def Let_def base by (auto simp: update_conv' map_has_def assms(2))
qed

lemma initialize_update: "updateMapValue (initializeMap k m) k v = updateMapValue m k v"
  by (simp add: initializeMap_def updateMapValue_def map_has_def update_conv')

lemma accumulate:
  assumes "row_exact f rs"
  shows "map_of (foldl (\<lambda>m r. updateMapValue m (key r) (f r)) [] rs) k =
    (if k \<in> key ` set rs then Some (Fin (of_int (sum_of (\<lambda>r. key r = k) f rs))) else None)"
  using assms
proof (induction rs arbitrary: k rule: rev_induct)
  case (snoc r rs)
  note IH = snoc.IH [OF row_exact_prefix [OF snoc.prems]]
  show ?case using update_num_map [OF snoc.prems, of "foldl (\<lambda>m r. updateMapValue m (key r) (f r)) [] rs" key k] IH by (simp only: foldl_append foldl.simps)
qed simp

lemma total_partition:
  assumes "distinct ks" "\<forall>r \<in> set rs. P r \<longrightarrow> key r \<in> set ks"
  shows "(\<Sum>k\<leftarrow>ks. sum_of (\<lambda>r. key r = k \<and> P r) f rs) = sum_of P f rs"
  using assms(2)
proof (induction rs)
  case (Cons r rs)
  have one: "(\<Sum>k\<leftarrow>ks. if key r = k \<and> P r then int_of (f r) else 0) = (if P r then int_of (f r) else 0)"
    using assms(1) Cons.prems by (auto simp: sum_list_distinct_conv_sum_set sum.delta')
  show ?case using Cons one by (simp add: sum_list_addf)
qed simp

section \<open>Totals and trends\<close>

lemma processed_parts:
  "totalQuota (foldl (process_row time) p rs) = foldl (\<lambda>s r. num_add s (q_quota r)) (totalQuota p) rs"
  "totalTimes (foldl (process_row time) p rs) = foldl (\<lambda>s r. num_add s (q_count r)) (totalTimes p) rs"
  "timePoints (foldl (process_row time) p rs) = foldl set_add (timePoints p) (map time rs)"
  "uniqueModels (foldl (process_row time) p rs) = foldl set_add (uniqueModels p) (map q_model_name rs)"
  "timeQuotaMap (foldl (process_row time) p rs) = foldl (\<lambda>m r. updateMapValue m (time r) (q_quota r)) (timeQuotaMap p) rs"
  "timeCountMap (foldl (process_row time) p rs) = foldl (\<lambda>m r. updateMapValue m (time r) (q_count r)) (timeCountMap p) rs"
  "totalTokens (foldl (process_row time) p rs) = foldl (\<lambda>s r. add_val s (q_token_used r)) (totalTokens p) rs"
  by (induction rs arbitrary: p) (simp_all add: process_row_def Let_def initialize_update)

lemma or_zero_int [simp]: "or_zero (Fin q) = Fin q"
  by (simp add: or_zero_def)

lemma time_points:
  "distinct (timePoints (processRawData clk mode rows))"
  "set (timePoints (processRawData clk mode rows)) = row_time clk mode rows ` set rows"
  unfolding processRawData_def Let_def
  by (simp_all add: processed_parts empty_processed_def foldl_set_add distinct_sort_by)

lemma quota_trend:
  assumes "row_exact q_quota rows"
  shows "td_consumeQuota (calculateTrendData mode (processRawData clk mode rows)) =
    map (\<lambda>t. Fin (of_int (sum_of (\<lambda>r. row_time clk mode rows r = t) q_quota rows))) (timePoints (processRawData clk mode rows))"
  using accumulate [OF assms, of "row_time clk mode rows"] time_points(2) [of clk mode rows]
  by (simp add: calculateTrendData_def Let_def get_or_zero_def processRawData_def processed_parts empty_processed_def)

lemma count_trend:
  assumes "row_exact q_count rows"
  shows "td_times (calculateTrendData mode (processRawData clk mode rows)) =
    map (\<lambda>t. Fin (of_int (sum_of (\<lambda>r. row_time clk mode rows r = t) q_count rows))) (timePoints (processRawData clk mode rows))"
  using accumulate [OF assms, of "row_time clk mode rows"] time_points(2) [of clk mode rows]
  by (simp add: calculateTrendData_def Let_def get_or_zero_def processRawData_def processed_parts empty_processed_def)

text \<open>The trends add up: for whole numbers that stay below \<open>2\<^sup>5\<^sup>3\<close>, the quota and the requests of each time
  label are those of the rows with this label, every row has one label, and the totals are the sums of the trends.\<close>

lemma trends_add_up:
  assumes "row_exact q_quota rows" "row_exact q_count rows" and p: "p = processRawData clk mode rows" and t: "t = calculateTrendData mode p"
  shows "td_consumeQuota t = map (\<lambda>l. Fin (of_int (sum_of (\<lambda>r. row_time clk mode rows r = l) q_quota rows))) (timePoints p) \<and>
    td_times t = map (\<lambda>l. Fin (of_int (sum_of (\<lambda>r. row_time clk mode rows r = l) q_count rows))) (timePoints p) \<and>
    distinct (timePoints p) \<and> set (timePoints p) = row_time clk mode rows ` set rows \<and>
    totalQuota p = Fin (of_int (\<Sum>x\<leftarrow>td_consumeQuota t. int_of x)) \<and> totalTimes p = Fin (of_int (\<Sum>x\<leftarrow>td_times t. int_of x))"
proof -
  have part: "(\<Sum>l\<leftarrow>timePoints p. sum_of (\<lambda>r. row_time clk mode rows r = l) f rows) = sum_of (\<lambda>_. True) f rows" for f
    using total_partition [of "timePoints p" rows "\<lambda>_. True" "row_time clk mode rows" f] time_points [of clk mode rows] by (simp add: p)
  have "totalQuota p = Fin (of_int (sum_of (\<lambda>_. True) q_quota rows))" "totalTimes p = Fin (of_int (sum_of (\<lambda>_. True) q_count rows))"
    using foldl_add_total [OF assms(1)] foldl_add_total [OF assms(2)] by (simp_all add: p processRawData_def Let_def processed_parts empty_processed_def)
  then show ?thesis using time_points [of clk mode rows] quota_trend [OF assms(1)] count_trend [OF assms(2)] part by (simp add: t p comp_def)
qed

section \<open>Labels\<close>

text \<open>A calendar with years of four digits.\<close>

definition calendar_ok :: "calendar \<Rightarrow> bool" where
  "calendar_ok d \<longleftrightarrow> 1000 \<le> cal_year d \<and> cal_year d < 10000 \<and> cal_month d < 12 \<and> cal_date d \<le> 31 \<and> cal_hours d < 24"

text \<open>A calendar whose days are seconds and whose year 2025 begins at 0.\<close>

definition sample_clock :: clock where
  "sample_clock x = (case x of
     Fin q \<Rightarrow> \<lparr>cal_year = (if q < 0 then 2024 else 2025), cal_month = 0, cal_date = nat (\<lfloor>q / 1000\<rfloor> mod 28) + 1, cal_hours = 0\<rparr>
   | _ \<Rightarrow> \<lparr>cal_year = 2025, cal_month = 0, cal_date = 1, cal_hours = 0\<rparr>)"

definition sample_row :: "nat \<Rightarrow> quota_row" where
  "sample_row d = (no_data_row (Fin (of_nat d)))\<lparr>q_quota := Fin (of_nat d + 1), q_count := Fin 1\<rparr>"

lemma sample_clock_ok: "calendar_ok (sample_clock x)"
proof -
  have "nat (i mod 28) \<le> 30" for i :: int using pos_mod_bound [of 28 i] by linarith
  then show ?thesis by (auto simp: sample_clock_def calendar_ok_def split: jsnum.split)
qed

lemma sample_label:
  assumes "d < 28"
  shows "sample_clock (num_mul (Fin (of_nat d)) (Fin 1000)) = \<lparr>cal_year = 2025, cal_month = 0, cal_date = d + 1, cal_hours = 0\<rparr>"
proof -
  have "num_mul (Fin (of_nat d)) (Fin 1000) = Fin (of_int (1000 * int d))" using rnd_int [of "1000 * int d"] assms by (simp add: mult.commute)
  then show ?thesis using assms by (simp add: sample_clock_def)
qed

lemma sample_years: "\<forall>d \<in> set ds. d < 28 \<Longrightarrow> \<not> show_year sample_clock (map sample_row ds)"
proof -
  assume ds: "\<forall>d \<in> set ds. d < 28"
  have "map (\<lambda>ts. cal_year (sample_clock (num_mul ts (Fin 1000)))) (map q_created_at (map sample_row ds)) = map (\<lambda>d. 2025) ds"
    using ds by (simp add: sample_row_def no_data_row_def sample_label del: num_mul.simps)
  moreover have "length (remdups (map (\<lambda>d. 2025 :: nat) ds)) \<le> 1" by (simp add: length_remdups_card_conv image_constant_conv)
  ultimately show ?thesis unfolding show_year_def isDataCrossYear_def by (simp only: not_less)
qed

lemma pad2_length: "n < 100 \<Longrightarrow> length (pad2 n) = 2"
  using less_mult_imp_div_less [of n 10 10] by (simp add: pad2_def nat_digits.simps)

lemma year_digits: "1000 \<le> n \<Longrightarrow> n < 10000 \<Longrightarrow> \<exists>a b c d. nat_digits n = [a, b, c, d] \<and> c \<noteq> 45"
  using less_mult_imp_div_less [of n 10 1000] div_le_mono [of 1000 n 100] div_le_mono [of 1000 n 10]
  by (simp add: nat_digits.simps [of n] nat_digits.simps [of "n div 10"] nat_digits.simps [of "n div 100"] nat_digits.simps [of "n div 1000"] div_mult2_eq [symmetric])

lemma day_label_facts:
  assumes "calendar_ok d"
  shows "length (day_label d y) = (if y then 10 else 5)" "(day_label d y ! 2 = 45) = (\<not> y)"
proof -
  have m: "length (pad2 (cal_month d + 1)) = 2" "length (pad2 (cal_date d)) = 2" using assms by (auto simp: calendar_ok_def intro!: pad2_length)
  obtain a b c e where y: "nat_digits (cal_year d) = [a, b, c, e]" "c \<noteq> 45" using year_digits [of "cal_year d"] assms by (auto simp: calendar_ok_def)
  show "length (day_label d y) = (if y then 10 else 5)" using m y by (simp add: day_label_def lit_simps)
  show "(day_label d y ! 2 = 45) = (\<not> y)" using m y by (auto simp: day_label_def lit_simps nth_append)
qed

definition label_length :: "jsstr \<Rightarrow> bool \<Rightarrow> nat" where
  "label_length mode y = (if y then 10 else 5) + (if mode = lit ''hour'' then 6 else if mode = lit ''week'' then 3 + (if y then 10 else 5) else 0)"

lemma label_facts:
  assumes "\<And>x. calendar_ok (clk x)"
  shows "length (timestamp2string1 clk ts mode y) = label_length mode y" "(timestamp2string1 clk ts mode y ! 2 = 45) = (\<not> y)"
proof -
  have h: "length (pad2 (cal_hours (clk x))) = 2" for x using assms [of x] by (auto simp: calendar_ok_def intro!: pad2_length)
  note d = day_label_facts [OF assms]
  show "length (timestamp2string1 clk ts mode y) = label_length mode y"
    by (simp add: timestamp2string1_def Let_def label_length_def d(1) h) (simp add: lit_simps)
  have "timestamp2string1 clk ts mode y ! 2 = day_label (clk (num_mul ts (Fin 1000))) y ! 2"
    using d(1) [of "num_mul ts (Fin 1000)" y] by (simp add: timestamp2string1_def Let_def nth_append split: if_split_asm)
  then show "(timestamp2string1 clk ts mode y ! 2 = 45) = (\<not> y)" using d(2) by simp
qed

lemma chart_key_inj: "length a = length b \<Longrightarrow> chart_key a m = chart_key b n \<longleftrightarrow> a = b \<and> m = n"
  by (auto simp: chart_key_def)

section \<open>Chart data\<close>

text \<open>An entry of the aggregation holds the sums of the rows with its label and model.\<close>

lemma aggregate_lookup:
  fixes m :: jsstr and time :: "quota_row \<Rightarrow> jsstr"
  assumes "row_exact q_quota rows" "row_exact q_count rows" "\<forall>r \<in> set rows. length (time r) = n" "length l = n"
  defines "sel \<equiv> \<lambda>r. time r = l \<and> q_model_name r = m"
  shows "map_of (foldl (aggregate_row time) [] rows) (chart_key l m) = (if \<exists>r \<in> set rows. sel r
    then Some \<lparr>ag_time = l, ag_model = m, ag_quota = Fin (of_int (sum_of sel q_quota rows)), ag_count = Fin (of_int (sum_of sel q_count rows))\<rparr> else None)"
  using assms(1-3)
proof (induction rows rule: rev_induct)
  case (snoc r rs)
  note IH = snoc.IH [OF row_exact_prefix [OF snoc.prems(1)] row_exact_prefix [OF snoc.prems(2)]]
  define A where "A = foldl (aggregate_row time) [] rs"
  have step: "foldl (aggregate_row time) [] (rs @ [r]) = aggregate_row time A r" by (simp add: A_def)
  have none: "sum_of sel f rs = 0" if "\<not> (\<exists>r \<in> set rs. sel r)" for f using that by (induction rs) (auto simp: sum_of_def)
  show ?case
  proof (cases "sel r")
    case True
    have key: "chart_key (time r) (q_model_name r) = chart_key l m" "time r = l" "q_model_name r = m" using True by (simp_all add: sel_def)
    have "num_add (Fin (of_int (sum_of sel q_quota rs))) (q_quota r) = Fin (of_int (sum_of sel q_quota (rs @ [r])))"
      "num_add (Fin (of_int (sum_of sel q_count rs))) (q_count r) = Fin (of_int (sum_of sel q_count (rs @ [r])))"
      by (rule add_total [where P = sel, OF snoc.prems(1) True], rule add_total [where P = sel, OF snoc.prems(2) True])
    moreover have "(case map_of A (chart_key l m) of Some a \<Rightarrow> a
        | None \<Rightarrow> \<lparr>ag_time = l, ag_model = m, ag_quota = Fin 0, ag_count = Fin 0\<rparr>) =
      \<lparr>ag_time = l, ag_model = m, ag_quota = Fin (of_int (sum_of sel q_quota rs)), ag_count = Fin (of_int (sum_of sel q_count rs))\<rparr>"
      using IH snoc.prems(3) none by (cases "\<exists>r \<in> set rs. sel r") (simp_all add: A_def)
    moreover have "\<exists>r \<in> set (rs @ [r]). sel r" using True by simp
    moreover have "aggregate_row time A r = (let old = (case map_of A (chart_key l m) of Some a \<Rightarrow> a
        | None \<Rightarrow> \<lparr>ag_time = l, ag_model = m, ag_quota = Fin 0, ag_count = Fin 0\<rparr>)
      in AList.update (chart_key l m) (old\<lparr>ag_quota := num_add (ag_quota old) (q_quota r), ag_count := num_add (ag_count old) (q_count r)\<rparr>) A)"
      unfolding aggregate_row_def Let_def key(2,3) ..
    ultimately show ?thesis unfolding step by (simp add: update_conv' Let_def del: total_append)
  next
    case False
    then have "chart_key (time r) (q_model_name r) \<noteq> chart_key l m" using snoc.prems(3) assms(4) chart_key_inj [of "time r" l] by (auto simp: sel_def)
    then show ?thesis using IH snoc.prems(3) False by (simp add: aggregate_row_def Let_def update_conv')
  qed
qed simp

text \<open>A label of another kind is not found.\<close>

lemma aggregate_other:
  assumes "\<forall>r \<in> set rows. 2 < length (time r) \<and> (time r ! 2 = 45) \<noteq> (l ! 2 = 45)" "2 < length l"
  shows "map_of (foldl (aggregate_row time) [] rows) (chart_key l m) = None"
  using assms(1)
proof (induction rows rule: rev_induct)
  case (snoc r rs)
  have "chart_key (time r) (q_model_name r) ! 2 = time r ! 2" "chart_key l m ! 2 = l ! 2" using snoc.prems assms(2) by (simp_all add: chart_key_def nth_append)
  then have "chart_key (time r) (q_model_name r) \<noteq> chart_key l m" using snoc.prems by auto
  then show ?case using snoc by (simp add: aggregate_row_def Let_def update_conv')
qed simp

lemma keys_distinct: "distinct (map fst (foldl (aggregate_row time) [] rows))"
  by (induction rows rule: rev_induct) (simp_all add: aggregate_row_def Let_def distinct_update)

lemma keys_set: "fst ` set (foldl (aggregate_row time) [] rows) = (\<lambda>r. chart_key (time r) (q_model_name r)) ` set rows"
  by (induction rows rule: rev_induct) (simp_all add: aggregate_row_def Let_def dom_update)

definition agg_of :: "(quota_row \<Rightarrow> jsstr) \<Rightarrow> quota_row list \<Rightarrow> jsstr \<Rightarrow> jsstr \<Rightarrow> aggregate" where
  "agg_of time rows l m = \<lparr>ag_time = l, ag_model = m, ag_quota = Fin (of_int (sum_of (\<lambda>r. time r = l \<and> q_model_name r = m) q_quota rows)),
     ag_count = Fin (of_int (sum_of (\<lambda>r. time r = l \<and> q_model_name r = m) q_count rows))\<rparr>"

lemma aggregate_entries:
  assumes "row_exact q_quota rows" "row_exact q_count rows" "\<forall>r \<in> set rows. length (time r) = n"
  shows "set (foldl (aggregate_row time) [] rows) = (\<lambda>r. (chart_key (time r) (q_model_name r), agg_of time rows (time r) (q_model_name r))) ` set rows"
proof -
  let ?agg = "foldl (aggregate_row time) [] rows"
  have look: "map_of ?agg (chart_key (time r) (q_model_name r)) = Some (agg_of time rows (time r) (q_model_name r))" if "r \<in> set rows" for r
    using aggregate_lookup [OF assms(1,2,3), of "time r" "q_model_name r"] that assms(3) by (auto simp: agg_of_def)
  have "(k, a) \<in> set ?agg \<longleftrightarrow> (\<exists>r \<in> set rows. k = chart_key (time r) (q_model_name r) \<and> a = agg_of time rows (time r) (q_model_name r))" for k a
  proof
    assume ka: "(k, a) \<in> set ?agg"
    then obtain r where r: "r \<in> set rows" "k = chart_key (time r) (q_model_name r)" using keys_set [of time rows] by (metis (no_types, lifting) fst_conv image_iff)
    moreover have "map_of ?agg k = Some a" using ka keys_distinct by (simp add: map_of_is_SomeI)
    ultimately show "\<exists>r \<in> set rows. k = chart_key (time r) (q_model_name r) \<and> a = agg_of time rows (time r) (q_model_name r)" using look [of r] by auto
  next
    assume "\<exists>r \<in> set rows. k = chart_key (time r) (q_model_name r) \<and> a = agg_of time rows (time r) (q_model_name r)"
    then show "(k, a) \<in> set ?agg" using look map_of_SomeD by fastforce
  qed
  then show ?thesis by auto
qed

lemma sum_sort_by: "(\<Sum>x\<leftarrow>sort_by lt xs. f x :: int) = (\<Sum>x\<leftarrow>xs. f x)"
  by (metis mset_map mset_sort_by sum_mset_sum_list)

lemma sum_concat: "(\<Sum>x\<leftarrow>concat (map f ys). g x :: int) = (\<Sum>y\<leftarrow>ys. \<Sum>x\<leftarrow>f y. g x)"
  by (induction ys) auto

lemma sum_bars:
  "(\<Sum>b\<leftarrow>time_bars st agg models l. int_of (bar_rawQuota b)) = (\<Sum>m\<leftarrow>models. int_of (agg_quota agg l m))"
  by (simp add: time_bars_def Let_def comp_def sum_sort_by)

lemma set_bars: "b \<in> set (time_bars st agg models l) \<Longrightarrow> bar_Time b = l \<and> bar_Model b \<in> set models \<and> bar_rawQuota b = agg_quota agg l (bar_Model b)"
  by (auto simp: time_bars_def Let_def)

section \<open>The bars\<close>

lemma agg_quota_total:
  assumes "row_exact q_quota rows" "row_exact q_count rows" "\<forall>r \<in> set rows. length (time r) = n" "length l = n"
  shows "agg_quota (foldl (aggregate_row time) [] rows) l m = Fin (of_int (sum_of (\<lambda>r. time r = l \<and> q_model_name r = m) q_quota rows))"
proof -
  have "sum_of (\<lambda>r. time r = l \<and> q_model_name r = m) q_quota rows = 0" if "\<not> (\<exists>r \<in> set rows. time r = l \<and> q_model_name r = m)"
    using that by (induction rows) (auto simp: sum_of_def)
  then show ?thesis using aggregate_lookup [OF assms, of m] by (auto simp: agg_quota_def)
qed

lemma bars_total:
  assumes "row_exact q_quota rows" "row_exact q_count rows" "\<forall>r \<in> set rows. length (time r) = n" "\<forall>l \<in> set pts. length l = n"
    and "distinct pts" "distinct models" "set models = q_model_name ` set rows"
  shows "(\<Sum>b\<leftarrow>concat (map (time_bars st (foldl (aggregate_row time) [] rows) models) pts). int_of (bar_rawQuota b)) =
    sum_of (\<lambda>r. time r \<in> set pts) q_quota rows"
proof -
  let ?agg = "foldl (aggregate_row time) [] rows"
  have "(\<Sum>b\<leftarrow>time_bars st ?agg models l. int_of (bar_rawQuota b)) = sum_of (\<lambda>r. time r = l) q_quota rows" if "l \<in> set pts" for l
  proof -
    have "(\<Sum>m\<leftarrow>models. sum_of (\<lambda>r. q_model_name r = m \<and> time r = l) q_quota rows) = sum_of (\<lambda>r. time r = l) q_quota rows"
      using assms(6,7) by (intro total_partition) auto
    then show ?thesis using agg_quota_total [OF assms(1-3)] assms(4) that by (simp add: sum_bars conj_commute)
  qed
  then have "(\<Sum>b\<leftarrow>concat (map (time_bars st ?agg models) pts). int_of (bar_rawQuota b)) = (\<Sum>l\<leftarrow>pts. sum_of (\<lambda>r. time r = l) q_quota rows)"
    unfolding sum_concat by (intro arg_cong [of _ _ sum_list] map_cong) auto
  also have "\<dots> = (\<Sum>l\<leftarrow>pts. sum_of (\<lambda>r. time r = l \<and> time r \<in> set pts) q_quota rows)"
    by (intro arg_cong [of _ _ sum_list] map_cong refl) (auto simp: sum_of_def intro!: arg_cong [of _ _ sum_list])
  also have "\<dots> = sum_of (\<lambda>r. time r \<in> set pts) q_quota rows" using assms(5) by (intro total_partition) auto
  finally show ?thesis .
qed

lemma unique_models:
  "distinct (uniqueModels (processRawData clk mode rows))" "set (uniqueModels (processRawData clk mode rows)) = q_model_name ` set rows"
  by (simp_all add: processRawData_def Let_def processed_parts empty_processed_def foldl_set_add)

lemma row_label:
  assumes "\<And>x. calendar_ok (clk x)"
  shows "length (row_time clk mode rows r) = label_length mode (show_year clk rows)" "(row_time clk mode rows r ! 2 = 45) = (\<not> show_year clk rows)"
  using label_facts [OF assms] by (simp_all add: row_time_def)

text \<open>The labels of the chart when the rows have enough of them.\<close>

lemma chart_points_enough:
  assumes "\<And>x. calendar_ok (clk x)" "row_exact q_quota rows" "row_exact q_count rows" "7 \<le> card (row_time clk mode rows ` set rows)"
  defines "pts \<equiv> generateChartTimePoints clk mode (aggregateDataByTimeAndModel clk mode rows) rows"
  shows "distinct pts" "set pts = row_time clk mode rows ` set rows"
proof -
  have len: "\<forall>r \<in> set rows. length (row_time clk mode rows r) = label_length mode (show_year clk rows)" using row_label [OF assms(1)] by simp
  let ?l = "foldl set_add [] (map (\<lambda>a. ag_time (snd a)) (aggregateDataByTimeAndModel clk mode rows))"
  have l: "distinct ?l" "set ?l = row_time clk mode rows ` set rows"
    by (simp_all add: foldl_set_add aggregateDataByTimeAndModel_def aggregate_entries [OF assms(2,3) len] image_image agg_of_def)
  then have "\<not> length ?l < MAX_TREND_POINTS" using assms(4) distinct_card [OF l(1)] by (simp add: MAX_TREND_POINTS_def)
  then have "pts = ?l" by (simp add: pts_def generateChartTimePoints_def Let_def)
  then show "distinct pts" "set pts = row_time clk mode rows ` set rows" using l by simp_all
qed

lemma line_bars:
  "set (ch_line (updateChartData clk collates t st mode rows)) =
     (\<Union>l \<in> set (generateChartTimePoints clk mode (aggregateDataByTimeAndModel clk mode rows) rows).
        set (time_bars st (aggregateDataByTimeAndModel clk mode rows) (uniqueModels (processRawData clk mode rows)) l))"
  by (simp add: updateChartData_def Let_def)

lemma line_nonempty:
  assumes "rows \<noteq> []"
  shows "ch_line (updateChartData clk collates t st mode rows) \<noteq> []"
proof -
  let ?agg = "aggregateDataByTimeAndModel clk mode rows" and ?models = "uniqueModels (processRawData clk mode rows)"
  have "generateChartTimePoints clk mode ?agg rows \<noteq> []"
    by (auto simp: generateChartTimePoints_def Let_def generated_timestamps_def MAX_TREND_POINTS_def)
  then obtain l where l: "l \<in> set (generateChartTimePoints clk mode ?agg rows)" by (meson last_in_set)
  have "?models \<noteq> []" using unique_models(2) [of clk mode rows] assms by (metis image_is_empty set_empty)
  moreover have "length (time_bars st ?agg ?models l) = length ?models" by (simp add: time_bars_def Let_def)
  ultimately have "time_bars st ?agg ?models l \<noteq> []" by auto
  then have "last (time_bars st ?agg ?models l) \<in> set (ch_line (updateChartData clk collates t st mode rows))" unfolding line_bars using l last_in_set by blast
  then show ?thesis by auto
qed

text \<open>C26: with at least seven time labels the bars of the consumption chart show every row once: a bar is the sum of
  the rows with its label and its model, and all bars together are the total.\<close>

theorem bars_add_up:
  assumes "\<And>x. calendar_ok (clk x)" "row_exact q_quota rows" "row_exact q_count rows" "7 \<le> card (row_time clk mode rows ` set rows)"
    and c: "c = updateChartData clk collates t st mode rows"
  shows "(\<forall>b \<in> set (ch_line c). bar_rawQuota b =
      Fin (of_int (sum_of (\<lambda>r. row_time clk mode rows r = bar_Time b \<and> q_model_name r = bar_Model b) q_quota rows))) \<and>
    totalQuota (ch_totals c) = Fin (of_int (\<Sum>b\<leftarrow>ch_line c. int_of (bar_rawQuota b)))"
proof -
  let ?time = "row_time clk mode rows" and ?agg = "aggregateDataByTimeAndModel clk mode rows"
  have len: "\<forall>r \<in> set rows. length (?time r) = label_length mode (show_year clk rows)" using row_label [OF assms(1)] by simp
  define pts where "pts = generateChartTimePoints clk mode ?agg rows"
  have pts: "distinct pts" "set pts = ?time ` set rows" using chart_points_enough [OF assms(1-4)] by (simp_all add: pts_def)
  then have plen: "\<forall>l \<in> set pts. length l = label_length mode (show_year clk rows)" using len by auto
  note agg = agg_quota_total [OF assms(2,3) len, folded aggregateDataByTimeAndModel_def]
  have bars: "\<forall>b \<in> set (ch_line c). bar_rawQuota b = Fin (of_int (sum_of (\<lambda>r. ?time r = bar_Time b \<and> q_model_name r = bar_Model b) q_quota rows))"
  proof
    fix b assume "b \<in> set (ch_line c)"
    then obtain l where l: "l \<in> set pts" "b \<in> set (time_bars st ?agg (uniqueModels (processRawData clk mode rows)) l)" by (auto simp: c line_bars pts_def)
    then show "bar_rawQuota b = Fin (of_int (sum_of (\<lambda>r. ?time r = bar_Time b \<and> q_model_name r = bar_Model b) q_quota rows))"
      using set_bars [OF l(2)] agg [of l "bar_Model b"] plen by simp
  qed
  have "(\<Sum>b\<leftarrow>ch_line c. int_of (bar_rawQuota b)) = sum_of (\<lambda>r. ?time r \<in> set pts) q_quota rows"
    using bars_total [OF assms(2,3) len plen pts(1) unique_models, of st]
    by (simp add: c updateChartData_def Let_def sum_sort_by pts_def aggregateDataByTimeAndModel_def)
  also have "\<dots> = sum_of (\<lambda>_. True) q_quota rows" using pts(2) by (auto simp: sum_of_def intro!: arg_cong [of _ _ sum_list])
  finally have "(\<Sum>b\<leftarrow>ch_line c. int_of (bar_rawQuota b)) = sum_of (\<lambda>_. True) q_quota rows" .
  moreover have "totalQuota (ch_totals c) = Fin (of_int (sum_of (\<lambda>_. True) q_quota rows))"
    using foldl_add_total [OF assms(2)] by (simp add: c updateChartData_def Let_def processRawData_def processed_parts empty_processed_def)
  ultimately show ?thesis using bars by simp
qed

definition no_store :: store where
  "no_store = \<lparr>quota_display_type = None, status_text = None, quota_per_unit_text = None\<rparr>"

lemma sample_exact: "row_exact q_quota (map sample_row [1..<8])" "row_exact q_count (map sample_row [1..<8])"
  by code_simp+

theorem bars_add_up_witness:
  "\<exists>c. c = updateChartData sample_clock units_less id no_store (lit ''day'') (map sample_row [1..<8]) \<and>
     totalQuota (ch_totals c) = Fin (of_int (\<Sum>b\<leftarrow>ch_line c. int_of (bar_rawQuota b)))"
proof -
  have "row_time sample_clock (lit ''day'') (map sample_row [1..<8]) (sample_row d) = lit ''01-'' @ pad2 (d + 1)" if "d < 28" for d
  proof -
    have "\<not> show_year sample_clock (map sample_row [1..<8])" by (rule sample_years) auto
    then show ?thesis
      by (simp add: row_time_def timestamp2string1_def Let_def sample_row_def no_data_row_def sample_label [OF that] day_label_def del: num_mul.simps)
        (simp add: pad2_def nat_digits.simps lit_simps)
  qed
  then have "row_time sample_clock (lit ''day'') (map sample_row [1..<8]) ` set (map sample_row [1..<8]) = (\<lambda>d. lit ''01-'' @ pad2 (d + 1)) ` {1..<8}"
    by (auto simp: image_image)
  moreover have "inj_on (\<lambda>d. lit ''01-'' @ pad2 (d + 1)) {1..<8}" by (auto simp: inj_on_def pad2_def nat_digits.simps split: if_split_asm)
  ultimately have "7 \<le> card (row_time sample_clock (lit ''day'') (map sample_row [1..<8]) ` set (map sample_row [1..<8]))" by (simp add: card_image)
  then show ?thesis by (intro exI conjI) (rule refl, rule bars_add_up [OF sample_clock_ok sample_exact _ refl, THEN conjunct2])
qed

text \<open>C40: with fewer labels the chart invents seven of its own, and whether these carry the year is decided by the
  invented times. When that differs from the labels of the rows, as in the first days of a year, every bar is
  zero although the total above the chart is not.\<close>

theorem bars_vanish_at_new_year:
  assumes "\<And>x. calendar_ok (clk x)" "card (row_time clk mode rows ` set rows) < 7" "row_exact q_quota rows" "row_exact q_count rows"
    and "isDataCrossYear clk (generated_timestamps mode rows) \<noteq> show_year clk rows"
    and "b \<in> set (ch_line (updateChartData clk collates t st mode rows))"
  shows "bar_rawQuota b = Fin 0"
proof -
  let ?time = "row_time clk mode rows" and ?agg = "aggregateDataByTimeAndModel clk mode rows"
  have len: "\<forall>r \<in> set rows. length (?time r) = label_length mode (show_year clk rows)" using row_label [OF assms(1)] by simp
  let ?l = "foldl set_add [] (map (\<lambda>a. ag_time (snd a)) ?agg)"
  have l: "distinct ?l" "set ?l = ?time ` set rows"
    by (simp_all add: foldl_set_add aggregateDataByTimeAndModel_def aggregate_entries [OF assms(3,4) len] image_image agg_of_def)
  have "length ?l < MAX_TREND_POINTS" using assms(2) distinct_card [OF l(1)] l(2) by (simp add: MAX_TREND_POINTS_def)
  then obtain ts where ts: "b \<in> set (time_bars st ?agg (uniqueModels (processRawData clk mode rows))
      (timestamp2string1 clk ts mode (isDataCrossYear clk (generated_timestamps mode rows))))"
    using assms(6) by (auto simp: line_bars generateChartTimePoints_def Let_def)
  let ?g = "timestamp2string1 clk ts mode (isDataCrossYear clk (generated_timestamps mode rows))"
  have "map_of ?agg (chart_key ?g (bar_Model b)) = None"
    unfolding aggregateDataByTimeAndModel_def
    by (rule aggregate_other) (use label_facts [OF assms(1)] row_label [OF assms(1)] assms(5) in \<open>auto simp: label_length_def\<close>)
  then show ?thesis using set_bars [OF ts] by (simp add: agg_quota_def)
qed

theorem bars_vanish_at_new_year_witness:
  "\<exists>b. b \<in> set (ch_line (updateChartData sample_clock units_less id no_store (lit ''day'') [sample_row 0])) \<and> bar_rawQuota b = Fin 0 \<and>
     totalQuota (ch_totals (updateChartData sample_clock units_less id no_store (lit ''day'') [sample_row 0])) = Fin 1"
proof -
  let ?c = "updateChartData sample_clock units_less id no_store (lit ''day'') [sample_row 0]"
  have ex: "row_exact q_quota [sample_row 0]" "row_exact q_count [sample_row 0]" by (simp_all add: row_exact_def exact_def sample_row_def is_int_def int_of_def)
  have "Fin (- 518400) \<in> set (generated_timestamps (lit ''day'') [sample_row 0])" "Fin 0 \<in> set (generated_timestamps (lit ''day'') [sample_row 0])"
    by (simp_all add: generated_timestamps_def MAX_TREND_POINTS_def upt_rec sample_row_def no_data_row_def math_max_def getTimeInterval_def num_sub_def
        num_of_nat_def rnd_numeral)
  then have y: "{2024, 2025} \<subseteq> set (map (\<lambda>ts. cal_year (sample_clock (num_mul ts (Fin 1000)))) (generated_timestamps (lit ''day'') [sample_row 0]))"
    by (force simp: sample_clock_def rnd_numeral)
  have cross: "1 < length (remdups xs)" if "{2024, 2025 :: nat} \<subseteq> set xs" for xs
    using card_mono [OF finite_set that] by (simp add: length_remdups_card_conv)
  have "isDataCrossYear sample_clock (generated_timestamps (lit ''day'') [sample_row 0]) \<noteq> show_year sample_clock [sample_row 0]"
    using cross [OF y] sample_years [of "[0]"] by (simp add: isDataCrossYear_def)
  moreover have "totalQuota (ch_totals ?c) = Fin 1"
    by (simp add: updateChartData_def Let_def processRawData_def process_row_def empty_processed_def sample_row_def rnd_numeral)
  moreover obtain b where b: "b \<in> set (ch_line ?c)" using line_nonempty [of "[sample_row 0]"] by (metis last_in_set list.distinct(1))
  ultimately show ?thesis
    using bars_vanish_at_new_year [where clk = sample_clock and b = b, OF sample_clock_ok _ ex] by (intro exI [of _ b]) auto
qed

section \<open>The ranking and the pie\<close>

lemma row_exact_mset: "mset xs = mset ys \<Longrightarrow> row_exact f xs = row_exact f ys"
proof -
  assume m: "mset xs = mset ys"
  then have "set xs = set ys" by (metis set_mset_mset)
  moreover have "(\<Sum>x\<leftarrow>xs. \<bar>int_of (f x)\<bar>) = (\<Sum>x\<leftarrow>ys. \<bar>int_of (f x)\<bar>)" using m by (metis mset_map sum_mset_sum_list)
  ultimately show ?thesis by (simp add: row_exact_def exact_def comp_def list_all_iff)
qed

lemma row_exact_suffix: "row_exact f (rs @ ss) \<Longrightarrow> row_exact f ss"
  using row_exact_mset [of "rs @ ss" "ss @ rs" f] row_exact_prefix [of f ss rs] by (simp add: union_commute)

lemma sum_of_all: "sum_of (\<lambda>_. True) f rs = (\<Sum>r\<leftarrow>rs. int_of (f r))"
  by (simp add: sum_of_def)

text \<open>Cutting the ranking at twenty keeps its sum.\<close>

lemma rank_total:
  assumes "row_exact snd m"
  shows "(\<Sum>e\<leftarrow>rank_data t m. int_of (snd e)) = (\<Sum>e\<leftarrow>m. int_of (snd e))"
proof -
  let ?s = "sort_by (descending snd) m"
  have s: "row_exact snd ?s" using assms row_exact_mset [of ?s m snd] by simp
  then have "row_exact snd (drop MAX_RANK_MODELS ?s)" using row_exact_suffix [of snd "take MAX_RANK_MODELS ?s" "drop MAX_RANK_MODELS ?s"] by simp
  from foldl_add_total [OF this]
  have other: "int_of (foldl (\<lambda>s x. num_add s (snd x)) (Fin 0) (drop MAX_RANK_MODELS ?s)) = (\<Sum>e\<leftarrow>drop MAX_RANK_MODELS ?s. int_of (snd e))"
    by (simp add: sum_of_all)
  have "(\<Sum>e\<leftarrow>take MAX_RANK_MODELS ?s. int_of (snd e)) + (\<Sum>e\<leftarrow>drop MAX_RANK_MODELS ?s. int_of (snd e)) = (\<Sum>e\<leftarrow>?s. int_of (snd e))"
    by (metis append_take_drop_id map_append sum_list_append)
  then show ?thesis using other by (auto simp: rank_data_def Let_def sum_sort_by)
qed

lemma accumulate_keys: "distinct (map fst (foldl (\<lambda>m r. updateMapValue m (key r) (f r)) [] rs)) \<and>
    fst ` set (foldl (\<lambda>m r. updateMapValue m (key r) (f r)) [] rs) = key ` set rs"
  by (induction rs rule: rev_induct) (auto simp: updateMapValue_def Let_def distinct_update dom_update map_has_def)

text \<open>Entries that hold the sums of the rows with their key are as exact as the rows and have their sum.\<close>

lemma partition_exact:
  assumes "row_exact f rs" "distinct (map fst es)" "fst ` set es = key ` set rs"
    and e: "\<And>e. e \<in> set es \<Longrightarrow> g e = Fin (of_int (sum_of (\<lambda>r. key r = fst e \<and> True) f rs))"
  shows "row_exact g es" "sum_of (\<lambda>_. True) g es = sum_of (\<lambda>_. True) f rs"
proof -
  have part: "(\<Sum>e\<leftarrow>es. sum_of (\<lambda>r. key r = fst e \<and> True) h rs) = sum_of (\<lambda>_. True) h rs" for h
    using total_partition [OF assms(2), of rs "\<lambda>_. True" key h] assms(3) by (auto simp: comp_def)
  have ints: "(\<Sum>e\<leftarrow>es. w (int_of (g e))) = (\<Sum>e\<leftarrow>es. w (sum_of (\<lambda>r. key r = fst e \<and> True) f rs))" for w :: "int \<Rightarrow> int"
    by (intro arg_cong [of _ _ sum_list] map_cong) (auto simp: e)
  show "sum_of (\<lambda>_. True) g es = sum_of (\<lambda>_. True) f rs"
    using part [of f] ints [of "\<lambda>i. i"] by (simp add: sum_of_all)
  let ?abs = "\<lambda>r. Fin (of_int \<bar>int_of (f r)\<bar>)"
  have "(\<Sum>e\<leftarrow>es. \<bar>int_of (g e)\<bar>) \<le> (\<Sum>e\<leftarrow>es. sum_of (\<lambda>r. key r = fst e \<and> True) ?abs rs)"
    unfolding ints by (intro sum_list_mono) (auto simp: sum_of_def simp del: of_int_abs intro!: order_trans [OF abs_sum_le] sum_list_mono)
  also have "\<dots> = (\<Sum>r\<leftarrow>rs. \<bar>int_of (f r)\<bar>)" by (simp only: part sum_of_all int_of_Fin)
  finally show "row_exact g es" using assms(1) e by (auto simp: row_exact_def exact_def comp_def list_all_iff)
qed

lemma accumulate_exact:
  assumes "row_exact f rs"
  shows "row_exact snd (foldl (\<lambda>m r. updateMapValue m (key r) (f r)) [] rs)"
    "sum_of (\<lambda>_. True) snd (foldl (\<lambda>m r. updateMapValue m (key r) (f r)) [] rs) = sum_of (\<lambda>_. True) f rs"
proof -
  let ?m = "foldl (\<lambda>m r. updateMapValue m (key r) (f r)) [] rs"
  have keys: "distinct (map fst ?m)" "fst ` set ?m = key ` set rs" using accumulate_keys [of key f rs] by simp_all
  have "snd e = Fin (of_int (sum_of (\<lambda>r. key r = fst e \<and> True) f rs))" if "e \<in> set ?m" for e
  proof -
    have "map_of ?m (fst e) = Some (snd e)" using that keys by (simp add: map_of_is_SomeI)
    then show ?thesis using accumulate [OF assms, of key "fst e"] by (simp split: if_split_asm)
  qed
  from partition_exact [OF assms keys this]
  show "row_exact snd ?m" "sum_of (\<lambda>_. True) snd ?m = sum_of (\<lambda>_. True) f rs" by auto
qed

lemma aggregate_counts:
  assumes "row_exact q_quota rows" "row_exact q_count rows" "\<forall>r \<in> set rows. length (time r) = n"
  shows "row_exact (\<lambda>e. ag_count (snd e)) (foldl (aggregate_row time) [] rows)"
    "sum_of (\<lambda>_. True) (\<lambda>e. ag_count (snd e)) (foldl (aggregate_row time) [] rows) = sum_of (\<lambda>_. True) q_count rows"
proof -
  let ?agg = "foldl (aggregate_row time) [] rows" and ?key = "\<lambda>r. chart_key (time r) (q_model_name r)"
  have "ag_count (snd e) = Fin (of_int (sum_of (\<lambda>r. ?key r = fst e \<and> True) q_count rows))" if e: "e \<in> set ?agg" for e
  proof -
    obtain r where r: "r \<in> set rows" "e = (?key r, agg_of time rows (time r) (q_model_name r))" using e aggregate_entries [OF assms] by auto
    have "sum_of (\<lambda>r'. time r' = time r \<and> q_model_name r' = q_model_name r) q_count rows = sum_of (\<lambda>r'. ?key r' = fst e \<and> True) q_count rows"
      unfolding sum_of_def using assms(3) r chart_key_inj by (intro arg_cong [of _ _ sum_list] map_cong) auto
    then show ?thesis using r(2) by (simp add: agg_of_def)
  qed
  from partition_exact [OF assms(2) keys_distinct keys_set this]
  show "row_exact (\<lambda>e. ag_count (snd e)) ?agg" "sum_of (\<lambda>_. True) (\<lambda>e. ag_count (snd e)) ?agg = sum_of (\<lambda>_. True) q_count rows" by auto
qed

text \<open>The pie and the ranking count every request once: both add up to the number of requests.\<close>

theorem rankings_add_up:
  assumes "\<And>x. calendar_ok (clk x)" "row_exact q_quota rows" "row_exact q_count rows" and c: "c = updateChartData clk collates t st mode rows"
  shows "totalTimes (ch_totals c) = Fin (of_int (\<Sum>e\<leftarrow>ch_pie c. int_of (snd e))) \<and>
    totalTimes (ch_totals c) = Fin (of_int (\<Sum>e\<leftarrow>ch_rank c. int_of (snd e)))"
proof -
  have len: "\<forall>r \<in> set rows. length (row_time clk mode rows r) = label_length mode (show_year clk rows)" using row_label [OF assms(1)] by simp
  let ?agg = "aggregateDataByTimeAndModel clk mode rows"
  note agg = aggregate_counts [OF assms(2,3) len, folded aggregateDataByTimeAndModel_def]
  note totals = accumulate_exact [OF agg(1), of "\<lambda>e. ag_model (snd e)", folded model_totals_def]
  have "(\<Sum>e\<leftarrow>model_totals ?agg. int_of (snd e)) = sum_of (\<lambda>_. True) q_count rows" using totals(2) agg(2) by (simp add: sum_of_all)
  then show ?thesis
    using foldl_add_total [OF assms(3)] rank_total [OF totals(1), of t]
    by (simp add: c updateChartData_def Let_def processRawData_def processed_parts empty_processed_def sum_sort_by)
qed

theorem rankings_add_up_witness:
  "\<exists>c. c = updateChartData sample_clock units_less id no_store (lit ''day'') (map sample_row [1..<8]) \<and>
     totalTimes (ch_totals c) = Fin (of_int (\<Sum>e\<leftarrow>ch_pie c. int_of (snd e)))"
  by (intro exI conjI) (rule refl, rule rankings_add_up [OF sample_clock_ok sample_exact refl, THEN conjunct1])

text \<open>Without any usage the placeholder row makes the token total NaN.\<close>

lemma no_usage_tokens_nan: "totalTokens (processRawData clk mode (loadQuotaData now (Some []))) = NaN"
  by (simp add: loadQuotaData_def processRawData_def Let_def process_row_def empty_processed_def no_data_row_def add_val_def)

end
