(* ===== verification/Pricing_Filter.thy ===== *)
theory Pricing_Filter
  imports Model_Price
begin

text \<open>
  The model marketplace: \<open>hooks/model-pricing/useModelPricingData.jsx\<close>, \<open>usePricingFilterCounts.js\<close> and the filter lists under
  \<open>components/table/model-pricing/filter\<close>. A model is a record of the fields the filters read, next to its object; a missing
  field is \<open>None\<close>. The collation order of \<open>localeCompare\<close> and the server's answer are arguments.
\<close>

section \<open>Models and filters\<close>

record pmodel =
  m_object :: jsobj
  m_name :: jsstr
  m_groups :: "jsstr list option"
  m_endpoints :: "jsstr list option"
  m_vendor :: "jsstr option"
  m_tags :: "jsstr option"
  m_description :: "jsstr option"

record filters =
  filterGroup :: jsstr
  filterQuotaType :: jsval
  filterEndpointType :: jsstr
  filterVendor :: jsstr
  filterTag :: jsstr
  searchValue :: jsstr

text \<open>A text that is missing or empty is falsy.\<close>

definition text_of :: "jsstr option \<Rightarrow> jsstr" where
  "text_of v = (case v of Some s \<Rightarrow> s | None \<Rightarrow> [])"

text \<open>\<open>split(/[,;|]+/)\<close>\<close>

definition is_sep :: "nat \<Rightarrow> bool" where
  "is_sep c \<longleftrightarrow> c = 44 \<or> c = 59 \<or> c = 124"

function split_tags :: "jsstr \<Rightarrow> jsstr list" where
  "split_tags s = (let r = dropWhile (\<lambda>c. \<not> is_sep c) s
     in takeWhile (\<lambda>c. \<not> is_sep c) s # (if r = [] then [] else split_tags (dropWhile is_sep r)))"
  by pat_completeness auto
termination
proof (relation "measure length")
  fix s r :: jsstr assume r: "r = dropWhile (\<lambda>c. \<not> is_sep c) s" "r \<noteq> []"
  then have "is_sep (hd r)" using hd_dropWhile by blast
  then have "length (dropWhile is_sep r) < length r"
    using r(2) by (cases r) (auto simp: le_imp_less_Suc length_dropWhile_le)
  then show "(dropWhile is_sep r, s) \<in> measure length"
    using length_dropWhile_le [of "\<lambda>c. \<not> is_sep c" s] r(1) by simp
qed simp

declare split_tags.simps [simp del]

definition normalizeTags :: "jsstr \<Rightarrow> jsstr list" where
  "normalizeTags tags = filter (\<lambda>t. t \<noteq> []) (map trim (split_tags (to_lower tags)))"

definition has_group :: "jsstr \<Rightarrow> pmodel \<Rightarrow> bool" where
  "has_group g m \<longleftrightarrow> (case m_groups m of Some gs \<Rightarrow> g \<in> set gs | None \<Rightarrow> False)"

definition has_endpoint :: "jsstr \<Rightarrow> pmodel \<Rightarrow> bool" where
  "has_endpoint e m \<longleftrightarrow> (case m_endpoints m of Some es \<Rightarrow> e \<in> set es | None \<Rightarrow> False)"

definition contains_term :: "jsstr \<Rightarrow> jsstr option \<Rightarrow> bool" where
  "contains_term t v \<longleftrightarrow> text_of v \<noteq> [] \<and> str_includes (to_lower (text_of v)) t"

section \<open>The counts\<close>

definition matchesFilters :: "filters \<Rightarrow> string list \<Rightarrow> pmodel \<Rightarrow> bool" where
  "matchesFilters f ignored m \<longleftrightarrow>
     (''group'' \<in> set ignored \<or> filterGroup f = lit ''all'' \<or> has_group (filterGroup f) m) \<and>
     (''quota'' \<in> set ignored \<or> filterQuotaType f = Str (lit ''all'') \<or> matchesPricingBillingType (m_object m) (filterQuotaType f)) \<and>
     (''endpoint'' \<in> set ignored \<or> filterEndpointType f = lit ''all'' \<or> has_endpoint (filterEndpointType f) m) \<and>
     (''vendor'' \<in> set ignored \<or> filterVendor f = lit ''all'' \<or>
        (if filterVendor f = lit ''unknown'' then text_of (m_vendor m) = [] else m_vendor m = Some (filterVendor f))) \<and>
     (''tag'' \<in> set ignored \<or> filterTag f = lit ''all'' \<or> to_lower (filterTag f) \<in> set (normalizeTags (text_of (m_tags m)))) \<and>
     (''search'' \<in> set ignored \<or> searchValue f = [] \<or>
        (let t = to_lower (searchValue f) in str_includes (to_lower (m_name m)) t \<or> contains_term t (m_description m) \<or>
           str_includes (to_lower (text_of (m_tags m))) t \<or> contains_term t (m_vendor m)))"

definition facet_models :: "string \<Rightarrow> filters \<Rightarrow> pmodel list \<Rightarrow> pmodel list" where
  "facet_models facet f ms = filter (matchesFilters f [facet]) ms"

definition qtyCount :: "pmodel list \<Rightarrow> jsval \<Rightarrow> nat" where
  "qtyCount ms ty = length (filter (\<lambda>m. matchesPricingBillingType (m_object m) ty) ms)"

definition getVendorCount :: "pmodel list \<Rightarrow> jsstr \<Rightarrow> nat" where
  "getVendorCount ms v =
     (if v = lit ''all'' then length ms
      else if v = lit ''unknown'' then length (filter (\<lambda>m. text_of (m_vendor m) = []) ms)
      else length (filter (\<lambda>m. m_vendor m = Some v) ms))"

definition getEndpointTypeCount :: "pmodel list \<Rightarrow> jsstr \<Rightarrow> nat" where
  "getEndpointTypeCount ms e = (if e = lit ''all'' then length ms else length (filter (has_endpoint e) ms))"

definition getTagCount :: "pmodel list \<Rightarrow> jsstr \<Rightarrow> nat" where
  "getTagCount ms t =
     (if t = lit ''all'' then length ms
      else length (filter (\<lambda>m. text_of (m_tags m) \<noteq> [] \<and> to_lower t \<in> set (map trim (split_tags (to_lower (text_of (m_tags m)))))) ms))"

text \<open>Beside a group its ratio is shown; the number of its models is computed there but not shown.\<close>

definition group_tag :: "jsobj \<Rightarrow> jsstr \<Rightarrow> jsstr" where
  "group_tag groupRatio g =
     (if g = lit ''all'' then []
      else let ratio = obj_get groupRatio g in if nullish ratio then (lit ''1x'') else to_str ratio @ lit ''x'')"

section \<open>The choices\<close>

definition getAllTags :: "(jsstr \<Rightarrow> jsstr \<Rightarrow> bool) \<Rightarrow> pmodel list \<Rightarrow> jsstr list" where
  "getAllTags collates ms = sort_by collates (foldl set_add []
     (concat (map (\<lambda>m. if text_of (m_tags m) = [] then [] else map to_lower (filter (\<lambda>t. t \<noteq> []) (map trim (split_tags (text_of (m_tags m)))))) ms)))"

text \<open>The vendors in code-unit order, and whether there is a model without one.\<close>

definition getAllVendors :: "pmodel list \<Rightarrow> jsstr list \<times> bool" where
  "getAllVendors ms =
     (sort_by units_less (foldl set_add [] (filter (\<lambda>v. v \<noteq> []) (map (\<lambda>m. text_of (m_vendor m)) ms))), \<exists>m \<in> set ms. text_of (m_vendor m) = [])"

definition getAllEndpointTypes :: "pmodel list \<Rightarrow> jsstr list" where
  "getAllEndpointTypes ms = sort_by units_less (foldl set_add [] (concat (map (\<lambda>m. case m_endpoints m of Some es \<Rightarrow> es | None \<Rightarrow> []) ms)))"

definition all_groups :: "pmodel list \<Rightarrow> jsstr list" where
  "all_groups ms = lit ''all'' # sort_by units_less (foldl set_add []
     (filter (\<lambda>g. g \<noteq> [] \<and> g \<noteq> lit ''default'' \<and> g \<noteq> lit ''vip'' \<and> g \<noteq> lit ''auto'') (concat (map (\<lambda>m. case m_groups m of Some gs \<Rightarrow> gs | None \<Rightarrow> []) ms))))"

section \<open>The list\<close>

text \<open>A model without groups makes the group filter throw.\<close>

definition filteredModels :: "filters \<Rightarrow> pmodel list \<Rightarrow> pmodel list res" where
  "filteredModels f ms =
     (if filterGroup f \<noteq> lit ''all'' \<and> (\<exists>m \<in> set ms. m_groups m = None) then Inl TypeError
      else
        (let r1 = (if filterGroup f = lit ''all'' then ms else filter (has_group (filterGroup f)) ms);
             r2 = (if filterQuotaType f = Str (lit ''all'') then r1 else filter (\<lambda>m. matchesPricingBillingType (m_object m) (filterQuotaType f)) r1);
             r3 = (if filterEndpointType f = lit ''all'' then r2 else filter (has_endpoint (filterEndpointType f)) r2);
             r4 = (if filterVendor f = lit ''all'' then r3
                   else if filterVendor f = lit ''unknown'' then filter (\<lambda>m. text_of (m_vendor m) = []) r3
                   else filter (\<lambda>m. m_vendor m = Some (filterVendor f)) r3);
             r5 = (if filterTag f = lit ''all'' then r4
                   else filter (\<lambda>m. text_of (m_tags m) \<noteq> [] \<and> to_lower (filterTag f) \<in> set (normalizeTags (text_of (m_tags m)))) r4);
             t = to_lower (searchValue f)
         in Inr (if searchValue f = [] then r5
                 else filter (\<lambda>m. contains_term t (Some (m_name m)) \<or> contains_term t (m_description m) \<or> contains_term t (m_tags m) \<or>
                   contains_term t (m_vendor m)) r5)))"

definition is_gpt :: "pmodel \<Rightarrow> bool" where
  "is_gpt m \<longleftrightarrow> starts_with (m_name m) (lit ''gpt'')"

text \<open>The order of the list: by quota type, then names that start with gpt first and the rest by collation.\<close>

definition model_order :: "(jsstr \<Rightarrow> jsstr \<Rightarrow> bool) \<Rightarrow> pmodel \<Rightarrow> pmodel \<Rightarrow> bool" where
  "model_order collates a b \<longleftrightarrow> (if is_gpt a \<and> \<not> is_gpt b then True else if \<not> is_gpt a \<and> is_gpt b then False else collates (m_name a) (m_name b))"

definition quota_order :: "pmodel \<Rightarrow> pmodel \<Rightarrow> bool" where
  "quota_order a b \<longleftrightarrow>
     num_lt (num_sub (to_num (obj_get (m_object a) (lit ''quota_type''))) (to_num (obj_get (m_object b) (lit ''quota_type'')))) (Fin 0)"

text \<open>Vendor fields are filled in from the table of vendors, by id.\<close>

definition with_vendor :: "(jsstr \<times> jsobj) list \<Rightarrow> pmodel \<Rightarrow> pmodel" where
  "with_vendor vendors m =
     (let i = obj_get (m_object m) (lit ''vendor_id'')
      in if truthy i then (case map_of vendors (to_str i) of
             Some v \<Rightarrow> m\<lparr>m_vendor := (case obj_get v (lit ''name'') of Str s \<Rightarrow> Some s | _ \<Rightarrow> None)\<rparr>
           | None \<Rightarrow> m)
         else m)"

definition setModelsFormat :: "(jsstr \<Rightarrow> jsstr \<Rightarrow> bool) \<Rightarrow> (jsstr \<times> jsobj) list \<Rightarrow> pmodel list \<Rightarrow> pmodel list" where
  "setModelsFormat collates vendors ms = sort_by (model_order collates) (sort_by quota_order (map (with_vendor vendors) ms))"

section \<open>The page\<close>

record pricing_page =
  pg_models :: "pmodel list"
  pg_filters :: filters
  pg_selectedGroup :: jsstr
  pg_currentPage :: nat
  pg_currency :: jsstr
  pg_showWithRecharge :: bool
  pg_showRatio :: bool
  pg_tokenUnit :: jsstr

text \<open>A changed filter resets the page, by an effect.\<close>

definition set_filters :: "(filters \<Rightarrow> filters) \<Rightarrow> pricing_page \<Rightarrow> pricing_page" where
  "set_filters g p = (if g (pg_filters p) = pg_filters p then p else p\<lparr>pg_filters := g (pg_filters p), pg_currentPage := 1\<rparr>)"

definition handleChange :: "jsstr \<Rightarrow> pricing_page \<Rightarrow> pricing_page" where
  "handleChange v = set_filters (\<lambda>f. f\<lparr>searchValue := v\<rparr>)"

text \<open>The site's display type sets the currency, by two effects.\<close>

definition follow_display_type :: "jsstr \<Rightarrow> pricing_page \<Rightarrow> pricing_page" where
  "follow_display_type ty p =
     (if ty = lit ''USD'' \<or> ty = lit ''CNY'' \<or> ty = lit ''CUSTOM'' then p\<lparr>pg_currency := ty\<rparr>
      else if ty = lit ''TOKENS'' then p\<lparr>pg_showWithRecharge := False, pg_currency := lit ''USD''\<rparr>
      else p)"

definition handleGroupClick :: "jsstr \<Rightarrow> pricing_page \<Rightarrow> pricing_page" where
  "handleGroupClick g p = (set_filters (\<lambda>f. f\<lparr>filterGroup := g\<rparr>) p)\<lparr>pg_selectedGroup := g\<rparr>"

definition no_filters :: filters where
  "no_filters = \<lparr>filterGroup = lit ''all'', filterQuotaType = Str (lit ''all''), filterEndpointType = lit ''all'', filterVendor = lit ''all'',
     filterTag = lit ''all'', searchValue = []\<rparr>"

text \<open>The reset leaves the selected group, whose prices are shown, as it is.\<close>

definition resetPricingFilters :: "pricing_page \<Rightarrow> pricing_page" where
  "resetPricingFilters p = p\<lparr>pg_filters := no_filters, pg_showWithRecharge := False, pg_showRatio := False, pg_currency := lit ''USD'', pg_tokenUnit := lit ''M'', pg_currentPage := 1\<rparr>"

definition loadPricing :: "(jsstr \<Rightarrow> jsstr \<Rightarrow> bool) \<Rightarrow> (pmodel list \<times> (jsstr \<times> jsobj) list) option \<Rightarrow> pricing_page \<Rightarrow> pricing_page" where
  "loadPricing collates answer p = (case answer of
     None \<Rightarrow> p
   | Some (ms, vendors) \<Rightarrow> p\<lparr>pg_selectedGroup := lit ''all'', pg_models := setModelsFormat collates vendors ms\<rparr>)"

record rates =
  rt_price :: jsnum
  rt_usd :: jsnum
  rt_custom :: jsnum
  rt_symbol :: jsstr

definition displayPrice :: "rates \<Rightarrow> pricing_page \<Rightarrow> jsnum \<Rightarrow> jsstr" where
  "displayPrice r p usd =
     (let inUSD = (if pg_showWithRecharge p then num_div (num_mul usd (rt_price r)) (rt_usd r) else usd)
      in if pg_currency p = lit ''CNY'' then [165] @ to_fixed 3 (num_mul inUSD (rt_usd r))
         else if pg_currency p = lit ''CUSTOM'' then rt_symbol r @ to_fixed 3 (num_mul inUSD (rt_custom r))
         else lit ''$'' @ to_fixed 3 inUSD)"

section \<open>Counts and list agree\<close>

lemma includes_Nil: "t \<noteq> [] \<Longrightarrow> \<not> str_includes [] t"
  by simp

lemma to_lower_Nil [simp]: "to_lower s = [] \<longleftrightarrow> s = []"
  by (simp add: to_lower_def)

lemma contains_term_iff: "t \<noteq> [] \<Longrightarrow> contains_term t v = str_includes (to_lower (text_of v)) t"
  by (cases "text_of v = []") (simp_all add: contains_term_def to_lower_def)

lemma normalize_Nil: "normalizeTags [] = []"
  by (simp add: normalizeTags_def to_lower_def split_tags.simps)

text \<open>The parts of the filter, each with its neutral value.\<close>

definition vendor_is :: "jsstr \<Rightarrow> pmodel \<Rightarrow> bool" where
  "vendor_is v m \<longleftrightarrow> (if v = lit ''unknown'' then text_of (m_vendor m) = [] else m_vendor m = Some v)"

definition has_tag :: "jsstr \<Rightarrow> pmodel \<Rightarrow> bool" where
  "has_tag t m \<longleftrightarrow> to_lower t \<in> set (normalizeTags (text_of (m_tags m)))"

definition found_by :: "jsstr \<Rightarrow> pmodel \<Rightarrow> bool" where
  "found_by s m \<longleftrightarrow> (let t = to_lower s in str_includes (to_lower (m_name m)) t \<or> contains_term t (m_description m) \<or>
     str_includes (to_lower (text_of (m_tags m))) t \<or> contains_term t (m_vendor m))"

lemma matches_parts:
  "matchesFilters f ignored m =
     ((''group'' \<in> set ignored \<or> filterGroup f = lit ''all'' \<or> has_group (filterGroup f) m) \<and>
      (''quota'' \<in> set ignored \<or> filterQuotaType f = Str (lit ''all'') \<or> matchesPricingBillingType (m_object m) (filterQuotaType f)) \<and>
      (''endpoint'' \<in> set ignored \<or> filterEndpointType f = lit ''all'' \<or> has_endpoint (filterEndpointType f) m) \<and>
      (''vendor'' \<in> set ignored \<or> filterVendor f = lit ''all'' \<or> vendor_is (filterVendor f) m) \<and>
      (''tag'' \<in> set ignored \<or> filterTag f = lit ''all'' \<or> has_tag (filterTag f) m) \<and>
      (''search'' \<in> set ignored \<or> searchValue f = [] \<or> found_by (searchValue f) m))"
  unfolding matchesFilters_def vendor_is_def has_tag_def found_by_def by (rule refl)

lemma filter_if: "(if b then xs else filter P xs) = filter (\<lambda>x. b \<or> P x) xs"
  by (cases b) simp_all

lemma filtered_spec:
  assumes "\<forall>m \<in> set ms. m_groups m \<noteq> None"
  shows "filteredModels f ms = Inr (filter (matchesFilters f []) ms)"
proof -
  have tags: "(text_of (m_tags m) \<noteq> [] \<and> to_lower t \<in> set (normalizeTags (text_of (m_tags m)))) = has_tag t m" for m t
    unfolding has_tag_def by (cases "text_of (m_tags m) = []") (simp_all add: normalize_Nil)
  have throws: "(\<exists>m \<in> set ms. m_groups m = None) = False" using assms by blast
  have vendors: "(if v = lit ''all'' then xs else if v = lit ''unknown'' then filter (\<lambda>m. text_of (m_vendor m) = []) xs
      else filter (\<lambda>m. m_vendor m = Some v) xs) = filter (\<lambda>m. v = lit ''all'' \<or> vendor_is v m) xs" for v xs
    by (simp add: vendor_is_def)
  have search: "(if s = [] then xs else filter (\<lambda>m. contains_term (to_lower s) (Some (m_name m)) \<or> contains_term (to_lower s) (m_description m) \<or>
      contains_term (to_lower s) (m_tags m) \<or> contains_term (to_lower s) (m_vendor m)) xs) = filter (\<lambda>m. s = [] \<or> found_by s m) xs" for s xs
    by (cases "s = []") (simp_all add: found_by_def contains_term_iff Let_def, simp add: text_of_def)
  show ?thesis
    unfolding filteredModels_def Let_def throws tags vendors
    unfolding search
    unfolding filter_if simp_thms if_False
    unfolding filter_filter
    by (intro arg_cong [of _ _ Inr] filter_cong refl) (simp add: matches_parts conj_ac)
qed

text \<open>The number of models a choice of filters lists.\<close>

definition listed :: "filters \<Rightarrow> pmodel list \<Rightarrow> nat" where
  "listed f ms = (case filteredModels f ms of Inr r \<Rightarrow> length r | Inl e \<Rightarrow> 0)"

text \<open>C29: the number beside a billing type, a vendor, an end point or a tag is the number of models the page lists when it is
  chosen, whatever the other filters are, when every model has a list of groups; beside a group no number of models is shown.\<close>

theorem counts_predict_list:
  assumes "\<forall>m \<in> set ms. m_groups m \<noteq> None" "tag \<noteq> []"
  shows "qtyCount (facet_models ''quota'' f ms) ty = listed (f\<lparr>filterQuotaType := ty\<rparr>) ms \<and>
    getVendorCount (facet_models ''vendor'' f ms) v = listed (f\<lparr>filterVendor := v\<rparr>) ms \<and>
    getEndpointTypeCount (facet_models ''endpoint'' f ms) e = listed (f\<lparr>filterEndpointType := e\<rparr>) ms \<and>
    getTagCount (facet_models ''tag'' f ms) tag = listed (f\<lparr>filterTag := tag\<rparr>) ms"
proof -
  note l = listed_def filtered_spec [OF assms(1)] facet_models_def filter_filter sum.case
  have q: "matchesPricingBillingType x (Str (lit ''all''))" for x by (simp add: matchesPricingBillingType_def Let_def)
  have qty: "qtyCount (facet_models ''quota'' f ms) ty = listed (f\<lparr>filterQuotaType := ty\<rparr>) ms"
    unfolding l qtyCount_def matches_parts by (cases "ty = Str (lit ''all'')") (simp_all add: q conj_ac)
  have vendor: "getVendorCount (facet_models ''vendor'' f ms) v = listed (f\<lparr>filterVendor := v\<rparr>) ms"
    unfolding l getVendorCount_def matches_parts
    by (cases "v = lit ''all''"; cases "v = lit ''unknown''") (simp_all add: vendor_is_def conj_ac)
  have endpoint: "getEndpointTypeCount (facet_models ''endpoint'' f ms) e = listed (f\<lparr>filterEndpointType := e\<rparr>) ms"
    unfolding l getEndpointTypeCount_def matches_parts by (cases "e = lit ''all''") (simp_all add: conj_ac)
  have tags: "(text_of (m_tags m) \<noteq> [] \<and> to_lower tag \<in> set (map trim (split_tags (to_lower (text_of (m_tags m)))))) = has_tag tag m" for m
    by (cases "text_of (m_tags m) = []") (simp add: has_tag_def normalize_Nil, simp add: has_tag_def normalizeTags_def assms(2))
  have tag: "getTagCount (facet_models ''tag'' f ms) tag = listed (f\<lparr>filterTag := tag\<rparr>) ms"
    unfolding l getTagCount_def tags matches_parts by (cases "tag = lit ''all''") (simp_all add: conj_ac)
  show ?thesis using qty vendor endpoint tag by simp
qed

definition two_models :: "pmodel list" where
  "two_models =
     [\<lparr>m_object = [(lit ''quota_type'', Num (Fin 0))], m_name = lit ''gpt-4o'', m_groups = Some [lit ''vip''], m_endpoints = Some [lit ''openai''],
        m_vendor = Some (lit ''OpenAI''), m_tags = Some (lit ''Chat, New''), m_description = None\<rparr>,
      \<lparr>m_object = [(lit ''quota_type'', Num (Fin 1))], m_name = lit ''flux'', m_groups = Some [], m_endpoints = None,
        m_vendor = None, m_tags = Some (lit ''image''), m_description = None\<rparr>]"

theorem counts_predict_list_witness:
  "getTagCount (facet_models ''tag'' no_filters two_models) (lit ''new'') = listed (no_filters\<lparr>filterTag := lit ''new''\<rparr>) two_models \<and>
   getTagCount (facet_models ''tag'' no_filters two_models) (lit ''new'') = 1"
proof -
  have "\<forall>m \<in> set two_models. m_groups m \<noteq> None" by (simp add: two_models_def)
  moreover have "lit ''new'' \<noteq> []" by (simp add: lit_def)
  moreover have "getTagCount (facet_models ''tag'' no_filters two_models) (lit ''new'') = 1" by code_simp
  ultimately show ?thesis using counts_predict_list [of two_models "lit ''new''" no_filters] by simp
qed

section \<open>The order\<close>

lemma insert_by_first:
  assumes "\<And>a b. P a \<Longrightarrow> \<not> P b \<Longrightarrow> lt a b \<and> \<not> lt b a" "sorted_wrt (\<lambda>a b. P b \<longrightarrow> P a) xs"
  shows "sorted_wrt (\<lambda>a b. P b \<longrightarrow> P a) (insert_by lt x xs)"
  using assms(2)
proof (induction xs)
  case (Cons y xs)
  then show ?case using assms(1) by (cases "lt y x") auto
qed simp

text \<open>The names that start with gpt come first.\<close>

lemma gpt_first: "sorted_wrt (\<lambda>a b. is_gpt b \<longrightarrow> is_gpt a) (setModelsFormat collates vendors ms)"
proof -
  have "is_gpt a \<Longrightarrow> \<not> is_gpt b \<Longrightarrow> model_order collates a b \<and> \<not> model_order collates b a" for a b
    by (simp add: model_order_def)
  then have "sorted_wrt (\<lambda>a b. is_gpt b \<longrightarrow> is_gpt a) (sort_by (model_order collates) xs)" for xs
    by (induction xs) (simp_all add: insert_by_first)
  then show ?thesis by (simp add: setModelsFormat_def)
qed

text \<open>The reset of the filters leaves the prices of the selected group.\<close>

lemma reset_keeps_selected_group:
  "pg_selectedGroup (resetPricingFilters (handleGroupClick g p)) = g" "filterGroup (pg_filters (resetPricingFilters (handleGroupClick g p))) = lit ''all''"
  by (simp_all add: resetPricingFilters_def handleGroupClick_def no_filters_def)

end
