(* ===== verification/Media_Generation.thy ===== *)
theory Media_Generation
  imports Task_Polling
begin

text \<open>
  The synchronous media hooks of the playground: \<open>hooks/playground/useImageGeneration.js\<close> and \<open>useAudioGeneration.js\<close>.

  A hook's visible effects are the messages it passes to \<open>showError\<close> and the patches it passes to \<open>onDebug\<close>
  (\<open>gen_log\<close>); the promise it returns is the value it settles with. The answers of the server and of the object store, the
  clock and \<open>t\<close> of i18next are arguments. The registry of image requests is a \<open>Map\<close> from message ids to promises,
  \<open>None\<close> while a promise is pending.
\<close>

record gen_log =
  gl_errors :: "jsval list"
  gl_debugs :: "jsobj list"

definition show_error :: "jsval \<Rightarrow> gen_log \<Rightarrow> gen_log" where
  "show_error msg l = l\<lparr>gl_errors := gl_errors l @ [msg]\<rparr>"

definition log_debug :: "jsobj \<Rightarrow> gen_log \<Rightarrow> gen_log" where
  "log_debug d l = l\<lparr>gl_debugs := gl_debugs l @ [d]\<rparr>"

text \<open>\<open>showError(msg); return { error: msg, ... }\<close>\<close>

definition fail_with :: "jsval \<Rightarrow> jsobj \<Rightarrow> gen_log \<Rightarrow> gen_log \<times> jsval" where
  "fail_with msg rest l = (show_error msg l, Obj ((lit ''error'', msg) # rest))"

definition request_debug :: "jsval \<Rightarrow> jsstr \<Rightarrow> jsobj" where
  "request_debug text ts =
     [(lit ''previewRequest'', text), (lit ''previewTimestamp'', Str ts), (lit ''request'', text), (lit ''timestamp'', Str ts)]"

section \<open>The size of an image\<close>

definition resolution_base :: "jsval \<Rightarrow> int option" where
  "resolution_base r = map_of [(lit ''2K'', 2048), (lit ''3K'', 3072), (lit ''4K'', 4096)] (to_str r)"

text \<open>\<open>if (n % 2 !== 0) n++\<close> on an integer.\<close>

definition make_even :: "int \<Rightarrow> int" where
  "make_even n = (if n mod 2 \<noteq> 0 then n + 1 else n)"

definition round_int :: "jsnum \<Rightarrow> int" where
  "round_int x = (case math_round x of Fin a \<Rightarrow> \<lfloor>a\<rfloor> | _ \<Rightarrow> 0)"

text \<open>The sides for a ratio of two numbers; \<open>Math.round\<close> of a finite number is an integer. A ratio of two infinities or a quotient
  that overflows is not finite and makes a size that is no number.\<close>

definition ratio_sides :: "int \<Rightarrow> jsnum \<Rightarrow> jsnum \<Rightarrow> (jsnum \<times> jsnum)" where
  "ratio_sides base w h =
     (let side = (\<lambda>a b. let q = math_round (num_div (num_mul (Fin (of_int base)) a) b)
        in if is_finite q then Fin (of_int (make_even (round_int q))) else q)
      in if num_le h w then (Fin (of_int (make_even base)), side h w) else (side w h, Fin (of_int (make_even base))))"

definition resolutionAndRatioToSize :: "jsval \<Rightarrow> jsval \<Rightarrow> jsstr option res" where
  "resolutionAndRatioToSize resolution aspectRatio = (case resolution_base resolution of
     None \<Rightarrow> Inr None
   | Some base \<Rightarrow> (case aspectRatio of
       Str s \<Rightarrow>
         (case split_char 58 s of
            [a, b] \<Rightarrow>
              (let w = parse_float a; h = parse_float b
               in if w = NaN \<or> h = NaN \<or> num_le w (Fin 0) \<or> num_le h (Fin 0) then Inr None
                  else (case ratio_sides base w h of (x, y) \<Rightarrow> Inr (Some (num_to_str x @ lit ''x'' @ num_to_str y))))
          | _ \<Rightarrow> Inr None)
     | _ \<Rightarrow> Inl TypeError))"

section \<open>The registry of image requests\<close>

type_synonym image_registry = "(jsstr \<times> jsval option) list"

definition getInFlightImageRequest :: "image_registry \<Rightarrow> jsstr \<Rightarrow> jsval option option" where
  "getInFlightImageRequest reg i = (if i = [] then None else map_of reg i)"

definition clearInFlightImageRequest :: "jsstr \<Rightarrow> image_registry \<Rightarrow> image_registry" where
  "clearInFlightImageRequest i reg = (if i = [] then reg else AList.delete i reg)"

section \<open>Requests for images\<close>

text \<open>The value of an input slot: a file, an array in which some elements are files, or anything else.\<close>

datatype slot_input = OneFile blob | Entries "blob option list" | NoFile

fun input_files :: "slot_input \<Rightarrow> blob list" where
  "input_files (OneFile b) = [b]"
| "input_files (Entries bs) = List.map_filter id bs"
| "input_files NoFile = []"

definition hasAnyFile :: "(jsstr \<times> slot_input) list \<Rightarrow> bool" where
  "hasAnyFile inputs \<longleftrightarrow> list_ex (\<lambda>kv. input_files (snd kv) \<noteq> []) inputs"

record image_args =
  ia_messageId :: jsstr
  ia_model :: jsval
  ia_group :: jsval
  ia_prompt :: jsval
  ia_params :: jsval
  ia_inputs :: "(jsstr \<times> slot_input) list"
  ia_extra :: jsval

definition OPENAI_STD_KEYS :: "jsstr list" where
  "OPENAI_STD_KEYS = map lit [''size'', ''quality'', ''n'', ''response_format'', ''style'', ''user'', ''background'', ''watermark'',
     ''output_format'', ''output_compression'', ''moderation'', ''partial_images'']"

definition computed_size :: "jsval \<Rightarrow> jsval res" where
  "computed_size params =
     (let resolution = opt_prop params (lit ''resolution''); aspectRatio = opt_prop params (lit ''aspect_ratio'')
      in if truthy resolution \<and> truthy aspectRatio
         then map_sum id (\<lambda>s. case s of None \<Rightarrow> Null | Some x \<Rightarrow> Str x) (resolutionAndRatioToSize resolution aspectRatio)
         else if truthy aspectRatio then Inr aspectRatio
         else if truthy resolution then Inr resolution
         else Inr Null)"

definition skipped_param :: "jsstr \<times> jsval \<Rightarrow> bool" where
  "skipped_param kv \<longleftrightarrow> nullish (snd kv) \<or> snd kv = Str [] \<or> fst kv = lit ''resolution'' \<or> fst kv = lit ''aspect_ratio''"

definition route_param :: "jsobj \<times> jsobj \<Rightarrow> jsstr \<times> jsval \<Rightarrow> jsobj \<times> jsobj" where
  "route_param tops kv =
     (if skipped_param kv then tops
      else if fst kv \<in> set OPENAI_STD_KEYS then (obj_put (fst tops) (fst kv) (snd kv), snd tops)
      else (fst tops, obj_put (snd tops) (fst kv) (snd kv)))"

definition route_params :: "jsval \<Rightarrow> (jsobj \<times> jsobj) res" where
  "route_params params = (case computed_size params of
     Inl e \<Rightarrow> Inl e
   | Inr sz \<Rightarrow>
       (case foldl route_param ([], []) (own_entries (js_or params (Obj []))) of (topParams, extraBody) \<Rightarrow>
          Inr (if truthy sz then obj_put topParams (lit ''size'') sz else topParams, extraBody)))"

text \<open>The body of the request, with the addresses of the reference images if there are any.\<close>

definition image_payload :: "image_args \<Rightarrow> jsstr \<Rightarrow> jsval list \<Rightarrow> jsobj \<Rightarrow> jsobj \<Rightarrow> jsobj" where
  "image_payload a trimmedText imageUrls topParams extraBody =
     (let base = obj_merge ([(lit ''model'', ia_model a), (lit ''group'', ia_group a), (lit ''prompt'', Str trimmedText),
              (lit ''response_format'', S ''b64_json'')] @ (if imageUrls = [] then [] else [(lit ''images'', Arr imageUrls)])) topParams;
          p1 = (if extraBody \<noteq> [] then obj_put base (lit ''extra_body'') (Obj extraBody) else base)
      in if truthy (ia_extra a) \<and> typeof_object (ia_extra a) then obj_merge p1 (own_entries (ia_extra a)) else p1)"

text \<open>\<open>generate\<close> up to its promise: an answer at once, a thrown error, or the parts of the request.\<close>

datatype image_start = Refused jsval | Throws jserr | Started jsstr jsobj jsobj

definition image_begin :: "(jsstr \<Rightarrow> jsstr) \<Rightarrow> image_args \<Rightarrow> image_start" where
  "image_begin t a =
     (if \<not> truthy (ia_prompt a) then Refused (Str (t [35831, 36755, 20837, 32, 80, 114, 111, 109, 112, 116]))
      else case ia_prompt a of
        Str p \<Rightarrow>
          if trim p = [] then Refused (Str (t [35831, 36755, 20837, 32, 80, 114, 111, 109, 112, 116]))
          else if \<not> truthy (ia_model a) then Refused (Str (t [35831, 20808, 36873, 25321, 27169, 22411]))
          else (case route_params (ia_params a) of Inl e \<Rightarrow> Throws e | Inr (topParams, extraBody) \<Rightarrow> Started (trim p) topParams extraBody)
      | _ \<Rightarrow> Throws TypeError)"

text \<open>The uploads of the reference images, one after the other; \<open>up\<close> is how each settles.\<close>

definition upload_message :: "upload_error \<Rightarrow> jsval" where
  "upload_message x = (case x of UploadError m \<Rightarrow> Str m | AbortError \<Rightarrow> S ''Aborted'' | RequestFailed v \<Rightarrow> opt_prop v (lit ''message''))"

definition upload_urls :: "(blob \<Rightarrow> upload_error + jsobj) \<Rightarrow> blob list \<Rightarrow> jsval list" where
  "upload_urls up bs = List.map_filter (\<lambda>b. case up b of Inr r \<Rightarrow> Some (obj_get r (lit ''url'')) | Inl x \<Rightarrow> None) bs"

definition upload_errors :: "(blob \<Rightarrow> upload_error + jsobj) \<Rightarrow> blob list \<Rightarrow> jsstr list" where
  "upload_errors up bs = List.map_filter (\<lambda>b. case up b of Inr r \<Rightarrow> None
     | Inl x \<Rightarrow> Some (fname b @ lit '': '' @ to_str (js_or (upload_message x) (Str ([19978, 20256, 22833, 36133]))))) bs"

definition normalize_item :: "jsval \<Rightarrow> jsval option" where
  "normalize_item it =
     (if \<not> truthy it then None
      else
        (let result = (\<lambda>url. Some (Obj [(lit ''url'', Str url), (lit ''revisedPrompt'', opt_prop it (lit ''revised_prompt''))]))
         in case opt_prop it (lit ''b64_json'') of
              Str (c # cs) \<Rightarrow> result (if starts_with (c # cs) (lit ''data:'') then c # cs else lit ''data:image/png;base64,'' @ c # cs)
            | _ \<Rightarrow> (case opt_prop it (lit ''url'') of Str (c # cs) \<Rightarrow> result (c # cs) | _ \<Rightarrow> None)))"

definition normalizeImageResponse :: "jsval \<Rightarrow> jsobj" where
  "normalizeImageResponse data =
     (let items = (case opt_prop data (lit ''data'') of Arr xs \<Rightarrow> xs | _ \<Rightarrow> [])
      in [(lit ''images'', Arr (List.map_filter normalize_item items)), (lit ''usage'', js_or (opt_prop data (lit ''usage'')) Null), (lit ''raw'', data)])"

text \<open>From the answer of the request on.\<close>

definition image_answered :: "(jsstr \<Rightarrow> jsstr) \<Rightarrow> jsstr \<Rightarrow> reply \<Rightarrow> gen_log \<Rightarrow> gen_log \<times> jsval" where
  "image_answered t ts r l = (case r of
     Failure err \<Rightarrow>
       fail_with (js_or (opt_prop (opt_prop (opt_prop (opt_prop err (lit ''response'')) (lit ''data'')) (lit ''error'')) (lit ''message''))
         (js_or (opt_prop err (lit ''message'')) (Str (t [32593, 32476, 38169, 35823])))) [] l
   | Reply res \<Rightarrow>
       (let body = opt_prop res (lit ''data''); l1 = log_debug [(lit ''response'', stringify2 body), (lit ''timestamp'', Str ts)] l
        in if truthy (opt_prop body (lit ''error'')) \<or> num_le (Fin 400) (to_num (opt_prop res (lit ''status'')))
           then fail_with (js_or (opt_prop (opt_prop body (lit ''error'')) (lit ''message''))
             (js_or (opt_prop body (lit ''message'')) (Str (t [22270, 29255, 29983, 25104, 22833, 36133])))) [(lit ''raw'', body)] l1
           else (l1, Obj (normalizeImageResponse body))))"

definition shown_payload :: "jsobj \<Rightarrow> jsval list \<Rightarrow> jsval" where
  "shown_payload payload imageUrls =
     (if imageUrls = [] then stringify2 (Obj payload)
      else stringify2 (Obj (obj_put payload (lit ''images'')
        (Arr (map (\<lambda>i. Str (lit ''<Uploaded: image_'' @ nat_digits (i + 1) @ lit ''>'')) [0..<length imageUrls])))))"

text \<open>The promise: the body that is posted, if one is, and the value it settles with.\<close>

definition image_request ::
    "(jsstr \<Rightarrow> jsstr) \<Rightarrow> jsstr \<Rightarrow> (blob \<Rightarrow> upload_error + jsobj) \<Rightarrow> image_args \<Rightarrow> jsstr \<Rightarrow> jsobj \<Rightarrow> jsobj \<Rightarrow> (jsobj \<Rightarrow> reply) \<Rightarrow> gen_log \<Rightarrow>
     gen_log \<times> jsobj option \<times> jsval" where
  "image_request t ts up a trimmedText topParams extraBody post l =
     (let files = concat (map (\<lambda>kv. input_files (snd kv)) (ia_inputs a)); urls = upload_urls up files; errs = upload_errors up files;
          send = (\<lambda>us. let payload = image_payload a trimmedText us topParams extraBody
             in case image_answered t ts (post payload) (log_debug (request_debug (shown_payload payload us) ts) l) of
                  (l2, v) \<Rightarrow> (l2, Some payload, v))
      in if \<not> hasAnyFile (ia_inputs a) then send []
         else if errs \<noteq> []
         then (case fail_with (Str ([21442, 32771, 22270, 19978, 20256, 22833, 36133, 65306] @ [10] @ join [10] errs)) [] l of (l2, v) \<Rightarrow> (l2, None, v))
         else if urls = [] then (case fail_with (Str (t [35831, 19978, 20256, 21442, 32771, 22270])) [] l of (l2, v) \<Rightarrow> (l2, None, v))
         else send urls)"

section \<open>Speech\<close>

text \<open>A binary answer: its type and size, and its text when it is read as such.\<close>

record speech_blob =
  sb_type :: jsstr
  sb_size :: nat
  sb_text :: jsstr

definition readBlobError :: "jsstr \<Rightarrow> jsval \<Rightarrow> jsval" where
  "readBlobError text fallback = (case json_parse text of
     Inl e \<Rightarrow> fallback
   | Inr j \<Rightarrow> js_or (opt_prop (opt_prop j (lit ''error'')) (lit ''message'')) (js_or (opt_prop j (lit ''message'')) fallback))"

definition speech_payload :: "jsval \<Rightarrow> jsval \<Rightarrow> jsstr \<Rightarrow> jsval \<Rightarrow> jsobj" where
  "speech_payload model grp trimmedText params =
     foldl (\<lambda>p k. let v = opt_prop params k in if nullish v \<or> v = Str [] then p else obj_put p k v)
       [(lit ''model'', model), (lit ''group'', grp), (lit ''input'', Str trimmedText), (lit ''voice'', js_or (opt_prop params (lit ''voice'')) (S ''alloy''))]
       (map lit [''response_format'', ''speed'', ''instructions''])"

text \<open>The answer: a blob, something else, or a failure with the blob of its body or its message.\<close>

datatype speech_reply = SpeechBlob speech_blob | SpeechOther | SpeechFailed speech_blob | SpeechThrew jsval

definition audio_type :: "speech_blob \<Rightarrow> jsstr" where
  "audio_type b = (if sb_type b = [] \<or> \<not> starts_with (sb_type b) (lit ''audio/'') then lit ''audio/mpeg'' else sb_type b)"

text \<open>\<open>up\<close> is how the upload of the audio settles, by its type; \<open>local\<close> the address \<open>URL.createObjectURL\<close> makes.\<close>

definition speech_stored :: "jsstr \<Rightarrow> (jsstr \<Rightarrow> upload_error + jsobj) \<Rightarrow> jsstr \<Rightarrow> speech_blob \<Rightarrow> gen_log \<Rightarrow> gen_log \<times> jsval" where
  "speech_stored ts up local b l =
     (let finish = (\<lambda>url persisted l1.
            (log_debug [(lit ''response'', stringify2 (Obj [(lit ''audio_url'', url), (lit ''bytes'', Num (num_of_nat (sb_size b))), (lit ''persisted'', Bool persisted)])),
               (lit ''timestamp'', Str ts)] l1,
             Obj [(lit ''url'', url), (lit ''bytes'', Num (num_of_nat (sb_size b))), (lit ''persisted'', Bool persisted)]))
      in case up (audio_type b) of
           Inr r \<Rightarrow> finish (obj_get r (lit ''url'')) True l
         | Inl x \<Rightarrow> finish (Str local) False
             (log_debug [(lit ''response'', Str ([82, 50, 32, 19978, 20256, 22833, 36133, 65292, 22238, 36864, 20020, 26102, 38142, 25509, 65288, 21047, 26032, 20002, 22833, 65289, 65306] @ to_str (js_or (upload_message x) (case x of RequestFailed v \<Rightarrow> v | _ \<Rightarrow> S ''Error'')))), (lit ''timestamp'', Str ts)] l))"

definition speech_answered ::
    "(jsstr \<Rightarrow> jsstr) \<Rightarrow> jsstr \<Rightarrow> (jsstr \<Rightarrow> upload_error + jsobj) \<Rightarrow> jsstr \<Rightarrow> speech_reply \<Rightarrow> gen_log \<Rightarrow> gen_log \<times> jsval" where
  "speech_answered t ts up local r l = (case r of
     SpeechBlob b \<Rightarrow>
       if str_includes (sb_type b) (lit ''application/json'') then fail_with (readBlobError (sb_text b) (Str (t [38899, 39057, 29983, 25104, 22833, 36133]))) [] l
       else if sb_size b = 0 then fail_with (Str (t [38899, 39057, 29983, 25104, 22833, 36133, 65306, 21709, 24212, 20026, 31354])) [] l
       else speech_stored ts up local b l
   | SpeechOther \<Rightarrow> fail_with (Str (t [38899, 39057, 29983, 25104, 22833, 36133, 65306, 21709, 24212, 20026, 31354])) [] l
   | SpeechFailed b \<Rightarrow> fail_with (readBlobError (sb_text b) (Str (t [38899, 39057, 29983, 25104, 22833, 36133]))) [] l
   | SpeechThrew m \<Rightarrow> fail_with (js_or m (Str (t [38899, 39057, 29983, 25104, 22833, 36133]))) [] l)"

text \<open>\<open>generate\<close>: the body that is posted, if one is, and the value returned.\<close>

definition speech_generate ::
    "(jsstr \<Rightarrow> jsstr) \<Rightarrow> jsstr \<Rightarrow> (jsstr \<Rightarrow> upload_error + jsobj) \<Rightarrow> jsstr \<Rightarrow> jsval \<Rightarrow> jsval \<Rightarrow> jsstr \<Rightarrow> jsval \<Rightarrow> speech_reply \<Rightarrow> gen_log \<Rightarrow>
     gen_log \<times> jsobj option \<times> jsval" where
  "speech_generate t ts up local model grp prompt params r l =
     (if trim prompt = [] then (show_error (Str (t [35831, 36755, 20837, 35201, 21512, 25104, 30340, 25991, 26412])) l, None, Null)
      else if \<not> truthy model then (show_error (Str (t [35831, 20808, 36873, 25321, 27169, 22411])) l, None, Null)
      else (let payload = speech_payload model grp (trim prompt) params
        in case speech_answered t ts up local r (log_debug (request_debug (stringify2 (Obj payload)) ts) l) of
             (l2, v) \<Rightarrow> (l2, Some payload, v)))"

end
