(* ===== verification/Media_Generation_Thms.thy ===== *)
theory Media_Generation_Thms
  imports Media_Generation
begin

text \<open>
  Image requests: the size computed from a resolution and a ratio, and the way of each parameter into the request.
\<close>

section \<open>The size\<close>

lemma make_even_facts: "even (make_even n)" "n \<le> make_even n" "make_even n \<le> n + 1" "even m \<Longrightarrow> n \<le> m \<Longrightarrow> make_even n \<le> m"
  by (auto simp: make_even_def) presburger+

lemma round_between:
  assumes "0 \<le> i" "of_int i \<le> q" "q \<le> of_int j" "j < 2 ^ 53" "rnd q = Fin r"
  shows "i \<le> round_int (Fin r) \<and> round_int (Fin r) \<le> j"
proof -
  have r: "of_int i \<le> r" "r \<le> of_int j" using rnd_between [OF assms(1-4)] assms(5) by auto
  then have "i \<le> \<lfloor>r + 1 / 2\<rfloor>" "\<lfloor>r + 1 / 2\<rfloor> \<le> j" by linarith+
  then show ?thesis by (simp add: round_int_def)
qed

text \<open>The shorter side: the exact length up to the next integers, made even.\<close>

lemma short_side:
  assumes "even base" "0 < base" "base < 2 ^ 20" "0 < a" "a \<le> b" "b < 2 ^ 20"
  shows "\<exists>s. num_div (num_mul (Fin (of_int base)) (Fin (of_nat a))) (Fin (of_nat b)) = Fin s \<and>
    even (make_even (round_int (Fin s))) \<and> make_even (round_int (Fin s)) \<le> base \<and>
    \<bar>of_int (make_even (round_int (Fin s))) - of_int base * of_nat a / of_nat b\<bar> \<le> (2::rat)"
proof -
  let ?x = "of_int base * of_nat a / of_nat b :: rat"
  have "\<bar>base * int a\<bar> < 2 ^ 53"
  proof -
    have "base * int a \<le> 2 ^ 20 * 2 ^ 20" using assms by (intro mult_mono) auto
    moreover have "0 \<le> base * int a" using assms by simp
    ultimately show ?thesis by simp
  qed
  then have mul: "num_mul (Fin (of_int base)) (Fin (of_nat a)) = Fin (of_int base * of_nat a)" using rnd_int [of "base * int a"] by simp
  have x: "0 \<le> ?x" "?x \<le> of_int base" using assms by (auto simp: divide_le_eq mult_left_mono)
  define i where "i = \<lfloor>?x\<rfloor>"
  define j where "j = min base (i + 1)"
  have ij: "0 \<le> i" "of_int i \<le> ?x" "?x \<le> of_int j" "j < 2 ^ 53" using x assms(3) by (auto simp: i_def j_def min_def) linarith+
  obtain s where s: "rnd ?x = Fin s" using rnd_between [OF ij] by blast
  define n where "n = round_int (Fin s)"
  have n: "i \<le> n" "n \<le> j" using round_between [OF ij s] by (simp_all add: n_def)
  have "make_even n \<le> base" using make_even_facts(4) [OF assms(1), of n] n(2) by (simp add: j_def)
  moreover have "\<bar>of_int (make_even n) - ?x\<bar> \<le> 2"
  proof -
    have "i \<le> make_even n" "make_even n \<le> i + 2" using make_even_facts(2,3) [of n] n by (simp_all add: j_def)
    then have "(of_int i :: rat) \<le> of_int (make_even n)" "(of_int (make_even n) :: rat) \<le> of_int i + 2" by linarith+
    moreover have "of_int i \<le> ?x" "?x < of_int i + 1" unfolding i_def by linarith+
    ultimately show ?thesis by linarith
  qed
  moreover have "num_div (num_mul (Fin (of_int base)) (Fin (of_nat a))) (Fin (of_nat b)) = Fin s" unfolding mul using s assms by simp
  ultimately show ?thesis using make_even_facts(1) unfolding n_def by blast
qed

lemma split_digits: "58 \<notin> set a \<Longrightarrow> 58 \<notin> set b \<Longrightarrow> split_char 58 (a @ 58 # b) = [a, b]"
proof -
  have b: "58 \<notin> set b \<Longrightarrow> split_char 58 b = [b]" for b :: jsstr by (induction b) auto
  show "58 \<notin> set a \<Longrightarrow> 58 \<notin> set b \<Longrightarrow> ?thesis" by (induction a) (simp_all add: b)
qed

lemma parse_float_digits:
  assumes "n < 2 ^ 53"
  shows "parse_float (nat_digits n) = Fin (of_nat n)"
proof -
  have d: "\<forall>c \<in> set (nat_digits n). is_digit c" using nat_digits_digit by blast
  obtain c cs where c: "nat_digits n = c # cs" by (cases "nat_digits n") auto
  have cd: "is_digit c" using d c by simp
  have ws: "trim_start (nat_digits n) = nat_digits n" using cd by (simp add: c trim_start_def is_ws_def is_digit_def)
  have sgn: "scan_sign (nat_digits n) = (1, nat_digits n)" using cd by (auto simp: c scan_sign_def is_digit_def)
  have inf: "\<not> starts_with (nat_digits n) (lit ''Infinity'')" using cd by (auto simp: c starts_with_def lit_simps is_digit_def)
  have tw: "takeWhile is_digit (nat_digits n) = nat_digits n" "dropWhile is_digit (nat_digits n) = []"
    using d by (simp_all add: takeWhile_eq_all_conv dropWhile_eq_Nil_conv)
  have "scan_unsigned (nat_digits n) = Some (of_nat n, [])" unfolding scan_unsigned_def Let_def tw by (simp add: scan_exp_def pow10_def)
  then show ?thesis using rnd_int [of "int n"] assms by (simp add: parse_float_def ws sgn inf)
qed


lemma base_facts: "resolution_base r = Some base \<Longrightarrow> even base \<and> 0 < base \<and> base < 2 ^ 20"
  by (auto simp: resolution_base_def split: if_splits)

lemma num_le_nat: "num_le (num_of_nat a) (num_of_nat b) = (a \<le> b)"
  by (auto simp: num_le_def num_eq_def)

lemma ratio_sides_eq:
  assumes "even base" "num_div (num_mul (Fin (of_int base)) (num_of_nat (min w h))) (num_of_nat (max w h)) = Fin s"
  shows "ratio_sides base (num_of_nat w) (num_of_nat h) =
    (let n = Fin (of_int (make_even (round_int (Fin s)))) in if h \<le> w then (num_of_int base, n) else (n, num_of_int base))"
proof -
  have base: "make_even base = base" using assms(1) by (simp add: make_even_def even_iff_mod_2_eq_zero)
  have "\<lfloor>1 / 2 :: rat\<rfloor> = 0" by (simp add: floor_eq_iff)
  then have "round_int (math_round (Fin s)) = round_int (Fin s)" by (simp add: round_int_def)
  then show ?thesis using assms(2)
    by (cases "h \<le> w") (simp_all add: ratio_sides_def Let_def base num_le_nat min_absorb1 min_absorb2 max_absorb1 max_absorb2 del: num_mul.simps num_div.simps)
qed

lemma size_of_sides:
  assumes "resolution_base r = Some base" "0 < w" "w < 2 ^ 20" "0 < h" "h < 2 ^ 20"
  shows "resolutionAndRatioToSize r (Str (nat_digits w @ lit '':'' @ nat_digits h)) =
    (case ratio_sides base (num_of_nat w) (num_of_nat h) of (x, y) \<Rightarrow> Inr (Some (num_to_str x @ lit ''x'' @ num_to_str y)))"
proof -
  have split: "split_char 58 (nat_digits w @ lit '':'' @ nat_digits h) = [nat_digits w, nat_digits h]"
    using split_digits [of "nat_digits w" "nat_digits h"] nat_digits_digit by (force simp: lit_simps is_digit_def)
  have pf: "parse_float (nat_digits w) = num_of_nat w" "parse_float (nat_digits h) = num_of_nat h" using assms by (auto intro: parse_float_digits)
  have "\<not> num_le (num_of_nat n) (Fin 0)" if "0 < n" for n using num_le_nat [of n 0] \<open>0 < n\<close> by simp
  then show ?thesis using assms by (simp add: resolutionAndRatioToSize_def split pf Let_def)
qed

text \<open>C35: for a known resolution and a ratio of two natural numbers the size has even sides, the longer one is the resolution's, on the side the
  ratio says, and the shorter one is within two pixels of the exact length.\<close>

theorem image_size_keeps_ratio:
  assumes "resolution_base r = Some base" "0 < w" "w < 2 ^ 20" "0 < h" "h < 2 ^ 20"
  shows "\<exists>x y. resolutionAndRatioToSize r (Str (nat_digits w @ lit '':'' @ nat_digits h)) =
      Inr (Some (num_to_str (num_of_int x) @ lit ''x'' @ num_to_str (num_of_int y))) \<and>
    even x \<and> even y \<and> max x y = base \<and> (h \<le> w \<longrightarrow> x = base) \<and> (w < h \<longrightarrow> y = base) \<and>
    \<bar>of_int (min x y) - of_int base * of_nat (min w h) / of_nat (max w h)\<bar> \<le> (2::rat)"
proof -
  have b: "even base" "0 < base" "base < 2 ^ 20" using base_facts [OF assms(1)] by simp_all
  have m: "0 < min w h" "min w h \<le> max w h" "max w h < 2 ^ 20" using assms by auto
  obtain s where s: "num_div (num_mul (Fin (of_int base)) (num_of_nat (min w h))) (num_of_nat (max w h)) = Fin s"
      "even (make_even (round_int (Fin s)))" "make_even (round_int (Fin s)) \<le> base"
      "\<bar>of_int (make_even (round_int (Fin s))) - of_int base * of_nat (min w h) / of_nat (max w h)\<bar> \<le> (2::rat)"
    using short_side [OF b m] by blast
  define n where "n = make_even (round_int (Fin s))"
  have sides: "ratio_sides base (num_of_nat w) (num_of_nat h) = (if h \<le> w then (num_of_int base, num_of_int n) else (num_of_int n, num_of_int base))"
    unfolding ratio_sides_eq [OF b(1) s(1)] n_def Let_def ..
  show ?thesis
  proof (cases "h \<le> w")
    case True
    then show ?thesis unfolding size_of_sides [OF assms] sides using s(2-4) b(1)
      by (intro exI [of _ base] exI [of _ n]) (simp add: n_def [symmetric] max_absorb1 min_absorb2 del: num_to_str.simps)
  next
    case False
    then show ?thesis unfolding size_of_sides [OF assms] sides using s(2-4) b(1)
      by (intro exI [of _ n] exI [of _ base]) (simp add: n_def [symmetric] max_absorb2 min_absorb1 del: num_to_str.simps)
  qed
qed

theorem image_size_keeps_ratio_witness:
  "\<exists>x y. resolutionAndRatioToSize (S ''3K'') (Str (nat_digits 9 @ lit '':'' @ nat_digits 16)) =
      Inr (Some (num_to_str (num_of_int x) @ lit ''x'' @ num_to_str (num_of_int y))) \<and> y = 3072 \<and> \<bar>of_int (min x y) - 3072 * 9 / 16\<bar> \<le> (2::rat)"
proof -
  have "resolution_base (S ''3K'') = Some 3072" by (simp add: resolution_base_def)
  from image_size_keeps_ratio [OF this, of 9 16] show ?thesis by (auto simp del: num_to_str.simps)
qed

section \<open>The parameters\<close>

lemma route_fold:
  assumes "distinct (map fst ps)"
  shows "obj_get (fst (foldl route_param tops ps)) k =
      (case map_of ps k of Some v \<Rightarrow> if \<not> skipped_param (k, v) \<and> k \<in> set OPENAI_STD_KEYS then v else obj_get (fst tops) k | None \<Rightarrow> obj_get (fst tops) k) \<and>
    obj_get (snd (foldl route_param tops ps)) k =
      (case map_of ps k of Some v \<Rightarrow> if \<not> skipped_param (k, v) \<and> k \<notin> set OPENAI_STD_KEYS then v else obj_get (snd tops) k | None \<Rightarrow> obj_get (snd tops) k)"
  using assms
proof (induction ps arbitrary: tops)
  case (Cons p ps)
  have fresh: "map_of ps (fst p) = None" using Cons.prems by (simp add: map_of_eq_None_iff)
  have step: "obj_get (fst (route_param tops p)) k = (if k = fst p \<and> \<not> skipped_param p \<and> k \<in> set OPENAI_STD_KEYS then snd p else obj_get (fst tops) k)"
      "obj_get (snd (route_param tops p)) k = (if k = fst p \<and> \<not> skipped_param p \<and> k \<notin> set OPENAI_STD_KEYS then snd p else obj_get (snd tops) k)"
    by (auto simp: route_param_def obj_get_put)
  show ?case using Cons.IH [of "route_param tops p"] Cons.prems fresh step by (cases p) (auto split: option.splits)
qed simp

text \<open>Every parameter that is set, apart from the resolution and the ratio, is sent: the standard ones at the top, unless the computed size
  replaces one, and the others in the extra body.\<close>

lemma image_params_routed:
  assumes "distinct (map fst ps)" "route_params (Obj ps) = Inr (topParams, extraBody)" "computed_size (Obj ps) = Inr sz"
    "map_of ps k = Some v" "\<not> skipped_param (k, v)"
  shows "k \<in> set OPENAI_STD_KEYS \<Longrightarrow> k \<noteq> lit ''size'' \<or> \<not> truthy sz \<Longrightarrow> obj_get topParams k = v"
    "k \<notin> set OPENAI_STD_KEYS \<Longrightarrow> obj_get extraBody k = v" "truthy sz \<Longrightarrow> obj_get topParams (lit ''size'') = sz"
proof -
  obtain t0 where t0: "foldl route_param ([], []) ps = (t0, extraBody)" "topParams = (if truthy sz then obj_put t0 (lit ''size'') sz else t0)"
    using assms(2,3) by (auto simp: route_params_def js_or_def split: prod.splits)
  show "k \<in> set OPENAI_STD_KEYS \<Longrightarrow> k \<noteq> lit ''size'' \<or> \<not> truthy sz \<Longrightarrow> obj_get topParams k = v"
    using route_fold [OF assms(1), of "([], [])" k] assms(4,5) t0 by (auto simp: obj_get_put)
  show "k \<notin> set OPENAI_STD_KEYS \<Longrightarrow> obj_get extraBody k = v"
    using route_fold [OF assms(1), of "([], [])" k] assms(4,5) t0 by auto
  show "truthy sz \<Longrightarrow> obj_get topParams (lit ''size'') = sz" using t0 by (simp add: obj_get_put)
qed

text \<open>With a ratio, a resolution other than the three known ones is dropped together with the ratio.\<close>

lemma unknown_resolution_dropped:
  assumes "truthy r" "truthy (Str ratio)" "resolution_base r = None"
  shows "route_params (Obj [(lit ''resolution'', r), (lit ''aspect_ratio'', Str ratio)]) = Inr ([], [])"
  using assms by (simp add: route_params_def computed_size_def Let_def resolutionAndRatioToSize_def route_param_def skipped_param_def js_or_def)

end
