(* ===== verification/Playground_Media.thy ===== *)
theory Playground_Media
  imports Playground_State Media_Generation
begin

text \<open>
  Media messages on the playground page (\<open>pages/Playground/index.jsx\<close>): images, videos, speech and transcriptions are sent as a
  pair of messages, of which the second is replaced when the task of the hooks ends, possibly after the session or the page was
  left.

  The callback a hook is given keeps the session that was active when it was made and the id of the message it updates;
  \<open>md_callbacks\<close> lists them by the numbers the pollers use. \<open>md_attached\<close> is \<open>attachedImageMsgIdsRef\<close> with what each listener keeps:
  the message and the session at the time it was attached. As on the rest of the page a save scheduled with \<open>setTimeout\<close> runs
  right after the event that scheduled it, and naming and touching a session run to their end when a message is sent. What
  awaits in between is split there: sending an image while its reference files are read, and storing a result between the
  read and the write of the stored conversation. The ids of messages are strings.
\<close>

record media_page =
  md_page :: page_state
  md_video :: poller
  md_stt :: poller
  md_callbacks :: "(jsstr option \<times> jsstr) list"
  md_images :: image_registry
  md_attached :: "(jsstr \<times> jsobj \<times> jsstr option) list"
  md_named :: "jsstr list"
  md_params :: jsobj
  md_log :: gen_log

abbreviation md_messages :: "media_page \<Rightarrow> jsobj list" where
  "md_messages p \<equiv> pg_messages (md_page p)"

abbreviation md_active :: "media_page \<Rightarrow> jsstr option" where
  "md_active p \<equiv> activeId (pg_hook (md_page p))"

abbreviation md_store :: "media_page \<Rightarrow> storage" where
  "md_store p \<equiv> pg_store (md_page p)"

section \<open>Updating messages\<close>

definition has_id :: "jsstr \<Rightarrow> jsobj \<Rightarrow> bool" where
  "has_id i m \<longleftrightarrow> mget m ''id'' = Str i"

definition map_id :: "jsstr \<Rightarrow> (jsobj \<Rightarrow> jsobj) \<Rightarrow> jsobj list \<Rightarrow> jsobj list" where
  "map_id i f ms = map (\<lambda>m. if has_id i m then f m else m) ms"

text \<open>\<open>setMessage\<close> and the save that it schedules, with the function of session \<open>sid\<close>.\<close>

definition show_and_save :: "page_env \<Rightarrow> jsstr option \<Rightarrow> jsobj list \<Rightarrow> media_page \<Rightarrow> media_page" where
  "show_and_save e sid ms p = p\<lparr>md_page := saveMessagesImmediately e sid ms (set_pg_messages ms (md_page p))\<rparr>"

definition update_message :: "page_env \<Rightarrow> jsstr option \<Rightarrow> jsstr \<Rightarrow> (jsobj \<Rightarrow> jsobj) \<Rightarrow> media_page \<Rightarrow> media_page" where
  "update_message e sid i f p = show_and_save e sid (map_id i f (md_messages p)) p"

definition handleDeleteGeneration :: "page_env \<Rightarrow> jsobj option \<Rightarrow> jsobj option \<Rightarrow> media_page \<Rightarrow> media_page" where
  "handleDeleteGeneration e promptMessage assistantMessage p =
     (let same = (\<lambda>m x. case x of None \<Rightarrow> False | Some y \<Rightarrow> mget m ''id'' = mget y ''id'')
      in show_and_save e (md_active p) (filter (\<lambda>m. \<not> same m promptMessage \<and> \<not> same m assistantMessage) (md_messages p)) p)"

section \<open>Naming and touching the session\<close>

text \<open>\<open>replace(/\s+/g, ' ')\<close>\<close>

function single_line :: "jsstr \<Rightarrow> jsstr" where
  "single_line s = (case s of [] \<Rightarrow> [] | c # cs \<Rightarrow> if is_ws c then 32 # single_line (dropWhile is_ws cs) else c # single_line cs)"
  by pat_completeness auto
termination
  by (relation "measure length") (auto simp: le_imp_less_Suc length_dropWhile_le)

declare single_line.simps [simp del]

definition default_titles :: "jsstr list" where
  "default_titles = [[], [26410, 21629, 21517, 20250, 35805], [26410, 21629, 21517, 26371, 35441], [26410, 21629, 21517], [26032, 20250, 35805], [26032, 26371, 35441], [26032, 23545, 35805], [26032, 23565, 35441]]"

definition session_name :: "jsstr \<Rightarrow> jsstr" where
  "session_name trimmedText = (let s = single_line trimmedText in if 20 < length s then take 20 s @ [8230] else s)"

text \<open>A failed rename takes the mark off again.\<close>

definition maybeAutoNameSession :: "page_env \<Rightarrow> page_env \<Rightarrow> jsstr \<Rightarrow> media_page \<Rightarrow> media_page" where
  "maybeAutoNameSession e1 e2 promptText p = (case md_active p of
     None \<Rightarrow> p
   | Some i \<Rightarrow>
       if promptText = [] \<or> i = [] \<or> i \<in> set (md_named p) \<or> trim promptText = [] then p
       else
         (let row = find (\<lambda>r. session_id r = i) (sessions (pg_hook (md_page p)));
              title = trim (to_str (js_or (case row of None \<Rightarrow> Undefined | Some r \<Rightarrow> mget r ''title'') (Str [])))
          in if title \<notin> set default_titles \<and> md_messages p \<noteq> [] then p\<lparr>md_named := md_named p @ [i]\<rparr>
             else (case renameSession e1 e2 (pg_hook (md_page p)) i (Str (session_name (trim promptText))) of
                 (Inr _, h) \<Rightarrow> p\<lparr>md_named := md_named p @ [i], md_page := (md_page p)\<lparr>pg_hook := h\<rparr>\<rparr>
               | (Inl x, h) \<Rightarrow> p\<lparr>md_page := (md_page p)\<lparr>pg_hook := h\<rparr>\<rparr>)))"

definition touch_active :: "page_env \<Rightarrow> page_env \<Rightarrow> media_page \<Rightarrow> media_page" where
  "touch_active e1 e2 p = (case md_active p of
     None \<Rightarrow> p
   | Some i \<Rightarrow> if i = [] then p else p\<lparr>md_page := (md_page p)\<lparr>pg_hook := snd (touchSessionHook e1 e2 (pg_hook (md_page p)) i)\<rparr>\<rparr>)"

section \<open>Sending\<close>

text \<open>What a message is sent with: the current choice, unless a message is sent again with its own.\<close>

record send_args =
  sd_prompt :: jsstr
  sd_params :: jsval
  sd_model :: jsval
  sd_group :: jsval

definition used_params :: "send_args \<Rightarrow> media_page \<Rightarrow> jsobj" where
  "used_params a p = (if truthy (sd_params a) then own_entries (sd_params a) else md_params p)"

definition used_model :: "send_args \<Rightarrow> media_page \<Rightarrow> jsval" where
  "used_model a p = js_or (sd_model a) (mget (pg_inputs (md_page p)) ''model'')"

definition sent_group :: "send_args \<Rightarrow> media_page \<Rightarrow> jsval" where
  "sent_group a p = js_or (sd_group a) (mget (pg_inputs (md_page p)) ''group'')"

definition media_meta :: "send_args \<Rightarrow> media_page \<Rightarrow> jsobj" where
  "media_meta a p = [(lit ''model'', used_model a p), (lit ''group'', sent_group a p), (lit ''params'', Obj (used_params a p))]"

text \<open>The pair of messages is shown and saved.\<close>

definition append_pair :: "page_env \<Rightarrow> jsobj \<Rightarrow> jsobj \<Rightarrow> media_page \<Rightarrow> media_page" where
  "append_pair e user loadingMsg p = show_and_save e (md_active p) (md_messages p @ [user, loadingMsg]) p"

definition begin_send :: "page_env \<Rightarrow> page_env \<Rightarrow> page_env \<Rightarrow> page_env \<Rightarrow> jsstr \<Rightarrow> media_page \<Rightarrow> media_page" where
  "begin_send e1 e2 e3 e4 name p = touch_active e3 e4 (maybeAutoNameSession e1 e2 name p)"

subsection \<open>Images\<close>

definition image_part :: "jsval \<Rightarrow> jsval" where
  "image_part url = Obj [(lit ''type'', S ''image_url''), (lit ''image_url'', Obj [(lit ''url'', url)])]"

definition image_user_content :: "jsstr \<Rightarrow> jsval list \<Rightarrow> jsval" where
  "image_user_content prompt refUrls =
     (if refUrls = [] then Str prompt else Arr (Obj [(lit ''type'', S ''text''), (lit ''text'', Str prompt)] # map image_part refUrls))"

text \<open>\<open>handleGenerateImage\<close> up to the reading of the reference files, with what its closure keeps: the session of the rendering that
  started it, and the choices of that rendering.\<close>

record image_send =
  is_sid :: "jsstr option"
  is_prompt :: jsstr
  is_model :: jsval
  is_group :: jsval
  is_params :: jsobj
  is_meta :: jsobj
  is_inputs :: "(jsstr \<times> slot_input) list"

definition image_prepare ::
    "page_env \<Rightarrow> page_env \<Rightarrow> page_env \<Rightarrow> page_env \<Rightarrow> send_args \<Rightarrow> (jsstr \<times> slot_input) list \<Rightarrow> media_page \<Rightarrow> media_page \<times> image_send option" where
  "image_prepare e1 e2 e3 e4 a imageInputs p =
     (if trim (sd_prompt a) = [] then (p, None)
      else (begin_send e1 e2 e3 e4 (sd_prompt a) p,
        Some \<lparr>is_sid = md_active p, is_prompt = sd_prompt a, is_model = used_model a p, is_group = sent_group a p,
          is_params = used_params a p, is_meta = media_meta a p, is_inputs = imageInputs\<rparr>))"

text \<open>From the reading on: \<open>refUrls\<close> is what the file readers produced; \<open>m1\<close> and \<open>m2\<close> are the ids of the messages. The messages are
  appended to those shown now and saved with the function of the session of the start.\<close>

definition image_messages :: "jsnum \<Rightarrow> jsstr \<Rightarrow> jsstr \<Rightarrow> image_send \<Rightarrow> jsval list \<Rightarrow> jsobj \<times> jsobj" where
  "image_messages tm m1 m2 s refUrls =
     (let extra = [(lit ''modality'', S ''image''), (lit ''meta'', Obj (is_meta s))]
      in (obj_merge (createMessage tm m1 (lit ''user'') (image_user_content (is_prompt s) refUrls) []) extra,
          obj_merge (createLoadingAssistantMessage tm m2) extra))"

definition image_proceed ::
    "(jsstr \<Rightarrow> jsstr) \<Rightarrow> page_env \<Rightarrow> jsnum \<Rightarrow> jsstr \<Rightarrow> jsstr \<Rightarrow> image_send \<Rightarrow> jsval list \<Rightarrow> media_page \<Rightarrow> media_page" where
  "image_proceed t e tm m1 m2 s refUrls p =
     (let (user, loadingMsg) = image_messages tm m1 m2 s refUrls;
          p2 = show_and_save e (is_sid s) (md_messages p @ [user, loadingMsg]) p;
          args = \<lparr>ia_messageId = m2, ia_model = is_model s, ia_group = is_group s, ia_prompt = Str (is_prompt s),
            ia_params = Obj (is_params s), ia_inputs = is_inputs s, ia_extra = Undefined\<rparr>
      in case image_begin t args of
           Refused msg \<Rightarrow> p2\<lparr>md_log := show_error msg (md_log p2)\<rparr>
         | Throws x \<Rightarrow> p2
         | Started _ tops extraBody \<Rightarrow> if m2 = [] then p2 else p2\<lparr>md_images := AList.update m2 None (md_images p2)\<rparr>)"

text \<open>The whole of it when nothing happens while the files are read, as is the case when there are none; \<open>None\<close> if a reader failed.\<close>

definition handleGenerateImage ::
    "(jsstr \<Rightarrow> jsstr) \<Rightarrow> page_env \<Rightarrow> page_env \<Rightarrow> page_env \<Rightarrow> page_env \<Rightarrow> page_env \<Rightarrow> jsnum \<Rightarrow> jsstr \<Rightarrow> jsstr \<Rightarrow> send_args \<Rightarrow>
     (jsstr \<times> slot_input) list \<Rightarrow> jsval list option \<Rightarrow> media_page \<Rightarrow> media_page" where
  "handleGenerateImage t e1 e2 e3 e4 e5 tm m1 m2 a imageInputs refUrls p =
     (case (image_prepare e1 e2 e3 e4 a imageInputs p, refUrls) of
        ((p1, Some s), Some urls) \<Rightarrow> image_proceed t e5 tm m1 m2 s urls p1
      | ((p1, _), _) \<Rightarrow> p1)"

definition buildResolvedMsg :: "(jsstr \<Rightarrow> jsstr) \<Rightarrow> jsobj \<Rightarrow> jsval \<Rightarrow> jsobj" where
  "buildResolvedMsg t msg result =
     (let images = (case opt_prop result (lit ''images'') of Arr xs \<Rightarrow> xs | _ \<Rightarrow> []); meta = mget msg ''meta''
      in if \<not> truthy result \<or> truthy (opt_prop result (lit ''error'')) \<or> images = []
         then obj_merge msg [(lit ''status'', ERROR), (lit ''errorMessage'', js_or (opt_prop result (lit ''error'')) (Str (t [22270, 29255, 29983, 25104, 22833, 36133])))]
         else obj_merge msg [(lit ''status'', COMPLETE), (lit ''modality'', S ''image''),
           (lit ''content'', Arr (map (\<lambda>img. Obj [(lit ''type'', S ''image_url''), (lit ''image_url'', Obj [(lit ''url'', opt_prop img (lit ''url''))]),
              (lit ''revised_prompt'', opt_prop img (lit ''revisedPrompt''))]) images)),
           (lit ''meta'', Obj [(lit ''model'', opt_prop meta (lit ''model'')), (lit ''group'', opt_prop meta (lit ''group'')),
              (lit ''params'', js_or (opt_prop meta (lit ''params'')) (Obj [])), (lit ''usage'', opt_prop result (lit ''usage''))])])"

text \<open>Replacing a message in the stored conversation of a session: a read, and in a later transaction a write of what was read with
  the message replaced; together when nothing comes in between.\<close>

definition read_stored :: "page_env \<Rightarrow> jsstr option \<Rightarrow> media_page \<Rightarrow> jsval list option" where
  "read_stored e sid p = (case sid of
     None \<Rightarrow> None
   | Some s \<Rightarrow> if s = [] then None else (case getMessages (db_env e) (idb (md_store p)) s of Arr stored \<Rightarrow> Some stored | _ \<Rightarrow> None))"

definition write_stored :: "page_env \<Rightarrow> jsstr option \<Rightarrow> jsstr \<Rightarrow> jsobj \<Rightarrow> jsval list option \<Rightarrow> media_page \<Rightarrow> media_page" where
  "write_stored e sid i new read p = (case (sid, read) of
     (Some s, Some stored) \<Rightarrow>
       (let next = map (\<lambda>m. if opt_prop m (lit ''id'') = Str i then Obj new else m) stored;
            d = snd (putMessages (db_env e) (idb (md_store p)) s (Arr next))
        in p\<lparr>md_page := (md_page p)\<lparr>pg_hook := (pg_hook (md_page p))\<lparr>store := (md_store p)\<lparr>idb := d\<rparr>\<rparr>\<rparr>\<rparr>)
   | _ \<Rightarrow> p)"

definition replace_stored :: "page_env \<Rightarrow> page_env \<Rightarrow> jsstr option \<Rightarrow> jsstr \<Rightarrow> jsobj \<Rightarrow> media_page \<Rightarrow> media_page" where
  "replace_stored e1 e2 sid i new p = write_stored e2 sid i new (read_stored e1 sid p) p"

text \<open>The effect that picks up the results of images: a message whose request is known is attached to it, the others are marked
  as failed.\<close>

definition waiting_image :: "jsobj \<Rightarrow> bool" where
  "waiting_image m \<longleftrightarrow> mget m ''role'' = S ''assistant'' \<and> mget m ''modality'' = S ''image'' \<and> mget m ''status'' = LOADING"

definition id_of :: "jsobj \<Rightarrow> jsstr" where
  "id_of m = to_str (mget m ''id'')"

definition interrupted :: "(jsstr \<Rightarrow> jsstr) \<Rightarrow> jsobj \<Rightarrow> jsobj" where
  "interrupted t m = obj_merge m [(lit ''status'', ERROR), (lit ''errorMessage'', Str (t [35831, 27714, 24050, 20013, 26029, 65292, 35831, 37325, 26032, 21457, 36865]))]"

definition pick_up :: "(jsstr \<Rightarrow> jsstr) \<Rightarrow> page_env \<Rightarrow> page_env \<Rightarrow> page_env \<Rightarrow> media_page \<Rightarrow> jsobj \<Rightarrow> media_page" where
  "pick_up t e1 e2 e3 p m =
     (let i = id_of m
      in if \<not> waiting_image m \<or> i \<in> fst ` set (md_attached p) then p
         else (case getInFlightImageRequest (md_images p) i of
             None \<Rightarrow> replace_stored e2 e3 (md_active p) i (interrupted t m) (update_message e1 (md_active p) i (\<lambda>_. interrupted t m) p)
           | Some _ \<Rightarrow> p\<lparr>md_attached := md_attached p @ [(i, m, md_active p)]\<rparr>))"

definition image_effect :: "(jsstr \<Rightarrow> jsstr) \<Rightarrow> page_env \<Rightarrow> page_env \<Rightarrow> page_env \<Rightarrow> media_page \<Rightarrow> media_page" where
  "image_effect t e1 e2 e3 p = (if md_active p = None \<or> md_active p = Some [] then p else foldl (pick_up t e1 e2 e3) p (md_messages p))"

text \<open>The promise of a request settles, and then its listeners run.\<close>

definition image_settles :: "jsstr \<Rightarrow> jsval \<Rightarrow> media_page \<Rightarrow> media_page" where
  "image_settles i v p = (case map_of (md_images p) i of Some None \<Rightarrow> p\<lparr>md_images := AList.update i (Some v) (md_images p)\<rparr> | _ \<Rightarrow> p)"

text \<open>The listener: it shows the result if the message is shown, then stores it in the session kept, and forgets the request at the end.\<close>

definition listener_show :: "page_env \<Rightarrow> jsstr option \<Rightarrow> jsstr \<Rightarrow> jsobj \<Rightarrow> media_page \<Rightarrow> media_page" where
  "listener_show e sid i new p = (if list_ex (has_id i) (md_messages p) then update_message e sid i (\<lambda>_. new) p else p)"

definition listener_end :: "jsstr \<Rightarrow> media_page \<Rightarrow> media_page" where
  "listener_end i p = p\<lparr>md_images := clearInFlightImageRequest i (md_images p), md_attached := filter (\<lambda>x. fst x \<noteq> i) (md_attached p)\<rparr>"

definition image_listener :: "(jsstr \<Rightarrow> jsstr) \<Rightarrow> page_env \<Rightarrow> page_env \<Rightarrow> page_env \<Rightarrow> jsstr \<Rightarrow> media_page \<Rightarrow> media_page" where
  "image_listener t e1 e2 e3 i p = (case (map_of (md_images p) i, map_of (md_attached p) i) of
     (Some (Some v), Some (msg, sid)) \<Rightarrow>
       (let new = buildResolvedMsg t msg v in listener_end i (replace_stored e2 e3 sid i new (listener_show e1 sid i new p)))
   | _ \<Rightarrow> p)"

subsection \<open>Videos\<close>

definition video_content :: "jsval \<Rightarrow> jsval" where
  "video_content patch =
     (let raw = opt_prop patch (lit ''raw'');
          lastFrame = js_or (opt_prop (opt_prop raw (lit ''metadata'')) (lit ''last_frame_url'')) (opt_prop (opt_prop raw (lit ''content'')) (lit ''last_frame_url''))
      in Arr ([Obj [(lit ''type'', S ''video_url''), (lit ''video_url'', Obj [(lit ''url'', opt_prop patch (lit ''videoUrl''))])]] @
         (if truthy lastFrame then [image_part lastFrame] else [])))"

definition video_patch :: "(jsstr \<Rightarrow> jsstr) \<Rightarrow> jsval \<Rightarrow> jsobj \<Rightarrow> jsobj" where
  "video_patch t patch m =
     (let st = opt_prop patch (lit ''status''); progress = opt_prop patch (lit ''progress''); err = opt_prop patch (lit ''errorMessage'');
          m1 = (if truthy st then mput m ''status'' st else m);
          m2 = (if is_num progress then mput m1 ''progress'' progress else m1);
          m3 = (if truthy err then mput m2 ''errorMessage'' err else m2)
      in if st = COMPLETE
         then (if truthy (opt_prop patch (lit ''videoUrl'')) then mput m3 ''content'' (video_content patch)
               else mput (mput m3 ''status'' ERROR) ''errorMessage'' (Str (t [20219, 21153, 24050, 23436, 25104, 20294, 21709, 24212, 20013, 26410, 25658, 24102, 35270, 39057, 38142, 25509, 65292, 35831, 26597, 30475, 20219, 21153, 26085, 24535])))
         else m3)"

definition applyVideoUpdate :: "(jsstr \<Rightarrow> jsstr) \<Rightarrow> page_env \<Rightarrow> jsstr option \<Rightarrow> jsstr \<Rightarrow> jsobj \<Rightarrow> media_page \<Rightarrow> media_page" where
  "applyVideoUpdate t e sid i patch p = update_message e sid i (video_patch t (Obj patch)) p"

text \<open>The patches that a step of a poller handed to the callbacks.\<close>

definition deliver :: "(jsstr option \<Rightarrow> jsstr \<Rightarrow> jsobj \<Rightarrow> media_page \<Rightarrow> media_page) \<Rightarrow> (nat \<times> jsobj) list \<Rightarrow> media_page \<Rightarrow> media_page" where
  "deliver apply us p = foldl (\<lambda>q u. case md_callbacks q ! fst u of (sid, i) \<Rightarrow> apply sid i (snd u) q) p us"

definition step_video :: "(jsstr \<Rightarrow> jsstr) \<Rightarrow> page_env \<Rightarrow> (poller \<Rightarrow> poller) \<Rightarrow> media_page \<Rightarrow> media_page" where
  "step_video t e f p =
     (let h = f (md_video p) in deliver (applyVideoUpdate t e) (drop (length (updates (md_video p))) (updates h)) (p\<lparr>md_video := h\<rparr>))"

definition page_video_tick :: "(jsstr \<Rightarrow> jsstr) \<Rightarrow> page_env \<Rightarrow> int \<Rightarrow> jsval \<Rightarrow> sink \<Rightarrow> reply \<Rightarrow> media_page \<Rightarrow> media_page" where
  "page_video_tick t e now k s r p = step_video t e (video_tick t now k s r) p"

definition media_parts :: "jsval list \<Rightarrow> jsval list" where
  "media_parts content = filter (\<lambda>c. opt_prop c (lit ''type'') \<in> {S ''image_url'', S ''video_url'', S ''audio_url''}) content"

text \<open>\<open>handleGenerateVideo\<close> up to its await. \<open>optional\<close> is whether the model needs no prompt.\<close>

definition handleGenerateVideo ::
    "(jsstr \<Rightarrow> jsstr) \<Rightarrow> page_env \<Rightarrow> page_env \<Rightarrow> page_env \<Rightarrow> page_env \<Rightarrow> page_env \<Rightarrow> jsstr \<Rightarrow> jsnum \<Rightarrow> jsstr \<Rightarrow> jsstr \<Rightarrow> bool \<Rightarrow> send_args \<Rightarrow>
     jsval list \<Rightarrow> media_page \<Rightarrow> (media_page \<times> jsobj option) res" where
  "handleGenerateVideo t e1 e2 e3 e4 e5 ts tm m1 m2 optional a content p =
     (let trimmedPrompt = trim (sd_prompt a)
      in if trimmedPrompt = [] \<and> \<not> (optional \<and> content \<noteq> []) then Inr (p, None)
         else
           (let p1 = begin_send e1 e2 e3 e4 (if trimmedPrompt = [] then to_str (used_model a p) else trimmedPrompt) p;
                parts = media_parts content;
                userContent = (if parts = [] then Str (sd_prompt a)
                  else Arr ((if trimmedPrompt = [] then [] else [Obj [(lit ''type'', S ''text''), (lit ''text'', Str (sd_prompt a))]]) @ parts));
                meta = (lit ''meta'', Obj (media_meta a p @ [(lit ''promptOptional'', Bool optional)]));
                user = obj_merge (createMessage tm m1 (lit ''user'') userContent []) [(lit ''attachments'', Arr content), (lit ''modality'', S ''video''), meta];
                loadingMsg = obj_merge (createLoadingAssistantMessage tm m2) [(lit ''status'', LOADING), (lit ''progress'', Num (Fin 0)), (lit ''modality'', S ''video''), meta];
                p2 = append_pair e5 user loadingMsg p1;
                p3 = p2\<lparr>md_callbacks := md_callbacks p2 @ [(md_active p1, m2)]\<rparr>
            in map_sum id (\<lambda>hp. (p3\<lparr>md_video := fst hp\<rparr>, snd hp))
                 (video_submit t ts \<lparr>va_model = used_model a p, va_group = sent_group a p, va_prompt = Str (sd_prompt a), va_params = Obj (used_params a p),
                    va_content = Arr content, va_promptOptional = Bool optional, va_onUpdate = Some (length (md_callbacks p2))\<rparr> (md_video p3))))"

text \<open>From the answer of the submission on; \<open>Null\<close> is the value when nothing was submitted.\<close>

definition video_result :: "(jsstr \<Rightarrow> jsstr) \<Rightarrow> page_env \<Rightarrow> jsnum \<Rightarrow> jsstr option \<Rightarrow> jsstr \<Rightarrow> jsobj \<Rightarrow> jsval \<Rightarrow> media_page \<Rightarrow> media_page" where
  "video_result t e now sid i meta result p =
     (if \<not> truthy result \<or> truthy (opt_prop result (lit ''error''))
      then update_message e sid i (\<lambda>m. obj_merge m [(lit ''status'', ERROR),
             (lit ''errorMessage'', js_or (opt_prop result (lit ''error'')) (Str (t [35270, 39057, 29983, 25104, 20219, 21153, 25552, 20132, 22833, 36133])))]) p
      else update_message e sid i (\<lambda>m. obj_merge m [(lit ''taskId'', opt_prop result (lit ''taskId'')), (lit ''status'', S ''polling''),
             (lit ''modality'', S ''video''), (lit ''pollStartedAt'', Num now), (lit ''meta'', Obj meta)]) p)"

definition page_video_submitted ::
    "(jsstr \<Rightarrow> jsstr) \<Rightarrow> page_env \<Rightarrow> int \<Rightarrow> jsstr \<Rightarrow> jsstr option \<Rightarrow> jsstr \<Rightarrow> jsobj \<Rightarrow> sink \<Rightarrow> reply \<Rightarrow> media_page \<Rightarrow> media_page" where
  "page_video_submitted t e now ts sid i meta s r p = (case video_submitted t now ts s r (md_video p) of
     (h, v) \<Rightarrow> video_result t e (num_of_int now) sid i meta v (p\<lparr>md_video := h\<rparr>))"

text \<open>The effect that resumes the polls of the videos shown.\<close>

definition unfinished_task :: "bool \<Rightarrow> jsobj \<Rightarrow> bool" where
  "unfinished_task stt m \<longleftrightarrow> mget m ''role'' = S ''assistant'' \<and> truthy (mget m ''taskId'') \<and> (mget m ''taskKind'' = S ''stt'') = stt \<and>
     mget m ''status'' \<noteq> COMPLETE \<and> mget m ''status'' \<noteq> ERROR"

definition resume_videos :: "int \<Rightarrow> media_page \<Rightarrow> media_page" where
  "resume_videos now p = foldl (\<lambda>q m.
     if unfinished_task False m
     then q\<lparr>md_callbacks := md_callbacks q @ [(md_active q, id_of m)],
            md_video := startPolling video_endpoint now (mget m ''taskId'') (Some (length (md_callbacks q))) (md_video q)\<rparr>
     else q) p (md_messages p)"

subsection \<open>Speech\<close>

definition handleGenerateAudio ::
    "page_env \<Rightarrow> page_env \<Rightarrow> page_env \<Rightarrow> page_env \<Rightarrow> page_env \<Rightarrow> jsnum \<Rightarrow> jsstr \<Rightarrow> jsstr \<Rightarrow> send_args \<Rightarrow> media_page \<Rightarrow> media_page" where
  "handleGenerateAudio e1 e2 e3 e4 e5 tm m1 m2 a p =
     (if trim (sd_prompt a) = [] then p
      else (let p1 = begin_send e1 e2 e3 e4 (trim (sd_prompt a)) p;
                extra = [(lit ''modality'', S ''audio''), (lit ''meta'', Obj (media_meta a p))]
        in append_pair e5 (obj_merge (createMessage tm m1 (lit ''user'') (Str (sd_prompt a)) []) extra)
             (obj_merge (createLoadingAssistantMessage tm m2) ((lit ''status'', LOADING) # extra)) p1))"

text \<open>The value \<open>generateAudio\<close> returned is put into the message, with the functions of session \<open>sid\<close>.\<close>

definition audio_result :: "(jsstr \<Rightarrow> jsstr) \<Rightarrow> page_env \<Rightarrow> jsstr option \<Rightarrow> jsstr \<Rightarrow> jsval \<Rightarrow> media_page \<Rightarrow> media_page" where
  "audio_result t e sid i result p = update_message e sid i (\<lambda>m.
     if \<not> truthy result \<or> truthy (opt_prop result (lit ''error''))
     then obj_merge m [(lit ''status'', ERROR), (lit ''errorMessage'', js_or (opt_prop result (lit ''error'')) (Str (t [38899, 39057, 29983, 25104, 22833, 36133])))]
     else obj_merge m [(lit ''status'', COMPLETE), (lit ''modality'', S ''audio''),
       (lit ''content'', Arr [Obj [(lit ''type'', S ''audio_url''), (lit ''audio_url'', Obj [(lit ''url'', opt_prop result (lit ''url''))])]])]) p"

subsection \<open>Transcriptions\<close>

definition stt_patch :: "(jsstr \<Rightarrow> jsstr) \<Rightarrow> jsval \<Rightarrow> jsobj \<Rightarrow> jsobj" where
  "stt_patch t patch m =
     (if opt_prop patch (lit ''status'') = COMPLETE
      then obj_merge m [(lit ''status'', COMPLETE), (lit ''content'', js_or (opt_prop patch (lit ''text'')) (Str (t [65288, 26410, 35782, 21035, 21040, 25991, 26412, 65289])))]
      else (let errText = js_or (opt_prop patch (lit ''errorMessage'')) (Str (t [35821, 38899, 35782, 21035, 22833, 36133]))
        in obj_merge m [(lit ''status'', ERROR), (lit ''content'', errText), (lit ''errorMessage'', errText)]))"

definition applySttUpdate :: "(jsstr \<Rightarrow> jsstr) \<Rightarrow> page_env \<Rightarrow> jsstr option \<Rightarrow> jsstr \<Rightarrow> jsobj \<Rightarrow> media_page \<Rightarrow> media_page" where
  "applySttUpdate t e sid i patch p =
     (let st = mget patch ''status'' in if st \<noteq> COMPLETE \<and> st \<noteq> ERROR then p else update_message e sid i (stt_patch t (Obj patch)) p)"

definition page_stt_tick :: "(jsstr \<Rightarrow> jsstr) \<Rightarrow> page_env \<Rightarrow> int \<Rightarrow> jsval \<Rightarrow> sink \<Rightarrow> reply \<Rightarrow> media_page \<Rightarrow> media_page" where
  "page_stt_tick t e now k s r p =
     (let h = stt_tick t now k s r (md_stt p)
      in deliver (applySttUpdate t e) (drop (length (updates (md_stt p))) (updates h)) (p\<lparr>md_stt := h\<rparr>))"

definition resume_transcriptions :: "int \<Rightarrow> media_page \<Rightarrow> media_page" where
  "resume_transcriptions now p = foldl (\<lambda>q m.
     if unfinished_task True m
     then q\<lparr>md_callbacks := md_callbacks q @ [(md_active q, id_of m)],
            md_stt := startPolling stt_endpoint now (mget m ''taskId'') (Some (length (md_callbacks q))) (md_stt q)\<rparr>
     else q) p (md_messages p)"

text \<open>\<open>handleTranscribeAudio\<close> up to its await; \<open>localUrl\<close> is the address of the file in the browser.\<close>

definition handleTranscribeAudio ::
    "(jsstr \<Rightarrow> jsstr) \<Rightarrow> page_env \<Rightarrow> page_env \<Rightarrow> page_env \<Rightarrow> page_env \<Rightarrow> page_env \<Rightarrow> jsnum \<Rightarrow> jsstr \<Rightarrow> jsstr \<Rightarrow> jsstr \<Rightarrow> blob \<Rightarrow> media_page \<Rightarrow> media_page" where
  "handleTranscribeAudio t e1 e2 e3 e4 e5 tm m1 m2 localUrl f p =
     (let ins = pg_inputs (md_page p); model = mget ins ''model''; grp = mget ins ''group'';
          name = (if is_file f \<and> fname f \<noteq> [] then fname f else lit ''audio'');
          meta = (lit ''meta'', Obj [(lit ''model'', model), (lit ''group'', grp)])
      in if \<not> truthy model then p\<lparr>md_log := show_error (Str (t [35831, 20808, 36873, 25321, 27169, 22411])) (md_log p)\<rparr>
         else (let p1 = begin_send e1 e2 e3 e4 name p;
                   p2 = append_pair e5
                     (obj_merge (createMessage tm m1 (lit ''user'') (Str ([55356, 57241, 65039, 32] @ name)) [])
                        [(lit ''modality'', S ''audio''), (lit ''sttAudioUrl'', Str localUrl), meta])
                     (obj_merge (createLoadingAssistantMessage tm m2) [(lit ''status'', LOADING), meta]) p1
           in p2\<lparr>md_callbacks := md_callbacks p2 @ [(md_active p1, m2)]\<rparr>))"

definition audio_uploaded :: "page_env \<Rightarrow> jsstr option \<Rightarrow> jsstr \<Rightarrow> jsval \<Rightarrow> media_page \<Rightarrow> media_page" where
  "audio_uploaded e sid m1 url p = (if \<not> truthy url then p else update_message e sid m1 (\<lambda>m. mput m ''sttAudioUrl'' url) p)"

definition stt_result :: "(jsstr \<Rightarrow> jsstr) \<Rightarrow> page_env \<Rightarrow> jsstr option \<Rightarrow> jsstr \<Rightarrow> jsstr \<Rightarrow> jsval \<Rightarrow> media_page \<Rightarrow> media_page" where
  "stt_result t e sid m1 m2 result p =
     (let errText = js_or (opt_prop result (lit ''error'')) (Str (t [35821, 38899, 35782, 21035, 20219, 21153, 25552, 20132, 22833, 36133]));
          f = (\<lambda>m. if has_id m1 m \<and> truthy (opt_prop result (lit ''audioUrl'')) then mput m ''sttAudioUrl'' (opt_prop result (lit ''audioUrl''))
            else if has_id m2 m
            then (if truthy (opt_prop result (lit ''taskId''))
                  then obj_merge m [(lit ''taskId'', opt_prop result (lit ''taskId'')), (lit ''taskKind'', S ''stt''), (lit ''status'', LOADING)]
                  else obj_merge m [(lit ''status'', ERROR), (lit ''content'', errText), (lit ''errorMessage'', errText)])
            else m)
      in show_and_save e sid (map f (md_messages p)) p)"

end
