(* ===== verification/Playground_Media_Thms.thy ===== *)
theory Playground_Media_Thms
  imports Playground_Media Playground_State_Thms
begin

text \<open>
  What becomes of the results of media tasks: the results of images reach the session they belong to and no other, no image waits
  for a request that is gone, and the polls of videos store the conversation of whichever session is shown.
\<close>

section \<open>Frames\<close>

lemma show_and_save_simps [simp]:
  "md_messages (show_and_save e sid ms p) = ms" "md_active (show_and_save e sid ms p) = md_active p"
  "md_video (show_and_save e sid ms p) = md_video p" "md_callbacks (show_and_save e sid ms p) = md_callbacks p"
  "md_images (show_and_save e sid ms p) = md_images p" "md_attached (show_and_save e sid ms p) = md_attached p"
  "pg_loaded (md_page (show_and_save e sid ms p)) = pg_loaded (md_page p)"
  "initialized (pg_hook (md_page (show_and_save e sid ms p))) = initialized (pg_hook (md_page p))"
  by (simp_all add: show_and_save_def set_pg_messages_def)

lemma show_and_save_store:
  "md_store (show_and_save e sid ms p) = (case sid of None \<Rightarrow> md_store p
     | Some a \<Rightarrow> if a = [] \<or> \<not> pg_loaded (md_page p) then md_store p else saveMessages e (md_store p) (Arr (map Obj ms)) a)"
  by (simp add: show_and_save_def saveMessagesImmediately_def set_pg_messages_def split: option.splits)

lemma write_stored_simps [simp]:
  "md_messages (write_stored e sid i new read p) = md_messages p" "md_active (write_stored e sid i new read p) = md_active p"
  "md_images (write_stored e sid i new read p) = md_images p" "md_attached (write_stored e sid i new read p) = md_attached p"
  by (simp_all add: write_stored_def Let_def split: option.splits)

lemma replace_stored_simps [simp]:
  "md_messages (replace_stored e1 e2 sid i new p) = md_messages p" "md_active (replace_stored e1 e2 sid i new p) = md_active p"
  "md_images (replace_stored e1 e2 sid i new p) = md_images p" "md_attached (replace_stored e1 e2 sid i new p) = md_attached p"
  by (simp_all add: replace_stored_def)

lemma listener_show_simps [simp]:
  "md_images (listener_show e sid i new p) = md_images p" "md_attached (listener_show e sid i new p) = md_attached p"
  by (simp_all add: listener_show_def update_message_def)

lemma map_id_absent: "\<not> list_ex (has_id i) ms \<Longrightarrow> map_id i f ms = ms"
  by (induction ms) (auto simp: map_id_def)

lemma map_id_twice: "map_id i (\<lambda>_. new) (map_id i (\<lambda>_. new) ms) = map_id i (\<lambda>_. new) ms"
  by (simp add: map_id_def comp_def)

section \<open>Videos\<close>

text \<open>An update of a message that is not shown stores what is shown as the conversation of the session the update belongs to.\<close>

lemma update_absent:
  assumes "\<not> list_ex (has_id i) (md_messages p)" "pg_loaded (md_page p)" "a \<noteq> []"
  shows "md_messages (update_message e (Some a) i f p) = md_messages p"
    "md_store (update_message e (Some a) i f p) = saveMessages e (md_store p) (Arr (map Obj (md_messages p))) a"
  using assms by (simp_all add: update_message_def map_id_absent show_and_save_store)

lemma update_shown:
  assumes "pg_loaded (md_page p)" "a \<noteq> []" "idb_wf (idb (md_store p))" "page_ok e" "page_ok e'"
  shows "loadMessages e' (md_store (update_message e (Some a) i f p)) a = Arr (map Obj (map_id i f (md_messages p)))"
  using assms save_load_messages [OF assms(3,4,5,2,2)] by (simp add: update_message_def show_and_save_store)

lemma stt_end_overwrites_session:
  assumes "\<not> list_ex (has_id i) (md_messages p)" "pg_loaded (md_page p)" "a \<noteq> []" "idb_wf (idb (md_store p))" "page_ok e" "page_ok e'"
    "mget u ''status'' = COMPLETE \<or> mget u ''status'' = ERROR"
  shows "loadMessages e' (md_store (applySttUpdate t e (Some a) i u p)) a = Arr (map Obj (md_messages p))"
  using assms update_shown [OF assms(2-6)] by (auto simp: applySttUpdate_def Let_def map_id_absent)

lemma apply_absent:
  assumes "\<not> list_ex (has_id i) (md_messages p)" "pg_loaded (md_page p)" "a \<noteq> []"
  shows "md_messages (applyVideoUpdate t e (Some a) i u p) = md_messages p \<and>
    md_store (applyVideoUpdate t e (Some a) i u p) = saveMessages e (md_store p) (Arr (map Obj (md_messages p))) a \<and>
    pg_loaded (md_page (applyVideoUpdate t e (Some a) i u p)) \<and> md_callbacks (applyVideoUpdate t e (Some a) i u p) = md_callbacks p \<and>
    initialized (pg_hook (md_page (applyVideoUpdate t e (Some a) i u p))) = initialized (pg_hook (md_page p))"
  using assms update_absent [OF assms] by (simp add: applyVideoUpdate_def) (simp add: update_message_def)

lemma deliver_absent:
  assumes "\<not> list_ex (has_id i) (md_messages p)" "pg_loaded (md_page p)" "a \<noteq> []" "md_callbacks p ! c = (Some a, i)" "\<forall>u \<in> set us. fst u = c"
    "us \<noteq> []" "idb_wf (idb (md_store p))" "page_ok e" "page_ok e'"
  shows "md_messages (deliver (applyVideoUpdate t e) us p) = md_messages p \<and>
    loadMessages e' (md_store (deliver (applyVideoUpdate t e) us p)) a = Arr (map Obj (md_messages p)) \<and>
    initialized (pg_hook (md_page (deliver (applyVideoUpdate t e) us p))) = initialized (pg_hook (md_page p))"
  using assms
proof (induction us arbitrary: p)
  case (Cons u us)
  define q where "q = applyVideoUpdate t e (Some a) i (snd u) p"
  have q: "md_messages q = md_messages p" "md_store q = saveMessages e (md_store p) (Arr (map Obj (md_messages p))) a"
      "pg_loaded (md_page q)" "md_callbacks q = md_callbacks p" "initialized (pg_hook (md_page q)) = initialized (pg_hook (md_page p))"
    using apply_absent [OF Cons.prems(1-3), of t e "snd u"] by (simp_all add: q_def)
  have step: "deliver (applyVideoUpdate t e) (u # us) p = deliver (applyVideoUpdate t e) us q" using Cons.prems(4,5) by (simp add: deliver_def q_def)
  have wf: "idb_wf (idb (md_store q))" using Cons.prems(7) by (simp add: q(2) messages_wf)
  show ?case
  proof (cases "us = []")
    case True
    have "loadMessages e' (md_store q) a = Arr (map Obj (md_messages p))"
      unfolding q(2) using save_load_messages [OF Cons.prems(7,8,9,3,3)] by simp
    moreover have "deliver (applyVideoUpdate t e) (u # us) p = q" unfolding step unfolding True by (simp add: deliver_def)
    ultimately show ?thesis using q by simp
  next
    case False
    then show ?thesis using Cons.IH [of q] Cons.prems q wf by (simp add: step)
  qed
qed simp

lemma updates_emit: "updates (emit (Some c) u h) = updates h @ [(c, u)]" "updates (stopPoll k h) = updates h"
  by (simp_all add: emit_def stopPoll_def split: option.splits)

text \<open>An answer hands at least one patch to the callback of its poll.\<close>

lemma answered_patches:
  "\<exists>us. us \<noteq> [] \<and> (\<forall>u \<in> set us. fst u = c) \<and> updates (video_tick t now k (Some c) (Reply res) h) = updates h @ us"
proof -
  have "\<exists>u. updates (video_reply t k (Some c) res h) = updates h @ [(c, u)]"
    by (simp add: video_reply_def Let_def updates_emit if_distrib [of updates])
  then obtain u where u: "updates (video_reply t k (Some c) res h) = updates h @ [(c, u)]" ..
  have "\<exists>us. (\<forall>u \<in> set us. fst u = c) \<and> updates (tick_timeout t video_timeout_ms now k (Some c) g) = updates g @ us" for g
  proof (cases "tick_timeout t video_timeout_ms now k (Some c) g = g")
    case True
    then show ?thesis by (intro exI [of _ "[]"]) simp
  next
    case False
    then obtain v where "tick_timeout t video_timeout_ms now k (Some c) g = emit (Some c) v (stopPoll k g)"
      by (auto simp: tick_timeout_def split: option.splits if_splits)
    then show ?thesis by (intro exI [of _ "[(c, v)]"]) (simp add: updates_emit)
  qed
  from this [of "video_reply t k (Some c) res h"]
  obtain us where "\<forall>u \<in> set us. fst u = c" "updates (video_tick t now k (Some c) (Reply res) h) = updates h @ (c, u) # us"
    by (auto simp: video_tick_def u)
  then show ?thesis by (intro exI [of _ "(c, u) # us"]) simp
qed

text \<open>C10: when a poll of a video started in session \<open>a\<close> is answered while the page shows a conversation without its message, as after
  switching to another session, the conversation shown is stored as that of \<open>a\<close>: what \<open>a\<close> held is lost, and opening \<open>a\<close> shows the
  other conversation.\<close>

theorem video_poll_overwrites_session:
  assumes "md_callbacks p ! c = (Some a, i)" "a \<noteq> []" "\<not> list_ex (has_id i) (md_messages p)" "pg_loaded (md_page p)"
    "terminal (md_messages p)" "initialized (pg_hook (md_page p))" "idb_wf (idb (md_store p))" "page_ok e" "page_ok e1" "page_ok e2"
    and q: "q = page_video_tick t e now k (Some c) (Reply res) p"
  shows "md_messages q = md_messages p \<and> loadMessages e2 (md_store q) a = Arr (map Obj (md_messages p)) \<and>
    pg_messages (finish_load e2 e3 (switch_page e1 a (md_page q))) = md_messages p"
proof -
  obtain us where us: "us \<noteq> []" "\<forall>u \<in> set us. fst u = c" "updates (video_tick t now k (Some c) (Reply res) (md_video p)) = updates (md_video p) @ us"
    using answered_patches by blast
  define p1 where "p1 = p\<lparr>md_video := video_tick t now k (Some c) (Reply res) (md_video p)\<rparr>"
  have q1: "q = deliver (applyVideoUpdate t e) us p1" by (simp add: q page_video_tick_def step_video_def Let_def us(3) p1_def)
  have "md_messages q = md_messages p \<and> loadMessages e2 (md_store q) a = Arr (map Obj (md_messages p)) \<and> initialized (pg_hook (md_page q))"
    using deliver_absent [of i p1 a c us e e2 t] assms us(1,2) unfolding q1 by (simp add: p1_def)
  then show ?thesis using reopen_session [of a "md_page q" e1 e2] assms by simp
qed

section \<open>Images\<close>

lemma resolved_status: "mget (buildResolvedMsg t msg v) ''status'' = COMPLETE \<or> mget (buildResolvedMsg t msg v) ''status'' = ERROR"
  by (simp add: buildResolvedMsg_def Let_def Playground_Chat_Thms.merge_simps)

lemma read_stored_load:
  assumes "a \<noteq> []" "page_ok e" "page_ok e'" "loadMessages e' (md_store p) a = Arr (map Obj ms)"
  shows "read_stored e (Some a) p = Some (map Obj ms)"
  using assms by (simp add: read_stored_def loadMessages_def session_or_active_def getMessages_def page_ok_def)

lemma write_stored_load:
  assumes "a \<noteq> []" "b \<noteq> []" "idb_wf (idb (md_store p))" "page_ok e" "page_ok e'"
  shows "loadMessages e' (md_store (write_stored e (Some a) i new (Some (map Obj ms)) p)) b =
    (if b = a then Arr (map Obj (map_id i (\<lambda>_. new) ms)) else loadMessages e' (md_store p) b)"
proof -
  have next_ms: "map (\<lambda>m. if opt_prop m (lit ''id'') = Str i then Obj new else m) (map Obj ms) = map Obj (map_id i (\<lambda>_. new) ms)"
    by (simp add: map_id_def has_id_def)
  have "md_store (write_stored e (Some a) i new (Some (map Obj ms)) p) = saveMessages e (md_store p) (Arr (map Obj (map_id i (\<lambda>_. new) ms))) a"
    using assms(1) by (simp add: write_stored_def next_ms Let_def saveMessages_def session_or_active_def js_or_def del: map_map)
  then show ?thesis using save_load_messages [OF assms(3,4,5,1,2)] by simp
qed



text \<open>With nothing in between, these parts are the listener.\<close>

lemma listener_parts:
  assumes "map_of (md_images p) i = Some (Some v)" "map_of (md_attached p) i = Some (msg, sid)" "new = buildResolvedMsg t msg v"
    "p1 = listener_show e1 sid i new p"
  shows "image_listener t e1 e2 e3 i p = listener_end i (write_stored e3 sid i new (read_stored e2 sid p1) p1)"
  using assms by (simp add: image_listener_def Let_def replace_stored_def)

text \<open>What is stored for the session between the read and the write is lost.\<close>

lemma write_overwrites:
  assumes "a \<noteq> []" "idb_wf (idb (md_store p3))" "page_ok e1" "page_ok e2" "page_ok e'" "loadMessages e' (md_store p2) a = Arr (map Obj ms)"
  shows "loadMessages e' (md_store (write_stored e2 (Some a) i new (read_stored e1 (Some a) p2) p3)) a = Arr (map Obj (map_id i (\<lambda>_. new) ms))"
  using write_stored_load [OF assms(1,1,2,4,5)] read_stored_load [OF assms(1,3,5,6)] by simp

text \<open>When the session is switched while the reference files are read, the messages are appended to the conversation now shown, and
  that conversation is stored as the one of the session the image was sent in.\<close>

lemma switched_while_reading:
  assumes "is_sid s = Some a" "a \<noteq> []" "pg_loaded (md_page p)" "idb_wf (idb (md_store p))" "page_ok e" "page_ok e'"
    "image_messages tm m1 m2 s urls = (user, loadingMsg)"
  shows "loadMessages e' (md_store (image_proceed t e tm m1 m2 s urls p)) a = Arr (map Obj (md_messages p @ [user, loadingMsg]))"
proof -
  have "md_store (image_proceed t e tm m1 m2 s urls p) = md_store (show_and_save e (Some a) (md_messages p @ [user, loadingMsg]) p)"
    using assms(1,7) by (simp add: image_proceed_def Let_def split: image_start.splits)
  then show ?thesis using save_load_messages [OF assms(4-6,2,2)] assms(2,3) by (simp add: show_and_save_store)
qed

subsection \<open>No image waits for a request that is gone\<close>

definition waits_attached :: "jsobj list \<Rightarrow> media_page \<Rightarrow> bool" where
  "waits_attached todo p \<longleftrightarrow> (\<forall>m \<in> set (md_messages p). waiting_image m \<longrightarrow> id_of m \<in> fst ` set (md_attached p) \<or> m \<in> set todo)"

lemma interrupted_not_waiting: "\<not> waiting_image (interrupted t m)"
  by (simp add: waiting_image_def interrupted_def Playground_Chat_Thms.merge_simps)

lemma pick_up_progress:
  assumes "waits_attached (m # todo) p" "mget m ''id'' = Str (id_of m)"
  shows "waits_attached todo (pick_up t e1 e2 e3 p m)"
proof -
  consider "\<not> waiting_image m \<or> id_of m \<in> fst ` set (md_attached p)"
    | (gone) "waiting_image m" "id_of m \<notin> fst ` set (md_attached p)" "getInFlightImageRequest (md_images p) (id_of m) = None"
    | (known) "waiting_image m" "id_of m \<notin> fst ` set (md_attached p)" "getInFlightImageRequest (md_images p) (id_of m) \<noteq> None"
    by blast
  then show ?thesis
  proof cases
    case 1
    then show ?thesis using assms(1) by (auto simp: pick_up_def waits_attached_def)
  next
    case gone
    have "md_messages (pick_up t e1 e2 e3 p m) = map_id (id_of m) (\<lambda>_. interrupted t m) (md_messages p)"
        "md_attached (pick_up t e1 e2 e3 p m) = md_attached p"
      using gone by (simp_all add: pick_up_def update_message_def Let_def)
    moreover have "has_id (id_of m) m" using assms(2) by (simp add: has_id_def)
    ultimately show ?thesis using assms(1) interrupted_not_waiting
      by (auto simp: waits_attached_def map_id_def split: if_splits)
  next
    case known
    then have "md_messages (pick_up t e1 e2 e3 p m) = md_messages p" "md_attached (pick_up t e1 e2 e3 p m) = md_attached p @ [(id_of m, m, md_active p)]"
      by (auto simp: pick_up_def)
    then show ?thesis using assms(1) by (auto simp: waits_attached_def)
  qed
qed

lemma effect_progress:
  "waits_attached todo p \<Longrightarrow> \<forall>m \<in> set todo. mget m ''id'' = Str (id_of m) \<Longrightarrow> waits_attached [] (foldl (pick_up t e1 e2 e3) p todo)"
  by (induction todo arbitrary: p) (simp_all add: pick_up_progress)

text \<open>Everything that can happen to the requests for images, and the page around them: other activity of the page, leaving it and
  loading it anew.\<close>

inductive image_step :: "media_page \<Rightarrow> media_page \<Rightarrow> bool" where
  prepare: "image_step p (fst (image_prepare e1 e2 e3 e4 a inputs p))"
| proceed: "image_step p (image_proceed t e tm m1 m2 s urls p)"
| picked: "image_step p (image_effect t e1 e2 e3 p)"
| settles: "image_step p (image_settles i v p)"
| listener: "image_step p (image_listener t e1 e2 e3 i p)"
| other: "image_step p (p\<lparr>md_page := g\<rparr>)"
| leave: "image_step p (p\<lparr>md_attached := []\<rparr>)"
| reload: "image_step p (p\<lparr>md_attached := [], md_images := []\<rparr>)"

inductive_cases image_stepE: "image_step p q"

definition attached_known :: "media_page \<Rightarrow> bool" where
  "attached_known p \<longleftrightarrow> fst ` set (md_attached p) \<subseteq> fst ` set (md_images p)"

inductive image_reach :: "media_page \<Rightarrow> bool" where
  start: "md_attached p = [] \<Longrightarrow> image_reach p"
| step: "image_reach p \<Longrightarrow> image_step p q \<Longrightarrow> image_reach q"

lemma begin_send_frames [simp]:
  "md_images (begin_send e1 e2 e3 e4 n p) = md_images p" "md_attached (begin_send e1 e2 e3 e4 n p) = md_attached p"
  by (simp_all add: begin_send_def touch_active_def maybeAutoNameSession_def Let_def split: option.splits prod.splits sum.splits)

lemma attached_known_pick_up: "attached_known p \<Longrightarrow> attached_known (pick_up t e1 e2 e3 p m)"
  by (auto simp: attached_known_def pick_up_def Let_def update_message_def getInFlightImageRequest_def dest!: map_of_SomeD
      split: option.splits if_splits) (metis (no_types) fst_conv image_eqI)

lemma attached_known_foldl: "attached_known p \<Longrightarrow> attached_known (foldl (pick_up t e1 e2 e3) p ms)"
  by (induction ms arbitrary: p) (simp_all add: attached_known_pick_up)

lemma keys_delete: "fst ` set (AList.delete k al) = fst ` set al - {k}"
  by (metis AList.delete_keys set_map set_removeAll)

lemma attached_known_step: "image_step p q \<Longrightarrow> attached_known p \<Longrightarrow> attached_known q"
proof (induction rule: image_step.induct)
  case (prepare p e1 e2 e3 e4 a inputs)
  then show ?case by (simp add: attached_known_def image_prepare_def)
next
  case (proceed p t e tm m1 m2 s urls)
  then show ?case
    by (auto simp: attached_known_def image_proceed_def Let_def dom_update split: image_start.splits prod.splits)
next
  case (picked p t e1 e2 e3)
  then show ?case by (simp add: image_effect_def attached_known_foldl)
next
  case (settles p i v)
  then show ?case by (auto simp: attached_known_def image_settles_def dom_update split: option.splits)
next
  case (listener p t e1 e2 e3 i)
  let ?q = "image_listener t e1 e2 e3 i p"
  have "?q = p \<or> md_images ?q = clearInFlightImageRequest i (md_images p) \<and> md_attached ?q = filter (\<lambda>x. fst x \<noteq> i) (md_attached p)"
    by (simp add: image_listener_def listener_end_def Let_def split: option.splits prod.splits)
  then show ?case using listener
    by (elim disjE) (auto simp: attached_known_def clearInFlightImageRequest_def keys_delete)
qed (auto simp: attached_known_def)

lemma reach_attached_known: "image_reach p \<Longrightarrow> attached_known p"
proof (induction rule: image_reach.induct)
  case (step p q)
  then show ?case using attached_known_step by blast
qed (simp add: attached_known_def)

lemma listener_finishes:
  assumes "map_of (md_images p) i = Some (Some v)" "map_of (md_attached p) i = Some (msg, sid)" "m \<in> set (md_messages (image_listener t e1 e2 e3 i p))" "has_id i m"
  shows "\<not> waiting_image m"
proof -
  have "md_messages (image_listener t e1 e2 e3 i p) = map_id i (\<lambda>_. buildResolvedMsg t msg v) (md_messages p)"
    using assms(1,2) by (simp add: image_listener_def listener_end_def listener_show_def Let_def update_message_def map_id_absent)
  then have "m = buildResolvedMsg t msg v" using assms(3,4) by (auto simp: map_id_def)
  then show ?thesis using resolved_status [of t msg v] by (auto simp: waiting_image_def)
qed

text \<open>C16: no image waits for ever. In whatever way the page was reached, after its effect every image message still waiting has a request
  that is known and that the page listens to, and when the request settles, with any value, no message with its id waits any more.\<close>

theorem no_image_left_waiting:
  assumes "image_reach p" "md_active p = Some a" "a \<noteq> []" "\<forall>m \<in> set (md_messages p). mget m ''id'' = Str (id_of m)"
    and q: "q = image_effect t e1 e2 e3 p" and m: "m \<in> set (md_messages q)" "waiting_image m"
  shows "map_of (md_images q) (id_of m) \<noteq> None \<and> map_of (md_attached q) (id_of m) \<noteq> None \<and>
    \<not> list_ex (\<lambda>m'. has_id (id_of m) m' \<and> waiting_image m')
      (md_messages (image_listener t e4 e5 e6 (id_of m) (image_settles (id_of m) v q)))"
proof -
  have "waits_attached (md_messages p) p" by (simp add: waits_attached_def)
  then have "waits_attached [] q" using effect_progress [OF _ assms(4)] assms(2,3) by (simp add: q image_effect_def)
  then have att: "id_of m \<in> fst ` set (md_attached q)" using m by (simp add: waits_attached_def)
  have "attached_known q" using attached_known_step [OF image_step.picked] reach_attached_known [OF assms(1)] unfolding q by blast
  then have reg: "id_of m \<in> fst ` set (md_images q)" using att by (auto simp: attached_known_def)
  define r where "r = image_settles (id_of m) v q"
  obtain rq where rq: "map_of (md_images q) (id_of m) = Some rq" using reg by (metis map_of_eq_None_iff not_None_eq)
  obtain msg sid where at: "map_of (md_attached q) (id_of m) = Some (msg, sid)" using att by (metis map_of_eq_None_iff not_None_eq surj_pair)
  have "\<exists>w. map_of (md_images r) (id_of m) = Some (Some w)" "map_of (md_attached r) (id_of m) = Some (msg, sid)"
    using rq at by (auto simp: r_def image_settles_def update_conv' split: option.splits)
  then show ?thesis using rq at listener_finishes [of r "id_of m"] unfolding r_def by (auto simp: list_ex_iff)
qed

section \<open>Witnesses\<close>

definition sample_media :: "jsobj list \<Rightarrow> media_page" where
  "sample_media ms = \<lparr>md_page = playing ms, md_video = init_poller, md_stt = init_poller, md_callbacks = [(Some (lit ''s2''), lit ''v'')], md_images = [],
     md_attached = [], md_named = [], md_params = [], md_log = \<lparr>gl_errors = [], gl_debugs = []\<rparr>\<rparr>"

definition done_message :: jsobj where
  "done_message = [(lit ''id'', S ''m1''), (lit ''status'', COMPLETE)]"

definition waiting_message :: jsobj where
  "waiting_message = [(lit ''id'', S ''m1''), (lit ''role'', S ''assistant''), (lit ''modality'', S ''image''), (lit ''status'', LOADING)]"

theorem video_poll_overwrites_session_witness:
  "loadMessages sample_env_ok (md_store (page_video_tick id sample_env_ok 0 (S ''task'') (Some 0) (Reply Null) (sample_media [done_message]))) (lit ''s2'') =
     Arr [Obj done_message]"
proof -
  have "\<not> list_ex (has_id (lit ''v'')) (md_messages (sample_media [done_message]))" "terminal (md_messages (sample_media [done_message]))"
    by (simp_all add: sample_media_def playing_facts done_message_def has_id_def terminal_def msg_status_def)
  then show ?thesis
    using video_poll_overwrites_session [of "sample_media [done_message]" 0 "lit ''s2''" "lit ''v''" sample_env_ok sample_env_ok sample_env_ok _ id 0 "S ''task''" Null]
    by (simp add: sample_media_def playing_facts)
qed



definition waiting_media :: media_page where
  "waiting_media = (sample_media [waiting_message])\<lparr>md_images := [(lit ''m1'', None)]\<rparr>"

theorem no_image_left_waiting_witness:
  "\<not> list_ex (\<lambda>m'. has_id (lit ''m1'') m' \<and> waiting_image m') (md_messages (image_listener id sample_env_ok sample_env_ok sample_env_ok (lit ''m1'')
      (image_settles (lit ''m1'') Null (image_effect id sample_env_ok sample_env_ok sample_env_ok waiting_media))))"
proof -
  have i: "id_of waiting_message = lit ''m1''" by (simp add: id_of_def waiting_message_def)
  have w: "waiting_image waiting_message" by (simp add: waiting_image_def waiting_message_def)
  have ms: "md_messages waiting_media = [waiting_message]" by (simp add: waiting_media_def sample_media_def playing_facts)
  have act: "md_active waiting_media = Some (lit ''s1'')" by (simp add: waiting_media_def sample_media_def playing_def)
  have "image_reach waiting_media" by (rule image_reach.start) (simp add: waiting_media_def sample_media_def)
  moreover have "md_images waiting_media = [(lit ''m1'', None)]" "md_attached waiting_media = []" by (simp_all add: waiting_media_def sample_media_def)
  then have "md_messages (image_effect id sample_env_ok sample_env_ok sample_env_ok waiting_media) = [waiting_message]"
    by (simp add: image_effect_def act ms pick_up_def Let_def i w getInFlightImageRequest_def)
  moreover have "\<forall>m \<in> set (md_messages waiting_media). mget m ''id'' = Str (id_of m)" by (simp add: ms i) (simp add: waiting_message_def)
  ultimately show ?thesis
    using \<open>md_messages (image_effect _ _ _ _ _) = _\<close> no_image_left_waiting [of waiting_media "lit ''s1''" _ id sample_env_ok sample_env_ok sample_env_ok waiting_message] act w i by simp
qed

end
