(* ===== verification/Secure_Verification.thy ===== *)
theory Secure_Verification
  imports Api_Client "HOL-Library.Word" "HOL-Library.AList"
begin

text \<open>
  Verification before protected operations: the encoding of binary credentials (\<open>helpers/passkey.js\<close>), the verification service
  (\<open>services/secureVerification.js\<close>) and the hook around it (\<open>hooks/common/useSecureVerification.jsx\<close>).

  Bytes are 8-bit words. \<open>btoa\<close> and \<open>atob\<close> of the browser are written out. Errors are objects with a name and a message. The
  answers of the server and of the authenticator are arguments: \<open>Inl\<close> a thrown error, \<open>Inr\<close> the value.
\<close>

section \<open>Base 64\<close>

type_synonym bytes = "8 word list"

fun sextets :: "bytes \<Rightarrow> nat list" where
  "sextets (a # b # c # r) = unat a div 4 # ((unat a mod 4) * 16 + unat b div 16) # ((unat b mod 16) * 4 + unat c div 64) # unat c mod 64 # sextets r"
| "sextets [a, b] = [unat a div 4, (unat a mod 4) * 16 + unat b div 16, (unat b mod 16) * 4]"
| "sextets [a] = [unat a div 4, (unat a mod 4) * 16]"
| "sextets [] = []"

fun octets :: "nat list \<Rightarrow> bytes" where
  "octets (a # b # c # d # r) = word_of_nat (a * 4 + b div 16) # word_of_nat ((b mod 16) * 16 + c div 4) # word_of_nat ((c mod 4) * 64 + d) # octets r"
| "octets [a, b, c] = [word_of_nat (a * 4 + b div 16), word_of_nat ((b mod 16) * 16 + c div 4)]"
| "octets [a, b] = [word_of_nat (a * 4 + b div 16)]"
| "octets _ = []"

definition b64_char :: "nat \<Rightarrow> nat" where
  "b64_char n = (if n < 26 then 65 + n else if n < 52 then 71 + n else if n < 62 then n - 4 else if n = 62 then 43 else 47)"

definition b64_val :: "nat \<Rightarrow> nat option" where
  "b64_val c = (if 65 \<le> c \<and> c \<le> 90 then Some (c - 65) else if 97 \<le> c \<and> c \<le> 122 then Some (c - 71)
     else if 48 \<le> c \<and> c \<le> 57 then Some (c + 4) else if c = 43 then Some 62 else if c = 47 then Some 63 else None)"

definition btoa :: "bytes \<Rightarrow> jsstr" where
  "btoa bs = map b64_char (sextets bs) @ replicate ((3 - length bs mod 3) mod 3) 61"

text \<open>\<open>atob\<close>: white space is dropped, then up to two equals signs if the length is a multiple of four; \<open>None\<close> is the exception.\<close>

definition b64_space :: "nat \<Rightarrow> bool" where
  "b64_space c \<longleftrightarrow> c = 9 \<or> c = 10 \<or> c = 12 \<or> c = 13 \<or> c = 32"

fun drop_pads :: "nat \<Rightarrow> jsstr \<Rightarrow> jsstr" where
  "drop_pads (Suc n) (c # s) = (if c = 61 then drop_pads n s else c # s)"
| "drop_pads _ s = s"

definition atob :: "jsstr \<Rightarrow> bytes option" where
  "atob s =
     (let s1 = filter (\<lambda>c. \<not> b64_space c) s; s2 = (if length s1 mod 4 = 0 then rev (drop_pads 2 (rev s1)) else s1)
      in if length s2 mod 4 = 1 \<or> list_ex (\<lambda>c. b64_val c = None) s2 then None else Some (octets (map (\<lambda>c. the (b64_val c)) s2)))"

definition url_char :: "nat \<Rightarrow> nat" where
  "url_char c = (if c = 43 then 45 else if c = 47 then 95 else c)"

definition unurl_char :: "nat \<Rightarrow> nat" where
  "unurl_char c = (if c = 45 then 43 else if c = 95 then 47 else c)"

definition make_error :: "string \<Rightarrow> jsstr \<Rightarrow> jsval" where
  "make_error name message = Obj [(lit ''name'', Str (lit name)), (lit ''message'', Str message)]"

text \<open>The length that \<open>base64url.length\<close> gives; without one no padding is added.\<close>

definition length_of :: "jsval \<Rightarrow> nat" where
  "length_of v = (case v of Str s \<Rightarrow> length s | Arr xs \<Rightarrow> length xs | _ \<Rightarrow> 0)"

definition base64UrlToBuffer :: "jsval \<Rightarrow> jsval + bytes" where
  "base64UrlToBuffer v =
     (if \<not> truthy v then Inr []
      else case atob (map unurl_char (to_str v @ replicate ((4 - length_of v mod 4) mod 4) 61)) of
        None \<Rightarrow> Inl (make_error ''InvalidCharacterError'' (lit ''The string to be decoded is not correctly encoded.''))
      | Some bs \<Rightarrow> Inr bs)"

definition bufferToBase64Url :: "bytes option \<Rightarrow> jsstr" where
  "bufferToBase64Url buf = (case buf of None \<Rightarrow> [] | Some bs \<Rightarrow> rev (dropWhile (\<lambda>c. c = 61) (rev (map url_char (btoa bs)))))"

section \<open>Credentials\<close>

text \<open>Options in which some texts have become buffers.\<close>

datatype pk_val = Keep jsval | Buf bytes | Sub "(jsstr \<times> pk_val) list" | Many "(jsstr \<times> pk_val) list list"

type_synonym pk_obj = "(jsstr \<times> pk_val) list"

definition keep_all :: "jsval \<Rightarrow> pk_obj" where
  "keep_all v = map (map_prod id Keep) (own_entries v)"

definition options_of :: "jsval \<Rightarrow> jsval" where
  "options_of payload = js_or (opt_prop payload (lit ''publicKey'')) (js_or (opt_prop payload (lit ''PublicKey''))
     (js_or (opt_prop payload (lit ''response'')) (opt_prop payload (lit ''Response''))))"

text \<open>\<open>items.map((item) => ({ ...item, id: base64UrlToBuffer(item.id) }))\<close>. The text of a TypeError is the engine's.\<close>

fun credential_list :: "jsval list \<Rightarrow> jsval + pk_obj list" where
  "credential_list [] = Inr []"
| "credential_list (x # xs) =
     (if nullish x then Inl (make_error ''TypeError'' (lit ''Cannot read properties of undefined''))
      else case base64UrlToBuffer (opt_prop x (lit ''id'')) of
        Inl e \<Rightarrow> Inl e
      | Inr b \<Rightarrow> map_sum id (Cons (AList.update (lit ''id'') (Buf b) (keep_all x))) (credential_list xs))"

definition with_list :: "string \<Rightarrow> jsval \<Rightarrow> pk_obj \<Rightarrow> jsval + pk_obj" where
  "with_list k options pk = (case opt_prop options (lit k) of
     Arr xs \<Rightarrow> map_sum id (\<lambda>cs. AList.update (lit k) (Many cs) pk) (credential_list xs)
   | _ \<Rightarrow> Inr pk)"

definition prepareCredentialCreationOptions :: "jsval \<Rightarrow> jsval + pk_obj" where
  "prepareCredentialCreationOptions payload =
     (let options = options_of payload; user = opt_prop options (lit ''user'')
      in if \<not> truthy options then Inl (make_error ''Error'' [26080, 27861, 20174, 26381, 21153, 31471, 21709, 24212, 20013, 35299, 26512, 32, 80, 97, 115, 115, 107, 101, 121, 32, 27880, 20876, 21442, 25968])
         else case base64UrlToBuffer (opt_prop options (lit ''challenge'')) of
           Inl e \<Rightarrow> Inl e
         | Inr ch \<Rightarrow> (case base64UrlToBuffer (opt_prop user (lit ''id'')) of
             Inl e \<Rightarrow> Inl e
           | Inr uid \<Rightarrow>
               map_sum id (\<lambda>pk. if opt_prop options (lit ''attestationFormats'') = Arr [] then AList.delete (lit ''attestationFormats'') pk else pk)
                 (with_list ''excludeCredentials'' options
                   (AList.update (lit ''user'') (Sub (AList.update (lit ''id'') (Buf uid) (keep_all user)))
                     (AList.update (lit ''challenge'') (Buf ch) (keep_all options))))))"

definition prepareCredentialRequestOptions :: "jsval \<Rightarrow> jsval + pk_obj" where
  "prepareCredentialRequestOptions payload =
     (let options = options_of payload
      in if \<not> truthy options then Inl (make_error ''Error'' [26080, 27861, 20174, 26381, 21153, 31471, 21709, 24212, 20013, 35299, 26512, 32, 80, 97, 115, 115, 107, 101, 121, 32, 30331, 24405, 21442, 25968])
         else case base64UrlToBuffer (opt_prop options (lit ''challenge'')) of
           Inl e \<Rightarrow> Inl e
         | Inr ch \<Rightarrow> with_list ''allowCredentials'' options (AList.update (lit ''challenge'') (Buf ch) (keep_all options)))"

record credential =
  cr_id :: jsval
  cr_rawId :: bytes
  cr_type :: jsval
  cr_attachment :: jsval
  cr_clientDataJSON :: bytes
  cr_extensions :: "jsval option"

record registration = credential +
  rg_attestationObject :: bytes
  rg_transports :: "jsval option"

record assertion = credential +
  as_authenticatorData :: bytes
  as_signature :: bytes
  as_userHandle :: "bytes option"

text \<open>\<open>credential.getClientExtensionResults?.() ?? {}\<close>\<close>

definition extensions_or_empty :: "jsval option \<Rightarrow> jsval" where
  "extensions_or_empty v = (case v of None \<Rightarrow> Obj [] | Some x \<Rightarrow> js_coalesce x (Obj []))"

definition buildRegistrationResult :: "registration \<Rightarrow> jsobj" where
  "buildRegistrationResult c =
     [(lit ''id'', cr_id c), (lit ''rawId'', Str (bufferToBase64Url (Some (cr_rawId c)))), (lit ''type'', cr_type c),
      (lit ''authenticatorAttachment'', cr_attachment c),
      (lit ''response'', Obj [(lit ''attestationObject'', Str (bufferToBase64Url (Some (rg_attestationObject c)))),
         (lit ''clientDataJSON'', Str (bufferToBase64Url (Some (cr_clientDataJSON c)))),
         (lit ''transports'', case rg_transports c of None \<Rightarrow> Undefined | Some v \<Rightarrow> v)]),
      (lit ''clientExtensionResults'', extensions_or_empty (cr_extensions c))]"

definition buildAssertionResult :: "assertion \<Rightarrow> jsobj" where
  "buildAssertionResult a =
     [(lit ''id'', cr_id a), (lit ''rawId'', Str (bufferToBase64Url (Some (cr_rawId a)))), (lit ''type'', cr_type a),
      (lit ''authenticatorAttachment'', cr_attachment a),
      (lit ''response'', Obj [(lit ''authenticatorData'', Str (bufferToBase64Url (Some (as_authenticatorData a)))),
         (lit ''clientDataJSON'', Str (bufferToBase64Url (Some (cr_clientDataJSON a)))),
         (lit ''signature'', Str (bufferToBase64Url (Some (as_signature a)))),
         (lit ''userHandle'', case as_userHandle a of None \<Rightarrow> Null | Some b \<Rightarrow> Str (bufferToBase64Url (Some b)))]),
      (lit ''clientExtensionResults'', extensions_or_empty (cr_extensions a))]"

text \<open>What the browser says about passkeys: whether the interface exists, and the answers of its two questions, \<open>None\<close> where the
  function is missing and \<open>Some None\<close> where it throws.\<close>

definition isPasskeySupported :: "bool \<Rightarrow> bool option option \<Rightarrow> bool option option \<Rightarrow> bool" where
  "isPasskeySupported present conditional platform =
     (if \<not> present then False
      else if conditional = Some (Some True) then True
      else case platform of None \<Rightarrow> True | Some None \<Rightarrow> False | Some (Some b) \<Rightarrow> b)"

section \<open>The service\<close>

record methods =
  has2FA :: bool
  hasPasskey :: bool
  passkeySupported :: bool

definition enabled_by :: "jsval \<Rightarrow> bool" where
  "enabled_by response = (let d = opt_prop response (lit ''data'')
     in truthy (opt_prop d (lit ''success'')) \<and> opt_prop (opt_prop d (lit ''data'')) (lit ''enabled'') = Bool True)"

definition checkAvailableVerificationMethods :: "jsval + jsval \<Rightarrow> jsval + jsval \<Rightarrow> bool \<Rightarrow> methods" where
  "checkAvailableVerificationMethods twoFA passkey supported = (case (twoFA, passkey) of
     (Inr a, Inr b) \<Rightarrow>
       if nullish a \<or> nullish b then \<lparr>has2FA = False, hasPasskey = False, passkeySupported = False\<rparr>
       else \<lparr>has2FA = enabled_by a, hasPasskey = enabled_by b, passkeySupported = supported\<rparr>
   | _ \<Rightarrow> \<lparr>has2FA = False, hasPasskey = False, passkeySupported = False\<rparr>)"

text \<open>A request: its address and its body.\<close>

type_synonym request = "jsstr \<times> jsval"

definition failure_of :: "jsval \<Rightarrow> jsstr \<Rightarrow> jsval option" where
  "failure_of response fallback =
     (let d = opt_prop response (lit ''data'')
      in if nullish response then Some (make_error ''TypeError'' (lit ''Cannot read properties of undefined''))
         else if truthy (opt_prop d (lit ''success'')) then None
         else Some (Obj [(lit ''name'', Str (lit ''Error'')), (lit ''message'', Str (to_str (js_or (opt_prop d (lit ''message'')) (Str fallback))))]))"

definition verify2FA :: "(request \<Rightarrow> jsval + jsval) \<Rightarrow> jsstr \<Rightarrow> request list \<times> (jsval + unit)" where
  "verify2FA server code =
     (let rq = (lit ''/api/verify'', Obj [(lit ''method'', Str (lit ''2fa'')), (lit ''code'', Str (trim code))])
      in if trim code = [] then ([], Inl (make_error ''Error'' [35831, 36755, 20837, 39564, 35777, 30721, 25110, 22791, 29992, 30721]))
         else ([rq], case server rq of
           Inl e \<Rightarrow> Inl e
         | Inr res \<Rightarrow> (case failure_of res [39564, 35777, 22833, 36133] of Some e \<Rightarrow> Inl e | None \<Rightarrow> Inr ())))"

text \<open>The \<open>catch\<close> of \<open>verifyPasskey\<close>.\<close>

definition passkey_error :: "jsval \<Rightarrow> jsval" where
  "passkey_error e =
     (if opt_prop e (lit ''name'') = Str (lit ''NotAllowedError'') then make_error ''Error'' [80, 97, 115, 115, 107, 101, 121, 32, 39564, 35777, 34987, 21462, 28040, 25110, 36229, 26102]
      else if opt_prop e (lit ''name'') = Str (lit ''InvalidStateError'') then make_error ''Error'' [80, 97, 115, 115, 107, 101, 121, 32, 39564, 35777, 29366, 24577, 26080, 25928]
      else e)"

definition passkey_begin :: request where
  "passkey_begin = (lit ''/api/user/passkey/verify/begin'', Undefined)"

definition passkey_confirm :: request where
  "passkey_confirm = (lit ''/api/verify'', Obj [(lit ''method'', Str (lit ''passkey''))])"

definition passkey_finish :: "assertion \<Rightarrow> request" where
  "passkey_finish a = (lit ''/api/user/passkey/verify/finish'', Obj (buildAssertionResult a))"

text \<open>The options of the first answer, and the credential the authenticator gives for them.\<close>

definition passkey_options :: "jsval \<Rightarrow> jsval + pk_obj" where
  "passkey_options response =
     (let d = opt_prop (opt_prop response (lit ''data'')) (lit ''data'')
      in if nullish d then Inl (make_error ''TypeError'' (lit ''Cannot read properties of undefined''))
         else prepareCredentialRequestOptions (opt_prop d (lit ''options'')))"

definition verifyPasskey ::
    "(request \<Rightarrow> jsval + jsval) \<Rightarrow> (pk_obj \<Rightarrow> jsval + assertion option) \<Rightarrow> request list \<times> (jsval + unit)" where
  "verifyPasskey server authenticator =
     (let fail = (\<lambda>rqs e. (rqs, Inl (passkey_error e)));
          post = (\<lambda>rqs rq fallback k. case server rq of
             Inl e \<Rightarrow> fail (rqs @ [rq]) e
           | Inr res \<Rightarrow> (case failure_of res fallback of Some e \<Rightarrow> fail (rqs @ [rq]) e | None \<Rightarrow> k (rqs @ [rq]) res))
      in post [] passkey_begin [24320, 22987, 39564, 35777, 22833, 36133] (\<lambda>rqs res.
           case passkey_options res of
             Inl e \<Rightarrow> fail rqs e
           | Inr publicKey \<Rightarrow> (case authenticator publicKey of
               Inl e \<Rightarrow> fail rqs e
             | Inr None \<Rightarrow> fail rqs (make_error ''Error'' [80, 97, 115, 115, 107, 101, 121, 32, 39564, 35777, 34987, 21462, 28040])
             | Inr (Some a) \<Rightarrow> post rqs (passkey_finish a) [39564, 35777, 22833, 36133] (\<lambda>rqs2 res2. post rqs2 passkey_confirm [39564, 35777, 22833, 36133] (\<lambda>rqs3 res3. (rqs3, Inr ()))))))"

definition verify :: "(request \<Rightarrow> jsval + jsval) \<Rightarrow> (pk_obj \<Rightarrow> jsval + assertion option) \<Rightarrow> jsval \<Rightarrow> jsstr \<Rightarrow> request list \<times> (jsval + unit)" where
  "verify server authenticator method code =
     (if method = Str (lit ''2fa'') then verify2FA server code
      else if method = Str (lit ''passkey'') then verifyPasskey server authenticator
      else ([], Inl (make_error ''Error'' ([19981, 25903, 25345, 30340, 39564, 35777, 26041, 24335, 58, 32] @ to_str method))))"

text \<open>\<open>createApiCalls\<close>: the request of each, with where its data goes. Methods are compared with ASCII names, so only ASCII letters are raised.\<close>

definition upper_unit :: "nat \<Rightarrow> nat" where
  "upper_unit c = (if 97 \<le> c \<and> c \<le> 122 then c - 32 else c)"

definition to_upper :: "jsstr \<Rightarrow> jsstr" where
  "to_upper = map upper_unit"

datatype api_request = ApiGet jsstr jsval | ApiPost jsstr jsval | ApiPut jsstr jsval | ApiDelete jsstr jsval

definition viewChannelKey :: "jsval \<Rightarrow> api_request" where
  "viewChannelKey channelId = ApiPost (lit ''/api/channel/'' @ to_str channelId @ lit ''/key'') (Obj [])"

definition custom_request :: "jsstr \<Rightarrow> jsstr \<Rightarrow> jsval \<Rightarrow> jsval + api_request" where
  "custom_request url method data =
     (let m = to_upper method
      in if m = lit ''GET'' then Inr (ApiGet url (Obj [(lit ''params'', data)]))
         else if m = lit ''POST'' then Inr (ApiPost url data)
         else if m = lit ''PUT'' then Inr (ApiPut url data)
         else if m = lit ''DELETE'' then Inr (ApiDelete url (Obj [(lit ''data'', data)]))
         else Inl (make_error ''Error'' ([19981, 25903, 25345, 30340, 72, 84, 84, 80, 26041, 27861, 58, 32] @ method)))"

section \<open>The hook\<close>

text \<open>Protected operations are known by numbers. \<open>sv_calls\<close> lists the ones that were called, \<open>sv_errors\<close> and \<open>sv_failed\<close> what was passed
  to \<open>showError\<close> and \<open>onError\<close>, \<open>sv_succeeded\<close> what was passed to \<open>onSuccess\<close>.\<close>

record sv_hook =
  sv_methods :: methods
  sv_visible :: bool
  sv_method :: jsval
  sv_loading :: bool
  sv_code :: jsstr
  sv_apiCall :: "nat option"
  sv_title :: jsval
  sv_description :: jsval
  sv_calls :: "nat list"
  sv_errors :: "jsval list"
  sv_failed :: "jsval list"
  sv_succeeded :: "(jsval \<times> jsval) list"
  sv_messages :: "jsval list"

record sv_options =
  so_successMessage :: jsval
  so_autoReset :: bool

definition resetState :: "sv_hook \<Rightarrow> sv_hook" where
  "resetState h = h\<lparr>sv_method := Null, sv_loading := False, sv_code := [], sv_apiCall := None, sv_title := Undefined, sv_description := Undefined,
     sv_visible := False\<rparr>"

definition default_method :: "methods \<Rightarrow> jsval \<Rightarrow> jsval" where
  "default_method ms preferred =
     (if truthy preferred then preferred
      else if hasPasskey ms \<and> passkeySupported ms then Str (lit ''passkey'')
      else if has2FA ms then Str (lit ''2fa'')
      else preferred)"

text \<open>From the answer about the methods on.\<close>

definition startVerification :: "(jsstr \<Rightarrow> jsstr) \<Rightarrow> methods \<Rightarrow> nat \<Rightarrow> jsval \<Rightarrow> sv_hook \<Rightarrow> bool \<times> sv_hook" where
  "startVerification t ms apiCall options h =
     (let h1 = h\<lparr>sv_methods := ms\<rparr>; msg = t [24744, 38656, 35201, 20808, 21551, 29992, 20004, 27493, 39564, 35777, 25110, 32, 80, 97, 115, 115, 107, 101, 121, 32, 25165, 33021, 25191, 34892, 27492, 25805, 20316]
      in if \<not> has2FA ms \<and> \<not> hasPasskey ms
         then (False, h1\<lparr>sv_errors := sv_errors h1 @ [Str msg], sv_failed := sv_failed h1 @ [make_error ''Error'' msg]\<rparr>)
         else (True, h1\<lparr>sv_method := default_method ms (opt_prop options (lit ''preferredMethod'')), sv_apiCall := Some apiCall,
             sv_title := opt_prop options (lit ''title''), sv_description := opt_prop options (lit ''description''), sv_visible := True\<rparr>))"

text \<open>\<open>executeVerification\<close>: up to the verification, with the operation it will call; from there to the call; and from the call's answer on.\<close>

definition execute_begin :: "(jsstr \<Rightarrow> jsstr) \<Rightarrow> sv_hook \<Rightarrow> nat option \<times> sv_hook" where
  "execute_begin t h = (case sv_apiCall h of
     None \<Rightarrow> (None, h\<lparr>sv_errors := sv_errors h @ [Str (t [39564, 35777, 37197, 32622, 38169, 35823])]\<rparr>)
   | Some c \<Rightarrow> (Some c, h\<lparr>sv_loading := True\<rparr>))"

definition execute_failed :: "(jsstr \<Rightarrow> jsstr) \<Rightarrow> jsval \<Rightarrow> sv_hook \<Rightarrow> sv_hook" where
  "execute_failed t err h = h\<lparr>sv_errors := sv_errors h @ [js_or (opt_prop err (lit ''message'')) (Str (t [39564, 35777, 22833, 36133, 65292, 35831, 37325, 35797]))],
     sv_failed := sv_failed h @ [err], sv_loading := False\<rparr>"

definition execute_verified :: "(jsstr \<Rightarrow> jsstr) \<Rightarrow> nat \<Rightarrow> jsval + unit \<Rightarrow> sv_hook \<Rightarrow> sv_hook" where
  "execute_verified t c r h = (case r of Inl err \<Rightarrow> execute_failed t err h | Inr _ \<Rightarrow> h\<lparr>sv_calls := sv_calls h @ [c]\<rparr>)"

definition execute_called :: "(jsstr \<Rightarrow> jsstr) \<Rightarrow> sv_options \<Rightarrow> jsval \<Rightarrow> jsval + jsval \<Rightarrow> sv_hook \<Rightarrow> sv_hook" where
  "execute_called t opts method r h = (case r of
     Inl err \<Rightarrow> execute_failed t err h
   | Inr result \<Rightarrow>
       (let h1 = (if truthy (so_successMessage opts) then h\<lparr>sv_messages := sv_messages h @ [so_successMessage opts]\<rparr> else h);
            h2 = h1\<lparr>sv_succeeded := sv_succeeded h1 @ [(result, method)]\<rparr>;
            h3 = (if so_autoReset opts then resetState h2 else h2)
        in h3\<lparr>sv_loading := False\<rparr>))"

definition setVerificationCode :: "jsstr \<Rightarrow> sv_hook \<Rightarrow> sv_hook" where
  "setVerificationCode code h = h\<lparr>sv_code := code\<rparr>"

definition switchVerificationMethod :: "jsval \<Rightarrow> sv_hook \<Rightarrow> sv_hook" where
  "switchVerificationMethod method h = h\<lparr>sv_method := method, sv_code := []\<rparr>"

definition cancelVerification :: "sv_hook \<Rightarrow> sv_hook" where
  "cancelVerification h = resetState h"

definition canUseMethod :: "jsval \<Rightarrow> sv_hook \<Rightarrow> bool" where
  "canUseMethod method h =
     (if method = Str (lit ''2fa'') then has2FA (sv_methods h)
      else if method = Str (lit ''passkey'') then hasPasskey (sv_methods h) \<and> passkeySupported (sv_methods h)
      else False)"

definition getRecommendedMethod :: "sv_hook \<Rightarrow> jsval" where
  "getRecommendedMethod h =
     (if hasPasskey (sv_methods h) \<and> passkeySupported (sv_methods h) then Str (lit ''passkey'')
      else if has2FA (sv_methods h) then Str (lit ''2fa'') else Null)"

text \<open>\<open>withVerification\<close>: the operation is called at once; an error that asks for verification starts it. The value is \<open>Inl\<close> the
  error thrown on, or \<open>Inr\<close> the result.\<close>

definition needs_verification :: "jsval \<Rightarrow> bool" where
  "needs_verification err = (let res = opt_prop err (lit ''response'')
     in truthy res \<and> isVerificationRequiredError (case opt_prop res (lit ''status'') of Num n \<Rightarrow> Some (n, opt_prop res (lit ''data'')) | _ \<Rightarrow> None))"

definition withVerification ::
    "(jsstr \<Rightarrow> jsstr) \<Rightarrow> methods \<Rightarrow> nat \<Rightarrow> jsval \<Rightarrow> jsval + jsval \<Rightarrow> sv_hook \<Rightarrow> (jsval + jsval) \<times> sv_hook" where
  "withVerification t ms c options r h =
     (let h1 = h\<lparr>sv_calls := sv_calls h @ [c]\<rparr>
      in case r of
           Inr v \<Rightarrow> (Inr v, h1)
         | Inl err \<Rightarrow> if needs_verification err then (Inr Null, snd (startVerification t ms c options h1)) else (Inl err, h1))"

end
