(* ===== verification/Secure_Verification_Thms.thy ===== *)
theory Secure_Verification_Thms
  imports Secure_Verification
begin

text \<open>
  Binary credentials survive the encoding, a passkey counts only after all three answers of the server and the authenticator's, and what
  becomes of a verification that is cancelled while it runs.
\<close>

text \<open>A request answered with success.\<close>

definition granted :: "(request \<Rightarrow> jsval + jsval) \<Rightarrow> request \<Rightarrow> jsval \<Rightarrow> bool" where
  "granted server rq res \<longleftrightarrow> server rq = Inr res \<and> truthy (opt_prop (opt_prop res (lit ''data'')) (lit ''success''))"

section \<open>Base 64\<close>

lemma unat8: "unat (a :: 8 word) < 256"
  by (rule order.strict_trans2 [OF unsigned_less]) simp

lemma sextets_less: "s \<in> set (sextets bs) \<Longrightarrow> s < 64"
proof (induction bs rule: sextets.induct)
  case (1 a b c r)
  have "unat a div 4 < 64" "unat b div 16 < 16" "unat c div 64 < 4" using unat8 [of a] unat8 [of b] unat8 [of c] by auto
  then show ?case using 1 by auto
next
  case (2 a b)
  have "unat a div 4 < 64" "unat b div 16 < 16" using unat8 [of a] unat8 [of b] by auto
  then show ?case using 2 by auto
next
  case (3 a)
  have "unat a div 4 < 64" using unat8 [of a] by auto
  then show ?case using 3 by auto
qed simp

lemma octets_sextets: "octets (sextets bs) = bs"
proof (induction bs rule: sextets.induct)
  case (1 a b c r)
  have "unat b div 16 < 16" "unat c div 64 < 4" using unat8 [of b] unat8 [of c] by auto
  then have "unat a div 4 * 4 + ((unat a mod 4) * 16 + unat b div 16) div 16 = unat a"
      "((unat a mod 4) * 16 + unat b div 16) mod 16 * 16 + ((unat b mod 16) * 4 + unat c div 64) div 4 = unat b"
      "((unat b mod 16) * 4 + unat c div 64) mod 4 * 64 + unat c mod 64 = unat c"
    by simp_all
  then show ?case using 1 by simp
next
  case (2 a b)
  have "unat b div 16 < 16" using unat8 [of b] by auto
  then have "unat a div 4 * 4 + ((unat a mod 4) * 16 + unat b div 16) div 16 = unat a"
      "((unat a mod 4) * 16 + unat b div 16) mod 16 * 16 + ((unat b mod 16) * 4) div 4 = unat b"
    by simp_all
  then show ?case by simp
next
  case (3 a)
  have "unat a div 4 * 4 + ((unat a mod 4) * 16) div 16 = unat a" by simp
  then show ?case by simp
qed simp

lemma length_sextets: "length (sextets bs) mod 4 = (if length bs mod 3 = 0 then 0 else length bs mod 3 + 1)"
  by (induction bs rule: sextets.induct) auto

lemma b64_char_facts:
  assumes "n < 64"
  shows "b64_val (b64_char n) = Some n" "unurl_char (url_char (b64_char n)) = b64_char n" "url_char (b64_char n) \<noteq> 61" "\<not> b64_space (b64_char n)"
    "b64_char n \<noteq> 61"
  using assms by (auto simp: b64_char_def b64_val_def url_char_def unurl_char_def b64_space_def)

lemma stripped: "rev (dropWhile (\<lambda>c. c = 61) (rev (xs @ replicate n 61))) = xs" if "\<forall>c \<in> set xs. c \<noteq> (61 :: nat)"
proof -
  have "dropWhile (\<lambda>c. c = 61) (replicate n 61 @ rev xs) = rev xs"
    using \<open>\<forall>c \<in> set xs. c \<noteq> 61\<close> by (induction n) (auto simp: dropWhile_eq_self_iff hd_rev last_in_set)
  then show ?thesis by simp
qed

lemma encoded: "bufferToBase64Url (Some bs) = map (\<lambda>n. url_char (b64_char n)) (sextets bs)"
proof -
  have "map url_char (btoa bs) = map (\<lambda>n. url_char (b64_char n)) (sextets bs) @ replicate ((3 - length bs mod 3) mod 3) 61"
    by (simp add: btoa_def url_char_def comp_def)
  then show ?thesis using stripped [of "map (\<lambda>n. url_char (b64_char n)) (sextets bs)"] sextets_less b64_char_facts(3)
    by (simp add: bufferToBase64Url_def)
qed

lemma drop_pads_exact: "n \<le> k \<Longrightarrow> xs = [] \<or> hd xs \<noteq> 61 \<Longrightarrow> drop_pads k (replicate n 61 @ xs) = xs"
proof (induction n arbitrary: k)
  case 0
  then show ?case by (cases k; cases xs) auto
next
  case (Suc n)
  then show ?case by (cases k) auto
qed

lemma atob_padded:
  assumes "\<forall>n \<in> set ss. n < 64" "length ss mod 4 \<noteq> 1"
  shows "atob (map b64_char ss @ replicate ((4 - length ss mod 4) mod 4) 61) = Some (octets ss)"
proof -
  define k where "k = (4 - length ss mod 4) mod 4"
  have "length ss mod 4 < 4" by simp
  then have cases: "length ss mod 4 = 0 \<or> length ss mod 4 = 2 \<or> length ss mod 4 = 3" using assms(2) by linarith
  have "(length ss + k) mod 4 = (length ss mod 4 + k) mod 4" by (simp add: mod_add_left_eq)
  then have k: "k \<le> 2" "(length ss + k) mod 4 = 0" using cases unfolding k_def by auto
  have chars: "\<forall>c \<in> set (map b64_char ss). \<not> b64_space c \<and> c \<noteq> 61 \<and> b64_val c \<noteq> None" using assms(1) b64_char_facts by fastforce
  have s1: "filter (\<lambda>c. \<not> b64_space c) (map b64_char ss @ replicate k 61) = map b64_char ss @ replicate k 61"
    using chars by (auto simp: filter_id_conv b64_space_def)
  have "rev (map b64_char ss) = [] \<or> hd (rev (map b64_char ss)) \<noteq> 61" using chars by (cases ss rule: rev_cases) auto
  then have s2: "rev (drop_pads 2 (rev (map b64_char ss @ replicate k 61))) = map b64_char ss"
    using drop_pads_exact [OF k(1)] by (simp add: rev_swap)
  have "map (\<lambda>c. the (b64_val c)) (map b64_char ss) = ss" using assms(1) b64_char_facts(1) by (simp add: map_idI)
  then show ?thesis
    unfolding atob_def Let_def k_def [symmetric] s1 s2 using k(2) assms(2) chars by (auto simp: list_ex_iff simp del: rev_append)
qed

text \<open>C19: whatever the bytes of a credential, the text sent for them is read back as the same bytes.\<close>

theorem base64url_round_trip: "base64UrlToBuffer (Str (bufferToBase64Url (Some bs))) = Inr bs"
proof -
  let ?s = "bufferToBase64Url (Some bs)"
  have len: "length ?s mod 4 \<noteq> 1" "length ?s = length (sextets bs)" using length_sextets [of bs] by (auto simp: encoded)
  have "map unurl_char (?s @ replicate ((4 - length ?s mod 4) mod 4) 61) = map b64_char (sextets bs) @ replicate ((4 - length (sextets bs) mod 4) mod 4) 61"
    using sextets_less b64_char_facts(2) by (simp add: encoded unurl_char_def comp_def)
  moreover have "atob (map b64_char (sextets bs) @ replicate ((4 - length (sextets bs) mod 4) mod 4) 61) = Some bs"
    using atob_padded [of "sextets bs"] sextets_less len by (simp add: octets_sextets)
  moreover have "bs = []" if "?s = []" using \<open>?s = []\<close> by (cases bs rule: sextets.cases) (auto simp: encoded)
  ultimately show ?thesis by (auto simp: base64UrlToBuffer_def length_of_def)
qed

section \<open>Passkeys\<close>

lemma failure_of_none: "failure_of res fb = None \<longleftrightarrow> truthy (opt_prop (opt_prop res (lit ''data'')) (lit ''success''))"
  by (cases res) (auto simp: failure_of_def Let_def)

lemma failure_of_some: "failure_of res fb = Some e \<Longrightarrow> \<not> truthy (opt_prop (opt_prop res (lit ''data'')) (lit ''success''))"
  using failure_of_none [of res fb] by simp

text \<open>The passkey verification ends without an error exactly when the server begins it, its options can be read, the authenticator
  gives a credential for them, and the server accepts that very credential and then confirms the session; in that case these three
  requests, in this order, are all that was sent.\<close>

theorem passkey_verified_iff:
  "verifyPasskey server authenticator = (rqs, Inr ()) \<longleftrightarrow>
     (\<exists>res pk a. granted server passkey_begin res \<and> passkey_options res = Inr pk \<and> authenticator pk = Inr (Some a) \<and>
       (\<exists>res. granted server (passkey_finish a) res) \<and> (\<exists>res. granted server passkey_confirm res) \<and>
       rqs = [passkey_begin, passkey_finish a, passkey_confirm])"
  unfolding verifyPasskey_def Let_def granted_def
  by (auto simp: failure_of_none dest: failure_of_some split: sum.splits option.splits)

section \<open>The hook\<close>

text \<open>Cancelling while the verification runs closes the dialog, but the protected operation is called all the same once the
  verification succeeds.\<close>

lemma cancel_does_not_stop_call:
  assumes "sv_apiCall h = Some c"
  shows "\<exists>h1. execute_begin t h = (Some c, h1) \<and> sv_visible (cancelVerification h1) = False \<and> sv_apiCall (cancelVerification h1) = None \<and>
    sv_calls (execute_verified t c (Inr ()) (cancelVerification h1)) = sv_calls h @ [c]"
  using assms by (simp add: execute_begin_def cancelVerification_def resetState_def execute_verified_def)

text \<open>And with the default options its answer closes the dialog of a verification started in the meantime and forgets its operation.\<close>

lemma late_answer_closes_next_dialog:
  assumes "so_autoReset opts" "has2FA ms"
  shows "sv_visible (snd (startVerification t ms c2 options h)) \<and>
    \<not> sv_visible (execute_called t opts method (Inr v) (snd (startVerification t ms c2 options h))) \<and>
    sv_apiCall (execute_called t opts method (Inr v) (snd (startVerification t ms c2 options h))) = None"
  using assms by (simp add: startVerification_def Let_def execute_called_def resetState_def)

text \<open>With a registered passkey that this browser cannot use and no second factor, the dialog opens with no method at all, and
  executing it can only fail.\<close>

lemma opens_without_method:
  assumes "hasPasskey ms" "\<not> passkeySupported ms" "\<not> has2FA ms"
  shows "fst (startVerification t ms c (Obj []) h) \<and> sv_visible (snd (startVerification t ms c (Obj []) h)) \<and>
    sv_method (snd (startVerification t ms c (Obj []) h)) = Undefined \<and>
    verify server authenticator Undefined code = ([], Inl (make_error ''Error'' ([19981, 25903, 25345, 30340, 39564, 35777, 26041, 24335, 58, 32] @ lit ''undefined'')))"
  using assms by (simp add: startVerification_def default_method_def Let_def verify_def)

end
