(* ===== verification/Channel_Editor.thy ===== *)
theory Channel_Editor
  imports Api_Client Status_Code_Rules Token_Links Param_Override
begin

text \<open>
  The dialog that creates and edits channels (\<open>components/table/channels/modals/EditChannelModal.jsx\<close>): the record of its state,
  loading a channel into the form, the handlers of the fields, and submitting.

  The component library's form is not part of the repository: the state holds the calls made on it, and what \<open>getValues\<close> and
  \<open>getValue\<close> answer are arguments. The form interface is present, as it is once the dialog has been shown. Answers of the server, of
  the clipboard and of the confirmation dialogs are arguments as well; \<open>tr\<close> is the translation function with its parameters and
  \<open>emsg\<close> the text of an exception.
\<close>

section \<open>State\<close>

record ch_env =
  tr :: "jsstr \<Rightarrow> jsobj \<Rightarrow> jsstr"
  emsg :: "jserr \<Rightarrow> jsstr"

datatype toast = Info jsstr | Failure jsval | Success jsstr

datatype form_call = FSet jsstr jsval | FSetValues jsobj | FReset

text \<open>A chosen file: its name, and \<open>None\<close> without a file object, \<open>Some None\<close> where reading fails, or its text.\<close>

record vertex_file =
  vf_name :: jsstr
  vf_text :: "jsstr option option"

definition file_val :: "vertex_file \<Rightarrow> jsval" where
  "file_val f = Obj [(lit ''name'', Str (vf_name f))]"

record ch_editor =
  ce_id :: jsval
  ce_visible :: bool
  ce_loading :: bool
  ce_inputs :: jsobj
  ce_form :: "form_call list"
  ce_batch :: bool
  ce_multiToSingle :: bool
  ce_multiKeyMode :: jsval
  ce_autoBan :: bool
  ce_originModelOptions :: "jsstr list"
  ce_modelOptions :: "jsstr list"
  ce_groupOptions :: "jsval list"
  ce_basicModels :: jsval
  ce_fullModels :: "jsval list"
  ce_modelGroups :: jsval
  ce_customModel :: jsstr
  ce_fetchedModels :: "jsval list"
  ce_modelModal :: bool
  ce_mapModal :: bool
  ce_mapModels :: "jsstr list"
  ce_mapKey :: jsstr
  ce_mapSelected :: jsstr
  ce_vertexKeys :: "jsval list"
  ce_vertexFiles :: "vertex_file list"
  ce_multiKey :: bool
  ce_manual :: bool
  ce_keyMode :: jsval
  ce_enterprise :: bool
  ce_channelSettings :: jsobj
  ce_isIonet :: bool
  ce_ionet :: jsval
  ce_keyShown :: "jsval option"
  ce_clipboard :: "(jsstr \<times> jsstr) option"
  ce_advanced :: bool
  ce_stored_open :: bool
  ce_clicks :: nat
  ce_unlocked :: bool
  ce_initialBaseUrl :: jsval
  ce_initialModels :: "jsstr list"
  ce_initialMapping :: jsval
  ce_initialStatus :: jsval
  ce_riskItems :: "jsstr list"
  ce_riskVisible :: bool
  ce_asked :: "jsval list"
  ce_cache :: channel_cache
  ce_toasts :: "toast list"

definition isEdit :: "ch_editor \<Rightarrow> bool" where
  "isEdit st \<longleftrightarrow> ce_id st \<noteq> Undefined"

abbreviation num_lit :: "rat \<Rightarrow> jsval" where
  "num_lit q \<equiv> Num (Fin q)"

abbreviation field_of :: "jsobj \<Rightarrow> string \<Rightarrow> jsval" where
  "field_of kvs k \<equiv> obj_get kvs (lit k)"

definition puts :: "jsobj \<Rightarrow> (string \<times> jsval) list \<Rightarrow> jsobj" where
  "puts kvs ps = foldl (\<lambda>acc p. obj_put acc (lit (fst p)) (snd p)) kvs ps"

definition originInputs :: jsobj where
  "originInputs = map (map_prod lit id)
     [(''name'', Str []), (''type'', num_lit 1), (''key'', Str []), (''openai_organization'', Str []), (''max_input_tokens'', num_lit 0),
      (''base_url'', Str []), (''other'', Str []), (''model_mapping'', Str []), (''param_override'', Str []), (''status_code_mapping'', Str []),
      (''models'', Arr []), (''auto_ban'', num_lit 1), (''test_model'', Str []), (''groups'', Arr []), (''priority'', num_lit 0),
      (''weight'', num_lit 0), (''tag'', Str []), (''multi_key_mode'', Str (lit ''random'')), (''force_format'', Bool False),
      (''thinking_to_content'', Bool False), (''proxy'', Str []), (''pass_through_body_enabled'', Bool False), (''system_prompt'', Str []),
      (''system_prompt_override'', Bool False), (''settings'', Str []), (''vertex_key_type'', Str (lit ''json'')),
      (''aws_key_type'', Str (lit ''ak_sk'')), (''is_enterprise_account'', Bool False), (''allow_service_tier'', Bool False),
      (''disable_store'', Bool False), (''allow_safety_identifier'', Bool False), (''allow_include_obfuscation'', Bool False),
      (''allow_inference_geo'', Bool False), (''allow_speed'', Bool False), (''claude_beta_query'', Bool False),
      (''upstream_model_update_check_enabled'', Bool False), (''upstream_model_update_auto_sync_enabled'', Bool False),
      (''upstream_model_update_last_check_time'', num_lit 0), (''upstream_model_update_last_detected_models'', Arr []),
      (''upstream_model_update_ignored_models'', Str [])]"

text \<open>The state of a dialog that has not been opened.\<close>

definition new_editor :: "channel_cache \<Rightarrow> ch_editor" where
  "new_editor c = \<lparr>ce_id = Undefined, ce_visible = False, ce_loading = False, ce_inputs = originInputs, ce_form = [], ce_batch = False,
     ce_multiToSingle = False, ce_multiKeyMode = Str (lit ''random''), ce_autoBan = True, ce_originModelOptions = [], ce_modelOptions = [],
     ce_groupOptions = [], ce_basicModels = Arr [], ce_fullModels = [], ce_modelGroups = Arr [], ce_customModel = [], ce_fetchedModels = [],
     ce_modelModal = False, ce_mapModal = False, ce_mapModels = [], ce_mapKey = [], ce_mapSelected = [], ce_vertexKeys = [], ce_vertexFiles = [],
     ce_multiKey = False, ce_manual = False, ce_keyMode = Str (lit ''append''), ce_enterprise = False,
     ce_channelSettings = map (map_prod lit id) [(''force_format'', Bool False), (''thinking_to_content'', Bool False), (''proxy'', Str []),
       (''pass_through_body_enabled'', Bool False), (''system_prompt'', Str [])],
     ce_isIonet = False, ce_ionet = Null, ce_keyShown = None, ce_clipboard = None, ce_advanced = False, ce_stored_open = False, ce_clicks = 0,
     ce_unlocked = False, ce_initialBaseUrl = Str [], ce_initialModels = [], ce_initialMapping = Str [], ce_initialStatus = Str [],
     ce_riskItems = [], ce_riskVisible = False, ce_asked = [], ce_cache = c, ce_toasts = []\<rparr>"

definition form_set :: "string \<Rightarrow> jsval \<Rightarrow> ch_editor \<Rightarrow> ch_editor" where
  "form_set k v st = st\<lparr>ce_form := ce_form st @ [FSet (lit k) v]\<rparr>"

definition put_input :: "string \<Rightarrow> jsval \<Rightarrow> ch_editor \<Rightarrow> ch_editor" where
  "put_input k v st = st\<lparr>ce_inputs := obj_put (ce_inputs st) (lit k) v\<rparr>"

definition tell :: "toast \<Rightarrow> ch_editor \<Rightarrow> ch_editor" where
  "tell m st = st\<lparr>ce_toasts := ce_toasts st @ [m]\<rparr>"

text \<open>\<open>(v || '').trim()\<close>, over the elements of an array too.\<close>

definition trim_val :: "jsval \<Rightarrow> jsstr res" where
  "trim_val v = (if truthy v then (case v of Str s \<Rightarrow> Inr (trim s) | _ \<Rightarrow> Inl TypeError) else Inr [])"

fun trim_all :: "jsval list \<Rightarrow> jsstr list res" where
  "trim_all [] = Inr []"
| "trim_all (v # vs) = (case trim_val v of Inl e \<Rightarrow> Inl e | Inr s \<Rightarrow> map_sum id (Cons s) (trim_all vs))"

section \<open>Derived values\<close>

text \<open>The object a JSON text holds, \<open>None\<close> where it is something else or cannot be read.\<close>

definition plain_object :: "jsval \<Rightarrow> bool" where
  "plain_object v \<longleftrightarrow> truthy v \<and> typeof_object v \<and> \<not> is_arr v"

definition parsed_mapping :: "jsval \<Rightarrow> jsobj option" where
  "parsed_mapping v = (case v of
     Str s \<Rightarrow> if trim s = [] then None
       else (case json_parse (trim s) of Inr (Obj kvs) \<Rightarrow> Some kvs | _ \<Rightarrow> None)
   | _ \<Rightarrow> None)"

definition redirectModelList :: "jsobj \<Rightarrow> jsstr list" where
  "redirectModelList inputs = (case parsed_mapping (field_of inputs ''model_mapping'') of
     None \<Rightarrow> []
   | Some kvs \<Rightarrow> uniq (filter (\<lambda>s. s \<noteq> []) (List.map_filter (\<lambda>kv. case snd kv of Str s \<Rightarrow> Some (trim s) | _ \<Rightarrow> None) kvs)))"

definition redirectModelKeyList :: "jsobj \<Rightarrow> jsstr list" where
  "redirectModelKeyList inputs = (case parsed_mapping (field_of inputs ''model_mapping'') of
     None \<Rightarrow> []
   | Some kvs \<Rightarrow> uniq (filter (\<lambda>s. s \<noteq> []) (map (\<lambda>kv. trim (fst kv)) kvs)))"

definition upstreamDetectedModels :: "jsobj \<Rightarrow> jsstr list" where
  "upstreamDetectedModels inputs = (case field_of inputs ''upstream_model_update_last_detected_models'' of
     Arr xs \<Rightarrow> uniq (filter (\<lambda>s. s \<noteq> []) (map (\<lambda>m. trim (to_str (js_or m (Str [])))) xs))
   | _ \<Rightarrow> [])"

definition UPSTREAM_DETECTED_MODEL_PREVIEW_LIMIT :: nat where
  "UPSTREAM_DETECTED_MODEL_PREVIEW_LIMIT = 8"

definition upstreamDetectedModelsPreview :: "jsobj \<Rightarrow> jsstr list" where
  "upstreamDetectedModelsPreview inputs = take UPSTREAM_DETECTED_MODEL_PREVIEW_LIMIT (upstreamDetectedModels inputs)"

definition upstreamDetectedModelsOmittedCount :: "jsobj \<Rightarrow> nat" where
  "upstreamDetectedModelsOmittedCount inputs = length (upstreamDetectedModels inputs) - length (upstreamDetectedModelsPreview inputs)"

text \<open>The tag beside the parameter override: its label, colour and preview.\<close>

definition paramOverrideMeta :: "ch_env \<Rightarrow> jsobj \<Rightarrow> jsstr \<times> jsstr \<times> jsstr" where
  "paramOverrideMeta env inputs =
     (let raw = (case field_of inputs ''param_override'' of Str s \<Rightarrow> trim s | _ \<Rightarrow> []);
          pretty = (\<lambda>v. case stringify2 v of Str s \<Rightarrow> s | _ \<Rightarrow> [])
      in if raw = [] then (tr env [19981, 26356, 25913] [], lit ''grey'', tr env [27492, 39033, 21487, 36873, 65292, 29992, 20110, 35206, 30422, 35831, 27714, 21442, 25968, 12290, 19981, 25903, 25345, 35206, 30422, 32, 115, 116, 114, 101, 97, 109, 32, 21442, 25968] [])
         else case json_parse raw of
           Inl e \<Rightarrow> (tr env [74, 83, 79, 78, 26684, 24335, 38169, 35823] [], lit ''red'', raw)
         | Inr (Obj kvs) \<Rightarrow> (case field_of kvs ''operations'' of
             Arr ops \<Rightarrow> (tr env [26032, 26684, 24335, 27169, 26495] [] @ lit '' ('' @ nat_digits (length ops) @ lit '')'', lit ''cyan'', pretty (Obj kvs))
           | _ \<Rightarrow> (tr env [26087, 26684, 24335, 27169, 26495] [] @ lit '' ('' @ nat_digits (length kvs) @ lit '')'', lit ''blue'', pretty (Obj kvs)))
         | Inr v \<Rightarrow> (tr env [33258, 23450, 20041, 32, 74, 83, 79, 78] [], lit ''orange'', pretty v))"

section \<open>Fields\<close>

text \<open>The models offered for a channel type. The cache and its errors are those of \<open>getChannelModels\<close>.\<close>

definition type_models :: "jsval \<Rightarrow> channel_cache \<Rightarrow> (jsval \<times> channel_cache) res" where
  "type_models value c =
     (let fixed = (\<lambda>ms. Inr (Arr (map (\<lambda>m. Str (lit m)) ms), c))
      in if value = num_lit 2
         then fixed [''mj_imagine'', ''mj_variation'', ''mj_reroll'', ''mj_blend'', ''mj_upscale'', ''mj_describe'', ''mj_uploads'']
         else if value = num_lit 5
         then fixed [''swap_face'', ''mj_imagine'', ''mj_video'', ''mj_edits'', ''mj_variation'', ''mj_reroll'', ''mj_blend'', ''mj_upscale'',
           ''mj_describe'', ''mj_zoom'', ''mj_shorten'', ''mj_modal'', ''mj_inpaint'', ''mj_custom_zoom'', ''mj_high_variation'',
           ''mj_low_variation'', ''mj_pan'', ''mj_uploads'']
         else if value = num_lit 36 then fixed [''suno_music'', ''suno_lyrics'']
         else getChannelModels (to_str value) c)"

definition poyo_mapping :: jsval where
  "poyo_mapping = stringify2 (Obj [(lit ''doubao-seedream-4-5'', Str (lit ''seedream-4.5'')), (lit ''doubao-seedream-5-0-lite'', Str (lit ''seedream-5.0-lite''))])"

text \<open>What a type presets: the address, and for one type the model mapping where there is none.\<close>

definition type_presets :: "jsval \<Rightarrow> jsobj \<Rightarrow> jsobj res" where
  "type_presets value inputs =
     (if value = num_lit 45 then Inr (puts inputs [(''base_url'', Str (lit ''https://ark.cn-beijing.volces.com''))])
      else if value = num_lit 59
      then (case trim_val (field_of inputs ''model_mapping'') of
          Inl e \<Rightarrow> Inl e
        | Inr m \<Rightarrow> Inr (puts inputs [(''base_url'', Str (lit ''https://api.poyo.ai'')),
            (''model_mapping'', if m \<noteq> [] then field_of inputs ''model_mapping'' else poyo_mapping)]))
      else Inr inputs)"

definition leave_batch :: "ch_editor \<Rightarrow> ch_editor" where
  "leave_batch st = st\<lparr>ce_batch := False, ce_multiToSingle := False, ce_multiKeyMode := Str (lit ''random'')\<rparr>"

definition type_changed :: "jsval \<Rightarrow> ch_editor \<Rightarrow> ch_editor \<times> jserr option" where
  "type_changed value st = (case type_models value (ce_cache st) of
     Inl e \<Rightarrow> (st, Some e)
   | Inr (ms, c) \<Rightarrow> (case type_presets value (ce_inputs st) of
       Inl e \<Rightarrow> (st\<lparr>ce_cache := c\<rparr>, Some e)
     | Inr inputs \<Rightarrow>
         (let st1 = st\<lparr>ce_cache := c, ce_inputs := inputs\<rparr>; old = field_of (ce_inputs st) ''models''
          in if nullish old then (st1, Some TypeError)
             else let st2 = (if opt_prop old (lit ''length'') = num_lit 0 then put_input ''models'' ms st1 else st1)\<lparr>ce_basicModels := ms, ce_manual := False\<rparr>
               in (if value = num_lit 57
                   then put_input ''vertex_files'' (Arr []) (form_set ''vertex_files'' (Arr []) ((leave_batch st2)\<lparr>ce_vertexKeys := [], ce_vertexFiles := []\<rparr>))
                   else st2, None))))"

definition handleInputChange :: "string \<Rightarrow> jsval \<Rightarrow> ch_editor \<Rightarrow> ch_editor \<times> jserr option" where
  "handleInputChange name v st =
     (if ce_isIonet st \<and> isEdit st \<and> name \<in> {''type'', ''key'', ''base_url''} then (st, None)
      else let st1 = form_set name v st
        in case (case v of Arr xs \<Rightarrow> if name = ''models'' then map_sum id (\<lambda>ms. Arr (map Str (uniq ms))) (trim_all xs) else Inr v | _ \<Rightarrow> Inr v) of
             Inl e \<Rightarrow> (st1, Some e)
           | Inr w \<Rightarrow>
               if name = ''base_url''
               then (case w of
                   Str s \<Rightarrow> if ends_with s (lit ''/v1'') then (st1\<lparr>ce_asked := ce_asked st1 @ [w]\<rparr>, None) else (put_input name w st1, None)
                 | _ \<Rightarrow> (st1, Some TypeError))
               else if name = ''type'' then type_changed w (put_input name w st1)
               else (put_input name w st1, None))"

text \<open>The confirmation of an address that ends in \<open>/v1\<close>.\<close>

definition confirm_base_url :: "jsval \<Rightarrow> ch_editor \<Rightarrow> ch_editor" where
  "confirm_base_url v st = put_input ''base_url'' v st"

definition handleChannelSettingsChange :: "string \<Rightarrow> jsval \<Rightarrow> ch_editor \<Rightarrow> ch_editor \<times> jserr option" where
  "handleChannelSettingsChange k v st =
     (let settings = obj_put (ce_channelSettings st) (lit k) v
      in handleInputChange ''setting'' (Str (json_str (Obj settings))) (put_input k v (form_set k v (st\<lparr>ce_channelSettings := settings\<rparr>))))"

text \<open>An assignment \<open>settings[key] = value\<close> to a parsed value: null and primitives throw, an array prints without it.\<close>

definition assign_prop :: "jsval \<Rightarrow> string \<Rightarrow> jsval \<Rightarrow> jsval res" where
  "assign_prop settings k v = (case settings of Obj kvs \<Rightarrow> Inr (Obj (obj_put kvs (lit k) v)) | Arr xs \<Rightarrow> Inr (Arr xs) | _ \<Rightarrow> Inl TypeError)"

definition parsed_settings :: "jsval \<Rightarrow> jsval" where
  "parsed_settings v = (if truthy v then (case json_parse (to_str v) of Inl e \<Rightarrow> Obj [] | Inr w \<Rightarrow> w) else Obj [])"

definition handleChannelOtherSettingsChange :: "string \<Rightarrow> jsval \<Rightarrow> ch_editor \<Rightarrow> ch_editor \<times> jserr option" where
  "handleChannelOtherSettingsChange k v st =
     (let st1 = put_input k v (form_set k v (st\<lparr>ce_channelSettings := obj_put (ce_channelSettings st) (lit k) v\<rparr>))
      in case assign_prop (parsed_settings (field_of (ce_inputs st) ''settings'')) k v of
           Inl e \<Rightarrow> (st1, Some e)
         | Inr s \<Rightarrow> handleInputChange ''settings'' (Str (json_str s)) st1)"

definition applyClipboardConfig :: "ch_env \<Rightarrow> jsstr \<times> jsstr \<Rightarrow> ch_editor \<Rightarrow> ch_editor" where
  "applyClipboardConfig env config st =
     tell (Success (tr env [36830, 25509, 20449, 24687, 24050, 22635, 20837] []))
       ((form_set ''base_url'' (Str (snd config)) (form_set ''key'' (Str (fst config))
          (put_input ''base_url'' (Str (snd config)) (put_input ''key'' (Str (fst config)) st))))\<lparr>ce_clipboard := None\<rparr>)"

text \<open>\<open>None\<close>: the clipboard cannot be read.\<close>

definition pasteFromClipboard :: "ch_env \<Rightarrow> jsval option \<Rightarrow> ch_editor \<Rightarrow> ch_editor" where
  "pasteFromClipboard env clip st = (case clip of
     None \<Rightarrow> tell (Failure (Str (tr env [26080, 27861, 35835, 21462, 21098, 36148, 26495] []))) st
   | Some v \<Rightarrow> (case parseChannelConnectionString v of
       Some config \<Rightarrow> applyClipboardConfig env config st
     | None \<Rightarrow> tell (Info (tr env [21098, 36148, 26495, 20013, 26410, 26816, 27979, 21040, 36830, 25509, 20449, 24687] [])) st))"

text \<open>The inputs are those of the last rendering, which a handler that calls this after a change still sees.\<close>

definition formatJsonField :: "ch_env \<Rightarrow> jsobj \<Rightarrow> string \<Rightarrow> ch_editor \<Rightarrow> ch_editor \<times> jserr option" where
  "formatJsonField env inputs k st = (case js_coalesce (field_of inputs k) (Str []) of
     Str s \<Rightarrow> if trim s = [] then (st, None)
       else (case json_parse (trim s) of
           Inl e \<Rightarrow> (tell (Failure (Str (tr env [74, 83, 79, 78, 26684, 24335, 38169, 35823] [] @ lit '': '' @ emsg env e))) st, None)
         | Inr v \<Rightarrow> handleInputChange k (stringify2 v) st)
   | _ \<Rightarrow> (st, Some TypeError))"

definition handleCodexOAuthGenerated :: "ch_env \<Rightarrow> jsval \<Rightarrow> ch_editor \<Rightarrow> ch_editor \<times> jserr option" where
  "handleCodexOAuthGenerated env k st = (case handleInputChange ''key'' k st of
     (st1, Some e) \<Rightarrow> (st1, Some e)
   | (st1, None) \<Rightarrow> formatJsonField env (ce_inputs st) ''key'' st1)"

definition handleApiConfigSecretClick :: "ch_env \<Rightarrow> ch_editor \<Rightarrow> ch_editor" where
  "handleApiConfigSecretClick env st =
     (if field_of (ce_inputs st) ''type'' \<noteq> num_lit 45 then st
      else let st1 = st\<lparr>ce_clicks := ce_clicks st + 1\<rparr>
        in if ce_clicks st1 \<ge> 10
           then (if ce_unlocked st1 then st1 else tell (Info (tr env [24050, 35299, 38145, 35910, 21253, 33258, 23450, 20041, 32, 65, 80, 73, 32, 22320, 22336, 32534, 36753] [])) st1)\<lparr>ce_unlocked := True\<rparr>
           else st1)"

text \<open>The effect on the type: leaving the type locks the address again.\<close>

definition type_effect :: "ch_editor \<Rightarrow> ch_editor" where
  "type_effect st = (if field_of (ce_inputs st) ''type'' \<noteq> num_lit 45 then st\<lparr>ce_clicks := 0, ce_unlocked := False\<rparr> else st)"

section \<open>Parameter overrides\<close>

definition LEGACY_TEMPLATE :: jsobj where
  "LEGACY_TEMPLATE = [(lit ''temperature'', num_lit 0)]"

definition OPERATIONS_TEMPLATE :: "jsval list" where
  "OPERATIONS_TEMPLATE = [Obj [(lit ''path'', Str (lit ''temperature'')), (lit ''mode'', Str (lit ''set'')), (lit ''value'', num_lit (7 / 10)),
     (lit ''conditions'', Arr [Obj [(lit ''path'', Str (lit ''model'')), (lit ''mode'', Str (lit ''prefix'')), (lit ''value'', Str (lit ''openai/''))]]),
     (lit ''logic'', Str (lit ''AND''))]]"

definition parseParamOverrideInput :: "ch_env \<Rightarrow> jsobj \<Rightarrow> jsval res" where
  "parseParamOverrideInput env inputs =
     (let raw = (case field_of inputs ''param_override'' of Str s \<Rightarrow> trim s | _ \<Rightarrow> [])
      in if raw = [] then Inr Null
         else case json_parse raw of Inl e \<Rightarrow> Inl (JsError (tr env [24403, 21069, 21442, 25968, 35206, 30422, 19981, 26159, 21512, 27861, 30340, 32, 74, 83, 79, 78] [])) | Inr v \<Rightarrow> Inr v)"

definition template_value :: "jsval \<Rightarrow> bool \<Rightarrow> bool \<Rightarrow> jsval" where
  "template_value parsed legacy fill =
     (if legacy then
        (if fill then Obj LEGACY_TEMPLATE
         else Obj (obj_merge LEGACY_TEMPLATE (case parsed of Obj kvs \<Rightarrow> if is_arr (field_of kvs ''operations'') then [] else kvs | _ \<Rightarrow> [])))
      else if fill then Obj [(lit ''operations'', Arr OPERATIONS_TEMPLATE)]
      else Obj [(lit ''operations'', Arr ((case parsed of Obj kvs \<Rightarrow> (case field_of kvs ''operations'' of Arr xs \<Rightarrow> xs | _ \<Rightarrow> []) | _ \<Rightarrow> []) @ OPERATIONS_TEMPLATE))])"

definition applyParamOverrideTemplate :: "ch_env \<Rightarrow> bool \<Rightarrow> bool \<Rightarrow> ch_editor \<Rightarrow> ch_editor \<times> jserr option" where
  "applyParamOverrideTemplate env legacy fill st = (case parseParamOverrideInput env (ce_inputs st) of
     Inl e \<Rightarrow> (tell (Failure (Str (if emsg env e \<noteq> [] then emsg env e else tr env [27169, 26495, 24212, 29992, 22833, 36133] []))) st, None)
   | Inr parsed \<Rightarrow> handleInputChange ''param_override'' (stringify2 (template_value parsed legacy fill)) st)"

definition clearParamOverride :: "ch_editor \<Rightarrow> ch_editor \<times> jserr option" where
  "clearParamOverride st = handleInputChange ''param_override'' (Str []) st"

text \<open>The text that is copied, \<open>None\<close> where there is nothing to copy.\<close>

definition copied_override :: "jsobj \<Rightarrow> jsstr option" where
  "copied_override inputs =
     (let raw = (case field_of inputs ''param_override'' of Str s \<Rightarrow> trim s | _ \<Rightarrow> [])
      in if raw = [] then None
         else Some (case json_parse raw of Inr v \<Rightarrow> (case stringify2 v of Str s \<Rightarrow> s | _ \<Rightarrow> raw) | Inl e \<Rightarrow> raw))"

definition copyParamOverrideJson :: "ch_env \<Rightarrow> bool \<Rightarrow> ch_editor \<Rightarrow> ch_editor" where
  "copyParamOverrideJson env copied st = (case copied_override (ce_inputs st) of
     None \<Rightarrow> tell (Info (tr env [26242, 26080, 21487, 22797, 21046, 32, 74, 83, 79, 78] [])) st
   | Some _ \<Rightarrow> tell (if copied then Success (tr env [21442, 25968, 35206, 30422, 32, 74, 83, 79, 78, 32, 24050, 22797, 21046] []) else Failure (Str (tr env [22797, 21046, 22833, 36133] []))) st)"

section \<open>Loading\<close>

text \<open>The fields that \<open>setting\<close> and \<open>settings\<close> hold as JSON texts.\<close>

definition or_false :: "jsval \<Rightarrow> jsval" where
  "or_false v = js_or v (Bool False)"

definition extra_settings :: "jsval \<Rightarrow> (string \<times> jsval) list" where
  "extra_settings v =
     [(''force_format'', or_false (opt_prop v (lit ''force_format''))), (''thinking_to_content'', or_false (opt_prop v (lit ''thinking_to_content''))),
      (''proxy'', js_or (opt_prop v (lit ''proxy'')) (Str [])), (''pass_through_body_enabled'', or_false (opt_prop v (lit ''pass_through_body_enabled''))),
      (''system_prompt'', js_or (opt_prop v (lit ''system_prompt'')) (Str [])), (''system_prompt_override'', or_false (opt_prop v (lit ''system_prompt_override'')))]"

definition load_setting :: "jsobj \<Rightarrow> jsobj" where
  "load_setting data =
     (let v = field_of data ''setting''
      in puts data (extra_settings (if truthy v then (case json_parse (to_str v) of Inl e \<Rightarrow> Undefined | Inr w \<Rightarrow> w) else Undefined)))"

definition num_or_zero :: "jsval \<Rightarrow> jsval" where
  "num_or_zero v = js_or (Num (to_num v)) (num_lit 0)"

definition is_true :: "jsval \<Rightarrow> jsval" where
  "is_true v = Bool (v = Bool True)"

definition other_settings :: "jsval \<Rightarrow> (string \<times> jsval) list" where
  "other_settings v =
     [(''vertex_key_type'', js_or (opt_prop v (lit ''vertex_key_type'')) (Str (lit ''json''))),
      (''aws_key_type'', js_or (opt_prop v (lit ''aws_key_type'')) (Str (lit ''ak_sk''))),
      (''is_enterprise_account'', is_true (opt_prop v (lit ''openrouter_enterprise''))),
      (''allow_service_tier'', or_false (opt_prop v (lit ''allow_service_tier''))),
      (''disable_store'', or_false (opt_prop v (lit ''disable_store''))),
      (''allow_safety_identifier'', or_false (opt_prop v (lit ''allow_safety_identifier''))),
      (''allow_include_obfuscation'', or_false (opt_prop v (lit ''allow_include_obfuscation''))),
      (''allow_inference_geo'', or_false (opt_prop v (lit ''allow_inference_geo''))),
      (''allow_speed'', or_false (opt_prop v (lit ''allow_speed''))),
      (''claude_beta_query'', or_false (opt_prop v (lit ''claude_beta_query''))),
      (''upstream_model_update_check_enabled'', is_true (opt_prop v (lit ''upstream_model_update_check_enabled''))),
      (''upstream_model_update_auto_sync_enabled'', is_true (opt_prop v (lit ''upstream_model_update_auto_sync_enabled''))),
      (''upstream_model_update_last_check_time'', num_or_zero (opt_prop v (lit ''upstream_model_update_last_check_time''))),
      (''upstream_model_update_last_detected_models'',
        case opt_prop v (lit ''upstream_model_update_last_detected_models'') of Arr xs \<Rightarrow> Arr xs | _ \<Rightarrow> Arr []),
      (''upstream_model_update_ignored_models'',
        case opt_prop v (lit ''upstream_model_update_ignored_models'') of Arr xs \<Rightarrow> Str (to_str (Arr xs)) | _ \<Rightarrow> Str [])]"

text \<open>Without \<open>settings\<close> only the defaults are written; a text that cannot be used also blanks the region.\<close>

definition load_settings :: "jsobj \<Rightarrow> jsobj" where
  "load_settings data =
     (let v = field_of data ''settings''
      in if \<not> truthy v then puts data (other_settings Undefined)
         else case json_parse (to_str v) of
           Inr w \<Rightarrow>
             if nullish w then puts data ((''azure_responses_version'', Str []) # (''region'', Str []) # other_settings Undefined)
             else puts data ((''azure_responses_version'', js_or (opt_prop w (lit ''azure_responses_version'')) (Str [])) # other_settings w)
         | Inl e \<Rightarrow> puts data ((''azure_responses_version'', Str []) # (''region'', Str []) # other_settings Undefined))"

definition split_list :: "jsval \<Rightarrow> jsval res" where
  "split_list v = (case v of Str s \<Rightarrow> Inr (if s = [] then Arr [] else Arr (map Str (split_char 44 s))) | _ \<Rightarrow> Inl TypeError)"

text \<open>\<open>JSON.stringify(JSON.parse(v), null, 2)\<close>\<close>

definition load_mapping :: "jsobj \<Rightarrow> jsobj res" where
  "load_mapping data =
     (let v = field_of data ''model_mapping''
      in if v = Str [] then Inr data else map_sum id (\<lambda>w. puts data [(''model_mapping'', stringify2 w)]) (json_parse (to_str v)))"

definition load_address :: "jsobj \<Rightarrow> jsobj" where
  "load_address data =
     (let v = field_of data ''base_url''
      in if field_of data ''type'' = num_lit 45 \<and> (\<not> truthy v \<or> (case v of Str s \<Rightarrow> trim s = [] | _ \<Rightarrow> False))
         then puts data [(''base_url'', Str (lit ''https://ark.cn-beijing.volces.com''))] else data)"

definition is_multi_key :: "jsobj \<Rightarrow> bool" where
  "is_multi_key data \<longleftrightarrow> opt_prop (field_of data ''channel_info'') (lit ''is_multi_key'') = Bool True"

definition multi_mode :: "jsobj \<Rightarrow> jsval" where
  "multi_mode data = js_or (opt_prop (field_of data ''channel_info'') (lit ''multi_key_mode'')) (Str (lit ''random''))"

text \<open>The values shown for the channel that the server answered.\<close>

definition prepare_channel :: "jsobj \<Rightarrow> jsobj res" where
  "prepare_channel data0 = (case split_list (field_of data0 ''models'') of
     Inl e \<Rightarrow> Inl e
   | Inr ms \<Rightarrow> (case split_list (field_of data0 ''group'') of
       Inl e \<Rightarrow> Inl e
     | Inr gs \<Rightarrow> (case load_mapping (puts data0 [(''models'', ms), (''groups'', gs)]) of
         Inl e \<Rightarrow> Inl e
       | Inr d \<Rightarrow>
           Inr (load_address (load_settings (load_setting (if is_multi_key d then puts d [(''multi_key_mode'', multi_mode d)] else d)))))))"

definition ionet_meta :: "jsobj \<Rightarrow> jsval" where
  "ionet_meta data =
     (let v = field_of data ''other_info''
      in if \<not> truthy v then Null
         else case json_parse (to_str v) of
           Inl e \<Rightarrow> Null
         | Inr w \<Rightarrow> if truthy w \<and> typeof_object w \<and> opt_prop w (lit ''source'') = Str (lit ''ionet'') then w else Null)"

text \<open>\<open>v && v.trim()\<close> as a condition; other truthy values have no \<open>trim\<close>.\<close>

definition not_blank :: "jsval \<Rightarrow> bool res" where
  "not_blank v = map_sum id (\<lambda>s. s \<noteq> []) (trim_val v)"

fun any_res :: "bool res list \<Rightarrow> bool res" where
  "any_res [] = Inr False"
| "any_res (r # rs) = (case r of Inl e \<Rightarrow> Inl e | Inr b \<Rightarrow> if b then Inr True else any_res rs)"

definition hasAdvancedValues :: "jsobj \<Rightarrow> bool res" where
  "hasAdvancedValues data = any_res
     (map (\<lambda>k. not_blank (field_of data k)) [''model_mapping'', ''param_override'', ''status_code_mapping'', ''header_override'', ''tag'', ''remark''] @
      map (\<lambda>k. Inr (truthy (field_of data k))) [''priority'', ''weight''] @
      map (\<lambda>k. not_blank (field_of data k)) [''proxy'', ''system_prompt''] @
      map (\<lambda>k. Inr (truthy (field_of data k)))
        [''thinking_to_content'', ''pass_through_body_enabled'', ''force_format'', ''claude_beta_query'', ''system_prompt_override''])"

definition shown_settings :: "jsobj \<Rightarrow> jsobj" where
  "shown_settings data = map (\<lambda>k. (lit k, field_of data k)) [''force_format'', ''thinking_to_content'', ''proxy'', ''pass_through_body_enabled'', ''system_prompt''] @
     [(lit ''system_prompt_override'', or_false (field_of data ''system_prompt_override''))]"

text \<open>What loading sets besides the inputs, in the order of the code; a throw leaves the rest, with the spinner, as it was.\<close>

definition show_channel :: "jsobj \<Rightarrow> ch_editor \<Rightarrow> ch_editor \<times> jserr option" where
  "show_channel d st =
     (let multi = is_multi_key d;
          st1 = st\<lparr>ce_multiKey := multi, ce_batch := multi, ce_multiToSingle := multi,
             ce_multiKeyMode := (if multi then multi_mode d else ce_multiKeyMode st),
             ce_initialBaseUrl := js_or (field_of d ''base_url'') (Str []), ce_inputs := d, ce_form := ce_form st @ [FSetValues d],
             ce_autoBan := (field_of d ''auto_ban'' \<noteq> num_lit 0), ce_enterprise := truthy (field_of d ''is_enterprise_account'')\<rparr>
      in case getChannelModels (to_str (field_of d ''type'')) (ce_cache st) of
           Inl e \<Rightarrow> (st1, Some e)
         | Inr (ms, c) \<Rightarrow>
             (let st2 = st1\<lparr>ce_basicModels := ms, ce_cache := c, ce_channelSettings := shown_settings d\<rparr>
              in case trim_all (case field_of d ''models'' of Arr xs \<Rightarrow> xs | _ \<Rightarrow> []) of
                   Inl e \<Rightarrow> (st2, Some e)
                 | Inr names \<Rightarrow>
                     (let st3 = st2\<lparr>ce_initialModels := filter (\<lambda>s. s \<noteq> []) names, ce_initialMapping := js_or (field_of d ''model_mapping'') (Str []),
                          ce_initialStatus := js_or (field_of d ''status_code_mapping'') (Str []),
                          ce_isIonet := truthy (ionet_meta d), ce_ionet := ionet_meta d\<rparr>
                      in case hasAdvancedValues d of
                           Inl e \<Rightarrow> (st3, Some e)
                         | Inr b \<Rightarrow> (st3\<lparr>ce_advanced := ce_advanced st3 \<or> b, ce_loading := False\<rparr>, None))))"

text \<open>The answer: no response, a refusal with its message, or the channel. A throw while the texts are taken apart happens before any state is
  set.\<close>

datatype load_answer = NoResponse | Refusal jsval | Channel jsobj

definition loadChannel :: "load_answer \<Rightarrow> ch_editor \<Rightarrow> ch_editor \<times> jserr option" where
  "loadChannel answer st0 =
     (let st = st0\<lparr>ce_loading := True\<rparr>
      in case answer of
           NoResponse \<Rightarrow> (st, None)
         | Refusal message \<Rightarrow> ((tell (Failure message) st)\<lparr>ce_loading := False\<rparr>, None)
         | Channel data \<Rightarrow> (case prepare_channel data of Inl e \<Rightarrow> (st, Some e) | Inr d \<Rightarrow> show_channel d st))"

section \<open>Submitting\<close>

text \<open>Submitting stops with a toast, an exception or because a confirmation was refused, or it sends a request.\<close>

datatype ch_stop = Told toast | Thrown jserr | Cancelled

datatype ch_request = PutChannel jsobj | PostChannel jsobj

definition lift_res :: "'a res \<Rightarrow> ch_stop + 'a" where
  "lift_res r = map_sum Thrown id r"

definition step_then :: "'e + 'a \<Rightarrow> ('a \<Rightarrow> 'e + 'b) \<Rightarrow> 'e + 'b" where
  "step_then r f = (case r of Inl e \<Rightarrow> Inl e | Inr a \<Rightarrow> f a)"

definition info :: "ch_env \<Rightarrow> jsstr \<Rightarrow> ch_stop + 'a" where
  "info env s = Inl (Told (Info (tr env s [])))"

text \<open>The credentials of a Codex channel: a JSON object with two tokens.\<close>

definition codex_key :: "ch_env \<Rightarrow> ch_editor \<Rightarrow> jsobj \<Rightarrow> ch_stop + jsobj" where
  "codex_key env st li =
     (if field_of li ''type'' \<noteq> num_lit 57 then Inr li
      else if ce_batch st then info env [67, 111, 100, 101, 120, 32, 28192, 36947, 19981, 25903, 25345, 25209, 37327, 21019, 24314]
      else step_then (lift_res (trim_val (field_of li ''key''))) (\<lambda>rawKey.
        if \<not> isEdit st \<and> rawKey = [] then info env [35831, 36755, 20837, 23494, 38053, 65281]
        else if rawKey = [] then Inr li
        else case json_parse rawKey of
          Inl e \<Rightarrow> info env [23494, 38053, 24517, 39035, 26159, 21512, 27861, 30340, 32, 74, 83, 79, 78, 32, 26684, 24335, 65281]
        | Inr parsed \<Rightarrow>
            if \<not> plain_object parsed then info env [23494, 38053, 24517, 39035, 26159, 32, 74, 83, 79, 78, 32, 23545, 35937]
            else if trim (to_str (js_or (opt_prop parsed (lit ''access_token'')) (Str []))) = [] then info env [23494, 38053, 32, 74, 83, 79, 78, 32, 24517, 39035, 21253, 21547, 32, 97, 99, 99, 101, 115, 115, 95, 116, 111, 107, 101, 110]
            else if trim (to_str (js_or (opt_prop parsed (lit ''account_id'')) (Str []))) = [] then info env [23494, 38053, 32, 74, 83, 79, 78, 32, 24517, 39035, 21253, 21547, 32, 97, 99, 99, 111, 117, 110, 116, 95, 105, 100]
            else Inr (puts li [(''key'', Str (json_str parsed))])))"

text \<open>The keys in the chosen files, where they have not been read yet; items without a file are left out, as are values that are not truthy.\<close>

fun read_keys :: "vertex_file list \<Rightarrow> jsval list res" where
  "read_keys [] = Inr []"
| "read_keys (f # fs) = (case vf_text f of
     None \<Rightarrow> read_keys fs
   | Some None \<Rightarrow> Inl (JsError [])
   | Some (Some s) \<Rightarrow> (case json_parse s of
       Inl e \<Rightarrow> Inl e
     | Inr v \<Rightarrow> map_sum id (\<lambda>vs. if truthy v then v # vs else vs) (read_keys fs)))"

text \<open>The credentials of a Vertex channel: a plain key, a JSON text typed in, or the keys of the uploaded files.\<close>

definition vertex_manual :: "ch_env \<Rightarrow> ch_editor \<Rightarrow> jsobj \<Rightarrow> ch_stop + jsobj" where
  "vertex_manual env st li = step_then (lift_res (trim_val (field_of li ''key''))) (\<lambda>k.
     if k \<noteq> []
     then (case json_parse (to_str (field_of li ''key'')) of
         Inl e \<Rightarrow> Inl (Told (Failure (Str (tr env [23494, 38053, 26684, 24335, 26080, 25928, 65292, 35831, 36755, 20837, 26377, 25928, 30340, 32, 74, 83, 79, 78, 32, 26684, 24335, 23494, 38053] []))))
       | Inr v \<Rightarrow> Inr (puts li [(''key'', Str (json_str v))]))
     else if \<not> isEdit st then info env [35831, 36755, 20837, 23494, 38053, 65281] else Inr li)"

definition vertex_upload :: "ch_env \<Rightarrow> ch_editor \<Rightarrow> jsobj \<Rightarrow> ch_stop + jsobj" where
  "vertex_upload env st li =
     (case (if ce_vertexKeys st = [] \<and> ce_vertexFiles st \<noteq> [] then read_keys (ce_vertexFiles st) else Inr (ce_vertexKeys st)) of
        Inl e \<Rightarrow> Inl (Told (Failure (Str (tr env [35299, 26512, 23494, 38053, 25991, 20214, 22833, 36133, 58, 32, 123, 123, 109, 115, 103, 125, 125] [(lit ''msg'', Str (emsg env e))]))))
      | Inr [] \<Rightarrow> if \<not> isEdit st then info env [35831, 19978, 20256, 23494, 38053, 25991, 20214, 65281] else Inr (obj_del li (lit ''key''))
      | Inr (k # ks) \<Rightarrow> Inr (puts li [(''key'', Str (json_str (if ce_batch st then Arr (k # ks) else k)))]))"

definition vertex_key :: "ch_env \<Rightarrow> ch_editor \<Rightarrow> jsobj \<Rightarrow> ch_stop + jsobj" where
  "vertex_key env st li =
     (if field_of li ''type'' \<noteq> num_lit 41 then Inr li
      else if js_or (field_of li ''vertex_key_type'') (Str (lit ''json'')) = Str (lit ''api_key'')
      then (if isEdit st then Inr li
            else step_then (lift_res (trim_val (field_of li ''key''))) (\<lambda>k. if k = [] then info env [35831, 36755, 20837, 23494, 38053, 65281] else Inr li))
      else if ce_manual st then vertex_manual env st li
      else vertex_upload env st li)"

definition keep_old_key :: "ch_editor \<Rightarrow> jsobj \<Rightarrow> ch_stop + jsobj" where
  "keep_old_key st li =
     (if isEdit st
      then step_then (lift_res (trim_val (field_of li ''key''))) (\<lambda>k. Inr (if k = [] then obj_del li (lit ''key'') else li))
      else Inr li)"

definition required_fields :: "ch_env \<Rightarrow> ch_editor \<Rightarrow> jsobj \<Rightarrow> ch_stop + jsobj" where
  "required_fields env st li =
     (if \<not> isEdit st \<and> (\<not> truthy (field_of li ''name'') \<or> \<not> truthy (field_of li ''key'')) then info env [35831, 22635, 20889, 28192, 36947, 21517, 31216, 21644, 28192, 36947, 23494, 38053, 65281]
      else if (case field_of li ''models'' of Arr (x # xs) \<Rightarrow> False | _ \<Rightarrow> True) then info env [35831, 33267, 23569, 36873, 25321, 19968, 20010, 27169, 22411, 65281]
      else if field_of li ''type'' = num_lit 45
      then step_then (lift_res (trim_val (field_of li ''base_url''))) (\<lambda>u. if u = [] then info env [35831, 36755, 20837, 65, 80, 73, 22320, 22336, 65281] else Inr li)
      else Inr li)"

definition submitted_mapping :: "ch_env \<Rightarrow> jsobj \<Rightarrow> ch_stop + jsval" where
  "submitted_mapping env li = (case field_of li ''model_mapping'' of
     Str s \<Rightarrow> if trim s = [] then Inr Null
       else (case json_parse s of Inl e \<Rightarrow> info env [27169, 22411, 26144, 23556, 24517, 39035, 26159, 21512, 27861, 30340, 32, 74, 83, 79, 78, 32, 26684, 24335, 65281] | Inr v \<Rightarrow> Inr v)
   | _ \<Rightarrow> Inr Null)"

definition hasModelConfigChanged :: "ch_editor \<Rightarrow> jsstr list \<Rightarrow> jsval \<Rightarrow> bool" where
  "hasModelConfigChanged st normalizedModels mapping \<longleftrightarrow>
     \<not> isEdit st \<or> normalizedModels \<noteq> ce_initialModels st \<or>
     (case mapping of Str s \<Rightarrow> trim s | _ \<Rightarrow> []) \<noteq> (case ce_initialMapping st of Str s \<Rightarrow> trim s | _ \<Rightarrow> [])"

datatype missing_choice = CancelSubmit | SubmitAnyway | AddModels

definition missing_models :: "jsval \<Rightarrow> jsstr list \<Rightarrow> jsstr list" where
  "missing_models mapping ms = (case mapping of
     Obj kvs \<Rightarrow> filter (\<lambda>k. k \<noteq> [] \<and> k \<notin> set ms) (map (\<lambda>kv. trim (fst kv)) kvs)
   | _ \<Rightarrow> [])"

text \<open>The models that are sent, with those the mapping names and the list misses added if so chosen.\<close>

definition submitted_models :: "ch_editor \<Rightarrow> missing_choice \<Rightarrow> jsval \<Rightarrow> jsval \<Rightarrow> jsstr list \<Rightarrow> ch_stop + (jsstr list \<times> bool)" where
  "submitted_models st choice mapping mapping_text ms =
     (let missing = missing_models mapping ms
      in if missing \<noteq> [] \<and> hasModelConfigChanged st ms mapping_text
         then (case choice of CancelSubmit \<Rightarrow> Inl Cancelled | SubmitAnyway \<Rightarrow> Inr (ms, False) | AddModels \<Rightarrow> Inr (uniq (ms @ missing), True))
         else Inr (ms, False))"

definition status_check :: "ch_env \<Rightarrow> ch_editor \<Rightarrow> bool \<Rightarrow> jsobj \<Rightarrow> ch_stop + jsobj" where
  "status_check env st confirmed li =
     (let v = field_of li ''status_code_mapping''; invalid = collectInvalidStatusCodeEntries v
      in if invalid \<noteq> [] then Inl (Told (Failure (Str (tr env [29366, 24577, 30721, 22797, 20889, 21253, 21547, 26080, 25928, 30340, 29366, 24577, 30721] [] @ lit '': '' @ join (lit '', '') invalid))))
         else if collectNewDisallowedStatusCodeRedirects (ce_initialStatus st) v \<noteq> [] \<and> \<not> confirmed then Inl Cancelled
         else Inr li)"

definition clean_address :: "jsobj \<Rightarrow> ch_stop + jsobj" where
  "clean_address li = (case field_of li ''base_url'' of
     Str s \<Rightarrow> Inr (if ends_with s (lit ''/'') then puts li [(''base_url'', Str (butlast s))] else li)
   | v \<Rightarrow> if truthy v then Inl (Thrown TypeError) else Inr li)"

definition default_version :: "jsobj \<Rightarrow> jsobj" where
  "default_version li = (if field_of li ''type'' = num_lit 18 \<and> field_of li ''other'' = Str [] then puts li [(''other'', Str (lit ''v2.1''))] else li)"

definition extra_setting_text :: "jsobj \<Rightarrow> jsval" where
  "extra_setting_text li = Str (json_str (Obj (map (map_prod lit id) (extra_settings (Obj li)))))"

text \<open>The switches that are saved depend on the type.\<close>

definition type_settings :: "jsobj \<Rightarrow> jsobj \<Rightarrow> jsobj" where
  "type_settings li s =
     (let ty = field_of li ''type''; flag = (\<lambda>k. (k, is_true (field_of li k)));
          s1 = (if ty = num_lit 20 then puts s [(''openrouter_enterprise'', is_true (field_of li ''is_enterprise_account''))] else s);
          s2 = (if ty = num_lit 33 then puts s1 [(''aws_key_type'', js_or (field_of li ''aws_key_type'') (Str (lit ''ak_sk'')))] else s1);
          s3 = (if ty = num_lit 41 then puts s2 [(''vertex_key_type'', js_or (field_of li ''vertex_key_type'') (Str (lit ''json'')))]
                else obj_del s2 (lit ''vertex_key_type''))
      in if ty = num_lit 1 then puts s3 (map flag [''allow_service_tier'', ''disable_store'', ''allow_safety_identifier'', ''allow_include_obfuscation''])
         else if ty = num_lit 14 then puts s3 (map flag [''allow_service_tier'', ''allow_inference_geo'', ''allow_speed'', ''claude_beta_query''])
         else s3)"

definition ignored_models :: "jsval \<Rightarrow> jsval" where
  "ignored_models v = Arr (map Str (uniq (filter (\<lambda>s. s \<noteq> []) (map trim (split_char 44 (to_str (js_or v (Str []))))))))"

definition update_settings :: "jsobj \<Rightarrow> jsobj \<Rightarrow> jsobj" where
  "update_settings li s =
     (let check = (field_of li ''upstream_model_update_check_enabled'' = Bool True);
          s1 = puts s [(''upstream_model_update_check_enabled'', Bool check),
            (''upstream_model_update_auto_sync_enabled'', Bool (check \<and> field_of li ''upstream_model_update_auto_sync_enabled'' = Bool True)),
            (''upstream_model_update_ignored_models'', ignored_models (field_of li ''upstream_model_update_ignored_models''))];
          s2 = (if \<not> is_arr (field_of s1 ''upstream_model_update_last_detected_models'') \<or> \<not> check
                then puts s1 [(''upstream_model_update_last_detected_models'', Arr [])] else s1)
      in if is_num (field_of s2 ''upstream_model_update_last_check_time'') then s2
         else puts s2 [(''upstream_model_update_last_check_time'', num_lit 0)])"

text \<open>Assigning to null or a primitive throws; on an array the names are set and not printed.\<close>

definition settings_text :: "jsobj \<Rightarrow> ch_stop + jsval" where
  "settings_text li = (case parsed_settings (field_of li ''settings'') of
     Obj kvs \<Rightarrow> Inr (Str (json_str (Obj (update_settings li (type_settings li kvs)))))
   | Arr xs \<Rightarrow> Inr (Str (json_str (Arr xs)))
   | _ \<Rightarrow> Inl (Thrown TypeError))"

definition form_only :: "string list" where
  "form_only = [''force_format'', ''thinking_to_content'', ''proxy'', ''pass_through_body_enabled'', ''system_prompt'', ''system_prompt_override'',
     ''is_enterprise_account'', ''vertex_key_type'', ''aws_key_type'', ''allow_service_tier'', ''disable_store'', ''allow_safety_identifier'',
     ''allow_include_obfuscation'', ''allow_inference_geo'', ''allow_speed'', ''claude_beta_query'', ''upstream_model_update_check_enabled'',
     ''upstream_model_update_auto_sync_enabled'', ''upstream_model_update_last_check_time'', ''upstream_model_update_last_detected_models'',
     ''upstream_model_update_ignored_models'']"

definition drop_form_only :: "jsobj \<Rightarrow> jsobj" where
  "drop_form_only li = foldl (\<lambda>acc k. obj_del acc (lit k)) li form_only"

definition joined_groups :: "jsobj \<Rightarrow> ch_stop + jsval" where
  "joined_groups li = (case js_or (field_of li ''groups'') (Arr []) of Arr xs \<Rightarrow> Inr (Str (to_str (Arr xs))) | _ \<Rightarrow> Inl (Thrown TypeError))"

definition finish_inputs :: "jsstr list \<Rightarrow> jsobj \<Rightarrow> ch_stop + jsobj" where
  "finish_inputs ms li0 = step_then (clean_address li0) (\<lambda>li1.
     let li2 = puts (default_version li1) [(''setting'', extra_setting_text li1)]
     in step_then (settings_text li2) (\<lambda>s.
       let li3 = drop_form_only (puts li2 [(''settings'', s)])
       in step_then (joined_groups li3) (\<lambda>g.
         Inr (puts li3 [(''auto_ban'', if truthy (field_of li3 ''auto_ban'') then num_lit 1 else num_lit 0), (''models'', Str (join (lit '','') ms)), (''group'', g)]))))"

definition channel_request :: "ch_editor \<Rightarrow> jsobj \<Rightarrow> ch_request" where
  "channel_request st li =
     (if isEdit st
      then PutChannel (puts li [(''id'', Num (parse_int10 (to_str (ce_id st)))), (''key_mode'', if ce_multiKey st then ce_keyMode st else Undefined)])
      else let m = (if ce_batch st then if ce_multiToSingle st then ''multi_to_single'' else ''batch'' else ''single'')
        in PostChannel [(lit ''mode'', Str (lit m)), (lit ''multi_key_mode'', if m = ''multi_to_single'' then ce_multiKeyMode st else Undefined),
             (lit ''channel'', Obj li)])"

text \<open>Up to the models, which the dialog may add to.\<close>

definition checked_inputs :: "ch_env \<Rightarrow> ch_editor \<Rightarrow> jsobj \<Rightarrow> ch_stop + jsobj" where
  "checked_inputs env st formValues =
     step_then (codex_key env st (puts formValues [(''param_override'', field_of (ce_inputs st) ''param_override'')])) (\<lambda>li1.
     step_then (vertex_key env st li1) (\<lambda>li2.
     step_then (keep_old_key st li2) (\<lambda>li3.
     required_fields env st (obj_del li3 (lit ''vertex_files'')))))"

definition submit_models :: "ch_env \<Rightarrow> ch_editor \<Rightarrow> missing_choice \<Rightarrow> jsobj \<Rightarrow> ch_stop + (jsstr list \<times> bool)" where
  "submit_models env st choice li =
     step_then (submitted_mapping env li) (\<lambda>mapping.
     step_then (lift_res (trim_all (case field_of li ''models'' of Arr xs \<Rightarrow> xs | _ \<Rightarrow> []))) (\<lambda>names.
     submitted_models st choice mapping (field_of li ''model_mapping'') (filter (\<lambda>s. s \<noteq> []) names)))"

definition submit :: "ch_env \<Rightarrow> jsobj \<Rightarrow> missing_choice \<Rightarrow> bool \<Rightarrow> ch_editor \<Rightarrow> ch_editor \<times> (ch_stop + ch_request)" where
  "submit env formValues choice confirmed st = (case checked_inputs env st formValues of
     Inl e \<Rightarrow> (st, Inl e)
   | Inr li \<Rightarrow> (case submit_models env st choice li of
       Inl e \<Rightarrow> (st, Inl e)
     | Inr (ms, added) \<Rightarrow>
         ((if added then fst (handleInputChange ''models'' (Arr (map Str ms)) st) else st),
          step_then (status_check env st confirmed li) (\<lambda>li. step_then (finish_inputs ms li) (\<lambda>body. Inr (channel_request st body))))))"

section \<open>The dialog\<close>

text \<open>The risk of a status code mapping is confirmed in a dialog of its own.\<close>

definition resolveStatusCodeRiskConfirm :: "ch_editor \<Rightarrow> ch_editor" where
  "resolveStatusCodeRiskConfirm st = st\<lparr>ce_riskVisible := False, ce_riskItems := []\<rparr>"

definition confirmStatusCodeRisk :: "jsstr list \<Rightarrow> ch_editor \<Rightarrow> ch_editor" where
  "confirmStatusCodeRisk items st = st\<lparr>ce_riskItems := items, ce_riskVisible := True\<rparr>"

definition no_settings :: jsobj where
  "no_settings = map (map_prod lit id) (extra_settings Undefined)"

definition resetModalState :: "ch_editor \<Rightarrow> ch_editor" where
  "resetModalState st = (resolveStatusCodeRiskConfirm st)\<lparr>ce_form := ce_form st @ [FReset, FSet (lit ''key_mode'') Undefined],
     ce_channelSettings := no_settings, ce_keyMode := Str (lit ''append''), ce_enterprise := False, ce_unlocked := False, ce_clicks := 0,
     ce_advanced := False, ce_inputs := originInputs, ce_keyShown := None, ce_clipboard := None\<rparr>"

text \<open>The effects of the dialog being opened for a channel or closed. The clipboard is read when a new channel is begun. The effect on the
  identity of the channel comes first in the component.\<close>

definition identity_effect :: "ch_editor \<Rightarrow> ch_editor \<times> jserr option" where
  "identity_effect st =
     (if isEdit st then (st, None)
      else let st1 = st\<lparr>ce_initialBaseUrl := Str [], ce_inputs := originInputs, ce_form := ce_form st @ [FSetValues originInputs]\<rparr>
        in case getChannelModels (to_str (field_of (ce_inputs st) ''type'')) (ce_cache st) of
             Inl e \<Rightarrow> (st1, Some e)
           | Inr (ms, c) \<Rightarrow> (put_input ''models'' ms (st1\<lparr>ce_basicModels := ms, ce_cache := c\<rparr>), None))"

definition forget_initial :: "ch_editor \<Rightarrow> ch_editor" where
  "forget_initial st = (if isEdit st then st else st\<lparr>ce_initialModels := [], ce_initialMapping := Str [], ce_initialStatus := Str [],
     ce_isIonet := False, ce_ionet := Null\<rparr>)"

definition open_dialog :: "jsval \<Rightarrow> ch_editor \<Rightarrow> ch_editor" where
  "open_dialog i st0 =
     (let st = st0\<lparr>ce_id := i, ce_visible := True\<rparr>
      in forget_initial ((if isEdit st then st\<lparr>ce_loading := True\<rparr> else st\<lparr>ce_form := ce_form st @ [FSetValues originInputs]\<rparr>)
           \<lparr>ce_manual := False, ce_advanced := isEdit st \<and> ce_stored_open st\<rparr>))"

definition close_dialog :: "ch_editor \<Rightarrow> ch_editor" where
  "close_dialog st = forget_initial (resetModalState (st\<lparr>ce_visible := False\<rparr>))"

definition clipboard_read :: "jsval \<Rightarrow> ch_editor \<Rightarrow> ch_editor" where
  "clipboard_read v st = (case parseChannelConnectionString v of None \<Rightarrow> st | Some config \<Rightarrow> st\<lparr>ce_clipboard := Some config\<rparr>)"

text \<open>After every change of the inputs the form is given all of them.\<close>

definition inputs_effect :: "ch_editor \<Rightarrow> ch_editor" where
  "inputs_effect st = st\<lparr>ce_form := ce_form st @ [FSetValues (ce_inputs st)]\<rparr>"

definition toggleAdvancedSettings :: "bool \<Rightarrow> ch_editor \<Rightarrow> ch_editor" where
  "toggleAdvancedSettings b st = st\<lparr>ce_advanced := b, ce_stored_open := b\<rparr>"

text \<open>The answer to a request that was sent.\<close>

definition submit_answered :: "ch_env \<Rightarrow> jsval \<Rightarrow> ch_editor \<Rightarrow> ch_editor \<times> jserr option" where
  "submit_answered env res st =
     (let d = opt_prop res (lit ''data'')
      in if nullish res \<or> nullish d then (st, Some TypeError)
         else if truthy (opt_prop d (lit ''success''))
         then (close_dialog (if isEdit st then tell (Success (tr env [28192, 36947, 26356, 26032, 25104, 21151, 65281] [])) st
             else (tell (Success (tr env [28192, 36947, 21019, 24314, 25104, 21151, 65281] [])) st)\<lparr>ce_inputs := originInputs\<rparr>), None)
         else (tell (Failure (opt_prop d (lit ''message''))) st, None))"

section \<open>Keys\<close>

text \<open>The files that were chosen: those that can be read as JSON, with their keys, and the names of the others, each once.\<close>

fun readable :: "vertex_file list \<Rightarrow> (vertex_file \<times> jsval) list \<times> jsstr list" where
  "readable [] = ([], [])"
| "readable (f # fs) = (let r = readable fs in case vf_text f of
     None \<Rightarrow> r
   | Some None \<Rightarrow> (fst r, vf_name f # filter (\<lambda>n. n \<noteq> vf_name f) (snd r))
   | Some (Some s) \<Rightarrow> (case json_parse s of
       Inl e \<Rightarrow> (fst r, vf_name f # filter (\<lambda>n. n \<noteq> vf_name f) (snd r))
     | Inr v \<Rightarrow> ((f, v) # fst r, snd r)))"

definition handleVertexUploadChange :: "ch_env \<Rightarrow> vertex_file list \<Rightarrow> ch_editor \<Rightarrow> ch_editor" where
  "handleVertexUploadChange env files st =
     (let (good, bad) = readable files;
          kept = (if \<not> ce_batch st \<and> length good > 1 then [last good] else good);
          vals = Arr (map (\<lambda>p. file_val (fst p)) kept);
          st1 = put_input ''vertex_files'' vals (form_set ''vertex_files'' vals (st\<lparr>ce_vertexKeys := map snd kept, ce_vertexFiles := map fst kept\<rparr>))
      in if bad = [] then st1
         else tell (Failure (Str (tr env [20197, 19979, 25991, 20214, 35299, 26512, 22833, 36133, 65292, 24050, 24573, 30053, 65306, 123, 123, 108, 105, 115, 116, 125, 125] [(lit ''list'', Str (join (lit '', '') bad))]))) st1)"

text \<open>The batch switch; with more than one file a dialog is asked first, whose answers are the second and third definition.\<close>

definition batch_switched :: "bool \<Rightarrow> ch_editor \<Rightarrow> ch_editor \<times> jserr option" where
  "batch_switched checked st =
     (if \<not> checked \<and> length (ce_vertexFiles st) > 1 then (st, None)
      else if \<not> checked then (leave_batch st, None)
      else let st1 = st\<lparr>ce_batch := True, ce_manual := False\<rparr>
        in if field_of (ce_inputs st) ''type'' = num_lit 41 then handleInputChange ''key'' (Str []) (form_set ''key'' (Str []) st1) else (st1, None))"

definition single_confirmed :: "ch_editor \<Rightarrow> ch_editor" where
  "single_confirmed st =
     (let files = take 1 (ce_vertexFiles st); vals = Arr (map file_val files)
      in leave_batch (put_input ''vertex_files'' vals (form_set ''vertex_files'' vals
           (st\<lparr>ce_vertexFiles := files, ce_vertexKeys := filter truthy (take 1 (ce_vertexKeys st))\<rparr>))))"

definition single_refused :: "ch_editor \<Rightarrow> ch_editor" where
  "single_refused st = st\<lparr>ce_batch := True\<rparr>"

text \<open>The two ways to give the key of a Vertex channel.\<close>

definition upload_chosen :: "ch_editor \<Rightarrow> ch_editor \<times> jserr option" where
  "upload_chosen st = handleInputChange ''key'' (Str []) (form_set ''key'' (Str []) (st\<lparr>ce_manual := False\<rparr>))"

definition manual_chosen :: "ch_editor \<Rightarrow> ch_editor" where
  "manual_chosen st = put_input ''vertex_files'' (Arr []) (form_set ''vertex_files'' (Arr []) (st\<lparr>ce_manual := True, ce_vertexKeys := [], ce_vertexFiles := []\<rparr>))"

definition aggregate_switched :: "ch_editor \<Rightarrow> ch_editor" where
  "aggregate_switched st =
     (let on = \<not> ce_multiToSingle st
      in st\<lparr>ce_multiToSingle := on, ce_inputs := (if on then puts (ce_inputs st) [(''multi_key_mode'', ce_multiKeyMode st)]
         else obj_del (ce_inputs st) (lit ''multi_key_mode''))\<rparr>)"

definition vertex_type_changed :: "jsval \<Rightarrow> ch_editor \<Rightarrow> ch_editor \<times> jserr option" where
  "vertex_type_changed v st = (case handleChannelOtherSettingsChange ''vertex_key_type'' v st of
     (st1, Some e) \<Rightarrow> (st1, Some e)
   | (st1, None) \<Rightarrow>
       (if v = Str (lit ''api_key'')
        then form_set ''vertex_files'' (Arr []) (st1\<lparr>ce_batch := False, ce_manual := False, ce_vertexKeys := [], ce_vertexFiles := []\<rparr>)
        else st1, None))"

text \<open>One key per line, each once. \<open>shown\<close> is the value of the form.\<close>

definition distinct_lines :: "jsstr \<Rightarrow> jsstr list" where
  "distinct_lines s = uniq (filter (\<lambda>l. l \<noteq> []) (map trim (split_char 10 s)))"

definition deduplicateKeys :: "ch_env \<Rightarrow> jsval \<Rightarrow> ch_editor \<Rightarrow> ch_editor \<times> jserr option" where
  "deduplicateKeys env shown st = (case js_or shown (js_or (field_of (ce_inputs st) ''key'') (Str [])) of
     Str s \<Rightarrow>
       if trim s = [] then (tell (Info (tr env [35831, 20808, 36755, 20837, 23494, 38053] [])) st, None)
       else (let before = length (split_char 10 s); keys = distinct_lines s; v = Str (join [10] keys)
         in case handleInputChange ''key'' v (form_set ''key'' v st) of
              (st1, Some e) \<Rightarrow> (st1, Some e)
            | (st1, None) \<Rightarrow> (tell (if before = length keys then Info (tr env [26410, 21457, 29616, 37325, 22797, 23494, 38053] [])
                else Success (tr env [21435, 37325, 23436, 25104, 65306, 21435, 37325, 21069, 32, 123, 123, 98, 101, 102, 111, 114, 101, 125, 125, 32, 20010, 23494, 38053, 65292, 21435, 37325, 21518, 32, 123, 123, 97, 102, 116, 101, 114, 125, 125, 32, 20010, 23494, 38053]
                  [(lit ''before'', Num (num_of_nat before)), (lit ''after'', Num (num_of_nat (length keys)))])) st1, None))
   | _ \<Rightarrow> (st, Some TypeError))"

text \<open>What a verified or direct answer to the request for the key shows.\<close>

definition key_verified :: "ch_env \<Rightarrow> jsval \<Rightarrow> ch_editor \<Rightarrow> ch_editor" where
  "key_verified env result st =
     (let k = opt_prop (opt_prop result (lit ''data'')) (lit ''key''); k2 = opt_prop result (lit ''key'')
      in if truthy (opt_prop result (lit ''success'')) \<and> truthy k then (tell (Success (tr env [23494, 38053, 33719, 21462, 25104, 21151] [])) st)\<lparr>ce_keyShown := Some k\<rparr>
         else if truthy k2 then (tell (Success (tr env [23494, 38053, 33719, 21462, 25104, 21151] [])) st)\<lparr>ce_keyShown := Some k2\<rparr>
         else st)"

definition handleShow2FAModal :: "ch_env \<Rightarrow> jserr + jsval \<Rightarrow> ch_editor \<Rightarrow> ch_editor" where
  "handleShow2FAModal env r st = (case r of
     Inl e \<Rightarrow> tell (Failure (Str (if emsg env e \<noteq> [] then emsg env e else tr env [33719, 21462, 23494, 38053, 22833, 36133] []))) st
   | Inr result \<Rightarrow>
       (let k = opt_prop (opt_prop result (lit ''data'')) (lit ''key'')
        in if truthy (opt_prop result (lit ''success'')) \<and> truthy k then (tell (Success (tr env [23494, 38053, 33719, 21462, 25104, 21151] [])) st)\<lparr>ce_keyShown := Some k\<rparr>
           else st))"

section \<open>Models\<close>

definition addCustomModels :: "ch_env \<Rightarrow> ch_editor \<Rightarrow> ch_editor \<times> jserr option" where
  "addCustomModels env st =
     (if trim (ce_customModel st) = [] then (st, None)
      else let old = (case field_of (ce_inputs st) ''models'' of Arr xs \<Rightarrow> xs | _ \<Rightarrow> []);
               added = filter (\<lambda>m. m \<noteq> [] \<and> Str m \<notin> set old) (uniq (map trim (split_char 44 (ce_customModel st))));
               st1 = st\<lparr>ce_modelOptions := ce_modelOptions st @ added, ce_customModel := []\<rparr>
        in case handleInputChange ''models'' (Arr (old @ map Str added)) st1 of
             (st2, Some e) \<Rightarrow> (st2, Some e)
           | (st2, None) \<Rightarrow> (tell (if added \<noteq> []
               then Success (tr env [24050, 26032, 22686, 32, 123, 123, 99, 111, 117, 110, 116, 125, 125, 32, 20010, 27169, 22411, 65306, 123, 123, 108, 105, 115, 116, 125, 125] [(lit ''count'', Num (num_of_nat (length added))), (lit ''list'', Str (join (lit '', '') added))])
               else Info (tr env [26410, 21457, 29616, 26032, 22686, 27169, 22411] [])) st2, None))"

text \<open>The options of the model field: those of the server, then the chosen models that are not among them.\<close>

definition options_effect :: "ch_editor \<Rightarrow> ch_editor \<times> jserr option" where
  "options_effect st = (case trim_all (case field_of (ce_inputs st) ''models'' of Arr xs \<Rightarrow> xs | _ \<Rightarrow> []) of
     Inl e \<Rightarrow> (st, Some e)
   | Inr ms \<Rightarrow> (st\<lparr>ce_modelOptions := uniq (map trim (ce_originModelOptions st) @ ms)\<rparr>, None))"

text \<open>The models the upstream lists: \<open>Inl\<close> where the request throws. Editing asks for the stored channel, without a \<open>try\<close>.\<close>

definition listed_models :: "jsval \<Rightarrow> jsval list option res" where
  "listed_models res =
     (let d = opt_prop res (lit ''data'')
      in if truthy res \<and> truthy d \<and> truthy (opt_prop d (lit ''success''))
         then (case opt_prop d (lit ''data'') of Arr xs \<Rightarrow> Inr (Some xs) | Str s \<Rightarrow> Inr (Some (map (\<lambda>c. Str [c]) s)) | _ \<Rightarrow> Inl TypeError)
         else Inr None)"

definition fetchUpstreamModelList :: "ch_env \<Rightarrow> bool \<Rightarrow> jserr + jsval \<Rightarrow> ch_editor \<Rightarrow> ch_editor \<times> (jserr + jsval list option)" where
  "fetchUpstreamModelList env silent r st0 =
     (let st = st0\<lparr>ce_loading := True\<rparr>;
          fail = (\<lambda>st. ((tell (Failure (Str (tr env [33719, 21462, 27169, 22411, 21015, 34920, 22833, 36133] []))) st)\<lparr>ce_loading := False\<rparr>, Inr None))
      in if \<not> isEdit st \<and> \<not> truthy (field_of (ce_inputs st) ''key'') then fail (tell (Failure (Str (tr env [35831, 22635, 20889, 23494, 38053] []))) st)
         else case step_then r listed_models of
           Inl e \<Rightarrow> if isEdit st then (st, Inl e) else fail st
         | Inr None \<Rightarrow> fail st
         | Inr (Some xs) \<Rightarrow>
             (st\<lparr>ce_fetchedModels := uniq xs, ce_modelModal := ce_modelModal st \<or> \<not> silent, ce_loading := False\<rparr>, Inr (Some (uniq xs))))"

definition MODEL_FETCHABLE_CHANNEL_TYPES :: "jsval set" where
  "MODEL_FETCHABLE_CHANNEL_TYPES = (\<lambda>q. num_lit q) ` {1, 4, 14, 34, 17, 26, 27, 24, 47, 25, 20, 23, 31, 40, 42, 48, 43}"

definition string_or_empty :: "jsval \<Rightarrow> jsstr" where
  "string_or_empty v = trim (to_str (js_coalesce v (Str [])))"

text \<open>Choosing the target of a mapped model from the upstream's list: the answer counts only if none has been fetched before.\<close>

definition openModelMappingValueModal :: "ch_env \<Rightarrow> jsval \<Rightarrow> jsval \<Rightarrow> jserr + jsval \<Rightarrow> ch_editor \<Rightarrow> ch_editor \<times> jserr option" where
  "openModelMappingValueModal env pairKey v r st =
     (let open_with = (\<lambda>xs st. let ms = uniq (filter (\<lambda>s. s \<noteq> []) (map string_or_empty xs)); cur = string_or_empty v
            in if xs = [] then (tell (Info (tr env [26242, 26080, 27169, 22411] [])) st, None)
               else (st\<lparr>ce_mapModels := ms, ce_mapKey := string_or_empty pairKey, ce_mapSelected := (if cur \<in> set ms then cur else []), ce_mapModal := True\<rparr>, None))
      in if string_or_empty pairKey = [] \<or> field_of (ce_inputs st) ''type'' \<notin> MODEL_FETCHABLE_CHANNEL_TYPES then (st, None)
         else if ce_fetchedModels st \<noteq> [] then open_with (ce_fetchedModels st) st
         else case fetchUpstreamModelList env True r st of
           (st1, Inl e) \<Rightarrow> (st1, Some e)
         | (st1, Inr None) \<Rightarrow> open_with [] st1
         | (st1, Inr (Some xs)) \<Rightarrow> open_with xs st1)"

definition mapping_value_chosen :: "ch_env \<Rightarrow> jsval \<Rightarrow> ch_editor \<Rightarrow> ch_editor \<times> jserr option" where
  "mapping_value_chosen env selected st =
     (let name = string_or_empty selected; k = trim (ce_mapKey st);
          parsed = (case field_of (ce_inputs st) ''model_mapping'' of
             Str s \<Rightarrow> if trim s = [] then [] else (case json_parse s of Inr (Obj kvs) \<Rightarrow> kvs | _ \<Rightarrow> [])
           | Obj kvs \<Rightarrow> kvs
           | _ \<Rightarrow> []);
          next_mapping = stringify2 (Obj (obj_put parsed k (Str name)))
      in if name = [] then (tell (Failure (Str (tr env [35831, 20808, 36873, 25321, 27169, 22411, 65281] []))) st, None)
         else if k = [] then (st\<lparr>ce_mapModal := False\<rparr>, None)
         else case handleInputChange ''model_mapping'' next_mapping st of
           (st1, Some e) \<Rightarrow> (st1, Some e)
         | (st1, None) \<Rightarrow> ((form_set ''model_mapping'' next_mapping st1)\<lparr>ce_mapModal := False\<rparr>, None))"

text \<open>Models of a prefill group join the chosen ones; \<open>shown\<close> is the value of the form.\<close>

definition group_items :: "jsval \<Rightarrow> jsval list" where
  "group_items v = (case v of
     Arr xs \<Rightarrow> xs
   | Str s \<Rightarrow> (case json_parse (if s = [] then lit ''[]'' else s) of Inr (Arr xs) \<Rightarrow> xs | _ \<Rightarrow> [])
   | _ \<Rightarrow> [])"

definition group_chosen :: "jsval \<Rightarrow> jsval \<Rightarrow> ch_editor \<Rightarrow> ch_editor \<times> jserr option" where
  "group_chosen items shown st =
     (let current = (case js_or shown (js_or (field_of (ce_inputs st) ''models'') (Arr [])) of Arr xs \<Rightarrow> xs | _ \<Rightarrow> [])
      in case trim_all (current @ group_items items) of
           Inl e \<Rightarrow> (st, Some e)
         | Inr ms \<Rightarrow> handleInputChange ''models'' (Arr (map Str (uniq (filter (\<lambda>s. s \<noteq> []) ms)))) st)"

definition models_applied :: "ch_env \<Rightarrow> jsval \<Rightarrow> ch_editor \<Rightarrow> ch_editor \<times> jserr option" where
  "models_applied env modelIds st = (case modelIds of
     Arr (x # xs) \<Rightarrow>
       (let old = (case field_of (ce_inputs st) ''models'' of Arr ys \<Rightarrow> map to_str ys | _ \<Rightarrow> []);
            v = Arr (map Str (uniq (old @ map to_str (x # xs))))
        in case handleInputChange ''models'' v st of
             (st1, Some e) \<Rightarrow> (st1, Some e)
           | (st1, None) \<Rightarrow> (tell (Success (tr env [27169, 22411, 21015, 34920, 24050, 36861, 21152, 26356, 26032] [])) (form_set ''models'' v st1), None))
   | _ \<Rightarrow> (st, None))"

text \<open>The lists that the dialog loads: models with their names, groups and prefill groups.\<close>

fun model_ids :: "jsval list \<Rightarrow> (jsstr \<times> jsval) list res" where
  "model_ids [] = Inr []"
| "model_ids (m # ms) =
     (if nullish m then Inl TypeError
      else case trim_val (opt_prop m (lit ''id'')) of Inl e \<Rightarrow> Inl e | Inr s \<Rightarrow> map_sum id (Cons (s, opt_prop m (lit ''id''))) (model_ids ms))"

definition fetchModels :: "ch_env \<Rightarrow> jserr + jsval list \<Rightarrow> ch_editor \<Rightarrow> ch_editor" where
  "fetchModels env r st =
     (case (case r of Inl e \<Rightarrow> Inl e | Inr ms \<Rightarrow> model_ids ms) of
        Inl e \<Rightarrow> tell (Failure (Str (emsg env e))) st
      | Inr ids \<Rightarrow>
          (let st1 = st\<lparr>ce_originModelOptions := map fst ids, ce_fullModels := map snd ids\<rparr>
           in if list_all (\<lambda>p. is_str (snd p)) ids
              then st1\<lparr>ce_basicModels := Arr (map snd (filter (\<lambda>p. starts_with (to_str (snd p)) (lit ''gpt-'') \<or> starts_with (to_str (snd p)) (lit ''text-'')) ids))\<rparr>
              else tell (Failure (Str (emsg env TypeError))) st1))"

definition fetchModelGroups :: "jserr + jsval \<Rightarrow> ch_editor \<Rightarrow> ch_editor" where
  "fetchModelGroups r st = (case r of
     Inl e \<Rightarrow> st
   | Inr res \<Rightarrow>
       (let d = opt_prop res (lit ''data'')
        in if truthy (opt_prop d (lit ''success'')) then st\<lparr>ce_modelGroups := js_or (opt_prop d (lit ''data'')) (Arr [])\<rparr> else st))"

definition fetchGroups :: "ch_env \<Rightarrow> jserr + jsval list \<Rightarrow> ch_editor \<Rightarrow> ch_editor" where
  "fetchGroups env r st = (case r of Inl e \<Rightarrow> tell (Failure (Str (emsg env e))) st | Inr gs \<Rightarrow> st\<lparr>ce_groupOptions := gs\<rparr>)"

definition handleRefreshCodexCredential :: "ch_env \<Rightarrow> jserr + jsval \<Rightarrow> ch_editor \<Rightarrow> ch_editor" where
  "handleRefreshCodexCredential env r st =
     (if \<not> isEdit st then st
      else case r of
        Inl e \<Rightarrow> tell (Failure (Str (if emsg env e \<noteq> [] then emsg env e else tr env [21047, 26032, 22833, 36133] []))) st
      | Inr res \<Rightarrow>
          (let d = opt_prop res (lit ''data''); m = to_str (js_or (opt_prop d (lit ''message'')) (Str (lit ''Failed to refresh credential'')))
           in if truthy (opt_prop d (lit ''success'')) then tell (Success (tr env [20973, 35777, 24050, 21047, 26032] [])) st else tell (Failure (Str m)) st))"

lemma puts_simps [simp]: "puts kvs [] = kvs" "puts kvs (p # ps) = puts (obj_put kvs (lit (fst p)) (snd p)) ps"
  by (simp_all add: puts_def)

end
