(* ===== verification/Channel_Editor_Thms.thy ===== *)
theory Channel_Editor_Thms
  imports Channel_Editor Json_Round_Trip
begin

text \<open>
  What the channel dialog sends: a saved channel that is opened again is saved as it was, the stored key is replaced only by a key that was
  given, except that the file chosen for one Vertex channel becomes the key of the next one that is saved.
\<close>

section \<open>Fields of objects\<close>

lemma obj_has_del [simp]: "obj_has (obj_del kvs k) k' \<longleftrightarrow> k' \<noteq> k \<and> obj_has kvs k'"
  by (auto simp: obj_has_def obj_del_def)

lemma field_dels: "field_of (foldl (\<lambda>acc k. obj_del acc (lit k)) li ks) k = (if k \<in> set ks then Undefined else field_of li k)"
  by (induction ks arbitrary: li) (auto simp: obj_get_del)

lemma has_dels: "obj_has (foldl (\<lambda>acc k. obj_del acc (lit k)) li ks) (lit k) \<longleftrightarrow> k \<notin> set ks \<and> obj_has li (lit k)"
  by (induction ks arbitrary: li) auto

lemma step_then_Inr [simp]: "step_then r f = Inr b \<longleftrightarrow> (\<exists>a. r = Inr a \<and> f a = Inr b)"
  by (cases r) (auto simp: step_then_def)

lemma lift_res_Inr [simp]: "lift_res r = Inr a \<longleftrightarrow> r = Inr a"
  by (cases r) (auto simp: lift_res_def)

section \<open>The fields that saving reads\<close>

text \<open>Two sets of values agree on some fields.\<close>

definition agree :: "string list \<Rightarrow> jsobj \<Rightarrow> jsobj \<Rightarrow> bool" where
  "agree ks a b \<longleftrightarrow> (\<forall>k \<in> set ks. field_of a k = field_of b k)"

lemma agree_trans: "agree ks a b \<Longrightarrow> agree ks b c \<Longrightarrow> agree ks a c"
  by (simp add: agree_def)

definition read_fields :: "string list" where
  "read_fields = ''type'' # ''settings'' # form_only"

lemma extra_setting_text_cong: "agree read_fields a b \<Longrightarrow> extra_setting_text a = extra_setting_text b"
  by (simp add: agree_def read_fields_def form_only_def extra_setting_text_def extra_settings_def)

lemma type_settings_cong: "agree read_fields a b \<Longrightarrow> type_settings a s = type_settings b s"
  by (simp add: agree_def read_fields_def form_only_def type_settings_def Let_def)

lemma update_settings_cong: "agree read_fields a b \<Longrightarrow> update_settings a s = update_settings b s"
  by (simp add: agree_def read_fields_def form_only_def update_settings_def Let_def)

lemma settings_text_cong: "agree read_fields a b \<Longrightarrow> settings_text a = settings_text b"
proof -
  assume ab: "agree read_fields a b"
  then have "field_of a ''settings'' = field_of b ''settings''" by (simp add: agree_def read_fields_def)
  then show ?thesis by (simp add: settings_text_def type_settings_cong [OF ab] update_settings_cong [OF ab] split: jsval.split)
qed

text \<open>What the last part of saving makes of the values.\<close>

lemma finish_fields:
  assumes "finish_inputs ms li = Inr body"
  shows "field_of body ''models'' = Str (join (lit '','') ms)" "joined_groups li = Inr (field_of body ''group'')"
    "field_of body ''setting'' = extra_setting_text li" "settings_text li = Inr (field_of body ''settings'')"
    "k \<in> {''key'', ''type'', ''status_code_mapping'', ''model_mapping''} \<Longrightarrow> field_of body k = field_of li k"
    "obj_has body (lit ''key'') \<longleftrightarrow> obj_has li (lit ''key'')"
proof -
  obtain li1 where c: "clean_address li = Inr li1" using assms by (auto simp: finish_inputs_def)
  define li2 where "li2 = puts (default_version li1) [(''setting'', extra_setting_text li1)]"
  obtain s where s: "settings_text li2 = Inr s" using assms by (auto simp: finish_inputs_def c li2_def Let_def)
  define li3 where "li3 = drop_form_only (puts li2 [(''settings'', s)])"
  obtain g where g: "joined_groups li3 = Inr g" using assms s by (auto simp: finish_inputs_def c li2_def li3_def Let_def)
  have body: "body = puts li3 [(''auto_ban'', if truthy (field_of li3 ''auto_ban'') then num_lit 1 else num_lit 0), (''models'', Str (join (lit '','') ms)), (''group'', g)]"
    using assms s g by (auto simp: finish_inputs_def c li2_def li3_def Let_def)
  have one: "field_of li1 k = field_of li k" if "k \<noteq> ''base_url''" for k
    using c \<open>k \<noteq> ''base_url''\<close> by (auto simp: clean_address_def obj_get_put split: jsval.splits if_split_asm)
  have two: "field_of li2 k = field_of li k" if "k \<notin> {''base_url'', ''other'', ''setting''}" for k
    using that one [of k] by (auto simp: li2_def default_version_def obj_get_put)
  have three: "field_of li3 k = field_of li k" if "k \<notin> {''base_url'', ''other'', ''setting'', ''settings''} \<union> set form_only" for k
    using that two [of k] by (simp add: li3_def drop_form_only_def field_dels obj_get_put)
  have ag: "agree read_fields li1 li" "agree read_fields li2 li"
    using one two by (auto simp: agree_def read_fields_def form_only_def)
  have gr: "field_of li3 ''groups'' = field_of li ''groups''" using three [of "''groups''"] by (simp add: form_only_def)
  show "field_of body ''models'' = Str (join (lit '','') ms)" by (simp add: body obj_get_put)
  show "joined_groups li = Inr (field_of body ''group'')" using g by (simp add: body obj_get_put joined_groups_def gr)
  have "field_of body ''setting'' = field_of li3 ''setting''" by (simp add: body obj_get_put)
  also have "\<dots> = extra_setting_text li1" by (simp add: li3_def drop_form_only_def form_only_def obj_get_put obj_get_del li2_def)
  finally show "field_of body ''setting'' = extra_setting_text li" using extra_setting_text_cong [OF ag(1)] by simp
  have "field_of body ''settings'' = s" by (simp add: body obj_get_put obj_get_del li3_def drop_form_only_def form_only_def)
  then show "settings_text li = Inr (field_of body ''settings'')" using s settings_text_cong [OF ag(2)] by simp
  have "field_of li3 ''key'' = field_of li ''key''" "field_of li3 ''type'' = field_of li ''type''"
      "field_of li3 ''status_code_mapping'' = field_of li ''status_code_mapping''" "field_of li3 ''model_mapping'' = field_of li ''model_mapping''"
    by (simp_all add: three form_only_def)
  then show "field_of body k = field_of li k" if "k \<in> {''key'', ''type'', ''status_code_mapping'', ''model_mapping''}"
    using that unfolding body by (elim insertE emptyE) (simp_all add: obj_get_put)
  have "obj_has li3 (lit ''key'') \<longleftrightarrow> obj_has li (lit ''key'')"
    using c by (auto simp: li3_def drop_form_only_def has_dels form_only_def li2_def default_version_def clean_address_def split: jsval.splits if_split_asm)
  then show "obj_has body (lit ''key'') \<longleftrightarrow> obj_has li (lit ''key'')" by (simp add: body)
qed

text \<open>The checks change the key and nothing else that is read later.\<close>

lemma vertex_key_fields:
  assumes "vertex_key env st li = Inr li'" "k \<noteq> ''key''"
  shows "field_of li' k = field_of li k"
  using assms by (auto simp: vertex_key_def vertex_manual_def vertex_upload_def info_def obj_get_put obj_get_del split: if_split_asm sum.splits list.splits)

lemma codex_key_fields:
  assumes "codex_key env st li = Inr li'" "k \<noteq> ''key''"
  shows "field_of li' k = field_of li k"
  using assms by (auto simp: codex_key_def info_def obj_get_put split: if_split_asm sum.splits)

lemma required_same: "required_fields env st li = Inr li' \<Longrightarrow> li' = li"
  by (auto simp: required_fields_def info_def split: if_split_asm)

lemma checked_fields:
  assumes "checked_inputs env st fv = Inr li" "k \<notin> {''key'', ''vertex_files'', ''param_override''}"
  shows "field_of li k = field_of fv k"
proof -
  let ?p = "puts fv [(''param_override'', field_of (ce_inputs st) ''param_override'')]"
  obtain a b c where s: "codex_key env st ?p = Inr a" "vertex_key env st a = Inr b" "keep_old_key st b = Inr c"
      "required_fields env st (obj_del c (lit ''vertex_files'')) = Inr li"
    using assms(1) by (auto simp: checked_inputs_def simp del: puts_simps)
  have "field_of c k = field_of b k" using s(3) assms(2) by (auto simp: keep_old_key_def obj_get_del split: if_split_asm)
  then show ?thesis
    using codex_key_fields [OF s(1), of k] vertex_key_fields [OF s(2), of k] required_same [OF s(4)] assms(2)
    by (auto simp: obj_get_del obj_get_put)
qed

lemma submit_parts:
  assumes "submit env fv choice confirmed st = (st', Inr r)"
  obtains li ms added body where "checked_inputs env st fv = Inr li" "submit_models env st choice li = Inr (ms, added)"
    "status_check env st confirmed li = Inr li" "finish_inputs ms li = Inr body" "r = channel_request st body"
proof -
  obtain li where li: "checked_inputs env st fv = Inr li" using assms by (auto simp: submit_def split: sum.splits)
  obtain ms added where m: "submit_models env st choice li = Inr (ms, added)" using assms li by (auto simp: submit_def split: sum.splits)
  have "li' = li" if "status_check env st confirmed li = Inr li'" for li' using that by (auto simp: status_check_def Let_def split: if_split_asm)
  moreover obtain li' body where "status_check env st confirmed li = Inr li'" "finish_inputs ms li' = Inr body" "r = channel_request st body"
    using assms li m by (auto simp: submit_def)
  ultimately show ?thesis using that li m by blast
qed

section \<open>Saving twice\<close>

lemma js_or_idem [simp]: "js_or (js_or a b) b = js_or a b"
  by (simp add: js_or_def)

lemma or_false_idem [simp]: "or_false (or_false v) = or_false v"
  by (simp add: or_false_def)

lemma is_true_or_false [simp]: "is_true (or_false v) = is_true v"
  by (cases v) (simp_all add: is_true_def or_false_def js_or_def)

lemma is_true_idem [simp]: "is_true (is_true v) = is_true v" "is_true (Bool b) = Bool b"
  by (simp_all add: is_true_def)

text \<open>Writing the value that is there changes nothing.\<close>

lemma obj_put_same:
  assumes "distinct (map fst kvs)" "obj_has kvs k" "obj_get kvs k = v"
  shows "obj_put kvs k v = kvs"
proof -
  have "(if fst p = k then (k, v) else p) = p" if "p \<in> set kvs" for p
    using assms \<open>p \<in> set kvs\<close> by (cases p) (auto simp: obj_get_def map_of_is_SomeI)
  then have "map (\<lambda>p. if fst p = k then (k, v) else p) kvs = kvs" by (simp add: map_idI)
  then show ?thesis using assms(2) by (simp add: obj_put_def obj_has_def)
qed

lemma obj_del_absent: "\<not> obj_has kvs k \<Longrightarrow> obj_del kvs k = kvs"
  by (auto simp: obj_del_def obj_has_def filter_id_conv)

text \<open>Putting fields that are all there already.\<close>

lemma puts_same:
  assumes "distinct (map fst kvs)" "\<forall>p \<in> set ps. obj_has kvs (lit (fst p)) \<and> field_of kvs (fst p) = snd p"
  shows "puts kvs ps = kvs"
  using assms by (induction ps) (auto simp: obj_put_same)

lemma distinct_puts: "distinct (map fst kvs) \<Longrightarrow> distinct (map fst (puts kvs ps))"
  by (induction ps arbitrary: kvs) (auto simp: distinct_obj_put)

text \<open>The names that were ignored are read back from the text that is shown for them.\<close>

lemma ignored_models_round_trip:
  assumes "ignored_models v = Arr xs"
  shows "ignored_models (Str (to_str (Arr xs))) = Arr xs"
proof -
  define ns where "ns = uniq (filter (\<lambda>s. s \<noteq> []) (map trim (split_char 44 (to_str (js_or v (Str []))))))"
  have xs: "xs = map Str ns" using assms by (simp add: ignored_models_def ns_def)
  have ns: "trim n = n" "n \<noteq> []" "44 \<notin> set n" if "n \<in> set ns" for n
  proof -
    obtain p where "p \<in> set (split_char 44 (to_str (js_or v (Str []))))" "n = trim p" "n \<noteq> []" using \<open>n \<in> set ns\<close> by (auto simp: ns_def)
    then show "trim n = n" "n \<noteq> []" "44 \<notin> set n" using split_char_parts trim_set_subset by fastforce+
  qed
  have tx: "to_str (Arr xs) = join [44] ns" by (simp add: xs comp_def lit_simps)
  have shown: "ignored_models (Str (to_str (Arr xs))) = Arr (map Str (uniq (filter (\<lambda>s. s \<noteq> []) (map trim (split_char 44 (join [44] ns))))))"
    by (simp only: ignored_models_def tx) simp
  show ?thesis
  proof (cases "ns = []")
    case True
    then show ?thesis unfolding shown by (simp add: xs)
  next
    case False
    have "split_char 44 (join [44] ns) = ns" using split_char_join ns(3) False by blast
    moreover have "map trim ns = ns" "filter (\<lambda>s. s \<noteq> []) ns = ns" using ns by (auto intro: map_idI simp: filter_id_conv)
    moreover have "uniq ns = ns" by (simp add: ns_def)
    ultimately show ?thesis unfolding shown by (simp add: xs)
  qed
qed

definition update_keys :: "string list" where
  "update_keys = [''upstream_model_update_check_enabled'', ''upstream_model_update_auto_sync_enabled'', ''upstream_model_update_ignored_models'',
     ''upstream_model_update_last_detected_models'', ''upstream_model_update_last_check_time'']"

lemma update_settings_other:
  assumes "k \<notin> set update_keys"
  shows "field_of (update_settings li s) k = field_of s k" "obj_has (update_settings li s) (lit k) = obj_has s (lit k)"
  using assms by (auto simp: update_settings_def Let_def update_keys_def obj_get_put)

lemma has_field: "field_of s k \<noteq> Undefined \<Longrightarrow> obj_has s (lit k)"
  by (auto simp: obj_get_def obj_has_iff split: option.splits)

text \<open>What the update settings are after saving.\<close>

lemma update_fields:
  fixes li s
  defines "S \<equiv> update_settings li s" and "check \<equiv> field_of li ''upstream_model_update_check_enabled'' = Bool True"
  shows "field_of S ''upstream_model_update_check_enabled'' = Bool check"
    "field_of S ''upstream_model_update_auto_sync_enabled'' = Bool (check \<and> field_of li ''upstream_model_update_auto_sync_enabled'' = Bool True)"
    "field_of S ''upstream_model_update_ignored_models'' = ignored_models (field_of li ''upstream_model_update_ignored_models'')"
    "is_arr (field_of S ''upstream_model_update_last_detected_models'')"
    "\<not> check \<Longrightarrow> field_of S ''upstream_model_update_last_detected_models'' = Arr []"
    "is_num (field_of S ''upstream_model_update_last_check_time'')"
  by (simp_all add: S_def check_def update_settings_def Let_def obj_get_put)

text \<open>The fields of the form hold what the saved settings say.\<close>

definition shows_settings :: "jsobj \<Rightarrow> jsobj \<Rightarrow> bool" where
  "shows_settings a S \<longleftrightarrow> (\<forall>p \<in> set (other_settings (Obj S)). field_of a (fst p) = snd p)"

lemma update_settings_again:
  assumes "distinct (map fst (update_settings li s))" "shows_settings a (update_settings li s)"
  shows "update_settings a (update_settings li s) = update_settings li s"
proof -
  define S where "S = update_settings li s"
  note S = update_fields [of li s, folded S_def]
  have dist: "distinct (map fst S)" using assms(1) by (simp add: S_def)
  have has: "obj_has S (lit ''upstream_model_update_check_enabled'')" "obj_has S (lit ''upstream_model_update_auto_sync_enabled'')"
      "obj_has S (lit ''upstream_model_update_ignored_models'')" "obj_has S (lit ''upstream_model_update_last_detected_models'')"
    using S by (auto intro!: has_field simp: ignored_models_def)
  obtain xs where xs: "ignored_models (field_of li ''upstream_model_update_ignored_models'') = Arr xs" by (simp add: ignored_models_def)
  have a: "field_of a ''upstream_model_update_check_enabled'' = field_of S ''upstream_model_update_check_enabled''"
      "field_of a ''upstream_model_update_auto_sync_enabled'' = field_of S ''upstream_model_update_auto_sync_enabled''"
      "field_of a ''upstream_model_update_ignored_models'' = Str (to_str (Arr xs))"
    using assms(2) S(1-3) xs unfolding S_def [symmetric] by (simp_all add: shows_settings_def other_settings_def)
  have one: "puts S [(''upstream_model_update_check_enabled'', Bool (field_of S ''upstream_model_update_check_enabled'' = Bool True)),
      (''upstream_model_update_auto_sync_enabled'', Bool (field_of S ''upstream_model_update_check_enabled'' = Bool True \<and>
         field_of S ''upstream_model_update_auto_sync_enabled'' = Bool True)),
      (''upstream_model_update_ignored_models'', ignored_models (Str (to_str (Arr xs))))] = S"
    by (rule puts_same [OF dist]) (use S(1-3) xs ignored_models_round_trip [OF xs] has in auto)
  have two: "puts S [(''upstream_model_update_last_detected_models'', Arr [])] = S" if "field_of S ''upstream_model_update_check_enabled'' \<noteq> Bool True"
    by (rule puts_same [OF dist]) (use S(1,5) that has(4) in auto)
  show ?thesis
    unfolding S_def [symmetric] update_settings_def [of a S] a Let_def one using two S(4,6) by (simp del: puts_simps)
qed

lemma type_settings_again:
  assumes "distinct (map fst S)" "shows_settings a S" "field_of a ''type'' = field_of li ''type''"
    and same: "\<And>k. k \<notin> set update_keys \<Longrightarrow> field_of S k = field_of (type_settings li s) k \<and> obj_has S (lit k) = obj_has (type_settings li s) (lit k)"
  shows "type_settings a S = S"
proof -
  let ?ty = "field_of li ''type''"
  have "\<not> obj_has S (lit ''vertex_key_type'')" if "?ty \<noteq> num_lit 41"
    using same [of "''vertex_key_type''"] that by (simp add: type_settings_def Let_def update_keys_def)
  note no_vertex = obj_del_absent [OF this]
  consider "?ty = num_lit 20" | "?ty = num_lit 33" | "?ty = num_lit 41" | "?ty = num_lit 1" | "?ty = num_lit 14"
    | "?ty \<notin> {num_lit 20, num_lit 33, num_lit 41, num_lit 1, num_lit 14}" by blast
  then show ?thesis
  proof cases
    case 1
    have "puts S [(''openrouter_enterprise'', is_true (field_of a ''is_enterprise_account''))] = S"
      by (rule puts_same [OF assms(1)])
        (use same [of "''openrouter_enterprise''"] assms(2) 1 in \<open>simp add: type_settings_def Let_def update_keys_def obj_get_put obj_get_del shows_settings_def other_settings_def\<close>)
    then show ?thesis using 1 no_vertex assms(3) by (simp add: type_settings_def Let_def)
  next
    case 2
    have "puts S [(''aws_key_type'', js_or (field_of a ''aws_key_type'') (Str (lit ''ak_sk'')))] = S"
      by (rule puts_same [OF assms(1)])
        (use same [of "''aws_key_type''"] assms(2) 2 in \<open>simp add: type_settings_def Let_def update_keys_def obj_get_put obj_get_del shows_settings_def other_settings_def\<close>)
    then show ?thesis using 2 no_vertex assms(3) by (simp add: type_settings_def Let_def)
  next
    case 3
    have "puts S [(''vertex_key_type'', js_or (field_of a ''vertex_key_type'') (Str (lit ''json'')))] = S"
      by (rule puts_same [OF assms(1)])
        (use same [of "''vertex_key_type''"] assms(2) 3 in \<open>simp add: type_settings_def Let_def update_keys_def obj_get_put obj_get_del shows_settings_def other_settings_def\<close>)
    then show ?thesis using 3 assms(3) by (simp add: type_settings_def Let_def)
  next
    case 4
    have "puts S (map (\<lambda>k. (k, is_true (field_of a k))) [''allow_service_tier'', ''disable_store'', ''allow_safety_identifier'', ''allow_include_obfuscation'']) = S"
      by (rule puts_same [OF assms(1)])
        (use same [of "''allow_service_tier''"] same [of "''disable_store''"] same [of "''allow_safety_identifier''"] same [of "''allow_include_obfuscation''"] assms(2) 4
         in \<open>simp add: type_settings_def Let_def update_keys_def obj_get_put obj_get_del shows_settings_def other_settings_def\<close>)
    then show ?thesis using 4 no_vertex assms(3) by (simp add: type_settings_def Let_def)
  next
    case 5
    have "puts S (map (\<lambda>k. (k, is_true (field_of a k))) [''allow_service_tier'', ''allow_inference_geo'', ''allow_speed'', ''claude_beta_query'']) = S"
      by (rule puts_same [OF assms(1)])
        (use same [of "''allow_service_tier''"] same [of "''allow_inference_geo''"] same [of "''allow_speed''"] same [of "''claude_beta_query''"] assms(2) 5
         in \<open>simp add: type_settings_def Let_def update_keys_def obj_get_put obj_get_del shows_settings_def other_settings_def\<close>)
    then show ?thesis using 5 no_vertex assms(3) by (simp add: type_settings_def Let_def)
  next
    case 6
    then show ?thesis using no_vertex assms(3) by (simp add: type_settings_def Let_def)
  qed
qed

section \<open>Loading\<close>

lemma field_puts_other: "k \<notin> fst ` set ps \<Longrightarrow> field_of (puts kvs ps) k = field_of kvs k"
  by (induction ps arbitrary: kvs) (auto simp: obj_get_put)

lemma field_puts_same: "distinct (map fst ps) \<Longrightarrow> p \<in> set ps \<Longrightarrow> field_of (puts kvs ps) (fst p) = snd p"
  by (induction ps arbitrary: kvs) (auto simp: field_puts_other)

definition extra_keys :: "string list" where
  "extra_keys = [''force_format'', ''thinking_to_content'', ''proxy'', ''pass_through_body_enabled'', ''system_prompt'', ''system_prompt_override'']"

definition other_keys :: "string list" where
  "other_keys = [''vertex_key_type'', ''aws_key_type'', ''is_enterprise_account'', ''allow_service_tier'', ''disable_store'', ''allow_safety_identifier'',
     ''allow_include_obfuscation'', ''allow_inference_geo'', ''allow_speed'', ''claude_beta_query'', ''upstream_model_update_check_enabled'',
     ''upstream_model_update_auto_sync_enabled'', ''upstream_model_update_last_check_time'', ''upstream_model_update_last_detected_models'',
     ''upstream_model_update_ignored_models'']"

lemma setting_keys: "map fst (extra_settings v) = extra_keys" "map fst (other_settings v) = other_keys"
  by (simp_all add: extra_settings_def extra_keys_def other_settings_def other_keys_def)

lemma other_settings_keyD: "(k, b) \<in> set (other_settings v) \<Longrightarrow> k \<in> set other_keys"
  using setting_keys(2) [of v] by (metis fst_conv image_eqI list.set_map)

lemma setting_keys_distinct: "distinct extra_keys" "distinct other_keys" "set extra_keys \<inter> set other_keys = {}"
  by (simp_all add: extra_keys_def other_keys_def)

lemma load_setting_other: "k \<notin> set extra_keys \<Longrightarrow> field_of (load_setting d) k = field_of d k"
  unfolding load_setting_def Let_def by (rule field_puts_other) (simp add: setting_keys flip: set_map)

lemma load_settings_other: "k \<notin> {''azure_responses_version'', ''region''} \<union> set other_keys \<Longrightarrow> field_of (load_settings d) k = field_of d k"
  unfolding load_settings_def Let_def
  by (auto split: sum.splits intro!: field_puts_other dest: other_settings_keyD simp del: puts_simps)

lemma json_str_ok:
  assumes "json_ok v"
  shows "json_parse (json_str v) = Inr v" "trim (json_str v) = json_str v" "json_str v \<noteq> []"
  using parse_stringify [OF assms] json_text_prints [OF assms] prints_trimmed by (auto simp: json_str_def)

lemma load_setting_shows:
  assumes "field_of d ''setting'' = Str (json_str v)" "json_ok v" "p \<in> set (extra_settings v)"
  shows "field_of (load_setting d) (fst p) = snd p"
proof -
  have "load_setting d = puts d (extra_settings v)" using assms(1) json_str_ok [OF assms(2)] by (simp add: load_setting_def del: puts_simps)
  then show ?thesis using field_puts_same [of "extra_settings v" p d] assms(3) setting_keys_distinct(1) by (simp add: setting_keys)
qed

lemma load_settings_shows:
  assumes "field_of d ''settings'' = Str (json_str (Obj S))" "json_ok (Obj S)"
  shows "shows_settings (load_settings d) S"
proof -
  have "load_settings d = puts (obj_put d (lit ''azure_responses_version'') (js_or (opt_prop (Obj S) (lit ''azure_responses_version'')) (Str []))) (other_settings (Obj S))"
    using assms(1) json_str_ok [OF assms(2)] by (simp add: load_settings_def other_settings_def)
  then show ?thesis
    using field_puts_same [of "other_settings (Obj S)"] setting_keys_distinct(2) by (simp add: shows_settings_def setting_keys)
qed

lemma ark_not_blank: "trim (lit ''https://ark.cn-beijing.volces.com'') \<noteq> []"
  by code_simp

lemma prepared_steps:
  assumes "prepare_channel d = Inr d'"
  obtains ms gs d2 d3 where "split_list (field_of d ''models'') = Inr ms" "split_list (field_of d ''group'') = Inr gs"
    "load_mapping (puts d [(''models'', ms), (''groups'', gs)]) = Inr d2" "\<forall>k. k \<noteq> ''multi_key_mode'' \<longrightarrow> field_of d3 k = field_of d2 k"
    "d' = load_address (load_settings (load_setting d3))"
proof -
  obtain ms gs d2 where s: "split_list (field_of d ''models'') = Inr ms" "split_list (field_of d ''group'') = Inr gs"
      "load_mapping (puts d [(''models'', ms), (''groups'', gs)]) = Inr d2"
      "d' = load_address (load_settings (load_setting (if is_multi_key d2 then puts d2 [(''multi_key_mode'', multi_mode d2)] else d2)))"
    using assms by (auto simp: prepare_channel_def simp del: puts_simps split: sum.splits)
  show ?thesis by (rule that [OF s(1,2,3) _ s(4)]) (simp add: obj_get_put)
qed

text \<open>What is shown for the fields that saving reads.\<close>

lemma prepared_fields:
  assumes "prepare_channel d = Inr d'"
  shows "k \<in> {''key'', ''type'', ''status_code_mapping'', ''settings'', ''setting'', ''group''} \<Longrightarrow> field_of d' k = field_of d k"
    "split_list (field_of d ''models'') = Inr (field_of d' ''models'')" "split_list (field_of d ''group'') = Inr (field_of d' ''groups'')"
    "field_of d ''model_mapping'' = Str [] \<Longrightarrow> field_of d' ''model_mapping'' = Str []"
    "field_of d ''model_mapping'' = Str s \<Longrightarrow> s \<noteq> [] \<Longrightarrow> json_parse s = Inr v \<Longrightarrow> field_of d' ''model_mapping'' = stringify2 v"
    "field_of d ''setting'' = Str (json_str w) \<Longrightarrow> json_ok w \<Longrightarrow> p \<in> set (extra_settings w) \<Longrightarrow> field_of d' (fst p) = snd p"
    "field_of d ''settings'' = Str (json_str (Obj S)) \<Longrightarrow> json_ok (Obj S) \<Longrightarrow> shows_settings d' S"
    "field_of d' ''base_url'' = field_of d ''base_url'' \<or> field_of d' ''base_url'' = Str (lit ''https://ark.cn-beijing.volces.com'')"
    "field_of d ''type'' = num_lit 45 \<Longrightarrow> field_of d ''base_url'' = Str u \<Longrightarrow> \<exists>u. field_of d' ''base_url'' = Str u \<and> trim u \<noteq> []"
proof -
  obtain ms gs d2 d3 where s: "split_list (field_of d ''models'') = Inr ms" "split_list (field_of d ''group'') = Inr gs"
      "load_mapping (puts d [(''models'', ms), (''groups'', gs)]) = Inr d2" "\<forall>k. k \<noteq> ''multi_key_mode'' \<longrightarrow> field_of d3 k = field_of d2 k"
      "d' = load_address (load_settings (load_setting d3))"
    using prepared_steps [OF assms] by blast
  have two: "field_of d2 k = field_of d k" if "k \<notin> {''models'', ''groups'', ''model_mapping''}" for k
    using s(3) that by (auto simp: load_mapping_def Let_def obj_get_put split: if_split_asm sum.splits simp: map_sum_def)
  have lists: "field_of d2 ''models'' = ms" "field_of d2 ''groups'' = gs"
    using s(3) by (auto simp: load_mapping_def Let_def obj_get_put map_sum_def split: if_split_asm sum.splits)
  have three: "field_of d3 k = field_of d k" if "k \<notin> {''models'', ''groups'', ''model_mapping'', ''multi_key_mode''}" for k
    using two [of k] s(4) that by simp
  have addr: "field_of (load_address x) k = field_of x k" if "k \<noteq> ''base_url''" for x k
    using that by (simp add: load_address_def Let_def obj_get_put)
  have last: "field_of d' k = field_of d3 k" if "k \<notin> {''azure_responses_version'', ''region'', ''base_url''} \<union> set other_keys \<union> set extra_keys" for k
    using that by (simp add: s(5) addr load_settings_other load_setting_other)
  have plain: "field_of d' ''key'' = field_of d ''key''" "field_of d' ''type'' = field_of d ''type''" "field_of d' ''status_code_mapping'' = field_of d ''status_code_mapping''"
      "field_of d' ''settings'' = field_of d ''settings''" "field_of d' ''setting'' = field_of d ''setting''" "field_of d' ''group'' = field_of d ''group''"
    by (simp_all add: last three other_keys_def extra_keys_def)
  then show "field_of d' k = field_of d k" if "k \<in> {''key'', ''type'', ''status_code_mapping'', ''settings'', ''setting'', ''group''}"
    using that by (elim insertE emptyE) simp_all
  show "split_list (field_of d ''models'') = Inr (field_of d' ''models'')" "split_list (field_of d ''group'') = Inr (field_of d' ''groups'')"
    using s(1,2,4) lists by (simp_all add: last other_keys_def extra_keys_def)
  have map: "field_of d' ''model_mapping'' = field_of d2 ''model_mapping''" using s(4) by (simp add: last other_keys_def extra_keys_def)
  show "field_of d' ''model_mapping'' = Str []" if "field_of d ''model_mapping'' = Str []"
    using s(3) that by (auto simp: map load_mapping_def Let_def obj_get_put)
  show "field_of d' ''model_mapping'' = stringify2 v" if "field_of d ''model_mapping'' = Str s" "s \<noteq> []" "json_parse s = Inr v" for s v
    using s(3) that by (auto simp: map load_mapping_def Let_def obj_get_put)
  show "field_of d' (fst p) = snd p" if "field_of d ''setting'' = Str (json_str w)" "json_ok w" "p \<in> set (extra_settings w)" for w p
  proof -
    have "fst p \<in> set extra_keys" using that(3) setting_keys(1) [of w] by (metis image_eqI list.set_map)
    then have "field_of d' (fst p) = field_of (load_setting d3) (fst p)"
      using setting_keys_distinct(3) by (subst s(5), subst addr, force simp: extra_keys_def, intro load_settings_other, auto simp: extra_keys_def)
    then show ?thesis using load_setting_shows [of d3 w p] that three [of "''setting''"] by simp
  qed
  show "shows_settings d' S" if "field_of d ''settings'' = Str (json_str (Obj S))" "json_ok (Obj S)" for S
  proof -
    have "field_of (load_setting d3) ''settings'' = Str (json_str (Obj S))" using that three [of "''settings''"] by (simp add: load_setting_other extra_keys_def)
    from load_settings_shows [OF this \<open>json_ok (Obj S)\<close>] have "shows_settings (load_settings (load_setting d3)) S" .
    then show ?thesis unfolding shows_settings_def s(5) by (auto simp: addr other_settings_def)
  qed
  have base: "field_of (load_settings (load_setting d3)) ''base_url'' = field_of d ''base_url''" "field_of (load_settings (load_setting d3)) ''type'' = field_of d ''type''"
    by (simp_all add: load_settings_other load_setting_other three other_keys_def extra_keys_def)
  show "field_of d' ''base_url'' = field_of d ''base_url'' \<or> field_of d' ''base_url'' = Str (lit ''https://ark.cn-beijing.volces.com'')"
    by (simp add: s(5) load_address_def Let_def base obj_get_put)
  show "\<exists>u. field_of d' ''base_url'' = Str u \<and> trim u \<noteq> []" if "field_of d ''type'' = num_lit 45" "field_of d ''base_url'' = Str u" for u
    using that by (auto simp: s(5) load_address_def Let_def base obj_get_put ark_not_blank)
qed

section \<open>Opening and saving\<close>

lemma loaded:
  assumes "loadChannel (Channel d) st = (st', None)"
  shows "prepare_channel d = Inr (ce_inputs st')" "ce_id st' = ce_id st" "ce_vertexKeys st' = ce_vertexKeys st" "ce_vertexFiles st' = ce_vertexFiles st"
    "ce_initialMapping st' = js_or (field_of (ce_inputs st') ''model_mapping'') (Str [])"
    "ce_initialStatus st' = js_or (field_of (ce_inputs st') ''status_code_mapping'') (Str [])"
    "field_of (ce_inputs st') ''models'' = Arr xs \<Longrightarrow> trim_all xs = Inr names \<Longrightarrow> ce_initialModels st' = filter (\<lambda>s. s \<noteq> []) names"
    "ce_manual st' = ce_manual st" "ce_batch st' = is_multi_key (ce_inputs st')"
  using assms by (auto simp: loadChannel_def show_channel_def Let_def split: sum.splits if_split_asm)

lemma vertex_key_blank:
  assumes "isEdit st" "trim_val (field_of li ''key'') = Inr []" "ce_vertexKeys st = []" "ce_vertexFiles st = []"
  shows "vertex_key env st li = Inr li \<or> vertex_key env st li = Inr (obj_del li (lit ''key''))"
  using assms by (simp add: vertex_key_def vertex_manual_def vertex_upload_def step_then_def lift_res_def)

text \<open>Editing with no key given: the checks pass, and no key is sent.\<close>

lemma blank_key_passes:
  assumes "isEdit st" "trim_val (field_of fv ''key'') = Inr []" "field_of fv ''type'' = num_lit 57 \<Longrightarrow> \<not> ce_batch st"
    "field_of fv ''type'' = num_lit 41 \<Longrightarrow> ce_vertexKeys st = [] \<and> ce_vertexFiles st = []" "field_of fv ''models'' = Arr (x # xs)"
    "field_of fv ''type'' = num_lit 45 \<Longrightarrow> \<exists>u. field_of fv ''base_url'' = Str u \<and> trim u \<noteq> []"
  shows "\<exists>li. checked_inputs env st fv = Inr li \<and> \<not> obj_has li (lit ''key'')"
proof -
  let ?p = "puts fv [(''param_override'', field_of (ce_inputs st) ''param_override'')]"
  have p: "field_of ?p k = field_of fv k" if "k \<noteq> ''param_override''" for k using that by (simp add: obj_get_put)
  have c: "codex_key env st ?p = Inr ?p" using assms(1-3) by (simp add: codex_key_def obj_get_put step_then_def lift_res_def)
  obtain v where v: "vertex_key env st ?p = Inr v" "v = ?p \<or> v = obj_del ?p (lit ''key'')"
  proof (cases "field_of fv ''type'' = num_lit 41")
    case True
    then show ?thesis using that vertex_key_blank [OF assms(1), of ?p env] assms(2,4) p [of "''key''"] by (auto simp del: puts_simps)
  next
    case False
    then have "vertex_key env st ?p = Inr ?p" using p [of "''type''"] by (simp add: vertex_key_def del: puts_simps)
    then show ?thesis using that by blast
  qed
  have "trim_val (field_of v ''key'') = Inr []" using v(2) assms(2) by (auto simp: obj_get_put obj_get_del trim_val_def)
  then have k: "keep_old_key st v = Inr (obj_del v (lit ''key''))" using assms(1) by (simp add: keep_old_key_def step_then_def lift_res_def)
  define li where "li = obj_del (obj_del v (lit ''key'')) (lit ''vertex_files'')"
  have li: "field_of li k = field_of fv k" if "k \<notin> {''key'', ''vertex_files'', ''param_override''}" for k
    using that v(2) by (auto simp: li_def obj_get_del obj_get_put)
  have "required_fields env st li = Inr li"
    using assms(1,5,6) by (auto simp: required_fields_def li step_then_def lift_res_def trim_val_def)
  then have "checked_inputs env st fv = Inr li" by (simp add: checked_inputs_def c v(1) k step_then_def li_def del: puts_simps)
  moreover have "\<not> obj_has li (lit ''key'')" by (simp add: li_def)
  ultimately show ?thesis by blast
qed

lemma trim_all_Str: "trim_all (map Str ns) = Inr (map trim ns)"
  by (induction ns) (auto simp: trim_val_def)

lemma missing_models_from: "m \<in> set (missing_models mapping ms) \<Longrightarrow> m \<noteq> [] \<and> (\<exists>kvs n. mapping = Obj kvs \<and> n \<in> fst ` set kvs \<and> m = trim n)"
  by (cases mapping) (auto simp: missing_models_def)

lemma submitted_models_from: "submitted_models st choice mapping s ms0 = Inr (ms, added) \<Longrightarrow> set ms \<subseteq> set ms0 \<union> set (missing_models mapping ms0)"
  by (auto simp: submitted_models_def Let_def split: if_split_asm missing_choice.splits)

lemma submit_models_names:
  assumes "submit_models env st choice li = Inr (ms, added)" "field_of li ''models'' = Arr (map Str ns)"
  obtains mapping where "submitted_mapping env li = Inr mapping"
    "\<forall>m \<in> set ms. m \<noteq> [] \<and> ((\<exists>n \<in> set ns. m = trim n) \<or> (\<exists>kvs n. mapping = Obj kvs \<and> n \<in> fst ` set kvs \<and> m = trim n))"
proof -
  let ?ms0 = "filter (\<lambda>s. s \<noteq> []) (map trim ns)"
  obtain mapping where m: "submitted_mapping env li = Inr mapping" "submitted_models st choice mapping (field_of li ''model_mapping'') ?ms0 = Inr (ms, added)"
    using assms by (auto simp: submit_models_def trim_all_Str)
  show ?thesis
  proof (rule that [OF m(1)], rule ballI)
    fix x assume "x \<in> set ms"
    then consider "x \<in> set ?ms0" | "x \<in> set (missing_models mapping ?ms0)" using submitted_models_from [OF m(2)] by blast
    then show "x \<noteq> [] \<and> ((\<exists>n \<in> set ns. x = trim n) \<or> (\<exists>kvs n. mapping = Obj kvs \<and> n \<in> fst ` set kvs \<and> x = trim n))"
    proof cases
      case 1
      then show ?thesis by auto
    next
      case 2
      then show ?thesis using missing_models_from by blast
    qed
  qed
qed

lemma put_fields:
  assumes "channel_request st body = PutChannel b"
  shows "isEdit st" "k \<notin> {''id'', ''key_mode''} \<Longrightarrow> field_of b k = field_of body k" "obj_has b (lit ''key'') = obj_has body (lit ''key'')"
  using assms by (auto simp: channel_request_def Let_def obj_get_put split: if_split_asm)

text \<open>The channel in a request, created or changed.\<close>

definition sent_channel :: "ch_request \<Rightarrow> jsobj" where
  "sent_channel r = (case r of PutChannel b \<Rightarrow> b | PostChannel p \<Rightarrow> own_entries (field_of p ''channel''))"

lemma sent_fields: "k \<notin> {''id'', ''key_mode''} \<Longrightarrow> field_of (sent_channel (channel_request st body)) k = field_of body k"
  by (simp add: sent_channel_def channel_request_def Let_def obj_get_put)

text \<open>Values of the form that are JSON: settings, switches and the mapping; addresses are texts; and no name has a comma.\<close>

definition comma_free :: "jsval \<Rightarrow> bool" where
  "comma_free v \<longleftrightarrow> (case v of Obj kvs \<Rightarrow> list_all (\<lambda>kv. 44 \<notin> set (fst kv)) kvs | _ \<Rightarrow> True)"

definition plain_mapping :: "jsval \<Rightarrow> bool" where
  "plain_mapping m \<longleftrightarrow> (case m of
     Str s \<Rightarrow> s = [] \<or> trim s \<noteq> [] \<and> (case json_parse s of Inr v \<Rightarrow> json_ok v \<and> comma_free v | Inl e \<Rightarrow> False)
   | _ \<Rightarrow> False)"

definition plain_form :: "jsobj \<Rightarrow> bool" where
  "plain_form fv \<longleftrightarrow>
     (case parsed_settings (field_of fv ''settings'') of Obj kvs \<Rightarrow> json_ok (Obj (update_settings fv (type_settings fv kvs))) | _ \<Rightarrow> False) \<and>
     json_ok (Obj (map (map_prod lit id) (extra_settings (Obj fv)))) \<and>
     plain_mapping (field_of fv ''model_mapping'') \<and>
     (case field_of fv ''models'' of Arr xs \<Rightarrow> list_all (\<lambda>x. is_str x \<and> 44 \<notin> set (to_str x)) xs | _ \<Rightarrow> False)"

lemma plain_mappingD:
  assumes "plain_mapping m"
  obtains s where "m = Str s" "s = [] \<or> (\<exists>v. json_parse s = Inr v \<and> json_ok v \<and> comma_free v)"
  using assms by (auto simp: plain_mapping_def split: jsval.split_asm sum.split_asm)

lemma comma: "lit '','' = [44]"
  by (simp add: lit_simps)

lemma to_str_names: "to_str (Arr (map Str ns)) = join [44] ns"
  by (simp add: comma comp_def)

lemma joined_groups_text: "joined_groups li = Inr g \<Longrightarrow> is_str g"
  by (auto simp: joined_groups_def split: jsval.splits)

lemma names_round_trip:
  assumes "ms \<noteq> []" "\<And>m. m \<in> set ms \<Longrightarrow> trim m = m \<and> m \<noteq> [] \<and> 44 \<notin> set m"
  shows "split_char 44 (join [44] ms) = ms" "map trim ms = ms" "filter (\<lambda>s. s \<noteq> []) ms = ms" "join [44] ms \<noteq> []"
proof -
  show "split_char 44 (join [44] ms) = ms" using split_char_join assms by blast
  show "map trim ms = ms" "filter (\<lambda>s. s \<noteq> []) ms = ms" using assms(2) by (auto intro: map_idI simp: filter_id_conv)
  show "join [44] ms \<noteq> []" using assms by (cases ms rule: remdups_adj.cases) auto
qed

text \<open>What the first saving sends.\<close>

lemma first_save:
  assumes "plain_form fv" "submit env fv choice confirmed st = (st1, Inr r)" "b = sent_channel r" "field_of b ''models'' \<noteq> Str []"
  obtains kvs S ms where "parsed_settings (field_of fv ''settings'') = Obj kvs" "S = update_settings fv (type_settings fv kvs)" "json_ok (Obj S)"
    "field_of b ''settings'' = Str (json_str (Obj S))" "field_of b ''setting'' = extra_setting_text fv" "field_of b ''type'' = field_of fv ''type''"
    "field_of b ''models'' = Str (join [44] ms)" "ms \<noteq> []" "\<forall>m \<in> set ms. trim m = m \<and> m \<noteq> [] \<and> 44 \<notin> set m"
    "is_str (field_of b ''group'')" "field_of b ''model_mapping'' = field_of fv ''model_mapping''"
    "collectInvalidStatusCodeEntries (field_of b ''status_code_mapping'') = []"
proof -
  obtain li ms added body where s: "checked_inputs env st fv = Inr li" "submit_models env st choice li = Inr (ms, added)"
      "status_check env st confirmed li = Inr li" "finish_inputs ms li = Inr body" "r = channel_request st body"
    using assms(2) by (rule submit_parts)
  note f = finish_fields [OF s(4)]
  have b: True "\<And>k. k \<notin> {''id'', ''key_mode''} \<Longrightarrow> field_of b k = field_of body k" using sent_fields assms(3) s(5) by simp_all
  have li: "field_of li k = field_of fv k" if "k \<notin> {''key'', ''vertex_files'', ''param_override''}" for k
    using checked_fields [OF s(1)] that by blast
  have ag: "agree read_fields li fv" by (simp add: agree_def read_fields_def form_only_def li)
  obtain kvs where kvs: "parsed_settings (field_of fv ''settings'') = Obj kvs" "json_ok (Obj (update_settings fv (type_settings fv kvs)))"
    using assms(1) by (auto simp: plain_form_def simp del: json_ok.simps split: jsval.splits)
  have st: "settings_text fv = Inr (field_of b ''settings'')" using f(4) settings_text_cong [OF ag] b(2) by simp
  obtain xs where xs: "field_of fv ''models'' = Arr xs" "list_all (\<lambda>x. is_str x \<and> 44 \<notin> set (to_str x)) xs"
    using assms(1) by (auto simp: plain_form_def split: jsval.splits)
  then obtain ns where ns: "xs = map Str ns" "\<forall>n \<in> set ns. 44 \<notin> set n"
  proof -
    have "\<forall>x \<in> set xs. \<exists>n. x = Str n \<and> 44 \<notin> set n" using xs(2) by (auto simp: list_all_iff elim!: is_str.elims)
    then have "\<exists>ns. xs = map Str ns \<and> (\<forall>n \<in> set ns. 44 \<notin> set n)"
      by (induction xs) (auto, metis list.simps(9) set_ConsD)
    then show thesis using that by blast
  qed
  have chosen: "field_of li ''models'' = Arr (map Str ns)" using li xs(1) ns(1) by simp
  obtain mapping where m: "submitted_mapping env li = Inr mapping"
      "\<forall>m \<in> set ms. m \<noteq> [] \<and> ((\<exists>n \<in> set ns. m = trim n) \<or> (\<exists>kvs n. mapping = Obj kvs \<and> n \<in> fst ` set kvs \<and> m = trim n))"
    using submit_models_names [OF s(2) chosen] by blast
  have keys: "44 \<notin> set n" if "mapping = Obj kvs" "n \<in> fst ` set kvs" for kvs n
  proof -
    have "plain_mapping (field_of li ''model_mapping'')" using assms(1) li by (simp add: plain_form_def)
    then have "comma_free mapping" using m(1) that(1) by (rule_tac plain_mappingD) (auto simp: submitted_mapping_def split: if_split_asm)
    then show ?thesis using that by (auto simp: comma_free_def list_all_iff)
  qed
  have names: "\<forall>m \<in> set ms. trim m = m \<and> m \<noteq> [] \<and> 44 \<notin> set m"
  proof
    fix x assume x: "x \<in> set ms"
    from m(2) [rule_format, OF x] obtain n where "x \<noteq> []" "x = trim n" "44 \<notin> set n" using ns(2) keys by blast
    then show "trim x = x \<and> x \<noteq> [] \<and> 44 \<notin> set x" using trim_set_subset [of n] by auto
  qed
  have models: "field_of b ''models'' = Str (join [44] ms)" using f(1) b(2) by (simp add: comma)
  then have ne: "ms \<noteq> []" using assms(4) by auto
  have group: "is_str (field_of b ''group'')" using joined_groups_text [OF f(2)] b(2) by simp
  have settings: "field_of b ''settings'' = Str (json_str (Obj (update_settings fv (type_settings fv kvs))))" using st kvs(1) by (simp add: settings_text_def)
  have setting: "field_of b ''setting'' = extra_setting_text fv" using f(3) extra_setting_text_cong [OF ag] b(2) by simp
  have others: "field_of b ''type'' = field_of fv ''type''" "field_of b ''model_mapping'' = field_of fv ''model_mapping''" using f(5) b(2) li by simp_all
  have "collectInvalidStatusCodeEntries (field_of li ''status_code_mapping'') = []" using s(3) by (auto simp: status_check_def Let_def split: if_split_asm)
  then have status: "collectInvalidStatusCodeEntries (field_of b ''status_code_mapping'') = []" using f(5) b(2) by simp
  show thesis by (rule that [OF kvs(1) refl kvs(2) settings setting others(1) models ne names group others(2) status])
qed

lemma unchanged_asks_nothing:
  assumes "isEdit st" "field_of li ''models'' = Arr (map Str ns)" "ce_initialModels st = filter (\<lambda>s. s \<noteq> []) (map trim ns)"
    "field_of li ''model_mapping'' = Str s" "ce_initialMapping st = Str s" "trim s = [] \<or> json_parse s = Inr v"
  shows "submit_models env st choice li = Inr (filter (\<lambda>s. s \<noteq> []) (map trim ns), False)"
proof -
  obtain mapping where "submitted_mapping env li = Inr mapping" using assms(4,6) by (cases "trim s = []") (auto simp: submitted_mapping_def)
  moreover have "\<not> hasModelConfigChanged st (filter (\<lambda>s. s \<noteq> []) (map trim ns)) (Str s)" using assms by (simp add: hasModelConfigChanged_def)
  ultimately show ?thesis using assms(2,4) by (simp add: submit_models_def trim_all_Str submitted_models_def Let_def step_then_def lift_res_def)
qed

lemma same_status_passes:
  assumes "collectInvalidStatusCodeEntries (field_of li ''status_code_mapping'') = []"
    "ce_initialStatus st = js_or (field_of li ''status_code_mapping'') (Str [])"
  shows "status_check env st confirmed li = Inr li"
proof -
  let ?v = "field_of li ''status_code_mapping''"
  have "collectNewDisallowedStatusCodeRedirects (js_or ?v (Str [])) ?v = []"
  proof (cases "truthy ?v")
    case True
    then show ?thesis using new_disallowed_redirects_spec [of ?v ?v] by (simp add: js_or_def)
  next
    case False
    then have "collectDisallowedStatusCodeRedirects ?v = []"
      by (cases ?v) (auto simp: collectDisallowedStatusCodeRedirects_def mapping_entries_def map_filter_simps)
    then show ?thesis by (simp add: collectNewDisallowedStatusCodeRedirects_def)
  qed
  then show ?thesis using assms by (simp add: status_check_def Let_def)
qed

lemma finish_passes:
  assumes "is_str (field_of li ''base_url'')" "parsed_settings (field_of li ''settings'') = Obj S" "field_of li ''groups'' = Arr gs"
  shows "\<exists>body. finish_inputs ms li = Inr body"
proof -
  obtain u where u: "field_of li ''base_url'' = Str u" using assms(1) by (cases "field_of li ''base_url''") auto
  obtain li1 where one: "clean_address li = Inr li1" by (auto simp: clean_address_def u)
  have same: "field_of li1 k = field_of li k" if "k \<noteq> ''base_url''" for k
    using one that by (auto simp: clean_address_def u obj_get_put split: if_split_asm)
  define li2 where "li2 = puts (default_version li1) [(''setting'', extra_setting_text li1)]"
  have two: "field_of li2 k = field_of li k" if "k \<notin> {''base_url'', ''other'', ''setting''}" for k
    using that same [of k] by (auto simp: li2_def default_version_def obj_get_put)
  obtain s where s: "settings_text li2 = Inr s" using assms(2) two [of "''settings''"] by (simp add: settings_text_def)
  have "field_of (drop_form_only (puts li2 [(''settings'', s)])) ''groups'' = Arr gs"
    using assms(3) two [of "''groups''"] by (simp add: drop_form_only_def field_dels form_only_def obj_get_put obj_get_del)
  then obtain g where "joined_groups (drop_form_only (puts li2 [(''settings'', s)])) = Inr g" by (auto simp: joined_groups_def js_or_def)
  then show ?thesis using one s by (simp add: finish_inputs_def li2_def [symmetric] Let_def step_then_def del: puts_simps)
qed

text \<open>Values that are as they were loaded are sent without a question.\<close>

lemma unchanged_sends:
  assumes "isEdit st" "checked_inputs env st fv = Inr li" "field_of fv ''models'' = Arr (map Str ns)" "ce_initialModels st = filter (\<lambda>s. s \<noteq> []) (map trim ns)"
    "field_of fv ''model_mapping'' = Str s" "ce_initialMapping st = Str s" "trim s = [] \<or> json_parse s = Inr v"
    "collectInvalidStatusCodeEntries (field_of fv ''status_code_mapping'') = []"
    "ce_initialStatus st = js_or (field_of fv ''status_code_mapping'') (Str [])"
    "is_str (field_of fv ''base_url'')" "parsed_settings (field_of fv ''settings'') = Obj S" "field_of fv ''groups'' = Arr gs"
  obtains body where "finish_inputs (filter (\<lambda>s. s \<noteq> []) (map trim ns)) li = Inr body"
    "submit env fv choice confirmed st = (st, Inr (channel_request st body))"
proof -
  have same: "field_of li k = field_of fv k" if "k \<notin> {''key'', ''vertex_files'', ''param_override''}" for k
    using checked_fields [OF assms(2)] that by blast
  have sm: "submit_models env st choice li = Inr (filter (\<lambda>s. s \<noteq> []) (map trim ns), False)"
    using unchanged_asks_nothing [OF assms(1), of li ns s v] assms same by simp
  have sc: "status_check env st confirmed li = Inr li" using same_status_passes [of li st] assms(8,9) same by simp
  obtain body where body: "finish_inputs (filter (\<lambda>s. s \<noteq> []) (map trim ns)) li = Inr body"
    using finish_passes [of li S gs] assms(10,11,12) same by auto
  show thesis by (rule that [OF body]) (simp add: submit_def assms(2) sm sc body step_then_def)
qed

lemma fields_of_rebuilt:
  assumes "\<And>p. p \<in> set (extra_settings (Obj (map (map_prod lit id) (extra_settings (Obj fv))))) \<Longrightarrow> field_of a (fst p) = snd p"
  shows "extra_setting_text a = extra_setting_text fv"
proof -
  let ?E = "Obj (map (map_prod lit id) (extra_settings (Obj fv)))"
  have "extra_settings ?E = extra_settings (Obj fv)" by (simp add: extra_settings_def)
  then have "\<forall>p \<in> set (extra_settings (Obj fv)). field_of a (fst p) = snd p" using assms by simp
  then have "extra_settings (Obj a) = extra_settings (Obj fv)" by (simp add: extra_settings_def)
  then show ?thesis by (simp add: extra_setting_text_def)
qed

lemma reopened_groups:
  assumes "prepare_channel d = Inr a" "is_str (field_of d ''group'')"
  obtains g gs where "field_of d ''group'' = Str g" "field_of a ''groups'' = Arr gs" "to_str (Arr gs) = g"
proof -
  obtain g where g: "field_of d ''group'' = Str g" using assms(2) by (cases "field_of d ''group''") auto
  then have "field_of a ''groups'' = (if g = [] then Arr [] else Arr (map Str (split_char 44 g)))"
    using prepared_fields(3) [OF assms(1)] by (simp add: split_list_def)
  then show thesis using that [OF g] to_str_names [of "split_char 44 g"] by (cases "g = []") (auto simp del: to_str.simps(6), simp)
qed

lemma reopened_mapping:
  assumes "prepare_channel d = Inr a" "plain_mapping (field_of d ''model_mapping'')"
  obtains s v where "field_of a ''model_mapping'' = Str s" "trim s = [] \<or> json_parse s = Inr v"
proof -
  note P = prepared_fields [OF assms(1)]
  obtain s0 where s0: "field_of d ''model_mapping'' = Str s0" "s0 = [] \<or> (\<exists>v. json_parse s0 = Inr v \<and> json_ok v)"
    using assms(2) by (rule plain_mappingD) blast
  show thesis
  proof (cases "s0 = []")
    case True
    then show thesis using that [of "[]"] P(4) s0(1) by simp
  next
    case False
    then obtain v where v: "json_parse s0 = Inr v" "json_ok v" using s0(2) by blast
    obtain s where "stringify2 v = Str s" "json_parse s = Inr v" using parse_stringify2 [OF v(2)] by blast
    then show thesis using that [of s v] P(5) [OF s0(1) False v(1)] by simp
  qed
qed

lemma reopened_settings:
  assumes "distinct (map fst S)" "shows_settings a S" "field_of a ''type'' = field_of fv ''type''" "S = update_settings fv (type_settings fv kvs)"
    "parsed_settings (field_of a ''settings'') = Obj S" "agree read_fields li a" "field_of li ''settings'' = field_of a ''settings''"
  shows "settings_text li = Inr (Str (json_str (Obj S)))"
proof -
  have "type_settings a S = S"
    by (rule type_settings_again [OF assms(1-3)]) (simp add: assms(4) update_settings_other)
  moreover have "update_settings a S = S" using update_settings_again [of fv "type_settings fv kvs" a] assms(1,2,4) by simp
  ultimately show ?thesis
    using assms(5,7) type_settings_cong [OF assms(6), of S] update_settings_cong [OF assms(6), of S] by (simp add: settings_text_def)
qed

text \<open>C2: a channel is created or changed with the dialog, opened again and saved unchanged. When the form it was saved from is plain (its
  settings, switches and mapping are JSON texts and values, no model name has a comma), the server answers with what was sent but without the
  key, a Vertex channel is opened with no key file left in the dialog from before, and a Codex channel has one key, then it is sent without
  a question, without a key, and with the same type, models, groups, setting, settings and mapping of status codes.\<close>

theorem saved_channel_reopens:
  assumes "plain_form fv"
    and saved: "submit env fv choice confirmed st = (st1, Inr r)" "b = sent_channel r" "field_of b ''models'' \<noteq> Str []"
    and answer: "agree [''type'', ''models'', ''group'', ''model_mapping'', ''status_code_mapping'', ''setting'', ''settings''] d b"
      "field_of d ''key'' = Str []" "is_str (field_of d ''base_url'')"
    and opened: "loadChannel (Channel d) st2 = (st3, None)" "isEdit st2"
      "field_of b ''type'' = num_lit 41 \<Longrightarrow> ce_vertexKeys st2 = [] \<and> ce_vertexFiles st2 = []"
      "field_of b ''type'' = num_lit 57 \<Longrightarrow> \<not> is_multi_key (ce_inputs st3)"
  shows "\<exists>b'. submit env (ce_inputs st3) choice' confirmed' st3 = (st3, Inr (PutChannel b')) \<and> \<not> obj_has b' (lit ''key'') \<and>
    agree [''type'', ''models'', ''group'', ''setting'', ''settings'', ''status_code_mapping''] b' b"
proof -
  obtain kvs S ms where S: "parsed_settings (field_of fv ''settings'') = Obj kvs" "S = update_settings fv (type_settings fv kvs)" "json_ok (Obj S)"
      "field_of b ''settings'' = Str (json_str (Obj S))" "field_of b ''setting'' = extra_setting_text fv" "field_of b ''type'' = field_of fv ''type''"
    and ms: "field_of b ''models'' = Str (join [44] ms)" "ms \<noteq> []" "\<forall>m \<in> set ms. trim m = m \<and> m \<noteq> [] \<and> 44 \<notin> set m"
    and b: "is_str (field_of b ''group'')" "field_of b ''model_mapping'' = field_of fv ''model_mapping''"
      "collectInvalidStatusCodeEntries (field_of b ''status_code_mapping'') = []"
    by (rule first_save [OF assms(1) saved]) blast
  define a where "a = ce_inputs st3"
  have prep: "prepare_channel d = Inr a" using loaded(1) [OF opened(1)] by (simp add: a_def)
  note L = loaded [OF opened(1), folded a_def] and P = prepared_fields [OF prep]
  have d: "field_of d k = field_of b k" if "k \<in> {''type'', ''models'', ''group'', ''model_mapping'', ''status_code_mapping'', ''setting'', ''settings''}" for k
    using answer(1) that by (auto simp: agree_def)
  note nm = names_round_trip [of ms, OF ms(2)]
  have models: "field_of a ''models'' = Arr (map Str ms)" using P(2) d ms(1) nm ms(3) by (simp add: split_list_def)
  obtain g gs where g: "field_of d ''group'' = Str g" "field_of a ''groups'' = Arr gs" "to_str (Arr gs) = g"
    using reopened_groups [OF prep] b(1) d by auto
  obtain s v where s: "field_of a ''model_mapping'' = Str s" "trim s = [] \<or> json_parse s = Inr v"
    using reopened_mapping [OF prep] assms(1) d b(2) by (auto simp: plain_form_def)
  have type: "field_of a ''type'' = field_of fv ''type''" using P(1) d S(6) by simp
  have shown: "shows_settings a S" using P(7) [OF _ S(3)] d S(4) by simp
  have base: "is_str (field_of a ''base_url'')" using P(8) answer(3) by auto
  have addr: "\<exists>u. field_of a ''base_url'' = Str u \<and> trim u \<noteq> []" if "field_of a ''type'' = num_lit 45"
    using P(9) answer(3) that P(1) by (cases "field_of d ''base_url''") auto
  have ed: "isEdit st3" using opened(2) L(2) by (simp add: isEdit_def)
  obtain m0 mr where "ms = m0 # mr" using ms(2) by (cases ms) auto
  then obtain li where li: "checked_inputs env st3 a = Inr li" "\<not> obj_has li (lit ''key'')"
    using blank_key_passes [OF ed, of a "Str m0" "map Str mr" env] models P(1) answer(2) type S(6) L(3,4,9) opened(3,4) addr
    by (auto simp: trim_val_def a_def)
  have same: "field_of li k = field_of a k" if "k \<notin> {''key'', ''vertex_files'', ''param_override''}" for k
    using checked_fields [OF li(1)] that by blast
  have names: "filter (\<lambda>s. s \<noteq> []) (map trim ms) = ms" using nm ms(3) by simp
  have parsed: "parsed_settings (field_of a ''settings'') = Obj S" using P(1) d S(4) json_str_ok [OF S(3)] by (simp add: parsed_settings_def)
  have initial: "ce_initialModels st3 = filter (\<lambda>s. s \<noteq> []) (map trim ms)" using L(7) [OF models trim_all_Str] .
  have mapping: "ce_initialMapping st3 = Str s" using L(5) s(1) by simp
  have status: "collectInvalidStatusCodeEntries (field_of a ''status_code_mapping'') = []" using b(3) P(1) d by simp
  obtain body where body: "finish_inputs ms li = Inr body" "submit env a choice' confirmed' st3 = (st3, Inr (channel_request st3 body))"
    using unchanged_sends [OF ed li(1) models initial s(1) mapping s(2) status L(6) base parsed g(2), of choice' confirmed'] unfolding names by blast
  note f = finish_fields [OF body(1)]
  obtain b' where b': "channel_request st3 body = PutChannel b'" using ed by (simp add: channel_request_def)
  note pf = put_fields [OF b']
  have sub: "submit env a choice' confirmed' st3 = (st3, Inr (PutChannel b'))" by (simp add: body(2) b')
  have dist: "distinct (map fst S)" using S(3) distinct_obj_merge [of "[]" S] by simp
  have ag: "agree read_fields li a" using same by (simp add: agree_def read_fields_def form_only_def)
  have "settings_text li = Inr (field_of b ''settings'')"
    using reopened_settings [OF dist shown type S(2) parsed ag] same S(4) by simp
  then have "field_of b' ''settings'' = field_of b ''settings''" using f(4) pf(2) by simp
  moreover have "field_of b' ''setting'' = field_of b ''setting''"
  proof -
    have "json_ok (Obj (map (map_prod lit id) (extra_settings (Obj fv))))" using assms(1) by (simp add: plain_form_def)
    then have "extra_setting_text a = extra_setting_text fv"
      by (intro fields_of_rebuilt P(6)) (use d S(5) in \<open>simp_all add: extra_setting_text_def\<close>)
    then show ?thesis using f(3) pf(2) extra_setting_text_cong [OF ag] S(5) by simp
  qed
  moreover have "field_of b' ''models'' = field_of b ''models''" using f(1) pf(2) ms(1) by (simp add: comma)
  moreover have "field_of b' ''group'' = field_of b ''group''" using f(2) pf(2) same g d by (simp add: joined_groups_def js_or_def)
  moreover have "field_of b' ''type'' = field_of b ''type''" "field_of b' ''status_code_mapping'' = field_of b ''status_code_mapping''"
    using f(5) pf(2) same P(1) d by simp_all
  moreover have "\<not> obj_has b' (lit ''key'')" using pf(3) f(6) li(2) by simp
  ultimately show ?thesis using sub by (auto simp: agree_def a_def)
qed

section \<open>Keys\<close>

lemma open_keeps:
  "ce_vertexKeys (open_dialog i (close_dialog st)) = ce_vertexKeys st" "ce_vertexFiles (open_dialog i (close_dialog st)) = ce_vertexFiles st"
  "ce_manual (open_dialog i (close_dialog st)) = False" "ce_id (open_dialog i (close_dialog st)) = i"
  by (simp_all add: open_dialog_def close_dialog_def resetModalState_def resolveStatusCodeRiskConfirm_def forget_initial_def isEdit_def Let_def)

text \<open>C13: the file chosen as the key of one Vertex channel is still there when the dialog is opened for another. Saving that channel
  unchanged sends the key of the first as its key.\<close>

theorem vertex_key_leaks:
  assumes "ce_vertexKeys st = k # ks" "json_ok k"
    and opened: "loadChannel (Channel d) (open_dialog i (close_dialog st)) = (st', None)" "i \<noteq> Undefined"
    and vertex: "field_of (ce_inputs st') ''type'' = num_lit 41" "field_of (ce_inputs st') ''vertex_key_type'' \<noteq> Str (lit ''api_key'')"
      "\<not> is_multi_key (ce_inputs st')"
    and sent: "submit env (ce_inputs st') choice confirmed st' = (st'', Inr (PutChannel b))"
  shows "field_of b ''key'' = Str (json_str k)"
proof -
  note L = loaded [OF opened(1), unfolded open_keeps]
  obtain li ms added body where s: "checked_inputs env st' (ce_inputs st') = Inr li" "finish_inputs ms li = Inr body" "PutChannel b = channel_request st' body"
    using sent by (rule submit_parts)
  let ?p = "puts (ce_inputs st') [(''param_override'', field_of (ce_inputs st') ''param_override'')]"
  have type: "field_of ?p ''type'' = num_lit 41" "field_of ?p ''vertex_key_type'' \<noteq> Str (lit ''api_key'')" using vertex by (simp_all add: obj_get_put)
  have "codex_key env st' ?p = Inr ?p" using type(1) by (simp add: codex_key_def del: puts_simps)
  moreover have v: "vertex_key env st' ?p = Inr (puts ?p [(''key'', Str (json_str k))])"
    using type assms(1) L(3,8,9) vertex(3) by (simp add: vertex_key_def vertex_upload_def js_or_def)
  moreover have "keep_old_key st' (puts ?p [(''key'', Str (json_str k))]) = Inr (puts ?p [(''key'', Str (json_str k))])"
    using json_str_ok [OF assms(2)] by (simp add: keep_old_key_def trim_val_def lift_res_def step_then_def)
  ultimately have "required_fields env st' (obj_del (puts ?p [(''key'', Str (json_str k))]) (lit ''vertex_files'')) = Inr li"
    using s(1) by (simp add: checked_inputs_def step_then_def del: puts_simps)
  then have "field_of li ''key'' = Str (json_str k)" using required_same by (fastforce simp: obj_get_del)
  then show ?thesis using finish_fields(5) [OF s(2)] put_fields(2) [OF s(3) [symmetric]] by simp
qed

text \<open>C27: without a key in the form and without a chosen file, saving an edited channel sends no key, so that the stored one is kept.\<close>

theorem stored_key_kept:
  assumes "isEdit st" "trim_val (field_of fv ''key'') = Inr []" "field_of fv ''type'' = num_lit 41 \<Longrightarrow> ce_vertexKeys st = [] \<and> ce_vertexFiles st = []"
    and "submit env fv choice confirmed st = (st', Inr r)"
  shows "\<exists>b. r = PutChannel b \<and> \<not> obj_has b (lit ''key'')"
proof -
  obtain li ms added body where s: "checked_inputs env st fv = Inr li" "finish_inputs ms li = Inr body" "r = channel_request st body"
    using assms(4) by (rule submit_parts)
  let ?p = "puts fv [(''param_override'', field_of (ce_inputs st) ''param_override'')]"
  have key: "trim_val (field_of ?p ''key'') = Inr []" and type: "field_of ?p ''type'' = field_of fv ''type''" using assms(2) by (simp_all add: obj_get_put)
  obtain a v c where c: "codex_key env st ?p = Inr a" "vertex_key env st a = Inr v" "keep_old_key st v = Inr c"
      "required_fields env st (obj_del c (lit ''vertex_files'')) = Inr li"
    using s(1) by (auto simp: checked_inputs_def simp del: puts_simps)
  have "a = ?p" using c(1) key by (auto simp: codex_key_def step_then_def lift_res_def info_def simp del: puts_simps split: if_split_asm)
  then have "v = ?p \<or> v = obj_del ?p (lit ''key'')"
    using c(2) vertex_key_blank [OF assms(1) key, of env] assms(3) type by (cases "field_of fv ''type'' = num_lit 41") (auto simp: vertex_key_def simp del: puts_simps)
  then have "trim_val (field_of v ''key'') = Inr []" using key by (auto simp: obj_get_del trim_val_def simp del: puts_simps)
  then have "\<not> obj_has c (lit ''key'')" using c(3) assms(1) by (auto simp: keep_old_key_def step_then_def lift_res_def)
  then have "\<not> obj_has body (lit ''key'')" using required_same [OF c(4)] finish_fields(6) [OF s(2)] by simp
  then show ?thesis using s(3) assms(1) by (simp add: channel_request_def)
qed

section \<open>Findings\<close>

text \<open>A mapping of blanks passes the check of the form, and a channel stored with it cannot be opened again: reading it throws and the dialog
  shows its spinner for ever.\<close>

lemma blank_mapping_locks:
  "field_of li ''model_mapping'' = Str (lit '' '') \<Longrightarrow> submitted_mapping env li = Inr Null"
  "field_of d ''model_mapping'' = Str (lit '' '') \<Longrightarrow> is_str (field_of d ''models'') \<Longrightarrow> is_str (field_of d ''group'') \<Longrightarrow>
     loadChannel (Channel d) st = (st\<lparr>ce_loading := True\<rparr>, Some SyntaxError)"
proof -
  have blank: "trim (lit '' '') = []" "json_parse (lit '' '') = Inl SyntaxError" by code_simp+
  show "field_of li ''model_mapping'' = Str (lit '' '') \<Longrightarrow> submitted_mapping env li = Inr Null" by (simp add: submitted_mapping_def blank)
  assume d: "field_of d ''model_mapping'' = Str (lit '' '')" "is_str (field_of d ''models'')" "is_str (field_of d ''group'')"
  obtain m g where "field_of d ''models'' = Str m" "field_of d ''group'' = Str g" using d(2,3) by (auto elim!: is_str.elims)
  then show "loadChannel (Channel d) st = (st\<lparr>ce_loading := True\<rparr>, Some SyntaxError)"
    using d(1) by (simp add: loadChannel_def Let_def prepare_channel_def split_list_def load_mapping_def obj_get_put blank)
qed

text \<open>A second credential from the Codex dialog is overwritten by the first: the formatter reads the inputs of the rendering before.\<close>

lemma second_codex_key_lost:
  assumes "field_of (ce_inputs st) ''key'' = Str old" "trim old \<noteq> []" "json_parse (trim old) = Inr v" "\<not> ce_isIonet st"
  shows "field_of (ce_inputs (fst (handleCodexOAuthGenerated env (Str new) st))) ''key'' = stringify2 v"
  using assms by (simp add: handleCodexOAuthGenerated_def formatJsonField_def handleInputChange_def put_input_def form_set_def Let_def js_coalesce_def stringify2_def
      split: option.splits)

text \<open>An address that ends in \<open>/v1\<close> is in the form before the warning is answered; refusing it changes nothing there, and the form is what is
  submitted.\<close>

lemma refused_address_stays:
  assumes "\<not> ce_isIonet st" "ends_with u (lit ''/v1'')"
  shows "fst (handleInputChange ''base_url'' (Str u) st) = st\<lparr>ce_form := ce_form st @ [FSet (lit ''base_url'') (Str u)], ce_asked := ce_asked st @ [Str u]\<rparr>"
  using assms by (simp add: handleInputChange_def form_set_def Let_def)

section \<open>A channel\<close>

definition ex_env :: ch_env where
  "ex_env = \<lparr>tr = (\<lambda>s ps. s), emsg = (\<lambda>e. [])\<rparr>"

definition ex_cache :: channel_cache where
  "ex_cache = \<lparr>channelModels = Obj [(lit ''41'', Arr []), (lit ''20'', Arr [])], stored_models = None\<rparr>"

text \<open>An answer of the server, and the dialog opened with it after it was closed with some keys chosen.\<close>

definition ex_channel :: "rat \<Rightarrow> jsval \<Rightarrow> jsval \<Rightarrow> jsobj" where
  "ex_channel ty s1 s2 = map (map_prod lit id) [(''type'', num_lit ty), (''key'', Str []), (''models'', Str (lit ''m'')), (''group'', Str (lit ''g'')),
     (''model_mapping'', Str []), (''base_url'', Str []), (''setting'', s1), (''settings'', s2)]"

definition ex_opened :: "jsval list \<Rightarrow> jsobj \<Rightarrow> ch_editor \<times> jserr option" where
  "ex_opened ks d = loadChannel (Channel d) (open_dialog (num_lit 7) (close_dialog ((new_editor ex_cache)\<lparr>ce_vertexKeys := ks\<rparr>)))"

lemma ex_openedD: "snd (ex_opened ks d) = None \<Longrightarrow>
    loadChannel (Channel d) (open_dialog (num_lit 7) (close_dialog ((new_editor ex_cache)\<lparr>ce_vertexKeys := ks\<rparr>))) = (fst (ex_opened ks d), None)"
  by (simp add: ex_opened_def prod_eq_iff)

lemma ex_opened_facts:
  assumes "snd (ex_opened ks (ex_channel ty s1 s2)) = None"
  defines "st \<equiv> fst (ex_opened ks (ex_channel ty s1 s2))"
  shows "isEdit st" "field_of (ce_inputs st) ''type'' = num_lit ty" "field_of (ce_inputs st) ''models'' = Arr (map Str [lit ''m''])"
    "ce_initialModels st = filter (\<lambda>s. s \<noteq> []) (map trim [lit ''m''])" "field_of (ce_inputs st) ''model_mapping'' = Str []" "ce_initialMapping st = Str []"
    "collectInvalidStatusCodeEntries (field_of (ce_inputs st) ''status_code_mapping'') = []"
    "ce_initialStatus st = js_or (field_of (ce_inputs st) ''status_code_mapping'') (Str [])" "is_str (field_of (ce_inputs st) ''base_url'')"
    "field_of (ce_inputs st) ''settings'' = s2" "field_of (ce_inputs st) ''groups'' = Arr [Str (lit ''g'')]"
proof -
  note L = loaded [OF ex_openedD [OF assms(1)], folded st_def, unfolded open_keeps]
  note P = prepared_fields [OF L(1)]
  have d: "field_of (ex_channel ty s1 s2) ''type'' = num_lit ty" "field_of (ex_channel ty s1 s2) ''models'' = Str (lit ''m'')"
      "field_of (ex_channel ty s1 s2) ''group'' = Str (lit ''g'')" "field_of (ex_channel ty s1 s2) ''model_mapping'' = Str []"
      "field_of (ex_channel ty s1 s2) ''base_url'' = Str []" "field_of (ex_channel ty s1 s2) ''settings'' = s2"
      "field_of (ex_channel ty s1 s2) ''status_code_mapping'' = Undefined"
    by (simp_all add: ex_channel_def)
  show "isEdit st" using L(2) by (simp add: isEdit_def)
  show "field_of (ce_inputs st) ''type'' = num_lit ty" "field_of (ce_inputs st) ''settings'' = s2" using P(1) d by simp_all
  have split: "split_char 44 (lit ''m'') = [lit ''m'']" "split_char 44 (lit ''g'') = [lit ''g'']" by code_simp+
  show m: "field_of (ce_inputs st) ''models'' = Arr (map Str [lit ''m''])" using P(2) d split by (simp add: split_list_def)
  show "field_of (ce_inputs st) ''groups'' = Arr [Str (lit ''g'')]" using P(3) d split by (simp add: split_list_def)
  show "ce_initialModels st = filter (\<lambda>s. s \<noteq> []) (map trim [lit ''m''])" using L(7) [OF m trim_all_Str] .
  show "field_of (ce_inputs st) ''model_mapping'' = Str []" using P(4) d by simp
  then show "ce_initialMapping st = Str []" using L(5) by simp
  show "ce_initialStatus st = js_or (field_of (ce_inputs st) ''status_code_mapping'') (Str [])" using L(6) .
  show "collectInvalidStatusCodeEntries (field_of (ce_inputs st) ''status_code_mapping'') = []"
    using P(1) d by (simp add: collectInvalidStatusCodeEntries_def mapping_entries_def)
  show "is_str (field_of (ce_inputs st) ''base_url'')" using P(8) d by auto
qed

lemma ex_sends:
  assumes "snd (ex_opened ks (ex_channel ty s1 s2)) = None" "checked_inputs env (fst (ex_opened ks (ex_channel ty s1 s2))) (ce_inputs (fst (ex_opened ks (ex_channel ty s1 s2)))) = Inr li"
    "parsed_settings s2 = Obj S"
  obtains b where "submit env (ce_inputs (fst (ex_opened ks (ex_channel ty s1 s2)))) choice confirmed (fst (ex_opened ks (ex_channel ty s1 s2))) =
    (fst (ex_opened ks (ex_channel ty s1 s2)), Inr (PutChannel b))"
proof -
  note F = ex_opened_facts [OF assms(1)]
  have S: "parsed_settings (field_of (ce_inputs (fst (ex_opened ks (ex_channel ty s1 s2)))) ''settings'') = Obj S" using F(10) assms(3) by simp
  obtain body where "submit env (ce_inputs (fst (ex_opened ks (ex_channel ty s1 s2)))) choice confirmed (fst (ex_opened ks (ex_channel ty s1 s2))) =
      (fst (ex_opened ks (ex_channel ty s1 s2)), Inr (channel_request (fst (ex_opened ks (ex_channel ty s1 s2))) body))"
    by (rule unchanged_sends [OF F(1) assms(2) F(3-6) _ F(7-9) S F(11)]) simp_all
  then show thesis using that F(1) by (simp add: channel_request_def)
qed

abbreviation ex_vertex :: "ch_editor \<times> jserr option" where
  "ex_vertex \<equiv> ex_opened [Str (lit ''k'')] (ex_channel 41 (Str []) (Str []))"

theorem vertex_key_leaks_witness:
  "\<exists>st b. submit ex_env (ce_inputs (fst ex_vertex)) SubmitAnyway True (fst ex_vertex) = (st, Inr (PutChannel b)) \<and>
     field_of b ''key'' = Str (json_str (Str (lit ''k'')))"
proof -
  let ?st = "fst ex_vertex"
  have loads: "snd ex_vertex = None" by code_simp
  have "case checked_inputs ex_env ?st (ce_inputs ?st) of Inr li \<Rightarrow> True | Inl e \<Rightarrow> False" by code_simp
  then obtain li where li: "checked_inputs ex_env ?st (ce_inputs ?st) = Inr li" by (auto split: sum.splits)
  obtain b where b: "submit ex_env (ce_inputs ?st) SubmitAnyway True ?st = (?st, Inr (PutChannel b))"
    using ex_sends [OF loads li, where S = "[]"] by (auto simp: parsed_settings_def)
  have v: "field_of (ce_inputs ?st) ''vertex_key_type'' \<noteq> Str (lit ''api_key'')" "\<not> is_multi_key (ce_inputs ?st)"
    by code_simp+
  have "field_of b ''key'' = Str (json_str (Str (lit ''k'')))"
    by (rule vertex_key_leaks [OF _ _ ex_openedD [OF loads] _ ex_opened_facts(2) [OF loads] v b, where ks = "[]"])
      (simp_all add: new_editor_def Json_Round_Trip.units_ok_def lit_simps)
  then show ?thesis using b by blast
qed

definition ex_settings :: jsobj where
  "ex_settings = map (map_prod lit id) [(''openrouter_enterprise'', Bool True), (''upstream_model_update_check_enabled'', Bool False),
     (''upstream_model_update_auto_sync_enabled'', Bool False), (''upstream_model_update_ignored_models'', Arr []),
     (''upstream_model_update_last_detected_models'', Arr []), (''upstream_model_update_last_check_time'', num_lit 0)]"

definition ex_setting :: jsobj where
  "ex_setting = map (map_prod lit id) (extra_settings Undefined)"

lemma l1: "snd (ex_opened [] (ex_channel 20 (Str (json_str (Obj ex_setting))) (Str (json_str (Obj ex_settings))))) = None"
  by code_simp

definition ex_form :: jsobj where
  "ex_form = map (map_prod lit id) [(''type'', num_lit 20), (''key'', Str []), (''models'', Arr [Str (lit ''m'')]), (''groups'', Arr [Str (lit ''g'')]),
     (''model_mapping'', Str []), (''base_url'', Str []), (''settings'', Str []), (''is_enterprise_account'', Bool True)]"

lemma l2: "plain_form ex_form"
  by code_simp

abbreviation ex_saved :: "ch_editor \<times> jserr option" where
  "ex_saved \<equiv> ex_opened [] (ex_channel 20 (Str (json_str (Obj ex_setting))) (Str (json_str (Obj ex_settings))))"

abbreviation ex_editor :: ch_editor where
  "ex_editor \<equiv> open_dialog (num_lit 7) (close_dialog (new_editor ex_cache))"

lemma ex_first_save:
  obtains b where "submit ex_env ex_form SubmitAnyway True ex_editor = (ex_editor, Inr (PutChannel b))"
    "agree [''type'', ''models'', ''group'', ''model_mapping'', ''status_code_mapping'', ''setting'', ''settings'']
      (ex_channel 20 (Str (json_str (Obj ex_setting))) (Str (json_str (Obj ex_settings)))) b"
proof -
  define li where "li = obj_del (puts ex_form [(''param_override'', Str [])]) (lit ''key'')"
  have fields: "field_of li ''type'' = num_lit 20" "field_of li ''models'' = Arr [Str (lit ''m'')]" "field_of li ''groups'' = Arr [Str (lit ''g'')]"
      "field_of li ''model_mapping'' = Str []" "field_of li ''base_url'' = Str []" "field_of li ''settings'' = Str []" "field_of li ''status_code_mapping'' = Undefined"
    by (simp_all add: li_def ex_form_def obj_get_del obj_get_put)
  have c: "checked_inputs ex_env ex_editor ex_form = Inr li" unfolding li_def by code_simp
  have m: "submit_models ex_env ex_editor SubmitAnyway li = Inr ([lit ''m''], False)" unfolding li_def by code_simp
  have s: "status_check ex_env ex_editor True li = Inr li"
    by (simp add: status_check_def fields collectInvalidStatusCodeEntries_def collectNewDisallowedStatusCodeRedirects_def
        collectDisallowedStatusCodeRedirects_def mapping_entries_def map_filter_simps)
  have parsed: "parsed_settings (field_of li ''settings'') = Obj []" by (simp add: fields parsed_settings_def)
  obtain body where body: "finish_inputs [lit ''m''] li = Inr body" using finish_passes [OF _ parsed fields(3), of "[lit ''m'']"] fields by auto
  note f = finish_fields [OF body]
  obtain b where b: "channel_request ex_editor body = PutChannel b" using ex_opened_facts by (simp add: channel_request_def open_dialog_def forget_initial_def isEdit_def Let_def)
  note pf = put_fields [OF b]
  have "update_settings li (type_settings li []) = ex_settings" unfolding li_def by code_simp
  then have "field_of b ''settings'' = Str (json_str (Obj ex_settings))" using f(4) pf(2) parsed by (simp add: settings_text_def)
  moreover have "extra_setting_text li = Str (json_str (Obj ex_setting))"
    by (simp add: extra_setting_text_def ex_setting_def extra_settings_def li_def ex_form_def obj_get_del obj_get_put)
  moreover have "field_of b ''group'' = Str (lit ''g'')" using f(2) pf(2) by (simp add: joined_groups_def fields js_or_def)
  ultimately have "agree [''type'', ''models'', ''group'', ''model_mapping'', ''status_code_mapping'', ''setting'', ''settings'']
      (ex_channel 20 (Str (json_str (Obj ex_setting))) (Str (json_str (Obj ex_settings)))) b"
    using f(1,3,5) pf(2) by (simp add: agree_def ex_channel_def fields)
  then show thesis using that b by (simp add: submit_def c m s body step_then_def)
qed

theorem saved_channel_reopens_witness:
  "\<exists>b b'. submit ex_env ex_form SubmitAnyway True ex_editor = (ex_editor, Inr (PutChannel b)) \<and>
     submit ex_env (ce_inputs (fst ex_saved)) CancelSubmit False (fst ex_saved) = (fst ex_saved, Inr (PutChannel b')) \<and>
     agree [''type'', ''models'', ''group'', ''setting'', ''settings'', ''status_code_mapping''] b' b"
proof -
  let ?d = "ex_channel 20 (Str (json_str (Obj ex_setting))) (Str (json_str (Obj ex_settings)))"
  obtain b where b: "submit ex_env ex_form SubmitAnyway True ex_editor = (ex_editor, Inr (PutChannel b))"
      "agree [''type'', ''models'', ''group'', ''model_mapping'', ''status_code_mapping'', ''setting'', ''settings''] ?d b"
    by (rule ex_first_save)
  have "snd ex_saved = None" by code_simp
  note opened = ex_openedD [OF this]
  have plain: "plain_form ex_form" by code_simp
  have "field_of ?d ''key'' = Str []" "is_str (field_of ?d ''base_url'')" by (simp_all add: ex_channel_def)
  moreover have "field_of b ''models'' = Str (lit ''m'')" "field_of b ''type'' = num_lit 20" using b(2) by (simp_all add: agree_def ex_channel_def)
  moreover have "b = sent_channel (PutChannel b)" by (simp add: sent_channel_def)
  moreover have "isEdit (open_dialog (num_lit 7) (close_dialog ((new_editor ex_cache)\<lparr>ce_vertexKeys := []\<rparr>)))" by (simp add: isEdit_def open_keeps)
  ultimately show ?thesis
    using saved_channel_reopens [OF plain b(1) _ _ b(2) _ _ opened, of CancelSubmit False] b(1) by auto
qed

theorem stored_key_kept_witness:
  "\<exists>b. snd (submit ex_env ex_form SubmitAnyway True ex_editor) = Inr (PutChannel b) \<and> \<not> obj_has b (lit ''key'')"
proof -
  obtain b where b: "submit ex_env ex_form SubmitAnyway True ex_editor = (ex_editor, Inr (PutChannel b))" by (rule ex_first_save)
  have "\<exists>b'. PutChannel b = PutChannel b' \<and> \<not> obj_has b' (lit ''key'')"
    by (rule stored_key_kept [OF _ _ _ b]) (simp_all add: isEdit_def open_keeps trim_val_def ex_form_def)
  then show ?thesis using b by auto
qed

end
