(* ===== verification/Log_Breakdown.thy ===== *)
theory Log_Breakdown
  imports Tier_Display
begin

text \<open>
  How a log entry that was billed by ratio, by call, by audio tokens, with a Claude cache or as a video task is explained, from
  \<open>helpers/render.jsx\<close>. \<open>opts\<close> is the entry's object. Numbers of the entry are JSON numbers or missing; a missing one takes the
  default of the destructuring. \<open>null\<close> among the lines of an article is the empty text here: both are dropped.
\<close>

section \<open>Reading an entry\<close>

definition opt_num :: "jsobj \<Rightarrow> string \<Rightarrow> jsnum \<Rightarrow> jsnum" where
  "opt_num opts k d = (case obj_get opts (lit k) of Undefined \<Rightarrow> d | v \<Rightarrow> to_num v)"

definition opt_flag :: "jsobj \<Rightarrow> string \<Rightarrow> bool" where
  "opt_flag opts k = truthy (obj_get opts (lit k))"

definition opt_text :: "jsobj \<Rightarrow> string \<Rightarrow> string \<Rightarrow> jsstr" where
  "opt_text opts k d = (case obj_get opts (lit k) of Undefined \<Rightarrow> lit d | v \<Rightarrow> to_str v)"

abbreviation positive :: "jsnum \<Rightarrow> bool" where
  "positive x \<equiv> num_lt (Fin 0) x"

abbreviation nvar :: "string \<Rightarrow> jsnum \<Rightarrow> jsstr \<times> jsval" where
  "nvar k x \<equiv> (lit k, Num x)"

abbreviation svar :: "string \<Rightarrow> jsstr \<Rightarrow> jsstr \<times> jsval" where
  "svar k s \<equiv> (lit k, Str s)"

text \<open>\<open>(tokens / 1000000) * price * ratio\<close>\<close>

definition per_million :: "jsnum \<Rightarrow> jsnum \<Rightarrow> jsnum \<Rightarrow> jsnum" where
  "per_million tokens price g = num_mul (num_mul (num_div tokens (Fin 1000000)) price) g"

definition scaled_million :: "jsnum \<Rightarrow> jsnum \<Rightarrow> jsnum \<Rightarrow> jsnum \<Rightarrow> jsnum" where
  "scaled_million tokens price r g = num_mul (num_mul (num_mul (num_div tokens (Fin 1000000)) price) r) g"

definition per_thousand :: "jsnum \<Rightarrow> jsnum \<Rightarrow> jsnum \<Rightarrow> jsnum" where
  "per_thousand calls price g = num_mul (num_mul (num_div calls (Fin 1000)) price) g"

definition sum_left :: "jsnum list \<Rightarrow> jsnum" where
  "sum_left xs = (case xs of [] \<Rightarrow> Fin 0 | y # ys \<Rightarrow> foldl num_add y ys)"

section \<open>Texts\<close>

definition appendPricePart :: "translate \<Rightarrow> jsstr list \<Rightarrow> bool \<Rightarrow> jsstr \<Rightarrow> (jsstr \<times> jsval) list \<Rightarrow> jsstr list" where
  "appendPricePart tr parts condition key vars = (if condition then parts @ [tr (Str key) vars] else parts)"

definition buildBillingText :: "translate \<Rightarrow> jsstr \<Rightarrow> (jsstr \<times> jsval) list \<Rightarrow> jsstr" where
  "buildBillingText tr key vars = tr (Str key) vars"

definition buildBillingPriceText :: "translate \<Rightarrow> jsstr \<Rightarrow> jsval \<Rightarrow> jsnum \<Rightarrow> jsval \<Rightarrow> string \<Rightarrow> (jsstr \<times> jsval) list \<Rightarrow> jsstr" where
  "buildBillingPriceText tr key symbol usdAmount rate amountKey vars =
     buildBillingText tr key ([(lit ''symbol'', symbol), svar amountKey (formatBillingDisplayPrice usdAmount rate 6)] @ vars)"

definition line_if :: "bool \<Rightarrow> jsstr \<Rightarrow> jsstr" where
  "line_if b s = (if b then s else [])"

text \<open>A price per call: the two lines of the article and the single text of the other mode.\<close>

definition per_call_article :: "translate \<Rightarrow> jsstr \<Rightarrow> jsstr \<Rightarrow> jsval \<Rightarrow> jsval \<Rightarrow> jsnum \<Rightarrow> effective_ratio \<Rightarrow> breakdown" where
  "per_call_article tr key1 key2 symbol rate modelPrice er = Article (renderBillingArticle tr
     [buildBillingPriceText tr key1 symbol modelPrice rate ''price'' [],
      buildBillingPriceText tr key2 symbol modelPrice rate ''price''
        [svar ''ratioType'' (er_label er), (lit ''ratio'', er_ratio er),
         svar ''total'' (formatBillingDisplayPrice (num_mul modelPrice (to_num (er_ratio er))) rate 6)]])"

definition per_call_message :: "translate \<Rightarrow> jsstr \<Rightarrow> jsval \<Rightarrow> jsval \<Rightarrow> jsnum \<Rightarrow> effective_ratio \<Rightarrow> breakdown" where
  "per_call_message tr key symbol rate modelPrice er = Message (tr (Str key)
     [(lit ''symbol'', symbol), svar ''price'' (to_fixed 6 (num_mul modelPrice (to_num rate))), (lit ''ratio'', er_ratio er),
      svar ''total'' (to_fixed 6 (num_mul (num_mul modelPrice (to_num (er_ratio er))) (to_num rate))), svar ''ratioType'' (er_label er)])"

section \<open>The collapsed row\<close>

record simple_price =
  sp_modelRatio :: jsval
  sp_modelPrice :: jsnum
  sp_groupRatio :: jsval
  sp_userGroupRatio :: jsval
  sp_cacheTokens :: jsnum
  sp_cacheRatio :: jsnum
  sp_creationTokens :: jsnum
  sp_creationRatio :: jsnum
  sp_creationTokens5m :: jsnum
  sp_creationRatio5m :: jsnum
  sp_creationTokens1h :: jsnum
  sp_creationRatio1h :: jsnum
  sp_image :: bool
  sp_imageRatio :: jsnum
  sp_override :: bool
  sp_displayMode :: jsstr
  sp_outputMode :: jsstr

definition hasSplitCacheCreation :: "simple_price \<Rightarrow> bool" where
  "hasSplitCacheCreation p \<longleftrightarrow> positive (sp_creationTokens5m p) \<or> positive (sp_creationTokens1h p)"

definition shouldShowLegacyCacheCreation :: "simple_price \<Rightarrow> bool" where
  "shouldShowLegacyCacheCreation p \<longleftrightarrow> \<not> hasSplitCacheCreation p \<and> sp_creationTokens p \<noteq> Fin 0"

definition shouldShowCache :: "simple_price \<Rightarrow> bool" where
  "shouldShowCache p \<longleftrightarrow> sp_cacheTokens p \<noteq> Fin 0"

definition shouldShowCacheCreation5m :: "simple_price \<Rightarrow> bool" where
  "shouldShowCacheCreation5m p \<longleftrightarrow> hasSplitCacheCreation p \<and> positive (sp_creationTokens5m p)"

definition shouldShowCacheCreation1h :: "simple_price \<Rightarrow> bool" where
  "shouldShowCacheCreation1h p \<longleftrightarrow> hasSplitCacheCreation p \<and> positive (sp_creationTokens1h p)"

text \<open>\<open>modelRatio * 2.0\<close>\<close>

definition input_price :: "simple_price \<Rightarrow> jsnum" where
  "input_price p = num_mul (to_num (sp_modelRatio p)) (Fin 2)"

definition override_text :: "translate \<Rightarrow> jsstr" where
  "override_text tr = tr (Str [31995, 32479, 25552, 31034, 35206, 30422]) []"

text \<open>The segments: the tone is \<open>True\<close> for the primary one.\<close>

definition price_segments :: "store \<Rightarrow> translate \<Rightarrow> simple_price \<Rightarrow> (bool \<times> jsstr) list" where
  "price_segments st tr p =
     (let compact = (\<lambda>x. [svar ''price'' (formatCompactDisplayPrice st x 6)]); base = input_price p
      in [(False, tr (Str [36755, 20837, 32, 123, 123, 112, 114, 105, 99, 101, 125, 125, 32, 47, 32, 49, 77, 32, 116, 111, 107, 101, 110, 115]) (compact base))] @
         (if shouldShowCache p then [(False, tr (Str [32531, 23384, 35835, 32, 123, 123, 112, 114, 105, 99, 101, 125, 125, 32, 47, 32, 49, 77, 32, 116, 111, 107, 101, 110, 115]) (compact (num_mul base (sp_cacheRatio p))))] else []) @
         (if hasSplitCacheCreation p \<and> shouldShowCacheCreation5m p
          then [(False, tr (Str [53, 109, 32531, 23384, 21019, 24314, 32, 123, 123, 112, 114, 105, 99, 101, 125, 125, 32, 47, 32, 49, 77, 32, 116, 111, 107, 101, 110, 115]) (compact (num_mul base (sp_creationRatio5m p))))] else []) @
         (if hasSplitCacheCreation p \<and> shouldShowCacheCreation1h p
          then [(False, tr (Str [49, 104, 32531, 23384, 21019, 24314, 32, 123, 123, 112, 114, 105, 99, 101, 125, 125, 32, 47, 32, 49, 77, 32, 116, 111, 107, 101, 110, 115]) (compact (num_mul base (sp_creationRatio1h p))))] else []) @
         (if \<not> hasSplitCacheCreation p \<and> shouldShowLegacyCacheCreation p
          then [(False, tr (Str [32531, 23384, 21019, 24314, 32, 123, 123, 112, 114, 105, 99, 101, 125, 125, 32, 47, 32, 49, 77, 32, 116, 111, 107, 101, 110, 115]) (compact (num_mul base (sp_creationRatio p))))] else []) @
         (if sp_image p then [(False, tr (Str [22270, 29255, 36755, 20837, 32, 123, 123, 112, 114, 105, 99, 101, 125, 125, 32, 47, 32, 49, 77, 32, 116, 111, 107, 101, 110, 115]) (compact (num_mul base (sp_imageRatio p))))] else []))"

definition ratio_segments :: "translate \<Rightarrow> simple_price \<Rightarrow> (bool \<times> jsstr) list" where
  "ratio_segments tr p =
     [(False, tr (Str [27169, 22411, 58, 32, 123, 123, 114, 97, 116, 105, 111, 125, 125]) [(lit ''ratio'', sp_modelRatio p)])] @
     (if shouldShowCache p then [(False, tr (Str [32531, 23384, 58, 32, 123, 123, 99, 97, 99, 104, 101, 82, 97, 116, 105, 111, 125, 125]) [nvar ''cacheRatio'' (sp_cacheRatio p)])] else []) @
     (if hasSplitCacheCreation p then
        (if shouldShowCacheCreation5m p \<and> shouldShowCacheCreation1h p
         then [(False, tr (Str [32531, 23384, 21019, 24314, 58, 32, 53, 109, 32, 123, 123, 99, 97, 99, 104, 101, 67, 114, 101, 97, 116, 105, 111, 110, 82, 97, 116, 105, 111, 53, 109, 125, 125, 32, 47, 32, 49, 104, 32, 123, 123, 99, 97, 99, 104, 101, 67, 114, 101, 97, 116, 105, 111, 110, 82, 97, 116, 105, 111, 49, 104, 125, 125])
           [nvar ''cacheCreationRatio5m'' (sp_creationRatio5m p), nvar ''cacheCreationRatio1h'' (sp_creationRatio1h p)])]
         else if shouldShowCacheCreation5m p
         then [(False, tr (Str [32531, 23384, 21019, 24314, 58, 32, 53, 109, 32, 123, 123, 99, 97, 99, 104, 101, 67, 114, 101, 97, 116, 105, 111, 110, 82, 97, 116, 105, 111, 53, 109, 125, 125]) [nvar ''cacheCreationRatio5m'' (sp_creationRatio5m p)])]
         else if shouldShowCacheCreation1h p
         then [(False, tr (Str [32531, 23384, 21019, 24314, 58, 32, 49, 104, 32, 123, 123, 99, 97, 99, 104, 101, 67, 114, 101, 97, 116, 105, 111, 110, 82, 97, 116, 105, 111, 49, 104, 125, 125]) [nvar ''cacheCreationRatio1h'' (sp_creationRatio1h p)])] else [])
      else if shouldShowLegacyCacheCreation p
      then [(False, tr (Str [32531, 23384, 21019, 24314, 58, 32, 123, 123, 99, 97, 99, 104, 101, 67, 114, 101, 97, 116, 105, 111, 110, 82, 97, 116, 105, 111, 125, 125]) [nvar ''cacheCreationRatio'' (sp_creationRatio p)])] else []) @
     (if sp_image p then [(False, tr (Str [22270, 29255, 36755, 20837, 58, 32, 123, 123, 105, 109, 97, 103, 101, 82, 97, 116, 105, 111, 125, 125]) [nvar ''imageRatio'' (sp_imageRatio p)])] else [])"

definition simple_segments :: "store \<Rightarrow> translate \<Rightarrow> simple_price \<Rightarrow> (bool \<times> jsstr) list" where
  "simple_segments st tr p =
     (True, getGroupRatioText tr (sp_groupRatio p) (sp_userGroupRatio p)) #
     (if sp_modelPrice p \<noteq> Fin (- 1)
      then [(False, if isPriceDisplayMode st (sp_displayMode p) (sp_modelPrice p)
         then tr (Str [27169, 22411, 20215, 26684, 32, 123, 123, 112, 114, 105, 99, 101, 125, 125]) [svar ''price'' (formatCompactDisplayPrice st (sp_modelPrice p) 6)] else tr (Str [25353, 27425]) [])]
      else if isPriceDisplayMode st (sp_displayMode p) (sp_modelPrice p) then price_segments st tr p
      else ratio_segments tr p) @
     (if sp_override p then [(True, override_text tr)] else [])"

text \<open>The text of the same entry, whose parts the source builds once more.\<close>

definition price_parts :: "store \<Rightarrow> translate \<Rightarrow> simple_price \<Rightarrow> jsstr list" where
  "price_parts st tr p =
     (let compact = (\<lambda>x. [svar ''price'' (formatCompactDisplayPrice st x 6)]);
          parts1 = [tr (Str [36755, 20837, 32, 123, 123, 112, 114, 105, 99, 101, 125, 125, 32, 47, 32, 49, 77, 32, 116, 111, 107, 101, 110, 115]) (compact (input_price p))];
          parts2 = (if shouldShowCache p then parts1 @ [tr (Str [32531, 23384, 35835, 32, 123, 123, 112, 114, 105, 99, 101, 125, 125, 32, 47, 32, 49, 77, 32, 116, 111, 107, 101, 110, 115]) (compact (num_mul (input_price p) (sp_cacheRatio p)))] else parts1);
          parts3 = (if hasSplitCacheCreation p \<and> shouldShowCacheCreation5m p
            then parts2 @ [tr (Str [53, 109, 32531, 23384, 21019, 24314, 32, 123, 123, 112, 114, 105, 99, 101, 125, 125, 32, 47, 32, 49, 77, 32, 116, 111, 107, 101, 110, 115]) (compact (num_mul (input_price p) (sp_creationRatio5m p)))] else parts2);
          parts4 = (if hasSplitCacheCreation p \<and> shouldShowCacheCreation1h p
            then parts3 @ [tr (Str [49, 104, 32531, 23384, 21019, 24314, 32, 123, 123, 112, 114, 105, 99, 101, 125, 125, 32, 47, 32, 49, 77, 32, 116, 111, 107, 101, 110, 115]) (compact (num_mul (input_price p) (sp_creationRatio1h p)))] else parts3);
          parts5 = (if \<not> hasSplitCacheCreation p \<and> shouldShowLegacyCacheCreation p
            then parts4 @ [tr (Str [32531, 23384, 21019, 24314, 32, 123, 123, 112, 114, 105, 99, 101, 125, 125, 32, 47, 32, 49, 77, 32, 116, 111, 107, 101, 110, 115]) (compact (num_mul (input_price p) (sp_creationRatio p)))] else parts4);
          parts6 = (if sp_image p then parts5 @ [tr (Str [22270, 29255, 36755, 20837, 32, 123, 123, 112, 114, 105, 99, 101, 125, 125, 32, 47, 32, 49, 77, 32, 116, 111, 107, 101, 110, 115]) (compact (num_mul (input_price p) (sp_imageRatio p)))] else parts5)
      in parts6 @ [getGroupRatioText tr (sp_groupRatio p) (sp_userGroupRatio p)])"

text \<open>In ratio mode the parts are templates, joined and translated again.\<close>

definition ratio_parts :: "translate \<Rightarrow> simple_price \<Rightarrow> jsstr list" where
  "ratio_parts tr p =
     [tr (Str [27169, 22411, 58, 32, 123, 123, 114, 97, 116, 105, 111, 125, 125]) []] @
     (if shouldShowCache p then [tr (Str [32531, 23384, 58, 32, 123, 123, 99, 97, 99, 104, 101, 82, 97, 116, 105, 111, 125, 125]) []] else []) @
     (if hasSplitCacheCreation p then
        (if shouldShowCacheCreation5m p \<and> shouldShowCacheCreation1h p
         then [tr (Str [32531, 23384, 21019, 24314, 58, 32, 53, 109, 32, 123, 123, 99, 97, 99, 104, 101, 67, 114, 101, 97, 116, 105, 111, 110, 82, 97, 116, 105, 111, 53, 109, 125, 125, 32, 47, 32, 49, 104, 32, 123, 123, 99, 97, 99, 104, 101, 67, 114, 101, 97, 116, 105, 111, 110, 82, 97, 116, 105, 111, 49, 104, 125, 125]) []]
         else if shouldShowCacheCreation5m p then [tr (Str [32531, 23384, 21019, 24314, 58, 32, 53, 109, 32, 123, 123, 99, 97, 99, 104, 101, 67, 114, 101, 97, 116, 105, 111, 110, 82, 97, 116, 105, 111, 53, 109, 125, 125]) []]
         else if shouldShowCacheCreation1h p then [tr (Str [32531, 23384, 21019, 24314, 58, 32, 49, 104, 32, 123, 123, 99, 97, 99, 104, 101, 67, 114, 101, 97, 116, 105, 111, 110, 82, 97, 116, 105, 111, 49, 104, 125, 125]) []] else [])
      else if shouldShowLegacyCacheCreation p then [tr (Str [32531, 23384, 21019, 24314, 58, 32, 123, 123, 99, 97, 99, 104, 101, 67, 114, 101, 97, 116, 105, 111, 110, 82, 97, 116, 105, 111, 125, 125]) []] else []) @
     (if sp_image p then [tr (Str [22270, 29255, 36755, 20837, 58, 32, 123, 123, 105, 109, 97, 103, 101, 82, 97, 116, 105, 111, 125, 125]) []] else []) @
     [lit ''{{ratioType}}: {{groupRatio}}'']"

definition with_override :: "translate \<Rightarrow> simple_price \<Rightarrow> jsstr \<Rightarrow> jsstr" where
  "with_override tr p s = (if sp_override p then s @ [10, 13] @ override_text tr else s)"

definition simple_text :: "store \<Rightarrow> translate \<Rightarrow> simple_price \<Rightarrow> jsstr" where
  "simple_text st tr p =
     (let er = getEffectiveRatio tr (sp_groupRatio p) (sp_userGroupRatio p)
      in case getCurrencyConfig st of (symbol, rate, _) \<Rightarrow>
        (let price = svar ''price'' (to_fixed 6 (num_mul (sp_modelPrice p) (to_num rate)))
         in if sp_modelPrice p \<noteq> Fin (- 1) then
              (if isPriceDisplayMode st (sp_displayMode p) (sp_modelPrice p)
               then joinBillingSummary [tr (Str [27169, 22411, 20215, 26684, 65306, 123, 123, 115, 121, 109, 98, 111, 108, 125, 125, 123, 123, 112, 114, 105, 99, 101, 125, 125]) [(lit ''symbol'', symbol), price],
                 getGroupRatioText tr (sp_groupRatio p) (sp_userGroupRatio p)]
               else tr (Str [20215, 26684, 65306, 123, 123, 115, 121, 109, 98, 111, 108, 125, 125, 123, 123, 112, 114, 105, 99, 101, 125, 125, 32, 42, 32, 123, 123, 114, 97, 116, 105, 111, 84, 121, 112, 101, 125, 125, 65306, 123, 123, 114, 97, 116, 105, 111, 125, 125])
                 [(lit ''symbol'', symbol), price, svar ''ratioType'' (er_label er), (lit ''ratio'', er_ratio er)])
            else if isPriceDisplayMode st (sp_displayMode p) (sp_modelPrice p)
            then with_override tr p (joinBillingSummary (price_parts st tr p))
            else with_override tr p (tr (Str (join (lit '' * '') (ratio_parts tr p)))
              [(lit ''ratio'', sp_modelRatio p), svar ''ratioType'' (er_label er), (lit ''groupRatio'', er_ratio er),
               nvar ''cacheRatio'' (sp_cacheRatio p), nvar ''cacheCreationRatio'' (sp_creationRatio p),
               nvar ''cacheCreationRatio5m'' (sp_creationRatio5m p), nvar ''cacheCreationRatio1h'' (sp_creationRatio1h p),
               nvar ''imageRatio'' (sp_imageRatio p)])))"

datatype simple_row = Segments "(bool \<times> jsstr) list" | Summary jsstr

definition renderPriceSimpleCore :: "store \<Rightarrow> translate \<Rightarrow> simple_price \<Rightarrow> simple_row" where
  "renderPriceSimpleCore st tr p =
     (if sp_outputMode p = lit ''segments'' then Segments (simple_segments st tr p) else Summary (simple_text st tr p))"

definition simple_options :: "jsobj \<Rightarrow> simple_price" where
  "simple_options opts = \<lparr>
     sp_modelRatio = obj_get opts (lit ''model_ratio''),
     sp_modelPrice = opt_num opts ''model_price'' (Fin (- 1)),
     sp_groupRatio = obj_get opts (lit ''group_ratio''),
     sp_userGroupRatio = obj_get opts (lit ''user_group_ratio''),
     sp_cacheTokens = opt_num opts ''cache_tokens'' (Fin 0),
     sp_cacheRatio = opt_num opts ''cache_ratio'' (Fin 1),
     sp_creationTokens = opt_num opts ''cache_creation_tokens'' (Fin 0),
     sp_creationRatio = opt_num opts ''cache_creation_ratio'' (Fin 1),
     sp_creationTokens5m = opt_num opts ''cache_creation_tokens_5m'' (Fin 0),
     sp_creationRatio5m = opt_num opts ''cache_creation_ratio_5m'' (Fin 1),
     sp_creationTokens1h = opt_num opts ''cache_creation_tokens_1h'' (Fin 0),
     sp_creationRatio1h = opt_num opts ''cache_creation_ratio_1h'' (Fin 1),
     sp_image = opt_flag opts ''image'',
     sp_imageRatio = opt_num opts ''image_ratio'' (Fin 1),
     sp_override = opt_flag opts ''is_system_prompt_overwritten'',
     sp_displayMode = opt_text opts ''displayMode'' ''price'',
     sp_outputMode = opt_text opts ''outputMode'' ''text''\<rparr>"

definition renderModelPriceSimple :: "store \<Rightarrow> translate \<Rightarrow> jsobj \<Rightarrow> simple_row" where
  "renderModelPriceSimple st tr opts = renderPriceSimpleCore st tr (simple_options opts)"

section \<open>The expanded entry of a model\<close>

text \<open>The numbers of an entry of \<open>renderModelPrice\<close>, with the effective group ratio.\<close>

record log_entry =
  me_input :: jsnum
  me_completion :: jsnum
  me_modelRatio :: jsnum
  me_modelPrice :: jsnum
  me_completionRatio :: jsval
  me_groupRatio :: jsval
  me_label :: jsstr
  me_cache :: jsnum
  me_cacheRatio :: jsnum
  me_image :: bool
  me_imageRatio :: jsnum
  me_imageTokens :: jsnum
  me_webSearch :: bool
  me_webCalls :: jsnum
  me_webPrice :: jsnum
  me_fileSearch :: bool
  me_fileCalls :: jsnum
  me_filePrice :: jsnum
  me_audioSeparate :: bool
  me_audioTokens :: jsnum
  me_audioPrice :: jsnum
  me_generation :: bool
  me_generationPrice :: jsnum

definition log_entry_of :: "translate \<Rightarrow> jsobj \<Rightarrow> log_entry" where
  "log_entry_of tr opts =
     (let er = getEffectiveRatio tr (obj_get opts (lit ''group_ratio'')) (obj_get opts (lit ''user_group_ratio''))
      in \<lparr>me_input = opt_num opts ''prompt_tokens'' (Fin 0),
          me_completion = opt_num opts ''completion_tokens'' (Fin 0),
          me_modelRatio = opt_num opts ''model_ratio'' (Fin 0),
          me_modelPrice = opt_num opts ''model_price'' (Fin (- 1)),
          me_completionRatio = js_coalesce (obj_get opts (lit ''completion_ratio'')) (Num (Fin 0)),
          me_groupRatio = er_ratio er,
          me_label = er_label er,
          me_cache = opt_num opts ''cache_tokens'' (Fin 0),
          me_cacheRatio = opt_num opts ''cache_ratio'' (Fin 1),
          me_image = opt_flag opts ''image'',
          me_imageRatio = opt_num opts ''image_ratio'' (Fin 1),
          me_imageTokens = opt_num opts ''image_output'' (Fin 0),
          me_webSearch = opt_flag opts ''web_search'',
          me_webCalls = opt_num opts ''web_search_call_count'' (Fin 0),
          me_webPrice = opt_num opts ''web_search_price'' (Fin 0),
          me_fileSearch = opt_flag opts ''file_search'',
          me_fileCalls = opt_num opts ''file_search_call_count'' (Fin 0),
          me_filePrice = opt_num opts ''file_search_price'' (Fin 0),
          me_audioSeparate = opt_flag opts ''audio_input_seperate_price'',
          me_audioTokens = opt_num opts ''audio_input_token_count'' (Fin 0),
          me_audioPrice = opt_num opts ''audio_input_price'' (Fin 0),
          me_generation = opt_flag opts ''image_generation_call'',
          me_generationPrice = opt_num opts ''image_generation_call_price'' (Fin 0)\<rparr>)"

abbreviation me_ratio :: "log_entry \<Rightarrow> jsnum" where
  "me_ratio e \<equiv> to_num (me_groupRatio e)"

definition me_inputPrice :: "log_entry \<Rightarrow> jsnum" where
  "me_inputPrice e = num_mul (me_modelRatio e) (Fin 2)"

definition me_completionPrice :: "log_entry \<Rightarrow> jsnum" where
  "me_completionPrice e = num_mul (me_inputPrice e) (to_num (me_completionRatio e))"

definition has_image :: "log_entry \<Rightarrow> bool" where
  "has_image e \<longleftrightarrow> me_image e \<and> positive (me_imageTokens e)"

definition shows_web :: "log_entry \<Rightarrow> bool" where
  "shows_web e \<longleftrightarrow> me_webSearch e \<and> positive (me_webCalls e)"

definition shows_file :: "log_entry \<Rightarrow> bool" where
  "shows_file e \<longleftrightarrow> me_fileSearch e \<and> positive (me_fileCalls e)"

definition shows_generation :: "log_entry \<Rightarrow> bool" where
  "shows_generation e \<longleftrightarrow> me_generation e \<and> positive (me_generationPrice e)"

text \<open>The tokens of the input in price mode, and the total. Images replace the cache in the count.\<close>

definition effectiveInputTokens :: "log_entry \<Rightarrow> jsnum" where
  "effectiveInputTokens e =
     (let cached = num_add (num_sub (me_input e) (me_cache e)) (num_mul (me_cache e) (me_cacheRatio e));
          t = (if has_image e
               then num_add (num_sub (me_input e) (me_imageTokens e)) (num_mul (me_imageTokens e) (me_imageRatio e)) else cached)
      in if positive (me_audioTokens e) then num_sub t (me_audioTokens e) else t)"

definition price_total :: "log_entry \<Rightarrow> jsnum" where
  "price_total e = sum_left
     [per_million (effectiveInputTokens e) (me_inputPrice e) (me_ratio e),
      per_million (me_audioTokens e) (me_audioPrice e) (me_ratio e),
      per_million (me_completion e) (me_completionPrice e) (me_ratio e),
      per_thousand (me_webCalls e) (me_webPrice e) (me_ratio e),
      per_thousand (me_fileCalls e) (me_filePrice e) (me_ratio e),
      num_mul (me_generationPrice e) (me_ratio e)]"

definition inputDesc :: "translate \<Rightarrow> jsval \<Rightarrow> jsval \<Rightarrow> log_entry \<Rightarrow> jsstr" where
  "inputDesc tr symbol rate e =
     (let fmt = (\<lambda>x. formatBillingDisplayPrice x rate 6); inputPrice = me_inputPrice e
      in if has_image e then
           buildBillingPriceText tr [40, 36755, 20837, 32, 123, 123, 110, 111, 110, 73, 109, 97, 103, 101, 73, 110, 112, 117, 116, 125, 125, 32, 116, 111, 107, 101, 110, 115, 32, 43, 32, 22270, 29255, 36755, 20837, 32, 123, 123, 105, 109, 97, 103, 101, 73, 110, 112, 117, 116, 125, 125, 32, 116, 111, 107, 101, 110, 115, 32, 47, 32, 49, 77, 32, 116, 111, 107, 101, 110, 115, 32, 42, 32, 123, 123, 115, 121, 109, 98, 111, 108, 125, 125, 123, 123, 112, 114, 105, 99, 101, 125, 125] symbol inputPrice rate ''price''
             [nvar ''nonImageInput'' (num_sub (me_input e) (me_imageTokens e)), nvar ''imageInput'' (me_imageTokens e)]
         else if positive (me_cache e) then
           buildBillingText tr [40, 36755, 20837, 32, 123, 123, 110, 111, 110, 67, 97, 99, 104, 101, 73, 110, 112, 117, 116, 125, 125, 32, 116, 111, 107, 101, 110, 115, 32, 47, 32, 49, 77, 32, 116, 111, 107, 101, 110, 115, 32, 42, 32, 123, 123, 115, 121, 109, 98, 111, 108, 125, 125, 123, 123, 112, 114, 105, 99, 101, 125, 125, 32, 43, 32, 32531, 23384, 32, 123, 123, 99, 97, 99, 104, 101, 73, 110, 112, 117, 116, 125, 125, 32, 116, 111, 107, 101, 110, 115, 32, 47, 32, 49, 77, 32, 116, 111, 107, 101, 110, 115, 32, 42, 32, 123, 123, 115, 121, 109, 98, 111, 108, 125, 125, 123, 123, 99, 97, 99, 104, 101, 80, 114, 105, 99, 101, 125, 125]
             [nvar ''nonCacheInput'' (num_sub (me_input e) (me_cache e)), nvar ''cacheInput'' (me_cache e), (lit ''symbol'', symbol),
              svar ''price'' (fmt inputPrice), svar ''cachePrice'' (fmt (num_mul inputPrice (me_cacheRatio e)))]
         else if me_audioSeparate e \<and> positive (me_audioTokens e) then
           buildBillingText tr [40, 36755, 20837, 32, 123, 123, 110, 111, 110, 65, 117, 100, 105, 111, 73, 110, 112, 117, 116, 125, 125, 32, 116, 111, 107, 101, 110, 115, 32, 47, 32, 49, 77, 32, 116, 111, 107, 101, 110, 115, 32, 42, 32, 123, 123, 115, 121, 109, 98, 111, 108, 125, 125, 123, 123, 112, 114, 105, 99, 101, 125, 125, 32, 43, 32, 38899, 39057, 36755, 20837, 32, 123, 123, 97, 117, 100, 105, 111, 73, 110, 112, 117, 116, 125, 125, 32, 116, 111, 107, 101, 110, 115, 32, 47, 32, 49, 77, 32, 116, 111, 107, 101, 110, 115, 32, 42, 32, 123, 123, 115, 121, 109, 98, 111, 108, 125, 125, 123, 123, 97, 117, 100, 105, 111, 80, 114, 105, 99, 101, 125, 125]
             [nvar ''nonAudioInput'' (num_sub (me_input e) (me_audioTokens e)), nvar ''audioInput'' (me_audioTokens e), (lit ''symbol'', symbol),
              svar ''price'' (fmt inputPrice), svar ''audioPrice'' (fmt (me_audioPrice e))]
         else buildBillingPriceText tr [40, 36755, 20837, 32, 123, 123, 105, 110, 112, 117, 116, 125, 125, 32, 116, 111, 107, 101, 110, 115, 32, 47, 32, 49, 77, 32, 116, 111, 107, 101, 110, 115, 32, 42, 32, 123, 123, 115, 121, 109, 98, 111, 108, 125, 125, 123, 123, 112, 114, 105, 99, 101, 125, 125] symbol inputPrice rate ''price'' [nvar ''input'' (me_input e)])"

definition outputDesc :: "translate \<Rightarrow> jsval \<Rightarrow> jsval \<Rightarrow> log_entry \<Rightarrow> jsstr" where
  "outputDesc tr symbol rate e =
     buildBillingText tr [36755, 20986, 32, 123, 123, 99, 111, 109, 112, 108, 101, 116, 105, 111, 110, 125, 125, 32, 116, 111, 107, 101, 110, 115, 32, 47, 32, 49, 77, 32, 116, 111, 107, 101, 110, 115, 32, 42, 32, 123, 123, 115, 121, 109, 98, 111, 108, 125, 125, 123, 123, 99, 111, 109, 112, 80, 114, 105, 99, 101, 125, 125, 41, 32, 42, 32, 123, 123, 114, 97, 116, 105, 111, 84, 121, 112, 101, 125, 125, 32, 123, 123, 114, 97, 116, 105, 111, 125, 125]
       [nvar ''completion'' (me_completion e), (lit ''symbol'', symbol), svar ''compPrice'' (formatBillingDisplayPrice (me_completionPrice e) rate 6),
        (lit ''ratio'', me_groupRatio e), svar ''ratioType'' (me_label e)]"

definition extraServices :: "translate \<Rightarrow> jsval \<Rightarrow> jsval \<Rightarrow> log_entry \<Rightarrow> jsstr" where
  "extraServices tr symbol rate e =
     (let group = [(lit ''ratio'', me_groupRatio e), svar ''ratioType'' (me_label e)]
      in line_if (shows_web e) (buildBillingPriceText tr [32, 43, 32, 87, 101, 98, 25628, 32034, 32, 123, 123, 99, 111, 117, 110, 116, 125, 125, 27425, 32, 47, 32, 49, 75, 32, 27425, 32, 42, 32, 123, 123, 115, 121, 109, 98, 111, 108, 125, 125, 123, 123, 112, 114, 105, 99, 101, 125, 125, 32, 42, 32, 123, 123, 114, 97, 116, 105, 111, 84, 121, 112, 101, 125, 125, 32, 123, 123, 114, 97, 116, 105, 111, 125, 125]
             symbol (me_webPrice e) rate ''price'' (nvar ''count'' (me_webCalls e) # group)) @
         line_if (shows_file e) (buildBillingPriceText tr [32, 43, 32, 25991, 20214, 25628, 32034, 32, 123, 123, 99, 111, 117, 110, 116, 125, 125, 27425, 32, 47, 32, 49, 75, 32, 27425, 32, 42, 32, 123, 123, 115, 121, 109, 98, 111, 108, 125, 125, 123, 123, 112, 114, 105, 99, 101, 125, 125, 32, 42, 32, 123, 123, 114, 97, 116, 105, 111, 84, 121, 112, 101, 125, 125, 32, 123, 123, 114, 97, 116, 105, 111, 125, 125]
             symbol (me_filePrice e) rate ''price'' (nvar ''count'' (me_fileCalls e) # group)) @
         line_if (shows_generation e) (buildBillingPriceText tr [32, 43, 32, 22270, 29255, 29983, 25104, 35843, 29992, 32, 123, 123, 115, 121, 109, 98, 111, 108, 125, 125, 123, 123, 112, 114, 105, 99, 101, 125, 125, 32, 47, 32, 49, 27425, 32, 42, 32, 123, 123, 114, 97, 116, 105, 111, 84, 121, 112, 101, 125, 125, 32, 123, 123, 114, 97, 116, 105, 111, 125, 125]
             symbol (me_generationPrice e) rate ''price'' group))"

definition price_lines :: "translate \<Rightarrow> jsval \<Rightarrow> jsval \<Rightarrow> log_entry \<Rightarrow> jsstr list" where
  "price_lines tr symbol rate e =
     (let line = (\<lambda>key x amountKey vars. buildBillingPriceText tr key symbol x rate amountKey vars)
      in [line [36755, 20837, 20215, 26684, 65306, 123, 123, 115, 121, 109, 98, 111, 108, 125, 125, 123, 123, 112, 114, 105, 99, 101, 125, 125, 32, 47, 32, 49, 77, 32, 116, 111, 107, 101, 110, 115, 123, 123, 97, 117, 100, 105, 111, 80, 114, 105, 99, 101, 125, 125] (me_inputPrice e) ''price''
            [svar ''audioPrice'' (line_if (me_audioSeparate e)
               ([65292] @ tr (Str [38899, 39057, 36755, 20837, 20215, 26684]) [] @ lit '' '' @ to_str symbol @ formatBillingDisplayPrice (me_audioPrice e) rate 6 @ lit '' / 1M tokens''))],
          line [36755, 20986, 20215, 26684, 65306, 123, 123, 115, 121, 109, 98, 111, 108, 125, 125, 123, 123, 116, 111, 116, 97, 108, 125, 125, 32, 47, 32, 49, 77, 32, 116, 111, 107, 101, 110, 115] (me_completionPrice e) ''total'' [],
          line_if (positive (me_cache e)) (line [32531, 23384, 35835, 21462, 20215, 26684, 65306, 123, 123, 115, 121, 109, 98, 111, 108, 125, 125, 123, 123, 116, 111, 116, 97, 108, 125, 125, 32, 47, 32, 49, 77, 32, 116, 111, 107, 101, 110, 115] (num_mul (me_inputPrice e) (me_cacheRatio e)) ''total'' []),
          line_if (has_image e) (line [22270, 29255, 36755, 20837, 20215, 26684, 65306, 123, 123, 115, 121, 109, 98, 111, 108, 125, 125, 123, 123, 116, 111, 116, 97, 108, 125, 125, 32, 47, 32, 49, 77, 32, 116, 111, 107, 101, 110, 115] (num_mul (me_inputPrice e) (me_imageRatio e)) ''total'' []),
          line_if (shows_web e) (line [87, 101, 98, 25628, 32034, 20215, 26684, 65306, 123, 123, 115, 121, 109, 98, 111, 108, 125, 125, 123, 123, 112, 114, 105, 99, 101, 125, 125, 32, 47, 32, 49, 75, 32, 27425] (me_webPrice e) ''price'' []),
          line_if (shows_file e) (line [25991, 20214, 25628, 32034, 20215, 26684, 65306, 123, 123, 115, 121, 109, 98, 111, 108, 125, 125, 123, 123, 112, 114, 105, 99, 101, 125, 125, 32, 47, 32, 49, 75, 32, 27425] (me_filePrice e) ''price'' []),
          line_if (shows_generation e) (line [22270, 29255, 29983, 25104, 35843, 29992, 65306, 123, 123, 115, 121, 109, 98, 111, 108, 125, 125, 123, 123, 112, 114, 105, 99, 101, 125, 125, 32, 47, 32, 49, 27425] (me_generationPrice e) ''price'' []),
          buildBillingText tr (lit ''{{inputDesc}} + {{outputDesc}}{{extraServices}} = {{symbol}}{{total}}'')
            [svar ''inputDesc'' (inputDesc tr symbol rate e), svar ''outputDesc'' (outputDesc tr symbol rate e),
             svar ''extraServices'' (extraServices tr symbol rate e), (lit ''symbol'', symbol),
             svar ''total'' (formatBillingDisplayPrice (price_total e) rate 6)]])"

text \<open>The process in ratios, when amounts are shown as tokens: the amount of each line and the condition that shows it.\<close>

definition audioRatioValue :: "log_entry \<Rightarrow> jsnum option" where
  "audioRatioValue e =
     (if me_audioSeparate e \<and> positive (me_audioPrice e) then Some (formatRatioValue (Num (num_div (me_audioPrice e) (me_inputPrice e))) 6) else None)"

definition textInputTokens :: "log_entry \<Rightarrow> jsnum" where
  "textInputTokens e = clamp0 (num_sub (num_sub (me_input e) (me_cache e)) (me_audioTokens e))"

definition imageInputTokens :: "log_entry \<Rightarrow> jsnum" where
  "imageInputTokens e = (if has_image e then me_imageTokens e else Fin 0)"

record ratio_amounts =
  ra_text :: jsnum
  ra_cache :: jsnum
  ra_image :: jsnum
  ra_audio :: jsnum
  ra_completion :: jsnum
  ra_web :: jsnum
  ra_file :: jsnum
  ra_generation :: jsnum

definition ratio_amounts_of :: "log_entry \<Rightarrow> ratio_amounts" where
  "ratio_amounts_of e =
     (let g = me_ratio e; p = me_inputPrice e;
          scaled = (\<lambda>t r. scaled_million t p r g)
      in \<lparr>ra_text = per_million (textInputTokens e) p g,
          ra_cache = scaled (me_cache e) (formatRatioValue (Num (me_cacheRatio e)) 6),
          ra_image = scaled (imageInputTokens e) (formatRatioValue (Num (me_imageRatio e)) 6),
          ra_audio = per_million (me_audioTokens e) (me_audioPrice e) g,
          ra_completion = per_million (me_completion e) (num_mul p (formatRatioValue (me_completionRatio e) 6)) g,
          ra_web = per_thousand (me_webCalls e) (me_webPrice e) g,
          ra_file = per_thousand (me_fileCalls e) (me_filePrice e) g,
          ra_generation = num_mul (me_generationPrice e) g\<rparr>)"

definition ratio_total :: "ratio_amounts \<Rightarrow> jsnum" where
  "ratio_total a = sum_left [ra_text a, ra_cache a, ra_image a, ra_audio a, ra_completion a, ra_web a, ra_file a, ra_generation a]"

definition ratio_header :: "translate \<Rightarrow> log_entry \<Rightarrow> jsstr" where
  "ratio_header tr e = join [65292] (filter (\<lambda>s. s \<noteq> [])
     [buildBillingText tr [27169, 22411, 20493, 29575, 32, 123, 123, 109, 111, 100, 101, 108, 82, 97, 116, 105, 111, 125, 125] [nvar ''modelRatio'' (formatRatioValue (Num (me_modelRatio e)) 6)],
      buildBillingText tr [34917, 20840, 20493, 29575, 32, 123, 123, 99, 111, 109, 112, 108, 101, 116, 105, 111, 110, 82, 97, 116, 105, 111, 125, 125] [nvar ''completionRatio'' (formatRatioValue (me_completionRatio e) 6)],
      line_if (positive (me_cache e)) (buildBillingText tr [32531, 23384, 20493, 29575, 32, 123, 123, 99, 97, 99, 104, 101, 82, 97, 116, 105, 111, 125, 125] [nvar ''cacheRatio'' (formatRatioValue (Num (me_cacheRatio e)) 6)]),
      line_if (positive (imageInputTokens e)) (buildBillingText tr [22270, 29255, 20493, 29575, 32, 123, 123, 105, 109, 97, 103, 101, 82, 97, 116, 105, 111, 125, 125] [nvar ''imageRatio'' (formatRatioValue (Num (me_imageRatio e)) 6)]),
      (case audioRatioValue e of None \<Rightarrow> [] | Some r \<Rightarrow> buildBillingText tr [38899, 39057, 20493, 29575, 32, 123, 123, 97, 117, 100, 105, 111, 82, 97, 116, 105, 111, 125, 125] [nvar ''audioRatio'' r]),
      buildBillingText tr (lit ''{{ratioType}} {{ratio}}'') [svar ''ratioType'' (me_label e), (lit ''ratio'', me_groupRatio e)]])"

text \<open>The lines with an amount: when they are shown, their text, their variables and the amount.\<close>

definition ratio_items :: "store \<Rightarrow> log_entry \<Rightarrow> (bool \<times> jsstr \<times> (jsstr \<times> jsval) list \<times> jsnum) list" where
  "ratio_items st e =
     (let a = ratio_amounts_of e;
          tokens = (\<lambda>t. [nvar ''tokens'' t, nvar ''modelRatio'' (formatRatioValue (Num (me_modelRatio e)) 6)]);
          price = (\<lambda>x. (lit ''price'', renderDisplayAmountFromUsd st (Num x) 6))
      in [(positive (textInputTokens e),
            [26222, 36890, 36755, 20837, 65306, 123, 123, 116, 111, 107, 101, 110, 115, 125, 125, 32, 47, 32, 49, 77, 32, 42, 32, 27169, 22411, 20493, 29575, 32, 123, 123, 109, 111, 100, 101, 108, 82, 97, 116, 105, 111, 125, 125, 32, 42, 32, 123, 123, 114, 97, 116, 105, 111, 84, 121, 112, 101, 125, 125, 32, 123, 123, 114, 97, 116, 105, 111, 125, 125, 32, 61, 32, 123, 123, 97, 109, 111, 117, 110, 116, 125, 125], tokens (textInputTokens e), ra_text a),
          (positive (me_cache e),
            [32531, 23384, 36755, 20837, 65306, 123, 123, 116, 111, 107, 101, 110, 115, 125, 125, 32, 47, 32, 49, 77, 32, 42, 32, 27169, 22411, 20493, 29575, 32, 123, 123, 109, 111, 100, 101, 108, 82, 97, 116, 105, 111, 125, 125, 32, 42, 32, 32531, 23384, 20493, 29575, 32, 123, 123, 99, 97, 99, 104, 101, 82, 97, 116, 105, 111, 125, 125, 32, 42, 32, 123, 123, 114, 97, 116, 105, 111, 84, 121, 112, 101, 125, 125, 32, 123, 123, 114, 97, 116, 105, 111, 125, 125, 32, 61, 32, 123, 123, 97, 109, 111, 117, 110, 116, 125, 125],
            tokens (me_cache e) @ [nvar ''cacheRatio'' (formatRatioValue (Num (me_cacheRatio e)) 6)], ra_cache a),
          (positive (imageInputTokens e),
            [22270, 29255, 36755, 20837, 65306, 123, 123, 116, 111, 107, 101, 110, 115, 125, 125, 32, 47, 32, 49, 77, 32, 42, 32, 27169, 22411, 20493, 29575, 32, 123, 123, 109, 111, 100, 101, 108, 82, 97, 116, 105, 111, 125, 125, 32, 42, 32, 22270, 29255, 20493, 29575, 32, 123, 123, 105, 109, 97, 103, 101, 82, 97, 116, 105, 111, 125, 125, 32, 42, 32, 123, 123, 114, 97, 116, 105, 111, 84, 121, 112, 101, 125, 125, 32, 123, 123, 114, 97, 116, 105, 111, 125, 125, 32, 61, 32, 123, 123, 97, 109, 111, 117, 110, 116, 125, 125],
            tokens (imageInputTokens e) @ [nvar ''imageRatio'' (formatRatioValue (Num (me_imageRatio e)) 6)], ra_image a),
          (positive (me_audioTokens e) \<and> audioRatioValue e \<noteq> None,
            [38899, 39057, 36755, 20837, 65306, 123, 123, 116, 111, 107, 101, 110, 115, 125, 125, 32, 47, 32, 49, 77, 32, 42, 32, 27169, 22411, 20493, 29575, 32, 123, 123, 109, 111, 100, 101, 108, 82, 97, 116, 105, 111, 125, 125, 32, 42, 32, 38899, 39057, 20493, 29575, 32, 123, 123, 97, 117, 100, 105, 111, 82, 97, 116, 105, 111, 125, 125, 32, 42, 32, 123, 123, 114, 97, 116, 105, 111, 84, 121, 112, 101, 125, 125, 32, 123, 123, 114, 97, 116, 105, 111, 125, 125, 32, 61, 32, 123, 123, 97, 109, 111, 117, 110, 116, 125, 125],
            tokens (me_audioTokens e) @ [(lit ''audioRatio'', case audioRatioValue e of None \<Rightarrow> Null | Some r \<Rightarrow> Num r)], ra_audio a),
          (True,
            [36755, 20986, 65306, 123, 123, 116, 111, 107, 101, 110, 115, 125, 125, 32, 47, 32, 49, 77, 32, 42, 32, 27169, 22411, 20493, 29575, 32, 123, 123, 109, 111, 100, 101, 108, 82, 97, 116, 105, 111, 125, 125, 32, 42, 32, 34917, 20840, 20493, 29575, 32, 123, 123, 99, 111, 109, 112, 108, 101, 116, 105, 111, 110, 82, 97, 116, 105, 111, 125, 125, 32, 42, 32, 123, 123, 114, 97, 116, 105, 111, 84, 121, 112, 101, 125, 125, 32, 123, 123, 114, 97, 116, 105, 111, 125, 125, 32, 61, 32, 123, 123, 97, 109, 111, 117, 110, 116, 125, 125],
            tokens (me_completion e) @ [nvar ''completionRatio'' (formatRatioValue (me_completionRatio e) 6)], ra_completion a),
          (shows_web e, [87, 101, 98, 32, 25628, 32034, 65306, 123, 123, 99, 111, 117, 110, 116, 125, 125, 32, 47, 32, 49, 75, 32, 42, 32, 21333, 20215, 32, 123, 123, 112, 114, 105, 99, 101, 125, 125, 32, 42, 32, 123, 123, 114, 97, 116, 105, 111, 84, 121, 112, 101, 125, 125, 32, 123, 123, 114, 97, 116, 105, 111, 125, 125, 32, 61, 32, 123, 123, 97, 109, 111, 117, 110, 116, 125, 125],
            [nvar ''count'' (me_webCalls e), price (me_webPrice e)], ra_web a),
          (shows_file e, [25991, 20214, 25628, 32034, 65306, 123, 123, 99, 111, 117, 110, 116, 125, 125, 32, 47, 32, 49, 75, 32, 42, 32, 21333, 20215, 32, 123, 123, 112, 114, 105, 99, 101, 125, 125, 32, 42, 32, 123, 123, 114, 97, 116, 105, 111, 84, 121, 112, 101, 125, 125, 32, 123, 123, 114, 97, 116, 105, 111, 125, 125, 32, 61, 32, 123, 123, 97, 109, 111, 117, 110, 116, 125, 125],
            [nvar ''count'' (me_fileCalls e), price (me_filePrice e)], ra_file a),
          (shows_generation e, [22270, 29255, 29983, 25104, 65306, 49, 32, 27425, 32, 42, 32, 21333, 20215, 32, 123, 123, 112, 114, 105, 99, 101, 125, 125, 32, 42, 32, 123, 123, 114, 97, 116, 105, 111, 84, 121, 112, 101, 125, 125, 32, 123, 123, 114, 97, 116, 105, 111, 125, 125, 32, 61, 32, 123, 123, 97, 109, 111, 117, 110, 116, 125, 125],
            [price (me_generationPrice e)], ra_generation a)])"

definition ratio_line :: "store \<Rightarrow> translate \<Rightarrow> log_entry \<Rightarrow> bool \<times> jsstr \<times> (jsstr \<times> jsval) list \<times> jsnum \<Rightarrow> jsstr" where
  "ratio_line st tr e item = (case item of (shown, key, vars, x) \<Rightarrow>
     line_if shown (buildBillingText tr key (vars @
       [svar ''ratioType'' (me_label e), (lit ''ratio'', me_groupRatio e), (lit ''amount'', renderDisplayAmountFromUsd st (Num x) 6)])))"

definition ratio_lines :: "store \<Rightarrow> translate \<Rightarrow> log_entry \<Rightarrow> jsstr list" where
  "ratio_lines st tr e = ratio_header tr e # map (ratio_line st tr e) (ratio_items st e) @
     [buildBillingText tr [21512, 35745, 65306, 123, 123, 116, 111, 116, 97, 108, 125, 125] [(lit ''total'', renderDisplayAmountFromUsd st (Num (ratio_total (ratio_amounts_of e))) 6)]]"

definition renderModelPrice :: "store \<Rightarrow> translate \<Rightarrow> jsobj \<Rightarrow> breakdown" where
  "renderModelPrice st tr opts =
     (let e = log_entry_of tr opts; modelPrice = me_modelPrice e;
          er = getEffectiveRatio tr (obj_get opts (lit ''group_ratio'')) (obj_get opts (lit ''user_group_ratio''))
      in case getCurrencyConfig st of (symbol, rate, _) \<Rightarrow>
        (if \<not> shouldUseRatioBillingProcess st modelPrice then
           (if modelPrice \<noteq> Fin (- 1)
            then per_call_article tr [25353, 27425, 65306, 123, 123, 115, 121, 109, 98, 111, 108, 125, 125, 123, 123, 112, 114, 105, 99, 101, 125, 125] [25353, 27425, 32, 123, 123, 115, 121, 109, 98, 111, 108, 125, 125, 123, 123, 112, 114, 105, 99, 101, 125, 125, 32, 42, 32, 123, 123, 114, 97, 116, 105, 111, 84, 121, 112, 101, 125, 125, 32, 123, 123, 114, 97, 116, 105, 111, 125, 125, 32, 61, 32, 123, 123, 115, 121, 109, 98, 111, 108, 125, 125, 123, 123, 116, 111, 116, 97, 108, 125, 125] symbol rate modelPrice er
            else Article (renderBillingArticle tr (price_lines tr symbol rate e)))
         else if modelPrice \<noteq> Fin (- 1)
         then per_call_message tr [25353, 27425, 65306, 123, 123, 115, 121, 109, 98, 111, 108, 125, 125, 123, 123, 112, 114, 105, 99, 101, 125, 125, 32, 42, 32, 123, 123, 114, 97, 116, 105, 111, 84, 121, 112, 101, 125, 125, 65306, 123, 123, 114, 97, 116, 105, 111, 125, 125, 32, 61, 32, 123, 123, 115, 121, 109, 98, 111, 108, 125, 125, 123, 123, 116, 111, 116, 97, 108, 125, 125] symbol rate modelPrice er
         else Article (renderBillingArticle tr (ratio_lines st tr e))))"

section \<open>The text of an entry\<close>

text \<open>\<open>modelRatio * 2.0 * ratio * rate\<close> with six digits, as a variable.\<close>

definition unit_price :: "jsval \<Rightarrow> jsval \<Rightarrow> jsval \<Rightarrow> jsnum option \<Rightarrow> (jsstr \<times> jsval) list" where
  "unit_price symbol rate modelRatio r =
     (let base = num_mul (to_num modelRatio) (Fin 2); x = (case r of None \<Rightarrow> base | Some y \<Rightarrow> num_mul base y)
      in [(lit ''symbol'', symbol), svar ''price'' (to_fixed 6 (num_mul x (to_num rate)))])"

text \<open>The two texts of a price per call.\<close>

definition call_price_text :: "translate \<Rightarrow> jsval \<Rightarrow> jsval \<Rightarrow> jsnum \<Rightarrow> jsval \<Rightarrow> jsval \<Rightarrow> jsstr" where
  "call_price_text tr symbol rate modelPrice groupRatio user_group_ratio = joinBillingSummary
     [tr (Str [27169, 22411, 20215, 26684, 32, 123, 123, 115, 121, 109, 98, 111, 108, 125, 125, 123, 123, 112, 114, 105, 99, 101, 125, 125, 32, 47, 32, 27425]) [(lit ''symbol'', symbol), svar ''price'' (to_fixed 6 (num_mul modelPrice (to_num rate)))],
      getGroupRatioText tr groupRatio user_group_ratio]"

definition call_ratio_text :: "translate \<Rightarrow> jsval \<Rightarrow> jsval \<Rightarrow> jsnum \<Rightarrow> effective_ratio \<Rightarrow> jsstr" where
  "call_ratio_text tr symbol rate modelPrice er = tr (Str [27169, 22411, 20215, 26684, 32, 123, 123, 115, 121, 109, 98, 111, 108, 125, 125, 123, 123, 112, 114, 105, 99, 101, 125, 125, 65292, 123, 123, 114, 97, 116, 105, 111, 84, 121, 112, 101, 125, 125, 32, 123, 123, 114, 97, 116, 105, 111, 125, 125])
     [(lit ''symbol'', symbol), svar ''price'' (to_fixed 6 (num_mul modelPrice (to_num rate))), svar ''ratioType'' (er_label er),
      (lit ''ratio'', er_ratio er)]"

definition log_price_parts :: "translate \<Rightarrow> jsval \<Rightarrow> jsval \<Rightarrow> jsobj \<Rightarrow> jsstr list" where
  "log_price_parts tr symbol rate opts =
     (let modelRatio = obj_get opts (lit ''model_ratio''); unit = unit_price symbol rate modelRatio;
          cacheRatio = opt_num opts ''cache_ratio'' (Fin 1);
          parts1 = [tr (Str [36755, 20837, 20215, 26684, 32, 123, 123, 115, 121, 109, 98, 111, 108, 125, 125, 123, 123, 112, 114, 105, 99, 101, 125, 125, 32, 47, 32, 49, 77, 32, 116, 111, 107, 101, 110, 115]) (unit None),
                    tr (Str [36755, 20986, 20215, 26684, 32, 123, 123, 115, 121, 109, 98, 111, 108, 125, 125, 123, 123, 112, 114, 105, 99, 101, 125, 125, 32, 47, 32, 49, 77, 32, 116, 111, 107, 101, 110, 115]) (unit (Some (to_num (obj_get opts (lit ''completion_ratio'')))))];
          parts2 = appendPricePart tr parts1 (cacheRatio \<noteq> Fin 1) [32531, 23384, 35835, 21462, 20215, 26684, 32, 123, 123, 115, 121, 109, 98, 111, 108, 125, 125, 123, 123, 112, 114, 105, 99, 101, 125, 125, 32, 47, 32, 49, 77, 32, 116, 111, 107, 101, 110, 115] (unit (Some cacheRatio));
          parts3 = appendPricePart tr parts2 (opt_flag opts ''image'') [22270, 29255, 36755, 20837, 20215, 26684, 32, 123, 123, 115, 121, 109, 98, 111, 108, 125, 125, 123, 123, 112, 114, 105, 99, 101, 125, 125, 32, 47, 32, 49, 77, 32, 116, 111, 107, 101, 110, 115] (unit (Some (opt_num opts ''image_ratio'' (Fin 1))));
          parts4 = appendPricePart tr parts3 (opt_flag opts ''web_search'') [87, 101, 98, 32, 25628, 32034, 35843, 29992, 32, 123, 123, 119, 101, 98, 83, 101, 97, 114, 99, 104, 67, 97, 108, 108, 67, 111, 117, 110, 116, 125, 125, 32, 27425]
            [nvar ''webSearchCallCount'' (opt_num opts ''web_search_call_count'' (Fin 0))];
          parts5 = appendPricePart tr parts4 (opt_flag opts ''file_search'') [25991, 20214, 25628, 32034, 35843, 29992, 32, 123, 123, 102, 105, 108, 101, 83, 101, 97, 114, 99, 104, 67, 97, 108, 108, 67, 111, 117, 110, 116, 125, 125, 32, 27425]
            [nvar ''fileSearchCallCount'' (opt_num opts ''file_search_call_count'' (Fin 0))]
      in parts5 @ [getGroupRatioText tr (obj_get opts (lit ''group_ratio'')) (obj_get opts (lit ''user_group_ratio''))])"

definition log_ratio_text :: "translate \<Rightarrow> effective_ratio \<Rightarrow> jsobj \<Rightarrow> jsstr" where
  "log_ratio_text tr er opts =
     (let vars = [(lit ''modelRatio'', obj_get opts (lit ''model_ratio'')), nvar ''cacheRatio'' (opt_num opts ''cache_ratio'' (Fin 1)),
            (lit ''completionRatio'', obj_get opts (lit ''completion_ratio''))];
          group = [svar ''ratioType'' (er_label er), (lit ''ratio'', er_ratio er)]
      in if opt_flag opts ''image'' then
           tr (Str [27169, 22411, 20493, 29575, 32, 123, 123, 109, 111, 100, 101, 108, 82, 97, 116, 105, 111, 125, 125, 65292, 32531, 23384, 20493, 29575, 32, 123, 123, 99, 97, 99, 104, 101, 82, 97, 116, 105, 111, 125, 125, 65292, 36755, 20986, 20493, 29575, 32, 123, 123, 99, 111, 109, 112, 108, 101, 116, 105, 111, 110, 82, 97, 116, 105, 111, 125, 125, 65292, 22270, 29255, 36755, 20837, 20493, 29575, 32, 123, 123, 105, 109, 97, 103, 101, 82, 97, 116, 105, 111, 125, 125, 65292, 123, 123, 114, 97, 116, 105, 111, 84, 121, 112, 101, 125, 125, 32, 123, 123, 114, 97, 116, 105, 111, 125, 125])
             (vars @ nvar ''imageRatio'' (opt_num opts ''image_ratio'' (Fin 1)) # group)
         else if opt_flag opts ''web_search'' then
           tr (Str [27169, 22411, 20493, 29575, 32, 123, 123, 109, 111, 100, 101, 108, 82, 97, 116, 105, 111, 125, 125, 65292, 32531, 23384, 20493, 29575, 32, 123, 123, 99, 97, 99, 104, 101, 82, 97, 116, 105, 111, 125, 125, 65292, 36755, 20986, 20493, 29575, 32, 123, 123, 99, 111, 109, 112, 108, 101, 116, 105, 111, 110, 82, 97, 116, 105, 111, 125, 125, 65292, 123, 123, 114, 97, 116, 105, 111, 84, 121, 112, 101, 125, 125, 32, 123, 123, 114, 97, 116, 105, 111, 125, 125, 65292, 87, 101, 98, 32, 25628, 32034, 35843, 29992, 32, 123, 123, 119, 101, 98, 83, 101, 97, 114, 99, 104, 67, 97, 108, 108, 67, 111, 117, 110, 116, 125, 125, 32, 27425])
             (vars @ group @ [nvar ''webSearchCallCount'' (opt_num opts ''web_search_call_count'' (Fin 0))])
         else tr (Str [27169, 22411, 20493, 29575, 32, 123, 123, 109, 111, 100, 101, 108, 82, 97, 116, 105, 111, 125, 125, 65292, 32531, 23384, 20493, 29575, 32, 123, 123, 99, 97, 99, 104, 101, 82, 97, 116, 105, 111, 125, 125, 65292, 36755, 20986, 20493, 29575, 32, 123, 123, 99, 111, 109, 112, 108, 101, 116, 105, 111, 110, 82, 97, 116, 105, 111, 125, 125, 65292, 123, 123, 114, 97, 116, 105, 111, 84, 121, 112, 101, 125, 125, 32, 123, 123, 114, 97, 116, 105, 111, 125, 125]) (vars @ group))"

definition renderLogContent :: "store \<Rightarrow> translate \<Rightarrow> jsobj \<Rightarrow> jsstr" where
  "renderLogContent st tr opts =
     (let groupRatio = obj_get opts (lit ''group_ratio''); user = obj_get opts (lit ''user_group_ratio'');
          modelPrice = opt_num opts ''model_price'' (Fin (- 1)); er = getEffectiveRatio tr groupRatio user
      in case getCurrencyConfig st of (symbol, rate, _) \<Rightarrow>
        (if isPriceDisplayMode st (opt_text opts ''displayMode'' ''price'') modelPrice then
           (if modelPrice \<noteq> Fin (- 1) then call_price_text tr symbol rate modelPrice groupRatio user
            else joinBillingSummary (log_price_parts tr symbol rate opts))
         else if modelPrice \<noteq> Fin (- 1) then call_ratio_text tr symbol rate modelPrice er
         else log_ratio_text tr er opts))"

section \<open>Video tasks\<close>

definition video_num :: "jsval \<Rightarrow> jsnum" where
  "video_num v = (let n = to_num v in if is_finite n then n else Fin 0)"

text \<open>What the entry says of the amounts: taken in advance, actual, and the difference.\<close>

definition video_stage :: "jsval \<Rightarrow> jsval" where
  "video_stage other = js_or (opt_prop other (lit ''billing_stage''))
     (Str (if nullish (opt_prop other (lit ''task_id'')) then lit ''pre_consume'' else lit ''settlement''))"

definition video_settlement :: "store \<Rightarrow> translate \<Rightarrow> jsval \<Rightarrow> jsstr list" where
  "video_settlement st tr other =
     (let pre = to_num (opt_prop other (lit ''pre_consumed_quota'')); hasPreConsumed = is_finite pre;
          act = to_num (opt_prop other (lit ''actual_quota'')); hasActual = is_finite act;
          preConsumed = (if hasPreConsumed then pre else Fin 0); actual = (if hasActual then act else preConsumed);
          delta = to_num (opt_prop other (lit ''settlement_delta''));
          rawDelta = (if is_finite delta then delta else num_sub actual preConsumed);
          isRefund = num_lt rawDelta (Fin 0);
          amount = (\<lambda>x. renderQuota st (Num x) 6)
      in if video_stage other = Str (lit ''pre_consume'') then
           buildBillingText tr [35270, 39057, 20219, 21153, 39044, 25187] [] #
           (if hasPreConsumed then [buildBillingText tr [39044, 25187, 32, 123, 123, 97, 109, 111, 117, 110, 116, 125, 125] [(lit ''amount'', amount preConsumed)]] else [])
         else if hasPreConsumed \<and> hasActual then
           [if isRefund then buildBillingText tr [35270, 39057, 20219, 21153, 36864, 27454] [] else buildBillingText tr [35270, 39057, 20219, 21153, 34917, 25187] [],
            buildBillingText tr (if isRefund then [39044, 25187, 32, 123, 123, 112, 114, 101, 125, 125, 65292, 23454, 38469, 32, 123, 123, 97, 99, 116, 117, 97, 108, 125, 125, 65292, 36864, 36824, 32, 123, 123, 100, 101, 108, 116, 97, 125, 125] else [39044, 25187, 32, 123, 123, 112, 114, 101, 125, 125, 65292, 23454, 38469, 32, 123, 123, 97, 99, 116, 117, 97, 108, 125, 125, 65292, 34917, 25187, 32, 123, 123, 100, 101, 108, 116, 97, 125, 125])
              [(lit ''pre'', amount preConsumed), (lit ''actual'', amount actual), (lit ''delta'', amount (math_abs rawDelta))]]
         else [])"

definition video_items :: "translate \<Rightarrow> jsval \<Rightarrow> jsval \<Rightarrow> jsval \<Rightarrow> jsstr list" where
  "video_items tr symbol rate detail =
     (let get = (\<lambda>k. opt_prop detail (lit k)); num = (\<lambda>k. video_num (get k));
          price = (\<lambda>k. [(lit ''symbol'', symbol), svar ''price'' (formatBillingDisplayPrice (num k) rate 6)])
      in (if positive (num ''output'') then [buildBillingText tr [36755, 20986, 32, 123, 123, 114, 101, 115, 111, 108, 117, 116, 105, 111, 110, 125, 125, 32, 123, 123, 115, 101, 99, 111, 110, 100, 115, 125, 125, 32, 31186, 65306, 123, 123, 115, 121, 109, 98, 111, 108, 125, 125, 123, 123, 112, 114, 105, 99, 101, 125, 125]
            ([(lit ''resolution'', js_or (get ''resolution'') (Str (lit ''-''))), nvar ''seconds'' (num ''output_seconds'')] @ price ''output'')] else []) @
         (if positive (num ''image'') then [buildBillingText tr [36755, 20837, 22270, 29255, 32, 123, 123, 110, 125, 125, 32, 24352, 65306, 123, 123, 115, 121, 109, 98, 111, 108, 125, 125, 123, 123, 112, 114, 105, 99, 101, 125, 125] (nvar ''n'' (num ''image_count'') # price ''image'')] else []) @
         (if positive (num ''video'') then [buildBillingText tr [36755, 20837, 35270, 39057, 32, 123, 123, 115, 101, 99, 111, 110, 100, 115, 125, 125, 32, 31186, 65306, 123, 123, 115, 121, 109, 98, 111, 108, 125, 125, 123, 123, 112, 114, 105, 99, 101, 125, 125] (nvar ''seconds'' (num ''video_seconds'') # price ''video'')] else []) @
         (if positive (num ''audio'') then [buildBillingText tr [36755, 20837, 38899, 39057, 32, 123, 123, 115, 101, 99, 111, 110, 100, 115, 125, 125, 32, 31186, 65306, 123, 123, 115, 121, 109, 98, 111, 108, 125, 125, 123, 123, 112, 114, 105, 99, 101, 125, 125] (nvar ''seconds'' (num ''audio_seconds'') # price ''audio'')] else []))"

definition renderVideoBillingProcess :: "store \<Rightarrow> translate \<Rightarrow> jsval \<Rightarrow> breakdown" where
  "renderVideoBillingProcess st tr other =
     (let detail = js_or (opt_prop other (lit ''video_billing'')) (Obj []);
          er = getEffectiveRatio tr (opt_prop other (lit ''group_ratio'')) (opt_prop other (lit ''user_group_ratio''));
          sum = video_num (opt_prop detail (lit ''total''))
      in case getCurrencyConfig st of (symbol, rate, _) \<Rightarrow>
        Article (renderBillingArticle tr (video_settlement st tr other @ video_items tr symbol rate detail @
          [buildBillingText tr [21512, 35745, 32, 123, 123, 115, 121, 109, 98, 111, 108, 125, 125, 123, 123, 115, 117, 98, 116, 111, 116, 97, 108, 125, 125, 32, 42, 32, 123, 123, 114, 97, 116, 105, 111, 84, 121, 112, 101, 125, 125, 65306, 123, 123, 114, 97, 116, 105, 111, 125, 125, 32, 61, 32, 123, 123, 115, 121, 109, 98, 111, 108, 125, 125, 123, 123, 116, 111, 116, 97, 108, 125, 125]
            [(lit ''symbol'', symbol), svar ''subtotal'' (formatBillingDisplayPrice sum rate 6), svar ''ratioType'' (er_label er),
             (lit ''ratio'', er_ratio er),
             svar ''total'' (formatBillingDisplayPrice (video_num (Num (num_mul sum (to_num (er_ratio er))))) rate 6)]])))"

definition renderTaskBillingProcess :: "translate \<Rightarrow> jsval \<Rightarrow> jsstr \<Rightarrow> breakdown" where
  "renderTaskBillingProcess tr other content =
     (if \<not> nullish (opt_prop other (lit ''task_id'')) then Article (filter (\<lambda>l. l \<noteq> []) [content])
      else Article (renderBillingArticle tr [buildBillingText tr [20219, 21153, 39044, 25187, 36153, 65288, 23558, 22312, 20219, 21153, 23436, 25104, 21518, 25353, 23454, 38469, 116, 111, 107, 101, 110, 37325, 31639, 65289] []]))"

definition renderQuotaWithPrompt :: "store \<Rightarrow> translate \<Rightarrow> jsval \<Rightarrow> nat \<Rightarrow> jsstr" where
  "renderQuotaWithPrompt st tr quota digits =
     (if getQuotaDisplayType st \<noteq> lit ''TOKENS'' then tr (Str [31561, 20215, 37329, 39069, 65306]) [] @ to_str (renderQuota st quota digits) else [])"

section \<open>Audio\<close>

record audio_entry =
  ae_input :: jsnum
  ae_completion :: jsnum
  ae_modelRatio :: jsnum
  ae_completionRatio :: jsval
  ae_audioInput :: jsnum
  ae_audioCompletion :: jsnum
  ae_audioRatio :: jsstr
  ae_audioCompletionRatio :: jsval
  ae_cache :: jsnum
  ae_cacheRatio :: jsnum

text \<open>The audio ratio is a text of six digits; arithmetic reads it as a number.\<close>

definition audio_entry_of :: "jsobj \<Rightarrow> audio_entry" where
  "audio_entry_of opts = \<lparr>
     ae_input = opt_num opts ''prompt_tokens'' (Fin 0), ae_completion = opt_num opts ''completion_tokens'' (Fin 0),
     ae_modelRatio = opt_num opts ''model_ratio'' (Fin 0),
     ae_completionRatio = js_coalesce (obj_get opts (lit ''completion_ratio'')) (Num (Fin 0)),
     ae_audioInput = opt_num opts ''audio_input'' (Fin 0), ae_audioCompletion = opt_num opts ''audio_output'' (Fin 0),
     ae_audioRatio = to_fixed 6 (parse_float (to_str (js_coalesce (obj_get opts (lit ''audio_ratio'')) (Num (Fin 0))))),
     ae_audioCompletionRatio = js_coalesce (obj_get opts (lit ''audio_completion_ratio'')) (Num (Fin 0)),
     ae_cache = opt_num opts ''cache_tokens'' (Fin 0), ae_cacheRatio = opt_num opts ''cache_ratio'' (Fin 1)\<rparr>"

text \<open>Text and audio part of the total, from the ratios that are used.\<close>

definition audio_totals :: "audio_entry \<Rightarrow> jsnum \<Rightarrow> jsnum \<Rightarrow> jsnum \<Rightarrow> jsnum \<Rightarrow> jsnum \<Rightarrow> jsnum \<times> jsnum" where
  "audio_totals e g completionRatio cacheRatio audioRatio audioCompletionRatio =
     (let p = num_mul (ae_modelRatio e) (Fin 2);
          effective = num_add (num_sub (ae_input e) (ae_cache e)) (num_mul (ae_cache e) cacheRatio)
      in (num_add (per_million effective p g) (per_million (ae_completion e) (num_mul p completionRatio) g),
          num_add (scaled_million (ae_audioInput e) p audioRatio g)
            (num_mul (num_mul (num_mul (num_mul (num_div (ae_audioCompletion e) (Fin 1000000)) p) audioRatio) audioCompletionRatio) g)))"

definition audio_price_lines :: "translate \<Rightarrow> jsval \<Rightarrow> jsval \<Rightarrow> effective_ratio \<Rightarrow> audio_entry \<Rightarrow> jsstr list" where
  "audio_price_lines tr symbol rate er e =
     (let p = num_mul (ae_modelRatio e) (Fin 2); completionRatio = to_num (ae_completionRatio e); cp = num_mul p completionRatio;
          ar = str_to_num (ae_audioRatio e); acr = to_num (ae_audioCompletionRatio e);
          fmt = (\<lambda>k x. svar k (formatBillingDisplayPrice x rate 6));
          line = (\<lambda>key x. buildBillingPriceText tr key symbol x rate ''price'' []);
          t = audio_totals e (to_num (er_ratio er)) completionRatio (ae_cacheRatio e) ar acr
      in [line [36755, 20837, 20215, 26684, 65306, 123, 123, 115, 121, 109, 98, 111, 108, 125, 125, 123, 123, 112, 114, 105, 99, 101, 125, 125, 32, 47, 32, 49, 77, 32, 116, 111, 107, 101, 110, 115] p, line [36755, 20986, 20215, 26684, 65306, 123, 123, 115, 121, 109, 98, 111, 108, 125, 125, 123, 123, 112, 114, 105, 99, 101, 125, 125, 32, 47, 32, 49, 77, 32, 116, 111, 107, 101, 110, 115] cp,
          line_if (positive (ae_cache e)) (line [32531, 23384, 35835, 21462, 20215, 26684, 65306, 123, 123, 115, 121, 109, 98, 111, 108, 125, 125, 123, 123, 112, 114, 105, 99, 101, 125, 125, 32, 47, 32, 49, 77, 32, 116, 111, 107, 101, 110, 115] (num_mul p (ae_cacheRatio e))),
          line [38899, 39057, 36755, 20837, 20215, 26684, 65306, 123, 123, 115, 121, 109, 98, 111, 108, 125, 125, 123, 123, 112, 114, 105, 99, 101, 125, 125, 32, 47, 32, 49, 77, 32, 116, 111, 107, 101, 110, 115] (num_mul p ar),
          line [38899, 39057, 34917, 20840, 20215, 26684, 65306, 123, 123, 115, 121, 109, 98, 111, 108, 125, 125, 123, 123, 112, 114, 105, 99, 101, 125, 125, 32, 47, 32, 49, 77, 32, 116, 111, 107, 101, 110, 115] (num_mul (num_mul p ar) acr),
          buildBillingText tr [25991, 23383, 25552, 31034, 32, 123, 123, 105, 110, 112, 117, 116, 125, 125, 32, 116, 111, 107, 101, 110, 115, 32, 47, 32, 49, 77, 32, 116, 111, 107, 101, 110, 115, 32, 42, 32, 123, 123, 115, 121, 109, 98, 111, 108, 125, 125, 123, 123, 116, 101, 120, 116, 73, 110, 112, 117, 116, 80, 114, 105, 99, 101, 125, 125, 32, 43, 32, 25991, 23383, 34917, 20840, 32, 123, 123, 99, 111, 109, 112, 108, 101, 116, 105, 111, 110, 125, 125, 32, 116, 111, 107, 101, 110, 115, 32, 47, 32, 49, 77, 32, 116, 111, 107, 101, 110, 115, 32, 42, 32, 123, 123, 115, 121, 109, 98, 111, 108, 125, 125, 123, 123, 116, 101, 120, 116, 67, 111, 109, 112, 80, 114, 105, 99, 101, 125, 125, 32, 43, 32, 38899, 39057, 25552, 31034, 32, 123, 123, 97, 117, 100, 105, 111, 73, 110, 112, 117, 116, 125, 125, 32, 116, 111, 107, 101, 110, 115, 32, 47, 32, 49, 77, 32, 116, 111, 107, 101, 110, 115, 32, 42, 32, 123, 123, 115, 121, 109, 98, 111, 108, 125, 125, 123, 123, 97, 117, 100, 105, 111, 73, 110, 112, 117, 116, 80, 114, 105, 99, 101, 125, 125, 32, 43, 32, 38899, 39057, 34917, 20840, 32, 123, 123, 97, 117, 100, 105, 111, 67, 111, 109, 112, 108, 101, 116, 105, 111, 110, 125, 125, 32, 116, 111, 107, 101, 110, 115, 32, 47, 32, 49, 77, 32, 116, 111, 107, 101, 110, 115, 32, 42, 32, 123, 123, 115, 121, 109, 98, 111, 108, 125, 125, 123, 123, 97, 117, 100, 105, 111, 67, 111, 109, 112, 80, 114, 105, 99, 101, 125, 125, 32, 42, 32, 123, 123, 114, 97, 116, 105, 111, 84, 121, 112, 101, 125, 125, 32, 123, 123, 114, 97, 116, 105, 111, 125, 125, 32, 61, 32, 123, 123, 115, 121, 109, 98, 111, 108, 125, 125, 123, 123, 116, 111, 116, 97, 108, 125, 125]
            [nvar ''input'' (ae_input e), nvar ''completion'' (ae_completion e), nvar ''audioInput'' (ae_audioInput e),
             nvar ''audioCompletion'' (ae_audioCompletion e), fmt ''textInputPrice'' p, fmt ''textCompPrice'' cp,
             fmt ''audioInputPrice'' (num_mul ar p), fmt ''audioCompPrice'' (num_mul (num_mul ar acr) p),
             svar ''ratioType'' (er_label er), (lit ''ratio'', er_ratio er), (lit ''symbol'', symbol), fmt ''total'' (num_add (fst t) (snd t))]])"

definition audio_ratio_lines :: "store \<Rightarrow> translate \<Rightarrow> effective_ratio \<Rightarrow> audio_entry \<Rightarrow> jsstr list" where
  "audio_ratio_lines st tr er e =
     (let mr = formatRatioValue (Num (ae_modelRatio e)) 6; cor = formatRatioValue (ae_completionRatio e) 6;
          car = formatRatioValue (Num (ae_cacheRatio e)) 6; ar = formatRatioValue (Str (ae_audioRatio e)) 6;
          acr = formatRatioValue (ae_audioCompletionRatio e) 6;
          g = to_num (er_ratio er); p = num_mul (ae_modelRatio e) (Fin 2); plain = clamp0 (num_sub (ae_input e) (ae_cache e));
          shown = (\<lambda>x. renderDisplayAmountFromUsd st (Num x) 6);
          tokens = (\<lambda>t. [nvar ''tokens'' t, nvar ''modelRatio'' mr]);
          group = [svar ''ratioType'' (er_label er), (lit ''ratio'', er_ratio er)];
          amount = (\<lambda>x. group @ [(lit ''amount'', shown x)]);
          scaled = (\<lambda>t r. scaled_million t p r g);
          t = audio_totals e g cor car ar acr
      in [buildBillingText tr [27169, 22411, 20493, 29575, 32, 123, 123, 109, 111, 100, 101, 108, 82, 97, 116, 105, 111, 125, 125, 65292, 34917, 20840, 20493, 29575, 32, 123, 123, 99, 111, 109, 112, 108, 101, 116, 105, 111, 110, 82, 97, 116, 105, 111, 125, 125, 65292, 38899, 39057, 20493, 29575, 32, 123, 123, 97, 117, 100, 105, 111, 82, 97, 116, 105, 111, 125, 125, 65292, 38899, 39057, 34917, 20840, 20493, 29575, 32, 123, 123, 97, 117, 100, 105, 111, 67, 111, 109, 112, 108, 101, 116, 105, 111, 110, 82, 97, 116, 105, 111, 125, 125, 65292, 123, 123, 99, 97, 99, 104, 101, 80, 97, 114, 116, 125, 125, 123, 123, 114, 97, 116, 105, 111, 84, 121, 112, 101, 125, 125, 32, 123, 123, 114, 97, 116, 105, 111, 125, 125]
            ([nvar ''modelRatio'' mr, nvar ''completionRatio'' cor, nvar ''audioRatio'' ar, nvar ''audioCompletionRatio'' acr,
              svar ''cachePart'' (line_if (positive (ae_cache e)) (tr (Str [32531, 23384, 20493, 29575]) [] @ lit '' '' @ num_to_str car @ [65292]))] @ group),
          buildBillingText tr [26222, 36890, 36755, 20837, 65306, 123, 123, 116, 111, 107, 101, 110, 115, 125, 125, 32, 47, 32, 49, 77, 32, 42, 32, 27169, 22411, 20493, 29575, 32, 123, 123, 109, 111, 100, 101, 108, 82, 97, 116, 105, 111, 125, 125, 32, 42, 32, 123, 123, 114, 97, 116, 105, 111, 84, 121, 112, 101, 125, 125, 32, 123, 123, 114, 97, 116, 105, 111, 125, 125, 32, 61, 32, 123, 123, 97, 109, 111, 117, 110, 116, 125, 125]
            (tokens plain @ amount (per_million plain p g)),
          line_if (positive (ae_cache e)) (buildBillingText tr
            [32531, 23384, 36755, 20837, 65306, 123, 123, 116, 111, 107, 101, 110, 115, 125, 125, 32, 47, 32, 49, 77, 32, 42, 32, 27169, 22411, 20493, 29575, 32, 123, 123, 109, 111, 100, 101, 108, 82, 97, 116, 105, 111, 125, 125, 32, 42, 32, 32531, 23384, 20493, 29575, 32, 123, 123, 99, 97, 99, 104, 101, 82, 97, 116, 105, 111, 125, 125, 32, 42, 32, 123, 123, 114, 97, 116, 105, 111, 84, 121, 112, 101, 125, 125, 32, 123, 123, 114, 97, 116, 105, 111, 125, 125, 32, 61, 32, 123, 123, 97, 109, 111, 117, 110, 116, 125, 125]
            (tokens (ae_cache e) @ nvar ''cacheRatio'' car # amount (scaled (ae_cache e) car))),
          buildBillingText tr [25991, 23383, 36755, 20986, 65306, 123, 123, 116, 111, 107, 101, 110, 115, 125, 125, 32, 47, 32, 49, 77, 32, 42, 32, 27169, 22411, 20493, 29575, 32, 123, 123, 109, 111, 100, 101, 108, 82, 97, 116, 105, 111, 125, 125, 32, 42, 32, 34917, 20840, 20493, 29575, 32, 123, 123, 99, 111, 109, 112, 108, 101, 116, 105, 111, 110, 82, 97, 116, 105, 111, 125, 125, 32, 42, 32, 123, 123, 114, 97, 116, 105, 111, 84, 121, 112, 101, 125, 125, 32, 123, 123, 114, 97, 116, 105, 111, 125, 125, 32, 61, 32, 123, 123, 97, 109, 111, 117, 110, 116, 125, 125]
            (tokens (ae_completion e) @ nvar ''completionRatio'' cor # amount (scaled (ae_completion e) cor)),
          buildBillingText tr [38899, 39057, 36755, 20837, 65306, 123, 123, 116, 111, 107, 101, 110, 115, 125, 125, 32, 47, 32, 49, 77, 32, 42, 32, 27169, 22411, 20493, 29575, 32, 123, 123, 109, 111, 100, 101, 108, 82, 97, 116, 105, 111, 125, 125, 32, 42, 32, 38899, 39057, 20493, 29575, 32, 123, 123, 97, 117, 100, 105, 111, 82, 97, 116, 105, 111, 125, 125, 32, 42, 32, 123, 123, 114, 97, 116, 105, 111, 84, 121, 112, 101, 125, 125, 32, 123, 123, 114, 97, 116, 105, 111, 125, 125, 32, 61, 32, 123, 123, 97, 109, 111, 117, 110, 116, 125, 125]
            (tokens (ae_audioInput e) @ nvar ''audioRatio'' ar # amount (scaled (ae_audioInput e) ar)),
          buildBillingText tr [38899, 39057, 36755, 20986, 65306, 123, 123, 116, 111, 107, 101, 110, 115, 125, 125, 32, 47, 32, 49, 77, 32, 42, 32, 27169, 22411, 20493, 29575, 32, 123, 123, 109, 111, 100, 101, 108, 82, 97, 116, 105, 111, 125, 125, 32, 42, 32, 38899, 39057, 20493, 29575, 32, 123, 123, 97, 117, 100, 105, 111, 82, 97, 116, 105, 111, 125, 125, 32, 42, 32, 38899, 39057, 34917, 20840, 20493, 29575, 32, 123, 123, 97, 117, 100, 105, 111, 67, 111, 109, 112, 108, 101, 116, 105, 111, 110, 82, 97, 116, 105, 111, 125, 125, 32, 42, 32, 123, 123, 114, 97, 116, 105, 111, 84, 121, 112, 101, 125, 125, 32, 123, 123, 114, 97, 116, 105, 111, 125, 125, 32, 61, 32, 123, 123, 97, 109, 111, 117, 110, 116, 125, 125]
            (tokens (ae_audioCompletion e) @ [nvar ''audioRatio'' ar, nvar ''audioCompletionRatio'' acr] @
             amount (num_mul (num_mul (num_mul (num_mul (num_div (ae_audioCompletion e) (Fin 1000000)) p) ar) acr) g)),
          buildBillingText tr [21512, 35745, 65306, 25991, 23383, 37096, 20998, 32, 123, 123, 116, 101, 120, 116, 84, 111, 116, 97, 108, 125, 125, 32, 43, 32, 38899, 39057, 37096, 20998, 32, 123, 123, 97, 117, 100, 105, 111, 84, 111, 116, 97, 108, 125, 125, 32, 61, 32, 123, 123, 116, 111, 116, 97, 108, 125, 125]
            [(lit ''textTotal'', shown (fst t)), (lit ''audioTotal'', shown (snd t)), (lit ''total'', shown (num_add (fst t) (snd t)))]])"

definition renderAudioModelPrice :: "store \<Rightarrow> translate \<Rightarrow> jsobj \<Rightarrow> breakdown" where
  "renderAudioModelPrice st tr opts =
     (let modelPrice = opt_num opts ''model_price'' (Fin (- 1)); e = audio_entry_of opts;
          er = getEffectiveRatio tr (obj_get opts (lit ''group_ratio'')) (obj_get opts (lit ''user_group_ratio''))
      in case getCurrencyConfig st of (symbol, rate, _) \<Rightarrow>
        (if \<not> shouldUseRatioBillingProcess st modelPrice then
           (if modelPrice \<noteq> Fin (- 1)
            then per_call_article tr [27169, 22411, 20215, 26684, 65306, 123, 123, 115, 121, 109, 98, 111, 108, 125, 125, 123, 123, 112, 114, 105, 99, 101, 125, 125, 32, 47, 32, 27425] [27169, 22411, 20215, 26684, 32, 123, 123, 115, 121, 109, 98, 111, 108, 125, 125, 123, 123, 112, 114, 105, 99, 101, 125, 125, 32, 47, 32, 27425, 32, 42, 32, 123, 123, 114, 97, 116, 105, 111, 84, 121, 112, 101, 125, 125, 32, 123, 123, 114, 97, 116, 105, 111, 125, 125, 32, 61, 32, 123, 123, 115, 121, 109, 98, 111, 108, 125, 125, 123, 123, 116, 111, 116, 97, 108, 125, 125] symbol rate modelPrice er
            else Article (renderBillingArticle tr (audio_price_lines tr symbol rate er e)))
         else if modelPrice \<noteq> Fin (- 1)
         then per_call_message tr [27169, 22411, 20215, 26684, 65306, 123, 123, 115, 121, 109, 98, 111, 108, 125, 125, 123, 123, 112, 114, 105, 99, 101, 125, 125, 32, 42, 32, 123, 123, 114, 97, 116, 105, 111, 84, 121, 112, 101, 125, 125, 65306, 123, 123, 114, 97, 116, 105, 111, 125, 125, 32, 61, 32, 123, 123, 115, 121, 109, 98, 111, 108, 125, 125, 123, 123, 116, 111, 116, 97, 108, 125, 125] symbol rate modelPrice er
         else Article (renderBillingArticle tr (audio_ratio_lines st tr er e))))"

section \<open>Claude\<close>

text \<open>Cache tokens come on top of the input here, and the creation of the cache is counted in two lifetimes or as one.\<close>

record claude_entry =
  cl_input :: jsnum
  cl_completion :: jsnum
  cl_modelRatio :: jsnum
  cl_completionRatio :: jsval
  cl_cache :: jsnum
  cl_cacheRatio :: jsnum
  cl_creation :: jsnum
  cl_creationRatio :: jsnum
  cl_creation5m :: jsnum
  cl_creationRatio5m :: jsnum
  cl_creation1h :: jsnum
  cl_creationRatio1h :: jsnum

definition claude_entry_of :: "jsobj \<Rightarrow> claude_entry" where
  "claude_entry_of opts = \<lparr>
     cl_input = opt_num opts ''prompt_tokens'' (Fin 0), cl_completion = opt_num opts ''completion_tokens'' (Fin 0),
     cl_modelRatio = opt_num opts ''model_ratio'' (Fin 0),
     cl_completionRatio = js_coalesce (obj_get opts (lit ''completion_ratio'')) (Num (Fin 0)),
     cl_cache = opt_num opts ''cache_tokens'' (Fin 0), cl_cacheRatio = opt_num opts ''cache_ratio'' (Fin 1),
     cl_creation = opt_num opts ''cache_creation_tokens'' (Fin 0), cl_creationRatio = opt_num opts ''cache_creation_ratio'' (Fin 1),
     cl_creation5m = opt_num opts ''cache_creation_tokens_5m'' (Fin 0), cl_creationRatio5m = opt_num opts ''cache_creation_ratio_5m'' (Fin 1),
     cl_creation1h = opt_num opts ''cache_creation_tokens_1h'' (Fin 0), cl_creationRatio1h = opt_num opts ''cache_creation_ratio_1h'' (Fin 1)\<rparr>"

definition cl_split :: "claude_entry \<Rightarrow> bool" where
  "cl_split e \<longleftrightarrow> positive (cl_creation5m e) \<or> positive (cl_creation1h e)"

definition cl_legacy :: "claude_entry \<Rightarrow> bool" where
  "cl_legacy e \<longleftrightarrow> \<not> cl_split e \<and> positive (cl_creation e)"

definition cl_inputPrice :: "claude_entry \<Rightarrow> jsnum" where
  "cl_inputPrice e = num_mul (cl_modelRatio e) (Fin 2)"

text \<open>The total, from the ratios that are used: those of the entry or the rounded ones.\<close>

definition claude_total :: "claude_entry \<Rightarrow> jsnum \<Rightarrow> jsnum \<Rightarrow> jsnum \<Rightarrow> jsnum \<Rightarrow> jsnum \<Rightarrow> jsnum \<Rightarrow> jsnum" where
  "claude_total e g completionRatio cacheRatio creationRatio ratio5m ratio1h =
     (let legacy = (if cl_split e then Fin 0 else cl_creation e);
          effective = sum_left [cl_input e, num_mul (cl_cache e) cacheRatio, num_mul legacy creationRatio,
            num_mul (cl_creation5m e) ratio5m, num_mul (cl_creation1h e) ratio1h]
      in num_add (per_million effective (cl_inputPrice e) g) (per_million (cl_completion e) (num_mul (cl_inputPrice e) completionRatio) g))"

definition breakdownSegments :: "translate \<Rightarrow> jsval \<Rightarrow> jsval \<Rightarrow> claude_entry \<Rightarrow> jsstr list" where
  "breakdownSegments tr symbol rate e =
     (let p = cl_inputPrice e; price = (\<lambda>x. [(lit ''symbol'', symbol), svar ''price'' (to_fixed 6 (num_mul x (to_num rate)))])
      in [tr (Str [25552, 31034, 32, 123, 123, 105, 110, 112, 117, 116, 125, 125, 32, 116, 111, 107, 101, 110, 115, 32, 47, 32, 49, 77, 32, 116, 111, 107, 101, 110, 115, 32, 42, 32, 123, 123, 115, 121, 109, 98, 111, 108, 125, 125, 123, 123, 112, 114, 105, 99, 101, 125, 125]) (nvar ''input'' (cl_input e) # price p)] @
         (if positive (cl_cache e) then [tr (Str [32531, 23384, 32, 123, 123, 116, 111, 107, 101, 110, 115, 125, 125, 32, 116, 111, 107, 101, 110, 115, 32, 47, 32, 49, 77, 32, 116, 111, 107, 101, 110, 115, 32, 42, 32, 123, 123, 115, 121, 109, 98, 111, 108, 125, 125, 123, 123, 112, 114, 105, 99, 101, 125, 125])
            (nvar ''tokens'' (cl_cache e) # price (num_mul p (cl_cacheRatio e)))] else []) @
         (if cl_legacy e then [tr (Str [32531, 23384, 21019, 24314, 32, 123, 123, 116, 111, 107, 101, 110, 115, 125, 125, 32, 116, 111, 107, 101, 110, 115, 32, 47, 32, 49, 77, 32, 116, 111, 107, 101, 110, 115, 32, 42, 32, 123, 123, 115, 121, 109, 98, 111, 108, 125, 125, 123, 123, 112, 114, 105, 99, 101, 125, 125])
            (nvar ''tokens'' (cl_creation e) # price (num_mul p (cl_creationRatio e)))] else []) @
         (if cl_split e \<and> positive (cl_creation5m e) then [tr (Str [53, 109, 32531, 23384, 21019, 24314, 32, 123, 123, 116, 111, 107, 101, 110, 115, 125, 125, 32, 116, 111, 107, 101, 110, 115, 32, 47, 32, 49, 77, 32, 116, 111, 107, 101, 110, 115, 32, 42, 32, 123, 123, 115, 121, 109, 98, 111, 108, 125, 125, 123, 123, 112, 114, 105, 99, 101, 125, 125])
            (nvar ''tokens'' (cl_creation5m e) # price (num_mul p (cl_creationRatio5m e)))] else []) @
         (if cl_split e \<and> positive (cl_creation1h e) then [tr (Str [49, 104, 32531, 23384, 21019, 24314, 32, 123, 123, 116, 111, 107, 101, 110, 115, 125, 125, 32, 116, 111, 107, 101, 110, 115, 32, 47, 32, 49, 77, 32, 116, 111, 107, 101, 110, 115, 32, 42, 32, 123, 123, 115, 121, 109, 98, 111, 108, 125, 125, 123, 123, 112, 114, 105, 99, 101, 125, 125])
            (nvar ''tokens'' (cl_creation1h e) # price (num_mul p (cl_creationRatio1h e)))] else []) @
         [tr (Str [34917, 20840, 32, 123, 123, 99, 111, 109, 112, 108, 101, 116, 105, 111, 110, 125, 125, 32, 116, 111, 107, 101, 110, 115, 32, 47, 32, 49, 77, 32, 116, 111, 107, 101, 110, 115, 32, 42, 32, 123, 123, 115, 121, 109, 98, 111, 108, 125, 125, 123, 123, 112, 114, 105, 99, 101, 125, 125])
            (nvar ''completion'' (cl_completion e) # price (num_mul p (to_num (cl_completionRatio e))))])"

definition claude_price_lines :: "translate \<Rightarrow> jsval \<Rightarrow> jsval \<Rightarrow> effective_ratio \<Rightarrow> claude_entry \<Rightarrow> jsstr list" where
  "claude_price_lines tr symbol rate er e =
     (let p = cl_inputPrice e; line = (\<lambda>key x. buildBillingPriceText tr key symbol x rate ''price'' [])
      in [line [36755, 20837, 20215, 26684, 65306, 123, 123, 115, 121, 109, 98, 111, 108, 125, 125, 123, 123, 112, 114, 105, 99, 101, 125, 125, 32, 47, 32, 49, 77, 32, 116, 111, 107, 101, 110, 115] p,
          line [36755, 20986, 20215, 26684, 65306, 123, 123, 115, 121, 109, 98, 111, 108, 125, 125, 123, 123, 112, 114, 105, 99, 101, 125, 125, 32, 47, 32, 49, 77, 32, 116, 111, 107, 101, 110, 115] (num_mul p (to_num (cl_completionRatio e))),
          line_if (positive (cl_cache e)) (line [32531, 23384, 35835, 21462, 20215, 26684, 65306, 123, 123, 115, 121, 109, 98, 111, 108, 125, 125, 123, 123, 112, 114, 105, 99, 101, 125, 125, 32, 47, 32, 49, 77, 32, 116, 111, 107, 101, 110, 115] (num_mul p (cl_cacheRatio e))),
          line_if (cl_legacy e) (line [32531, 23384, 21019, 24314, 20215, 26684, 65306, 123, 123, 115, 121, 109, 98, 111, 108, 125, 125, 123, 123, 112, 114, 105, 99, 101, 125, 125, 32, 47, 32, 49, 77, 32, 116, 111, 107, 101, 110, 115] (num_mul p (cl_creationRatio e))),
          line_if (cl_split e \<and> positive (cl_creation5m e)) (line [53, 109, 32531, 23384, 21019, 24314, 20215, 26684, 65306, 123, 123, 115, 121, 109, 98, 111, 108, 125, 125, 123, 123, 112, 114, 105, 99, 101, 125, 125, 32, 47, 32, 49, 77, 32, 116, 111, 107, 101, 110, 115] (num_mul p (cl_creationRatio5m e))),
          line_if (cl_split e \<and> positive (cl_creation1h e)) (line [49, 104, 32531, 23384, 21019, 24314, 20215, 26684, 65306, 123, 123, 115, 121, 109, 98, 111, 108, 125, 125, 123, 123, 112, 114, 105, 99, 101, 125, 125, 32, 47, 32, 49, 77, 32, 116, 111, 107, 101, 110, 115] (num_mul p (cl_creationRatio1h e))),
          buildBillingText tr (lit ''{{breakdown}} * {{ratioType}} {{ratio}} = {{symbol}}{{total}}'')
            [svar ''breakdown'' (join (lit '' + '') (breakdownSegments tr symbol rate e)), svar ''ratioType'' (er_label er),
             (lit ''ratio'', er_ratio er), (lit ''symbol'', symbol),
             svar ''total'' (formatBillingDisplayPrice (claude_total e (to_num (er_ratio er)) (to_num (cl_completionRatio e)) (cl_cacheRatio e)
               (cl_creationRatio e) (cl_creationRatio5m e) (cl_creationRatio1h e)) rate 6)]])"

definition claude_ratio_header :: "translate \<Rightarrow> effective_ratio \<Rightarrow> claude_entry \<Rightarrow> jsstr list" where
  "claude_ratio_header tr er e =
     [buildBillingText tr [27169, 22411, 20493, 29575, 32, 123, 123, 109, 111, 100, 101, 108, 82, 97, 116, 105, 111, 125, 125, 65292, 36755, 20986, 20493, 29575, 32, 123, 123, 99, 111, 109, 112, 108, 101, 116, 105, 111, 110, 82, 97, 116, 105, 111, 125, 125, 65292, 32531, 23384, 20493, 29575, 32, 123, 123, 99, 97, 99, 104, 101, 82, 97, 116, 105, 111, 125, 125, 65292, 123, 123, 114, 97, 116, 105, 111, 84, 121, 112, 101, 125, 125, 32, 123, 123, 114, 97, 116, 105, 111, 125, 125]
        [nvar ''modelRatio'' (formatRatioValue (Num (cl_modelRatio e)) 6), nvar ''completionRatio'' (formatRatioValue (cl_completionRatio e) 6),
         nvar ''cacheRatio'' (formatRatioValue (Num (cl_cacheRatio e)) 6), svar ''ratioType'' (er_label er), (lit ''ratio'', er_ratio er)],
      if cl_split e then buildBillingText tr [32531, 23384, 21019, 24314, 20493, 29575, 32, 53, 109, 32, 123, 123, 99, 97, 99, 104, 101, 67, 114, 101, 97, 116, 105, 111, 110, 82, 97, 116, 105, 111, 53, 109, 125, 125, 32, 47, 32, 49, 104, 32, 123, 123, 99, 97, 99, 104, 101, 67, 114, 101, 97, 116, 105, 111, 110, 82, 97, 116, 105, 111, 49, 104, 125, 125]
        [nvar ''cacheCreationRatio5m'' (formatRatioValue (Num (cl_creationRatio5m e)) 6), nvar ''cacheCreationRatio1h'' (formatRatioValue (Num (cl_creationRatio1h e)) 6)]
      else buildBillingText tr [32531, 23384, 21019, 24314, 20493, 29575, 32, 123, 123, 99, 97, 99, 104, 101, 67, 114, 101, 97, 116, 105, 111, 110, 82, 97, 116, 105, 111, 125, 125] [nvar ''cacheCreationRatio'' (formatRatioValue (Num (cl_creationRatio e)) 6)]]"

definition claude_ratio_lines :: "store \<Rightarrow> translate \<Rightarrow> effective_ratio \<Rightarrow> claude_entry \<Rightarrow> jsstr list" where
  "claude_ratio_lines st tr er e =
     (let mr = formatRatioValue (Num (cl_modelRatio e)) 6; cor = formatRatioValue (cl_completionRatio e) 6;
          car = formatRatioValue (Num (cl_cacheRatio e)) 6; ccr = formatRatioValue (Num (cl_creationRatio e)) 6;
          c5 = formatRatioValue (Num (cl_creationRatio5m e)) 6; c1 = formatRatioValue (Num (cl_creationRatio1h e)) 6;
          g = to_num (er_ratio er); p = cl_inputPrice e;
          shown = (\<lambda>x. renderDisplayAmountFromUsd st (Num x) 6);
          tokens = (\<lambda>t. [nvar ''tokens'' t, nvar ''modelRatio'' mr]);
          amount = (\<lambda>x. [svar ''ratioType'' (er_label er), (lit ''ratio'', er_ratio er), (lit ''amount'', shown x)]);
          scaled = (\<lambda>t r. scaled_million t p r g)
      in claude_ratio_header tr er e @
         [buildBillingText tr [26222, 36890, 36755, 20837, 65306, 123, 123, 116, 111, 107, 101, 110, 115, 125, 125, 32, 47, 32, 49, 77, 32, 42, 32, 27169, 22411, 20493, 29575, 32, 123, 123, 109, 111, 100, 101, 108, 82, 97, 116, 105, 111, 125, 125, 32, 42, 32, 123, 123, 114, 97, 116, 105, 111, 84, 121, 112, 101, 125, 125, 32, 123, 123, 114, 97, 116, 105, 111, 125, 125, 32, 61, 32, 123, 123, 97, 109, 111, 117, 110, 116, 125, 125]
            (tokens (cl_input e) @ amount (per_million (cl_input e) p g)),
          line_if (positive (cl_cache e)) (buildBillingText tr
            [32531, 23384, 35835, 21462, 65306, 123, 123, 116, 111, 107, 101, 110, 115, 125, 125, 32, 47, 32, 49, 77, 32, 42, 32, 27169, 22411, 20493, 29575, 32, 123, 123, 109, 111, 100, 101, 108, 82, 97, 116, 105, 111, 125, 125, 32, 42, 32, 32531, 23384, 20493, 29575, 32, 123, 123, 99, 97, 99, 104, 101, 82, 97, 116, 105, 111, 125, 125, 32, 42, 32, 123, 123, 114, 97, 116, 105, 111, 84, 121, 112, 101, 125, 125, 32, 123, 123, 114, 97, 116, 105, 111, 125, 125, 32, 61, 32, 123, 123, 97, 109, 111, 117, 110, 116, 125, 125]
            (tokens (cl_cache e) @ nvar ''cacheRatio'' car # amount (scaled (cl_cache e) car))),
          line_if (cl_legacy e) (buildBillingText tr
            [32531, 23384, 21019, 24314, 65306, 123, 123, 116, 111, 107, 101, 110, 115, 125, 125, 32, 47, 32, 49, 77, 32, 42, 32, 27169, 22411, 20493, 29575, 32, 123, 123, 109, 111, 100, 101, 108, 82, 97, 116, 105, 111, 125, 125, 32, 42, 32, 32531, 23384, 21019, 24314, 20493, 29575, 32, 123, 123, 99, 97, 99, 104, 101, 67, 114, 101, 97, 116, 105, 111, 110, 82, 97, 116, 105, 111, 125, 125, 32, 42, 32, 123, 123, 114, 97, 116, 105, 111, 84, 121, 112, 101, 125, 125, 32, 123, 123, 114, 97, 116, 105, 111, 125, 125, 32, 61, 32, 123, 123, 97, 109, 111, 117, 110, 116, 125, 125]
            (tokens (cl_creation e) @ nvar ''cacheCreationRatio'' ccr # amount (scaled (cl_creation e) ccr))),
          line_if (cl_split e \<and> positive (cl_creation5m e)) (buildBillingText tr
            [53, 109, 32531, 23384, 21019, 24314, 65306, 123, 123, 116, 111, 107, 101, 110, 115, 125, 125, 32, 47, 32, 49, 77, 32, 42, 32, 27169, 22411, 20493, 29575, 32, 123, 123, 109, 111, 100, 101, 108, 82, 97, 116, 105, 111, 125, 125, 32, 42, 32, 53, 109, 32531, 23384, 21019, 24314, 20493, 29575, 32, 123, 123, 99, 97, 99, 104, 101, 67, 114, 101, 97, 116, 105, 111, 110, 82, 97, 116, 105, 111, 53, 109, 125, 125, 32, 42, 32, 123, 123, 114, 97, 116, 105, 111, 84, 121, 112, 101, 125, 125, 32, 123, 123, 114, 97, 116, 105, 111, 125, 125, 32, 61, 32, 123, 123, 97, 109, 111, 117, 110, 116, 125, 125]
            (tokens (cl_creation5m e) @ nvar ''cacheCreationRatio5m'' c5 # amount (scaled (cl_creation5m e) c5))),
          line_if (cl_split e \<and> positive (cl_creation1h e)) (buildBillingText tr
            [49, 104, 32531, 23384, 21019, 24314, 65306, 123, 123, 116, 111, 107, 101, 110, 115, 125, 125, 32, 47, 32, 49, 77, 32, 42, 32, 27169, 22411, 20493, 29575, 32, 123, 123, 109, 111, 100, 101, 108, 82, 97, 116, 105, 111, 125, 125, 32, 42, 32, 49, 104, 32531, 23384, 21019, 24314, 20493, 29575, 32, 123, 123, 99, 97, 99, 104, 101, 67, 114, 101, 97, 116, 105, 111, 110, 82, 97, 116, 105, 111, 49, 104, 125, 125, 32, 42, 32, 123, 123, 114, 97, 116, 105, 111, 84, 121, 112, 101, 125, 125, 32, 123, 123, 114, 97, 116, 105, 111, 125, 125, 32, 61, 32, 123, 123, 97, 109, 111, 117, 110, 116, 125, 125]
            (tokens (cl_creation1h e) @ nvar ''cacheCreationRatio1h'' c1 # amount (scaled (cl_creation1h e) c1))),
          buildBillingText tr [34917, 20840, 32, 123, 123, 99, 111, 109, 112, 108, 101, 116, 105, 111, 110, 125, 125, 32, 116, 111, 107, 101, 110, 115, 32, 42, 32, 36755, 20986, 20493, 29575, 32, 123, 123, 99, 111, 109, 112, 108, 101, 116, 105, 111, 110, 82, 97, 116, 105, 111, 125, 125] [nvar ''completion'' (cl_completion e), nvar ''completionRatio'' cor],
          buildBillingText tr [36755, 20986, 65306, 123, 123, 116, 111, 107, 101, 110, 115, 125, 125, 32, 47, 32, 49, 77, 32, 42, 32, 27169, 22411, 20493, 29575, 32, 123, 123, 109, 111, 100, 101, 108, 82, 97, 116, 105, 111, 125, 125, 32, 42, 32, 36755, 20986, 20493, 29575, 32, 123, 123, 99, 111, 109, 112, 108, 101, 116, 105, 111, 110, 82, 97, 116, 105, 111, 125, 125, 32, 42, 32, 123, 123, 114, 97, 116, 105, 111, 84, 121, 112, 101, 125, 125, 32, 123, 123, 114, 97, 116, 105, 111, 125, 125, 32, 61, 32, 123, 123, 97, 109, 111, 117, 110, 116, 125, 125]
            (tokens (cl_completion e) @ nvar ''completionRatio'' cor # amount (scaled (cl_completion e) cor)),
          buildBillingText tr [21512, 35745, 65306, 123, 123, 116, 111, 116, 97, 108, 125, 125] [(lit ''total'', shown (claude_total e g cor car ccr c5 c1))]])"

definition renderClaudeModelPrice :: "store \<Rightarrow> translate \<Rightarrow> jsobj \<Rightarrow> breakdown" where
  "renderClaudeModelPrice st tr opts =
     (let modelPrice = opt_num opts ''model_price'' (Fin (- 1)); e = claude_entry_of opts;
          er = getEffectiveRatio tr (obj_get opts (lit ''group_ratio'')) (obj_get opts (lit ''user_group_ratio''))
      in case getCurrencyConfig st of (symbol, rate, _) \<Rightarrow>
        (if \<not> shouldUseRatioBillingProcess st modelPrice then
           (if modelPrice \<noteq> Fin (- 1)
            then per_call_article tr [27169, 22411, 20215, 26684, 65306, 123, 123, 115, 121, 109, 98, 111, 108, 125, 125, 123, 123, 112, 114, 105, 99, 101, 125, 125, 32, 47, 32, 27425] [27169, 22411, 20215, 26684, 32, 123, 123, 115, 121, 109, 98, 111, 108, 125, 125, 123, 123, 112, 114, 105, 99, 101, 125, 125, 32, 47, 32, 27425, 32, 42, 32, 123, 123, 114, 97, 116, 105, 111, 84, 121, 112, 101, 125, 125, 32, 123, 123, 114, 97, 116, 105, 111, 125, 125, 32, 61, 32, 123, 123, 115, 121, 109, 98, 111, 108, 125, 125, 123, 123, 116, 111, 116, 97, 108, 125, 125] symbol rate modelPrice er
            else Article (renderBillingArticle tr (claude_price_lines tr symbol rate er e)))
         else if modelPrice \<noteq> Fin (- 1)
         then per_call_message tr [27169, 22411, 20215, 26684, 65306, 123, 123, 115, 121, 109, 98, 111, 108, 125, 125, 123, 123, 112, 114, 105, 99, 101, 125, 125, 32, 42, 32, 123, 123, 114, 97, 116, 105, 111, 84, 121, 112, 101, 125, 125, 65306, 123, 123, 114, 97, 116, 105, 111, 125, 125, 32, 61, 32, 123, 123, 115, 121, 109, 98, 111, 108, 125, 125, 123, 123, 116, 111, 116, 97, 108, 125, 125] symbol rate modelPrice er
         else Article (renderBillingArticle tr (claude_ratio_lines st tr er e))))"

text \<open>The text of a Claude entry. The price texts of the group use the effective ratio again.\<close>

definition claude_log_parts :: "translate \<Rightarrow> jsval \<Rightarrow> jsval \<Rightarrow> effective_ratio \<Rightarrow> jsobj \<Rightarrow> jsstr list" where
  "claude_log_parts tr symbol rate er opts =
     (let e = claude_entry_of opts; unit = unit_price symbol rate (obj_get opts (lit ''model_ratio''));
          parts1 = [tr (Str [36755, 20837, 20215, 26684, 32, 123, 123, 115, 121, 109, 98, 111, 108, 125, 125, 123, 123, 112, 114, 105, 99, 101, 125, 125, 32, 47, 32, 49, 77, 32, 116, 111, 107, 101, 110, 115]) (unit None),
                    tr (Str [36755, 20986, 20215, 26684, 32, 123, 123, 115, 121, 109, 98, 111, 108, 125, 125, 123, 123, 112, 114, 105, 99, 101, 125, 125, 32, 47, 32, 49, 77, 32, 116, 111, 107, 101, 110, 115]) (unit (Some (to_num (obj_get opts (lit ''completion_ratio''))))),
                    tr (Str [32531, 23384, 35835, 21462, 20215, 26684, 32, 123, 123, 115, 121, 109, 98, 111, 108, 125, 125, 123, 123, 112, 114, 105, 99, 101, 125, 125, 32, 47, 32, 49, 77, 32, 116, 111, 107, 101, 110, 115]) (unit (Some (cl_cacheRatio e)))];
          parts2 = appendPricePart tr parts1 (cl_split e \<and> positive (cl_creation5m e)) [53, 109, 32531, 23384, 21019, 24314, 20215, 26684, 32, 123, 123, 115, 121, 109, 98, 111, 108, 125, 125, 123, 123, 112, 114, 105, 99, 101, 125, 125, 32, 47, 32, 49, 77, 32, 116, 111, 107, 101, 110, 115] (unit (Some (cl_creationRatio5m e)));
          parts3 = appendPricePart tr parts2 (cl_split e \<and> positive (cl_creation1h e)) [49, 104, 32531, 23384, 21019, 24314, 20215, 26684, 32, 123, 123, 115, 121, 109, 98, 111, 108, 125, 125, 123, 123, 112, 114, 105, 99, 101, 125, 125, 32, 47, 32, 49, 77, 32, 116, 111, 107, 101, 110, 115] (unit (Some (cl_creationRatio1h e)));
          parts4 = appendPricePart tr parts3 (\<not> cl_split e) [32531, 23384, 21019, 24314, 20215, 26684, 32, 123, 123, 115, 121, 109, 98, 111, 108, 125, 125, 123, 123, 112, 114, 105, 99, 101, 125, 125, 32, 47, 32, 49, 77, 32, 116, 111, 107, 101, 110, 115] (unit (Some (cl_creationRatio e)))
      in parts4 @ [getGroupRatioText tr (er_ratio er) (obj_get opts (lit ''user_group_ratio''))])"

definition cacheCreationPart :: "translate \<Rightarrow> claude_entry \<Rightarrow> jsstr" where
  "cacheCreationPart tr e =
     (let v5 = nvar ''cacheCreationRatio5m'' (cl_creationRatio5m e); v1 = nvar ''cacheCreationRatio1h'' (cl_creationRatio1h e);
          part = (if \<not> cl_split e then []
            else if positive (cl_creation5m e) \<and> positive (cl_creation1h e)
            then tr (Str [32531, 23384, 21019, 24314, 20493, 29575, 32, 53, 109, 32, 123, 123, 99, 97, 99, 104, 101, 67, 114, 101, 97, 116, 105, 111, 110, 82, 97, 116, 105, 111, 53, 109, 125, 125, 32, 47, 32, 49, 104, 32, 123, 123, 99, 97, 99, 104, 101, 67, 114, 101, 97, 116, 105, 111, 110, 82, 97, 116, 105, 111, 49, 104, 125, 125]) [v5, v1]
            else if positive (cl_creation5m e) then tr (Str [32531, 23384, 21019, 24314, 20493, 29575, 32, 53, 109, 32, 123, 123, 99, 97, 99, 104, 101, 67, 114, 101, 97, 116, 105, 111, 110, 82, 97, 116, 105, 111, 53, 109, 125, 125]) [v5]
            else if positive (cl_creation1h e) then tr (Str [32531, 23384, 21019, 24314, 20493, 29575, 32, 49, 104, 32, 123, 123, 99, 97, 99, 104, 101, 67, 114, 101, 97, 116, 105, 111, 110, 82, 97, 116, 105, 111, 49, 104, 125, 125]) [v1] else [])
      in if part = [] then tr (Str [32531, 23384, 21019, 24314, 20493, 29575, 32, 123, 123, 99, 97, 99, 104, 101, 67, 114, 101, 97, 116, 105, 111, 110, 82, 97, 116, 105, 111, 125, 125]) [nvar ''cacheCreationRatio'' (cl_creationRatio e)] else part)"

definition renderClaudeLogContent :: "store \<Rightarrow> translate \<Rightarrow> jsobj \<Rightarrow> jsstr" where
  "renderClaudeLogContent st tr opts =
     (let user = obj_get opts (lit ''user_group_ratio''); modelPrice = opt_num opts ''model_price'' (Fin (- 1));
          er = getEffectiveRatio tr (obj_get opts (lit ''group_ratio'')) user; e = claude_entry_of opts
      in case getCurrencyConfig st of (symbol, rate, _) \<Rightarrow>
        (if isPriceDisplayMode st (opt_text opts ''displayMode'' ''price'') modelPrice then
           (if modelPrice \<noteq> Fin (- 1) then call_price_text tr symbol rate modelPrice (er_ratio er) user
            else joinBillingSummary (claude_log_parts tr symbol rate er opts))
         else if modelPrice \<noteq> Fin (- 1) then call_ratio_text tr symbol rate modelPrice er
         else join [65292]
           [tr (Str [27169, 22411, 20493, 29575, 32, 123, 123, 109, 111, 100, 101, 108, 82, 97, 116, 105, 111, 125, 125]) [(lit ''modelRatio'', obj_get opts (lit ''model_ratio''))],
            tr (Str [36755, 20986, 20493, 29575, 32, 123, 123, 99, 111, 109, 112, 108, 101, 116, 105, 111, 110, 82, 97, 116, 105, 111, 125, 125]) [(lit ''completionRatio'', obj_get opts (lit ''completion_ratio''))],
            tr (Str [32531, 23384, 20493, 29575, 32, 123, 123, 99, 97, 99, 104, 101, 82, 97, 116, 105, 111, 125, 125]) [nvar ''cacheRatio'' (cl_cacheRatio e)],
            cacheCreationPart tr e,
            tr (Str (lit ''{{ratioType}} {{ratio}}'')) [svar ''ratioType'' (er_label er), (lit ''ratio'', er_ratio er)]]))"

end
