(* ===== verification/Log_Breakdown_Thms.thy ===== *)
theory Log_Breakdown_Thms
  imports Log_Breakdown
begin

text \<open>
  The breakdowns of a log entry. The collapsed row and the text of an entry are built by two pieces of code and show the same
  parts. In the process by ratios the lines that are shown add up to the total, in the order of the additions and with the
  roundings of the machine, as long as the flags of the entry agree with its counts. The two processes of a model agree on an entry of
  plain tokens and differ on images and on cached tokens beside images.
\<close>

section \<open>Row and text\<close>

definition summary_parts :: "store \<Rightarrow> translate \<Rightarrow> simple_price \<Rightarrow> jsstr list" where
  "summary_parts st tr p = map snd (price_segments st tr p)"

lemma segments_of_parts: "price_segments st tr p = map (Pair False) (summary_parts st tr p)"
  by (simp add: summary_parts_def price_segments_def Let_def)

lemma parts_of_summary: "price_parts st tr p = summary_parts st tr p @ [getGroupRatioText tr (sp_groupRatio p) (sp_userGroupRatio p)]"
  by (simp add: summary_parts_def price_segments_def price_parts_def Let_def)

lemma summary_parts_mode [simp]: "summary_parts st tr (p\<lparr>sp_outputMode := m\<rparr>) = summary_parts st tr p"
  by (simp add: summary_parts_def price_segments_def Let_def input_price_def shouldShowCache_def shouldShowCacheCreation5m_def
      shouldShowCacheCreation1h_def shouldShowLegacyCacheCreation_def hasSplitCacheCreation_def)

text \<open>For an entry billed by tokens and shown in prices, the segments of the collapsed row and the text have the same parts: the row
  begins with the group ratio and the text ends with it, and both add the note on an overridden system prompt.\<close>

theorem row_and_text_agree:
  assumes "sp_modelPrice p = Fin (- 1)" "isPriceDisplayMode st (sp_displayMode p) (Fin (- 1))"
  shows "\<exists>parts. let g = getGroupRatioText tr (sp_groupRatio p) (sp_userGroupRatio p) in
    renderPriceSimpleCore st tr (p\<lparr>sp_outputMode := lit ''segments''\<rparr>) =
      Segments ((True, g) # map (Pair False) parts @ (if sp_override p then [(True, override_text tr)] else [])) \<and>
    renderPriceSimpleCore st tr (p\<lparr>sp_outputMode := lit ''text''\<rparr>) =
      Summary (joinBillingSummary (parts @ [g]) @ (if sp_override p then [10, 13] @ override_text tr else []))"
proof -
  obtain symbol rate ty where c: "getCurrencyConfig st = (symbol, rate, ty)" by (cases "getCurrencyConfig st")
  show ?thesis
    using assms by (intro exI [of _ "summary_parts st tr p"])
      (simp add: renderPriceSimpleCore_def simple_segments_def simple_text_def segments_of_parts parts_of_summary with_override_def c Let_def lit_def)
qed

section \<open>Lines and total\<close>

lemma foldl_drop_zeros:
  "rounded a \<Longrightarrow> \<forall>p \<in> set ps. rounded (snd p) \<and> (\<not> fst p \<longrightarrow> snd p = Fin 0) \<Longrightarrow>
     foldl num_add a (map snd (filter fst ps)) = foldl num_add a (map snd ps)"
  by (induction ps arbitrary: a) (auto simp: num_add_zero)

lemma sum_left_foldl: "\<forall>x \<in> set xs. rounded x \<Longrightarrow> sum_left xs = foldl num_add (Fin 0) xs"
  by (cases xs) (simp_all add: sum_left_def num_add_zero)

text \<open>Amounts that are not shown are zero, so leaving them out changes no sum.\<close>

lemma sum_of_shown:
  assumes "\<And>p. p \<in> set ps \<Longrightarrow> rounded (snd p)" "\<And>p. p \<in> set ps \<Longrightarrow> \<not> fst p \<Longrightarrow> snd p = Fin 0"
  shows "sum_left (map snd (filter fst ps)) = sum_left (map snd ps)"
proof -
  have "sum_left (map snd (filter fst ps)) = foldl num_add (Fin 0) (map snd (filter fst ps))"
    by (rule sum_left_foldl) (use assms(1) in auto)
  also have "\<dots> = foldl num_add (Fin 0) (map snd ps)" by (rule foldl_drop_zeros) (use assms in auto)
  also have "\<dots> = sum_left (map snd ps)" by (rule sum_left_foldl [symmetric]) (use assms(1) in auto)
  finally show ?thesis .
qed

text \<open>Counts and prices are not negative, and a service whose flag is off has none.\<close>

definition flags_agree :: "log_entry \<Rightarrow> bool" where
  "flags_agree e \<longleftrightarrow>
     list_all (num_le (Fin 0)) [me_cache e, me_audioTokens e, me_audioPrice e, me_webCalls e, me_fileCalls e, me_generationPrice e] \<and>
     (me_audioSeparate e \<or> me_audioTokens e = Fin 0) \<and> (me_webSearch e \<or> me_webCalls e = Fin 0) \<and>
     (me_fileSearch e \<or> me_fileCalls e = Fin 0) \<and> (me_generation e \<or> me_generationPrice e = Fin 0)"

definition amount_list :: "ratio_amounts \<Rightarrow> jsnum list" where
  "amount_list a = [ra_text a, ra_cache a, ra_image a, ra_audio a, ra_completion a, ra_web a, ra_file a, ra_generation a]"

lemma zero_mul: "is_finite (num_mul (Fin 0) x) \<Longrightarrow> num_mul (Fin 0) x = Fin 0" "is_finite (num_mul x (Fin 0)) \<Longrightarrow> num_mul x (Fin 0) = Fin 0"
  by (cases x; simp add: signed_inf_def rnd_def)+

lemma finite_factors: "is_finite (num_mul x y) \<Longrightarrow> is_finite x \<and> is_finite y"
  by (cases x; cases y; simp add: signed_inf_def split: if_split_asm)

lemma rest_zero: "num_le (Fin 0) x \<Longrightarrow> \<not> positive x \<Longrightarrow> x = Fin 0"
  by (auto simp: num_le_def num_eq_def)

lemma per_zero:
  "is_finite (per_million (Fin 0) p g) \<Longrightarrow> per_million (Fin 0) p g = Fin 0" "is_finite (per_thousand (Fin 0) p g) \<Longrightarrow> per_thousand (Fin 0) p g = Fin 0"
  "is_finite (per_million t (Fin 0) g) \<Longrightarrow> per_million t (Fin 0) g = Fin 0"
  "is_finite (scaled_million (Fin 0) p r g) \<Longrightarrow> scaled_million (Fin 0) p r g = Fin 0"
proof -
  have d: "num_div (Fin 0) (Fin 1000000) = Fin 0" "num_div (Fin 0) (Fin 1000) = Fin 0" by (simp_all add: rnd_numeral)
  show "is_finite (per_million (Fin 0) p g) \<Longrightarrow> per_million (Fin 0) p g = Fin 0" "is_finite (per_thousand (Fin 0) p g) \<Longrightarrow> per_thousand (Fin 0) p g = Fin 0"
    "is_finite (per_million t (Fin 0) g) \<Longrightarrow> per_million t (Fin 0) g = Fin 0"
    "is_finite (scaled_million (Fin 0) p r g) \<Longrightarrow> scaled_million (Fin 0) p r g = Fin 0"
    unfolding per_million_def per_thousand_def scaled_million_def d by (metis finite_factors zero_mul)+
qed

lemma amounts_rounded: "x \<in> set (amount_list (ratio_amounts_of e)) \<Longrightarrow> rounded x"
  by (auto simp: amount_list_def ratio_amounts_of_def Let_def per_million_def per_thousand_def scaled_million_def)

lemma text_tokens_zero: "is_finite (per_million (textInputTokens e) p g) \<Longrightarrow> \<not> positive (textInputTokens e) \<Longrightarrow> textInputTokens e = Fin 0"
  by (cases "textInputTokens e") (auto simp: textInputTokens_def clamp0_def per_million_def split: if_split_asm)

text \<open>C7: in the process by ratios the amounts of the lines that are shown, added from the first to the last, are the total that is shown,
  when counts are not negative, a service that is not flagged has no calls and no amount is infinite.\<close>

theorem ratio_lines_add_up:
  assumes "flags_agree e" "list_all is_finite (amount_list (ratio_amounts_of e))"
  shows "sum_left (map (\<lambda>(_, _, _, x). x) (filter (\<lambda>(shown, _). shown) (ratio_items st e))) = ratio_total (ratio_amounts_of e)"
proof -
  let ?a = "ratio_amounts_of e" and ?sh = "map fst (ratio_items st e)"
  define ps where "ps = zip ?sh (amount_list ?a)"
  have items: "map (\<lambda>i. (fst i, snd (snd (snd i)))) (ratio_items st e) = ps"
    by (simp add: ps_def ratio_items_def amount_list_def Let_def)
  have sum: "sum_left (map snd (filter fst ps)) = sum_left (map snd ps)"
  proof (rule sum_of_shown)
    show "rounded (snd p)" if "p \<in> set ps" for p using that unfolding ps_def by (metis amounts_rounded set_zip_rightD prod.collapse)
    have fin: "is_finite (ra_text ?a)" "is_finite (ra_cache ?a)" "is_finite (ra_image ?a)" "is_finite (ra_audio ?a)"
      "is_finite (ra_web ?a)" "is_finite (ra_file ?a)" "is_finite (ra_generation ?a)" using assms(2) by (simp_all add: amount_list_def)
    note f = assms(1) [unfolded flags_agree_def list.pred_inject]
    have "\<not> positive (textInputTokens e) \<Longrightarrow> ra_text ?a = Fin 0"
      using fin(1) text_tokens_zero per_zero(1) by (fastforce simp: ratio_amounts_of_def Let_def)
    moreover have "\<not> positive (me_cache e) \<Longrightarrow> ra_cache ?a = Fin 0"
      using fin(2) f rest_zero [of "me_cache e"] per_zero(4) by (simp add: ratio_amounts_of_def Let_def)
    moreover have "\<not> positive (imageInputTokens e) \<Longrightarrow> ra_image ?a = Fin 0"
      using fin(3) per_zero(4) by (auto simp: ratio_amounts_of_def Let_def imageInputTokens_def has_image_def split: if_split_asm)
    moreover have "\<not> (positive (me_audioTokens e) \<and> audioRatioValue e \<noteq> None) \<Longrightarrow> ra_audio ?a = Fin 0"
      using fin(4) f rest_zero [of "me_audioTokens e"] rest_zero [of "me_audioPrice e"] per_zero(1,3)
      by (auto simp: ratio_amounts_of_def Let_def audioRatioValue_def split: if_split_asm)
    moreover have "\<not> shows_web e \<Longrightarrow> ra_web ?a = Fin 0"
      using fin(5) f rest_zero [of "me_webCalls e"] per_zero(2) by (auto simp: ratio_amounts_of_def Let_def shows_web_def)
    moreover have "\<not> shows_file e \<Longrightarrow> ra_file ?a = Fin 0"
      using fin(6) f rest_zero [of "me_fileCalls e"] per_zero(2) by (auto simp: ratio_amounts_of_def Let_def shows_file_def)
    moreover have "\<not> shows_generation e \<Longrightarrow> ra_generation ?a = Fin 0"
      using fin(7) f rest_zero [of "me_generationPrice e"] zero_mul(1) by (auto simp: ratio_amounts_of_def Let_def shows_generation_def)
    ultimately show "snd p = Fin 0" if "p \<in> set ps" "\<not> fst p" for p
      using that by (auto simp: ps_def ratio_items_def amount_list_def Let_def)
  qed
  have "map (\<lambda>(_, _, _, x). x) (filter (\<lambda>(shown, _). shown) (ratio_items st e)) = map snd (filter fst ps)"
    unfolding items [symmetric] by (simp add: filter_map comp_def case_prod_unfold)
  moreover have "map snd ps = amount_list ?a" by (simp add: ps_def ratio_items_def amount_list_def Let_def)
  ultimately show ?thesis using sum by (simp add: ratio_total_def amount_list_def)
qed

section \<open>The two processes\<close>

text \<open>An entry of plain tokens, without cache, images and audio, has one total in both processes, if six digits are enough for its
  completion ratio.\<close>

theorem plain_totals_agree:
  assumes "me_cache e = Fin 0" "\<not> has_image e" "me_audioTokens e = Fin 0" "num_le (Fin 0) (me_input e)" "rounded (me_input e)"
    and "formatRatioValue (me_completionRatio e) 6 = to_num (me_completionRatio e)" "is_finite (me_cacheRatio e)"
    and "list_all is_finite (amount_list (ratio_amounts_of e))"
  shows "price_total e = ratio_total (ratio_amounts_of e)"
proof -
  let ?a = "ratio_amounts_of e"
  obtain cr where cr: "me_cacheRatio e = Fin cr" using assms(7) by (cases "me_cacheRatio e") auto
  obtain i where i: "me_input e = Fin i" "rnd i = Fin i \<and> 0 \<le> i \<or> me_input e = PInf"
    using assms(4,5) assms(8) by (cases "me_input e") (auto simp: num_le_def num_eq_def rounded_def amount_list_def ratio_amounts_of_def Let_def
        textInputTokens_def num_sub_def assms(1,3) clamp0_def per_million_def dest!: finite_factors)
  have eff: "effectiveInputTokens e = me_input e" "textInputTokens e = me_input e"
    using assms(1-3) i cr by (auto simp: effectiveInputTokens_def textInputTokens_def num_sub_def clamp0_def rnd_numeral)
  have zero: "ra_cache ?a = Fin 0" "ra_image ?a = Fin 0"
    using assms(1,2,8) per_zero(4) by (simp_all add: amount_list_def ratio_amounts_of_def Let_def imageInputTokens_def)
  have r: "rounded (ra_text ?a)" by (rule amounts_rounded [of _ e]) (simp add: amount_list_def)
  have "price_total e = sum_left [ra_text ?a, ra_audio ?a, ra_completion ?a, ra_web ?a, ra_file ?a, ra_generation ?a]"
    using assms(6) by (simp add: price_total_def ratio_amounts_of_def Let_def eff me_completionPrice_def)
  then show ?thesis using r by (simp add: ratio_total_def sum_left_def zero num_add_zero)
qed

text \<open>With images the total in prices does not depend on the cached tokens, although their discount is listed.\<close>

lemma images_hide_cache: "has_image e \<Longrightarrow> price_total (e\<lparr>me_cache := c\<rparr>) = price_total e"
  by (simp add: price_total_def effectiveInputTokens_def has_image_def me_inputPrice_def me_completionPrice_def Let_def)

text \<open>The process by ratios counts image tokens twice: a million of them, which are the whole input, cost twice as much as in prices.\<close>

definition image_entry :: log_entry where
  "image_entry = \<lparr>me_input = Fin 1000000, me_completion = Fin 0, me_modelRatio = Fin 1, me_modelPrice = Fin (- 1), me_completionRatio = Num (Fin 1),
     me_groupRatio = Num (Fin 1), me_label = [], me_cache = Fin 0, me_cacheRatio = Fin 1, me_image = True, me_imageRatio = Fin 1,
     me_imageTokens = Fin 1000000, me_webSearch = False, me_webCalls = Fin 0, me_webPrice = Fin 0, me_fileSearch = False, me_fileCalls = Fin 0,
     me_filePrice = Fin 0, me_audioSeparate = False, me_audioTokens = Fin 0, me_audioPrice = Fin 0, me_generation = False, me_generationPrice = Fin 0\<rparr>"

lemma ratio_one: "formatRatioValue (Num (Fin 1)) 6 = Fin 1"
  by code_simp

lemma images_counted_twice: "price_total image_entry = Fin 2" "ratio_total (ratio_amounts_of image_entry) = Fin 4"
  by (simp_all add: image_entry_def price_total_def ratio_total_def ratio_amounts_of_def Let_def sum_left_def per_million_def per_thousand_def scaled_million_def
      effectiveInputTokens_def textInputTokens_def imageInputTokens_def has_image_def me_inputPrice_def me_completionPrice_def clamp0_def num_sub_def
      ratio_one rnd_numeral)

section \<open>An entry\<close>

text \<open>Three million tokens of input, one of them cached, one million of output and a thousand searches.\<close>

definition search_entry :: log_entry where
  "search_entry = image_entry\<lparr>me_input := Fin 3000000, me_completion := Fin 1000000, me_cache := Fin 1000000, me_image := False, me_imageTokens := Fin 0,
     me_webSearch := True, me_webCalls := Fin 1000, me_webPrice := Fin 10\<rparr>"

lemma search_amounts: "amount_list (ratio_amounts_of search_entry) = map Fin [4, 2, 0, 0, 2, 10, 0, 0]"
  by (simp add: search_entry_def image_entry_def amount_list_def ratio_amounts_of_def Let_def per_million_def per_thousand_def scaled_million_def
      textInputTokens_def imageInputTokens_def has_image_def me_inputPrice_def clamp0_def num_sub_def ratio_one rnd_numeral)

lemma search_total: "ratio_total (ratio_amounts_of search_entry) = Fin 18"
  using search_amounts by (simp add: ratio_total_def amount_list_def sum_left_def rnd_numeral)

theorem ratio_lines_add_up_witness:
  "flags_agree search_entry \<and> list_all is_finite (amount_list (ratio_amounts_of search_entry)) \<and>
   sum_left (map (\<lambda>(_, _, _, x). x) (filter (\<lambda>(shown, _). shown) (ratio_items \<lparr>quota_display_type = None, status_text = None, quota_per_unit_text = None\<rparr> search_entry))) = Fin 18"
proof -
  have f: "flags_agree search_entry" by (simp add: flags_agree_def search_entry_def image_entry_def num_le_def num_eq_def)
  have a: "list_all is_finite (amount_list (ratio_amounts_of search_entry))" by (simp add: search_amounts)
  show ?thesis using f a ratio_lines_add_up [OF f a] search_total by simp
qed

end
