(* ===== verification/Playground_Config_Thms.thy ===== *)
theory Playground_Config_Thms
  imports Playground_Config Json_Round_Trip
begin

text \<open>
  The settings of the playground come back from \<open>localStorage\<close> the way they were saved: \<open>saveConfig\<close> and
  \<open>loadConfig\<close> of \<open>configStorage.js\<close>, through the text between them.
\<close>

lemma merge_onto_distinct: "distinct (map fst a) \<Longrightarrow> distinct (map fst (obj_merge a b))"
  unfolding obj_merge_def by (induction b arbitrary: a) (auto simp: distinct_obj_put)

lemma json_ok_keys: "json_ok (Obj kvs) \<Longrightarrow> distinct (map fst kvs)"
  using merge_onto_distinct [of "[]" kvs] by simp

lemma json_ok_get: "json_ok (Obj kvs) \<Longrightarrow> obj_get kvs k \<noteq> Undefined \<Longrightarrow> json_ok (obj_get kvs k)"
  by (force simp: obj_get_def list_all_iff dest: map_of_SomeD split: option.splits)

text \<open>The saved text is read back as the saved object with its time stamp.\<close>

lemma stored_config:
  assumes "e_local_ok e" "e_local_ok e'" "json_ok (Obj (obj_put config (lit ''timestamp'') (Str (e_iso e))))"
  shows "\<exists>saved. stored_text e' (saveConfig e st config) STORAGE_KEYS_CONFIG = Some saved \<and>
    json_parse saved = Inr (Obj (obj_put config (lit ''timestamp'') (Str (e_iso e))))"
proof -
  let ?c = "Obj (obj_put config (lit ''timestamp'') (Str (e_iso e)))"
  obtain s where s: "json_text ?c = Some s" "prints ?c s" using json_text_prints [OF assms(3)] by blast
  then have "s \<noteq> []" using prints_hd by blast
  moreover have "json_parse s = Inr ?c" using json_parse_prints [OF s(2), of "[]" "[]"] by simp
  ultimately show ?thesis
    using s(1) assms(1,2) by (simp add: saveConfig_def setItem_def stored_text_def getItem_def)
qed

text \<open>C17: settings saved as JSON can hold them come back as saved: every property of \<open>inputs\<close> and of
  \<open>parameterEnabled\<close> has the saved value, and its default if it was not saved; \<open>max_tokens\<close> is read as an integer
  when it starts with one and is otherwise what was saved; the flags of the debug panel and of the custom request and the
  text of the custom request come back. The system prompt of the defaults is not among the loaded settings.\<close>

theorem saved_config_loads:
  assumes "e_local_ok e" "e_local_ok e'" "json_ok (Obj (obj_put config (lit ''timestamp'') (Str (e_iso e))))"
    "obj_get config (lit ''inputs'') = Obj ins" "obj_get config (lit ''parameterEnabled'') = Obj enabled"
    "loadConfig e' (saveConfig e st config) = c"
  shows "\<exists>li le. obj_get c (lit ''inputs'') = Obj li \<and> obj_get c (lit ''parameterEnabled'') = Obj le \<and>
    (\<forall>k. k \<noteq> lit ''max_tokens'' \<longrightarrow> obj_get li k = (if obj_has ins k then obj_get ins k else obj_get default_inputs k)) \<and>
    obj_get li (lit ''max_tokens'') =
      (let n = parse_int10 (to_str (obj_get ins (lit ''max_tokens''))) in
       if n = NaN then obj_get ins (lit ''max_tokens'') else Num n) \<and>
    (\<forall>k. obj_get le k = (if obj_has enabled k then obj_get enabled k else obj_get default_parameterEnabled k)) \<and>
    (\<forall>k \<in> {lit ''showDebugPanel'', lit ''customRequestMode'', lit ''customRequestBody''}.
       obj_get c k = (if truthy (obj_get config k) then obj_get config k else obj_get DEFAULT_CONFIG k)) \<and>
    \<not> obj_has c (lit ''systemPrompt'')"
proof -
  define p where "p = obj_put config (lit ''timestamp'') (Str (e_iso e))"
  have get: "obj_get p k = obj_get config k" if "k \<noteq> lit ''timestamp''" for k using that by (simp add: p_def obj_get_put)
  obtain saved where s: "stored_text e' (saveConfig e st config) STORAGE_KEYS_CONFIG = Some saved" "json_parse saved = Inr (Obj p)"
    using stored_config [OF assms(1-3)] by (auto simp: p_def)
  have "json_ok (Obj ins)" "json_ok (Obj enabled)"
    using json_ok_get [OF assms(3), of "lit ''inputs''"] json_ok_get [OF assms(3), of "lit ''parameterEnabled''"] assms(4,5)
    by (simp_all add: obj_get_put)
  note d = this [THEN json_ok_keys]
  have c: "c = [(lit ''inputs'', Obj (obj_put (obj_merge default_inputs ins) (lit ''max_tokens'')
        (let n = parse_int10 (to_str (obj_get ins (lit ''max_tokens''))) in
         if n = NaN then obj_get ins (lit ''max_tokens'') else Num n))),
      (lit ''parameterEnabled'', Obj (obj_merge default_parameterEnabled enabled)),
      (lit ''showDebugPanel'', js_or (obj_get config (lit ''showDebugPanel'')) (Bool False)),
      (lit ''customRequestMode'', js_or (obj_get config (lit ''customRequestMode'')) (Bool False)),
      (lit ''customRequestBody'', js_or (obj_get config (lit ''customRequestBody'')) (Str []))]"
    using assms(4-6) s by (cases "parse_int10 (to_str (obj_get ins (lit ''max_tokens''))) = NaN")
      (auto simp: loadConfig_def merged_config_def get_prop_def get Let_def)
  show ?thesis
    unfolding c using obj_get_merge [OF d(1)] obj_get_merge [OF d(2)]
    by (simp add: obj_get_put DEFAULT_CONFIG_def js_or_def)
qed

definition sample_config :: jsobj where
  "sample_config =
     [(lit ''inputs'', Obj [(lit ''model'', Str (lit ''gpt-5'')), (lit ''max_tokens'', Num (Fin 512))]),
      (lit ''parameterEnabled'', Obj [(lit ''seed'', Bool True)]), (lit ''showDebugPanel'', Bool True)]"

lemma saved_config_loads_witness:
  "\<exists>li le. obj_get (loadConfig \<lparr>e_now = 2, e_fault = None, e_local_ok = True, e_iso = []\<rparr>
       (saveConfig \<lparr>e_now = 1, e_fault = None, e_local_ok = True, e_iso = lit ''2025-01-01''\<rparr>
          \<lparr>idb = empty_idb, local = Map.empty\<rparr> sample_config)) (lit ''inputs'') = Obj li \<and>
     obj_get li (lit ''model'') = Str (lit ''gpt-5'') \<and> obj_get li (lit ''top_p'') = Num (Fin 1) \<and>
     obj_get li (lit ''max_tokens'') = Num (Fin 512)"
proof -
  let ?e = "\<lparr>e_now = 1, e_fault = None, e_local_ok = True, e_iso = lit ''2025-01-01''\<rparr>"
  let ?e' = "\<lparr>e_now = 2, e_fault = None, e_local_ok = True, e_iso = []\<rparr>"
  let ?ins = "[(lit ''model'', Str (lit ''gpt-5'')), (lit ''max_tokens'', Num (Fin 512))]"
  have j: "json_ok (Obj (obj_put sample_config (lit ''timestamp'') (Str (e_iso ?e))))" by code_simp
  have g: "obj_get sample_config (lit ''inputs'') = Obj ?ins" "obj_get sample_config (lit ''parameterEnabled'') = Obj [(lit ''seed'', Bool True)]"
    by (simp_all add: sample_config_def)
  have n: "parse_int10 (to_str (Num (Fin 512))) = Fin 512" by code_simp
  have e: "e_local_ok ?e" "e_local_ok ?e'" by simp_all
  obtain li where li: "obj_get (loadConfig ?e' (saveConfig ?e \<lparr>idb = empty_idb, local = Map.empty\<rparr> sample_config)) (lit ''inputs'') = Obj li"
      "\<And>k. k \<noteq> lit ''max_tokens'' \<Longrightarrow> obj_get li k = (if obj_has ?ins k then obj_get ?ins k else obj_get default_inputs k)"
      "obj_get li (lit ''max_tokens'') = (let n = parse_int10 (to_str (obj_get ?ins (lit ''max_tokens''))) in
         if n = NaN then obj_get ?ins (lit ''max_tokens'') else Num n)"
    using saved_config_loads [OF e j g refl, of "\<lparr>idb = empty_idb, local = Map.empty\<rparr>"] by blast
  have "obj_get li (lit ''model'') = Str (lit ''gpt-5'')" "obj_get li (lit ''top_p'') = Num (Fin 1)"
    by (simp_all add: li(2) default_inputs_def)
  moreover have "obj_get li (lit ''max_tokens'') = Num (Fin 512)" using li(3) n by (simp add: Let_def)
  ultimately show ?thesis using li(1) by blast
qed

end
