(* ===== verification/Spec2Isabelle.thy ===== *)
theory Spec2Isabelle
  imports Request_Rule_Thms Status_Code_Rules Playground_State_Thms Body_Sync Pricing_Editor_Thms
    Tiered_Round_Trip Model_Price_Thms Tier_Display_Thms Task_Polling_Thms Sidebar Token_Links Param_Override_Thms
    Dashboard_Thms Pricing_Filter Media_Generation_Thms Playground_Media_Thms Secure_Verification_Thms
    Channel_Editor_Thms Log_Breakdown_Thms Playground_Config_Thms
begin

text \<open>
  A verification development of the web client of an LLM gateway (\<open>web/src\<close>).

  The repository is a gateway server written in Go and a React client. The client holds logic of
  its own that decides what users are charged and what they see: it writes and reads the billing
  expressions the server evaluates, keeps chat sessions in IndexedDB, drives asynchronous media
  tasks, and merges the administrator's and the user's configuration. The theories here translate
  that JavaScript into executable definitions and prove what it guarantees, and, where it does not
  guarantee what its comments or its counterpart say, prove that too.

  \<^bold>\<open>Ground.\<close> \<open>Js_Prelude\<close>: strings as lists of UTF-16 code units, the String methods in use,
  exceptions as values, and the interfaces \<open>normal_form\<close>, \<open>codec\<close> and \<open>functional_refinement\<close>, each a
  locale that the components below interpret on their own operations. \<open>Js_Number\<close>: IEEE 754 binary64
  as rounded rationals, number parsing and printing. \<open>Js_Value\<close>: JavaScript values, objects in property
  order, the operators. \<open>Js_Json\<close>: JSON.parse and JSON.stringify; the parser has fuel
  \<open>2 \<sqdot> length + 2\<close>, and \<open>json_parse_fuel\<close> shows that more never changes a result. \<open>Json_Round_Trip\<close>: every
  text of a value, with any white space between its tokens, is read as the value, and both printers
  produce such a text. \<open>Js_Regex\<close>: the regular expressions of the sources as backtracking matchers.

  \<^bold>\<open>Billing expressions.\<close> \<open>Request_Rule_Expr\<close> is \<open>pages/Setting/Ratio/components/requestRuleExpr.js\<close>,
  one definition per function; \<open>Request_Rule_Thms\<close> proves that printed rules parse back and that
  splitting undoes combining, and exhibits the parameter comparisons that do not parse back.
  \<open>Tiered_Editor\<close> is \<open>TieredPricingEditor.jsx\<close> of the same directory: the printer and the parser of tier
  expressions and the state of the editor; \<open>Tiered_Editor_Thms\<close> has its lemmas on single tiers, and
  \<open>Tiered_Round_Trip\<close> the round trip of whole configurations and what opening a model and switching
  modes do to expressions the editor cannot show. The shape of a tier call is the locale
  \<open>tier_pattern\<close>, interpreted for the editor and for the logs.

  \<^bold>\<open>Prices.\<close> \<open>Video_Pricing\<close> (\<open>helpers/videoPricing.js\<close>): price lists, their editor form and the cost
  of a request; saving a stored list from the editor keeps every price, and adds zeros where a row lacked one. \<open>Pricing_Editor\<close> and \<open>Pricing_Editor_Thms\<close>
  (\<open>pages/Setting/Ratio/hooks/useModelPricingEditorState.js\<close>): loading, editing and saving the prices
  of all models. \<open>Model_Price\<close> and \<open>Model_Price_Thms\<close> (the second half of \<open>helpers/utils.jsx\<close>): the price
  a model card shows, its time rules against the billed expression, and the colour hash on 32-bit
  words. \<open>Quota_Display\<close>, \<open>Tier_Display\<close> and \<open>Tier_Display_Thms\<close> (\<open>helpers/render.jsx\<close>): amounts in the
  configured currency, shown as the rounded decimal and never as zero, and the three displays of a log that was billed by tiers; \<open>Log_Breakdown\<close> and \<open>Log_Breakdown_Thms\<close>: the rows, texts and
  breakdowns of all other logs, whose lines add up to their totals with the roundings of the machine. \<open>Pricing_Filter\<close>
  (\<open>hooks/model-pricing\<close> and the filter lists of \<open>components/table/model-pricing\<close>): the numbers beside the filters
  are the lengths of the lists they lead to; beside a group stands its ratio.

  \<^bold>\<open>Usage.\<close> \<open>Dashboard\<close> and \<open>Dashboard_Thms\<close> (\<open>helpers/dashboard.jsx\<close>, \<open>hooks/dashboard\<close>): totals, trends and
  charts of the usage rows. Bars, pie and ranking add up to the totals as long as the chart uses the labels of
  the rows; the labels it invents for short periods can miss them. Sums are exact because the amounts
  are integers below \<open>2\<^sup>5\<^sup>3\<close>, which the hypotheses say.

  \<^bold>\<open>Channels.\<close> \<open>Status_Code_Rules\<close> is \<open>helpers/statusCodeRules.js\<close> and the redirect guard; accepted rules
  are a normal form of a set of codes. \<open>Param_Override\<close> and \<open>Param_Override_Thms\<close>
  (\<open>components/table/channels/modals/ParamOverrideEditorModal.jsx\<close>): the editor of parameter overrides, its
  operations, drafts, validation, two edit modes and templates; what it saves it reads back, except
  for strings that look like JSON, and the rules of a prune operation cannot be edited. \<open>Channel_Editor\<close> and
  \<open>Channel_Editor_Thms\<close> (\<open>EditChannelModal.jsx\<close>): the dialog of a channel from loading to the body it sends. A saved channel
  opens and saves as itself when no key file is left in the dialog, an empty key never replaces the stored one, and a key file chosen for one channel reaches the next.

  \<^bold>\<open>Playground storage.\<close> \<open>Playground_Db\<close> (\<open>utils/playgroundDb.js\<close>) models the two object stores and
  every transaction, failed ones included, over the interface \<open>kv_store\<close>; any sequence of calls does to the
  stores what the corresponding operations do to two maps. \<open>Playground_Config\<close>
  (\<open>components/playground/configStorage.js\<close>) is the configuration in localStorage and the migration of
  old messages, and \<open>Playground_Config_Thms\<close> shows that a saved configuration is loaded as it was saved, defaults
  filled in. \<open>Playground_Sessions\<close> (\<open>hooks/playground/useSessions.js\<close>) is the session list. Its
  operations are jobs of single awaits that interleave freely and whose writes may fail: the active session exists as long as
  no session is chosen or deleted while a deletion runs, and both exceptions are exhibited.

  \<^bold>\<open>Playground conversation.\<close> \<open>Playground_Chat\<close> and \<open>Playground_Chat_Thms\<close> (\<open>useApiRequest.jsx\<close>,
  \<open>useMessageActions.jsx\<close>, \<open>useMessageEdit.jsx\<close> and the message helpers of \<open>helpers/utils.jsx\<close>): the
  events of a stream on the messages. Streaming refines appending, every end of a stream finishes the
  reply, and a finished reply is final. \<open>Playground_State\<close> and \<open>Playground_State_Thms\<close>
  (\<open>usePlaygroundState.js\<close>, \<open>useDataLoader.js\<close>, parts of \<open>pages/Playground/index.jsx\<close>) compose the streams with
  the sessions and the database. \<open>Body_Sync\<close> (\<open>useSyncMessageAndCustomBody.js\<close>): the two directions of the
  synchronisation with the custom body settle, and neither answers what the other wrote. \<open>Api_Client\<close> (\<open>helpers/api.js\<close>): the shared GET requests
  refine a search for an open request.

  \<^bold>\<open>Media tasks.\<close> \<open>Upload\<close> (\<open>helpers/upload.js\<close>), \<open>Task_Polling\<close> and \<open>Task_Polling_Thms\<close>
  (\<open>hooks/playground/useVideoGeneration.js\<close>, \<open>useAudioTranscription.js\<close>): the poll registry with the
  browser's intervals and the requests in flight as state; asynchronous functions are split at
  their awaits and interleaved freely. The contract of a polling hook is the locale \<open>poll_hook\<close>,
  interpreted for both hooks. \<open>Media_Generation\<close> and \<open>Media_Generation_Thms\<close> (\<open>useImageGeneration.js\<close>,
  \<open>useAudioGeneration.js\<close>): requests for images and speech. \<open>Playground_Media\<close> and \<open>Playground_Media_Thms\<close>
  (the media part of \<open>pages/Playground/index.jsx\<close>) compose these hooks with the page and its sessions. Sending an image is split where it
  awaits its reference files, and storing its result where it awaits the stored messages. The result of an image is stored
  in the session recorded when the request was attached and none waits for ever, while polls of videos overwrite the
  session they were started in.

  \<^bold>\<open>Shell.\<close> \<open>Sidebar\<close> (\<open>hooks/common/useSidebar.js\<close>, \<open>useUserPermissions.js\<close>, \<open>useNavigation.js\<close>) and
  \<open>Token_Links\<close> (\<open>helpers/token.js\<close>, \<open>helpers/playgroundDeepLink.js\<close>): connection strings and the text of deep
  links are read back, the latter through the browser's form encoding and UTF-8. \<open>Secure_Verification\<close> and \<open>Secure_Verification_Thms\<close>
  (\<open>helpers/passkey.js\<close>, \<open>services/secureVerification.js\<close>, \<open>hooks/common/useSecureVerification.jsx\<close>): the encoding of credentials loses
  nothing, a passkey counts only after three answers of the server and one of the authenticator, and cancelling does not stop a
  verification that runs.

  \<^bold>\<open>Parameters.\<close> The server's answers, the clock, random numbers, the translation function, the time-zone
  database and the failures of the browser's storage are arguments of the definitions. Apart from the
  JSON parser no definition has fuel: every other loop ends by structure or by a measure.

  \<^bold>\<open>Not modelled.\<close> The Go server, the Electron shell, rendering (JSX), icons, styling and toasts; the input slots
  of the playground page; the forms of settings; prototype properties of objects;
  Unicode case mapping outside Latin-1.
\<close>

end
